(* ===== verification/Prelude.thy ===== *)
theory Prelude
  imports Complex_Main "HOL-Library.Word"
begin

unbundle bit_operations_syntax

section \<open>Prelude: outcomes of Swift code, C machine integers, shared lemmas\<close>

text \<open>
  The vocabulary every component theory uses.

  A Swift call ends in one of three ways: it returns a value, it throws an \<^verbatim>\<open>Error\<close>, or it
  stops the process (a \<^verbatim>\<open>preconditionFailure\<close>, a forced unwrap of \<^verbatim>\<open>nil\<close>, a \<^verbatim>\<open>try!\<close> that
  throws, an arithmetic overflow, an invalid range). The type \<open>outcome\<close> keeps the three
  apart. \<open>bindO\<close> is the sequencing of statements under \<^verbatim>\<open>try\<close>: the first error or trap
  ends the computation.

  \<^verbatim>\<open>TimeInterval\<close> and \<^verbatim>\<open>Date\<close> values are real numbers (the code only adds and compares
  them); rounding of \<^verbatim>\<open>Double\<close> is not modelled. \<^verbatim>\<open>Int\<close> is an \<open>int\<close> whose arithmetic traps
  outside the 64-bit range. The C integer types of the linked headers are words.
\<close>

named_theorems outcome_simps \<open>rewrite rules for outcomes and Assertable checks\<close>
named_theorems inv_simps \<open>unfolding of invariants and of the operations that keep them\<close>

type_synonym time = real
type_synonym u8 = "8 word"
type_synonym u16 = "16 word"
type_synonym u32 = "32 word"
type_synonym u64 = "64 word"

subsection \<open>Outcomes\<close>

datatype ('e, 'a) outcome = Returns 'a | Throws 'e | Traps

primrec bindO :: "('e, 'a) outcome \<Rightarrow> ('a \<Rightarrow> ('e, 'b) outcome) \<Rightarrow> ('e, 'b) outcome" where
  "bindO (Returns x) f = f x"
| "bindO (Throws e) f = Throws e"
| "bindO Traps f = Traps"

text \<open>\<open>mapErr\<close> embeds the error of a callee into the error type of its caller.\<close>

primrec mapErr :: "('e \<Rightarrow> 'f) \<Rightarrow> ('e, 'a) outcome \<Rightarrow> ('f, 'a) outcome" where
  "mapErr h (Returns x) = Returns x"
| "mapErr h (Throws e) = Throws (h e)"
| "mapErr h Traps = Traps"

text \<open>\<open>forceTry\<close> is \<^verbatim>\<open>try!\<close>: a thrown error stops the process.\<close>

primrec forceTry :: "('e, 'a) outcome \<Rightarrow> ('f, 'a) outcome" where
  "forceTry (Returns x) = Returns x"
| "forceTry (Throws e) = Traps"
| "forceTry Traps = Traps"

text \<open>\<open>unwrap\<close> is the forced unwrap \<^verbatim>\<open>x!\<close> of an optional.\<close>

primrec unwrap :: "'a option \<Rightarrow> ('e, 'a) outcome" where
  "unwrap None = Traps"
| "unwrap (Some x) = Returns x"

subsection \<open>Common/Assertable.swift\<close>

definition assertArgument :: "bool \<Rightarrow> 'e \<Rightarrow> ('e, unit) outcome" where
  "assertArgument b e = (if \<not> b then Throws e else Returns ())"

definition assertNil :: "'a option \<Rightarrow> 'e \<Rightarrow> ('e, unit) outcome" where
  "assertNil x e = (if x \<noteq> None then Throws e else Returns ())"

definition assertNotNil :: "'a option \<Rightarrow> 'e \<Rightarrow> ('e, unit) outcome" where
  "assertNotNil x e = (if x = None then Throws e else Returns ())"

definition assertTrue :: "bool \<Rightarrow> 'e \<Rightarrow> ('e, unit) outcome" where
  "assertTrue b e = (if \<not> b then Throws e else Returns ())"

definition assertFalse :: "bool \<Rightarrow> 'e \<Rightarrow> ('e, unit) outcome" where
  "assertFalse b e = assertTrue (\<not> b) e"

definition assertEqual :: "'a \<Rightarrow> 'a \<Rightarrow> 'e \<Rightarrow> ('e, unit) outcome" where
  "assertEqual x y e = (if x \<noteq> y then Throws e else Returns ())"

definition assertNotEqual :: "'a \<Rightarrow> 'a \<Rightarrow> 'e \<Rightarrow> ('e, unit) outcome" where
  "assertNotEqual x y e = (if x = y then Throws e else Returns ())"

subsection \<open>Swift's Int\<close>

definition Int_max :: int where
  "Int_max = 9223372036854775807"

definition Int_min :: int where
  "Int_min = - 9223372036854775808"

definition toInt :: "int \<Rightarrow> ('e, int) outcome" where
  "toInt n = (if Int_min \<le> n \<and> n \<le> Int_max then Returns n else Traps)"

subsection \<open>Facts about outcomes\<close>

lemma bindO_eq_Returns [simp]:
  "bindO m f = Returns y \<longleftrightarrow> (\<exists>x. m = Returns x \<and> f x = Returns y)"
  by (cases m) auto

lemma bindO_eq_Throws:
  "bindO m f = Throws e \<longleftrightarrow> m = Throws e \<or> (\<exists>x. m = Returns x \<and> f x = Throws e)"
  by (cases m) auto

lemma bindO_eq_Traps:
  "bindO m f = Traps \<longleftrightarrow> m = Traps \<or> (\<exists>x. m = Returns x \<and> f x = Traps)"
  by (cases m) auto

lemma bindO_assoc [simp]: "bindO (bindO m f) g = bindO m (\<lambda>x. bindO (f x) g)"
  by (cases m) auto

lemma bindO_return [simp]: "bindO m Returns = m"
  by (cases m) auto

lemma mapErr_eq_Returns [simp]: "mapErr h m = Returns x \<longleftrightarrow> m = Returns x"
  by (cases m) auto

lemma mapErr_eq_Throws: "mapErr h m = Throws f \<longleftrightarrow> (\<exists>e. m = Throws e \<and> f = h e)"
  by (cases m) auto

lemma mapErr_eq_Traps [simp]: "mapErr h m = Traps \<longleftrightarrow> m = Traps"
  by (cases m) auto

lemma forceTry_eq_Returns [simp]: "forceTry m = Returns x \<longleftrightarrow> m = Returns x"
  by (cases m) auto

lemma forceTry_not_Throws [simp]: "forceTry m \<noteq> Throws e"
  by (cases m) auto

lemma unwrap_eq_Returns [simp]: "unwrap x = Returns y \<longleftrightarrow> x = Some y"
  by (cases x) auto

lemma unwrap_eq_Traps [simp]: "unwrap x = Traps \<longleftrightarrow> x = None"
  by (cases x) auto

lemma unwrap_not_Throws [simp]: "unwrap x \<noteq> Throws e"
  by (cases x) auto

lemma assertTrue_eq_Returns [simp]: "assertTrue b e = Returns u \<longleftrightarrow> b"
  by (simp add: assertTrue_def)

lemma assertFalse_eq_Returns [simp]: "assertFalse b e = Returns u \<longleftrightarrow> \<not> b"
  by (simp add: assertFalse_def)

lemma assertNil_eq_Returns [simp]: "assertNil x e = Returns u \<longleftrightarrow> x = None"
  by (simp add: assertNil_def)

lemma assertNotNil_eq_Returns [simp]: "assertNotNil x e = Returns u \<longleftrightarrow> x \<noteq> None"
  by (simp add: assertNotNil_def)

lemma assertArgument_eq_Returns [simp]: "assertArgument b e = Returns u \<longleftrightarrow> b"
  by (simp add: assertArgument_def)

lemma toInt_eq_Returns [simp]:
  "toInt n = Returns m \<longleftrightarrow> m = n \<and> Int_min \<le> n \<and> n \<le> Int_max"
  by (auto simp: toInt_def)

lemma toInt_not_Throws [simp]: "toInt n \<noteq> Throws e"
  by (simp add: toInt_def)

lemmas assert_defs [outcome_simps] =
  assertArgument_def assertNil_def assertNotNil_def assertTrue_def assertFalse_def
  assertEqual_def assertNotEqual_def

lemmas outcome_cases [outcome_simps] = bindO_eq_Throws bindO_eq_Traps mapErr_eq_Throws

subsection \<open>Encodings\<close>

text \<open>
  The contract of an encoder and its decoder: decoding inverts encoding. A total codec also
  accepts nothing but encodings.
\<close>

locale codec =
  fixes enc :: "'a \<Rightarrow> 'b" and dec :: "'b \<Rightarrow> 'a option"
  assumes dec_enc: "dec (enc x) = Some x"
begin

lemma enc_eq_iff: "enc x = enc y \<longleftrightarrow> x = y"
proof
  assume "enc x = enc y"
  then have "dec (enc x) = dec (enc y)" by simp
  then show "x = y" by (simp add: dec_enc)
qed simp

lemma inj_enc: "inj enc"
  by (simp add: inj_def enc_eq_iff)

end

locale total_codec = codec +
  assumes enc_dec: "\<exists>x. dec y = Some x \<and> enc x = y"
begin

lemma dec_Some_iff: "dec y = Some x \<longleftrightarrow> y = enc x"
proof
  assume "dec y = Some x"
  with enc_dec [of y] show "y = enc x" by auto
qed (simp add: dec_enc)

lemma bij_enc: "bij enc"
proof (rule bijI [OF inj_enc], unfold surj_def, rule allI)
  fix y
  obtain x where "enc x = y" using enc_dec by blast
  then show "\<exists>x. y = enc x" by blast
qed

end

subsection \<open>Words\<close>

lemma signed_drop_bit_sign:
  fixes n :: "'a::len word"
  shows "signed_drop_bit (LENGTH('a) - Suc 0) n = (if bit n (LENGTH('a) - Suc 0) then - 1 else 0)"
proof (rule bit_word_eqI)
  fix k assume "k < LENGTH('a)"
  have "bit (signed_drop_bit (LENGTH('a) - Suc 0) n) k = bit n (LENGTH('a) - Suc 0)"
    using \<open>k < LENGTH('a)\<close>
    by (cases "k = 0") (auto simp: bit_signed_drop_bit_iff)
  then show "bit (signed_drop_bit (LENGTH('a) - Suc 0) n) k = bit (if bit n (LENGTH('a) - Suc 0) then - 1 else 0 :: 'a word) k"
    using \<open>k < LENGTH('a)\<close> by simp
qed

lemma sint_neg_iff_bit:
  fixes n :: "'a::len word"
  shows "bit n (LENGTH('a) - Suc 0) \<longleftrightarrow> sint n < 0"
  by (simp add: bit_last_iff)

lemma bit_double_Suc: "bit (n * 2 :: 'a::len word) (Suc k) \<longleftrightarrow> Suc k < LENGTH('a) \<and> bit n k"
proof -
  have "bit (push_bit (Suc 0) n) (Suc k) \<longleftrightarrow> Suc k < LENGTH('a) \<and> bit n k"
    by (simp only: bit_push_bit_iff) (simp add: impossible_bit)
  then show ?thesis by (simp add: push_bit_eq_mult)
qed

lemma bit_top_or_below:
  assumes "k < LENGTH('a::len)"
  shows "k = LENGTH('a) - Suc 0 \<or> Suc k < LENGTH('a)"
  using assms by auto

end
