(* ===== verification/Gatekeeper.thy ===== *)
theory Gatekeeper
  imports Prelude
begin

section \<open>Access control: AuthenticationPolicy, Session, Gatekeeper\<close>

text \<open>
  The aggregate under
  \<^verbatim>\<open>src/IdentityAccess/IdentityAccessDomainModel/Gatekeeper/\<close>: the policy value object, the
  session entity and the gatekeeper that counts failed authentication attempts and blocks
  access for a period once they reach the policy's maximum.

  Every method is one definition. A method that mutates takes the object and returns it
  updated; no method of this aggregate throws after it has changed a field, so a \<open>Throws\<close>
  outcome means the object is unchanged. Random UUIDs are an argument.
\<close>

subsection \<open>Data\<close>

datatype AuthenticationPolicy_Error =
    sessionDurationMustBePositive
  | maxFailedAttemptsMustBePositive
  | blockDurationMustBeNonNegative

record AuthenticationPolicy =
  sessionDuration :: time
  maxFailedAttempts :: int
  blockDuration :: time

datatype Session_Error =
    invalidDuration
  | sessionWasActiveAlready
  | sessionIsNotActive
  | sessionWasFinishedAlready

record Session =
  session_id :: string
  duration :: time
  startedAt :: "time option"
  endedAt :: "time option"
  updatedAt :: "time option"

datatype Gatekeeper_Error = durationIsNotPositive | accessBlocked

record Gatekeeper =
  gatekeeper_id :: string
  policy :: AuthenticationPolicy
  session :: "Session option"
  failedAttemptCount :: int
  accessDeniedAt :: "time option"

datatype access_error =
    PolicyError AuthenticationPolicy_Error
  | SessionError Session_Error
  | GatekeeperError Gatekeeper_Error

subsection \<open>AuthenticationPolicy\<close>

definition AuthenticationPolicy_init ::
    "time \<Rightarrow> int \<Rightarrow> time \<Rightarrow> (AuthenticationPolicy_Error, AuthenticationPolicy) outcome" where
  "AuthenticationPolicy_init sd mx bd =
     bindO (assertTrue (sd > 0) sessionDurationMustBePositive) (\<lambda>_.
     bindO (assertTrue (mx > 0) maxFailedAttemptsMustBePositive) (\<lambda>_.
     bindO (assertTrue (bd \<ge> 0) blockDurationMustBeNonNegative) (\<lambda>_.
     Returns \<lparr>sessionDuration = sd, maxFailedAttempts = mx, blockDuration = bd\<rparr>)))"

definition withSessionDuration ::
    "AuthenticationPolicy \<Rightarrow> time \<Rightarrow> (AuthenticationPolicy_Error, AuthenticationPolicy) outcome" where
  "withSessionDuration p v = AuthenticationPolicy_init v (maxFailedAttempts p) (blockDuration p)"

definition withMaxFailedAttempts ::
    "AuthenticationPolicy \<Rightarrow> int \<Rightarrow> (AuthenticationPolicy_Error, AuthenticationPolicy) outcome" where
  "withMaxFailedAttempts p v = AuthenticationPolicy_init (sessionDuration p) v (blockDuration p)"

definition withBlockDuration ::
    "AuthenticationPolicy \<Rightarrow> time \<Rightarrow> (AuthenticationPolicy_Error, AuthenticationPolicy) outcome" where
  "withBlockDuration p v = AuthenticationPolicy_init (sessionDuration p) (maxFailedAttempts p) v"

subsection \<open>Session\<close>

definition Session_init :: "string \<Rightarrow> time \<Rightarrow> (Session_Error, Session) outcome" where
  "Session_init i d =
     bindO (assertTrue (d > 0) invalidDuration) (\<lambda>_.
     Returns \<lparr>session_id = i, duration = d, startedAt = None, endedAt = None, updatedAt = None\<rparr>)"

definition Session_restore ::
    "string \<Rightarrow> time \<Rightarrow> time option \<Rightarrow> time option \<Rightarrow> time option \<Rightarrow> (Session_Error, Session) outcome" where
  "Session_restore i d st en up =
     bindO (Session_init i d) (\<lambda>s.
     Returns (s\<lparr>startedAt := st, endedAt := en, updatedAt := up\<rparr>))"

text \<open>
  \<open>startTime ... endTime\<close> builds a \<^verbatim>\<open>ClosedRange\<close>, which stops the process when the lower
  bound exceeds the upper bound.
\<close>

definition isActiveAt :: "Session \<Rightarrow> time \<Rightarrow> ('e, bool) outcome" where
  "isActiveAt s t =
     (if endedAt s \<noteq> None then Returns False
      else case startedAt s of
        None \<Rightarrow> Returns False
      | Some startTime \<Rightarrow>
          (let endTime = (case updatedAt s of
                            Some updateTime \<Rightarrow> updateTime + duration s
                          | None \<Rightarrow> startTime + duration s)
           in if startTime \<le> endTime then Returns (startTime \<le> t \<and> t \<le> endTime) else Traps))"

definition start :: "Session \<Rightarrow> time \<Rightarrow> (Session_Error, Session) outcome" where
  "start s t =
     bindO (assertNil (endedAt s) sessionWasFinishedAlready) (\<lambda>_.
     bindO (isActiveAt s t) (\<lambda>active.
     bindO (assertFalse active sessionWasActiveAlready) (\<lambda>_.
     Returns (s\<lparr>startedAt := Some t\<rparr>))))"

definition finish :: "Session \<Rightarrow> time \<Rightarrow> (Session_Error, Session) outcome" where
  "finish s t =
     bindO (isActiveAt s t) (\<lambda>active.
     bindO (assertTrue active sessionIsNotActive) (\<lambda>_.
     Returns (s\<lparr>endedAt := Some t\<rparr>)))"

definition renew :: "Session \<Rightarrow> time \<Rightarrow> (Session_Error, Session) outcome" where
  "renew s t =
     bindO (isActiveAt s t) (\<lambda>active.
     bindO (assertTrue active sessionIsNotActive) (\<lambda>_.
     Returns (s\<lparr>updatedAt := Some t\<rparr>)))"

subsection \<open>Gatekeeper\<close>

definition Gatekeeper_init :: "string \<Rightarrow> AuthenticationPolicy \<Rightarrow> Gatekeeper" where
  "Gatekeeper_init i p =
     \<lparr>gatekeeper_id = i, policy = p, session = None, failedAttemptCount = 0, accessDeniedAt = None\<rparr>"

definition Gatekeeper_restore ::
    "string \<Rightarrow> Session option \<Rightarrow> AuthenticationPolicy \<Rightarrow> int \<Rightarrow> time option \<Rightarrow> Gatekeeper" where
  "Gatekeeper_restore i s p n d =
     (Gatekeeper_init i p)\<lparr>session := s, failedAttemptCount := n, accessDeniedAt := d\<rparr>"

definition reset :: "Gatekeeper \<Rightarrow> Gatekeeper" where
  "reset g = g\<lparr>session := None, failedAttemptCount := 0, accessDeniedAt := None\<rparr>"

text \<open>Assigning \<^verbatim>\<open>policy\<close> runs its \<^verbatim>\<open>didSet\<close> observer, which resets the gatekeeper.\<close>

definition set_policy :: "Gatekeeper \<Rightarrow> AuthenticationPolicy \<Rightarrow> Gatekeeper" where
  "set_policy g p = reset (g\<lparr>policy := p\<rparr>)"

definition changeSessionDuration ::
    "Gatekeeper \<Rightarrow> time \<Rightarrow> (AuthenticationPolicy_Error, Gatekeeper) outcome" where
  "changeSessionDuration g v =
     bindO (withSessionDuration (policy g) v) (\<lambda>p. Returns (set_policy g p))"

definition changeMaxFailedAttempts ::
    "Gatekeeper \<Rightarrow> int \<Rightarrow> (AuthenticationPolicy_Error, Gatekeeper) outcome" where
  "changeMaxFailedAttempts g v =
     bindO (withMaxFailedAttempts (policy g) v) (\<lambda>p. Returns (set_policy g p))"

definition changeBlockDuration ::
    "Gatekeeper \<Rightarrow> time \<Rightarrow> (AuthenticationPolicy_Error, Gatekeeper) outcome" where
  "changeBlockDuration g v =
     bindO (withBlockDuration (policy g) v) (\<lambda>p. Returns (set_policy g p))"

definition isAccessPossible :: "Gatekeeper \<Rightarrow> time \<Rightarrow> bool" where
  "isAccessPossible g t =
     (case accessDeniedAt g of
        None \<Rightarrow> True
      | Some deniedTime \<Rightarrow>
          (let blockLiftTime = deniedTime + blockDuration (policy g);
               isBlockPeriodExpired = (t \<ge> blockLiftTime);
               hasMoreAttempts = (failedAttemptCount g < maxFailedAttempts (policy g))
           in hasMoreAttempts \<or> isBlockPeriodExpired))"

definition assertNotBlocked :: "Gatekeeper \<Rightarrow> time \<Rightarrow> (access_error, unit) outcome" where
  "assertNotBlocked g t = assertTrue (isAccessPossible g t) (GatekeeperError accessBlocked)"

definition allowAccess ::
    "Gatekeeper \<Rightarrow> string \<Rightarrow> time \<Rightarrow> (access_error, Gatekeeper \<times> string) outcome" where
  "allowAccess g uuid t =
     bindO (assertNotBlocked g t) (\<lambda>_.
     bindO (mapErr SessionError (Session_init uuid (sessionDuration (policy g)))) (\<lambda>s0.
     bindO (mapErr SessionError (start s0 t)) (\<lambda>s.
     Returns (g\<lparr>session := Some s, failedAttemptCount := 0, accessDeniedAt := None\<rparr>,
              session_id s))))"

definition denyAccess :: "Gatekeeper \<Rightarrow> time \<Rightarrow> (access_error, Gatekeeper) outcome" where
  "denyAccess g t =
     bindO (toInt (failedAttemptCount g + 1)) (\<lambda>n.
     Returns (g\<lparr>session := None, failedAttemptCount := n, accessDeniedAt := Some t\<rparr>))"

definition hasAccess :: "Gatekeeper \<Rightarrow> string \<Rightarrow> time \<Rightarrow> (access_error, bool) outcome" where
  "hasAccess g i t =
     (case session g of
        None \<Rightarrow> Returns False
      | Some s \<Rightarrow> if session_id s = i then isActiveAt s t else Returns False)"

definition useAccess :: "Gatekeeper \<Rightarrow> time \<Rightarrow> (access_error, Gatekeeper) outcome" where
  "useAccess g t =
     bindO (assertNotBlocked g t) (\<lambda>_.
     (case session g of
        None \<Rightarrow> Returns g
      | Some s \<Rightarrow> bindO (mapErr SessionError (renew s t)) (\<lambda>s'. Returns (g\<lparr>session := Some s'\<rparr>))))"

subsection \<open>Invariants\<close>

definition policy_ok :: "AuthenticationPolicy \<Rightarrow> bool" where
  "policy_ok p \<longleftrightarrow> sessionDuration p > 0 \<and> maxFailedAttempts p > 0 \<and> blockDuration p \<ge> 0"

text \<open>A session held by a gatekeeper has started, was never finished and is renewed after its start.\<close>

definition session_ok :: "Session \<Rightarrow> bool" where
  "session_ok s \<longleftrightarrow> duration s > 0 \<and> endedAt s = None \<and>
     (case startedAt s of
        None \<Rightarrow> False
      | Some st \<Rightarrow> (case updatedAt s of None \<Rightarrow> True | Some u \<Rightarrow> st \<le> u))"

definition gatekeeper_ok :: "Gatekeeper \<Rightarrow> bool" where
  "gatekeeper_ok g \<longleftrightarrow> policy_ok (policy g) \<and> 0 \<le> failedAttemptCount g \<and>
     (accessDeniedAt g = None \<longleftrightarrow> failedAttemptCount g = 0) \<and>
     (case session g of
        None \<Rightarrow> True
      | Some s \<Rightarrow> session_ok s \<and> duration s = sessionDuration (policy g) \<and> failedAttemptCount g = 0)"

text \<open>The window in which a well-formed session is active.\<close>

definition session_from :: "Session \<Rightarrow> time" where
  "session_from s = (case startedAt s of None \<Rightarrow> 0 | Some st \<Rightarrow> st)"

definition session_until :: "Session \<Rightarrow> time" where
  "session_until s =
     (case updatedAt s of Some u \<Rightarrow> u | None \<Rightarrow> session_from s) + duration s"

text \<open>One call of a method that changes a gatekeeper and does not throw.\<close>

inductive gatekeeper_step :: "Gatekeeper \<Rightarrow> Gatekeeper \<Rightarrow> bool" where
  allow: "allowAccess g uuid t = Returns (g', sid) \<Longrightarrow> gatekeeper_step g g'"
| deny: "denyAccess g t = Returns g' \<Longrightarrow> gatekeeper_step g g'"
| use: "useAccess g t = Returns g' \<Longrightarrow> gatekeeper_step g g'"
| resets: "gatekeeper_step g (reset g)"
| session_duration: "changeSessionDuration g d = Returns g' \<Longrightarrow> gatekeeper_step g g'"
| max_attempts: "changeMaxFailedAttempts g n = Returns g' \<Longrightarrow> gatekeeper_step g g'"
| block_duration: "changeBlockDuration g d = Returns g' \<Longrightarrow> gatekeeper_step g g'"

inductive gatekeeper_reachable :: "Gatekeeper \<Rightarrow> bool" where
  created: "AuthenticationPolicy_init sd mx bd = Returns p \<Longrightarrow> gatekeeper_reachable (Gatekeeper_init i p)"
| stepped: "gatekeeper_reachable g \<Longrightarrow> gatekeeper_step g g' \<Longrightarrow> gatekeeper_reachable g'"

inductive_cases gatekeeper_stepE: "gatekeeper_step g g'"

lemmas session_defs = Session_init_def Session_restore_def start_def finish_def renew_def
lemmas policy_change_defs =
  withSessionDuration_def withMaxFailedAttempts_def withBlockDuration_def set_policy_def
  changeSessionDuration_def changeMaxFailedAttempts_def changeBlockDuration_def

subsection \<open>Policies\<close>

lemma AuthenticationPolicy_init_Returns [simp]:
  "AuthenticationPolicy_init sd mx bd = Returns p \<longleftrightarrow>
     sd > 0 \<and> mx > 0 \<and> bd \<ge> 0 \<and>
     p = \<lparr>sessionDuration = sd, maxFailedAttempts = mx, blockDuration = bd\<rparr>"
  by (auto simp: AuthenticationPolicy_init_def)

lemma AuthenticationPolicy_init_never_traps [simp]: "AuthenticationPolicy_init sd mx bd \<noteq> Traps"
  by (auto simp: AuthenticationPolicy_init_def outcome_simps)

lemma policy_init_ok: "AuthenticationPolicy_init sd mx bd = Returns p \<Longrightarrow> policy_ok p"
  by (auto simp: policy_ok_def)

subsection \<open>Sessions\<close>

lemma isActiveAt_ok:
  "session_ok s \<Longrightarrow> isActiveAt s t = Returns (session_from s \<le> t \<and> t \<le> session_until s)"
  by (auto simp: session_ok_def isActiveAt_def session_from_def session_until_def split: option.splits)

lemma fresh_session_active:
  "isActiveAt \<lparr>session_id = i, duration = d, startedAt = None, endedAt = None, updatedAt = None\<rparr> t
     = Returns False"
  by (simp add: isActiveAt_def)

lemma renew_ok:
  assumes "session_ok s" and "renew s t = Returns s'"
  shows "session_ok s'" and "duration s' = duration s" and "session_id s' = session_id s"
    and "session_from s' = session_from s" and "session_until s' = t + duration s"
  using assms
  by (auto simp: renew_def isActiveAt_ok session_ok_def session_from_def session_until_def
      split: option.splits)

subsection \<open>Operations of the gatekeeper\<close>

lemma allowAccess_eq:
  assumes "policy_ok (policy g)"
  shows "allowAccess g uuid t =
    (if isAccessPossible g t
     then Returns (g\<lparr>session := Some \<lparr>session_id = uuid, duration = sessionDuration (policy g),
                       startedAt = Some t, endedAt = None, updatedAt = None\<rparr>,
                     failedAttemptCount := 0, accessDeniedAt := None\<rparr>, uuid)
     else Throws (GatekeeperError accessBlocked))"
  using assms
  by (simp add: allowAccess_def assertNotBlocked_def session_defs outcome_simps policy_ok_def
      isActiveAt_def)

lemma allowAccess_inv:
  "gatekeeper_ok g \<Longrightarrow> allowAccess g uuid t = Returns (g', sid) \<Longrightarrow> gatekeeper_ok g'"
  by (auto simp: allowAccess_eq gatekeeper_ok_def session_ok_def policy_ok_def split: if_splits)

lemma denyAccess_inv: "gatekeeper_ok g \<Longrightarrow> denyAccess g t = Returns g' \<Longrightarrow> gatekeeper_ok g'"
  by (auto simp: denyAccess_def gatekeeper_ok_def)

lemma useAccess_inv: "gatekeeper_ok g \<Longrightarrow> useAccess g t = Returns g' \<Longrightarrow> gatekeeper_ok g'"
  by (auto simp: useAccess_def gatekeeper_ok_def renew_ok split: option.splits)

lemma set_policy_inv: "policy_ok p \<Longrightarrow> gatekeeper_ok (set_policy g p)"
  by (simp add: set_policy_def reset_def gatekeeper_ok_def)

lemma reset_inv: "gatekeeper_ok g \<Longrightarrow> gatekeeper_ok (reset g)"
  by (simp add: reset_def gatekeeper_ok_def)

lemma change_policy_inv:
  assumes "gatekeeper_ok g"
  shows "changeSessionDuration g d = Returns g' \<Longrightarrow> gatekeeper_ok g'"
    and "changeMaxFailedAttempts g n = Returns g' \<Longrightarrow> gatekeeper_ok g'"
    and "changeBlockDuration g d = Returns g' \<Longrightarrow> gatekeeper_ok g'"
  using assms
  by (auto simp: policy_change_defs reset_def gatekeeper_ok_def policy_ok_def)

lemma gatekeeper_step_inv: "gatekeeper_step g g' \<Longrightarrow> gatekeeper_ok g \<Longrightarrow> gatekeeper_ok g'"
  by (induction rule: gatekeeper_step.induct)
    (blast intro: allowAccess_inv denyAccess_inv useAccess_inv reset_inv change_policy_inv)+

lemma gatekeeper_reachable_inv: "gatekeeper_reachable g \<Longrightarrow> gatekeeper_ok g"
proof (induction rule: gatekeeper_reachable.induct)
  case (created sd mx bd p i)
  then show ?case
    by (simp add: gatekeeper_ok_def Gatekeeper_init_def policy_ok_def)
next
  case (stepped g g')
  then show ?case by (blast intro: gatekeeper_step_inv)
qed

lemma hasAccess_ok:
  assumes "gatekeeper_ok g"
  shows "hasAccess g i t =
    Returns (case session g of None \<Rightarrow> False
             | Some s \<Rightarrow> session_id s = i \<and> session_from s \<le> t \<and> t \<le> session_until s)"
  using assms
  by (auto simp: hasAccess_def gatekeeper_ok_def isActiveAt_ok split: option.splits)

lemma useAccess_no_trap: "gatekeeper_ok g \<Longrightarrow> useAccess g t \<noteq> Traps"
  by (auto simp: useAccess_def gatekeeper_ok_def assertNotBlocked_def renew_def isActiveAt_ok
      outcome_simps split: option.splits)

text \<open>A sequence of uses of a granted access, each renewing the session.\<close>

fun useAll :: "Gatekeeper \<Rightarrow> time list \<Rightarrow> (access_error, Gatekeeper) outcome" where
  "useAll g [] = Returns g"
| "useAll g (t # ts) = bindO (useAccess g t) (\<lambda>g'. useAll g' ts)"

lemma useAccess_session:
  assumes "gatekeeper_ok g" and "session g = Some s" and "useAccess g t = Returns g'"
  shows "\<exists>s'. session g' = Some s' \<and> session_id s' = session_id s \<and> policy g' = policy g \<and>
    session_from s' = session_from s \<and> session_until s' = t + sessionDuration (policy g)"
proof -
  have ok: "session_ok s" and dur: "duration s = sessionDuration (policy g)"
    using assms(1,2) by (simp_all add: gatekeeper_ok_def)
  from assms(2,3) obtain s' where s': "renew s t = Returns s'" and g': "g' = g\<lparr>session := Some s'\<rparr>"
    by (auto simp: useAccess_def)
  from renew_ok [OF ok s'] dur g' show ?thesis by simp
qed

lemma useAll_session:
  assumes "gatekeeper_ok g" and "session g = Some s" and "useAll g ts = Returns g'"
  shows "gatekeeper_ok g' \<and> (\<exists>s'. session g' = Some s' \<and> session_id s' = session_id s \<and>
    session_from s' = session_from s \<and>
    session_until s' = (if ts = [] then session_until s else last ts + sessionDuration (policy g)))"
  using assms
proof (induction ts arbitrary: g s)
  case Nil
  then show ?case by auto
next
  case (Cons t ts)
  then obtain g1 where g1: "useAccess g t = Returns g1" and rest: "useAll g1 ts = Returns g'"
    by auto
  from useAccess_session [OF Cons.prems(1,2) g1] obtain s1 where s1: "session g1 = Some s1"
      "session_id s1 = session_id s" "session_from s1 = session_from s" "policy g1 = policy g"
      "session_until s1 = t + sessionDuration (policy g)"
    by blast
  from Cons.IH [OF useAccess_inv [OF Cons.prems(1) g1] s1(1) rest] s1 show ?case
    by auto
qed

subsection \<open>Properties\<close>

text \<open>
  In every gatekeeper reachable from a validated policy by any sequence of method calls,
  the counters, timestamps, session and policy stay consistent, and no query or update stops
  the process: the closed range built by \<^verbatim>\<open>Session.isActiveAt\<close> is always well formed there.
\<close>

theorem gatekeeper_safe:
  assumes "gatekeeper_reachable g"
  shows "gatekeeper_ok g \<and> hasAccess g i t \<noteq> Traps \<and> useAccess g t \<noteq> Traps \<and>
    allowAccess g u t \<noteq> Traps"
proof -
  have ok: "gatekeeper_ok g" using assms by (rule gatekeeper_reachable_inv)
  then have "policy_ok (policy g)" by (simp add: gatekeeper_ok_def)
  with ok show ?thesis by (simp add: hasAccess_ok useAccess_no_trap allowAccess_eq)
qed

theorem gatekeeper_safe_witness:
  "gatekeeper_ok (Gatekeeper_init ''g'' \<lparr>sessionDuration = 60, maxFailedAttempts = 5, blockDuration = 15\<rparr>)"
proof -
  have "gatekeeper_reachable
      (Gatekeeper_init ''g'' \<lparr>sessionDuration = 60, maxFailedAttempts = 5, blockDuration = 15\<rparr>)"
    by (rule gatekeeper_reachable.created [of 60 5 15]) simp
  from gatekeeper_safe [OF this] show ?thesis by blast
qed

text \<open>
  The lifetime of granted access. After \<^verbatim>\<open>allowAccess\<close> at time \<open>t0\<close> and any sequence of
  successful \<^verbatim>\<open>useAccess\<close> calls, \<^verbatim>\<open>hasAccess\<close> for the returned session holds exactly from
  \<open>t0\<close> until the policy's session duration after the last use, and for no other session id.
\<close>

theorem access_window:
  assumes "gatekeeper_ok g" and "allowAccess g uuid t0 = Returns (g1, sid)"
    and "useAll g1 ts = Returns g2"
  shows "hasAccess g2 i t =
    Returns (i = sid \<and> t0 \<le> t \<and> t \<le> last (t0 # ts) + sessionDuration (policy g))"
proof -
  have ok1: "gatekeeper_ok g1" using assms(1,2) by (rule allowAccess_inv)
  have "policy_ok (policy g)" using assms(1) by (simp add: gatekeeper_ok_def)
  with assms(2) obtain s where s: "session g1 = Some s" "session_id s = sid" "session_from s = t0"
      "session_until s = t0 + sessionDuration (policy g)" "policy g1 = policy g"
    by (auto simp: allowAccess_eq session_from_def session_until_def split: if_splits)
  from useAll_session [OF ok1 s(1) assms(3)] s show ?thesis
    by (auto simp: hasAccess_ok)
qed

theorem access_window_witness:
  "hasAccess ((Gatekeeper_init ''g'' \<lparr>sessionDuration = 60, maxFailedAttempts = 5, blockDuration = 15\<rparr>)
      \<lparr>session := Some \<lparr>session_id = ''u'', duration = 60, startedAt = Some 10, endedAt = None,
        updatedAt = Some 30\<rparr>\<rparr>) ''u'' 90 = Returns True"
proof -
  let ?p = "\<lparr>sessionDuration = 60, maxFailedAttempts = 5, blockDuration = 15\<rparr>"
  let ?g = "Gatekeeper_init ''g'' ?p"
  let ?s = "\<lparr>session_id = ''u'', duration = 60, startedAt = Some 10, endedAt = None, updatedAt = None\<rparr>"
  have ok: "gatekeeper_ok ?g" by (simp add: gatekeeper_ok_def Gatekeeper_init_def policy_ok_def)
  have allow: "allowAccess ?g ''u'' 10 = Returns (?g\<lparr>session := Some ?s\<rparr>, ''u'')"
    by (simp add: allowAccess_eq policy_ok_def Gatekeeper_init_def isAccessPossible_def)
  have use: "useAll (?g\<lparr>session := Some ?s\<rparr>) [30] = Returns (?g\<lparr>session := Some (?s\<lparr>updatedAt := Some 30\<rparr>)\<rparr>)"
    by (simp add: useAccess_def assertNotBlocked_def isAccessPossible_def Gatekeeper_init_def
        renew_def isActiveAt_def outcome_simps)
  from access_window [OF ok allow use, of "''u''" 90] show ?thesis by (simp add: Gatekeeper_init_def)
qed

text \<open>
  \<^verbatim>\<open>Session.start\<close> accepts a session that was renewed and has expired since, although
  its documentation asks for a fresh one; it does not clear \<^verbatim>\<open>updatedAt\<close>, so every later
  \<^verbatim>\<open>isActiveAt\<close> on it builds a range whose lower bound exceeds its upper bound and stops the
  process. (Gatekeepers only start fresh sessions, so they never reach this state.)
\<close>

theorem session_restart_traps:
  assumes "endedAt s = None" and "startedAt s = Some st" and "updatedAt s = Some u"
    and "st \<le> u + duration s" and "u + duration s < t"
  shows "\<exists>s'. start s t = Returns s' \<and> isActiveAt s' t' = Traps"
  using assms by (auto simp: start_def isActiveAt_def outcome_simps)

theorem session_restart_traps_witness:
  "\<exists>s'. start \<lparr>session_id = ''u'', duration = 10, startedAt = Some 0, endedAt = None,
      updatedAt = Some 5\<rparr> 100 = Returns s' \<and> isActiveAt s' 101 = (Traps :: (Session_Error, bool) outcome)"
  using session_restart_traps [of "\<lparr>session_id = ''u'', duration = 10, startedAt = Some 0,
      endedAt = None, updatedAt = Some 5\<rparr>" 0 5 100 101] by simp

end
