(* ===== verification/Identity.thy ===== *)
theory Identity
  imports Gatekeeper
begin

section \<open>Registration and authentication: IdentityService, AuthenticationApplicationService\<close>

text \<open>
  The domain service \<^verbatim>\<open>IdentityService\<close>, the entity \<^verbatim>\<open>User\<close>, the in-memory repositories and
  the application service on top of them
  (\<^verbatim>\<open>src/IdentityAccess/IdentityAccessDomainModel\<close>, \<^verbatim>\<open>.../IdentityAccessApplication\<close>,
  \<^verbatim>\<open>.../IdentityAccessImplementations/persistence\<close>).

  The state is the pair of single-entity repositories. A method returns its outcome and the
  new state, since some methods throw after they saved something. What the app gets from the
  operating system (the password hash, the biometric service, fresh ids) is the record
  \<open>identity_env\<close> or an argument. Passwords are ASCII strings.
\<close>

subsection \<open>Password rules (Common/FoundationExtensions.swift)\<close>

definition is_letter :: "char \<Rightarrow> bool" where
  "is_letter c \<longleftrightarrow> c \<in> set ''abcdefghijklmnopqrstuvwxyzABCDEFGHIJKLMNOPQRSTUVWXYZ''"

definition is_decimalDigit :: "char \<Rightarrow> bool" where
  "is_decimalDigit c \<longleftrightarrow> c \<in> set ''0123456789''"

definition hasLetter :: "string \<Rightarrow> bool" where
  "hasLetter s \<longleftrightarrow> list_ex is_letter s"

definition hasDecimalDigit :: "string \<Rightarrow> bool" where
  "hasDecimalDigit s \<longleftrightarrow> list_ex is_decimalDigit s"

text \<open>The loop of \<^verbatim>\<open>hasNoTrippleChar\<close> over the rest of the string, with its two variables.\<close>

fun tripple_loop :: "'a \<Rightarrow> nat \<Rightarrow> 'a list \<Rightarrow> bool" where
  "tripple_loop previous sequenceLength [] = True"
| "tripple_loop previous sequenceLength (c # cs) =
     (if c = previous
      then (if sequenceLength + 1 = 3 then False else tripple_loop previous (sequenceLength + 1) cs)
      else tripple_loop c 1 cs)"

definition hasNoTrippleChar :: "'a list \<Rightarrow> bool" where
  "hasNoTrippleChar s =
     (if \<not> length s > 2 then True
      else case s of [] \<Rightarrow> True | c # cs \<Rightarrow> tripple_loop c 1 cs)"

subsection \<open>Users, repositories, errors\<close>

record User =
  user_id :: string
  password :: string
  sessionID :: "string option"

datatype RegistrationError =
    userAlreadyRegistered | emptyPassword | passwordTooShort | passwordTooLong
  | passwordMissingLetter | passwordMissingDigit | passwordHasTrippleChar

datatype identity_error =
    Registration RegistrationError
  | primaryUserNotFound
  | biometryCancelled
  | biometryFailed
  | Policy AuthenticationPolicy_Error
  | Access access_error

definition changePassword :: "User \<Rightarrow> string \<Rightarrow> string \<Rightarrow> User" where
  "changePassword u old new = u\<lparr>password := new\<rparr>"

definition User_init :: "string \<Rightarrow> string \<Rightarrow> User" where
  "User_init i p = changePassword \<lparr>user_id = i, password = '''', sessionID = None\<rparr> '''' p"

definition attachSession :: "User \<Rightarrow> string \<Rightarrow> User" where
  "attachSession u sid = u\<lparr>sessionID := Some sid\<rparr>"

definition users_save :: "User \<Rightarrow> User option \<Rightarrow> User option" where
  "users_save u r = Some u"

definition users_remove :: "User \<Rightarrow> User option \<Rightarrow> User option" where
  "users_remove u r =
     (case r of None \<Rightarrow> r | Some s \<Rightarrow> if user_id u \<noteq> user_id s then r else None)"

definition primaryUser :: "User option \<Rightarrow> User option" where
  "primaryUser r = r"

definition user_by_password :: "string \<Rightarrow> User option \<Rightarrow> User option" where
  "user_by_password pw r =
     (if map_option password (primaryUser r) = Some pw then primaryUser r else None)"

definition gatekeepers_save :: "Gatekeeper \<Rightarrow> Gatekeeper option \<Rightarrow> Gatekeeper option" where
  "gatekeepers_save g r = Some g"

definition gatekeepers_remove :: "Gatekeeper \<Rightarrow> Gatekeeper option \<Rightarrow> Gatekeeper option" where
  "gatekeepers_remove g r =
     (case r of None \<Rightarrow> r | Some s \<Rightarrow> if gatekeeper_id g \<noteq> gatekeeper_id s then r else None)"

definition gatekeepers_get :: "Gatekeeper option \<Rightarrow> Gatekeeper option" where
  "gatekeepers_get r = r"

record identity_state =
  userRepository :: "User option"
  gatekeeperRepository :: "Gatekeeper option"

datatype BiometryType = noBiometry | touchID_type | faceID_type

record identity_env =
  encrypted :: "string \<Rightarrow> string"
  biometry_activate :: "(identity_error, unit) outcome"
  biometry_authenticate :: "(identity_error, bool) outcome"
  biometryType :: BiometryType
  isAuthenticationAvailable :: bool

type_synonym 'a identity_call = "(identity_error, 'a) outcome \<times> identity_state"

subsection \<open>IdentityService\<close>

definition isUserAuthenticated :: "identity_state \<Rightarrow> time \<Rightarrow> (identity_error, bool) outcome" where
  "isUserAuthenticated st t =
     (case gatekeepers_get (gatekeeperRepository st) of
        None \<Rightarrow> Returns False
      | Some g \<Rightarrow>
          (case Option.bind (primaryUser (userRepository st)) sessionID of
             None \<Rightarrow> Returns False
           | Some sid \<Rightarrow> mapErr Access (hasAccess g sid t)))"

definition createGatekeeper ::
    "identity_state \<Rightarrow> string \<Rightarrow> time \<Rightarrow> int \<Rightarrow> time \<Rightarrow> Gatekeeper identity_call" where
  "createGatekeeper st nextId sd mx bd =
     (case AuthenticationPolicy_init sd mx bd of
        Returns p \<Rightarrow>
          (let g = Gatekeeper_init nextId p
           in (Returns g, st\<lparr>gatekeeperRepository := gatekeepers_save g (gatekeeperRepository st)\<rparr>))
      | Throws e \<Rightarrow> (Throws (Policy e), st)
      | Traps \<Rightarrow> (Traps, st))"

definition validatePlaintextPassword :: "string \<Rightarrow> (identity_error, unit) outcome" where
  "validatePlaintextPassword pw =
     bindO (assertArgument (pw \<noteq> []) (Registration emptyPassword)) (\<lambda>_.
     bindO (assertArgument (length pw \<ge> 6) (Registration passwordTooShort)) (\<lambda>_.
     bindO (assertArgument (hasLetter pw) (Registration passwordMissingLetter)) (\<lambda>_.
     bindO (assertArgument (hasDecimalDigit pw) (Registration passwordMissingDigit)) (\<lambda>_.
     assertArgument (hasNoTrippleChar pw) (Registration passwordHasTrippleChar)))))"

definition registerUser ::
    "identity_env \<Rightarrow> identity_state \<Rightarrow> string \<Rightarrow> string \<Rightarrow> string identity_call" where
  "registerUser env st nextId pw =
     (case bindO (assertArgument (primaryUser (userRepository st) = None)
                   (Registration userAlreadyRegistered)) (\<lambda>_. validatePlaintextPassword pw) of
        Throws e \<Rightarrow> (Throws e, st)
      | Traps \<Rightarrow> (Traps, st)
      | Returns _ \<Rightarrow>
          (let u = User_init nextId (encrypted env pw);
               st' = st\<lparr>userRepository := users_save u (userRepository st)\<rparr>
           in (bindO (biometry_activate env) (\<lambda>_. Returns (user_id u)), st')))"

definition updatePrimaryUserPassword ::
    "identity_env \<Rightarrow> identity_state \<Rightarrow> string \<Rightarrow> unit identity_call" where
  "updatePrimaryUserPassword env st pw =
     (case bindO (assertNotNil (primaryUser (userRepository st)) primaryUserNotFound)
             (\<lambda>_. validatePlaintextPassword pw) of
        Throws e \<Rightarrow> (Throws e, st)
      | Traps \<Rightarrow> (Traps, st)
      | Returns _ \<Rightarrow>
          (case primaryUser (userRepository st) of
             None \<Rightarrow> (Traps, st)
           | Some old \<Rightarrow>
               (let u = User_init (user_id old) (encrypted env pw)
                in (Returns (), st\<lparr>userRepository := users_save u (userRepository st)\<rparr>))))"

text \<open>
  The private \<^verbatim>\<open>authenticate(at:_:)\<close>: \<open>auth\<close> is the outcome of the closure it is given.
\<close>

definition authenticate ::
    "identity_state \<Rightarrow> string \<Rightarrow> time \<Rightarrow> (identity_error, User option) outcome \<Rightarrow>
     string option identity_call" where
  "authenticate st uuid t auth =
     (case gatekeepers_get (gatekeeperRepository st) of
        None \<Rightarrow> (Traps, st)
      | Some g \<Rightarrow>
          if \<not> isAccessPossible g t then (Returns None, st)
          else (case auth of
            Traps \<Rightarrow> (Traps, st)
          | Throws e \<Rightarrow> if e = biometryCancelled then (Returns None, st) else (Throws e, st)
          | Returns None \<Rightarrow>
              (case denyAccess g t of
                 Returns g' \<Rightarrow>
                   (Returns None,
                    st\<lparr>gatekeeperRepository := gatekeepers_save g' (gatekeeperRepository st)\<rparr>)
               | Throws e \<Rightarrow> (Throws (Access e), st)
               | Traps \<Rightarrow> (Traps, st))
          | Returns (Some u) \<Rightarrow>
              (case allowAccess g uuid t of
                 Returns (g', sid) \<Rightarrow>
                   (Returns (Some (user_id u)),
                    st\<lparr>gatekeeperRepository := gatekeepers_save g' (gatekeeperRepository st),
                       userRepository := users_save (attachSession u sid) (userRepository st)\<rparr>)
               | Throws e \<Rightarrow> (Throws (Access e), st)
               | Traps \<Rightarrow> (Traps, st))))"

definition authenticateUser ::
    "identity_env \<Rightarrow> identity_state \<Rightarrow> string \<Rightarrow> string \<Rightarrow> time \<Rightarrow> string option identity_call" where
  "authenticateUser env st uuid pw t =
     authenticate st uuid t (Returns (user_by_password (encrypted env pw) (userRepository st)))"

definition verifyPassword :: "identity_env \<Rightarrow> identity_state \<Rightarrow> string \<Rightarrow> bool" where
  "verifyPassword env st pw = (user_by_password (encrypted env pw) (userRepository st) \<noteq> None)"

definition authenticateUserBiometrically ::
    "identity_env \<Rightarrow> identity_state \<Rightarrow> string \<Rightarrow> time \<Rightarrow> string option identity_call" where
  "authenticateUserBiometrically env st uuid t =
     authenticate st uuid t
       (bindO (biometry_authenticate env) (\<lambda>ok.
          if \<not> ok then Returns None else Returns (primaryUser (userRepository st))))"

subsection \<open>AuthenticationApplicationService\<close>

text \<open>\<^verbatim>\<open>AuthenticationMethod\<close> is an option set over a 64-bit integer.\<close>

type_synonym AuthenticationMethod = u64

definition password_method :: AuthenticationMethod where "password_method = push_bit 0 1"
definition touchID_method :: AuthenticationMethod where "touchID_method = push_bit 1 1"
definition faceID_method :: AuthenticationMethod where "faceID_method = push_bit 2 1"
definition biometry_method :: AuthenticationMethod where
  "biometry_method = touchID_method OR faceID_method"

definition intersects :: "AuthenticationMethod \<Rightarrow> AuthenticationMethod \<Rightarrow> bool" where
  "intersects a b \<longleftrightarrow> \<not> (a AND b = 0)"

datatype AuthenticationResult = auth_success string | auth_failure | auth_blocked

record AuthenticationRequest =
  request_method :: AuthenticationMethod
  request_password :: "string option"

definition AuthenticationRequest_init ::
    "AuthenticationMethod \<Rightarrow> string option \<Rightarrow> ('e, AuthenticationRequest) outcome" where
  "AuthenticationRequest_init m pw =
     (if m = biometry_method \<and> pw = None \<or> m = password_method \<and> pw \<noteq> None
      then Returns \<lparr>request_method = m, request_password = pw\<rparr> else Traps)"

definition service_isAccessPossible :: "identity_state \<Rightarrow> time \<Rightarrow> bool" where
  "service_isAccessPossible st t =
     (case gatekeepers_get (gatekeeperRepository st) of
        None \<Rightarrow> False | Some g \<Rightarrow> isAccessPossible g t)"

definition blockedPeriodDuration :: "identity_state \<Rightarrow> time" where
  "blockedPeriodDuration st =
     (case gatekeepers_get (gatekeeperRepository st) of None \<Rightarrow> 15 | Some g \<Rightarrow> blockDuration (policy g))"

definition maxPasswordAttempts :: "identity_state \<Rightarrow> int" where
  "maxPasswordAttempts st =
     (case gatekeepers_get (gatekeeperRepository st) of None \<Rightarrow> 5 | Some g \<Rightarrow> maxFailedAttempts (policy g))"

definition service_sessionDuration :: "identity_state \<Rightarrow> time" where
  "service_sessionDuration st =
     (case gatekeepers_get (gatekeeperRepository st) of None \<Rightarrow> 60 | Some g \<Rightarrow> sessionDuration (policy g))"

definition isUserRegistered :: "identity_state \<Rightarrow> bool" where
  "isUserRegistered st \<longleftrightarrow> primaryUser (userRepository st) \<noteq> None"

definition isAuthenticationBlocked :: "identity_state \<Rightarrow> time \<Rightarrow> bool" where
  "isAuthenticationBlocked st t =
     (case gatekeepers_get (gatekeeperRepository st) of
        None \<Rightarrow> False | Some g \<Rightarrow> \<not> isAccessPossible g t)"

definition isAuthenticationMethodSupported :: "identity_env \<Rightarrow> AuthenticationMethod \<Rightarrow> bool" where
  "isAuthenticationMethodSupported env m =
     (let s0 = password_method;
          s1 = (if biometryType env = touchID_type then s0 OR touchID_method else s0);
          s2 = (if biometryType env = faceID_type then s1 OR faceID_method else s1)
      in intersects s2 m)"

definition isAuthenticationMethodPossible ::
    "identity_env \<Rightarrow> identity_state \<Rightarrow> time \<Rightarrow> AuthenticationMethod \<Rightarrow> bool" where
  "isAuthenticationMethodPossible env st t m =
     (if \<not> service_isAccessPossible st t then False
      else (let s0 = password_method;
                s1 = (if isAuthenticationMethodSupported env faceID_method \<and> isAuthenticationAvailable env
                      then s0 OR faceID_method else s0);
                s2 = (if isAuthenticationMethodSupported env touchID_method \<and> isAuthenticationAvailable env
                      then s1 OR touchID_method else s1)
            in intersects s2 m))"

text \<open>
  \<^verbatim>\<open>authenticateUser(_:)\<close> of the application service; \<open>t\<close> and \<open>t'\<close> are the two readings of
  the clock, before the authentication and for the final \<^verbatim>\<open>isAccessPossible\<close>.
\<close>

definition service_authenticateUser ::
    "identity_env \<Rightarrow> identity_state \<Rightarrow> string \<Rightarrow> AuthenticationRequest \<Rightarrow> time \<Rightarrow> time \<Rightarrow>
     AuthenticationResult identity_call" where
  "service_authenticateUser env st uuid rq t t' =
     (let call = (if request_method rq = password_method
                  then (case request_password rq of
                          None \<Rightarrow> (Traps, st)
                        | Some pw \<Rightarrow> authenticateUser env st uuid pw t)
                  else if biometry_method AND request_method rq = request_method rq
                  then authenticateUserBiometrically env st uuid t
                  else (Traps, st));
          st' = snd call
      in (bindO (fst call) (\<lambda>user.
            case user of
              Some u \<Rightarrow> Returns (auth_success u)
            | None \<Rightarrow> if service_isAccessPossible st' t' then Returns auth_failure
                      else Returns auth_blocked), st'))"

text \<open>The three \<^verbatim>\<open>configure...\<close> commands share this shape: change the stored gatekeeper's policy, save it.\<close>

definition configure ::
    "(Gatekeeper \<Rightarrow> (AuthenticationPolicy_Error, Gatekeeper) outcome) \<Rightarrow> identity_state \<Rightarrow> unit identity_call" where
  "configure change st =
     (case gatekeepers_get (gatekeeperRepository st) of
        None \<Rightarrow> (Returns (), st)
      | Some g \<Rightarrow>
          (case change g of
             Returns g' \<Rightarrow>
               (Returns (), st\<lparr>gatekeeperRepository := gatekeepers_save g' (gatekeeperRepository st)\<rparr>)
           | Throws e \<Rightarrow> (Throws (Policy e), st)
           | Traps \<Rightarrow> (Traps, st)))"

definition configureSession :: "identity_state \<Rightarrow> time \<Rightarrow> unit identity_call" where
  "configureSession st d = configure (\<lambda>g. changeSessionDuration g d) st"

definition configureMaxPasswordAttempts :: "identity_state \<Rightarrow> int \<Rightarrow> unit identity_call" where
  "configureMaxPasswordAttempts st n = configure (\<lambda>g. changeMaxFailedAttempts g n) st"

definition configureBlockDuration :: "identity_state \<Rightarrow> time \<Rightarrow> unit identity_call" where
  "configureBlockDuration st d = configure (\<lambda>g. changeBlockDuration g d) st"

definition service_reset :: "identity_state \<Rightarrow> identity_state" where
  "service_reset st =
     (let st1 = (case primaryUser (userRepository st) of
                   None \<Rightarrow> st
                 | Some u \<Rightarrow> st\<lparr>userRepository := users_remove u (userRepository st)\<rparr>)
      in case gatekeepers_get (gatekeeperRepository st1) of
           None \<Rightarrow> st1
         | Some g \<Rightarrow> st1\<lparr>gatekeeperRepository := gatekeepers_save (reset g) (gatekeeperRepository st1)\<rparr>)"

subsection \<open>The repository interface\<close>

text \<open>
  What \<^verbatim>\<open>SingleUserRepository\<close> and \<^verbatim>\<open>SingleGatekeeperRepository\<close> promise: they hold at most
  one entity, the last one saved, and removing an entity with its key empties them.
\<close>

locale single_repository =
  fixes save :: "'e \<Rightarrow> 'r \<Rightarrow> 'r"
    and remove :: "'e \<Rightarrow> 'r \<Rightarrow> 'r"
    and get :: "'r \<Rightarrow> 'e option"
    and key :: "'e \<Rightarrow> 'k"
  assumes get_save: "get (save x r) = Some x"
    and get_remove: "get (remove x r) =
      (case get r of None \<Rightarrow> None | Some y \<Rightarrow> if key x = key y then None else Some y)"
begin

lemma save_overwrites: "get (save y (save x r)) = get (save y r')"
  by (simp add: get_save)

lemma remove_saved: "key x = key y \<Longrightarrow> get (remove x (save y r)) = None"
  by (simp add: get_remove get_save)

lemma remove_other: "key x \<noteq> key y \<Longrightarrow> get (remove x (save y r)) = Some y"
  by (simp add: get_remove get_save)

lemma remove_stored: "get r = Some x \<Longrightarrow> get (remove x r) = None"
  by (simp add: get_remove)

end

interpretation users: single_repository users_save users_remove primaryUser user_id
  by unfold_locales (auto simp: users_save_def users_remove_def primaryUser_def split: option.splits)

interpretation gatekeepers: single_repository gatekeepers_save gatekeepers_remove gatekeepers_get gatekeeper_id
  by unfold_locales
    (auto simp: gatekeepers_save_def gatekeepers_remove_def gatekeepers_get_def split: option.splits)

lemmas repository_simps [simp] = users.get_save gatekeepers.get_save

subsection \<open>Invariant and behaviour of the services\<close>

definition identity_ok :: "identity_state \<Rightarrow> bool" where
  "identity_ok st =
     (case gatekeepers_get (gatekeeperRepository st) of None \<Rightarrow> True | Some g \<Rightarrow> gatekeeper_ok g)"

text \<open>The commands of the application service, as one step of the state.\<close>

inductive identity_step :: "identity_state \<Rightarrow> identity_state \<Rightarrow> bool" where
  create: "createGatekeeper st i sd mx bd = (gr, st') \<Longrightarrow> identity_step st st'"
| register: "registerUser env st i pw = (rr, st') \<Longrightarrow> identity_step st st'"
| update: "updatePrimaryUserPassword env st pw = (u, st') \<Longrightarrow> identity_step st st'"
| authenticated: "service_authenticateUser env st uuid rq t t' = (ar, st') \<Longrightarrow> identity_step st st'"
| session: "configureSession st d = (u, st') \<Longrightarrow> identity_step st st'"
| attempts: "configureMaxPasswordAttempts st n = (u, st') \<Longrightarrow> identity_step st st'"
| block: "configureBlockDuration st d = (u, st') \<Longrightarrow> identity_step st st'"
| reset: "identity_step st (service_reset st)"

lemma createGatekeeper_inv: "identity_ok st \<Longrightarrow> identity_ok (snd (createGatekeeper st i sd mx bd))"
  by (auto simp: createGatekeeper_def identity_ok_def Let_def Gatekeeper_init_def gatekeeper_ok_def
      policy_ok_def split: outcome.splits)

lemma registerUser_gatekeeper [simp]:
  "gatekeeperRepository (snd (registerUser env st i pw)) = gatekeeperRepository st"
  by (auto simp: registerUser_def Let_def split: outcome.splits)

lemma updatePrimaryUserPassword_gatekeeper [simp]:
  "gatekeeperRepository (snd (updatePrimaryUserPassword env st pw)) = gatekeeperRepository st"
  by (auto simp: updatePrimaryUserPassword_def Let_def split: outcome.splits option.splits)

lemma authenticate_inv: "identity_ok st \<Longrightarrow> identity_ok (snd (authenticate st uuid t auth))"
  by (auto simp: authenticate_def identity_ok_def split: option.splits outcome.splits
      intro: allowAccess_inv denyAccess_inv)

lemma service_authenticateUser_inv:
  "identity_ok st \<Longrightarrow> identity_ok (snd (service_authenticateUser env st uuid rq t t'))"
  by (auto simp: service_authenticateUser_def Let_def authenticateUser_def
      authenticateUserBiometrically_def authenticate_inv split: option.splits)

lemma configure_inv:
  assumes "identity_ok st" and "\<And>g g'. gatekeeper_ok g \<Longrightarrow> change g = Returns g' \<Longrightarrow> gatekeeper_ok g'"
  shows "identity_ok (snd (configure change st))"
  using assms by (auto simp: configure_def identity_ok_def split: option.splits outcome.splits)

lemma configure_invs:
  assumes "identity_ok st"
  shows "identity_ok (snd (configureSession st d))"
    and "identity_ok (snd (configureMaxPasswordAttempts st n))"
    and "identity_ok (snd (configureBlockDuration st d))"
  unfolding configureSession_def configureMaxPasswordAttempts_def configureBlockDuration_def
  by (auto intro: configure_inv [OF assms] change_policy_inv)

lemma service_reset_inv: "identity_ok st \<Longrightarrow> identity_ok (service_reset st)"
  by (auto simp: service_reset_def identity_ok_def Let_def reset_inv split: option.splits)

lemma identity_step_inv: "identity_step st st' \<Longrightarrow> identity_ok st \<Longrightarrow> identity_ok st'"
proof (induction rule: identity_step.induct)
  case (create st i sd mx bd r st')
  then show ?case using createGatekeeper_inv [of st i sd mx bd] by simp
next
  case (register env st i pw r st')
  then show ?case using registerUser_gatekeeper [of env st i pw] by (simp add: identity_ok_def)
next
  case (update env st pw r st')
  then show ?case using updatePrimaryUserPassword_gatekeeper [of env st pw] by (simp add: identity_ok_def)
next
  case (authenticated env st uuid rq t t' r st')
  then show ?case using service_authenticateUser_inv [of st env uuid rq t t'] by simp
next
  case (session st d u st')
  then show ?case using configure_invs(1) [of st d] by simp
next
  case (attempts st n u st')
  then show ?case using configure_invs(2) [of st n] by simp
next
  case (block st d u st')
  then show ?case using configure_invs(3) [of st d] by simp
next
  case (reset st)
  then show ?case by (rule service_reset_inv)
qed

text \<open>The states of the app: any sequence of commands from the empty repositories.\<close>

inductive identity_reachable :: "identity_state \<Rightarrow> bool" where
  empty: "identity_reachable \<lparr>userRepository = None, gatekeeperRepository = None\<rparr>"
| step: "identity_reachable st \<Longrightarrow> identity_step st st' \<Longrightarrow> identity_reachable st'"

lemma identity_reachable_inv: "identity_reachable st \<Longrightarrow> identity_ok st"
proof (induction rule: identity_reachable.induct)
  case empty
  show ?case by (simp add: identity_ok_def gatekeepers_get_def)
next
  case (step st st')
  then show ?case by (blast intro: identity_step_inv)
qed

lemma isUserAuthenticated_ok:
  assumes "identity_ok st"
  shows "isUserAuthenticated st t \<noteq> Traps \<and> isUserAuthenticated st t \<noteq> Throws e"
  using assms
  by (auto simp: isUserAuthenticated_def identity_ok_def hasAccess_ok split: option.splits)

text \<open>A password attempt, by whether the gate is open and the password matches.\<close>

lemma authenticateUser_closed:
  assumes "gatekeepers_get (gatekeeperRepository st) = Some g" and "\<not> isAccessPossible g t"
  shows "authenticateUser env st uuid pw t = (Returns None, st)"
  using assms by (simp add: authenticateUser_def authenticate_def)

lemma authenticateUser_wrong:
  assumes "gatekeepers_get (gatekeeperRepository st) = Some g" and "isAccessPossible g t"
    and "user_by_password (encrypted env pw) (userRepository st) = None"
    and "failedAttemptCount g + 1 \<le> Int_max" and "0 \<le> failedAttemptCount g"
  shows "authenticateUser env st uuid pw t =
    (Returns None, st\<lparr>gatekeeperRepository := Some (g\<lparr>session := None,
       failedAttemptCount := failedAttemptCount g + 1, accessDeniedAt := Some t\<rparr>)\<rparr>)"
  using assms
  by (simp add: authenticateUser_def authenticate_def denyAccess_def toInt_def Int_min_def
      gatekeepers_save_def)

lemma authenticateUser_right:
  assumes "gatekeepers_get (gatekeeperRepository st) = Some g" and "isAccessPossible g t"
    and "user_by_password (encrypted env pw) (userRepository st) = Some u" and "policy_ok (policy g)"
  shows "authenticateUser env st uuid pw t =
    (Returns (Some (user_id u)),
     st\<lparr>gatekeeperRepository := Some (g\<lparr>session := Some \<lparr>session_id = uuid,
          duration = sessionDuration (policy g), startedAt = Some t, endedAt = None, updatedAt = None\<rparr>,
          failedAttemptCount := 0, accessDeniedAt := None\<rparr>),
        userRepository := Some (attachSession u uuid)\<rparr>)"
  using assms
  by (simp add: authenticateUser_def authenticate_def allowAccess_eq gatekeepers_save_def users_save_def)

subsection \<open>Guessing passwords\<close>

text \<open>
  A run of password attempts \<open>(uuid, password, time)\<close> and the number of real guesses among them. An attempt is a real guess if it
  would have succeeded had its password been the one of the user: this is observed on \<^verbatim>\<open>authenticateUser\<close> itself, in the same
  state but with a user who has that password.
\<close>

definition real_guess :: "identity_env \<Rightarrow> identity_state \<Rightarrow> string \<Rightarrow> string \<Rightarrow> time \<Rightarrow> bool" where
  "real_guess env st uuid pw t \<longleftrightarrow>
     fst (authenticateUser env (st\<lparr>userRepository := Some (User_init ''user'' (encrypted env pw))\<rparr>) uuid pw t) = Returns (Some ''user'')"

fun attempt_run :: "identity_env \<Rightarrow> identity_state \<Rightarrow> (string \<times> string \<times> time) list \<Rightarrow> identity_state" where
  "attempt_run env st [] = st"
| "attempt_run env st ((uuid, pw, t) # rs) = attempt_run env (snd (authenticateUser env st uuid pw t)) rs"

fun guesses_evaluated :: "identity_env \<Rightarrow> identity_state \<Rightarrow> (string \<times> string \<times> time) list \<Rightarrow> nat" where
  "guesses_evaluated env st [] = 0"
| "guesses_evaluated env st ((uuid, pw, t) # rs) =
     (if real_guess env st uuid pw t then 1 else 0) +
     guesses_evaluated env (snd (authenticateUser env st uuid pw t)) rs"

definition guess_budget :: "time \<Rightarrow> Gatekeeper \<Rightarrow> nat" where
  "guess_budget T g =
     (if failedAttemptCount g < maxFailedAttempts (policy g)
      then nat (maxFailedAttempts (policy g) - failedAttemptCount g)
      else case accessDeniedAt g of None \<Rightarrow> 1 | Some d \<Rightarrow> if T \<le> d then 0 else 1)"

lemma real_guess_iff:
  assumes "gatekeepers_get (gatekeeperRepository st) = Some g" "gatekeeper_ok g"
  shows "real_guess env st uuid pw t \<longleftrightarrow> isAccessPossible g t"
proof (cases "isAccessPossible g t")
  case True
  let ?st = "st\<lparr>userRepository := Some (User_init ''user'' (encrypted env pw))\<rparr>"
  have "user_by_password (encrypted env pw) (userRepository ?st) = Some (User_init ''user'' (encrypted env pw))"
    by (simp add: user_by_password_def primaryUser_def User_init_def changePassword_def)
  moreover have "gatekeepers_get (gatekeeperRepository ?st) = Some g" "policy_ok (policy g)" using assms by (simp_all add: gatekeeper_ok_def)
  moreover have "user_id (User_init ''user'' (encrypted env pw)) = ''user''" by (simp add: User_init_def changePassword_def)
  ultimately show ?thesis using True authenticateUser_right [of ?st g t env pw _ uuid] by (simp add: real_guess_def)
next
  case False
  with authenticateUser_closed [of "st\<lparr>userRepository := Some (User_init ''user'' (encrypted env pw))\<rparr>" g t env uuid pw] assms(1)
  show ?thesis by (simp add: real_guess_def)
qed

lemma guesses_within_budget:
  assumes "gatekeepers_get (gatekeeperRepository st) = Some g" and "gatekeeper_ok g"
    and "list_all (\<lambda>(uuid, pw, t). user_by_password (encrypted env pw) (userRepository st) = None \<and>
                    T \<le> t \<and> t < T + blockDuration (policy g)) rs"
    and "failedAttemptCount g + int (length rs) \<le> Int_max"
  shows "guesses_evaluated env st rs \<le> guess_budget T g"
  using assms
proof (induction rs arbitrary: st g)
  case Nil
  then show ?case by simp
next
  case (Cons r rs)
  obtain uuid pw t where r: "r = (uuid, pw, t)" by (cases r)
  let ?g' = "g\<lparr>session := None, failedAttemptCount := failedAttemptCount g + 1, accessDeniedAt := Some t\<rparr>"
  have wrong: "user_by_password (encrypted env pw) (userRepository st) = None"
    and t: "T \<le> t" "t < T + blockDuration (policy g)"
    using Cons.prems(3) by (simp_all add: r)
  have cnt: "0 \<le> failedAttemptCount g" using Cons.prems(2) by (simp add: gatekeeper_ok_def)
  show ?case
  proof (cases "isAccessPossible g t")
    case False
    with Cons.prems(1) show ?thesis
      using Cons.IH [OF Cons.prems(1,2)] Cons.prems(3,4)
      by (simp add: r authenticateUser_closed real_guess_iff [OF Cons.prems(1,2)])
  next
    case True
    let ?st' = "st\<lparr>gatekeeperRepository := Some ?g'\<rparr>"
    have step: "snd (authenticateUser env st uuid pw t) = ?st'"
      using authenticateUser_wrong [OF Cons.prems(1) True wrong _ cnt] Cons.prems(4) by simp
    have "gatekeeper_ok ?g'" using Cons.prems(2) by (simp add: gatekeeper_ok_def)
    then have "guesses_evaluated env ?st' rs \<le> guess_budget T ?g'"
      using Cons.prems by (intro Cons.IH) (auto simp: gatekeepers_get_def)
    moreover have "Suc (guess_budget T ?g') \<le> guess_budget T g"
      using True t by (auto simp: guess_budget_def isAccessPossible_def Let_def split: option.splits)
    ultimately show ?thesis
      using True by (simp add: r step real_guess_iff [OF Cons.prems(1,2)])
  qed
qed

subsection \<open>The rule against tripled characters\<close>

fun no_triple :: "'a list \<Rightarrow> bool" where
  "no_triple (a # b # c # r) = (\<not> (a = b \<and> b = c) \<and> no_triple (b # c # r))"
| "no_triple _ = True"

lemma no_triple_Cons_neq: "p \<noteq> c \<Longrightarrow> no_triple (p # c # cs) = no_triple (c # cs)"
  by (cases cs) auto

lemma tripple_loop_no_triple:
  "tripple_loop p 1 cs = no_triple (p # cs) \<and> tripple_loop p 2 cs = no_triple (p # p # cs)"
proof (induction cs arbitrary: p)
  case Nil
  show ?case by simp
next
  case (Cons c cs)
  show ?case
  proof (cases "c = p")
    case True
    with Cons.IH [of p] show ?thesis by (simp add: numeral_2_eq_2)
  next
    case False
    with Cons.IH [of c] show ?thesis by (simp add: no_triple_Cons_neq)
  qed
qed

lemma no_triple_nth:
  "no_triple s \<longleftrightarrow> \<not> (\<exists>i. i + 2 < length s \<and> s ! i = s ! (i + 1) \<and> s ! (i + 1) = s ! (i + 2))"
proof (induction s rule: no_triple.induct)
  case (1 a b c r)
  let ?P = "\<lambda>s i. i + 2 < length s \<and> s ! i = s ! (i + 1) \<and> s ! (i + 1) = s ! (i + 2)"
  have "(\<exists>i. ?P (a # b # c # r) i) \<longleftrightarrow> ?P (a # b # c # r) 0 \<or> (\<exists>i. ?P (a # b # c # r) (Suc i))"
    by (metis not0_implies_Suc)
  also have "\<dots> \<longleftrightarrow> (a = b \<and> b = c) \<or> (\<exists>i. ?P (b # c # r) i)" by simp
  finally show ?case using 1 by simp
qed simp_all

lemma hasNoTrippleChar_no_triple: "hasNoTrippleChar s = no_triple s"
proof (cases s)
  case Nil
  then show ?thesis by (simp add: hasNoTrippleChar_def)
next
  case (Cons c cs)
  have "\<not> length s > 2 \<Longrightarrow> no_triple s"
    by (induction s rule: no_triple.induct) auto
  then show ?thesis
    using tripple_loop_no_triple [of c cs] by (simp add: hasNoTrippleChar_def Cons)
qed

text \<open>When \<^verbatim>\<open>registerUser\<close> accepts a password.\<close>

definition registrable :: "identity_state \<Rightarrow> string \<Rightarrow> bool" where
  "registrable st pw \<longleftrightarrow> primaryUser (userRepository st) = None \<and> 6 \<le> length pw \<and> hasLetter pw \<and>
     hasDecimalDigit pw \<and> no_triple pw"

lemma registerUser_eq:
  "if registrable st pw
   then registerUser env st i pw = (bindO (biometry_activate env) (\<lambda>_. Returns i),
          st\<lparr>userRepository := Some (User_init i (encrypted env pw))\<rparr>)
   else \<exists>e. registerUser env st i pw = (Throws e, st)"
proof -
  let ?chk = "bindO (assertArgument (primaryUser (userRepository st) = None)
    (Registration userAlreadyRegistered)) (\<lambda>_. validatePlaintextPassword pw)"
  have chk: "?chk = Returns () \<longleftrightarrow> registrable st pw"
    by (auto simp: validatePlaintextPassword_def registrable_def hasNoTrippleChar_no_triple)
  have "?chk \<noteq> Traps"
    by (auto simp: validatePlaintextPassword_def outcome_simps)
  with chk show ?thesis
    by (cases ?chk) (auto simp: registerUser_def Let_def users_save_def User_init_def changePassword_def
        assertArgument_def)
qed

subsection \<open>Properties\<close>

text \<open>
  (C2) Guessing is rate limited. During any window shorter than the policy's block duration at most \<^verbatim>\<open>maxFailedAttempts\<close> wrong passwords are
  real guesses, that is, attempts that would have succeeded had the password been the right one. Every other attempt, also one with the right
  password, is refused and changes nothing.
\<close>

theorem password_guesses_limited:
  assumes "gatekeepers_get (gatekeeperRepository st) = Some g" and "gatekeeper_ok g"
    and "list_all (\<lambda>(uuid, pw, t). user_by_password (encrypted env pw) (userRepository st) = None \<and>
                    T \<le> t \<and> t < T + blockDuration (policy g)) rs"
    and "failedAttemptCount g + int (length rs) \<le> Int_max"
  shows "int (guesses_evaluated env st rs) \<le> maxFailedAttempts (policy g) \<and>
    (\<forall>uuid pw t. \<not> real_guess env st uuid pw t \<longrightarrow> authenticateUser env st uuid pw t = (Returns None, st))"
proof -
  have "guesses_evaluated env st rs \<le> guess_budget T g"
    using assms by (rule guesses_within_budget)
  moreover have "int (guess_budget T g) \<le> maxFailedAttempts (policy g)"
    using assms(2) by (auto simp: guess_budget_def gatekeeper_ok_def policy_ok_def split: option.splits)
  moreover have "authenticateUser env st uuid pw t = (Returns None, st)" if "\<not> real_guess env st uuid pw t" for uuid pw t
    using that real_guess_iff [OF assms(1,2)] authenticateUser_closed [OF assms(1)] by simp
  ultimately show ?thesis by simp
qed

theorem password_guesses_limited_witness:
  "int (guesses_evaluated \<lparr>encrypted = rev, biometry_activate = Returns (),
      biometry_authenticate = Returns False, biometryType = noBiometry, isAuthenticationAvailable = False\<rparr>
     \<lparr>userRepository = Some (User_init ''u'' ''1drowssap''),
      gatekeeperRepository = Some (Gatekeeper_init ''g''
        \<lparr>sessionDuration = 60, maxFailedAttempts = 2, blockDuration = 15\<rparr>)\<rparr>
     [(''a'', ''guess1'', 1), (''b'', ''guess2'', 2), (''c'', ''guess3'', 3)]) \<le> 2"
proof -
  let ?p = "\<lparr>sessionDuration = 60, maxFailedAttempts = 2, blockDuration = 15\<rparr>"
  let ?env = "\<lparr>encrypted = rev, biometry_activate = Returns (), biometry_authenticate = Returns False,
    biometryType = noBiometry, isAuthenticationAvailable = False\<rparr> :: identity_env"
  let ?st = "\<lparr>userRepository = Some (User_init ''u'' ''1drowssap''),
    gatekeeperRepository = Some (Gatekeeper_init ''g'' ?p)\<rparr>"
  have g: "gatekeepers_get (gatekeeperRepository ?st) = Some (Gatekeeper_init ''g'' ?p)"
    by (simp add: gatekeepers_get_def)
  have ok: "gatekeeper_ok (Gatekeeper_init ''g'' ?p)"
    by (simp add: gatekeeper_ok_def Gatekeeper_init_def policy_ok_def)
  have wrong: "list_all (\<lambda>(uuid, pw, t). user_by_password (encrypted ?env pw) (userRepository ?st) = None \<and>
      0 \<le> t \<and> t < 0 + blockDuration (policy (Gatekeeper_init ''g'' ?p)))
      [(''a'', ''guess1'', 1), (''b'', ''guess2'', 2), (''c'', ''guess3'', 3)]"
    by (simp add: user_by_password_def primaryUser_def User_init_def changePassword_def Gatekeeper_init_def)
  show ?thesis
    using password_guesses_limited [OF g ok wrong]
    by (simp add: Gatekeeper_init_def Int_max_def)
qed

text \<open>
  (C16) A successful password login. It needs an open gate and the user's password, it returns
  that user's id, and afterwards \<^verbatim>\<open>isUserAuthenticated\<close> holds exactly from the login until the
  session duration has passed.
\<close>

theorem login_grants_session:
  assumes "identity_ok st" and "gatekeepers_get (gatekeeperRepository st) = Some g"
    and "authenticateUser env st uuid pw t = (Returns (Some uid), st')"
  shows "isAccessPossible g t \<and> verifyPassword env st pw \<and>
    (\<exists>u. primaryUser (userRepository st) = Some u \<and> user_id u = uid) \<and>
    isUserAuthenticated st' t' = Returns (t \<le> t' \<and> t' \<le> t + sessionDuration (policy g))"
proof -
  have ok: "gatekeeper_ok g" using assms(1,2) by (simp add: identity_ok_def)
  have gate: "isAccessPossible g t"
    using assms(2,3) authenticateUser_closed by (cases "isAccessPossible g t") fastforce+
  obtain u where u: "user_by_password (encrypted env pw) (userRepository st) = Some u"
    using assms(2,3) gate
    by (cases "user_by_password (encrypted env pw) (userRepository st)")
      (auto simp: authenticateUser_def authenticate_def split: outcome.splits)
  have "policy_ok (policy g)" using ok by (simp add: gatekeeper_ok_def)
  note right = authenticateUser_right [OF assms(2) gate u this, of uuid]
  have "0 < sessionDuration (policy g)" using ok by (simp add: gatekeeper_ok_def policy_ok_def)
  then have "isUserAuthenticated st' t' = Returns (t \<le> t' \<and> t' \<le> t + sessionDuration (policy g))"
    using right assms(3)
    by (auto simp: isUserAuthenticated_def gatekeepers_get_def primaryUser_def attachSession_def
        hasAccess_def isActiveAt_def)
  moreover have "primaryUser (userRepository st) = Some u"
    using u by (auto simp: user_by_password_def split: if_splits)
  ultimately show ?thesis using gate u right assms(3) by (auto simp: verifyPassword_def)
qed

theorem login_grants_session_witness:
  "isUserAuthenticated
     \<lparr>userRepository = Some \<lparr>user_id = ''u'', password = ''1drowssap'', sessionID = Some ''s''\<rparr>,
      gatekeeperRepository = Some \<lparr>gatekeeper_id = ''g'',
        policy = \<lparr>sessionDuration = 60, maxFailedAttempts = 2, blockDuration = 15\<rparr>,
        session = Some \<lparr>session_id = ''s'', duration = 60, startedAt = Some 7, endedAt = None, updatedAt = None\<rparr>,
        failedAttemptCount = 0, accessDeniedAt = None\<rparr>\<rparr> 67 = Returns True"
proof -
  let ?p = "\<lparr>sessionDuration = 60, maxFailedAttempts = 2, blockDuration = 15\<rparr>"
  let ?env = "\<lparr>encrypted = rev, biometry_activate = Returns (), biometry_authenticate = Returns False,
    biometryType = noBiometry, isAuthenticationAvailable = False\<rparr> :: identity_env"
  let ?st = "\<lparr>userRepository = Some (User_init ''u'' ''1drowssap''),
    gatekeeperRepository = Some (Gatekeeper_init ''g'' ?p)\<rparr>"
  have ok: "identity_ok ?st"
    by (simp add: identity_ok_def gatekeepers_get_def gatekeeper_ok_def Gatekeeper_init_def policy_ok_def)
  have g: "gatekeepers_get (gatekeeperRepository ?st) = Some (Gatekeeper_init ''g'' ?p)"
    by (simp add: gatekeepers_get_def)
  have u: "user_by_password (encrypted ?env ''password1'') (userRepository ?st) = Some (User_init ''u'' ''1drowssap'')"
    by (simp add: user_by_password_def primaryUser_def User_init_def changePassword_def)
  have gate: "isAccessPossible (Gatekeeper_init ''g'' ?p) 7"
    by (simp add: Gatekeeper_init_def isAccessPossible_def)
  have pol: "policy_ok (policy (Gatekeeper_init ''g'' ?p))"
    by (simp add: Gatekeeper_init_def policy_ok_def)
  note login = authenticateUser_right [OF g gate u pol, of "''s''"]
  show ?thesis
    using login_grants_session [OF ok g, of ?env "''s''" "''password1''" 7] login
    by (simp add: Gatekeeper_init_def User_init_def changePassword_def attachSession_def)
qed

text \<open>
  The state of the identity services. In every state reachable by commands of the
  application service, whatever they return or throw, the stored gatekeeper is well formed
  and asking whether the user is authenticated neither throws nor stops the process.
\<close>

theorem identity_reachable_safe:
  assumes "identity_reachable st"
  shows "identity_ok st \<and> isUserAuthenticated st t \<noteq> Traps \<and> isUserAuthenticated st t \<noteq> Throws e"
  using identity_reachable_inv [OF assms] isUserAuthenticated_ok by blast

theorem identity_reachable_safe_witness:
  "isUserAuthenticated (service_reset \<lparr>userRepository = None, gatekeeperRepository = None\<rparr>) 0 \<noteq> Traps"
proof -
  have "identity_reachable (service_reset \<lparr>userRepository = None, gatekeeperRepository = None\<rparr>)"
    by (rule identity_reachable.step [OF identity_reachable.empty identity_step.reset])
  from identity_reachable_safe [OF this] show ?thesis by blast
qed

text \<open>
  Registration. It succeeds exactly when no user is registered, the password has at least
  6 characters, a letter, a digit and no character three times in a row, and the biometric
  activation succeeds; then the password that verifies is the one registered, up to
  collisions of the hash. A refused password changes nothing, but when only the activation
  throws, the error is passed on and the user stays registered.
\<close>

theorem registration:
  "((\<exists>uid. fst (registerUser env st i pw) = Returns uid) \<longleftrightarrow>
      registrable st pw \<and> biometry_activate env = Returns ()) \<and>
   (isUserRegistered (snd (registerUser env st i pw)) \<longleftrightarrow> isUserRegistered st \<or> registrable st pw) \<and>
   (registrable st pw \<longrightarrow>
      verifyPassword env (snd (registerUser env st i pw)) pw' = (encrypted env pw' = encrypted env pw)) \<and>
   (\<not> registrable st pw \<longrightarrow> snd (registerUser env st i pw) = st)"
proof (cases "registrable st pw")
  case True
  with registerUser_eq [of st pw env i] show ?thesis
    by (auto simp: isUserRegistered_def primaryUser_def verifyPassword_def user_by_password_def
        User_init_def changePassword_def)
next
  case False
  with registerUser_eq [of st pw env i] show ?thesis by auto
qed

theorem registration_witness:
  "isUserRegistered (snd (registerUser \<lparr>encrypted = rev, biometry_activate = Throws biometryFailed,
      biometry_authenticate = Returns False, biometryType = noBiometry, isAuthenticationAvailable = False\<rparr>
      \<lparr>userRepository = None, gatekeeperRepository = None\<rparr> ''u'' ''pass12''))"
proof -
  have "registrable \<lparr>userRepository = None, gatekeeperRepository = None\<rparr> ''pass12''"
    by (simp add: registrable_def primaryUser_def hasLetter_def hasDecimalDigit_def is_letter_def
        is_decimalDigit_def)
  then show ?thesis using registration by blast
qed

text \<open>
  The counting loop of \<^verbatim>\<open>hasNoTrippleChar\<close> decides exactly that no three consecutive
  characters are equal.
\<close>

theorem hasNoTrippleChar_correct:
  "hasNoTrippleChar s \<longleftrightarrow>
     \<not> (\<exists>i. i + 2 < length s \<and> s ! i = s ! (i + 1) \<and> s ! (i + 1) = s ! (i + 2))"
  by (simp only: hasNoTrippleChar_no_triple no_triple_nth)

end
