(* ===== verification/ObjMacTable.thy ===== *)
theory ObjMacTable
  imports Prelude
begin

section \<open>The ASN.1 object macros of OpenSSL's obj\_mac.h\<close>

text \<open>
  The object table of \<^verbatim>\<open>src/Library/iphoneos/include/openssl/obj_mac.h\<close>, the header of the
  \<^verbatim>\<open>libcrypto\<close> the app links (\<^verbatim>\<open>-lcrypto\<close>). An object is a group of up to four macros:
  \<^verbatim>\<open>SN_x\<close> (short name), \<^verbatim>\<open>LN_x\<close> (long name), \<^verbatim>\<open>NID_x\<close> (numeric id) and \<^verbatim>\<open>OBJ_x\<close>, the
  comma-separated arcs of its object identifier, written relative to the \<^verbatim>\<open>OBJ_\<close> macro of
  its parent.

  Each \<^verbatim>\<open>OBJ_x\<close> macro is a definition of the same name: what the preprocessor pastes is a
  list of arcs, and the parent macro is the definition it extends. That the theory is
  accepted shows that no such macro is cyclic or refers to an undefined one. \<open>obj_mac_01\<close> to
  \<open>obj_mac_28\<close> hold the groups of consecutive stretches of the header, in its order.
\<close>

named_theorems obj_mac \<open>the expansions of the OBJ macros\<close>

datatype obj_def =
  Obj (sym: string) (SN: "string option") (LN: "string option") (NID: "int option")
      (OBJ: "int list option")

subsection \<open>Lines 65 to 212\<close>

definition OBJ_undef :: "int list" where
  [obj_mac]: "OBJ_undef = [0]"

definition OBJ_itu_t :: "int list" where
  [obj_mac]: "OBJ_itu_t = [0]"

definition OBJ_ccitt :: "int list" where
  [obj_mac]: "OBJ_ccitt = OBJ_itu_t"

definition OBJ_iso :: "int list" where
  [obj_mac]: "OBJ_iso = [1]"

definition OBJ_joint_iso_itu_t :: "int list" where
  [obj_mac]: "OBJ_joint_iso_itu_t = [2]"

definition OBJ_joint_iso_ccitt :: "int list" where
  [obj_mac]: "OBJ_joint_iso_ccitt = OBJ_joint_iso_itu_t"

definition OBJ_member_body :: "int list" where
  [obj_mac]: "OBJ_member_body = OBJ_iso @ [2]"

definition OBJ_identified_organization :: "int list" where
  [obj_mac]: "OBJ_identified_organization = OBJ_iso @ [3]"

definition OBJ_hmac_md5 :: "int list" where
  [obj_mac]: "OBJ_hmac_md5 = OBJ_identified_organization @ [6, 1, 5, 5, 8, 1, 1]"

definition OBJ_hmac_sha1 :: "int list" where
  [obj_mac]: "OBJ_hmac_sha1 = OBJ_identified_organization @ [6, 1, 5, 5, 8, 1, 2]"

definition OBJ_certicom_arc :: "int list" where
  [obj_mac]: "OBJ_certicom_arc = OBJ_identified_organization @ [132]"

definition OBJ_international_organizations :: "int list" where
  [obj_mac]: "OBJ_international_organizations = OBJ_joint_iso_itu_t @ [23]"

definition OBJ_wap :: "int list" where
  [obj_mac]: "OBJ_wap = OBJ_international_organizations @ [43]"

definition OBJ_wap_wsg :: "int list" where
  [obj_mac]: "OBJ_wap_wsg = OBJ_wap @ [1]"

definition OBJ_selected_attribute_types :: "int list" where
  [obj_mac]: "OBJ_selected_attribute_types = OBJ_joint_iso_itu_t @ [5, 1, 5]"

definition OBJ_clearance :: "int list" where
  [obj_mac]: "OBJ_clearance = OBJ_selected_attribute_types @ [55]"

definition OBJ_ISO_US :: "int list" where
  [obj_mac]: "OBJ_ISO_US = OBJ_member_body @ [840]"

definition OBJ_X9_57 :: "int list" where
  [obj_mac]: "OBJ_X9_57 = OBJ_ISO_US @ [10040]"

definition OBJ_X9cm :: "int list" where
  [obj_mac]: "OBJ_X9cm = OBJ_X9_57 @ [4]"

definition OBJ_dsa :: "int list" where
  [obj_mac]: "OBJ_dsa = OBJ_X9cm @ [1]"

definition OBJ_dsaWithSHA1 :: "int list" where
  [obj_mac]: "OBJ_dsaWithSHA1 = OBJ_X9cm @ [3]"

definition OBJ_ansi_X9_62 :: "int list" where
  [obj_mac]: "OBJ_ansi_X9_62 = OBJ_ISO_US @ [10045]"

definition OBJ_X9_62_id_fieldType :: "int list" where
  [obj_mac]: "OBJ_X9_62_id_fieldType = OBJ_ansi_X9_62 @ [1]"

definition OBJ_X9_62_prime_field :: "int list" where
  [obj_mac]: "OBJ_X9_62_prime_field = OBJ_X9_62_id_fieldType @ [1]"

definition OBJ_X9_62_characteristic_two_field :: "int list" where
  [obj_mac]: "OBJ_X9_62_characteristic_two_field = OBJ_X9_62_id_fieldType @ [2]"

definition OBJ_X9_62_id_characteristic_two_basis :: "int list" where
  [obj_mac]: "OBJ_X9_62_id_characteristic_two_basis = OBJ_X9_62_characteristic_two_field @ [3]"

definition OBJ_X9_62_onBasis :: "int list" where
  [obj_mac]: "OBJ_X9_62_onBasis = OBJ_X9_62_id_characteristic_two_basis @ [1]"

definition OBJ_X9_62_tpBasis :: "int list" where
  [obj_mac]: "OBJ_X9_62_tpBasis = OBJ_X9_62_id_characteristic_two_basis @ [2]"

definition OBJ_X9_62_ppBasis :: "int list" where
  [obj_mac]: "OBJ_X9_62_ppBasis = OBJ_X9_62_id_characteristic_two_basis @ [3]"

definition OBJ_X9_62_id_publicKeyType :: "int list" where
  [obj_mac]: "OBJ_X9_62_id_publicKeyType = OBJ_ansi_X9_62 @ [2]"

definition OBJ_X9_62_id_ecPublicKey :: "int list" where
  [obj_mac]: "OBJ_X9_62_id_ecPublicKey = OBJ_X9_62_id_publicKeyType @ [1]"

definition OBJ_X9_62_ellipticCurve :: "int list" where
  [obj_mac]: "OBJ_X9_62_ellipticCurve = OBJ_ansi_X9_62 @ [3]"

definition OBJ_X9_62_c_TwoCurve :: "int list" where
  [obj_mac]: "OBJ_X9_62_c_TwoCurve = OBJ_X9_62_ellipticCurve @ [0]"

definition OBJ_X9_62_c2pnb163v1 :: "int list" where
  [obj_mac]: "OBJ_X9_62_c2pnb163v1 = OBJ_X9_62_c_TwoCurve @ [1]"

definition OBJ_X9_62_c2pnb163v2 :: "int list" where
  [obj_mac]: "OBJ_X9_62_c2pnb163v2 = OBJ_X9_62_c_TwoCurve @ [2]"

definition OBJ_X9_62_c2pnb163v3 :: "int list" where
  [obj_mac]: "OBJ_X9_62_c2pnb163v3 = OBJ_X9_62_c_TwoCurve @ [3]"

definition obj_mac_01 :: "obj_def list" where
  "obj_mac_01 = [
    Obj ''undef'' (Some ''UNDEF'') (Some ''undefined'') (Some 0) (Some OBJ_undef),
    Obj ''itu_t'' (Some ''ITU-T'') (Some ''itu-t'') (Some 645) (Some OBJ_itu_t),
    Obj ''ccitt'' None None (Some 404) (Some OBJ_ccitt),
    Obj ''iso'' (Some ''ISO'') (Some ''iso'') (Some 181) (Some OBJ_iso),
    Obj ''joint_iso_itu_t'' (Some ''JOINT-ISO-ITU-T'') (Some ''joint-iso-itu-t'') (Some 646) (Some OBJ_joint_iso_itu_t),
    Obj ''joint_iso_ccitt'' None None (Some 393) (Some OBJ_joint_iso_ccitt),
    Obj ''member_body'' (Some ''member-body'') (Some ''ISO Member Body'') (Some 182) (Some OBJ_member_body),
    Obj ''identified_organization'' (Some ''identified-organization'') None (Some 676) (Some OBJ_identified_organization),
    Obj ''hmac_md5'' (Some ''HMAC-MD5'') (Some ''hmac-md5'') (Some 780) (Some OBJ_hmac_md5),
    Obj ''hmac_sha1'' (Some ''HMAC-SHA1'') (Some ''hmac-sha1'') (Some 781) (Some OBJ_hmac_sha1),
    Obj ''certicom_arc'' (Some ''certicom-arc'') None (Some 677) (Some OBJ_certicom_arc),
    Obj ''international_organizations'' (Some ''international-organizations'') (Some ''International Organizations'') (Some 647) (Some OBJ_international_organizations),
    Obj ''wap'' (Some ''wap'') None (Some 678) (Some OBJ_wap),
    Obj ''wap_wsg'' (Some ''wap-wsg'') None (Some 679) (Some OBJ_wap_wsg),
    Obj ''selected_attribute_types'' (Some ''selected-attribute-types'') (Some ''Selected Attribute Types'') (Some 394) (Some OBJ_selected_attribute_types),
    Obj ''clearance'' (Some ''clearance'') None (Some 395) (Some OBJ_clearance),
    Obj ''ISO_US'' (Some ''ISO-US'') (Some ''ISO US Member Body'') (Some 183) (Some OBJ_ISO_US),
    Obj ''X9_57'' (Some ''X9-57'') (Some ''X9.57'') (Some 184) (Some OBJ_X9_57),
    Obj ''X9cm'' (Some ''X9cm'') (Some ''X9.57 CM ?'') (Some 185) (Some OBJ_X9cm),
    Obj ''dsa'' (Some ''DSA'') (Some ''dsaEncryption'') (Some 116) (Some OBJ_dsa),
    Obj ''dsaWithSHA1'' (Some ''DSA-SHA1'') (Some ''dsaWithSHA1'') (Some 113) (Some OBJ_dsaWithSHA1),
    Obj ''ansi_X9_62'' (Some ''ansi-X9-62'') (Some ''ANSI X9.62'') (Some 405) (Some OBJ_ansi_X9_62),
    Obj ''X9_62_id_fieldType'' None None None (Some OBJ_X9_62_id_fieldType),
    Obj ''X9_62_prime_field'' (Some ''prime-field'') None (Some 406) (Some OBJ_X9_62_prime_field),
    Obj ''X9_62_characteristic_two_field'' (Some ''characteristic-two-field'') None (Some 407) (Some OBJ_X9_62_characteristic_two_field),
    Obj ''X9_62_id_characteristic_two_basis'' (Some ''id-characteristic-two-basis'') None (Some 680) (Some OBJ_X9_62_id_characteristic_two_basis),
    Obj ''X9_62_onBasis'' (Some ''onBasis'') None (Some 681) (Some OBJ_X9_62_onBasis),
    Obj ''X9_62_tpBasis'' (Some ''tpBasis'') None (Some 682) (Some OBJ_X9_62_tpBasis),
    Obj ''X9_62_ppBasis'' (Some ''ppBasis'') None (Some 683) (Some OBJ_X9_62_ppBasis),
    Obj ''X9_62_id_publicKeyType'' None None None (Some OBJ_X9_62_id_publicKeyType),
    Obj ''X9_62_id_ecPublicKey'' (Some ''id-ecPublicKey'') None (Some 408) (Some OBJ_X9_62_id_ecPublicKey),
    Obj ''X9_62_ellipticCurve'' None None None (Some OBJ_X9_62_ellipticCurve),
    Obj ''X9_62_c_TwoCurve'' None None None (Some OBJ_X9_62_c_TwoCurve),
    Obj ''X9_62_c2pnb163v1'' (Some ''c2pnb163v1'') None (Some 684) (Some OBJ_X9_62_c2pnb163v1),
    Obj ''X9_62_c2pnb163v2'' (Some ''c2pnb163v2'') None (Some 685) (Some OBJ_X9_62_c2pnb163v2),
    Obj ''X9_62_c2pnb163v3'' (Some ''c2pnb163v3'') None (Some 686) (Some OBJ_X9_62_c2pnb163v3)]"

subsection \<open>Lines 214 to 362\<close>

definition OBJ_X9_62_c2pnb176v1 :: "int list" where
  [obj_mac]: "OBJ_X9_62_c2pnb176v1 = OBJ_X9_62_c_TwoCurve @ [4]"

definition OBJ_X9_62_c2tnb191v1 :: "int list" where
  [obj_mac]: "OBJ_X9_62_c2tnb191v1 = OBJ_X9_62_c_TwoCurve @ [5]"

definition OBJ_X9_62_c2tnb191v2 :: "int list" where
  [obj_mac]: "OBJ_X9_62_c2tnb191v2 = OBJ_X9_62_c_TwoCurve @ [6]"

definition OBJ_X9_62_c2tnb191v3 :: "int list" where
  [obj_mac]: "OBJ_X9_62_c2tnb191v3 = OBJ_X9_62_c_TwoCurve @ [7]"

definition OBJ_X9_62_c2onb191v4 :: "int list" where
  [obj_mac]: "OBJ_X9_62_c2onb191v4 = OBJ_X9_62_c_TwoCurve @ [8]"

definition OBJ_X9_62_c2onb191v5 :: "int list" where
  [obj_mac]: "OBJ_X9_62_c2onb191v5 = OBJ_X9_62_c_TwoCurve @ [9]"

definition OBJ_X9_62_c2pnb208w1 :: "int list" where
  [obj_mac]: "OBJ_X9_62_c2pnb208w1 = OBJ_X9_62_c_TwoCurve @ [10]"

definition OBJ_X9_62_c2tnb239v1 :: "int list" where
  [obj_mac]: "OBJ_X9_62_c2tnb239v1 = OBJ_X9_62_c_TwoCurve @ [11]"

definition OBJ_X9_62_c2tnb239v2 :: "int list" where
  [obj_mac]: "OBJ_X9_62_c2tnb239v2 = OBJ_X9_62_c_TwoCurve @ [12]"

definition OBJ_X9_62_c2tnb239v3 :: "int list" where
  [obj_mac]: "OBJ_X9_62_c2tnb239v3 = OBJ_X9_62_c_TwoCurve @ [13]"

definition OBJ_X9_62_c2onb239v4 :: "int list" where
  [obj_mac]: "OBJ_X9_62_c2onb239v4 = OBJ_X9_62_c_TwoCurve @ [14]"

definition OBJ_X9_62_c2onb239v5 :: "int list" where
  [obj_mac]: "OBJ_X9_62_c2onb239v5 = OBJ_X9_62_c_TwoCurve @ [15]"

definition OBJ_X9_62_c2pnb272w1 :: "int list" where
  [obj_mac]: "OBJ_X9_62_c2pnb272w1 = OBJ_X9_62_c_TwoCurve @ [16]"

definition OBJ_X9_62_c2pnb304w1 :: "int list" where
  [obj_mac]: "OBJ_X9_62_c2pnb304w1 = OBJ_X9_62_c_TwoCurve @ [17]"

definition OBJ_X9_62_c2tnb359v1 :: "int list" where
  [obj_mac]: "OBJ_X9_62_c2tnb359v1 = OBJ_X9_62_c_TwoCurve @ [18]"

definition OBJ_X9_62_c2pnb368w1 :: "int list" where
  [obj_mac]: "OBJ_X9_62_c2pnb368w1 = OBJ_X9_62_c_TwoCurve @ [19]"

definition OBJ_X9_62_c2tnb431r1 :: "int list" where
  [obj_mac]: "OBJ_X9_62_c2tnb431r1 = OBJ_X9_62_c_TwoCurve @ [20]"

definition OBJ_X9_62_primeCurve :: "int list" where
  [obj_mac]: "OBJ_X9_62_primeCurve = OBJ_X9_62_ellipticCurve @ [1]"

definition OBJ_X9_62_prime192v1 :: "int list" where
  [obj_mac]: "OBJ_X9_62_prime192v1 = OBJ_X9_62_primeCurve @ [1]"

definition OBJ_X9_62_prime192v2 :: "int list" where
  [obj_mac]: "OBJ_X9_62_prime192v2 = OBJ_X9_62_primeCurve @ [2]"

definition OBJ_X9_62_prime192v3 :: "int list" where
  [obj_mac]: "OBJ_X9_62_prime192v3 = OBJ_X9_62_primeCurve @ [3]"

definition OBJ_X9_62_prime239v1 :: "int list" where
  [obj_mac]: "OBJ_X9_62_prime239v1 = OBJ_X9_62_primeCurve @ [4]"

definition OBJ_X9_62_prime239v2 :: "int list" where
  [obj_mac]: "OBJ_X9_62_prime239v2 = OBJ_X9_62_primeCurve @ [5]"

definition OBJ_X9_62_prime239v3 :: "int list" where
  [obj_mac]: "OBJ_X9_62_prime239v3 = OBJ_X9_62_primeCurve @ [6]"

definition OBJ_X9_62_prime256v1 :: "int list" where
  [obj_mac]: "OBJ_X9_62_prime256v1 = OBJ_X9_62_primeCurve @ [7]"

definition OBJ_X9_62_id_ecSigType :: "int list" where
  [obj_mac]: "OBJ_X9_62_id_ecSigType = OBJ_ansi_X9_62 @ [4]"

definition OBJ_ecdsa_with_SHA1 :: "int list" where
  [obj_mac]: "OBJ_ecdsa_with_SHA1 = OBJ_X9_62_id_ecSigType @ [1]"

definition OBJ_ecdsa_with_Recommended :: "int list" where
  [obj_mac]: "OBJ_ecdsa_with_Recommended = OBJ_X9_62_id_ecSigType @ [2]"

definition OBJ_ecdsa_with_Specified :: "int list" where
  [obj_mac]: "OBJ_ecdsa_with_Specified = OBJ_X9_62_id_ecSigType @ [3]"

definition OBJ_ecdsa_with_SHA224 :: "int list" where
  [obj_mac]: "OBJ_ecdsa_with_SHA224 = OBJ_ecdsa_with_Specified @ [1]"

definition OBJ_ecdsa_with_SHA256 :: "int list" where
  [obj_mac]: "OBJ_ecdsa_with_SHA256 = OBJ_ecdsa_with_Specified @ [2]"

definition OBJ_ecdsa_with_SHA384 :: "int list" where
  [obj_mac]: "OBJ_ecdsa_with_SHA384 = OBJ_ecdsa_with_Specified @ [3]"

definition OBJ_ecdsa_with_SHA512 :: "int list" where
  [obj_mac]: "OBJ_ecdsa_with_SHA512 = OBJ_ecdsa_with_Specified @ [4]"

definition OBJ_secg_ellipticCurve :: "int list" where
  [obj_mac]: "OBJ_secg_ellipticCurve = OBJ_certicom_arc @ [0]"

definition OBJ_secp112r1 :: "int list" where
  [obj_mac]: "OBJ_secp112r1 = OBJ_secg_ellipticCurve @ [6]"

definition OBJ_secp112r2 :: "int list" where
  [obj_mac]: "OBJ_secp112r2 = OBJ_secg_ellipticCurve @ [7]"

definition OBJ_secp128r1 :: "int list" where
  [obj_mac]: "OBJ_secp128r1 = OBJ_secg_ellipticCurve @ [28]"

definition OBJ_secp128r2 :: "int list" where
  [obj_mac]: "OBJ_secp128r2 = OBJ_secg_ellipticCurve @ [29]"

definition OBJ_secp160k1 :: "int list" where
  [obj_mac]: "OBJ_secp160k1 = OBJ_secg_ellipticCurve @ [9]"

definition obj_mac_02 :: "obj_def list" where
  "obj_mac_02 = [
    Obj ''X9_62_c2pnb176v1'' (Some ''c2pnb176v1'') None (Some 687) (Some OBJ_X9_62_c2pnb176v1),
    Obj ''X9_62_c2tnb191v1'' (Some ''c2tnb191v1'') None (Some 688) (Some OBJ_X9_62_c2tnb191v1),
    Obj ''X9_62_c2tnb191v2'' (Some ''c2tnb191v2'') None (Some 689) (Some OBJ_X9_62_c2tnb191v2),
    Obj ''X9_62_c2tnb191v3'' (Some ''c2tnb191v3'') None (Some 690) (Some OBJ_X9_62_c2tnb191v3),
    Obj ''X9_62_c2onb191v4'' (Some ''c2onb191v4'') None (Some 691) (Some OBJ_X9_62_c2onb191v4),
    Obj ''X9_62_c2onb191v5'' (Some ''c2onb191v5'') None (Some 692) (Some OBJ_X9_62_c2onb191v5),
    Obj ''X9_62_c2pnb208w1'' (Some ''c2pnb208w1'') None (Some 693) (Some OBJ_X9_62_c2pnb208w1),
    Obj ''X9_62_c2tnb239v1'' (Some ''c2tnb239v1'') None (Some 694) (Some OBJ_X9_62_c2tnb239v1),
    Obj ''X9_62_c2tnb239v2'' (Some ''c2tnb239v2'') None (Some 695) (Some OBJ_X9_62_c2tnb239v2),
    Obj ''X9_62_c2tnb239v3'' (Some ''c2tnb239v3'') None (Some 696) (Some OBJ_X9_62_c2tnb239v3),
    Obj ''X9_62_c2onb239v4'' (Some ''c2onb239v4'') None (Some 697) (Some OBJ_X9_62_c2onb239v4),
    Obj ''X9_62_c2onb239v5'' (Some ''c2onb239v5'') None (Some 698) (Some OBJ_X9_62_c2onb239v5),
    Obj ''X9_62_c2pnb272w1'' (Some ''c2pnb272w1'') None (Some 699) (Some OBJ_X9_62_c2pnb272w1),
    Obj ''X9_62_c2pnb304w1'' (Some ''c2pnb304w1'') None (Some 700) (Some OBJ_X9_62_c2pnb304w1),
    Obj ''X9_62_c2tnb359v1'' (Some ''c2tnb359v1'') None (Some 701) (Some OBJ_X9_62_c2tnb359v1),
    Obj ''X9_62_c2pnb368w1'' (Some ''c2pnb368w1'') None (Some 702) (Some OBJ_X9_62_c2pnb368w1),
    Obj ''X9_62_c2tnb431r1'' (Some ''c2tnb431r1'') None (Some 703) (Some OBJ_X9_62_c2tnb431r1),
    Obj ''X9_62_primeCurve'' None None None (Some OBJ_X9_62_primeCurve),
    Obj ''X9_62_prime192v1'' (Some ''prime192v1'') None (Some 409) (Some OBJ_X9_62_prime192v1),
    Obj ''X9_62_prime192v2'' (Some ''prime192v2'') None (Some 410) (Some OBJ_X9_62_prime192v2),
    Obj ''X9_62_prime192v3'' (Some ''prime192v3'') None (Some 411) (Some OBJ_X9_62_prime192v3),
    Obj ''X9_62_prime239v1'' (Some ''prime239v1'') None (Some 412) (Some OBJ_X9_62_prime239v1),
    Obj ''X9_62_prime239v2'' (Some ''prime239v2'') None (Some 413) (Some OBJ_X9_62_prime239v2),
    Obj ''X9_62_prime239v3'' (Some ''prime239v3'') None (Some 414) (Some OBJ_X9_62_prime239v3),
    Obj ''X9_62_prime256v1'' (Some ''prime256v1'') None (Some 415) (Some OBJ_X9_62_prime256v1),
    Obj ''X9_62_id_ecSigType'' None None None (Some OBJ_X9_62_id_ecSigType),
    Obj ''ecdsa_with_SHA1'' (Some ''ecdsa-with-SHA1'') None (Some 416) (Some OBJ_ecdsa_with_SHA1),
    Obj ''ecdsa_with_Recommended'' (Some ''ecdsa-with-Recommended'') None (Some 791) (Some OBJ_ecdsa_with_Recommended),
    Obj ''ecdsa_with_Specified'' (Some ''ecdsa-with-Specified'') None (Some 792) (Some OBJ_ecdsa_with_Specified),
    Obj ''ecdsa_with_SHA224'' (Some ''ecdsa-with-SHA224'') None (Some 793) (Some OBJ_ecdsa_with_SHA224),
    Obj ''ecdsa_with_SHA256'' (Some ''ecdsa-with-SHA256'') None (Some 794) (Some OBJ_ecdsa_with_SHA256),
    Obj ''ecdsa_with_SHA384'' (Some ''ecdsa-with-SHA384'') None (Some 795) (Some OBJ_ecdsa_with_SHA384),
    Obj ''ecdsa_with_SHA512'' (Some ''ecdsa-with-SHA512'') None (Some 796) (Some OBJ_ecdsa_with_SHA512),
    Obj ''secg_ellipticCurve'' None None None (Some OBJ_secg_ellipticCurve),
    Obj ''secp112r1'' (Some ''secp112r1'') None (Some 704) (Some OBJ_secp112r1),
    Obj ''secp112r2'' (Some ''secp112r2'') None (Some 705) (Some OBJ_secp112r2),
    Obj ''secp128r1'' (Some ''secp128r1'') None (Some 706) (Some OBJ_secp128r1),
    Obj ''secp128r2'' (Some ''secp128r2'') None (Some 707) (Some OBJ_secp128r2),
    Obj ''secp160k1'' (Some ''secp160k1'') None (Some 708) (Some OBJ_secp160k1)]"

subsection \<open>Lines 364 to 512\<close>

definition OBJ_secp160r1 :: "int list" where
  [obj_mac]: "OBJ_secp160r1 = OBJ_secg_ellipticCurve @ [8]"

definition OBJ_secp160r2 :: "int list" where
  [obj_mac]: "OBJ_secp160r2 = OBJ_secg_ellipticCurve @ [30]"

definition OBJ_secp192k1 :: "int list" where
  [obj_mac]: "OBJ_secp192k1 = OBJ_secg_ellipticCurve @ [31]"

definition OBJ_secp224k1 :: "int list" where
  [obj_mac]: "OBJ_secp224k1 = OBJ_secg_ellipticCurve @ [32]"

definition OBJ_secp224r1 :: "int list" where
  [obj_mac]: "OBJ_secp224r1 = OBJ_secg_ellipticCurve @ [33]"

definition OBJ_secp256k1 :: "int list" where
  [obj_mac]: "OBJ_secp256k1 = OBJ_secg_ellipticCurve @ [10]"

definition OBJ_secp384r1 :: "int list" where
  [obj_mac]: "OBJ_secp384r1 = OBJ_secg_ellipticCurve @ [34]"

definition OBJ_secp521r1 :: "int list" where
  [obj_mac]: "OBJ_secp521r1 = OBJ_secg_ellipticCurve @ [35]"

definition OBJ_sect113r1 :: "int list" where
  [obj_mac]: "OBJ_sect113r1 = OBJ_secg_ellipticCurve @ [4]"

definition OBJ_sect113r2 :: "int list" where
  [obj_mac]: "OBJ_sect113r2 = OBJ_secg_ellipticCurve @ [5]"

definition OBJ_sect131r1 :: "int list" where
  [obj_mac]: "OBJ_sect131r1 = OBJ_secg_ellipticCurve @ [22]"

definition OBJ_sect131r2 :: "int list" where
  [obj_mac]: "OBJ_sect131r2 = OBJ_secg_ellipticCurve @ [23]"

definition OBJ_sect163k1 :: "int list" where
  [obj_mac]: "OBJ_sect163k1 = OBJ_secg_ellipticCurve @ [1]"

definition OBJ_sect163r1 :: "int list" where
  [obj_mac]: "OBJ_sect163r1 = OBJ_secg_ellipticCurve @ [2]"

definition OBJ_sect163r2 :: "int list" where
  [obj_mac]: "OBJ_sect163r2 = OBJ_secg_ellipticCurve @ [15]"

definition OBJ_sect193r1 :: "int list" where
  [obj_mac]: "OBJ_sect193r1 = OBJ_secg_ellipticCurve @ [24]"

definition OBJ_sect193r2 :: "int list" where
  [obj_mac]: "OBJ_sect193r2 = OBJ_secg_ellipticCurve @ [25]"

definition OBJ_sect233k1 :: "int list" where
  [obj_mac]: "OBJ_sect233k1 = OBJ_secg_ellipticCurve @ [26]"

definition OBJ_sect233r1 :: "int list" where
  [obj_mac]: "OBJ_sect233r1 = OBJ_secg_ellipticCurve @ [27]"

definition OBJ_sect239k1 :: "int list" where
  [obj_mac]: "OBJ_sect239k1 = OBJ_secg_ellipticCurve @ [3]"

definition OBJ_sect283k1 :: "int list" where
  [obj_mac]: "OBJ_sect283k1 = OBJ_secg_ellipticCurve @ [16]"

definition OBJ_sect283r1 :: "int list" where
  [obj_mac]: "OBJ_sect283r1 = OBJ_secg_ellipticCurve @ [17]"

definition OBJ_sect409k1 :: "int list" where
  [obj_mac]: "OBJ_sect409k1 = OBJ_secg_ellipticCurve @ [36]"

definition OBJ_sect409r1 :: "int list" where
  [obj_mac]: "OBJ_sect409r1 = OBJ_secg_ellipticCurve @ [37]"

definition OBJ_sect571k1 :: "int list" where
  [obj_mac]: "OBJ_sect571k1 = OBJ_secg_ellipticCurve @ [38]"

definition OBJ_sect571r1 :: "int list" where
  [obj_mac]: "OBJ_sect571r1 = OBJ_secg_ellipticCurve @ [39]"

definition OBJ_wap_wsg_idm_ecid :: "int list" where
  [obj_mac]: "OBJ_wap_wsg_idm_ecid = OBJ_wap_wsg @ [4]"

definition OBJ_wap_wsg_idm_ecid_wtls1 :: "int list" where
  [obj_mac]: "OBJ_wap_wsg_idm_ecid_wtls1 = OBJ_wap_wsg_idm_ecid @ [1]"

definition OBJ_wap_wsg_idm_ecid_wtls3 :: "int list" where
  [obj_mac]: "OBJ_wap_wsg_idm_ecid_wtls3 = OBJ_wap_wsg_idm_ecid @ [3]"

definition OBJ_wap_wsg_idm_ecid_wtls4 :: "int list" where
  [obj_mac]: "OBJ_wap_wsg_idm_ecid_wtls4 = OBJ_wap_wsg_idm_ecid @ [4]"

definition OBJ_wap_wsg_idm_ecid_wtls5 :: "int list" where
  [obj_mac]: "OBJ_wap_wsg_idm_ecid_wtls5 = OBJ_wap_wsg_idm_ecid @ [5]"

definition OBJ_wap_wsg_idm_ecid_wtls6 :: "int list" where
  [obj_mac]: "OBJ_wap_wsg_idm_ecid_wtls6 = OBJ_wap_wsg_idm_ecid @ [6]"

definition OBJ_wap_wsg_idm_ecid_wtls7 :: "int list" where
  [obj_mac]: "OBJ_wap_wsg_idm_ecid_wtls7 = OBJ_wap_wsg_idm_ecid @ [7]"

definition OBJ_wap_wsg_idm_ecid_wtls8 :: "int list" where
  [obj_mac]: "OBJ_wap_wsg_idm_ecid_wtls8 = OBJ_wap_wsg_idm_ecid @ [8]"

definition OBJ_wap_wsg_idm_ecid_wtls9 :: "int list" where
  [obj_mac]: "OBJ_wap_wsg_idm_ecid_wtls9 = OBJ_wap_wsg_idm_ecid @ [9]"

definition OBJ_wap_wsg_idm_ecid_wtls10 :: "int list" where
  [obj_mac]: "OBJ_wap_wsg_idm_ecid_wtls10 = OBJ_wap_wsg_idm_ecid @ [10]"

definition OBJ_wap_wsg_idm_ecid_wtls11 :: "int list" where
  [obj_mac]: "OBJ_wap_wsg_idm_ecid_wtls11 = OBJ_wap_wsg_idm_ecid @ [11]"

definition OBJ_wap_wsg_idm_ecid_wtls12 :: "int list" where
  [obj_mac]: "OBJ_wap_wsg_idm_ecid_wtls12 = OBJ_wap_wsg_idm_ecid @ [12]"

definition obj_mac_03 :: "obj_def list" where
  "obj_mac_03 = [
    Obj ''secp160r1'' (Some ''secp160r1'') None (Some 709) (Some OBJ_secp160r1),
    Obj ''secp160r2'' (Some ''secp160r2'') None (Some 710) (Some OBJ_secp160r2),
    Obj ''secp192k1'' (Some ''secp192k1'') None (Some 711) (Some OBJ_secp192k1),
    Obj ''secp224k1'' (Some ''secp224k1'') None (Some 712) (Some OBJ_secp224k1),
    Obj ''secp224r1'' (Some ''secp224r1'') None (Some 713) (Some OBJ_secp224r1),
    Obj ''secp256k1'' (Some ''secp256k1'') None (Some 714) (Some OBJ_secp256k1),
    Obj ''secp384r1'' (Some ''secp384r1'') None (Some 715) (Some OBJ_secp384r1),
    Obj ''secp521r1'' (Some ''secp521r1'') None (Some 716) (Some OBJ_secp521r1),
    Obj ''sect113r1'' (Some ''sect113r1'') None (Some 717) (Some OBJ_sect113r1),
    Obj ''sect113r2'' (Some ''sect113r2'') None (Some 718) (Some OBJ_sect113r2),
    Obj ''sect131r1'' (Some ''sect131r1'') None (Some 719) (Some OBJ_sect131r1),
    Obj ''sect131r2'' (Some ''sect131r2'') None (Some 720) (Some OBJ_sect131r2),
    Obj ''sect163k1'' (Some ''sect163k1'') None (Some 721) (Some OBJ_sect163k1),
    Obj ''sect163r1'' (Some ''sect163r1'') None (Some 722) (Some OBJ_sect163r1),
    Obj ''sect163r2'' (Some ''sect163r2'') None (Some 723) (Some OBJ_sect163r2),
    Obj ''sect193r1'' (Some ''sect193r1'') None (Some 724) (Some OBJ_sect193r1),
    Obj ''sect193r2'' (Some ''sect193r2'') None (Some 725) (Some OBJ_sect193r2),
    Obj ''sect233k1'' (Some ''sect233k1'') None (Some 726) (Some OBJ_sect233k1),
    Obj ''sect233r1'' (Some ''sect233r1'') None (Some 727) (Some OBJ_sect233r1),
    Obj ''sect239k1'' (Some ''sect239k1'') None (Some 728) (Some OBJ_sect239k1),
    Obj ''sect283k1'' (Some ''sect283k1'') None (Some 729) (Some OBJ_sect283k1),
    Obj ''sect283r1'' (Some ''sect283r1'') None (Some 730) (Some OBJ_sect283r1),
    Obj ''sect409k1'' (Some ''sect409k1'') None (Some 731) (Some OBJ_sect409k1),
    Obj ''sect409r1'' (Some ''sect409r1'') None (Some 732) (Some OBJ_sect409r1),
    Obj ''sect571k1'' (Some ''sect571k1'') None (Some 733) (Some OBJ_sect571k1),
    Obj ''sect571r1'' (Some ''sect571r1'') None (Some 734) (Some OBJ_sect571r1),
    Obj ''wap_wsg_idm_ecid'' None None None (Some OBJ_wap_wsg_idm_ecid),
    Obj ''wap_wsg_idm_ecid_wtls1'' (Some ''wap-wsg-idm-ecid-wtls1'') None (Some 735) (Some OBJ_wap_wsg_idm_ecid_wtls1),
    Obj ''wap_wsg_idm_ecid_wtls3'' (Some ''wap-wsg-idm-ecid-wtls3'') None (Some 736) (Some OBJ_wap_wsg_idm_ecid_wtls3),
    Obj ''wap_wsg_idm_ecid_wtls4'' (Some ''wap-wsg-idm-ecid-wtls4'') None (Some 737) (Some OBJ_wap_wsg_idm_ecid_wtls4),
    Obj ''wap_wsg_idm_ecid_wtls5'' (Some ''wap-wsg-idm-ecid-wtls5'') None (Some 738) (Some OBJ_wap_wsg_idm_ecid_wtls5),
    Obj ''wap_wsg_idm_ecid_wtls6'' (Some ''wap-wsg-idm-ecid-wtls6'') None (Some 739) (Some OBJ_wap_wsg_idm_ecid_wtls6),
    Obj ''wap_wsg_idm_ecid_wtls7'' (Some ''wap-wsg-idm-ecid-wtls7'') None (Some 740) (Some OBJ_wap_wsg_idm_ecid_wtls7),
    Obj ''wap_wsg_idm_ecid_wtls8'' (Some ''wap-wsg-idm-ecid-wtls8'') None (Some 741) (Some OBJ_wap_wsg_idm_ecid_wtls8),
    Obj ''wap_wsg_idm_ecid_wtls9'' (Some ''wap-wsg-idm-ecid-wtls9'') None (Some 742) (Some OBJ_wap_wsg_idm_ecid_wtls9),
    Obj ''wap_wsg_idm_ecid_wtls10'' (Some ''wap-wsg-idm-ecid-wtls10'') None (Some 743) (Some OBJ_wap_wsg_idm_ecid_wtls10),
    Obj ''wap_wsg_idm_ecid_wtls11'' (Some ''wap-wsg-idm-ecid-wtls11'') None (Some 744) (Some OBJ_wap_wsg_idm_ecid_wtls11),
    Obj ''wap_wsg_idm_ecid_wtls12'' (Some ''wap-wsg-idm-ecid-wtls12'') None (Some 745) (Some OBJ_wap_wsg_idm_ecid_wtls12)]"

subsection \<open>Lines 514 to 663\<close>

definition OBJ_cast5_cbc :: "int list" where
  [obj_mac]: "OBJ_cast5_cbc = OBJ_ISO_US @ [113533, 7, 66, 10]"

definition OBJ_pbeWithMD5AndCast5_CBC :: "int list" where
  [obj_mac]: "OBJ_pbeWithMD5AndCast5_CBC = OBJ_ISO_US @ [113533, 7, 66, 12]"

definition OBJ_id_PasswordBasedMAC :: "int list" where
  [obj_mac]: "OBJ_id_PasswordBasedMAC = OBJ_ISO_US @ [113533, 7, 66, 13]"

definition OBJ_id_DHBasedMac :: "int list" where
  [obj_mac]: "OBJ_id_DHBasedMac = OBJ_ISO_US @ [113533, 7, 66, 30]"

definition OBJ_rsadsi :: "int list" where
  [obj_mac]: "OBJ_rsadsi = OBJ_ISO_US @ [113549]"

definition OBJ_pkcs :: "int list" where
  [obj_mac]: "OBJ_pkcs = OBJ_rsadsi @ [1]"

definition OBJ_pkcs1 :: "int list" where
  [obj_mac]: "OBJ_pkcs1 = OBJ_pkcs @ [1]"

definition OBJ_rsaEncryption :: "int list" where
  [obj_mac]: "OBJ_rsaEncryption = OBJ_pkcs1 @ [1]"

definition OBJ_md2WithRSAEncryption :: "int list" where
  [obj_mac]: "OBJ_md2WithRSAEncryption = OBJ_pkcs1 @ [2]"

definition OBJ_md4WithRSAEncryption :: "int list" where
  [obj_mac]: "OBJ_md4WithRSAEncryption = OBJ_pkcs1 @ [3]"

definition OBJ_md5WithRSAEncryption :: "int list" where
  [obj_mac]: "OBJ_md5WithRSAEncryption = OBJ_pkcs1 @ [4]"

definition OBJ_sha1WithRSAEncryption :: "int list" where
  [obj_mac]: "OBJ_sha1WithRSAEncryption = OBJ_pkcs1 @ [5]"

definition OBJ_rsaesOaep :: "int list" where
  [obj_mac]: "OBJ_rsaesOaep = OBJ_pkcs1 @ [7]"

definition OBJ_mgf1 :: "int list" where
  [obj_mac]: "OBJ_mgf1 = OBJ_pkcs1 @ [8]"

definition OBJ_pSpecified :: "int list" where
  [obj_mac]: "OBJ_pSpecified = OBJ_pkcs1 @ [9]"

definition OBJ_rsassaPss :: "int list" where
  [obj_mac]: "OBJ_rsassaPss = OBJ_pkcs1 @ [10]"

definition OBJ_sha256WithRSAEncryption :: "int list" where
  [obj_mac]: "OBJ_sha256WithRSAEncryption = OBJ_pkcs1 @ [11]"

definition OBJ_sha384WithRSAEncryption :: "int list" where
  [obj_mac]: "OBJ_sha384WithRSAEncryption = OBJ_pkcs1 @ [12]"

definition OBJ_sha512WithRSAEncryption :: "int list" where
  [obj_mac]: "OBJ_sha512WithRSAEncryption = OBJ_pkcs1 @ [13]"

definition OBJ_sha224WithRSAEncryption :: "int list" where
  [obj_mac]: "OBJ_sha224WithRSAEncryption = OBJ_pkcs1 @ [14]"

definition OBJ_pkcs3 :: "int list" where
  [obj_mac]: "OBJ_pkcs3 = OBJ_pkcs @ [3]"

definition OBJ_dhKeyAgreement :: "int list" where
  [obj_mac]: "OBJ_dhKeyAgreement = OBJ_pkcs3 @ [1]"

definition OBJ_pkcs5 :: "int list" where
  [obj_mac]: "OBJ_pkcs5 = OBJ_pkcs @ [5]"

definition OBJ_pbeWithMD2AndDES_CBC :: "int list" where
  [obj_mac]: "OBJ_pbeWithMD2AndDES_CBC = OBJ_pkcs5 @ [1]"

definition OBJ_pbeWithMD5AndDES_CBC :: "int list" where
  [obj_mac]: "OBJ_pbeWithMD5AndDES_CBC = OBJ_pkcs5 @ [3]"

definition OBJ_pbeWithMD2AndRC2_CBC :: "int list" where
  [obj_mac]: "OBJ_pbeWithMD2AndRC2_CBC = OBJ_pkcs5 @ [4]"

definition OBJ_pbeWithMD5AndRC2_CBC :: "int list" where
  [obj_mac]: "OBJ_pbeWithMD5AndRC2_CBC = OBJ_pkcs5 @ [6]"

definition OBJ_pbeWithSHA1AndDES_CBC :: "int list" where
  [obj_mac]: "OBJ_pbeWithSHA1AndDES_CBC = OBJ_pkcs5 @ [10]"

definition OBJ_pbeWithSHA1AndRC2_CBC :: "int list" where
  [obj_mac]: "OBJ_pbeWithSHA1AndRC2_CBC = OBJ_pkcs5 @ [11]"

definition obj_mac_04 :: "obj_def list" where
  "obj_mac_04 = [
    Obj ''cast5_cbc'' (Some ''CAST5-CBC'') (Some ''cast5-cbc'') (Some 108) (Some OBJ_cast5_cbc),
    Obj ''cast5_ecb'' (Some ''CAST5-ECB'') (Some ''cast5-ecb'') (Some 109) None,
    Obj ''cast5_cfb64'' (Some ''CAST5-CFB'') (Some ''cast5-cfb'') (Some 110) None,
    Obj ''cast5_ofb64'' (Some ''CAST5-OFB'') (Some ''cast5-ofb'') (Some 111) None,
    Obj ''pbeWithMD5AndCast5_CBC'' None (Some ''pbeWithMD5AndCast5CBC'') (Some 112) (Some OBJ_pbeWithMD5AndCast5_CBC),
    Obj ''id_PasswordBasedMAC'' (Some ''id-PasswordBasedMAC'') (Some ''password based MAC'') (Some 782) (Some OBJ_id_PasswordBasedMAC),
    Obj ''id_DHBasedMac'' (Some ''id-DHBasedMac'') (Some ''Diffie-Hellman based MAC'') (Some 783) (Some OBJ_id_DHBasedMac),
    Obj ''rsadsi'' (Some ''rsadsi'') (Some ''RSA Data Security, Inc.'') (Some 1) (Some OBJ_rsadsi),
    Obj ''pkcs'' (Some ''pkcs'') (Some ''RSA Data Security, Inc. PKCS'') (Some 2) (Some OBJ_pkcs),
    Obj ''pkcs1'' (Some ''pkcs1'') None (Some 186) (Some OBJ_pkcs1),
    Obj ''rsaEncryption'' None (Some ''rsaEncryption'') (Some 6) (Some OBJ_rsaEncryption),
    Obj ''md2WithRSAEncryption'' (Some ''RSA-MD2'') (Some ''md2WithRSAEncryption'') (Some 7) (Some OBJ_md2WithRSAEncryption),
    Obj ''md4WithRSAEncryption'' (Some ''RSA-MD4'') (Some ''md4WithRSAEncryption'') (Some 396) (Some OBJ_md4WithRSAEncryption),
    Obj ''md5WithRSAEncryption'' (Some ''RSA-MD5'') (Some ''md5WithRSAEncryption'') (Some 8) (Some OBJ_md5WithRSAEncryption),
    Obj ''sha1WithRSAEncryption'' (Some ''RSA-SHA1'') (Some ''sha1WithRSAEncryption'') (Some 65) (Some OBJ_sha1WithRSAEncryption),
    Obj ''rsaesOaep'' (Some ''RSAES-OAEP'') (Some ''rsaesOaep'') (Some 919) (Some OBJ_rsaesOaep),
    Obj ''mgf1'' (Some ''MGF1'') (Some ''mgf1'') (Some 911) (Some OBJ_mgf1),
    Obj ''pSpecified'' (Some ''PSPECIFIED'') (Some ''pSpecified'') (Some 935) (Some OBJ_pSpecified),
    Obj ''rsassaPss'' (Some ''RSASSA-PSS'') (Some ''rsassaPss'') (Some 912) (Some OBJ_rsassaPss),
    Obj ''sha256WithRSAEncryption'' (Some ''RSA-SHA256'') (Some ''sha256WithRSAEncryption'') (Some 668) (Some OBJ_sha256WithRSAEncryption),
    Obj ''sha384WithRSAEncryption'' (Some ''RSA-SHA384'') (Some ''sha384WithRSAEncryption'') (Some 669) (Some OBJ_sha384WithRSAEncryption),
    Obj ''sha512WithRSAEncryption'' (Some ''RSA-SHA512'') (Some ''sha512WithRSAEncryption'') (Some 670) (Some OBJ_sha512WithRSAEncryption),
    Obj ''sha224WithRSAEncryption'' (Some ''RSA-SHA224'') (Some ''sha224WithRSAEncryption'') (Some 671) (Some OBJ_sha224WithRSAEncryption),
    Obj ''pkcs3'' (Some ''pkcs3'') None (Some 27) (Some OBJ_pkcs3),
    Obj ''dhKeyAgreement'' None (Some ''dhKeyAgreement'') (Some 28) (Some OBJ_dhKeyAgreement),
    Obj ''pkcs5'' (Some ''pkcs5'') None (Some 187) (Some OBJ_pkcs5),
    Obj ''pbeWithMD2AndDES_CBC'' (Some ''PBE-MD2-DES'') (Some ''pbeWithMD2AndDES-CBC'') (Some 9) (Some OBJ_pbeWithMD2AndDES_CBC),
    Obj ''pbeWithMD5AndDES_CBC'' (Some ''PBE-MD5-DES'') (Some ''pbeWithMD5AndDES-CBC'') (Some 10) (Some OBJ_pbeWithMD5AndDES_CBC),
    Obj ''pbeWithMD2AndRC2_CBC'' (Some ''PBE-MD2-RC2-64'') (Some ''pbeWithMD2AndRC2-CBC'') (Some 168) (Some OBJ_pbeWithMD2AndRC2_CBC),
    Obj ''pbeWithMD5AndRC2_CBC'' (Some ''PBE-MD5-RC2-64'') (Some ''pbeWithMD5AndRC2-CBC'') (Some 169) (Some OBJ_pbeWithMD5AndRC2_CBC),
    Obj ''pbeWithSHA1AndDES_CBC'' (Some ''PBE-SHA1-DES'') (Some ''pbeWithSHA1AndDES-CBC'') (Some 170) (Some OBJ_pbeWithSHA1AndDES_CBC),
    Obj ''pbeWithSHA1AndRC2_CBC'' (Some ''PBE-SHA1-RC2-64'') (Some ''pbeWithSHA1AndRC2-CBC'') (Some 68) (Some OBJ_pbeWithSHA1AndRC2_CBC)]"

subsection \<open>Lines 665 to 814\<close>

definition OBJ_id_pbkdf2 :: "int list" where
  [obj_mac]: "OBJ_id_pbkdf2 = OBJ_pkcs5 @ [12]"

definition OBJ_pbes2 :: "int list" where
  [obj_mac]: "OBJ_pbes2 = OBJ_pkcs5 @ [13]"

definition OBJ_pbmac1 :: "int list" where
  [obj_mac]: "OBJ_pbmac1 = OBJ_pkcs5 @ [14]"

definition OBJ_pkcs7 :: "int list" where
  [obj_mac]: "OBJ_pkcs7 = OBJ_pkcs @ [7]"

definition OBJ_pkcs7_data :: "int list" where
  [obj_mac]: "OBJ_pkcs7_data = OBJ_pkcs7 @ [1]"

definition OBJ_pkcs7_signed :: "int list" where
  [obj_mac]: "OBJ_pkcs7_signed = OBJ_pkcs7 @ [2]"

definition OBJ_pkcs7_enveloped :: "int list" where
  [obj_mac]: "OBJ_pkcs7_enveloped = OBJ_pkcs7 @ [3]"

definition OBJ_pkcs7_signedAndEnveloped :: "int list" where
  [obj_mac]: "OBJ_pkcs7_signedAndEnveloped = OBJ_pkcs7 @ [4]"

definition OBJ_pkcs7_digest :: "int list" where
  [obj_mac]: "OBJ_pkcs7_digest = OBJ_pkcs7 @ [5]"

definition OBJ_pkcs7_encrypted :: "int list" where
  [obj_mac]: "OBJ_pkcs7_encrypted = OBJ_pkcs7 @ [6]"

definition OBJ_pkcs9 :: "int list" where
  [obj_mac]: "OBJ_pkcs9 = OBJ_pkcs @ [9]"

definition OBJ_pkcs9_emailAddress :: "int list" where
  [obj_mac]: "OBJ_pkcs9_emailAddress = OBJ_pkcs9 @ [1]"

definition OBJ_pkcs9_unstructuredName :: "int list" where
  [obj_mac]: "OBJ_pkcs9_unstructuredName = OBJ_pkcs9 @ [2]"

definition OBJ_pkcs9_contentType :: "int list" where
  [obj_mac]: "OBJ_pkcs9_contentType = OBJ_pkcs9 @ [3]"

definition OBJ_pkcs9_messageDigest :: "int list" where
  [obj_mac]: "OBJ_pkcs9_messageDigest = OBJ_pkcs9 @ [4]"

definition OBJ_pkcs9_signingTime :: "int list" where
  [obj_mac]: "OBJ_pkcs9_signingTime = OBJ_pkcs9 @ [5]"

definition OBJ_pkcs9_countersignature :: "int list" where
  [obj_mac]: "OBJ_pkcs9_countersignature = OBJ_pkcs9 @ [6]"

definition OBJ_pkcs9_challengePassword :: "int list" where
  [obj_mac]: "OBJ_pkcs9_challengePassword = OBJ_pkcs9 @ [7]"

definition OBJ_pkcs9_unstructuredAddress :: "int list" where
  [obj_mac]: "OBJ_pkcs9_unstructuredAddress = OBJ_pkcs9 @ [8]"

definition OBJ_pkcs9_extCertAttributes :: "int list" where
  [obj_mac]: "OBJ_pkcs9_extCertAttributes = OBJ_pkcs9 @ [9]"

definition OBJ_ext_req :: "int list" where
  [obj_mac]: "OBJ_ext_req = OBJ_pkcs9 @ [14]"

definition OBJ_SMIMECapabilities :: "int list" where
  [obj_mac]: "OBJ_SMIMECapabilities = OBJ_pkcs9 @ [15]"

definition OBJ_SMIME :: "int list" where
  [obj_mac]: "OBJ_SMIME = OBJ_pkcs9 @ [16]"

definition OBJ_id_smime_mod :: "int list" where
  [obj_mac]: "OBJ_id_smime_mod = OBJ_SMIME @ [0]"

definition OBJ_id_smime_ct :: "int list" where
  [obj_mac]: "OBJ_id_smime_ct = OBJ_SMIME @ [1]"

definition OBJ_id_smime_aa :: "int list" where
  [obj_mac]: "OBJ_id_smime_aa = OBJ_SMIME @ [2]"

definition OBJ_id_smime_alg :: "int list" where
  [obj_mac]: "OBJ_id_smime_alg = OBJ_SMIME @ [3]"

definition OBJ_id_smime_cd :: "int list" where
  [obj_mac]: "OBJ_id_smime_cd = OBJ_SMIME @ [4]"

definition OBJ_id_smime_spq :: "int list" where
  [obj_mac]: "OBJ_id_smime_spq = OBJ_SMIME @ [5]"

definition OBJ_id_smime_cti :: "int list" where
  [obj_mac]: "OBJ_id_smime_cti = OBJ_SMIME @ [6]"

definition OBJ_id_smime_mod_cms :: "int list" where
  [obj_mac]: "OBJ_id_smime_mod_cms = OBJ_id_smime_mod @ [1]"

definition OBJ_id_smime_mod_ess :: "int list" where
  [obj_mac]: "OBJ_id_smime_mod_ess = OBJ_id_smime_mod @ [2]"

definition OBJ_id_smime_mod_oid :: "int list" where
  [obj_mac]: "OBJ_id_smime_mod_oid = OBJ_id_smime_mod @ [3]"

definition OBJ_id_smime_mod_msg_v3 :: "int list" where
  [obj_mac]: "OBJ_id_smime_mod_msg_v3 = OBJ_id_smime_mod @ [4]"

definition OBJ_id_smime_mod_ets_eSignature_88 :: "int list" where
  [obj_mac]: "OBJ_id_smime_mod_ets_eSignature_88 = OBJ_id_smime_mod @ [5]"

definition OBJ_id_smime_mod_ets_eSignature_97 :: "int list" where
  [obj_mac]: "OBJ_id_smime_mod_ets_eSignature_97 = OBJ_id_smime_mod @ [6]"

definition OBJ_id_smime_mod_ets_eSigPolicy_88 :: "int list" where
  [obj_mac]: "OBJ_id_smime_mod_ets_eSigPolicy_88 = OBJ_id_smime_mod @ [7]"

definition obj_mac_05 :: "obj_def list" where
  "obj_mac_05 = [
    Obj ''id_pbkdf2'' None (Some ''PBKDF2'') (Some 69) (Some OBJ_id_pbkdf2),
    Obj ''pbes2'' None (Some ''PBES2'') (Some 161) (Some OBJ_pbes2),
    Obj ''pbmac1'' None (Some ''PBMAC1'') (Some 162) (Some OBJ_pbmac1),
    Obj ''pkcs7'' (Some ''pkcs7'') None (Some 20) (Some OBJ_pkcs7),
    Obj ''pkcs7_data'' None (Some ''pkcs7-data'') (Some 21) (Some OBJ_pkcs7_data),
    Obj ''pkcs7_signed'' None (Some ''pkcs7-signedData'') (Some 22) (Some OBJ_pkcs7_signed),
    Obj ''pkcs7_enveloped'' None (Some ''pkcs7-envelopedData'') (Some 23) (Some OBJ_pkcs7_enveloped),
    Obj ''pkcs7_signedAndEnveloped'' None (Some ''pkcs7-signedAndEnvelopedData'') (Some 24) (Some OBJ_pkcs7_signedAndEnveloped),
    Obj ''pkcs7_digest'' None (Some ''pkcs7-digestData'') (Some 25) (Some OBJ_pkcs7_digest),
    Obj ''pkcs7_encrypted'' None (Some ''pkcs7-encryptedData'') (Some 26) (Some OBJ_pkcs7_encrypted),
    Obj ''pkcs9'' (Some ''pkcs9'') None (Some 47) (Some OBJ_pkcs9),
    Obj ''pkcs9_emailAddress'' None (Some ''emailAddress'') (Some 48) (Some OBJ_pkcs9_emailAddress),
    Obj ''pkcs9_unstructuredName'' None (Some ''unstructuredName'') (Some 49) (Some OBJ_pkcs9_unstructuredName),
    Obj ''pkcs9_contentType'' None (Some ''contentType'') (Some 50) (Some OBJ_pkcs9_contentType),
    Obj ''pkcs9_messageDigest'' None (Some ''messageDigest'') (Some 51) (Some OBJ_pkcs9_messageDigest),
    Obj ''pkcs9_signingTime'' None (Some ''signingTime'') (Some 52) (Some OBJ_pkcs9_signingTime),
    Obj ''pkcs9_countersignature'' None (Some ''countersignature'') (Some 53) (Some OBJ_pkcs9_countersignature),
    Obj ''pkcs9_challengePassword'' None (Some ''challengePassword'') (Some 54) (Some OBJ_pkcs9_challengePassword),
    Obj ''pkcs9_unstructuredAddress'' None (Some ''unstructuredAddress'') (Some 55) (Some OBJ_pkcs9_unstructuredAddress),
    Obj ''pkcs9_extCertAttributes'' None (Some ''extendedCertificateAttributes'') (Some 56) (Some OBJ_pkcs9_extCertAttributes),
    Obj ''ext_req'' (Some ''extReq'') (Some ''Extension Request'') (Some 172) (Some OBJ_ext_req),
    Obj ''SMIMECapabilities'' (Some ''SMIME-CAPS'') (Some ''S/MIME Capabilities'') (Some 167) (Some OBJ_SMIMECapabilities),
    Obj ''SMIME'' (Some ''SMIME'') (Some ''S/MIME'') (Some 188) (Some OBJ_SMIME),
    Obj ''id_smime_mod'' (Some ''id-smime-mod'') None (Some 189) (Some OBJ_id_smime_mod),
    Obj ''id_smime_ct'' (Some ''id-smime-ct'') None (Some 190) (Some OBJ_id_smime_ct),
    Obj ''id_smime_aa'' (Some ''id-smime-aa'') None (Some 191) (Some OBJ_id_smime_aa),
    Obj ''id_smime_alg'' (Some ''id-smime-alg'') None (Some 192) (Some OBJ_id_smime_alg),
    Obj ''id_smime_cd'' (Some ''id-smime-cd'') None (Some 193) (Some OBJ_id_smime_cd),
    Obj ''id_smime_spq'' (Some ''id-smime-spq'') None (Some 194) (Some OBJ_id_smime_spq),
    Obj ''id_smime_cti'' (Some ''id-smime-cti'') None (Some 195) (Some OBJ_id_smime_cti),
    Obj ''id_smime_mod_cms'' (Some ''id-smime-mod-cms'') None (Some 196) (Some OBJ_id_smime_mod_cms),
    Obj ''id_smime_mod_ess'' (Some ''id-smime-mod-ess'') None (Some 197) (Some OBJ_id_smime_mod_ess),
    Obj ''id_smime_mod_oid'' (Some ''id-smime-mod-oid'') None (Some 198) (Some OBJ_id_smime_mod_oid),
    Obj ''id_smime_mod_msg_v3'' (Some ''id-smime-mod-msg-v3'') None (Some 199) (Some OBJ_id_smime_mod_msg_v3),
    Obj ''id_smime_mod_ets_eSignature_88'' (Some ''id-smime-mod-ets-eSignature-88'') None (Some 200) (Some OBJ_id_smime_mod_ets_eSignature_88),
    Obj ''id_smime_mod_ets_eSignature_97'' (Some ''id-smime-mod-ets-eSignature-97'') None (Some 201) (Some OBJ_id_smime_mod_ets_eSignature_97),
    Obj ''id_smime_mod_ets_eSigPolicy_88'' (Some ''id-smime-mod-ets-eSigPolicy-88'') None (Some 202) (Some OBJ_id_smime_mod_ets_eSigPolicy_88)]"

subsection \<open>Lines 816 to 962\<close>

definition OBJ_id_smime_mod_ets_eSigPolicy_97 :: "int list" where
  [obj_mac]: "OBJ_id_smime_mod_ets_eSigPolicy_97 = OBJ_id_smime_mod @ [8]"

definition OBJ_id_smime_ct_receipt :: "int list" where
  [obj_mac]: "OBJ_id_smime_ct_receipt = OBJ_id_smime_ct @ [1]"

definition OBJ_id_smime_ct_authData :: "int list" where
  [obj_mac]: "OBJ_id_smime_ct_authData = OBJ_id_smime_ct @ [2]"

definition OBJ_id_smime_ct_publishCert :: "int list" where
  [obj_mac]: "OBJ_id_smime_ct_publishCert = OBJ_id_smime_ct @ [3]"

definition OBJ_id_smime_ct_TSTInfo :: "int list" where
  [obj_mac]: "OBJ_id_smime_ct_TSTInfo = OBJ_id_smime_ct @ [4]"

definition OBJ_id_smime_ct_TDTInfo :: "int list" where
  [obj_mac]: "OBJ_id_smime_ct_TDTInfo = OBJ_id_smime_ct @ [5]"

definition OBJ_id_smime_ct_contentInfo :: "int list" where
  [obj_mac]: "OBJ_id_smime_ct_contentInfo = OBJ_id_smime_ct @ [6]"

definition OBJ_id_smime_ct_DVCSRequestData :: "int list" where
  [obj_mac]: "OBJ_id_smime_ct_DVCSRequestData = OBJ_id_smime_ct @ [7]"

definition OBJ_id_smime_ct_DVCSResponseData :: "int list" where
  [obj_mac]: "OBJ_id_smime_ct_DVCSResponseData = OBJ_id_smime_ct @ [8]"

definition OBJ_id_smime_ct_compressedData :: "int list" where
  [obj_mac]: "OBJ_id_smime_ct_compressedData = OBJ_id_smime_ct @ [9]"

definition OBJ_id_ct_asciiTextWithCRLF :: "int list" where
  [obj_mac]: "OBJ_id_ct_asciiTextWithCRLF = OBJ_id_smime_ct @ [27]"

definition OBJ_id_smime_aa_receiptRequest :: "int list" where
  [obj_mac]: "OBJ_id_smime_aa_receiptRequest = OBJ_id_smime_aa @ [1]"

definition OBJ_id_smime_aa_securityLabel :: "int list" where
  [obj_mac]: "OBJ_id_smime_aa_securityLabel = OBJ_id_smime_aa @ [2]"

definition OBJ_id_smime_aa_mlExpandHistory :: "int list" where
  [obj_mac]: "OBJ_id_smime_aa_mlExpandHistory = OBJ_id_smime_aa @ [3]"

definition OBJ_id_smime_aa_contentHint :: "int list" where
  [obj_mac]: "OBJ_id_smime_aa_contentHint = OBJ_id_smime_aa @ [4]"

definition OBJ_id_smime_aa_msgSigDigest :: "int list" where
  [obj_mac]: "OBJ_id_smime_aa_msgSigDigest = OBJ_id_smime_aa @ [5]"

definition OBJ_id_smime_aa_encapContentType :: "int list" where
  [obj_mac]: "OBJ_id_smime_aa_encapContentType = OBJ_id_smime_aa @ [6]"

definition OBJ_id_smime_aa_contentIdentifier :: "int list" where
  [obj_mac]: "OBJ_id_smime_aa_contentIdentifier = OBJ_id_smime_aa @ [7]"

definition OBJ_id_smime_aa_macValue :: "int list" where
  [obj_mac]: "OBJ_id_smime_aa_macValue = OBJ_id_smime_aa @ [8]"

definition OBJ_id_smime_aa_equivalentLabels :: "int list" where
  [obj_mac]: "OBJ_id_smime_aa_equivalentLabels = OBJ_id_smime_aa @ [9]"

definition OBJ_id_smime_aa_contentReference :: "int list" where
  [obj_mac]: "OBJ_id_smime_aa_contentReference = OBJ_id_smime_aa @ [10]"

definition OBJ_id_smime_aa_encrypKeyPref :: "int list" where
  [obj_mac]: "OBJ_id_smime_aa_encrypKeyPref = OBJ_id_smime_aa @ [11]"

definition OBJ_id_smime_aa_signingCertificate :: "int list" where
  [obj_mac]: "OBJ_id_smime_aa_signingCertificate = OBJ_id_smime_aa @ [12]"

definition OBJ_id_smime_aa_smimeEncryptCerts :: "int list" where
  [obj_mac]: "OBJ_id_smime_aa_smimeEncryptCerts = OBJ_id_smime_aa @ [13]"

definition OBJ_id_smime_aa_timeStampToken :: "int list" where
  [obj_mac]: "OBJ_id_smime_aa_timeStampToken = OBJ_id_smime_aa @ [14]"

definition OBJ_id_smime_aa_ets_sigPolicyId :: "int list" where
  [obj_mac]: "OBJ_id_smime_aa_ets_sigPolicyId = OBJ_id_smime_aa @ [15]"

definition OBJ_id_smime_aa_ets_commitmentType :: "int list" where
  [obj_mac]: "OBJ_id_smime_aa_ets_commitmentType = OBJ_id_smime_aa @ [16]"

definition OBJ_id_smime_aa_ets_signerLocation :: "int list" where
  [obj_mac]: "OBJ_id_smime_aa_ets_signerLocation = OBJ_id_smime_aa @ [17]"

definition OBJ_id_smime_aa_ets_signerAttr :: "int list" where
  [obj_mac]: "OBJ_id_smime_aa_ets_signerAttr = OBJ_id_smime_aa @ [18]"

definition OBJ_id_smime_aa_ets_otherSigCert :: "int list" where
  [obj_mac]: "OBJ_id_smime_aa_ets_otherSigCert = OBJ_id_smime_aa @ [19]"

definition OBJ_id_smime_aa_ets_contentTimestamp :: "int list" where
  [obj_mac]: "OBJ_id_smime_aa_ets_contentTimestamp = OBJ_id_smime_aa @ [20]"

definition OBJ_id_smime_aa_ets_CertificateRefs :: "int list" where
  [obj_mac]: "OBJ_id_smime_aa_ets_CertificateRefs = OBJ_id_smime_aa @ [21]"

definition OBJ_id_smime_aa_ets_RevocationRefs :: "int list" where
  [obj_mac]: "OBJ_id_smime_aa_ets_RevocationRefs = OBJ_id_smime_aa @ [22]"

definition OBJ_id_smime_aa_ets_certValues :: "int list" where
  [obj_mac]: "OBJ_id_smime_aa_ets_certValues = OBJ_id_smime_aa @ [23]"

definition OBJ_id_smime_aa_ets_revocationValues :: "int list" where
  [obj_mac]: "OBJ_id_smime_aa_ets_revocationValues = OBJ_id_smime_aa @ [24]"

definition OBJ_id_smime_aa_ets_escTimeStamp :: "int list" where
  [obj_mac]: "OBJ_id_smime_aa_ets_escTimeStamp = OBJ_id_smime_aa @ [25]"

definition OBJ_id_smime_aa_ets_certCRLTimestamp :: "int list" where
  [obj_mac]: "OBJ_id_smime_aa_ets_certCRLTimestamp = OBJ_id_smime_aa @ [26]"

definition obj_mac_06 :: "obj_def list" where
  "obj_mac_06 = [
    Obj ''id_smime_mod_ets_eSigPolicy_97'' (Some ''id-smime-mod-ets-eSigPolicy-97'') None (Some 203) (Some OBJ_id_smime_mod_ets_eSigPolicy_97),
    Obj ''id_smime_ct_receipt'' (Some ''id-smime-ct-receipt'') None (Some 204) (Some OBJ_id_smime_ct_receipt),
    Obj ''id_smime_ct_authData'' (Some ''id-smime-ct-authData'') None (Some 205) (Some OBJ_id_smime_ct_authData),
    Obj ''id_smime_ct_publishCert'' (Some ''id-smime-ct-publishCert'') None (Some 206) (Some OBJ_id_smime_ct_publishCert),
    Obj ''id_smime_ct_TSTInfo'' (Some ''id-smime-ct-TSTInfo'') None (Some 207) (Some OBJ_id_smime_ct_TSTInfo),
    Obj ''id_smime_ct_TDTInfo'' (Some ''id-smime-ct-TDTInfo'') None (Some 208) (Some OBJ_id_smime_ct_TDTInfo),
    Obj ''id_smime_ct_contentInfo'' (Some ''id-smime-ct-contentInfo'') None (Some 209) (Some OBJ_id_smime_ct_contentInfo),
    Obj ''id_smime_ct_DVCSRequestData'' (Some ''id-smime-ct-DVCSRequestData'') None (Some 210) (Some OBJ_id_smime_ct_DVCSRequestData),
    Obj ''id_smime_ct_DVCSResponseData'' (Some ''id-smime-ct-DVCSResponseData'') None (Some 211) (Some OBJ_id_smime_ct_DVCSResponseData),
    Obj ''id_smime_ct_compressedData'' (Some ''id-smime-ct-compressedData'') None (Some 786) (Some OBJ_id_smime_ct_compressedData),
    Obj ''id_ct_asciiTextWithCRLF'' (Some ''id-ct-asciiTextWithCRLF'') None (Some 787) (Some OBJ_id_ct_asciiTextWithCRLF),
    Obj ''id_smime_aa_receiptRequest'' (Some ''id-smime-aa-receiptRequest'') None (Some 212) (Some OBJ_id_smime_aa_receiptRequest),
    Obj ''id_smime_aa_securityLabel'' (Some ''id-smime-aa-securityLabel'') None (Some 213) (Some OBJ_id_smime_aa_securityLabel),
    Obj ''id_smime_aa_mlExpandHistory'' (Some ''id-smime-aa-mlExpandHistory'') None (Some 214) (Some OBJ_id_smime_aa_mlExpandHistory),
    Obj ''id_smime_aa_contentHint'' (Some ''id-smime-aa-contentHint'') None (Some 215) (Some OBJ_id_smime_aa_contentHint),
    Obj ''id_smime_aa_msgSigDigest'' (Some ''id-smime-aa-msgSigDigest'') None (Some 216) (Some OBJ_id_smime_aa_msgSigDigest),
    Obj ''id_smime_aa_encapContentType'' (Some ''id-smime-aa-encapContentType'') None (Some 217) (Some OBJ_id_smime_aa_encapContentType),
    Obj ''id_smime_aa_contentIdentifier'' (Some ''id-smime-aa-contentIdentifier'') None (Some 218) (Some OBJ_id_smime_aa_contentIdentifier),
    Obj ''id_smime_aa_macValue'' (Some ''id-smime-aa-macValue'') None (Some 219) (Some OBJ_id_smime_aa_macValue),
    Obj ''id_smime_aa_equivalentLabels'' (Some ''id-smime-aa-equivalentLabels'') None (Some 220) (Some OBJ_id_smime_aa_equivalentLabels),
    Obj ''id_smime_aa_contentReference'' (Some ''id-smime-aa-contentReference'') None (Some 221) (Some OBJ_id_smime_aa_contentReference),
    Obj ''id_smime_aa_encrypKeyPref'' (Some ''id-smime-aa-encrypKeyPref'') None (Some 222) (Some OBJ_id_smime_aa_encrypKeyPref),
    Obj ''id_smime_aa_signingCertificate'' (Some ''id-smime-aa-signingCertificate'') None (Some 223) (Some OBJ_id_smime_aa_signingCertificate),
    Obj ''id_smime_aa_smimeEncryptCerts'' (Some ''id-smime-aa-smimeEncryptCerts'') None (Some 224) (Some OBJ_id_smime_aa_smimeEncryptCerts),
    Obj ''id_smime_aa_timeStampToken'' (Some ''id-smime-aa-timeStampToken'') None (Some 225) (Some OBJ_id_smime_aa_timeStampToken),
    Obj ''id_smime_aa_ets_sigPolicyId'' (Some ''id-smime-aa-ets-sigPolicyId'') None (Some 226) (Some OBJ_id_smime_aa_ets_sigPolicyId),
    Obj ''id_smime_aa_ets_commitmentType'' (Some ''id-smime-aa-ets-commitmentType'') None (Some 227) (Some OBJ_id_smime_aa_ets_commitmentType),
    Obj ''id_smime_aa_ets_signerLocation'' (Some ''id-smime-aa-ets-signerLocation'') None (Some 228) (Some OBJ_id_smime_aa_ets_signerLocation),
    Obj ''id_smime_aa_ets_signerAttr'' (Some ''id-smime-aa-ets-signerAttr'') None (Some 229) (Some OBJ_id_smime_aa_ets_signerAttr),
    Obj ''id_smime_aa_ets_otherSigCert'' (Some ''id-smime-aa-ets-otherSigCert'') None (Some 230) (Some OBJ_id_smime_aa_ets_otherSigCert),
    Obj ''id_smime_aa_ets_contentTimestamp'' (Some ''id-smime-aa-ets-contentTimestamp'') None (Some 231) (Some OBJ_id_smime_aa_ets_contentTimestamp),
    Obj ''id_smime_aa_ets_CertificateRefs'' (Some ''id-smime-aa-ets-CertificateRefs'') None (Some 232) (Some OBJ_id_smime_aa_ets_CertificateRefs),
    Obj ''id_smime_aa_ets_RevocationRefs'' (Some ''id-smime-aa-ets-RevocationRefs'') None (Some 233) (Some OBJ_id_smime_aa_ets_RevocationRefs),
    Obj ''id_smime_aa_ets_certValues'' (Some ''id-smime-aa-ets-certValues'') None (Some 234) (Some OBJ_id_smime_aa_ets_certValues),
    Obj ''id_smime_aa_ets_revocationValues'' (Some ''id-smime-aa-ets-revocationValues'') None (Some 235) (Some OBJ_id_smime_aa_ets_revocationValues),
    Obj ''id_smime_aa_ets_escTimeStamp'' (Some ''id-smime-aa-ets-escTimeStamp'') None (Some 236) (Some OBJ_id_smime_aa_ets_escTimeStamp),
    Obj ''id_smime_aa_ets_certCRLTimestamp'' (Some ''id-smime-aa-ets-certCRLTimestamp'') None (Some 237) (Some OBJ_id_smime_aa_ets_certCRLTimestamp)]"

subsection \<open>Lines 964 to 1112\<close>

definition OBJ_id_smime_aa_ets_archiveTimeStamp :: "int list" where
  [obj_mac]: "OBJ_id_smime_aa_ets_archiveTimeStamp = OBJ_id_smime_aa @ [27]"

definition OBJ_id_smime_aa_signatureType :: "int list" where
  [obj_mac]: "OBJ_id_smime_aa_signatureType = OBJ_id_smime_aa @ [28]"

definition OBJ_id_smime_aa_dvcs_dvc :: "int list" where
  [obj_mac]: "OBJ_id_smime_aa_dvcs_dvc = OBJ_id_smime_aa @ [29]"

definition OBJ_id_smime_alg_ESDHwith3DES :: "int list" where
  [obj_mac]: "OBJ_id_smime_alg_ESDHwith3DES = OBJ_id_smime_alg @ [1]"

definition OBJ_id_smime_alg_ESDHwithRC2 :: "int list" where
  [obj_mac]: "OBJ_id_smime_alg_ESDHwithRC2 = OBJ_id_smime_alg @ [2]"

definition OBJ_id_smime_alg_3DESwrap :: "int list" where
  [obj_mac]: "OBJ_id_smime_alg_3DESwrap = OBJ_id_smime_alg @ [3]"

definition OBJ_id_smime_alg_RC2wrap :: "int list" where
  [obj_mac]: "OBJ_id_smime_alg_RC2wrap = OBJ_id_smime_alg @ [4]"

definition OBJ_id_smime_alg_ESDH :: "int list" where
  [obj_mac]: "OBJ_id_smime_alg_ESDH = OBJ_id_smime_alg @ [5]"

definition OBJ_id_smime_alg_CMS3DESwrap :: "int list" where
  [obj_mac]: "OBJ_id_smime_alg_CMS3DESwrap = OBJ_id_smime_alg @ [6]"

definition OBJ_id_smime_alg_CMSRC2wrap :: "int list" where
  [obj_mac]: "OBJ_id_smime_alg_CMSRC2wrap = OBJ_id_smime_alg @ [7]"

definition OBJ_id_alg_PWRI_KEK :: "int list" where
  [obj_mac]: "OBJ_id_alg_PWRI_KEK = OBJ_id_smime_alg @ [9]"

definition OBJ_id_smime_cd_ldap :: "int list" where
  [obj_mac]: "OBJ_id_smime_cd_ldap = OBJ_id_smime_cd @ [1]"

definition OBJ_id_smime_spq_ets_sqt_uri :: "int list" where
  [obj_mac]: "OBJ_id_smime_spq_ets_sqt_uri = OBJ_id_smime_spq @ [1]"

definition OBJ_id_smime_spq_ets_sqt_unotice :: "int list" where
  [obj_mac]: "OBJ_id_smime_spq_ets_sqt_unotice = OBJ_id_smime_spq @ [2]"

definition OBJ_id_smime_cti_ets_proofOfOrigin :: "int list" where
  [obj_mac]: "OBJ_id_smime_cti_ets_proofOfOrigin = OBJ_id_smime_cti @ [1]"

definition OBJ_id_smime_cti_ets_proofOfReceipt :: "int list" where
  [obj_mac]: "OBJ_id_smime_cti_ets_proofOfReceipt = OBJ_id_smime_cti @ [2]"

definition OBJ_id_smime_cti_ets_proofOfDelivery :: "int list" where
  [obj_mac]: "OBJ_id_smime_cti_ets_proofOfDelivery = OBJ_id_smime_cti @ [3]"

definition OBJ_id_smime_cti_ets_proofOfSender :: "int list" where
  [obj_mac]: "OBJ_id_smime_cti_ets_proofOfSender = OBJ_id_smime_cti @ [4]"

definition OBJ_id_smime_cti_ets_proofOfApproval :: "int list" where
  [obj_mac]: "OBJ_id_smime_cti_ets_proofOfApproval = OBJ_id_smime_cti @ [5]"

definition OBJ_id_smime_cti_ets_proofOfCreation :: "int list" where
  [obj_mac]: "OBJ_id_smime_cti_ets_proofOfCreation = OBJ_id_smime_cti @ [6]"

definition OBJ_friendlyName :: "int list" where
  [obj_mac]: "OBJ_friendlyName = OBJ_pkcs9 @ [20]"

definition OBJ_localKeyID :: "int list" where
  [obj_mac]: "OBJ_localKeyID = OBJ_pkcs9 @ [21]"

definition OBJ_ms_csp_name :: "int list" where
  [obj_mac]: "OBJ_ms_csp_name = [1, 3, 6, 1, 4, 1, 311, 17, 1]"

definition OBJ_LocalKeySet :: "int list" where
  [obj_mac]: "OBJ_LocalKeySet = [1, 3, 6, 1, 4, 1, 311, 17, 2]"

definition OBJ_certTypes :: "int list" where
  [obj_mac]: "OBJ_certTypes = OBJ_pkcs9 @ [22]"

definition OBJ_x509Certificate :: "int list" where
  [obj_mac]: "OBJ_x509Certificate = OBJ_certTypes @ [1]"

definition OBJ_sdsiCertificate :: "int list" where
  [obj_mac]: "OBJ_sdsiCertificate = OBJ_certTypes @ [2]"

definition OBJ_crlTypes :: "int list" where
  [obj_mac]: "OBJ_crlTypes = OBJ_pkcs9 @ [23]"

definition OBJ_x509Crl :: "int list" where
  [obj_mac]: "OBJ_x509Crl = OBJ_crlTypes @ [1]"

definition OBJ_pkcs12 :: "int list" where
  [obj_mac]: "OBJ_pkcs12 = OBJ_pkcs @ [12]"

definition OBJ_pkcs12_pbeids :: "int list" where
  [obj_mac]: "OBJ_pkcs12_pbeids = OBJ_pkcs12 @ [1]"

definition OBJ_pbe_WithSHA1And128BitRC4 :: "int list" where
  [obj_mac]: "OBJ_pbe_WithSHA1And128BitRC4 = OBJ_pkcs12_pbeids @ [1]"

definition OBJ_pbe_WithSHA1And40BitRC4 :: "int list" where
  [obj_mac]: "OBJ_pbe_WithSHA1And40BitRC4 = OBJ_pkcs12_pbeids @ [2]"

definition OBJ_pbe_WithSHA1And3_Key_TripleDES_CBC :: "int list" where
  [obj_mac]: "OBJ_pbe_WithSHA1And3_Key_TripleDES_CBC = OBJ_pkcs12_pbeids @ [3]"

definition OBJ_pbe_WithSHA1And2_Key_TripleDES_CBC :: "int list" where
  [obj_mac]: "OBJ_pbe_WithSHA1And2_Key_TripleDES_CBC = OBJ_pkcs12_pbeids @ [4]"

definition OBJ_pbe_WithSHA1And128BitRC2_CBC :: "int list" where
  [obj_mac]: "OBJ_pbe_WithSHA1And128BitRC2_CBC = OBJ_pkcs12_pbeids @ [5]"

definition OBJ_pbe_WithSHA1And40BitRC2_CBC :: "int list" where
  [obj_mac]: "OBJ_pbe_WithSHA1And40BitRC2_CBC = OBJ_pkcs12_pbeids @ [6]"

definition OBJ_pkcs12_Version1 :: "int list" where
  [obj_mac]: "OBJ_pkcs12_Version1 = OBJ_pkcs12 @ [10]"

definition obj_mac_07 :: "obj_def list" where
  "obj_mac_07 = [
    Obj ''id_smime_aa_ets_archiveTimeStamp'' (Some ''id-smime-aa-ets-archiveTimeStamp'') None (Some 238) (Some OBJ_id_smime_aa_ets_archiveTimeStamp),
    Obj ''id_smime_aa_signatureType'' (Some ''id-smime-aa-signatureType'') None (Some 239) (Some OBJ_id_smime_aa_signatureType),
    Obj ''id_smime_aa_dvcs_dvc'' (Some ''id-smime-aa-dvcs-dvc'') None (Some 240) (Some OBJ_id_smime_aa_dvcs_dvc),
    Obj ''id_smime_alg_ESDHwith3DES'' (Some ''id-smime-alg-ESDHwith3DES'') None (Some 241) (Some OBJ_id_smime_alg_ESDHwith3DES),
    Obj ''id_smime_alg_ESDHwithRC2'' (Some ''id-smime-alg-ESDHwithRC2'') None (Some 242) (Some OBJ_id_smime_alg_ESDHwithRC2),
    Obj ''id_smime_alg_3DESwrap'' (Some ''id-smime-alg-3DESwrap'') None (Some 243) (Some OBJ_id_smime_alg_3DESwrap),
    Obj ''id_smime_alg_RC2wrap'' (Some ''id-smime-alg-RC2wrap'') None (Some 244) (Some OBJ_id_smime_alg_RC2wrap),
    Obj ''id_smime_alg_ESDH'' (Some ''id-smime-alg-ESDH'') None (Some 245) (Some OBJ_id_smime_alg_ESDH),
    Obj ''id_smime_alg_CMS3DESwrap'' (Some ''id-smime-alg-CMS3DESwrap'') None (Some 246) (Some OBJ_id_smime_alg_CMS3DESwrap),
    Obj ''id_smime_alg_CMSRC2wrap'' (Some ''id-smime-alg-CMSRC2wrap'') None (Some 247) (Some OBJ_id_smime_alg_CMSRC2wrap),
    Obj ''id_alg_PWRI_KEK'' (Some ''id-alg-PWRI-KEK'') None (Some 893) (Some OBJ_id_alg_PWRI_KEK),
    Obj ''id_smime_cd_ldap'' (Some ''id-smime-cd-ldap'') None (Some 248) (Some OBJ_id_smime_cd_ldap),
    Obj ''id_smime_spq_ets_sqt_uri'' (Some ''id-smime-spq-ets-sqt-uri'') None (Some 249) (Some OBJ_id_smime_spq_ets_sqt_uri),
    Obj ''id_smime_spq_ets_sqt_unotice'' (Some ''id-smime-spq-ets-sqt-unotice'') None (Some 250) (Some OBJ_id_smime_spq_ets_sqt_unotice),
    Obj ''id_smime_cti_ets_proofOfOrigin'' (Some ''id-smime-cti-ets-proofOfOrigin'') None (Some 251) (Some OBJ_id_smime_cti_ets_proofOfOrigin),
    Obj ''id_smime_cti_ets_proofOfReceipt'' (Some ''id-smime-cti-ets-proofOfReceipt'') None (Some 252) (Some OBJ_id_smime_cti_ets_proofOfReceipt),
    Obj ''id_smime_cti_ets_proofOfDelivery'' (Some ''id-smime-cti-ets-proofOfDelivery'') None (Some 253) (Some OBJ_id_smime_cti_ets_proofOfDelivery),
    Obj ''id_smime_cti_ets_proofOfSender'' (Some ''id-smime-cti-ets-proofOfSender'') None (Some 254) (Some OBJ_id_smime_cti_ets_proofOfSender),
    Obj ''id_smime_cti_ets_proofOfApproval'' (Some ''id-smime-cti-ets-proofOfApproval'') None (Some 255) (Some OBJ_id_smime_cti_ets_proofOfApproval),
    Obj ''id_smime_cti_ets_proofOfCreation'' (Some ''id-smime-cti-ets-proofOfCreation'') None (Some 256) (Some OBJ_id_smime_cti_ets_proofOfCreation),
    Obj ''friendlyName'' None (Some ''friendlyName'') (Some 156) (Some OBJ_friendlyName),
    Obj ''localKeyID'' None (Some ''localKeyID'') (Some 157) (Some OBJ_localKeyID),
    Obj ''ms_csp_name'' (Some ''CSPName'') (Some ''Microsoft CSP Name'') (Some 417) (Some OBJ_ms_csp_name),
    Obj ''LocalKeySet'' (Some ''LocalKeySet'') (Some ''Microsoft Local Key set'') (Some 856) (Some OBJ_LocalKeySet),
    Obj ''certTypes'' None None None (Some OBJ_certTypes),
    Obj ''x509Certificate'' None (Some ''x509Certificate'') (Some 158) (Some OBJ_x509Certificate),
    Obj ''sdsiCertificate'' None (Some ''sdsiCertificate'') (Some 159) (Some OBJ_sdsiCertificate),
    Obj ''crlTypes'' None None None (Some OBJ_crlTypes),
    Obj ''x509Crl'' None (Some ''x509Crl'') (Some 160) (Some OBJ_x509Crl),
    Obj ''pkcs12'' None None None (Some OBJ_pkcs12),
    Obj ''pkcs12_pbeids'' None None None (Some OBJ_pkcs12_pbeids),
    Obj ''pbe_WithSHA1And128BitRC4'' (Some ''PBE-SHA1-RC4-128'') (Some ''pbeWithSHA1And128BitRC4'') (Some 144) (Some OBJ_pbe_WithSHA1And128BitRC4),
    Obj ''pbe_WithSHA1And40BitRC4'' (Some ''PBE-SHA1-RC4-40'') (Some ''pbeWithSHA1And40BitRC4'') (Some 145) (Some OBJ_pbe_WithSHA1And40BitRC4),
    Obj ''pbe_WithSHA1And3_Key_TripleDES_CBC'' (Some ''PBE-SHA1-3DES'') (Some ''pbeWithSHA1And3-KeyTripleDES-CBC'') (Some 146) (Some OBJ_pbe_WithSHA1And3_Key_TripleDES_CBC),
    Obj ''pbe_WithSHA1And2_Key_TripleDES_CBC'' (Some ''PBE-SHA1-2DES'') (Some ''pbeWithSHA1And2-KeyTripleDES-CBC'') (Some 147) (Some OBJ_pbe_WithSHA1And2_Key_TripleDES_CBC),
    Obj ''pbe_WithSHA1And128BitRC2_CBC'' (Some ''PBE-SHA1-RC2-128'') (Some ''pbeWithSHA1And128BitRC2-CBC'') (Some 148) (Some OBJ_pbe_WithSHA1And128BitRC2_CBC),
    Obj ''pbe_WithSHA1And40BitRC2_CBC'' (Some ''PBE-SHA1-RC2-40'') (Some ''pbeWithSHA1And40BitRC2-CBC'') (Some 149) (Some OBJ_pbe_WithSHA1And40BitRC2_CBC),
    Obj ''pkcs12_Version1'' None None None (Some OBJ_pkcs12_Version1)]"

subsection \<open>Lines 1114 to 1262\<close>

definition OBJ_pkcs12_BagIds :: "int list" where
  [obj_mac]: "OBJ_pkcs12_BagIds = OBJ_pkcs12_Version1 @ [1]"

definition OBJ_keyBag :: "int list" where
  [obj_mac]: "OBJ_keyBag = OBJ_pkcs12_BagIds @ [1]"

definition OBJ_pkcs8ShroudedKeyBag :: "int list" where
  [obj_mac]: "OBJ_pkcs8ShroudedKeyBag = OBJ_pkcs12_BagIds @ [2]"

definition OBJ_certBag :: "int list" where
  [obj_mac]: "OBJ_certBag = OBJ_pkcs12_BagIds @ [3]"

definition OBJ_crlBag :: "int list" where
  [obj_mac]: "OBJ_crlBag = OBJ_pkcs12_BagIds @ [4]"

definition OBJ_secretBag :: "int list" where
  [obj_mac]: "OBJ_secretBag = OBJ_pkcs12_BagIds @ [5]"

definition OBJ_safeContentsBag :: "int list" where
  [obj_mac]: "OBJ_safeContentsBag = OBJ_pkcs12_BagIds @ [6]"

definition OBJ_md2 :: "int list" where
  [obj_mac]: "OBJ_md2 = OBJ_rsadsi @ [2, 2]"

definition OBJ_md4 :: "int list" where
  [obj_mac]: "OBJ_md4 = OBJ_rsadsi @ [2, 4]"

definition OBJ_md5 :: "int list" where
  [obj_mac]: "OBJ_md5 = OBJ_rsadsi @ [2, 5]"

definition OBJ_hmacWithMD5 :: "int list" where
  [obj_mac]: "OBJ_hmacWithMD5 = OBJ_rsadsi @ [2, 6]"

definition OBJ_hmacWithSHA1 :: "int list" where
  [obj_mac]: "OBJ_hmacWithSHA1 = OBJ_rsadsi @ [2, 7]"

definition OBJ_hmacWithSHA224 :: "int list" where
  [obj_mac]: "OBJ_hmacWithSHA224 = OBJ_rsadsi @ [2, 8]"

definition OBJ_hmacWithSHA256 :: "int list" where
  [obj_mac]: "OBJ_hmacWithSHA256 = OBJ_rsadsi @ [2, 9]"

definition OBJ_hmacWithSHA384 :: "int list" where
  [obj_mac]: "OBJ_hmacWithSHA384 = OBJ_rsadsi @ [2, 10]"

definition OBJ_hmacWithSHA512 :: "int list" where
  [obj_mac]: "OBJ_hmacWithSHA512 = OBJ_rsadsi @ [2, 11]"

definition OBJ_rc2_cbc :: "int list" where
  [obj_mac]: "OBJ_rc2_cbc = OBJ_rsadsi @ [3, 2]"

definition OBJ_rc4 :: "int list" where
  [obj_mac]: "OBJ_rc4 = OBJ_rsadsi @ [3, 4]"

definition OBJ_des_ede3_cbc :: "int list" where
  [obj_mac]: "OBJ_des_ede3_cbc = OBJ_rsadsi @ [3, 7]"

definition OBJ_rc5_cbc :: "int list" where
  [obj_mac]: "OBJ_rc5_cbc = OBJ_rsadsi @ [3, 8]"

definition OBJ_ms_ext_req :: "int list" where
  [obj_mac]: "OBJ_ms_ext_req = [1, 3, 6, 1, 4, 1, 311, 2, 1, 14]"

definition OBJ_ms_code_ind :: "int list" where
  [obj_mac]: "OBJ_ms_code_ind = [1, 3, 6, 1, 4, 1, 311, 2, 1, 21]"

definition OBJ_ms_code_com :: "int list" where
  [obj_mac]: "OBJ_ms_code_com = [1, 3, 6, 1, 4, 1, 311, 2, 1, 22]"

definition OBJ_ms_ctl_sign :: "int list" where
  [obj_mac]: "OBJ_ms_ctl_sign = [1, 3, 6, 1, 4, 1, 311, 10, 3, 1]"

definition OBJ_ms_sgc :: "int list" where
  [obj_mac]: "OBJ_ms_sgc = [1, 3, 6, 1, 4, 1, 311, 10, 3, 3]"

definition obj_mac_08 :: "obj_def list" where
  "obj_mac_08 = [
    Obj ''pkcs12_BagIds'' None None None (Some OBJ_pkcs12_BagIds),
    Obj ''keyBag'' None (Some ''keyBag'') (Some 150) (Some OBJ_keyBag),
    Obj ''pkcs8ShroudedKeyBag'' None (Some ''pkcs8ShroudedKeyBag'') (Some 151) (Some OBJ_pkcs8ShroudedKeyBag),
    Obj ''certBag'' None (Some ''certBag'') (Some 152) (Some OBJ_certBag),
    Obj ''crlBag'' None (Some ''crlBag'') (Some 153) (Some OBJ_crlBag),
    Obj ''secretBag'' None (Some ''secretBag'') (Some 154) (Some OBJ_secretBag),
    Obj ''safeContentsBag'' None (Some ''safeContentsBag'') (Some 155) (Some OBJ_safeContentsBag),
    Obj ''md2'' (Some ''MD2'') (Some ''md2'') (Some 3) (Some OBJ_md2),
    Obj ''md4'' (Some ''MD4'') (Some ''md4'') (Some 257) (Some OBJ_md4),
    Obj ''md5'' (Some ''MD5'') (Some ''md5'') (Some 4) (Some OBJ_md5),
    Obj ''md5_sha1'' (Some ''MD5-SHA1'') (Some ''md5-sha1'') (Some 114) None,
    Obj ''hmacWithMD5'' None (Some ''hmacWithMD5'') (Some 797) (Some OBJ_hmacWithMD5),
    Obj ''hmacWithSHA1'' None (Some ''hmacWithSHA1'') (Some 163) (Some OBJ_hmacWithSHA1),
    Obj ''hmacWithSHA224'' None (Some ''hmacWithSHA224'') (Some 798) (Some OBJ_hmacWithSHA224),
    Obj ''hmacWithSHA256'' None (Some ''hmacWithSHA256'') (Some 799) (Some OBJ_hmacWithSHA256),
    Obj ''hmacWithSHA384'' None (Some ''hmacWithSHA384'') (Some 800) (Some OBJ_hmacWithSHA384),
    Obj ''hmacWithSHA512'' None (Some ''hmacWithSHA512'') (Some 801) (Some OBJ_hmacWithSHA512),
    Obj ''rc2_cbc'' (Some ''RC2-CBC'') (Some ''rc2-cbc'') (Some 37) (Some OBJ_rc2_cbc),
    Obj ''rc2_ecb'' (Some ''RC2-ECB'') (Some ''rc2-ecb'') (Some 38) None,
    Obj ''rc2_cfb64'' (Some ''RC2-CFB'') (Some ''rc2-cfb'') (Some 39) None,
    Obj ''rc2_ofb64'' (Some ''RC2-OFB'') (Some ''rc2-ofb'') (Some 40) None,
    Obj ''rc2_40_cbc'' (Some ''RC2-40-CBC'') (Some ''rc2-40-cbc'') (Some 98) None,
    Obj ''rc2_64_cbc'' (Some ''RC2-64-CBC'') (Some ''rc2-64-cbc'') (Some 166) None,
    Obj ''rc4'' (Some ''RC4'') (Some ''rc4'') (Some 5) (Some OBJ_rc4),
    Obj ''rc4_40'' (Some ''RC4-40'') (Some ''rc4-40'') (Some 97) None,
    Obj ''des_ede3_cbc'' (Some ''DES-EDE3-CBC'') (Some ''des-ede3-cbc'') (Some 44) (Some OBJ_des_ede3_cbc),
    Obj ''rc5_cbc'' (Some ''RC5-CBC'') (Some ''rc5-cbc'') (Some 120) (Some OBJ_rc5_cbc),
    Obj ''rc5_ecb'' (Some ''RC5-ECB'') (Some ''rc5-ecb'') (Some 121) None,
    Obj ''rc5_cfb64'' (Some ''RC5-CFB'') (Some ''rc5-cfb'') (Some 122) None,
    Obj ''rc5_ofb64'' (Some ''RC5-OFB'') (Some ''rc5-ofb'') (Some 123) None,
    Obj ''ms_ext_req'' (Some ''msExtReq'') (Some ''Microsoft Extension Request'') (Some 171) (Some OBJ_ms_ext_req),
    Obj ''ms_code_ind'' (Some ''msCodeInd'') (Some ''Microsoft Individual Code Signing'') (Some 134) (Some OBJ_ms_code_ind),
    Obj ''ms_code_com'' (Some ''msCodeCom'') (Some ''Microsoft Commercial Code Signing'') (Some 135) (Some OBJ_ms_code_com),
    Obj ''ms_ctl_sign'' (Some ''msCTLSign'') (Some ''Microsoft Trust List Signing'') (Some 136) (Some OBJ_ms_ctl_sign),
    Obj ''ms_sgc'' (Some ''msSGC'') (Some ''Microsoft Server Gated Crypto'') (Some 137) (Some OBJ_ms_sgc)]"

subsection \<open>Lines 1264 to 1411\<close>

definition OBJ_ms_efs :: "int list" where
  [obj_mac]: "OBJ_ms_efs = [1, 3, 6, 1, 4, 1, 311, 10, 3, 4]"

definition OBJ_ms_smartcard_login :: "int list" where
  [obj_mac]: "OBJ_ms_smartcard_login = [1, 3, 6, 1, 4, 1, 311, 20, 2, 2]"

definition OBJ_ms_upn :: "int list" where
  [obj_mac]: "OBJ_ms_upn = [1, 3, 6, 1, 4, 1, 311, 20, 2, 3]"

definition OBJ_idea_cbc :: "int list" where
  [obj_mac]: "OBJ_idea_cbc = [1, 3, 6, 1, 4, 1, 188, 7, 1, 1, 2]"

definition OBJ_bf_cbc :: "int list" where
  [obj_mac]: "OBJ_bf_cbc = [1, 3, 6, 1, 4, 1, 3029, 1, 2]"

definition OBJ_id_pkix :: "int list" where
  [obj_mac]: "OBJ_id_pkix = [1, 3, 6, 1, 5, 5, 7]"

definition OBJ_id_pkix_mod :: "int list" where
  [obj_mac]: "OBJ_id_pkix_mod = OBJ_id_pkix @ [0]"

definition OBJ_id_pe :: "int list" where
  [obj_mac]: "OBJ_id_pe = OBJ_id_pkix @ [1]"

definition OBJ_id_qt :: "int list" where
  [obj_mac]: "OBJ_id_qt = OBJ_id_pkix @ [2]"

definition OBJ_id_kp :: "int list" where
  [obj_mac]: "OBJ_id_kp = OBJ_id_pkix @ [3]"

definition OBJ_id_it :: "int list" where
  [obj_mac]: "OBJ_id_it = OBJ_id_pkix @ [4]"

definition OBJ_id_pkip :: "int list" where
  [obj_mac]: "OBJ_id_pkip = OBJ_id_pkix @ [5]"

definition OBJ_id_alg :: "int list" where
  [obj_mac]: "OBJ_id_alg = OBJ_id_pkix @ [6]"

definition OBJ_id_cmc :: "int list" where
  [obj_mac]: "OBJ_id_cmc = OBJ_id_pkix @ [7]"

definition OBJ_id_on :: "int list" where
  [obj_mac]: "OBJ_id_on = OBJ_id_pkix @ [8]"

definition OBJ_id_pda :: "int list" where
  [obj_mac]: "OBJ_id_pda = OBJ_id_pkix @ [9]"

definition OBJ_id_aca :: "int list" where
  [obj_mac]: "OBJ_id_aca = OBJ_id_pkix @ [10]"

definition OBJ_id_qcs :: "int list" where
  [obj_mac]: "OBJ_id_qcs = OBJ_id_pkix @ [11]"

definition OBJ_id_cct :: "int list" where
  [obj_mac]: "OBJ_id_cct = OBJ_id_pkix @ [12]"

definition OBJ_id_ppl :: "int list" where
  [obj_mac]: "OBJ_id_ppl = OBJ_id_pkix @ [21]"

definition OBJ_id_ad :: "int list" where
  [obj_mac]: "OBJ_id_ad = OBJ_id_pkix @ [48]"

definition OBJ_id_pkix1_explicit_88 :: "int list" where
  [obj_mac]: "OBJ_id_pkix1_explicit_88 = OBJ_id_pkix_mod @ [1]"

definition OBJ_id_pkix1_implicit_88 :: "int list" where
  [obj_mac]: "OBJ_id_pkix1_implicit_88 = OBJ_id_pkix_mod @ [2]"

definition OBJ_id_pkix1_explicit_93 :: "int list" where
  [obj_mac]: "OBJ_id_pkix1_explicit_93 = OBJ_id_pkix_mod @ [3]"

definition OBJ_id_pkix1_implicit_93 :: "int list" where
  [obj_mac]: "OBJ_id_pkix1_implicit_93 = OBJ_id_pkix_mod @ [4]"

definition OBJ_id_mod_crmf :: "int list" where
  [obj_mac]: "OBJ_id_mod_crmf = OBJ_id_pkix_mod @ [5]"

definition OBJ_id_mod_cmc :: "int list" where
  [obj_mac]: "OBJ_id_mod_cmc = OBJ_id_pkix_mod @ [6]"

definition OBJ_id_mod_kea_profile_88 :: "int list" where
  [obj_mac]: "OBJ_id_mod_kea_profile_88 = OBJ_id_pkix_mod @ [7]"

definition OBJ_id_mod_kea_profile_93 :: "int list" where
  [obj_mac]: "OBJ_id_mod_kea_profile_93 = OBJ_id_pkix_mod @ [8]"

definition OBJ_id_mod_cmp :: "int list" where
  [obj_mac]: "OBJ_id_mod_cmp = OBJ_id_pkix_mod @ [9]"

definition obj_mac_09 :: "obj_def list" where
  "obj_mac_09 = [
    Obj ''ms_efs'' (Some ''msEFS'') (Some ''Microsoft Encrypted File System'') (Some 138) (Some OBJ_ms_efs),
    Obj ''ms_smartcard_login'' (Some ''msSmartcardLogin'') (Some ''Microsoft Smartcardlogin'') (Some 648) (Some OBJ_ms_smartcard_login),
    Obj ''ms_upn'' (Some ''msUPN'') (Some ''Microsoft Universal Principal Name'') (Some 649) (Some OBJ_ms_upn),
    Obj ''idea_cbc'' (Some ''IDEA-CBC'') (Some ''idea-cbc'') (Some 34) (Some OBJ_idea_cbc),
    Obj ''idea_ecb'' (Some ''IDEA-ECB'') (Some ''idea-ecb'') (Some 36) None,
    Obj ''idea_cfb64'' (Some ''IDEA-CFB'') (Some ''idea-cfb'') (Some 35) None,
    Obj ''idea_ofb64'' (Some ''IDEA-OFB'') (Some ''idea-ofb'') (Some 46) None,
    Obj ''bf_cbc'' (Some ''BF-CBC'') (Some ''bf-cbc'') (Some 91) (Some OBJ_bf_cbc),
    Obj ''bf_ecb'' (Some ''BF-ECB'') (Some ''bf-ecb'') (Some 92) None,
    Obj ''bf_cfb64'' (Some ''BF-CFB'') (Some ''bf-cfb'') (Some 93) None,
    Obj ''bf_ofb64'' (Some ''BF-OFB'') (Some ''bf-ofb'') (Some 94) None,
    Obj ''id_pkix'' (Some ''PKIX'') None (Some 127) (Some OBJ_id_pkix),
    Obj ''id_pkix_mod'' (Some ''id-pkix-mod'') None (Some 258) (Some OBJ_id_pkix_mod),
    Obj ''id_pe'' (Some ''id-pe'') None (Some 175) (Some OBJ_id_pe),
    Obj ''id_qt'' (Some ''id-qt'') None (Some 259) (Some OBJ_id_qt),
    Obj ''id_kp'' (Some ''id-kp'') None (Some 128) (Some OBJ_id_kp),
    Obj ''id_it'' (Some ''id-it'') None (Some 260) (Some OBJ_id_it),
    Obj ''id_pkip'' (Some ''id-pkip'') None (Some 261) (Some OBJ_id_pkip),
    Obj ''id_alg'' (Some ''id-alg'') None (Some 262) (Some OBJ_id_alg),
    Obj ''id_cmc'' (Some ''id-cmc'') None (Some 263) (Some OBJ_id_cmc),
    Obj ''id_on'' (Some ''id-on'') None (Some 264) (Some OBJ_id_on),
    Obj ''id_pda'' (Some ''id-pda'') None (Some 265) (Some OBJ_id_pda),
    Obj ''id_aca'' (Some ''id-aca'') None (Some 266) (Some OBJ_id_aca),
    Obj ''id_qcs'' (Some ''id-qcs'') None (Some 267) (Some OBJ_id_qcs),
    Obj ''id_cct'' (Some ''id-cct'') None (Some 268) (Some OBJ_id_cct),
    Obj ''id_ppl'' (Some ''id-ppl'') None (Some 662) (Some OBJ_id_ppl),
    Obj ''id_ad'' (Some ''id-ad'') None (Some 176) (Some OBJ_id_ad),
    Obj ''id_pkix1_explicit_88'' (Some ''id-pkix1-explicit-88'') None (Some 269) (Some OBJ_id_pkix1_explicit_88),
    Obj ''id_pkix1_implicit_88'' (Some ''id-pkix1-implicit-88'') None (Some 270) (Some OBJ_id_pkix1_implicit_88),
    Obj ''id_pkix1_explicit_93'' (Some ''id-pkix1-explicit-93'') None (Some 271) (Some OBJ_id_pkix1_explicit_93),
    Obj ''id_pkix1_implicit_93'' (Some ''id-pkix1-implicit-93'') None (Some 272) (Some OBJ_id_pkix1_implicit_93),
    Obj ''id_mod_crmf'' (Some ''id-mod-crmf'') None (Some 273) (Some OBJ_id_mod_crmf),
    Obj ''id_mod_cmc'' (Some ''id-mod-cmc'') None (Some 274) (Some OBJ_id_mod_cmc),
    Obj ''id_mod_kea_profile_88'' (Some ''id-mod-kea-profile-88'') None (Some 275) (Some OBJ_id_mod_kea_profile_88),
    Obj ''id_mod_kea_profile_93'' (Some ''id-mod-kea-profile-93'') None (Some 276) (Some OBJ_id_mod_kea_profile_93),
    Obj ''id_mod_cmp'' (Some ''id-mod-cmp'') None (Some 277) (Some OBJ_id_mod_cmp)]"

subsection \<open>Lines 1413 to 1559\<close>

definition OBJ_id_mod_qualified_cert_88 :: "int list" where
  [obj_mac]: "OBJ_id_mod_qualified_cert_88 = OBJ_id_pkix_mod @ [10]"

definition OBJ_id_mod_qualified_cert_93 :: "int list" where
  [obj_mac]: "OBJ_id_mod_qualified_cert_93 = OBJ_id_pkix_mod @ [11]"

definition OBJ_id_mod_attribute_cert :: "int list" where
  [obj_mac]: "OBJ_id_mod_attribute_cert = OBJ_id_pkix_mod @ [12]"

definition OBJ_id_mod_timestamp_protocol :: "int list" where
  [obj_mac]: "OBJ_id_mod_timestamp_protocol = OBJ_id_pkix_mod @ [13]"

definition OBJ_id_mod_ocsp :: "int list" where
  [obj_mac]: "OBJ_id_mod_ocsp = OBJ_id_pkix_mod @ [14]"

definition OBJ_id_mod_dvcs :: "int list" where
  [obj_mac]: "OBJ_id_mod_dvcs = OBJ_id_pkix_mod @ [15]"

definition OBJ_id_mod_cmp2000 :: "int list" where
  [obj_mac]: "OBJ_id_mod_cmp2000 = OBJ_id_pkix_mod @ [16]"

definition OBJ_info_access :: "int list" where
  [obj_mac]: "OBJ_info_access = OBJ_id_pe @ [1]"

definition OBJ_biometricInfo :: "int list" where
  [obj_mac]: "OBJ_biometricInfo = OBJ_id_pe @ [2]"

definition OBJ_qcStatements :: "int list" where
  [obj_mac]: "OBJ_qcStatements = OBJ_id_pe @ [3]"

definition OBJ_ac_auditEntity :: "int list" where
  [obj_mac]: "OBJ_ac_auditEntity = OBJ_id_pe @ [4]"

definition OBJ_ac_targeting :: "int list" where
  [obj_mac]: "OBJ_ac_targeting = OBJ_id_pe @ [5]"

definition OBJ_aaControls :: "int list" where
  [obj_mac]: "OBJ_aaControls = OBJ_id_pe @ [6]"

definition OBJ_sbgp_ipAddrBlock :: "int list" where
  [obj_mac]: "OBJ_sbgp_ipAddrBlock = OBJ_id_pe @ [7]"

definition OBJ_sbgp_autonomousSysNum :: "int list" where
  [obj_mac]: "OBJ_sbgp_autonomousSysNum = OBJ_id_pe @ [8]"

definition OBJ_sbgp_routerIdentifier :: "int list" where
  [obj_mac]: "OBJ_sbgp_routerIdentifier = OBJ_id_pe @ [9]"

definition OBJ_ac_proxying :: "int list" where
  [obj_mac]: "OBJ_ac_proxying = OBJ_id_pe @ [10]"

definition OBJ_sinfo_access :: "int list" where
  [obj_mac]: "OBJ_sinfo_access = OBJ_id_pe @ [11]"

definition OBJ_proxyCertInfo :: "int list" where
  [obj_mac]: "OBJ_proxyCertInfo = OBJ_id_pe @ [14]"

definition OBJ_id_qt_cps :: "int list" where
  [obj_mac]: "OBJ_id_qt_cps = OBJ_id_qt @ [1]"

definition OBJ_id_qt_unotice :: "int list" where
  [obj_mac]: "OBJ_id_qt_unotice = OBJ_id_qt @ [2]"

definition OBJ_textNotice :: "int list" where
  [obj_mac]: "OBJ_textNotice = OBJ_id_qt @ [3]"

definition OBJ_server_auth :: "int list" where
  [obj_mac]: "OBJ_server_auth = OBJ_id_kp @ [1]"

definition OBJ_client_auth :: "int list" where
  [obj_mac]: "OBJ_client_auth = OBJ_id_kp @ [2]"

definition OBJ_code_sign :: "int list" where
  [obj_mac]: "OBJ_code_sign = OBJ_id_kp @ [3]"

definition OBJ_email_protect :: "int list" where
  [obj_mac]: "OBJ_email_protect = OBJ_id_kp @ [4]"

definition OBJ_ipsecEndSystem :: "int list" where
  [obj_mac]: "OBJ_ipsecEndSystem = OBJ_id_kp @ [5]"

definition OBJ_ipsecTunnel :: "int list" where
  [obj_mac]: "OBJ_ipsecTunnel = OBJ_id_kp @ [6]"

definition OBJ_ipsecUser :: "int list" where
  [obj_mac]: "OBJ_ipsecUser = OBJ_id_kp @ [7]"

definition OBJ_time_stamp :: "int list" where
  [obj_mac]: "OBJ_time_stamp = OBJ_id_kp @ [8]"

definition OBJ_OCSP_sign :: "int list" where
  [obj_mac]: "OBJ_OCSP_sign = OBJ_id_kp @ [9]"

definition OBJ_dvcs :: "int list" where
  [obj_mac]: "OBJ_dvcs = OBJ_id_kp @ [10]"

definition OBJ_id_it_caProtEncCert :: "int list" where
  [obj_mac]: "OBJ_id_it_caProtEncCert = OBJ_id_it @ [1]"

definition obj_mac_10 :: "obj_def list" where
  "obj_mac_10 = [
    Obj ''id_mod_qualified_cert_88'' (Some ''id-mod-qualified-cert-88'') None (Some 278) (Some OBJ_id_mod_qualified_cert_88),
    Obj ''id_mod_qualified_cert_93'' (Some ''id-mod-qualified-cert-93'') None (Some 279) (Some OBJ_id_mod_qualified_cert_93),
    Obj ''id_mod_attribute_cert'' (Some ''id-mod-attribute-cert'') None (Some 280) (Some OBJ_id_mod_attribute_cert),
    Obj ''id_mod_timestamp_protocol'' (Some ''id-mod-timestamp-protocol'') None (Some 281) (Some OBJ_id_mod_timestamp_protocol),
    Obj ''id_mod_ocsp'' (Some ''id-mod-ocsp'') None (Some 282) (Some OBJ_id_mod_ocsp),
    Obj ''id_mod_dvcs'' (Some ''id-mod-dvcs'') None (Some 283) (Some OBJ_id_mod_dvcs),
    Obj ''id_mod_cmp2000'' (Some ''id-mod-cmp2000'') None (Some 284) (Some OBJ_id_mod_cmp2000),
    Obj ''info_access'' (Some ''authorityInfoAccess'') (Some ''Authority Information Access'') (Some 177) (Some OBJ_info_access),
    Obj ''biometricInfo'' (Some ''biometricInfo'') (Some ''Biometric Info'') (Some 285) (Some OBJ_biometricInfo),
    Obj ''qcStatements'' (Some ''qcStatements'') None (Some 286) (Some OBJ_qcStatements),
    Obj ''ac_auditEntity'' (Some ''ac-auditEntity'') None (Some 287) (Some OBJ_ac_auditEntity),
    Obj ''ac_targeting'' (Some ''ac-targeting'') None (Some 288) (Some OBJ_ac_targeting),
    Obj ''aaControls'' (Some ''aaControls'') None (Some 289) (Some OBJ_aaControls),
    Obj ''sbgp_ipAddrBlock'' (Some ''sbgp-ipAddrBlock'') None (Some 290) (Some OBJ_sbgp_ipAddrBlock),
    Obj ''sbgp_autonomousSysNum'' (Some ''sbgp-autonomousSysNum'') None (Some 291) (Some OBJ_sbgp_autonomousSysNum),
    Obj ''sbgp_routerIdentifier'' (Some ''sbgp-routerIdentifier'') None (Some 292) (Some OBJ_sbgp_routerIdentifier),
    Obj ''ac_proxying'' (Some ''ac-proxying'') None (Some 397) (Some OBJ_ac_proxying),
    Obj ''sinfo_access'' (Some ''subjectInfoAccess'') (Some ''Subject Information Access'') (Some 398) (Some OBJ_sinfo_access),
    Obj ''proxyCertInfo'' (Some ''proxyCertInfo'') (Some ''Proxy Certificate Information'') (Some 663) (Some OBJ_proxyCertInfo),
    Obj ''id_qt_cps'' (Some ''id-qt-cps'') (Some ''Policy Qualifier CPS'') (Some 164) (Some OBJ_id_qt_cps),
    Obj ''id_qt_unotice'' (Some ''id-qt-unotice'') (Some ''Policy Qualifier User Notice'') (Some 165) (Some OBJ_id_qt_unotice),
    Obj ''textNotice'' (Some ''textNotice'') None (Some 293) (Some OBJ_textNotice),
    Obj ''server_auth'' (Some ''serverAuth'') (Some ''TLS Web Server Authentication'') (Some 129) (Some OBJ_server_auth),
    Obj ''client_auth'' (Some ''clientAuth'') (Some ''TLS Web Client Authentication'') (Some 130) (Some OBJ_client_auth),
    Obj ''code_sign'' (Some ''codeSigning'') (Some ''Code Signing'') (Some 131) (Some OBJ_code_sign),
    Obj ''email_protect'' (Some ''emailProtection'') (Some ''E-mail Protection'') (Some 132) (Some OBJ_email_protect),
    Obj ''ipsecEndSystem'' (Some ''ipsecEndSystem'') (Some ''IPSec End System'') (Some 294) (Some OBJ_ipsecEndSystem),
    Obj ''ipsecTunnel'' (Some ''ipsecTunnel'') (Some ''IPSec Tunnel'') (Some 295) (Some OBJ_ipsecTunnel),
    Obj ''ipsecUser'' (Some ''ipsecUser'') (Some ''IPSec User'') (Some 296) (Some OBJ_ipsecUser),
    Obj ''time_stamp'' (Some ''timeStamping'') (Some ''Time Stamping'') (Some 133) (Some OBJ_time_stamp),
    Obj ''OCSP_sign'' (Some ''OCSPSigning'') (Some ''OCSP Signing'') (Some 180) (Some OBJ_OCSP_sign),
    Obj ''dvcs'' (Some ''DVCS'') (Some ''dvcs'') (Some 297) (Some OBJ_dvcs),
    Obj ''id_it_caProtEncCert'' (Some ''id-it-caProtEncCert'') None (Some 298) (Some OBJ_id_it_caProtEncCert)]"

subsection \<open>Lines 1561 to 1707\<close>

definition OBJ_id_it_signKeyPairTypes :: "int list" where
  [obj_mac]: "OBJ_id_it_signKeyPairTypes = OBJ_id_it @ [2]"

definition OBJ_id_it_encKeyPairTypes :: "int list" where
  [obj_mac]: "OBJ_id_it_encKeyPairTypes = OBJ_id_it @ [3]"

definition OBJ_id_it_preferredSymmAlg :: "int list" where
  [obj_mac]: "OBJ_id_it_preferredSymmAlg = OBJ_id_it @ [4]"

definition OBJ_id_it_caKeyUpdateInfo :: "int list" where
  [obj_mac]: "OBJ_id_it_caKeyUpdateInfo = OBJ_id_it @ [5]"

definition OBJ_id_it_currentCRL :: "int list" where
  [obj_mac]: "OBJ_id_it_currentCRL = OBJ_id_it @ [6]"

definition OBJ_id_it_unsupportedOIDs :: "int list" where
  [obj_mac]: "OBJ_id_it_unsupportedOIDs = OBJ_id_it @ [7]"

definition OBJ_id_it_subscriptionRequest :: "int list" where
  [obj_mac]: "OBJ_id_it_subscriptionRequest = OBJ_id_it @ [8]"

definition OBJ_id_it_subscriptionResponse :: "int list" where
  [obj_mac]: "OBJ_id_it_subscriptionResponse = OBJ_id_it @ [9]"

definition OBJ_id_it_keyPairParamReq :: "int list" where
  [obj_mac]: "OBJ_id_it_keyPairParamReq = OBJ_id_it @ [10]"

definition OBJ_id_it_keyPairParamRep :: "int list" where
  [obj_mac]: "OBJ_id_it_keyPairParamRep = OBJ_id_it @ [11]"

definition OBJ_id_it_revPassphrase :: "int list" where
  [obj_mac]: "OBJ_id_it_revPassphrase = OBJ_id_it @ [12]"

definition OBJ_id_it_implicitConfirm :: "int list" where
  [obj_mac]: "OBJ_id_it_implicitConfirm = OBJ_id_it @ [13]"

definition OBJ_id_it_confirmWaitTime :: "int list" where
  [obj_mac]: "OBJ_id_it_confirmWaitTime = OBJ_id_it @ [14]"

definition OBJ_id_it_origPKIMessage :: "int list" where
  [obj_mac]: "OBJ_id_it_origPKIMessage = OBJ_id_it @ [15]"

definition OBJ_id_it_suppLangTags :: "int list" where
  [obj_mac]: "OBJ_id_it_suppLangTags = OBJ_id_it @ [16]"

definition OBJ_id_regCtrl :: "int list" where
  [obj_mac]: "OBJ_id_regCtrl = OBJ_id_pkip @ [1]"

definition OBJ_id_regInfo :: "int list" where
  [obj_mac]: "OBJ_id_regInfo = OBJ_id_pkip @ [2]"

definition OBJ_id_regCtrl_regToken :: "int list" where
  [obj_mac]: "OBJ_id_regCtrl_regToken = OBJ_id_regCtrl @ [1]"

definition OBJ_id_regCtrl_authenticator :: "int list" where
  [obj_mac]: "OBJ_id_regCtrl_authenticator = OBJ_id_regCtrl @ [2]"

definition OBJ_id_regCtrl_pkiPublicationInfo :: "int list" where
  [obj_mac]: "OBJ_id_regCtrl_pkiPublicationInfo = OBJ_id_regCtrl @ [3]"

definition OBJ_id_regCtrl_pkiArchiveOptions :: "int list" where
  [obj_mac]: "OBJ_id_regCtrl_pkiArchiveOptions = OBJ_id_regCtrl @ [4]"

definition OBJ_id_regCtrl_oldCertID :: "int list" where
  [obj_mac]: "OBJ_id_regCtrl_oldCertID = OBJ_id_regCtrl @ [5]"

definition OBJ_id_regCtrl_protocolEncrKey :: "int list" where
  [obj_mac]: "OBJ_id_regCtrl_protocolEncrKey = OBJ_id_regCtrl @ [6]"

definition OBJ_id_regInfo_utf8Pairs :: "int list" where
  [obj_mac]: "OBJ_id_regInfo_utf8Pairs = OBJ_id_regInfo @ [1]"

definition OBJ_id_regInfo_certReq :: "int list" where
  [obj_mac]: "OBJ_id_regInfo_certReq = OBJ_id_regInfo @ [2]"

definition OBJ_id_alg_des40 :: "int list" where
  [obj_mac]: "OBJ_id_alg_des40 = OBJ_id_alg @ [1]"

definition OBJ_id_alg_noSignature :: "int list" where
  [obj_mac]: "OBJ_id_alg_noSignature = OBJ_id_alg @ [2]"

definition OBJ_id_alg_dh_sig_hmac_sha1 :: "int list" where
  [obj_mac]: "OBJ_id_alg_dh_sig_hmac_sha1 = OBJ_id_alg @ [3]"

definition OBJ_id_alg_dh_pop :: "int list" where
  [obj_mac]: "OBJ_id_alg_dh_pop = OBJ_id_alg @ [4]"

definition OBJ_id_cmc_statusInfo :: "int list" where
  [obj_mac]: "OBJ_id_cmc_statusInfo = OBJ_id_cmc @ [1]"

definition OBJ_id_cmc_identification :: "int list" where
  [obj_mac]: "OBJ_id_cmc_identification = OBJ_id_cmc @ [2]"

definition OBJ_id_cmc_identityProof :: "int list" where
  [obj_mac]: "OBJ_id_cmc_identityProof = OBJ_id_cmc @ [3]"

definition OBJ_id_cmc_dataReturn :: "int list" where
  [obj_mac]: "OBJ_id_cmc_dataReturn = OBJ_id_cmc @ [4]"

definition OBJ_id_cmc_transactionId :: "int list" where
  [obj_mac]: "OBJ_id_cmc_transactionId = OBJ_id_cmc @ [5]"

definition OBJ_id_cmc_senderNonce :: "int list" where
  [obj_mac]: "OBJ_id_cmc_senderNonce = OBJ_id_cmc @ [6]"

definition OBJ_id_cmc_recipientNonce :: "int list" where
  [obj_mac]: "OBJ_id_cmc_recipientNonce = OBJ_id_cmc @ [7]"

definition OBJ_id_cmc_addExtensions :: "int list" where
  [obj_mac]: "OBJ_id_cmc_addExtensions = OBJ_id_cmc @ [8]"

definition obj_mac_11 :: "obj_def list" where
  "obj_mac_11 = [
    Obj ''id_it_signKeyPairTypes'' (Some ''id-it-signKeyPairTypes'') None (Some 299) (Some OBJ_id_it_signKeyPairTypes),
    Obj ''id_it_encKeyPairTypes'' (Some ''id-it-encKeyPairTypes'') None (Some 300) (Some OBJ_id_it_encKeyPairTypes),
    Obj ''id_it_preferredSymmAlg'' (Some ''id-it-preferredSymmAlg'') None (Some 301) (Some OBJ_id_it_preferredSymmAlg),
    Obj ''id_it_caKeyUpdateInfo'' (Some ''id-it-caKeyUpdateInfo'') None (Some 302) (Some OBJ_id_it_caKeyUpdateInfo),
    Obj ''id_it_currentCRL'' (Some ''id-it-currentCRL'') None (Some 303) (Some OBJ_id_it_currentCRL),
    Obj ''id_it_unsupportedOIDs'' (Some ''id-it-unsupportedOIDs'') None (Some 304) (Some OBJ_id_it_unsupportedOIDs),
    Obj ''id_it_subscriptionRequest'' (Some ''id-it-subscriptionRequest'') None (Some 305) (Some OBJ_id_it_subscriptionRequest),
    Obj ''id_it_subscriptionResponse'' (Some ''id-it-subscriptionResponse'') None (Some 306) (Some OBJ_id_it_subscriptionResponse),
    Obj ''id_it_keyPairParamReq'' (Some ''id-it-keyPairParamReq'') None (Some 307) (Some OBJ_id_it_keyPairParamReq),
    Obj ''id_it_keyPairParamRep'' (Some ''id-it-keyPairParamRep'') None (Some 308) (Some OBJ_id_it_keyPairParamRep),
    Obj ''id_it_revPassphrase'' (Some ''id-it-revPassphrase'') None (Some 309) (Some OBJ_id_it_revPassphrase),
    Obj ''id_it_implicitConfirm'' (Some ''id-it-implicitConfirm'') None (Some 310) (Some OBJ_id_it_implicitConfirm),
    Obj ''id_it_confirmWaitTime'' (Some ''id-it-confirmWaitTime'') None (Some 311) (Some OBJ_id_it_confirmWaitTime),
    Obj ''id_it_origPKIMessage'' (Some ''id-it-origPKIMessage'') None (Some 312) (Some OBJ_id_it_origPKIMessage),
    Obj ''id_it_suppLangTags'' (Some ''id-it-suppLangTags'') None (Some 784) (Some OBJ_id_it_suppLangTags),
    Obj ''id_regCtrl'' (Some ''id-regCtrl'') None (Some 313) (Some OBJ_id_regCtrl),
    Obj ''id_regInfo'' (Some ''id-regInfo'') None (Some 314) (Some OBJ_id_regInfo),
    Obj ''id_regCtrl_regToken'' (Some ''id-regCtrl-regToken'') None (Some 315) (Some OBJ_id_regCtrl_regToken),
    Obj ''id_regCtrl_authenticator'' (Some ''id-regCtrl-authenticator'') None (Some 316) (Some OBJ_id_regCtrl_authenticator),
    Obj ''id_regCtrl_pkiPublicationInfo'' (Some ''id-regCtrl-pkiPublicationInfo'') None (Some 317) (Some OBJ_id_regCtrl_pkiPublicationInfo),
    Obj ''id_regCtrl_pkiArchiveOptions'' (Some ''id-regCtrl-pkiArchiveOptions'') None (Some 318) (Some OBJ_id_regCtrl_pkiArchiveOptions),
    Obj ''id_regCtrl_oldCertID'' (Some ''id-regCtrl-oldCertID'') None (Some 319) (Some OBJ_id_regCtrl_oldCertID),
    Obj ''id_regCtrl_protocolEncrKey'' (Some ''id-regCtrl-protocolEncrKey'') None (Some 320) (Some OBJ_id_regCtrl_protocolEncrKey),
    Obj ''id_regInfo_utf8Pairs'' (Some ''id-regInfo-utf8Pairs'') None (Some 321) (Some OBJ_id_regInfo_utf8Pairs),
    Obj ''id_regInfo_certReq'' (Some ''id-regInfo-certReq'') None (Some 322) (Some OBJ_id_regInfo_certReq),
    Obj ''id_alg_des40'' (Some ''id-alg-des40'') None (Some 323) (Some OBJ_id_alg_des40),
    Obj ''id_alg_noSignature'' (Some ''id-alg-noSignature'') None (Some 324) (Some OBJ_id_alg_noSignature),
    Obj ''id_alg_dh_sig_hmac_sha1'' (Some ''id-alg-dh-sig-hmac-sha1'') None (Some 325) (Some OBJ_id_alg_dh_sig_hmac_sha1),
    Obj ''id_alg_dh_pop'' (Some ''id-alg-dh-pop'') None (Some 326) (Some OBJ_id_alg_dh_pop),
    Obj ''id_cmc_statusInfo'' (Some ''id-cmc-statusInfo'') None (Some 327) (Some OBJ_id_cmc_statusInfo),
    Obj ''id_cmc_identification'' (Some ''id-cmc-identification'') None (Some 328) (Some OBJ_id_cmc_identification),
    Obj ''id_cmc_identityProof'' (Some ''id-cmc-identityProof'') None (Some 329) (Some OBJ_id_cmc_identityProof),
    Obj ''id_cmc_dataReturn'' (Some ''id-cmc-dataReturn'') None (Some 330) (Some OBJ_id_cmc_dataReturn),
    Obj ''id_cmc_transactionId'' (Some ''id-cmc-transactionId'') None (Some 331) (Some OBJ_id_cmc_transactionId),
    Obj ''id_cmc_senderNonce'' (Some ''id-cmc-senderNonce'') None (Some 332) (Some OBJ_id_cmc_senderNonce),
    Obj ''id_cmc_recipientNonce'' (Some ''id-cmc-recipientNonce'') None (Some 333) (Some OBJ_id_cmc_recipientNonce),
    Obj ''id_cmc_addExtensions'' (Some ''id-cmc-addExtensions'') None (Some 334) (Some OBJ_id_cmc_addExtensions)]"

subsection \<open>Lines 1709 to 1854\<close>

definition OBJ_id_cmc_encryptedPOP :: "int list" where
  [obj_mac]: "OBJ_id_cmc_encryptedPOP = OBJ_id_cmc @ [9]"

definition OBJ_id_cmc_decryptedPOP :: "int list" where
  [obj_mac]: "OBJ_id_cmc_decryptedPOP = OBJ_id_cmc @ [10]"

definition OBJ_id_cmc_lraPOPWitness :: "int list" where
  [obj_mac]: "OBJ_id_cmc_lraPOPWitness = OBJ_id_cmc @ [11]"

definition OBJ_id_cmc_getCert :: "int list" where
  [obj_mac]: "OBJ_id_cmc_getCert = OBJ_id_cmc @ [15]"

definition OBJ_id_cmc_getCRL :: "int list" where
  [obj_mac]: "OBJ_id_cmc_getCRL = OBJ_id_cmc @ [16]"

definition OBJ_id_cmc_revokeRequest :: "int list" where
  [obj_mac]: "OBJ_id_cmc_revokeRequest = OBJ_id_cmc @ [17]"

definition OBJ_id_cmc_regInfo :: "int list" where
  [obj_mac]: "OBJ_id_cmc_regInfo = OBJ_id_cmc @ [18]"

definition OBJ_id_cmc_responseInfo :: "int list" where
  [obj_mac]: "OBJ_id_cmc_responseInfo = OBJ_id_cmc @ [19]"

definition OBJ_id_cmc_queryPending :: "int list" where
  [obj_mac]: "OBJ_id_cmc_queryPending = OBJ_id_cmc @ [21]"

definition OBJ_id_cmc_popLinkRandom :: "int list" where
  [obj_mac]: "OBJ_id_cmc_popLinkRandom = OBJ_id_cmc @ [22]"

definition OBJ_id_cmc_popLinkWitness :: "int list" where
  [obj_mac]: "OBJ_id_cmc_popLinkWitness = OBJ_id_cmc @ [23]"

definition OBJ_id_cmc_confirmCertAcceptance :: "int list" where
  [obj_mac]: "OBJ_id_cmc_confirmCertAcceptance = OBJ_id_cmc @ [24]"

definition OBJ_id_on_personalData :: "int list" where
  [obj_mac]: "OBJ_id_on_personalData = OBJ_id_on @ [1]"

definition OBJ_id_on_permanentIdentifier :: "int list" where
  [obj_mac]: "OBJ_id_on_permanentIdentifier = OBJ_id_on @ [3]"

definition OBJ_id_pda_dateOfBirth :: "int list" where
  [obj_mac]: "OBJ_id_pda_dateOfBirth = OBJ_id_pda @ [1]"

definition OBJ_id_pda_placeOfBirth :: "int list" where
  [obj_mac]: "OBJ_id_pda_placeOfBirth = OBJ_id_pda @ [2]"

definition OBJ_id_pda_gender :: "int list" where
  [obj_mac]: "OBJ_id_pda_gender = OBJ_id_pda @ [3]"

definition OBJ_id_pda_countryOfCitizenship :: "int list" where
  [obj_mac]: "OBJ_id_pda_countryOfCitizenship = OBJ_id_pda @ [4]"

definition OBJ_id_pda_countryOfResidence :: "int list" where
  [obj_mac]: "OBJ_id_pda_countryOfResidence = OBJ_id_pda @ [5]"

definition OBJ_id_aca_authenticationInfo :: "int list" where
  [obj_mac]: "OBJ_id_aca_authenticationInfo = OBJ_id_aca @ [1]"

definition OBJ_id_aca_accessIdentity :: "int list" where
  [obj_mac]: "OBJ_id_aca_accessIdentity = OBJ_id_aca @ [2]"

definition OBJ_id_aca_chargingIdentity :: "int list" where
  [obj_mac]: "OBJ_id_aca_chargingIdentity = OBJ_id_aca @ [3]"

definition OBJ_id_aca_group :: "int list" where
  [obj_mac]: "OBJ_id_aca_group = OBJ_id_aca @ [4]"

definition OBJ_id_aca_role :: "int list" where
  [obj_mac]: "OBJ_id_aca_role = OBJ_id_aca @ [5]"

definition OBJ_id_aca_encAttrs :: "int list" where
  [obj_mac]: "OBJ_id_aca_encAttrs = OBJ_id_aca @ [6]"

definition OBJ_id_qcs_pkixQCSyntax_v1 :: "int list" where
  [obj_mac]: "OBJ_id_qcs_pkixQCSyntax_v1 = OBJ_id_qcs @ [1]"

definition OBJ_id_cct_crs :: "int list" where
  [obj_mac]: "OBJ_id_cct_crs = OBJ_id_cct @ [1]"

definition OBJ_id_cct_PKIData :: "int list" where
  [obj_mac]: "OBJ_id_cct_PKIData = OBJ_id_cct @ [2]"

definition OBJ_id_cct_PKIResponse :: "int list" where
  [obj_mac]: "OBJ_id_cct_PKIResponse = OBJ_id_cct @ [3]"

definition OBJ_id_ppl_anyLanguage :: "int list" where
  [obj_mac]: "OBJ_id_ppl_anyLanguage = OBJ_id_ppl @ [0]"

definition OBJ_id_ppl_inheritAll :: "int list" where
  [obj_mac]: "OBJ_id_ppl_inheritAll = OBJ_id_ppl @ [1]"

definition OBJ_Independent :: "int list" where
  [obj_mac]: "OBJ_Independent = OBJ_id_ppl @ [2]"

definition OBJ_ad_OCSP :: "int list" where
  [obj_mac]: "OBJ_ad_OCSP = OBJ_id_ad @ [1]"

definition OBJ_ad_ca_issuers :: "int list" where
  [obj_mac]: "OBJ_ad_ca_issuers = OBJ_id_ad @ [2]"

definition OBJ_ad_timeStamping :: "int list" where
  [obj_mac]: "OBJ_ad_timeStamping = OBJ_id_ad @ [3]"

definition obj_mac_12 :: "obj_def list" where
  "obj_mac_12 = [
    Obj ''id_cmc_encryptedPOP'' (Some ''id-cmc-encryptedPOP'') None (Some 335) (Some OBJ_id_cmc_encryptedPOP),
    Obj ''id_cmc_decryptedPOP'' (Some ''id-cmc-decryptedPOP'') None (Some 336) (Some OBJ_id_cmc_decryptedPOP),
    Obj ''id_cmc_lraPOPWitness'' (Some ''id-cmc-lraPOPWitness'') None (Some 337) (Some OBJ_id_cmc_lraPOPWitness),
    Obj ''id_cmc_getCert'' (Some ''id-cmc-getCert'') None (Some 338) (Some OBJ_id_cmc_getCert),
    Obj ''id_cmc_getCRL'' (Some ''id-cmc-getCRL'') None (Some 339) (Some OBJ_id_cmc_getCRL),
    Obj ''id_cmc_revokeRequest'' (Some ''id-cmc-revokeRequest'') None (Some 340) (Some OBJ_id_cmc_revokeRequest),
    Obj ''id_cmc_regInfo'' (Some ''id-cmc-regInfo'') None (Some 341) (Some OBJ_id_cmc_regInfo),
    Obj ''id_cmc_responseInfo'' (Some ''id-cmc-responseInfo'') None (Some 342) (Some OBJ_id_cmc_responseInfo),
    Obj ''id_cmc_queryPending'' (Some ''id-cmc-queryPending'') None (Some 343) (Some OBJ_id_cmc_queryPending),
    Obj ''id_cmc_popLinkRandom'' (Some ''id-cmc-popLinkRandom'') None (Some 344) (Some OBJ_id_cmc_popLinkRandom),
    Obj ''id_cmc_popLinkWitness'' (Some ''id-cmc-popLinkWitness'') None (Some 345) (Some OBJ_id_cmc_popLinkWitness),
    Obj ''id_cmc_confirmCertAcceptance'' (Some ''id-cmc-confirmCertAcceptance'') None (Some 346) (Some OBJ_id_cmc_confirmCertAcceptance),
    Obj ''id_on_personalData'' (Some ''id-on-personalData'') None (Some 347) (Some OBJ_id_on_personalData),
    Obj ''id_on_permanentIdentifier'' (Some ''id-on-permanentIdentifier'') (Some ''Permanent Identifier'') (Some 858) (Some OBJ_id_on_permanentIdentifier),
    Obj ''id_pda_dateOfBirth'' (Some ''id-pda-dateOfBirth'') None (Some 348) (Some OBJ_id_pda_dateOfBirth),
    Obj ''id_pda_placeOfBirth'' (Some ''id-pda-placeOfBirth'') None (Some 349) (Some OBJ_id_pda_placeOfBirth),
    Obj ''id_pda_gender'' (Some ''id-pda-gender'') None (Some 351) (Some OBJ_id_pda_gender),
    Obj ''id_pda_countryOfCitizenship'' (Some ''id-pda-countryOfCitizenship'') None (Some 352) (Some OBJ_id_pda_countryOfCitizenship),
    Obj ''id_pda_countryOfResidence'' (Some ''id-pda-countryOfResidence'') None (Some 353) (Some OBJ_id_pda_countryOfResidence),
    Obj ''id_aca_authenticationInfo'' (Some ''id-aca-authenticationInfo'') None (Some 354) (Some OBJ_id_aca_authenticationInfo),
    Obj ''id_aca_accessIdentity'' (Some ''id-aca-accessIdentity'') None (Some 355) (Some OBJ_id_aca_accessIdentity),
    Obj ''id_aca_chargingIdentity'' (Some ''id-aca-chargingIdentity'') None (Some 356) (Some OBJ_id_aca_chargingIdentity),
    Obj ''id_aca_group'' (Some ''id-aca-group'') None (Some 357) (Some OBJ_id_aca_group),
    Obj ''id_aca_role'' (Some ''id-aca-role'') None (Some 358) (Some OBJ_id_aca_role),
    Obj ''id_aca_encAttrs'' (Some ''id-aca-encAttrs'') None (Some 399) (Some OBJ_id_aca_encAttrs),
    Obj ''id_qcs_pkixQCSyntax_v1'' (Some ''id-qcs-pkixQCSyntax-v1'') None (Some 359) (Some OBJ_id_qcs_pkixQCSyntax_v1),
    Obj ''id_cct_crs'' (Some ''id-cct-crs'') None (Some 360) (Some OBJ_id_cct_crs),
    Obj ''id_cct_PKIData'' (Some ''id-cct-PKIData'') None (Some 361) (Some OBJ_id_cct_PKIData),
    Obj ''id_cct_PKIResponse'' (Some ''id-cct-PKIResponse'') None (Some 362) (Some OBJ_id_cct_PKIResponse),
    Obj ''id_ppl_anyLanguage'' (Some ''id-ppl-anyLanguage'') (Some ''Any language'') (Some 664) (Some OBJ_id_ppl_anyLanguage),
    Obj ''id_ppl_inheritAll'' (Some ''id-ppl-inheritAll'') (Some ''Inherit all'') (Some 665) (Some OBJ_id_ppl_inheritAll),
    Obj ''Independent'' (Some ''id-ppl-independent'') (Some ''Independent'') (Some 667) (Some OBJ_Independent),
    Obj ''ad_OCSP'' (Some ''OCSP'') (Some ''OCSP'') (Some 178) (Some OBJ_ad_OCSP),
    Obj ''ad_ca_issuers'' (Some ''caIssuers'') (Some ''CA Issuers'') (Some 179) (Some OBJ_ad_ca_issuers),
    Obj ''ad_timeStamping'' (Some ''ad_timestamping'') (Some ''AD Time Stamping'') (Some 363) (Some OBJ_ad_timeStamping)]"

subsection \<open>Lines 1856 to 2001\<close>

definition OBJ_ad_dvcs :: "int list" where
  [obj_mac]: "OBJ_ad_dvcs = OBJ_id_ad @ [4]"

definition OBJ_caRepository :: "int list" where
  [obj_mac]: "OBJ_caRepository = OBJ_id_ad @ [5]"

definition OBJ_id_pkix_OCSP :: "int list" where
  [obj_mac]: "OBJ_id_pkix_OCSP = OBJ_ad_OCSP"

definition OBJ_id_pkix_OCSP_basic :: "int list" where
  [obj_mac]: "OBJ_id_pkix_OCSP_basic = OBJ_id_pkix_OCSP @ [1]"

definition OBJ_id_pkix_OCSP_Nonce :: "int list" where
  [obj_mac]: "OBJ_id_pkix_OCSP_Nonce = OBJ_id_pkix_OCSP @ [2]"

definition OBJ_id_pkix_OCSP_CrlID :: "int list" where
  [obj_mac]: "OBJ_id_pkix_OCSP_CrlID = OBJ_id_pkix_OCSP @ [3]"

definition OBJ_id_pkix_OCSP_acceptableResponses :: "int list" where
  [obj_mac]: "OBJ_id_pkix_OCSP_acceptableResponses = OBJ_id_pkix_OCSP @ [4]"

definition OBJ_id_pkix_OCSP_noCheck :: "int list" where
  [obj_mac]: "OBJ_id_pkix_OCSP_noCheck = OBJ_id_pkix_OCSP @ [5]"

definition OBJ_id_pkix_OCSP_archiveCutoff :: "int list" where
  [obj_mac]: "OBJ_id_pkix_OCSP_archiveCutoff = OBJ_id_pkix_OCSP @ [6]"

definition OBJ_id_pkix_OCSP_serviceLocator :: "int list" where
  [obj_mac]: "OBJ_id_pkix_OCSP_serviceLocator = OBJ_id_pkix_OCSP @ [7]"

definition OBJ_id_pkix_OCSP_extendedStatus :: "int list" where
  [obj_mac]: "OBJ_id_pkix_OCSP_extendedStatus = OBJ_id_pkix_OCSP @ [8]"

definition OBJ_id_pkix_OCSP_valid :: "int list" where
  [obj_mac]: "OBJ_id_pkix_OCSP_valid = OBJ_id_pkix_OCSP @ [9]"

definition OBJ_id_pkix_OCSP_path :: "int list" where
  [obj_mac]: "OBJ_id_pkix_OCSP_path = OBJ_id_pkix_OCSP @ [10]"

definition OBJ_id_pkix_OCSP_trustRoot :: "int list" where
  [obj_mac]: "OBJ_id_pkix_OCSP_trustRoot = OBJ_id_pkix_OCSP @ [11]"

definition OBJ_algorithm :: "int list" where
  [obj_mac]: "OBJ_algorithm = [1, 3, 14, 3, 2]"

definition OBJ_md5WithRSA :: "int list" where
  [obj_mac]: "OBJ_md5WithRSA = OBJ_algorithm @ [3]"

definition OBJ_des_ecb :: "int list" where
  [obj_mac]: "OBJ_des_ecb = OBJ_algorithm @ [6]"

definition OBJ_des_cbc :: "int list" where
  [obj_mac]: "OBJ_des_cbc = OBJ_algorithm @ [7]"

definition OBJ_des_ofb64 :: "int list" where
  [obj_mac]: "OBJ_des_ofb64 = OBJ_algorithm @ [8]"

definition OBJ_des_cfb64 :: "int list" where
  [obj_mac]: "OBJ_des_cfb64 = OBJ_algorithm @ [9]"

definition OBJ_rsaSignature :: "int list" where
  [obj_mac]: "OBJ_rsaSignature = OBJ_algorithm @ [11]"

definition OBJ_dsa_2 :: "int list" where
  [obj_mac]: "OBJ_dsa_2 = OBJ_algorithm @ [12]"

definition OBJ_dsaWithSHA :: "int list" where
  [obj_mac]: "OBJ_dsaWithSHA = OBJ_algorithm @ [13]"

definition OBJ_shaWithRSAEncryption :: "int list" where
  [obj_mac]: "OBJ_shaWithRSAEncryption = OBJ_algorithm @ [15]"

definition OBJ_des_ede_ecb :: "int list" where
  [obj_mac]: "OBJ_des_ede_ecb = OBJ_algorithm @ [17]"

definition obj_mac_13 :: "obj_def list" where
  "obj_mac_13 = [
    Obj ''ad_dvcs'' (Some ''AD_DVCS'') (Some ''ad dvcs'') (Some 364) (Some OBJ_ad_dvcs),
    Obj ''caRepository'' (Some ''caRepository'') (Some ''CA Repository'') (Some 785) (Some OBJ_caRepository),
    Obj ''id_pkix_OCSP'' None None None (Some OBJ_id_pkix_OCSP),
    Obj ''id_pkix_OCSP_basic'' (Some ''basicOCSPResponse'') (Some ''Basic OCSP Response'') (Some 365) (Some OBJ_id_pkix_OCSP_basic),
    Obj ''id_pkix_OCSP_Nonce'' (Some ''Nonce'') (Some ''OCSP Nonce'') (Some 366) (Some OBJ_id_pkix_OCSP_Nonce),
    Obj ''id_pkix_OCSP_CrlID'' (Some ''CrlID'') (Some ''OCSP CRL ID'') (Some 367) (Some OBJ_id_pkix_OCSP_CrlID),
    Obj ''id_pkix_OCSP_acceptableResponses'' (Some ''acceptableResponses'') (Some ''Acceptable OCSP Responses'') (Some 368) (Some OBJ_id_pkix_OCSP_acceptableResponses),
    Obj ''id_pkix_OCSP_noCheck'' (Some ''noCheck'') (Some ''OCSP No Check'') (Some 369) (Some OBJ_id_pkix_OCSP_noCheck),
    Obj ''id_pkix_OCSP_archiveCutoff'' (Some ''archiveCutoff'') (Some ''OCSP Archive Cutoff'') (Some 370) (Some OBJ_id_pkix_OCSP_archiveCutoff),
    Obj ''id_pkix_OCSP_serviceLocator'' (Some ''serviceLocator'') (Some ''OCSP Service Locator'') (Some 371) (Some OBJ_id_pkix_OCSP_serviceLocator),
    Obj ''id_pkix_OCSP_extendedStatus'' (Some ''extendedStatus'') (Some ''Extended OCSP Status'') (Some 372) (Some OBJ_id_pkix_OCSP_extendedStatus),
    Obj ''id_pkix_OCSP_valid'' (Some ''valid'') None (Some 373) (Some OBJ_id_pkix_OCSP_valid),
    Obj ''id_pkix_OCSP_path'' (Some ''path'') None (Some 374) (Some OBJ_id_pkix_OCSP_path),
    Obj ''id_pkix_OCSP_trustRoot'' (Some ''trustRoot'') (Some ''Trust Root'') (Some 375) (Some OBJ_id_pkix_OCSP_trustRoot),
    Obj ''algorithm'' (Some ''algorithm'') (Some ''algorithm'') (Some 376) (Some OBJ_algorithm),
    Obj ''md5WithRSA'' (Some ''RSA-NP-MD5'') (Some ''md5WithRSA'') (Some 104) (Some OBJ_md5WithRSA),
    Obj ''des_ecb'' (Some ''DES-ECB'') (Some ''des-ecb'') (Some 29) (Some OBJ_des_ecb),
    Obj ''des_cbc'' (Some ''DES-CBC'') (Some ''des-cbc'') (Some 31) (Some OBJ_des_cbc),
    Obj ''des_ofb64'' (Some ''DES-OFB'') (Some ''des-ofb'') (Some 45) (Some OBJ_des_ofb64),
    Obj ''des_cfb64'' (Some ''DES-CFB'') (Some ''des-cfb'') (Some 30) (Some OBJ_des_cfb64),
    Obj ''rsaSignature'' (Some ''rsaSignature'') None (Some 377) (Some OBJ_rsaSignature),
    Obj ''dsa_2'' (Some ''DSA-old'') (Some ''dsaEncryption-old'') (Some 67) (Some OBJ_dsa_2),
    Obj ''dsaWithSHA'' (Some ''DSA-SHA'') (Some ''dsaWithSHA'') (Some 66) (Some OBJ_dsaWithSHA),
    Obj ''shaWithRSAEncryption'' (Some ''RSA-SHA'') (Some ''shaWithRSAEncryption'') (Some 42) (Some OBJ_shaWithRSAEncryption),
    Obj ''des_ede_ecb'' (Some ''DES-EDE'') (Some ''des-ede'') (Some 32) (Some OBJ_des_ede_ecb),
    Obj ''des_ede3_ecb'' (Some ''DES-EDE3'') (Some ''des-ede3'') (Some 33) None,
    Obj ''des_ede_cbc'' (Some ''DES-EDE-CBC'') (Some ''des-ede-cbc'') (Some 43) None,
    Obj ''des_ede_cfb64'' (Some ''DES-EDE-CFB'') (Some ''des-ede-cfb'') (Some 60) None,
    Obj ''des_ede3_cfb64'' (Some ''DES-EDE3-CFB'') (Some ''des-ede3-cfb'') (Some 61) None,
    Obj ''des_ede_ofb64'' (Some ''DES-EDE-OFB'') (Some ''des-ede-ofb'') (Some 62) None,
    Obj ''des_ede3_ofb64'' (Some ''DES-EDE3-OFB'') (Some ''des-ede3-ofb'') (Some 63) None,
    Obj ''desx_cbc'' (Some ''DESX-CBC'') (Some ''desx-cbc'') (Some 80) None]"

subsection \<open>Lines 2003 to 2150\<close>

definition OBJ_sha :: "int list" where
  [obj_mac]: "OBJ_sha = OBJ_algorithm @ [18]"

definition OBJ_sha1 :: "int list" where
  [obj_mac]: "OBJ_sha1 = OBJ_algorithm @ [26]"

definition OBJ_dsaWithSHA1_2 :: "int list" where
  [obj_mac]: "OBJ_dsaWithSHA1_2 = OBJ_algorithm @ [27]"

definition OBJ_sha1WithRSA :: "int list" where
  [obj_mac]: "OBJ_sha1WithRSA = OBJ_algorithm @ [29]"

definition OBJ_ripemd160 :: "int list" where
  [obj_mac]: "OBJ_ripemd160 = [1, 3, 36, 3, 2, 1]"

definition OBJ_ripemd160WithRSA :: "int list" where
  [obj_mac]: "OBJ_ripemd160WithRSA = [1, 3, 36, 3, 3, 1, 2]"

definition OBJ_sxnet :: "int list" where
  [obj_mac]: "OBJ_sxnet = [1, 3, 101, 1, 4, 1]"

definition OBJ_X500 :: "int list" where
  [obj_mac]: "OBJ_X500 = [2, 5]"

definition OBJ_X509 :: "int list" where
  [obj_mac]: "OBJ_X509 = OBJ_X500 @ [4]"

definition OBJ_commonName :: "int list" where
  [obj_mac]: "OBJ_commonName = OBJ_X509 @ [3]"

definition OBJ_surname :: "int list" where
  [obj_mac]: "OBJ_surname = OBJ_X509 @ [4]"

definition OBJ_serialNumber :: "int list" where
  [obj_mac]: "OBJ_serialNumber = OBJ_X509 @ [5]"

definition OBJ_countryName :: "int list" where
  [obj_mac]: "OBJ_countryName = OBJ_X509 @ [6]"

definition OBJ_localityName :: "int list" where
  [obj_mac]: "OBJ_localityName = OBJ_X509 @ [7]"

definition OBJ_stateOrProvinceName :: "int list" where
  [obj_mac]: "OBJ_stateOrProvinceName = OBJ_X509 @ [8]"

definition OBJ_streetAddress :: "int list" where
  [obj_mac]: "OBJ_streetAddress = OBJ_X509 @ [9]"

definition OBJ_organizationName :: "int list" where
  [obj_mac]: "OBJ_organizationName = OBJ_X509 @ [10]"

definition OBJ_organizationalUnitName :: "int list" where
  [obj_mac]: "OBJ_organizationalUnitName = OBJ_X509 @ [11]"

definition OBJ_title :: "int list" where
  [obj_mac]: "OBJ_title = OBJ_X509 @ [12]"

definition OBJ_description :: "int list" where
  [obj_mac]: "OBJ_description = OBJ_X509 @ [13]"

definition OBJ_searchGuide :: "int list" where
  [obj_mac]: "OBJ_searchGuide = OBJ_X509 @ [14]"

definition OBJ_businessCategory :: "int list" where
  [obj_mac]: "OBJ_businessCategory = OBJ_X509 @ [15]"

definition OBJ_postalAddress :: "int list" where
  [obj_mac]: "OBJ_postalAddress = OBJ_X509 @ [16]"

definition OBJ_postalCode :: "int list" where
  [obj_mac]: "OBJ_postalCode = OBJ_X509 @ [17]"

definition OBJ_postOfficeBox :: "int list" where
  [obj_mac]: "OBJ_postOfficeBox = OBJ_X509 @ [18]"

definition OBJ_physicalDeliveryOfficeName :: "int list" where
  [obj_mac]: "OBJ_physicalDeliveryOfficeName = OBJ_X509 @ [19]"

definition OBJ_telephoneNumber :: "int list" where
  [obj_mac]: "OBJ_telephoneNumber = OBJ_X509 @ [20]"

definition OBJ_telexNumber :: "int list" where
  [obj_mac]: "OBJ_telexNumber = OBJ_X509 @ [21]"

definition OBJ_teletexTerminalIdentifier :: "int list" where
  [obj_mac]: "OBJ_teletexTerminalIdentifier = OBJ_X509 @ [22]"

definition OBJ_facsimileTelephoneNumber :: "int list" where
  [obj_mac]: "OBJ_facsimileTelephoneNumber = OBJ_X509 @ [23]"

definition OBJ_x121Address :: "int list" where
  [obj_mac]: "OBJ_x121Address = OBJ_X509 @ [24]"

definition OBJ_internationaliSDNNumber :: "int list" where
  [obj_mac]: "OBJ_internationaliSDNNumber = OBJ_X509 @ [25]"

definition OBJ_registeredAddress :: "int list" where
  [obj_mac]: "OBJ_registeredAddress = OBJ_X509 @ [26]"

definition obj_mac_14 :: "obj_def list" where
  "obj_mac_14 = [
    Obj ''sha'' (Some ''SHA'') (Some ''sha'') (Some 41) (Some OBJ_sha),
    Obj ''sha1'' (Some ''SHA1'') (Some ''sha1'') (Some 64) (Some OBJ_sha1),
    Obj ''dsaWithSHA1_2'' (Some ''DSA-SHA1-old'') (Some ''dsaWithSHA1-old'') (Some 70) (Some OBJ_dsaWithSHA1_2),
    Obj ''sha1WithRSA'' (Some ''RSA-SHA1-2'') (Some ''sha1WithRSA'') (Some 115) (Some OBJ_sha1WithRSA),
    Obj ''ripemd160'' (Some ''RIPEMD160'') (Some ''ripemd160'') (Some 117) (Some OBJ_ripemd160),
    Obj ''ripemd160WithRSA'' (Some ''RSA-RIPEMD160'') (Some ''ripemd160WithRSA'') (Some 119) (Some OBJ_ripemd160WithRSA),
    Obj ''sxnet'' (Some ''SXNetID'') (Some ''Strong Extranet ID'') (Some 143) (Some OBJ_sxnet),
    Obj ''X500'' (Some ''X500'') (Some ''directory services (X.500)'') (Some 11) (Some OBJ_X500),
    Obj ''X509'' (Some ''X509'') None (Some 12) (Some OBJ_X509),
    Obj ''commonName'' (Some ''CN'') (Some ''commonName'') (Some 13) (Some OBJ_commonName),
    Obj ''surname'' (Some ''SN'') (Some ''surname'') (Some 100) (Some OBJ_surname),
    Obj ''serialNumber'' None (Some ''serialNumber'') (Some 105) (Some OBJ_serialNumber),
    Obj ''countryName'' (Some ''C'') (Some ''countryName'') (Some 14) (Some OBJ_countryName),
    Obj ''localityName'' (Some ''L'') (Some ''localityName'') (Some 15) (Some OBJ_localityName),
    Obj ''stateOrProvinceName'' (Some ''ST'') (Some ''stateOrProvinceName'') (Some 16) (Some OBJ_stateOrProvinceName),
    Obj ''streetAddress'' (Some ''street'') (Some ''streetAddress'') (Some 660) (Some OBJ_streetAddress),
    Obj ''organizationName'' (Some ''O'') (Some ''organizationName'') (Some 17) (Some OBJ_organizationName),
    Obj ''organizationalUnitName'' (Some ''OU'') (Some ''organizationalUnitName'') (Some 18) (Some OBJ_organizationalUnitName),
    Obj ''title'' (Some ''title'') (Some ''title'') (Some 106) (Some OBJ_title),
    Obj ''description'' None (Some ''description'') (Some 107) (Some OBJ_description),
    Obj ''searchGuide'' None (Some ''searchGuide'') (Some 859) (Some OBJ_searchGuide),
    Obj ''businessCategory'' None (Some ''businessCategory'') (Some 860) (Some OBJ_businessCategory),
    Obj ''postalAddress'' None (Some ''postalAddress'') (Some 861) (Some OBJ_postalAddress),
    Obj ''postalCode'' None (Some ''postalCode'') (Some 661) (Some OBJ_postalCode),
    Obj ''postOfficeBox'' None (Some ''postOfficeBox'') (Some 862) (Some OBJ_postOfficeBox),
    Obj ''physicalDeliveryOfficeName'' None (Some ''physicalDeliveryOfficeName'') (Some 863) (Some OBJ_physicalDeliveryOfficeName),
    Obj ''telephoneNumber'' None (Some ''telephoneNumber'') (Some 864) (Some OBJ_telephoneNumber),
    Obj ''telexNumber'' None (Some ''telexNumber'') (Some 865) (Some OBJ_telexNumber),
    Obj ''teletexTerminalIdentifier'' None (Some ''teletexTerminalIdentifier'') (Some 866) (Some OBJ_teletexTerminalIdentifier),
    Obj ''facsimileTelephoneNumber'' None (Some ''facsimileTelephoneNumber'') (Some 867) (Some OBJ_facsimileTelephoneNumber),
    Obj ''x121Address'' None (Some ''x121Address'') (Some 868) (Some OBJ_x121Address),
    Obj ''internationaliSDNNumber'' None (Some ''internationaliSDNNumber'') (Some 869) (Some OBJ_internationaliSDNNumber),
    Obj ''registeredAddress'' None (Some ''registeredAddress'') (Some 870) (Some OBJ_registeredAddress)]"

subsection \<open>Lines 2152 to 2299\<close>

definition OBJ_destinationIndicator :: "int list" where
  [obj_mac]: "OBJ_destinationIndicator = OBJ_X509 @ [27]"

definition OBJ_preferredDeliveryMethod :: "int list" where
  [obj_mac]: "OBJ_preferredDeliveryMethod = OBJ_X509 @ [28]"

definition OBJ_presentationAddress :: "int list" where
  [obj_mac]: "OBJ_presentationAddress = OBJ_X509 @ [29]"

definition OBJ_supportedApplicationContext :: "int list" where
  [obj_mac]: "OBJ_supportedApplicationContext = OBJ_X509 @ [30]"

definition OBJ_member :: "int list" where
  [obj_mac]: "OBJ_member = OBJ_X509 @ [31]"

definition OBJ_owner :: "int list" where
  [obj_mac]: "OBJ_owner = OBJ_X509 @ [32]"

definition OBJ_roleOccupant :: "int list" where
  [obj_mac]: "OBJ_roleOccupant = OBJ_X509 @ [33]"

definition OBJ_seeAlso :: "int list" where
  [obj_mac]: "OBJ_seeAlso = OBJ_X509 @ [34]"

definition OBJ_userPassword :: "int list" where
  [obj_mac]: "OBJ_userPassword = OBJ_X509 @ [35]"

definition OBJ_userCertificate :: "int list" where
  [obj_mac]: "OBJ_userCertificate = OBJ_X509 @ [36]"

definition OBJ_cACertificate :: "int list" where
  [obj_mac]: "OBJ_cACertificate = OBJ_X509 @ [37]"

definition OBJ_authorityRevocationList :: "int list" where
  [obj_mac]: "OBJ_authorityRevocationList = OBJ_X509 @ [38]"

definition OBJ_certificateRevocationList :: "int list" where
  [obj_mac]: "OBJ_certificateRevocationList = OBJ_X509 @ [39]"

definition OBJ_crossCertificatePair :: "int list" where
  [obj_mac]: "OBJ_crossCertificatePair = OBJ_X509 @ [40]"

definition OBJ_name :: "int list" where
  [obj_mac]: "OBJ_name = OBJ_X509 @ [41]"

definition OBJ_givenName :: "int list" where
  [obj_mac]: "OBJ_givenName = OBJ_X509 @ [42]"

definition OBJ_initials :: "int list" where
  [obj_mac]: "OBJ_initials = OBJ_X509 @ [43]"

definition OBJ_generationQualifier :: "int list" where
  [obj_mac]: "OBJ_generationQualifier = OBJ_X509 @ [44]"

definition OBJ_x500UniqueIdentifier :: "int list" where
  [obj_mac]: "OBJ_x500UniqueIdentifier = OBJ_X509 @ [45]"

definition OBJ_dnQualifier :: "int list" where
  [obj_mac]: "OBJ_dnQualifier = OBJ_X509 @ [46]"

definition OBJ_enhancedSearchGuide :: "int list" where
  [obj_mac]: "OBJ_enhancedSearchGuide = OBJ_X509 @ [47]"

definition OBJ_protocolInformation :: "int list" where
  [obj_mac]: "OBJ_protocolInformation = OBJ_X509 @ [48]"

definition OBJ_distinguishedName :: "int list" where
  [obj_mac]: "OBJ_distinguishedName = OBJ_X509 @ [49]"

definition OBJ_uniqueMember :: "int list" where
  [obj_mac]: "OBJ_uniqueMember = OBJ_X509 @ [50]"

definition OBJ_houseIdentifier :: "int list" where
  [obj_mac]: "OBJ_houseIdentifier = OBJ_X509 @ [51]"

definition OBJ_supportedAlgorithms :: "int list" where
  [obj_mac]: "OBJ_supportedAlgorithms = OBJ_X509 @ [52]"

definition OBJ_deltaRevocationList :: "int list" where
  [obj_mac]: "OBJ_deltaRevocationList = OBJ_X509 @ [53]"

definition OBJ_dmdName :: "int list" where
  [obj_mac]: "OBJ_dmdName = OBJ_X509 @ [54]"

definition OBJ_pseudonym :: "int list" where
  [obj_mac]: "OBJ_pseudonym = OBJ_X509 @ [65]"

definition OBJ_role :: "int list" where
  [obj_mac]: "OBJ_role = OBJ_X509 @ [72]"

definition OBJ_X500algorithms :: "int list" where
  [obj_mac]: "OBJ_X500algorithms = OBJ_X500 @ [8]"

definition OBJ_rsa :: "int list" where
  [obj_mac]: "OBJ_rsa = OBJ_X500algorithms @ [1, 1]"

definition OBJ_mdc2WithRSA :: "int list" where
  [obj_mac]: "OBJ_mdc2WithRSA = OBJ_X500algorithms @ [3, 100]"

definition OBJ_mdc2 :: "int list" where
  [obj_mac]: "OBJ_mdc2 = OBJ_X500algorithms @ [3, 101]"

definition OBJ_id_ce :: "int list" where
  [obj_mac]: "OBJ_id_ce = OBJ_X500 @ [29]"

definition obj_mac_15 :: "obj_def list" where
  "obj_mac_15 = [
    Obj ''destinationIndicator'' None (Some ''destinationIndicator'') (Some 871) (Some OBJ_destinationIndicator),
    Obj ''preferredDeliveryMethod'' None (Some ''preferredDeliveryMethod'') (Some 872) (Some OBJ_preferredDeliveryMethod),
    Obj ''presentationAddress'' None (Some ''presentationAddress'') (Some 873) (Some OBJ_presentationAddress),
    Obj ''supportedApplicationContext'' None (Some ''supportedApplicationContext'') (Some 874) (Some OBJ_supportedApplicationContext),
    Obj ''member'' (Some ''member'') None (Some 875) (Some OBJ_member),
    Obj ''owner'' (Some ''owner'') None (Some 876) (Some OBJ_owner),
    Obj ''roleOccupant'' None (Some ''roleOccupant'') (Some 877) (Some OBJ_roleOccupant),
    Obj ''seeAlso'' (Some ''seeAlso'') None (Some 878) (Some OBJ_seeAlso),
    Obj ''userPassword'' None (Some ''userPassword'') (Some 879) (Some OBJ_userPassword),
    Obj ''userCertificate'' None (Some ''userCertificate'') (Some 880) (Some OBJ_userCertificate),
    Obj ''cACertificate'' None (Some ''cACertificate'') (Some 881) (Some OBJ_cACertificate),
    Obj ''authorityRevocationList'' None (Some ''authorityRevocationList'') (Some 882) (Some OBJ_authorityRevocationList),
    Obj ''certificateRevocationList'' None (Some ''certificateRevocationList'') (Some 883) (Some OBJ_certificateRevocationList),
    Obj ''crossCertificatePair'' None (Some ''crossCertificatePair'') (Some 884) (Some OBJ_crossCertificatePair),
    Obj ''name'' (Some ''name'') (Some ''name'') (Some 173) (Some OBJ_name),
    Obj ''givenName'' (Some ''GN'') (Some ''givenName'') (Some 99) (Some OBJ_givenName),
    Obj ''initials'' (Some ''initials'') (Some ''initials'') (Some 101) (Some OBJ_initials),
    Obj ''generationQualifier'' None (Some ''generationQualifier'') (Some 509) (Some OBJ_generationQualifier),
    Obj ''x500UniqueIdentifier'' None (Some ''x500UniqueIdentifier'') (Some 503) (Some OBJ_x500UniqueIdentifier),
    Obj ''dnQualifier'' (Some ''dnQualifier'') (Some ''dnQualifier'') (Some 174) (Some OBJ_dnQualifier),
    Obj ''enhancedSearchGuide'' None (Some ''enhancedSearchGuide'') (Some 885) (Some OBJ_enhancedSearchGuide),
    Obj ''protocolInformation'' None (Some ''protocolInformation'') (Some 886) (Some OBJ_protocolInformation),
    Obj ''distinguishedName'' None (Some ''distinguishedName'') (Some 887) (Some OBJ_distinguishedName),
    Obj ''uniqueMember'' None (Some ''uniqueMember'') (Some 888) (Some OBJ_uniqueMember),
    Obj ''houseIdentifier'' None (Some ''houseIdentifier'') (Some 889) (Some OBJ_houseIdentifier),
    Obj ''supportedAlgorithms'' None (Some ''supportedAlgorithms'') (Some 890) (Some OBJ_supportedAlgorithms),
    Obj ''deltaRevocationList'' None (Some ''deltaRevocationList'') (Some 891) (Some OBJ_deltaRevocationList),
    Obj ''dmdName'' (Some ''dmdName'') None (Some 892) (Some OBJ_dmdName),
    Obj ''pseudonym'' None (Some ''pseudonym'') (Some 510) (Some OBJ_pseudonym),
    Obj ''role'' (Some ''role'') (Some ''role'') (Some 400) (Some OBJ_role),
    Obj ''X500algorithms'' (Some ''X500algorithms'') (Some ''directory services - algorithms'') (Some 378) (Some OBJ_X500algorithms),
    Obj ''rsa'' (Some ''RSA'') (Some ''rsa'') (Some 19) (Some OBJ_rsa),
    Obj ''mdc2WithRSA'' (Some ''RSA-MDC2'') (Some ''mdc2WithRSA'') (Some 96) (Some OBJ_mdc2WithRSA),
    Obj ''mdc2'' (Some ''MDC2'') (Some ''mdc2'') (Some 95) (Some OBJ_mdc2),
    Obj ''id_ce'' (Some ''id-ce'') None (Some 81) (Some OBJ_id_ce)]"

subsection \<open>Lines 2301 to 2449\<close>

definition OBJ_subject_directory_attributes :: "int list" where
  [obj_mac]: "OBJ_subject_directory_attributes = OBJ_id_ce @ [9]"

definition OBJ_subject_key_identifier :: "int list" where
  [obj_mac]: "OBJ_subject_key_identifier = OBJ_id_ce @ [14]"

definition OBJ_key_usage :: "int list" where
  [obj_mac]: "OBJ_key_usage = OBJ_id_ce @ [15]"

definition OBJ_private_key_usage_period :: "int list" where
  [obj_mac]: "OBJ_private_key_usage_period = OBJ_id_ce @ [16]"

definition OBJ_subject_alt_name :: "int list" where
  [obj_mac]: "OBJ_subject_alt_name = OBJ_id_ce @ [17]"

definition OBJ_issuer_alt_name :: "int list" where
  [obj_mac]: "OBJ_issuer_alt_name = OBJ_id_ce @ [18]"

definition OBJ_basic_constraints :: "int list" where
  [obj_mac]: "OBJ_basic_constraints = OBJ_id_ce @ [19]"

definition OBJ_crl_number :: "int list" where
  [obj_mac]: "OBJ_crl_number = OBJ_id_ce @ [20]"

definition OBJ_crl_reason :: "int list" where
  [obj_mac]: "OBJ_crl_reason = OBJ_id_ce @ [21]"

definition OBJ_invalidity_date :: "int list" where
  [obj_mac]: "OBJ_invalidity_date = OBJ_id_ce @ [24]"

definition OBJ_delta_crl :: "int list" where
  [obj_mac]: "OBJ_delta_crl = OBJ_id_ce @ [27]"

definition OBJ_issuing_distribution_point :: "int list" where
  [obj_mac]: "OBJ_issuing_distribution_point = OBJ_id_ce @ [28]"

definition OBJ_certificate_issuer :: "int list" where
  [obj_mac]: "OBJ_certificate_issuer = OBJ_id_ce @ [29]"

definition OBJ_name_constraints :: "int list" where
  [obj_mac]: "OBJ_name_constraints = OBJ_id_ce @ [30]"

definition OBJ_crl_distribution_points :: "int list" where
  [obj_mac]: "OBJ_crl_distribution_points = OBJ_id_ce @ [31]"

definition OBJ_certificate_policies :: "int list" where
  [obj_mac]: "OBJ_certificate_policies = OBJ_id_ce @ [32]"

definition OBJ_any_policy :: "int list" where
  [obj_mac]: "OBJ_any_policy = OBJ_certificate_policies @ [0]"

definition OBJ_policy_mappings :: "int list" where
  [obj_mac]: "OBJ_policy_mappings = OBJ_id_ce @ [33]"

definition OBJ_authority_key_identifier :: "int list" where
  [obj_mac]: "OBJ_authority_key_identifier = OBJ_id_ce @ [35]"

definition OBJ_policy_constraints :: "int list" where
  [obj_mac]: "OBJ_policy_constraints = OBJ_id_ce @ [36]"

definition OBJ_ext_key_usage :: "int list" where
  [obj_mac]: "OBJ_ext_key_usage = OBJ_id_ce @ [37]"

definition OBJ_freshest_crl :: "int list" where
  [obj_mac]: "OBJ_freshest_crl = OBJ_id_ce @ [46]"

definition OBJ_inhibit_any_policy :: "int list" where
  [obj_mac]: "OBJ_inhibit_any_policy = OBJ_id_ce @ [54]"

definition OBJ_target_information :: "int list" where
  [obj_mac]: "OBJ_target_information = OBJ_id_ce @ [55]"

definition OBJ_no_rev_avail :: "int list" where
  [obj_mac]: "OBJ_no_rev_avail = OBJ_id_ce @ [56]"

definition OBJ_anyExtendedKeyUsage :: "int list" where
  [obj_mac]: "OBJ_anyExtendedKeyUsage = OBJ_ext_key_usage @ [0]"

definition OBJ_netscape :: "int list" where
  [obj_mac]: "OBJ_netscape = [2, 16, 840, 1, 113730]"

definition OBJ_netscape_cert_extension :: "int list" where
  [obj_mac]: "OBJ_netscape_cert_extension = OBJ_netscape @ [1]"

definition OBJ_netscape_data_type :: "int list" where
  [obj_mac]: "OBJ_netscape_data_type = OBJ_netscape @ [2]"

definition OBJ_netscape_cert_type :: "int list" where
  [obj_mac]: "OBJ_netscape_cert_type = OBJ_netscape_cert_extension @ [1]"

definition obj_mac_16 :: "obj_def list" where
  "obj_mac_16 = [
    Obj ''subject_directory_attributes'' (Some ''subjectDirectoryAttributes'') (Some ''X509v3 Subject Directory Attributes'') (Some 769) (Some OBJ_subject_directory_attributes),
    Obj ''subject_key_identifier'' (Some ''subjectKeyIdentifier'') (Some ''X509v3 Subject Key Identifier'') (Some 82) (Some OBJ_subject_key_identifier),
    Obj ''key_usage'' (Some ''keyUsage'') (Some ''X509v3 Key Usage'') (Some 83) (Some OBJ_key_usage),
    Obj ''private_key_usage_period'' (Some ''privateKeyUsagePeriod'') (Some ''X509v3 Private Key Usage Period'') (Some 84) (Some OBJ_private_key_usage_period),
    Obj ''subject_alt_name'' (Some ''subjectAltName'') (Some ''X509v3 Subject Alternative Name'') (Some 85) (Some OBJ_subject_alt_name),
    Obj ''issuer_alt_name'' (Some ''issuerAltName'') (Some ''X509v3 Issuer Alternative Name'') (Some 86) (Some OBJ_issuer_alt_name),
    Obj ''basic_constraints'' (Some ''basicConstraints'') (Some ''X509v3 Basic Constraints'') (Some 87) (Some OBJ_basic_constraints),
    Obj ''crl_number'' (Some ''crlNumber'') (Some ''X509v3 CRL Number'') (Some 88) (Some OBJ_crl_number),
    Obj ''crl_reason'' (Some ''CRLReason'') (Some ''X509v3 CRL Reason Code'') (Some 141) (Some OBJ_crl_reason),
    Obj ''invalidity_date'' (Some ''invalidityDate'') (Some ''Invalidity Date'') (Some 142) (Some OBJ_invalidity_date),
    Obj ''delta_crl'' (Some ''deltaCRL'') (Some ''X509v3 Delta CRL Indicator'') (Some 140) (Some OBJ_delta_crl),
    Obj ''issuing_distribution_point'' (Some ''issuingDistributionPoint'') (Some ''X509v3 Issuing Distrubution Point'') (Some 770) (Some OBJ_issuing_distribution_point),
    Obj ''certificate_issuer'' (Some ''certificateIssuer'') (Some ''X509v3 Certificate Issuer'') (Some 771) (Some OBJ_certificate_issuer),
    Obj ''name_constraints'' (Some ''nameConstraints'') (Some ''X509v3 Name Constraints'') (Some 666) (Some OBJ_name_constraints),
    Obj ''crl_distribution_points'' (Some ''crlDistributionPoints'') (Some ''X509v3 CRL Distribution Points'') (Some 103) (Some OBJ_crl_distribution_points),
    Obj ''certificate_policies'' (Some ''certificatePolicies'') (Some ''X509v3 Certificate Policies'') (Some 89) (Some OBJ_certificate_policies),
    Obj ''any_policy'' (Some ''anyPolicy'') (Some ''X509v3 Any Policy'') (Some 746) (Some OBJ_any_policy),
    Obj ''policy_mappings'' (Some ''policyMappings'') (Some ''X509v3 Policy Mappings'') (Some 747) (Some OBJ_policy_mappings),
    Obj ''authority_key_identifier'' (Some ''authorityKeyIdentifier'') (Some ''X509v3 Authority Key Identifier'') (Some 90) (Some OBJ_authority_key_identifier),
    Obj ''policy_constraints'' (Some ''policyConstraints'') (Some ''X509v3 Policy Constraints'') (Some 401) (Some OBJ_policy_constraints),
    Obj ''ext_key_usage'' (Some ''extendedKeyUsage'') (Some ''X509v3 Extended Key Usage'') (Some 126) (Some OBJ_ext_key_usage),
    Obj ''freshest_crl'' (Some ''freshestCRL'') (Some ''X509v3 Freshest CRL'') (Some 857) (Some OBJ_freshest_crl),
    Obj ''inhibit_any_policy'' (Some ''inhibitAnyPolicy'') (Some ''X509v3 Inhibit Any Policy'') (Some 748) (Some OBJ_inhibit_any_policy),
    Obj ''target_information'' (Some ''targetInformation'') (Some ''X509v3 AC Targeting'') (Some 402) (Some OBJ_target_information),
    Obj ''no_rev_avail'' (Some ''noRevAvail'') (Some ''X509v3 No Revocation Available'') (Some 403) (Some OBJ_no_rev_avail),
    Obj ''anyExtendedKeyUsage'' (Some ''anyExtendedKeyUsage'') (Some ''Any Extended Key Usage'') (Some 910) (Some OBJ_anyExtendedKeyUsage),
    Obj ''netscape'' (Some ''Netscape'') (Some ''Netscape Communications Corp.'') (Some 57) (Some OBJ_netscape),
    Obj ''netscape_cert_extension'' (Some ''nsCertExt'') (Some ''Netscape Certificate Extension'') (Some 58) (Some OBJ_netscape_cert_extension),
    Obj ''netscape_data_type'' (Some ''nsDataType'') (Some ''Netscape Data Type'') (Some 59) (Some OBJ_netscape_data_type),
    Obj ''netscape_cert_type'' (Some ''nsCertType'') (Some ''Netscape Cert Type'') (Some 71) (Some OBJ_netscape_cert_type)]"

subsection \<open>Lines 2451 to 2596\<close>

definition OBJ_netscape_base_url :: "int list" where
  [obj_mac]: "OBJ_netscape_base_url = OBJ_netscape_cert_extension @ [2]"

definition OBJ_netscape_revocation_url :: "int list" where
  [obj_mac]: "OBJ_netscape_revocation_url = OBJ_netscape_cert_extension @ [3]"

definition OBJ_netscape_ca_revocation_url :: "int list" where
  [obj_mac]: "OBJ_netscape_ca_revocation_url = OBJ_netscape_cert_extension @ [4]"

definition OBJ_netscape_renewal_url :: "int list" where
  [obj_mac]: "OBJ_netscape_renewal_url = OBJ_netscape_cert_extension @ [7]"

definition OBJ_netscape_ca_policy_url :: "int list" where
  [obj_mac]: "OBJ_netscape_ca_policy_url = OBJ_netscape_cert_extension @ [8]"

definition OBJ_netscape_ssl_server_name :: "int list" where
  [obj_mac]: "OBJ_netscape_ssl_server_name = OBJ_netscape_cert_extension @ [12]"

definition OBJ_netscape_comment :: "int list" where
  [obj_mac]: "OBJ_netscape_comment = OBJ_netscape_cert_extension @ [13]"

definition OBJ_netscape_cert_sequence :: "int list" where
  [obj_mac]: "OBJ_netscape_cert_sequence = OBJ_netscape_data_type @ [5]"

definition OBJ_ns_sgc :: "int list" where
  [obj_mac]: "OBJ_ns_sgc = OBJ_netscape @ [4, 1]"

definition OBJ_org :: "int list" where
  [obj_mac]: "OBJ_org = OBJ_iso @ [3]"

definition OBJ_dod :: "int list" where
  [obj_mac]: "OBJ_dod = OBJ_org @ [6]"

definition OBJ_iana :: "int list" where
  [obj_mac]: "OBJ_iana = OBJ_dod @ [1]"

definition OBJ_internet :: "int list" where
  [obj_mac]: "OBJ_internet = OBJ_iana"

definition OBJ_Directory :: "int list" where
  [obj_mac]: "OBJ_Directory = OBJ_internet @ [1]"

definition OBJ_Management :: "int list" where
  [obj_mac]: "OBJ_Management = OBJ_internet @ [2]"

definition OBJ_Experimental :: "int list" where
  [obj_mac]: "OBJ_Experimental = OBJ_internet @ [3]"

definition OBJ_Private :: "int list" where
  [obj_mac]: "OBJ_Private = OBJ_internet @ [4]"

definition OBJ_Security :: "int list" where
  [obj_mac]: "OBJ_Security = OBJ_internet @ [5]"

definition OBJ_SNMPv2 :: "int list" where
  [obj_mac]: "OBJ_SNMPv2 = OBJ_internet @ [6]"

definition OBJ_Mail :: "int list" where
  [obj_mac]: "OBJ_Mail = OBJ_internet @ [7]"

definition OBJ_Enterprises :: "int list" where
  [obj_mac]: "OBJ_Enterprises = OBJ_Private @ [1]"

definition OBJ_dcObject :: "int list" where
  [obj_mac]: "OBJ_dcObject = OBJ_Enterprises @ [1466, 344]"

definition OBJ_mime_mhs :: "int list" where
  [obj_mac]: "OBJ_mime_mhs = OBJ_Mail @ [1]"

definition OBJ_mime_mhs_headings :: "int list" where
  [obj_mac]: "OBJ_mime_mhs_headings = OBJ_mime_mhs @ [1]"

definition OBJ_mime_mhs_bodies :: "int list" where
  [obj_mac]: "OBJ_mime_mhs_bodies = OBJ_mime_mhs @ [2]"

definition OBJ_id_hex_partial_message :: "int list" where
  [obj_mac]: "OBJ_id_hex_partial_message = OBJ_mime_mhs_headings @ [1]"

definition OBJ_id_hex_multipart_message :: "int list" where
  [obj_mac]: "OBJ_id_hex_multipart_message = OBJ_mime_mhs_headings @ [2]"

definition OBJ_rle_compression :: "int list" where
  [obj_mac]: "OBJ_rle_compression = [1, 1, 1, 1, 666, 1]"

definition OBJ_zlib_compression :: "int list" where
  [obj_mac]: "OBJ_zlib_compression = OBJ_id_smime_alg @ [8]"

definition OBJ_csor :: "int list" where
  [obj_mac]: "OBJ_csor = [2, 16, 840, 1, 101, 3]"

definition OBJ_nistAlgorithms :: "int list" where
  [obj_mac]: "OBJ_nistAlgorithms = OBJ_csor @ [4]"

definition OBJ_aes :: "int list" where
  [obj_mac]: "OBJ_aes = OBJ_nistAlgorithms @ [1]"

definition obj_mac_17 :: "obj_def list" where
  "obj_mac_17 = [
    Obj ''netscape_base_url'' (Some ''nsBaseUrl'') (Some ''Netscape Base Url'') (Some 72) (Some OBJ_netscape_base_url),
    Obj ''netscape_revocation_url'' (Some ''nsRevocationUrl'') (Some ''Netscape Revocation Url'') (Some 73) (Some OBJ_netscape_revocation_url),
    Obj ''netscape_ca_revocation_url'' (Some ''nsCaRevocationUrl'') (Some ''Netscape CA Revocation Url'') (Some 74) (Some OBJ_netscape_ca_revocation_url),
    Obj ''netscape_renewal_url'' (Some ''nsRenewalUrl'') (Some ''Netscape Renewal Url'') (Some 75) (Some OBJ_netscape_renewal_url),
    Obj ''netscape_ca_policy_url'' (Some ''nsCaPolicyUrl'') (Some ''Netscape CA Policy Url'') (Some 76) (Some OBJ_netscape_ca_policy_url),
    Obj ''netscape_ssl_server_name'' (Some ''nsSslServerName'') (Some ''Netscape SSL Server Name'') (Some 77) (Some OBJ_netscape_ssl_server_name),
    Obj ''netscape_comment'' (Some ''nsComment'') (Some ''Netscape Comment'') (Some 78) (Some OBJ_netscape_comment),
    Obj ''netscape_cert_sequence'' (Some ''nsCertSequence'') (Some ''Netscape Certificate Sequence'') (Some 79) (Some OBJ_netscape_cert_sequence),
    Obj ''ns_sgc'' (Some ''nsSGC'') (Some ''Netscape Server Gated Crypto'') (Some 139) (Some OBJ_ns_sgc),
    Obj ''org'' (Some ''ORG'') (Some ''org'') (Some 379) (Some OBJ_org),
    Obj ''dod'' (Some ''DOD'') (Some ''dod'') (Some 380) (Some OBJ_dod),
    Obj ''iana'' (Some ''IANA'') (Some ''iana'') (Some 381) (Some OBJ_iana),
    Obj ''internet'' None None None (Some OBJ_internet),
    Obj ''Directory'' (Some ''directory'') (Some ''Directory'') (Some 382) (Some OBJ_Directory),
    Obj ''Management'' (Some ''mgmt'') (Some ''Management'') (Some 383) (Some OBJ_Management),
    Obj ''Experimental'' (Some ''experimental'') (Some ''Experimental'') (Some 384) (Some OBJ_Experimental),
    Obj ''Private'' (Some ''private'') (Some ''Private'') (Some 385) (Some OBJ_Private),
    Obj ''Security'' (Some ''security'') (Some ''Security'') (Some 386) (Some OBJ_Security),
    Obj ''SNMPv2'' (Some ''snmpv2'') (Some ''SNMPv2'') (Some 387) (Some OBJ_SNMPv2),
    Obj ''Mail'' None (Some ''Mail'') (Some 388) (Some OBJ_Mail),
    Obj ''Enterprises'' (Some ''enterprises'') (Some ''Enterprises'') (Some 389) (Some OBJ_Enterprises),
    Obj ''dcObject'' (Some ''dcobject'') (Some ''dcObject'') (Some 390) (Some OBJ_dcObject),
    Obj ''mime_mhs'' (Some ''mime-mhs'') (Some ''MIME MHS'') (Some 504) (Some OBJ_mime_mhs),
    Obj ''mime_mhs_headings'' (Some ''mime-mhs-headings'') (Some ''mime-mhs-headings'') (Some 505) (Some OBJ_mime_mhs_headings),
    Obj ''mime_mhs_bodies'' (Some ''mime-mhs-bodies'') (Some ''mime-mhs-bodies'') (Some 506) (Some OBJ_mime_mhs_bodies),
    Obj ''id_hex_partial_message'' (Some ''id-hex-partial-message'') (Some ''id-hex-partial-message'') (Some 507) (Some OBJ_id_hex_partial_message),
    Obj ''id_hex_multipart_message'' (Some ''id-hex-multipart-message'') (Some ''id-hex-multipart-message'') (Some 508) (Some OBJ_id_hex_multipart_message),
    Obj ''rle_compression'' (Some ''RLE'') (Some ''run length compression'') (Some 124) (Some OBJ_rle_compression),
    Obj ''zlib_compression'' (Some ''ZLIB'') (Some ''zlib compression'') (Some 125) (Some OBJ_zlib_compression),
    Obj ''csor'' None None None (Some OBJ_csor),
    Obj ''nistAlgorithms'' None None None (Some OBJ_nistAlgorithms),
    Obj ''aes'' None None None (Some OBJ_aes)]"

subsection \<open>Lines 2598 to 2746\<close>

definition OBJ_aes_128_ecb :: "int list" where
  [obj_mac]: "OBJ_aes_128_ecb = OBJ_aes @ [1]"

definition OBJ_aes_128_cbc :: "int list" where
  [obj_mac]: "OBJ_aes_128_cbc = OBJ_aes @ [2]"

definition OBJ_aes_128_ofb128 :: "int list" where
  [obj_mac]: "OBJ_aes_128_ofb128 = OBJ_aes @ [3]"

definition OBJ_aes_128_cfb128 :: "int list" where
  [obj_mac]: "OBJ_aes_128_cfb128 = OBJ_aes @ [4]"

definition OBJ_id_aes128_wrap :: "int list" where
  [obj_mac]: "OBJ_id_aes128_wrap = OBJ_aes @ [5]"

definition OBJ_aes_128_gcm :: "int list" where
  [obj_mac]: "OBJ_aes_128_gcm = OBJ_aes @ [6]"

definition OBJ_aes_128_ccm :: "int list" where
  [obj_mac]: "OBJ_aes_128_ccm = OBJ_aes @ [7]"

definition OBJ_id_aes128_wrap_pad :: "int list" where
  [obj_mac]: "OBJ_id_aes128_wrap_pad = OBJ_aes @ [8]"

definition OBJ_aes_192_ecb :: "int list" where
  [obj_mac]: "OBJ_aes_192_ecb = OBJ_aes @ [21]"

definition OBJ_aes_192_cbc :: "int list" where
  [obj_mac]: "OBJ_aes_192_cbc = OBJ_aes @ [22]"

definition OBJ_aes_192_ofb128 :: "int list" where
  [obj_mac]: "OBJ_aes_192_ofb128 = OBJ_aes @ [23]"

definition OBJ_aes_192_cfb128 :: "int list" where
  [obj_mac]: "OBJ_aes_192_cfb128 = OBJ_aes @ [24]"

definition OBJ_id_aes192_wrap :: "int list" where
  [obj_mac]: "OBJ_id_aes192_wrap = OBJ_aes @ [25]"

definition OBJ_aes_192_gcm :: "int list" where
  [obj_mac]: "OBJ_aes_192_gcm = OBJ_aes @ [26]"

definition OBJ_aes_192_ccm :: "int list" where
  [obj_mac]: "OBJ_aes_192_ccm = OBJ_aes @ [27]"

definition OBJ_id_aes192_wrap_pad :: "int list" where
  [obj_mac]: "OBJ_id_aes192_wrap_pad = OBJ_aes @ [28]"

definition OBJ_aes_256_ecb :: "int list" where
  [obj_mac]: "OBJ_aes_256_ecb = OBJ_aes @ [41]"

definition OBJ_aes_256_cbc :: "int list" where
  [obj_mac]: "OBJ_aes_256_cbc = OBJ_aes @ [42]"

definition OBJ_aes_256_ofb128 :: "int list" where
  [obj_mac]: "OBJ_aes_256_ofb128 = OBJ_aes @ [43]"

definition OBJ_aes_256_cfb128 :: "int list" where
  [obj_mac]: "OBJ_aes_256_cfb128 = OBJ_aes @ [44]"

definition OBJ_id_aes256_wrap :: "int list" where
  [obj_mac]: "OBJ_id_aes256_wrap = OBJ_aes @ [45]"

definition OBJ_aes_256_gcm :: "int list" where
  [obj_mac]: "OBJ_aes_256_gcm = OBJ_aes @ [46]"

definition OBJ_aes_256_ccm :: "int list" where
  [obj_mac]: "OBJ_aes_256_ccm = OBJ_aes @ [47]"

definition OBJ_id_aes256_wrap_pad :: "int list" where
  [obj_mac]: "OBJ_id_aes256_wrap_pad = OBJ_aes @ [48]"

definition obj_mac_18 :: "obj_def list" where
  "obj_mac_18 = [
    Obj ''aes_128_ecb'' (Some ''AES-128-ECB'') (Some ''aes-128-ecb'') (Some 418) (Some OBJ_aes_128_ecb),
    Obj ''aes_128_cbc'' (Some ''AES-128-CBC'') (Some ''aes-128-cbc'') (Some 419) (Some OBJ_aes_128_cbc),
    Obj ''aes_128_ofb128'' (Some ''AES-128-OFB'') (Some ''aes-128-ofb'') (Some 420) (Some OBJ_aes_128_ofb128),
    Obj ''aes_128_cfb128'' (Some ''AES-128-CFB'') (Some ''aes-128-cfb'') (Some 421) (Some OBJ_aes_128_cfb128),
    Obj ''id_aes128_wrap'' (Some ''id-aes128-wrap'') None (Some 788) (Some OBJ_id_aes128_wrap),
    Obj ''aes_128_gcm'' (Some ''id-aes128-GCM'') (Some ''aes-128-gcm'') (Some 895) (Some OBJ_aes_128_gcm),
    Obj ''aes_128_ccm'' (Some ''id-aes128-CCM'') (Some ''aes-128-ccm'') (Some 896) (Some OBJ_aes_128_ccm),
    Obj ''id_aes128_wrap_pad'' (Some ''id-aes128-wrap-pad'') None (Some 897) (Some OBJ_id_aes128_wrap_pad),
    Obj ''aes_192_ecb'' (Some ''AES-192-ECB'') (Some ''aes-192-ecb'') (Some 422) (Some OBJ_aes_192_ecb),
    Obj ''aes_192_cbc'' (Some ''AES-192-CBC'') (Some ''aes-192-cbc'') (Some 423) (Some OBJ_aes_192_cbc),
    Obj ''aes_192_ofb128'' (Some ''AES-192-OFB'') (Some ''aes-192-ofb'') (Some 424) (Some OBJ_aes_192_ofb128),
    Obj ''aes_192_cfb128'' (Some ''AES-192-CFB'') (Some ''aes-192-cfb'') (Some 425) (Some OBJ_aes_192_cfb128),
    Obj ''id_aes192_wrap'' (Some ''id-aes192-wrap'') None (Some 789) (Some OBJ_id_aes192_wrap),
    Obj ''aes_192_gcm'' (Some ''id-aes192-GCM'') (Some ''aes-192-gcm'') (Some 898) (Some OBJ_aes_192_gcm),
    Obj ''aes_192_ccm'' (Some ''id-aes192-CCM'') (Some ''aes-192-ccm'') (Some 899) (Some OBJ_aes_192_ccm),
    Obj ''id_aes192_wrap_pad'' (Some ''id-aes192-wrap-pad'') None (Some 900) (Some OBJ_id_aes192_wrap_pad),
    Obj ''aes_256_ecb'' (Some ''AES-256-ECB'') (Some ''aes-256-ecb'') (Some 426) (Some OBJ_aes_256_ecb),
    Obj ''aes_256_cbc'' (Some ''AES-256-CBC'') (Some ''aes-256-cbc'') (Some 427) (Some OBJ_aes_256_cbc),
    Obj ''aes_256_ofb128'' (Some ''AES-256-OFB'') (Some ''aes-256-ofb'') (Some 428) (Some OBJ_aes_256_ofb128),
    Obj ''aes_256_cfb128'' (Some ''AES-256-CFB'') (Some ''aes-256-cfb'') (Some 429) (Some OBJ_aes_256_cfb128),
    Obj ''id_aes256_wrap'' (Some ''id-aes256-wrap'') None (Some 790) (Some OBJ_id_aes256_wrap),
    Obj ''aes_256_gcm'' (Some ''id-aes256-GCM'') (Some ''aes-256-gcm'') (Some 901) (Some OBJ_aes_256_gcm),
    Obj ''aes_256_ccm'' (Some ''id-aes256-CCM'') (Some ''aes-256-ccm'') (Some 902) (Some OBJ_aes_256_ccm),
    Obj ''id_aes256_wrap_pad'' (Some ''id-aes256-wrap-pad'') None (Some 903) (Some OBJ_id_aes256_wrap_pad),
    Obj ''aes_128_cfb1'' (Some ''AES-128-CFB1'') (Some ''aes-128-cfb1'') (Some 650) None,
    Obj ''aes_192_cfb1'' (Some ''AES-192-CFB1'') (Some ''aes-192-cfb1'') (Some 651) None,
    Obj ''aes_256_cfb1'' (Some ''AES-256-CFB1'') (Some ''aes-256-cfb1'') (Some 652) None,
    Obj ''aes_128_cfb8'' (Some ''AES-128-CFB8'') (Some ''aes-128-cfb8'') (Some 653) None,
    Obj ''aes_192_cfb8'' (Some ''AES-192-CFB8'') (Some ''aes-192-cfb8'') (Some 654) None,
    Obj ''aes_256_cfb8'' (Some ''AES-256-CFB8'') (Some ''aes-256-cfb8'') (Some 655) None,
    Obj ''aes_128_ctr'' (Some ''AES-128-CTR'') (Some ''aes-128-ctr'') (Some 904) None,
    Obj ''aes_192_ctr'' (Some ''AES-192-CTR'') (Some ''aes-192-ctr'') (Some 905) None,
    Obj ''aes_256_ctr'' (Some ''AES-256-CTR'') (Some ''aes-256-ctr'') (Some 906) None]"

subsection \<open>Lines 2748 to 2897\<close>

definition OBJ_nist_hashalgs :: "int list" where
  [obj_mac]: "OBJ_nist_hashalgs = OBJ_nistAlgorithms @ [2]"

definition OBJ_sha256 :: "int list" where
  [obj_mac]: "OBJ_sha256 = OBJ_nist_hashalgs @ [1]"

definition OBJ_sha384 :: "int list" where
  [obj_mac]: "OBJ_sha384 = OBJ_nist_hashalgs @ [2]"

definition OBJ_sha512 :: "int list" where
  [obj_mac]: "OBJ_sha512 = OBJ_nist_hashalgs @ [3]"

definition OBJ_sha224 :: "int list" where
  [obj_mac]: "OBJ_sha224 = OBJ_nist_hashalgs @ [4]"

definition OBJ_dsa_with_sha2 :: "int list" where
  [obj_mac]: "OBJ_dsa_with_sha2 = OBJ_nistAlgorithms @ [3]"

definition OBJ_dsa_with_SHA224 :: "int list" where
  [obj_mac]: "OBJ_dsa_with_SHA224 = OBJ_dsa_with_sha2 @ [1]"

definition OBJ_dsa_with_SHA256 :: "int list" where
  [obj_mac]: "OBJ_dsa_with_SHA256 = OBJ_dsa_with_sha2 @ [2]"

definition OBJ_hold_instruction_code :: "int list" where
  [obj_mac]: "OBJ_hold_instruction_code = OBJ_id_ce @ [23]"

definition OBJ_holdInstruction :: "int list" where
  [obj_mac]: "OBJ_holdInstruction = OBJ_X9_57 @ [2]"

definition OBJ_hold_instruction_none :: "int list" where
  [obj_mac]: "OBJ_hold_instruction_none = OBJ_holdInstruction @ [1]"

definition OBJ_hold_instruction_call_issuer :: "int list" where
  [obj_mac]: "OBJ_hold_instruction_call_issuer = OBJ_holdInstruction @ [2]"

definition OBJ_hold_instruction_reject :: "int list" where
  [obj_mac]: "OBJ_hold_instruction_reject = OBJ_holdInstruction @ [3]"

definition OBJ_data :: "int list" where
  [obj_mac]: "OBJ_data = OBJ_itu_t @ [9]"

definition OBJ_pss :: "int list" where
  [obj_mac]: "OBJ_pss = OBJ_data @ [2342]"

definition OBJ_ucl :: "int list" where
  [obj_mac]: "OBJ_ucl = OBJ_pss @ [19200300]"

definition OBJ_pilot :: "int list" where
  [obj_mac]: "OBJ_pilot = OBJ_ucl @ [100]"

definition OBJ_pilotAttributeType :: "int list" where
  [obj_mac]: "OBJ_pilotAttributeType = OBJ_pilot @ [1]"

definition OBJ_pilotAttributeSyntax :: "int list" where
  [obj_mac]: "OBJ_pilotAttributeSyntax = OBJ_pilot @ [3]"

definition OBJ_pilotObjectClass :: "int list" where
  [obj_mac]: "OBJ_pilotObjectClass = OBJ_pilot @ [4]"

definition OBJ_pilotGroups :: "int list" where
  [obj_mac]: "OBJ_pilotGroups = OBJ_pilot @ [10]"

definition OBJ_iA5StringSyntax :: "int list" where
  [obj_mac]: "OBJ_iA5StringSyntax = OBJ_pilotAttributeSyntax @ [4]"

definition OBJ_caseIgnoreIA5StringSyntax :: "int list" where
  [obj_mac]: "OBJ_caseIgnoreIA5StringSyntax = OBJ_pilotAttributeSyntax @ [5]"

definition OBJ_pilotObject :: "int list" where
  [obj_mac]: "OBJ_pilotObject = OBJ_pilotObjectClass @ [3]"

definition OBJ_pilotPerson :: "int list" where
  [obj_mac]: "OBJ_pilotPerson = OBJ_pilotObjectClass @ [4]"

definition OBJ_account :: "int list" where
  [obj_mac]: "OBJ_account = OBJ_pilotObjectClass @ [5]"

definition OBJ_document :: "int list" where
  [obj_mac]: "OBJ_document = OBJ_pilotObjectClass @ [6]"

definition OBJ_room :: "int list" where
  [obj_mac]: "OBJ_room = OBJ_pilotObjectClass @ [7]"

definition OBJ_documentSeries :: "int list" where
  [obj_mac]: "OBJ_documentSeries = OBJ_pilotObjectClass @ [9]"

definition OBJ_Domain :: "int list" where
  [obj_mac]: "OBJ_Domain = OBJ_pilotObjectClass @ [13]"

definition OBJ_rFC822localPart :: "int list" where
  [obj_mac]: "OBJ_rFC822localPart = OBJ_pilotObjectClass @ [14]"

definition obj_mac_19 :: "obj_def list" where
  "obj_mac_19 = [
    Obj ''aes_128_xts'' (Some ''AES-128-XTS'') (Some ''aes-128-xts'') (Some 913) None,
    Obj ''aes_256_xts'' (Some ''AES-256-XTS'') (Some ''aes-256-xts'') (Some 914) None,
    Obj ''des_cfb1'' (Some ''DES-CFB1'') (Some ''des-cfb1'') (Some 656) None,
    Obj ''des_cfb8'' (Some ''DES-CFB8'') (Some ''des-cfb8'') (Some 657) None,
    Obj ''des_ede3_cfb1'' (Some ''DES-EDE3-CFB1'') (Some ''des-ede3-cfb1'') (Some 658) None,
    Obj ''des_ede3_cfb8'' (Some ''DES-EDE3-CFB8'') (Some ''des-ede3-cfb8'') (Some 659) None,
    Obj ''nist_hashalgs'' None None None (Some OBJ_nist_hashalgs),
    Obj ''sha256'' (Some ''SHA256'') (Some ''sha256'') (Some 672) (Some OBJ_sha256),
    Obj ''sha384'' (Some ''SHA384'') (Some ''sha384'') (Some 673) (Some OBJ_sha384),
    Obj ''sha512'' (Some ''SHA512'') (Some ''sha512'') (Some 674) (Some OBJ_sha512),
    Obj ''sha224'' (Some ''SHA224'') (Some ''sha224'') (Some 675) (Some OBJ_sha224),
    Obj ''dsa_with_sha2'' None None None (Some OBJ_dsa_with_sha2),
    Obj ''dsa_with_SHA224'' (Some ''dsa_with_SHA224'') None (Some 802) (Some OBJ_dsa_with_SHA224),
    Obj ''dsa_with_SHA256'' (Some ''dsa_with_SHA256'') None (Some 803) (Some OBJ_dsa_with_SHA256),
    Obj ''hold_instruction_code'' (Some ''holdInstructionCode'') (Some ''Hold Instruction Code'') (Some 430) (Some OBJ_hold_instruction_code),
    Obj ''holdInstruction'' None None None (Some OBJ_holdInstruction),
    Obj ''hold_instruction_none'' (Some ''holdInstructionNone'') (Some ''Hold Instruction None'') (Some 431) (Some OBJ_hold_instruction_none),
    Obj ''hold_instruction_call_issuer'' (Some ''holdInstructionCallIssuer'') (Some ''Hold Instruction Call Issuer'') (Some 432) (Some OBJ_hold_instruction_call_issuer),
    Obj ''hold_instruction_reject'' (Some ''holdInstructionReject'') (Some ''Hold Instruction Reject'') (Some 433) (Some OBJ_hold_instruction_reject),
    Obj ''data'' (Some ''data'') None (Some 434) (Some OBJ_data),
    Obj ''pss'' (Some ''pss'') None (Some 435) (Some OBJ_pss),
    Obj ''ucl'' (Some ''ucl'') None (Some 436) (Some OBJ_ucl),
    Obj ''pilot'' (Some ''pilot'') None (Some 437) (Some OBJ_pilot),
    Obj ''pilotAttributeType'' None (Some ''pilotAttributeType'') (Some 438) (Some OBJ_pilotAttributeType),
    Obj ''pilotAttributeSyntax'' None (Some ''pilotAttributeSyntax'') (Some 439) (Some OBJ_pilotAttributeSyntax),
    Obj ''pilotObjectClass'' None (Some ''pilotObjectClass'') (Some 440) (Some OBJ_pilotObjectClass),
    Obj ''pilotGroups'' None (Some ''pilotGroups'') (Some 441) (Some OBJ_pilotGroups),
    Obj ''iA5StringSyntax'' None (Some ''iA5StringSyntax'') (Some 442) (Some OBJ_iA5StringSyntax),
    Obj ''caseIgnoreIA5StringSyntax'' None (Some ''caseIgnoreIA5StringSyntax'') (Some 443) (Some OBJ_caseIgnoreIA5StringSyntax),
    Obj ''pilotObject'' None (Some ''pilotObject'') (Some 444) (Some OBJ_pilotObject),
    Obj ''pilotPerson'' None (Some ''pilotPerson'') (Some 445) (Some OBJ_pilotPerson),
    Obj ''account'' (Some ''account'') None (Some 446) (Some OBJ_account),
    Obj ''document'' (Some ''document'') None (Some 447) (Some OBJ_document),
    Obj ''room'' (Some ''room'') None (Some 448) (Some OBJ_room),
    Obj ''documentSeries'' None (Some ''documentSeries'') (Some 449) (Some OBJ_documentSeries),
    Obj ''Domain'' (Some ''domain'') (Some ''Domain'') (Some 392) (Some OBJ_Domain),
    Obj ''rFC822localPart'' None (Some ''rFC822localPart'') (Some 450) (Some OBJ_rFC822localPart)]"

subsection \<open>Lines 2899 to 3048\<close>

definition OBJ_dNSDomain :: "int list" where
  [obj_mac]: "OBJ_dNSDomain = OBJ_pilotObjectClass @ [15]"

definition OBJ_domainRelatedObject :: "int list" where
  [obj_mac]: "OBJ_domainRelatedObject = OBJ_pilotObjectClass @ [17]"

definition OBJ_friendlyCountry :: "int list" where
  [obj_mac]: "OBJ_friendlyCountry = OBJ_pilotObjectClass @ [18]"

definition OBJ_simpleSecurityObject :: "int list" where
  [obj_mac]: "OBJ_simpleSecurityObject = OBJ_pilotObjectClass @ [19]"

definition OBJ_pilotOrganization :: "int list" where
  [obj_mac]: "OBJ_pilotOrganization = OBJ_pilotObjectClass @ [20]"

definition OBJ_pilotDSA :: "int list" where
  [obj_mac]: "OBJ_pilotDSA = OBJ_pilotObjectClass @ [21]"

definition OBJ_qualityLabelledData :: "int list" where
  [obj_mac]: "OBJ_qualityLabelledData = OBJ_pilotObjectClass @ [22]"

definition OBJ_userId :: "int list" where
  [obj_mac]: "OBJ_userId = OBJ_pilotAttributeType @ [1]"

definition OBJ_textEncodedORAddress :: "int list" where
  [obj_mac]: "OBJ_textEncodedORAddress = OBJ_pilotAttributeType @ [2]"

definition OBJ_rfc822Mailbox :: "int list" where
  [obj_mac]: "OBJ_rfc822Mailbox = OBJ_pilotAttributeType @ [3]"

definition OBJ_info :: "int list" where
  [obj_mac]: "OBJ_info = OBJ_pilotAttributeType @ [4]"

definition OBJ_favouriteDrink :: "int list" where
  [obj_mac]: "OBJ_favouriteDrink = OBJ_pilotAttributeType @ [5]"

definition OBJ_roomNumber :: "int list" where
  [obj_mac]: "OBJ_roomNumber = OBJ_pilotAttributeType @ [6]"

definition OBJ_photo :: "int list" where
  [obj_mac]: "OBJ_photo = OBJ_pilotAttributeType @ [7]"

definition OBJ_userClass :: "int list" where
  [obj_mac]: "OBJ_userClass = OBJ_pilotAttributeType @ [8]"

definition OBJ_host :: "int list" where
  [obj_mac]: "OBJ_host = OBJ_pilotAttributeType @ [9]"

definition OBJ_manager :: "int list" where
  [obj_mac]: "OBJ_manager = OBJ_pilotAttributeType @ [10]"

definition OBJ_documentIdentifier :: "int list" where
  [obj_mac]: "OBJ_documentIdentifier = OBJ_pilotAttributeType @ [11]"

definition OBJ_documentTitle :: "int list" where
  [obj_mac]: "OBJ_documentTitle = OBJ_pilotAttributeType @ [12]"

definition OBJ_documentVersion :: "int list" where
  [obj_mac]: "OBJ_documentVersion = OBJ_pilotAttributeType @ [13]"

definition OBJ_documentAuthor :: "int list" where
  [obj_mac]: "OBJ_documentAuthor = OBJ_pilotAttributeType @ [14]"

definition OBJ_documentLocation :: "int list" where
  [obj_mac]: "OBJ_documentLocation = OBJ_pilotAttributeType @ [15]"

definition OBJ_homeTelephoneNumber :: "int list" where
  [obj_mac]: "OBJ_homeTelephoneNumber = OBJ_pilotAttributeType @ [20]"

definition OBJ_secretary :: "int list" where
  [obj_mac]: "OBJ_secretary = OBJ_pilotAttributeType @ [21]"

definition OBJ_otherMailbox :: "int list" where
  [obj_mac]: "OBJ_otherMailbox = OBJ_pilotAttributeType @ [22]"

definition OBJ_lastModifiedTime :: "int list" where
  [obj_mac]: "OBJ_lastModifiedTime = OBJ_pilotAttributeType @ [23]"

definition OBJ_lastModifiedBy :: "int list" where
  [obj_mac]: "OBJ_lastModifiedBy = OBJ_pilotAttributeType @ [24]"

definition OBJ_domainComponent :: "int list" where
  [obj_mac]: "OBJ_domainComponent = OBJ_pilotAttributeType @ [25]"

definition OBJ_aRecord :: "int list" where
  [obj_mac]: "OBJ_aRecord = OBJ_pilotAttributeType @ [26]"

definition OBJ_pilotAttributeType27 :: "int list" where
  [obj_mac]: "OBJ_pilotAttributeType27 = OBJ_pilotAttributeType @ [27]"

definition OBJ_mXRecord :: "int list" where
  [obj_mac]: "OBJ_mXRecord = OBJ_pilotAttributeType @ [28]"

definition OBJ_nSRecord :: "int list" where
  [obj_mac]: "OBJ_nSRecord = OBJ_pilotAttributeType @ [29]"

definition OBJ_sOARecord :: "int list" where
  [obj_mac]: "OBJ_sOARecord = OBJ_pilotAttributeType @ [30]"

definition OBJ_cNAMERecord :: "int list" where
  [obj_mac]: "OBJ_cNAMERecord = OBJ_pilotAttributeType @ [31]"

definition OBJ_associatedDomain :: "int list" where
  [obj_mac]: "OBJ_associatedDomain = OBJ_pilotAttributeType @ [37]"

definition OBJ_associatedName :: "int list" where
  [obj_mac]: "OBJ_associatedName = OBJ_pilotAttributeType @ [38]"

definition OBJ_homePostalAddress :: "int list" where
  [obj_mac]: "OBJ_homePostalAddress = OBJ_pilotAttributeType @ [39]"

definition obj_mac_20 :: "obj_def list" where
  "obj_mac_20 = [
    Obj ''dNSDomain'' None (Some ''dNSDomain'') (Some 451) (Some OBJ_dNSDomain),
    Obj ''domainRelatedObject'' None (Some ''domainRelatedObject'') (Some 452) (Some OBJ_domainRelatedObject),
    Obj ''friendlyCountry'' None (Some ''friendlyCountry'') (Some 453) (Some OBJ_friendlyCountry),
    Obj ''simpleSecurityObject'' None (Some ''simpleSecurityObject'') (Some 454) (Some OBJ_simpleSecurityObject),
    Obj ''pilotOrganization'' None (Some ''pilotOrganization'') (Some 455) (Some OBJ_pilotOrganization),
    Obj ''pilotDSA'' None (Some ''pilotDSA'') (Some 456) (Some OBJ_pilotDSA),
    Obj ''qualityLabelledData'' None (Some ''qualityLabelledData'') (Some 457) (Some OBJ_qualityLabelledData),
    Obj ''userId'' (Some ''UID'') (Some ''userId'') (Some 458) (Some OBJ_userId),
    Obj ''textEncodedORAddress'' None (Some ''textEncodedORAddress'') (Some 459) (Some OBJ_textEncodedORAddress),
    Obj ''rfc822Mailbox'' (Some ''mail'') (Some ''rfc822Mailbox'') (Some 460) (Some OBJ_rfc822Mailbox),
    Obj ''info'' (Some ''info'') None (Some 461) (Some OBJ_info),
    Obj ''favouriteDrink'' None (Some ''favouriteDrink'') (Some 462) (Some OBJ_favouriteDrink),
    Obj ''roomNumber'' None (Some ''roomNumber'') (Some 463) (Some OBJ_roomNumber),
    Obj ''photo'' (Some ''photo'') None (Some 464) (Some OBJ_photo),
    Obj ''userClass'' None (Some ''userClass'') (Some 465) (Some OBJ_userClass),
    Obj ''host'' (Some ''host'') None (Some 466) (Some OBJ_host),
    Obj ''manager'' (Some ''manager'') None (Some 467) (Some OBJ_manager),
    Obj ''documentIdentifier'' None (Some ''documentIdentifier'') (Some 468) (Some OBJ_documentIdentifier),
    Obj ''documentTitle'' None (Some ''documentTitle'') (Some 469) (Some OBJ_documentTitle),
    Obj ''documentVersion'' None (Some ''documentVersion'') (Some 470) (Some OBJ_documentVersion),
    Obj ''documentAuthor'' None (Some ''documentAuthor'') (Some 471) (Some OBJ_documentAuthor),
    Obj ''documentLocation'' None (Some ''documentLocation'') (Some 472) (Some OBJ_documentLocation),
    Obj ''homeTelephoneNumber'' None (Some ''homeTelephoneNumber'') (Some 473) (Some OBJ_homeTelephoneNumber),
    Obj ''secretary'' (Some ''secretary'') None (Some 474) (Some OBJ_secretary),
    Obj ''otherMailbox'' None (Some ''otherMailbox'') (Some 475) (Some OBJ_otherMailbox),
    Obj ''lastModifiedTime'' None (Some ''lastModifiedTime'') (Some 476) (Some OBJ_lastModifiedTime),
    Obj ''lastModifiedBy'' None (Some ''lastModifiedBy'') (Some 477) (Some OBJ_lastModifiedBy),
    Obj ''domainComponent'' (Some ''DC'') (Some ''domainComponent'') (Some 391) (Some OBJ_domainComponent),
    Obj ''aRecord'' None (Some ''aRecord'') (Some 478) (Some OBJ_aRecord),
    Obj ''pilotAttributeType27'' None (Some ''pilotAttributeType27'') (Some 479) (Some OBJ_pilotAttributeType27),
    Obj ''mXRecord'' None (Some ''mXRecord'') (Some 480) (Some OBJ_mXRecord),
    Obj ''nSRecord'' None (Some ''nSRecord'') (Some 481) (Some OBJ_nSRecord),
    Obj ''sOARecord'' None (Some ''sOARecord'') (Some 482) (Some OBJ_sOARecord),
    Obj ''cNAMERecord'' None (Some ''cNAMERecord'') (Some 483) (Some OBJ_cNAMERecord),
    Obj ''associatedDomain'' None (Some ''associatedDomain'') (Some 484) (Some OBJ_associatedDomain),
    Obj ''associatedName'' None (Some ''associatedName'') (Some 485) (Some OBJ_associatedName),
    Obj ''homePostalAddress'' None (Some ''homePostalAddress'') (Some 486) (Some OBJ_homePostalAddress)]"

subsection \<open>Lines 3050 to 3196\<close>

definition OBJ_personalTitle :: "int list" where
  [obj_mac]: "OBJ_personalTitle = OBJ_pilotAttributeType @ [40]"

definition OBJ_mobileTelephoneNumber :: "int list" where
  [obj_mac]: "OBJ_mobileTelephoneNumber = OBJ_pilotAttributeType @ [41]"

definition OBJ_pagerTelephoneNumber :: "int list" where
  [obj_mac]: "OBJ_pagerTelephoneNumber = OBJ_pilotAttributeType @ [42]"

definition OBJ_friendlyCountryName :: "int list" where
  [obj_mac]: "OBJ_friendlyCountryName = OBJ_pilotAttributeType @ [43]"

definition OBJ_organizationalStatus :: "int list" where
  [obj_mac]: "OBJ_organizationalStatus = OBJ_pilotAttributeType @ [45]"

definition OBJ_janetMailbox :: "int list" where
  [obj_mac]: "OBJ_janetMailbox = OBJ_pilotAttributeType @ [46]"

definition OBJ_mailPreferenceOption :: "int list" where
  [obj_mac]: "OBJ_mailPreferenceOption = OBJ_pilotAttributeType @ [47]"

definition OBJ_buildingName :: "int list" where
  [obj_mac]: "OBJ_buildingName = OBJ_pilotAttributeType @ [48]"

definition OBJ_dSAQuality :: "int list" where
  [obj_mac]: "OBJ_dSAQuality = OBJ_pilotAttributeType @ [49]"

definition OBJ_singleLevelQuality :: "int list" where
  [obj_mac]: "OBJ_singleLevelQuality = OBJ_pilotAttributeType @ [50]"

definition OBJ_subtreeMinimumQuality :: "int list" where
  [obj_mac]: "OBJ_subtreeMinimumQuality = OBJ_pilotAttributeType @ [51]"

definition OBJ_subtreeMaximumQuality :: "int list" where
  [obj_mac]: "OBJ_subtreeMaximumQuality = OBJ_pilotAttributeType @ [52]"

definition OBJ_personalSignature :: "int list" where
  [obj_mac]: "OBJ_personalSignature = OBJ_pilotAttributeType @ [53]"

definition OBJ_dITRedirect :: "int list" where
  [obj_mac]: "OBJ_dITRedirect = OBJ_pilotAttributeType @ [54]"

definition OBJ_audio :: "int list" where
  [obj_mac]: "OBJ_audio = OBJ_pilotAttributeType @ [55]"

definition OBJ_documentPublisher :: "int list" where
  [obj_mac]: "OBJ_documentPublisher = OBJ_pilotAttributeType @ [56]"

definition OBJ_id_set :: "int list" where
  [obj_mac]: "OBJ_id_set = OBJ_international_organizations @ [42]"

definition OBJ_set_ctype :: "int list" where
  [obj_mac]: "OBJ_set_ctype = OBJ_id_set @ [0]"

definition OBJ_set_msgExt :: "int list" where
  [obj_mac]: "OBJ_set_msgExt = OBJ_id_set @ [1]"

definition OBJ_set_attr :: "int list" where
  [obj_mac]: "OBJ_set_attr = OBJ_id_set @ [3]"

definition OBJ_set_policy :: "int list" where
  [obj_mac]: "OBJ_set_policy = OBJ_id_set @ [5]"

definition OBJ_set_certExt :: "int list" where
  [obj_mac]: "OBJ_set_certExt = OBJ_id_set @ [7]"

definition OBJ_set_brand :: "int list" where
  [obj_mac]: "OBJ_set_brand = OBJ_id_set @ [8]"

definition OBJ_setct_PANData :: "int list" where
  [obj_mac]: "OBJ_setct_PANData = OBJ_set_ctype @ [0]"

definition OBJ_setct_PANToken :: "int list" where
  [obj_mac]: "OBJ_setct_PANToken = OBJ_set_ctype @ [1]"

definition OBJ_setct_PANOnly :: "int list" where
  [obj_mac]: "OBJ_setct_PANOnly = OBJ_set_ctype @ [2]"

definition OBJ_setct_OIData :: "int list" where
  [obj_mac]: "OBJ_setct_OIData = OBJ_set_ctype @ [3]"

definition OBJ_setct_PI :: "int list" where
  [obj_mac]: "OBJ_setct_PI = OBJ_set_ctype @ [4]"

definition OBJ_setct_PIData :: "int list" where
  [obj_mac]: "OBJ_setct_PIData = OBJ_set_ctype @ [5]"

definition OBJ_setct_PIDataUnsigned :: "int list" where
  [obj_mac]: "OBJ_setct_PIDataUnsigned = OBJ_set_ctype @ [6]"

definition OBJ_setct_HODInput :: "int list" where
  [obj_mac]: "OBJ_setct_HODInput = OBJ_set_ctype @ [7]"

definition OBJ_setct_AuthResBaggage :: "int list" where
  [obj_mac]: "OBJ_setct_AuthResBaggage = OBJ_set_ctype @ [8]"

definition OBJ_setct_AuthRevReqBaggage :: "int list" where
  [obj_mac]: "OBJ_setct_AuthRevReqBaggage = OBJ_set_ctype @ [9]"

definition OBJ_setct_AuthRevResBaggage :: "int list" where
  [obj_mac]: "OBJ_setct_AuthRevResBaggage = OBJ_set_ctype @ [10]"

definition OBJ_setct_CapTokenSeq :: "int list" where
  [obj_mac]: "OBJ_setct_CapTokenSeq = OBJ_set_ctype @ [11]"

definition OBJ_setct_PInitResData :: "int list" where
  [obj_mac]: "OBJ_setct_PInitResData = OBJ_set_ctype @ [12]"

definition obj_mac_21 :: "obj_def list" where
  "obj_mac_21 = [
    Obj ''personalTitle'' None (Some ''personalTitle'') (Some 487) (Some OBJ_personalTitle),
    Obj ''mobileTelephoneNumber'' None (Some ''mobileTelephoneNumber'') (Some 488) (Some OBJ_mobileTelephoneNumber),
    Obj ''pagerTelephoneNumber'' None (Some ''pagerTelephoneNumber'') (Some 489) (Some OBJ_pagerTelephoneNumber),
    Obj ''friendlyCountryName'' None (Some ''friendlyCountryName'') (Some 490) (Some OBJ_friendlyCountryName),
    Obj ''organizationalStatus'' None (Some ''organizationalStatus'') (Some 491) (Some OBJ_organizationalStatus),
    Obj ''janetMailbox'' None (Some ''janetMailbox'') (Some 492) (Some OBJ_janetMailbox),
    Obj ''mailPreferenceOption'' None (Some ''mailPreferenceOption'') (Some 493) (Some OBJ_mailPreferenceOption),
    Obj ''buildingName'' None (Some ''buildingName'') (Some 494) (Some OBJ_buildingName),
    Obj ''dSAQuality'' None (Some ''dSAQuality'') (Some 495) (Some OBJ_dSAQuality),
    Obj ''singleLevelQuality'' None (Some ''singleLevelQuality'') (Some 496) (Some OBJ_singleLevelQuality),
    Obj ''subtreeMinimumQuality'' None (Some ''subtreeMinimumQuality'') (Some 497) (Some OBJ_subtreeMinimumQuality),
    Obj ''subtreeMaximumQuality'' None (Some ''subtreeMaximumQuality'') (Some 498) (Some OBJ_subtreeMaximumQuality),
    Obj ''personalSignature'' None (Some ''personalSignature'') (Some 499) (Some OBJ_personalSignature),
    Obj ''dITRedirect'' None (Some ''dITRedirect'') (Some 500) (Some OBJ_dITRedirect),
    Obj ''audio'' (Some ''audio'') None (Some 501) (Some OBJ_audio),
    Obj ''documentPublisher'' None (Some ''documentPublisher'') (Some 502) (Some OBJ_documentPublisher),
    Obj ''id_set'' (Some ''id-set'') (Some ''Secure Electronic Transactions'') (Some 512) (Some OBJ_id_set),
    Obj ''set_ctype'' (Some ''set-ctype'') (Some ''content types'') (Some 513) (Some OBJ_set_ctype),
    Obj ''set_msgExt'' (Some ''set-msgExt'') (Some ''message extensions'') (Some 514) (Some OBJ_set_msgExt),
    Obj ''set_attr'' (Some ''set-attr'') None (Some 515) (Some OBJ_set_attr),
    Obj ''set_policy'' (Some ''set-policy'') None (Some 516) (Some OBJ_set_policy),
    Obj ''set_certExt'' (Some ''set-certExt'') (Some ''certificate extensions'') (Some 517) (Some OBJ_set_certExt),
    Obj ''set_brand'' (Some ''set-brand'') None (Some 518) (Some OBJ_set_brand),
    Obj ''setct_PANData'' (Some ''setct-PANData'') None (Some 519) (Some OBJ_setct_PANData),
    Obj ''setct_PANToken'' (Some ''setct-PANToken'') None (Some 520) (Some OBJ_setct_PANToken),
    Obj ''setct_PANOnly'' (Some ''setct-PANOnly'') None (Some 521) (Some OBJ_setct_PANOnly),
    Obj ''setct_OIData'' (Some ''setct-OIData'') None (Some 522) (Some OBJ_setct_OIData),
    Obj ''setct_PI'' (Some ''setct-PI'') None (Some 523) (Some OBJ_setct_PI),
    Obj ''setct_PIData'' (Some ''setct-PIData'') None (Some 524) (Some OBJ_setct_PIData),
    Obj ''setct_PIDataUnsigned'' (Some ''setct-PIDataUnsigned'') None (Some 525) (Some OBJ_setct_PIDataUnsigned),
    Obj ''setct_HODInput'' (Some ''setct-HODInput'') None (Some 526) (Some OBJ_setct_HODInput),
    Obj ''setct_AuthResBaggage'' (Some ''setct-AuthResBaggage'') None (Some 527) (Some OBJ_setct_AuthResBaggage),
    Obj ''setct_AuthRevReqBaggage'' (Some ''setct-AuthRevReqBaggage'') None (Some 528) (Some OBJ_setct_AuthRevReqBaggage),
    Obj ''setct_AuthRevResBaggage'' (Some ''setct-AuthRevResBaggage'') None (Some 529) (Some OBJ_setct_AuthRevResBaggage),
    Obj ''setct_CapTokenSeq'' (Some ''setct-CapTokenSeq'') None (Some 530) (Some OBJ_setct_CapTokenSeq),
    Obj ''setct_PInitResData'' (Some ''setct-PInitResData'') None (Some 531) (Some OBJ_setct_PInitResData)]"

subsection \<open>Lines 3198 to 3344\<close>

definition OBJ_setct_PI_TBS :: "int list" where
  [obj_mac]: "OBJ_setct_PI_TBS = OBJ_set_ctype @ [13]"

definition OBJ_setct_PResData :: "int list" where
  [obj_mac]: "OBJ_setct_PResData = OBJ_set_ctype @ [14]"

definition OBJ_setct_AuthReqTBS :: "int list" where
  [obj_mac]: "OBJ_setct_AuthReqTBS = OBJ_set_ctype @ [16]"

definition OBJ_setct_AuthResTBS :: "int list" where
  [obj_mac]: "OBJ_setct_AuthResTBS = OBJ_set_ctype @ [17]"

definition OBJ_setct_AuthResTBSX :: "int list" where
  [obj_mac]: "OBJ_setct_AuthResTBSX = OBJ_set_ctype @ [18]"

definition OBJ_setct_AuthTokenTBS :: "int list" where
  [obj_mac]: "OBJ_setct_AuthTokenTBS = OBJ_set_ctype @ [19]"

definition OBJ_setct_CapTokenData :: "int list" where
  [obj_mac]: "OBJ_setct_CapTokenData = OBJ_set_ctype @ [20]"

definition OBJ_setct_CapTokenTBS :: "int list" where
  [obj_mac]: "OBJ_setct_CapTokenTBS = OBJ_set_ctype @ [21]"

definition OBJ_setct_AcqCardCodeMsg :: "int list" where
  [obj_mac]: "OBJ_setct_AcqCardCodeMsg = OBJ_set_ctype @ [22]"

definition OBJ_setct_AuthRevReqTBS :: "int list" where
  [obj_mac]: "OBJ_setct_AuthRevReqTBS = OBJ_set_ctype @ [23]"

definition OBJ_setct_AuthRevResData :: "int list" where
  [obj_mac]: "OBJ_setct_AuthRevResData = OBJ_set_ctype @ [24]"

definition OBJ_setct_AuthRevResTBS :: "int list" where
  [obj_mac]: "OBJ_setct_AuthRevResTBS = OBJ_set_ctype @ [25]"

definition OBJ_setct_CapReqTBS :: "int list" where
  [obj_mac]: "OBJ_setct_CapReqTBS = OBJ_set_ctype @ [26]"

definition OBJ_setct_CapReqTBSX :: "int list" where
  [obj_mac]: "OBJ_setct_CapReqTBSX = OBJ_set_ctype @ [27]"

definition OBJ_setct_CapResData :: "int list" where
  [obj_mac]: "OBJ_setct_CapResData = OBJ_set_ctype @ [28]"

definition OBJ_setct_CapRevReqTBS :: "int list" where
  [obj_mac]: "OBJ_setct_CapRevReqTBS = OBJ_set_ctype @ [29]"

definition OBJ_setct_CapRevReqTBSX :: "int list" where
  [obj_mac]: "OBJ_setct_CapRevReqTBSX = OBJ_set_ctype @ [30]"

definition OBJ_setct_CapRevResData :: "int list" where
  [obj_mac]: "OBJ_setct_CapRevResData = OBJ_set_ctype @ [31]"

definition OBJ_setct_CredReqTBS :: "int list" where
  [obj_mac]: "OBJ_setct_CredReqTBS = OBJ_set_ctype @ [32]"

definition OBJ_setct_CredReqTBSX :: "int list" where
  [obj_mac]: "OBJ_setct_CredReqTBSX = OBJ_set_ctype @ [33]"

definition OBJ_setct_CredResData :: "int list" where
  [obj_mac]: "OBJ_setct_CredResData = OBJ_set_ctype @ [34]"

definition OBJ_setct_CredRevReqTBS :: "int list" where
  [obj_mac]: "OBJ_setct_CredRevReqTBS = OBJ_set_ctype @ [35]"

definition OBJ_setct_CredRevReqTBSX :: "int list" where
  [obj_mac]: "OBJ_setct_CredRevReqTBSX = OBJ_set_ctype @ [36]"

definition OBJ_setct_CredRevResData :: "int list" where
  [obj_mac]: "OBJ_setct_CredRevResData = OBJ_set_ctype @ [37]"

definition OBJ_setct_PCertReqData :: "int list" where
  [obj_mac]: "OBJ_setct_PCertReqData = OBJ_set_ctype @ [38]"

definition OBJ_setct_PCertResTBS :: "int list" where
  [obj_mac]: "OBJ_setct_PCertResTBS = OBJ_set_ctype @ [39]"

definition OBJ_setct_BatchAdminReqData :: "int list" where
  [obj_mac]: "OBJ_setct_BatchAdminReqData = OBJ_set_ctype @ [40]"

definition OBJ_setct_BatchAdminResData :: "int list" where
  [obj_mac]: "OBJ_setct_BatchAdminResData = OBJ_set_ctype @ [41]"

definition OBJ_setct_CardCInitResTBS :: "int list" where
  [obj_mac]: "OBJ_setct_CardCInitResTBS = OBJ_set_ctype @ [42]"

definition OBJ_setct_MeAqCInitResTBS :: "int list" where
  [obj_mac]: "OBJ_setct_MeAqCInitResTBS = OBJ_set_ctype @ [43]"

definition OBJ_setct_RegFormResTBS :: "int list" where
  [obj_mac]: "OBJ_setct_RegFormResTBS = OBJ_set_ctype @ [44]"

definition OBJ_setct_CertReqData :: "int list" where
  [obj_mac]: "OBJ_setct_CertReqData = OBJ_set_ctype @ [45]"

definition OBJ_setct_CertReqTBS :: "int list" where
  [obj_mac]: "OBJ_setct_CertReqTBS = OBJ_set_ctype @ [46]"

definition OBJ_setct_CertResData :: "int list" where
  [obj_mac]: "OBJ_setct_CertResData = OBJ_set_ctype @ [47]"

definition OBJ_setct_CertInqReqTBS :: "int list" where
  [obj_mac]: "OBJ_setct_CertInqReqTBS = OBJ_set_ctype @ [48]"

definition OBJ_setct_ErrorTBS :: "int list" where
  [obj_mac]: "OBJ_setct_ErrorTBS = OBJ_set_ctype @ [49]"

definition OBJ_setct_PIDualSignedTBE :: "int list" where
  [obj_mac]: "OBJ_setct_PIDualSignedTBE = OBJ_set_ctype @ [50]"

definition obj_mac_22 :: "obj_def list" where
  "obj_mac_22 = [
    Obj ''setct_PI_TBS'' (Some ''setct-PI-TBS'') None (Some 532) (Some OBJ_setct_PI_TBS),
    Obj ''setct_PResData'' (Some ''setct-PResData'') None (Some 533) (Some OBJ_setct_PResData),
    Obj ''setct_AuthReqTBS'' (Some ''setct-AuthReqTBS'') None (Some 534) (Some OBJ_setct_AuthReqTBS),
    Obj ''setct_AuthResTBS'' (Some ''setct-AuthResTBS'') None (Some 535) (Some OBJ_setct_AuthResTBS),
    Obj ''setct_AuthResTBSX'' (Some ''setct-AuthResTBSX'') None (Some 536) (Some OBJ_setct_AuthResTBSX),
    Obj ''setct_AuthTokenTBS'' (Some ''setct-AuthTokenTBS'') None (Some 537) (Some OBJ_setct_AuthTokenTBS),
    Obj ''setct_CapTokenData'' (Some ''setct-CapTokenData'') None (Some 538) (Some OBJ_setct_CapTokenData),
    Obj ''setct_CapTokenTBS'' (Some ''setct-CapTokenTBS'') None (Some 539) (Some OBJ_setct_CapTokenTBS),
    Obj ''setct_AcqCardCodeMsg'' (Some ''setct-AcqCardCodeMsg'') None (Some 540) (Some OBJ_setct_AcqCardCodeMsg),
    Obj ''setct_AuthRevReqTBS'' (Some ''setct-AuthRevReqTBS'') None (Some 541) (Some OBJ_setct_AuthRevReqTBS),
    Obj ''setct_AuthRevResData'' (Some ''setct-AuthRevResData'') None (Some 542) (Some OBJ_setct_AuthRevResData),
    Obj ''setct_AuthRevResTBS'' (Some ''setct-AuthRevResTBS'') None (Some 543) (Some OBJ_setct_AuthRevResTBS),
    Obj ''setct_CapReqTBS'' (Some ''setct-CapReqTBS'') None (Some 544) (Some OBJ_setct_CapReqTBS),
    Obj ''setct_CapReqTBSX'' (Some ''setct-CapReqTBSX'') None (Some 545) (Some OBJ_setct_CapReqTBSX),
    Obj ''setct_CapResData'' (Some ''setct-CapResData'') None (Some 546) (Some OBJ_setct_CapResData),
    Obj ''setct_CapRevReqTBS'' (Some ''setct-CapRevReqTBS'') None (Some 547) (Some OBJ_setct_CapRevReqTBS),
    Obj ''setct_CapRevReqTBSX'' (Some ''setct-CapRevReqTBSX'') None (Some 548) (Some OBJ_setct_CapRevReqTBSX),
    Obj ''setct_CapRevResData'' (Some ''setct-CapRevResData'') None (Some 549) (Some OBJ_setct_CapRevResData),
    Obj ''setct_CredReqTBS'' (Some ''setct-CredReqTBS'') None (Some 550) (Some OBJ_setct_CredReqTBS),
    Obj ''setct_CredReqTBSX'' (Some ''setct-CredReqTBSX'') None (Some 551) (Some OBJ_setct_CredReqTBSX),
    Obj ''setct_CredResData'' (Some ''setct-CredResData'') None (Some 552) (Some OBJ_setct_CredResData),
    Obj ''setct_CredRevReqTBS'' (Some ''setct-CredRevReqTBS'') None (Some 553) (Some OBJ_setct_CredRevReqTBS),
    Obj ''setct_CredRevReqTBSX'' (Some ''setct-CredRevReqTBSX'') None (Some 554) (Some OBJ_setct_CredRevReqTBSX),
    Obj ''setct_CredRevResData'' (Some ''setct-CredRevResData'') None (Some 555) (Some OBJ_setct_CredRevResData),
    Obj ''setct_PCertReqData'' (Some ''setct-PCertReqData'') None (Some 556) (Some OBJ_setct_PCertReqData),
    Obj ''setct_PCertResTBS'' (Some ''setct-PCertResTBS'') None (Some 557) (Some OBJ_setct_PCertResTBS),
    Obj ''setct_BatchAdminReqData'' (Some ''setct-BatchAdminReqData'') None (Some 558) (Some OBJ_setct_BatchAdminReqData),
    Obj ''setct_BatchAdminResData'' (Some ''setct-BatchAdminResData'') None (Some 559) (Some OBJ_setct_BatchAdminResData),
    Obj ''setct_CardCInitResTBS'' (Some ''setct-CardCInitResTBS'') None (Some 560) (Some OBJ_setct_CardCInitResTBS),
    Obj ''setct_MeAqCInitResTBS'' (Some ''setct-MeAqCInitResTBS'') None (Some 561) (Some OBJ_setct_MeAqCInitResTBS),
    Obj ''setct_RegFormResTBS'' (Some ''setct-RegFormResTBS'') None (Some 562) (Some OBJ_setct_RegFormResTBS),
    Obj ''setct_CertReqData'' (Some ''setct-CertReqData'') None (Some 563) (Some OBJ_setct_CertReqData),
    Obj ''setct_CertReqTBS'' (Some ''setct-CertReqTBS'') None (Some 564) (Some OBJ_setct_CertReqTBS),
    Obj ''setct_CertResData'' (Some ''setct-CertResData'') None (Some 565) (Some OBJ_setct_CertResData),
    Obj ''setct_CertInqReqTBS'' (Some ''setct-CertInqReqTBS'') None (Some 566) (Some OBJ_setct_CertInqReqTBS),
    Obj ''setct_ErrorTBS'' (Some ''setct-ErrorTBS'') None (Some 567) (Some OBJ_setct_ErrorTBS),
    Obj ''setct_PIDualSignedTBE'' (Some ''setct-PIDualSignedTBE'') None (Some 568) (Some OBJ_setct_PIDualSignedTBE)]"

subsection \<open>Lines 3346 to 3494\<close>

definition OBJ_setct_PIUnsignedTBE :: "int list" where
  [obj_mac]: "OBJ_setct_PIUnsignedTBE = OBJ_set_ctype @ [51]"

definition OBJ_setct_AuthReqTBE :: "int list" where
  [obj_mac]: "OBJ_setct_AuthReqTBE = OBJ_set_ctype @ [52]"

definition OBJ_setct_AuthResTBE :: "int list" where
  [obj_mac]: "OBJ_setct_AuthResTBE = OBJ_set_ctype @ [53]"

definition OBJ_setct_AuthResTBEX :: "int list" where
  [obj_mac]: "OBJ_setct_AuthResTBEX = OBJ_set_ctype @ [54]"

definition OBJ_setct_AuthTokenTBE :: "int list" where
  [obj_mac]: "OBJ_setct_AuthTokenTBE = OBJ_set_ctype @ [55]"

definition OBJ_setct_CapTokenTBE :: "int list" where
  [obj_mac]: "OBJ_setct_CapTokenTBE = OBJ_set_ctype @ [56]"

definition OBJ_setct_CapTokenTBEX :: "int list" where
  [obj_mac]: "OBJ_setct_CapTokenTBEX = OBJ_set_ctype @ [57]"

definition OBJ_setct_AcqCardCodeMsgTBE :: "int list" where
  [obj_mac]: "OBJ_setct_AcqCardCodeMsgTBE = OBJ_set_ctype @ [58]"

definition OBJ_setct_AuthRevReqTBE :: "int list" where
  [obj_mac]: "OBJ_setct_AuthRevReqTBE = OBJ_set_ctype @ [59]"

definition OBJ_setct_AuthRevResTBE :: "int list" where
  [obj_mac]: "OBJ_setct_AuthRevResTBE = OBJ_set_ctype @ [60]"

definition OBJ_setct_AuthRevResTBEB :: "int list" where
  [obj_mac]: "OBJ_setct_AuthRevResTBEB = OBJ_set_ctype @ [61]"

definition OBJ_setct_CapReqTBE :: "int list" where
  [obj_mac]: "OBJ_setct_CapReqTBE = OBJ_set_ctype @ [62]"

definition OBJ_setct_CapReqTBEX :: "int list" where
  [obj_mac]: "OBJ_setct_CapReqTBEX = OBJ_set_ctype @ [63]"

definition OBJ_setct_CapResTBE :: "int list" where
  [obj_mac]: "OBJ_setct_CapResTBE = OBJ_set_ctype @ [64]"

definition OBJ_setct_CapRevReqTBE :: "int list" where
  [obj_mac]: "OBJ_setct_CapRevReqTBE = OBJ_set_ctype @ [65]"

definition OBJ_setct_CapRevReqTBEX :: "int list" where
  [obj_mac]: "OBJ_setct_CapRevReqTBEX = OBJ_set_ctype @ [66]"

definition OBJ_setct_CapRevResTBE :: "int list" where
  [obj_mac]: "OBJ_setct_CapRevResTBE = OBJ_set_ctype @ [67]"

definition OBJ_setct_CredReqTBE :: "int list" where
  [obj_mac]: "OBJ_setct_CredReqTBE = OBJ_set_ctype @ [68]"

definition OBJ_setct_CredReqTBEX :: "int list" where
  [obj_mac]: "OBJ_setct_CredReqTBEX = OBJ_set_ctype @ [69]"

definition OBJ_setct_CredResTBE :: "int list" where
  [obj_mac]: "OBJ_setct_CredResTBE = OBJ_set_ctype @ [70]"

definition OBJ_setct_CredRevReqTBE :: "int list" where
  [obj_mac]: "OBJ_setct_CredRevReqTBE = OBJ_set_ctype @ [71]"

definition OBJ_setct_CredRevReqTBEX :: "int list" where
  [obj_mac]: "OBJ_setct_CredRevReqTBEX = OBJ_set_ctype @ [72]"

definition OBJ_setct_CredRevResTBE :: "int list" where
  [obj_mac]: "OBJ_setct_CredRevResTBE = OBJ_set_ctype @ [73]"

definition OBJ_setct_BatchAdminReqTBE :: "int list" where
  [obj_mac]: "OBJ_setct_BatchAdminReqTBE = OBJ_set_ctype @ [74]"

definition OBJ_setct_BatchAdminResTBE :: "int list" where
  [obj_mac]: "OBJ_setct_BatchAdminResTBE = OBJ_set_ctype @ [75]"

definition OBJ_setct_RegFormReqTBE :: "int list" where
  [obj_mac]: "OBJ_setct_RegFormReqTBE = OBJ_set_ctype @ [76]"

definition OBJ_setct_CertReqTBE :: "int list" where
  [obj_mac]: "OBJ_setct_CertReqTBE = OBJ_set_ctype @ [77]"

definition OBJ_setct_CertReqTBEX :: "int list" where
  [obj_mac]: "OBJ_setct_CertReqTBEX = OBJ_set_ctype @ [78]"

definition OBJ_setct_CertResTBE :: "int list" where
  [obj_mac]: "OBJ_setct_CertResTBE = OBJ_set_ctype @ [79]"

definition OBJ_setct_CRLNotificationTBS :: "int list" where
  [obj_mac]: "OBJ_setct_CRLNotificationTBS = OBJ_set_ctype @ [80]"

definition OBJ_setct_CRLNotificationResTBS :: "int list" where
  [obj_mac]: "OBJ_setct_CRLNotificationResTBS = OBJ_set_ctype @ [81]"

definition OBJ_setct_BCIDistributionTBS :: "int list" where
  [obj_mac]: "OBJ_setct_BCIDistributionTBS = OBJ_set_ctype @ [82]"

definition OBJ_setext_genCrypt :: "int list" where
  [obj_mac]: "OBJ_setext_genCrypt = OBJ_set_msgExt @ [1]"

definition OBJ_setext_miAuth :: "int list" where
  [obj_mac]: "OBJ_setext_miAuth = OBJ_set_msgExt @ [3]"

definition OBJ_setext_pinSecure :: "int list" where
  [obj_mac]: "OBJ_setext_pinSecure = OBJ_set_msgExt @ [4]"

definition OBJ_setext_pinAny :: "int list" where
  [obj_mac]: "OBJ_setext_pinAny = OBJ_set_msgExt @ [5]"

definition OBJ_setext_track2 :: "int list" where
  [obj_mac]: "OBJ_setext_track2 = OBJ_set_msgExt @ [7]"

definition obj_mac_23 :: "obj_def list" where
  "obj_mac_23 = [
    Obj ''setct_PIUnsignedTBE'' (Some ''setct-PIUnsignedTBE'') None (Some 569) (Some OBJ_setct_PIUnsignedTBE),
    Obj ''setct_AuthReqTBE'' (Some ''setct-AuthReqTBE'') None (Some 570) (Some OBJ_setct_AuthReqTBE),
    Obj ''setct_AuthResTBE'' (Some ''setct-AuthResTBE'') None (Some 571) (Some OBJ_setct_AuthResTBE),
    Obj ''setct_AuthResTBEX'' (Some ''setct-AuthResTBEX'') None (Some 572) (Some OBJ_setct_AuthResTBEX),
    Obj ''setct_AuthTokenTBE'' (Some ''setct-AuthTokenTBE'') None (Some 573) (Some OBJ_setct_AuthTokenTBE),
    Obj ''setct_CapTokenTBE'' (Some ''setct-CapTokenTBE'') None (Some 574) (Some OBJ_setct_CapTokenTBE),
    Obj ''setct_CapTokenTBEX'' (Some ''setct-CapTokenTBEX'') None (Some 575) (Some OBJ_setct_CapTokenTBEX),
    Obj ''setct_AcqCardCodeMsgTBE'' (Some ''setct-AcqCardCodeMsgTBE'') None (Some 576) (Some OBJ_setct_AcqCardCodeMsgTBE),
    Obj ''setct_AuthRevReqTBE'' (Some ''setct-AuthRevReqTBE'') None (Some 577) (Some OBJ_setct_AuthRevReqTBE),
    Obj ''setct_AuthRevResTBE'' (Some ''setct-AuthRevResTBE'') None (Some 578) (Some OBJ_setct_AuthRevResTBE),
    Obj ''setct_AuthRevResTBEB'' (Some ''setct-AuthRevResTBEB'') None (Some 579) (Some OBJ_setct_AuthRevResTBEB),
    Obj ''setct_CapReqTBE'' (Some ''setct-CapReqTBE'') None (Some 580) (Some OBJ_setct_CapReqTBE),
    Obj ''setct_CapReqTBEX'' (Some ''setct-CapReqTBEX'') None (Some 581) (Some OBJ_setct_CapReqTBEX),
    Obj ''setct_CapResTBE'' (Some ''setct-CapResTBE'') None (Some 582) (Some OBJ_setct_CapResTBE),
    Obj ''setct_CapRevReqTBE'' (Some ''setct-CapRevReqTBE'') None (Some 583) (Some OBJ_setct_CapRevReqTBE),
    Obj ''setct_CapRevReqTBEX'' (Some ''setct-CapRevReqTBEX'') None (Some 584) (Some OBJ_setct_CapRevReqTBEX),
    Obj ''setct_CapRevResTBE'' (Some ''setct-CapRevResTBE'') None (Some 585) (Some OBJ_setct_CapRevResTBE),
    Obj ''setct_CredReqTBE'' (Some ''setct-CredReqTBE'') None (Some 586) (Some OBJ_setct_CredReqTBE),
    Obj ''setct_CredReqTBEX'' (Some ''setct-CredReqTBEX'') None (Some 587) (Some OBJ_setct_CredReqTBEX),
    Obj ''setct_CredResTBE'' (Some ''setct-CredResTBE'') None (Some 588) (Some OBJ_setct_CredResTBE),
    Obj ''setct_CredRevReqTBE'' (Some ''setct-CredRevReqTBE'') None (Some 589) (Some OBJ_setct_CredRevReqTBE),
    Obj ''setct_CredRevReqTBEX'' (Some ''setct-CredRevReqTBEX'') None (Some 590) (Some OBJ_setct_CredRevReqTBEX),
    Obj ''setct_CredRevResTBE'' (Some ''setct-CredRevResTBE'') None (Some 591) (Some OBJ_setct_CredRevResTBE),
    Obj ''setct_BatchAdminReqTBE'' (Some ''setct-BatchAdminReqTBE'') None (Some 592) (Some OBJ_setct_BatchAdminReqTBE),
    Obj ''setct_BatchAdminResTBE'' (Some ''setct-BatchAdminResTBE'') None (Some 593) (Some OBJ_setct_BatchAdminResTBE),
    Obj ''setct_RegFormReqTBE'' (Some ''setct-RegFormReqTBE'') None (Some 594) (Some OBJ_setct_RegFormReqTBE),
    Obj ''setct_CertReqTBE'' (Some ''setct-CertReqTBE'') None (Some 595) (Some OBJ_setct_CertReqTBE),
    Obj ''setct_CertReqTBEX'' (Some ''setct-CertReqTBEX'') None (Some 596) (Some OBJ_setct_CertReqTBEX),
    Obj ''setct_CertResTBE'' (Some ''setct-CertResTBE'') None (Some 597) (Some OBJ_setct_CertResTBE),
    Obj ''setct_CRLNotificationTBS'' (Some ''setct-CRLNotificationTBS'') None (Some 598) (Some OBJ_setct_CRLNotificationTBS),
    Obj ''setct_CRLNotificationResTBS'' (Some ''setct-CRLNotificationResTBS'') None (Some 599) (Some OBJ_setct_CRLNotificationResTBS),
    Obj ''setct_BCIDistributionTBS'' (Some ''setct-BCIDistributionTBS'') None (Some 600) (Some OBJ_setct_BCIDistributionTBS),
    Obj ''setext_genCrypt'' (Some ''setext-genCrypt'') (Some ''generic cryptogram'') (Some 601) (Some OBJ_setext_genCrypt),
    Obj ''setext_miAuth'' (Some ''setext-miAuth'') (Some ''merchant initiated auth'') (Some 602) (Some OBJ_setext_miAuth),
    Obj ''setext_pinSecure'' (Some ''setext-pinSecure'') None (Some 603) (Some OBJ_setext_pinSecure),
    Obj ''setext_pinAny'' (Some ''setext-pinAny'') None (Some 604) (Some OBJ_setext_pinAny),
    Obj ''setext_track2'' (Some ''setext-track2'') None (Some 605) (Some OBJ_setext_track2)]"

subsection \<open>Lines 3496 to 3642\<close>

definition OBJ_setext_cv :: "int list" where
  [obj_mac]: "OBJ_setext_cv = OBJ_set_msgExt @ [8]"

definition OBJ_set_policy_root :: "int list" where
  [obj_mac]: "OBJ_set_policy_root = OBJ_set_policy @ [0]"

definition OBJ_setCext_hashedRoot :: "int list" where
  [obj_mac]: "OBJ_setCext_hashedRoot = OBJ_set_certExt @ [0]"

definition OBJ_setCext_certType :: "int list" where
  [obj_mac]: "OBJ_setCext_certType = OBJ_set_certExt @ [1]"

definition OBJ_setCext_merchData :: "int list" where
  [obj_mac]: "OBJ_setCext_merchData = OBJ_set_certExt @ [2]"

definition OBJ_setCext_cCertRequired :: "int list" where
  [obj_mac]: "OBJ_setCext_cCertRequired = OBJ_set_certExt @ [3]"

definition OBJ_setCext_tunneling :: "int list" where
  [obj_mac]: "OBJ_setCext_tunneling = OBJ_set_certExt @ [4]"

definition OBJ_setCext_setExt :: "int list" where
  [obj_mac]: "OBJ_setCext_setExt = OBJ_set_certExt @ [5]"

definition OBJ_setCext_setQualf :: "int list" where
  [obj_mac]: "OBJ_setCext_setQualf = OBJ_set_certExt @ [6]"

definition OBJ_setCext_PGWYcapabilities :: "int list" where
  [obj_mac]: "OBJ_setCext_PGWYcapabilities = OBJ_set_certExt @ [7]"

definition OBJ_setCext_TokenIdentifier :: "int list" where
  [obj_mac]: "OBJ_setCext_TokenIdentifier = OBJ_set_certExt @ [8]"

definition OBJ_setCext_Track2Data :: "int list" where
  [obj_mac]: "OBJ_setCext_Track2Data = OBJ_set_certExt @ [9]"

definition OBJ_setCext_TokenType :: "int list" where
  [obj_mac]: "OBJ_setCext_TokenType = OBJ_set_certExt @ [10]"

definition OBJ_setCext_IssuerCapabilities :: "int list" where
  [obj_mac]: "OBJ_setCext_IssuerCapabilities = OBJ_set_certExt @ [11]"

definition OBJ_setAttr_Cert :: "int list" where
  [obj_mac]: "OBJ_setAttr_Cert = OBJ_set_attr @ [0]"

definition OBJ_setAttr_PGWYcap :: "int list" where
  [obj_mac]: "OBJ_setAttr_PGWYcap = OBJ_set_attr @ [1]"

definition OBJ_setAttr_TokenType :: "int list" where
  [obj_mac]: "OBJ_setAttr_TokenType = OBJ_set_attr @ [2]"

definition OBJ_setAttr_IssCap :: "int list" where
  [obj_mac]: "OBJ_setAttr_IssCap = OBJ_set_attr @ [3]"

definition OBJ_set_rootKeyThumb :: "int list" where
  [obj_mac]: "OBJ_set_rootKeyThumb = OBJ_setAttr_Cert @ [0]"

definition OBJ_set_addPolicy :: "int list" where
  [obj_mac]: "OBJ_set_addPolicy = OBJ_setAttr_Cert @ [1]"

definition OBJ_setAttr_Token_EMV :: "int list" where
  [obj_mac]: "OBJ_setAttr_Token_EMV = OBJ_setAttr_TokenType @ [1]"

definition OBJ_setAttr_Token_B0Prime :: "int list" where
  [obj_mac]: "OBJ_setAttr_Token_B0Prime = OBJ_setAttr_TokenType @ [2]"

definition OBJ_setAttr_IssCap_CVM :: "int list" where
  [obj_mac]: "OBJ_setAttr_IssCap_CVM = OBJ_setAttr_IssCap @ [3]"

definition OBJ_setAttr_IssCap_T2 :: "int list" where
  [obj_mac]: "OBJ_setAttr_IssCap_T2 = OBJ_setAttr_IssCap @ [4]"

definition OBJ_setAttr_IssCap_Sig :: "int list" where
  [obj_mac]: "OBJ_setAttr_IssCap_Sig = OBJ_setAttr_IssCap @ [5]"

definition OBJ_setAttr_GenCryptgrm :: "int list" where
  [obj_mac]: "OBJ_setAttr_GenCryptgrm = OBJ_setAttr_IssCap_CVM @ [1]"

definition OBJ_setAttr_T2Enc :: "int list" where
  [obj_mac]: "OBJ_setAttr_T2Enc = OBJ_setAttr_IssCap_T2 @ [1]"

definition OBJ_setAttr_T2cleartxt :: "int list" where
  [obj_mac]: "OBJ_setAttr_T2cleartxt = OBJ_setAttr_IssCap_T2 @ [2]"

definition OBJ_setAttr_TokICCsig :: "int list" where
  [obj_mac]: "OBJ_setAttr_TokICCsig = OBJ_setAttr_IssCap_Sig @ [1]"

definition OBJ_setAttr_SecDevSig :: "int list" where
  [obj_mac]: "OBJ_setAttr_SecDevSig = OBJ_setAttr_IssCap_Sig @ [2]"

definition OBJ_set_brand_IATA_ATA :: "int list" where
  [obj_mac]: "OBJ_set_brand_IATA_ATA = OBJ_set_brand @ [1]"

definition OBJ_set_brand_Diners :: "int list" where
  [obj_mac]: "OBJ_set_brand_Diners = OBJ_set_brand @ [30]"

definition OBJ_set_brand_AmericanExpress :: "int list" where
  [obj_mac]: "OBJ_set_brand_AmericanExpress = OBJ_set_brand @ [34]"

definition OBJ_set_brand_JCB :: "int list" where
  [obj_mac]: "OBJ_set_brand_JCB = OBJ_set_brand @ [35]"

definition OBJ_set_brand_Visa :: "int list" where
  [obj_mac]: "OBJ_set_brand_Visa = OBJ_set_brand @ [4]"

definition obj_mac_24 :: "obj_def list" where
  "obj_mac_24 = [
    Obj ''setext_cv'' (Some ''setext-cv'') (Some ''additional verification'') (Some 606) (Some OBJ_setext_cv),
    Obj ''set_policy_root'' (Some ''set-policy-root'') None (Some 607) (Some OBJ_set_policy_root),
    Obj ''setCext_hashedRoot'' (Some ''setCext-hashedRoot'') None (Some 608) (Some OBJ_setCext_hashedRoot),
    Obj ''setCext_certType'' (Some ''setCext-certType'') None (Some 609) (Some OBJ_setCext_certType),
    Obj ''setCext_merchData'' (Some ''setCext-merchData'') None (Some 610) (Some OBJ_setCext_merchData),
    Obj ''setCext_cCertRequired'' (Some ''setCext-cCertRequired'') None (Some 611) (Some OBJ_setCext_cCertRequired),
    Obj ''setCext_tunneling'' (Some ''setCext-tunneling'') None (Some 612) (Some OBJ_setCext_tunneling),
    Obj ''setCext_setExt'' (Some ''setCext-setExt'') None (Some 613) (Some OBJ_setCext_setExt),
    Obj ''setCext_setQualf'' (Some ''setCext-setQualf'') None (Some 614) (Some OBJ_setCext_setQualf),
    Obj ''setCext_PGWYcapabilities'' (Some ''setCext-PGWYcapabilities'') None (Some 615) (Some OBJ_setCext_PGWYcapabilities),
    Obj ''setCext_TokenIdentifier'' (Some ''setCext-TokenIdentifier'') None (Some 616) (Some OBJ_setCext_TokenIdentifier),
    Obj ''setCext_Track2Data'' (Some ''setCext-Track2Data'') None (Some 617) (Some OBJ_setCext_Track2Data),
    Obj ''setCext_TokenType'' (Some ''setCext-TokenType'') None (Some 618) (Some OBJ_setCext_TokenType),
    Obj ''setCext_IssuerCapabilities'' (Some ''setCext-IssuerCapabilities'') None (Some 619) (Some OBJ_setCext_IssuerCapabilities),
    Obj ''setAttr_Cert'' (Some ''setAttr-Cert'') None (Some 620) (Some OBJ_setAttr_Cert),
    Obj ''setAttr_PGWYcap'' (Some ''setAttr-PGWYcap'') (Some ''payment gateway capabilities'') (Some 621) (Some OBJ_setAttr_PGWYcap),
    Obj ''setAttr_TokenType'' (Some ''setAttr-TokenType'') None (Some 622) (Some OBJ_setAttr_TokenType),
    Obj ''setAttr_IssCap'' (Some ''setAttr-IssCap'') (Some ''issuer capabilities'') (Some 623) (Some OBJ_setAttr_IssCap),
    Obj ''set_rootKeyThumb'' (Some ''set-rootKeyThumb'') None (Some 624) (Some OBJ_set_rootKeyThumb),
    Obj ''set_addPolicy'' (Some ''set-addPolicy'') None (Some 625) (Some OBJ_set_addPolicy),
    Obj ''setAttr_Token_EMV'' (Some ''setAttr-Token-EMV'') None (Some 626) (Some OBJ_setAttr_Token_EMV),
    Obj ''setAttr_Token_B0Prime'' (Some ''setAttr-Token-B0Prime'') None (Some 627) (Some OBJ_setAttr_Token_B0Prime),
    Obj ''setAttr_IssCap_CVM'' (Some ''setAttr-IssCap-CVM'') None (Some 628) (Some OBJ_setAttr_IssCap_CVM),
    Obj ''setAttr_IssCap_T2'' (Some ''setAttr-IssCap-T2'') None (Some 629) (Some OBJ_setAttr_IssCap_T2),
    Obj ''setAttr_IssCap_Sig'' (Some ''setAttr-IssCap-Sig'') None (Some 630) (Some OBJ_setAttr_IssCap_Sig),
    Obj ''setAttr_GenCryptgrm'' (Some ''setAttr-GenCryptgrm'') (Some ''generate cryptogram'') (Some 631) (Some OBJ_setAttr_GenCryptgrm),
    Obj ''setAttr_T2Enc'' (Some ''setAttr-T2Enc'') (Some ''encrypted track 2'') (Some 632) (Some OBJ_setAttr_T2Enc),
    Obj ''setAttr_T2cleartxt'' (Some ''setAttr-T2cleartxt'') (Some ''cleartext track 2'') (Some 633) (Some OBJ_setAttr_T2cleartxt),
    Obj ''setAttr_TokICCsig'' (Some ''setAttr-TokICCsig'') (Some ''ICC or token signature'') (Some 634) (Some OBJ_setAttr_TokICCsig),
    Obj ''setAttr_SecDevSig'' (Some ''setAttr-SecDevSig'') (Some ''secure device signature'') (Some 635) (Some OBJ_setAttr_SecDevSig),
    Obj ''set_brand_IATA_ATA'' (Some ''set-brand-IATA-ATA'') None (Some 636) (Some OBJ_set_brand_IATA_ATA),
    Obj ''set_brand_Diners'' (Some ''set-brand-Diners'') None (Some 637) (Some OBJ_set_brand_Diners),
    Obj ''set_brand_AmericanExpress'' (Some ''set-brand-AmericanExpress'') None (Some 638) (Some OBJ_set_brand_AmericanExpress),
    Obj ''set_brand_JCB'' (Some ''set-brand-JCB'') None (Some 639) (Some OBJ_set_brand_JCB),
    Obj ''set_brand_Visa'' (Some ''set-brand-Visa'') None (Some 640) (Some OBJ_set_brand_Visa)]"

subsection \<open>Lines 3644 to 3793\<close>

definition OBJ_set_brand_MasterCard :: "int list" where
  [obj_mac]: "OBJ_set_brand_MasterCard = OBJ_set_brand @ [5]"

definition OBJ_set_brand_Novus :: "int list" where
  [obj_mac]: "OBJ_set_brand_Novus = OBJ_set_brand @ [6011]"

definition OBJ_des_cdmf :: "int list" where
  [obj_mac]: "OBJ_des_cdmf = OBJ_rsadsi @ [3, 10]"

definition OBJ_rsaOAEPEncryptionSET :: "int list" where
  [obj_mac]: "OBJ_rsaOAEPEncryptionSET = OBJ_rsadsi @ [1, 1, 6]"

definition OBJ_whirlpool :: "int list" where
  [obj_mac]: "OBJ_whirlpool = OBJ_iso @ [0, 10118, 3, 0, 55]"

definition OBJ_cryptopro :: "int list" where
  [obj_mac]: "OBJ_cryptopro = OBJ_member_body @ [643, 2, 2]"

definition OBJ_cryptocom :: "int list" where
  [obj_mac]: "OBJ_cryptocom = OBJ_member_body @ [643, 2, 9]"

definition OBJ_id_GostR3411_94_with_GostR3410_2001 :: "int list" where
  [obj_mac]: "OBJ_id_GostR3411_94_with_GostR3410_2001 = OBJ_cryptopro @ [3]"

definition OBJ_id_GostR3411_94_with_GostR3410_94 :: "int list" where
  [obj_mac]: "OBJ_id_GostR3411_94_with_GostR3410_94 = OBJ_cryptopro @ [4]"

definition OBJ_id_GostR3411_94 :: "int list" where
  [obj_mac]: "OBJ_id_GostR3411_94 = OBJ_cryptopro @ [9]"

definition OBJ_id_HMACGostR3411_94 :: "int list" where
  [obj_mac]: "OBJ_id_HMACGostR3411_94 = OBJ_cryptopro @ [10]"

definition OBJ_id_GostR3410_2001 :: "int list" where
  [obj_mac]: "OBJ_id_GostR3410_2001 = OBJ_cryptopro @ [19]"

definition OBJ_id_GostR3410_94 :: "int list" where
  [obj_mac]: "OBJ_id_GostR3410_94 = OBJ_cryptopro @ [20]"

definition OBJ_id_Gost28147_89 :: "int list" where
  [obj_mac]: "OBJ_id_Gost28147_89 = OBJ_cryptopro @ [21]"

definition OBJ_id_Gost28147_89_MAC :: "int list" where
  [obj_mac]: "OBJ_id_Gost28147_89_MAC = OBJ_cryptopro @ [22]"

definition OBJ_id_GostR3411_94_prf :: "int list" where
  [obj_mac]: "OBJ_id_GostR3411_94_prf = OBJ_cryptopro @ [23]"

definition OBJ_id_GostR3410_2001DH :: "int list" where
  [obj_mac]: "OBJ_id_GostR3410_2001DH = OBJ_cryptopro @ [98]"

definition OBJ_id_GostR3410_94DH :: "int list" where
  [obj_mac]: "OBJ_id_GostR3410_94DH = OBJ_cryptopro @ [99]"

definition OBJ_id_Gost28147_89_CryptoPro_KeyMeshing :: "int list" where
  [obj_mac]: "OBJ_id_Gost28147_89_CryptoPro_KeyMeshing = OBJ_cryptopro @ [14, 1]"

definition OBJ_id_Gost28147_89_None_KeyMeshing :: "int list" where
  [obj_mac]: "OBJ_id_Gost28147_89_None_KeyMeshing = OBJ_cryptopro @ [14, 0]"

definition OBJ_id_GostR3411_94_TestParamSet :: "int list" where
  [obj_mac]: "OBJ_id_GostR3411_94_TestParamSet = OBJ_cryptopro @ [30, 0]"

definition OBJ_id_GostR3411_94_CryptoProParamSet :: "int list" where
  [obj_mac]: "OBJ_id_GostR3411_94_CryptoProParamSet = OBJ_cryptopro @ [30, 1]"

definition OBJ_id_Gost28147_89_TestParamSet :: "int list" where
  [obj_mac]: "OBJ_id_Gost28147_89_TestParamSet = OBJ_cryptopro @ [31, 0]"

definition OBJ_id_Gost28147_89_CryptoPro_A_ParamSet :: "int list" where
  [obj_mac]: "OBJ_id_Gost28147_89_CryptoPro_A_ParamSet = OBJ_cryptopro @ [31, 1]"

definition OBJ_id_Gost28147_89_CryptoPro_B_ParamSet :: "int list" where
  [obj_mac]: "OBJ_id_Gost28147_89_CryptoPro_B_ParamSet = OBJ_cryptopro @ [31, 2]"

definition OBJ_id_Gost28147_89_CryptoPro_C_ParamSet :: "int list" where
  [obj_mac]: "OBJ_id_Gost28147_89_CryptoPro_C_ParamSet = OBJ_cryptopro @ [31, 3]"

definition OBJ_id_Gost28147_89_CryptoPro_D_ParamSet :: "int list" where
  [obj_mac]: "OBJ_id_Gost28147_89_CryptoPro_D_ParamSet = OBJ_cryptopro @ [31, 4]"

definition OBJ_id_Gost28147_89_CryptoPro_Oscar_1_1_ParamSet :: "int list" where
  [obj_mac]: "OBJ_id_Gost28147_89_CryptoPro_Oscar_1_1_ParamSet = OBJ_cryptopro @ [31, 5]"

definition OBJ_id_Gost28147_89_CryptoPro_Oscar_1_0_ParamSet :: "int list" where
  [obj_mac]: "OBJ_id_Gost28147_89_CryptoPro_Oscar_1_0_ParamSet = OBJ_cryptopro @ [31, 6]"

definition OBJ_id_Gost28147_89_CryptoPro_RIC_1_ParamSet :: "int list" where
  [obj_mac]: "OBJ_id_Gost28147_89_CryptoPro_RIC_1_ParamSet = OBJ_cryptopro @ [31, 7]"

definition OBJ_id_GostR3410_94_TestParamSet :: "int list" where
  [obj_mac]: "OBJ_id_GostR3410_94_TestParamSet = OBJ_cryptopro @ [32, 0]"

definition OBJ_id_GostR3410_94_CryptoPro_A_ParamSet :: "int list" where
  [obj_mac]: "OBJ_id_GostR3410_94_CryptoPro_A_ParamSet = OBJ_cryptopro @ [32, 2]"

definition obj_mac_25 :: "obj_def list" where
  "obj_mac_25 = [
    Obj ''set_brand_MasterCard'' (Some ''set-brand-MasterCard'') None (Some 641) (Some OBJ_set_brand_MasterCard),
    Obj ''set_brand_Novus'' (Some ''set-brand-Novus'') None (Some 642) (Some OBJ_set_brand_Novus),
    Obj ''des_cdmf'' (Some ''DES-CDMF'') (Some ''des-cdmf'') (Some 643) (Some OBJ_des_cdmf),
    Obj ''rsaOAEPEncryptionSET'' (Some ''rsaOAEPEncryptionSET'') None (Some 644) (Some OBJ_rsaOAEPEncryptionSET),
    Obj ''ipsec3'' (Some ''Oakley-EC2N-3'') (Some ''ipsec3'') (Some 749) None,
    Obj ''ipsec4'' (Some ''Oakley-EC2N-4'') (Some ''ipsec4'') (Some 750) None,
    Obj ''whirlpool'' (Some ''whirlpool'') None (Some 804) (Some OBJ_whirlpool),
    Obj ''cryptopro'' (Some ''cryptopro'') None (Some 805) (Some OBJ_cryptopro),
    Obj ''cryptocom'' (Some ''cryptocom'') None (Some 806) (Some OBJ_cryptocom),
    Obj ''id_GostR3411_94_with_GostR3410_2001'' (Some ''id-GostR3411-94-with-GostR3410-2001'') (Some ''GOST R 34.11-94 with GOST R 34.10-2001'') (Some 807) (Some OBJ_id_GostR3411_94_with_GostR3410_2001),
    Obj ''id_GostR3411_94_with_GostR3410_94'' (Some ''id-GostR3411-94-with-GostR3410-94'') (Some ''GOST R 34.11-94 with GOST R 34.10-94'') (Some 808) (Some OBJ_id_GostR3411_94_with_GostR3410_94),
    Obj ''id_GostR3411_94'' (Some ''md_gost94'') (Some ''GOST R 34.11-94'') (Some 809) (Some OBJ_id_GostR3411_94),
    Obj ''id_HMACGostR3411_94'' (Some ''id-HMACGostR3411-94'') (Some ''HMAC GOST 34.11-94'') (Some 810) (Some OBJ_id_HMACGostR3411_94),
    Obj ''id_GostR3410_2001'' (Some ''gost2001'') (Some ''GOST R 34.10-2001'') (Some 811) (Some OBJ_id_GostR3410_2001),
    Obj ''id_GostR3410_94'' (Some ''gost94'') (Some ''GOST R 34.10-94'') (Some 812) (Some OBJ_id_GostR3410_94),
    Obj ''id_Gost28147_89'' (Some ''gost89'') (Some ''GOST 28147-89'') (Some 813) (Some OBJ_id_Gost28147_89),
    Obj ''gost89_cnt'' (Some ''gost89-cnt'') None (Some 814) None,
    Obj ''id_Gost28147_89_MAC'' (Some ''gost-mac'') (Some ''GOST 28147-89 MAC'') (Some 815) (Some OBJ_id_Gost28147_89_MAC),
    Obj ''id_GostR3411_94_prf'' (Some ''prf-gostr3411-94'') (Some ''GOST R 34.11-94 PRF'') (Some 816) (Some OBJ_id_GostR3411_94_prf),
    Obj ''id_GostR3410_2001DH'' (Some ''id-GostR3410-2001DH'') (Some ''GOST R 34.10-2001 DH'') (Some 817) (Some OBJ_id_GostR3410_2001DH),
    Obj ''id_GostR3410_94DH'' (Some ''id-GostR3410-94DH'') (Some ''GOST R 34.10-94 DH'') (Some 818) (Some OBJ_id_GostR3410_94DH),
    Obj ''id_Gost28147_89_CryptoPro_KeyMeshing'' (Some ''id-Gost28147-89-CryptoPro-KeyMeshing'') None (Some 819) (Some OBJ_id_Gost28147_89_CryptoPro_KeyMeshing),
    Obj ''id_Gost28147_89_None_KeyMeshing'' (Some ''id-Gost28147-89-None-KeyMeshing'') None (Some 820) (Some OBJ_id_Gost28147_89_None_KeyMeshing),
    Obj ''id_GostR3411_94_TestParamSet'' (Some ''id-GostR3411-94-TestParamSet'') None (Some 821) (Some OBJ_id_GostR3411_94_TestParamSet),
    Obj ''id_GostR3411_94_CryptoProParamSet'' (Some ''id-GostR3411-94-CryptoProParamSet'') None (Some 822) (Some OBJ_id_GostR3411_94_CryptoProParamSet),
    Obj ''id_Gost28147_89_TestParamSet'' (Some ''id-Gost28147-89-TestParamSet'') None (Some 823) (Some OBJ_id_Gost28147_89_TestParamSet),
    Obj ''id_Gost28147_89_CryptoPro_A_ParamSet'' (Some ''id-Gost28147-89-CryptoPro-A-ParamSet'') None (Some 824) (Some OBJ_id_Gost28147_89_CryptoPro_A_ParamSet),
    Obj ''id_Gost28147_89_CryptoPro_B_ParamSet'' (Some ''id-Gost28147-89-CryptoPro-B-ParamSet'') None (Some 825) (Some OBJ_id_Gost28147_89_CryptoPro_B_ParamSet),
    Obj ''id_Gost28147_89_CryptoPro_C_ParamSet'' (Some ''id-Gost28147-89-CryptoPro-C-ParamSet'') None (Some 826) (Some OBJ_id_Gost28147_89_CryptoPro_C_ParamSet),
    Obj ''id_Gost28147_89_CryptoPro_D_ParamSet'' (Some ''id-Gost28147-89-CryptoPro-D-ParamSet'') None (Some 827) (Some OBJ_id_Gost28147_89_CryptoPro_D_ParamSet),
    Obj ''id_Gost28147_89_CryptoPro_Oscar_1_1_ParamSet'' (Some ''id-Gost28147-89-CryptoPro-Oscar-1-1-ParamSet'') None (Some 828) (Some OBJ_id_Gost28147_89_CryptoPro_Oscar_1_1_ParamSet),
    Obj ''id_Gost28147_89_CryptoPro_Oscar_1_0_ParamSet'' (Some ''id-Gost28147-89-CryptoPro-Oscar-1-0-ParamSet'') None (Some 829) (Some OBJ_id_Gost28147_89_CryptoPro_Oscar_1_0_ParamSet),
    Obj ''id_Gost28147_89_CryptoPro_RIC_1_ParamSet'' (Some ''id-Gost28147-89-CryptoPro-RIC-1-ParamSet'') None (Some 830) (Some OBJ_id_Gost28147_89_CryptoPro_RIC_1_ParamSet),
    Obj ''id_GostR3410_94_TestParamSet'' (Some ''id-GostR3410-94-TestParamSet'') None (Some 831) (Some OBJ_id_GostR3410_94_TestParamSet),
    Obj ''id_GostR3410_94_CryptoPro_A_ParamSet'' (Some ''id-GostR3410-94-CryptoPro-A-ParamSet'') None (Some 832) (Some OBJ_id_GostR3410_94_CryptoPro_A_ParamSet)]"

subsection \<open>Lines 3795 to 3943\<close>

definition OBJ_id_GostR3410_94_CryptoPro_B_ParamSet :: "int list" where
  [obj_mac]: "OBJ_id_GostR3410_94_CryptoPro_B_ParamSet = OBJ_cryptopro @ [32, 3]"

definition OBJ_id_GostR3410_94_CryptoPro_C_ParamSet :: "int list" where
  [obj_mac]: "OBJ_id_GostR3410_94_CryptoPro_C_ParamSet = OBJ_cryptopro @ [32, 4]"

definition OBJ_id_GostR3410_94_CryptoPro_D_ParamSet :: "int list" where
  [obj_mac]: "OBJ_id_GostR3410_94_CryptoPro_D_ParamSet = OBJ_cryptopro @ [32, 5]"

definition OBJ_id_GostR3410_94_CryptoPro_XchA_ParamSet :: "int list" where
  [obj_mac]: "OBJ_id_GostR3410_94_CryptoPro_XchA_ParamSet = OBJ_cryptopro @ [33, 1]"

definition OBJ_id_GostR3410_94_CryptoPro_XchB_ParamSet :: "int list" where
  [obj_mac]: "OBJ_id_GostR3410_94_CryptoPro_XchB_ParamSet = OBJ_cryptopro @ [33, 2]"

definition OBJ_id_GostR3410_94_CryptoPro_XchC_ParamSet :: "int list" where
  [obj_mac]: "OBJ_id_GostR3410_94_CryptoPro_XchC_ParamSet = OBJ_cryptopro @ [33, 3]"

definition OBJ_id_GostR3410_2001_TestParamSet :: "int list" where
  [obj_mac]: "OBJ_id_GostR3410_2001_TestParamSet = OBJ_cryptopro @ [35, 0]"

definition OBJ_id_GostR3410_2001_CryptoPro_A_ParamSet :: "int list" where
  [obj_mac]: "OBJ_id_GostR3410_2001_CryptoPro_A_ParamSet = OBJ_cryptopro @ [35, 1]"

definition OBJ_id_GostR3410_2001_CryptoPro_B_ParamSet :: "int list" where
  [obj_mac]: "OBJ_id_GostR3410_2001_CryptoPro_B_ParamSet = OBJ_cryptopro @ [35, 2]"

definition OBJ_id_GostR3410_2001_CryptoPro_C_ParamSet :: "int list" where
  [obj_mac]: "OBJ_id_GostR3410_2001_CryptoPro_C_ParamSet = OBJ_cryptopro @ [35, 3]"

definition OBJ_id_GostR3410_2001_CryptoPro_XchA_ParamSet :: "int list" where
  [obj_mac]: "OBJ_id_GostR3410_2001_CryptoPro_XchA_ParamSet = OBJ_cryptopro @ [36, 0]"

definition OBJ_id_GostR3410_2001_CryptoPro_XchB_ParamSet :: "int list" where
  [obj_mac]: "OBJ_id_GostR3410_2001_CryptoPro_XchB_ParamSet = OBJ_cryptopro @ [36, 1]"

definition OBJ_id_GostR3410_94_a :: "int list" where
  [obj_mac]: "OBJ_id_GostR3410_94_a = OBJ_id_GostR3410_94 @ [1]"

definition OBJ_id_GostR3410_94_aBis :: "int list" where
  [obj_mac]: "OBJ_id_GostR3410_94_aBis = OBJ_id_GostR3410_94 @ [2]"

definition OBJ_id_GostR3410_94_b :: "int list" where
  [obj_mac]: "OBJ_id_GostR3410_94_b = OBJ_id_GostR3410_94 @ [3]"

definition OBJ_id_GostR3410_94_bBis :: "int list" where
  [obj_mac]: "OBJ_id_GostR3410_94_bBis = OBJ_id_GostR3410_94 @ [4]"

definition OBJ_id_Gost28147_89_cc :: "int list" where
  [obj_mac]: "OBJ_id_Gost28147_89_cc = OBJ_cryptocom @ [1, 6, 1]"

definition OBJ_id_GostR3410_94_cc :: "int list" where
  [obj_mac]: "OBJ_id_GostR3410_94_cc = OBJ_cryptocom @ [1, 5, 3]"

definition OBJ_id_GostR3410_2001_cc :: "int list" where
  [obj_mac]: "OBJ_id_GostR3410_2001_cc = OBJ_cryptocom @ [1, 5, 4]"

definition OBJ_id_GostR3411_94_with_GostR3410_94_cc :: "int list" where
  [obj_mac]: "OBJ_id_GostR3411_94_with_GostR3410_94_cc = OBJ_cryptocom @ [1, 3, 3]"

definition OBJ_id_GostR3411_94_with_GostR3410_2001_cc :: "int list" where
  [obj_mac]: "OBJ_id_GostR3411_94_with_GostR3410_2001_cc = OBJ_cryptocom @ [1, 3, 4]"

definition OBJ_id_GostR3410_2001_ParamSet_cc :: "int list" where
  [obj_mac]: "OBJ_id_GostR3410_2001_ParamSet_cc = OBJ_cryptocom @ [1, 8, 1]"

definition OBJ_camellia_128_cbc :: "int list" where
  [obj_mac]: "OBJ_camellia_128_cbc = [1, 2, 392, 200011, 61, 1, 1, 1, 2]"

definition OBJ_camellia_192_cbc :: "int list" where
  [obj_mac]: "OBJ_camellia_192_cbc = [1, 2, 392, 200011, 61, 1, 1, 1, 3]"

definition OBJ_camellia_256_cbc :: "int list" where
  [obj_mac]: "OBJ_camellia_256_cbc = [1, 2, 392, 200011, 61, 1, 1, 1, 4]"

definition OBJ_id_camellia128_wrap :: "int list" where
  [obj_mac]: "OBJ_id_camellia128_wrap = [1, 2, 392, 200011, 61, 1, 1, 3, 2]"

definition OBJ_id_camellia192_wrap :: "int list" where
  [obj_mac]: "OBJ_id_camellia192_wrap = [1, 2, 392, 200011, 61, 1, 1, 3, 3]"

definition OBJ_id_camellia256_wrap :: "int list" where
  [obj_mac]: "OBJ_id_camellia256_wrap = [1, 2, 392, 200011, 61, 1, 1, 3, 4]"

definition OBJ_ntt_ds :: "int list" where
  [obj_mac]: "OBJ_ntt_ds = [0, 3, 4401, 5]"

definition OBJ_camellia :: "int list" where
  [obj_mac]: "OBJ_camellia = OBJ_ntt_ds @ [3, 1, 9]"

definition OBJ_camellia_128_ecb :: "int list" where
  [obj_mac]: "OBJ_camellia_128_ecb = OBJ_camellia @ [1]"

definition OBJ_camellia_128_ofb128 :: "int list" where
  [obj_mac]: "OBJ_camellia_128_ofb128 = OBJ_camellia @ [3]"

definition OBJ_camellia_128_cfb128 :: "int list" where
  [obj_mac]: "OBJ_camellia_128_cfb128 = OBJ_camellia @ [4]"

definition OBJ_camellia_192_ecb :: "int list" where
  [obj_mac]: "OBJ_camellia_192_ecb = OBJ_camellia @ [21]"

definition OBJ_camellia_192_ofb128 :: "int list" where
  [obj_mac]: "OBJ_camellia_192_ofb128 = OBJ_camellia @ [23]"

definition obj_mac_26 :: "obj_def list" where
  "obj_mac_26 = [
    Obj ''id_GostR3410_94_CryptoPro_B_ParamSet'' (Some ''id-GostR3410-94-CryptoPro-B-ParamSet'') None (Some 833) (Some OBJ_id_GostR3410_94_CryptoPro_B_ParamSet),
    Obj ''id_GostR3410_94_CryptoPro_C_ParamSet'' (Some ''id-GostR3410-94-CryptoPro-C-ParamSet'') None (Some 834) (Some OBJ_id_GostR3410_94_CryptoPro_C_ParamSet),
    Obj ''id_GostR3410_94_CryptoPro_D_ParamSet'' (Some ''id-GostR3410-94-CryptoPro-D-ParamSet'') None (Some 835) (Some OBJ_id_GostR3410_94_CryptoPro_D_ParamSet),
    Obj ''id_GostR3410_94_CryptoPro_XchA_ParamSet'' (Some ''id-GostR3410-94-CryptoPro-XchA-ParamSet'') None (Some 836) (Some OBJ_id_GostR3410_94_CryptoPro_XchA_ParamSet),
    Obj ''id_GostR3410_94_CryptoPro_XchB_ParamSet'' (Some ''id-GostR3410-94-CryptoPro-XchB-ParamSet'') None (Some 837) (Some OBJ_id_GostR3410_94_CryptoPro_XchB_ParamSet),
    Obj ''id_GostR3410_94_CryptoPro_XchC_ParamSet'' (Some ''id-GostR3410-94-CryptoPro-XchC-ParamSet'') None (Some 838) (Some OBJ_id_GostR3410_94_CryptoPro_XchC_ParamSet),
    Obj ''id_GostR3410_2001_TestParamSet'' (Some ''id-GostR3410-2001-TestParamSet'') None (Some 839) (Some OBJ_id_GostR3410_2001_TestParamSet),
    Obj ''id_GostR3410_2001_CryptoPro_A_ParamSet'' (Some ''id-GostR3410-2001-CryptoPro-A-ParamSet'') None (Some 840) (Some OBJ_id_GostR3410_2001_CryptoPro_A_ParamSet),
    Obj ''id_GostR3410_2001_CryptoPro_B_ParamSet'' (Some ''id-GostR3410-2001-CryptoPro-B-ParamSet'') None (Some 841) (Some OBJ_id_GostR3410_2001_CryptoPro_B_ParamSet),
    Obj ''id_GostR3410_2001_CryptoPro_C_ParamSet'' (Some ''id-GostR3410-2001-CryptoPro-C-ParamSet'') None (Some 842) (Some OBJ_id_GostR3410_2001_CryptoPro_C_ParamSet),
    Obj ''id_GostR3410_2001_CryptoPro_XchA_ParamSet'' (Some ''id-GostR3410-2001-CryptoPro-XchA-ParamSet'') None (Some 843) (Some OBJ_id_GostR3410_2001_CryptoPro_XchA_ParamSet),
    Obj ''id_GostR3410_2001_CryptoPro_XchB_ParamSet'' (Some ''id-GostR3410-2001-CryptoPro-XchB-ParamSet'') None (Some 844) (Some OBJ_id_GostR3410_2001_CryptoPro_XchB_ParamSet),
    Obj ''id_GostR3410_94_a'' (Some ''id-GostR3410-94-a'') None (Some 845) (Some OBJ_id_GostR3410_94_a),
    Obj ''id_GostR3410_94_aBis'' (Some ''id-GostR3410-94-aBis'') None (Some 846) (Some OBJ_id_GostR3410_94_aBis),
    Obj ''id_GostR3410_94_b'' (Some ''id-GostR3410-94-b'') None (Some 847) (Some OBJ_id_GostR3410_94_b),
    Obj ''id_GostR3410_94_bBis'' (Some ''id-GostR3410-94-bBis'') None (Some 848) (Some OBJ_id_GostR3410_94_bBis),
    Obj ''id_Gost28147_89_cc'' (Some ''id-Gost28147-89-cc'') (Some ''GOST 28147-89 Cryptocom ParamSet'') (Some 849) (Some OBJ_id_Gost28147_89_cc),
    Obj ''id_GostR3410_94_cc'' (Some ''gost94cc'') (Some ''GOST 34.10-94 Cryptocom'') (Some 850) (Some OBJ_id_GostR3410_94_cc),
    Obj ''id_GostR3410_2001_cc'' (Some ''gost2001cc'') (Some ''GOST 34.10-2001 Cryptocom'') (Some 851) (Some OBJ_id_GostR3410_2001_cc),
    Obj ''id_GostR3411_94_with_GostR3410_94_cc'' (Some ''id-GostR3411-94-with-GostR3410-94-cc'') (Some ''GOST R 34.11-94 with GOST R 34.10-94 Cryptocom'') (Some 852) (Some OBJ_id_GostR3411_94_with_GostR3410_94_cc),
    Obj ''id_GostR3411_94_with_GostR3410_2001_cc'' (Some ''id-GostR3411-94-with-GostR3410-2001-cc'') (Some ''GOST R 34.11-94 with GOST R 34.10-2001 Cryptocom'') (Some 853) (Some OBJ_id_GostR3411_94_with_GostR3410_2001_cc),
    Obj ''id_GostR3410_2001_ParamSet_cc'' (Some ''id-GostR3410-2001-ParamSet-cc'') (Some ''GOST R 3410-2001 Parameter Set Cryptocom'') (Some 854) (Some OBJ_id_GostR3410_2001_ParamSet_cc),
    Obj ''camellia_128_cbc'' (Some ''CAMELLIA-128-CBC'') (Some ''camellia-128-cbc'') (Some 751) (Some OBJ_camellia_128_cbc),
    Obj ''camellia_192_cbc'' (Some ''CAMELLIA-192-CBC'') (Some ''camellia-192-cbc'') (Some 752) (Some OBJ_camellia_192_cbc),
    Obj ''camellia_256_cbc'' (Some ''CAMELLIA-256-CBC'') (Some ''camellia-256-cbc'') (Some 753) (Some OBJ_camellia_256_cbc),
    Obj ''id_camellia128_wrap'' (Some ''id-camellia128-wrap'') None (Some 907) (Some OBJ_id_camellia128_wrap),
    Obj ''id_camellia192_wrap'' (Some ''id-camellia192-wrap'') None (Some 908) (Some OBJ_id_camellia192_wrap),
    Obj ''id_camellia256_wrap'' (Some ''id-camellia256-wrap'') None (Some 909) (Some OBJ_id_camellia256_wrap),
    Obj ''ntt_ds'' None None None (Some OBJ_ntt_ds),
    Obj ''camellia'' None None None (Some OBJ_camellia),
    Obj ''camellia_128_ecb'' (Some ''CAMELLIA-128-ECB'') (Some ''camellia-128-ecb'') (Some 754) (Some OBJ_camellia_128_ecb),
    Obj ''camellia_128_ofb128'' (Some ''CAMELLIA-128-OFB'') (Some ''camellia-128-ofb'') (Some 766) (Some OBJ_camellia_128_ofb128),
    Obj ''camellia_128_cfb128'' (Some ''CAMELLIA-128-CFB'') (Some ''camellia-128-cfb'') (Some 757) (Some OBJ_camellia_128_cfb128),
    Obj ''camellia_192_ecb'' (Some ''CAMELLIA-192-ECB'') (Some ''camellia-192-ecb'') (Some 755) (Some OBJ_camellia_192_ecb),
    Obj ''camellia_192_ofb128'' (Some ''CAMELLIA-192-OFB'') (Some ''camellia-192-ofb'') (Some 767) (Some OBJ_camellia_192_ofb128)]"

subsection \<open>Lines 3945 to 4093\<close>

definition OBJ_camellia_192_cfb128 :: "int list" where
  [obj_mac]: "OBJ_camellia_192_cfb128 = OBJ_camellia @ [24]"

definition OBJ_camellia_256_ecb :: "int list" where
  [obj_mac]: "OBJ_camellia_256_ecb = OBJ_camellia @ [41]"

definition OBJ_camellia_256_ofb128 :: "int list" where
  [obj_mac]: "OBJ_camellia_256_ofb128 = OBJ_camellia @ [43]"

definition OBJ_camellia_256_cfb128 :: "int list" where
  [obj_mac]: "OBJ_camellia_256_cfb128 = OBJ_camellia @ [44]"

definition OBJ_kisa :: "int list" where
  [obj_mac]: "OBJ_kisa = OBJ_member_body @ [410, 200004]"

definition OBJ_seed_ecb :: "int list" where
  [obj_mac]: "OBJ_seed_ecb = OBJ_kisa @ [1, 3]"

definition OBJ_seed_cbc :: "int list" where
  [obj_mac]: "OBJ_seed_cbc = OBJ_kisa @ [1, 4]"

definition OBJ_seed_cfb128 :: "int list" where
  [obj_mac]: "OBJ_seed_cfb128 = OBJ_kisa @ [1, 5]"

definition OBJ_seed_ofb128 :: "int list" where
  [obj_mac]: "OBJ_seed_ofb128 = OBJ_kisa @ [1, 6]"

definition OBJ_dhpublicnumber :: "int list" where
  [obj_mac]: "OBJ_dhpublicnumber = OBJ_ISO_US @ [10046, 2, 1]"

definition OBJ_brainpoolP160r1 :: "int list" where
  [obj_mac]: "OBJ_brainpoolP160r1 = [1, 3, 36, 3, 3, 2, 8, 1, 1, 1]"

definition OBJ_brainpoolP160t1 :: "int list" where
  [obj_mac]: "OBJ_brainpoolP160t1 = [1, 3, 36, 3, 3, 2, 8, 1, 1, 2]"

definition OBJ_brainpoolP192r1 :: "int list" where
  [obj_mac]: "OBJ_brainpoolP192r1 = [1, 3, 36, 3, 3, 2, 8, 1, 1, 3]"

definition OBJ_brainpoolP192t1 :: "int list" where
  [obj_mac]: "OBJ_brainpoolP192t1 = [1, 3, 36, 3, 3, 2, 8, 1, 1, 4]"

definition OBJ_brainpoolP224r1 :: "int list" where
  [obj_mac]: "OBJ_brainpoolP224r1 = [1, 3, 36, 3, 3, 2, 8, 1, 1, 5]"

definition OBJ_brainpoolP224t1 :: "int list" where
  [obj_mac]: "OBJ_brainpoolP224t1 = [1, 3, 36, 3, 3, 2, 8, 1, 1, 6]"

definition OBJ_brainpoolP256r1 :: "int list" where
  [obj_mac]: "OBJ_brainpoolP256r1 = [1, 3, 36, 3, 3, 2, 8, 1, 1, 7]"

definition OBJ_brainpoolP256t1 :: "int list" where
  [obj_mac]: "OBJ_brainpoolP256t1 = [1, 3, 36, 3, 3, 2, 8, 1, 1, 8]"

definition OBJ_brainpoolP320r1 :: "int list" where
  [obj_mac]: "OBJ_brainpoolP320r1 = [1, 3, 36, 3, 3, 2, 8, 1, 1, 9]"

definition OBJ_brainpoolP320t1 :: "int list" where
  [obj_mac]: "OBJ_brainpoolP320t1 = [1, 3, 36, 3, 3, 2, 8, 1, 1, 10]"

definition obj_mac_27 :: "obj_def list" where
  "obj_mac_27 = [
    Obj ''camellia_192_cfb128'' (Some ''CAMELLIA-192-CFB'') (Some ''camellia-192-cfb'') (Some 758) (Some OBJ_camellia_192_cfb128),
    Obj ''camellia_256_ecb'' (Some ''CAMELLIA-256-ECB'') (Some ''camellia-256-ecb'') (Some 756) (Some OBJ_camellia_256_ecb),
    Obj ''camellia_256_ofb128'' (Some ''CAMELLIA-256-OFB'') (Some ''camellia-256-ofb'') (Some 768) (Some OBJ_camellia_256_ofb128),
    Obj ''camellia_256_cfb128'' (Some ''CAMELLIA-256-CFB'') (Some ''camellia-256-cfb'') (Some 759) (Some OBJ_camellia_256_cfb128),
    Obj ''camellia_128_cfb1'' (Some ''CAMELLIA-128-CFB1'') (Some ''camellia-128-cfb1'') (Some 760) None,
    Obj ''camellia_192_cfb1'' (Some ''CAMELLIA-192-CFB1'') (Some ''camellia-192-cfb1'') (Some 761) None,
    Obj ''camellia_256_cfb1'' (Some ''CAMELLIA-256-CFB1'') (Some ''camellia-256-cfb1'') (Some 762) None,
    Obj ''camellia_128_cfb8'' (Some ''CAMELLIA-128-CFB8'') (Some ''camellia-128-cfb8'') (Some 763) None,
    Obj ''camellia_192_cfb8'' (Some ''CAMELLIA-192-CFB8'') (Some ''camellia-192-cfb8'') (Some 764) None,
    Obj ''camellia_256_cfb8'' (Some ''CAMELLIA-256-CFB8'') (Some ''camellia-256-cfb8'') (Some 765) None,
    Obj ''kisa'' (Some ''KISA'') (Some ''kisa'') (Some 773) (Some OBJ_kisa),
    Obj ''seed_ecb'' (Some ''SEED-ECB'') (Some ''seed-ecb'') (Some 776) (Some OBJ_seed_ecb),
    Obj ''seed_cbc'' (Some ''SEED-CBC'') (Some ''seed-cbc'') (Some 777) (Some OBJ_seed_cbc),
    Obj ''seed_cfb128'' (Some ''SEED-CFB'') (Some ''seed-cfb'') (Some 779) (Some OBJ_seed_cfb128),
    Obj ''seed_ofb128'' (Some ''SEED-OFB'') (Some ''seed-ofb'') (Some 778) (Some OBJ_seed_ofb128),
    Obj ''hmac'' (Some ''HMAC'') (Some ''hmac'') (Some 855) None,
    Obj ''cmac'' (Some ''CMAC'') (Some ''cmac'') (Some 894) None,
    Obj ''rc4_hmac_md5'' (Some ''RC4-HMAC-MD5'') (Some ''rc4-hmac-md5'') (Some 915) None,
    Obj ''aes_128_cbc_hmac_sha1'' (Some ''AES-128-CBC-HMAC-SHA1'') (Some ''aes-128-cbc-hmac-sha1'') (Some 916) None,
    Obj ''aes_192_cbc_hmac_sha1'' (Some ''AES-192-CBC-HMAC-SHA1'') (Some ''aes-192-cbc-hmac-sha1'') (Some 917) None,
    Obj ''aes_256_cbc_hmac_sha1'' (Some ''AES-256-CBC-HMAC-SHA1'') (Some ''aes-256-cbc-hmac-sha1'') (Some 918) None,
    Obj ''aes_128_cbc_hmac_sha256'' (Some ''AES-128-CBC-HMAC-SHA256'') (Some ''aes-128-cbc-hmac-sha256'') (Some 948) None,
    Obj ''aes_192_cbc_hmac_sha256'' (Some ''AES-192-CBC-HMAC-SHA256'') (Some ''aes-192-cbc-hmac-sha256'') (Some 949) None,
    Obj ''aes_256_cbc_hmac_sha256'' (Some ''AES-256-CBC-HMAC-SHA256'') (Some ''aes-256-cbc-hmac-sha256'') (Some 950) None,
    Obj ''dhpublicnumber'' (Some ''dhpublicnumber'') (Some ''X9.42 DH'') (Some 920) (Some OBJ_dhpublicnumber),
    Obj ''brainpoolP160r1'' (Some ''brainpoolP160r1'') None (Some 921) (Some OBJ_brainpoolP160r1),
    Obj ''brainpoolP160t1'' (Some ''brainpoolP160t1'') None (Some 922) (Some OBJ_brainpoolP160t1),
    Obj ''brainpoolP192r1'' (Some ''brainpoolP192r1'') None (Some 923) (Some OBJ_brainpoolP192r1),
    Obj ''brainpoolP192t1'' (Some ''brainpoolP192t1'') None (Some 924) (Some OBJ_brainpoolP192t1),
    Obj ''brainpoolP224r1'' (Some ''brainpoolP224r1'') None (Some 925) (Some OBJ_brainpoolP224r1),
    Obj ''brainpoolP224t1'' (Some ''brainpoolP224t1'') None (Some 926) (Some OBJ_brainpoolP224t1),
    Obj ''brainpoolP256r1'' (Some ''brainpoolP256r1'') None (Some 927) (Some OBJ_brainpoolP256r1),
    Obj ''brainpoolP256t1'' (Some ''brainpoolP256t1'') None (Some 928) (Some OBJ_brainpoolP256t1),
    Obj ''brainpoolP320r1'' (Some ''brainpoolP320r1'') None (Some 929) (Some OBJ_brainpoolP320r1),
    Obj ''brainpoolP320t1'' (Some ''brainpoolP320t1'') None (Some 930) (Some OBJ_brainpoolP320t1)]"

subsection \<open>Lines 4095 to 4194\<close>

definition OBJ_brainpoolP384r1 :: "int list" where
  [obj_mac]: "OBJ_brainpoolP384r1 = [1, 3, 36, 3, 3, 2, 8, 1, 1, 11]"

definition OBJ_brainpoolP384t1 :: "int list" where
  [obj_mac]: "OBJ_brainpoolP384t1 = [1, 3, 36, 3, 3, 2, 8, 1, 1, 12]"

definition OBJ_brainpoolP512r1 :: "int list" where
  [obj_mac]: "OBJ_brainpoolP512r1 = [1, 3, 36, 3, 3, 2, 8, 1, 1, 13]"

definition OBJ_brainpoolP512t1 :: "int list" where
  [obj_mac]: "OBJ_brainpoolP512t1 = [1, 3, 36, 3, 3, 2, 8, 1, 1, 14]"

definition OBJ_x9_63_scheme :: "int list" where
  [obj_mac]: "OBJ_x9_63_scheme = [1, 3, 133, 16, 840, 63, 0]"

definition OBJ_secg_scheme :: "int list" where
  [obj_mac]: "OBJ_secg_scheme = OBJ_certicom_arc @ [1]"

definition OBJ_dhSinglePass_stdDH_sha1kdf_scheme :: "int list" where
  [obj_mac]: "OBJ_dhSinglePass_stdDH_sha1kdf_scheme = OBJ_x9_63_scheme @ [2]"

definition OBJ_dhSinglePass_stdDH_sha224kdf_scheme :: "int list" where
  [obj_mac]: "OBJ_dhSinglePass_stdDH_sha224kdf_scheme = OBJ_secg_scheme @ [11, 0]"

definition OBJ_dhSinglePass_stdDH_sha256kdf_scheme :: "int list" where
  [obj_mac]: "OBJ_dhSinglePass_stdDH_sha256kdf_scheme = OBJ_secg_scheme @ [11, 1]"

definition OBJ_dhSinglePass_stdDH_sha384kdf_scheme :: "int list" where
  [obj_mac]: "OBJ_dhSinglePass_stdDH_sha384kdf_scheme = OBJ_secg_scheme @ [11, 2]"

definition OBJ_dhSinglePass_stdDH_sha512kdf_scheme :: "int list" where
  [obj_mac]: "OBJ_dhSinglePass_stdDH_sha512kdf_scheme = OBJ_secg_scheme @ [11, 3]"

definition OBJ_dhSinglePass_cofactorDH_sha1kdf_scheme :: "int list" where
  [obj_mac]: "OBJ_dhSinglePass_cofactorDH_sha1kdf_scheme = OBJ_x9_63_scheme @ [3]"

definition OBJ_dhSinglePass_cofactorDH_sha224kdf_scheme :: "int list" where
  [obj_mac]: "OBJ_dhSinglePass_cofactorDH_sha224kdf_scheme = OBJ_secg_scheme @ [14, 0]"

definition OBJ_dhSinglePass_cofactorDH_sha256kdf_scheme :: "int list" where
  [obj_mac]: "OBJ_dhSinglePass_cofactorDH_sha256kdf_scheme = OBJ_secg_scheme @ [14, 1]"

definition OBJ_dhSinglePass_cofactorDH_sha384kdf_scheme :: "int list" where
  [obj_mac]: "OBJ_dhSinglePass_cofactorDH_sha384kdf_scheme = OBJ_secg_scheme @ [14, 2]"

definition OBJ_dhSinglePass_cofactorDH_sha512kdf_scheme :: "int list" where
  [obj_mac]: "OBJ_dhSinglePass_cofactorDH_sha512kdf_scheme = OBJ_secg_scheme @ [14, 3]"

definition OBJ_ct_precert_scts :: "int list" where
  [obj_mac]: "OBJ_ct_precert_scts = [1, 3, 6, 1, 4, 1, 11129, 2, 4, 2]"

definition OBJ_ct_precert_poison :: "int list" where
  [obj_mac]: "OBJ_ct_precert_poison = [1, 3, 6, 1, 4, 1, 11129, 2, 4, 3]"

definition OBJ_ct_precert_signer :: "int list" where
  [obj_mac]: "OBJ_ct_precert_signer = [1, 3, 6, 1, 4, 1, 11129, 2, 4, 4]"

definition OBJ_ct_cert_scts :: "int list" where
  [obj_mac]: "OBJ_ct_cert_scts = [1, 3, 6, 1, 4, 1, 11129, 2, 4, 5]"

definition OBJ_jurisdictionLocalityName :: "int list" where
  [obj_mac]: "OBJ_jurisdictionLocalityName = [1, 3, 6, 1, 4, 1, 311, 60, 2, 1, 1]"

definition OBJ_jurisdictionStateOrProvinceName :: "int list" where
  [obj_mac]: "OBJ_jurisdictionStateOrProvinceName = [1, 3, 6, 1, 4, 1, 311, 60, 2, 1, 2]"

definition OBJ_jurisdictionCountryName :: "int list" where
  [obj_mac]: "OBJ_jurisdictionCountryName = [1, 3, 6, 1, 4, 1, 311, 60, 2, 1, 3]"

definition obj_mac_28 :: "obj_def list" where
  "obj_mac_28 = [
    Obj ''brainpoolP384r1'' (Some ''brainpoolP384r1'') None (Some 931) (Some OBJ_brainpoolP384r1),
    Obj ''brainpoolP384t1'' (Some ''brainpoolP384t1'') None (Some 932) (Some OBJ_brainpoolP384t1),
    Obj ''brainpoolP512r1'' (Some ''brainpoolP512r1'') None (Some 933) (Some OBJ_brainpoolP512r1),
    Obj ''brainpoolP512t1'' (Some ''brainpoolP512t1'') None (Some 934) (Some OBJ_brainpoolP512t1),
    Obj ''x9_63_scheme'' None None None (Some OBJ_x9_63_scheme),
    Obj ''secg_scheme'' None None None (Some OBJ_secg_scheme),
    Obj ''dhSinglePass_stdDH_sha1kdf_scheme'' (Some ''dhSinglePass-stdDH-sha1kdf-scheme'') None (Some 936) (Some OBJ_dhSinglePass_stdDH_sha1kdf_scheme),
    Obj ''dhSinglePass_stdDH_sha224kdf_scheme'' (Some ''dhSinglePass-stdDH-sha224kdf-scheme'') None (Some 937) (Some OBJ_dhSinglePass_stdDH_sha224kdf_scheme),
    Obj ''dhSinglePass_stdDH_sha256kdf_scheme'' (Some ''dhSinglePass-stdDH-sha256kdf-scheme'') None (Some 938) (Some OBJ_dhSinglePass_stdDH_sha256kdf_scheme),
    Obj ''dhSinglePass_stdDH_sha384kdf_scheme'' (Some ''dhSinglePass-stdDH-sha384kdf-scheme'') None (Some 939) (Some OBJ_dhSinglePass_stdDH_sha384kdf_scheme),
    Obj ''dhSinglePass_stdDH_sha512kdf_scheme'' (Some ''dhSinglePass-stdDH-sha512kdf-scheme'') None (Some 940) (Some OBJ_dhSinglePass_stdDH_sha512kdf_scheme),
    Obj ''dhSinglePass_cofactorDH_sha1kdf_scheme'' (Some ''dhSinglePass-cofactorDH-sha1kdf-scheme'') None (Some 941) (Some OBJ_dhSinglePass_cofactorDH_sha1kdf_scheme),
    Obj ''dhSinglePass_cofactorDH_sha224kdf_scheme'' (Some ''dhSinglePass-cofactorDH-sha224kdf-scheme'') None (Some 942) (Some OBJ_dhSinglePass_cofactorDH_sha224kdf_scheme),
    Obj ''dhSinglePass_cofactorDH_sha256kdf_scheme'' (Some ''dhSinglePass-cofactorDH-sha256kdf-scheme'') None (Some 943) (Some OBJ_dhSinglePass_cofactorDH_sha256kdf_scheme),
    Obj ''dhSinglePass_cofactorDH_sha384kdf_scheme'' (Some ''dhSinglePass-cofactorDH-sha384kdf-scheme'') None (Some 944) (Some OBJ_dhSinglePass_cofactorDH_sha384kdf_scheme),
    Obj ''dhSinglePass_cofactorDH_sha512kdf_scheme'' (Some ''dhSinglePass-cofactorDH-sha512kdf-scheme'') None (Some 945) (Some OBJ_dhSinglePass_cofactorDH_sha512kdf_scheme),
    Obj ''dh_std_kdf'' (Some ''dh-std-kdf'') None (Some 946) None,
    Obj ''dh_cofactor_kdf'' (Some ''dh-cofactor-kdf'') None (Some 947) None,
    Obj ''ct_precert_scts'' (Some ''ct_precert_scts'') (Some ''CT Precertificate SCTs'') (Some 951) (Some OBJ_ct_precert_scts),
    Obj ''ct_precert_poison'' (Some ''ct_precert_poison'') (Some ''CT Precertificate Poison'') (Some 952) (Some OBJ_ct_precert_poison),
    Obj ''ct_precert_signer'' (Some ''ct_precert_signer'') (Some ''CT Precertificate Signer'') (Some 953) (Some OBJ_ct_precert_signer),
    Obj ''ct_cert_scts'' (Some ''ct_cert_scts'') (Some ''CT Certificate SCTs'') (Some 954) (Some OBJ_ct_cert_scts),
    Obj ''jurisdictionLocalityName'' (Some ''jurisdictionL'') (Some ''jurisdictionLocalityName'') (Some 955) (Some OBJ_jurisdictionLocalityName),
    Obj ''jurisdictionStateOrProvinceName'' (Some ''jurisdictionST'') (Some ''jurisdictionStateOrProvinceName'') (Some 956) (Some OBJ_jurisdictionStateOrProvinceName),
    Obj ''jurisdictionCountryName'' (Some ''jurisdictionC'') (Some ''jurisdictionCountryName'') (Some 957) (Some OBJ_jurisdictionCountryName)]"

subsection \<open>The whole table\<close>

definition obj_table :: "obj_def list" where
  "obj_table =
     obj_mac_01 @ obj_mac_02 @ obj_mac_03 @ obj_mac_04 @ obj_mac_05 @ obj_mac_06 @ obj_mac_07 @
     obj_mac_08 @ obj_mac_09 @ obj_mac_10 @ obj_mac_11 @ obj_mac_12 @ obj_mac_13 @ obj_mac_14 @
     obj_mac_15 @ obj_mac_16 @ obj_mac_17 @ obj_mac_18 @ obj_mac_19 @ obj_mac_20 @ obj_mac_21 @
     obj_mac_22 @ obj_mac_23 @ obj_mac_24 @ obj_mac_25 @ obj_mac_26 @ obj_mac_27 @ obj_mac_28"

end
