(* ===== verification/ObjMacEval.thy ===== *)
theory ObjMacEval
  imports ObjMacTable
begin

section \<open>Evaluating the object table\<close>

text \<open>
  The numeric ids and the object identifiers of every stretch of the header, evaluated by
  rewriting. The lemmas of \<open>ObjMac\<close> combine them; each goal stays small, so the evaluation of
  the whole table is linear in its length.
\<close>

text \<open>The numeric ids and the object identifiers of a list of macro groups, in order.\<close>

fun nids :: "obj_def list \<Rightarrow> int list" where
  "nids [] = []"
| "nids (d # ds) = (case NID d of None \<Rightarrow> nids ds | Some n \<Rightarrow> n # nids ds)"

fun oids :: "obj_def list \<Rightarrow> int list list" where
  "oids [] = []"
| "oids (d # ds) = (case OBJ d of None \<Rightarrow> oids ds | Some a \<Rightarrow> a # oids ds)"

text \<open>
  Object identifiers in the sense of X.660: at least one arc; the first is 0, 1 or 2; below 0
  and 1 the second is at most 39. Every arc fits a 32-bit unsigned integer.
\<close>

fun oid_valid :: "int list \<Rightarrow> bool" where
  "oid_valid [] = False"
| "oid_valid [a] = (0 \<le> a \<and> a \<le> 2)"
| "oid_valid (a # b # r) =
     (0 \<le> a \<and> a \<le> 2 \<and> 0 \<le> b \<and> (if a < 2 then b < 40 else b < 4294967296) \<and>
      list_all (\<lambda>x. 0 \<le> x \<and> x < 4294967296) r)"

lemma nids_append [simp]: "nids (xs @ ys) = nids xs @ nids ys"
  by (induction xs) (auto split: option.splits)

lemma oids_append [simp]: "oids (xs @ ys) = oids xs @ oids ys"
  by (induction xs) (auto split: option.splits)

lemma nids_01: "nids obj_mac_01 =
    [0, 645, 404, 181, 646, 393, 182, 676, 780, 781, 677, 647, 678, 679, 394, 395, 183, 184,
     185, 116, 113, 405, 406, 407, 680, 681, 682, 683, 408, 684, 685, 686]"
  by (simp add: obj_mac_01_def)

lemma nids_02: "nids obj_mac_02 =
    [687, 688, 689, 690, 691, 692, 693, 694, 695, 696, 697, 698, 699, 700, 701, 702, 703, 409,
     410, 411, 412, 413, 414, 415, 416, 791, 792, 793, 794, 795, 796, 704, 705, 706, 707, 708]"
  by (simp add: obj_mac_02_def)

lemma nids_03: "nids obj_mac_03 =
    [709, 710, 711, 712, 713, 714, 715, 716, 717, 718, 719, 720, 721, 722, 723, 724, 725, 726,
     727, 728, 729, 730, 731, 732, 733, 734, 735, 736, 737, 738, 739, 740, 741, 742, 743, 744,
     745]"
  by (simp add: obj_mac_03_def)

lemma nids_04: "nids obj_mac_04 =
    [108, 109, 110, 111, 112, 782, 783, 1, 2, 186, 6, 7, 396, 8, 65, 919, 911, 935, 912, 668,
     669, 670, 671, 27, 28, 187, 9, 10, 168, 169, 170, 68]"
  by (simp add: obj_mac_04_def)

lemma nids_05: "nids obj_mac_05 =
    [69, 161, 162, 20, 21, 22, 23, 24, 25, 26, 47, 48, 49, 50, 51, 52, 53, 54, 55, 56, 172,
     167, 188, 189, 190, 191, 192, 193, 194, 195, 196, 197, 198, 199, 200, 201, 202]"
  by (simp add: obj_mac_05_def)

lemma nids_06: "nids obj_mac_06 =
    [203, 204, 205, 206, 207, 208, 209, 210, 211, 786, 787, 212, 213, 214, 215, 216, 217, 218,
     219, 220, 221, 222, 223, 224, 225, 226, 227, 228, 229, 230, 231, 232, 233, 234, 235, 236,
     237]"
  by (simp add: obj_mac_06_def)

lemma nids_07: "nids obj_mac_07 =
    [238, 239, 240, 241, 242, 243, 244, 245, 246, 247, 893, 248, 249, 250, 251, 252, 253, 254,
     255, 256, 156, 157, 417, 856, 158, 159, 160, 144, 145, 146, 147, 148, 149]"
  by (simp add: obj_mac_07_def)

lemma nids_08: "nids obj_mac_08 =
    [150, 151, 152, 153, 154, 155, 3, 257, 4, 114, 797, 163, 798, 799, 800, 801, 37, 38, 39,
     40, 98, 166, 5, 97, 44, 120, 121, 122, 123, 171, 134, 135, 136, 137]"
  by (simp add: obj_mac_08_def)

lemma nids_09: "nids obj_mac_09 =
    [138, 648, 649, 34, 36, 35, 46, 91, 92, 93, 94, 127, 258, 175, 259, 128, 260, 261, 262,
     263, 264, 265, 266, 267, 268, 662, 176, 269, 270, 271, 272, 273, 274, 275, 276, 277]"
  by (simp add: obj_mac_09_def)

lemma nids_10: "nids obj_mac_10 =
    [278, 279, 280, 281, 282, 283, 284, 177, 285, 286, 287, 288, 289, 290, 291, 292, 397, 398,
     663, 164, 165, 293, 129, 130, 131, 132, 294, 295, 296, 133, 180, 297, 298]"
  by (simp add: obj_mac_10_def)

lemma nids_11: "nids obj_mac_11 =
    [299, 300, 301, 302, 303, 304, 305, 306, 307, 308, 309, 310, 311, 312, 784, 313, 314, 315,
     316, 317, 318, 319, 320, 321, 322, 323, 324, 325, 326, 327, 328, 329, 330, 331, 332, 333,
     334]"
  by (simp add: obj_mac_11_def)

lemma nids_12: "nids obj_mac_12 =
    [335, 336, 337, 338, 339, 340, 341, 342, 343, 344, 345, 346, 347, 858, 348, 349, 351, 352,
     353, 354, 355, 356, 357, 358, 399, 359, 360, 361, 362, 664, 665, 667, 178, 179, 363]"
  by (simp add: obj_mac_12_def)

lemma nids_13: "nids obj_mac_13 =
    [364, 785, 365, 366, 367, 368, 369, 370, 371, 372, 373, 374, 375, 376, 104, 29, 31, 45, 30,
     377, 67, 66, 42, 32, 33, 43, 60, 61, 62, 63, 80]"
  by (simp add: obj_mac_13_def)

lemma nids_14: "nids obj_mac_14 =
    [41, 64, 70, 115, 117, 119, 143, 11, 12, 13, 100, 105, 14, 15, 16, 660, 17, 18, 106, 107,
     859, 860, 861, 661, 862, 863, 864, 865, 866, 867, 868, 869, 870]"
  by (simp add: obj_mac_14_def)

lemma nids_15: "nids obj_mac_15 =
    [871, 872, 873, 874, 875, 876, 877, 878, 879, 880, 881, 882, 883, 884, 173, 99, 101, 509,
     503, 174, 885, 886, 887, 888, 889, 890, 891, 892, 510, 400, 378, 19, 96, 95, 81]"
  by (simp add: obj_mac_15_def)

lemma nids_16: "nids obj_mac_16 =
    [769, 82, 83, 84, 85, 86, 87, 88, 141, 142, 140, 770, 771, 666, 103, 89, 746, 747, 90, 401,
     126, 857, 748, 402, 403, 910, 57, 58, 59, 71]"
  by (simp add: obj_mac_16_def)

lemma nids_17: "nids obj_mac_17 =
    [72, 73, 74, 75, 76, 77, 78, 79, 139, 379, 380, 381, 382, 383, 384, 385, 386, 387, 388,
     389, 390, 504, 505, 506, 507, 508, 124, 125]"
  by (simp add: obj_mac_17_def)

lemma nids_18: "nids obj_mac_18 =
    [418, 419, 420, 421, 788, 895, 896, 897, 422, 423, 424, 425, 789, 898, 899, 900, 426, 427,
     428, 429, 790, 901, 902, 903, 650, 651, 652, 653, 654, 655, 904, 905, 906]"
  by (simp add: obj_mac_18_def)

lemma nids_19: "nids obj_mac_19 =
    [913, 914, 656, 657, 658, 659, 672, 673, 674, 675, 802, 803, 430, 431, 432, 433, 434, 435,
     436, 437, 438, 439, 440, 441, 442, 443, 444, 445, 446, 447, 448, 449, 392, 450]"
  by (simp add: obj_mac_19_def)

lemma nids_20: "nids obj_mac_20 =
    [451, 452, 453, 454, 455, 456, 457, 458, 459, 460, 461, 462, 463, 464, 465, 466, 467, 468,
     469, 470, 471, 472, 473, 474, 475, 476, 477, 391, 478, 479, 480, 481, 482, 483, 484, 485,
     486]"
  by (simp add: obj_mac_20_def)

lemma nids_21: "nids obj_mac_21 =
    [487, 488, 489, 490, 491, 492, 493, 494, 495, 496, 497, 498, 499, 500, 501, 502, 512, 513,
     514, 515, 516, 517, 518, 519, 520, 521, 522, 523, 524, 525, 526, 527, 528, 529, 530, 531]"
  by (simp add: obj_mac_21_def)

lemma nids_22: "nids obj_mac_22 =
    [532, 533, 534, 535, 536, 537, 538, 539, 540, 541, 542, 543, 544, 545, 546, 547, 548, 549,
     550, 551, 552, 553, 554, 555, 556, 557, 558, 559, 560, 561, 562, 563, 564, 565, 566, 567,
     568]"
  by (simp add: obj_mac_22_def)

lemma nids_23: "nids obj_mac_23 =
    [569, 570, 571, 572, 573, 574, 575, 576, 577, 578, 579, 580, 581, 582, 583, 584, 585, 586,
     587, 588, 589, 590, 591, 592, 593, 594, 595, 596, 597, 598, 599, 600, 601, 602, 603, 604,
     605]"
  by (simp add: obj_mac_23_def)

lemma nids_24: "nids obj_mac_24 =
    [606, 607, 608, 609, 610, 611, 612, 613, 614, 615, 616, 617, 618, 619, 620, 621, 622, 623,
     624, 625, 626, 627, 628, 629, 630, 631, 632, 633, 634, 635, 636, 637, 638, 639, 640]"
  by (simp add: obj_mac_24_def)

lemma nids_25: "nids obj_mac_25 =
    [641, 642, 643, 644, 749, 750, 804, 805, 806, 807, 808, 809, 810, 811, 812, 813, 814, 815,
     816, 817, 818, 819, 820, 821, 822, 823, 824, 825, 826, 827, 828, 829, 830, 831, 832]"
  by (simp add: obj_mac_25_def)

lemma nids_26: "nids obj_mac_26 =
    [833, 834, 835, 836, 837, 838, 839, 840, 841, 842, 843, 844, 845, 846, 847, 848, 849, 850,
     851, 852, 853, 854, 751, 752, 753, 907, 908, 909, 754, 766, 757, 755, 767]"
  by (simp add: obj_mac_26_def)

lemma nids_27: "nids obj_mac_27 =
    [758, 756, 768, 759, 760, 761, 762, 763, 764, 765, 773, 776, 777, 779, 778, 855, 894, 915,
     916, 917, 918, 948, 949, 950, 920, 921, 922, 923, 924, 925, 926, 927, 928, 929, 930]"
  by (simp add: obj_mac_27_def)

lemma nids_28: "nids obj_mac_28 =
    [931, 932, 933, 934, 936, 937, 938, 939, 940, 941, 942, 943, 944, 945, 946, 947, 951, 952,
     953, 954, 955, 956, 957]"
  by (simp add: obj_mac_28_def)

lemma oids_valid_01: "list_all oid_valid (oids obj_mac_01)"
  by (simp add: obj_mac_01_def obj_mac)

lemma oids_valid_02: "list_all oid_valid (oids obj_mac_02)"
  by (simp add: obj_mac_02_def obj_mac)

lemma oids_valid_03: "list_all oid_valid (oids obj_mac_03)"
  by (simp add: obj_mac_03_def obj_mac)

lemma oids_valid_04: "list_all oid_valid (oids obj_mac_04)"
  by (simp add: obj_mac_04_def obj_mac)

lemma oids_valid_05: "list_all oid_valid (oids obj_mac_05)"
  by (simp add: obj_mac_05_def obj_mac)

lemma oids_valid_06: "list_all oid_valid (oids obj_mac_06)"
  by (simp add: obj_mac_06_def obj_mac)

lemma oids_valid_07: "list_all oid_valid (oids obj_mac_07)"
  by (simp add: obj_mac_07_def obj_mac)

lemma oids_valid_08: "list_all oid_valid (oids obj_mac_08)"
  by (simp add: obj_mac_08_def obj_mac)

lemma oids_valid_09: "list_all oid_valid (oids obj_mac_09)"
  by (simp add: obj_mac_09_def obj_mac)

lemma oids_valid_10: "list_all oid_valid (oids obj_mac_10)"
  by (simp add: obj_mac_10_def obj_mac)

lemma oids_valid_11: "list_all oid_valid (oids obj_mac_11)"
  by (simp add: obj_mac_11_def obj_mac)

lemma oids_valid_12: "list_all oid_valid (oids obj_mac_12)"
  by (simp add: obj_mac_12_def obj_mac)

lemma oids_valid_13: "list_all oid_valid (oids obj_mac_13)"
  by (simp add: obj_mac_13_def obj_mac)

lemma oids_valid_14: "list_all oid_valid (oids obj_mac_14)"
  by (simp add: obj_mac_14_def obj_mac)

lemma oids_valid_15: "list_all oid_valid (oids obj_mac_15)"
  by (simp add: obj_mac_15_def obj_mac)

lemma oids_valid_16: "list_all oid_valid (oids obj_mac_16)"
  by (simp add: obj_mac_16_def obj_mac)

lemma oids_valid_17: "list_all oid_valid (oids obj_mac_17)"
  by (simp add: obj_mac_17_def obj_mac)

lemma oids_valid_18: "list_all oid_valid (oids obj_mac_18)"
  by (simp add: obj_mac_18_def obj_mac)

lemma oids_valid_19: "list_all oid_valid (oids obj_mac_19)"
  by (simp add: obj_mac_19_def obj_mac)

lemma oids_valid_20: "list_all oid_valid (oids obj_mac_20)"
  by (simp add: obj_mac_20_def obj_mac)

lemma oids_valid_21: "list_all oid_valid (oids obj_mac_21)"
  by (simp add: obj_mac_21_def obj_mac)

lemma oids_valid_22: "list_all oid_valid (oids obj_mac_22)"
  by (simp add: obj_mac_22_def obj_mac)

lemma oids_valid_23: "list_all oid_valid (oids obj_mac_23)"
  by (simp add: obj_mac_23_def obj_mac)

lemma oids_valid_24: "list_all oid_valid (oids obj_mac_24)"
  by (simp add: obj_mac_24_def obj_mac)

lemma oids_valid_25: "list_all oid_valid (oids obj_mac_25)"
  by (simp add: obj_mac_25_def obj_mac)

lemma oids_valid_26: "list_all oid_valid (oids obj_mac_26)"
  by (simp add: obj_mac_26_def obj_mac)

lemma oids_valid_27: "list_all oid_valid (oids obj_mac_27)"
  by (simp add: obj_mac_27_def obj_mac)

lemma oids_valid_28: "list_all oid_valid (oids obj_mac_28)"
  by (simp add: obj_mac_28_def obj_mac)

lemmas nids_all = nids_01 nids_02 nids_03 nids_04 nids_05 nids_06 nids_07 nids_08 nids_09 nids_10 nids_11 nids_12 nids_13 nids_14 nids_15 nids_16 nids_17 nids_18 nids_19 nids_20 nids_21 nids_22 nids_23 nids_24 nids_25 nids_26 nids_27 nids_28
lemmas oids_valid_all = oids_valid_01 oids_valid_02 oids_valid_03 oids_valid_04 oids_valid_05 oids_valid_06 oids_valid_07 oids_valid_08 oids_valid_09 oids_valid_10 oids_valid_11 oids_valid_12 oids_valid_13 oids_valid_14 oids_valid_15 oids_valid_16 oids_valid_17 oids_valid_18 oids_valid_19 oids_valid_20 oids_valid_21 oids_valid_22 oids_valid_23 oids_valid_24 oids_valid_25 oids_valid_26 oids_valid_27 oids_valid_28

end
