(* ===== verification/ObjMac.thy ===== *)
theory ObjMac
  imports ObjMacEval
begin

section \<open>Properties of the object table\<close>

text \<open>
  The table of \<open>ObjMacTable\<close> as the lookup structure it is for: a numeric id names at most one
  object, so that finding an object by its id is well defined, and every \<^verbatim>\<open>OBJ_\<close> macro expands
  to an object identifier.
\<close>

definition find_nid :: "int \<Rightarrow> obj_def list \<Rightarrow> obj_def option" where
  "find_nid n ds = List.find (\<lambda>d. NID d = Some n) ds"

lemma set_nids: "n \<in> set (nids ds) \<longleftrightarrow> (\<exists>d \<in> set ds. NID d = Some n)"
  by (induction ds) (auto split: option.splits)

lemma find_nid_unique:
  assumes "distinct (nids ds)" and "d \<in> set ds" and "NID d = Some n"
  shows "find_nid n ds = Some d"
  using assms
proof (induction ds)
  case Nil
  then show ?case by simp
next
  case (Cons c ds)
  show ?case
  proof (cases "NID c = Some n")
    case True
    with Cons.prems have "d = c" by (auto simp: set_nids)
    with True show ?thesis by (simp add: find_nid_def)
  next
    case False
    with Cons show ?thesis by (auto simp: find_nid_def split: option.splits)
  qed
qed

lemmas numeral_decide =
  numeral_eq_iff num.distinct num.inject zero_neq_numeral numeral_neq_zero one_eq_numeral_iff
  numeral_eq_one_iff zero_neq_one one_neq_zero

lemma obj_table_distinct: "distinct (nids obj_table)"
  by (simp only: obj_table_def nids_append nids_all append.simps distinct.simps list.set insert_iff
      empty_iff numeral_decide simp_thms)

lemma obj_table_range: "list_all (\<lambda>n. 0 \<le> n \<and> n \<le> 957) (nids obj_table)"
  by (simp add: obj_table_def nids_all)

lemma obj_table_length: "length (nids obj_table) = 951"
  by (simp add: obj_table_def nids_all)

lemma obj_table_oids: "list_all oid_valid (oids obj_table)"
  by (simp add: obj_table_def oids_valid_all)

text \<open>
  The numeric ids of the object table identify its objects. No two of the 951 objects that
  have an id share it, every id is between 0 and 957, and looking an id up gives the one object
  that was declared with it.
\<close>

theorem nid_lookup:
  "length (nids obj_table) = 951 \<and>
   list_all (\<lambda>d. case NID d of None \<Rightarrow> True
                 | Some n \<Rightarrow> 0 \<le> n \<and> n \<le> 957 \<and> find_nid n obj_table = Some d) obj_table"
proof -
  have "list_all (\<lambda>n. 0 \<le> n \<and> n \<le> 957) (nids obj_table)" by (rule obj_table_range)
  then have "0 \<le> n \<and> n \<le> 957" if "d \<in> set obj_table" "NID d = Some n" for d n
    using that set_nids [of n obj_table] by (auto simp: list_all_iff)
  then show ?thesis
    using find_nid_unique [OF obj_table_distinct]
    by (auto simp: obj_table_length list_all_iff split: option.splits)
qed

text \<open>
  Every \<^verbatim>\<open>OBJ_\<close> macro expands, through the macros it is built from, to an object identifier of ASN.1:
  its first arc is 0, 1 or 2, under 0 and 1 the second arc is below 40, and no arc is negative.
\<close>

theorem obj_macros_are_oids: "list_all oid_valid (oids obj_table)"
  by (rule obj_table_oids)

end
