(* ===== verification/CLayout.thy ===== *)
theory CLayout
  imports Prelude
begin

section \<open>Sizes and offsets of C types\<close>

text \<open>
  The part of the C language the linked headers rely on for their compile-time assertions and
  their field descriptors: \<^verbatim>\<open>sizeof\<close>, alignment and \<^verbatim>\<open>offsetof\<close>. A scalar of \<open>n\<close> bytes is aligned to \<open>n\<close>;
  a pointer has \<open>p\<close> bytes (8 on arm64 and on the 64-bit simulator, 4 on armv7); the members
  of a struct follow each other at the next multiple of their alignment and the struct is
  padded to a multiple of its own; a packed struct has neither padding nor alignment; a union
  has the size of its largest member.
\<close>

datatype ctype =
    C_scalar nat
  | C_pointer
  | C_array ctype nat
  | C_struct "ctype list"
  | C_packed "ctype list"
  | C_union "ctype list"

definition round_up :: "nat \<Rightarrow> nat \<Rightarrow> nat" where
  "round_up n a = (n + a - 1) div a * a"

fun calign :: "nat \<Rightarrow> ctype \<Rightarrow> nat" and calign_list :: "nat \<Rightarrow> ctype list \<Rightarrow> nat" where
  "calign p (C_scalar n) = max 1 n"
| "calign p C_pointer = max 1 p"
| "calign p (C_array c n) = calign p c"
| "calign p (C_struct cs) = calign_list p cs"
| "calign p (C_packed cs) = 1"
| "calign p (C_union cs) = calign_list p cs"
| "calign_list p [] = 1"
| "calign_list p (c # cs) = max (calign p c) (calign_list p cs)"

fun csize :: "nat \<Rightarrow> ctype \<Rightarrow> nat"
  and struct_end :: "nat \<Rightarrow> nat \<Rightarrow> ctype list \<Rightarrow> nat"
  and packed_end :: "nat \<Rightarrow> nat \<Rightarrow> ctype list \<Rightarrow> nat"
  and union_max :: "nat \<Rightarrow> ctype list \<Rightarrow> nat" where
  "csize p (C_scalar n) = n"
| "csize p C_pointer = p"
| "csize p (C_array c n) = csize p c * n"
| "csize p (C_struct cs) = round_up (struct_end p 0 cs) (calign_list p cs)"
| "csize p (C_packed cs) = packed_end p 0 cs"
| "csize p (C_union cs) = round_up (union_max p cs) (calign_list p cs)"
| "struct_end p off [] = off"
| "struct_end p off (c # cs) = struct_end p (round_up off (calign p c) + csize p c) cs"
| "packed_end p off [] = off"
| "packed_end p off (c # cs) = packed_end p (off + csize p c) cs"
| "union_max p [] = 0"
| "union_max p (c # cs) = max (csize p c) (union_max p cs)"

text \<open>The offset of member \<open>i\<close> of an ordinary struct.\<close>

fun offset_from :: "nat \<Rightarrow> nat \<Rightarrow> ctype list \<Rightarrow> nat \<Rightarrow> nat option" where
  "offset_from p off [] i = None"
| "offset_from p off (c # cs) 0 = Some (round_up off (calign p c))"
| "offset_from p off (c # cs) (Suc i) = offset_from p (round_up off (calign p c) + csize p c) cs i"

definition coffset :: "nat \<Rightarrow> ctype list \<Rightarrow> nat \<Rightarrow> nat option" where
  "coffset p cs i = offset_from p 0 cs i"

subsection \<open>Facts about layouts\<close>

lemma round_up_ge: "0 < a \<Longrightarrow> n \<le> round_up n a"
proof -
  assume a: "0 < a"
  have "n + a - 1 = (n + a - 1) div a * a + (n + a - 1) mod a" by simp
  moreover have "(n + a - 1) mod a < a" using a by simp
  ultimately show ?thesis unfolding round_up_def using a by linarith
qed

lemma round_up_dvd: "a dvd round_up n a"
  by (simp add: round_up_def)

lemma round_up_less: "0 < a \<Longrightarrow> round_up n a < n + a"
proof -
  assume a: "0 < a"
  have "(n + a - 1) div a * a \<le> n + a - 1" by simp
  with a show ?thesis unfolding round_up_def by linarith
qed

lemma calign_pos: "0 < calign p c" and calign_list_pos: "0 < calign_list p cs"
  by (induction p c and p cs rule: calign_calign_list.induct) auto

lemma struct_end_ge: "off \<le> struct_end p off cs"
proof (induction cs arbitrary: off)
  case Nil
  show ?case by simp
next
  case (Cons c cs)
  have "off \<le> round_up off (calign p c)" by (rule round_up_ge [OF calign_pos])
  also have "\<dots> \<le> round_up off (calign p c) + csize p c" by simp
  also have "\<dots> \<le> struct_end p off (c # cs)" using Cons.IH by simp
  finally show ?case .
qed

lemma offset_from_bounds:
  "offset_from p off cs i = Some o1 \<Longrightarrow> off \<le> o1 \<and> o1 + csize p (cs ! i) \<le> struct_end p off cs \<and>
     calign p (cs ! i) dvd o1"
proof (induction p off cs i rule: offset_from.induct)
  case (1 p off i)
  then show ?case by simp
next
  case (2 p off c cs)
  then show ?case
    using round_up_ge [OF calign_pos, of off p c] struct_end_ge [of "round_up off (calign p c) + csize p c" p cs]
    by (auto simp: round_up_dvd)
next
  case (3 p off c cs i)
  then show ?case
    using round_up_ge [OF calign_pos, of off p c] by fastforce
qed

lemma offset_order:
  "offset_from p off cs i = Some a \<Longrightarrow> offset_from p off cs j = Some b \<Longrightarrow> i < j \<Longrightarrow>
     a + csize p (cs ! i) \<le> b"
proof (induction p off cs i arbitrary: j rule: offset_from.induct)
  case (1 p off i)
  then show ?case by simp
next
  case (2 p off c cs)
  then obtain j' where "j = Suc j'" by (cases j) auto
  with 2 offset_from_bounds [of p "round_up off (calign p c) + csize p c" cs j' b] show ?case
    by auto
next
  case (3 p off c cs i)
  then obtain j' where "j = Suc j'" by (cases j) auto
  with 3 show ?case by auto
qed

end
