(* ===== verification/ProtobufRuntime.thy ===== *)
theory ProtobufRuntime
  imports CLayout
begin

unbundle bit_operations_syntax

section \<open>Inline code of the Objective-C protobuf runtime\<close>

text \<open>
  The C code that the headers of \<^verbatim>\<open>src/Library/Firebase/Messaging/Protobuf.framework\<close> define
  (the copy under \<^verbatim>\<open>Performance\<close> is identical): the inline functions and enumerations of
  \<^verbatim>\<open>GPBUtilities_PackagePrivate.h\<close>, \<^verbatim>\<open>GPBDescriptor_PackagePrivate.h\<close>, \<^verbatim>\<open>GPBRuntimeTypes.h\<close>,
  \<^verbatim>\<open>GPBDescriptor.h\<close> and \<^verbatim>\<open>GPBWireFormat.h\<close>. Signed and unsigned integers of a width are words
  of that width; a cast between them does not change the word. Shifting by a negative
  distance or by the width or more is undefined in C and \<open>None\<close> here. Functions that are only declared
  in the headers are arguments.
\<close>

subsection \<open>GPBRuntimeTypes.h, GPBDescriptor.h, GPBWireFormat.h\<close>

datatype GPBDataType =
    GPBDataTypeBool | GPBDataTypeFixed32 | GPBDataTypeSFixed32 | GPBDataTypeFloat
  | GPBDataTypeFixed64 | GPBDataTypeSFixed64 | GPBDataTypeDouble | GPBDataTypeInt32
  | GPBDataTypeInt64 | GPBDataTypeSInt32 | GPBDataTypeSInt64 | GPBDataTypeUInt32
  | GPBDataTypeUInt64 | GPBDataTypeBytes | GPBDataTypeString | GPBDataTypeMessage
  | GPBDataTypeGroup | GPBDataTypeEnum

text \<open>The enumerators are numbered in order from \<^verbatim>\<open>GPBDataTypeBool = 0\<close>.\<close>

definition GPBDataTypes :: "GPBDataType list" where
  "GPBDataTypes =
     [GPBDataTypeBool, GPBDataTypeFixed32, GPBDataTypeSFixed32, GPBDataTypeFloat,
      GPBDataTypeFixed64, GPBDataTypeSFixed64, GPBDataTypeDouble, GPBDataTypeInt32,
      GPBDataTypeInt64, GPBDataTypeSInt32, GPBDataTypeSInt64, GPBDataTypeUInt32,
      GPBDataTypeUInt64, GPBDataTypeBytes, GPBDataTypeString, GPBDataTypeMessage,
      GPBDataTypeGroup, GPBDataTypeEnum]"

fun index_of :: "'a \<Rightarrow> 'a list \<Rightarrow> nat" where
  "index_of x [] = 0"
| "index_of x (y # ys) = (if x = y then 0 else Suc (index_of x ys))"

definition GPBDataType_value :: "GPBDataType \<Rightarrow> u8" where
  "GPBDataType_value t = word_of_nat (index_of t GPBDataTypes)"

definition GPBDataType_Count :: nat where
  "GPBDataType_Count = index_of GPBDataTypeEnum GPBDataTypes + 1"

definition kGPBUnrecognizedEnumeratorValue :: u32 where
  "kGPBUnrecognizedEnumeratorValue = 0xFBADBEEF"

datatype GPBFileSyntax = GPBFileSyntaxUnknown | GPBFileSyntaxProto2 | GPBFileSyntaxProto3

fun GPBFileSyntax_value :: "GPBFileSyntax \<Rightarrow> u8" where
  "GPBFileSyntax_value GPBFileSyntaxUnknown = 0"
| "GPBFileSyntax_value GPBFileSyntaxProto2 = 2"
| "GPBFileSyntax_value GPBFileSyntaxProto3 = 3"

datatype GPBWireFormat =
    GPBWireFormatVarint | GPBWireFormatFixed64 | GPBWireFormatLengthDelimited
  | GPBWireFormatStartGroup | GPBWireFormatEndGroup | GPBWireFormatFixed32

fun GPBWireFormat_value :: "GPBWireFormat \<Rightarrow> u32" where
  "GPBWireFormat_value GPBWireFormatVarint = 0"
| "GPBWireFormat_value GPBWireFormatFixed64 = 1"
| "GPBWireFormat_value GPBWireFormatLengthDelimited = 2"
| "GPBWireFormat_value GPBWireFormatStartGroup = 3"
| "GPBWireFormat_value GPBWireFormatEndGroup = 4"
| "GPBWireFormat_value GPBWireFormatFixed32 = 5"

text \<open>The tags of the MessageSet item, over the declared function \<^verbatim>\<open>GPBWireFormatMakeTag\<close>.\<close>

definition GPBWireFormatMessageSetItem :: u32 where "GPBWireFormatMessageSetItem = 1"
definition GPBWireFormatMessageSetTypeId :: u32 where "GPBWireFormatMessageSetTypeId = 2"
definition GPBWireFormatMessageSetMessage :: u32 where "GPBWireFormatMessageSetMessage = 3"

definition GPBWireFormatMessageSetItemTag :: "(u32 \<Rightarrow> GPBWireFormat \<Rightarrow> u32) \<Rightarrow> u32" where
  "GPBWireFormatMessageSetItemTag makeTag = makeTag GPBWireFormatMessageSetItem GPBWireFormatStartGroup"

definition GPBWireFormatMessageSetItemEndTag :: "(u32 \<Rightarrow> GPBWireFormat \<Rightarrow> u32) \<Rightarrow> u32" where
  "GPBWireFormatMessageSetItemEndTag makeTag = makeTag GPBWireFormatMessageSetItem GPBWireFormatEndGroup"

definition GPBWireFormatMessageSetTypeIdTag :: "(u32 \<Rightarrow> GPBWireFormat \<Rightarrow> u32) \<Rightarrow> u32" where
  "GPBWireFormatMessageSetTypeIdTag makeTag = makeTag GPBWireFormatMessageSetTypeId GPBWireFormatVarint"

definition GPBWireFormatMessageSetMessageTag :: "(u32 \<Rightarrow> GPBWireFormat \<Rightarrow> u32) \<Rightarrow> u32" where
  "GPBWireFormatMessageSetMessageTag makeTag =
     makeTag GPBWireFormatMessageSetMessage GPBWireFormatLengthDelimited"

subsection \<open>GPBDescriptor\_PackagePrivate.h\<close>

type_synonym GPBFieldFlags = u16
type_synonym GPBExtensionOptions = u8

definition GPBFieldNone :: GPBFieldFlags where "GPBFieldNone = 0"
definition GPBFieldRequired :: GPBFieldFlags where "GPBFieldRequired = push_bit 0 1"
definition GPBFieldRepeated :: GPBFieldFlags where "GPBFieldRepeated = push_bit 1 1"
definition GPBFieldPacked :: GPBFieldFlags where "GPBFieldPacked = push_bit 2 1"
definition GPBFieldOptional :: GPBFieldFlags where "GPBFieldOptional = push_bit 3 1"
definition GPBFieldHasDefaultValue :: GPBFieldFlags where "GPBFieldHasDefaultValue = push_bit 4 1"
definition GPBFieldTextFormatNameCustom :: GPBFieldFlags where "GPBFieldTextFormatNameCustom = push_bit 6 1"
definition GPBFieldHasEnumDescriptor :: GPBFieldFlags where "GPBFieldHasEnumDescriptor = push_bit 7 1"
definition GPBFieldMapKeyMask :: GPBFieldFlags where "GPBFieldMapKeyMask = push_bit 8 0xF"

text \<open>\<^verbatim>\<open>GPBFieldMapKeyInt32 = 1 << 8\<close> to \<^verbatim>\<open>GPBFieldMapKeyString = 12 << 8\<close>, in order.\<close>

definition GPBFieldMapKeys :: "GPBFieldFlags list" where
  "GPBFieldMapKeys =
     [push_bit 8 1, push_bit 8 2, push_bit 8 3, push_bit 8 4, push_bit 8 5, push_bit 8 6,
      push_bit 8 7, push_bit 8 8, push_bit 8 9, push_bit 8 10, push_bit 8 11, push_bit 8 12]"

record GPBMessageFieldDescription =
  field_number :: u32
  field_hasIndex :: u32
  field_offset :: u32
  field_flags :: GPBFieldFlags
  field_dataType :: GPBDataType

text \<open>The C types of the descriptions, for their sizes.\<close>

definition GPBGenericValue_type :: ctype where
  "GPBGenericValue_type =
     C_union [C_scalar 1, C_scalar 4, C_scalar 8, C_scalar 4, C_scalar 8, C_scalar 4, C_scalar 8,
              C_pointer, C_pointer, C_pointer, C_scalar 4]"

definition GPBMessageFieldDescription_type :: ctype where
  "GPBMessageFieldDescription_type =
     C_struct [C_pointer, C_union [C_pointer, C_pointer, C_pointer], C_scalar 4, C_scalar 4,
               C_scalar 4, C_scalar 2, C_scalar 1]"

definition GPBMessageFieldDescriptionWithDefault_type :: ctype where
  "GPBMessageFieldDescriptionWithDefault_type =
     C_struct [GPBGenericValue_type, GPBMessageFieldDescription_type]"

definition GPBExtensionNone :: GPBExtensionOptions where "GPBExtensionNone = 0"
definition GPBExtensionRepeated :: GPBExtensionOptions where "GPBExtensionRepeated = push_bit 0 1"
definition GPBExtensionPacked :: GPBExtensionOptions where "GPBExtensionPacked = push_bit 1 1"
definition GPBExtensionSetWireFormat :: GPBExtensionOptions where "GPBExtensionSetWireFormat = push_bit 2 1"

record GPBExtensionDescription =
  ext_fieldNumber :: u32
  ext_dataType :: GPBDataType
  ext_options :: GPBExtensionOptions

definition GPBFieldIsMapOrArray :: "GPBMessageFieldDescription \<Rightarrow> bool" where
  "GPBFieldIsMapOrArray f \<longleftrightarrow> field_flags f AND (GPBFieldRepeated OR GPBFieldMapKeyMask) \<noteq> 0"

definition GPBGetFieldDataType :: "GPBMessageFieldDescription \<Rightarrow> GPBDataType" where
  "GPBGetFieldDataType f = field_dataType f"

definition GPBFieldHasIndex :: "GPBMessageFieldDescription \<Rightarrow> u32" where
  "GPBFieldHasIndex f = field_hasIndex f"

definition GPBFieldNumber :: "GPBMessageFieldDescription \<Rightarrow> u32" where
  "GPBFieldNumber f = field_number f"

definition GPBHasPreservingUnknownEnumSemantics :: "GPBFileSyntax \<Rightarrow> bool" where
  "GPBHasPreservingUnknownEnumSemantics syn \<longleftrightarrow> syn = GPBFileSyntaxProto3"

definition GPBExtensionIsRepeated :: "GPBExtensionDescription \<Rightarrow> bool" where
  "GPBExtensionIsRepeated d \<longleftrightarrow> ext_options d AND GPBExtensionRepeated \<noteq> 0"

definition GPBExtensionIsPacked :: "GPBExtensionDescription \<Rightarrow> bool" where
  "GPBExtensionIsPacked d \<longleftrightarrow> ext_options d AND GPBExtensionPacked \<noteq> 0"

definition GPBExtensionIsWireFormat :: "GPBExtensionDescription \<Rightarrow> bool" where
  "GPBExtensionIsWireFormat d \<longleftrightarrow> ext_options d AND GPBExtensionSetWireFormat \<noteq> 0"

subsection \<open>GPBUtilities\_PackagePrivate.h\<close>

definition GPBNoHasBit :: u32 where
  "GPBNoHasBit = 0x7FFFFFFF"

definition GPBLogicalRightShift32 :: "u32 \<Rightarrow> u32 \<Rightarrow> u32 option" where
  "GPBLogicalRightShift32 value spaces =
     (if 0 \<le> sint spaces \<and> sint spaces < 32 then Some (drop_bit (unat spaces) value) else None)"

definition GPBLogicalRightShift64 :: "u64 \<Rightarrow> u32 \<Rightarrow> u64 option" where
  "GPBLogicalRightShift64 value spaces =
     (if 0 \<le> sint spaces \<and> sint spaces < 64 then Some (drop_bit (unat spaces) value) else None)"

definition GPBDecodeZigZag32 :: "u32 \<Rightarrow> u32 option" where
  "GPBDecodeZigZag32 n = map_option (\<lambda>s. s XOR - (n AND 1)) (GPBLogicalRightShift32 n 1)"

definition GPBDecodeZigZag64 :: "u64 \<Rightarrow> u64 option" where
  "GPBDecodeZigZag64 n = map_option (\<lambda>s. s XOR - (n AND 1)) (GPBLogicalRightShift64 n 1)"

definition GPBEncodeZigZag32 :: "u32 \<Rightarrow> u32" where
  "GPBEncodeZigZag32 n = push_bit 1 n XOR signed_drop_bit 31 n"

definition GPBEncodeZigZag64 :: "u64 \<Rightarrow> u64" where
  "GPBEncodeZigZag64 n = push_bit 1 n XOR signed_drop_bit 63 n"

fun GPBDataTypeIsObject :: "GPBDataType \<Rightarrow> bool" where
  "GPBDataTypeIsObject GPBDataTypeBytes = True"
| "GPBDataTypeIsObject GPBDataTypeString = True"
| "GPBDataTypeIsObject GPBDataTypeMessage = True"
| "GPBDataTypeIsObject GPBDataTypeGroup = True"
| "GPBDataTypeIsObject _ = False"

fun GPBDataTypeIsMessage :: "GPBDataType \<Rightarrow> bool" where
  "GPBDataTypeIsMessage GPBDataTypeMessage = True"
| "GPBDataTypeIsMessage GPBDataTypeGroup = True"
| "GPBDataTypeIsMessage _ = False"

definition GPBFieldDataTypeIsMessage :: "GPBMessageFieldDescription \<Rightarrow> bool" where
  "GPBFieldDataTypeIsMessage f = GPBDataTypeIsMessage (field_dataType f)"

definition GPBFieldDataTypeIsObject :: "GPBMessageFieldDescription \<Rightarrow> bool" where
  "GPBFieldDataTypeIsObject f = GPBDataTypeIsObject (field_dataType f)"

definition GPBExtensionIsMessage :: "GPBExtensionDescription \<Rightarrow> bool" where
  "GPBExtensionIsMessage e = GPBDataTypeIsMessage (ext_dataType e)"

definition GPBFieldStoresObject :: "GPBMessageFieldDescription \<Rightarrow> bool" where
  "GPBFieldStoresObject f =
     (if field_flags f AND (GPBFieldRepeated OR GPBFieldMapKeyMask) \<noteq> 0 then True
      else GPBDataTypeIsObject (field_dataType f))"

text \<open>The has-bit accessors forward to the functions \<^verbatim>\<open>GPBGetHasIvar\<close> and \<^verbatim>\<open>GPBSetHasIvar\<close>.\<close>

definition GPBGetHasIvarField ::
    "('m \<Rightarrow> u32 \<Rightarrow> u32 \<Rightarrow> bool) \<Rightarrow> 'm \<Rightarrow> GPBMessageFieldDescription \<Rightarrow> bool" where
  "GPBGetHasIvarField getHasIvar self f = getHasIvar self (field_hasIndex f) (field_number f)"

definition GPBSetHasIvarField ::
    "('m \<Rightarrow> u32 \<Rightarrow> u32 \<Rightarrow> bool \<Rightarrow> 'm) \<Rightarrow> 'm \<Rightarrow> GPBMessageFieldDescription \<Rightarrow> bool \<Rightarrow> 'm" where
  "GPBSetHasIvarField setHasIvar self f v = setHasIvar self (field_hasIndex f) (field_number f) v"

subsection \<open>ZigZag encoding at any width\<close>

definition zigzag_enc :: "'a::len word \<Rightarrow> 'a word" where
  "zigzag_enc n = push_bit 1 n XOR signed_drop_bit (LENGTH('a) - 1) n"

definition zigzag_dec :: "'a::len word \<Rightarrow> 'a word" where
  "zigzag_dec n = drop_bit 1 n XOR - (n AND 1)"

lemma zigzag_enc_cases:
  fixes n :: "'a::len word"
  shows "zigzag_enc n = (if sint n < 0 then NOT (push_bit 1 n) else push_bit 1 n)"
  by (simp add: zigzag_enc_def signed_drop_bit_sign sint_neg_iff_bit)

lemma zigzag_enc_int:
  fixes n :: "'a::len word"
  shows "zigzag_enc n = word_of_int (if sint n < 0 then - 2 * sint n - 1 else 2 * sint n)"
proof -
  have "push_bit 1 n = word_of_int (2 * sint n)" by (simp add: push_bit_eq_mult)
  then show ?thesis by (simp add: zigzag_enc_cases not_eq_complement algebra_simps)
qed

lemma zigzag_enc_uint:
  fixes n :: "'a::len word"
  shows "uint (zigzag_enc n) = (if sint n < 0 then - 2 * sint n - 1 else 2 * sint n)"
proof -
  let ?k = "if sint n < 0 then - 2 * sint n - 1 else 2 * sint n"
  obtain m where m: "LENGTH('a) = Suc m" by (cases "LENGTH('a)") auto
  have "- (2 ^ m) \<le> sint n" and "sint n < 2 ^ m"
    using sint_greater_eq [of n] sint_less [of n] by (simp_all add: m)
  then have "0 \<le> ?k" and "?k < 2 ^ LENGTH('a)" by (auto simp: m)
  then show ?thesis
    unfolding zigzag_enc_int by (simp add: uint_word_of_int take_bit_int_eq_self)
qed

lemma zigzag_dec_enc: "zigzag_dec (zigzag_enc (n :: 'a::len word)) = n"
proof (cases "sint n < 0")
  case True
  have "NOT (push_bit 1 n) AND 1 = 1"
    by (rule bit_word_eqI) (auto simp: bit_simps bit_0)
  moreover have "NOT (drop_bit 1 (NOT (push_bit 1 n))) = n"
    using True bit_top_or_below [where 'a='a]
    by (intro bit_word_eqI) (auto simp: bit_simps bit_double_Suc sint_neg_iff_bit [symmetric])
  ultimately show ?thesis using True by (simp add: zigzag_dec_def zigzag_enc_cases)
next
  case False
  have "push_bit 1 n AND 1 = 0"
    by (simp add: and_one_eq even_iff_mod_2_eq_zero [symmetric])
  moreover have "drop_bit 1 (push_bit 1 n) = n"
    using False bit_top_or_below [where 'a='a]
    by (intro bit_word_eqI) (auto simp: bit_simps bit_double_Suc sint_neg_iff_bit [symmetric])
  ultimately show ?thesis using False by (simp add: zigzag_dec_def zigzag_enc_cases)
qed

lemma zigzag_enc_dec: "zigzag_enc (zigzag_dec n) = n" for n :: "'a::len word"
proof -
  have "inj (zigzag_enc :: 'a word \<Rightarrow> 'a word)"
    by (rule injI) (metis zigzag_dec_enc)
  then have "surj (zigzag_enc :: 'a word \<Rightarrow> 'a word)"
    by (simp add: finite_UNIV_inj_surj)
  then obtain m where "n = zigzag_enc m" by (auto simp: surj_def)
  then show ?thesis by (simp add: zigzag_dec_enc)
qed

lemma GPBEncodeZigZag32_zigzag: "GPBEncodeZigZag32 = zigzag_enc"
  by (rule ext) (simp add: GPBEncodeZigZag32_def zigzag_enc_def)

lemma GPBEncodeZigZag64_zigzag: "GPBEncodeZigZag64 = zigzag_enc"
  by (rule ext) (simp add: GPBEncodeZigZag64_def zigzag_enc_def)

lemma GPBDecodeZigZag32_zigzag: "GPBDecodeZigZag32 n = Some (zigzag_dec n)"
  by (simp add: GPBDecodeZigZag32_def GPBLogicalRightShift32_def zigzag_dec_def)

lemma GPBDecodeZigZag64_zigzag: "GPBDecodeZigZag64 n = Some (zigzag_dec n)"
  by (simp add: GPBDecodeZigZag64_def GPBLogicalRightShift64_def zigzag_dec_def)

interpretation zigzag32: total_codec GPBEncodeZigZag32 GPBDecodeZigZag32
  by unfold_locales
    (simp_all add: GPBEncodeZigZag32_zigzag GPBDecodeZigZag32_zigzag zigzag_dec_enc zigzag_enc_dec)

interpretation zigzag64: total_codec GPBEncodeZigZag64 GPBDecodeZigZag64
  by unfold_locales
    (simp_all add: GPBEncodeZigZag64_zigzag GPBDecodeZigZag64_zigzag zigzag_dec_enc zigzag_enc_dec)

subsection \<open>Properties\<close>

text \<open>
  (C40) The ZigZag routines of the coded streams are inverse bijections at both widths: decoding is
  defined on every word and gives \<open>n\<close> exactly on the encoding of \<open>n\<close>. The encoding maps a signed
  value \<open>v\<close> to \<open>2 v\<close> when it is not negative and to \<open>- 2 v - 1\<close> when it is, so that values
  of small magnitude get short varints.
\<close>

theorem zigzag_codec:
  "(GPBDecodeZigZag32 y = Some n \<longleftrightarrow> y = GPBEncodeZigZag32 n) \<and>
   (GPBDecodeZigZag64 y' = Some n' \<longleftrightarrow> y' = GPBEncodeZigZag64 n') \<and>
   bij GPBEncodeZigZag32 \<and> bij GPBEncodeZigZag64 \<and>
   uint (GPBEncodeZigZag32 n) = (if sint n < 0 then - 2 * sint n - 1 else 2 * sint n) \<and>
   uint (GPBEncodeZigZag64 n') = (if sint n' < 0 then - 2 * sint n' - 1 else 2 * sint n')"
  using zigzag_enc_uint [of n] zigzag_enc_uint [of n'] zigzag32.bij_enc zigzag64.bij_enc
  by (simp add: zigzag32.dec_Some_iff zigzag64.dec_Some_iff
      GPBEncodeZigZag32_zigzag GPBEncodeZigZag64_zigzag)

lemma flag_values:
  "GPBFieldRequired = 1" "GPBFieldRepeated = 2" "GPBFieldPacked = 4" "GPBFieldOptional = 8"
  "GPBFieldHasDefaultValue = 16" "GPBFieldTextFormatNameCustom = 64" "GPBFieldHasEnumDescriptor = 128"
  "GPBFieldMapKeyMask = 0xF00"
  by (simp_all add: GPBFieldRequired_def GPBFieldRepeated_def GPBFieldPacked_def GPBFieldOptional_def
      GPBFieldHasDefaultValue_def GPBFieldTextFormatNameCustom_def GPBFieldHasEnumDescriptor_def
      GPBFieldMapKeyMask_def)

lemma map_key_values:
  "GPBFieldMapKeys = [0x100, 0x200, 0x300, 0x400, 0x500, 0x600, 0x700, 0x800, 0x900, 0xA00, 0xB00, 0xC00]"
  by (simp add: GPBFieldMapKeys_def)

lemma stores_object_cases:
  "GPBFieldStoresObject f \<longleftrightarrow> GPBFieldIsMapOrArray f \<or> GPBFieldDataTypeIsObject f"
  by (simp add: GPBFieldStoresObject_def GPBFieldIsMapOrArray_def GPBFieldDataTypeIsObject_def)

lemma message_is_object: "GPBDataTypeIsMessage t \<Longrightarrow> GPBDataTypeIsObject t"
  by (cases t) auto

text \<open>
  A field stores an object exactly when it is a map, an array or has an object type, and a
  message field always does. The bits that describe a field do not overlap: each single flag and
  the map key nibble can be read back from any combination, and the twelve map key types are
  distinct values of that nibble.
\<close>

theorem field_description_flags:
  "(GPBFieldStoresObject f \<longleftrightarrow> GPBFieldIsMapOrArray f \<or> GPBFieldDataTypeIsObject f) \<and>
   {f. GPBFieldDataTypeIsMessage f} \<subseteq> {f. GPBFieldStoresObject f} \<and>
   pairwise (\<lambda>a b. a AND b = 0)
     {GPBFieldRequired, GPBFieldRepeated, GPBFieldPacked, GPBFieldOptional, GPBFieldHasDefaultValue,
      GPBFieldTextFormatNameCustom, GPBFieldHasEnumDescriptor, GPBFieldMapKeyMask} \<and>
   list_all (\<lambda>k. k AND GPBFieldMapKeyMask = k) GPBFieldMapKeys \<and> distinct (GPBFieldNone # GPBFieldMapKeys)"
  by (auto simp: stores_object_cases GPBFieldDataTypeIsMessage_def GPBFieldDataTypeIsObject_def
      message_is_object flag_values map_key_values pairwise_insert GPBFieldNone_def)

text \<open>
  The compile-time assertion of \<^verbatim>\<open>GPBDescriptor_PackagePrivate.h\<close> holds for 4-byte and for 8-byte
  pointers: there is no padding between the default value and the field description that follows it.
\<close>

theorem description_with_default_size:
  "csize 8 GPBMessageFieldDescriptionWithDefault_type =
     csize 8 GPBGenericValue_type + csize 8 GPBMessageFieldDescription_type \<and>
   csize 4 GPBMessageFieldDescriptionWithDefault_type =
     csize 4 GPBGenericValue_type + csize 4 GPBMessageFieldDescription_type"
  by (simp add: numeral_2_eq_2 [symmetric] GPBMessageFieldDescriptionWithDefault_type_def GPBGenericValue_type_def
      GPBMessageFieldDescription_type_def round_up_def)

end
