(* ===== verification/BackSwizzling.thy ===== *)
theory BackSwizzling
  imports Prelude
begin

section \<open>The back button hook of UINavigationController\<close>

text \<open>
  Model of \<^verbatim>\<open>SafeUIKit/SafeAppUI/MainFlow/Menu/ReplaceTwoFA/Intro/Common/UINavigationController+BackSwizzling.m\<close>:
  the category's \<^verbatim>\<open>+load\<close>, which exchanges two methods once, and the replacement method, which runs the
  action of the previous item's back button when the bar is about to pop. Of the Objective-C
  runtime it has the method tables of a class and of its superclasses, the five runtime
  functions the code calls, message sending (with fuel, since an implementation may send to itself) and
  the rule that a message to \<open>nil\<close> returns zero. The implementations of the framework's own
  methods and the action of a button are arguments.
\<close>

subsection \<open>The runtime\<close>

type_synonym sel = string

datatype imp = IMP_xxx_navigationBar_shouldPopItem | IMP_native nat

record Method =
  method_imp :: "imp option"
  method_types :: string

text \<open>A class is its own method table followed by those of its superclasses.\<close>

type_synonym objc_class = "(sel \<rightharpoonup> Method) list"

text \<open>A \<^verbatim>\<open>Method\<close> points into the table of the class that defines it: the depth of the class and the selector.\<close>

type_synonym method_ref = "nat \<times> sel"

fun class_getInstanceMethod :: "objc_class \<Rightarrow> sel \<Rightarrow> method_ref option" where
  "class_getInstanceMethod [] s = None"
| "class_getInstanceMethod (t # ts) s =
     (if t s \<noteq> None then Some (0, s)
      else map_option (\<lambda>(d, s'). (Suc d, s')) (class_getInstanceMethod ts s))"

definition method_at :: "objc_class \<Rightarrow> method_ref option \<Rightarrow> Method option" where
  "method_at c m =
     (case m of None \<Rightarrow> None | Some (d, s) \<Rightarrow> if d < length c then (c ! d) s else None)"

definition method_getImplementation :: "objc_class \<Rightarrow> method_ref option \<Rightarrow> imp option" where
  "method_getImplementation c m = Option.bind (method_at c m) method_imp"

definition method_getTypeEncoding :: "objc_class \<Rightarrow> method_ref option \<Rightarrow> string" where
  "method_getTypeEncoding c m = (case method_at c m of None \<Rightarrow> [] | Some x \<Rightarrow> method_types x)"

fun class_addMethod :: "objc_class \<Rightarrow> sel \<Rightarrow> imp option \<Rightarrow> string \<Rightarrow> bool \<times> objc_class" where
  "class_addMethod [] s i ty = (False, [])"
| "class_addMethod (t # ts) s i ty =
     (if t s \<noteq> None then (False, t # ts)
      else (True, t(s \<mapsto> \<lparr>method_imp = i, method_types = ty\<rparr>) # ts))"

text \<open>Replacing an existing method keeps its type encoding and ignores a null implementation.\<close>

fun class_replaceMethod :: "objc_class \<Rightarrow> sel \<Rightarrow> imp option \<Rightarrow> string \<Rightarrow> objc_class" where
  "class_replaceMethod [] s i ty = []"
| "class_replaceMethod (t # ts) s i ty =
     (case t s of
        None \<Rightarrow> t(s \<mapsto> \<lparr>method_imp = i, method_types = ty\<rparr>) # ts
      | Some m \<Rightarrow> (if i = None then t else t(s \<mapsto> m\<lparr>method_imp := i\<rparr>)) # ts)"

definition set_imp :: "objc_class \<Rightarrow> method_ref \<Rightarrow> imp option \<Rightarrow> objc_class" where
  "set_imp c r i =
     (case r of (d, s) \<Rightarrow>
        if d < length c
        then c[d := (c ! d)(s := map_option (\<lambda>m. m\<lparr>method_imp := i\<rparr>) ((c ! d) s))] else c)"

definition method_exchangeImplementations ::
    "objc_class \<Rightarrow> method_ref option \<Rightarrow> method_ref option \<Rightarrow> objc_class" where
  "method_exchangeImplementations c m1 m2 =
     (case (m1, m2) of
        (Some r1, Some r2) \<Rightarrow>
          set_imp (set_imp c r1 (method_getImplementation c m2)) r2 (method_getImplementation c m1)
      | _ \<Rightarrow> c)"

definition class_imp :: "objc_class \<Rightarrow> sel \<Rightarrow> imp option" where
  "class_imp c s = method_getImplementation c (class_getInstanceMethod c s)"

subsection \<open>The category\<close>

definition originalSelector :: sel where
  "originalSelector = ''navigationBar:shouldPopItem:''"

definition swizzledSelector :: sel where
  "swizzledSelector = ''xxx_navigationBar:shouldPopItem:''"

text \<open>The block that \<^verbatim>\<open>+load\<close> passes to \<^verbatim>\<open>dispatch_once\<close>.\<close>

definition swizzle_block :: "objc_class \<Rightarrow> objc_class" where
  "swizzle_block class =
     (let originalMethod = class_getInstanceMethod class originalSelector;
          swizzledMethod = class_getInstanceMethod class swizzledSelector;
          (didAddMethod, class1) =
            class_addMethod class originalSelector (method_getImplementation class swizzledMethod)
              (method_getTypeEncoding class swizzledMethod)
      in if didAddMethod
         then class_replaceMethod class1 swizzledSelector
                (method_getImplementation class1 originalMethod)
                (method_getTypeEncoding class1 originalMethod)
         else method_exchangeImplementations class1 originalMethod swizzledMethod)"

record runtime =
  onceToken :: bool
  navigationController :: objc_class

definition load :: "runtime \<Rightarrow> runtime" where
  "load r =
     (if onceToken r then r
      else \<lparr>onceToken = True, navigationController = swizzle_block (navigationController r)\<rparr>)"

record barButton =
  action :: "sel option"
  button_target :: "nat option"

record navItem =
  item_id :: nat
  backBarButtonItem :: "barButton option"

record navBar =
  bar_items :: "navItem list option"

text \<open>\<^verbatim>\<open>indexOfObject:\<close> on an array; \<open>None\<close> is \<^verbatim>\<open>NSNotFound\<close>. Sent to \<open>nil\<close> it returns 0.\<close>

fun indexOfObject :: "navItem list \<Rightarrow> navItem \<Rightarrow> nat option" where
  "indexOfObject [] x = None"
| "indexOfObject (y # ys) x =
     (if item_id y = item_id x then Some 0 else map_option Suc (indexOfObject ys x))"

definition items_index :: "navBar \<Rightarrow> navItem \<Rightarrow> nat option" where
  "items_index bar item =
     (case bar_items bar of None \<Rightarrow> Some 0 | Some its \<Rightarrow> indexOfObject its item)"

text \<open>What the replacement does after the original method has answered.\<close>

definition back_action ::
    "(nat \<Rightarrow> sel \<Rightarrow> barButton \<Rightarrow> 'w \<Rightarrow> 'w) \<Rightarrow> navBar \<Rightarrow> navItem \<Rightarrow> 'w \<Rightarrow> 'w" where
  "back_action perform bar item w =
     (case items_index bar item of
        None \<Rightarrow> w
      | Some i \<Rightarrow>
          if i < 1 then w
          else case bar_items bar of
              None \<Rightarrow> w
            | Some its \<Rightarrow>
                (case backBarButtonItem (its ! (i - 1)) of
                   None \<Rightarrow> w
                 | Some b \<Rightarrow>
                     (case (button_target b, action b) of
                        (Some t, Some selector) \<Rightarrow> perform t selector b w
                      | _ \<Rightarrow> w)))"

text \<open>
  Sending a selector of the delegate protocol to the controller. The outcome is \<open>None\<close> when the
  fuel is used up, \<open>Some None\<close> for an unrecognized selector and \<open>Some (Some r)\<close> for a return.
\<close>

fun send ::
    "(nat \<Rightarrow> navBar \<Rightarrow> navItem \<Rightarrow> 'w \<Rightarrow> bool \<times> 'w) \<Rightarrow> (nat \<Rightarrow> sel \<Rightarrow> barButton \<Rightarrow> 'w \<Rightarrow> 'w) \<Rightarrow>
     objc_class \<Rightarrow> nat \<Rightarrow> sel \<Rightarrow> navBar \<Rightarrow> navItem \<Rightarrow> 'w \<Rightarrow> (bool \<times> 'w) option option" where
  "send native perform c 0 s bar item w = None"
| "send native perform c (Suc fuel) s bar item w =
     (case class_imp c s of
        None \<Rightarrow> Some None
      | Some (IMP_native k) \<Rightarrow> Some (Some (native k bar item w))
      | Some IMP_xxx_navigationBar_shouldPopItem \<Rightarrow>
          (case send native perform c fuel swizzledSelector bar item w of
             None \<Rightarrow> None
           | Some None \<Rightarrow> Some None
           | Some (Some (shouldPop, w1)) \<Rightarrow>
               if \<not> shouldPop then Some (Some (shouldPop, w1))
               else Some (Some (shouldPop, back_action perform bar item w1))))"

subsection \<open>Looking up and exchanging implementations\<close>

text \<open>
  The class as the linker leaves it: the category's method is in the class's own table and the
  original selector is implemented by the framework, in the class or in a superclass.
\<close>

definition linked :: "objc_class \<Rightarrow> nat \<Rightarrow> bool" where
  "linked c k \<longleftrightarrow>
     c \<noteq> [] \<and> map_option method_imp (hd c swizzledSelector) = Some (Some IMP_xxx_navigationBar_shouldPopItem) \<and>
     class_imp c originalSelector = Some (IMP_native k)"

lemma selectors_differ [simp]: "originalSelector \<noteq> swizzledSelector" "swizzledSelector \<noteq> originalSelector"
  by (simp_all add: originalSelector_def swizzledSelector_def)

lemma method_at_Suc:
  "method_at (t # ts) (map_option (\<lambda>(d, s'). (Suc d, s')) m) = method_at ts m"
  by (cases m) (auto simp: method_at_def)

lemma class_imp_Nil [simp]: "class_imp [] s = None"
  by (simp add: class_imp_def method_getImplementation_def method_at_def)

lemma class_imp_Cons [simp]:
  "class_imp (t # ts) s = (case t s of None \<Rightarrow> class_imp ts s | Some m \<Rightarrow> method_imp m)"
proof (cases "t s")
  case None
  then show ?thesis by (simp add: class_imp_def method_getImplementation_def method_at_Suc)
next
  case (Some m)
  then show ?thesis by (simp add: class_imp_def method_getImplementation_def method_at_def)
qed

lemma imp_found:
  "class_imp c s = Some i \<Longrightarrow>
     method_getImplementation c (class_getInstanceMethod c s) = Some i"
  by (simp add: class_imp_def)

lemma own_method [simp]:
  "t s = Some m \<Longrightarrow> class_getInstanceMethod (t # ts) s = Some (0, s)"
  "t s = Some m \<Longrightarrow> method_at (t # ts) (Some (0, s)) = Some m"
  by (simp_all add: method_at_def)

lemma inherited_after_add:
  assumes "t s = None"
  shows "method_getImplementation (t(s \<mapsto> m) # ts) (class_getInstanceMethod (t # ts) s) = class_imp ts s"
  using assms by (simp add: method_getImplementation_def method_at_Suc class_imp_def)

lemma swizzle_block_inherited:
  assumes "t originalSelector = None" "t swizzledSelector = Some m" "method_imp m = Some i"
    and "class_imp ts originalSelector = Some j"
  shows "swizzle_block (t # ts) =
    t(originalSelector \<mapsto> \<lparr>method_imp = Some i, method_types = method_types m\<rparr>,
      swizzledSelector \<mapsto> m\<lparr>method_imp := Some j\<rparr>) # ts"
  using assms inherited_after_add [of t originalSelector, OF assms(1)]
  by (simp add: swizzle_block_def method_getImplementation_def method_getTypeEncoding_def)

lemma swizzle_block_own:
  assumes "t originalSelector = Some mo" "t swizzledSelector = Some m"
  shows "swizzle_block (t # ts) =
    t(originalSelector \<mapsto> mo\<lparr>method_imp := method_imp m\<rparr>,
      swizzledSelector \<mapsto> m\<lparr>method_imp := method_imp mo\<rparr>) # ts"
  using assms
  by (simp add: swizzle_block_def method_exchangeImplementations_def method_getImplementation_def
      set_imp_def Let_def)

lemma linkedE:
  assumes "linked c k"
  obtains t ts m where "c = t # ts" "t swizzledSelector = Some m"
    "method_imp m = Some IMP_xxx_navigationBar_shouldPopItem"
    "class_imp c originalSelector = Some (IMP_native k)"
  using assms by (cases c) (auto simp: linked_def)

lemma swizzle_block_cases:
  assumes "linked c k"
  obtains t ts m mo where "c = t # ts" "t swizzledSelector = Some m"
    "swizzle_block c = t(originalSelector \<mapsto> mo\<lparr>method_imp := Some IMP_xxx_navigationBar_shouldPopItem\<rparr>,
      swizzledSelector \<mapsto> m\<lparr>method_imp := Some (IMP_native k)\<rparr>) # ts"
proof -
  from assms obtain t ts m where c: "c = t # ts" "t swizzledSelector = Some m"
    and m: "method_imp m = Some IMP_xxx_navigationBar_shouldPopItem"
    and k: "class_imp c originalSelector = Some (IMP_native k)" by (rule linkedE)
  show thesis
  proof (cases "t originalSelector")
    case None
    with c m k have "swizzle_block c =
      t(originalSelector \<mapsto> \<lparr>method_imp = Some IMP_xxx_navigationBar_shouldPopItem, method_types = method_types m\<rparr>,
        swizzledSelector \<mapsto> m\<lparr>method_imp := Some (IMP_native k)\<rparr>) # ts"
      by (simp add: swizzle_block_inherited)
    then show thesis using c that [of t ts m "\<lparr>method_imp = None, method_types = method_types m\<rparr>"] by simp
  next
    case (Some mo)
    with c m k have "swizzle_block c =
      t(originalSelector \<mapsto> mo\<lparr>method_imp := Some IMP_xxx_navigationBar_shouldPopItem\<rparr>,
        swizzledSelector \<mapsto> m\<lparr>method_imp := Some (IMP_native k)\<rparr>) # ts"
      by (simp add: swizzle_block_own)
    then show thesis using c that by blast
  qed
qed

lemma swizzled_lookup:
  assumes "linked c k"
  shows "class_imp (swizzle_block c) s =
    (if s = originalSelector then Some IMP_xxx_navigationBar_shouldPopItem
     else if s = swizzledSelector then Some (IMP_native k) else class_imp c s)"
  using assms by (rule swizzle_block_cases) auto

lemma swizzled_superclasses: "linked c k \<Longrightarrow> tl (swizzle_block c) = tl c"
  by (erule swizzle_block_cases) auto

text \<open>Run a second time the block takes the hook out again: \<^verbatim>\<open>dispatch_once\<close> is what keeps it in.\<close>

lemma swizzle_block_twice:
  assumes "linked c k"
  shows "class_imp (swizzle_block (swizzle_block c)) s = class_imp c s"
proof -
  from assms obtain t ts m mo where c: "c = t # ts" "t swizzledSelector = Some m"
    and s1: "swizzle_block c = t(originalSelector \<mapsto> mo\<lparr>method_imp := Some IMP_xxx_navigationBar_shouldPopItem\<rparr>,
      swizzledSelector \<mapsto> m\<lparr>method_imp := Some (IMP_native k)\<rparr>) # ts"
    by (rule swizzle_block_cases)
  from assms c have "class_imp c originalSelector = Some (IMP_native k)"
    "method_imp m = Some IMP_xxx_navigationBar_shouldPopItem" by (auto simp: linked_def)
  then show ?thesis unfolding s1 using c by (auto simp: swizzle_block_own)
qed

lemma indexOfObject_props:
  "indexOfObject its x = Some i \<Longrightarrow>
     i < length its \<and> item_id (its ! i) = item_id x \<and> (\<forall>j<i. item_id (its ! j) \<noteq> item_id x)"
proof (induction its arbitrary: i)
  case (Cons y ys)
  then show ?case by (auto simp: less_Suc_eq_0_disj split: if_splits)
qed simp

lemma send_once:
  assumes "onceToken r = False" "linked (navigationController r) k"
  shows "send native perform (navigationController (load r)) (Suc (Suc n)) originalSelector bar item w =
    (let (shouldPop, w1) = native k bar item w
     in Some (Some (shouldPop, if shouldPop then back_action perform bar item w1 else w1)))"
  using assms by (simp add: load_def swizzled_lookup split: prod.splits)

lemma load_load: "load (load r) = load r"
  by (simp add: load_def)

lemma load_funpow: "(load ^^ Suc n) r = load r"
  by (induction n) (simp_all add: load_load)

text \<open>When the button's action runs: exactly for an item that has a predecessor with target and action.\<close>

lemma back_action_cases:
  "back_action perform bar item w = w \<or>
   (\<exists>its i b t s. bar_items bar = Some its \<and> Suc i < length its \<and> item_id (its ! Suc i) = item_id item \<and>
      backBarButtonItem (its ! i) = Some b \<and> button_target b = Some t \<and> action b = Some s \<and>
      back_action perform bar item w = perform t s b w)"
proof (cases "bar_items bar")
  case None
  then show ?thesis by (simp add: back_action_def items_index_def)
next
  case (Some its)
  show ?thesis
  proof (cases "indexOfObject its item")
    case None
    with Some show ?thesis by (simp add: back_action_def items_index_def)
  next
    case (Some j)
    show ?thesis
    proof (cases j)
      case 0
      with Some \<open>bar_items bar = Some its\<close> show ?thesis by (simp add: back_action_def items_index_def)
    next
      case (Suc i)
      with Some \<open>bar_items bar = Some its\<close> indexOfObject_props [OF Some] show ?thesis
        by (auto simp: back_action_def items_index_def split: option.splits)
    qed
  qed
qed

text \<open>
  (C39) However often the runtime runs \<^verbatim>\<open>+load\<close>, the hook is installed exactly once. A \<^verbatim>\<open>shouldPopItem\<close>
  message then returns (two nested sends are enough, so the method does not call itself again and again)
  the answer of the framework's own implementation, and runs the back button's action after it, and
  only if that answer is yes. Every other selector of the class and all tables of its superclasses
  stay as they were, also when the original method is inherited.
\<close>

theorem back_hook_installed_once:
  assumes "\<not> onceToken r" and "linked (navigationController r) k"
  shows "send native perform (navigationController ((load ^^ Suc n) r)) (Suc (Suc fuel)) originalSelector bar item w =
      (let (shouldPop, w1) = native k bar item w
       in Some (Some (shouldPop, if shouldPop then back_action perform bar item w1 else w1))) \<and>
    tl (navigationController ((load ^^ Suc n) r)) = tl (navigationController r) \<and>
    (\<forall>s. class_imp (navigationController ((load ^^ Suc n) r)) s =
       (if s = originalSelector then Some IMP_xxx_navigationBar_shouldPopItem
        else if s = swizzledSelector then Some (IMP_native k)
        else class_imp (navigationController r) s))"
  unfolding load_funpow using assms
  by (simp only: send_once) (simp add: load_def swizzled_lookup swizzled_superclasses)

definition sample_class :: objc_class where
  "sample_class =
     [Map.empty(swizzledSelector \<mapsto>
        \<lparr>method_imp = Some IMP_xxx_navigationBar_shouldPopItem, method_types = ''c32''\<rparr>),
      Map.empty(originalSelector \<mapsto> \<lparr>method_imp = Some (IMP_native 7), method_types = ''c32''\<rparr>)]"

theorem back_hook_installed_once_witness:
  "send (\<lambda>k bar item w. (k = 7, w @ [k])) (\<lambda>t s b w. w @ [t])
     (navigationController ((load ^^ Suc 1) \<lparr>onceToken = False, navigationController = sample_class\<rparr>))
     (Suc (Suc 0)) originalSelector
     \<lparr>bar_items = Some [\<lparr>item_id = 1, backBarButtonItem =
         Some \<lparr>action = Some ''back'', button_target = Some 42\<rparr>\<rparr>,
       \<lparr>item_id = 2, backBarButtonItem = None\<rparr>]\<rparr>
     \<lparr>item_id = 2, backBarButtonItem = None\<rparr> [] = Some (Some (True, [7, 42]))"
proof -
  let ?r = "\<lparr>onceToken = False, navigationController = sample_class\<rparr>"
  have "\<not> onceToken ?r" "linked (navigationController ?r) 7"
    by (simp_all add: linked_def sample_class_def)
  note hook = back_hook_installed_once [OF this, THEN conjunct1]
  show ?thesis by (subst hook) (simp add: back_action_def items_index_def)
qed

end
