(* ===== verification/FrameworkHeaders.thy ===== *)
theory FrameworkHeaders
  imports Prelude
begin

section \<open>The umbrella headers of the frameworks\<close>

text \<open>
  Each framework of the app has an umbrella header that exports two symbols: its version number, a
  \<^verbatim>\<open>double\<close>, and its version string, an array of \<^verbatim>\<open>unsigned char\<close>. The app links all of them into one
  process, so the names have to differ.
\<close>

datatype export_type = Double | ConstUnsignedCharArray

type_synonym export = "string \<times> export_type"

definition Common_h :: "export list" where
  "Common_h =
     [(''CommonVersionNumber'', Double), (''CommonVersionString'', ConstUnsignedCharArray)]"

definition CommonImplementations_h :: "export list" where
  "CommonImplementations_h =
     [(''CommonImplementationsVersionNumber'', Double), (''CommonImplementationsVersionString'', ConstUnsignedCharArray)]"

definition CommonTestSupport_h :: "export list" where
  "CommonTestSupport_h =
     [(''CommonTestSupportVersionNumber'', Double), (''CommonTestSupportVersionString'', ConstUnsignedCharArray)]"

definition Database_h :: "export list" where
  "Database_h =
     [(''DatabaseVersionNumber'', Double), (''DatabaseVersionString'', ConstUnsignedCharArray)]"

definition IdentityAccessApplication_h :: "export list" where
  "IdentityAccessApplication_h =
     [(''IdentityAccessApplicationVersionNumber'', Double), (''IdentityAccessApplicationVersionString'', ConstUnsignedCharArray)]"

definition IdentityAccessDomainModel_h :: "export list" where
  "IdentityAccessDomainModel_h =
     [(''IdentityAccessDomainModelVersionNumber'', Double), (''IdentityAccessDomainModelVersionString'', ConstUnsignedCharArray)]"

definition IdentityAccessImplementations_h :: "export list" where
  "IdentityAccessImplementations_h =
     [(''IdentityAccessImplementationsVersionNumber'', Double), (''IdentityAccessImplementationsVersionString'', ConstUnsignedCharArray)]"

definition MultisigWalletApplication_h :: "export list" where
  "MultisigWalletApplication_h =
     [(''MultisigWalletApplicationVersionNumber'', Double), (''MultisigWalletApplicationVersionString'', ConstUnsignedCharArray)]"

definition MultisigWalletDomainModel_h :: "export list" where
  "MultisigWalletDomainModel_h =
     [(''MultisigWalletDomainModelVersionNumber'', Double), (''MultisigWalletDomainModelVersionString'', ConstUnsignedCharArray)]"

definition MultisigWalletImplementations_h :: "export list" where
  "MultisigWalletImplementations_h =
     [(''MultisigWalletImplementationsVersionNumber'', Double), (''MultisigWalletImplementationsVersionString'', ConstUnsignedCharArray)]"

definition SafeAppUI_h :: "export list" where
  "SafeAppUI_h =
     [(''SafeAppUIVersionNumber'', Double), (''SafeAppUIVersionString'', ConstUnsignedCharArray)]"

definition safeUIKit_h :: "export list" where
  "safeUIKit_h =
     [(''SafeUIKitVersionNumber'', Double), (''SafeUIKitVersionString'', ConstUnsignedCharArray)]"

definition framework_exports :: "export list" where
  "framework_exports =
     concat [Common_h, CommonImplementations_h, CommonTestSupport_h,
       Database_h, IdentityAccessApplication_h, IdentityAccessDomainModel_h,
       IdentityAccessImplementations_h, MultisigWalletApplication_h, MultisigWalletDomainModel_h,
       MultisigWalletImplementations_h, SafeAppUI_h, safeUIKit_h]"

lemmas header_defs =
  Common_h_def
  CommonImplementations_h_def
  CommonTestSupport_h_def
  Database_h_def
  IdentityAccessApplication_h_def
  IdentityAccessDomainModel_h_def
  IdentityAccessImplementations_h_def
  MultisigWalletApplication_h_def
  MultisigWalletDomainModel_h_def
  MultisigWalletImplementations_h_def
  SafeAppUI_h_def
  safeUIKit_h_def

text \<open>
  The frameworks export different symbols: the names of all umbrella headers together are
  distinct, so linking them into one process gives every header its own version symbols.
\<close>

theorem framework_symbols_distinct:
  "distinct (map fst framework_exports) \<and> length framework_exports = 24"
  by (simp add: framework_exports_def header_defs)

end
