(* ===== verification/Bytes.thy ===== *)
theory Bytes
  imports Prelude
begin

section \<open>Byte strings, hexadecimal strings and addresses\<close>

text \<open>
  The data types under the contract encodings: \<^verbatim>\<open>Data\<close> as a list of bytes (an unsliced value, whose
  first index is 0), \<^verbatim>\<open>String\<close> as a list of ASCII characters, \<^verbatim>\<open>Data+InitWithHex.swift\<close>, \<^verbatim>\<open>Data+Padding.swift\<close>,
  \<^verbatim>\<open>BigInt+Hex.swift\<close> and the struct \<^verbatim>\<open>Address\<close>. The packages CryptoSwift and BigInt and the hash function are
  not part of the repository: they are the fields of the record \<open>packages\<close>, and \<open>packages_ok\<close>
  states what their documentation promises. Unbounded integers of BigInt are \<open>nat\<close> and \<open>int\<close>.
\<close>

type_synonym data = "u8 list"

record packages =
  Data_hex :: "string \<Rightarrow> data"
  toHexString :: "data \<Rightarrow> string"
  String_radix16 :: "nat \<Rightarrow> string"
  BigUInt_data :: "data \<Rightarrow> nat"
  sha3 :: "data \<Rightarrow> data"

subsection \<open>What the packages promise\<close>

fun be_value :: "data \<Rightarrow> nat" where
  "be_value [] = 0"
| "be_value (b # bs) = unat b * 256 ^ length bs + be_value bs"

definition hex_digit :: "nat \<Rightarrow> char" where
  "hex_digit d = ''0123456789abcdef'' ! d"

definition hex_value :: "char \<Rightarrow> nat option" where
  "hex_value c =
     (let k = of_char c :: nat
      in if 48 \<le> k \<and> k \<le> 57 then Some (k - 48)
         else if 97 \<le> k \<and> k \<le> 102 then Some (k - 87)
         else if 65 \<le> k \<and> k \<le> 70 then Some (k - 55)
         else None)"

fun bytes_of_hex :: "string \<Rightarrow> data option" where
  "bytes_of_hex [] = Some []"
| "bytes_of_hex [c] = None"
| "bytes_of_hex (c # d # s) =
     (case (hex_value c, hex_value d, bytes_of_hex s) of
        (Some a, Some b, Some bs) \<Rightarrow> Some (word_of_nat (16 * a + b) # bs)
      | _ \<Rightarrow> None)"

fun hex_of_bytes :: "data \<Rightarrow> string" where
  "hex_of_bytes [] = []"
| "hex_of_bytes (b # bs) = hex_digit (unat b div 16) # hex_digit (unat b mod 16) # hex_of_bytes bs"

fun nat_hex :: "nat \<Rightarrow> string" where
  "nat_hex n = (if n < 16 then [hex_digit n] else nat_hex (n div 16) @ [hex_digit (n mod 16)])"

declare nat_hex.simps [simp del]

definition packages_ok :: "packages \<Rightarrow> bool" where
  "packages_ok E \<longleftrightarrow>
     (\<forall>s bs. bytes_of_hex s = Some bs \<longrightarrow> Data_hex E s = bs \<and> Data_hex E (''0x'' @ s) = bs) \<and>
     (\<forall>bs. toHexString E bs = hex_of_bytes bs) \<and>
     (\<forall>n. String_radix16 E n = nat_hex n) \<and>
     (\<forall>bs. BigUInt_data E bs = be_value bs) \<and>
     (\<forall>bs. length (sha3 E bs) = 32)"

subsection \<open>Data+InitWithHex.swift, Data+Padding.swift, BigInt+Hex.swift\<close>

fun stripHexPrefixes :: "string \<Rightarrow> string" where
  "stripHexPrefixes (c # d # s) =
     (if c = CHR ''0'' \<and> (d = CHR ''x'' \<or> d = CHR ''X'') then stripHexPrefixes s else c # d # s)"
| "stripHexPrefixes s = s"

definition ethHex :: "packages \<Rightarrow> string \<Rightarrow> data" where
  "ethHex E s =
     (let value = stripHexPrefixes s;
          paddingToByte = (if length value mod 2 = 1 then ''0'' else [])
      in Data_hex E (paddingToByte @ value))"

definition leftPadded :: "data \<Rightarrow> nat \<Rightarrow> data" where
  "leftPadded d n = (if n \<le> length d then d else replicate (n - length d) 0 @ d)"

definition rightPadded :: "data \<Rightarrow> nat \<Rightarrow> data" where
  "rightPadded d n = (if n \<le> length d then d else d @ replicate (n - length d) 0)"

definition endTruncated :: "data \<Rightarrow> nat \<Rightarrow> data" where
  "endTruncated d n = (if \<not> n < length d then d else take n d)"

definition suffixD :: "nat \<Rightarrow> data \<Rightarrow> data" where
  "suffixD n d = drop (length d - n) d"

definition hasPrefix :: "string \<Rightarrow> string \<Rightarrow> bool" where
  "hasPrefix s p \<longleftrightarrow> take (length p) s = p"

definition stripHexPrefix :: "string \<Rightarrow> string" where
  "stripHexPrefix s = (if hasPrefix s ''0x'' then drop 2 s else s)"

definition hexString :: "packages \<Rightarrow> nat \<Rightarrow> string" where
  "hexString E n = ''0x'' @ String_radix16 E n"

text \<open>\<^verbatim>\<open>lowercased()\<close> on ASCII strings.\<close>

definition lower_char :: "char \<Rightarrow> char" where
  "lower_char c =
     (let k = of_char c :: nat in if 65 \<le> k \<and> k \<le> 90 then char_of (k + 32) else c)"

definition lowercased :: "string \<Rightarrow> string" where
  "lowercased s = map lower_char s"

subsection \<open>Address\<close>

datatype Address = Address (address_value: string)

definition Address_init :: "packages \<Rightarrow> string \<Rightarrow> ('e, Address) outcome" where
  "Address_init E value =
     (if \<not> hasPrefix value ''0x'' then Traps
      else if \<not> (length (ethHex E value) = 20 \<or> ethHex E value = []) then Traps
      else Returns (Address value))"

definition Address_of_uint :: "packages \<Rightarrow> nat \<Rightarrow> ('e, Address) outcome" where
  "Address_of_uint E value =
     (let data = leftPadded (endTruncated (ethHex E (String_radix16 E value)) 20) 20
      in Address_init E (''0x'' @ toHexString E data))"

definition Address_zero :: Address where
  "Address_zero = Address ''0x0000000000000000000000000000000000000000''"

definition isZero :: "Address \<Rightarrow> bool" where
  "isZero a \<longleftrightarrow> a = Address_zero"

text \<open>The bytes of an address; a value of the type has none or twenty of them.\<close>

definition address_bytes :: "packages \<Rightarrow> Address \<Rightarrow> data" where
  "address_bytes E a = ethHex E (address_value a)"

subsection \<open>Big-endian values\<close>

lemma unat_u8 [simp]: "unat (b :: u8) < 256"
  using unsigned_less [of b] by simp

lemma nibble_high [simp]: "unat (b :: u8) div 16 < 16"
  using unat_u8 [of b] by linarith

lemma be_value_append: "be_value (xs @ ys) = be_value xs * 256 ^ length ys + be_value ys"
  by (induction xs) (simp_all add: power_add algebra_simps)

lemma be_value_less: "be_value bs < 256 ^ length bs"
proof (induction bs)
  case (Cons b bs)
  have "unat b \<le> 255" using unat_u8 [of b] by linarith
  then have "unat b * 256 ^ length bs \<le> 255 * 256 ^ length bs" by (rule mult_le_mono1)
  with Cons have "be_value (b # bs) < 255 * 256 ^ length bs + 256 ^ length bs"
    unfolding be_value.simps by linarith
  then show ?case by simp
qed simp

lemma be_value_zeros [simp]: "be_value (replicate n 0) = 0"
  by (induction n) simp_all

lemma be_value_inj:
  "length xs = length ys \<Longrightarrow> be_value xs = be_value ys \<Longrightarrow> xs = ys"
proof (induction xs ys rule: list_induct2)
  case (Cons x xs y ys)
  have mod: "be_value (z # zs) mod 256 ^ length zs = be_value zs"
    and div: "be_value (z # zs) div 256 ^ length zs = unat z" for z zs
    using be_value_less [of zs] by (simp_all add: div_add1_eq)
  from Cons have "unat x = unat y" "be_value xs = be_value ys"
    using mod [of x xs] mod [of y ys] div [of x xs] div [of y ys] by simp_all
  with Cons show ?case by (simp add: word_unat_eq_iff)
qed simp

lemma be_value_drop: "be_value (drop k bs) = be_value bs mod 256 ^ (length bs - k)"
proof -
  have "be_value bs = be_value (take k bs) * 256 ^ length (drop k bs) + be_value (drop k bs)"
    by (simp only: be_value_append [symmetric] append_take_drop_id)
  moreover have "be_value (drop k bs) < 256 ^ (length bs - k)"
    using be_value_less [of "drop k bs"] by simp
  ultimately show ?thesis by simp
qed

lemma length_suffixD [simp]: "length (suffixD n bs) = min n (length bs)"
  by (simp add: suffixD_def)

lemma be_value_suffixD: "be_value (suffixD n bs) = be_value bs mod 256 ^ n"
proof (cases "n \<le> length bs")
  case True
  then show ?thesis by (simp add: suffixD_def be_value_drop)
next
  case False
  then have "(256 :: nat) ^ length bs \<le> 256 ^ n" by (simp add: power_increasing)
  with be_value_less [of bs] have "be_value bs < 256 ^ n" by linarith
  with False show ?thesis by (simp add: suffixD_def)
qed

lemma length_leftPadded [simp]: "length (leftPadded d n) = max n (length d)"
  by (simp add: leftPadded_def)

lemma be_value_leftPadded [simp]: "be_value (leftPadded d n) = be_value d"
  by (simp add: leftPadded_def be_value_append)

lemma length_rightPadded [simp]: "length (rightPadded d n) = max n (length d)"
  by (simp add: rightPadded_def)

lemma take_rightPadded [simp]:
  "take (length d) (rightPadded d n) = d" "take (length d) (rightPadded d n @ r) = d"
  "rightPadded d (length d) = d"
  by (simp_all add: rightPadded_def)

subsection \<open>Hexadecimal strings\<close>

lemma hex_value_digit [simp]:
  assumes "d < 16"
  shows "hex_value (hex_digit d) = Some d"
proof -
  have "\<forall>d \<in> {..<16}. hex_value (hex_digit d) = Some d"
    by (simp add: lessThan_nat_numeral lessThan_Suc hex_digit_def hex_value_def)
  with assms show ?thesis by simp
qed

lemma bytes_of_hex_of_bytes [simp]: "bytes_of_hex (hex_of_bytes bs) = Some bs"
  by (induction bs) simp_all

lemma length_hex_of_bytes [simp]: "length (hex_of_bytes bs) = 2 * length bs"
  by (induction bs) simp_all

definition is_hex :: "string \<Rightarrow> bool" where
  "is_hex s \<longleftrightarrow> list_all (\<lambda>c. hex_value c \<noteq> None) s"

fun digits_value :: "string \<Rightarrow> nat" where
  "digits_value [] = 0"
| "digits_value (c # s) = the (hex_value c) * 16 ^ length s + digits_value s"

lemma is_hex_simps [simp]:
  "is_hex []" "is_hex (c # s) \<longleftrightarrow> hex_value c \<noteq> None \<and> is_hex s" "is_hex (s @ t) \<longleftrightarrow> is_hex s \<and> is_hex t"
  by (auto simp: is_hex_def)

lemma digits_value_append: "digits_value (s @ t) = digits_value s * 16 ^ length t + digits_value t"
  by (induction s) (simp_all add: power_add algebra_simps)

lemma hex_value_less: "hex_value c = Some v \<Longrightarrow> v < 16"
  by (auto simp: hex_value_def Let_def split: if_splits)

lemma is_hex_hex_of_bytes [simp]: "is_hex (hex_of_bytes bs)"
  by (induction bs) simp_all

lemma bytes_of_hex_value:
  assumes "is_hex s" and "even (length s)"
  obtains bs where "bytes_of_hex s = Some bs" "length bs = length s div 2" "be_value bs = digits_value s"
proof -
  have "\<exists>bs. bytes_of_hex s = Some bs \<and> length bs = length s div 2 \<and> be_value bs = digits_value s"
    using assms
  proof (induction s rule: bytes_of_hex.induct)
    case (3 c d s)
    then obtain a b bs where ab: "hex_value c = Some a" "hex_value d = Some b"
      and bs: "bytes_of_hex s = Some bs" "length bs = length s div 2" "be_value bs = digits_value s" by auto
    have lt: "16 * a + b < 256" using hex_value_less [OF ab(1)] hex_value_less [OF ab(2)] by simp
    have "(256 :: nat) ^ length bs = 16 ^ (2 * length bs)" by (simp add: power_mult)
    also have "2 * length bs = length s" using bs(2) 3 by simp
    finally have "(256 :: nat) ^ length bs = 16 ^ length s" .
    moreover have "unat (word_of_nat (16 * a + b) :: u8) = 16 * a + b"
      using lt by (simp only: unat_of_nat) simp
    ultimately show ?case using ab bs by (simp add: algebra_simps)
  qed auto
  then show thesis using that by blast
qed

lemma nat_hex_induct [case_names small big]:
  assumes "\<And>n. n < 16 \<Longrightarrow> P n" and "\<And>n. 16 \<le> n \<Longrightarrow> P (n div 16) \<Longrightarrow> P n"
  shows "P (n :: nat)"
proof (induction n rule: less_induct)
  case (less n)
  show ?case
  proof (cases "n < 16")
    case False
    then have "n div 16 < n" by simp
    with less False assms(2) show ?thesis by simp
  qed (rule assms(1))
qed

lemma is_hex_nat_hex [simp]: "is_hex (nat_hex n)"
  by (induction n rule: nat_hex_induct) (subst nat_hex.simps; simp)+

lemma digits_value_nat_hex [simp]: "digits_value (nat_hex n) = n"
  by (induction n rule: nat_hex_induct) (subst nat_hex.simps; simp add: digits_value_append)+

lemma length_nat_hex:
  "n < 16 ^ Suc k \<Longrightarrow> length (nat_hex n) \<le> Suc k"
proof (induction n arbitrary: k rule: nat_hex_induct)
  case (small n)
  then show ?case by (simp add: nat_hex.simps)
next
  case (big n)
  then obtain j where k: "k = Suc j" by (cases k) auto
  have "n div 16 < 16 ^ Suc j" using big.prems k by (simp add: less_mult_imp_div_less)
  from big.IH [OF this] big.hyps k show ?case by (simp add: nat_hex.simps [of n])
qed

lemma strip_is_hex: "is_hex s \<Longrightarrow> stripHexPrefixes s = s"
  by (cases s rule: stripHexPrefixes.cases) (auto simp: hex_value_def)

lemma strip_0x: "is_hex s \<Longrightarrow> stripHexPrefixes (''0x'' @ s) = s"
  by (simp add: strip_is_hex)

subsection \<open>Parsing with the packages\<close>

lemma packages_okD:
  assumes "packages_ok E"
  shows "bytes_of_hex s = Some bs \<Longrightarrow> Data_hex E s = bs" "toHexString E bs = hex_of_bytes bs"
    "String_radix16 E n = nat_hex n" "BigUInt_data E bs = be_value bs" "length (sha3 E bs) = 32"
    "bytes_of_hex s = Some bs \<Longrightarrow> Data_hex E (''0x'' @ s) = bs"
  using assms by (simp_all add: packages_ok_def)

lemma hex_value_zero [simp]: "hex_value CHR ''0'' = Some 0"
  by (simp add: hex_value_def)

lemma ethHex_is_hex:
  assumes "packages_ok E" and "is_hex s"
  shows "length (ethHex E s) = (length s + 1) div 2" and "be_value (ethHex E s) = digits_value s"
proof -
  let ?pad = "if length s mod 2 = 1 then ''0'' else []"
  have "is_hex (?pad @ s)" "even (length (?pad @ s))" using assms by auto
  then obtain bs where bs: "bytes_of_hex (?pad @ s) = Some bs" "length bs = length (?pad @ s) div 2"
    "be_value bs = digits_value (?pad @ s)" by (rule bytes_of_hex_value)
  have "ethHex E s = bs"
    using packages_okD(1) [OF assms(1) bs(1)] assms by (simp add: ethHex_def strip_is_hex)
  with bs show "length (ethHex E s) = (length s + 1) div 2" "be_value (ethHex E s) = digits_value s"
    by (auto simp: digits_value_append)
qed

lemma ethHex_0x [simp]: "is_hex s \<Longrightarrow> ethHex E (CHR ''0'' # CHR ''x'' # s) = ethHex E s"
  by (simp add: ethHex_def strip_is_hex)

lemma ethHex_hex_of_bytes [simp]: "packages_ok E \<Longrightarrow> ethHex E (hex_of_bytes bs) = bs"
  by (simp add: ethHex_def strip_is_hex packages_okD(1))

lemma ethHex_nat_hex [simp]: "packages_ok E \<Longrightarrow> be_value (ethHex E (nat_hex n)) = n"
  by (simp add: ethHex_is_hex(2))

lemma length_ethHex_nat_hex:
  assumes "packages_ok E" and "n < 256 ^ Suc k"
  shows "length (ethHex E (nat_hex n)) \<le> Suc k"
proof -
  have "(256 :: nat) ^ Suc k = 16 ^ Suc (2 * k + 1)" by (simp add: power_mult)
  with assms(2) have "n < 16 ^ Suc (2 * k + 1)" by simp
  from length_nat_hex [OF this] assms(1) show ?thesis by (simp add: ethHex_is_hex(1))
qed

text \<open>The fixed-width encoding: \<open>k\<close> bytes, the value taken modulo \<open>256 ^ k\<close>.\<close>

definition be_bytes :: "packages \<Rightarrow> nat \<Rightarrow> nat \<Rightarrow> data" where
  "be_bytes E k n = suffixD k (leftPadded (ethHex E (String_radix16 E n)) k)"

lemma length_be_bytes [simp]: "length (be_bytes E k n) = k"
  by (simp add: be_bytes_def)

lemma be_value_be_bytes [simp]: "packages_ok E \<Longrightarrow> be_value (be_bytes E k n) = n mod 256 ^ k"
  by (simp add: be_bytes_def be_value_suffixD packages_okD(3))

lemma be_bytes_be_value: "packages_ok E \<Longrightarrow> length bs = k \<Longrightarrow> be_bytes E k (be_value bs) = bs"
  by (rule be_value_inj) (use be_value_less [of bs] in auto)

lemma be_bytes_mod: "packages_ok E \<Longrightarrow> be_bytes E k (n mod 256 ^ k) = be_bytes E k n"
  by (rule be_value_inj) simp_all

subsection \<open>Addresses\<close>

lemma Address_init_hex:
  assumes "packages_ok E" and "length bs = 20"
  shows "Address_init E (''0x'' @ toHexString E bs) = Returns (Address (''0x'' @ hex_of_bytes bs))"
  using assms by (simp add: Address_init_def hasPrefix_def packages_okD)

text \<open>The lower-case spelling of the address with a given value.\<close>

definition uint_address :: "packages \<Rightarrow> nat \<Rightarrow> Address" where
  "uint_address E n = Address (''0x'' @ hex_of_bytes (be_bytes E 20 n))"

lemma address_bytes_uint_address [simp]:
  "packages_ok E \<Longrightarrow> address_bytes E (uint_address E n) = be_bytes E 20 n"
  by (simp add: uint_address_def address_bytes_def)

lemma Address_of_uint_small:
  assumes "packages_ok E" and "n < 256 ^ 20"
  shows "Address_of_uint E n = Returns (uint_address E n)"
proof -
  let ?h = "ethHex E (nat_hex n)"
  have "length ?h \<le> 20" using length_ethHex_nat_hex [OF assms(1), of n 19] assms(2) by simp
  then have "leftPadded (endTruncated ?h 20) 20 = be_bytes E 20 n"
    using assms by (intro be_value_inj) (simp_all add: endTruncated_def packages_okD(3))
  then show ?thesis
    using Address_init_hex [OF assms(1), of "be_bytes E 20 n"] assms(1)
    by (simp add: Address_of_uint_def uint_address_def packages_okD(3) del: append_Cons append_Nil)
qed

text \<open>The address of a larger value keeps its first twenty bytes.\<close>

definition uint_address_any :: "packages \<Rightarrow> nat \<Rightarrow> Address" where
  "uint_address_any E n =
     Address (''0x'' @ hex_of_bytes (leftPadded (endTruncated (ethHex E (nat_hex n)) 20) 20))"

lemma Address_of_uint_total:
  assumes "packages_ok E"
  shows "Address_of_uint E n = Returns (uint_address_any E n)"
proof -
  let ?bs = "leftPadded (endTruncated (ethHex E (nat_hex n)) 20) 20"
  have "length ?bs = 20" by (simp add: endTruncated_def)
  from Address_init_hex [OF assms this] assms show ?thesis
    by (simp add: Address_of_uint_def uint_address_any_def packages_okD(3))
qed

text \<open>The account an address denotes: two spellings that differ in case denote the same one.\<close>

definition account :: "packages \<Rightarrow> Address \<Rightarrow> nat" where
  "account E a = be_value (address_bytes E a)"

text \<open>What \<^verbatim>\<open>Address.init\<close> guarantees of every value of the type.\<close>

definition address_ok :: "packages \<Rightarrow> Address \<Rightarrow> bool" where
  "address_ok E a \<longleftrightarrow> length (address_bytes E a) = 20 \<or> address_bytes E a = []"

definition valid_address :: "packages \<Rightarrow> string \<Rightarrow> bool" where
  "valid_address E s \<longleftrightarrow> hasPrefix s ''0x'' \<and> (length (ethHex E s) = 20 \<or> ethHex E s = [])"

lemma Address_init_iff: "Address_init E s = Returns a \<longleftrightarrow> valid_address E s \<and> a = Address s"
  by (auto simp: Address_init_def valid_address_def)

lemma valid_address_ok: "valid_address E (address_value a) \<Longrightarrow> address_ok E a"
  by (auto simp: valid_address_def address_ok_def address_bytes_def)

lemma valid_uint_address: "packages_ok E \<Longrightarrow> valid_address E (address_value (uint_address E n))"
  by (simp add: valid_address_def uint_address_def hasPrefix_def)

lemma Address_init_ok: "Address_init E s = Returns a \<Longrightarrow> address_ok E a \<and> address_value a = s"
  by (auto simp: Address_init_def address_ok_def address_bytes_def split: if_splits)

lemma account_less: "address_ok E a \<Longrightarrow> account E a < 256 ^ 20"
  using be_value_less [of "address_bytes E a"] by (auto simp: address_ok_def account_def)

lemma account_uint_address:
  "packages_ok E \<Longrightarrow> n < 256 ^ 20 \<Longrightarrow> account E (uint_address E n) = n"
  by (simp add: account_def)

lemma uint_address_ok: "packages_ok E \<Longrightarrow> address_ok E (uint_address E n)"
  by (simp add: address_ok_def)

subsection \<open>A model of the packages\<close>

text \<open>Functions that satisfy the documented behaviour; the hash pads instead of hashing.\<close>

definition samplePackages :: packages where
  "samplePackages =
     \<lparr>Data_hex = \<lambda>s. case bytes_of_hex (stripHexPrefix s) of None \<Rightarrow> [] | Some bs \<Rightarrow> bs,
      toHexString = hex_of_bytes, String_radix16 = nat_hex, BigUInt_data = be_value,
      sha3 = \<lambda>bs. take 32 (rightPadded bs 32)\<rparr>"

lemma bytes_of_hex_strip: "bytes_of_hex s = Some bs \<Longrightarrow> stripHexPrefix s = s"
  by (cases s rule: bytes_of_hex.cases)
    (auto simp: stripHexPrefix_def hasPrefix_def hex_value_def split: option.splits)

lemma samplePackages_ok: "packages_ok samplePackages"
  by (simp add: packages_ok_def samplePackages_def bytes_of_hex_strip)
    (simp add: stripHexPrefix_def hasPrefix_def)

end
