(* ===== verification/Abi.thy ===== *)
theory Abi
  imports Bytes
begin

section \<open>Contract call encoding\<close>

text \<open>
  Model of \<^verbatim>\<open>EthereumContractProxy.swift\<close> with the proxies that only encode and decode through it:
  \<^verbatim>\<open>ERC20TokenContractProxy\<close>, \<^verbatim>\<open>SafeOwnerManagerContractProxy\<close>, the ENS proxies and \<^verbatim>\<open>GnosisSafeContractProxy\<close>.
  The packages are the argument \<open>E\<close>, the Ethereum node is an argument \<open>eth_call\<close>. Dropping more bytes than
  there are (\<^verbatim>\<open>removeFirst\<close>), a conversion to \<^verbatim>\<open>Int\<close> that does not fit and an \<^verbatim>\<open>Int\<close> overflow stop the process.
\<close>

subsection \<open>Operations of Data and Int that may trap\<close>

definition removeFirst :: "nat \<Rightarrow> data \<Rightarrow> ('e, data) outcome" where
  "removeFirst n d = (if length d < n then Traps else Returns (drop n d))"

definition Int_of_uint :: "nat \<Rightarrow> ('e, int) outcome" where
  "Int_of_uint n = toInt (int n)"

definition BigUInt_of_int :: "int \<Rightarrow> ('e, nat) outcome" where
  "BigUInt_of_int v = (if v < 0 then Traps else Returns (nat v))"

text \<open>\<^verbatim>\<open>Data.advanced(by:)\<close> requires at least one remaining byte.\<close>

definition advanced :: "int \<Rightarrow> data \<Rightarrow> ('e, data) outcome" where
  "advanced n d = (if 0 \<le> n \<and> n < int (length d) then Returns (drop (nat n) d) else Traps)"

definition suffix_from :: "int \<Rightarrow> data \<Rightarrow> ('e, data) outcome" where
  "suffix_from n d = (if 0 \<le> n \<and> n \<le> int (length d) then Returns (drop (nat n) d) else Traps)"

subsection \<open>EthereumContractProxy\<close>

definition ascii :: "string \<Rightarrow> data" where
  "ascii s = map (\<lambda>c. of_char c) s"

definition abi_method :: "packages \<Rightarrow> string \<Rightarrow> data" where
  "abi_method E selector = take 4 (sha3 E (ascii selector))"

definition encodeUInt :: "packages \<Rightarrow> nat \<Rightarrow> data" where
  "encodeUInt E value = suffixD 32 (leftPadded (ethHex E (String_radix16 E value)) 32)"

definition encodeUInt_int :: "packages \<Rightarrow> int \<Rightarrow> ('e, data) outcome" where
  "encodeUInt_int E value = bindO (BigUInt_of_int value) (\<lambda>n. Returns (encodeUInt E n))"

definition decodeUInt :: "packages \<Rightarrow> data \<Rightarrow> nat" where
  "decodeUInt E value = BigUInt_data E (if 32 < length value then take 32 value else value)"

definition decodeAddress :: "packages \<Rightarrow> data \<Rightarrow> ('e, Address) outcome" where
  "decodeAddress E value = Address_of_uint E (decodeUInt E value)"

definition encodeAddress :: "packages \<Rightarrow> Address \<Rightarrow> data" where
  "encodeAddress E value = encodeUInt E (BigUInt_data E (ethHex E (address_value value)))"

text \<open>\<^verbatim>\<open>count * 32\<close> is computed as an \<^verbatim>\<open>Int\<close> before it is compared.\<close>

fun words32 :: "nat \<Rightarrow> data \<Rightarrow> data list" where
  "words32 0 d = []"
| "words32 (Suc n) d = take 32 d # words32 n (drop 32 d)"

definition decodeTupleUInt :: "packages \<Rightarrow> data \<Rightarrow> int \<Rightarrow> ('e, nat list) outcome" where
  "decodeTupleUInt E value count =
     bindO (toInt (count * 32)) (\<lambda>size.
       if int (length value) < size then Returns []
       else Returns (map (decodeUInt E) (words32 (nat count) value)))"

definition decodeArrayUInt :: "packages \<Rightarrow> data \<Rightarrow> ('e, nat list) outcome" where
  "decodeArrayUInt E value =
     (if value = [] then Returns []
      else let offset = decodeUInt E value
           in if \<not> offset < length value then Returns []
              else bindO (Int_of_uint offset) (\<lambda>off.
                   bindO (suffix_from off value) (\<lambda>data.
                     let count = decodeUInt E data
                     in if \<not> length data \<le> (1 + count) * 32 then Returns []
                        else bindO (suffix_from 32 data) (\<lambda>rest.
                             bindO (Int_of_uint count) (\<lambda>c. decodeTupleUInt E rest c)))))"

definition headUInt :: "packages \<Rightarrow> nat \<Rightarrow> data" where
  "headUInt E value = encodeUInt E value"

definition tailUInt :: "nat \<Rightarrow> data" where
  "tailUInt value = []"

definition encodeTupleUInt :: "packages \<Rightarrow> nat list \<Rightarrow> data" where
  "encodeTupleUInt E value = concat (map (headUInt E) value @ map tailUInt value)"

definition encodeArrayUInt :: "packages \<Rightarrow> nat list \<Rightarrow> data" where
  "encodeArrayUInt E value = encodeUInt E 32 @ encodeUInt E (length value) @ encodeTupleUInt E value"

definition encodeArrayAddress :: "packages \<Rightarrow> Address list \<Rightarrow> data" where
  "encodeArrayAddress E value =
     encodeArrayUInt E (map (\<lambda>a. BigUInt_data E (ethHex E (address_value a))) value)"

fun mapO :: "('a \<Rightarrow> ('e, 'b) outcome) \<Rightarrow> 'a list \<Rightarrow> ('e, 'b list) outcome" where
  "mapO f [] = Returns []"
| "mapO f (x # xs) = bindO (f x) (\<lambda>y. bindO (mapO f xs) (\<lambda>ys. Returns (y # ys)))"

definition decodeArrayAddress :: "packages \<Rightarrow> data \<Rightarrow> ('e, Address list) outcome" where
  "decodeArrayAddress E value = bindO (decodeArrayUInt E value) (mapO (Address_of_uint E))"

definition encodeBool :: "packages \<Rightarrow> bool \<Rightarrow> data" where
  "encodeBool E value = encodeUInt E (if value then 1 else 0)"

definition decodeBool :: "packages \<Rightarrow> data \<Rightarrow> bool" where
  "decodeBool E value = (if decodeUInt E value = 0 then False else True)"

definition encodeFixedBytes :: "data \<Rightarrow> data" where
  "encodeFixedBytes value = take 32 (rightPadded value 32)"

definition decodeFixedBytes :: "data \<Rightarrow> nat \<Rightarrow> data" where
  "decodeFixedBytes value sz = take sz value"

definition encodeBytes :: "packages \<Rightarrow> data \<Rightarrow> data" where
  "encodeBytes E value =
     (let byteLength = (if length value mod 32 = 0 then length value
                        else length value + 32 - length value mod 32)
      in encodeUInt E (length value) @ rightPadded value byteLength)"

definition decodeBytes :: "packages \<Rightarrow> data \<Rightarrow> ('e, data) outcome" where
  "decodeBytes E value =
     (let count = decodeUInt E value
      in bindO (Int_of_uint count) (\<lambda>n. Returns (take (nat n) (drop 32 value))))"

text \<open>\<open>utf8\<close> stands for \<^verbatim>\<open>String(data:encoding: .utf8)\<close>.\<close>

definition decodeString :: "packages \<Rightarrow> (data \<Rightarrow> string option) \<Rightarrow> data \<Rightarrow> ('e, string option) outcome" where
  "decodeString E utf8 value =
     (if \<not> 64 < length value then Returns None
      else let offset = decodeUInt E value
           in bindO (Int_of_uint offset) (\<lambda>off.
              bindO (advanced off value) (\<lambda>enc.
              bindO (decodeBytes E enc) (\<lambda>bytes. Returns (utf8 bytes)))))"

definition invocation :: "packages \<Rightarrow> string \<Rightarrow> data list \<Rightarrow> data" where
  "invocation E selector args = abi_method E selector @ concat args"

definition invoke ::
    "packages \<Rightarrow> (Address \<Rightarrow> data \<Rightarrow> ('e, data) outcome) \<Rightarrow> Address \<Rightarrow> string \<Rightarrow> data list \<Rightarrow> ('e, data) outcome" where
  "invoke E eth_call contract selector args = eth_call contract (invocation E selector args)"

subsection \<open>ERC20TokenContractProxy\<close>

definition balanceOf ::
    "packages \<Rightarrow> (Address \<Rightarrow> data \<Rightarrow> ('e, data) outcome) \<Rightarrow> Address \<Rightarrow> Address \<Rightarrow> ('e, int) outcome" where
  "balanceOf E eth_call contract address =
     bindO (invoke E eth_call contract ''balanceOf(address)'' [encodeAddress E address])
       (\<lambda>d. Returns (int (decodeUInt E d)))"

definition transferMethodSignature :: string where
  "transferMethodSignature = ''transfer(address,uint256)''"

definition transfer :: "packages \<Rightarrow> Address \<Rightarrow> int \<Rightarrow> ('e, data) outcome" where
  "transfer E recipient amount =
     bindO (encodeUInt_int E amount) (\<lambda>n.
       Returns (invocation E transferMethodSignature [encodeAddress E recipient, n]))"

definition decodedTransfer :: "packages \<Rightarrow> data \<Rightarrow> ('e, (Address \<times> int) option) outcome" where
  "decodedTransfer E data =
     (let head = invocation E transferMethodSignature []
      in if take (length head) data \<noteq> head then Returns None
         else bindO (removeFirst (length head) data) (\<lambda>args.
              bindO (decodeAddress E args) (\<lambda>recipient.
              bindO (removeFirst 32 args) (\<lambda>args1.
                let amount = decodeUInt E args1
                in bindO (removeFirst 32 args1) (\<lambda>args2.
                   if args2 \<noteq> [] then Returns None else Returns (Some (recipient, int amount)))))))"

definition ERC20_name ::
    "packages \<Rightarrow> (data \<Rightarrow> string option) \<Rightarrow> (Address \<Rightarrow> data \<Rightarrow> ('e, data) outcome) \<Rightarrow> Address \<Rightarrow>
     ('e, string option) outcome" where
  "ERC20_name E utf8 eth_call contract =
     bindO (invoke E eth_call contract ''name()'' []) (decodeString E utf8)"

definition ERC20_symbol ::
    "packages \<Rightarrow> (data \<Rightarrow> string option) \<Rightarrow> (Address \<Rightarrow> data \<Rightarrow> ('e, data) outcome) \<Rightarrow> Address \<Rightarrow>
     ('e, string option) outcome" where
  "ERC20_symbol E utf8 eth_call contract =
     bindO (invoke E eth_call contract ''symbol()'' []) (decodeString E utf8)"

definition ERC20_decimals ::
    "packages \<Rightarrow> (Address \<Rightarrow> data \<Rightarrow> ('e, data) outcome) \<Rightarrow> Address \<Rightarrow> ('e, int) outcome" where
  "ERC20_decimals E eth_call contract =
     bindO (invoke E eth_call contract ''decimals()'' []) (\<lambda>d. Int_of_uint (decodeUInt E d))"

subsection \<open>ENSContractProxy.swift\<close>

definition ENS_resolver ::
    "packages \<Rightarrow> (Address \<Rightarrow> data \<Rightarrow> ('e, data) outcome) \<Rightarrow> Address \<Rightarrow> data \<Rightarrow> ('e, Address) outcome" where
  "ENS_resolver E eth_call contract node =
     bindO (invoke E eth_call contract ''resolver(bytes32)'' [encodeFixedBytes node]) (decodeAddress E)"

definition ENS_supportsInterface ::
    "packages \<Rightarrow> (Address \<Rightarrow> data \<Rightarrow> ('e, data) outcome) \<Rightarrow> Address \<Rightarrow> string \<Rightarrow> ('e, bool) outcome" where
  "ENS_supportsInterface E eth_call contract selector =
     bindO (invoke E eth_call contract ''supportsInterface(bytes4)'' [encodeFixedBytes (abi_method E selector)])
       (\<lambda>d. Returns (decodeBool E d))"

definition ENS_address ::
    "packages \<Rightarrow> (Address \<Rightarrow> data \<Rightarrow> ('e, data) outcome) \<Rightarrow> Address \<Rightarrow> data \<Rightarrow> ('e, Address) outcome" where
  "ENS_address E eth_call contract node =
     bindO (invoke E eth_call contract ''addr(bytes32)'' [encodeFixedBytes node]) (decodeAddress E)"

definition ENS_name ::
    "packages \<Rightarrow> (data \<Rightarrow> string option) \<Rightarrow> (Address \<Rightarrow> data \<Rightarrow> ('e, data) outcome) \<Rightarrow> Address \<Rightarrow> data \<Rightarrow>
     ('e, string option) outcome" where
  "ENS_name E utf8 eth_call contract node =
     bindO (invoke E eth_call contract ''name(bytes32)'' [encodeFixedBytes node]) (decodeString E utf8)"

subsection \<open>SafeOwnerManagerContractProxy\<close>

definition sentinelAddress :: "packages \<Rightarrow> ('e, Address) outcome" where
  "sentinelAddress E = Address_init E (''0x'' @ toHexString E (leftPadded [1] 20))"

definition getOwners ::
    "packages \<Rightarrow> (Address \<Rightarrow> data \<Rightarrow> ('e, data) outcome) \<Rightarrow> Address \<Rightarrow> ('e, Address list) outcome" where
  "getOwners E eth_call contract =
     bindO (invoke E eth_call contract ''getOwners()'' []) (decodeArrayAddress E)"

fun firstIndex :: "('a \<Rightarrow> bool) \<Rightarrow> 'a list \<Rightarrow> nat option" where
  "firstIndex P [] = None"
| "firstIndex P (x # xs) = (if P x then Some 0 else map_option Suc (firstIndex P xs))"

definition previousOwner ::
    "packages \<Rightarrow> (Address \<Rightarrow> data \<Rightarrow> ('e, data) outcome) \<Rightarrow> Address \<Rightarrow> Address \<Rightarrow> ('e, Address option) outcome" where
  "previousOwner E eth_call contract owner =
     bindO (getOwners E eth_call contract) (\<lambda>owners.
       case firstIndex (\<lambda>a. lowercased (address_value a) = lowercased (address_value owner)) owners of
         None \<Rightarrow> Returns None
       | Some index \<Rightarrow>
           if 0 < index then Returns (Some (owners ! (index - 1)))
           else bindO (sentinelAddress E) (\<lambda>s. Returns (Some s)))"

definition isOwner ::
    "packages \<Rightarrow> (Address \<Rightarrow> data \<Rightarrow> ('e, data) outcome) \<Rightarrow> Address \<Rightarrow> Address \<Rightarrow> ('e, bool) outcome" where
  "isOwner E eth_call contract address =
     bindO (invoke E eth_call contract ''isOwner(address)'' [encodeAddress E address])
       (\<lambda>d. Returns (decodeBool E d))"

definition getThreshold ::
    "packages \<Rightarrow> (Address \<Rightarrow> data \<Rightarrow> ('e, data) outcome) \<Rightarrow> Address \<Rightarrow> ('e, int) outcome" where
  "getThreshold E eth_call contract =
     bindO (invoke E eth_call contract ''getThreshold()'' []) (\<lambda>d. Int_of_uint (decodeUInt E d))"

definition nonce ::
    "packages \<Rightarrow> (Address \<Rightarrow> data \<Rightarrow> ('e, data) outcome) \<Rightarrow> Address \<Rightarrow> ('e, nat) outcome" where
  "nonce E eth_call contract =
     bindO (invoke E eth_call contract ''nonce()'' []) (\<lambda>d. Returns (decodeUInt E d))"

definition addOwner_selector :: string where
  "addOwner_selector = ''addOwnerWithThreshold(address,uint256)''"

definition addOwner :: "packages \<Rightarrow> Address \<Rightarrow> int \<Rightarrow> ('e, data) outcome" where
  "addOwner E address threshold =
     bindO (encodeUInt_int E threshold) (\<lambda>t.
       Returns (invocation E addOwner_selector [encodeAddress E address, t]))"

definition decodeAddOwnerArguments :: "packages \<Rightarrow> data \<Rightarrow> ('e, (Address \<times> int) option) outcome" where
  "decodeAddOwnerArguments E data =
     (let selector = abi_method E addOwner_selector
      in if \<not> (length data = length selector + 2 * 32 \<and> take (length selector) data = selector)
         then Returns None
         else bindO (removeFirst (length selector) data) (\<lambda>input.
              bindO (decodeAddress E input) (\<lambda>newOwner.
              bindO (removeFirst 32 input) (\<lambda>input1.
              bindO (Int_of_uint (decodeUInt E input1)) (\<lambda>threshold.
                Returns (Some (newOwner, threshold)))))))"

definition changeThreshold :: "packages \<Rightarrow> int \<Rightarrow> ('e, data) outcome" where
  "changeThreshold E newValue =
     bindO (encodeUInt_int E newValue) (\<lambda>t. Returns (invocation E ''changeThreshold(uint256)'' [t]))"

definition swapOwner_selector :: string where
  "swapOwner_selector = ''swapOwner(address,address,address)''"

definition swapOwner :: "packages \<Rightarrow> Address \<Rightarrow> Address \<Rightarrow> Address \<Rightarrow> data" where
  "swapOwner E prevOwner old new =
     invocation E swapOwner_selector [encodeAddress E prevOwner, encodeAddress E old, encodeAddress E new]"

definition decodeSwapOwnerArguments ::
    "packages \<Rightarrow> data \<Rightarrow> ('e, (Address \<times> Address \<times> Address) option) outcome" where
  "decodeSwapOwnerArguments E data =
     (let selector = abi_method E swapOwner_selector
      in if \<not> (length data = length selector + 3 * 32 \<and> take (length selector) data = selector)
         then Returns None
         else bindO (removeFirst (length selector) data) (\<lambda>input.
              bindO (decodeAddress E input) (\<lambda>prevOwner.
              bindO (removeFirst 32 input) (\<lambda>input1.
              bindO (decodeAddress E input1) (\<lambda>old.
              bindO (removeFirst 32 input1) (\<lambda>input2.
              bindO (decodeAddress E input2) (\<lambda>new.
                Returns (Some (prevOwner, old, new)))))))))"

definition removeOwner :: "packages \<Rightarrow> Address \<Rightarrow> Address \<Rightarrow> int \<Rightarrow> ('e, data) outcome" where
  "removeOwner E prevOwner owner threshold =
     bindO (encodeUInt_int E threshold) (\<lambda>t.
       Returns (invocation E ''removeOwner(address,address,uint256)''
         [encodeAddress E prevOwner, encodeAddress E owner, t]))"

subsection \<open>Words and addresses on the wire\<close>

lemma encodeUInt_be_bytes: "encodeUInt E n = be_bytes E 32 n"
  by (simp add: encodeUInt_def be_bytes_def)

lemma length_encodeUInt [simp]: "length (encodeUInt E n) = 32"
  by (simp add: encodeUInt_be_bytes)

lemma encodeUInt_not_Nil [simp]: "encodeUInt E n \<noteq> []"
  using length_encodeUInt [of E n] by fastforce

lemma decodeUInt_prefix: "packages_ok E \<Longrightarrow> decodeUInt E value = be_value (take 32 value)"
  by (simp add: decodeUInt_def packages_okD(4))

lemma decodeUInt_encodeUInt:
  "packages_ok E \<Longrightarrow> decodeUInt E (encodeUInt E n @ rest) = n mod 256 ^ 32"
  by (simp add: decodeUInt_prefix) (simp add: encodeUInt_be_bytes)

lemma decodeUInt_word [simp]:
  "packages_ok E \<Longrightarrow> n < 256 ^ 32 \<Longrightarrow> decodeUInt E (encodeUInt E n @ rest) = n"
  "packages_ok E \<Longrightarrow> n < 256 ^ 32 \<Longrightarrow> decodeUInt E (encodeUInt E n) = n"
  using decodeUInt_encodeUInt [of E n] decodeUInt_encodeUInt [of E n "[]"] by simp_all

lemma decodeUInt_less: "packages_ok E \<Longrightarrow> decodeUInt E value < 256 ^ 32"
proof -
  assume "packages_ok E"
  moreover have "be_value (take 32 value) < 256 ^ length (take 32 value)" by (rule be_value_less)
  moreover have "(256 :: nat) ^ length (take 32 value) \<le> 256 ^ 32" by (rule power_increasing) simp_all
  ultimately show ?thesis by (simp add: decodeUInt_prefix)
qed

lemma encodeAddress_account: "packages_ok E \<Longrightarrow> encodeAddress E a = encodeUInt E (account E a)"
  by (simp add: encodeAddress_def account_def address_bytes_def packages_okD(4))

lemma length_encodeAddress [simp]: "length (encodeAddress E a) = 32"
  by (simp add: encodeAddress_def)

lemma uint160_less: "n < 256 ^ 20 \<Longrightarrow> (n :: nat) < 256 ^ 32"
  by (rule less_le_trans [of _ "256 ^ 20"]) simp_all

text \<open>The decoder returns the lower-case spelling of the account that was encoded.\<close>

lemma decodeAddress_encodeAddress:
  assumes "packages_ok E" and "address_ok E a"
  shows "decodeAddress E (encodeAddress E a @ rest) = Returns (uint_address E (account E a))"
  using assms account_less [OF assms(2)]
  by (simp add: decodeAddress_def encodeAddress_account Address_of_uint_small uint160_less del: power_numeral)

lemma decodeAddress_total:
  "packages_ok E \<Longrightarrow> decodeAddress E value = Returns (uint_address_any E (decodeUInt E value))"
  by (simp add: decodeAddress_def Address_of_uint_total)

lemma removeFirst_append [simp]: "length x = n \<Longrightarrow> removeFirst n (x @ y) = Returns y"
  by (simp add: removeFirst_def)

lemma removeFirst_all [simp]: "length x = n \<Longrightarrow> removeFirst n x = Returns []"
  by (simp add: removeFirst_def)

lemma length_abi_method [simp]: "packages_ok E \<Longrightarrow> length (abi_method E s) = 4"
  by (simp add: abi_method_def packages_okD(5))

lemma Int_of_uint_small [simp]: "int n \<le> Int_max \<Longrightarrow> Int_of_uint n = Returns (int n)"
  by (simp add: Int_of_uint_def toInt_def Int_min_def)

subsection \<open>Arrays and byte strings on the wire\<close>

lemma encodeTupleUInt_simps [simp]:
  "encodeTupleUInt E [] = []" "encodeTupleUInt E (n # ns) = encodeUInt E n @ encodeTupleUInt E ns"
  by (simp_all add: encodeTupleUInt_def headUInt_def tailUInt_def)

lemma length_encodeTupleUInt [simp]: "length (encodeTupleUInt E ns) = 32 * length ns"
  by (induction ns) simp_all

lemma words32_encodeTuple:
  "packages_ok E \<Longrightarrow> list_all (\<lambda>n. n < 256 ^ 32) ns \<Longrightarrow>
     map (decodeUInt E) (words32 (length ns) (encodeTupleUInt E ns)) = ns"
  by (induction ns) simp_all

definition fits_Int :: "nat \<Rightarrow> bool" where
  "fits_Int n \<longleftrightarrow> int n \<le> Int_max"

lemma Int_of_uint_fits [simp]: "fits_Int n \<Longrightarrow> Int_of_uint n = Returns (int n)"
  by (simp add: fits_Int_def)

lemma fits_Int_less: "fits_Int n \<Longrightarrow> n < 256 ^ 32"
  by (simp add: fits_Int_def Int_max_def)

lemma fits_Int_mono: "fits_Int n \<Longrightarrow> m \<le> n \<Longrightarrow> fits_Int m"
  by (simp add: fits_Int_def)

lemma decodeTuple_encodeTuple:
  assumes "packages_ok E" "list_all (\<lambda>n. n < 256 ^ 32) ns" "fits_Int (length ns * 32)"
  shows "decodeTupleUInt E (encodeTupleUInt E ns) (int (length ns)) = Returns ns"
proof -
  have "toInt (int (length ns) * 32) = Returns (int (length ns) * 32)"
    using assms(3) by (simp add: fits_Int_def toInt_def Int_min_def)
  with assms show ?thesis
    by (simp add: decodeTupleUInt_def words32_encodeTuple del: power_numeral)
qed

lemma decodeArray_encodeArray:
  assumes ok: "packages_ok E" and small: "list_all (\<lambda>n. n < 256 ^ 32) ns"
    and fits: "fits_Int (length ns * 32)"
  shows "decodeArrayUInt E (encodeArrayUInt E ns) = Returns ns"
proof -
  let ?rest = "encodeUInt E (length ns) @ encodeTupleUInt E ns"
  let ?input = "encodeUInt E 32 @ ?rest"
  have fits': "fits_Int (length ns)" by (rule fits_Int_mono [OF fits]) simp
  have off: "decodeUInt E ?input = 32" using ok by simp
  have cnt: "decodeUInt E ?rest = length ns"
    using ok fits_Int_less [OF fits'] by (rule decodeUInt_word(1))
  have int32: "Int_of_uint 32 = Returns 32" by (simp add: Int_max_def)
  have suf1: "suffix_from 32 ?input = Returns ?rest"
    and suf2: "suffix_from 32 ?rest = Returns (encodeTupleUInt E ns)" by (simp_all add: suffix_from_def)
  show ?thesis
    unfolding decodeArrayUInt_def encodeArrayUInt_def
    by (simp add: off cnt fits' int32 suf1 suf2 decodeTuple_encodeTuple [OF ok small fits])
qed

lemma mapO_Returns: "(\<And>x. x \<in> set xs \<Longrightarrow> f x = Returns (g x)) \<Longrightarrow> mapO f xs = Returns (map g xs)"
  by (induction xs) simp_all

lemma encodeArrayAddress_accounts:
  "packages_ok E \<Longrightarrow> encodeArrayAddress E as = encodeArrayUInt E (map (account E) as)"
  by (simp add: encodeArrayAddress_def account_def [abs_def] address_bytes_def packages_okD(4))

lemma decodeArrayAddress_encode:
  assumes ok: "packages_ok E" and as: "list_all (address_ok E) as" and fits: "fits_Int (length as * 32)"
  shows "decodeArrayAddress E (encodeArrayAddress E as) = Returns (map (\<lambda>a. uint_address E (account E a)) as)"
proof -
  have less: "account E a < 256 ^ 20" if "a \<in> set as" for a
    using as that account_less by (auto simp: list_all_iff)
  then have "list_all (\<lambda>n. n < 256 ^ 32) (map (account E) as)"
    using uint160_less by (auto simp: list_all_iff simp del: power_numeral)
  from decodeArray_encodeArray [OF ok this] fits
  have uints: "decodeArrayUInt E (encodeArrayAddress E as) = Returns (map (account E) as)"
    using ok by (simp add: encodeArrayAddress_accounts)
  have "mapO (Address_of_uint E) (map (account E) as) = Returns (map (uint_address E) (map (account E) as))"
    by (rule mapO_Returns) (use ok less Address_of_uint_small in auto)
  then show ?thesis by (simp add: decodeArrayAddress_def uints comp_def)
qed

lemma length_encodeBytes: "length (encodeBytes E d) = 32 + (length d + 31) div 32 * 32"
proof (cases "length d mod 32 = 0")
  case True
  then obtain k where "length d = 32 * k" by (auto elim: dvdE simp: mod_eq_0_iff_dvd)
  then show ?thesis by (simp add: encodeBytes_def Let_def)
next
  case False
  define k where "k = length d div 32"
  have "length d = 32 * k + length d mod 32" "length d mod 32 < 32" by (simp_all add: k_def)
  moreover from this False have "(length d + 31) div 32 = k + 1" by linarith
  ultimately show ?thesis using False by (simp add: encodeBytes_def Let_def)
qed

lemma decodeBytes_encodeBytes:
  assumes "packages_ok E" and "fits_Int (length d)"
  shows "decodeBytes E (encodeBytes E d @ rest) = Returns d"
  using assms fits_Int_less [OF assms(2)]
  by (simp add: decodeBytes_def encodeBytes_def Let_def del: power_numeral)

lemmas decodeBytes_encodeBytes_end = decodeBytes_encodeBytes [where rest = "[]", simplified]

text \<open>Decoding never traps on a length that is an \<^verbatim>\<open>Int\<close>, and then returns at most the bytes there are.\<close>

lemma decodeBytes_cases:
  assumes "packages_ok E"
  shows "decodeBytes E v =
    (if fits_Int (decodeUInt E v) then Returns (take (decodeUInt E v) (drop 32 v)) else Traps)"
  by (simp add: decodeBytes_def fits_Int_def Int_of_uint_def toInt_def Int_min_def)

subsection \<open>Calls\<close>

lemma concat_single [simp]: "concat [x, y] = x @ y" "concat [x, y, z] = x @ y @ z"
  by simp_all

lemma decodedTransfer_cases:
  assumes ok: "packages_ok E"
  shows "decodedTransfer E d =
    (if take 4 d \<noteq> abi_method E transferMethodSignature then Returns None
     else if length d < 68 then Traps
     else if 68 < length d then Returns None
     else bindO (decodeAddress E (drop 4 d)) (\<lambda>r. Returns (Some (r, int (decodeUInt E (drop 36 d))))))"
proof (cases "take 4 d = abi_method E transferMethodSignature")
  case False
  then show ?thesis using ok by (simp add: decodedTransfer_def invocation_def Let_def)
next
  case True
  then have len: "4 \<le> length d" using length_abi_method [OF ok, of transferMethodSignature]
    by (metis length_take min.cobounded1)
  show ?thesis
    using True len ok
    by (auto simp: decodedTransfer_def invocation_def Let_def removeFirst_def decodeAddress_total)
qed

lemma decodedTransfer_transfer:
  assumes "packages_ok E" and "address_ok E recipient" and "0 \<le> amount" and "amount < 2 ^ 256"
  shows "bindO (transfer E recipient amount) (decodedTransfer E) =
    Returns (Some (uint_address E (account E recipient), amount))"
proof -
  have "nat amount < 256 ^ 32" using assms(3,4) by simp
  with assms show ?thesis
    by (simp add: transfer_def encodeUInt_int_def BigUInt_of_int_def decodedTransfer_def invocation_def
        Let_def decodeAddress_encodeAddress del: power_numeral)
qed

lemma decodeAddOwner_addOwner:
  assumes "packages_ok E" and "address_ok E a" and "0 \<le> t" and "t \<le> Int_max"
  shows "bindO (addOwner E a t) (decodeAddOwnerArguments E) = Returns (Some (uint_address E (account E a), t))"
proof -
  have "nat t < 256 ^ 32" using assms(3,4) by (simp add: Int_max_def)
  with assms show ?thesis
    by (simp add: addOwner_def encodeUInt_int_def BigUInt_of_int_def decodeAddOwnerArguments_def
        invocation_def Let_def decodeAddress_encodeAddress del: power_numeral)
qed

lemma decodeSwapOwner_swapOwner:
  assumes "packages_ok E" and "address_ok E p" and "address_ok E a" and "address_ok E b"
  shows "decodeSwapOwnerArguments E (swapOwner E p a b) =
    Returns (Some (uint_address E (account E p), uint_address E (account E a), uint_address E (account E b)))"
  using assms decodeAddress_encodeAddress [OF assms(1,4), of "[]"]
  by (simp add: swapOwner_def decodeSwapOwnerArguments_def invocation_def Let_def decodeAddress_encodeAddress)

text \<open>A call of the wrong length is refused, whatever it contains: this decoder never traps on its length.\<close>

lemma decodeSwapOwner_total:
  assumes "packages_ok E"
  shows "\<exists>r. decodeSwapOwnerArguments E d = Returns r"
proof (cases "length d = 4 + 3 * 32 \<and> take 4 d = abi_method E swapOwner_selector")
  case False
  then show ?thesis using assms by (simp add: decodeSwapOwnerArguments_def Let_def)
next
  case True
  with assms show ?thesis
    by (simp add: decodeSwapOwnerArguments_def Let_def removeFirst_def decodeAddress_total)
qed

subsection \<open>Properties\<close>

text \<open>
  What the call encoder writes the decoder reads back, also when more data follows: an
  unsigned integer modulo \<open>2 ^ 256\<close>, an address as the lower-case spelling of the same account, a byte
  string whose length is an \<^verbatim>\<open>Int\<close>, and an array of addresses in order. Every word takes 32 bytes and
  a byte string is padded to whole words.
\<close>

theorem abi_roundtrip:
  assumes "packages_ok E" and "address_ok E a" and "fits_Int (length d)"
    and "list_all (address_ok E) as" and "fits_Int (length as * 32)"
  shows "decodeUInt E (encodeUInt E n @ rest) = n mod 2 ^ 256 \<and>
    decodeAddress E (encodeAddress E a @ rest) = Returns (uint_address E (account E a)) \<and>
    account E (uint_address E (account E a)) = account E a \<and>
    decodeBytes E (encodeBytes E d @ rest) = Returns d \<and>
    length (encodeBytes E d) = 32 + (length d + 31) div 32 * 32 \<and>
    decodeArrayAddress E (encodeArrayAddress E as) = Returns (map (\<lambda>a. uint_address E (account E a)) as)"
  using assms decodeUInt_encodeUInt [OF assms(1), of n rest] account_less [OF assms(2)]
  by (simp add: decodeAddress_encodeAddress decodeBytes_encodeBytes length_encodeBytes
      decodeArrayAddress_encode account_uint_address)

theorem abi_roundtrip_witness:
  "decodeUInt samplePackages (encodeUInt samplePackages 7 @ [1]) = 7 mod 2 ^ 256 \<and>
   decodeArrayAddress samplePackages
     (encodeArrayAddress samplePackages [uint_address samplePackages 5, uint_address samplePackages 6]) =
   Returns [uint_address samplePackages 5, uint_address samplePackages 6]"
proof -
  have fits: "fits_Int (length [0 :: u8])" "fits_Int (length [uint_address samplePackages 5, uint_address samplePackages 6] * 32)"
    by (simp_all add: fits_Int_def Int_max_def)
  note rt = abi_roundtrip [OF samplePackages_ok uint_address_ok [OF samplePackages_ok, of 3] fits(1) _ fits(2),
      of 7 "[1]"]
  show ?thesis
    by (rule conjI, rule rt [THEN conjunct1])
      (simp_all add: rt uint_address_ok samplePackages_ok account_uint_address)
qed

text \<open>
  Decoding a token transfer. The call that \<^verbatim>\<open>transfer\<close> builds for an amount below \<open>2 ^ 256\<close> is read
  back as its recipient and amount. Any other call either is refused (a different method, or trailing
  bytes) or, when it has the selector of \<^verbatim>\<open>transfer\<close> and fewer than 64 bytes of arguments, stops the process:
  the decoder removes bytes that are not there.
\<close>

theorem erc20_transfer_decoding:
  assumes "packages_ok E" and "address_ok E recipient" and "0 \<le> amount" and "amount < 2 ^ 256"
  shows "bindO (transfer E recipient amount) (decodedTransfer E) =
      Returns (Some (uint_address E (account E recipient), amount)) \<and>
    (decodedTransfer E d = Traps \<longleftrightarrow>
      take 4 d = abi_method E transferMethodSignature \<and> length d < 68) \<and>
    (decodedTransfer E d = Returns None \<longleftrightarrow>
      take 4 d \<noteq> abi_method E transferMethodSignature \<or> 68 < length d)"
  by (intro conjI decodedTransfer_transfer [OF assms])
    (simp_all add: decodedTransfer_cases [OF assms(1)] decodeAddress_total [OF assms(1)])

theorem erc20_transfer_decoding_witness:
  "bindO (transfer samplePackages (uint_address samplePackages 5) 1000) (decodedTransfer samplePackages) =
     Returns (Some (uint_address samplePackages 5, 1000)) \<and>
   decodedTransfer samplePackages (abi_method samplePackages transferMethodSignature) = Traps"
proof -
  let ?d = "abi_method samplePackages transferMethodSignature"
  have "bindO (transfer samplePackages (uint_address samplePackages 5) 1000) (decodedTransfer samplePackages) =
      Returns (Some (uint_address samplePackages (account samplePackages (uint_address samplePackages 5)), 1000))"
    by (rule erc20_transfer_decoding [THEN conjunct1])
      (simp_all add: samplePackages_ok uint_address_ok)
  moreover have "decodedTransfer samplePackages ?d = Traps \<longleftrightarrow> take 4 ?d = ?d \<and> length ?d < 68"
    by (rule erc20_transfer_decoding [THEN conjunct2, THEN conjunct1, of _ "uint_address samplePackages 5" 0])
      (simp_all add: samplePackages_ok uint_address_ok)
  ultimately show ?thesis
    by (simp add: account_uint_address samplePackages_ok del: bindO_eq_Returns)
qed

text \<open>
  The owner changes of the Safe contract round-trip: the arguments of \<^verbatim>\<open>addOwnerWithThreshold\<close> and
  \<^verbatim>\<open>swapOwner\<close> are read back as the accounts and the threshold they were built from, and the \<^verbatim>\<open>swapOwner\<close>
  decoder returns, with a value or with \<^verbatim>\<open>nil\<close>, on every input.
\<close>

theorem owner_calls_roundtrip:
  assumes "packages_ok E" and "address_ok E p" and "address_ok E a" and "address_ok E b"
    and "0 \<le> t" and "t \<le> Int_max"
  shows "bindO (addOwner E a t) (decodeAddOwnerArguments E) = Returns (Some (uint_address E (account E a), t)) \<and>
    decodeSwapOwnerArguments E (swapOwner E p a b) =
      Returns (Some (uint_address E (account E p), uint_address E (account E a), uint_address E (account E b))) \<and>
    (\<exists>r. decodeSwapOwnerArguments E d = Returns r)"
  using assms
  by (simp add: decodeAddOwner_addOwner decodeSwapOwner_swapOwner decodeSwapOwner_total del: bindO_eq_Returns)

theorem owner_calls_roundtrip_witness:
  "bindO (addOwner samplePackages (uint_address samplePackages 9) 2) (decodeAddOwnerArguments samplePackages) =
   Returns (Some (uint_address samplePackages 9, 2))"
  using owner_calls_roundtrip [OF samplePackages_ok uint_address_ok [OF samplePackages_ok]
      uint_address_ok [OF samplePackages_ok] uint_address_ok [OF samplePackages_ok],
      of 2 9 1 3 "[]", THEN conjunct1]
  by (simp add: Int_max_def account_uint_address samplePackages_ok del: bindO_eq_Returns)

end
