(* ===== verification/ContractMetadata.thy ===== *)
theory ContractMetadata
  imports Abi
begin

section \<open>Known contract addresses\<close>

text \<open>
  Model of \<^verbatim>\<open>SafeContractMetadata.swift\<close> and \<^verbatim>\<open>InMemorySafeContractMetadataRepository.swift\<close>: the configured list of
  master copies and batch contracts, oldest first, and the queries the wallet makes. Addresses are compared
  without regard to the case of their hexadecimal digits.
\<close>

record MasterCopyMetadata =
  mc_address :: Address
  mc_version :: string
  txTypeHash :: data
  domainSeparatorHash :: data

record MultiSendMetadata =
  msm_address :: Address
  msm_version :: int

record SafeContractMetadata =
  md_multiSendContractAddress :: Address
  md_proxyFactoryAddress :: Address
  proxyCode :: data
  defaultFallbackHandlerAddress :: Address
  safeFunderAddress :: Address
  masterCopy :: "MasterCopyMetadata list"
  md_multiSend :: "MultiSendMetadata list"

definition same_spelling :: "Address \<Rightarrow> Address \<Rightarrow> bool" where
  "same_spelling a b \<longleftrightarrow> lowercased (address_value a) = lowercased (address_value b)"

definition latestMasterCopyAddress :: "SafeContractMetadata \<Rightarrow> ('e, Address) outcome" where
  "latestMasterCopyAddress M =
     (if masterCopy M = [] then Traps else Returns (mc_address (last (masterCopy M))))"

definition isOldMasterCopy :: "SafeContractMetadata \<Rightarrow> Address \<Rightarrow> bool" where
  "isOldMasterCopy M address = list_ex (\<lambda>m. same_spelling (mc_address m) address) (butlast (masterCopy M))"

definition isValidMasterCopy :: "SafeContractMetadata \<Rightarrow> Address \<Rightarrow> bool" where
  "isValidMasterCopy M address = list_ex (\<lambda>m. same_spelling (mc_address m) address) (masterCopy M)"

definition isValidProxyFactory :: "SafeContractMetadata \<Rightarrow> Address \<Rightarrow> bool" where
  "isValidProxyFactory M address = same_spelling (md_proxyFactoryAddress M) address"

definition isValidPaymentRecevier :: "SafeContractMetadata \<Rightarrow> Address \<Rightarrow> bool" where
  "isValidPaymentRecevier M address = (same_spelling (safeFunderAddress M) address \<or> isZero address)"

definition masterCopyMetadata :: "SafeContractMetadata \<Rightarrow> Address \<Rightarrow> MasterCopyMetadata option" where
  "masterCopyMetadata M address = List.find (\<lambda>m. same_spelling (mc_address m) address) (masterCopy M)"

definition masterCopy_version :: "SafeContractMetadata \<Rightarrow> Address \<Rightarrow> string option" where
  "masterCopy_version M address = map_option mc_version (masterCopyMetadata M address)"

definition deploymentCode :: "packages \<Rightarrow> SafeContractMetadata \<Rightarrow> Address \<Rightarrow> data" where
  "deploymentCode E M address = proxyCode M @ encodeAddress E address"

definition EIP712SafeAppTxTypeHash :: "SafeContractMetadata \<Rightarrow> Address \<Rightarrow> data option" where
  "EIP712SafeAppTxTypeHash M address = map_option txTypeHash (masterCopyMetadata M address)"

definition EIP712SafeAppDomainSeparatorTypeHash :: "SafeContractMetadata \<Rightarrow> Address \<Rightarrow> data option" where
  "EIP712SafeAppDomainSeparatorTypeHash M address = map_option domainSeparatorHash (masterCopyMetadata M address)"

definition multiSend_version :: "SafeContractMetadata \<Rightarrow> Address \<Rightarrow> int option" where
  "multiSend_version M address =
     map_option msm_version (List.find (\<lambda>m. same_spelling (msm_address m) address) (md_multiSend M))"

definition isValidMultiSend :: "SafeContractMetadata \<Rightarrow> Address \<Rightarrow> bool" where
  "isValidMultiSend M address = list_ex (\<lambda>m. same_spelling (msm_address m) address) (md_multiSend M)"

lemma find_None_list_ex: "List.find P xs = None \<longleftrightarrow> \<not> list_ex P xs"
  by (auto simp: find_None_iff list_ex_iff)

lemma valid_masterCopy_known: "isValidMasterCopy M a \<longleftrightarrow> masterCopyMetadata M a \<noteq> None"
  by (simp add: isValidMasterCopy_def masterCopyMetadata_def find_None_list_ex)

lemma valid_multiSend_version: "isValidMultiSend M a \<longleftrightarrow> multiSend_version M a \<noteq> None"
  by (simp add: isValidMultiSend_def multiSend_version_def find_None_list_ex)

lemma old_or_latest:
  "masterCopy M \<noteq> [] \<Longrightarrow>
     isValidMasterCopy M a \<longleftrightarrow> isOldMasterCopy M a \<or> same_spelling (mc_address (last (masterCopy M))) a"
  unfolding isValidMasterCopy_def isOldMasterCopy_def
  by (subst append_butlast_last_id [symmetric]) (simp_all del: append_butlast_last_id)

text \<open>
  The queries of the metadata repository agree with each other. An address is a valid master copy or a
  valid batch contract exactly when its version and type hashes are known; it is valid exactly when it is an
  old master copy or the latest one; and all answers are the same for two spellings of an address that differ
  only in case.
\<close>

theorem metadata_queries_agree:
  assumes "masterCopy M \<noteq> []" and "same_spelling a b"
  shows "(isValidMasterCopy M a \<longleftrightarrow> masterCopy_version M a \<noteq> None) \<and>
    (isValidMasterCopy M a \<longleftrightarrow> EIP712SafeAppTxTypeHash M a \<noteq> None) \<and>
    (isValidMasterCopy M a \<longleftrightarrow> EIP712SafeAppDomainSeparatorTypeHash M a \<noteq> None) \<and>
    (isValidMultiSend M a \<longleftrightarrow> multiSend_version M a \<noteq> None) \<and>
    (isValidMasterCopy M a \<longleftrightarrow> isOldMasterCopy M a \<or>
       (\<exists>l. latestMasterCopyAddress M = Returns l \<and> same_spelling l a)) \<and>
    masterCopyMetadata M a = masterCopyMetadata M b \<and> multiSend_version M a = multiSend_version M b"
proof (intro conjI)
  show "isValidMasterCopy M a \<longleftrightarrow> isOldMasterCopy M a \<or>
       (\<exists>l. latestMasterCopyAddress M = Returns l \<and> same_spelling l a)"
    using assms(1) by (simp add: latestMasterCopyAddress_def old_or_latest)
  show "masterCopyMetadata M a = masterCopyMetadata M b" "multiSend_version M a = multiSend_version M b"
    using assms(2) by (simp_all add: masterCopyMetadata_def multiSend_version_def same_spelling_def)
qed (simp_all add: valid_masterCopy_known valid_multiSend_version masterCopy_version_def
      EIP712SafeAppTxTypeHash_def EIP712SafeAppDomainSeparatorTypeHash_def)

definition sampleMetadata :: SafeContractMetadata where
  "sampleMetadata =
     \<lparr>md_multiSendContractAddress = Address ''0xaB'', md_proxyFactoryAddress = uint_address samplePackages 7, proxyCode = [1, 2],
      defaultFallbackHandlerAddress = uint_address samplePackages 8, safeFunderAddress = uint_address samplePackages 9,
      masterCopy = [\<lparr>mc_address = Address ''0xab'', mc_version = ''0.1.0'', txTypeHash = [], domainSeparatorHash = []\<rparr>,
                    \<lparr>mc_address = uint_address samplePackages 6, mc_version = ''1.0.0'', txTypeHash = [1], domainSeparatorHash = [2]\<rparr>],
      md_multiSend = [\<lparr>msm_address = Address ''0xaB'', msm_version = 1\<rparr>]\<rparr>"

theorem metadata_queries_agree_witness:
  "masterCopyMetadata sampleMetadata (Address ''0xaB'') = masterCopyMetadata sampleMetadata (Address ''0xAb'') \<and>
   isOldMasterCopy sampleMetadata (Address ''0xAB'')"
proof -
  have "masterCopy sampleMetadata \<noteq> []" by (simp add: sampleMetadata_def)
  moreover have "same_spelling (Address ''0xaB'') (Address ''0xAb'')" "same_spelling (Address ''0xab'') (Address ''0xAB'')"
    by code_simp+
  moreover from this have "isOldMasterCopy sampleMetadata (Address ''0xAB'')"
    by (simp add: isOldMasterCopy_def sampleMetadata_def)
  ultimately show ?thesis
    using metadata_queries_agree [of sampleMetadata "Address ''0xaB''" "Address ''0xAb''"] by blast
qed

end
