(* ===== verification/SafeCreation.thy ===== *)
theory SafeCreation
  imports ContractMetadata
begin

section \<open>Checking the relay service's proposal for a new Safe\<close>

text \<open>
  Model of \<^verbatim>\<open>GnosisSafeContractProxy.swift\<close>, \<^verbatim>\<open>SafeCreationRequest.swift\<close> and \<^verbatim>\<open>SafeCreationResponseValidator.swift\<close>. The
  app asks a relay service to deploy a Safe contract for a list of owners; the service answers with the
  address the contract will have. Before the user pays to that address the validator recomputes the set-up
  call and the CREATE2 address. The decimal parser of the BigInt package is the argument \<open>parseUInt\<close>.
\<close>

subsection \<open>GnosisSafeContractProxy\<close>

definition setupSignature :: string where
  "setupSignature = ''setup(address[],uint256,address,bytes,address,address,uint256,address)''"

record setup_args =
  setup_owners :: "Address list"
  setup_threshold :: int
  setup_to :: Address
  setup_data :: data
  setup_fallbackHandler :: Address
  setup_paymentToken :: Address
  setup_payment :: int
  setup_paymentReceiver :: Address

definition encodesEmptyDataAsZero :: bool where
  "encodesEmptyDataAsZero = True"

definition setupCall :: "packages \<Rightarrow> setup_args \<Rightarrow> ('e, data) outcome" where
  "setupCall E a =
     bindO (encodeUInt_int E (setup_threshold a)) (\<lambda>threshold.
     bindO (toInt (8 * 32 + 1 * 32 + int (length (setup_owners a)) * 32)) (\<lambda>dataOffset.
     bindO (encodeUInt_int E (setup_payment a)) (\<lambda>payment.
       Returns (invocation E setupSignature
         ([encodeUInt E (8 * 32), threshold, encodeAddress E (setup_to a), encodeUInt E (nat dataOffset),
           encodeAddress E (setup_fallbackHandler a), encodeAddress E (setup_paymentToken a), payment,
           encodeAddress E (setup_paymentReceiver a), encodeUInt E (length (setup_owners a))] @
          map (encodeAddress E) (setup_owners a) @
          [encodeBytes E (setup_data a),
           if encodesEmptyDataAsZero \<and> setup_data a = [] then encodeUInt E 0 else []])))))"

fun decode_owners :: "packages \<Rightarrow> nat \<Rightarrow> data \<Rightarrow> ('e, Address list) outcome" where
  "decode_owners E 0 d = Returns []"
| "decode_owners E (Suc n) d =
     bindO (decodeAddress E d) (\<lambda>a.
     bindO (removeFirst 32 d) (\<lambda>d1.
     bindO (decode_owners E n d1) (\<lambda>as. Returns (a # as))))"

definition decodeSetup :: "packages \<Rightarrow> data \<Rightarrow> ('e, setup_args option) outcome" where
  "decodeSetup E data =
     (let selector = abi_method E setupSignature
      in if take (length selector) data \<noteq> selector then Returns None
         else
           bindO (removeFirst (length selector) data) (\<lambda>i0. let addressArrayOffset = decodeUInt E i0 in
           bindO (removeFirst 32 i0) (\<lambda>i1. bindO (Int_of_uint (decodeUInt E i1)) (\<lambda>threshold.
           bindO (removeFirst 32 i1) (\<lambda>i2. bindO (decodeAddress E i2) (\<lambda>to.
           bindO (removeFirst 32 i2) (\<lambda>i3. let dataOffset = decodeUInt E i3 in
           bindO (removeFirst 32 i3) (\<lambda>i4. bindO (decodeAddress E i4) (\<lambda>fallbackHandler.
           bindO (removeFirst 32 i4) (\<lambda>i5. bindO (decodeAddress E i5) (\<lambda>paymentToken.
           bindO (removeFirst 32 i5) (\<lambda>i6. let payment = int (decodeUInt E i6) in
           bindO (removeFirst 32 i6) (\<lambda>i7. bindO (decodeAddress E i7) (\<lambda>paymentReceiver.
           bindO (removeFirst 32 i7) (\<lambda>i8.
           bindO (advanced (int (length selector)) data) (\<lambda>args.
           bindO (Int_of_uint addressArrayOffset) (\<lambda>off1.
           bindO (advanced off1 args) (\<lambda>arr.
           bindO (Int_of_uint (decodeUInt E arr)) (\<lambda>count.
           bindO (removeFirst 32 arr) (\<lambda>arr1.
           bindO (decode_owners E (nat count) arr1) (\<lambda>owners.
           bindO (Int_of_uint dataOffset) (\<lambda>off2.
           bindO (advanced off2 args) (\<lambda>dat.
           bindO (Int_of_uint (decodeUInt E dat)) (\<lambda>len.
           bindO (removeFirst 32 dat) (\<lambda>dat1.
             Returns (Some \<lparr>setup_owners = owners, setup_threshold = threshold, setup_to = to,
               setup_data = take (nat len) dat1, setup_fallbackHandler = fallbackHandler,
               setup_paymentToken = paymentToken, setup_payment = payment,
               setup_paymentReceiver = paymentReceiver\<rparr>))))))))))))))))))))))))))"

definition setFallbackHandler :: "packages \<Rightarrow> Address \<Rightarrow> data" where
  "setFallbackHandler E address = invocation E ''setFallbackHandler(address)'' [encodeAddress E address]"

definition masterCopyAddress ::
    "packages \<Rightarrow> (Address \<Rightarrow> nat \<Rightarrow> ('e, data) outcome) \<Rightarrow> Address \<Rightarrow> ('e, Address option) outcome" where
  "masterCopyAddress E eth_getStorageAt contract =
     bindO (eth_getStorageAt contract 0) (\<lambda>d. bindO (decodeAddress E d) (\<lambda>a. Returns (Some a)))"

definition changeMasterCopySignature :: string where
  "changeMasterCopySignature = ''changeMasterCopy(address)''"

definition changeMasterCopy :: "packages \<Rightarrow> Address \<Rightarrow> data" where
  "changeMasterCopy E address = invocation E changeMasterCopySignature [encodeAddress E address]"

definition decodeChangeMasterCopyArguments :: "packages \<Rightarrow> data \<Rightarrow> ('e, Address option) outcome" where
  "decodeChangeMasterCopyArguments E data =
     (let selector = abi_method E changeMasterCopySignature
      in if take (length selector) data \<noteq> selector then Returns None
         else bindO (removeFirst (length selector) data) (\<lambda>input.
              bindO (decodeAddress E input) (\<lambda>a. Returns (Some a))))"

text \<open>\<^verbatim>\<open>try?\<close> turns an error of the node into \<^verbatim>\<open>nil\<close>.\<close>

definition onERC1155Received ::
    "packages \<Rightarrow> (Address \<Rightarrow> data \<Rightarrow> ('e, data) outcome) \<Rightarrow> Address \<Rightarrow> Address \<Rightarrow> Address \<Rightarrow> int \<Rightarrow> int \<Rightarrow> data \<Rightarrow>
     ('f, data option) outcome" where
  "onERC1155Received E eth_call contract operator from1 tokenId value calldata =
     bindO (encodeUInt_int E tokenId) (\<lambda>i.
     bindO (encodeUInt_int E value) (\<lambda>v.
       case invoke E eth_call contract ''onERC1155Received(address,address,uint256,uint256,bytes)''
              [encodeAddress E operator, encodeAddress E from1, i, v, encodeUInt E (5 * 32), encodeBytes E calldata] of
         Returns d \<Rightarrow> Returns (Some (decodeFixedBytes d 4))
       | Throws e \<Rightarrow> Returns None
       | Traps \<Rightarrow> Traps))"

subsection \<open>The set-up call round-trips\<close>

definition setup_valid :: "packages \<Rightarrow> setup_args \<Rightarrow> bool" where
  "setup_valid E a \<longleftrightarrow>
     list_all (address_ok E) (setup_owners a) \<and> 0 \<le> setup_threshold a \<and> setup_threshold a \<le> Int_max \<and>
     address_ok E (setup_to a) \<and> fits_Int (length (setup_data a)) \<and> address_ok E (setup_fallbackHandler a) \<and>
     address_ok E (setup_paymentToken a) \<and> 0 \<le> setup_payment a \<and> address_ok E (setup_paymentReceiver a) \<and>
     fits_Int (8 * 32 + 1 * 32 + length (setup_owners a) * 32)"

definition setup_canon :: "packages \<Rightarrow> setup_args \<Rightarrow> setup_args" where
  "setup_canon E a =
     (let canon = (\<lambda>x. uint_address E (account E x))
      in \<lparr>setup_owners = map canon (setup_owners a), setup_threshold = setup_threshold a, setup_to = canon (setup_to a),
          setup_data = setup_data a, setup_fallbackHandler = canon (setup_fallbackHandler a),
          setup_paymentToken = canon (setup_paymentToken a), setup_payment = setup_payment a mod 2 ^ 256,
          setup_paymentReceiver = canon (setup_paymentReceiver a)\<rparr>)"

text \<open>The eight words before the owners, the owners, and the data.\<close>

definition setup_heads :: "packages \<Rightarrow> setup_args \<Rightarrow> data" where
  "setup_heads E a =
     encodeUInt E 256 @ encodeUInt E (nat (setup_threshold a)) @ encodeAddress E (setup_to a) @
     encodeUInt E (288 + length (setup_owners a) * 32) @ encodeAddress E (setup_fallbackHandler a) @
     encodeAddress E (setup_paymentToken a) @ encodeUInt E (nat (setup_payment a)) @
     encodeAddress E (setup_paymentReceiver a)"

definition setup_array :: "packages \<Rightarrow> setup_args \<Rightarrow> data" where
  "setup_array E a = encodeUInt E (length (setup_owners a)) @ concat (map (encodeAddress E) (setup_owners a))"

definition setup_tail :: "packages \<Rightarrow> setup_args \<Rightarrow> data" where
  "setup_tail E a = encodeBytes E (setup_data a) @ (if setup_data a = [] then encodeUInt E 0 else [])"

lemma length_concat_addresses [simp]: "length (concat (map (encodeAddress E) as)) = 32 * length as"
  by (induction as) simp_all

lemma length_setup_heads [simp]: "length (setup_heads E a) = 256"
  by (simp add: setup_heads_def)

lemma length_setup_array [simp]: "length (setup_array E a) = 32 + 32 * length (setup_owners a)"
  by (simp add: setup_array_def)

lemma setup_parts_not_Nil [simp]: "setup_heads E a \<noteq> []" "setup_array E a \<noteq> []" "setup_tail E a \<noteq> []"
  by (simp_all add: setup_heads_def setup_array_def setup_tail_def encodeBytes_def Let_def)

lemma setupCall_parts:
  assumes "setup_valid E a"
  shows "setupCall E a = Returns (abi_method E setupSignature @ setup_heads E a @ setup_array E a @ setup_tail E a)"
proof -
  have "toInt (8 * 32 + 1 * 32 + int (length (setup_owners a)) * 32) =
      Returns (8 * 32 + 1 * 32 + int (length (setup_owners a)) * 32)"
    using assms by (simp add: setup_valid_def fits_Int_def toInt_def Int_min_def)
  moreover have "nat (8 * 32 + 1 * 32 + int (length (setup_owners a)) * 32) = 288 + length (setup_owners a) * 32"
    by (simp add: nat_add_distrib nat_mult_distrib)
  ultimately show ?thesis
    using assms
    by (simp add: setupCall_def setup_valid_def encodeUInt_int_def BigUInt_of_int_def invocation_def
        setup_heads_def setup_array_def setup_tail_def encodesEmptyDataAsZero_def)
qed

lemma advanced_append: "n = int (length x) \<Longrightarrow> y \<noteq> [] \<Longrightarrow> advanced n (x @ y) = Returns y"
  by (simp add: advanced_def)

lemma decode_owners_encoded:
  assumes "packages_ok E"
  shows "list_all (address_ok E) as \<Longrightarrow>
    decode_owners E (length as) (concat (map (encodeAddress E) as) @ rest) =
    Returns (map (\<lambda>a. uint_address E (account E a)) as)"
  using assms by (induction as) (simp_all add: decodeAddress_encodeAddress)

lemma decodeSetup_setupCall:
  assumes ok: "packages_ok E" and v: "setup_valid E a"
  shows "decodeSetup E (abi_method E setupSignature @ setup_heads E a @ setup_array E a @ setup_tail E a) =
    Returns (Some (setup_canon E a))"
proof -
  let ?args = "setup_heads E a @ setup_array E a @ setup_tail E a"
  let ?n = "length (setup_owners a)"
  have off: "fits_Int (288 + ?n * 32)" and n: "fits_Int ?n" using v by (auto simp: setup_valid_def fits_Int_def)
  have off': "288 + ?n * 32 < 256 ^ 32" and n': "?n < 256 ^ 32"
    using fits_Int_less [OF off] fits_Int_less [OF n] by simp_all
  from v have t: "0 \<le> setup_threshold a" "setup_threshold a \<le> Int_max" by (auto simp: setup_valid_def)
  then have thr: "nat (setup_threshold a) < 256 ^ 32" by (simp add: Int_max_def)
  have thr_int: "Int_of_uint (nat (setup_threshold a)) = Returns (setup_threshold a)"
    using t by (simp add: Int_of_uint_def toInt_def Int_min_def)
  have i256: "Int_of_uint 256 = Returns 256" by (simp add: Int_max_def)
  have adv1: "advanced 4 (abi_method E setupSignature @ ?args) = Returns ?args"
    by (rule advanced_append) (simp_all add: ok)
  have adv2: "advanced 256 ?args = Returns (setup_array E a @ setup_tail E a)"
    by (rule advanced_append) simp_all
  have adv3: "advanced (288 + int ?n * 32) ?args = Returns (setup_tail E a)"
    using advanced_append [of "288 + int ?n * 32" "setup_heads E a @ setup_array E a" "setup_tail E a"] by simp
  have pay: "int (decodeUInt E (encodeUInt E (nat (setup_payment a)) @ r)) = setup_payment a mod 2 ^ 256" for r
    using v by (simp add: decodeUInt_encodeUInt ok setup_valid_def zmod_int)
  have dat: "decodeUInt E (setup_tail E a) = length (setup_data a)"
      "removeFirst 32 (setup_tail E a) =
        Returns (drop 32 (encodeBytes E (setup_data a)) @ (if setup_data a = [] then encodeUInt E 0 else []))"
      "take (length (setup_data a)) (drop 32 (encodeBytes E (setup_data a)) @ r) = setup_data a"
      "fits_Int (length (setup_data a))" for r
    using v fits_Int_less [of "length (setup_data a)"] ok
    by (simp_all add: setup_tail_def setup_valid_def encodeBytes_def Let_def removeFirst_def del: power_numeral)
  have arr: "decodeUInt E (setup_array E a @ setup_tail E a) = ?n"
      "removeFirst 32 (setup_array E a @ setup_tail E a) =
        Returns (concat (map (encodeAddress E) (setup_owners a)) @ setup_tail E a)"
    using ok n' by (simp_all add: setup_array_def del: power_numeral)
  note adv = adv1 [unfolded setup_heads_def append_assoc] adv2 [unfolded setup_heads_def append_assoc]
    adv3 [unfolded setup_heads_def append_assoc]
  show ?thesis
    using v off' thr unfolding setup_heads_def append_assoc
    by (simp add: decodeSetup_def ok adv arr dat dat(3) [of "[]", simplified] pay i256 thr_int off n decode_owners_encoded
        decodeAddress_encodeAddress setup_canon_def setup_valid_def del: power_numeral)
qed

lemma decodeChangeMasterCopy_encode:
  "packages_ok E \<Longrightarrow> address_ok E a \<Longrightarrow>
     decodeChangeMasterCopyArguments E (changeMasterCopy E a) = Returns (Some (uint_address E (account E a)))"
  using decodeAddress_encodeAddress [of E a "[]"]
  by (simp add: decodeChangeMasterCopyArguments_def changeMasterCopy_def invocation_def Let_def)

subsection \<open>SafeCreationRequest.swift\<close>

record SafeCreationRequest =
  saltNonce :: string
  req_owners :: "string list"
  req_threshold :: int
  req_paymentToken :: string

definition SafeCreationRequest_init ::
    "(nat \<Rightarrow> string) \<Rightarrow> nat \<Rightarrow> Address list \<Rightarrow> int \<Rightarrow> Address \<Rightarrow> ('e, SafeCreationRequest) outcome" where
  "SafeCreationRequest_init showUInt salt owners confirmationCount paymentToken =
     (if owners = [] then Traps
      else if \<not> (1 \<le> confirmationCount \<and> confirmationCount \<le> int (length owners)) then Traps
      else if list_ex isZero owners then Traps
      else Returns \<lparr>saltNonce = showUInt salt, req_owners = map address_value owners,
                    req_threshold = confirmationCount, req_paymentToken = address_value paymentToken\<rparr>)"

record Response =
  rsp_safe :: string
  rsp_masterCopy :: string
  rsp_proxyFactory :: string
  rsp_paymentToken :: string
  rsp_payment :: int
  rsp_paymentReceiver :: string
  rsp_setupData :: string
  gasEstimated :: int
  gasPriceEstimated :: int

definition safeAddress :: "packages \<Rightarrow> Response \<Rightarrow> ('e, Address) outcome" where
  "safeAddress E r = Address_init E (rsp_safe r)"

definition rsp_masterCopyAddress :: "packages \<Rightarrow> Response \<Rightarrow> ('e, Address) outcome" where
  "rsp_masterCopyAddress E r = Address_init E (rsp_masterCopy r)"

definition rsp_proxyFactoryAddress :: "packages \<Rightarrow> Response \<Rightarrow> ('e, Address) outcome" where
  "rsp_proxyFactoryAddress E r = Address_init E (rsp_proxyFactory r)"

definition paymentReceiverAddress :: "packages \<Rightarrow> Response \<Rightarrow> ('e, Address) outcome" where
  "paymentReceiverAddress E r = Address_init E (rsp_paymentReceiver r)"

definition deploymentFee :: "Response \<Rightarrow> int" where
  "deploymentFee r = rsp_payment r"

definition setupDataValue :: "packages \<Rightarrow> Response \<Rightarrow> data" where
  "setupDataValue E r = Data_hex E (rsp_setupData r)"

subsection \<open>SafeCreationResponseValidator.swift\<close>

datatype SafeCreationValidationError =
    invalidSignature | invalidTransaction | invalidPaymentToken | invalidMasterCopy | invalidProxyFactory
  | invalidPaymentReceiver | invalidSetupData | deploymentCodeNotFound | invalidAddress

definition expectedSetupData ::
    "packages \<Rightarrow> SafeContractMetadata \<Rightarrow> Response \<Rightarrow> SafeCreationRequest \<Rightarrow> ('e, data) outcome" where
  "expectedSetupData E M response request =
     bindO (mapO (Address_init E) (req_owners request)) (\<lambda>owners.
     bindO (Address_init E (req_paymentToken request)) (\<lambda>token.
     bindO (paymentReceiverAddress E response) (\<lambda>receiver.
       setupCall E \<lparr>setup_owners = owners, setup_threshold = req_threshold request, setup_to = Address_zero,
         setup_data = [], setup_fallbackHandler = defaultFallbackHandlerAddress M, setup_paymentToken = token,
         setup_payment = rsp_payment response, setup_paymentReceiver = receiver\<rparr>)))"

definition create2_preimage :: "packages \<Rightarrow> data \<Rightarrow> data \<Rightarrow> data \<Rightarrow> data" where
  "create2_preimage E initAddress salt initCode = [0xff] @ initAddress @ salt @ sha3 E initCode"

definition address_from ::
    "packages \<Rightarrow> (string \<Rightarrow> nat option) \<Rightarrow> SafeContractMetadata \<Rightarrow> Response \<Rightarrow> SafeCreationRequest \<Rightarrow>
     ('e, Address) outcome" where
  "address_from E parseUInt M response request =
     bindO (unwrap (parseUInt (saltNonce request))) (\<lambda>nonce.
       let salt = sha3 E (sha3 E (setupDataValue E response) @ encodeUInt E nonce)
       in if length salt \<noteq> 32 then Traps
          else
            bindO (rsp_masterCopyAddress E response) (\<lambda>master.
              let initCode = deploymentCode E M master;
                  initAddress = Data_hex E (address_value (md_proxyFactoryAddress M));
                  preimage = create2_preimage E initAddress salt initCode
              in if length initAddress \<noteq> 20 then Traps
                 else if length preimage \<noteq> 85 then Traps
                 else bindO (advanced 12 (sha3 E preimage)) (\<lambda>d.
                      Address_init E (''0x'' @ toHexString E (take 20 d)))))"

definition validate ::
    "packages \<Rightarrow> (string \<Rightarrow> nat option) \<Rightarrow> SafeContractMetadata \<Rightarrow> Response \<Rightarrow> SafeCreationRequest \<Rightarrow>
     (SafeCreationValidationError, unit) outcome" where
  "validate E parseUInt M response request =
     bindO (assertEqual (rsp_paymentToken response) (req_paymentToken request) invalidPaymentToken) (\<lambda>_.
     bindO (rsp_masterCopyAddress E response) (\<lambda>master.
     bindO (assertTrue (isValidMasterCopy M master) invalidMasterCopy) (\<lambda>_.
     bindO (rsp_proxyFactoryAddress E response) (\<lambda>factory.
     bindO (assertTrue (isValidProxyFactory M factory) invalidProxyFactory) (\<lambda>_.
     bindO (paymentReceiverAddress E response) (\<lambda>receiver.
     bindO (assertTrue (isValidPaymentRecevier M receiver) invalidPaymentReceiver) (\<lambda>_.
     bindO (expectedSetupData E M response request) (\<lambda>expected.
     bindO (assertEqual (setupDataValue E response) expected invalidSetupData) (\<lambda>_.
     bindO (safeAddress E response) (\<lambda>safe.
     bindO (address_from E parseUInt M response request) (\<lambda>derived.
       assertEqual (lowercased (address_value safe)) (lowercased (address_value derived)) invalidAddress)))))))))))"

subsection \<open>What a validated response commits to\<close>

lemma Address_zero_ok:
  assumes "packages_ok E"
  shows "address_ok E Address_zero" and "account E Address_zero = 0"
proof -
  let ?z = "''0000000000000000000000000000000000000000''"
  have "ethHex E (address_value Address_zero) = ethHex E ?z"
    unfolding Address_zero_def by (simp only: Address.sel ethHex_0x is_hex_simps hex_value_zero) simp
  moreover have "length (ethHex E ?z) = 20" "be_value (ethHex E ?z) = 0"
    using ethHex_is_hex [OF assms, of ?z] by simp_all
  ultimately show "address_ok E Address_zero" "account E Address_zero = 0"
    by (simp_all add: address_ok_def address_bytes_def account_def)
qed

lemma mapO_Address_init:
  "mapO (Address_init E) ss = Returns as \<longleftrightarrow> list_all (valid_address E) ss \<and> as = map Address ss"
  by (induction ss arbitrary: as) (auto simp: Address_init_iff)

definition setup_encodable :: "setup_args \<Rightarrow> bool" where
  "setup_encodable a \<longleftrightarrow>
     0 \<le> setup_threshold a \<and> 0 \<le> setup_payment a \<and> fits_Int (8 * 32 + 1 * 32 + length (setup_owners a) * 32)"

lemma setupCall_iff:
  "setupCall E a = Returns d \<longleftrightarrow>
     setup_encodable a \<and> d = abi_method E setupSignature @ setup_heads E a @ setup_array E a @ setup_tail E a"
proof -
  have "nat (288 + int (length (setup_owners a)) * 32) = 288 + length (setup_owners a) * 32"
    by (simp add: nat_add_distrib nat_mult_distrib)
  then show ?thesis
    by (auto simp: setupCall_def encodeUInt_int_def BigUInt_of_int_def invocation_def setup_encodable_def
        fits_Int_def Int_min_def setup_heads_def setup_array_def setup_tail_def encodesEmptyDataAsZero_def)
qed

definition create2_address :: "packages \<Rightarrow> SafeContractMetadata \<Rightarrow> nat \<Rightarrow> data \<Rightarrow> Address \<Rightarrow> string" where
  "create2_address E M number setupData master =
     ''0x'' @ hex_of_bytes (drop 12 (sha3 E (create2_preimage E
       (Data_hex E (address_value (md_proxyFactoryAddress M)))
       (sha3 E (sha3 E setupData @ encodeUInt E number)) (deploymentCode E M master))))"

lemma address_from_iff:
  assumes ok: "packages_ok E"
  shows "address_from E parseUInt M response request = Returns derived \<longleftrightarrow>
    valid_address E (rsp_masterCopy response) \<and> length (Data_hex E (address_value (md_proxyFactoryAddress M))) = 20 \<and>
    (\<exists>number. parseUInt (saltNonce request) = Some number \<and>
      derived = Address (create2_address E M number (setupDataValue E response) (Address (rsp_masterCopy response))))"
proof -
  have "valid_address E (''0x'' @ hex_of_bytes (drop 12 (sha3 E d)))" for d
    using packages_okD(5) [OF ok, of d] ok by (simp add: valid_address_def hasPrefix_def)
  then show ?thesis
    using packages_okD(2,5) [OF ok]
    by (auto simp: address_from_def Let_def advanced_def create2_address_def create2_preimage_def
        rsp_masterCopyAddress_def Address_init_iff split: if_splits)
qed

definition requested_setup :: "SafeContractMetadata \<Rightarrow> Response \<Rightarrow> SafeCreationRequest \<Rightarrow> setup_args" where
  "requested_setup M response request =
     \<lparr>setup_owners = map Address (req_owners request), setup_threshold = req_threshold request,
      setup_to = Address_zero, setup_data = [], setup_fallbackHandler = defaultFallbackHandlerAddress M,
      setup_paymentToken = Address (req_paymentToken request), setup_payment = rsp_payment response,
      setup_paymentReceiver = Address (rsp_paymentReceiver response)\<rparr>"

lemma expectedSetupData_iff:
  "expectedSetupData E M response request = Returns d \<longleftrightarrow>
    list_all (valid_address E) (req_owners request) \<and> valid_address E (req_paymentToken request) \<and>
    valid_address E (rsp_paymentReceiver response) \<and>
    setupCall E (requested_setup M response request) = (Returns d :: (unit, data) outcome)"
  by (auto simp: expectedSetupData_def mapO_Address_init Address_init_iff paymentReceiverAddress_def
      requested_setup_def setupCall_iff)

lemma validate_iff:
  assumes "packages_ok E"
  shows "validate E parseUInt M response request = Returns () \<longleftrightarrow>
    rsp_paymentToken response = req_paymentToken request \<and>
    valid_address E (rsp_masterCopy response) \<and> isValidMasterCopy M (Address (rsp_masterCopy response)) \<and>
    valid_address E (rsp_proxyFactory response) \<and> isValidProxyFactory M (Address (rsp_proxyFactory response)) \<and>
    valid_address E (rsp_paymentReceiver response) \<and> isValidPaymentRecevier M (Address (rsp_paymentReceiver response)) \<and>
    list_all (valid_address E) (req_owners request) \<and> valid_address E (req_paymentToken request) \<and>
    setupCall E (requested_setup M response request) = (Returns (setupDataValue E response) :: (unit, data) outcome) \<and>
    valid_address E (rsp_safe response) \<and> length (Data_hex E (address_value (md_proxyFactoryAddress M))) = 20 \<and>
    (\<exists>number. parseUInt (saltNonce request) = Some number \<and>
      lowercased (rsp_safe response) =
      lowercased (create2_address E M number (setupDataValue E response) (Address (rsp_masterCopy response))))"
  by (auto simp: validate_def rsp_masterCopyAddress_def rsp_proxyFactoryAddress_def paymentReceiverAddress_def
      safeAddress_def assertEqual_def Address_init_iff expectedSetupData_iff address_from_iff [OF assms] split: if_splits)
    (metis Address.sel)

lemma requested_setup_valid:
  assumes "packages_ok E" and "address_ok E (defaultFallbackHandlerAddress M)" and "req_threshold request \<le> Int_max"
    and "setup_encodable (requested_setup M response request)"
    and "list_all (valid_address E) (req_owners request)" "valid_address E (req_paymentToken request)"
    and "valid_address E (rsp_paymentReceiver response)"
  shows "setup_valid E (requested_setup M response request)"
  using assms Address_zero_ok [OF assms(1)]
  by (auto simp: setup_valid_def requested_setup_def setup_encodable_def list_all_iff valid_address_ok
      fits_Int_def Int_max_def)

text \<open>
  (C1) A response that passes validation commits to the request. Take a request built for \<open>owners\<close> and \<open>n\<close>
  confirmations. If the validator accepts a response, then the set-up data in it decodes to a call that
  installs exactly the accounts of \<open>owners\<close>, in order, with threshold \<open>n\<close> between 1 and their number, no
  delegate call, the configured fallback handler and the requested payment token; the payment goes to the configured
  funder or to nobody; the contract code and the factory are known ones; and the address the user is asked to
  pay to is the CREATE2 address of that very set-up call. A relay service cannot slip in another owner,
  a lower threshold or another address.
\<close>

theorem validated_response_binds_owners:
  assumes "packages_ok E" and "address_ok E (defaultFallbackHandlerAddress M)"
    and "SafeCreationRequest_init showUInt salt owners n token = (Returns request :: (unit, SafeCreationRequest) outcome)"
    and "n \<le> Int_max"
    and "validate E parseUInt M response request = Returns ()"
  shows "(\<exists>a. decodeSetup E (setupDataValue E response) = (Returns (Some a) :: (unit, setup_args option) outcome) \<and>
      map (account E) (setup_owners a) = map (account E) owners \<and>
      setup_threshold a = n \<and> 1 \<le> n \<and> n \<le> int (length owners) \<and>
      account E (setup_to a) = 0 \<and> setup_data a = [] \<and>
      account E (setup_fallbackHandler a) = account E (defaultFallbackHandlerAddress M) \<and>
      account E (setup_paymentToken a) = account E token \<and>
      account E (setup_paymentReceiver a) = account E (Address (rsp_paymentReceiver response))) \<and>
    isValidPaymentRecevier M (Address (rsp_paymentReceiver response)) \<and>
    isValidMasterCopy M (Address (rsp_masterCopy response)) \<and>
    isValidProxyFactory M (Address (rsp_proxyFactory response)) \<and>
    (\<exists>number. parseUInt (showUInt salt) = Some number \<and>
      lowercased (rsp_safe response) =
      lowercased (create2_address E M number (setupDataValue E response) (Address (rsp_masterCopy response))))"
proof -
  let ?s = "requested_setup M response request"
  from assms(3) have req: "request = \<lparr>saltNonce = showUInt salt, req_owners = map address_value owners,
      req_threshold = n, req_paymentToken = address_value token\<rparr>" and n: "1 \<le> n" "n \<le> int (length owners)"
    by (auto simp: SafeCreationRequest_init_def split: if_splits)
  note v = assms(5) [unfolded validate_iff [OF assms(1)]]
  then have sv: "setup_valid E ?s"
    using assms(1,2,4) by (intro requested_setup_valid) (auto simp: setupCall_iff req)
  have "decodeSetup E (setupDataValue E response) = (Returns (Some (setup_canon E ?s)) :: (unit, setup_args option) outcome)"
    using v decodeSetup_setupCall [OF assms(1) sv] by (simp add: setupCall_iff)
  moreover have canon: "account E (uint_address E (account E x)) = account E x" if "address_ok E x" for x
    using account_uint_address [OF assms(1) account_less [OF that]] .
  moreover have "map (account E) (setup_owners (setup_canon E ?s)) = map (account E) owners"
    using v canon by (auto simp: setup_canon_def requested_setup_def req list_all_iff valid_address_ok)
  ultimately show ?thesis
    using v n sv Address_zero_ok [OF assms(1)] account_uint_address [OF assms(1), of 0]
    by (auto simp: setup_canon_def requested_setup_def setup_valid_def req)
qed

definition sample_owners :: "Address list" where
  "sample_owners = [uint_address samplePackages 21, uint_address samplePackages 22]"

definition request_for :: "Address list \<Rightarrow> int \<Rightarrow> SafeCreationRequest" where
  "request_for os n =
     \<lparr>saltNonce = nat_hex 3, req_owners = map address_value os, req_threshold = n,
      req_paymentToken = address_value (uint_address samplePackages 5)\<rparr>"

definition setup_for :: "Address list \<Rightarrow> int \<Rightarrow> data" where
  "setup_for os n =
     (let a = \<lparr>setup_owners = os, setup_threshold = n, setup_to = Address_zero, setup_data = [],
        setup_fallbackHandler = uint_address samplePackages 8, setup_paymentToken = uint_address samplePackages 5,
        setup_payment = 1000, setup_paymentReceiver = uint_address samplePackages 9\<rparr>
      in abi_method samplePackages setupSignature @ setup_heads samplePackages a @ setup_array samplePackages a @
         setup_tail samplePackages a)"

definition response_for :: "Address list \<Rightarrow> int \<Rightarrow> Response" where
  "response_for os n =
     \<lparr>rsp_safe = create2_address samplePackages sampleMetadata 3 (setup_for os n) (uint_address samplePackages 6),
      rsp_masterCopy = address_value (uint_address samplePackages 6),
      rsp_proxyFactory = address_value (uint_address samplePackages 7),
      rsp_paymentToken = address_value (uint_address samplePackages 5), rsp_payment = 1000,
      rsp_paymentReceiver = address_value (uint_address samplePackages 9),
      rsp_setupData = ''0x'' @ hex_of_bytes (setup_for os n), gasEstimated = 0, gasPriceEstimated = 0\<rparr>"

lemma Data_hex_uint_address: "packages_ok E \<Longrightarrow> Data_hex E (address_value (uint_address E n)) = be_bytes E 20 n"
  using packages_okD(6) [of E "hex_of_bytes (be_bytes E 20 n)"] by (simp add: uint_address_def)

lemma response_for_valid:
  assumes "list_all (\<lambda>a. valid_address samplePackages (address_value a)) os" "0 \<le> n" "length os \<le> 4"
  shows "validate samplePackages (\<lambda>_. Some 3) sampleMetadata (response_for os n) (request_for os n) = Returns ()"
proof -
  note ok = samplePackages_ok
  have sd: "setupDataValue samplePackages (response_for os n) = setup_for os n"
    using packages_okD(6) [OF ok, of "hex_of_bytes (setup_for os n)"] by (simp add: setupDataValue_def response_for_def)
  have "valid_address samplePackages (rsp_safe (response_for os n))"
    using ok packages_okD(5) [OF ok] by (simp add: response_for_def create2_address_def valid_address_def hasPrefix_def)
  moreover have "setup_encodable (requested_setup sampleMetadata (response_for os n) (request_for os n))"
    using assms(2,3) by (simp add: setup_encodable_def requested_setup_def request_for_def response_for_def fits_Int_def Int_max_def)
  ultimately show ?thesis
    unfolding validate_iff [OF ok] sd setupCall_iff
    using valid_uint_address [OF ok] Data_hex_uint_address [OF ok] assms(1)
    by (simp add: request_for_def response_for_def setup_for_def sampleMetadata_def list_all_iff comp_def
        requested_setup_def isValidMasterCopy_def isValidProxyFactory_def isValidPaymentRecevier_def same_spelling_def Let_def)
qed

theorem validated_response_binds_owners_witness:
  "\<exists>a. decodeSetup samplePackages (setupDataValue samplePackages (response_for sample_owners 2)) =
      (Returns (Some a) :: (unit, setup_args option) outcome) \<and>
    map (account samplePackages) (setup_owners a) = map (account samplePackages) sample_owners \<and> setup_threshold a = 2"
proof -
  have "address_ok samplePackages (defaultFallbackHandlerAddress sampleMetadata)"
    by (simp add: sampleMetadata_def uint_address_ok samplePackages_ok)
  moreover have "\<not> isZero (uint_address samplePackages 21)" "\<not> isZero (uint_address samplePackages 22)"
    using account_uint_address [OF samplePackages_ok, of 21] account_uint_address [OF samplePackages_ok, of 22]
      Address_zero_ok(2) [OF samplePackages_ok] by (auto simp: isZero_def)
  then have "SafeCreationRequest_init nat_hex 3 sample_owners 2 (uint_address samplePackages 5) =
      (Returns (request_for sample_owners 2) :: (unit, SafeCreationRequest) outcome)"
    by (simp add: SafeCreationRequest_init_def sample_owners_def request_for_def)
  moreover have "2 \<le> Int_max" by (simp add: Int_max_def)
  moreover have valid: "validate samplePackages (\<lambda>_. Some 3) sampleMetadata (response_for sample_owners 2) (request_for sample_owners 2) = Returns ()"
    using valid_uint_address [OF samplePackages_ok] by (intro response_for_valid) (simp_all add: sample_owners_def)
  ultimately show ?thesis
    using validated_response_binds_owners [OF samplePackages_ok _ _ _ valid] by blast
qed

end
