(* ===== verification/Portfolio.thy ===== *)
theory Portfolio
  imports Prelude
begin

section \<open>The portfolio of wallets\<close>

text \<open>
  Model of \<^verbatim>\<open>MultisigWalletDomainModel/Portfolio/Portfolio.swift\<close> and \<^verbatim>\<open>Wallet/WalletIDList.swift\<close>. Identifiers are the
  strings that \<^verbatim>\<open>BaseID\<close> compares. A failed check under \<^verbatim>\<open>try!\<close> stops the process.
\<close>

type_synonym WalletID = string

datatype Portfolio_Error = walletAlreadyExists | walletNotFound

record Portfolio =
  selectedWallet :: "WalletID option"
  wallets :: "WalletID list"

definition Portfolio_new :: Portfolio where
  "Portfolio_new = \<lparr>selectedWallet = None, wallets = []\<rparr>"

definition hasWallet :: "Portfolio \<Rightarrow> WalletID \<Rightarrow> bool" where
  "hasWallet p wallet = (wallet \<in> set (wallets p))"

definition addWallet :: "Portfolio \<Rightarrow> WalletID \<Rightarrow> ('e, Portfolio) outcome" where
  "addWallet p wallet =
     bindO (forceTry (assertFalse (hasWallet p wallet) walletAlreadyExists)) (\<lambda>_.
       let p1 = (if wallets p = [] then p\<lparr>selectedWallet := Some wallet\<rparr> else p)
       in Returns (p1\<lparr>wallets := wallets p1 @ [wallet]\<rparr>))"

definition removeWallet :: "Portfolio \<Rightarrow> WalletID \<Rightarrow> Portfolio" where
  "removeWallet p wallet =
     (if \<not> hasWallet p wallet then p
      else let p1 = p\<lparr>wallets := remove1 wallet (wallets p)\<rparr>
           in if wallets p1 = [] then p1\<lparr>selectedWallet := None\<rparr>
              else case selectedWallet p1 of
                  Some i \<Rightarrow> if \<not> hasWallet p1 i then p1\<lparr>selectedWallet := Some (hd (wallets p1))\<rparr> else p1
                | None \<Rightarrow> p1)"

definition selectWallet :: "Portfolio \<Rightarrow> WalletID \<Rightarrow> ('e, Portfolio) outcome" where
  "selectWallet p wallet =
     bindO (forceTry (assertTrue (hasWallet p wallet) walletNotFound)) (\<lambda>_.
       Returns (p\<lparr>selectedWallet := Some wallet\<rparr>))"

text \<open>Restoring a portfolio adds the wallets one by one and then selects one, if it is among them.\<close>

fun addWallets :: "Portfolio \<Rightarrow> WalletID list \<Rightarrow> ('e, Portfolio) outcome" where
  "addWallets p [] = Returns p"
| "addWallets p (w # ws) = bindO (addWallet p w) (\<lambda>p1. addWallets p1 ws)"

definition Portfolio_init :: "WalletID list \<Rightarrow> WalletID option \<Rightarrow> ('e, Portfolio) outcome" where
  "Portfolio_init ws selected =
     bindO (addWallets Portfolio_new ws) (\<lambda>p.
       case selected of
         Some w \<Rightarrow> if hasWallet p w then selectWallet p w else Returns p
       | None \<Rightarrow> Returns p)"

subsection \<open>Invariant\<close>

definition portfolio_ok :: "Portfolio \<Rightarrow> bool" where
  "portfolio_ok p \<longleftrightarrow>
     distinct (wallets p) \<and>
     (case selectedWallet p of None \<Rightarrow> wallets p = [] | Some w \<Rightarrow> w \<in> set (wallets p))"

lemma portfolio_ok_new: "portfolio_ok Portfolio_new"
  by (simp add: portfolio_ok_def Portfolio_new_def)

lemma addWallet_Returns:
  "addWallet p w = Returns p' \<longleftrightarrow>
     w \<notin> set (wallets p) \<and>
     p' = p\<lparr>selectedWallet := (if wallets p = [] then Some w else selectedWallet p), wallets := wallets p @ [w]\<rparr>"
  by (auto simp: addWallet_def hasWallet_def Let_def)

lemma addWallet_ok: "portfolio_ok p \<Longrightarrow> addWallet p w = Returns p' \<Longrightarrow> portfolio_ok p'"
  by (auto simp: addWallet_Returns portfolio_ok_def split: option.splits)

lemma selectWallet_Returns:
  "selectWallet p w = Returns p' \<longleftrightarrow> w \<in> set (wallets p) \<and> p' = p\<lparr>selectedWallet := Some w\<rparr>"
  by (auto simp: selectWallet_def hasWallet_def)

lemma selectWallet_ok: "portfolio_ok p \<Longrightarrow> selectWallet p w = Returns p' \<Longrightarrow> portfolio_ok p'"
  by (auto simp: selectWallet_Returns portfolio_ok_def)

lemma wallets_removeWallet: "wallets (removeWallet p w) = remove1 w (wallets p)"
  by (auto simp: removeWallet_def hasWallet_def Let_def remove1_idem split: option.splits)

lemma removeWallet_ok: "portfolio_ok p \<Longrightarrow> portfolio_ok (removeWallet p w)"
proof (cases "w \<in> set (wallets p)")
  case True
  assume ok: "portfolio_ok p"
  then have set: "set (remove1 w (wallets p)) = set (wallets p) - {w}" by (simp add: portfolio_ok_def)
  have "hd (remove1 w (wallets p)) \<in> set (wallets p) - {w}" if "remove1 w (wallets p) \<noteq> []"
    using hd_in_set [OF that] set by simp
  with True ok show ?thesis
    by (auto simp: removeWallet_def hasWallet_def portfolio_ok_def Let_def split: option.splits)
next
  case False
  assume "portfolio_ok p"
  with False show ?thesis by (simp add: removeWallet_def hasWallet_def)
qed

lemma remove1_Nil: "distinct xs \<Longrightarrow> remove1 w xs = [] \<Longrightarrow> x \<in> set xs \<Longrightarrow> x = w"
  by (metis Diff_iff empty_iff empty_set insert_iff set_remove1_eq)

lemma removeWallet_selected:
  assumes "portfolio_ok p"
  shows "selectedWallet (removeWallet p w) =
    (if selectedWallet p \<noteq> Some w then selectedWallet p
     else case remove1 w (wallets p) of [] \<Rightarrow> None | v # _ \<Rightarrow> Some v)"
proof (cases "w \<in> set (wallets p)")
  case True
  with assms show ?thesis
    by (auto simp: removeWallet_def hasWallet_def portfolio_ok_def Let_def remove1_Nil split: option.splits list.splits)
next
  case False
  with assms show ?thesis
    by (auto simp: removeWallet_def hasWallet_def portfolio_ok_def split: option.splits)
qed

lemma addWallets_Returns:
  "portfolio_ok p \<Longrightarrow> distinct (wallets p @ ws) \<Longrightarrow>
     \<exists>p'. addWallets p ws = (Returns p' :: ('e, Portfolio) outcome) \<and> portfolio_ok p' \<and> wallets p' = wallets p @ ws \<and>
       selectedWallet p' = (if wallets p = [] then (case ws of [] \<Rightarrow> selectedWallet p | w # _ \<Rightarrow> Some w) else selectedWallet p)"
proof (induction ws arbitrary: p)
  case (Cons w ws)
  define q where "q = p\<lparr>selectedWallet := (if wallets p = [] then Some w else selectedWallet p), wallets := wallets p @ [w]\<rparr>"
  have add: "addWallet p w = (Returns q :: ('e, Portfolio) outcome)"
    using Cons.prems by (simp add: addWallet_Returns q_def)
  from addWallet_ok [OF Cons.prems(1) add] Cons.IH [of q] Cons.prems(2) add show ?case
    by (cases "wallets p = []") (simp_all add: q_def)
qed simp

subsection \<open>Reachable portfolios\<close>

inductive portfolio_reachable :: "Portfolio \<Rightarrow> bool" where
  start: "portfolio_reachable Portfolio_new"
| add: "portfolio_reachable p \<Longrightarrow> addWallet p w = (Returns p' :: (unit, Portfolio) outcome) \<Longrightarrow> portfolio_reachable p'"
| remove: "portfolio_reachable p \<Longrightarrow> portfolio_reachable (removeWallet p w)"
| select: "portfolio_reachable p \<Longrightarrow> selectWallet p w = (Returns p' :: (unit, Portfolio) outcome) \<Longrightarrow> portfolio_reachable p'"

lemma portfolio_reachable_ok: "portfolio_reachable p \<Longrightarrow> portfolio_ok p"
  by (induction rule: portfolio_reachable.induct)
    (auto intro: portfolio_ok_new addWallet_ok removeWallet_ok selectWallet_ok)

lemma restore:
  assumes "portfolio_ok p"
  shows "Portfolio_init (wallets p) (selectedWallet p) = (Returns p :: ('e, Portfolio) outcome)"
proof -
  from addWallets_Returns [OF portfolio_ok_new, of "wallets p"] assms
  obtain q where q: "addWallets Portfolio_new (wallets p) = (Returns q :: ('e, Portfolio) outcome)"
    "wallets q = wallets p" "portfolio_ok q"
    by (auto simp: Portfolio_new_def portfolio_ok_def)
  then have "Portfolio_init (wallets p) (selectedWallet p) =
      (case selectedWallet p of Some w \<Rightarrow> if hasWallet q w then selectWallet q w else Returns q
       | None \<Rightarrow> (Returns q :: ('e, Portfolio) outcome))"
    by (simp add: Portfolio_init_def)
  with assms q(2,3) show ?thesis
    by (auto simp: portfolio_ok_def hasWallet_def selectWallet_Returns split: option.splits)
qed

text \<open>
  In every portfolio that the operations can build, the wallets are distinct, a wallet is selected
  exactly when there is one, and the selected wallet is one of them. Removing a wallet keeps the selection
  unless it was the removed wallet; then the first remaining one is selected. A portfolio restored from its
  stored list and selection is the stored portfolio, and restoring never stops the process.
\<close>

theorem portfolio_selection:
  assumes "portfolio_reachable p"
  shows "distinct (wallets p) \<and> (selectedWallet p = None \<longleftrightarrow> wallets p = []) \<and>
    set_option (selectedWallet p) \<subseteq> set (wallets p) \<and>
    wallets (removeWallet p w) = remove1 w (wallets p) \<and>
    selectedWallet (removeWallet p w) =
      (if selectedWallet p \<noteq> Some w then selectedWallet p
       else case remove1 w (wallets p) of [] \<Rightarrow> None | v # _ \<Rightarrow> Some v) \<and>
    Portfolio_init (wallets p) (selectedWallet p) = (Returns p :: (unit, Portfolio) outcome)"
  using portfolio_reachable_ok [OF assms]
  by (auto simp: removeWallet_selected wallets_removeWallet restore portfolio_ok_def split: option.splits)

theorem portfolio_selection_witness:
  "\<exists>p. wallets p = [''b'', ''c''] \<and> selectedWallet p = Some ''c'' \<and> selectedWallet (removeWallet p ''c'') = Some ''b''"
proof -
  define p1 where "p1 = \<lparr>selectedWallet = Some ''b'', wallets = [''b'']\<rparr>"
  define p2 where "p2 = \<lparr>selectedWallet = Some ''b'', wallets = [''b'', ''c'']\<rparr>"
  define p3 where "p3 = \<lparr>selectedWallet = Some ''c'', wallets = [''b'', ''c'']\<rparr>"
  have "portfolio_reachable p1"
    by (rule portfolio_reachable.add [OF portfolio_reachable.start, of "''b''"])
      (simp add: addWallet_Returns p1_def Portfolio_new_def)
  then have "portfolio_reachable p2"
    by (rule portfolio_reachable.add [of _ "''c''"]) (simp add: addWallet_Returns p1_def p2_def)
  then have "portfolio_reachable p3"
    by (rule portfolio_reachable.select [of _ "''c''"]) (simp add: selectWallet_Returns p2_def p3_def)
  from portfolio_selection [OF this, of "''c''"] show ?thesis by (intro exI [of _ p3]) (simp add: p3_def)
qed

end
