(* ===== verification/Wallet.thy ===== *)
theory Wallet
  imports Bytes Portfolio "HOL-Library.List_Lexorder" "HOL-Library.Char_ord"
begin

section \<open>Wallets: owners, life cycle, write permission\<close>

text \<open>
  Model of \<^verbatim>\<open>MultisigWalletDomainModel/Wallet/Owner.swift\<close>, \<^verbatim>\<open>Wallet.swift\<close> and \<^verbatim>\<open>WalletStates.swift\<close>. A wallet object
  is a record; the state classes are the constructors of \<open>State\<close>, and each override of \<^verbatim>\<open>resume\<close>, \<^verbatim>\<open>proceed\<close> and
  \<^verbatim>\<open>cancel\<close> is a function that returns the changed wallet and the changed \<open>world\<close>: the rows of the wallet
  table in rowid order, the account balances, the addresses whose private key is on the device, and the
  published events. Saving a wallet is \<^verbatim>\<open>INSERT OR REPLACE\<close>: the row of the same identifier goes and a new last
  row comes. Addresses are ASCII, so that string order is the order of the character codes.
\<close>

subsection \<open>Owner.swift\<close>

datatype OwnerRole =
    thisDevice | browserExtension | paperWallet | paperWalletDerived | keycard | unknown | personalSafe

record Owner =
  owner_address :: Address
  owner_role :: OwnerRole

type_synonym OwnerList = "Owner list"

definition first_with :: "OwnerRole \<Rightarrow> OwnerList \<Rightarrow> Owner option" where
  "first_with role storage = List.find (\<lambda>o1. owner_role o1 = role) storage"

definition sortedOwners :: "OwnerList \<Rightarrow> Owner list" where
  "sortedOwners storage = sort_key (\<lambda>o1. lowercased (address_value (owner_address o1))) storage"

definition remove_with :: "OwnerRole \<Rightarrow> OwnerList \<Rightarrow> OwnerList" where
  "remove_with role storage = filter (\<lambda>o1. owner_role o1 \<noteq> role) storage"

definition remove_item :: "Owner \<Rightarrow> OwnerList \<Rightarrow> OwnerList" where
  "remove_item item storage = remove1 item storage"

subsection \<open>Wallet.swift and WalletStates.swift: data\<close>

datatype WalletType = personal | multisig

datatype State =
    draft | deploying | notEnoughFunds | creationStarted | finalizingDeployment | readyToUse
  | recoveryDraft | recoveryInProgress | recoveryPostProcessing | waitingForFirstDeposit

fun State_rawValue :: "State \<Rightarrow> int" where
  "State_rawValue draft = 0"
| "State_rawValue deploying = 1"
| "State_rawValue notEnoughFunds = 2"
| "State_rawValue creationStarted = 3"
| "State_rawValue finalizingDeployment = 4"
| "State_rawValue readyToUse = 5"
| "State_rawValue recoveryDraft = 6"
| "State_rawValue recoveryInProgress = 7"
| "State_rawValue recoveryPostProcessing = 8"
| "State_rawValue waitingForFirstDeposit = 9"

definition creationStates :: "State list" where
  "creationStates =
     [draft, deploying, notEnoughFunds, creationStarted, finalizingDeployment, waitingForFirstDeposit]"

record Wallet =
  wallet_id :: WalletID
  state :: State
  address :: "Address option"
  feePaymentTokenAddress :: "Address option"
  creationTransactionHash :: "string option"
  minimumDeploymentTransactionAmount :: "int option"
  confirmationCount :: int
  owners :: OwnerList
  wallet_masterCopyAddress :: "Address option"
  contractVersion :: "string option"
  wallet_type :: WalletType

definition owner :: "Wallet \<Rightarrow> OwnerRole \<Rightarrow> Owner option" where
  "owner w role = first_with role (owners w)"

definition allOwners :: "Wallet \<Rightarrow> Owner list" where
  "allOwners w = sortedOwners (owners w)"

definition requiredRoles :: "OwnerRole list" where
  "requiredRoles = [thisDevice, paperWallet, paperWalletDerived]"

definition hasAllRoles :: "Wallet \<Rightarrow> bool" where
  "hasAllRoles w = foldl (\<lambda>b role. b \<and> owner w role \<noteq> None) True requiredRoles"

text \<open>The properties of the state classes.\<close>

fun canChangeOwners :: "State \<Rightarrow> bool" where
  "canChangeOwners draft = True"
| "canChangeOwners readyToUse = True"
| "canChangeOwners recoveryDraft = True"
| "canChangeOwners _ = False"

fun canChangeTransactionHash :: "State \<Rightarrow> bool" where
  "canChangeTransactionHash finalizingDeployment = True"
| "canChangeTransactionHash _ = False"

fun canChangeAddress :: "State \<Rightarrow> bool" where
  "canChangeAddress draft = True"
| "canChangeAddress deploying = True"
| "canChangeAddress recoveryDraft = True"
| "canChangeAddress _ = False"

definition isDeployable :: "Wallet \<Rightarrow> bool" where
  "isDeployable w = (if state w = draft then hasAllRoles w else False)"

definition isReadyToUse :: "Wallet \<Rightarrow> bool" where
  "isReadyToUse w = (state w = readyToUse)"

fun state_isCreationInProgress :: "State \<Rightarrow> bool" where
  "state_isCreationInProgress deploying = True"
| "state_isCreationInProgress waitingForFirstDeposit = True"
| "state_isCreationInProgress notEnoughFunds = True"
| "state_isCreationInProgress creationStarted = True"
| "state_isCreationInProgress finalizingDeployment = True"
| "state_isCreationInProgress _ = False"

definition isCreationInProgress :: "Wallet \<Rightarrow> bool" where
  "isCreationInProgress w = state_isCreationInProgress (state w)"

definition isRecoveryInProgress :: "Wallet \<Rightarrow> bool" where
  "isRecoveryInProgress w = (state w = recoveryInProgress \<or> state w = recoveryPostProcessing)"

definition isFinalizingRecovery :: "Wallet \<Rightarrow> bool" where
  "isFinalizingRecovery w = (state w = recoveryPostProcessing)"

definition isWaitingForFunding :: "Wallet \<Rightarrow> bool" where
  "isWaitingForFunding w = (state w = notEnoughFunds)"

definition isWaitingForFirstDeposit :: "Wallet \<Rightarrow> bool" where
  "isWaitingForFirstDeposit w = (state w = waitingForFirstDeposit)"

definition isFinalizingDeployment :: "Wallet \<Rightarrow> bool" where
  "isFinalizingDeployment w = (state w = finalizingDeployment)"

subsection \<open>Wallet.swift: operations\<close>

definition Wallet_blank :: "WalletID \<Rightarrow> Wallet" where
  "Wallet_blank i =
     \<lparr>wallet_id = i, state = draft, address = None, feePaymentTokenAddress = None, creationTransactionHash = None,
      minimumDeploymentTransactionAmount = None, confirmationCount = 1, owners = [], wallet_masterCopyAddress = None,
      contractVersion = None, wallet_type = personal\<rparr>"

definition addOwner :: "Owner \<Rightarrow> Wallet \<Rightarrow> Wallet" where
  "addOwner o1 w =
     (if owner_role o1 = unknown then w\<lparr>owners := owners w @ [o1]\<rparr>
      else w\<lparr>owners := remove_with (owner_role o1) (owners w) @ [o1]\<rparr>)"

definition addOrReplaceOwner :: "Owner \<Rightarrow> Wallet \<Rightarrow> Wallet" where
  "addOrReplaceOwner o1 w = addOwner o1 w"

definition Wallet_init ::
    "WalletID \<Rightarrow> State \<Rightarrow> OwnerList \<Rightarrow> Address option \<Rightarrow> Address option \<Rightarrow> int option \<Rightarrow> string option \<Rightarrow> int \<Rightarrow>
     Address option \<Rightarrow> string option \<Rightarrow> WalletType \<Rightarrow> Wallet" where
  "Wallet_init i st os adr feeToken minAmount txHash confirmations master version ty =
     (let w1 = fold addOwner os (Wallet_blank i)
      in w1\<lparr>state := st, address := adr, feePaymentTokenAddress := feeToken,
            minimumDeploymentTransactionAmount := minAmount, creationTransactionHash := txHash,
            confirmationCount := confirmations, wallet_masterCopyAddress := master, contractVersion := version,
            wallet_type := ty\<rparr>)"

definition Wallet_new :: "WalletID \<Rightarrow> Address \<Rightarrow> Wallet" where
  "Wallet_new i device = addOwner \<lparr>owner_address = device, owner_role = thisDevice\<rparr> (Wallet_blank i)"

definition prepareForRecovery :: "Wallet \<Rightarrow> Wallet" where
  "prepareForRecovery w =
     w\<lparr>state := recoveryDraft, owners := filter (\<lambda>o1. owner_role o1 = thisDevice) (owners w), confirmationCount := 1\<rparr>"

definition prepareForCreation :: "Wallet \<Rightarrow> Wallet" where
  "prepareForCreation w =
     (if state w = draft then w
      else w\<lparr>state := draft, owners := filter (\<lambda>o1. owner_role o1 = thisDevice) (owners w), confirmationCount := 1\<rparr>)"

definition hasAuthenticator :: "Wallet \<Rightarrow> bool" where
  "hasAuthenticator w = (owner w browserExtension \<noteq> None \<or> owner w keycard \<noteq> None)"

definition twoFAOwner :: "Wallet \<Rightarrow> Owner option" where
  "twoFAOwner w = (case owner w browserExtension of None \<Rightarrow> owner w keycard | Some o1 \<Rightarrow> Some o1)"

definition createOwner :: "packages \<Rightarrow> string \<Rightarrow> OwnerRole \<Rightarrow> ('e, Owner) outcome" where
  "createOwner E adr role = bindO (Address_init E adr) (\<lambda>a. Returns \<lparr>owner_address = a, owner_role = role\<rparr>)"

definition contains_owner :: "Owner \<Rightarrow> Wallet \<Rightarrow> bool" where
  "contains_owner o1 w = (o1 \<in> set (owners w))"

definition removeOwner :: "OwnerRole \<Rightarrow> Wallet \<Rightarrow> Wallet" where
  "removeOwner role w = w\<lparr>owners := remove_with role (owners w)\<rparr>"

definition assignCreationTransaction :: "string option \<Rightarrow> Wallet \<Rightarrow> Wallet" where
  "assignCreationTransaction hash w = w\<lparr>creationTransactionHash := hash\<rparr>"

definition changeAddress :: "Address option \<Rightarrow> Wallet \<Rightarrow> Wallet" where
  "changeAddress adr w = w\<lparr>address := adr\<rparr>"

definition changeConfirmationCount :: "int \<Rightarrow> Wallet \<Rightarrow> Wallet" where
  "changeConfirmationCount newValue w = w\<lparr>confirmationCount := newValue\<rparr>"

definition changeFeePaymentToken :: "Address \<Rightarrow> Wallet \<Rightarrow> Wallet" where
  "changeFeePaymentToken newValue w = w\<lparr>feePaymentTokenAddress := Some newValue\<rparr>"

definition updateMinimumTransactionAmount :: "int \<Rightarrow> Wallet \<Rightarrow> Wallet" where
  "updateMinimumTransactionAmount newValue w = w\<lparr>minimumDeploymentTransactionAmount := Some newValue\<rparr>"

definition changeMasterCopy :: "Address option \<Rightarrow> Wallet \<Rightarrow> Wallet" where
  "changeMasterCopy newValue w = w\<lparr>wallet_masterCopyAddress := newValue\<rparr>"

definition changeContractVersion :: "string option \<Rightarrow> Wallet \<Rightarrow> Wallet" where
  "changeContractVersion newValue w = w\<lparr>contractVersion := newValue\<rparr>"

subsection \<open>The world of a wallet\<close>

datatype DomainEvent =
    DeploymentStarted WalletID
  | StartedWaitingForFirstDeposit WalletID
  | DeploymentAborted WalletID
  | WalletTransactionHashIsKnown WalletID
  | StartedWaitingForRemainingFeeAmount WalletID
  | CreationStarted WalletID
  | DeploymentFunded WalletID
  | WalletCreated WalletID
  | WalletCreationFailed WalletID
  | RecoveryStarted
  | RecoveryAborted
  | WalletRecovered
  | WalletRecoveryFailed
  | AccountsBalancesUpdated
  | TransactionStatusUpdated
  | RecoveryTransactionHashIsKnown
  | WalletAddressChanged
  | WalletRecoveryAccountsAccepted
  | WalletBecameReadyForRecovery
  | ContractUpgraded

record world =
  walletRows :: "Wallet list"
  accountRows :: "(string \<times> int option) list"
  deviceKeys :: "Address list"
  events :: "DomainEvent list"

definition save :: "Wallet \<Rightarrow> world \<Rightarrow> world" where
  "save w s = s\<lparr>walletRows := filter (\<lambda>r. wallet_id r \<noteq> wallet_id w) (walletRows s) @ [w]\<rparr>"

definition find_id :: "WalletID \<Rightarrow> world \<Rightarrow> Wallet option" where
  "find_id i s = List.find (\<lambda>r. wallet_id r = i) (walletRows s)"

definition find_address :: "Address \<Rightarrow> world \<Rightarrow> Wallet option" where
  "find_address a s = List.find (\<lambda>r. address r = Some a) (walletRows s)"

definition remove_wallet_row :: "Wallet \<Rightarrow> world \<Rightarrow> world" where
  "remove_wallet_row w s = s\<lparr>walletRows := filter (\<lambda>r. wallet_id r \<noteq> wallet_id w) (walletRows s)\<rparr>"

definition filter_by_states :: "State list \<Rightarrow> world \<Rightarrow> Wallet list" where
  "filter_by_states states s =
     (if states = [] then walletRows s else filter (\<lambda>r. state r \<in> set states) (walletRows s))"

definition publish :: "DomainEvent \<Rightarrow> world \<Rightarrow> world" where
  "publish e s = s\<lparr>events := events s @ [e]\<rparr>"

definition accountID :: "string \<Rightarrow> WalletID \<Rightarrow> ('e, string) outcome" where
  "accountID tokenID walletID =
     (if walletID = [] then Traps else if tokenID = [] then Traps
      else Returns (tokenID @ '':'' @ walletID))"

definition find_account :: "string \<Rightarrow> world \<Rightarrow> int option option" where
  "find_account i s = map_of (accountRows s) i"

subsection \<open>WalletStates.swift: transitions\<close>

type_synonym 'e transition = "Wallet \<Rightarrow> world \<Rightarrow> ('e, Wallet \<times> world) outcome"

definition DeployingState_resume :: "'e transition" where
  "DeployingState_resume w s = Returns (w, publish (DeploymentStarted (wallet_id w)) s)"

definition DraftState_proceed :: "'e transition" where
  "DraftState_proceed w s =
     (let w1 = w\<lparr>state := deploying\<rparr> in DeployingState_resume w1 (save w1 s))"

definition DraftState_resume :: "'e transition" where
  "DraftState_resume w s =
     (let ownerCount = int (length (allOwners w))
      in if \<not> (hasAllRoles w \<and> ownerCount \<le> 4) then Traps
         else let confirmations = ownerCount - (int (length requiredRoles) - 1)
              in if \<not> (confirmations = 1 \<or> confirmations = 2) then Traps
                 else DraftState_proceed (changeConfirmationCount confirmations w) s)"

definition WaitingForFirstDepositState_resume :: "'e transition" where
  "WaitingForFirstDepositState_resume w s = Returns (w, publish (StartedWaitingForFirstDeposit (wallet_id w)) s)"

definition DeployingState_proceed :: "'e transition" where
  "DeployingState_proceed w s =
     (let w1 = w\<lparr>state := waitingForFirstDeposit\<rparr> in WaitingForFirstDepositState_resume w1 (save w1 s))"

text \<open>The same \<^verbatim>\<open>cancel\<close> is written in four state classes.\<close>

definition abortDeployment :: "'e transition" where
  "abortDeployment w s =
     (let w1 = w\<lparr>state := draft\<rparr> in Returns (w1, publish (DeploymentAborted (wallet_id w1)) (save w1 s)))"

definition NotEnoughFundsState_resume :: "'e transition" where
  "NotEnoughFundsState_resume w s = Returns (w, publish (StartedWaitingForRemainingFeeAmount (wallet_id w)) s)"

definition CreationStartedState_resume :: "'e transition" where
  "CreationStartedState_resume w s = Returns (w, publish (DeploymentFunded (wallet_id w)) s)"

definition WaitingForFirstDepositState_proceed :: "'e transition" where
  "WaitingForFirstDepositState_proceed w s =
     bindO (unwrap (minimumDeploymentTransactionAmount w)) (\<lambda>minimumBalance.
       let token = (case feePaymentTokenAddress w of None \<Rightarrow> Address_zero | Some a \<Rightarrow> a)
       in bindO (accountID (address_value token) (wallet_id w)) (\<lambda>i.
          case find_account i s of
            None \<Rightarrow> Returns (w, s)
          | Some account_balance \<Rightarrow>
              let balance = (case account_balance of None \<Rightarrow> 0 | Some b \<Rightarrow> b)
              in if balance < minimumBalance
                 then let w1 = w\<lparr>state := notEnoughFunds\<rparr> in NotEnoughFundsState_resume w1 (save w1 s)
                 else let w1 = w\<lparr>state := creationStarted\<rparr> in CreationStartedState_resume w1 (save w1 s)))"

definition NotEnoughFundsState_proceed :: "'e transition" where
  "NotEnoughFundsState_proceed w s =
     (let w1 = w\<lparr>state := creationStarted\<rparr> in CreationStartedState_resume w1 (save w1 s))"

definition FinalizingDeploymentState_resume :: "'e transition" where
  "FinalizingDeploymentState_resume w s = Returns (w, publish (CreationStarted (wallet_id w)) s)"

definition CreationStartedState_proceed :: "'e transition" where
  "CreationStartedState_proceed w s =
     (let w1 = w\<lparr>state := finalizingDeployment\<rparr> in FinalizingDeploymentState_resume w1 (save w1 s))"

definition FinalizingDeploymentState_proceed :: "'e transition" where
  "FinalizingDeploymentState_proceed w s =
     (let w1 = w\<lparr>state := readyToUse\<rparr> in Returns (w1, publish (WalletCreated (wallet_id w1)) (save w1 s)))"

definition FinalizingDeploymentState_cancel :: "'e transition" where
  "FinalizingDeploymentState_cancel w s = Returns (w, publish (WalletCreationFailed (wallet_id w)) s)"

definition RecoveryInProgressState_resume :: "'e transition" where
  "RecoveryInProgressState_resume w s = Returns (w, publish RecoveryStarted s)"

definition RecoveryDraftState_proceed :: "'e transition" where
  "RecoveryDraftState_proceed w s =
     (let w1 = w\<lparr>state := recoveryInProgress\<rparr> in RecoveryInProgressState_resume w1 (save w1 s))"

definition RecoveryDraftState_resume :: "'e transition" where
  "RecoveryDraftState_resume w s = RecoveryDraftState_proceed w s"

text \<open>\<^verbatim>\<open>RecoveryPostProcessingState\<close> inherits the empty \<^verbatim>\<open>resume\<close>.\<close>

definition RecoveryInProgressState_proceed :: "'e transition" where
  "RecoveryInProgressState_proceed w s =
     (let w1 = w\<lparr>state := recoveryPostProcessing\<rparr> in Returns (w1, save w1 s))"

definition RecoveryInProgressState_cancel :: "'e transition" where
  "RecoveryInProgressState_cancel w s =
     (let w1 = w\<lparr>state := recoveryDraft\<rparr> in Returns (w1, publish RecoveryAborted (save w1 s)))"

definition RecoveryPostProcessingState_proceed :: "'e transition" where
  "RecoveryPostProcessingState_proceed w s =
     (let w1 = w\<lparr>state := readyToUse\<rparr> in Returns (w1, publish WalletRecovered (save w1 s)))"

definition RecoveryPostProcessingState_cancel :: "'e transition" where
  "RecoveryPostProcessingState_cancel w s =
     (let w1 = w\<lparr>state := recoveryDraft\<rparr> in Returns (w1, publish WalletRecoveryFailed (save w1 s)))"

text \<open>\<^verbatim>\<open>Wallet.resume()\<close>, \<^verbatim>\<open>proceed()\<close> and \<^verbatim>\<open>cancel()\<close> dispatch on the state.\<close>

definition resume :: "'e transition" where
  "resume w s =
     (case state w of
        draft \<Rightarrow> DraftState_resume w s
      | deploying \<Rightarrow> DeployingState_resume w s
      | waitingForFirstDeposit \<Rightarrow> WaitingForFirstDepositState_resume w s
      | notEnoughFunds \<Rightarrow> NotEnoughFundsState_resume w s
      | creationStarted \<Rightarrow> CreationStartedState_resume w s
      | finalizingDeployment \<Rightarrow> FinalizingDeploymentState_resume w s
      | readyToUse \<Rightarrow> Returns (w, s)
      | recoveryDraft \<Rightarrow> RecoveryDraftState_resume w s
      | recoveryInProgress \<Rightarrow> RecoveryInProgressState_resume w s
      | recoveryPostProcessing \<Rightarrow> Returns (w, s))"

definition proceed :: "'e transition" where
  "proceed w s =
     (case state w of
        draft \<Rightarrow> DraftState_proceed w s
      | deploying \<Rightarrow> DeployingState_proceed w s
      | waitingForFirstDeposit \<Rightarrow> WaitingForFirstDepositState_proceed w s
      | notEnoughFunds \<Rightarrow> NotEnoughFundsState_proceed w s
      | creationStarted \<Rightarrow> CreationStartedState_proceed w s
      | finalizingDeployment \<Rightarrow> FinalizingDeploymentState_proceed w s
      | readyToUse \<Rightarrow> Returns (w, s)
      | recoveryDraft \<Rightarrow> RecoveryDraftState_proceed w s
      | recoveryInProgress \<Rightarrow> RecoveryInProgressState_proceed w s
      | recoveryPostProcessing \<Rightarrow> RecoveryPostProcessingState_proceed w s)"

definition cancel :: "'e transition" where
  "cancel w s =
     (case state w of
        deploying \<Rightarrow> abortDeployment w s
      | waitingForFirstDeposit \<Rightarrow> abortDeployment w s
      | notEnoughFunds \<Rightarrow> abortDeployment w s
      | creationStarted \<Rightarrow> abortDeployment w s
      | finalizingDeployment \<Rightarrow> FinalizingDeploymentState_cancel w s
      | recoveryInProgress \<Rightarrow> RecoveryInProgressState_cancel w s
      | recoveryPostProcessing \<Rightarrow> RecoveryPostProcessingState_cancel w s
      | _ \<Rightarrow> Returns (w, s))"

subsection \<open>Write permission\<close>

definition hasThisDeviceKeyAsOwner :: "world \<Rightarrow> Wallet \<Rightarrow> bool" where
  "hasThisDeviceKeyAsOwner s w =
     (case first_with thisDevice (owners w) of
        Some device \<Rightarrow> if owner_address device \<in> set (deviceKeys s) then confirmationCount w > 0 else False
      | None \<Rightarrow> False)"

definition ownerWallets :: "world \<Rightarrow> Wallet \<Rightarrow> Wallet list" where
  "ownerWallets s w = List.map_filter (\<lambda>o1. find_address (owner_address o1) s) (sortedOwners (owners w))"

text \<open>The loop of \<^verbatim>\<open>hasAncestorWalletWithThisDeviceKeyAsOwner\<close>: \<open>visited\<close> and the queue \<open>ws\<close>.\<close>

lemma find_in_set: "List.find P xs = Some x \<Longrightarrow> x \<in> set xs \<and> P x"
  by (auto simp: find_Some_iff)

lemma set_map_filter: "set (List.map_filter f xs) = {y. \<exists>x \<in> set xs. f x = Some y}"
  by (force simp: map_filter_def)

lemma ownerWallets_rows: "set (ownerWallets s w) \<subseteq> set (walletRows s)"
  by (auto simp: ownerWallets_def set_map_filter find_address_def dest: find_in_set)

definition unvisited :: "world \<Rightarrow> WalletID list \<Rightarrow> Wallet list \<Rightarrow> WalletID set" where
  "unvisited s visited ws = wallet_id ` (set (walletRows s) \<union> set ws) - set visited"

function ancestor_loop :: "world \<Rightarrow> WalletID list \<Rightarrow> Wallet list \<Rightarrow> bool" where
  "ancestor_loop s visited [] = False"
| "ancestor_loop s visited (w # ws) =
     (if wallet_id w \<in> set visited then ancestor_loop s visited ws
      else if hasThisDeviceKeyAsOwner s w then True
      else ancestor_loop s (visited @ [wallet_id w]) (ws @ ownerWallets s w))"
  by pat_completeness auto

lemma finite_unvisited [simp]: "finite (unvisited s visited ws)"
  by (simp add: unvisited_def)

lemma unvisited_skip: "unvisited s visited ws \<subseteq> unvisited s visited (w # ws)"
  by (auto simp: unvisited_def)

lemma unvisited_visit:
  assumes "wallet_id w \<notin> set visited"
  shows "unvisited s (visited @ [wallet_id w]) (ws @ ownerWallets s w) \<subset> unvisited s visited (w # ws)"
  using assms ownerWallets_rows [of s w] by (auto simp: unvisited_def)

termination ancestor_loop
proof (relation "measures [\<lambda>(s, visited, ws). card (unvisited s visited ws), \<lambda>(s, visited, ws). length ws]",
    goal_cases)
  case (2 s visited w ws)
  have "card (unvisited s visited ws) \<le> card (unvisited s visited (w # ws))"
    by (rule card_mono [OF finite_unvisited unvisited_skip])
  then show ?case by auto
next
  case (3 s visited w ws)
  then have "card (unvisited s (visited @ [wallet_id w]) (ws @ ownerWallets s w)) < card (unvisited s visited (w # ws))"
    by (intro psubset_card_mono unvisited_visit) simp_all
  then show ?case by simp
qed simp

definition hasAncestorWalletWithThisDeviceKeyAsOwner :: "world \<Rightarrow> Wallet \<Rightarrow> bool" where
  "hasAncestorWalletWithThisDeviceKeyAsOwner s w = ancestor_loop s [] (ownerWallets s w)"

definition hasWritePermission :: "world \<Rightarrow> Wallet \<Rightarrow> bool" where
  "hasWritePermission s w = (hasThisDeviceKeyAsOwner s w \<or> hasAncestorWalletWithThisDeviceKeyAsOwner s w)"

subsection \<open>The search for an owning wallet\<close>

inductive ancestor :: "world \<Rightarrow> Wallet \<Rightarrow> Wallet \<Rightarrow> bool" for s where
  direct: "v \<in> set (ownerWallets s w) \<Longrightarrow> ancestor s w v"
| further: "ancestor s w u \<Longrightarrow> v \<in> set (ownerWallets s u) \<Longrightarrow> ancestor s w v"

definition ids_distinct :: "world \<Rightarrow> bool" where
  "ids_distinct s \<longleftrightarrow> distinct (map wallet_id (walletRows s))"

lemma same_id: "ids_distinct s \<Longrightarrow> u \<in> set (walletRows s) \<Longrightarrow> v \<in> set (walletRows s) \<Longrightarrow>
    wallet_id u = wallet_id v \<Longrightarrow> u = v"
  by (auto simp: ids_distinct_def distinct_map inj_on_def)

lemma ancestor_up: "ancestor s u v \<Longrightarrow> u \<in> set (ownerWallets s w) \<Longrightarrow> ancestor s w v"
  by (induction rule: ancestor.induct) (blast intro: ancestor.intros)+

lemma ancestor_loop_sound:
  "ancestor_loop s visited ws \<Longrightarrow>
     \<exists>w \<in> set ws. hasThisDeviceKeyAsOwner s w \<or> (\<exists>v. ancestor s w v \<and> hasThisDeviceKeyAsOwner s v)"
proof (induction s visited ws rule: ancestor_loop.induct)
  case (2 s visited w ws)
  show ?case
  proof (cases "wallet_id w \<in> set visited \<or> hasThisDeviceKeyAsOwner s w")
    case True
    with 2 show ?thesis by (auto split: if_splits)
  next
    case False
    with 2 obtain u where "u \<in> set ws \<union> set (ownerWallets s w)"
      "hasThisDeviceKeyAsOwner s u \<or> (\<exists>v. ancestor s u v \<and> hasThisDeviceKeyAsOwner s v)"
      by (auto split: if_splits)
    then show ?thesis by (auto intro: ancestor.direct ancestor_up)
  qed
qed simp

definition visited_rows :: "world \<Rightarrow> WalletID list \<Rightarrow> Wallet set" where
  "visited_rows s visited = {u \<in> set (walletRows s). wallet_id u \<in> set visited}"

definition closed_without_key :: "world \<Rightarrow> Wallet set \<Rightarrow> bool" where
  "closed_without_key s C \<longleftrightarrow> (\<forall>u \<in> C. \<not> hasThisDeviceKeyAsOwner s u \<and> set (ownerWallets s u) \<subseteq> C)"

lemma visited_rows_snoc:
  assumes "ids_distinct s" and "w \<in> set (walletRows s)"
  shows "visited_rows s (visited @ [wallet_id w]) = insert w (visited_rows s visited)"
  using assms by (auto simp: visited_rows_def dest: same_id)

lemma ancestor_loop_complete:
  assumes "\<not> ancestor_loop s visited ws" and "ids_distinct s" and "set ws \<subseteq> set (walletRows s)"
    and "\<forall>u \<in> visited_rows s visited. \<not> hasThisDeviceKeyAsOwner s u \<and>
      set (ownerWallets s u) \<subseteq> visited_rows s visited \<union> set ws"
  shows "\<exists>C. set ws \<union> visited_rows s visited \<subseteq> C \<and> closed_without_key s C"
  using assms
proof (induction s visited ws rule: ancestor_loop.induct)
  case (1 s visited)
  then show ?case by (intro exI [of _ "visited_rows s visited"]) (auto simp: closed_without_key_def)
next
  case (2 s visited w ws)
  have row: "w \<in> set (walletRows s)" using 2 by simp
  show ?case
  proof (cases "wallet_id w \<in> set visited")
    case True
    then have w: "w \<in> visited_rows s visited" using row by (simp add: visited_rows_def)
    have "\<exists>C. set ws \<union> visited_rows s visited \<subseteq> C \<and> closed_without_key s C"
    proof (rule 2(1) [OF True _ 2(4)])
      show "\<not> ancestor_loop s visited ws" "set ws \<subseteq> set (walletRows s)" using 2(3,5) True by simp_all
      show "\<forall>u \<in> visited_rows s visited. \<not> hasThisDeviceKeyAsOwner s u \<and>
          set (ownerWallets s u) \<subseteq> visited_rows s visited \<union> set ws" using 2(6) w by auto
    qed
    with w show ?thesis by auto
  next
    case False
    let ?new = "visited @ [wallet_id w]"
    note snoc = visited_rows_snoc [OF 2(4) row, of visited]
    have key: "\<not> hasThisDeviceKeyAsOwner s w" using 2 False by auto
    have "\<forall>u \<in> visited_rows s ?new. \<not> hasThisDeviceKeyAsOwner s u \<and>
        set (ownerWallets s u) \<subseteq> visited_rows s ?new \<union> set (ws @ ownerWallets s w)"
      using 2(6) key unfolding snoc by auto
    moreover have "set (ws @ ownerWallets s w) \<subseteq> set (walletRows s)"
      using 2(5) ownerWallets_rows [of s w] by auto
    ultimately obtain C where "set (ws @ ownerWallets s w) \<union> visited_rows s ?new \<subseteq> C" "closed_without_key s C"
      using 2(2) [OF False key _ 2(4)] 2(3) False key by auto
    then show ?thesis unfolding snoc by (intro exI [of _ C]) auto
  qed
qed

lemma closed_ancestor:
  assumes "ancestor s w v" and "closed_without_key s C" and "set (ownerWallets s w) \<subseteq> C"
  shows "v \<in> C"
  using assms by (induction rule: ancestor.induct) (auto simp: closed_without_key_def)

lemma ancestor_search:
  assumes "ids_distinct s"
  shows "hasAncestorWalletWithThisDeviceKeyAsOwner s w \<longleftrightarrow> (\<exists>v. ancestor s w v \<and> hasThisDeviceKeyAsOwner s v)"
proof
  assume "hasAncestorWalletWithThisDeviceKeyAsOwner s w"
  then obtain u where u: "u \<in> set (ownerWallets s w)"
    "hasThisDeviceKeyAsOwner s u \<or> (\<exists>v. ancestor s u v \<and> hasThisDeviceKeyAsOwner s v)"
    using ancestor_loop_sound by (fastforce simp: hasAncestorWalletWithThisDeviceKeyAsOwner_def)
  then show "\<exists>v. ancestor s w v \<and> hasThisDeviceKeyAsOwner s v" by (blast intro: ancestor.direct ancestor_up)
next
  assume "\<exists>v. ancestor s w v \<and> hasThisDeviceKeyAsOwner s v"
  then obtain v where v: "ancestor s w v" "hasThisDeviceKeyAsOwner s v" by blast
  show "hasAncestorWalletWithThisDeviceKeyAsOwner s w"
  proof (rule ccontr)
    assume "\<not> hasAncestorWalletWithThisDeviceKeyAsOwner s w"
    then obtain C where "set (ownerWallets s w) \<subseteq> C" "closed_without_key s C"
      using ancestor_loop_complete [of s "[]" "ownerWallets s w"] assms ownerWallets_rows
      by (auto simp: hasAncestorWalletWithThisDeviceKeyAsOwner_def visited_rows_def)
    with closed_ancestor [OF v(1)] v(2) show False by (auto simp: closed_without_key_def)
  qed
qed

subsection \<open>The life cycle\<close>

lemmas state_transition_defs =
  DeployingState_resume_def DraftState_proceed_def DraftState_resume_def WaitingForFirstDepositState_resume_def
  DeployingState_proceed_def abortDeployment_def NotEnoughFundsState_resume_def CreationStartedState_resume_def
  WaitingForFirstDepositState_proceed_def NotEnoughFundsState_proceed_def FinalizingDeploymentState_resume_def
  CreationStartedState_proceed_def FinalizingDeploymentState_proceed_def FinalizingDeploymentState_cancel_def
  RecoveryInProgressState_resume_def RecoveryDraftState_proceed_def RecoveryDraftState_resume_def
  RecoveryInProgressState_proceed_def RecoveryInProgressState_cancel_def RecoveryPostProcessingState_proceed_def
  RecoveryPostProcessingState_cancel_def

inductive wallet_step :: "Wallet \<times> world \<Rightarrow> Wallet \<times> world \<Rightarrow> bool" where
  resume: "resume w s = (Returns t :: (unit, Wallet \<times> world) outcome) \<Longrightarrow> wallet_step (w, s) t"
| proceed: "proceed w s = (Returns t :: (unit, Wallet \<times> world) outcome) \<Longrightarrow> wallet_step (w, s) t"
| cancel: "cancel w s = (Returns t :: (unit, Wallet \<times> world) outcome) \<Longrightarrow> wallet_step (w, s) t"

text \<open>The states a step can lead to, other than the current one.\<close>

fun next_states :: "State \<Rightarrow> State set" where
  "next_states draft = {deploying}"
| "next_states deploying = {waitingForFirstDeposit, draft}"
| "next_states waitingForFirstDeposit = {notEnoughFunds, creationStarted, draft}"
| "next_states notEnoughFunds = {creationStarted, draft}"
| "next_states creationStarted = {finalizingDeployment, draft}"
| "next_states finalizingDeployment = {readyToUse}"
| "next_states readyToUse = {}"
| "next_states recoveryDraft = {recoveryInProgress}"
| "next_states recoveryInProgress = {recoveryPostProcessing, recoveryDraft}"
| "next_states recoveryPostProcessing = {readyToUse, recoveryDraft}"

text \<open>A quiet step only publishes; a moving step changes the state, saves the wallet and publishes at most one event.\<close>

definition quiet :: "Wallet \<times> world \<Rightarrow> Wallet \<times> world \<Rightarrow> bool" where
  "quiet c t \<longleftrightarrow> t = c \<or> (\<exists>e. t = (fst c, publish e (snd c)))"

definition moving :: "Wallet \<times> world \<Rightarrow> Wallet \<times> world \<Rightarrow> bool" where
  "moving c t \<longleftrightarrow>
     (\<exists>st n. st \<in> next_states (state (fst c)) \<and> fst t = (fst c)\<lparr>state := st, confirmationCount := n\<rparr> \<and>
       (state (fst c) = draft \<or> n = confirmationCount (fst c)) \<and>
       (snd t = save (fst t) (snd c) \<or> (\<exists>e. snd t = publish e (save (fst t) (snd c)))))"

lemma movingI:
  assumes "st \<in> next_states (state w)" and "w' = w\<lparr>state := st, confirmationCount := n\<rparr>"
    and "state w = draft \<or> n = confirmationCount w"
    and "s' = save w' s \<or> (\<exists>e. s' = publish e (save w' s))"
  shows "moving (w, s) (w', s')"
  using assms by (auto simp: moving_def)

lemma moving_same_count:
  assumes "st \<in> next_states (state w)" and "w' = w\<lparr>state := st\<rparr>"
    and "s' = save w' s \<or> (\<exists>e. s' = publish e (save w' s))"
  shows "moving (w, s) (w', s')"
  by (rule movingI [OF assms(1), where n = "confirmationCount w"]) (use assms in auto)

lemma quietI [intro]: "quiet (w, s) (w, s)" "quiet (w, s) (w, publish e s)"
  by (auto simp: quiet_def)

lemma resume_cases:
  assumes "resume w s = Returns t"
  shows "quiet (w, s) t \<or> moving (w, s) t"
proof (cases "state w = draft")
  case True
  define n where "n = int (length (allOwners w)) - (int (length requiredRoles) - 1)"
  let ?w = "w\<lparr>confirmationCount := n, state := deploying\<rparr>"
  from assms True have "t = (?w, publish (DeploymentStarted (wallet_id w)) (save ?w s))"
    by (auto simp: resume_def state_transition_defs changeConfirmationCount_def Let_def n_def split: if_splits)
  with True show ?thesis
    by (auto intro!: movingI [where st = deploying and n = n])
next
  case False
  with assms show ?thesis
    by (cases "state w") (auto simp: resume_def state_transition_defs Let_def intro!: moving_same_count [where st = recoveryInProgress])
qed

definition fee_token :: "Wallet \<Rightarrow> Address" where
  "fee_token w = (case feePaymentTokenAddress w of None \<Rightarrow> Address_zero | Some a \<Rightarrow> a)"

definition funded :: "Wallet \<Rightarrow> int \<Rightarrow> int option \<Rightarrow> bool" where
  "funded w minimumBalance balance \<longleftrightarrow> minimumBalance \<le> (case balance of None \<Rightarrow> 0 | Some b \<Rightarrow> b)"

lemma first_deposit:
  assumes "minimumDeploymentTransactionAmount w = Some m" and "wallet_id w \<noteq> []" and "address_value (fee_token w) \<noteq> []"
  shows "WaitingForFirstDepositState_proceed w s =
    (case find_account (address_value (fee_token w) @ '':'' @ wallet_id w) s of
       None \<Rightarrow> Returns (w, s)
     | Some b \<Rightarrow> let w1 = w\<lparr>state := (if funded w m b then creationStarted else notEnoughFunds)\<rparr>
         in Returns (w1, publish (if funded w m b then DeploymentFunded (wallet_id w)
              else StartedWaitingForRemainingFeeAmount (wallet_id w)) (save w1 s)))"
  using assms
  by (simp add: WaitingForFirstDepositState_proceed_def accountID_def fee_token_def [symmetric] funded_def
      NotEnoughFundsState_resume_def CreationStartedState_resume_def not_less Let_def split: option.split)

lemma first_deposit_traps:
  assumes "WaitingForFirstDepositState_proceed w s = Returns t"
  obtains m where "minimumDeploymentTransactionAmount w = Some m" "wallet_id w \<noteq> []" "address_value (fee_token w) \<noteq> []"
  using assms that
  by (auto simp: WaitingForFirstDepositState_proceed_def accountID_def fee_token_def [symmetric] Let_def split: if_splits)

lemma first_deposit_cases:
  assumes "WaitingForFirstDepositState_proceed w s = Returns t" and "state w = waitingForFirstDeposit"
  shows "quiet (w, s) t \<or> moving (w, s) t"
proof -
  from assms(1) obtain m where "minimumDeploymentTransactionAmount w = Some m" "wallet_id w \<noteq> []"
    "address_value (fee_token w) \<noteq> []" by (rule first_deposit_traps)
  from assms(1) [unfolded first_deposit [OF this]] assms(2) show ?thesis
    by (auto simp: Let_def intro: moving_same_count split: option.splits if_splits)
qed

lemma proceed_cases:
  assumes "proceed w s = Returns t"
  shows "quiet (w, s) t \<or> moving (w, s) t"
proof (cases "state w = waitingForFirstDeposit")
  case True
  with assms first_deposit_cases show ?thesis by (simp add: proceed_def)
next
  case False
  with assms show ?thesis
    by (cases "state w") (auto simp: proceed_def state_transition_defs Let_def intro: moving_same_count)
qed

lemma cancel_cases:
  assumes "cancel w s = Returns t"
  shows "quiet (w, s) t \<or> moving (w, s) t"
  using assms
  by (cases "state w")
    (auto simp: cancel_def state_transition_defs Let_def intro: moving_same_count)

lemma wallet_step_cases: "wallet_step c t \<Longrightarrow> quiet c t \<or> moving c t"
  by (induction rule: wallet_step.induct) (auto dest: resume_cases proceed_cases cancel_cases)

lemma find_append:
  "List.find P (xs @ ys) = (case List.find P xs of None \<Rightarrow> List.find P ys | Some x \<Rightarrow> Some x)"
  by (induction xs) auto

lemma find_filter: "(\<And>x. P x \<Longrightarrow> Q x) \<Longrightarrow> List.find P (filter Q xs) = List.find P xs"
  by (induction xs) auto

lemma find_id_save: "find_id i (save w s) = (if i = wallet_id w then Some w else find_id i s)"
proof (cases "i = wallet_id w")
  case True
  have "List.find (\<lambda>r. wallet_id r = wallet_id w) (filter (\<lambda>r. wallet_id r \<noteq> wallet_id w) (walletRows s)) = None"
    by (auto simp: find_None_iff)
  with True show ?thesis by (simp add: find_id_def save_def find_append)
next
  case False
  then show ?thesis
    by (simp add: find_id_def save_def find_append find_filter split: option.split)
qed

lemma find_id_publish [simp]: "find_id i (publish e s) = find_id i s"
  by (simp add: find_id_def publish_def)

lemma ids_distinct_save: "ids_distinct s \<Longrightarrow> ids_distinct (save w s)"
  by (auto simp: ids_distinct_def save_def distinct_map_filter)

lemma ids_distinct_publish [simp]: "ids_distinct (publish e s) = ids_distinct s"
  by (simp add: ids_distinct_def publish_def)

lemma events_save [simp]: "events (save w s) = events s"
  by (simp add: save_def)

lemma events_publish [simp]: "events (publish e s) = events s @ [e]"
  by (simp add: publish_def)

lemma ready_is_final: "state w = readyToUse \<Longrightarrow> wallet_step (w, s) t \<Longrightarrow> t = (w, s)"
  by (auto simp: resume_def proceed_def cancel_def elim!: wallet_step.cases)

text \<open>
  (C14) Every step of a wallet's life cycle (a \<^verbatim>\<open>resume\<close>, \<^verbatim>\<open>proceed\<close> or \<^verbatim>\<open>cancel\<close> that returns) either keeps the
  state or moves along the deployment or recovery path. A change of state is always saved: the row of this
  wallet is then the wallet itself, no other row changes and row identifiers stay unique. At most one event is
  published. Apart from the state only the confirmation count can change, and only when a draft is started. A wallet
  becomes ready only from \<^verbatim>\<open>finalizingDeployment\<close> or \<^verbatim>\<open>recoveryPostProcessing\<close>, and then no step changes anything.
\<close>

theorem wallet_lifecycle:
  assumes "wallet_step (w, s) (w', s')" and "ids_distinct s"
  shows "(state w' = state w \<or> state w' \<in> next_states (state w)) \<and>
    (state w' \<noteq> state w \<longrightarrow> find_id (wallet_id w) s' = Some w') \<and>
    (\<forall>i. i \<noteq> wallet_id w \<longrightarrow> find_id i s' = find_id i s) \<and> ids_distinct s' \<and>
    (\<exists>es. events s' = events s @ es \<and> length es \<le> 1) \<and>
    w' = w\<lparr>state := state w', confirmationCount := confirmationCount w'\<rparr> \<and>
    (confirmationCount w' = confirmationCount w \<or> state w = draft) \<and>
    (state w' = readyToUse \<longrightarrow> state w \<in> {readyToUse, finalizingDeployment, recoveryPostProcessing}) \<and>
    (state w = readyToUse \<longrightarrow> (w', s') = (w, s))"
proof -
  have ready: "state w' = readyToUse \<longrightarrow> state w \<in> {readyToUse, finalizingDeployment, recoveryPostProcessing}"
    if "state w' \<in> next_states (state w)" using that by (cases "state w") auto
  from wallet_step_cases [OF assms(1)] show ?thesis
  proof
    assume "quiet (w, s) (w', s')"
    with assms ready_is_final [OF _ assms(1)] show ?thesis by (auto simp: quiet_def)
  next
    assume "moving (w, s) (w', s')"
    with assms(2) ready ready_is_final [OF _ assms(1)] show ?thesis
      by (auto simp: moving_def find_id_save ids_distinct_save)
  qed
qed

definition sample_owner :: "string \<Rightarrow> OwnerRole \<Rightarrow> Owner" where
  "sample_owner a r = \<lparr>owner_address = Address a, owner_role = r\<rparr>"

definition sample_wallet :: Wallet where
  "sample_wallet = (Wallet_blank ''w1'')\<lparr>owners :=
     [sample_owner ''0xA'' thisDevice, sample_owner ''0xB'' paperWallet, sample_owner ''0xC'' paperWalletDerived]\<rparr>"

definition sample_world :: world where
  "sample_world = \<lparr>walletRows = [sample_wallet], accountRows = [], deviceKeys = [], events = []\<rparr>"

lemma length_allOwners: "length (allOwners w) = length (owners w)"
  by (simp add: allOwners_def sortedOwners_def)

lemma hasAllRoles_iff:
  "hasAllRoles w \<longleftrightarrow> owner w thisDevice \<noteq> None \<and> owner w paperWallet \<noteq> None \<and> owner w paperWalletDerived \<noteq> None"
  by (simp add: hasAllRoles_def requiredRoles_def)

text \<open>
  Starting a draft: with all three required owner roles and three or four owners the wallet gets the
  confirmation count \<open>owners - 2\<close>, so one without and two with a second factor, moves to \<^verbatim>\<open>deploying\<close>, is saved and
  announces \<^verbatim>\<open>DeploymentStarted\<close>. Any other configuration stops the process.
\<close>

theorem draft_resume:
  assumes "state w = draft"
  shows "resume w s =
    (if owner w thisDevice \<noteq> None \<and> owner w paperWallet \<noteq> None \<and> owner w paperWalletDerived \<noteq> None \<and>
        (length (owners w) = 3 \<or> length (owners w) = 4)
     then let w1 = w\<lparr>confirmationCount := int (length (owners w)) - 2, state := deploying\<rparr>
          in Returns (w1, publish (DeploymentStarted (wallet_id w)) (save w1 s))
     else Traps)"
  using assms
  by (auto simp: resume_def DraftState_resume_def DraftState_proceed_def DeployingState_resume_def
      changeConfirmationCount_def hasAllRoles_iff length_allOwners requiredRoles_def Let_def)

lemma sample_resume:
  "resume sample_wallet sample_world =
     Returns (sample_wallet\<lparr>confirmationCount := 1, state := deploying\<rparr>,
       publish (DeploymentStarted ''w1'') (save (sample_wallet\<lparr>confirmationCount := 1, state := deploying\<rparr>) sample_world))"
  by (simp add: resume_def sample_wallet_def Wallet_blank_def sample_owner_def DraftState_resume_def
      hasAllRoles_iff owner_def first_with_def length_allOwners requiredRoles_def
      changeConfirmationCount_def DraftState_proceed_def DeployingState_resume_def Let_def)

theorem draft_resume_witness:
  "state sample_wallet = draft \<and>
   resume sample_wallet sample_world =
     Returns (sample_wallet\<lparr>confirmationCount := 1, state := deploying\<rparr>,
       publish (DeploymentStarted ''w1'') (save (sample_wallet\<lparr>confirmationCount := 1, state := deploying\<rparr>) sample_world))"
proof -
  have "state sample_wallet = draft" by (simp add: sample_wallet_def Wallet_blank_def)
  from this draft_resume [OF this, of sample_world] show ?thesis
    by (simp add: sample_wallet_def Wallet_blank_def sample_owner_def owner_def first_with_def Let_def)
qed

theorem wallet_lifecycle_witness:
  "find_id ''w1'' (publish (DeploymentStarted ''w1'') (save (sample_wallet\<lparr>confirmationCount := 1, state := deploying\<rparr>) sample_world)) =
   Some (sample_wallet\<lparr>confirmationCount := 1, state := deploying\<rparr>)"
proof -
  have "ids_distinct sample_world" by (simp add: ids_distinct_def sample_world_def)
  from wallet_lifecycle [OF wallet_step.resume [OF sample_resume] this] show ?thesis
    by (simp add: sample_wallet_def Wallet_blank_def)
qed

text \<open>
  While a wallet waits for its first deposit, \<^verbatim>\<open>proceed\<close> decides by the balance of the fee token. Without a
  known account nothing happens; with at least the minimum the wallet moves to \<^verbatim>\<open>creationStarted\<close> and announces that
  it is funded; with less it moves to \<^verbatim>\<open>notEnoughFunds\<close>. An unknown balance counts as zero and a missing fee
  token as Ether.
\<close>

theorem first_deposit_decides:
  assumes "state w = waitingForFirstDeposit" and "minimumDeploymentTransactionAmount w = Some m"
    and "wallet_id w \<noteq> []" and "address_value (fee_token w) \<noteq> []"
    and "proceed w s = (Returns (w', s') :: (unit, Wallet \<times> world) outcome)"
  shows "case find_account (address_value (fee_token w) @ '':'' @ wallet_id w) s of
      None \<Rightarrow> w' = w \<and> s' = s
    | Some b \<Rightarrow>
        (state w' = creationStarted \<longleftrightarrow> m \<le> (case b of None \<Rightarrow> 0 | Some v \<Rightarrow> v)) \<and>
        (state w' = notEnoughFunds \<longleftrightarrow> (case b of None \<Rightarrow> 0 | Some v \<Rightarrow> v) < m) \<and>
        s' = publish (if state w' = creationStarted then DeploymentFunded (wallet_id w)
             else StartedWaitingForRemainingFeeAmount (wallet_id w)) (save w' s)"
proof -
  have "WaitingForFirstDepositState_proceed w s = (Returns (w', s') :: (unit, Wallet \<times> world) outcome)"
    using assms(1,5) by (simp add: proceed_def)
  from this [unfolded first_deposit [OF assms(2-4)]] show ?thesis
    by (auto simp: Let_def funded_def not_le split: option.splits if_splits)
qed

definition waiting_wallet :: Wallet where
  "waiting_wallet = (Wallet_blank ''w1'')\<lparr>state := waitingForFirstDeposit,
     minimumDeploymentTransactionAmount := Some 100, feePaymentTokenAddress := Some (Address ''0xT'')\<rparr>"

definition funded_world :: world where
  "funded_world = \<lparr>walletRows = [waiting_wallet], accountRows = [(''0xT:w1'', Some 120)], deviceKeys = [], events = []\<rparr>"

theorem first_deposit_decides_witness:
  "\<exists>w' s'. proceed waiting_wallet funded_world = (Returns (w', s') :: (unit, Wallet \<times> world) outcome) \<and>
     state w' = creationStarted"
proof -
  let ?w = "waiting_wallet"
  have hyps: "state ?w = waitingForFirstDeposit" "minimumDeploymentTransactionAmount ?w = Some 100"
    "wallet_id ?w \<noteq> []" "address_value (fee_token ?w) \<noteq> []"
    by (simp_all add: waiting_wallet_def Wallet_blank_def fee_token_def)
  have "find_account (address_value (fee_token ?w) @ '':'' @ wallet_id ?w) funded_world = Some (Some 120)"
    by (simp add: find_account_def funded_world_def fee_token_def waiting_wallet_def Wallet_blank_def)
  then obtain w' s' where p: "proceed ?w funded_world = (Returns (w', s') :: (unit, Wallet \<times> world) outcome)"
    using hyps(1) by (simp add: proceed_def first_deposit [OF hyps(2-4)] Let_def)
  from first_deposit_decides [OF hyps p] have "state w' = creationStarted"
    by (simp add: find_account_def funded_world_def fee_token_def waiting_wallet_def Wallet_blank_def)
  with p show ?thesis by blast
qed

text \<open>
  (C17) A wallet may be used from this device exactly when the device's key is one of its owners, or when a
  wallet that owns it, directly or through further wallets, has the device's key among its owners. The search over
  the owning wallets is complete and ends even when wallets own each other in a circle.
\<close>

theorem write_permission:
  assumes "ids_distinct s"
  shows "hasWritePermission s w \<longleftrightarrow>
    hasThisDeviceKeyAsOwner s w \<or> (\<exists>v. ancestor s w v \<and> hasThisDeviceKeyAsOwner s v)"
  using ancestor_search [OF assms] by (simp add: hasWritePermission_def)

definition circle :: world where
  "circle = \<lparr>walletRows =
       [(Wallet_blank ''w1'')\<lparr>address := Some (Address ''0x1''), owners := [sample_owner ''0x2'' personalSafe]\<rparr>,
        (Wallet_blank ''w2'')\<lparr>address := Some (Address ''0x2''), owners := [sample_owner ''0x1'' personalSafe]\<rparr>],
     accountRows = [], deviceKeys = [Address ''0xD''], events = []\<rparr>"

theorem write_permission_witness:
  "\<not> (\<exists>v. ancestor circle (walletRows circle ! 0) v \<and> hasThisDeviceKeyAsOwner circle v)"
proof -
  have "ids_distinct circle" by (simp add: ids_distinct_def circle_def Wallet_blank_def)
  moreover have "\<not> hasWritePermission circle (walletRows circle ! 0)"
    by (simp add: hasWritePermission_def hasAncestorWalletWithThisDeviceKeyAsOwner_def hasThisDeviceKeyAsOwner_def
        ownerWallets_def sortedOwners_def find_address_def first_with_def circle_def sample_owner_def
        Wallet_blank_def map_filter_simps)
  ultimately show ?thesis using write_permission by blast
qed

subsection \<open>One owner per role\<close>

definition roles_unique :: "OwnerList \<Rightarrow> bool" where
  "roles_unique os \<longleftrightarrow> distinct (map owner_role (filter (\<lambda>o1. owner_role o1 \<noteq> unknown) os))"

lemma remove_with_absent: "\<forall>x \<in> set os. owner_role x \<noteq> r \<Longrightarrow> remove_with r os = os"
  by (simp add: remove_with_def)

lemma first_with_append:
  "first_with r (xs @ ys) = (case first_with r xs of None \<Rightarrow> first_with r ys | Some x \<Rightarrow> Some x)"
  unfolding first_with_def by (rule find_append)

lemma first_with_remove: "first_with r (remove_with q os) = (if r = q then None else first_with r os)"
proof (cases "r = q")
  case True
  then show ?thesis by (auto simp: first_with_def remove_with_def find_None_iff)
next
  case False
  have "List.find (\<lambda>o1. owner_role o1 = r) (filter (\<lambda>o1. owner_role o1 \<noteq> q) os) = List.find (\<lambda>o1. owner_role o1 = r) os"
    by (rule find_filter) (use False in auto)
  with False show ?thesis by (simp add: first_with_def remove_with_def)
qed

lemma roles_unique_filter: "roles_unique os \<Longrightarrow> roles_unique (filter P os)"
  by (induction os) (auto simp: roles_unique_def)

lemma roles_unique_addOwner: "roles_unique (owners w) \<Longrightarrow> roles_unique (owners (addOwner o1 w))"
  using roles_unique_filter [of "owners w" "\<lambda>o2. owner_role o2 \<noteq> owner_role o1"]
  by (auto simp: addOwner_def roles_unique_def remove_with_def)

lemma owner_addOwner:
  "owner_role o1 \<noteq> unknown \<Longrightarrow> owner (addOwner o1 w) r = (if r = owner_role o1 then Some o1 else owner w r)"
  by (simp add: owner_def addOwner_def first_with_append first_with_remove)
    (simp add: first_with_def split: option.split)

lemma fold_addOwner: "roles_unique (owners w @ os) \<Longrightarrow> owners (fold addOwner os w) = owners w @ os"
proof (induction os arbitrary: w)
  case (Cons o1 os)
  have "owners (addOwner o1 w) = owners w @ [o1]"
  proof (cases "owner_role o1 = unknown")
    case False
    with Cons.prems have "owner_role o1 \<notin> owner_role ` {x \<in> set (owners w). owner_role x \<noteq> unknown}"
      by (simp add: roles_unique_def)
    with False have "\<forall>x \<in> set (owners w). owner_role x \<noteq> owner_role o1" by (auto simp: image_iff)
    with False show ?thesis by (simp add: addOwner_def remove_with_absent)
  qed (simp add: addOwner_def)
  with Cons show ?case by simp
qed simp

text \<open>
  The owner list has at most one owner of each role other than \<^verbatim>\<open>unknown\<close>, whatever owner operation is
  applied. Adding an owner of such a role makes it the one that is found for the role and keeps the others; so a second
  owner of the same role replaces the first. A list with one owner per role is restored from storage unchanged.
\<close>

theorem owners_by_role:
  assumes "roles_unique (owners w)" and "owner_role o1 \<noteq> unknown"
  shows "roles_unique (owners (addOwner o1 w)) \<and> roles_unique (owners (removeOwner r w)) \<and>
    roles_unique (owners (prepareForRecovery w)) \<and> roles_unique (owners (prepareForCreation w)) \<and>
    owner (addOwner o1 w) r = (if r = owner_role o1 then Some o1 else owner w r) \<and>
    owner (removeOwner q w) r = (if r = q then None else owner w r) \<and>
    (\<forall>o2. owner_role o2 = owner_role o1 \<and> o2 \<noteq> o1 \<longrightarrow> \<not> contains_owner o2 (addOwner o1 w)) \<and>
    owners (Wallet_init i st (owners w) adr feeToken minAmount txHash n master version ty) = owners w"
proof (intro conjI)
  show "roles_unique (owners (removeOwner r w))" "roles_unique (owners (prepareForRecovery w))"
    "roles_unique (owners (prepareForCreation w))"
    using roles_unique_filter [OF assms(1)] assms(1)
    by (simp_all add: removeOwner_def remove_with_def prepareForRecovery_def prepareForCreation_def)
  show "owner (removeOwner q w) r = (if r = q then None else owner w r)"
    by (simp add: owner_def removeOwner_def first_with_remove)
  show "\<forall>o2. owner_role o2 = owner_role o1 \<and> o2 \<noteq> o1 \<longrightarrow> \<not> contains_owner o2 (addOwner o1 w)"
    using assms(2) by (auto simp: contains_owner_def addOwner_def remove_with_def)
  show "owners (Wallet_init i st (owners w) adr feeToken minAmount txHash n master version ty) = owners w"
    using fold_addOwner [of "Wallet_blank i" "owners w"] assms(1)
    by (simp add: Wallet_init_def Let_def Wallet_blank_def)
qed (rule roles_unique_addOwner [OF assms(1)] owner_addOwner [OF assms(2)])+

theorem owners_by_role_witness:
  "owner (addOwner (sample_owner ''0xD'' keycard) sample_wallet) keycard = Some (sample_owner ''0xD'' keycard)"
proof -
  have "roles_unique (owners sample_wallet)" "owner_role (sample_owner ''0xD'' keycard) \<noteq> unknown"
    by (simp_all add: sample_wallet_def Wallet_blank_def sample_owner_def roles_unique_def)
  from owners_by_role [OF this, of keycard] show ?thesis by (simp add: sample_owner_def)
qed

text \<open>
  Two Safes that both own a wallet cannot both be recorded: the role \<^verbatim>\<open>personalSafe\<close> is treated like the
  roles of the device, so that adding the second owning Safe drops the first, and restoring a stored list of
  both loses one.
\<close>

theorem second_personal_safe_replaces_first:
  assumes "owner_role a = personalSafe" and "owner_role b = personalSafe" and "a \<noteq> b"
  shows "contains_owner a (addOwner a w) \<and> \<not> contains_owner a (addOwner b (addOwner a w)) \<and>
    owners (Wallet_init i st [a, b] adr feeToken minAmount txHash n master version ty) = [b]"
  using assms
  by (auto simp: contains_owner_def addOwner_def remove_with_def Wallet_init_def Wallet_blank_def Let_def)

theorem second_personal_safe_replaces_first_witness:
  "\<not> contains_owner (sample_owner ''0x1'' personalSafe)
     (addOwner (sample_owner ''0x2'' personalSafe) (addOwner (sample_owner ''0x1'' personalSafe) sample_wallet))"
  using second_personal_safe_replaces_first [of "sample_owner ''0x1'' personalSafe" "sample_owner ''0x2'' personalSafe"]
  by (simp add: sample_owner_def)

end
