(* ===== verification/Transaction.thy ===== *)
theory Transaction
  imports Wallet
begin

section \<open>Transactions\<close>

text \<open>
  Model of \<^verbatim>\<open>MultisigWalletDomainModel/Transaction/Transaction.swift\<close>, \<^verbatim>\<open>TransactionStatus.swift\<close> and of the value types
  of \<^verbatim>\<open>Ethereum/Token/Token.swift\<close>. The status classes are the constructors of \<open>Code\<close>; an operation that the current
  status does not override ends in \<^verbatim>\<open>preconditionFailure\<close>. Every call of \<^verbatim>\<open>Date()\<close> is an argument. The checks
  \<^verbatim>\<open>assertCanChangeParameters\<close> and \<^verbatim>\<open>assertSignaturesEditable\<close> have an empty body in the source and are left out. Shown: the invariant of reachable transactions, and that
  status, hash and dates are those of the history of status operations.
\<close>

subsection \<open>Token.swift\<close>

record Token =
  code :: string
  token_name :: string
  decimals :: int
  token_address :: Address
  logoUrl :: string

definition token_id :: "Token \<Rightarrow> string" where
  "token_id t = address_value (token_address t)"

definition Token_Ether :: Token where
  "Token_Ether = \<lparr>code = ''ETH'', token_name = ''Ether'', decimals = 18, token_address = Address_zero, logoUrl = []\<rparr>"

record TokenAmount =
  ta_amount :: int
  ta_token :: Token

definition ether :: "int \<Rightarrow> TokenAmount" where
  "ether amount = \<lparr>ta_amount = amount, ta_token = Token_Ether\<rparr>"

subsection \<open>Supporting types of Transaction.swift\<close>

datatype TransactionType =
    TT_transfer | walletRecovery | replaceRecoveryPhrase | replaceTwoFAWithAuthenticator | connectAuthenticator
  | disconnectAuthenticator | contractUpgrade | replaceTwoFAWithStatusKeycard | connectStatusKeycard
  | disconnectStatusKeycard | batched

fun correspondingOwnerRole :: "TransactionType \<Rightarrow> OwnerRole option" where
  "correspondingOwnerRole replaceTwoFAWithAuthenticator = Some browserExtension"
| "correspondingOwnerRole connectAuthenticator = Some browserExtension"
| "correspondingOwnerRole disconnectAuthenticator = Some browserExtension"
| "correspondingOwnerRole replaceTwoFAWithStatusKeycard = Some keycard"
| "correspondingOwnerRole connectStatusKeycard = Some keycard"
| "correspondingOwnerRole disconnectStatusKeycard = Some keycard"
| "correspondingOwnerRole _ = None"

definition isConnectTwoFA :: "TransactionType \<Rightarrow> bool" where
  "isConnectTwoFA t = (t = connectStatusKeycard \<or> t = connectAuthenticator)"

definition isDisconnectTwoFA :: "TransactionType \<Rightarrow> bool" where
  "isDisconnectTwoFA t = (t = disconnectStatusKeycard \<or> t = disconnectAuthenticator)"

definition isReplaceTwoFA :: "TransactionType \<Rightarrow> bool" where
  "isReplaceTwoFA t = (t = replaceTwoFAWithAuthenticator \<or> t = replaceTwoFAWithStatusKeycard)"

definition isReplaceOrDisconnectTwoFA :: "TransactionType \<Rightarrow> bool" where
  "isReplaceOrDisconnectTwoFA t = (isReplaceTwoFA t \<or> isDisconnectTwoFA t)"

record Signature =
  sig_address :: Address
  sig_data :: data

type_synonym TransactionHash = string

record TransactionFeeEstimate =
  gas :: int
  dataGas :: int
  operationalGas :: int
  gasPrice :: TokenAmount

definition totalDisplayedToUser :: "TransactionFeeEstimate \<Rightarrow> TokenAmount" where
  "totalDisplayedToUser f =
     \<lparr>ta_amount = ta_amount (gasPrice f) * (gas f + dataGas f + operationalGas f), ta_token = ta_token (gasPrice f)\<rparr>"

definition totalSubmittedToBlockchain :: "TransactionFeeEstimate \<Rightarrow> TokenAmount" where
  "totalSubmittedToBlockchain f =
     \<lparr>ta_amount = ta_amount (gasPrice f) * (gas f + dataGas f), ta_token = ta_token (gasPrice f)\<rparr>"

datatype WalletOperation = OP_call | OP_delegateCall | OP_create

datatype Code = TS_draft | TS_signing | TS_pending | TS_rejected | TS_failed | TS_success

subsection \<open>Transaction.swift\<close>

record Transaction =
  tx_id :: string
  tx_type :: TransactionType
  sender :: "Address option"
  recipient :: "Address option"
  amount :: "TokenAmount option"
  fee :: "TokenAmount option"
  status :: Code
  signatures :: "Signature list"
  createdDate :: "time option"
  updatedDate :: "time option"
  rejectedDate :: "time option"
  submittedDate :: "time option"
  processedDate :: "time option"
  transactionHash :: "TransactionHash option"
  tx_hash :: "data option"
  feeEstimate :: "TransactionFeeEstimate option"
  tx_data :: "data option"
  operation :: "WalletOperation option"
  tx_nonce :: "string option"
  tx_accountID :: string

definition timestampCreated :: "time \<Rightarrow> Transaction \<Rightarrow> Transaction" where
  "timestampCreated date tx = tx\<lparr>createdDate := Some date\<rparr>"

definition timestampUpdated :: "time \<Rightarrow> Transaction \<Rightarrow> Transaction" where
  "timestampUpdated date tx = tx\<lparr>updatedDate := Some date\<rparr>"

definition timestampRejected :: "time \<Rightarrow> Transaction \<Rightarrow> Transaction" where
  "timestampRejected date tx = tx\<lparr>rejectedDate := Some date\<rparr>"

definition timestampSubmitted :: "time \<Rightarrow> Transaction \<Rightarrow> Transaction" where
  "timestampSubmitted date tx = tx\<lparr>submittedDate := Some date\<rparr>"

definition timestampProcessed :: "time \<Rightarrow> Transaction \<Rightarrow> Transaction" where
  "timestampProcessed date tx = tx\<lparr>processedDate := Some date\<rparr>"

definition Transaction_init :: "string \<Rightarrow> TransactionType \<Rightarrow> string \<Rightarrow> time \<Rightarrow> time \<Rightarrow> Transaction" where
  "Transaction_init i ty account_id now now' =
     timestampUpdated now' (timestampCreated now
       \<lparr>tx_id = i, tx_type = ty, sender = None, recipient = None, amount = None, fee = None, status = TS_draft,
        signatures = [], createdDate = None, updatedDate = None, rejectedDate = None, submittedDate = None,
        processedDate = None, transactionHash = None, tx_hash = None, feeEstimate = None, tx_data = None,
        operation = None, tx_nonce = None, tx_accountID = account_id\<rparr>)"

definition hasData :: "Transaction \<Rightarrow> bool" where
  "hasData tx = (tx_data tx \<noteq> None \<and> the (tx_data tx) \<noteq> [])"

definition isDangerous :: "Address \<Rightarrow> Transaction \<Rightarrow> bool" where
  "isDangerous walletAddress tx =
     (operation tx \<notin> {None, Some OP_call} \<or> (recipient tx = Some walletAddress \<and> hasData tx))"

definition identifyingHash :: "packages \<Rightarrow> Transaction \<Rightarrow> data option" where
  "identifyingHash E tx =
     (case transactionHash tx of
        Some h \<Rightarrow> Some (Data_hex E h)
      | None \<Rightarrow> map_option (\<lambda>h. Data_hex E (toHexString E h)) (tx_hash tx))"

definition resetParameters :: "Transaction \<Rightarrow> Transaction" where
  "resetParameters tx =
     tx\<lparr>transactionHash := None, createdDate := None, updatedDate := None, rejectedDate := None,
       submittedDate := None, processedDate := None, signatures := []\<rparr>"

definition change_status :: "Code \<Rightarrow> Transaction \<Rightarrow> Transaction" where
  "change_status c tx = tx\<lparr>status := c\<rparr>"

definition change_amount :: "TokenAmount option \<Rightarrow> time \<Rightarrow> Transaction \<Rightarrow> Transaction" where
  "change_amount v now tx = timestampUpdated now (tx\<lparr>amount := v\<rparr>)"

definition change_sender :: "Address option \<Rightarrow> time \<Rightarrow> Transaction \<Rightarrow> Transaction" where
  "change_sender v now tx = timestampUpdated now (tx\<lparr>sender := v\<rparr>)"

definition change_recipient :: "Address option \<Rightarrow> time \<Rightarrow> Transaction \<Rightarrow> Transaction" where
  "change_recipient v now tx = timestampUpdated now (tx\<lparr>recipient := v\<rparr>)"

definition change_fee :: "TokenAmount option \<Rightarrow> time \<Rightarrow> Transaction \<Rightarrow> Transaction" where
  "change_fee v now tx = timestampUpdated now (tx\<lparr>fee := v\<rparr>)"

definition change_feeEstimate :: "TransactionFeeEstimate option \<Rightarrow> time \<Rightarrow> Transaction \<Rightarrow> Transaction" where
  "change_feeEstimate v now tx = timestampUpdated now (tx\<lparr>feeEstimate := v\<rparr>)"

definition change_data :: "data option \<Rightarrow> time \<Rightarrow> Transaction \<Rightarrow> Transaction" where
  "change_data v now tx = timestampUpdated now (tx\<lparr>tx_data := v\<rparr>)"

definition change_operation :: "WalletOperation option \<Rightarrow> time \<Rightarrow> Transaction \<Rightarrow> Transaction" where
  "change_operation v now tx = timestampUpdated now (tx\<lparr>operation := v\<rparr>)"

definition change_nonce :: "string option \<Rightarrow> time \<Rightarrow> Transaction \<Rightarrow> Transaction" where
  "change_nonce v now tx = timestampUpdated now (tx\<lparr>tx_nonce := v\<rparr>)"

definition change_hash :: "data option \<Rightarrow> time \<Rightarrow> Transaction \<Rightarrow> Transaction" where
  "change_hash v now tx = timestampUpdated now (tx\<lparr>tx_hash := v\<rparr>)"

definition change_type :: "TransactionType \<Rightarrow> time \<Rightarrow> Transaction \<Rightarrow> Transaction" where
  "change_type v now tx = timestampUpdated now (tx\<lparr>tx_type := v\<rparr>)"

definition set_hash :: "TransactionHash \<Rightarrow> time \<Rightarrow> Transaction \<Rightarrow> Transaction" where
  "set_hash h now tx = timestampUpdated now (tx\<lparr>transactionHash := Some h\<rparr>)"

definition add_signature :: "Signature \<Rightarrow> time \<Rightarrow> Transaction \<Rightarrow> Transaction" where
  "add_signature s now tx =
     (if s \<in> set (signatures tx) then tx
      else timestampUpdated now (tx\<lparr>signatures := signatures tx @ [s]\<rparr>))"

definition remove_signature :: "Signature \<Rightarrow> time \<Rightarrow> Transaction \<Rightarrow> Transaction" where
  "remove_signature s now tx =
     (if s \<notin> set (signatures tx) then tx
      else timestampUpdated now (tx\<lparr>signatures := remove1 s (signatures tx)\<rparr>))"

definition isSignedBy :: "Address \<Rightarrow> Transaction \<Rightarrow> bool" where
  "isSignedBy a tx = list_ex (\<lambda>s. sig_address s = a) (signatures tx)"

definition isERC20Transfer :: "Transaction \<Rightarrow> bool" where
  "isERC20Transfer tx = (amount tx \<noteq> None \<and> token_id (ta_token (the (amount tx))) \<noteq> token_id Token_Ether)"

definition ethTo :: "Transaction \<Rightarrow> Address" where
  "ethTo tx =
     (let result = (if isERC20Transfer tx then map_option (\<lambda>a. token_address (ta_token a)) (amount tx) else recipient tx)
      in case result of None \<Rightarrow> Address_zero | Some a \<Rightarrow> a)"

definition ethValue :: "Transaction \<Rightarrow> int" where
  "ethValue tx =
     (let result = (if isERC20Transfer tx then Some 0 else map_option ta_amount (amount tx))
      in case result of None \<Rightarrow> 0 | Some v \<Rightarrow> v)"

definition ethData :: "packages \<Rightarrow> Transaction \<Rightarrow> string" where
  "ethData E tx = (case tx_data tx of None \<Rightarrow> [] | Some d \<Rightarrow> ''0x'' @ toHexString E d)"

subsection \<open>TransactionStatus.swift\<close>

datatype Transaction_Error =
    invalidStatusForEditing Code | invalidStatusForSigning Code | invalidStatusForSetHash Code
  | invalidStatusForTimestamp Code | invalidStatusTransition Code Code
  | senderNotSet | recipientNotSet | amountNotSet | feeNotSet | transactionHashNotSet

text \<open>\<open>now\<close>, \<open>now'\<close> are the two calls of \<^verbatim>\<open>Date()\<close> in an operation.\<close>

type_synonym 'e tx_operation = "time \<Rightarrow> time \<Rightarrow> Transaction \<Rightarrow> ('e, Transaction) outcome"

definition Draft_proceed :: "'e tx_operation" where
  "Draft_proceed now now' tx =
     bindO (forceTry (assertNotNil (sender tx) senderNotSet)) (\<lambda>_.
     bindO (forceTry (assertNotNil (recipient tx) recipientNotSet)) (\<lambda>_.
     bindO (forceTry (assertNotNil (amount tx) amountNotSet)) (\<lambda>_.
     bindO (forceTry (assertNotNil (fee tx) feeNotSet)) (\<lambda>_.
       Returns (timestampUpdated now (change_status TS_signing tx))))))"

definition Signing_proceed :: "'e tx_operation" where
  "Signing_proceed now now' tx =
     bindO (forceTry (assertNotNil (transactionHash tx) transactionHashNotSet)) (\<lambda>_.
       Returns (timestampUpdated now' (timestampSubmitted now (change_status TS_pending tx))))"

definition Signing_reject :: "'e tx_operation" where
  "Signing_reject now now' tx =
     Returns (timestampUpdated now' (timestampRejected now (change_status TS_rejected tx)))"

definition Pending_succeed :: "'e tx_operation" where
  "Pending_succeed now now' tx =
     Returns (timestampUpdated now' (timestampProcessed now (change_status TS_success tx)))"

definition Pending_fail :: "'e tx_operation" where
  "Pending_fail now now' tx =
     Returns (timestampUpdated now' (timestampProcessed now (change_status TS_failed tx)))"

definition tx_proceed :: "'e tx_operation" where
  "tx_proceed now now' tx =
     (case status tx of TS_draft \<Rightarrow> Draft_proceed now now' tx | TS_signing \<Rightarrow> Signing_proceed now now' tx | _ \<Rightarrow> Traps)"

definition stepBack :: "'e tx_operation" where
  "stepBack now now' tx =
     (case status tx of TS_signing \<Rightarrow> Returns (change_status TS_draft tx)
      | TS_pending \<Rightarrow> Returns (change_status TS_signing tx) | _ \<Rightarrow> Traps)"

definition tx_reject :: "'e tx_operation" where
  "tx_reject now now' tx = (case status tx of TS_signing \<Rightarrow> Signing_reject now now' tx | _ \<Rightarrow> Traps)"

definition succeed :: "'e tx_operation" where
  "succeed now now' tx = (case status tx of TS_pending \<Rightarrow> Pending_succeed now now' tx | _ \<Rightarrow> Traps)"

definition fail :: "'e tx_operation" where
  "fail now now' tx = (case status tx of TS_pending \<Rightarrow> Pending_fail now now' tx | _ \<Rightarrow> Traps)"

definition reset :: "'e tx_operation" where
  "reset now now' tx =
     (case status tx of TS_rejected \<Rightarrow> Returns (change_status TS_draft (resetParameters tx)) | _ \<Rightarrow> Traps)"

fun canChangeParameters :: "Code \<Rightarrow> bool" where
  "canChangeParameters TS_draft = True"
| "canChangeParameters _ = False"

fun canChangeBlockchainHash :: "Code \<Rightarrow> bool" where
  "canChangeBlockchainHash TS_draft = True"
| "canChangeBlockchainHash TS_signing = True"
| "canChangeBlockchainHash _ = False"

fun canChangeSignatures :: "Code \<Rightarrow> bool" where
  "canChangeSignatures TS_draft = True"
| "canChangeSignatures TS_signing = True"
| "canChangeSignatures _ = False"

subsection \<open>The status machine\<close>

lemmas timestamp_defs =
  timestampCreated_def timestampUpdated_def timestampRejected_def timestampSubmitted_def timestampProcessed_def

lemmas status_operation_defs =
  tx_proceed_def stepBack_def tx_reject_def succeed_def fail_def reset_def Draft_proceed_def Signing_proceed_def
  Signing_reject_def Pending_succeed_def Pending_fail_def

lemmas edit_defs =
  change_amount_def change_sender_def change_recipient_def change_fee_def change_feeEstimate_def change_data_def
  change_operation_def change_nonce_def change_hash_def change_type_def set_hash_def

lemma assertNotNil_forced: "bindO (forceTry (assertNotNil x e)) f = (if x = None then Traps else f ())"
  by (simp add: assertNotNil_def)

inductive tx_step :: "Transaction \<Rightarrow> Transaction \<Rightarrow> bool" where
  proceed: "tx_proceed now now' tx = (Returns t :: (unit, Transaction) outcome) \<Longrightarrow> tx_step tx t"
| stepBack: "stepBack now now' tx = (Returns t :: (unit, Transaction) outcome) \<Longrightarrow> tx_step tx t"
| reject: "tx_reject now now' tx = (Returns t :: (unit, Transaction) outcome) \<Longrightarrow> tx_step tx t"
| succeed: "succeed now now' tx = (Returns t :: (unit, Transaction) outcome) \<Longrightarrow> tx_step tx t"
| fail: "fail now now' tx = (Returns t :: (unit, Transaction) outcome) \<Longrightarrow> tx_step tx t"
| reset: "reset now now' tx = (Returns t :: (unit, Transaction) outcome) \<Longrightarrow> tx_step tx t"

definition ready_to_sign :: "Transaction \<Rightarrow> bool" where
  "ready_to_sign tx \<longleftrightarrow> sender tx \<noteq> None \<and> recipient tx \<noteq> None \<and> amount tx \<noteq> None \<and> fee tx \<noteq> None"

lemma status_changes [simp]:
  "status (timestampUpdated d tx) = status tx" "status (timestampSubmitted d tx) = status tx"
  "status (timestampRejected d tx) = status tx" "status (timestampProcessed d tx) = status tx"
  "status (change_status c tx) = c"
  by (simp_all add: timestamp_defs change_status_def)

subsection \<open>Histories\<close>

definition edit :: "Transaction \<Rightarrow> Transaction \<Rightarrow> bool" where
  "edit tx t \<longleftrightarrow>
     (\<exists>now.
       (\<exists>v. t = change_amount v now tx) \<or> (\<exists>v. t = change_sender v now tx) \<or> (\<exists>v. t = change_recipient v now tx) \<or>
       (\<exists>v. t = change_fee v now tx) \<or> (\<exists>v. t = change_feeEstimate v now tx) \<or> (\<exists>v. t = change_data v now tx) \<or>
       (\<exists>v. t = change_operation v now tx) \<or> (\<exists>v. t = change_nonce v now tx) \<or> (\<exists>v. t = change_hash v now tx) \<or>
       (\<exists>v. t = change_type v now tx) \<or> (\<exists>h. t = set_hash h now tx) \<or>
       (\<exists>s. t = add_signature s now tx) \<or> (\<exists>s. t = remove_signature s now tx))"

inductive tx_reachable :: "Transaction \<Rightarrow> bool" where
  start: "tx_reachable (Transaction_init i ty a now now')"
| edit: "tx_reachable tx \<Longrightarrow> edit tx t \<Longrightarrow> tx_reachable t"
| step: "tx_reachable tx \<Longrightarrow> tx_step tx t \<Longrightarrow> tx_reachable t"

definition tx_ok :: "Transaction \<Rightarrow> bool" where
  "tx_ok tx \<longleftrightarrow>
     distinct (signatures tx) \<and>
     (status tx \<in> {TS_pending, TS_success, TS_failed} \<longrightarrow> transactionHash tx \<noteq> None \<and> submittedDate tx \<noteq> None) \<and>
     (status tx \<in> {TS_success, TS_failed} \<longrightarrow> processedDate tx \<noteq> None) \<and>
     (status tx = TS_rejected \<longrightarrow> rejectedDate tx \<noteq> None)"

text \<open>What an edit leaves alone, and what the status operations record.\<close>

lemma edit_keeps:
  assumes "edit tx t"
  shows "status t = status tx \<and> (distinct (signatures tx) \<longrightarrow> distinct (signatures t)) \<and>
    (transactionHash tx \<noteq> None \<longrightarrow> transactionHash t \<noteq> None) \<and> submittedDate t = submittedDate tx \<and>
    processedDate t = processedDate tx \<and> rejectedDate t = rejectedDate tx"
  using assms unfolding edit_def
  by (elim exE disjE; simp add: edit_defs timestamp_defs add_signature_def remove_signature_def)

lemma tx_ok_edit: "tx_ok tx \<Longrightarrow> edit tx t \<Longrightarrow> tx_ok t"
  using edit_keeps [of tx t] by (simp add: tx_ok_def)

lemma tx_ok_step: "tx_step tx t \<Longrightarrow> tx_ok tx \<Longrightarrow> tx_ok t"
proof (induction rule: tx_step.induct)
  case (proceed now now' tx t)
  then show ?case
    by (cases "status tx") (auto simp: status_operation_defs assertNotNil_forced timestamp_defs change_status_def tx_ok_def
      split: if_splits)
next
  case (stepBack now now' tx t)
  then show ?case by (cases "status tx") (auto simp: status_operation_defs change_status_def tx_ok_def)
next
  case (reject now now' tx t)
  then show ?case by (cases "status tx") (auto simp: status_operation_defs timestamp_defs change_status_def tx_ok_def)
next
  case (succeed now now' tx t)
  then show ?case by (cases "status tx") (auto simp: status_operation_defs timestamp_defs change_status_def tx_ok_def)
next
  case (fail now now' tx t)
  then show ?case by (cases "status tx") (auto simp: status_operation_defs timestamp_defs change_status_def tx_ok_def)
next
  case (reset now now' tx t)
  then show ?case
    by (cases "status tx") (auto simp: status_operation_defs change_status_def resetParameters_def tx_ok_def)
qed

lemma tx_ok_init: "tx_ok (Transaction_init i ty a now now')"
  by (simp add: Transaction_init_def timestamp_defs tx_ok_def)

lemma tx_reachable_ok: "tx_reachable tx \<Longrightarrow> tx_ok tx"
  by (induction rule: tx_reachable.induct) (fact tx_ok_init, erule (1) tx_ok_edit, erule (1) tx_ok_step)

text \<open>
  What the record of a transaction shows, however it was edited and moved through its statuses: no signature is
  stored twice; a submitted transaction has its blockchain hash and its submission date, a processed one its
  processing date as well, a rejected one its rejection date. Adding a signature and removing it again leaves the
  signatures as they were.
\<close>

theorem transaction_history:
  assumes "tx_reachable tx"
  shows "distinct (signatures tx) \<and>
    (status tx \<in> {TS_pending, TS_success, TS_failed} \<longrightarrow> transactionHash tx \<noteq> None \<and> submittedDate tx \<noteq> None) \<and>
    (status tx \<in> {TS_success, TS_failed} \<longrightarrow> processedDate tx \<noteq> None) \<and>
    (status tx = TS_rejected \<longrightarrow> rejectedDate tx \<noteq> None) \<and>
    (s \<notin> set (signatures tx) \<longrightarrow>
      signatures (remove_signature s d (add_signature s d' tx)) = signatures tx \<and>
      isSignedBy (sig_address s) (add_signature s d' tx))"
  using tx_reachable_ok [OF assms]
  by (auto simp: tx_ok_def add_signature_def remove_signature_def timestamp_defs isSignedBy_def remove1_append)

subsection \<open>Life cycles\<close>

text \<open>A log of what was done to a transaction, with the dates that the status operations record.\<close>

datatype tx_event = Edited | Proceeded time | SteppedBack | Rejected time | Succeeded time | Failed time | Reset

inductive tx_run :: "Transaction \<Rightarrow> tx_event list \<Rightarrow> Transaction \<Rightarrow> bool" where
  run_start: "tx_run tx [] tx"
| run_edit: "tx_run tx es t \<Longrightarrow> edit t u \<Longrightarrow> tx_run tx (es @ [Edited]) u"
| run_proceed: "tx_run tx es t \<Longrightarrow> tx_proceed now now' t = (Returns u :: (unit, Transaction) outcome) \<Longrightarrow> tx_run tx (es @ [Proceeded now]) u"
| run_stepBack: "tx_run tx es t \<Longrightarrow> stepBack now now' t = (Returns u :: (unit, Transaction) outcome) \<Longrightarrow> tx_run tx (es @ [SteppedBack]) u"
| run_reject: "tx_run tx es t \<Longrightarrow> tx_reject now now' t = (Returns u :: (unit, Transaction) outcome) \<Longrightarrow> tx_run tx (es @ [Rejected now]) u"
| run_succeed: "tx_run tx es t \<Longrightarrow> succeed now now' t = (Returns u :: (unit, Transaction) outcome) \<Longrightarrow> tx_run tx (es @ [Succeeded now]) u"
| run_fail: "tx_run tx es t \<Longrightarrow> fail now now' t = (Returns u :: (unit, Transaction) outcome) \<Longrightarrow> tx_run tx (es @ [Failed now]) u"
| run_reset: "tx_run tx es t \<Longrightarrow> reset now now' t = (Returns u :: (unit, Transaction) outcome) \<Longrightarrow> tx_run tx (es @ [Reset]) u"

definition moves :: "tx_event list \<Rightarrow> tx_event list" where
  "moves es = filter (\<lambda>e. e \<noteq> Edited) es"

definition proceeded :: "tx_event list \<Rightarrow> time list" where
  "proceeded es = concat (map (\<lambda>e. case e of Proceeded d \<Rightarrow> [d] | _ \<Rightarrow> []) es)"

definition taken_back :: "tx_event list \<Rightarrow> nat" where
  "taken_back es = length (filter (\<lambda>e. case e of SteppedBack \<Rightarrow> True | Rejected _ \<Rightarrow> True | _ \<Rightarrow> False) es)"

fun level :: "Code \<Rightarrow> nat" where
  "level TS_draft = 0" | "level TS_rejected = 0" | "level TS_signing = 1" | "level _ = 2"

lemma log_simps [simp]:
  "moves [] = []" "moves (es @ [e]) = (if e = Edited then moves es else moves es @ [e])"
  "proceeded [] = []" "proceeded (es @ [e]) = proceeded es @ (case e of Proceeded d \<Rightarrow> [d] | _ \<Rightarrow> [])"
  "taken_back [] = 0" "taken_back (es @ [e]) = taken_back es + (case e of SteppedBack \<Rightarrow> 1 | Rejected _ \<Rightarrow> 1 | _ \<Rightarrow> 0)"
  by (simp_all add: moves_def proceeded_def taken_back_def split: tx_event.split)

definition log_ok :: "tx_event list \<Rightarrow> Transaction \<Rightarrow> bool" where
  "log_ok es t \<longleftrightarrow>
     length (proceeded es) = taken_back es + level (status t) \<and>
     (\<forall>d. (Succeeded d \<in> set es \<longrightarrow> status t = TS_success) \<and> (Failed d \<in> set es \<longrightarrow> status t = TS_failed)) \<and>
     (case status t of
        TS_success \<Rightarrow> \<exists>d. moves es \<noteq> [] \<and> last (moves es) = Succeeded d \<and> processedDate t = Some d
      | TS_failed \<Rightarrow> \<exists>d. moves es \<noteq> [] \<and> last (moves es) = Failed d \<and> processedDate t = Some d
      | TS_rejected \<Rightarrow> \<exists>d. moves es \<noteq> [] \<and> last (moves es) = Rejected d \<and> rejectedDate t = Some d
      | _ \<Rightarrow> True) \<and>
     (level (status t) = 2 \<longrightarrow> transactionHash t \<noteq> None \<and> proceeded es \<noteq> [] \<and> submittedDate t = Some (last (proceeded es)))"

lemma log_ok_run: "tx_run tx es t \<Longrightarrow> tx = Transaction_init i ty a d d' \<Longrightarrow> log_ok es t"
proof (induction rule: tx_run.induct)
  case (run_start tx)
  then show ?case by (simp add: log_ok_def Transaction_init_def timestamp_defs)
next
  case (run_edit tx es t u)
  then show ?case using edit_keeps [of t u] by (cases "status t") (auto simp: log_ok_def)
next
  case (run_proceed tx es t now now' u)
  then show ?case
    by (cases "status t") (auto simp: log_ok_def status_operation_defs assertNotNil_forced timestamp_defs change_status_def split: if_splits)
next
  case (run_stepBack tx es t now now' u)
  then show ?case by (cases "status t") (auto simp: log_ok_def status_operation_defs change_status_def)
next
  case (run_reject tx es t now now' u)
  then show ?case by (cases "status t") (auto simp: log_ok_def status_operation_defs timestamp_defs change_status_def)
next
  case (run_succeed tx es t now now' u)
  then show ?case by (cases "status t") (auto simp: log_ok_def status_operation_defs timestamp_defs change_status_def)
next
  case (run_fail tx es t now now' u)
  then show ?case by (cases "status t") (auto simp: log_ok_def status_operation_defs timestamp_defs change_status_def)
next
  case (run_reset tx es t now now' u)
  then show ?case by (cases "status t") (auto simp: log_ok_def status_operation_defs change_status_def resetParameters_def)
qed



text \<open>
  Nothing freezes a transaction. The documentation of the statuses says that signing freezes the
  amount, fees, sender and recipient and that the parameters of a pending transaction are immutable; the code edits
  all of them, and the hash, in every status without changing it.
\<close>

theorem parameters_never_frozen:
  "amount (change_amount v d tx) = v \<and> recipient (change_recipient r d tx) = r \<and> sender (change_sender r d tx) = r \<and>
   fee (change_fee v d tx) = v \<and> transactionHash (set_hash h d tx) = Some h \<and>
   status (change_amount v d tx) = status tx \<and> status (change_recipient r d tx) = status tx \<and>
   status (change_sender r d tx) = status tx \<and> status (change_fee v d tx) = status tx \<and>
   status (set_hash h d tx) = status tx \<and>
   \<not> canChangeParameters TS_signing \<and> \<not> canChangeParameters TS_pending \<and> \<not> canChangeBlockchainHash TS_pending"
  by (simp add: edit_defs timestamp_defs)

theorem transaction_history_witness:
  "transactionHash (set_hash ''h'' 1 (Transaction_init ''t'' TT_transfer ''a:b'' 0 0)) = Some ''h'' \<and>
   distinct (signatures (set_hash ''h'' 1 (Transaction_init ''t'' TT_transfer ''a:b'' 0 0)))"
proof -
  have "edit (Transaction_init ''t'' TT_transfer ''a:b'' 0 0) (set_hash ''h'' 1 (Transaction_init ''t'' TT_transfer ''a:b'' 0 0))"
    by (auto simp: edit_def)
  from transaction_history [OF tx_reachable.edit [OF tx_reachable.start this]] show ?thesis
    by (simp add: set_hash_def timestamp_defs)
qed

end
