(* ===== verification/Tables.thy ===== *)
theory Tables
  imports Wallet
begin

section \<open>Tables of entities\<close>

text \<open>
  What the repositories of the app have in common. \<^verbatim>\<open>DBAbstractRepository\<close> and \<^verbatim>\<open>DBEntityRepository\<close>
  (\<^verbatim>\<open>src/Common/CommonImplementations\<close>) keep one row per entity; \<^verbatim>\<open>TableSchema\<close> builds the statements. A table is
  the list of its rows in rowid order. \<^verbatim>\<open>INSERT OR REPLACE\<close> deletes the row of the same primary key and appends the new one,
  which gets the highest rowid. The locale \<open>entity_table\<close> states this as a contract and derives the lookup
  laws; the wallet table is the first interpretation. Statements that throw end in \<^verbatim>\<open>try!\<close>; failures of the
  SQLite library itself are not modelled.
\<close>

definition insert_or_replace :: "('a \<Rightarrow> 'k) \<Rightarrow> 'a \<Rightarrow> 'a list \<Rightarrow> 'a list" where
  "insert_or_replace key x rows = filter (\<lambda>r. key r \<noteq> key x) rows @ [x]"

definition delete_row :: "('a \<Rightarrow> 'k) \<Rightarrow> 'k \<Rightarrow> 'a list \<Rightarrow> 'a list" where
  "delete_row key k rows = filter (\<lambda>r. key r \<noteq> k) rows"

definition find_row :: "('a \<Rightarrow> 'k) \<Rightarrow> 'k \<Rightarrow> 'a list \<Rightarrow> 'a option" where
  "find_row key k rows = List.find (\<lambda>r. key r = k) rows"

definition keys_distinct :: "('a \<Rightarrow> 'k) \<Rightarrow> 'a list \<Rightarrow> bool" where
  "keys_distinct key rows \<longleftrightarrow> distinct (map key rows)"

text \<open>A loop over a list whose body may throw or stop the process.\<close>

primrec foldO :: "('a \<Rightarrow> 's \<Rightarrow> ('e, 's) outcome) \<Rightarrow> 'a list \<Rightarrow> 's \<Rightarrow> ('e, 's) outcome" where
  "foldO f [] s = Returns s"
| "foldO f (x # xs) s = bindO (f x s) (foldO f xs)"

lemma foldO_append: "foldO f (xs @ ys) s = bindO (foldO f xs s) (foldO f ys)"
proof (induction xs arbitrary: s)
  case (Cons x xs)
  then have "foldO f (xs @ ys) = (\<lambda>s. bindO (foldO f xs s) (foldO f ys))" by blast
  then show ?case by simp
qed simp

subsection \<open>Facts about rows\<close>

lemma find_row_Some_iff:
  assumes "keys_distinct key rows"
  shows "find_row key k rows = Some r \<longleftrightarrow> r \<in> set rows \<and> key r = k"
  using assms unfolding keys_distinct_def find_row_def by (induction rows) auto

lemma find_row_SomeD: "find_row key k rows = Some r \<Longrightarrow> r \<in> set rows \<and> key r = k"
  unfolding find_row_def by (induction rows) (auto split: if_splits)

lemma find_row_None_iff: "find_row key k rows = None \<longleftrightarrow> k \<notin> key ` set rows"
  unfolding find_row_def by (auto simp: find_None_iff)

lemma find_row_insert:
  "find_row key k (insert_or_replace key x rows) = (if k = key x then Some x else find_row key k rows)"
  unfolding find_row_def insert_or_replace_def by (induction rows) auto

lemma find_row_delete:
  "find_row key k (delete_row key j rows) = (if k = j then None else find_row key k rows)"
  unfolding find_row_def delete_row_def by (induction rows) auto

lemma keys_distinct_filter: "keys_distinct key rows \<Longrightarrow> keys_distinct key (filter P rows)"
  unfolding keys_distinct_def by (simp add: distinct_map_filter)

lemma keys_distinct_insert: "keys_distinct key rows \<Longrightarrow> keys_distinct key (insert_or_replace key x rows)"
  unfolding keys_distinct_def insert_or_replace_def by (auto simp: distinct_map_filter)

lemma keys_distinct_delete: "keys_distinct key rows \<Longrightarrow> keys_distinct key (delete_row key k rows)"
  unfolding delete_row_def by (rule keys_distinct_filter)

lemma keys_distinct_rows: "keys_distinct key rows \<Longrightarrow> distinct rows"
  by (simp add: keys_distinct_def distinct_map)

lemma delete_row_delete_row: "delete_row key j (delete_row key k rows) = filter (\<lambda>r. key r \<notin> {j, k}) rows"
  unfolding delete_row_def by (simp add: conj_commute)

subsection \<open>The contract of a repository\<close>

locale entity_table =
  fixes rows :: "'s \<Rightarrow> 'a list" and key :: "'a \<Rightarrow> 'k"
    and save :: "'a \<Rightarrow> 's \<Rightarrow> 's" and remove :: "'a \<Rightarrow> 's \<Rightarrow> 's"
  assumes rows_save: "rows (save x s) = insert_or_replace key x (rows s)"
    and rows_remove: "rows (remove x s) = delete_row key (key x) (rows s)"
begin

definition lookup :: "'k \<Rightarrow> 's \<Rightarrow> 'a option" where
  "lookup k s = find_row key k (rows s)"

definition consistent :: "'s \<Rightarrow> bool" where
  "consistent s \<longleftrightarrow> keys_distinct key (rows s)"

lemma lookup_save: "lookup k (save x s) = (if k = key x then Some x else lookup k s)"
  by (simp add: lookup_def rows_save find_row_insert)

lemma lookup_remove: "lookup k (remove x s) = (if k = key x then None else lookup k s)"
  by (simp add: lookup_def rows_remove find_row_delete)

lemma consistent_save: "consistent s \<Longrightarrow> consistent (save x s)"
  by (simp add: consistent_def rows_save keys_distinct_insert)

lemma consistent_remove: "consistent s \<Longrightarrow> consistent (remove x s)"
  by (simp add: consistent_def rows_remove keys_distinct_delete)

lemma rows_remove_all: "rows (fold remove xs s) = filter (\<lambda>r. key r \<notin> key ` set xs) (rows s)"
  by (induction xs arbitrary: s) (simp_all add: rows_remove delete_row_def conj_commute)

lemma lookup_remove_all: "lookup k (fold remove xs s) = (if k \<in> key ` set xs then None else lookup k s)"
  by (induction xs arbitrary: s) (auto simp: lookup_remove)

lemma consistent_remove_all: "consistent s \<Longrightarrow> consistent (fold remove xs s)"
  by (induction xs arbitrary: s) (simp_all add: consistent_remove)

lemma consistent_save_all: "consistent s \<Longrightarrow> consistent (fold save xs s)"
  by (induction xs arbitrary: s) (simp_all add: consistent_save)

lemma lookup_save_all:
  "lookup k (fold save xs s) =
     (case find_row key k (rev xs) of Some x \<Rightarrow> Some x | None \<Rightarrow> lookup k s)"
proof (induction xs arbitrary: s)
  case (Cons x xs)
  have "find_row key k (rev (x # xs)) =
      (case find_row key k (rev xs) of Some y \<Rightarrow> Some y | None \<Rightarrow> if key x = k then Some x else None)"
    unfolding find_row_def by (simp add: find_append split: option.split)
  with Cons show ?case by (auto simp: lookup_save split: option.split)
qed (simp add: find_row_def)

end

interpretation wallet_table: entity_table walletRows wallet_id save remove_wallet_row
  by unfold_locales (simp_all add: save_def remove_wallet_row_def insert_or_replace_def delete_row_def)

end
