(* ===== verification/RowFormats.thy ===== *)
theory RowFormats
  imports Abi Transaction Tables
begin

section \<open>Row formats of the database\<close>

text \<open>
  How entities are written to and read from their rows: the extensions under
  \<^verbatim>\<open>MultisigWalletImplementations/Repositories/DBSerializable\<close>, the bindings of \<^verbatim>\<open>DBWalletRepository\<close>,
  \<^verbatim>\<open>DBSinglePortfolioRepository\<close> and \<^verbatim>\<open>DBTransactionRepository\<close>. A row is a record with one field per column; a
  \<^verbatim>\<open>TEXT\<close> column is a string, an \<^verbatim>\<open>INTEGER\<close> column an \<open>int\<close>, \<^verbatim>\<open>NULL\<close> is \<open>None\<close>. Dates are stored as the decimal form of a
  \<^verbatim>\<open>Double\<close>, which Swift prints so that it reads back exactly; their columns hold the time itself. The
  decimal conversion of the BigInt package is the argument \<open>B\<close> with the contract \<open>bigint_ok\<close>.

  The loader of a transaction replays its life: it builds a draft, fills it in, and calls \<^verbatim>\<open>proceed\<close>, \<^verbatim>\<open>reject\<close> and so on until the
  stored status is reached. What those calls demand, the row has to satisfy.
\<close>

subsection \<open>Strings with separators\<close>

text \<open>\<^verbatim>\<open>components(separatedBy:)\<close> and \<^verbatim>\<open>joined(separator:)\<close>.\<close>

function components_loop :: "string \<Rightarrow> string \<Rightarrow> string \<Rightarrow> string list" where
  "components_loop sep acc s =
     (if s = [] then [acc]
      else if sep \<noteq> [] \<and> take (length sep) s = sep then acc # components_loop sep [] (drop (length sep) s)
      else components_loop sep (acc @ [hd s]) (tl s))"
  by pat_completeness auto
termination by (relation "measure (\<lambda>(sep, acc, s). length s)") auto

declare components_loop.simps [simp del]

definition components :: "string \<Rightarrow> string \<Rightarrow> string list" where
  "components sep s = components_loop sep [] s"

fun joined :: "string \<Rightarrow> string list \<Rightarrow> string" where
  "joined sep [] = []"
| "joined sep [x] = x"
| "joined sep (x # y # xs) = x @ sep @ joined sep (y # xs)"

text \<open>\<^verbatim>\<open>String(n)\<close> and \<^verbatim>\<open>Int(s)\<close>.\<close>

fun show_nat :: "nat \<Rightarrow> string" where
  "show_nat n = (if n < 10 then [char_of (48 + n)] else show_nat (n div 10) @ [char_of (48 + n mod 10)])"

declare show_nat.simps [simp del]

definition show_int :: "int \<Rightarrow> string" where
  "show_int n = (if n < 0 then CHR ''-'' # show_nat (nat (- n)) else show_nat (nat n))"

definition read_digit :: "char \<Rightarrow> nat option" where
  "read_digit c = (let k = of_char c :: nat in if 48 \<le> k \<and> k \<le> 57 then Some (k - 48) else None)"

fun read_digits :: "nat \<Rightarrow> string \<Rightarrow> nat option" where
  "read_digits n [] = Some n"
| "read_digits n (c # s) = (case read_digit c of None \<Rightarrow> None | Some d \<Rightarrow> read_digits (10 * n + d) s)"

definition read_nat :: "string \<Rightarrow> nat option" where
  "read_nat s = (if s = [] then None else read_digits 0 s)"

definition read_int :: "string \<Rightarrow> int option" where
  "read_int s =
     (case s of [] \<Rightarrow> None
      | c # t \<Rightarrow> if c = CHR ''-'' then map_option (\<lambda>n. - int n) (read_nat t)
                else if c = CHR ''+'' then map_option int (read_nat t)
                else map_option int (read_nat s))"

definition Int_of_string :: "string \<Rightarrow> int option" where
  "Int_of_string s =
     (case read_int s of None \<Rightarrow> None | Some n \<Rightarrow> if Int_min \<le> n \<and> n \<le> Int_max then Some n else None)"

text \<open>The decimal conversions of the BigInt package.\<close>

record bigint =
  String_BigInt :: "int \<Rightarrow> string"
  BigInt_String :: "string \<Rightarrow> int option"

definition decimal_char :: "char \<Rightarrow> bool" where
  "decimal_char c \<longleftrightarrow> c = CHR ''-'' \<or> 48 \<le> (of_char c :: nat) \<and> (of_char c :: nat) \<le> 57"

definition bigint_ok :: "bigint \<Rightarrow> bool" where
  "bigint_ok B \<longleftrightarrow>
     (\<forall>n. BigInt_String B (String_BigInt B n) = Some n \<and> list_all decimal_char (String_BigInt B n))"

text \<open>\<^verbatim>\<open>init?(rawValue:)\<close> of an enumeration whose cases are \<open>cases\<close>.\<close>

definition from_raw :: "('a \<Rightarrow> 'r) \<Rightarrow> 'a list \<Rightarrow> 'r \<Rightarrow> 'a option" where
  "from_raw raw cases r = List.find (\<lambda>x. raw x = r) cases"

subsection \<open>DBSerializable\<close>

fun OwnerRole_rawValue :: "OwnerRole \<Rightarrow> string" where
  "OwnerRole_rawValue thisDevice = ''thisDevice''"
| "OwnerRole_rawValue browserExtension = ''browserExtension''"
| "OwnerRole_rawValue paperWallet = ''paperWallet''"
| "OwnerRole_rawValue paperWalletDerived = ''paperWalletDerived''"
| "OwnerRole_rawValue keycard = ''keycard''"
| "OwnerRole_rawValue unknown = ''unknown''"
| "OwnerRole_rawValue personalSafe = ''personalSafe''"

definition OwnerRole_of_raw :: "string \<Rightarrow> OwnerRole option" where
  "OwnerRole_of_raw = from_raw OwnerRole_rawValue
     [thisDevice, browserExtension, paperWallet, paperWalletDerived, keycard, unknown, personalSafe]"

definition OwnerList_serializedValue :: "OwnerList \<Rightarrow> string" where
  "OwnerList_serializedValue os =
     joined '','' (map (\<lambda>o1. address_value (owner_address o1) @ '':'' @ OwnerRole_rawValue (owner_role o1)) os)"

definition Owner_of_keyValue :: "packages \<Rightarrow> string \<Rightarrow> ('e, Owner option) outcome" where
  "Owner_of_keyValue E keyValue =
     (case components '':'' keyValue of
        [a, r] \<Rightarrow>
          (case OwnerRole_of_raw r of
             None \<Rightarrow> Returns None
           | Some role \<Rightarrow> bindO (Address_init E a) (\<lambda>adr. Returns (Some \<lparr>owner_address = adr, owner_role = role\<rparr>)))
      | _ \<Rightarrow> Returns None)"

definition OwnerList_of_serialized :: "packages \<Rightarrow> string \<Rightarrow> ('e, OwnerList) outcome" where
  "OwnerList_of_serialized E s =
     bindO (mapO (Owner_of_keyValue E) (components '','' s)) (\<lambda>os. Returns (List.map_filter id os))"

definition WalletIDList_serializedValue :: "WalletID list \<Rightarrow> string" where
  "WalletIDList_serializedValue ids = joined '','' (filter (\<lambda>i. i \<noteq> []) ids)"

definition WalletIDList_of_serialized :: "string \<Rightarrow> WalletID list" where
  "WalletIDList_of_serialized s = filter (\<lambda>i. i \<noteq> []) (components '','' s)"

definition Token_serializedStringValue :: "Token \<Rightarrow> string" where
  "Token_serializedStringValue t =
     joined ''~~~'' [code t, token_name t, show_int (decimals t), address_value (token_address t), logoUrl t]"

definition Token_of_string :: "packages \<Rightarrow> string \<Rightarrow> ('e, Token option) outcome" where
  "Token_of_string E v =
     (case components ''~~~'' v of
        [c, n, d, a, l] \<Rightarrow>
          (case Int_of_string d of
             None \<Rightarrow> Returns None
           | Some k \<Rightarrow> bindO (Address_init E a) (\<lambda>adr.
               Returns (Some \<lparr>code = c, token_name = n, decimals = k, token_address = adr, logoUrl = l\<rparr>)))
      | _ \<Rightarrow> Returns None)"

definition TokenAmount_serializedStringValue :: "bigint \<Rightarrow> TokenAmount \<Rightarrow> string" where
  "TokenAmount_serializedStringValue B a =
     joined ''==='' [String_BigInt B (ta_amount a), Token_serializedStringValue (ta_token a)]"

text \<open>The conditions of the guard are evaluated in order; the second component is read before the count is checked.\<close>

definition TokenAmount_of_string :: "packages \<Rightarrow> bigint \<Rightarrow> string \<Rightarrow> ('e, TokenAmount option) outcome" where
  "TokenAmount_of_string E B v =
     (let cs = components ''==='' v
      in case BigInt_String B (cs ! 0) of
           None \<Rightarrow> Returns None
         | Some n \<Rightarrow>
             if length cs < 2 then Traps
             else bindO (Token_of_string E (cs ! 1)) (\<lambda>t.
               case t of None \<Rightarrow> Returns None
               | Some tok \<Rightarrow> Returns (if length cs = 2 then Some \<lparr>ta_amount = n, ta_token = tok\<rparr> else None)))"

text \<open>\<^verbatim>\<open>Address(serializedValue:)\<close>.\<close>

definition Address_of_serialized :: "packages \<Rightarrow> string option \<Rightarrow> ('e, Address option) outcome" where
  "Address_of_serialized E v =
     (case v of None \<Rightarrow> Returns None | Some s \<Rightarrow> bindO (Address_init E s) (\<lambda>a. Returns (Some a)))"

subsection \<open>Wallet and portfolio rows\<close>

definition State_of_raw :: "int \<Rightarrow> State option" where
  "State_of_raw = from_raw State_rawValue
     [draft, deploying, notEnoughFunds, creationStarted, finalizingDeployment, readyToUse, recoveryDraft,
      recoveryInProgress, recoveryPostProcessing, waitingForFirstDeposit]"

fun WalletType_rawValue :: "WalletType \<Rightarrow> int" where
  "WalletType_rawValue personal = 0"
| "WalletType_rawValue multisig = 1"

definition WalletType_of_raw :: "int \<Rightarrow> WalletType option" where
  "WalletType_of_raw = from_raw WalletType_rawValue [personal, multisig]"

record wallet_row =
  wr_id :: string
  wr_state :: int
  wr_owners :: string
  wr_address :: "string option"
  wr_minimum_deployment_tx_amount :: "string option"
  wr_creation_tx_hash :: "string option"
  wr_confirmation_count :: int
  wr_fee_payment_token_address :: "string option"
  wr_master_copy_address :: "string option"
  wr_contract_version :: "string option"
  wr_type :: int

definition wallet_insertionBindings :: "bigint \<Rightarrow> Wallet \<Rightarrow> wallet_row" where
  "wallet_insertionBindings B w =
     \<lparr>wr_id = wallet_id w, wr_state = State_rawValue (state w), wr_owners = OwnerList_serializedValue (owners w),
      wr_address = map_option address_value (address w),
      wr_minimum_deployment_tx_amount = map_option (String_BigInt B) (minimumDeploymentTransactionAmount w),
      wr_creation_tx_hash = creationTransactionHash w, wr_confirmation_count = confirmationCount w,
      wr_fee_payment_token_address = map_option address_value (feePaymentTokenAddress w),
      wr_master_copy_address = map_option address_value (wallet_masterCopyAddress w),
      wr_contract_version = contractVersion w, wr_type = WalletType_rawValue (wallet_type w)\<rparr>"

definition wallet_objectFromResultSet :: "packages \<Rightarrow> bigint \<Rightarrow> wallet_row \<Rightarrow> ('e, Wallet option) outcome" where
  "wallet_objectFromResultSet E B r =
     (case (State_of_raw (wr_state r), WalletType_of_raw (wr_type r)) of
        (Some st, Some ty) \<Rightarrow>
          bindO (OwnerList_of_serialized E (wr_owners r)) (\<lambda>os.
          bindO (Address_of_serialized E (wr_address r)) (\<lambda>adr.
          bindO (Address_of_serialized E (wr_fee_payment_token_address r)) (\<lambda>feeToken.
          bindO (Address_of_serialized E (wr_master_copy_address r)) (\<lambda>master.
          Returns (Some (Wallet_init (wr_id r) st os adr feeToken
            (case wr_minimum_deployment_tx_amount r of None \<Rightarrow> None | Some v \<Rightarrow> BigInt_String B v)
            (wr_creation_tx_hash r) (wr_confirmation_count r) master (wr_contract_version r) ty))))))
      | _ \<Rightarrow> Returns None)"

record portfolio_row =
  pr_wallets :: string
  pr_selected_wallet :: "string option"

definition portfolio_insertionBindings :: "Portfolio \<Rightarrow> portfolio_row" where
  "portfolio_insertionBindings p =
     \<lparr>pr_wallets = WalletIDList_serializedValue (wallets p), pr_selected_wallet = selectedWallet p\<rparr>"

definition portfolio_objectFromResultSet :: "portfolio_row \<Rightarrow> ('e, Portfolio) outcome" where
  "portfolio_objectFromResultSet r = Portfolio_init (WalletIDList_of_serialized (pr_wallets r)) (pr_selected_wallet r)"

subsection \<open>Transaction rows\<close>

fun TransactionType_rawValue :: "TransactionType \<Rightarrow> int" where
  "TransactionType_rawValue TT_transfer = 0"
| "TransactionType_rawValue walletRecovery = 1"
| "TransactionType_rawValue replaceRecoveryPhrase = 2"
| "TransactionType_rawValue replaceTwoFAWithAuthenticator = 3"
| "TransactionType_rawValue connectAuthenticator = 4"
| "TransactionType_rawValue disconnectAuthenticator = 5"
| "TransactionType_rawValue contractUpgrade = 6"
| "TransactionType_rawValue replaceTwoFAWithStatusKeycard = 7"
| "TransactionType_rawValue connectStatusKeycard = 8"
| "TransactionType_rawValue disconnectStatusKeycard = 9"
| "TransactionType_rawValue batched = 10"

definition TransactionType_of_raw :: "int \<Rightarrow> TransactionType option" where
  "TransactionType_of_raw = from_raw TransactionType_rawValue
     [TT_transfer, walletRecovery, replaceRecoveryPhrase, replaceTwoFAWithAuthenticator, connectAuthenticator,
      disconnectAuthenticator, contractUpgrade, replaceTwoFAWithStatusKeycard, connectStatusKeycard,
      disconnectStatusKeycard, batched]"

fun Code_rawValue :: "Code \<Rightarrow> int" where
  "Code_rawValue TS_draft = 0"
| "Code_rawValue TS_signing = 1"
| "Code_rawValue TS_pending = 2"
| "Code_rawValue TS_rejected = 3"
| "Code_rawValue TS_failed = 4"
| "Code_rawValue TS_success = 5"

definition Code_of_raw :: "int \<Rightarrow> Code option" where
  "Code_of_raw = from_raw Code_rawValue [TS_draft, TS_signing, TS_pending, TS_rejected, TS_failed, TS_success]"

fun WalletOperation_rawValue :: "WalletOperation \<Rightarrow> int" where
  "WalletOperation_rawValue OP_call = 0"
| "WalletOperation_rawValue OP_delegateCall = 1"
| "WalletOperation_rawValue OP_create = 2"

definition WalletOperation_of_raw :: "int \<Rightarrow> WalletOperation option" where
  "WalletOperation_of_raw = from_raw WalletOperation_rawValue [OP_call, OP_delegateCall, OP_create]"

record tx_row =
  tr_id :: string
  tr_account_id :: string
  tr_transaction_type :: int
  tr_transaction_status :: int
  tr_sender :: "string option"
  tr_recipient :: "string option"
  tr_amount :: "string option"
  tr_fee :: "string option"
  tr_signatures :: "string option"
  tr_created_date :: "time option"
  tr_updated_date :: "time option"
  tr_rejected_date :: "time option"
  tr_submission_date :: "time option"
  tr_processed_date :: "time option"
  tr_transaction_hash :: "string option"
  tr_fee_estimate_gas :: "string option"
  tr_fee_estimate_data_gas :: "string option"
  tr_fee_estimate_operational_gas :: "string option"
  tr_fee_estimate_gas_price :: "string option"
  tr_data :: "data option"
  tr_operation :: "int option"
  tr_nonce :: "string option"
  tr_hash :: "data option"

definition serialized_signatures :: "packages \<Rightarrow> Signature list \<Rightarrow> string" where
  "serialized_signatures E sigs =
     joined '';'' (map (\<lambda>s. address_value (sig_address s) @ '','' @ toHexString E (sig_data s)) sigs)"

definition deserialized_signature :: "packages \<Rightarrow> string \<Rightarrow> ('e, Signature option) outcome" where
  "deserialized_signature E v =
     (case components '','' v of
        [a, d] \<Rightarrow> bindO (Address_init E a) (\<lambda>adr. Returns (Some \<lparr>sig_address = adr, sig_data = ethHex E d\<rparr>))
      | _ \<Rightarrow> Returns None)"

definition deserialized_signatures :: "packages \<Rightarrow> string \<Rightarrow> ('e, Signature list) outcome" where
  "deserialized_signatures E s =
     bindO (mapO (deserialized_signature E) (components '';'' s)) (\<lambda>sigs. Returns (List.map_filter id sigs))"

definition tx_bindings :: "packages \<Rightarrow> bigint \<Rightarrow> Transaction \<Rightarrow> tx_row" where
  "tx_bindings E B tx =
     \<lparr>tr_id = tx_id tx, tr_account_id = tx_accountID tx, tr_transaction_type = TransactionType_rawValue (tx_type tx),
      tr_transaction_status = Code_rawValue (status tx),
      tr_sender = map_option address_value (sender tx), tr_recipient = map_option address_value (recipient tx),
      tr_amount = map_option (TokenAmount_serializedStringValue B) (amount tx),
      tr_fee = map_option (TokenAmount_serializedStringValue B) (fee tx),
      tr_signatures = Some (serialized_signatures E (signatures tx)),
      tr_created_date = createdDate tx, tr_updated_date = updatedDate tx, tr_rejected_date = rejectedDate tx,
      tr_submission_date = submittedDate tx, tr_processed_date = processedDate tx,
      tr_transaction_hash = transactionHash tx,
      tr_fee_estimate_gas = map_option (\<lambda>f. String_BigInt B (gas f)) (feeEstimate tx),
      tr_fee_estimate_data_gas = map_option (\<lambda>f. String_BigInt B (dataGas f)) (feeEstimate tx),
      tr_fee_estimate_operational_gas = map_option (\<lambda>f. String_BigInt B (operationalGas f)) (feeEstimate tx),
      tr_fee_estimate_gas_price = map_option (\<lambda>f. TokenAmount_serializedStringValue B (gasPrice f)) (feeEstimate tx),
      tr_data = tx_data tx, tr_operation = map_option WalletOperation_rawValue (operation tx), tr_nonce = tx_nonce tx,
      tr_hash = tx_hash tx\<rparr>"

text \<open>\<^verbatim>\<open>AccountID(_:)\<close>: \<^verbatim>\<open>split\<close> leaves out empty parts.\<close>

definition AccountID_init :: "string \<Rightarrow> ('e, string) outcome" where
  "AccountID_init i = (if length (filter (\<lambda>c. c \<noteq> []) (components '':'' i)) = 2 then Returns i else Traps)"

text \<open>\<^verbatim>\<open>if let\<close> around a change of the transaction.\<close>

definition if_let :: "'v option \<Rightarrow> ('v \<Rightarrow> 's \<Rightarrow> ('e, 's) outcome) \<Rightarrow> 's \<Rightarrow> ('e, 's) outcome" where
  "if_let v f s = (case v of None \<Rightarrow> Returns s | Some x \<Rightarrow> f x s)"

definition read_feeEstimate :: "packages \<Rightarrow> bigint \<Rightarrow> tx_row \<Rightarrow> ('e, TransactionFeeEstimate option) outcome" where
  "read_feeEstimate E B r =
     (case Option.bind (tr_fee_estimate_gas r) (BigInt_String B) of None \<Rightarrow> Returns None | Some g \<Rightarrow>
      case Option.bind (tr_fee_estimate_data_gas r) (BigInt_String B) of None \<Rightarrow> Returns None | Some dg \<Rightarrow>
      case Option.bind (tr_fee_estimate_operational_gas r) (BigInt_String B) of None \<Rightarrow> Returns None | Some og \<Rightarrow>
      case tr_fee_estimate_gas_price r of None \<Rightarrow> Returns None | Some ps \<Rightarrow>
        bindO (TokenAmount_of_string E B ps) (\<lambda>p. Returns (map_option (\<lambda>a.
          \<lparr>gas = g, dataGas = dg, operationalGas = og, gasPrice = a\<rparr>) p)))"

text \<open>
  \<^verbatim>\<open>ResultSet.data(at:)\<close>: SQLite hands out no pointer for a blob of length zero, so that empty data is read as \<^verbatim>\<open>nil\<close>.
\<close>

definition column_data :: "data option \<Rightarrow> data option" where
  "column_data v = (if v = Some [] then None else v)"

definition updateRemaining :: "packages \<Rightarrow> bigint \<Rightarrow> time \<Rightarrow> tx_row \<Rightarrow> Transaction \<Rightarrow> ('e, Transaction) outcome" where
  "updateRemaining E B now r tx =
     bindO (read_feeEstimate E B r) (\<lambda>f.
     bindO (if_let f (\<lambda>v t. Returns (change_feeEstimate (Some v) now t)) tx) (\<lambda>tx1.
     bindO (if_let (column_data (tr_data r)) (\<lambda>v t. Returns (change_data (Some v) now t)) tx1) (\<lambda>tx2.
     bindO (if_let (Option.bind (tr_operation r) WalletOperation_of_raw)
              (\<lambda>v t. Returns (change_operation (Some v) now t)) tx2) (\<lambda>tx3.
     bindO (if_let (tr_nonce r) (\<lambda>v t. Returns (change_nonce (Some v) now t)) tx3) (\<lambda>tx4.
     if_let (column_data (tr_hash r)) (\<lambda>v t. Returns (change_hash (Some v) now t)) tx4)))))"

definition change_parsed_amount ::
    "packages \<Rightarrow> bigint \<Rightarrow> (TokenAmount option \<Rightarrow> time \<Rightarrow> Transaction \<Rightarrow> Transaction) \<Rightarrow> time \<Rightarrow> string \<Rightarrow> Transaction \<Rightarrow>
     ('e, Transaction) outcome" where
  "change_parsed_amount E B change now v tx =
     bindO (TokenAmount_of_string E B v) (\<lambda>a. if_let a (\<lambda>x t. Returns (change (Some x) now t)) tx)"

definition tx_update :: "packages \<Rightarrow> bigint \<Rightarrow> time \<Rightarrow> tx_row \<Rightarrow> Transaction \<Rightarrow> ('e, Transaction) outcome" where
  "tx_update E B now r tx =
     bindO (if_let (tr_sender r) (\<lambda>v t. bindO (Address_init E v) (\<lambda>a. Returns (change_sender (Some a) now t))) tx) (\<lambda>tx1.
     bindO (if_let (tr_recipient r) (\<lambda>v t. bindO (Address_init E v) (\<lambda>a. Returns (change_recipient (Some a) now t))) tx1) (\<lambda>tx2.
     bindO (if_let (tr_amount r) (change_parsed_amount E B change_amount now) tx2) (\<lambda>tx3.
     bindO (if_let (tr_fee r) (change_parsed_amount E B change_fee now) tx3) (\<lambda>tx4.
     bindO (if_let (tr_signatures r) (\<lambda>v t.
              bindO (deserialized_signatures E v) (\<lambda>sigs. Returns (fold (\<lambda>s. add_signature s now) sigs t))) tx4) (\<lambda>tx5.
     bindO (if_let (tr_transaction_hash r) (\<lambda>h t. Returns (set_hash h now t)) tx5) (\<lambda>tx6.
     updateRemaining E B now r tx6))))))"

fun replay_status :: "time \<Rightarrow> Code \<Rightarrow> Transaction \<Rightarrow> ('e, Transaction) outcome" where
  "replay_status now TS_draft tx = Returns tx"
| "replay_status now TS_signing tx = tx_proceed now now tx"
| "replay_status now TS_pending tx = bindO (tx_proceed now now tx) (tx_proceed now now)"
| "replay_status now TS_rejected tx = bindO (tx_proceed now now tx) (tx_reject now now)"
| "replay_status now TS_failed tx = bindO (tx_proceed now now tx) (\<lambda>t. bindO (tx_proceed now now t) (fail now now))"
| "replay_status now TS_success tx = bindO (tx_proceed now now tx) (\<lambda>t. bindO (tx_proceed now now t) (succeed now now))"

definition stamp :: "time option \<Rightarrow> (time \<Rightarrow> Transaction \<Rightarrow> Transaction) \<Rightarrow> Transaction \<Rightarrow> Transaction" where
  "stamp d f tx = (case d of None \<Rightarrow> tx | Some t \<Rightarrow> f t tx)"

definition restore_timestamps :: "tx_row \<Rightarrow> Transaction \<Rightarrow> Transaction" where
  "restore_timestamps r tx =
     stamp (tr_processed_date r) timestampProcessed (stamp (tr_submission_date r) timestampSubmitted
       (stamp (tr_rejected_date r) timestampRejected (stamp (tr_updated_date r) timestampUpdated
         (stamp (tr_created_date r) timestampCreated tx))))"

definition transactionFromResultSet ::
    "packages \<Rightarrow> bigint \<Rightarrow> time \<Rightarrow> tx_row \<Rightarrow> ('e, Transaction option) outcome" where
  "transactionFromResultSet E B now r =
     (case (TransactionType_of_raw (tr_transaction_type r), Code_of_raw (tr_transaction_status r)) of
        (Some ty, Some st) \<Rightarrow>
          bindO (AccountID_init (tr_account_id r)) (\<lambda>account.
          bindO (tx_update E B now r (Transaction_init (tr_id r) ty account now now)) (\<lambda>tx.
          bindO (replay_status now st tx) (\<lambda>tx1.
          Returns (Some (restore_timestamps r tx1)))))
      | _ \<Rightarrow> Returns None)"

subsection \<open>Splitting what was joined\<close>

lemma components_loop_end:
  assumes "c \<notin> set x"
  shows "components_loop (c # sep) acc x = [acc @ x]"
  using assms
proof (induction x arbitrary: acc)
  case Nil
  then show ?case by (simp add: components_loop.simps)
next
  case (Cons d x)
  then have "d \<noteq> c" by auto
  with Cons show ?case by (subst components_loop.simps) simp
qed

lemma components_loop_sep:
  assumes "c \<notin> set x"
  shows "components_loop (c # sep) acc (x @ (c # sep) @ rest) = (acc @ x) # components_loop (c # sep) [] rest"
  using assms
proof (induction x arbitrary: acc)
  case Nil
  then show ?case by (subst components_loop.simps) simp
next
  case (Cons d x)
  then have "d \<noteq> c" by auto
  with Cons show ?case by (subst components_loop.simps) simp
qed

lemma components_joined:
  assumes "xs \<noteq> []" and "\<forall>x\<in>set xs. c \<notin> set x"
  shows "components (c # sep) (joined (c # sep) xs) = xs"
proof -
  have "components_loop (c # sep) [] (joined (c # sep) xs) = xs"
    using assms
  proof (induction "c # sep" xs rule: joined.induct)
    case (3 x y xs)
    then have "components_loop (c # sep) [] (joined (c # sep) (y # xs)) = y # xs" by simp
    with components_loop_sep [of c x sep "[]" "joined (c # sep) (y # xs)"] 3 show ?case by simp
  qed (simp_all add: components_loop_end)
  then show ?thesis by (simp add: components_def)
qed

lemma components_Nil [simp]: "components sep [] = [[]]"
  by (simp add: components_def components_loop.simps)

lemma components_not_Nil [simp]: "components sep s \<noteq> []"
proof -
  have "components_loop sep acc s \<noteq> []" for acc
    by (induction sep acc s rule: components_loop.induct) (subst components_loop.simps, simp)
  then show ?thesis by (simp add: components_def)
qed

subsection \<open>Decimal numbers\<close>

lemma read_digits_append:
  "read_digits n (s @ t) = (case read_digits n s of None \<Rightarrow> None | Some m \<Rightarrow> read_digits m t)"
  by (induction n s rule: read_digits.induct) (auto split: option.split)

lemma read_digit_char [simp]: "d < 10 \<Longrightarrow> read_digit (char_of (48 + d)) = Some d"
  by (simp add: read_digit_def of_char_of)

lemma read_digits_show_nat: "read_digits 0 (show_nat n) = Some n"
proof (induction n rule: show_nat.induct)
  case (1 n)
  then show ?case by (subst show_nat.simps) (simp add: read_digits_append)
qed

lemma show_nat_not_Nil [simp]: "show_nat n \<noteq> []"
  by (subst show_nat.simps) simp

lemma digit_char: "d < 10 \<Longrightarrow> 48 \<le> (of_char (char_of (48 + d :: nat)) :: nat) \<and> (of_char (char_of (48 + d)) :: nat) \<le> 57"
  by (simp add: of_char_of)

lemma show_nat_digits: "list_all (\<lambda>c. 48 \<le> (of_char c :: nat) \<and> (of_char c :: nat) \<le> 57) (show_nat n)"
proof (induction n rule: show_nat.induct)
  case (1 n)
  then show ?case using digit_char [of n] digit_char [of "n mod 10"] by (subst show_nat.simps) simp
qed

lemma show_int_decimal: "list_all decimal_char (show_int n)"
  using show_nat_digits [of "nat n"] show_nat_digits [of "nat (- n)"]
  by (auto simp: show_int_def decimal_char_def list_all_iff)

lemma read_int_show_int: "read_int (show_int n) = Some n"
proof -
  obtain c t where ct: "show_nat (nat n) = c # t" by (cases "show_nat (nat n)") auto
  with show_nat_digits [of "nat n"] have "c \<noteq> CHR ''-''" "c \<noteq> CHR ''+''" by auto
  with ct read_digits_show_nat [of "nat n"] have "\<not> n < 0 \<Longrightarrow> ?thesis"
    by (simp add: read_int_def show_int_def read_nat_def)
  moreover have "n < 0 \<Longrightarrow> ?thesis"
    by (simp add: read_int_def show_int_def read_nat_def read_digits_show_nat)
  ultimately show ?thesis by blast
qed

lemma Int_of_string_show: "Int_min \<le> n \<Longrightarrow> n \<le> Int_max \<Longrightarrow> Int_of_string (show_int n) = Some n"
  by (simp add: Int_of_string_def read_int_show_int)

definition sampleBigint :: bigint where
  "sampleBigint = \<lparr>String_BigInt = show_int, BigInt_String = read_int\<rparr>"

lemma sampleBigint_ok: "bigint_ok sampleBigint"
  by (simp add: bigint_ok_def sampleBigint_def read_int_show_int show_int_decimal)

subsection \<open>Round trips of the parts\<close>

lemma raw_values [simp]:
  "OwnerRole_of_raw (OwnerRole_rawValue r) = Some r" "State_of_raw (State_rawValue st) = Some st"
  "WalletType_of_raw (WalletType_rawValue ty) = Some ty" "TransactionType_of_raw (TransactionType_rawValue tt) = Some tt"
  "Code_of_raw (Code_rawValue c) = Some c" "WalletOperation_of_raw (WalletOperation_rawValue op) = Some op"
       apply (cases r; simp add: OwnerRole_of_raw_def from_raw_def)
      apply (cases st; simp add: State_of_raw_def from_raw_def)
     apply (cases ty; simp add: WalletType_of_raw_def from_raw_def)
    apply (cases tt; simp add: TransactionType_of_raw_def from_raw_def)
   apply (cases c; simp add: Code_of_raw_def from_raw_def)
  apply (cases op; simp add: WalletOperation_of_raw_def from_raw_def)
  done

text \<open>Addresses as the app writes them: \<open>0x\<close> and 40 hexadecimal digits.\<close>

definition hex_address :: "Address \<Rightarrow> bool" where
  "hex_address a \<longleftrightarrow> take 2 (address_value a) = ''0x'' \<and> is_hex (drop 2 (address_value a)) \<and> length (address_value a) = 42"

definition separators :: "char set" where
  "separators = {CHR '','', CHR '':'', CHR '';'', CHR ''~'', CHR ''=''}"

lemma hex_address_split: "hex_address a \<Longrightarrow> address_value a = ''0x'' @ drop 2 (address_value a)"
  unfolding hex_address_def by (metis append_take_drop_id)

lemma hex_address_clean:
  assumes "hex_address a" and "c \<in> separators"
  shows "c \<notin> set (address_value a)"
proof
  assume "c \<in> set (address_value a)"
  then have "c \<in> set (''0x'' @ drop 2 (address_value a))" using hex_address_split [OF assms(1)] by simp
  then have "c = CHR ''0'' \<or> c = CHR ''x'' \<or> hex_value c \<noteq> None"
    using assms(1) by (auto simp: hex_address_def is_hex_def list_all_iff)
  with assms(2) show False by (auto simp: separators_def hex_value_def Let_def)
qed

lemma hex_address_init:
  assumes "packages_ok E" and "hex_address a"
  shows "Address_init E (address_value a) = Returns a"
proof -
  let ?h = "drop 2 (address_value a)"
  have h: "is_hex ?h" "length ?h = 40" using assms(2) by (simp_all add: hex_address_def)
  have split: "address_value a = ''0x'' @ ?h" by (rule hex_address_split [OF assms(2)])
  have "ethHex E (''0x'' @ ?h) = ethHex E ?h" using ethHex_0x [OF h(1)] by simp
  moreover have "length (ethHex E ?h) = 20" using ethHex_is_hex [OF assms(1) h(1)] h(2) by simp
  ultimately have "length (ethHex E (address_value a)) = 20" by (metis split)
  moreover have "hasPrefix (address_value a) ''0x''" using assms(2) by (simp add: hasPrefix_def hex_address_def numeral_2_eq_2)
  ultimately show ?thesis by (simp add: Address_init_def)
qed

lemma map_filter_Some [simp]: "List.map_filter id (map (\<lambda>x. Some (f x)) xs) = map f xs"
  by (induction xs) (simp_all add: map_filter_simps)

lemma mapO_map: "(\<And>x. x \<in> set xs \<Longrightarrow> f (g x) = Returns (h x)) \<Longrightarrow> mapO f (map g xs) = Returns (map h xs)"
  by (induction xs) auto

lemma role_clean: "CHR '','' \<notin> set (OwnerRole_rawValue r)" "CHR '':'' \<notin> set (OwnerRole_rawValue r)"
  by (cases r; simp)+

lemma Owner_of_keyValue_roundtrip:
  assumes "packages_ok E" and "hex_address (owner_address o1)"
  shows "Owner_of_keyValue E (address_value (owner_address o1) @ '':'' @ OwnerRole_rawValue (owner_role o1)) = Returns (Some o1)"
proof -
  have "components '':'' (joined '':'' [address_value (owner_address o1), OwnerRole_rawValue (owner_role o1)]) =
      [address_value (owner_address o1), OwnerRole_rawValue (owner_role o1)]"
    using hex_address_clean [OF assms(2), of "CHR '':''"] role_clean(2)
    by (intro components_joined) (simp_all add: separators_def)
  then show ?thesis by (simp add: Owner_of_keyValue_def hex_address_init [OF assms])
qed

lemma OwnerList_roundtrip:
  assumes "packages_ok E" and "list_all (\<lambda>o1. hex_address (owner_address o1)) os"
  shows "OwnerList_of_serialized E (OwnerList_serializedValue os) = (Returns os :: ('e, OwnerList) outcome)"
proof (cases "os = []")
  case True
  then show ?thesis
    by (simp add: OwnerList_of_serialized_def OwnerList_serializedValue_def Owner_of_keyValue_def map_filter_simps)
next
  case False
  let ?f = "\<lambda>o1. address_value (owner_address o1) @ '':'' @ OwnerRole_rawValue (owner_role o1)"
  have ok: "hex_address (owner_address o1)" if "o1 \<in> set os" for o1 using assms(2) that by (simp add: list_all_iff)
  have "components '','' (OwnerList_serializedValue os) = map ?f os"
    unfolding OwnerList_serializedValue_def
    using False hex_address_clean [OF ok, of _ "CHR '',''"] role_clean(1)
    by (intro components_joined) (auto simp: separators_def)
  moreover have "mapO (Owner_of_keyValue E) (map ?f os) = (Returns (map Some os) :: ('e, _) outcome)"
    using ok by (intro mapO_map) (rule Owner_of_keyValue_roundtrip [OF assms(1)])
  ultimately show ?thesis using map_filter_Some [of "\<lambda>x. x" os] by (simp add: OwnerList_of_serialized_def)
qed

definition clean_text :: "string \<Rightarrow> bool" where
  "clean_text s \<longleftrightarrow> CHR ''~'' \<notin> set s \<and> CHR ''='' \<notin> set s"

definition token_storable :: "Token \<Rightarrow> bool" where
  "token_storable t \<longleftrightarrow> clean_text (code t) \<and> clean_text (token_name t) \<and> clean_text (logoUrl t) \<and>
     hex_address (token_address t) \<and> Int_min \<le> decimals t \<and> decimals t \<le> Int_max"

lemma decimal_clean:
  assumes "list_all decimal_char s" and "c \<in> separators"
  shows "c \<notin> set s"
proof
  assume "c \<in> set s"
  with assms(1) have "decimal_char c" by (simp add: list_all_iff)
  with assms(2) show False unfolding separators_def by (elim insertE emptyE; simp add: decimal_char_def)
qed

lemma Token_roundtrip:
  assumes "packages_ok E" and "token_storable t"
  shows "Token_of_string E (Token_serializedStringValue t) = Returns (Some t)"
proof -
  let ?parts = "[code t, token_name t, show_int (decimals t), address_value (token_address t), logoUrl t]"
  have adr: "hex_address (token_address t)" using assms(2) by (simp add: token_storable_def)
  have "components ''~~~'' (joined ''~~~'' ?parts) = ?parts"
    using assms(2) hex_address_clean [OF adr, of "CHR ''~''"] decimal_clean [OF show_int_decimal, of "CHR ''~''"]
    by (intro components_joined) (simp_all add: token_storable_def clean_text_def separators_def)
  moreover have "Int_of_string (show_int (decimals t)) = Some (decimals t)"
    using assms(2) by (simp add: token_storable_def Int_of_string_show)
  ultimately show ?thesis
    by (simp add: Token_of_string_def Token_serializedStringValue_def hex_address_init [OF assms(1) adr] del: joined.simps)
qed

lemma set_joined: "set (joined sep xs) \<subseteq> set sep \<union> (\<Union>x\<in>set xs. set x)"
  by (induction sep xs rule: joined.induct) auto

lemma Token_serialized_no_equals:
  assumes "token_storable t"
  shows "CHR ''='' \<notin> set (Token_serializedStringValue t)"
proof
  assume "CHR ''='' \<in> set (Token_serializedStringValue t)"
  then have "CHR ''='' \<in> set ''~~~'' \<union> (\<Union>x\<in>set [code t, token_name t, show_int (decimals t), address_value (token_address t), logoUrl t]. set x)"
    unfolding Token_serializedStringValue_def using set_joined by blast
  then show False
    using assms hex_address_clean [of "token_address t" "CHR ''=''"] decimal_clean [OF show_int_decimal, of "CHR ''=''"]
    by (auto simp: token_storable_def clean_text_def separators_def)
qed

lemma TokenAmount_components:
  assumes "bigint_ok B" and "CHR ''='' \<notin> set (Token_serializedStringValue (ta_token a))"
  shows "components ''==='' (TokenAmount_serializedStringValue B a) =
    [String_BigInt B (ta_amount a), Token_serializedStringValue (ta_token a)]"
  unfolding TokenAmount_serializedStringValue_def
  using assms decimal_clean [of "String_BigInt B (ta_amount a)" "CHR ''=''"]
  by (intro components_joined) (auto simp: bigint_ok_def separators_def)

lemma TokenAmount_roundtrip:
  assumes "packages_ok E" and "bigint_ok B" and "token_storable (ta_token a)"
  shows "TokenAmount_of_string E B (TokenAmount_serializedStringValue B a) = Returns (Some a)"
  using assms
  by (simp add: TokenAmount_of_string_def TokenAmount_components Token_serialized_no_equals Token_roundtrip bigint_ok_def)

lemma signatures_roundtrip:
  assumes "packages_ok E" and "list_all (\<lambda>s. hex_address (sig_address s)) sigs"
  shows "deserialized_signatures E (serialized_signatures E sigs) = (Returns sigs :: ('e, Signature list) outcome)"
proof (cases "sigs = []")
  case True
  then show ?thesis
    by (simp add: deserialized_signatures_def serialized_signatures_def deserialized_signature_def map_filter_simps)
next
  case False
  let ?f = "\<lambda>s. address_value (sig_address s) @ '','' @ toHexString E (sig_data s)"
  have ok: "hex_address (sig_address s)" if "s \<in> set sigs" for s using assms(2) that by (simp add: list_all_iff)
  have hex: "toHexString E d = hex_of_bytes d" for d using packages_okD [OF assms(1)] by simp
  have hexclean: "c \<notin> set (hex_of_bytes d)" if "c \<in> separators" for c d
    using is_hex_hex_of_bytes [of d] that by (auto simp: is_hex_def list_all_iff separators_def hex_value_def Let_def)
  have "components '';'' (serialized_signatures E sigs) = map ?f sigs"
    unfolding serialized_signatures_def
    using False hex_address_clean [OF ok, of _ "CHR '';''"] hexclean [of "CHR '';''"]
    by (intro components_joined) (auto simp: separators_def hex)
  moreover have "deserialized_signature E (?f s) = (Returns (Some s) :: ('e, _) outcome)" if "s \<in> set sigs" for s
    using components_joined [of "[address_value (sig_address s), toHexString E (sig_data s)]" "CHR '',''" "[]"]
      hex_address_clean [OF ok [OF that], of "CHR '',''"] hexclean [of "CHR '',''"]
    by (simp add: deserialized_signature_def separators_def hex assms(1) hex_address_init [OF assms(1) ok [OF that]])
  then have "mapO (deserialized_signature E) (map ?f sigs) = (Returns (map Some sigs) :: ('e, _) outcome)"
    by (rule mapO_map)
  ultimately show ?thesis using map_filter_Some [of "\<lambda>x. x" sigs] by (simp add: deserialized_signatures_def)
qed

subsection \<open>Round trips of rows\<close>

definition wallet_storable :: "Wallet \<Rightarrow> bool" where
  "wallet_storable w \<longleftrightarrow>
     roles_unique (owners w) \<and> list_all (\<lambda>o1. hex_address (owner_address o1)) (owners w) \<and>
     pred_option hex_address (address w) \<and> pred_option hex_address (feePaymentTokenAddress w) \<and>
     pred_option hex_address (wallet_masterCopyAddress w)"

lemma Address_of_serialized_roundtrip:
  "packages_ok E \<Longrightarrow> pred_option hex_address a \<Longrightarrow> Address_of_serialized E (map_option address_value a) = Returns a"
  by (cases a) (simp_all add: Address_of_serialized_def hex_address_init)

lemma Wallet_init_restores:
  assumes "roles_unique (owners w)"
  shows "Wallet_init (wallet_id w) (state w) (owners w) (address w) (feePaymentTokenAddress w)
    (minimumDeploymentTransactionAmount w) (creationTransactionHash w) (confirmationCount w) (wallet_masterCopyAddress w)
    (contractVersion w) (wallet_type w) = w"
proof -
  have "wallet_id (fold addOwner os v) = wallet_id v" for os v
    by (induction os arbitrary: v) (simp_all add: addOwner_def)
  moreover have "owners (fold addOwner (owners w) (Wallet_blank (wallet_id w))) = owners w"
    using fold_addOwner [of "Wallet_blank (wallet_id w)" "owners w"] assms by (simp add: Wallet_blank_def)
  ultimately show ?thesis by (simp add: Wallet_init_def Let_def Wallet_blank_def)
qed

lemma wallet_row_restores:
  assumes "packages_ok E" and "bigint_ok B" and "wallet_storable w"
  shows "wallet_objectFromResultSet E B (wallet_insertionBindings B w) = Returns (Some w)"
proof -
  have "(case map_option (String_BigInt B) m of None \<Rightarrow> None | Some v \<Rightarrow> BigInt_String B v) = m" for m
    using assms(2) by (cases m) (simp_all add: bigint_ok_def)
  with assms show ?thesis
    by (simp add: wallet_objectFromResultSet_def wallet_insertionBindings_def wallet_storable_def OwnerList_roundtrip
      Address_of_serialized_roundtrip Wallet_init_restores)
qed

definition ids_storable :: "WalletID list \<Rightarrow> bool" where
  "ids_storable ids \<longleftrightarrow> list_all (\<lambda>i. i \<noteq> [] \<and> CHR '','' \<notin> set i) ids"

lemma WalletIDList_roundtrip:
  assumes "ids_storable ids"
  shows "WalletIDList_of_serialized (WalletIDList_serializedValue ids) = ids"
proof -
  have all: "filter (\<lambda>i. i \<noteq> []) ids = ids" using assms by (auto simp: ids_storable_def list_all_iff)
  show ?thesis
  proof (cases "ids = []")
    case True
    then show ?thesis by (simp add: WalletIDList_of_serialized_def WalletIDList_serializedValue_def)
  next
    case False
    then have "components '','' (joined '','' ids) = ids"
      using assms by (intro components_joined) (auto simp: ids_storable_def list_all_iff)
    then show ?thesis by (simp only: WalletIDList_of_serialized_def WalletIDList_serializedValue_def all)
  qed
qed

text \<open>
  Wallets and the portfolio survive storage: reading the row that was written gives back the very
  object, in every state and with every optional column, provided that the addresses are hexadecimal, each role has one
  owner, and wallet identifiers are not empty and have no comma (they are UUIDs). Neither reading stops the process.
\<close>

theorem wallet_and_portfolio_rows:
  assumes "packages_ok E" and "bigint_ok B" and "wallet_storable w" and "portfolio_ok p" and "ids_storable (wallets p)"
  shows "wallet_objectFromResultSet E B (wallet_insertionBindings B w) = (Returns (Some w) :: (unit, Wallet option) outcome) \<and>
    portfolio_objectFromResultSet (portfolio_insertionBindings p) = (Returns p :: (unit, Portfolio) outcome)"
  using wallet_row_restores [OF assms(1-3)] restore [OF assms(4)] assms(5)
  by (simp add: portfolio_objectFromResultSet_def portfolio_insertionBindings_def WalletIDList_roundtrip)

subsection \<open>Restoring a transaction\<close>

definition amount_storable :: "TokenAmount \<Rightarrow> bool" where
  "amount_storable a \<longleftrightarrow> token_storable (ta_token a)"

definition account_ok :: "string \<Rightarrow> bool" where
  "account_ok i \<longleftrightarrow> length (filter (\<lambda>c. c \<noteq> []) (components '':'' i)) = 2"

definition tx_storable :: "Transaction \<Rightarrow> bool" where
  "tx_storable tx \<longleftrightarrow>
     account_ok (tx_accountID tx) \<and> pred_option hex_address (sender tx) \<and> pred_option hex_address (recipient tx) \<and>
     pred_option amount_storable (amount tx) \<and> pred_option amount_storable (fee tx) \<and>
     pred_option (\<lambda>f. amount_storable (gasPrice f)) (feeEstimate tx) \<and>
     list_all (\<lambda>s. hex_address (sig_address s)) (signatures tx) \<and> tx_data tx \<noteq> Some [] \<and> tx_hash tx \<noteq> Some [] \<and>
     createdDate tx \<noteq> None \<and> updatedDate tx \<noteq> None"

text \<open>A column that is \<^verbatim>\<open>NULL\<close> leaves the field of the new draft as it is, namely \<^verbatim>\<open>nil\<close>.\<close>

lemma if_letI: "(\<And>x. v = Some x \<Longrightarrow> f x t = Returns (g (Some x))) \<Longrightarrow> t = g None \<Longrightarrow> if_let v f t = Returns (g v)"
  by (cases v) (simp_all add: if_let_def)

lemma let_address:
  assumes "packages_ok E" and "pred_option hex_address a" and "updatedDate t = Some now"
  shows "sender t = None \<Longrightarrow>
      if_let (map_option address_value a) (\<lambda>v t. bindO (Address_init E v) (\<lambda>a. Returns (change_sender (Some a) now t))) t =
      Returns (t\<lparr>sender := a\<rparr>)"
    and "recipient t = None \<Longrightarrow>
      if_let (map_option address_value a) (\<lambda>v t. bindO (Address_init E v) (\<lambda>a. Returns (change_recipient (Some a) now t))) t =
      Returns (t\<lparr>recipient := a\<rparr>)"
  using assms by (cases a; simp add: if_let_def hex_address_init edit_defs timestamp_defs)+

lemma let_changes:
  assumes "updatedDate t = Some now"
  shows "transactionHash t = None \<Longrightarrow> if_let h (\<lambda>h t. Returns (set_hash h now t)) t = Returns (t\<lparr>transactionHash := h\<rparr>)"
    and "feeEstimate t = None \<Longrightarrow> if_let f (\<lambda>v t. Returns (change_feeEstimate (Some v) now t)) t = Returns (t\<lparr>feeEstimate := f\<rparr>)"
    and "tx_data t = None \<Longrightarrow> if_let d (\<lambda>v t. Returns (change_data (Some v) now t)) t = Returns (t\<lparr>tx_data := d\<rparr>)"
    and "operation t = None \<Longrightarrow> if_let p (\<lambda>v t. Returns (change_operation (Some v) now t)) t = Returns (t\<lparr>operation := p\<rparr>)"
    and "tx_nonce t = None \<Longrightarrow> if_let n (\<lambda>v t. Returns (change_nonce (Some v) now t)) t = Returns (t\<lparr>tx_nonce := n\<rparr>)"
    and "tx_hash t = None \<Longrightarrow> if_let k (\<lambda>v t. Returns (change_hash (Some v) now t)) t = Returns (t\<lparr>tx_hash := k\<rparr>)"
  using assms by (intro if_letI; simp add: edit_defs timestamp_defs)+

lemma let_amounts:
  assumes "packages_ok E" and "bigint_ok B" and "pred_option amount_storable a" and "updatedDate t = Some now"
  shows "amount t = None \<Longrightarrow>
      if_let (map_option (TokenAmount_serializedStringValue B) a) (change_parsed_amount E B change_amount now) t =
      Returns (t\<lparr>amount := a\<rparr>)"
    and "fee t = None \<Longrightarrow>
      if_let (map_option (TokenAmount_serializedStringValue B) a) (change_parsed_amount E B change_fee now) t =
      Returns (t\<lparr>fee := a\<rparr>)"
  using assms
  by (cases a; simp add: if_let_def change_parsed_amount_def amount_storable_def TokenAmount_roundtrip edit_defs timestamp_defs)+

lemma fold_add_signature:
  assumes "distinct (signatures t @ sigs)" and "updatedDate t = Some now"
  shows "fold (\<lambda>s. add_signature s now) sigs t = t\<lparr>signatures := signatures t @ sigs\<rparr>"
  using assms
proof (induction sigs arbitrary: t)
  case (Cons s sigs)
  then have "add_signature s now t = t\<lparr>signatures := signatures t @ [s]\<rparr>"
    by (simp add: add_signature_def timestamp_defs)
  with Cons show ?case by simp
qed simp

lemma feeEstimate_roundtrip:
  assumes "packages_ok E" and "bigint_ok B" and "pred_option (\<lambda>f. amount_storable (gasPrice f)) (feeEstimate tx)"
  shows "read_feeEstimate E B (tx_bindings E B tx) = Returns (feeEstimate tx)"
  using assms
  by (cases "feeEstimate tx")
    (simp_all add: read_feeEstimate_def tx_bindings_def bigint_ok_def amount_storable_def TokenAmount_roundtrip)

text \<open>The draft that the loader has when all columns but the status and the dates were read.\<close>

definition loaded_draft :: "time \<Rightarrow> Transaction \<Rightarrow> Transaction" where
  "loaded_draft now tx =
     tx\<lparr>status := TS_draft, createdDate := Some now, updatedDate := Some now, rejectedDate := None,
       submittedDate := None, processedDate := None\<rparr>"

lemma updateRemaining_roundtrip:
  assumes "packages_ok E" and "bigint_ok B" and "pred_option (\<lambda>f. amount_storable (gasPrice f)) (feeEstimate tx)"
    and "updatedDate t = Some now"
    and "feeEstimate t = None" and "tx_data t = None" and "operation t = None" and "tx_nonce t = None" and "tx_hash t = None"
    and "tx_data tx \<noteq> Some []" and "tx_hash tx \<noteq> Some []"
  shows "updateRemaining E B now (tx_bindings E B tx) t =
    Returns (t\<lparr>feeEstimate := feeEstimate tx, tx_data := tx_data tx, operation := operation tx, tx_nonce := tx_nonce tx,
      tx_hash := tx_hash tx\<rparr>)"
proof -
  have "Option.bind (map_option WalletOperation_rawValue v) WalletOperation_of_raw = v" for v by (cases v) simp_all
  then have cols: "Option.bind (tr_operation (tx_bindings E B tx)) WalletOperation_of_raw = operation tx"
    "column_data (tr_data (tx_bindings E B tx)) = tx_data tx" "tr_nonce (tx_bindings E B tx) = tx_nonce tx"
    "column_data (tr_hash (tx_bindings E B tx)) = tx_hash tx" using assms(10,11) by (simp_all add: tx_bindings_def column_data_def)
  note fee = feeEstimate_roundtrip [OF assms(1-3)]
  show ?thesis unfolding updateRemaining_def cols using assms(4-9) by (simp add: let_changes fee)
qed

text \<open>\<open>a\<close> is what the amount column is read as.\<close>

lemma tx_update_amount:
  assumes "packages_ok E" and "bigint_ok B" and st: "tx_storable (tx\<lparr>amount := None\<rparr>)" and "distinct (signatures tx)"
    and am: "\<And>t. amount t = None \<Longrightarrow> updatedDate t = Some now \<Longrightarrow>
      if_let (map_option (TokenAmount_serializedStringValue B) (amount tx)) (change_parsed_amount E B change_amount now) t =
      (Returns (t\<lparr>amount := a\<rparr>) :: ('e, Transaction) outcome)"
  shows "tx_update E B now (tx_bindings E B tx) (Transaction_init (tx_id tx) (tx_type tx) (tx_accountID tx) now now) =
    (Returns (loaded_draft now (tx\<lparr>amount := a\<rparr>)) :: ('e, Transaction) outcome)"
proof -
  let ?r = "tx_bindings E B tx" and ?t = "Transaction_init (tx_id tx) (tx_type tx) (tx_accountID tx) now now"
  have cols: "tr_sender ?r = map_option address_value (sender tx)" "tr_recipient ?r = map_option address_value (recipient tx)"
    "tr_amount ?r = map_option (TokenAmount_serializedStringValue B) (amount tx)"
    "tr_fee ?r = map_option (TokenAmount_serializedStringValue B) (fee tx)"
    "tr_signatures ?r = Some (serialized_signatures E (signatures tx))" "tr_transaction_hash ?r = transactionHash tx"
    by (simp_all add: tx_bindings_def)
  have sigs: "deserialized_signatures E (serialized_signatures E (signatures tx)) = (Returns (signatures tx) :: ('e, _) outcome)"
    using assms by (intro signatures_roundtrip) (simp_all add: tx_storable_def)
  show ?thesis
    unfolding tx_update_def cols
    using assms(1,2,4) st [unfolded tx_storable_def]
    by (simp add: let_address let_amounts(2) am let_changes if_let_def [of "Some _"] sigs fold_add_signature
        updateRemaining_roundtrip Transaction_init_def timestamp_defs loaded_draft_def)
qed

lemma tx_update_roundtrip:
  assumes "packages_ok E" and "bigint_ok B" and "tx_storable tx" and "distinct (signatures tx)"
  shows "tx_update E B now (tx_bindings E B tx) (Transaction_init (tx_id tx) (tx_type tx) (tx_accountID tx) now now) =
    Returns (loaded_draft now tx)"
proof -
  have "tx_storable (tx\<lparr>amount := None\<rparr>)" "pred_option amount_storable (amount tx)"
    using assms(3) by (simp_all add: tx_storable_def)
  from tx_update_amount [OF assms(1,2) this(1) assms(4) let_amounts(1) [OF assms(1,2) this(2)]]
  show ?thesis by simp
qed

lemma replay_status_spec:
  assumes "c \<noteq> TS_draft \<Longrightarrow> ready_to_sign tx" and "c \<in> {TS_pending, TS_failed, TS_success} \<Longrightarrow> transactionHash tx \<noteq> None"
  shows "replay_status now c (loaded_draft now tx) = Returns ((loaded_draft now tx)
    \<lparr>status := c, rejectedDate := (if c = TS_rejected then Some now else None),
     submittedDate := (if c \<in> {TS_pending, TS_failed, TS_success} then Some now else None),
     processedDate := (if c \<in> {TS_failed, TS_success} then Some now else None)\<rparr>)"
  using assms
  by (cases c)
    (simp_all add: status_operation_defs assertNotNil_forced loaded_draft_def ready_to_sign_def change_status_def timestamp_defs)

definition or_else :: "'a option \<Rightarrow> 'a option \<Rightarrow> 'a option" where
  "or_else x y = (case x of None \<Rightarrow> y | Some v \<Rightarrow> Some v)"

lemma stamp_eq [simp]:
  "stamp d timestampCreated t = t\<lparr>createdDate := or_else d (createdDate t)\<rparr>"
  "stamp d timestampUpdated t = t\<lparr>updatedDate := or_else d (updatedDate t)\<rparr>"
  "stamp d timestampRejected t = t\<lparr>rejectedDate := or_else d (rejectedDate t)\<rparr>"
  "stamp d timestampSubmitted t = t\<lparr>submittedDate := or_else d (submittedDate t)\<rparr>"
  "stamp d timestampProcessed t = t\<lparr>processedDate := or_else d (processedDate t)\<rparr>"
  by (cases d; simp add: stamp_def or_else_def timestamp_defs)+

lemma or_else_simps [simp]: "or_else d None = d" "d \<noteq> None \<Longrightarrow> or_else d e = d"
  by (cases d; simp add: or_else_def)+

lemma tx_row_restores:
  assumes "packages_ok E" and "bigint_ok B" and "tx_storable tx" and "tx_ok tx"
    and "status tx \<noteq> TS_draft \<Longrightarrow> ready_to_sign tx"
  shows "transactionFromResultSet E B now (tx_bindings E B tx) = (Returns (Some tx) :: ('e, Transaction option) outcome)"
proof -
  let ?r = "tx_bindings E B tx"
  let ?t = "(loaded_draft now tx)\<lparr>status := status tx, rejectedDate := (if status tx = TS_rejected then Some now else None),
     submittedDate := (if status tx \<in> {TS_pending, TS_failed, TS_success} then Some now else None),
     processedDate := (if status tx \<in> {TS_failed, TS_success} then Some now else None)\<rparr>"
  have "restore_timestamps ?r ?t = tx"
    using assms(3,4) by (intro Transaction.equality)
      (auto simp: restore_timestamps_def tx_bindings_def loaded_draft_def tx_storable_def tx_ok_def)
  moreover have "replay_status now (status tx) (loaded_draft now tx) = (Returns ?t :: ('e, _) outcome)"
    using assms(4,5) by (intro replay_status_spec) (auto simp: tx_ok_def)
  moreover have "tr_account_id ?r = tx_accountID tx" "tr_id ?r = tx_id tx"
    "TransactionType_of_raw (tr_transaction_type ?r) = Some (tx_type tx)"
    "Code_of_raw (tr_transaction_status ?r) = Some (status tx)" by (simp_all add: tx_bindings_def)
  moreover have "AccountID_init (tx_accountID tx) = (Returns (tx_accountID tx) :: ('e, _) outcome)"
    using assms(3) by (simp add: AccountID_init_def tx_storable_def account_ok_def)
  moreover have "tx_update E B now ?r (Transaction_init (tx_id tx) (tx_type tx) (tx_accountID tx) now now) =
      (Returns (loaded_draft now tx) :: ('e, _) outcome)"
    using assms by (intro tx_update_roundtrip) (simp_all add: tx_ok_def)
  ultimately show ?thesis by (simp add: transactionFromResultSet_def)
qed

text \<open>A separator inside the name gives a sixth component.\<close>

lemma Token_with_separator:
  assumes "token_storable t" and "clean_text y"
  defines "t' \<equiv> t\<lparr>token_name := token_name t @ ''~~~'' @ y\<rparr>"
  shows "Token_of_string E (Token_serializedStringValue t') = Returns None"
    and "CHR ''='' \<notin> set (Token_serializedStringValue t')"
proof -
  let ?parts = "[code t, token_name t, y, show_int (decimals t), address_value (token_address t), logoUrl t]"
  have adr: "hex_address (token_address t)" using assms(1) by (simp add: token_storable_def)
  have ser: "Token_serializedStringValue t' = joined ''~~~'' ?parts"
    by (simp add: t'_def Token_serializedStringValue_def)
  have "components ''~~~'' (joined ''~~~'' ?parts) = ?parts"
    using assms(1,2) hex_address_clean [OF adr, of "CHR ''~''"] decimal_clean [OF show_int_decimal, of "CHR ''~''"]
    by (intro components_joined) (simp_all add: token_storable_def clean_text_def separators_def)
  then show "Token_of_string E (Token_serializedStringValue t') = Returns None"
    by (simp add: Token_of_string_def ser del: joined.simps)
  have "CHR ''='' \<notin> set ''~~~'' \<union> (\<Union>x\<in>set ?parts. set x)"
    using assms(1,2) hex_address_clean [OF adr, of "CHR ''=''"] decimal_clean [OF show_int_decimal, of "CHR ''=''"]
    by (auto simp: token_storable_def clean_text_def separators_def)
  then show "CHR ''='' \<notin> set (Token_serializedStringValue t')" unfolding ser using set_joined by blast
qed

lemma amount_with_separator:
  assumes "bigint_ok B" and "token_storable t" and "clean_text y" and "updatedDate u = Some now" and "amount u = None"
  shows "if_let (Some (TokenAmount_serializedStringValue B
      \<lparr>ta_amount = n, ta_token = t\<lparr>token_name := token_name t @ ''~~~'' @ y\<rparr>\<rparr>)) (change_parsed_amount E B change_amount now) u =
    Returns (u\<lparr>amount := None\<rparr>)"
  using assms
  by (simp add: if_let_def change_parsed_amount_def TokenAmount_of_string_def TokenAmount_components bigint_ok_def
      Token_with_separator [OF assms(2,3), simplified])

text \<open>
  (C36) A stored transaction is restored exactly. For every transaction that the operations of the domain model
  can produce, in every status, with its dates, signatures, fee estimate and hashes, replaying the row gives back the
  transaction, provided that a transaction past the draft still has sender, recipient, amount and fee, that data and digest are
  missing or not empty, that addresses are hexadecimal, and that token codes, names and logo addresses contain none of the separator characters.
\<close>

theorem transaction_row_roundtrip:
  assumes "packages_ok E" and "bigint_ok B" and "tx_reachable tx" and "tx_storable tx"
    and "status tx \<noteq> TS_draft \<longrightarrow> ready_to_sign tx"
  shows "transactionFromResultSet E B now (tx_bindings E B tx) = (Returns (Some tx) :: (unit, Transaction option) outcome)"
  using tx_row_restores [OF assms(1,2,4) tx_reachable_ok [OF assms(3)]] assms(5) by blast

text \<open>
  The name of a token is not escaped in the row. When the name of the amount's token contains the
  separator, the amount is read as missing, and replaying the status of any transaction past the draft stops the
  process. Names of unknown tokens are read from their contract, so that a stored transaction with such a token stops the app
  at every later read of the table.
\<close>

theorem separator_in_token_name:
  assumes "packages_ok E" and "bigint_ok B" and "token_storable t" and "clean_text y"
    and "tx_storable (tx\<lparr>amount := None\<rparr>)" and "distinct (signatures tx)" and "status tx \<noteq> TS_draft"
    and "amount tx = Some \<lparr>ta_amount = n, ta_token = t\<lparr>token_name := token_name t @ ''~~~'' @ y\<rparr>\<rparr>"
  shows "transactionFromResultSet E B now (tx_bindings E B tx) = (Traps :: (unit, Transaction option) outcome)"
proof -
  let ?r = "tx_bindings E B tx"
  have "tx_update E B now ?r (Transaction_init (tx_id tx) (tx_type tx) (tx_accountID tx) now now) =
      (Returns (loaded_draft now (tx\<lparr>amount := None\<rparr>)) :: (unit, _) outcome)"
    using amount_with_separator [OF assms(2-4)] assms(8)
    by (intro tx_update_amount [OF assms(1,2,5,6)]) simp
  moreover have "replay_status now (status tx) (loaded_draft now (tx\<lparr>amount := None\<rparr>)) = (Traps :: (unit, _) outcome)"
    using assms(7) by (cases "status tx") (simp_all add: status_operation_defs assertNotNil_forced loaded_draft_def)
  moreover have "tr_account_id ?r = tx_accountID tx" "tr_id ?r = tx_id tx"
    "TransactionType_of_raw (tr_transaction_type ?r) = Some (tx_type tx)"
    "Code_of_raw (tr_transaction_status ?r) = Some (status tx)" by (simp_all add: tx_bindings_def)
  moreover have "AccountID_init (tx_accountID tx) = (Returns (tx_accountID tx) :: (unit, _) outcome)"
    using assms(5) by (simp add: AccountID_init_def tx_storable_def account_ok_def)
  ultimately show ?thesis by (simp add: transactionFromResultSet_def)
qed

subsection \<open>Samples\<close>

definition row_address :: "char \<Rightarrow> Address" where
  "row_address c = Address (''0x'' @ replicate 40 c)"

definition row_token :: Token where
  "row_token = \<lparr>code = ''GNO'', token_name = ''Gnosis'', decimals = 18, token_address = row_address CHR ''a'', logoUrl = []\<rparr>"

definition row_wallet :: Wallet where
  "row_wallet = (Wallet_blank ''w'')\<lparr>owners := [\<lparr>owner_address = row_address CHR ''a'', owner_role = thisDevice\<rparr>,
     \<lparr>owner_address = row_address CHR ''b'', owner_role = unknown\<rparr>], minimumDeploymentTransactionAmount := Some 7\<rparr>"

definition row_draft :: Transaction where
  "row_draft =
     change_fee (Some (ether 1)) 4 (change_amount (Some \<lparr>ta_amount = 9, ta_token = row_token\<rparr>) 3
       (change_recipient (Some (row_address CHR ''c'')) 2
         (change_sender (Some (row_address CHR ''b'')) 1 (Transaction_init ''t'' TT_transfer ''a:b'' 0 0))))"

definition row_tx :: Transaction where
  "row_tx = timestampUpdated 5 (change_status TS_signing row_draft)"

lemma hex_row_address: "c \<in> {CHR ''a'', CHR ''b'', CHR ''c'', CHR ''0''} \<Longrightarrow> hex_address (row_address c)"
  by (auto simp: hex_address_def row_address_def is_hex_def hex_value_def list_all_iff)

lemma hex_zero_address: "hex_address Address_zero"
proof -
  have "Address_zero = row_address (CHR ''0'')" by (simp add: Address_zero_def row_address_def numeral_eq_Suc)
  moreover have "hex_address (row_address (CHR ''0''))" by (rule hex_row_address) simp
  ultimately show ?thesis by simp
qed

lemma row_token_storable: "token_storable row_token" "token_storable Token_Ether"
  using hex_zero_address hex_row_address
  by (simp_all add: token_storable_def row_token_def Token_Ether_def clean_text_def Int_min_def Int_max_def)

lemma row_account_ok: "account_ok ''a:b''"
  by (simp add: account_ok_def components_def components_loop.simps)

lemma row_tx_reachable: "tx_reachable row_tx"
proof -
  let ?t0 = "Transaction_init ''t'' TT_transfer ''a:b'' 0 0"
  let ?t1 = "change_sender (Some (row_address CHR ''b'')) 1 ?t0"
  let ?t2 = "change_recipient (Some (row_address CHR ''c'')) 2 ?t1"
  let ?t3 = "change_amount (Some \<lparr>ta_amount = 9, ta_token = row_token\<rparr>) 3 ?t2"
  have "tx_reachable ?t0" by (rule tx_reachable.start)
  moreover have "edit ?t0 ?t1" "edit ?t1 ?t2" "edit ?t2 ?t3" "edit ?t3 row_draft"
    unfolding edit_def row_draft_def by blast+
  ultimately have "tx_reachable row_draft" by (meson tx_reachable.edit)
  moreover have "tx_proceed 5 5 row_draft = (Returns row_tx :: (unit, _) outcome)"
    by (simp add: row_draft_def row_tx_def status_operation_defs assertNotNil_forced edit_defs timestamp_defs
      Transaction_init_def change_status_def)
  ultimately show ?thesis using tx_reachable.step tx_step.proceed by blast
qed

lemma row_tx_storable: "tx_storable row_tx" "ready_to_sign row_tx"
  using hex_row_address row_token_storable row_account_ok
  by (simp_all add: tx_storable_def ready_to_sign_def row_tx_def row_draft_def edit_defs timestamp_defs Transaction_init_def
    change_status_def amount_storable_def ether_def)

theorem wallet_and_portfolio_rows_witness:
  "wallet_objectFromResultSet samplePackages sampleBigint (wallet_insertionBindings sampleBigint row_wallet) =
     (Returns (Some row_wallet) :: (unit, Wallet option) outcome)"
proof -
  have "wallet_storable row_wallet"
    using hex_row_address by (simp add: wallet_storable_def row_wallet_def Wallet_blank_def roles_unique_def)
  moreover have "portfolio_ok Portfolio_new" "ids_storable (wallets Portfolio_new)"
    by (simp_all add: portfolio_ok_new) (simp add: Portfolio_new_def ids_storable_def)
  ultimately show ?thesis using wallet_and_portfolio_rows [OF samplePackages_ok sampleBigint_ok] by blast
qed

theorem transaction_row_roundtrip_witness:
  "transactionFromResultSet samplePackages sampleBigint 7 (tx_bindings samplePackages sampleBigint row_tx) =
     (Returns (Some row_tx) :: (unit, Transaction option) outcome)"
  using transaction_row_roundtrip [OF samplePackages_ok sampleBigint_ok row_tx_reachable row_tx_storable(1)] row_tx_storable(2)
  by blast

theorem separator_in_token_name_witness:
  "transactionFromResultSet samplePackages sampleBigint 7 (tx_bindings samplePackages sampleBigint
     (row_tx\<lparr>amount := Some \<lparr>ta_amount = 9, ta_token = row_token\<lparr>token_name := ''Gnosis~~~x''\<rparr>\<rparr>\<rparr>)) =
     (Traps :: (unit, Transaction option) outcome)"
proof -
  let ?tx = "row_tx\<lparr>amount := Some \<lparr>ta_amount = 9, ta_token = row_token\<lparr>token_name := token_name row_token @ ''~~~'' @ ''x''\<rparr>\<rparr>\<rparr>"
  have "clean_text ''x''" by (simp add: clean_text_def)
  moreover have "tx_storable (?tx\<lparr>amount := None\<rparr>)" "distinct (signatures ?tx)" "status ?tx \<noteq> TS_draft"
    using row_tx_storable(1)
    by (simp_all add: tx_storable_def) (simp_all add: row_tx_def row_draft_def edit_defs timestamp_defs Transaction_init_def change_status_def)
  ultimately have "transactionFromResultSet samplePackages sampleBigint 7 (tx_bindings samplePackages sampleBigint ?tx) =
      (Traps :: (unit, Transaction option) outcome)"
    by (rule separator_in_token_name [OF samplePackages_ok sampleBigint_ok row_token_storable(1)]) simp
  then show ?thesis by (simp add: row_token_def)
qed

end
