(* ===== verification/TxHash.thy ===== *)
theory TxHash
  imports RowFormats ContractMetadata
begin

section \<open>The digest that owners sign\<close>

text \<open>
  Model of the signing half of \<^verbatim>\<open>MultisigWalletImplementations/Services/EncryptionService.swift\<close>: the structured
  digest (ERC-191, EIP-712) of a Safe transaction, and the signature made with a device key. The hexadecimal
  conversions of the BigInt package are the fields of \<open>hexint\<close>, the elliptic curve signature is an argument.
  The main result is that the digest binds every parameter the contract executes: two transactions with the same digest
  agree in all of them or exhibit a collision of the hash.
\<close>

subsection \<open>Conversions\<close>

record hexint =
  BigInt_radix16 :: "string \<Rightarrow> int option"
  BigInt_toRadix16 :: "int \<Rightarrow> string"

definition hexint_ok :: "hexint \<Rightarrow> bool" where
  "hexint_ok H \<longleftrightarrow>
     (\<forall>s. s \<noteq> [] \<and> is_hex s \<longrightarrow> BigInt_radix16 H s = Some (int (digits_value s))) \<and>
     (\<forall>n. 0 \<le> n \<longrightarrow> BigInt_toRadix16 H n = nat_hex (nat n))"

definition BigInt_hex :: "hexint \<Rightarrow> string \<Rightarrow> int option" where
  "BigInt_hex H s = BigInt_radix16 H (stripHexPrefix s)"

definition BigInt_hexString :: "hexint \<Rightarrow> int \<Rightarrow> string" where
  "BigInt_hexString H n = ''0x'' @ BigInt_toRadix16 H n"

definition TokenInt_data :: "packages \<Rightarrow> hexint \<Rightarrow> int \<Rightarrow> data" where
  "TokenInt_data E H n = leftPadded (ethHex E (BigInt_hexString H n)) 32"

definition Address_data :: "packages \<Rightarrow> hexint \<Rightarrow> Address \<Rightarrow> ('e, data) outcome" where
  "Address_data E H a =
     (case BigInt_hex H (address_value a) of None \<Rightarrow> Traps | Some n \<Rightarrow> Returns (TokenInt_data E H n))"

definition WalletOperation_data :: "packages \<Rightarrow> hexint \<Rightarrow> WalletOperation \<Rightarrow> data" where
  "WalletOperation_data E H op = TokenInt_data E H (WalletOperation_rawValue op)"

definition Bool_data :: "packages \<Rightarrow> hexint \<Rightarrow> bool \<Rightarrow> data" where
  "Bool_data E H b = TokenInt_data E H (if b then 1 else 0)"

subsection \<open>Type hashes\<close>

text \<open>\<^verbatim>\<open>AccountID.walletID\<close>: the second non-empty part.\<close>

definition AccountID_walletID :: "string \<Rightarrow> ('e, WalletID) outcome" where
  "AccountID_walletID i =
     (case filter (\<lambda>c. c \<noteq> []) (components '':'' i) of _ # w # _ \<Rightarrow> Returns w | _ \<Rightarrow> Traps)"

definition DefaultEIP712SafeAppDomainSeparatorTypeHash :: "packages \<Rightarrow> data" where
  "DefaultEIP712SafeAppDomainSeparatorTypeHash E =
     ethHex E ''0x035aff83d86937d35b32e04f0ddc6ff469290eef2f1b692d8a815c89404d4749''"

definition DefaultEIP712SafeAppTxTypeHash :: "packages \<Rightarrow> data" where
  "DefaultEIP712SafeAppTxTypeHash E =
     ethHex E ''0x14d461bc7412367e924637b363c7bf29b8f47e2f84869f4426e5633d8af47b20''"

definition hash_of_masterCopy :: "(Address \<Rightarrow> data option) \<Rightarrow> data \<Rightarrow> Wallet option \<Rightarrow> data" where
  "hash_of_masterCopy known dflt w =
     (case w of None \<Rightarrow> dflt
      | Some wallet \<Rightarrow> (case wallet_masterCopyAddress wallet of None \<Rightarrow> dflt
          | Some a \<Rightarrow> (case known a of None \<Rightarrow> dflt | Some h \<Rightarrow> h)))"

definition tx_txTypeHash :: "packages \<Rightarrow> SafeContractMetadata \<Rightarrow> world \<Rightarrow> Transaction \<Rightarrow> ('e, data) outcome" where
  "tx_txTypeHash E M s tx =
     bindO (AccountID_walletID (tx_accountID tx)) (\<lambda>i.
     Returns (hash_of_masterCopy (EIP712SafeAppTxTypeHash M) (DefaultEIP712SafeAppTxTypeHash E) (find_id i s)))"

definition tx_domainSeparatorTypeHash ::
    "packages \<Rightarrow> SafeContractMetadata \<Rightarrow> world \<Rightarrow> Transaction \<Rightarrow> ('e, data) outcome" where
  "tx_domainSeparatorTypeHash E M s tx =
     bindO (AccountID_walletID (tx_accountID tx)) (\<lambda>i.
     Returns (hash_of_masterCopy (EIP712SafeAppDomainSeparatorTypeHash M) (DefaultEIP712SafeAppDomainSeparatorTypeHash E)
       (find_id i s)))"

subsection \<open>The digest\<close>

text \<open>Everything the digest is computed with besides the transaction.\<close>

record digest_env =
  de_packages :: packages
  de_bigint :: bigint
  de_hexint :: hexint
  de_metadata :: SafeContractMetadata
  de_world :: world

definition signed_data :: "Transaction \<Rightarrow> data" where
  "signed_data tx = (case tx_data tx of None \<Rightarrow> [] | Some d \<Rightarrow> d)"

definition valueData :: "digest_env \<Rightarrow> Transaction \<Rightarrow> ('e, data) outcome" where
  "valueData D tx =
     (let E = de_packages D; int_data = TokenInt_data E (de_hexint D)
      in bindO (tx_txTypeHash E (de_metadata D) (de_world D) tx) (\<lambda>typeHash.
         bindO (Address_data E (de_hexint D) (ethTo tx)) (\<lambda>to.
         bindO (unwrap (operation tx)) (\<lambda>op.
         bindO (unwrap (feeEstimate tx)) (\<lambda>f.
         bindO (Address_data E (de_hexint D) (token_address (ta_token (gasPrice f)))) (\<lambda>gasToken.
         bindO (unwrap (tx_nonce tx)) (\<lambda>nonceString.
         bindO (unwrap (BigInt_String (de_bigint D) nonceString)) (\<lambda>nonce.
         Returns (concat [typeHash, to, int_data (ethValue tx), sha3 E (signed_data tx),
           WalletOperation_data E (de_hexint D) op, int_data (gas f), int_data (dataGas f),
           int_data (ta_amount (gasPrice f)), gasToken, Bool_data E (de_hexint D) False, int_data nonce])))))))))"

definition domainData :: "digest_env \<Rightarrow> Transaction \<Rightarrow> ('e, data) outcome" where
  "domainData D tx =
     bindO (tx_domainSeparatorTypeHash (de_packages D) (de_metadata D) (de_world D) tx) (\<lambda>typeHash.
     bindO (unwrap (sender tx)) (\<lambda>a.
     bindO (Address_data (de_packages D) (de_hexint D) a) (\<lambda>adr.
     Returns (concat [typeHash, adr]))))"

definition hashData :: "digest_env \<Rightarrow> Transaction \<Rightarrow> ('e, data) outcome" where
  "hashData D tx =
     bindO (domainData D tx) (\<lambda>d.
     bindO (valueData D tx) (\<lambda>v.
     Returns (concat [[0x19], [0x01], sha3 (de_packages D) d, sha3 (de_packages D) v])))"

definition hash_of :: "digest_env \<Rightarrow> Transaction \<Rightarrow> ('e, data) outcome" where
  "hash_of D tx = bindO (hashData D tx) (\<lambda>d. Returns (sha3 (de_packages D) d))"

text \<open>\<^verbatim>\<open>rawSignature(of:with:)\<close>: a failing signature stops the process.\<close>

definition rawSignature :: "(data \<Rightarrow> data \<Rightarrow> data option) \<Rightarrow> data \<Rightarrow> data \<Rightarrow> ('e, data) outcome" where
  "rawSignature Crypto_sign d privateKey = unwrap (Crypto_sign d (leftPadded privateKey 32))"

definition sign_transaction ::
    "(data \<Rightarrow> data \<Rightarrow> data option) \<Rightarrow> digest_env \<Rightarrow> Transaction \<Rightarrow> data \<Rightarrow> ('e, data) outcome" where
  "sign_transaction Crypto_sign D tx privateKey =
     bindO (hash_of D tx) (\<lambda>h. rawSignature Crypto_sign h privateKey)"

subsection \<open>The structure of EIP-712\<close>

text \<open>
  What the contract computes the digest from: the Safe, the executed call and the refund parameters, with accounts
  and numbers in place of their spellings.
\<close>

record SafeTx =
  st_separatorType :: data
  st_safe :: nat
  st_type :: data
  st_to :: nat
  st_value :: int
  st_data :: data
  st_operation :: WalletOperation
  st_safeTxGas :: int
  st_baseGas :: int
  st_gasPrice :: int
  st_gasToken :: nat
  st_nonce :: int

definition word32 :: "packages \<Rightarrow> int \<Rightarrow> data" where
  "word32 E n = be_bytes E 32 (nat n)"

definition safeTx_domain :: "packages \<Rightarrow> SafeTx \<Rightarrow> data" where
  "safeTx_domain E t = concat [st_separatorType t, word32 E (st_safe t)]"

definition safeTx_struct :: "packages \<Rightarrow> SafeTx \<Rightarrow> data" where
  "safeTx_struct E t =
     concat [st_type t, word32 E (st_to t), word32 E (st_value t), sha3 E (st_data t),
       word32 E (WalletOperation_rawValue (st_operation t)), word32 E (st_safeTxGas t), word32 E (st_baseGas t),
       word32 E (st_gasPrice t), word32 E (st_gasToken t), word32 E 0, word32 E (st_nonce t)]"

definition safeTx_message :: "packages \<Rightarrow> SafeTx \<Rightarrow> data" where
  "safeTx_message E t = concat [[0x19], [0x01], sha3 E (safeTx_domain E t), sha3 E (safeTx_struct E t)]"

definition safeTx_digest :: "packages \<Rightarrow> SafeTx \<Rightarrow> data" where
  "safeTx_digest E t = sha3 E (safeTx_message E t)"

text \<open>The structure that a transaction of the app stands for, when its required parts are there.\<close>

definition safe_tx :: "digest_env \<Rightarrow> Transaction \<Rightarrow> SafeTx option" where
  "safe_tx D tx =
     (let E = de_packages D
      in case (tx_txTypeHash E (de_metadata D) (de_world D) tx :: (unit, data) outcome) of Returns ty \<Rightarrow>
         (case (tx_domainSeparatorTypeHash E (de_metadata D) (de_world D) tx :: (unit, data) outcome) of Returns sep \<Rightarrow>
         Option.bind (sender tx) (\<lambda>a. Option.bind (operation tx) (\<lambda>op. Option.bind (feeEstimate tx) (\<lambda>f.
         Option.bind (Option.bind (tx_nonce tx) (BigInt_String (de_bigint D))) (\<lambda>n.
         Some \<lparr>st_separatorType = sep, st_safe = account E a, st_type = ty, st_to = account E (ethTo tx),
           st_value = ethValue tx, st_data = signed_data tx, st_operation = op, st_safeTxGas = gas f,
           st_baseGas = dataGas f, st_gasPrice = ta_amount (gasPrice f),
           st_gasToken = account E (token_address (ta_token (gasPrice f))), st_nonce = n\<rparr>))))
         | _ \<Rightarrow> None)
         | _ \<Rightarrow> None)"

text \<open>Numbers of 256 bits, and transactions whose addresses and numbers are of the form the contract knows.\<close>

definition u256 :: "int \<Rightarrow> bool" where
  "u256 n \<longleftrightarrow> 0 \<le> n \<and> n < 2 ^ 256"

definition digest_ok :: "digest_env \<Rightarrow> Transaction \<Rightarrow> bool" where
  "digest_ok D tx \<longleftrightarrow>
     account_ok (tx_accountID tx) \<and> pred_option hex_address (sender tx) \<and> hex_address (ethTo tx) \<and> u256 (ethValue tx) \<and>
     pred_option (\<lambda>f. hex_address (token_address (ta_token (gasPrice f))) \<and> u256 (gas f) \<and> u256 (dataGas f) \<and>
       u256 (ta_amount (gasPrice f))) (feeEstimate tx) \<and>
     pred_option (\<lambda>n. pred_option u256 (BigInt_String (de_bigint D) n)) (tx_nonce tx)"

definition digest_env_ok :: "digest_env \<Rightarrow> bool" where
  "digest_env_ok D \<longleftrightarrow>
     packages_ok (de_packages D) \<and> hexint_ok (de_hexint D) \<and>
     list_all (\<lambda>m. length (txTypeHash m) = 32 \<and> length (domainSeparatorHash m) = 32) (masterCopy (de_metadata D))"

definition collision :: "packages \<Rightarrow> data set \<Rightarrow> bool" where
  "collision E A \<longleftrightarrow> (\<exists>x\<in>A. \<exists>y\<in>A. x \<noteq> y \<and> sha3 E x = sha3 E y)"

definition preimages :: "packages \<Rightarrow> SafeTx \<Rightarrow> data set" where
  "preimages E t = {safeTx_message E t, safeTx_domain E t, safeTx_struct E t, st_data t}"

subsection \<open>The code computes the digest of the structure\<close>

lemma TokenInt_data_word32:
  assumes "packages_ok E" "hexint_ok H" "u256 n"
  shows "TokenInt_data E H n = word32 E n"
proof -
  have n: "nat n < 256 ^ Suc 31" using assms(3) by (simp add: u256_def nat_less_iff)
  have "TokenInt_data E H n = leftPadded (ethHex E (nat_hex (nat n))) 32"
    using assms by (simp add: TokenInt_data_def BigInt_hexString_def hexint_ok_def u256_def)
  also have "\<dots> = word32 E n" unfolding word32_def
    using assms(1) n length_ethHex_nat_hex [OF assms(1) n] by (intro be_value_inj) simp_all
  finally show ?thesis .
qed

lemma hex_addressE:
  assumes "hex_address a"
  obtains s where "address_value a = CHR ''0'' # CHR ''x'' # s" "is_hex s" "length s = 40"
proof (rule that [of "drop 2 (address_value a)"])
  show "address_value a = CHR ''0'' # CHR ''x'' # drop 2 (address_value a)"
    using assms unfolding hex_address_def by (metis append_Cons append_Nil append_take_drop_id)
qed (use assms in \<open>simp_all add: hex_address_def\<close>)

lemma hex_address_account:
  assumes "packages_ok E" "hex_address a"
  shows "account E a = digits_value (drop 2 (address_value a))" "account E a < 256 ^ 20"
    "length (address_bytes E a) = 20"
proof -
  obtain s where s: "address_value a = CHR ''0'' # CHR ''x'' # s" "is_hex s" "length s = 40"
    using assms(2) by (rule hex_addressE)
  then have "address_bytes E a = ethHex E s" by (simp add: address_bytes_def)
  with s ethHex_is_hex [OF assms(1) s(2)] show l: "length (address_bytes E a) = 20"
    and "account E a = digits_value (drop 2 (address_value a))" by (simp_all add: account_def)
  show "account E a < 256 ^ 20" using be_value_less [of "address_bytes E a"] l by (simp add: account_def)
qed

lemma u256_account: "packages_ok E \<Longrightarrow> hex_address a \<Longrightarrow> u256 (int (account E a))"
  using hex_address_account(2) [of E a] by (simp add: u256_def)

lemma Address_data_word32:
  assumes "packages_ok E" "hexint_ok H" "hex_address a"
  shows "Address_data E H a = Returns (word32 E (int (account E a)))"
proof -
  obtain s where s: "address_value a = CHR ''0'' # CHR ''x'' # s" "is_hex s" "length s = 40"
    using assms(3) by (rule hex_addressE)
  then have "stripHexPrefix (address_value a) = drop 2 (address_value a)" "drop 2 (address_value a) \<noteq> []"
    by (auto simp: stripHexPrefix_def hasPrefix_def)
  then have "BigInt_hex H (address_value a) = Some (int (account E a))"
    using assms by (simp add: BigInt_hex_def hexint_ok_def hex_address_def hex_address_account(1))
  then show ?thesis
    using TokenInt_data_word32 [OF assms(1,2)] u256_account [OF assms(1,3)] by (simp add: Address_data_def)
qed

lemma u256_small: "u256 (WalletOperation_rawValue op)" "u256 0"
  by (cases op) (simp_all add: u256_def)

lemma AccountID_walletID_ok:
  assumes "account_ok i"
  obtains w where "AccountID_walletID i = (Returns w :: ('e, _) outcome)" "AccountID_walletID i = (Returns w :: ('d, _) outcome)"
proof -
  obtain a b where "filter (\<lambda>c. c \<noteq> []) (components '':'' i) = [a, b]"
    using assms by (auto simp: account_ok_def numeral_2_eq_2 length_Suc_conv)
  then show thesis by (intro that [of b]) (simp_all add: AccountID_walletID_def)
qed

lemma hash_of_eip712:
  assumes "digest_env_ok D" "digest_ok D tx"
  shows "hash_of D tx = (case safe_tx D tx of None \<Rightarrow> Traps | Some t \<Rightarrow> Returns (safeTx_digest (de_packages D) t))"
proof -
  have E: "packages_ok (de_packages D)" and H: "hexint_ok (de_hexint D)" using assms(1) by (simp_all add: digest_env_ok_def)
  obtain w where w: "AccountID_walletID (tx_accountID tx) = (Returns w :: ('a, _) outcome)"
    "AccountID_walletID (tx_accountID tx) = (Returns w :: (unit, _) outcome)"
    using AccountID_walletID_ok [of "tx_accountID tx"] assms(2) by (auto simp: digest_ok_def)
  note conv = TokenInt_data_word32 [OF E H] Address_data_word32 [OF E H]
  show ?thesis
    using assms(2)
    by (cases "sender tx"; cases "operation tx"; cases "feeEstimate tx"; cases "tx_nonce tx";
        cases "BigInt_String (de_bigint D) (the (tx_nonce tx))")
      (simp_all add: hash_of_def hashData_def domainData_def valueData_def safe_tx_def w tx_txTypeHash_def
        tx_domainSeparatorTypeHash_def digest_ok_def  conv u256_small WalletOperation_data_def Bool_data_def
        safeTx_digest_def safeTx_message_def safeTx_domain_def safeTx_struct_def Let_def)
qed

subsection \<open>The digest binds the structure\<close>

lemma word32_inj:
  assumes "packages_ok E" "u256 m" "u256 n"
  shows "word32 E m = word32 E n \<longleftrightarrow> m = n"
proof
  assume "word32 E m = word32 E n"
  then have "be_value (be_bytes E 32 (nat m)) = be_value (be_bytes E 32 (nat n))" by (simp add: word32_def)
  with assms have "nat m = nat n" by (simp add: u256_def nat_less_iff)
  with assms(2,3) show "m = n" by (simp add: u256_def nat_eq_iff)
qed simp

lemma length_word32 [simp]: "length (word32 E n) = 32"
  by (simp add: word32_def)

definition safeTx_ok :: "SafeTx \<Rightarrow> bool" where
  "safeTx_ok t \<longleftrightarrow>
     length (st_separatorType t) = 32 \<and> length (st_type t) = 32 \<and> u256 (int (st_safe t)) \<and> u256 (int (st_to t)) \<and>
     u256 (st_value t) \<and> u256 (st_safeTxGas t) \<and> u256 (st_baseGas t) \<and> u256 (st_gasPrice t) \<and>
     u256 (int (st_gasToken t)) \<and> u256 (st_nonce t)"

lemma WalletOperation_rawValue_inj: "WalletOperation_rawValue a = WalletOperation_rawValue b \<longleftrightarrow> a = b"
  by (cases a; cases b) simp_all

lemma no_collision: "\<not> collision E A \<Longrightarrow> x \<in> A \<Longrightarrow> y \<in> A \<Longrightarrow> sha3 E x = sha3 E y \<longleftrightarrow> x = y"
  by (auto simp: collision_def)

lemma safeTx_digest_binds:
  assumes E: "packages_ok E" and t: "safeTx_ok t" and u: "safeTx_ok u"
    and eq: "safeTx_digest E t = safeTx_digest E u"
  shows "t = u \<or> collision E (preimages E t \<union> preimages E u)"
proof (rule disjCI)
  assume *: "\<not> collision E (preimages E t \<union> preimages E u)"
  note inj = no_collision [OF *]
  note len = packages_okD(5) [OF E]
  have "safeTx_message E t = safeTx_message E u"
    using eq inj [of "safeTx_message E t" "safeTx_message E u"] by (simp add: safeTx_digest_def preimages_def)
  then have "sha3 E (safeTx_domain E t) = sha3 E (safeTx_domain E u)" "sha3 E (safeTx_struct E t) = sha3 E (safeTx_struct E u)"
    by (simp_all add: safeTx_message_def len)
  then have "safeTx_domain E t = safeTx_domain E u" "safeTx_struct E t = safeTx_struct E u"
    using inj [of "safeTx_domain E t" "safeTx_domain E u"] inj [of "safeTx_struct E t" "safeTx_struct E u"]
    by (simp_all add: preimages_def)
  moreover have "sha3 E (st_data t) = sha3 E (st_data u) \<longleftrightarrow> st_data t = st_data u"
    by (rule inj) (simp_all add: preimages_def)
  ultimately show "t = u" using t u
    by (intro SafeTx.equality)
      (simp_all add: safeTx_domain_def safeTx_struct_def safeTx_ok_def len word32_inj [OF E] u256_small
        WalletOperation_rawValue_inj)
qed

lemma ethHex_constant:
  assumes "packages_ok E" "is_hex s" "length s = 64"
  shows "length (ethHex E (CHR ''0'' # CHR ''x'' # s)) = 32"
  using assms by (simp add: ethHex_is_hex(1))

lemma length_default_hashes:
  assumes "packages_ok E"
  shows "length (DefaultEIP712SafeAppDomainSeparatorTypeHash E) = 32" "length (DefaultEIP712SafeAppTxTypeHash E) = 32"
  unfolding DefaultEIP712SafeAppDomainSeparatorTypeHash_def DefaultEIP712SafeAppTxTypeHash_def
  by (rule ethHex_constant [OF assms]; simp add: is_hex_def hex_value_def)+

lemma length_hash_of_masterCopy:
  assumes "length dflt = 32" "\<And>a h. known a = Some h \<Longrightarrow> length h = 32"
  shows "length (hash_of_masterCopy known dflt w) = 32"
  using assms by (auto simp: hash_of_masterCopy_def split: option.split)

lemma length_type_hashes:
  assumes "digest_env_ok D"
  shows "tx_txTypeHash (de_packages D) (de_metadata D) s tx = Returns h \<Longrightarrow> length h = 32"
    "tx_domainSeparatorTypeHash (de_packages D) (de_metadata D) s tx = Returns h \<Longrightarrow> length h = 32"
proof -
  have E: "packages_ok (de_packages D)" using assms by (simp add: digest_env_ok_def)
  have known: "EIP712SafeAppTxTypeHash (de_metadata D) a = Some k \<Longrightarrow> length k = 32"
    "EIP712SafeAppDomainSeparatorTypeHash (de_metadata D) a = Some k \<Longrightarrow> length k = 32" for a k
    using assms
    by (auto simp: EIP712SafeAppTxTypeHash_def EIP712SafeAppDomainSeparatorTypeHash_def masterCopyMetadata_def
        digest_env_ok_def list_all_iff dest!: find_in_set)
  show "tx_txTypeHash (de_packages D) (de_metadata D) s tx = Returns h \<Longrightarrow> length h = 32"
    using length_hash_of_masterCopy [OF length_default_hashes(2) [OF E] known(1)] by (auto simp: tx_txTypeHash_def)
  show "tx_domainSeparatorTypeHash (de_packages D) (de_metadata D) s tx = Returns h \<Longrightarrow> length h = 32"
    using length_hash_of_masterCopy [OF length_default_hashes(1) [OF E] known(2)] by (auto simp: tx_domainSeparatorTypeHash_def)
qed

lemma safe_tx_ok:
  assumes "digest_env_ok D" "digest_ok D tx" "safe_tx D tx = Some t"
  shows "safeTx_ok t"
proof -
  have E: "packages_ok (de_packages D)" using assms(1) by (simp add: digest_env_ok_def)
  show ?thesis
    using assms(2,3) length_type_hashes [OF assms(1)] u256_account [OF E]
    by (auto simp: safe_tx_def digest_ok_def safeTx_ok_def Let_def bind_eq_Some_conv split: outcome.splits)
qed

lemma digest_returns:
  assumes "digest_env_ok D" "digest_ok D tx" "hash_of D tx = Returns h"
  obtains t where "safe_tx D tx = Some t" "h = safeTx_digest (de_packages D) t"
  using assms(3) unfolding hash_of_eip712 [OF assms(1,2)] by (cases "safe_tx D tx") auto

text \<open>
  (C7) Two transactions with the same digest denote the same Safe, call, value, data, operation, gas parameters, gas token
  and nonce, unless the hash has a collision among the handful of strings that were hashed. A signature of an owner therefore
  cannot be moved to another transaction or another Safe.
\<close>

theorem digest_binds_transaction:
  assumes "digest_env_ok D" "digest_ok D tx" "digest_ok D tx'"
    and "hash_of D tx = Returns h" "hash_of D tx' = Returns h"
  shows "\<exists>t t'. safe_tx D tx = Some t \<and> safe_tx D tx' = Some t' \<and>
    (t = t' \<or> collision (de_packages D) (preimages (de_packages D) t \<union> preimages (de_packages D) t'))"
proof -
  have E: "packages_ok (de_packages D)" using assms(1) by (simp add: digest_env_ok_def)
  obtain t where t: "safe_tx D tx = Some t" "h = safeTx_digest (de_packages D) t"
    using assms(1,2,4) by (rule digest_returns)
  obtain t' where t': "safe_tx D tx' = Some t'" "h = safeTx_digest (de_packages D) t'"
    using assms(1,3,5) by (rule digest_returns)
  have "t = t' \<or> collision (de_packages D) (preimages (de_packages D) t \<union> preimages (de_packages D) t')"
    using safeTx_digest_binds [OF E safe_tx_ok [OF assms(1,2) t(1)] safe_tx_ok [OF assms(1,3) t'(1)]] t t' by simp
  with t t' show ?thesis by blast
qed

definition digest_parts :: "digest_env \<Rightarrow> Transaction \<Rightarrow> bool" where
  "digest_parts D tx \<longleftrightarrow>
     sender tx \<noteq> None \<and> operation tx \<noteq> None \<and> feeEstimate tx \<noteq> None \<and>
     Option.bind (tx_nonce tx) (BigInt_String (de_bigint D)) \<noteq> None"

lemma safe_tx_defined:
  assumes "digest_ok D tx"
  shows "safe_tx D tx \<noteq> None \<longleftrightarrow> digest_parts D tx"
proof -
  obtain w where w: "AccountID_walletID (tx_accountID tx) = (Returns w :: (unit, _) outcome)"
    using AccountID_walletID_ok [of "tx_accountID tx"] assms by (auto simp: digest_ok_def)
  show ?thesis
    by (cases "sender tx"; cases "operation tx"; cases "feeEstimate tx"; cases "tx_nonce tx";
        cases "BigInt_String (de_bigint D) (the (tx_nonce tx))")
      (simp_all add: safe_tx_def digest_parts_def tx_txTypeHash_def tx_domainSeparatorTypeHash_def w Let_def)
qed

text \<open>
  (C6) The code computes the digest that the contract standard prescribes for the structure of the transaction, and a
  device key signs exactly that digest, padded to 32 bytes. It does so as soon as sender, operation, fee estimate and a decimal nonce
  are there; with one of them missing, signing stops the process.
\<close>

theorem digest_is_eip712:
  assumes "digest_env_ok D" "digest_ok D tx"
  shows "(hash_of D tx :: ('e, data) outcome) =
      (case safe_tx D tx of None \<Rightarrow> Traps | Some t \<Rightarrow> Returns (safeTx_digest (de_packages D) t)) \<and>
    ((hash_of D tx :: ('e, data) outcome) = Traps \<longleftrightarrow> \<not> digest_parts D tx) \<and>
    (sign_transaction C D tx key = (Returns sig :: ('e, data) outcome) \<longleftrightarrow>
      (\<exists>t. safe_tx D tx = Some t \<and> C (safeTx_digest (de_packages D) t) (leftPadded key 32) = Some sig))"
proof -
  have h: "(hash_of D tx :: ('e, data) outcome) =
      (case safe_tx D tx of None \<Rightarrow> Traps | Some t \<Rightarrow> Returns (safeTx_digest (de_packages D) t))"
    by (rule hash_of_eip712 [OF assms])
  have "(hash_of D tx :: ('e, data) outcome) = Traps \<longleftrightarrow> \<not> digest_parts D tx"
    unfolding h using safe_tx_defined [OF assms(2)] by (cases "safe_tx D tx") simp_all
  moreover have "sign_transaction C D tx key = (Returns sig :: ('e, data) outcome) \<longleftrightarrow>
      (\<exists>t. safe_tx D tx = Some t \<and> C (safeTx_digest (de_packages D) t) (leftPadded key 32) = Some sig)"
    unfolding sign_transaction_def h rawSignature_def unwrap_eq_Returns
    by (cases "safe_tx D tx") auto
  ultimately show ?thesis using h by (intro conjI)
qed

subsection \<open>Samples\<close>

definition sampleHexint :: hexint where
  "sampleHexint =
     \<lparr>BigInt_radix16 = (\<lambda>s. if s \<noteq> [] \<and> is_hex s then Some (int (digits_value s)) else None),
      BigInt_toRadix16 = (\<lambda>n. nat_hex (nat n))\<rparr>"

definition sampleDigestEnv :: digest_env where
  "sampleDigestEnv =
     \<lparr>de_packages = samplePackages, de_bigint = sampleBigint, de_hexint = sampleHexint,
      de_metadata = sampleMetadata\<lparr>masterCopy := []\<rparr>,
      de_world = \<lparr>walletRows = [], accountRows = [], deviceKeys = [], events = []\<rparr>\<rparr>"

definition digest_tx :: Transaction where
  "digest_tx =
     row_tx\<lparr>operation := Some OP_call, tx_nonce := Some ''7'',
       feeEstimate := Some \<lparr>gas = 1, dataGas = 2, operationalGas = 3, gasPrice = ether 4\<rparr>\<rparr>"

lemma sampleDigestEnv_ok: "digest_env_ok sampleDigestEnv"
  by (simp add: digest_env_ok_def sampleDigestEnv_def samplePackages_ok hexint_ok_def sampleHexint_def)

lemmas digest_tx_defs = digest_tx_def row_tx_def row_draft_def edit_defs timestamp_defs Transaction_init_def change_status_def

lemma digest_tx_ok: "digest_ok sampleDigestEnv digest_tx" "digest_parts sampleDigestEnv digest_tx"
  using hex_row_address hex_zero_address row_account_ok
  by (simp_all add: digest_ok_def digest_parts_def digest_tx_defs u256_def ether_def Token_Ether_def ethTo_def ethValue_def
      isERC20Transfer_def row_token_def token_id_def row_address_def Address_zero_def numeral_eq_Suc sampleDigestEnv_def sampleBigint_def read_int_def
      read_nat_def read_digit_def)

theorem digest_is_eip712_witness:
  "\<exists>h. hash_of sampleDigestEnv digest_tx = (Returns h :: (unit, data) outcome) \<and>
     sign_transaction (\<lambda>d k. Some (d @ k)) sampleDigestEnv digest_tx [7] =
       (Returns (h @ replicate 31 0 @ [7]) :: (unit, data) outcome)"
proof -
  obtain t where t: "safe_tx sampleDigestEnv digest_tx = Some t" using digest_tx_ok(2) safe_tx_defined [OF digest_tx_ok(1)] by auto
  let ?h = "safeTx_digest (de_packages sampleDigestEnv) t"
  have "hash_of sampleDigestEnv digest_tx = (Returns ?h :: (unit, data) outcome)"
    using digest_is_eip712 [OF sampleDigestEnv_ok digest_tx_ok(1), where ?'e = unit] t by simp
  moreover have "sign_transaction (\<lambda>d k. Some (d @ k)) sampleDigestEnv digest_tx [7] =
      (Returns (?h @ replicate 31 0 @ [7]) :: (unit, data) outcome)"
    using digest_is_eip712 [OF sampleDigestEnv_ok digest_tx_ok(1), where ?'e = unit and C = "\<lambda>d k. Some (d @ k)"
        and key = "[7]" and sig = "?h @ replicate 31 0 @ [7]"] t
    by (simp add: leftPadded_def)
  ultimately show ?thesis by blast
qed

theorem digest_binds_transaction_witness:
  "\<exists>t t'. safe_tx sampleDigestEnv digest_tx = Some t \<and>
     safe_tx sampleDigestEnv (digest_tx\<lparr>fee := None, tx_id := ''u''\<rparr>) = Some t' \<and>
     (t = t' \<or> collision samplePackages (preimages samplePackages t \<union> preimages samplePackages t'))"
proof -
  let ?u = "digest_tx\<lparr>fee := None, tx_id := ''u''\<rparr>"
  have "ethTo ?u = ethTo digest_tx" "ethValue ?u = ethValue digest_tx"
    by (simp_all add: ethTo_def ethValue_def isERC20Transfer_def)
  then have u: "digest_ok sampleDigestEnv ?u" "safe_tx sampleDigestEnv ?u = safe_tx sampleDigestEnv digest_tx"
    using digest_tx_ok(1)
    by (simp_all add: digest_ok_def safe_tx_def signed_data_def tx_txTypeHash_def tx_domainSeparatorTypeHash_def
        cong: outcome.case_cong)
  obtain t where "safe_tx sampleDigestEnv digest_tx = Some t"
    using digest_tx_ok(2) safe_tx_defined [OF digest_tx_ok(1)] by auto
  with u hash_of_eip712 [OF sampleDigestEnv_ok digest_tx_ok(1)] hash_of_eip712 [OF sampleDigestEnv_ok u(1)]
  have "hash_of sampleDigestEnv digest_tx = (Returns (safeTx_digest (de_packages sampleDigestEnv) t) :: (unit, _) outcome)"
    "hash_of sampleDigestEnv ?u = (Returns (safeTx_digest (de_packages sampleDigestEnv) t) :: (unit, _) outcome)"
    by simp_all
  from digest_binds_transaction [OF sampleDigestEnv_ok digest_tx_ok(1) u(1) this] show ?thesis
    by (simp add: sampleDigestEnv_def)
qed

end
