(* ===== verification/TokenList.thy ===== *)
theory TokenList
  imports Transaction Tables "HOL-Library.Option_ord"
begin

section \<open>The token list\<close>

text \<open>
  Model of \<^verbatim>\<open>Ethereum/Token/TokenList.swift\<close>, \<^verbatim>\<open>TokenListItemRepository.swift\<close>, \<^verbatim>\<open>TokenListMerger.swift\<close>, of
  \<^verbatim>\<open>DBTokenListItemRepository\<close> and of \<^verbatim>\<open>updateTokens\<close> in \<^verbatim>\<open>HTTPGnosisTransactionService.swift\<close>. The user chooses which tokens
  are shown (whitelisted) or hidden (blacklisted) and in which order; the server's list is merged into that.
  The order is kept in the column \<^verbatim>\<open>sorting_id\<close>; SQLite sorts \<^verbatim>\<open>NULL\<close> before every number, which is the order of
  \<open>option\<close> with \<open>None\<close> first. The calls of \<^verbatim>\<open>Date()\<close> in one operation read the argument \<open>now\<close>. Log output is left out.

  The abstract state is \<open>display\<close>, the list of the identifiers shown to the user. The operations refine
  operations on that list.
\<close>

datatype TokenListItemStatus = TL_regular | TL_whitelisted | TL_blacklisted

record TokenListItem =
  item_token :: Token
  item_status :: TokenListItemStatus
  canPayTransactionFee :: bool
  sortingId :: "int option"
  updated :: time

definition TokenListItem_init :: "Token \<Rightarrow> TokenListItemStatus \<Rightarrow> bool \<Rightarrow> time \<Rightarrow> TokenListItem" where
  "TokenListItem_init t st pay now =
     \<lparr>item_token = t, item_status = st, canPayTransactionFee = pay, sortingId = None, updated = now\<rparr>"

definition item_id :: "TokenListItem \<Rightarrow> string" where
  "item_id i = token_id (item_token i)"

definition updateSortingId :: "int option \<Rightarrow> TokenListItem \<Rightarrow> TokenListItem" where
  "updateSortingId n i = i\<lparr>sortingId := n\<rparr>"

text \<open>An entry of the server's list, after its JSON fields were read.\<close>

definition TokenListItem_decoded ::
    "packages \<Rightarrow> string \<Rightarrow> string \<Rightarrow> int \<Rightarrow> string \<Rightarrow> string \<Rightarrow> bool \<Rightarrow> bool \<Rightarrow> time \<Rightarrow> ('e, TokenListItem) outcome" where
  "TokenListItem_decoded E symbol name d addr logoUri dflt pay now =
     bindO (Address_init E addr) (\<lambda>a.
       Returns (TokenListItem_init
         \<lparr>code = symbol, token_name = name, decimals = d, token_address = a, logoUrl = logoUri\<rparr>
         (if dflt then TL_whitelisted else TL_regular) pay now))"

subsection \<open>The repository\<close>

datatype TokenEvent = TokenListMerged | TokensDisplayListChanged

text \<open>\<open>balanceUpdates\<close> are the tokens whose account update was handed to a background queue.\<close>

record tokens =
  itemRows :: "TokenListItem list"
  token_events :: "TokenEvent list"
  balanceUpdates :: "Token list"

definition put_item :: "TokenListItem \<Rightarrow> tokens \<Rightarrow> tokens" where
  "put_item i s = s\<lparr>itemRows := insert_or_replace item_id i (itemRows s)\<rparr>"

definition delete_item :: "TokenListItem \<Rightarrow> tokens \<Rightarrow> tokens" where
  "delete_item i s = s\<lparr>itemRows := delete_row item_id (item_id i) (itemRows s)\<rparr>"

definition find_item :: "time \<Rightarrow> string \<Rightarrow> tokens \<Rightarrow> TokenListItem option" where
  "find_item now k s =
     (if k = token_id Token_Ether then Some (TokenListItem_init Token_Ether TL_whitelisted True now)
      else find_row item_id k (itemRows s))"

definition whitelisted :: "tokens \<Rightarrow> TokenListItem list" where
  "whitelisted s = sort_key sortingId (filter (\<lambda>i. item_status i = TL_whitelisted) (itemRows s))"

definition paymentTokens :: "tokens \<Rightarrow> TokenListItem list" where
  "paymentTokens s = sort_key (\<lambda>i. code (item_token i)) (filter canPayTransactionFee (itemRows s))"

definition lastWhitelistedId :: "tokens \<Rightarrow> int" where
  "lastWhitelistedId s =
     (if whitelisted s = [] then - 1
      else case sortingId (last (whitelisted s)) of None \<Rightarrow> - 1 | Some n \<Rightarrow> n)"

definition prepareToSave :: "time \<Rightarrow> TokenListItem \<Rightarrow> tokens \<Rightarrow> ('e, TokenListItem) outcome" where
  "prepareToSave now i s =
     (if (case find_item now (item_id i) s of Some existing \<Rightarrow> item_status existing = TL_whitelisted | None \<Rightarrow> False)
      then Returns (if item_status i \<noteq> TL_whitelisted then updateSortingId None i else i)
      else if item_status i = TL_whitelisted
      then bindO (toInt (lastWhitelistedId s + 1)) (\<lambda>n. Returns (updateSortingId (Some n) i))
      else Returns i)"

definition save_item :: "time \<Rightarrow> TokenListItem \<Rightarrow> tokens \<Rightarrow> ('e, tokens) outcome" where
  "save_item now i s = bindO (prepareToSave now i s) (\<lambda>i'. Returns (put_item i' s))"

definition publish_tokens :: "TokenEvent \<Rightarrow> tokens \<Rightarrow> tokens" where
  "publish_tokens e s = s\<lparr>token_events := token_events s @ [e]\<rparr>"

definition whitelist :: "time \<Rightarrow> Token \<Rightarrow> tokens \<Rightarrow> ('e, tokens) outcome" where
  "whitelist now t s =
     bindO (unwrap (find_item now (token_id t) s)) (\<lambda>existing.
     bindO (save_item now (TokenListItem_init t TL_whitelisted (canPayTransactionFee existing) now) s) (\<lambda>s1.
     let s2 = publish_tokens TokensDisplayListChanged s1
     in Returns (s2\<lparr>balanceUpdates := balanceUpdates s2 @ [t]\<rparr>)))"

definition blacklist :: "time \<Rightarrow> Token \<Rightarrow> tokens \<Rightarrow> ('e, tokens) outcome" where
  "blacklist now t s =
     bindO (unwrap (find_item now (token_id t) s)) (\<lambda>existing.
     bindO (save_item now (TokenListItem_init t TL_blacklisted (canPayTransactionFee existing) now) s) (\<lambda>s1.
     Returns (publish_tokens TokensDisplayListChanged s1)))"

text \<open>
  The loop of \<^verbatim>\<open>rearrange\<close> mutates the item objects of the list it fetched before, so the list is part of the
  loop's state.
\<close>

fun rearrange_loop :: "time \<Rightarrow> int \<Rightarrow> Token list \<Rightarrow> TokenListItem list \<Rightarrow> tokens \<Rightarrow> ('e, tokens) outcome" where
  "rearrange_loop now index [] wl s = Returns s"
| "rearrange_loop now index (t # ts) wl s =
     (case find_row item_id (token_id t) wl of
        None \<Rightarrow> rearrange_loop now (index + 1) ts wl s
      | Some i \<Rightarrow>
          if sortingId i = Some index then rearrange_loop now (index + 1) ts wl s
          else bindO (prepareToSave now (updateSortingId (Some index) i) s) (\<lambda>i'.
            rearrange_loop now (index + 1) ts (map (\<lambda>j. if item_id j = item_id i then i' else j) wl) (put_item i' s)))"

definition rearrange :: "time \<Rightarrow> Token list \<Rightarrow> tokens \<Rightarrow> ('e, tokens) outcome" where
  "rearrange now ts s =
     bindO (rearrange_loop now 0 ts (whitelisted s) s) (\<lambda>s1. Returns (publish_tokens TokensDisplayListChanged s1))"

subsection \<open>TokenListMerger.swift\<close>

definition deleteStoredTokenItemsThatAreNotInList :: "TokenListItem list \<Rightarrow> tokens \<Rightarrow> tokens" where
  "deleteStoredTokenItemsThatAreNotInList tokenList s =
     fold delete_item
       (filter (\<lambda>i. item_status i \<noteq> TL_whitelisted \<and> item_id i \<notin> item_id ` set tokenList) (itemRows s)) s"

definition updateTokenItemWithTokenInfoOnly ::
    "time \<Rightarrow> TokenListItem \<Rightarrow> TokenListItem \<Rightarrow> tokens \<Rightarrow> ('e, tokens) outcome" where
  "updateTokenItemWithTokenInfoOnly now i latestItem s =
     save_item now \<lparr>item_token = item_token latestItem, item_status = item_status i,
       canPayTransactionFee = canPayTransactionFee latestItem, sortingId = sortingId i, updated = now\<rparr> s"

fun update_loop ::
    "time \<Rightarrow> TokenListItem list \<Rightarrow> TokenListItem list \<Rightarrow> TokenListItem list \<Rightarrow> tokens \<Rightarrow>
     ('e, TokenListItem list \<times> tokens) outcome" where
  "update_loop now kept [] remaining s = Returns (remaining, s)"
| "update_loop now kept (latestItem # items) remaining s =
     (case find_row item_id (item_id latestItem) kept of
        Some i \<Rightarrow> bindO (updateTokenItemWithTokenInfoOnly now i latestItem s) (update_loop now kept items remaining)
      | None \<Rightarrow> update_loop now kept items (remaining @ [latestItem]) s)"

definition updateWhitelistedAndBlacklistedTokenItems ::
    "time \<Rightarrow> TokenListItem list \<Rightarrow> tokens \<Rightarrow> ('e, TokenListItem list \<times> tokens) outcome" where
  "updateWhitelistedAndBlacklistedTokenItems now tokenList s =
     update_loop now (filter (\<lambda>i. item_status i = TL_whitelisted \<or> item_status i = TL_blacklisted) (itemRows s))
       tokenList [] s"

definition createOrUpdateTokenItems :: "time \<Rightarrow> TokenListItem list \<Rightarrow> tokens \<Rightarrow> ('e, tokens) outcome" where
  "createOrUpdateTokenItems now tokenList s = foldO (save_item now) tokenList s"

definition mergeStoredTokenItems :: "time \<Rightarrow> TokenListItem list \<Rightarrow> tokens \<Rightarrow> ('e, tokens) outcome" where
  "mergeStoredTokenItems now tokenList s =
     bindO (updateWhitelistedAndBlacklistedTokenItems now tokenList
              (deleteStoredTokenItemsThatAreNotInList tokenList s)) (\<lambda>(remaining, s2).
     bindO (createOrUpdateTokenItems now remaining s2) (\<lambda>s3.
     Returns (publish_tokens TokenListMerged s3)))"

subsection \<open>HTTPGnosisTransactionService.updateTokens\<close>

definition updateToken :: "time \<Rightarrow> Token \<Rightarrow> tokens \<Rightarrow> ('e, tokens) outcome" where
  "updateToken now t s =
     (let existing = find_item now (token_id t) s
      in if (case existing of Some e \<Rightarrow> item_status e = TL_blacklisted | None \<Rightarrow> False) \<or> token_id t = token_id Token_Ether
         then Returns s
         else bindO (if existing = None then save_item now (TokenListItem_init t TL_whitelisted False now) s else Returns s)
                (whitelist now t))"

definition updateTokens :: "time \<Rightarrow> Token list \<Rightarrow> tokens \<Rightarrow> ('e, tokens) outcome" where
  "updateTokens now ts s = foldO (updateToken now) ts s"

interpretation items: entity_table itemRows item_id put_item delete_item
  by unfold_locales (simp_all add: put_item_def delete_item_def)

subsection \<open>The displayed list\<close>

definition display :: "tokens \<Rightarrow> string list" where
  "display s = map item_id (whitelisted s)"

definition item :: "string \<Rightarrow> tokens \<Rightarrow> TokenListItem option" where
  "item k s = find_row item_id k (itemRows s)"

definition shown :: "string \<Rightarrow> tokens \<Rightarrow> bool" where
  "shown k s \<longleftrightarrow> (case item k s of Some i \<Rightarrow> item_status i = TL_whitelisted | None \<Rightarrow> False)"

definition position :: "string \<Rightarrow> tokens \<Rightarrow> int option" where
  "position k s = (case item k s of Some i \<Rightarrow> sortingId i | None \<Rightarrow> None)"

text \<open>
  The tokens are well ordered when an identifier has one row, Ether has none, and the whitelisted rows have
  different sorting numbers.
\<close>

definition tokens_ok :: "tokens \<Rightarrow> bool" where
  "tokens_ok s \<longleftrightarrow> keys_distinct item_id (itemRows s) \<and> item (token_id Token_Ether) s = None \<and>
     (\<forall>k. shown k s \<longrightarrow> position k s \<noteq> None) \<and> inj_on (\<lambda>k. position k s) {k. shown k s}"

definition displays :: "string list \<Rightarrow> tokens \<Rightarrow> bool" where
  "displays ks s \<longleftrightarrow> set ks = {k. shown k s} \<and> sorted_wrt (<) (map (\<lambda>k. position k s) ks)"

lemma item_lookup: "items.lookup k s = item k s"
  by (simp add: items.lookup_def item_def)

lemma item_in_rows:
  "keys_distinct item_id (itemRows s) \<Longrightarrow> item k s = Some i \<longleftrightarrow> i \<in> set (itemRows s) \<and> item_id i = k"
  unfolding item_def by (rule find_row_Some_iff)

lemma item_put [simp]: "item k (put_item i s) = (if k = item_id i then Some i else item k s)"
  using items.lookup_save by (simp add: item_lookup)

lemma item_publish [simp]: "item k (publish_tokens e s) = item k s"
  "item k (s\<lparr>balanceUpdates := b\<rparr>) = item k s"
  by (simp_all add: item_def publish_tokens_def)

lemma item_id_item: "item k s = Some i \<Longrightarrow> item_id i = k"
  unfolding item_def by (drule find_row_SomeD) simp

lemma item_id_update [simp]: "item_id (updateSortingId n i) = item_id i" "item_id (TokenListItem_init t st b now) = token_id t"
  by (simp_all add: item_id_def updateSortingId_def TokenListItem_init_def)

lemma shown_whitelisted:
  assumes "keys_distinct item_id (itemRows s)"
  shows "set (whitelisted s) = {i. item (item_id i) s = Some i \<and> item_status i = TL_whitelisted}"
  using assms by (auto simp: whitelisted_def item_in_rows)

lemma shown_iff: "shown k s \<longleftrightarrow> (\<exists>i. item k s = Some i \<and> item_status i = TL_whitelisted)"
  by (simp add: shown_def split: option.split)

lemma set_display:
  assumes "keys_distinct item_id (itemRows s)"
  shows "set (display s) = {k. shown k s}"
proof (intro set_eqI iffI)
  fix k
  assume "k \<in> set (display s)"
  then show "k \<in> {k. shown k s}"
    by (auto simp: display_def shown_whitelisted [OF assms] shown_iff)
next
  fix k
  assume "k \<in> {k. shown k s}"
  then obtain i where i: "item k s = Some i" "item_status i = TL_whitelisted" by (auto simp: shown_iff)
  with item_id_item [OF i(1)] show "k \<in> set (display s)"
    by (auto simp: display_def shown_whitelisted [OF assms] image_iff intro!: exI [of _ i])
qed

lemma display_displays:
  assumes "tokens_ok s"
  shows "displays (display s) s"
proof -
  from assms have ok: "keys_distinct item_id (itemRows s)" by (simp add: tokens_ok_def)
  have pos: "map (\<lambda>k. position k s) (display s) = map sortingId (whitelisted s)"
    using shown_whitelisted [OF ok] by (auto simp: display_def position_def)
  have "sorted (map sortingId (whitelisted s))" by (simp add: whitelisted_def)
  moreover have "distinct (display s)"
    using keys_distinct_filter [OF ok] by (auto simp: display_def whitelisted_def keys_distinct_def distinct_map)
  then have "distinct (map (\<lambda>k. position k s) (display s))"
    using assms by (simp add: distinct_map set_display [OF ok] tokens_ok_def)
  ultimately have "sorted_wrt (<) (map (\<lambda>k. position k s) (display s))"
    by (simp add: pos strict_sorted_iff)
  then show ?thesis by (simp add: displays_def set_display [OF ok])
qed

lemma displays_unique:
  assumes "displays ks s" and "displays js s"
  shows "ks = js"
proof -
  let ?f = "\<lambda>k. position k s"
  from assms have "map ?f ks = map ?f js"
    by (intro strict_sorted_equal) (simp_all add: displays_def)
  moreover from assms(1) have "distinct (map ?f ks)"
    unfolding displays_def using strict_sorted_iff by blast
  with assms have "inj_on ?f (set ks \<union> set js)" unfolding displays_def distinct_map by simp
  ultimately show ?thesis by (simp only: inj_on_map_eq_map)
qed

lemma display_eqI: "tokens_ok s \<Longrightarrow> displays ks s \<Longrightarrow> display s = ks"
  using display_displays displays_unique by blast

subsection \<open>Saving one item\<close>

lemma sorted_le_last: "sorted xs \<Longrightarrow> x \<in> set xs \<Longrightarrow> x \<le> last xs"
  by (induction xs) (auto split: if_splits)

lemma position_le_last:
  assumes ok: "tokens_ok s" and "shown k s"
  shows "\<exists>p. position k s = Some p \<and> p \<le> lastWhitelistedId s"
proof -
  have keys: "keys_distinct item_id (itemRows s)" using ok by (simp add: tokens_ok_def)
  from assms obtain p where p: "position k s = Some p" by (auto simp: tokens_ok_def)
  obtain i where "i \<in> set (whitelisted s)" "sortingId i = Some p"
    using assms(2) p item_id_item [of k s]
    by (auto simp: shown_iff position_def shown_whitelisted [OF keys])
  moreover have "sorted (map sortingId (whitelisted s))" by (simp add: whitelisted_def)
  ultimately have "Some p \<le> last (map sortingId (whitelisted s))" "whitelisted s \<noteq> []"
    by (auto intro!: sorted_le_last) (metis imageI)
  then show ?thesis
    by (auto simp: p lastWhitelistedId_def last_map split: option.split)
qed

lemma shown_put [simp]:
  "shown k (put_item i s) \<longleftrightarrow> (if k = item_id i then item_status i = TL_whitelisted else shown k s)"
  by (simp add: shown_def)

lemma position_put [simp]: "position k (put_item i s) = (if k = item_id i then sortingId i else position k s)"
  by (simp add: position_def)

lemma tokens_ok_put:
  assumes "tokens_ok s" and "item_id i \<noteq> token_id Token_Ether"
    and "item_status i = TL_whitelisted \<Longrightarrow>
      sortingId i \<noteq> None \<and> (\<forall>k. shown k s \<and> k \<noteq> item_id i \<longrightarrow> position k s \<noteq> sortingId i)"
  shows "tokens_ok (put_item i s)"
proof -
  have "keys_distinct item_id (itemRows (put_item i s))"
    using assms(1) items.consistent_save by (simp add: items.consistent_def tokens_ok_def)
  moreover have "inj_on (\<lambda>k. position k (put_item i s)) {k. shown k (put_item i s)}"
    using assms by (auto simp: tokens_ok_def inj_on_def)
  ultimately show ?thesis using assms by (auto simp: tokens_ok_def)
qed

lemma displaysI:
  assumes "set ks = {k. shown k t}" and "\<And>k. k \<in> set ks \<Longrightarrow> position k t = p k" and "sorted_wrt (<) (map p ks)"
  shows "displays ks t"
proof -
  have "map (\<lambda>k. position k t) ks = map p ks" using assms(2) by simp
  with assms show ?thesis by (simp only: displays_def)
qed

lemma displays_put_last:
  assumes "displays ks s" and "\<not> shown (item_id i) s" and "item_status i = TL_whitelisted"
    and "\<And>k. shown k s \<Longrightarrow> position k s < sortingId i"
  shows "displays (ks @ [item_id i]) (put_item i s)"
proof -
  have ne: "\<And>k. k \<in> set ks \<Longrightarrow> k \<noteq> item_id i" using assms by (auto simp: displays_def)
  then have "map (\<lambda>k. position k s) ks = map (\<lambda>k. position k (put_item i s)) ks" by simp
  with assms(1) have "sorted_wrt (<) (map (\<lambda>k. position k (put_item i s)) ks)" by (simp only: displays_def)
  with assms ne show ?thesis by (auto simp: displays_def sorted_wrt_append)
qed

lemma displays_put_hidden:
  assumes "displays ks s" and "item_status i \<noteq> TL_whitelisted"
  shows "displays (filter (\<lambda>k. k \<noteq> item_id i) ks) (put_item i s)"
  using assms
  by (intro displaysI [where p = "\<lambda>k. position k s"]) (auto simp: displays_def sorted_wrt_map intro: sorted_wrt_filter)

lemma displays_put_same:
  assumes "displays ks s" and "shown (item_id i) s" and "item_status i = TL_whitelisted"
    and "sortingId i = position (item_id i) s"
  shows "displays ks (put_item i s)"
  using assms by (intro displaysI [where p = "\<lambda>k. position k s"]) (auto simp: displays_def)

lemma prepare_cases:
  assumes "item_id i \<noteq> token_id Token_Ether"
  shows "prepareToSave now i s =
    (if shown (item_id i) s
     then Returns (if item_status i \<noteq> TL_whitelisted then updateSortingId None i else i)
     else if item_status i = TL_whitelisted
     then bindO (toInt (lastWhitelistedId s + 1)) (\<lambda>n. Returns (updateSortingId (Some n) i))
     else Returns i)"
  using assms by (simp add: prepareToSave_def find_item_def shown_def item_def)

lemma lastWhitelistedId_display:
  assumes "tokens_ok s"
  shows "lastWhitelistedId s =
    (if display s = [] then - 1 else case position (last (display s)) s of None \<Rightarrow> - 1 | Some n \<Rightarrow> n)"
proof (cases "whitelisted s = []")
  case False
  then have "last (whitelisted s) \<in> set (whitelisted s)" by simp
  then have "position (item_id (last (whitelisted s))) s = sortingId (last (whitelisted s))"
    using assms shown_whitelisted [of s] by (simp add: tokens_ok_def position_def)
  with False show ?thesis by (simp add: lastWhitelistedId_def display_def last_map)
qed (simp add: lastWhitelistedId_def display_def)

lemma updateSortingId_fields [simp]:
  "item_status (updateSortingId n i) = item_status i" "sortingId (updateSortingId n i) = n"
  "item_token (updateSortingId n i) = item_token i"
  "canPayTransactionFee (updateSortingId n i) = canPayTransactionFee i"
  "updateSortingId m (updateSortingId n i) = updateSortingId m i"
  by (simp_all add: updateSortingId_def)

lemma save_new:
  fixes s i
  defines "t \<equiv> put_item (updateSortingId (Some (lastWhitelistedId s + 1)) i) s"
  assumes ok: "tokens_ok s" and "item_id i \<noteq> token_id Token_Ether" and "\<not> shown (item_id i) s"
    and "item_status i = TL_whitelisted" and "Int_min \<le> lastWhitelistedId s + 1" and "lastWhitelistedId s + 1 \<le> Int_max"
  shows "save_item now i s = Returns t" and "tokens_ok t" and "display t = display s @ [item_id i]"
    and "lastWhitelistedId t = lastWhitelistedId s + 1"
proof -
  show "save_item now i s = Returns t"
    using assms by (simp add: save_item_def prepare_cases toInt_def)
  have below: "position k s < Some (lastWhitelistedId s + 1)" if "shown k s" for k
    using position_le_last [OF ok that] by auto
  show ok': "tokens_ok t" unfolding t_def
    using below assms by (intro tokens_ok_put) (auto simp: less_le)
  have "displays (display s @ [item_id i]) t" unfolding t_def
    using displays_put_last [OF display_displays [OF ok], of "updateSortingId (Some (lastWhitelistedId s + 1)) i"]
      below assms by simp
  then show d: "display t = display s @ [item_id i]" by (rule display_eqI [OF ok'])
  show "lastWhitelistedId t = lastWhitelistedId s + 1"
    by (simp add: lastWhitelistedId_display [OF ok'] d) (simp add: t_def)
qed

lemma save_unshown:
  assumes ok: "tokens_ok s" and "item_id i \<noteq> token_id Token_Ether" and "\<not> shown (item_id i) s"
    and "item_status i \<noteq> TL_whitelisted"
  shows "save_item now i s = Returns (put_item i s)" and "tokens_ok (put_item i s)"
    and "display (put_item i s) = display s" and "lastWhitelistedId (put_item i s) = lastWhitelistedId s"
proof -
  show "save_item now i s = Returns (put_item i s)" using assms by (simp add: save_item_def prepare_cases)
  show ok': "tokens_ok (put_item i s)" using assms by (intro tokens_ok_put) auto
  have ne: "\<forall>k\<in>set (display s). k \<noteq> item_id i"
    using assms display_displays [OF ok] by (auto simp: displays_def)
  then have "filter (\<lambda>k. k \<noteq> item_id i) (display s) = display s" by simp
  with displays_put_hidden [OF display_displays [OF ok] assms(4)]
  show d: "display (put_item i s) = display s" by (intro display_eqI [OF ok']) simp
  show "lastWhitelistedId (put_item i s) = lastWhitelistedId s"
    using ne by (simp add: lastWhitelistedId_display [OF ok'] lastWhitelistedId_display [OF ok] d)
qed

lemma save_shown:
  assumes ok: "tokens_ok s" and "item_id i \<noteq> token_id Token_Ether" and "shown (item_id i) s"
    and "item_status i = TL_whitelisted" and "sortingId i = position (item_id i) s"
  shows "save_item now i s = Returns (put_item i s)" and "tokens_ok (put_item i s)"
    and "display (put_item i s) = display s" and "lastWhitelistedId (put_item i s) = lastWhitelistedId s"
proof -
  show "save_item now i s = Returns (put_item i s)" using assms by (simp add: save_item_def prepare_cases)
  show ok': "tokens_ok (put_item i s)"
    using assms by (intro tokens_ok_put) (auto simp: tokens_ok_def inj_on_def)
  show d: "display (put_item i s) = display s"
    using displays_put_same [OF display_displays [OF ok] assms(3-5)] by (intro display_eqI [OF ok'])
  show "lastWhitelistedId (put_item i s) = lastWhitelistedId s"
    using assms(5) by (simp add: lastWhitelistedId_display [OF ok'] lastWhitelistedId_display [OF ok] d)
qed

lemma save_hiding:
  assumes ok: "tokens_ok s" and "item_id i \<noteq> token_id Token_Ether" and "shown (item_id i) s"
    and "item_status i \<noteq> TL_whitelisted"
  shows "save_item now i s = Returns (put_item (updateSortingId None i) s)"
    and "tokens_ok (put_item (updateSortingId None i) s)"
    and "display (put_item (updateSortingId None i) s) = filter (\<lambda>k. k \<noteq> item_id i) (display s)"
proof -
  show "save_item now i s = Returns (put_item (updateSortingId None i) s)"
    using assms by (simp add: save_item_def prepare_cases)
  show ok': "tokens_ok (put_item (updateSortingId None i) s)" using assms by (intro tokens_ok_put) auto
  show "display (put_item (updateSortingId None i) s) = filter (\<lambda>k. k \<noteq> item_id i) (display s)"
    using displays_put_hidden [OF display_displays [OF ok], of "updateSortingId None i"] assms
    by (intro display_eqI [OF ok']) simp
qed

subsection \<open>Merging the server's list\<close>

definition refreshed :: "time \<Rightarrow> TokenListItem \<Rightarrow> TokenListItem \<Rightarrow> TokenListItem" where
  "refreshed now i l =
     \<lparr>item_token = item_token l, item_status = item_status i, canPayTransactionFee = canPayTransactionFee l,
      sortingId = sortingId i, updated = now\<rparr>"

definition merged_item :: "time \<Rightarrow> TokenListItem option \<Rightarrow> TokenListItem option \<Rightarrow> TokenListItem option" where
  "merged_item now stored latest =
     (case (stored, latest) of
        (None, l) \<Rightarrow> l
      | (Some i, None) \<Rightarrow> if item_status i = TL_whitelisted then Some i else None
      | (Some i, Some l) \<Rightarrow> if item_status i = TL_regular then Some l else Some (refreshed now i l))"

lemma refreshed_fields [simp]:
  "item_id (refreshed now i l) = item_id l" "item_status (refreshed now i l) = item_status i"
  "sortingId (refreshed now i l) = sortingId i"
  by (simp_all add: refreshed_def item_id_def)

lemma token_events_put [simp]: "token_events (put_item i s) = token_events s"
  by (simp add: put_item_def)

lemma same_items_display:
  assumes "tokens_ok s" and "tokens_ok t" and "\<And>k. shown k t \<longleftrightarrow> shown k s"
    and "\<And>k. shown k s \<Longrightarrow> position k t = position k s"
  shows "display t = display s"
  using display_displays [OF assms(1)] assms(3,4)
  by (intro display_eqI [OF assms(2)] displaysI [where p = "\<lambda>k. position k s"]) (auto simp: displays_def)

lemma delete_phase:
  fixes s tokenList
  defines "t \<equiv> deleteStoredTokenItemsThatAreNotInList tokenList s"
  assumes ok: "tokens_ok s"
  shows "item k t = (case item k s of None \<Rightarrow> None
      | Some i \<Rightarrow> if item_status i = TL_whitelisted \<or> k \<in> item_id ` set tokenList then Some i else None)"
    and "tokens_ok t" and "display t = display s" and "lastWhitelistedId t = lastWhitelistedId s"
    and "token_events t = token_events s"
proof -
  have keys: "keys_distinct item_id (itemRows s)" using ok by (simp add: tokens_ok_def)
  let ?gone = "filter (\<lambda>i. item_status i \<noteq> TL_whitelisted \<and> item_id i \<notin> item_id ` set tokenList) (itemRows s)"
  have gone: "k \<in> item_id ` set ?gone \<longleftrightarrow>
      (\<exists>i. item k s = Some i \<and> item_status i \<noteq> TL_whitelisted \<and> k \<notin> item_id ` set tokenList)" for k
    using item_in_rows [OF keys] by (simp add: image_iff) metis
  have items: "item k t = (if k \<in> item_id ` set ?gone then None else item k s)" for k
    unfolding t_def deleteStoredTokenItemsThatAreNotInList_def item_lookup [symmetric] by (rule items.lookup_remove_all)
  show item: "item k t = (case item k s of None \<Rightarrow> None
      | Some i \<Rightarrow> if item_status i = TL_whitelisted \<or> k \<in> item_id ` set tokenList then Some i else None)" for k
    unfolding items gone by (auto split: option.split)
  have same: "shown k t \<longleftrightarrow> shown k s" "shown k s \<Longrightarrow> position k t = position k s" for k
    by (auto simp: shown_def position_def item split: option.splits if_splits)
  have "keys_distinct item_id (itemRows t)"
    using items.consistent_remove_all keys
    by (simp add: items.consistent_def t_def deleteStoredTokenItemsThatAreNotInList_def)
  with ok same item show ok': "tokens_ok t"
    unfolding tokens_ok_def by (auto simp: inj_on_def)
  show d: "display t = display s" by (rule same_items_display [OF ok ok' same])
  have "last (display s) \<in> {k. shown k s}" if "display s \<noteq> []"
    using last_in_set [OF that] display_displays [OF ok] unfolding displays_def by blast
  then show "lastWhitelistedId t = lastWhitelistedId s"
    using same by (simp add: lastWhitelistedId_display [OF ok'] lastWhitelistedId_display [OF ok] d)
  have "token_events (fold delete_item xs s) = token_events s" for xs
    by (induction xs arbitrary: s) (simp_all add: delete_item_def)
  then show "token_events t = token_events s" by (simp add: t_def deleteStoredTokenItemsThatAreNotInList_def)
qed

lemma find_row_Cons:
  "find_row key k (x # xs) = (if key x = k then Some x else find_row key k xs)"
  by (simp add: find_row_def)

lemma update_item_cases:
  assumes ok: "tokens_ok s" and "item_id l \<noteq> token_id Token_Ether" and "item (item_id l) s = Some i"
    and "item_status i \<noteq> TL_regular"
  shows "updateTokenItemWithTokenInfoOnly now i l s = Returns (put_item (refreshed now i l) s)"
    and "tokens_ok (put_item (refreshed now i l) s)" and "display (put_item (refreshed now i l) s) = display s"
    and "lastWhitelistedId (put_item (refreshed now i l) s) = lastWhitelistedId s"
proof -
  let ?r = "refreshed now i l"
  have "save_item now ?r s = Returns (put_item ?r s) \<and> tokens_ok (put_item ?r s) \<and>
      display (put_item ?r s) = display s \<and> lastWhitelistedId (put_item ?r s) = lastWhitelistedId s"
  proof (cases "item_status i = TL_whitelisted")
    case True
    with assms show ?thesis by (intro conjI save_shown) (auto simp: shown_def position_def)
  next
    case False
    with assms show ?thesis by (intro conjI save_unshown) (auto simp: shown_def)
  qed
  then show "updateTokenItemWithTokenInfoOnly now i l s = Returns (put_item ?r s)"
    "tokens_ok (put_item ?r s)" "display (put_item ?r s) = display s"
    "lastWhitelistedId (put_item ?r s) = lastWhitelistedId s"
    by (auto simp: updateTokenItemWithTokenInfoOnly_def refreshed_def)
qed

text \<open>What the update phase has done to \<open>s\<close> when it has treated the entries \<open>ls\<close>.\<close>

definition updates ::
    "time \<Rightarrow> TokenListItem list \<Rightarrow> TokenListItem list \<Rightarrow> tokens \<Rightarrow> tokens \<Rightarrow> bool" where
  "updates now kept ls s t \<longleftrightarrow>
     tokens_ok t \<and> display t = display s \<and> lastWhitelistedId t = lastWhitelistedId s \<and> token_events t = token_events s \<and>
     (\<forall>k. item k t = (case (find_row item_id k ls, find_row item_id k kept) of
        (Some l, Some i) \<Rightarrow> Some (refreshed now i l) | _ \<Rightarrow> item k s))"

lemma updates_skip:
  "find_row item_id (item_id l) kept = None \<Longrightarrow> updates now kept ls s t \<Longrightarrow> updates now kept (l # ls) s t"
  by (auto simp: updates_def find_row_Cons split: option.split)

lemma updates_step:
  assumes "find_row item_id (item_id l) kept = Some i" and "find_row item_id (item_id l) ls = None"
    and "display (put_item (refreshed now i l) s) = display s"
    and "lastWhitelistedId (put_item (refreshed now i l) s) = lastWhitelistedId s"
    and "updates now kept ls (put_item (refreshed now i l) s) t"
  shows "updates now kept (l # ls) s t"
  using assms by (auto simp: updates_def find_row_Cons split: option.split)

lemma update_phase:
  assumes "tokens_ok s" and "distinct (map item_id ls)" and "token_id Token_Ether \<notin> item_id ` set ls"
    and "\<And>i. i \<in> set kept \<Longrightarrow> item_status i \<noteq> TL_regular"
    and "\<And>l i. l \<in> set ls \<Longrightarrow> find_row item_id (item_id l) kept = Some i \<Longrightarrow> item (item_id l) s = Some i"
  shows "\<exists>t. update_loop now kept ls rest s =
      (Returns (rest @ filter (\<lambda>l. find_row item_id (item_id l) kept = None) ls, t) :: ('e, _) outcome) \<and>
    updates now kept ls s t"
  using assms
proof (induction ls arbitrary: rest s)
  case Nil
  then show ?case by (simp add: updates_def find_row_def)
next
  case (Cons l ls)
  show ?case
  proof (cases "find_row item_id (item_id l) kept")
    case None
    with Cons.IH [of s "rest @ [l]"] Cons.prems show ?thesis by (auto intro: updates_skip)
  next
    case (Some i)
    with Cons.prems(4) have st: "item_status i \<noteq> TL_regular" by (auto dest: find_row_SomeD)
    from Some Cons.prems have at: "item (item_id l) s = Some i" and ne: "item_id l \<noteq> token_id Token_Ether" by auto
    note upd = update_item_cases [OF Cons.prems(1) ne at st, where now = now]
    have other: "item_id l' \<noteq> item_id l" if "l' \<in> set ls" for l'
      using Cons.prems(2) that by (simp add: image_iff) metis
    have fresh: "find_row item_id (item_id l) ls = None" using Cons.prems(2) by (simp add: find_row_None_iff)
    have "item (item_id l') (put_item (refreshed now i l) s) = Some j"
      if "l' \<in> set ls" "find_row item_id (item_id l') kept = Some j" for l' j
      using that other Cons.prems(5) by simp
    with Cons.IH [of "put_item (refreshed now i l) s" rest] Cons.prems upd Some
    show ?thesis by (auto intro: updates_step [OF Some fresh])
  qed
qed

text \<open>What saving the entries \<open>ls\<close>, none of them shown before, does to \<open>s\<close>.\<close>

definition creates :: "TokenListItem list \<Rightarrow> tokens \<Rightarrow> tokens \<Rightarrow> bool" where
  "creates ls s t \<longleftrightarrow>
     tokens_ok t \<and> token_events t = token_events s \<and>
     display t = display s @ map item_id (filter (\<lambda>l. item_status l = TL_whitelisted) ls) \<and>
     (\<forall>k. case find_row item_id k ls of
        None \<Rightarrow> item k t = item k s
      | Some l \<Rightarrow> map_option (updateSortingId None) (item k t) = Some (updateSortingId None l))"

lemma creates_step:
  assumes "find_row item_id (item_id l) ls = None" and "creates ls s1 t" and "token_events s1 = token_events s"
    and "display s1 = display s @ (if item_status l = TL_whitelisted then [item_id l] else [])"
    and "\<And>k. item k s1 = (if k = item_id l then Some l' else item k s)" and "updateSortingId None l' = updateSortingId None l"
  shows "creates (l # ls) s t"
  unfolding creates_def
proof (intro conjI allI)
  fix k
  show "case find_row item_id k (l # ls) of
      None \<Rightarrow> item k t = item k s
    | Some l \<Rightarrow> map_option (updateSortingId None) (item k t) = Some (updateSortingId None l)"
    using assms by (cases "k = item_id l") (auto simp: creates_def find_row_Cons dest: spec [of _ k] split: option.splits)
qed (use assms in \<open>auto simp: creates_def\<close>)

lemma create_phase:
  assumes "tokens_ok s" and "distinct (map item_id ls)" and "token_id Token_Ether \<notin> item_id ` set ls"
    and "\<And>l. l \<in> set ls \<Longrightarrow> \<not> shown (item_id l) s"
    and "Int_min \<le> lastWhitelistedId s + 1" and "lastWhitelistedId s + int (length ls) \<le> Int_max"
  shows "\<exists>t. foldO (save_item now) ls s = (Returns t :: ('e, tokens) outcome) \<and> creates ls s t"
  using assms
proof (induction ls arbitrary: s)
  case Nil
  then show ?case by (simp add: creates_def find_row_def)
next
  case (Cons l ls)
  have other: "item_id l' \<noteq> item_id l" if "l' \<in> set ls" for l'
    using Cons.prems(2) that by (simp add: image_iff) metis
  have fresh: "find_row item_id (item_id l) ls = None" using Cons.prems(2) by (simp add: find_row_None_iff)
  have ne: "item_id l \<noteq> token_id Token_Ether" and hidden: "\<not> shown (item_id l) s"
    using Cons.prems by auto
  show ?case
  proof (cases "item_status l = TL_whitelisted")
    case True
    let ?s = "put_item (updateSortingId (Some (lastWhitelistedId s + 1)) l) s"
    have bound: "lastWhitelistedId s + 1 \<le> Int_max" using Cons.prems(6) by simp
    note new = save_new [OF Cons.prems(1) ne hidden True Cons.prems(5) bound]
    obtain t where t: "foldO (save_item now) ls ?s = (Returns t :: ('e, tokens) outcome)" "creates ls ?s t"
      using Cons.IH [of ?s] Cons.prems new other by auto
    with new True have "creates (l # ls) s t"
      by (intro creates_step [OF fresh t(2), where l' = "updateSortingId (Some (lastWhitelistedId s + 1)) l"]) auto
    with t show ?thesis by (auto simp: new)
  next
    case False
    note same = save_unshown [OF Cons.prems(1) ne hidden False]
    obtain t where t: "foldO (save_item now) ls (put_item l s) = (Returns t :: ('e, tokens) outcome)" "creates ls (put_item l s) t"
      using Cons.IH [of "put_item l s"] Cons.prems same other by auto
    with same False have "creates (l # ls) s t"
      by (intro creates_step [OF fresh t(2), where l' = l]) auto
    with t show ?thesis by (auto simp: same)
  qed
qed

lemma find_row_filter:
  "find_row key k (filter (\<lambda>x. P (key x)) xs) = (if P k then find_row key k xs else None)"
  unfolding find_row_def by (induction xs) auto

definition chosen :: "string \<Rightarrow> tokens \<Rightarrow> bool" where
  "chosen k s \<longleftrightarrow> (case item k s of Some i \<Rightarrow> item_status i \<noteq> TL_regular | None \<Rightarrow> False)"

lemma find_kept:
  assumes "keys_distinct key rows"
  shows "find_row key k (filter P rows) = (case find_row key k rows of Some i \<Rightarrow> if P i then Some i else None | None \<Rightarrow> None)"
proof (cases "find_row key k rows")
  case None
  then have "find_row key k (filter P rows) = None" by (auto simp: find_row_None_iff)
  with None show ?thesis by simp
next
  case (Some i)
  then have i: "i \<in> set rows" "key i = k" by (simp_all add: find_row_Some_iff [OF assms])
  have only: "j = i" if "j \<in> set rows" "key j = k" for j
    using find_row_Some_iff [OF assms, of k j] that Some by simp
  show ?thesis
  proof (cases "P i")
    case True
    with i show ?thesis by (simp add: Some find_row_Some_iff [OF keys_distinct_filter [OF assms]])
  next
    case False
    with only have "find_row key k (filter P rows) = None" by (auto simp: find_row_None_iff)
    with False Some show ?thesis by simp
  qed
qed

lemma merge_phases:
  assumes ok: "tokens_ok s" and dist: "distinct (map item_id ls)" and ether: "token_id Token_Ether \<notin> item_id ` set ls"
    and bounds: "Int_min \<le> lastWhitelistedId s + 1" "lastWhitelistedId s + int (length ls) \<le> Int_max"
  defines "new \<equiv> filter (\<lambda>l. \<not> chosen (item_id l) s) ls"
  shows "\<exists>s1 kept t1 t. mergeStoredTokenItems now ls s = (Returns (publish_tokens TokenListMerged t) :: ('e, tokens) outcome) \<and>
    s1 = deleteStoredTokenItemsThatAreNotInList ls s \<and>
    (\<forall>k. find_row item_id k kept = (case item k s1 of Some i \<Rightarrow> if item_status i \<noteq> TL_regular then Some i else None | None \<Rightarrow> None)) \<and>
    updates now kept ls s1 t1 \<and> creates new t1 t"
proof -
  let ?s1 = "deleteStoredTokenItemsThatAreNotInList ls s"
  let ?kept = "filter (\<lambda>i. item_status i = TL_whitelisted \<or> item_status i = TL_blacklisted) (itemRows ?s1)"
  note del = delete_phase [OF ok, where tokenList = ls]
  have keys: "keys_distinct item_id (itemRows ?s1)" using del(2) by (simp add: tokens_ok_def)
  have split: "(item_status i = TL_whitelisted \<or> item_status i = TL_blacklisted) = (item_status i \<noteq> TL_regular)" for i
    by (cases "item_status i") auto
  have kept: "find_row item_id k ?kept =
      (case item k ?s1 of Some i \<Rightarrow> if item_status i \<noteq> TL_regular then Some i else None | None \<Rightarrow> None)" for k
    unfolding split by (simp only: find_kept [OF keys] item_def)
  have rest: "filter (\<lambda>l. find_row item_id (item_id l) ?kept = None) ls = new"
    unfolding new_def by (rule filter_cong) (auto simp: kept del(1) chosen_def split: option.splits if_splits)
  have k1: "item_status i \<noteq> TL_regular" if "i \<in> set ?kept" for i using that by (auto simp: split)
  have k2: "item (item_id l) ?s1 = Some i" if "find_row item_id (item_id l) ?kept = Some i" for l i
    using that unfolding kept by (simp split: option.splits if_splits)
  have "\<exists>t. update_loop now ?kept ls [] ?s1 = (Returns ([] @ new, t) :: ('e, _) outcome) \<and> updates now ?kept ls ?s1 t"
    unfolding rest [symmetric] by (rule update_phase [OF del(2) dist ether k1 k2])
  then obtain t1 where t1: "update_loop now ?kept ls [] ?s1 = (Returns (new, t1) :: ('e, _) outcome)"
    and u: "updates now ?kept ls ?s1 t1" by auto
  have "\<exists>t. foldO (save_item now) new t1 = (Returns t :: ('e, tokens) outcome) \<and> creates new t1 t"
  proof (rule create_phase)
    show "tokens_ok t1" "Int_min \<le> lastWhitelistedId t1 + 1" using u bounds del by (auto simp: updates_def)
    have "length new \<le> length ls" by (simp add: new_def)
    then show "lastWhitelistedId t1 + int (length new) \<le> Int_max" using u bounds del by (simp add: updates_def)
    show "distinct (map item_id new)" "token_id Token_Ether \<notin> item_id ` set new"
      using dist ether by (auto simp: new_def distinct_map_filter)
    fix l
    assume l: "l \<in> set new"
    then have "find_row item_id (item_id l) ?kept = None" by (simp flip: rest)
    with u have "item (item_id l) t1 = item (item_id l) ?s1" by (auto simp: updates_def split: option.splits)
    with l show "\<not> shown (item_id l) t1" by (auto simp: new_def shown_def chosen_def del(1) split: option.splits)
  qed
  then obtain t where t: "foldO (save_item now) new t1 = (Returns t :: ('e, tokens) outcome)" "creates new t1 t" by blast
  have "mergeStoredTokenItems now ls s = (Returns (publish_tokens TokenListMerged t) :: ('e, tokens) outcome)"
    using t t1 by (simp add: mergeStoredTokenItems_def updateWhitelistedAndBlacklistedTokenItems_def createOrUpdateTokenItems_def)
  with kept u t show ?thesis by blast
qed

lemma merged_lookup:
  assumes ok: "tokens_ok s"
    and kept: "\<forall>k. find_row item_id k kept =
      (case item k (deleteStoredTokenItemsThatAreNotInList ls s) of
         Some i \<Rightarrow> if item_status i \<noteq> TL_regular then Some i else None | None \<Rightarrow> None)"
    and "updates now kept ls (deleteStoredTokenItemsThatAreNotInList ls s) t1"
    and "creates (filter (\<lambda>l. \<not> chosen (item_id l) s) ls) t1 t"
  shows "map_option (updateSortingId None) (item k t) =
      map_option (updateSortingId None) (merged_item now (item k s) (find_row item_id k ls))"
    and "shown k s \<Longrightarrow> position k t = position k s"
proof -
  note del = delete_phase [OF ok, where tokenList = ls]
  have inls: "k \<in> item_id ` set ls \<longleftrightarrow> find_row item_id k ls \<noteq> None" by (simp add: find_row_None_iff)
  have new: "find_row item_id k (filter (\<lambda>l. \<not> chosen (item_id l) s) ls) =
      (if \<not> chosen k s then find_row item_id k ls else None)" by (rule find_row_filter)
  have c: "case if \<not> chosen k s then find_row item_id k ls else None of
        None \<Rightarrow> item k t = item k t1
      | Some l \<Rightarrow> map_option (updateSortingId None) (item k t) = Some (updateSortingId None l)"
    using assms(4) unfolding creates_def new [symmetric] by blast
  have u: "item k t1 = (case (find_row item_id k ls, find_row item_id k kept) of
      (Some l, Some i) \<Rightarrow> Some (refreshed now i l) | _ \<Rightarrow> item k (deleteStoredTokenItemsThatAreNotInList ls s))"
    using assms(3) by (simp add: updates_def)
  show "map_option (updateSortingId None) (item k t) =
      map_option (updateSortingId None) (merged_item now (item k s) (find_row item_id k ls))"
    using c u kept [THEN spec, of k]
    by (cases "find_row item_id k ls"; cases "item k s"; cases "chosen k s")
      (auto simp: del(1) inls chosen_def merged_item_def split: if_splits)
  show "position k t = position k s" if "shown k s"
    using that c u kept [THEN spec, of k]
    by (cases "find_row item_id k ls"; cases "item k s")
      (auto simp: del(1) inls chosen_def shown_def position_def split: if_splits)
qed

text \<open>
  Merging the server's token list keeps the user's choices. It always returns, and afterwards an
  identifier has the row that \<open>merged_item\<close> computes from its stored row and its entry in the list: a
  whitelisted or blacklisted token keeps its status and sorting number and takes over the new token data, a stored token that is
  not in the list is kept only if it is whitelisted, all others are as in the list. The tokens the user sees are
  those seen before, in the same order, followed by the new default tokens in the order of the list.
\<close>

theorem token_merge:
  assumes "tokens_ok s" and "distinct (map item_id ls)" and "token_id Token_Ether \<notin> item_id ` set ls"
    and "Int_min \<le> lastWhitelistedId s + 1" and "lastWhitelistedId s + int (length ls) \<le> Int_max"
  shows "\<exists>t. mergeStoredTokenItems now ls s = (Returns t :: (unit, tokens) outcome) \<and> tokens_ok t \<and>
    token_events t = token_events s @ [TokenListMerged] \<and>
    (\<forall>k. map_option (updateSortingId None) (item k t) =
       map_option (updateSortingId None) (merged_item now (item k s) (find_row item_id k ls))) \<and>
    (\<forall>k. shown k s \<longrightarrow> position k t = position k s) \<and>
    display t = display s @
      map item_id (filter (\<lambda>l. \<not> chosen (item_id l) s \<and> item_status l = TL_whitelisted) ls)"
proof -
  obtain kept t1 t where m: "mergeStoredTokenItems now ls s = (Returns (publish_tokens TokenListMerged t) :: (unit, tokens) outcome)"
    and k: "\<forall>k. find_row item_id k kept = (case item k (deleteStoredTokenItemsThatAreNotInList ls s) of
      Some i \<Rightarrow> if item_status i \<noteq> TL_regular then Some i else None | None \<Rightarrow> None)"
    and u: "updates now kept ls (deleteStoredTokenItemsThatAreNotInList ls s) t1"
    and c: "creates (filter (\<lambda>l. \<not> chosen (item_id l) s) ls) t1 t"
    using merge_phases [OF assms, of now] by blast
  note del = delete_phase [OF assms(1), where tokenList = ls]
  have same: "tokens_ok (publish_tokens e t) = tokens_ok t" "display (publish_tokens e t) = display t"
    "position k (publish_tokens e t) = position k t" "token_events (publish_tokens e t) = token_events t @ [e]" for e k
    by (simp_all add: tokens_ok_def display_def whitelisted_def shown_def position_def) (simp_all add: publish_tokens_def)
  show ?thesis
    using m c u del merged_lookup [OF assms(1) k u c]
    by (intro exI [of _ "publish_tokens TokenListMerged t"]) (auto simp: same creates_def updates_def)
qed

subsection \<open>Whitelisting, hiding, rearranging\<close>

lemma same_after_publish [simp]:
  "tokens_ok (publish_tokens e s) = tokens_ok s" "display (publish_tokens e s) = display s"
  "tokens_ok (s\<lparr>balanceUpdates := b\<rparr>) = tokens_ok s" "display (s\<lparr>balanceUpdates := b\<rparr>) = display s"
  "shown k (publish_tokens e s) = shown k s" "position k (publish_tokens e s) = position k s"
  by (simp_all add: tokens_ok_def display_def whitelisted_def shown_def position_def item_def publish_tokens_def)

lemma whitelist_new:
  assumes "tokens_ok s" and "token_id t \<noteq> token_id Token_Ether" and "item (token_id t) s = Some e"
    and "\<not> shown (token_id t) s" and "Int_min \<le> lastWhitelistedId s + 1" and "lastWhitelistedId s + 1 \<le> Int_max"
  shows "\<exists>s'. whitelist now t s = Returns s' \<and> tokens_ok s' \<and> display s' = display s @ [token_id t]"
proof -
  let ?i = "TokenListItem_init t TL_whitelisted (canPayTransactionFee e) now"
  have "item_status ?i = TL_whitelisted" by (simp add: TokenListItem_init_def)
  note new = save_new [of s ?i, OF assms(1) _ _ this assms(5,6)]
  have "find_item now (token_id t) s = Some e" using assms by (simp add: find_item_def item_def)
  with new assms show ?thesis by (auto simp: whitelist_def Let_def new)
qed

lemma blacklist_shown:
  assumes "tokens_ok s" and "token_id t \<noteq> token_id Token_Ether" and "shown (token_id t) s"
  shows "\<exists>s'. blacklist now t s = Returns s' \<and> tokens_ok s' \<and> display s' = filter (\<lambda>k. k \<noteq> token_id t) (display s)"
proof -
  obtain e where e: "item (token_id t) s = Some e" using assms(3) by (auto simp: shown_iff)
  let ?i = "TokenListItem_init t TL_blacklisted (canPayTransactionFee e) now"
  have "item_status ?i \<noteq> TL_whitelisted" by (simp add: TokenListItem_init_def)
  note hide = save_hiding [of s ?i, OF assms(1) _ _ this]
  have "find_item now (token_id t) s = Some e" using assms e by (simp add: find_item_def item_def)
  with assms show ?thesis by (auto simp: blacklist_def hide)
qed

primrec place :: "string \<Rightarrow> string list \<Rightarrow> int option" where
  "place k [] = None"
| "place k (j # js) = (if k = j then Some 0 else map_option (\<lambda>n. n + 1) (place k js))"

text \<open>The fetched items mirror their rows throughout the loop of \<^verbatim>\<open>rearrange\<close>.\<close>

definition mirrors :: "TokenListItem list \<Rightarrow> tokens \<Rightarrow> bool" where
  "mirrors wl s \<longleftrightarrow> keys_distinct item_id wl \<and>
     (\<forall>i\<in>set wl. item (item_id i) s = Some i \<and> item_status i = TL_whitelisted \<and> item_id i \<noteq> token_id Token_Ether)"

lemma mirrors_step:
  assumes "mirrors wl s" and "i \<in> set wl" and "item_id i' = item_id i" and "item_status i' = TL_whitelisted"
  shows "mirrors (map (\<lambda>j. if item_id j = item_id i then i' else j) wl) (put_item i' s)"
proof -
  have "map item_id (map (\<lambda>j. if item_id j = item_id i then i' else j) wl) = map item_id wl"
    using assms(3) by simp
  then have "keys_distinct item_id (map (\<lambda>j. if item_id j = item_id i then i' else j) wl)"
    using assms(1) unfolding mirrors_def keys_distinct_def by (simp only:)
  with assms show ?thesis by (auto simp: mirrors_def)
qed

lemma rearrange_loop_spec:
  assumes "mirrors wl s" and "distinct (map token_id ts)" and "keys_distinct item_id (itemRows s)"
  shows "\<exists>s'. rearrange_loop now n ts wl s = (Returns s' :: ('e, tokens) outcome) \<and>
    keys_distinct item_id (itemRows s') \<and> token_events s' = token_events s \<and>
    (\<forall>k. item k s' = (case place k (map token_id ts) of
       Some p \<Rightarrow> if k \<in> item_id ` set wl then map_option (updateSortingId (Some (n + p))) (item k s) else item k s
     | None \<Rightarrow> item k s))"
  using assms
proof (induction ts arbitrary: n wl s)
  case (Cons t ts)
  have absent: "place (token_id t) (map token_id ts) = None"
  proof -
    have "place k js = None" if "k \<notin> set js" for k js using that by (induction js) auto
    then show ?thesis using Cons.prems(2) by simp
  qed
  show ?case
  proof (cases "find_row item_id (token_id t) wl")
    case None
    then have "token_id t \<notin> item_id ` set wl" by (simp add: find_row_None_iff)
    with None Cons.IH [of wl s "n + 1"] Cons.prems absent show ?thesis
      by (auto simp: algebra_simps split: option.split)
  next
    case (Some i)
    then have i: "i \<in> set wl" "item_id i = token_id t" by (auto dest: find_row_SomeD)
    then have at: "item (token_id t) s = Some i" "item_status i = TL_whitelisted" "token_id t \<noteq> token_id Token_Ether"
      using Cons.prems(1) by (auto simp: mirrors_def)
    show ?thesis
    proof (cases "sortingId i = Some n")
      case True
      then have "updateSortingId (Some n) i = i" by (simp add: updateSortingId_def)
      with True Some at i Cons.IH [of wl s "n + 1"] Cons.prems absent show ?thesis
        by (auto simp: algebra_simps image_iff split: option.split)
    next
      case False
      let ?i = "updateSortingId (Some n) i"
      let ?wl = "map (\<lambda>j. if item_id j = item_id i then ?i else j) wl"
      have prep: "prepareToSave now ?i s = (Returns ?i :: ('e, _) outcome)" using at i by (simp add: prepare_cases shown_def)
      have "item_id (if item_id j = item_id i then ?i else j) = item_id j" for j by simp
      then have ids: "item_id ` set ?wl = item_id ` set wl" by (simp only: set_map image_image)
      have "keys_distinct item_id (itemRows (put_item ?i s))"
        using Cons.prems(3) items.consistent_save by (simp add: items.consistent_def)
      moreover have "mirrors ?wl (put_item ?i s)" using mirrors_step [OF Cons.prems(1) i(1)] at by simp
      ultimately obtain s' where s': "rearrange_loop now (n + 1) ts ?wl (put_item ?i s) = (Returns s' :: ('e, _) outcome)"
        "keys_distinct item_id (itemRows s')" "token_events s' = token_events s"
        "\<And>k. item k s' = (case place k (map token_id ts) of
           Some p \<Rightarrow> if k \<in> item_id ` set wl
             then map_option (updateSortingId (Some (n + 1 + p))) (item k (put_item ?i s)) else item k (put_item ?i s)
         | None \<Rightarrow> item k (put_item ?i s))"
        using Cons.IH [of ?wl "put_item ?i s" "n + 1"] Cons.prems(2) unfolding ids by auto
      then show ?thesis
        using False Some at i absent
        by (intro exI [of _ s']) (auto simp: prep algebra_simps image_iff split: option.split)
    qed
  qed
qed simp

lemma place_nth: "distinct ks \<Longrightarrow> n < length ks \<Longrightarrow> place (ks ! n) ks = Some (int n)"
proof (induction ks arbitrary: n)
  case (Cons k ks)
  then show ?case by (cases n) (auto simp: nth_mem)
qed simp

lemma place_sorted: "distinct ks \<Longrightarrow> sorted_wrt (<) (map (\<lambda>k. place k ks) ks)"
  by (auto simp: sorted_wrt_iff_nth_less place_nth)

lemma rearrange_display:
  assumes ok: "tokens_ok s" and ts: "distinct (map token_id ts)" "set (map token_id ts) = set (display s)"
  shows "\<exists>s'. rearrange now ts s = (Returns s' :: ('e, tokens) outcome) \<and> tokens_ok s' \<and> display s' = map token_id ts"
proof -
  let ?ks = "map token_id ts"
  have keys: "keys_distinct item_id (itemRows s)" using ok by (simp add: tokens_ok_def)
  have all: "set ?ks = {k. shown k s}" using ts(2) set_display [OF keys] by simp
  have wl: "item_id ` set (whitelisted s) = set ?ks" using ts(2) by (simp add: display_def)
  have "keys_distinct item_id (whitelisted s)"
    using keys_distinct_filter [OF keys] by (auto simp: whitelisted_def keys_distinct_def distinct_map)
  then have "mirrors (whitelisted s) s"
    using ok by (auto simp: mirrors_def shown_whitelisted [OF keys] tokens_ok_def)
  from rearrange_loop_spec [OF this ts(1) keys] obtain s'
    where loop: "rearrange_loop now 0 ts (whitelisted s) s = (Returns s' :: ('e, tokens) outcome)"
      and keys': "keys_distinct item_id (itemRows s')"
      and items: "\<And>k. item k s' = (case place k ?ks of
        Some p \<Rightarrow> if k \<in> set ?ks then map_option (updateSortingId (Some (0 + p))) (item k s) else item k s
      | None \<Rightarrow> item k s)"
    unfolding wl by blast
  have pos: "position k s' = place k ?ks" if "k \<in> set ?ks" for k
  proof -
    from that obtain n where "n < length ?ks" "k = ?ks ! n" by (metis in_set_conv_nth)
    with ts(1) have "place k ?ks = Some (int n)" by (simp only: place_nth)
    moreover from that all obtain i where "item k s = Some i" by (auto simp: shown_iff)
    ultimately show ?thesis using that by (simp add: position_def items)
  qed
  have "shown k s' = shown k s" for k
    by (cases "item k s") (auto simp: shown_def items split: option.split)
  with all have all': "set ?ks = {k. shown k s'}" by simp
  have shows': "displays ?ks s'" by (rule displaysI [OF all' pos place_sorted [OF ts(1)]])
  have "distinct (map (\<lambda>k. position k s') ?ks)"
    using shows' strict_sorted_iff unfolding displays_def by blast
  then have "inj_on (\<lambda>k. position k s') {k. shown k s'}" unfolding all' [symmetric] distinct_map by blast
  moreover have "position k s' \<noteq> None" if "shown k s'" for k
    using that pos [of k] all' place_nth [OF ts(1)] by (metis in_set_conv_nth mem_Collect_eq option.distinct(1))
  moreover have "item (token_id Token_Ether) s' = None"
    using ok by (simp add: items tokens_ok_def split: option.split)
  ultimately have ok': "tokens_ok s'" using keys' by (simp add: tokens_ok_def)
  show ?thesis using display_eqI [OF ok' shows'] ok' by (simp add: rearrange_def loop)
qed

lemma sort_key_snoc_min: "(\<And>y. y \<in> set xs \<Longrightarrow> f x < f y) \<Longrightarrow> sort_key f (xs @ [x]) = x # sort_key f xs"
proof (induction xs)
  case (Cons y ys)
  then have "\<not> f y \<le> f x" by (simp add: not_le)
  with Cons show ?case by simp
qed simp

lemma rewhitelist:
  assumes ok: "tokens_ok s" and ne: "token_id t \<noteq> token_id Token_Ether" and sh: "shown (token_id t) s"
  shows "\<exists>s'. whitelist now t s = (Returns s' :: ('e, tokens) outcome) \<and> position (token_id t) s' = None \<and>
    display s' = token_id t # filter (\<lambda>k. k \<noteq> token_id t) (display s)"
proof -
  have keys: "keys_distinct item_id (itemRows s)" using ok by (simp add: tokens_ok_def)
  obtain e where e: "item (token_id t) s = Some e" using sh by (auto simp: shown_iff)
  let ?i = "TokenListItem_init t TL_whitelisted (canPayTransactionFee e) now"
  have i: "item_id ?i = token_id t" "item_status ?i = TL_whitelisted" "sortingId ?i = None" by (simp_all add: TokenListItem_init_def item_id_def)
  let ?others = "filter (\<lambda>j. item_id j \<noteq> token_id t) (filter (\<lambda>j. item_status j = TL_whitelisted) (itemRows s))"
  have "filter (\<lambda>j. item_status j = TL_whitelisted) (itemRows (put_item ?i s)) = ?others @ [?i]"
    using i by (simp add: put_item_def insert_or_replace_def conj_commute)
  moreover have "None < sortingId j" if "j \<in> set ?others" for j
  proof -
    have "item (item_id j) s = Some j" "item_status j = TL_whitelisted"
      using that by (auto simp: item_in_rows [OF keys])
    then have "sortingId j \<noteq> None" using ok by (auto simp: tokens_ok_def shown_def position_def dest!: spec [of _ "item_id j"])
    then show ?thesis by auto
  qed
  ultimately have "whitelisted (put_item ?i s) = ?i # sort_key sortingId ?others"
    using i by (simp only: whitelisted_def) (rule sort_key_snoc_min, simp)
  then have "display (put_item ?i s) = token_id t # filter (\<lambda>k. k \<noteq> token_id t) (display s)"
    using i by (simp add: display_def whitelisted_def filter_sort [symmetric] filter_map comp_def)
  moreover have "find_item now (token_id t) s = Some e" using e ne by (simp add: find_item_def item_def)
  moreover have "save_item now ?i s = (Returns (put_item ?i s) :: ('e, tokens) outcome)"
    using ne sh i by (simp add: save_item_def prepare_cases)
  ultimately show ?thesis using i by (auto simp: whitelist_def Let_def position_def)
qed

text \<open>
  The user's choices act on the displayed list as they should: whitelisting a hidden token appends it,
  blacklisting a shown one takes it out, and rearranging with a permutation of the shown tokens gives exactly that order. Each of
  them returns and keeps the stored sorting numbers different from each other.
\<close>

theorem token_choices:
  assumes "tokens_ok s" and "token_id t \<noteq> token_id Token_Ether"
    and "Int_min \<le> lastWhitelistedId s + 1" and "lastWhitelistedId s + 1 \<le> Int_max"
  shows "(item (token_id t) s \<noteq> None \<and> \<not> shown (token_id t) s \<longrightarrow>
      (\<exists>s'. whitelist now t s = (Returns s' :: (unit, tokens) outcome) \<and> tokens_ok s' \<and> display s' = display s @ [token_id t])) \<and>
    (shown (token_id t) s \<longrightarrow>
      (\<exists>s'. blacklist now t s = (Returns s' :: (unit, tokens) outcome) \<and> tokens_ok s' \<and>
         display s' = filter (\<lambda>k. k \<noteq> token_id t) (display s))) \<and>
    (distinct (map token_id ts) \<and> set (map token_id ts) = set (display s) \<longrightarrow>
      (\<exists>s'. rearrange now ts s = (Returns s' :: (unit, tokens) outcome) \<and> tokens_ok s' \<and> display s' = map token_id ts))"
  using whitelist_new [OF assms(1,2) _ _ assms(3,4), where 'a = unit] blacklist_shown [OF assms(1,2), where 'a = unit]
    rearrange_display [OF assms(1), where 'e = unit]
  by blast

text \<open>
  Whitelisting a token that is shown already loses its place. The new item has no sorting number and the
  number of the stored one is not copied, so the token moves to the front, and the sorting numbers are no
  longer complete. This happens to every token with a balance whenever \<^verbatim>\<open>updateTokens\<close> runs, so the order that the user
  arranged does not survive a synchronisation.
\<close>

theorem rewhitelisting_loses_place:
  assumes "tokens_ok s" and "token_id t \<noteq> token_id Token_Ether" and "shown (token_id t) s"
  shows "\<exists>s'. whitelist now t s = (Returns s' :: (unit, tokens) outcome) \<and>
    updateTokens now [t] s = (Returns s' :: (unit, tokens) outcome) \<and>
    display s' = token_id t # filter (\<lambda>k. k \<noteq> token_id t) (display s) \<and> \<not> tokens_ok s'"
proof -
  obtain s' where s': "whitelist now t s = (Returns s' :: (unit, tokens) outcome)" "position (token_id t) s' = None"
    "display s' = token_id t # filter (\<lambda>k. k \<noteq> token_id t) (display s)"
    using rewhitelist [OF assms, where 'e = unit] by blast
  obtain e where "item (token_id t) s = Some e" "item_status e = TL_whitelisted" using assms(3) by (auto simp: shown_iff)
  moreover have "foldO (updateToken now) [] = (Returns :: tokens \<Rightarrow> (unit, tokens) outcome)" by (rule ext) simp
  ultimately have "updateTokens now [t] s = (whitelist now t s :: (unit, tokens) outcome)"
    using assms(2) by (simp add: updateTokens_def updateToken_def find_item_def item_def)
  moreover have "\<not> tokens_ok s'"
    using set_display [of s'] s' by (auto simp: tokens_ok_def)
  ultimately show ?thesis using s' by auto
qed

subsection \<open>A sample list\<close>

lemma tokens_okI:
  assumes keys: "keys_distinct item_id (itemRows s)" and "token_id Token_Ether \<notin> item_id ` set (itemRows s)"
    and num: "list_all (\<lambda>i. item_status i = TL_whitelisted \<longrightarrow> sortingId i \<noteq> None) (itemRows s)"
    and dist: "distinct (map sortingId (filter (\<lambda>i. item_status i = TL_whitelisted) (itemRows s)))"
  shows "tokens_ok s"
proof -
  have row: "i \<in> set (itemRows s)" if "item k s = Some i" for k i
    using that item_in_rows [OF keys] by blast
  have inj: "inj_on sortingId {i \<in> set (itemRows s). item_status i = TL_whitelisted}"
    using dist by (simp add: distinct_map)
  have "inj_on (\<lambda>k. position k s) {k. shown k s}"
  proof (rule inj_onI)
    fix j k
    assume "j \<in> {k. shown k s}" "k \<in> {k. shown k s}" and eq: "position j s = position k s"
    then obtain a b where ab: "item j s = Some a" "item_status a = TL_whitelisted" "item k s = Some b" "item_status b = TL_whitelisted"
      by (auto simp: shown_iff)
    with eq have "a = b" by (intro inj_onD [OF inj]) (auto simp: position_def row)
    with ab item_id_item show "j = k" by metis
  qed
  then show ?thesis
    using assms row by (auto simp: tokens_ok_def shown_iff position_def list_all_iff item_def find_row_None_iff)
qed

definition sample_token :: "string \<Rightarrow> char \<Rightarrow> Token" where
  "sample_token symbol digit =
     \<lparr>code = symbol, token_name = symbol, decimals = 18, token_address = Address (''0x'' @ replicate 40 digit), logoUrl = []\<rparr>"

definition sample_item :: "string \<Rightarrow> char \<Rightarrow> TokenListItemStatus \<Rightarrow> int option \<Rightarrow> TokenListItem" where
  "sample_item symbol digit st n =
     \<lparr>item_token = sample_token symbol digit, item_status = st, canPayTransactionFee = False, sortingId = n, updated = 0\<rparr>"

definition sample_tokens :: tokens where
  "sample_tokens =
     \<lparr>itemRows = [sample_item ''GNO'' CHR ''a'' TL_whitelisted (Some 1), sample_item ''DAI'' CHR ''b'' TL_whitelisted (Some 0),
        sample_item ''OMG'' CHR ''c'' TL_blacklisted None, sample_item ''ZRX'' CHR ''d'' TL_regular None],
      token_events = [], balanceUpdates = []\<rparr>"

lemma sample_ids [simp]:
  "token_id (sample_token s d) = ''0x'' @ replicate 40 d" "item_id (sample_item s d st n) = ''0x'' @ replicate 40 d"
  by (simp_all add: token_id_def item_id_def sample_token_def sample_item_def)

lemma sample_fields [simp]:
  "item_status (sample_item s d st n) = st" "sortingId (sample_item s d st n) = n"
  by (simp_all add: sample_item_def)

lemma ether_id: "token_id Token_Ether = ''0x'' @ replicate 40 (CHR ''0'')"
  by (simp add: token_id_def Token_Ether_def Address_zero_def numeral_eq_Suc)

lemma sample_ok: "tokens_ok sample_tokens" "lastWhitelistedId sample_tokens = 1"
  "display sample_tokens = [''0x'' @ replicate 40 (CHR ''b''), ''0x'' @ replicate 40 (CHR ''a'')]"
  "\<And>k. item k sample_tokens =
     (if k = ''0x'' @ replicate 40 (CHR ''a'') then Some (sample_item ''GNO'' CHR ''a'' TL_whitelisted (Some 1))
      else if k = ''0x'' @ replicate 40 (CHR ''b'') then Some (sample_item ''DAI'' CHR ''b'' TL_whitelisted (Some 0))
      else if k = ''0x'' @ replicate 40 (CHR ''c'') then Some (sample_item ''OMG'' CHR ''c'' TL_blacklisted None)
      else if k = ''0x'' @ replicate 40 (CHR ''d'') then Some (sample_item ''ZRX'' CHR ''d'' TL_regular None) else None)"
proof -
  show "tokens_ok sample_tokens"
    by (rule tokens_okI) (simp_all add: sample_tokens_def keys_distinct_def ether_id)
  show "lastWhitelistedId sample_tokens = 1" 
    "display sample_tokens = [''0x'' @ replicate 40 (CHR ''b''), ''0x'' @ replicate 40 (CHR ''a'')]"
    by (simp_all add: lastWhitelistedId_def display_def whitelisted_def sample_tokens_def)
qed (auto simp: item_def find_row_def sample_tokens_def)

theorem token_merge_witness:
  "\<exists>t. mergeStoredTokenItems 5
        [sample_item ''DAI'' CHR ''b'' TL_regular None, sample_item ''KNC'' CHR ''e'' TL_whitelisted None] sample_tokens =
      (Returns t :: (unit, tokens) outcome) \<and> item (''0x'' @ replicate 40 (CHR ''c'')) t = None \<and>
    display t = [''0x'' @ replicate 40 (CHR ''b''), ''0x'' @ replicate 40 (CHR ''a''), ''0x'' @ replicate 40 (CHR ''e'')]"
proof -
  let ?ls = "[sample_item ''DAI'' CHR ''b'' TL_regular None, sample_item ''KNC'' CHR ''e'' TL_whitelisted None]"
  have "distinct (map item_id ?ls)" "token_id Token_Ether \<notin> item_id ` set ?ls"
    "Int_min \<le> lastWhitelistedId sample_tokens + 1" "lastWhitelistedId sample_tokens + int (length ?ls) \<le> Int_max"
    by (simp_all add: ether_id sample_ok Int_min_def Int_max_def)
  from token_merge [OF sample_ok(1) this, where now = 5] obtain t
    where t: "mergeStoredTokenItems 5 ?ls sample_tokens = (Returns t :: (unit, tokens) outcome)"
      and items: "\<forall>k. map_option (updateSortingId None) (item k t) =
         map_option (updateSortingId None) (merged_item 5 (item k sample_tokens) (find_row item_id k ?ls))"
      and d: "display t = display sample_tokens @
         map item_id (filter (\<lambda>l. \<not> chosen (item_id l) sample_tokens \<and> item_status l = TL_whitelisted) ?ls)"
    by blast
  have "item (''0x'' @ replicate 40 (CHR ''c'')) t = None"
    using items [THEN spec, of "''0x'' @ replicate 40 (CHR ''c'')"] by (simp add: sample_ok merged_item_def find_row_def)
  moreover have "display t = [''0x'' @ replicate 40 (CHR ''b''), ''0x'' @ replicate 40 (CHR ''a''), ''0x'' @ replicate 40 (CHR ''e'')]"
    by (simp add: d sample_ok chosen_def)
  ultimately show ?thesis using t by blast
qed

theorem token_choices_witness:
  "\<exists>s'. rearrange 5 [sample_token ''GNO'' CHR ''a'', sample_token ''DAI'' CHR ''b''] sample_tokens =
      (Returns s' :: (unit, tokens) outcome) \<and>
    display s' = [''0x'' @ replicate 40 (CHR ''a''), ''0x'' @ replicate 40 (CHR ''b'')]"
  using token_choices [OF sample_ok(1), where t = "sample_token ''GNO'' CHR ''a''" and now = 5
      and ts = "[sample_token ''GNO'' CHR ''a'', sample_token ''DAI'' CHR ''b'']"]
  by (auto simp: ether_id sample_ok Int_min_def Int_max_def)

theorem rewhitelisting_loses_place_witness:
  "\<exists>s'. updateTokens 5 [sample_token ''GNO'' CHR ''a''] sample_tokens = (Returns s' :: (unit, tokens) outcome) \<and>
    display s' = [''0x'' @ replicate 40 (CHR ''a''), ''0x'' @ replicate 40 (CHR ''b'')]"
  using rewhitelisting_loses_place [OF sample_ok(1), where t = "sample_token ''GNO'' CHR ''a''" and now = 5]
  by (auto simp: ether_id sample_ok shown_def)

end
