(* ===== verification/Accounts.thy ===== *)
theory Accounts
  imports TxHash TokenList
begin

section \<open>The state of the wallet app, accounts and tokens\<close>

text \<open>
  The repositories that the transaction services share are the fields of \<open>app\<close>: wallets, accounts and events
  (\<open>world\<close>), the token list, the portfolio and the transactions. A repository call returns a copy of the row, as the
  database repositories do (\<open>RowFormats\<close> shows that reading a saved row gives the same object, except that data of
  length zero comes back as \<^verbatim>\<open>nil\<close>; the rows here keep it, and the digest does not distinguish the two).

  Modelled here: \<^verbatim>\<open>DBAccountRepository.swift\<close>, \<^verbatim>\<open>AccountUpdateDomainService.swift\<close>, the token lookup of
  \<^verbatim>\<open>WalletDomainService.swift\<close> and \<^verbatim>\<open>TransactionDomainService.token(for:)\<close>. The Ethereum node is the record \<open>node\<close>.
  The main result states what one balance update does to every account row, also when the node fails half way.
\<close>

subsection \<open>State and environment\<close>

record app =
  app_world :: world
  app_tokens :: tokens
  app_portfolio :: "Portfolio option"
  txRows :: "Transaction list"

record TransactionReceipt =
  receipt_success :: bool
  receipt_blockHash :: string

record node =
  node_eth_call :: "Address \<Rightarrow> data \<Rightarrow> (unit, data) outcome"
  node_utf8 :: "data \<Rightarrow> string option"
  node_getBalance :: "Address \<Rightarrow> (unit, int) outcome"
  node_getTransactionReceipt :: "TransactionHash \<Rightarrow> (unit, TransactionReceipt option) outcome"
  node_blockTimestamp :: "string \<Rightarrow> (unit, time option) outcome"

text \<open>
  Everything outside the sources that the services use: the packages, the node, the configured contract metadata, the checksum
  spelling of an address, the choice SQLite makes among rows with the latest creation date, and the
  elliptic curve library (parsing of its integers, the byte form of a signature, public key recovery, addresses and signing).
\<close>

record env =
  env_packages :: packages
  env_bigint :: bigint
  env_hexint :: hexint
  env_node :: node
  env_metadata :: SafeContractMetadata
  env_eip55 :: "data \<Rightarrow> string"
  env_newest :: "Transaction list \<Rightarrow> Transaction option"
  env_BInt :: "string \<Rightarrow> int option"
  env_calculateSignature :: "int \<Rightarrow> int \<Rightarrow> int \<Rightarrow> data"
  env_publicKey :: "data \<Rightarrow> data \<Rightarrow> data option"
  env_createAddress :: "data \<Rightarrow> string"
  env_addressString :: "data \<Rightarrow> string"
  env_sign :: "data \<Rightarrow> data \<Rightarrow> data option"

text \<open>\<open>optionalTry\<close> is \<^verbatim>\<open>try?\<close> on a call that returns an optional.\<close>

primrec optionalTry :: "('e, 'a option) outcome \<Rightarrow> ('f, 'a option) outcome" where
  "optionalTry (Returns v) = Returns v"
| "optionalTry (Throws e) = Returns None"
| "optionalTry Traps = Traps"

definition publish_event :: "DomainEvent \<Rightarrow> app \<Rightarrow> app" where
  "publish_event e s = s\<lparr>app_world := publish e (app_world s)\<rparr>"

definition wallet_with :: "WalletID \<Rightarrow> app \<Rightarrow> Wallet option" where
  "wallet_with i s = find_id i (app_world s)"

definition selected_wallet :: "app \<Rightarrow> Wallet option" where
  "selected_wallet s =
     (case Option.bind (app_portfolio s) selectedWallet of None \<Rightarrow> None | Some i \<Rightarrow> wallet_with i s)"

subsection \<open>Accounts\<close>

definition AccountID_tokenID :: "string \<Rightarrow> ('e, string) outcome" where
  "AccountID_tokenID i =
     (case filter (\<lambda>c. c \<noteq> []) (components '':'' i) of t # _ \<Rightarrow> Returns t | _ \<Rightarrow> Traps)"

definition balance_with :: "string \<Rightarrow> app \<Rightarrow> int option option" where
  "balance_with i s = find_account i (app_world s)"

definition save_account :: "string \<times> int option \<Rightarrow> app \<Rightarrow> app" where
  "save_account a s =
     s\<lparr>app_world := (app_world s)\<lparr>accountRows := insert_or_replace fst a (accountRows (app_world s))\<rparr>\<rparr>"

definition remove_account :: "string \<times> int option \<Rightarrow> app \<Rightarrow> app" where
  "remove_account a s =
     s\<lparr>app_world := (app_world s)\<lparr>accountRows := delete_row fst (fst a) (accountRows (app_world s))\<rparr>\<rparr>"

interpretation accounts: entity_table "\<lambda>s. accountRows (app_world s)" fst save_account remove_account
  by unfold_locales (simp_all add: save_account_def remove_account_def)

definition findOrCreateAccount :: "string \<Rightarrow> WalletID \<Rightarrow> app \<Rightarrow> ('e, string \<times> app) outcome" where
  "findOrCreateAccount tokenID walletID s =
     bindO (accountID tokenID walletID) (\<lambda>i.
     Returns (i, if balance_with i s = None then save_account (i, None) s else s))"

definition balance_of :: "env \<Rightarrow> app \<Rightarrow> string \<Rightarrow> (unit, int option) outcome" where
  "balance_of V s i =
     bindO (AccountID_walletID i) (\<lambda>w.
     case Option.bind (wallet_with w s) address of
       None \<Rightarrow> Returns None
     | Some a \<Rightarrow>
         bindO (AccountID_tokenID i) (\<lambda>t.
         if t = token_id Token_Ether then bindO (node_getBalance (env_node V) a) (\<lambda>n. Returns (Some n))
         else bindO (Address_init (env_packages V) t) (\<lambda>contract.
              bindO (balanceOf (env_packages V) (node_eth_call (env_node V)) contract a) (\<lambda>n. Returns (Some n)))))"

text \<open>The loop ends at the first error of the node; the flag says whether it ran to its end.\<close>

fun updateAccountsBalances :: "env \<Rightarrow> string list \<Rightarrow> app \<Rightarrow> ('e, bool \<times> app) outcome" where
  "updateAccountsBalances V [] s = Returns (True, s)"
| "updateAccountsBalances V (i # is) s =
     (case balance_of V s i of
        Traps \<Rightarrow> Traps
      | Throws _ \<Rightarrow> Returns (False, s)
      | Returns None \<Rightarrow> updateAccountsBalances V is s
      | Returns (Some n) \<Rightarrow>
          (case balance_with i s of
             None \<Rightarrow> updateAccountsBalances V is s
           | Some _ \<Rightarrow> updateAccountsBalances V is (save_account (i, Some n) s)))"

fun findOrCreateAccounts :: "string \<Rightarrow> WalletID list \<Rightarrow> app \<Rightarrow> ('e, string list \<times> app) outcome" where
  "findOrCreateAccounts t [] s = Returns ([], s)"
| "findOrCreateAccounts t (w # ws) s =
     bindO (findOrCreateAccount t w s) (\<lambda>(i, s1).
     bindO (findOrCreateAccounts t ws s1) (\<lambda>(is, s2). Returns (i # is, s2)))"

definition updateAccountBalance :: "env \<Rightarrow> Token \<Rightarrow> app \<Rightarrow> ('e, bool \<times> app) outcome" where
  "updateAccountBalance V t s =
     (case app_portfolio s of
        None \<Rightarrow> Returns (True, s)
      | Some p \<Rightarrow>
          if wallets p = [] then Returns (True, s)
          else bindO (findOrCreateAccounts (token_id t) (wallets p) s) (\<lambda>(is, s1).
               bindO (updateAccountsBalances V is s1) (\<lambda>(completed, s2).
               Returns (completed, if completed then publish_event AccountsBalancesUpdated s2 else s2))))"

subsection \<open>Tokens\<close>

definition token_with_id :: "time \<Rightarrow> string \<Rightarrow> app \<Rightarrow> Token option" where
  "token_with_id now i s =
     (if i = token_id Token_Ether then Some Token_Ether
      else map_option item_token (find_item now i (app_tokens s)))"

definition unknown_token :: "env \<Rightarrow> Address \<Rightarrow> ('e, Token) outcome" where
  "unknown_token V a =
     (let E = env_packages V; N = env_node V;
          dflt = \<lparr>code = ''---'', token_name = address_value a, decimals = 18, token_address = a, logoUrl = []\<rparr>
      in bindO (optionalTry (ERC20_name E (node_utf8 N) (node_eth_call N) a)) (\<lambda>name.
         case name of None \<Rightarrow> Returns dflt | Some n \<Rightarrow>
         bindO (optionalTry (ERC20_symbol E (node_utf8 N) (node_eth_call N) a)) (\<lambda>symbol.
         case symbol of None \<Rightarrow> Returns dflt | Some c \<Rightarrow>
         bindO (optionalTry (bindO (ERC20_decimals E (node_eth_call N) a) (\<lambda>d. Returns (Some d)))) (\<lambda>decs.
         case decs of None \<Rightarrow> Returns dflt | Some d \<Rightarrow>
         Returns \<lparr>code = c, token_name = n, decimals = d, token_address = a, logoUrl = []\<rparr>))))"

definition token_for :: "env \<Rightarrow> time \<Rightarrow> Address \<Rightarrow> app \<Rightarrow> ('e, Token \<times> app) outcome" where
  "token_for V now a s =
     (case token_with_id now (address_value a) s of
        Some t \<Rightarrow> Returns (t, s)
      | None \<Rightarrow>
          bindO (unknown_token V a) (\<lambda>t.
          bindO (updateAccountBalance V t s) (\<lambda>(_, s1). Returns (t, s1))))"

subsection \<open>What a token lookup leaves alone\<close>

definition accounts_only :: "app \<Rightarrow> app \<Rightarrow> bool" where
  "accounts_only s s' \<longleftrightarrow>
     txRows s' = txRows s \<and> app_tokens s' = app_tokens s \<and> app_portfolio s' = app_portfolio s \<and>
     walletRows (app_world s') = walletRows (app_world s) \<and> deviceKeys (app_world s') = deviceKeys (app_world s)"

lemma accounts_only_refl [simp]: "accounts_only s s"
  by (simp add: accounts_only_def)

lemma accounts_only_trans: "accounts_only s s1 \<Longrightarrow> accounts_only s1 s2 \<Longrightarrow> accounts_only s s2"
  by (simp add: accounts_only_def)

lemma accounts_only_save [simp]: "accounts_only s (save_account a s)"
  by (simp add: accounts_only_def save_account_def)

lemma accounts_only_publish [simp]: "accounts_only s (publish_event e s)"
  by (simp add: accounts_only_def publish_event_def publish_def)

lemma accounts_only_wallets: "accounts_only s s' \<Longrightarrow> wallet_with i s' = wallet_with i s"
  by (simp add: accounts_only_def wallet_with_def find_id_def)

lemma accounts_only_balance_of: "accounts_only s s' \<Longrightarrow> balance_of V s' i = balance_of V s i"
  by (simp add: balance_of_def accounts_only_wallets)

lemma balance_with_save: "balance_with k (save_account (i, b) s) = (if k = i then Some b else balance_with k s)"
proof -
  have "map_of rows k = map_option snd (find_row fst k rows)" for rows :: "(string \<times> int option) list" and k
    unfolding find_row_def by (induction rows) auto
  then show ?thesis using accounts.lookup_save [of k "(i, b)" s]
    by (simp add: balance_with_def find_account_def accounts.lookup_def)
qed

lemma balance_with_publish [simp]: "balance_with k (publish_event e s) = balance_with k s"
  by (simp add: balance_with_def publish_event_def publish_def find_account_def)

text \<open>The balance after the node was asked for it.\<close>

definition refreshed_balance :: "env \<Rightarrow> app \<Rightarrow> string \<Rightarrow> int option \<Rightarrow> int option" where
  "refreshed_balance V s i b = (case balance_of V s i of Returns (Some n) \<Rightarrow> Some n | _ \<Rightarrow> b)"

lemma refreshed_balance_frame: "accounts_only s s' \<Longrightarrow> refreshed_balance V s' = refreshed_balance V s"
  by (simp add: refreshed_balance_def accounts_only_balance_of fun_eq_iff)

text \<open>The accounts \<open>done\<close> got the balance of the node, all others are as before.\<close>

definition balances_after :: "env \<Rightarrow> app \<Rightarrow> string list \<Rightarrow> app \<Rightarrow> bool" where
  "balances_after V s done s' \<longleftrightarrow>
     accounts_only s s' \<and>
     (\<forall>k. balance_with k s' =
        (if k \<in> set done then map_option (refreshed_balance V s k) (balance_with k s) else balance_with k s))"

lemma balances_after_Nil: "balances_after V s [] s"
  by (simp add: balances_after_def)

lemma balances_after_skip:
  assumes "balances_after V s done s'" and "balance_of V s i = Returns None \<or> balance_with i s = None"
  shows "balances_after V s (i # done) s'"
proof -
  have "map_option (refreshed_balance V s i) (balance_with i s) = balance_with i s"
    using assms(2) by (cases "balance_with i s") (auto simp: refreshed_balance_def)
  with assms(1) show ?thesis by (simp add: balances_after_def)
qed

lemma balances_after_save:
  assumes "balances_after V (save_account (i, Some n) s) done s'"
    and "balance_of V s i = Returns (Some n)" "balance_with i s = Some c"
  shows "balances_after V s (i # done) s'"
proof -
  have "refreshed_balance V s i c = Some n" "refreshed_balance V s i (Some n) = Some n"
    using assms(2) by (simp_all add: refreshed_balance_def)
  moreover have "accounts_only s s'"
    using assms(1) accounts_only_trans [OF accounts_only_save] unfolding balances_after_def by blast
  ultimately show ?thesis
    using assms(1,3) refreshed_balance_frame [OF accounts_only_save, of V "(i, Some n)" s]
    by (simp add: balances_after_def balance_with_save)
qed

lemma updateAccountsBalances_spec:
  fixes completed :: bool
  assumes "updateAccountsBalances V is s = (Returns (completed, s') :: ('e, bool \<times> app) outcome)"
  obtains "done" rest where "is = done @ rest" "completed \<longleftrightarrow> rest = []" "balances_after V s done s'"
proof -
  have "\<exists>done rest. is = done @ rest \<and> (completed \<longleftrightarrow> rest = []) \<and> balances_after V s done s'"
    using assms
  proof (induction "is" arbitrary: s)
    case Nil
    then show ?case by (simp add: balances_after_Nil)
  next
    case (Cons i "is")
    have go: ?case if "updateAccountsBalances V is u = (Returns (completed, s') :: ('e, bool \<times> app) outcome)"
      "\<And>done. balances_after V u done s' \<Longrightarrow> balances_after V s (i # done) s'" for u
      using Cons.IH [OF that(1)] that(2) by (metis append_Cons)
    consider e where "balance_of V s i = Throws e" | "balance_of V s i = Returns None \<or> (\<exists>n. balance_of V s i = Returns (Some n)) \<and> balance_with i s = None"
      | n c where "balance_of V s i = Returns (Some n)" "balance_with i s = Some c"
      using Cons.prems by (cases "balance_of V s i"; cases "balance_with i s") (auto, metis not_None_eq)
    then show ?case
    proof cases
      case 1
      with Cons.prems have "s' = s" "\<not> completed" by auto
      then show ?thesis using balances_after_Nil by blast
    next
      case 2
      with Cons.prems have "updateAccountsBalances V is s = (Returns (completed, s') :: ('e, bool \<times> app) outcome)" by auto
      then show ?thesis using balances_after_skip 2 by (intro go) blast+
    next
      case 3
      with Cons.prems show ?thesis using balances_after_save [OF _ 3] by (intro go [of "save_account (i, Some n) s"]) auto
    qed
  qed
  then show thesis using that by blast
qed

lemma events_updateAccountsBalances:
  "updateAccountsBalances V is s = Returns (completed, s') \<Longrightarrow> events (app_world s') = events (app_world s)"
  by (induction V "is" s rule: updateAccountsBalances.induct)
    (auto simp: save_account_def split: outcome.splits option.splits)

text \<open>The balance an account starts with when it is looked up.\<close>

definition known_balance :: "app \<Rightarrow> string \<Rightarrow> int option" where
  "known_balance s k = (case balance_with k s of None \<Rightarrow> None | Some b \<Rightarrow> b)"

lemma findOrCreateAccounts_spec:
  assumes "findOrCreateAccounts t ws s = (Returns (is, s') :: ('e, string list \<times> app) outcome)"
  shows "is = map (\<lambda>w. t @ '':'' @ w) ws \<and> accounts_only s s' \<and> events (app_world s') = events (app_world s) \<and>
    (\<forall>k. balance_with k s' = (if k \<in> set is then Some (known_balance s k) else balance_with k s))"
  using assms
proof (induction ws arbitrary: s "is")
  case (Cons w ws)
  let ?i = "t @ '':'' @ w"
  define u where "u = (if balance_with ?i s = None then save_account (?i, None) s else s)"
  from Cons.prems obtain js where js: "findOrCreateAccounts t ws u = (Returns (js, s') :: ('e, _) outcome)" "is = ?i # js"
    by (auto simp: u_def findOrCreateAccount_def accountID_def split: if_split_asm)
  have 1: "accounts_only s u" by (simp add: u_def)
  have "events (app_world u) = events (app_world s)" by (simp add: u_def save_account_def)
  note 1 = 1 this
  have 2: "balance_with k u = (if k = ?i then Some (known_balance s k) else balance_with k s)"
    "known_balance u k = known_balance s k" for k
    by (auto simp: u_def balance_with_save known_balance_def split: option.split)
  from Cons.IH [OF js(1)] 1 2 js(2) show ?case by (auto intro: accounts_only_trans)
qed simp

lemma updateAccountBalance_frame:
  assumes "updateAccountBalance V t s = (Returns (completed, s') :: ('e, bool \<times> app) outcome)"
  shows "accounts_only s s'"
proof (cases "\<exists>p. app_portfolio s = Some p \<and> wallets p \<noteq> []")
  case True
  then obtain p where "app_portfolio s = Some p" "wallets p \<noteq> []" by blast
  with assms obtain "is" s1 s2 where s1: "findOrCreateAccounts (token_id t) (wallets p) s = (Returns (is, s1) :: ('e, _) outcome)"
    and s2: "updateAccountsBalances V is s1 = (Returns (completed, s2) :: ('e, _) outcome)"
    and s': "s' = (if completed then publish_event AccountsBalancesUpdated s2 else s2)"
    by (auto simp: updateAccountBalance_def)
  have "accounts_only s1 s2" using s2 by (rule updateAccountsBalances_spec) (simp add: balances_after_def)
  then show ?thesis
    using findOrCreateAccounts_spec [OF s1] accounts_only_trans accounts_only_publish unfolding s' by (metis (full_types))
qed (use assms in \<open>auto simp: updateAccountBalance_def split: option.splits\<close>)

text \<open>
  A balance update creates the missing accounts of the token for all wallets of the portfolio and asks the node for their
  balances one after another. The accounts that were asked for have the node's answer; at the first failure the others
  keep what was known, and no event is published. No other account and no other table changes.
\<close>

theorem account_balances:
  assumes "updateAccountBalance V t s = (Returns (completed, s') :: ('e, bool \<times> app) outcome)"
    and "app_portfolio s = Some p" "wallets p \<noteq> []"
  shows "accounts_only s s' \<and>
    events (app_world s') = events (app_world s) @ (if completed then [AccountsBalancesUpdated] else []) \<and>
    (\<exists>done rest. map (\<lambda>w. token_id t @ '':'' @ w) (wallets p) = done @ rest \<and> (completed \<longleftrightarrow> rest = []) \<and>
      (\<forall>k. balance_with k s' =
        (if k \<in> set done then Some (refreshed_balance V s k (known_balance s k))
         else if k \<in> set rest then Some (known_balance s k) else balance_with k s)))"
proof -
  obtain "is" s1 s2 where s1: "findOrCreateAccounts (token_id t) (wallets p) s = (Returns (is, s1) :: ('e, _) outcome)"
    and s2: "updateAccountsBalances V is s1 = (Returns (completed, s2) :: ('e, _) outcome)"
    and s': "s' = (if completed then publish_event AccountsBalancesUpdated s2 else s2)"
    using assms by (auto simp: updateAccountBalance_def)
  note 1 = findOrCreateAccounts_spec [OF s1]
  obtain "done" rest where 2: "is = done @ rest" "completed \<longleftrightarrow> rest = []" "balances_after V s1 done s2"
    using s2 by (rule updateAccountsBalances_spec)
  have "accounts_only s s'" using assms(1) by (rule updateAccountBalance_frame)
  moreover have "events (app_world s') = events (app_world s) @ (if completed then [AccountsBalancesUpdated] else [])"
    using 1 events_updateAccountsBalances [OF s2] by (simp add: s' publish_event_def publish_def)
  moreover have "balance_with k s' =
      (if k \<in> set done then Some (refreshed_balance V s k (known_balance s k))
       else if k \<in> set rest then Some (known_balance s k) else balance_with k s)" for k
    using 1 2 refreshed_balance_frame [of s s1 V] by (auto simp: s' balances_after_def)
  ultimately show ?thesis using 1 2 by blast
qed

lemma token_for_frame:
  assumes "token_for V now a s = (Returns (t, s') :: ('e, Token \<times> app) outcome)"
  shows "accounts_only s s'"
  using assms updateAccountBalance_frame [where ?'e = 'e]
  by (auto simp: token_for_def split: option.splits)

subsection \<open>Samples\<close>

lemma AccountID_pair:
  assumes "CHR '':'' \<notin> set t" "CHR '':'' \<notin> set w" "t \<noteq> []" "w \<noteq> []"
  shows "AccountID_walletID (t @ '':'' @ w) = Returns w" "AccountID_tokenID (t @ '':'' @ w) = Returns t"
proof -
  have "components '':'' (t @ '':'' @ w) = [t, w]"
    using components_joined [of "[t, w]" "CHR '':''" "[]"] assms by simp
  with assms show "AccountID_walletID (t @ '':'' @ w) = Returns w" "AccountID_tokenID (t @ '':'' @ w) = Returns t"
    by (simp_all add: AccountID_walletID_def AccountID_tokenID_def)
qed

definition sampleNode :: node where
  "sampleNode =
     \<lparr>node_eth_call = \<lambda>_ _. Throws (), node_utf8 = \<lambda>_. None, node_getBalance = \<lambda>_. Returns 3,
      node_getTransactionReceipt = \<lambda>_. Returns None, node_blockTimestamp = \<lambda>_. Returns None\<rparr>"

definition accountsEnv :: env where
  "accountsEnv =
     \<lparr>env_packages = samplePackages, env_bigint = sampleBigint, env_hexint = sampleHexint, env_node = sampleNode,
      env_metadata = sampleMetadata, env_eip55 = hex_of_bytes, env_newest = (\<lambda>_. None), env_BInt = read_int,
      env_calculateSignature = (\<lambda>_ _ _. []), env_publicKey = (\<lambda>_ _. None), env_createAddress = (\<lambda>_. []),
      env_addressString = (\<lambda>_. []), env_sign = (\<lambda>_ _. None)\<rparr>"

definition accountsApp :: app where
  "accountsApp =
     \<lparr>app_world = \<lparr>walletRows = [row_wallet\<lparr>address := Some (row_address CHR ''c'')\<rparr>], accountRows = [], deviceKeys = [], events = []\<rparr>,
      app_tokens = \<lparr>itemRows = [], token_events = [], balanceUpdates = []\<rparr>,
      app_portfolio = Some \<lparr>selectedWallet = Some ''w'', wallets = [''w'']\<rparr>, txRows = []\<rparr>"

theorem account_balances_witness:
  "\<exists>s'. updateAccountBalance accountsEnv Token_Ether accountsApp = (Returns (True, s') :: (unit, _) outcome) \<and>
     balance_with (token_id Token_Ether @ '':'' @ ''w'') s' = Some (Some 3)"
proof -
  define i where "i = token_id Token_Ether @ '':'' @ ''w''"
  have t: "token_id Token_Ether \<noteq> []" "CHR '':'' \<notin> set (token_id Token_Ether)"
    by (simp_all add: token_id_def Token_Ether_def Address_zero_def)
  have "AccountID_walletID i = (Returns ''w'' :: (unit, _) outcome)" "AccountID_tokenID i = (Returns (token_id Token_Ether) :: (unit, _) outcome)"
    unfolding i_def using t by (intro AccountID_pair; simp)+
  then have b: "balance_of accountsEnv accountsApp i = Returns (Some 3)"
    by (simp add: balance_of_def accountsEnv_def sampleNode_def wallet_with_def find_id_def accountsApp_def row_wallet_def Wallet_blank_def)
  let ?s = "save_account (i, None) accountsApp"
  have p: "app_portfolio accountsApp = Some \<lparr>selectedWallet = Some ''w'', wallets = [''w'']\<rparr>" "balance_with i accountsApp = None"
    by (simp_all add: accountsApp_def balance_with_def find_account_def)
  have "findOrCreateAccounts (token_id Token_Ether) [''w''] accountsApp = (Returns ([i], ?s) :: (unit, _) outcome)"
    using t(1) p(2) by (simp add: findOrCreateAccount_def accountID_def i_def)
  moreover have "updateAccountsBalances accountsEnv [i] ?s = (Returns (True, save_account (i, Some 3) ?s) :: (unit, _) outcome)"
    by (simp add: accounts_only_balance_of [OF accounts_only_save] b balance_with_save)
  ultimately obtain s' where s': "updateAccountBalance accountsEnv Token_Ether accountsApp = (Returns (True, s') :: (unit, _) outcome)"
    using p(1) by (auto simp: updateAccountBalance_def simp del: findOrCreateAccounts.simps updateAccountsBalances.simps)
  from account_balances [OF s' p(1)] have "balance_with i s' = Some (refreshed_balance accountsEnv accountsApp i (known_balance accountsApp i))"
    by (auto simp: i_def Cons_eq_append_conv)
  with s' b show ?thesis by (auto simp: refreshed_balance_def i_def)
qed

end
