(* ===== verification/MultiSend.thy ===== *)
theory MultiSend
  imports ContractMetadata
begin

section \<open>Batched transactions\<close>

text \<open>
  Model of \<^verbatim>\<open>MultiSend/MultiSendContractProxy.swift\<close>, \<^verbatim>\<open>MultiSendContractV1.swift\<close> and \<^verbatim>\<open>MultiSendContractV2.swift\<close>. The decoding loops consume the input; they are functions by recursion on
  its length.
\<close>

subsection \<open>MultiSendContractProxy.swift\<close>

datatype MultiSendTransactionOperation = MS_call | MS_delegateCall

fun MS_rawValue :: "MultiSendTransactionOperation \<Rightarrow> nat" where
  "MS_rawValue MS_call = 0"
| "MS_rawValue MS_delegateCall = 1"

definition MS_operation :: "int \<Rightarrow> MultiSendTransactionOperation option" where
  "MS_operation n = (if n = 0 then Some MS_call else if n = 1 then Some MS_delegateCall else None)"

record MultiSendTransaction =
  ms_operation :: MultiSendTransactionOperation
  ms_to :: Address
  ms_value :: int
  ms_data :: data

definition multiSendSignature :: string where
  "multiSendSignature = ''multiSend(bytes)''"

subsection \<open>MultiSendContractV1.swift\<close>

definition encode_tx_V1 :: "packages \<Rightarrow> MultiSendTransaction \<Rightarrow> data" where
  "encode_tx_V1 E tx =
     encodeUInt E (MS_rawValue (ms_operation tx)) @ encodeAddress E (ms_to tx) @
     encodeUInt E (nat \<bar>ms_value tx\<bar>) @ encodeUInt E (4 * 32) @ encodeBytes E (ms_data tx)"

definition multiSend_V1 :: "packages \<Rightarrow> MultiSendTransaction list \<Rightarrow> data" where
  "multiSend_V1 E transactions =
     invocation E multiSendSignature
       [encodeUInt E 32 @ encodeBytes E (concat (map (encode_tx_V1 E) transactions))]"

text \<open>One round of the loop: the transaction read and the bytes left, or \<open>None\<close> for \<^verbatim>\<open>return nil\<close>.\<close>

definition decode_tx_V1 :: "packages \<Rightarrow> data \<Rightarrow> ('e, (MultiSendTransaction \<times> data) option) outcome" where
  "decode_tx_V1 E bytes =
     (let operation = decodeUInt E bytes
      in bindO (removeFirst 32 bytes) (\<lambda>b1.
         bindO (Int_of_uint operation) (\<lambda>op.
           case MS_operation op of
             None \<Rightarrow> Returns None
           | Some txOperation \<Rightarrow>
               bindO (decodeAddress E b1) (\<lambda>to.
               bindO (removeFirst 32 b1) (\<lambda>b2.
                 let value = decodeUInt E b2
                 in bindO (removeFirst 32 b2) (\<lambda>b3.
                    bindO (removeFirst 32 b3) (\<lambda>b4.
                    bindO (decodeBytes E b4) (\<lambda>d.
                    bindO (removeFirst (length (encodeBytes E d)) b4) (\<lambda>b5.
                      Returns (Some (\<lparr>ms_operation = txOperation, ms_to = to, ms_value = int value, ms_data = d\<rparr>, b5)))))))))))"

lemma decode_tx_V1_shorter:
  "decode_tx_V1 E bytes = Returns (Some (tx, rest)) \<Longrightarrow> length rest < length bytes"
  by (auto simp: decode_tx_V1_def Let_def removeFirst_def split: if_splits option.splits)

function decode_loop_V1 ::
    "packages \<Rightarrow> data \<Rightarrow> MultiSendTransaction list \<Rightarrow> (unit, MultiSendTransaction list option) outcome" where
  "decode_loop_V1 E bytes result =
     (if bytes = [] then Returns (Some result)
      else case decode_tx_V1 E bytes of
          Returns (Some (tx, rest)) \<Rightarrow> decode_loop_V1 E rest (result @ [tx])
        | Returns None \<Rightarrow> Returns None
        | Throws e \<Rightarrow> Throws e
        | Traps \<Rightarrow> Traps)"
  by pat_completeness auto

termination
  by (relation "measure (\<lambda>(E, bytes, result). length bytes)") (auto dest: decode_tx_V1_shorter)

declare decode_loop_V1.simps [simp del]

definition decodeMultiSendArguments_V1 ::
    "packages \<Rightarrow> data \<Rightarrow> (unit, MultiSendTransaction list option) outcome" where
  "decodeMultiSendArguments_V1 E data =
     (let selector = abi_method E multiSendSignature
      in if take (length selector) data \<noteq> selector then Returns None
         else bindO (removeFirst (length selector) data) (\<lambda>input.
              bindO (removeFirst 32 input) (\<lambda>input1.
              bindO (decodeBytes E input1) (\<lambda>bytes. decode_loop_V1 E bytes []))))"

subsection \<open>MultiSendContractV2.swift\<close>

definition encodeAddress_V2 :: "packages \<Rightarrow> Address \<Rightarrow> data" where
  "encodeAddress_V2 E value = suffixD 20 (leftPadded (ethHex E (address_value value)) 20)"

definition decodeAddress_V2 :: "packages \<Rightarrow> data \<Rightarrow> ('e, Address) outcome" where
  "decodeAddress_V2 E value =
     Address_of_uint E (BigUInt_data E (if 20 < length value then take 20 value else value))"

definition encodeUInt8 :: "packages \<Rightarrow> nat \<Rightarrow> data" where
  "encodeUInt8 E value = suffixD 1 (leftPadded (ethHex E (String_radix16 E value)) 1)"

text \<open>\<^verbatim>\<open>UInt8(_:)\<close> of at most one byte always fits.\<close>

definition decodeUInt8 :: "packages \<Rightarrow> data \<Rightarrow> ('e, nat) outcome" where
  "decodeUInt8 E value =
     (let n = BigUInt_data E (if 1 < length value then take 1 value else value)
      in if n \<le> 255 then Returns n else Traps)"

definition encode_tx_V2 :: "packages \<Rightarrow> MultiSendTransaction \<Rightarrow> data" where
  "encode_tx_V2 E tx =
     encodeUInt8 E (MS_rawValue (ms_operation tx)) @ encodeAddress_V2 E (ms_to tx) @
     encodeUInt E (nat \<bar>ms_value tx\<bar>) @ encodeUInt E (length (ms_data tx)) @ ms_data tx"

definition multiSend_V2 :: "packages \<Rightarrow> MultiSendTransaction list \<Rightarrow> data" where
  "multiSend_V2 E transactions =
     invocation E multiSendSignature
       [encodeUInt E 32 @ encodeBytes E (concat (map (encode_tx_V2 E) transactions))]"

definition decode_tx_V2 :: "packages \<Rightarrow> data \<Rightarrow> ('e, (MultiSendTransaction \<times> data) option) outcome" where
  "decode_tx_V2 E bytes =
     bindO (decodeUInt8 E bytes) (\<lambda>operation.
     bindO (removeFirst 1 bytes) (\<lambda>b1.
       case MS_operation (int operation) of
         None \<Rightarrow> Returns None
       | Some txOperation \<Rightarrow>
           bindO (decodeAddress_V2 E b1) (\<lambda>to.
           bindO (removeFirst 20 b1) (\<lambda>b2.
             let value = decodeUInt E b2
             in bindO (removeFirst 32 b2) (\<lambda>b3.
                let len = decodeUInt E b3
                in bindO (removeFirst 32 b3) (\<lambda>b4.
                   bindO (Int_of_uint len) (\<lambda>n.
                     let d = take (nat n) b4
                     in bindO (removeFirst (nat n) b4) (\<lambda>b5.
                        Returns (Some (\<lparr>ms_operation = txOperation, ms_to = to, ms_value = int value, ms_data = d\<rparr>, b5))))))))))"

lemma decode_tx_V2_shorter:
  "decode_tx_V2 E bytes = Returns (Some (tx, rest)) \<Longrightarrow> length rest < length bytes"
  by (auto simp: decode_tx_V2_def Let_def removeFirst_def split: if_splits option.splits)

function decode_loop_V2 ::
    "packages \<Rightarrow> data \<Rightarrow> MultiSendTransaction list \<Rightarrow> (unit, MultiSendTransaction list option) outcome" where
  "decode_loop_V2 E bytes result =
     (if bytes = [] then Returns (Some result)
      else case decode_tx_V2 E bytes of
          Returns (Some (tx, rest)) \<Rightarrow> decode_loop_V2 E rest (result @ [tx])
        | Returns None \<Rightarrow> Returns None
        | Throws e \<Rightarrow> Throws e
        | Traps \<Rightarrow> Traps)"
  by pat_completeness auto

termination
  by (relation "measure (\<lambda>(E, bytes, result). length bytes)") (auto dest: decode_tx_V2_shorter)

declare decode_loop_V2.simps [simp del]

definition decodeMultiSendArguments_V2 ::
    "packages \<Rightarrow> data \<Rightarrow> (unit, MultiSendTransaction list option) outcome" where
  "decodeMultiSendArguments_V2 E data =
     (let selector = abi_method E multiSendSignature
      in if take (length selector) data \<noteq> selector then Returns None
         else bindO (removeFirst (length selector) data) (\<lambda>input.
              bindO (removeFirst 32 input) (\<lambda>input1.
              bindO (decodeBytes E input1) (\<lambda>bytes. decode_loop_V2 E bytes []))))"

subsection \<open>Choosing the version\<close>

definition proxy_address :: "SafeContractMetadata \<Rightarrow> Address \<Rightarrow> Address" where
  "proxy_address M contract = (if contract = Address_zero then md_multiSendContractAddress M else contract)"

definition multiSend :: "packages \<Rightarrow> SafeContractMetadata \<Rightarrow> Address \<Rightarrow> MultiSendTransaction list \<Rightarrow> data" where
  "multiSend E M contract transactions =
     (if multiSend_version M (proxy_address M contract) = Some 1
      then multiSend_V1 E transactions else multiSend_V2 E transactions)"

definition decodeMultiSendArguments ::
    "packages \<Rightarrow> SafeContractMetadata \<Rightarrow> Address \<Rightarrow> data \<Rightarrow> (unit, MultiSendTransaction list option) outcome" where
  "decodeMultiSendArguments E M contract data =
     (if multiSend_version M (proxy_address M contract) = Some 1
      then decodeMultiSendArguments_V1 E data else decodeMultiSendArguments_V2 E data)"

subsection \<open>The contract of a batch format\<close>

text \<open>
  A batch format encodes one transaction, decodes one transaction from the front of a byte string and has a
  loop that decodes until nothing is left. The two contract versions differ only in their formats.
\<close>

locale batch_format =
  fixes enc :: "'t \<Rightarrow> data"
    and dec :: "data \<Rightarrow> (unit, ('t \<times> data) option) outcome"
    and loop :: "data \<Rightarrow> 't list \<Rightarrow> (unit, 't list option) outcome"
    and canon :: "'t \<Rightarrow> 't"
    and valid :: "'t \<Rightarrow> bool"
  assumes loop_eq:
      "loop bytes result =
        (if bytes = [] then Returns (Some result)
         else case dec bytes of
             Returns (Some (tx, rest)) \<Rightarrow> loop rest (result @ [tx])
           | Returns None \<Rightarrow> Returns None
           | Throws e \<Rightarrow> Throws e
           | Traps \<Rightarrow> Traps)"
    and dec_enc: "valid tx \<Longrightarrow> dec (enc tx @ rest) = Returns (Some (canon tx, rest))"
    and dec_shorter: "dec bytes = Returns (Some (tx, rest)) \<Longrightarrow> length rest < length bytes"
begin

lemma enc_not_Nil: "valid tx \<Longrightarrow> enc tx \<noteq> []"
  using dec_enc [of tx "[]"] dec_shorter [of "[]" "canon tx" "[]"] by auto

lemma loop_batch:
  "list_all valid txs \<Longrightarrow> loop (concat (map enc txs)) result = Returns (Some (result @ map canon txs))"
proof (induction txs arbitrary: result)
  case Nil
  then show ?case by (subst loop_eq) simp
next
  case (Cons tx txs)
  then show ?case using enc_not_Nil [of tx] by (subst loop_eq) (simp add: dec_enc)
qed

text \<open>Every batch the loop accepts was consumed completely: no byte of the input is ignored.\<close>

inductive batch :: "data \<Rightarrow> 't list \<Rightarrow> bool" where
  empty: "batch [] []"
| more: "dec bytes = Returns (Some (tx, rest)) \<Longrightarrow> batch rest txs \<Longrightarrow> batch bytes (tx # txs)"

lemma loop_accepts:
  "loop bytes result = Returns (Some txs) \<longleftrightarrow> (\<exists>new. txs = result @ new \<and> batch bytes new)"
proof (induction "length bytes" arbitrary: bytes result rule: less_induct)
  case less
  show ?case
  proof (cases "bytes = []")
    case True
    have "batch [] new \<longleftrightarrow> new = []" for new
    proof
      assume "batch [] new"
      then show "new = []" using dec_shorter by cases fastforce+
    qed (simp add: batch.empty)
    then show ?thesis using True by (subst loop_eq) auto
  next
    case False
    have step: "batch bytes new \<longleftrightarrow> (\<exists>tx rest txs. dec bytes = Returns (Some (tx, rest)) \<and> new = tx # txs \<and> batch rest txs)" for new
      using False by (subst batch.simps) blast
    show ?thesis
    proof (cases "\<exists>tx rest. dec bytes = Returns (Some (tx, rest))")
      case True
      then obtain tx rest where d: "dec bytes = Returns (Some (tx, rest))" by blast
      from less [OF dec_shorter [OF d]] show ?thesis
        using False by (subst loop_eq) (auto simp: d step)
    next
      case no: False
      then show ?thesis
        using False by (subst loop_eq) (auto simp: step split: outcome.splits option.splits)
    qed
  qed
qed

end

definition ms_valid :: "packages \<Rightarrow> MultiSendTransaction \<Rightarrow> bool" where
  "ms_valid E tx \<longleftrightarrow>
     address_ok E (ms_to tx) \<and> \<bar>ms_value tx\<bar> < 2 ^ 256 \<and> fits_Int (length (ms_data tx))"

definition ms_canon :: "packages \<Rightarrow> MultiSendTransaction \<Rightarrow> MultiSendTransaction" where
  "ms_canon E tx = tx\<lparr>ms_to := uint_address E (account E (ms_to tx)), ms_value := \<bar>ms_value tx\<bar>\<rparr>"

lemma MS_operation_rawValue [simp]: "MS_operation (int (MS_rawValue op)) = Some op"
  by (cases op) (simp_all add: MS_operation_def)

lemma MS_rawValue_small: "MS_rawValue op < 256"
  by (cases op) simp_all

lemma abs_word: "\<bar>v :: int\<bar> < 2 ^ 256 \<Longrightarrow> nat \<bar>v\<bar> < 256 ^ 32"
  by simp

lemma fits_rawValue [simp]: "fits_Int (MS_rawValue op)"
  by (cases op) (simp_all add: fits_Int_def Int_max_def)

lemma decode_tx_V1_encode:
  assumes ok: "packages_ok E" and tx: "ms_valid E tx"
  shows "decode_tx_V1 E (encode_tx_V1 E tx @ rest) = Returns (Some (ms_canon E tx, rest))"
proof -
  from tx have a: "address_ok E (ms_to tx)" and v: "nat \<bar>ms_value tx\<bar> < 256 ^ 32"
    and d: "fits_Int (length (ms_data tx))" using abs_word by (auto simp: ms_valid_def)
  have op: "MS_rawValue (ms_operation tx) < 256 ^ 32" by (rule fits_Int_less) simp
  show ?thesis
    using ok v op d a
    by (simp add: decode_tx_V1_def encode_tx_V1_def Let_def decodeAddress_encodeAddress
        decodeBytes_encodeBytes ms_canon_def del: power_numeral)
qed

lemma length_encodeUInt8 [simp]: "length (encodeUInt8 E n) = 1"
  by (simp add: encodeUInt8_def)

lemma decodeUInt8_encodeUInt8 [simp]:
  assumes "packages_ok E" and "n < 256"
  shows "decodeUInt8 E (encodeUInt8 E n @ rest) = Returns n"
proof -
  have "encodeUInt8 E n = be_bytes E 1 n" by (simp add: encodeUInt8_def be_bytes_def)
  with assms show ?thesis by (simp add: decodeUInt8_def packages_okD(4))
qed

lemma length_encodeAddress_V2 [simp]: "length (encodeAddress_V2 E a) = 20"
  by (simp add: encodeAddress_V2_def)

lemma decodeAddress_V2_encode [simp]:
  assumes "packages_ok E" and "address_ok E a"
  shows "decodeAddress_V2 E (encodeAddress_V2 E a @ rest) = Returns (uint_address E (account E a))"
proof -
  have "be_value (encodeAddress_V2 E a) = account E a"
    using account_less [OF assms(2)]
    by (simp add: encodeAddress_V2_def be_value_suffixD account_def address_bytes_def)
  then show ?thesis
    using assms account_less [OF assms(2)]
    by (simp add: decodeAddress_V2_def packages_okD(4) Address_of_uint_small del: power_numeral)
qed

lemma decode_tx_V2_encode:
  assumes ok: "packages_ok E" and tx: "ms_valid E tx"
  shows "decode_tx_V2 E (encode_tx_V2 E tx @ rest) = Returns (Some (ms_canon E tx, rest))"
proof -
  from tx have a: "address_ok E (ms_to tx)" and v: "nat \<bar>ms_value tx\<bar> < 256 ^ 32"
    and d: "fits_Int (length (ms_data tx))" using abs_word by (auto simp: ms_valid_def)
  show ?thesis
    using ok v d a fits_Int_less [OF d] MS_rawValue_small [of "ms_operation tx"]
    by (simp add: decode_tx_V2_def encode_tx_V2_def Let_def ms_canon_def del: power_numeral)
qed

interpretation v1: batch_format "encode_tx_V1 E" "decode_tx_V1 E" "decode_loop_V1 E" "ms_canon E"
    "\<lambda>tx. packages_ok E \<and> ms_valid E tx" for E
proof
  show "decode_loop_V1 E bytes result =
      (if bytes = [] then Returns (Some result)
       else case decode_tx_V1 E bytes of Returns (Some (tx, rest)) \<Rightarrow> decode_loop_V1 E rest (result @ [tx])
         | Returns None \<Rightarrow> Returns None | Throws e \<Rightarrow> Throws e | Traps \<Rightarrow> Traps)" for bytes result
    by (rule decode_loop_V1.simps)
qed (auto simp: decode_tx_V1_encode dest: decode_tx_V1_shorter)

interpretation v2: batch_format "encode_tx_V2 E" "decode_tx_V2 E" "decode_loop_V2 E" "ms_canon E"
    "\<lambda>tx. packages_ok E \<and> ms_valid E tx" for E
proof
  show "decode_loop_V2 E bytes result =
      (if bytes = [] then Returns (Some result)
       else case decode_tx_V2 E bytes of Returns (Some (tx, rest)) \<Rightarrow> decode_loop_V2 E rest (result @ [tx])
         | Returns None \<Rightarrow> Returns None | Throws e \<Rightarrow> Throws e | Traps \<Rightarrow> Traps)" for bytes result
    by (rule decode_loop_V2.simps)
qed (auto simp: decode_tx_V2_encode dest: decode_tx_V2_shorter)

lemma all_valid: "packages_ok E \<Longrightarrow> list_all (ms_valid E) txs \<Longrightarrow> list_all (\<lambda>tx. packages_ok E \<and> ms_valid E tx) txs"
  by (simp add: list_all_iff)

lemma decode_multiSend_V1:
  assumes "packages_ok E" and "list_all (ms_valid E) txs"
    and "fits_Int (length (concat (map (encode_tx_V1 E) txs)))"
  shows "decodeMultiSendArguments_V1 E (multiSend_V1 E txs) = Returns (Some (map (ms_canon E) txs))"
  using assms v1.loop_batch [OF all_valid [OF assms(1,2)], of "[]"]
  by (simp add: decodeBytes_encodeBytes_end decodeMultiSendArguments_V1_def multiSend_V1_def invocation_def Let_def)

lemma decode_multiSend_V2:
  assumes "packages_ok E" and "list_all (ms_valid E) txs"
    and "fits_Int (length (concat (map (encode_tx_V2 E) txs)))"
  shows "decodeMultiSendArguments_V2 E (multiSend_V2 E txs) = Returns (Some (map (ms_canon E) txs))"
  using assms v2.loop_batch [OF all_valid [OF assms(1,2)], of "[]"]
  by (simp add: decodeBytes_encodeBytes_end decodeMultiSendArguments_V2_def multiSend_V2_def invocation_def Let_def)

lemma decode_tx_V2_length:
  "decode_tx_V2 E bytes = Returns (Some (tx, rest)) \<Longrightarrow> length bytes = 85 + length (ms_data tx) + length rest"
  by (auto simp: decode_tx_V2_def Let_def removeFirst_def Int_of_uint_def split: if_splits option.splits)

lemma batch_V2_length: "v2.batch E bytes txs \<Longrightarrow> length bytes = (\<Sum>tx\<leftarrow>txs. 85 + length (ms_data tx))"
  by (induction rule: v2.batch.induct) (auto dest: decode_tx_V2_length)

subsection \<open>Properties\<close>

text \<open>
  (C15) Batches round-trip. Let the addresses of the transactions be of twenty bytes, the values below \<open>2 ^ 256\<close> in absolute value, and the lengths of the data and
  of the encoded batch within the range of \<^verbatim>\<open>Int\<close>. Then the call that \<^verbatim>\<open>multiSend\<close> builds, for the contract version that the metadata
  selects, is decoded to as many transactions in the same order, each with the same operation, account and data and with the absolute value of the
  value: a value that is not negative comes back as it was, a negative one loses its sign.
\<close>

theorem multiSend_roundtrip:
  assumes "packages_ok E" and "list_all (ms_valid E) txs"
    and "fits_Int (length (concat (map (encode_tx_V1 E) txs)))"
    and "fits_Int (length (concat (map (encode_tx_V2 E) txs)))"
  shows "\<exists>txs'. decodeMultiSendArguments E M contract (multiSend E M contract txs) = Returns (Some txs') \<and>
    list_all2 (\<lambda>tx tx'. ms_operation tx' = ms_operation tx \<and> account E (ms_to tx') = account E (ms_to tx) \<and> ms_data tx' = ms_data tx \<and>
      ms_value tx' = (if 0 \<le> ms_value tx then ms_value tx else - ms_value tx)) txs txs'"
proof -
  have "decodeMultiSendArguments E M contract (multiSend E M contract txs) = Returns (Some (map (ms_canon E) txs))"
    using assms by (simp add: decodeMultiSendArguments_def multiSend_def decode_multiSend_V1 decode_multiSend_V2)
  moreover have "account E (ms_to tx) < 2 ^ 160" if "tx \<in> set txs" for tx
    using assms(1,2) that account_less by (auto simp: list_all_iff ms_valid_def)
  then have "list_all2 (\<lambda>tx tx'. ms_operation tx' = ms_operation tx \<and> account E (ms_to tx') = account E (ms_to tx) \<and> ms_data tx' = ms_data tx \<and>
      ms_value tx' = (if 0 \<le> ms_value tx then ms_value tx else - ms_value tx)) txs (map (ms_canon E) txs)"
    using account_uint_address [OF assms(1)] by (auto simp: list_all2_conv_all_nth ms_canon_def)
  ultimately show ?thesis by blast
qed

definition sample_tx :: MultiSendTransaction where
  "sample_tx = \<lparr>ms_operation = MS_delegateCall, ms_to = uint_address samplePackages 5, ms_value = 3, ms_data = [1, 2]\<rparr>"

theorem multiSend_roundtrip_witness:
  "\<exists>t1 t2. decodeMultiSendArguments samplePackages sampleMetadata Address_zero
       (multiSend samplePackages sampleMetadata Address_zero [sample_tx, sample_tx\<lparr>ms_value := - 4\<rparr>]) = Returns (Some [t1, t2]) \<and>
     ms_operation t1 = MS_delegateCall \<and> account samplePackages (ms_to t1) = 5 \<and> ms_value t1 = 3 \<and> ms_data t1 = [1, 2] \<and> ms_value t2 = 4"
proof -
  let ?txs = "[sample_tx, sample_tx\<lparr>ms_value := - 4\<rparr>]"
  have "list_all (ms_valid samplePackages) ?txs"
    by (simp add: ms_valid_def sample_tx_def uint_address_ok samplePackages_ok fits_Int_def Int_max_def)
  moreover have "fits_Int (length (concat (map (encode_tx_V1 samplePackages) ?txs)))"
    by (simp add: encode_tx_V1_def sample_tx_def length_encodeBytes fits_Int_def Int_max_def)
  moreover have "fits_Int (length (concat (map (encode_tx_V2 samplePackages) ?txs)))"
    by (simp add: encode_tx_V2_def sample_tx_def fits_Int_def Int_max_def)
  ultimately obtain ts where "decodeMultiSendArguments samplePackages sampleMetadata Address_zero (multiSend samplePackages sampleMetadata Address_zero ?txs) = Returns (Some ts)"
    "list_all2 (\<lambda>tx tx'. ms_operation tx' = ms_operation tx \<and> account samplePackages (ms_to tx') = account samplePackages (ms_to tx) \<and> ms_data tx' = ms_data tx \<and>
      ms_value tx' = (if 0 \<le> ms_value tx then ms_value tx else - ms_value tx)) ?txs ts"
    using multiSend_roundtrip [OF samplePackages_ok] by blast
  moreover have "account samplePackages (ms_to sample_tx) = 5" by (simp add: sample_tx_def account_uint_address samplePackages_ok)
  ultimately show ?thesis by (auto simp: list_all2_Cons1 sample_tx_def)
qed

text \<open>
  A batch that the decoder of the second contract version accepts is accounted for to the last byte:
  its length is the sum of the 85 header bytes and the data of the transactions returned. A call that has
  the selector of \<^verbatim>\<open>multiSend\<close> and fewer than 32 further bytes is not refused but stops the process, with
  either version.
\<close>

theorem multiSend_decoding:
  assumes "packages_ok E"
  shows "(decode_loop_V2 E bytes [] = Returns (Some txs) \<longrightarrow>
      length bytes = (\<Sum>tx\<leftarrow>txs. 85 + length (ms_data tx))) \<and>
    (take 4 d = abi_method E multiSendSignature \<and> length d < 36 \<longrightarrow>
      decodeMultiSendArguments E M contract d = Traps)"
proof (intro conjI impI)
  assume "decode_loop_V2 E bytes [] = Returns (Some txs)"
  then show "length bytes = (\<Sum>tx\<leftarrow>txs. 85 + length (ms_data tx))"
    by (simp add: v2.loop_accepts batch_V2_length)
next
  assume short: "take 4 d = abi_method E multiSendSignature \<and> length d < 36"
  then have "length d - 4 < 32" by linarith
  then show "decodeMultiSendArguments E M contract d = Traps"
    using assms short
    by (simp add: decodeMultiSendArguments_def decodeMultiSendArguments_V1_def decodeMultiSendArguments_V2_def
        removeFirst_def Let_def)
qed

theorem multiSend_decoding_witness:
  "decodeMultiSendArguments samplePackages
     sampleMetadata Address_zero
     (abi_method samplePackages multiSendSignature) = Traps"
  using multiSend_decoding [OF samplePackages_ok, THEN conjunct2, of "abi_method samplePackages multiSendSignature"]
  by (simp add: samplePackages_ok)

end
