(* ===== verification/TransactionService.thy ===== *)
theory TransactionService
  imports Accounts MultiSend
begin

section \<open>Transaction services\<close>

text \<open>
  Model of \<^verbatim>\<open>MultisigWalletDomainModel/Wallet/TransactionDomainService.swift\<close>, of the queries of
  \<^verbatim>\<open>DBTransactionRepository.swift\<close>, and of \<^verbatim>\<open>TransactionSyncDomainService.swift\<close>. New identifiers and the clock are
  arguments; the clock is read once per operation.
\<close>

subsection \<open>Transaction repository\<close>

definition save_tx :: "Transaction \<Rightarrow> app \<Rightarrow> app" where
  "save_tx tx s = s\<lparr>txRows := insert_or_replace tx_id tx (txRows s)\<rparr>"

definition remove_tx :: "Transaction \<Rightarrow> app \<Rightarrow> app" where
  "remove_tx tx s = s\<lparr>txRows := delete_row tx_id (tx_id tx) (txRows s)\<rparr>"

definition find_tx :: "string \<Rightarrow> app \<Rightarrow> Transaction option" where
  "find_tx i s = find_row tx_id i (txRows s)"

definition find_tx_hash :: "data \<Rightarrow> app \<Rightarrow> Transaction option" where
  "find_tx_hash h s = List.find (\<lambda>t. tx_hash t = Some h) (txRows s)"

definition find_tx_hash_status :: "env \<Rightarrow> data \<Rightarrow> Code \<Rightarrow> app \<Rightarrow> Transaction option" where
  "find_tx_hash_status V h c s = env_newest V (filter (\<lambda>t. tx_hash t = Some h \<and> status t = c) (txRows s))"

text \<open>\<^verbatim>\<open>ORDER BY datetime(created_date, 'unixepoch') DESC LIMIT 1\<close>: seconds count, missing dates come last.\<close>

definition created_second :: "Transaction \<Rightarrow> int option" where
  "created_second t = map_option floor (createdDate t)"

definition newest_ok :: "env \<Rightarrow> bool" where
  "newest_ok V \<longleftrightarrow>
     (\<forall>xs. env_newest V xs = None \<longleftrightarrow> xs = []) \<and>
     (\<forall>xs t. env_newest V xs = Some t \<longrightarrow> t \<in> set xs \<and> (\<forall>u\<in>set xs. created_second u \<le> created_second t))"

interpretation transactions: entity_table txRows tx_id save_tx remove_tx
  by unfold_locales (simp_all add: save_tx_def remove_tx_def)

lemma find_tx_lookup: "find_tx i s = transactions.lookup i s"
  by (simp add: find_tx_def transactions.lookup_def)

subsection \<open>Drafts\<close>

definition removeDraftTransaction :: "string \<Rightarrow> app \<Rightarrow> app" where
  "removeDraftTransaction i s =
     (case find_tx i s of None \<Rightarrow> s | Some tx \<Rightarrow> if status tx = TS_draft then remove_tx tx s else s)"

definition new_draft :: "Wallet \<Rightarrow> string \<Rightarrow> string \<Rightarrow> time \<Rightarrow> Transaction" where
  "new_draft w a i now = change_sender (address w) now (Transaction_init i TT_transfer a now now)"

definition newDraftTransaction_in :: "Wallet \<Rightarrow> Address \<Rightarrow> string \<Rightarrow> time \<Rightarrow> app \<Rightarrow> ('e, string \<times> app) outcome" where
  "newDraftTransaction_in w token i now s =
     bindO (accountID (address_value token) (wallet_id w)) (\<lambda>a.
     Returns (i, save_tx (new_draft w a i now) s))"

lemma new_draft_simps [simp]:
  "tx_id (new_draft w a i now) = i" "tx_accountID (new_draft w a i now) = a" "status (new_draft w a i now) = TS_draft"
  "tx_type (new_draft w a i now) = TT_transfer" "operation (new_draft w a i now) = None"
  "recipient (new_draft w a i now) = None" "signatures (new_draft w a i now) = []"
  by (simp_all add: new_draft_def change_sender_def timestamp_defs Transaction_init_def)

definition newDraftTransaction :: "Address \<Rightarrow> string \<Rightarrow> time \<Rightarrow> app \<Rightarrow> ('e, string \<times> app) outcome" where
  "newDraftTransaction token i now s =
     bindO (unwrap (selected_wallet s)) (\<lambda>w. newDraftTransaction_in w token i now s)"

definition cleanUpStaleTransactions :: "app \<Rightarrow> app" where
  "cleanUpStaleTransactions s = fold remove_tx (filter (\<lambda>t. status t \<in> {TS_draft, TS_signing}) (txRows s)) s"

subsection \<open>Token transfers and batches\<close>

definition encryption_address_from :: "env \<Rightarrow> string \<Rightarrow> ('e, Address option) outcome" where
  "encryption_address_from V v =
     (if v = [] then Returns None
      else let d = ethHex (env_packages V) v
           in if length d \<noteq> 20 then Returns None
              else bindO (Address_init (env_packages V) (env_eip55 V d)) (\<lambda>a. Returns (Some a)))"

definition enhanceWithERC20Data ::
    "env \<Rightarrow> time \<Rightarrow> Address \<Rightarrow> data \<Rightarrow> Transaction \<Rightarrow> app \<Rightarrow> ('e, Transaction \<times> app) outcome" where
  "enhanceWithERC20Data V now to d tx s =
     bindO (decodedTransfer (env_packages V) d) (\<lambda>r.
     case r of
       None \<Rightarrow> Returns (tx, s)
     | Some (recv, n) \<Rightarrow>
         bindO (token_for V now to s) (\<lambda>(t, s1).
         Returns (change_amount (Some \<lparr>ta_amount = n, ta_token = t\<rparr>) now (change_recipient (Some recv) now tx), s1)))"

definition subTransaction ::
    "env \<Rightarrow> time \<Rightarrow> string \<Rightarrow> MultiSendTransaction \<Rightarrow> WalletID \<Rightarrow> app \<Rightarrow> ('e, Transaction \<times> app) outcome" where
  "subTransaction V now i m w s =
     bindO (accountID (token_id Token_Ether) w) (\<lambda>a.
     bindO (encryption_address_from V (address_value (ms_to m))) (\<lambda>f.
     bindO (unwrap f) (\<lambda>to.
     enhanceWithERC20Data V now to (ms_data m)
       (change_amount (Some (ether (ms_value m))) now
         (change_operation (WalletOperation_of_raw (int (MS_rawValue (ms_operation m)))) now
           (change_data (Some (ms_data m)) now
             (change_recipient (Some to) now (Transaction_init i TT_transfer a now now))))) s)))"

definition isMultiSend :: "env \<Rightarrow> Transaction \<Rightarrow> bool" where
  "isMultiSend V tx \<longleftrightarrow>
     tx_type tx = batched \<and> operation tx = Some OP_delegateCall \<and> tx_data tx \<noteq> None \<and> recipient tx \<noteq> None \<and>
     isValidMultiSend (env_metadata V) (the (recipient tx))"

definition batched_stamps :: "Transaction \<Rightarrow> Transaction \<Rightarrow> ('e, Transaction) outcome" where
  "batched_stamps b tx =
     bindO (unwrap (createdDate b)) (\<lambda>c.
     bindO (unwrap (updatedDate b)) (\<lambda>u.
     Returns (change_status (status b)
       (stamp (submittedDate b) timestampSubmitted (stamp (processedDate b) timestampProcessed
         (stamp (rejectedDate b) timestampRejected (timestampUpdated u (timestampCreated c tx))))))))"

text \<open>\<open>ids\<close> supplies the identifiers of the parts.\<close>

fun sub_loop ::
    "env \<Rightarrow> time \<Rightarrow> (nat \<Rightarrow> string) \<Rightarrow> nat \<Rightarrow> WalletID \<Rightarrow> Transaction \<Rightarrow> MultiSendTransaction list \<Rightarrow> app \<Rightarrow>
     ('e, Transaction list \<times> app) outcome" where
  "sub_loop V now ids k w b [] s = Returns ([], s)"
| "sub_loop V now ids k w b (m # ms) s =
     bindO (subTransaction V now (ids k) m w s) (\<lambda>(tx, s1).
     bindO (batched_stamps b tx) (\<lambda>tx1.
     bindO (sub_loop V now ids (Suc k) w b ms s1) (\<lambda>(txs, s2). Returns (tx1 # txs, s2))))"

definition batchedTransactions ::
    "env \<Rightarrow> time \<Rightarrow> (nat \<Rightarrow> string) \<Rightarrow> Transaction \<Rightarrow> WalletID \<Rightarrow> app \<Rightarrow> (unit, Transaction list option \<times> app) outcome" where
  "batchedTransactions V now ids tx w s =
     (if \<not> isMultiSend V tx then Returns (None, s)
      else case (recipient tx, tx_data tx) of
        (Some to, Some d) \<Rightarrow>
          bindO (decodeMultiSendArguments (env_packages V) (env_metadata V) to d) (\<lambda>r.
          case r of
            None \<Rightarrow> Returns (None, s)
          | Some ms \<Rightarrow> bindO (sub_loop V now ids 0 w tx ms s) (\<lambda>(txs, s1). Returns (Some txs, s1)))
      | _ \<Rightarrow> Returns (None, s))"

text \<open>The check is made on the stored row, not on the object in memory.\<close>

definition isDangerous_stored ::
    "env \<Rightarrow> time \<Rightarrow> (nat \<Rightarrow> string) \<Rightarrow> string \<Rightarrow> app \<Rightarrow> (unit, bool \<times> app) outcome" where
  "isDangerous_stored V now ids i s =
     (case find_tx i s of
        None \<Rightarrow> Returns (False, s)
      | Some tx \<Rightarrow>
          bindO (AccountID_walletID (tx_accountID tx)) (\<lambda>w.
          case wallet_with w s of
            None \<Rightarrow> Returns (False, s)
          | Some wallet \<Rightarrow>
              (case address wallet of
                 None \<Rightarrow> Returns (False, s)
               | Some a \<Rightarrow>
                   bindO (batchedTransactions V now ids tx (wallet_id wallet) s) (\<lambda>(subs, s1).
                   Returns (if (case subs of None \<Rightarrow> False | Some txs \<Rightarrow> list_all (\<lambda>t. \<not> isDangerous a t) txs)
                     then False else isDangerous a tx, s1)))))"

lemma enhance_frame:
  assumes "enhanceWithERC20Data V now to d tx s = (Returns (tx', s') :: ('e, Transaction \<times> app) outcome)"
  shows "accounts_only s s'"
  using assms token_for_frame [where ?'e = 'e] by (auto simp: enhanceWithERC20Data_def split: option.splits)

lemma subTransaction_frame:
  assumes "subTransaction V now i m w s = (Returns (tx, s') :: ('e, Transaction \<times> app) outcome)"
  shows "accounts_only s s'"
  using assms enhance_frame [where ?'e = 'e] by (auto simp: subTransaction_def)

lemma sub_loop_frame:
  assumes "sub_loop V now ids k w b ms s = (Returns (txs, s') :: ('e, Transaction list \<times> app) outcome)"
  shows "accounts_only s s'"
  using assms
proof (induction ms arbitrary: k s txs)
  case (Cons m ms)
  then obtain tx s1 txs' k' where s1: "subTransaction V now (ids k) m w s = (Returns (tx, s1) :: ('e, _) outcome)"
    "sub_loop V now ids k' w b ms s1 = (Returns (txs', s') :: ('e, _) outcome)" by auto
  from subTransaction_frame [OF s1(1)] Cons.IH [OF s1(2)] show ?case by (rule accounts_only_trans)
qed simp

lemma batchedTransactions_frame: "batchedTransactions V now ids tx w s = Returns (r, s') \<Longrightarrow> accounts_only s s'"
  using sub_loop_frame [where ?'e = unit] by (auto simp: batchedTransactions_def split: if_splits option.splits)

lemma isDangerous_stored_frame:
  assumes "isDangerous_stored V now ids i s = Returns (r, s')"
  shows "accounts_only s s'"
proof (cases "find_tx i s")
  case (Some tx)
  then obtain w where w: "AccountID_walletID (tx_accountID tx) = (Returns w :: (unit, _) outcome)"
    using assms by (auto simp: isDangerous_stored_def)
  show ?thesis
  proof (cases "Option.bind (wallet_with w s) address")
    case None
    with assms Some w show ?thesis by (cases "wallet_with w s") (auto simp: isDangerous_stored_def)
  next
    case (Some a)
    then obtain wallet where "wallet_with w s = Some wallet" "address wallet = Some a" by (auto simp: bind_eq_Some_conv)
    with assms w \<open>find_tx i s = Some tx\<close> obtain subs where "batchedTransactions V now ids tx (wallet_id wallet) s = Returns (subs, s')"
      by (auto simp: isDangerous_stored_def)
    then show ?thesis by (rule batchedTransactions_frame)
  qed
qed (use assms in \<open>simp add: isDangerous_stored_def\<close>)

text \<open>Nothing but one transaction, accounts and events differ.\<close>

definition only_transaction :: "string \<Rightarrow> app \<Rightarrow> app \<Rightarrow> bool" where
  "only_transaction i s s' \<longleftrightarrow>
     (\<forall>j. j \<noteq> i \<longrightarrow> find_tx j s' = find_tx j s) \<and> app_tokens s' = app_tokens s \<and> app_portfolio s' = app_portfolio s \<and>
     walletRows (app_world s') = walletRows (app_world s) \<and> deviceKeys (app_world s') = deviceKeys (app_world s)"

lemma only_transaction_accounts: "accounts_only s s' \<Longrightarrow> only_transaction i s s'"
  by (simp add: only_transaction_def accounts_only_def find_tx_def)

lemma only_transaction_trans: "only_transaction i s s1 \<Longrightarrow> only_transaction i s1 s2 \<Longrightarrow> only_transaction i s s2"
  by (simp add: only_transaction_def)

lemma only_transaction_save: "only_transaction (tx_id tx) s (save_tx tx s)"
  by (simp add: only_transaction_def find_tx_lookup transactions.lookup_save) (simp add: save_tx_def)

lemma only_transaction_remove: "only_transaction (tx_id tx) s (remove_tx tx s)"
  by (simp add: only_transaction_def find_tx_lookup transactions.lookup_remove) (simp add: remove_tx_def)

lemma find_tx_save: "find_tx j (save_tx tx s) = (if j = tx_id tx then Some tx else find_tx j s)"
  by (simp add: find_tx_lookup transactions.lookup_save)

lemma find_tx_remove: "find_tx j (remove_tx tx s) = (if j = tx_id tx then None else find_tx j s)"
  by (simp add: find_tx_lookup transactions.lookup_remove)

end
