(* ===== verification/Messages.thy ===== *)
theory Messages
  imports TransactionService
begin

section \<open>Messages from the second device\<close>

text \<open>
  A Safe can be owned by this device and a browser extension. The extension confirms, rejects and proposes transactions by push
  messages, which anyone who knows the push token can send. Model of
  \<^verbatim>\<open>NotificationService/Messaging\<close> (\<^verbatim>\<open>TransactionDecisionMessage\<close>, \<^verbatim>\<open>SendTransactionMessage\<close>, \<^verbatim>\<open>Message+Factory\<close>),
  \<^verbatim>\<open>ECDSASignatureBounds.swift\<close> and of the handlers \<^verbatim>\<open>receive(message:)\<close> and \<^verbatim>\<open>handle(message:)\<close> of
  \<^verbatim>\<open>WalletApplicationService.swift\<close>. Shown: what a message can change at all, and that it needs the signature of the extension; that
  a proposal is accepted without regard to its operation; that a proposal removes a stored transaction without any signature.
\<close>

subsection \<open>Messages\<close>

record EthSignature =
  sig_r :: string
  sig_s :: string
  sig_v :: int

record TransactionDecisionMessage =
  dm_hash :: data
  dm_signature :: EthSignature

record SendTransactionMessage =
  sm_hash :: data
  sm_safe :: Address
  sm_to :: Address
  sm_value :: int
  sm_data :: data
  sm_operation :: WalletOperation
  sm_txGas :: int
  sm_dataGas :: int
  sm_operationalGas :: int
  sm_gasPrice :: int
  sm_gasToken :: Address
  sm_nonce :: int
  sm_signature :: EthSignature

datatype Message =
    TransactionConfirmedMessage TransactionDecisionMessage
  | TransactionRejectedMessage TransactionDecisionMessage
  | SendTransaction SendTransactionMessage

text \<open>The string values of the notification; \<open>BigUInt\<close> is the decimal parser of the package.\<close>

type_synonym userInfo = "string \<Rightarrow> string option"

definition secp256k1n :: int where
  "secp256k1n = 115792089237316195423570985008687907852837564279074904382605163141518161494337"

definition isWithinBounds :: "(string \<Rightarrow> nat option) \<Rightarrow> string \<Rightarrow> string \<Rightarrow> int \<Rightarrow> bool" where
  "isWithinBounds BigUInt r s v =
     (case (BigUInt r, BigUInt s) of
        (Some r', Some s') \<Rightarrow> int r' < secp256k1n \<and> int s' < secp256k1n div 2 + 1 \<and> 27 \<le> v \<and> v \<le> 28
      | _ \<Rightarrow> False)"

definition read_signature :: "(string \<Rightarrow> nat option) \<Rightarrow> userInfo \<Rightarrow> EthSignature option" where
  "read_signature BigUInt info =
     Option.bind (info ''r'') (\<lambda>r. Option.bind (info ''s'') (\<lambda>s. Option.bind (Option.bind (info ''v'') Int_of_string) (\<lambda>v.
     if isWithinBounds BigUInt r s v then Some \<lparr>sig_r = r, sig_s = s, sig_v = v\<rparr> else None)))"

definition read_hash :: "packages \<Rightarrow> userInfo \<Rightarrow> data option" where
  "read_hash E info = Option.bind (info ''hash'') (\<lambda>h. if ethHex E h = [] then None else Some (ethHex E h))"

definition DecisionMessage_init ::
    "packages \<Rightarrow> (string \<Rightarrow> nat option) \<Rightarrow> string \<Rightarrow> userInfo \<Rightarrow> TransactionDecisionMessage option" where
  "DecisionMessage_init E BigUInt messageType info =
     (if info ''type'' \<noteq> Some messageType then None
      else Option.bind (read_hash E info) (\<lambda>h. Option.bind (read_signature BigUInt info) (\<lambda>sig.
           Some \<lparr>dm_hash = h, dm_signature = sig\<rparr>)))"

text \<open>\<^verbatim>\<open>Address(rawValue:)\<close>. The prefix is optional here.\<close>

definition isWhitespace :: "char \<Rightarrow> bool" where
  "isWhitespace c \<longleftrightarrow> (of_char c :: nat) = 32 \<or> 9 \<le> (of_char c :: nat) \<and> (of_char c :: nat) \<le> 13"

definition trimmed :: "string \<Rightarrow> string" where
  "trimmed s = rev (dropWhile isWhitespace (rev (dropWhile isWhitespace s)))"

definition Address_rawValue :: "packages \<Rightarrow> hexint \<Rightarrow> string \<Rightarrow> Address option" where
  "Address_rawValue E H rawValue =
     (let v = take 42 (trimmed rawValue);
          noPrefix = (if hasPrefix v ''0x'' then drop 2 v else v)
      in if BigInt_radix16 H noPrefix = None then None
         else if length (ethHex E v) = 20 \<or> ethHex E v = [] then Some (Address v) else None)"

definition SendTransactionMessage_init ::
    "packages \<Rightarrow> bigint \<Rightarrow> hexint \<Rightarrow> (string \<Rightarrow> nat option) \<Rightarrow> userInfo \<Rightarrow> SendTransactionMessage option" where
  "SendTransactionMessage_init E B H BigUInt info =
     (let adr = (\<lambda>k. Option.bind (info k) (Address_rawValue E H)); big = (\<lambda>k. Option.bind (info k) (BigInt_String B));
          small = (\<lambda>k. Option.bind (info k) Int_of_string)
      in if info ''type'' \<noteq> Some ''sendTransaction'' then None
         else Option.bind (read_hash E info) (\<lambda>h. Option.bind (adr ''safe'') (\<lambda>safe. Option.bind (adr ''to'') (\<lambda>to.
              Option.bind (big ''value'') (\<lambda>v. Option.bind (map_option (ethHex E) (info ''data'')) (\<lambda>d.
              Option.bind (Option.bind (small ''operation'') WalletOperation_of_raw) (\<lambda>op.
              Option.bind (big ''txGas'') (\<lambda>txGas. Option.bind (big ''dataGas'') (\<lambda>dGas.
              Option.bind (big ''operationalGas'') (\<lambda>opGas. Option.bind (big ''gasPrice'') (\<lambda>price.
              Option.bind (adr ''gasToken'') (\<lambda>gasToken. Option.bind (small ''nonce'') (\<lambda>n.
              Option.bind (read_signature BigUInt info) (\<lambda>sig.
              Some \<lparr>sm_hash = h, sm_safe = safe, sm_to = to, sm_value = v, sm_data = d, sm_operation = op, sm_txGas = txGas,
                sm_dataGas = dGas, sm_operationalGas = opGas, sm_gasPrice = price, sm_gasToken = gasToken, sm_nonce = n,
                sm_signature = sig\<rparr>))))))))))))))"

definition Message_create ::
    "packages \<Rightarrow> bigint \<Rightarrow> hexint \<Rightarrow> (string \<Rightarrow> nat option) \<Rightarrow> userInfo \<Rightarrow> Message option" where
  "Message_create E B H BigUInt info =
     (case DecisionMessage_init E BigUInt ''confirmTransaction'' info of
        Some m \<Rightarrow> Some (TransactionConfirmedMessage m)
      | None \<Rightarrow> (case DecisionMessage_init E BigUInt ''rejectTransaction'' info of
          Some m \<Rightarrow> Some (TransactionRejectedMessage m)
        | None \<Rightarrow> map_option SendTransaction (SendTransactionMessage_init E B H BigUInt info)))"

subsection \<open>EncryptionService: signatures\<close>

definition data_from_signature :: "env \<Rightarrow> EthSignature \<Rightarrow> ('e, data) outcome" where
  "data_from_signature V sig =
     bindO (unwrap (env_BInt V (sig_r sig))) (\<lambda>r.
     bindO (unwrap (env_BInt V (sig_s sig))) (\<lambda>s. Returns (env_calculateSignature V r s (sig_v sig))))"

definition address_of_signature :: "env \<Rightarrow> data \<Rightarrow> EthSignature \<Rightarrow> ('e, Address option) outcome" where
  "address_of_signature V h sig =
     bindO (data_from_signature V sig) (\<lambda>d.
     case env_publicKey V d h of
       None \<Rightarrow> Returns None
     | Some key \<Rightarrow>
         bindO (Address_init (env_packages V) (env_addressString V (ethHex (env_packages V) (env_createAddress V key))))
           (\<lambda>a. Returns (Some a)))"

definition env_digest :: "env \<Rightarrow> app \<Rightarrow> digest_env" where
  "env_digest V s =
     \<lparr>de_packages = env_packages V, de_bigint = env_bigint V, de_hexint = env_hexint V, de_metadata = env_metadata V,
      de_world = app_world s\<rparr>"

subsection \<open>Confirmation and rejection\<close>

definition transaction_from ::
    "env \<Rightarrow> TransactionDecisionMessage \<Rightarrow> data \<Rightarrow> app \<Rightarrow> ('e, Transaction option) outcome" where
  "transaction_from V m h s =
     (case find_tx_hash_status V (dm_hash m) TS_signing s of
        None \<Rightarrow> Returns None
      | Some tx \<Rightarrow>
          bindO (address_of_signature V h (dm_signature m)) (\<lambda>signer.
          case signer of None \<Rightarrow> Returns None
          | Some signerAddress \<Rightarrow>
              bindO (AccountID_walletID (tx_accountID tx)) (\<lambda>w.
              case Option.bind (wallet_with w s) (\<lambda>wallet. Wallet.owner wallet browserExtension) of
                None \<Rightarrow> Returns None
              | Some ext \<Rightarrow> Returns (if same_spelling signerAddress (owner_address ext) then Some tx else None))))"

definition owner_address_in :: "OwnerRole \<Rightarrow> WalletID \<Rightarrow> app \<Rightarrow> Address option" where
  "owner_address_in role w s =
     Option.bind (wallet_with w s) (\<lambda>wallet. map_option owner_address (Wallet.owner wallet role))"

definition handle_confirmed ::
    "env \<Rightarrow> time \<Rightarrow> TransactionDecisionMessage \<Rightarrow> app \<Rightarrow> ('e, string option \<times> app) outcome" where
  "handle_confirmed V now m s =
     bindO (transaction_from V m (dm_hash m) s) (\<lambda>r.
     case r of None \<Rightarrow> Returns (None, s)
     | Some tx \<Rightarrow>
         bindO (data_from_signature V (dm_signature m)) (\<lambda>d.
         bindO (AccountID_walletID (tx_accountID tx)) (\<lambda>w.
         bindO (unwrap (owner_address_in browserExtension w s)) (\<lambda>ext.
         bindO (Address_init (env_packages V) (address_value ext)) (\<lambda>a.
         let tx1 = add_signature \<lparr>sig_address = a, sig_data = d\<rparr> now tx
         in Returns (Some (tx_id tx1), save_tx tx1 s))))))"

text \<open>\<open>utf8_bytes\<close> are the bytes of an ASCII string.\<close>

definition utf8_bytes :: "string \<Rightarrow> data" where
  "utf8_bytes = map (\<lambda>c. of_nat (of_char c))"

definition rejection_hash :: "env \<Rightarrow> TransactionDecisionMessage \<Rightarrow> data" where
  "rejection_hash V m =
     sha3 (env_packages V) (utf8_bytes (''GNO'' @ ''0x'' @ toHexString (env_packages V) (dm_hash m) @ ''rejectTransaction''))"

definition handle_rejected ::
    "env \<Rightarrow> time \<Rightarrow> TransactionDecisionMessage \<Rightarrow> app \<Rightarrow> ('e, string option \<times> app) outcome" where
  "handle_rejected V now m s =
     bindO (transaction_from V m (rejection_hash V m) s) (\<lambda>r.
     case r of None \<Rightarrow> Returns (None, s)
     | Some tx \<Rightarrow> bindO (tx_reject now now tx) (\<lambda>tx1. Returns (Some (tx_id tx1), save_tx tx1 s)))"

subsection \<open>Proposals\<close>

datatype WalletApplicationServiceError =
    invalidWalletState | networkError | clientError | serverError | validationFailed | failedToSignTransactionByDevice
  | exceededExpirationDate

definition tokenAddress :: "env \<Rightarrow> Address \<Rightarrow> data \<Rightarrow> ('e, Address) outcome" where
  "tokenAddress V to d =
     bindO (decodedTransfer (env_packages V) d) (\<lambda>r. Returns (if r \<noteq> None then to else token_address Token_Ether))"

definition update_required ::
    "env \<Rightarrow> time \<Rightarrow> Address \<Rightarrow> Address \<Rightarrow> int \<Rightarrow> data \<Rightarrow> Transaction \<Rightarrow> app \<Rightarrow> ('e, Transaction \<times> app) outcome" where
  "update_required V now from to v d tx s =
     enhanceWithERC20Data V now to d
       (change_amount (Some (ether v)) now (change_data (Some d) now
         (change_recipient (Some to) now (change_sender (Some from) now tx)))) s"

definition estimation :: "env \<Rightarrow> time \<Rightarrow> SendTransactionMessage \<Rightarrow> app \<Rightarrow> ('e, TransactionFeeEstimate \<times> app) outcome" where
  "estimation V now m s =
     bindO (token_for V now (sm_gasToken m) s) (\<lambda>(t, s1).
     Returns (\<lparr>gas = sm_txGas m, dataGas = sm_dataGas m, operationalGas = sm_operationalGas m,
       gasPrice = \<lparr>ta_amount = sm_gasPrice m, ta_token = t\<rparr>\<rparr>, s1))"

definition message_fee :: "env \<Rightarrow> time \<Rightarrow> SendTransactionMessage \<Rightarrow> app \<Rightarrow> ('e, TokenAmount \<times> app) outcome" where
  "message_fee V now m s =
     bindO (estimation V now m s) (\<lambda>(e, s1).
     Returns (\<lparr>ta_amount = (gas e + dataGas e) * ta_amount (gasPrice e), ta_token = ta_token (gasPrice e)\<rparr>, s1))"

definition update_with_message ::
    "env \<Rightarrow> time \<Rightarrow> SendTransactionMessage \<Rightarrow> Transaction \<Rightarrow> app \<Rightarrow> ('e, Transaction \<times> app) outcome" where
  "update_with_message V now m tx s =
     bindO (update_required V now (sm_safe m) (sm_to m) (sm_value m) (sm_data m) tx s) (\<lambda>(tx1, s1).
     bindO (estimation V now m s1) (\<lambda>(e, s2).
     bindO (message_fee V now m s2) (\<lambda>(f, s3).
     Returns (change_nonce (Some (show_int (sm_nonce m))) now (change_fee (Some f) now
       (change_feeEstimate (Some e) now (change_operation (Some (sm_operation m)) now tx1))), s3))))"

text \<open>The transaction a proposal is about: the stored one with its hash, or a new draft.\<close>

definition proposal_target ::
    "env \<Rightarrow> time \<Rightarrow> string \<Rightarrow> SendTransactionMessage \<Rightarrow> Wallet \<Rightarrow> app \<Rightarrow> ('e, Transaction \<times> app) outcome" where
  "proposal_target V now i m wallet s =
     (case find_tx_hash (sm_hash m) s of
        Some tx \<Rightarrow> Returns (tx, s)
      | None \<Rightarrow>
          bindO (tokenAddress V (sm_to m) (sm_data m)) (\<lambda>token.
          bindO (newDraftTransaction_in wallet token i now s) (\<lambda>(j, s1).
          bindO (unwrap (find_tx j s1)) (\<lambda>tx. Returns (tx, s1)))))"

text \<open>The second half of the handler: digest, signature, status.\<close>

definition accept_proposal ::
    "env \<Rightarrow> time \<Rightarrow> SendTransactionMessage \<Rightarrow> Wallet \<Rightarrow> Transaction \<Rightarrow> app \<Rightarrow>
     (unit, (WalletApplicationServiceError + string option) \<times> app) outcome" where
  "accept_proposal V now m wallet tx s =
     bindO (hash_of (env_digest V s) tx) (\<lambda>h.
     if h \<noteq> sm_hash m then Returns (Inr None, remove_tx tx s)
     else let tx1 = change_hash (Some h) now tx
          in bindO (address_of_signature V (sm_hash m) (sm_signature m)) (\<lambda>signer.
             case (signer, Wallet.owner wallet browserExtension) of
               (Some a, Some ext) \<Rightarrow>
                 if \<not> same_spelling a (owner_address ext) then Returns (Inr None, remove_tx tx1 s)
                 else bindO (tx_proceed now now tx1) (\<lambda>tx2.
                      bindO (data_from_signature V (sm_signature m)) (\<lambda>d.
                      bindO (Address_init (env_packages V) (address_value (owner_address ext))) (\<lambda>b.
                      let tx3 = add_signature \<lparr>sig_address = b, sig_data = d\<rparr> now tx2
                      in Returns (Inr (Some (tx_id tx3)), save_tx tx3 s))))
             | _ \<Rightarrow> Returns (Inr None, remove_tx tx1 s)))"

text \<open>\<open>Inl\<close> is a thrown error; the rows written before it stay.\<close>

definition handle_send ::
    "env \<Rightarrow> time \<Rightarrow> (nat \<Rightarrow> string) \<Rightarrow> string \<Rightarrow> SendTransactionMessage \<Rightarrow> app \<Rightarrow>
     (unit, (WalletApplicationServiceError + string option) \<times> app) outcome" where
  "handle_send V now ids i m s =
     (case find_address (sm_safe m) (app_world s) of
        None \<Rightarrow> Returns (Inr None, s)
      | Some wallet \<Rightarrow>
          bindO (proposal_target V now i m wallet s) (\<lambda>(tx, s1).
          bindO (if status tx = TS_signing then stepBack now now tx else Returns tx) (\<lambda>tx1.
          if status tx1 \<noteq> TS_draft then Returns (Inr None, s1)
          else bindO (update_with_message V now m tx1 s1) (\<lambda>(tx2, s2).
               bindO (isDangerous_stored V now ids (tx_id tx2) s2) (\<lambda>(dangerous, s3).
               if dangerous then Returns (Inl validationFailed, s3)
               else accept_proposal V now m wallet tx2 s3)))))"

definition receive ::
    "env \<Rightarrow> (string \<Rightarrow> nat option) \<Rightarrow> time \<Rightarrow> (nat \<Rightarrow> string) \<Rightarrow> string \<Rightarrow> userInfo \<Rightarrow> app \<Rightarrow>
     (unit, (WalletApplicationServiceError + string option) \<times> app) outcome" where
  "receive V BigUInt now ids i info s =
     (case Message_create (env_packages V) (env_bigint V) (env_hexint V) BigUInt info of
        None \<Rightarrow> Returns (Inr None, s)
      | Some (TransactionConfirmedMessage m) \<Rightarrow> bindO (handle_confirmed V now m s) (\<lambda>(r, s1). Returns (Inr r, s1))
      | Some (TransactionRejectedMessage m) \<Rightarrow> bindO (handle_rejected V now m s) (\<lambda>(r, s1). Returns (Inr r, s1))
      | Some (SendTransaction m) \<Rightarrow> handle_send V now ids i m s)"

subsection \<open>What a decision needs and does\<close>

text \<open>The signature over \<open>h\<close> belongs to the browser extension of the wallet.\<close>

definition signed_by_extension :: "env \<Rightarrow> data \<Rightarrow> EthSignature \<Rightarrow> Wallet \<Rightarrow> bool" where
  "signed_by_extension V h sig w \<longleftrightarrow>
     (\<exists>a ext. address_of_signature V h sig = (Returns (Some a) :: (unit, Address option) outcome) \<and>
        Wallet.owner w browserExtension = Some ext \<and> same_spelling a (owner_address ext))"

lemma address_of_signature_errors:
  "address_of_signature V h sig = (Returns r :: ('e, Address option) outcome) \<longleftrightarrow>
   address_of_signature V h sig = (Returns r :: ('d, Address option) outcome)"
  by (auto simp: address_of_signature_def data_from_signature_def Address_init_def split: option.splits)

lemma transaction_from_spec:
  assumes "newest_ok V" "transaction_from V m h s = (Returns (Some tx) :: ('e, Transaction option) outcome)"
  obtains w wallet where "tx \<in> set (txRows s)" "tx_hash tx = Some (dm_hash m)" "status tx = TS_signing"
    "AccountID_walletID (tx_accountID tx) = (Returns w :: ('e, _) outcome)" "wallet_with w s = Some wallet"
    "signed_by_extension V h (dm_signature m) wallet"
proof -
  obtain a w wallet ext where *: "find_tx_hash_status V (dm_hash m) TS_signing s = Some tx"
    "address_of_signature V h (dm_signature m) = (Returns (Some a) :: ('e, _) outcome)"
    "AccountID_walletID (tx_accountID tx) = (Returns w :: ('e, _) outcome)" "wallet_with w s = Some wallet"
    "Wallet.owner wallet browserExtension = Some ext" "same_spelling a (owner_address ext)"
    using assms(2) by (auto simp: transaction_from_def bind_eq_Some_conv split: option.splits if_splits)
  have "tx \<in> set (txRows s)" "tx_hash tx = Some (dm_hash m)" "status tx = TS_signing"
    using assms(1) *(1) by (fastforce simp: newest_ok_def find_tx_hash_status_def)+
  moreover have "signed_by_extension V h (dm_signature m) wallet"
    using *(2,5,6) address_of_signature_errors [where ?'e = 'e and ?'d = unit] unfolding signed_by_extension_def by blast
  ultimately show thesis using that * by blast
qed

lemma tx_reject_signing:
  "status tx = TS_signing \<Longrightarrow> tx_reject now now tx = Returns (timestampUpdated now (timestampRejected now (change_status TS_rejected tx)))"
  by (simp add: tx_reject_def Signing_reject_def)

lemma tx_id_edits [simp]:
  "tx_id (timestampUpdated d tx) = tx_id tx" "tx_id (timestampRejected d tx) = tx_id tx" "tx_id (change_status c tx) = tx_id tx"
  "tx_id (add_signature sg d tx) = tx_id tx" "tx_id (change_hash h d tx) = tx_id tx"
  by (simp_all add: timestamp_defs change_status_def add_signature_def edit_defs)

lemma handle_confirmed_cases:
  assumes "handle_confirmed V now m s = (Returns (r, s') :: ('e, string option \<times> app) outcome)"
  obtains (ignored) "r = None" "s' = s"
  | (added) tx w ext d where "transaction_from V m (dm_hash m) s = (Returns (Some tx) :: ('e, _) outcome)"
    "AccountID_walletID (tx_accountID tx) = (Returns w :: ('e, _) outcome)" "owner_address_in browserExtension w s = Some ext"
    "r = Some (tx_id tx)" "s' = save_tx (add_signature \<lparr>sig_address = ext, sig_data = d\<rparr> now tx) s"
proof -
  obtain t where t: "transaction_from V m (dm_hash m) s = (Returns t :: ('e, _) outcome)"
    using assms by (auto simp: handle_confirmed_def)
  show thesis
  proof (cases t)
    case None
    with assms t ignored show ?thesis by (simp add: handle_confirmed_def)
  next
    case (Some tx)
    with assms t obtain d w ext a where
      "AccountID_walletID (tx_accountID tx) = (Returns w :: ('e, _) outcome)" "owner_address_in browserExtension w s = Some ext"
      "Address_init (env_packages V) (address_value ext) = (Returns a :: ('e, _) outcome)"
      "r = Some (tx_id tx)" "s' = save_tx (add_signature \<lparr>sig_address = a, sig_data = d\<rparr> now tx) s"
      by (auto simp: handle_confirmed_def Let_def)
    moreover from this(3) have "a = ext" by (auto simp: Address_init_def split: if_splits)
    ultimately show ?thesis using added t Some by blast
  qed
qed

lemma handle_rejected_cases:
  assumes "handle_rejected V now m s = (Returns (r, s') :: ('e, string option \<times> app) outcome)"
  obtains (ignored) "r = None" "s' = s"
  | (rejected) tx tx1 where "transaction_from V m (rejection_hash V m) s = (Returns (Some tx) :: ('e, _) outcome)"
    "tx_reject now now tx = (Returns tx1 :: ('e, _) outcome)" "r = Some (tx_id tx1)" "s' = save_tx tx1 s"
proof -
  obtain t where t: "transaction_from V m (rejection_hash V m) s = (Returns t :: ('e, _) outcome)"
    using assms by (auto simp: handle_rejected_def)
  show thesis
  proof (cases t)
    case None
    with assms t ignored show ?thesis by (simp add: handle_rejected_def)
  next
    case (Some tx)
    with assms t obtain tx1 where "tx_reject now now tx = (Returns tx1 :: ('e, _) outcome)" "r = Some (tx_id tx1)"
      "s' = save_tx tx1 s" by (auto simp: handle_rejected_def)
    with rejected t Some show ?thesis by blast
  qed
qed

text \<open>
  (C3) A confirmation or rejection takes effect only for a stored transaction with the hash of the message that is being
  signed, and only when the signature over that hash (for a rejection: over the hash of the rejection text) recovers the browser extension that
  owns the wallet of the transaction. Then one signature is added, or the status becomes rejected; no other row changes. Any other
  message leaves the whole state as it was.
\<close>

theorem decisions_are_authentic:
  assumes "newest_ok V"
    and "handle_confirmed V now c s = (Returns (r, s1) :: ('e, string option \<times> app) outcome)"
    and "handle_rejected V now d s = (Returns (q, s2) :: ('e, string option \<times> app) outcome)"
  shows "(r = None \<longrightarrow> s1 = s) \<and> (q = None \<longrightarrow> s2 = s) \<and>
    (\<forall>i. r = Some i \<longrightarrow> (\<exists>tx w wallet sg. tx \<in> set (txRows s) \<and> tx_id tx = i \<and> tx_hash tx = Some (dm_hash c) \<and>
      status tx = TS_signing \<and> AccountID_walletID (tx_accountID tx) = (Returns w :: ('e, WalletID) outcome) \<and>
      wallet_with w s = Some wallet \<and> signed_by_extension V (dm_hash c) (dm_signature c) wallet \<and>
      s1 = save_tx (add_signature sg now tx) s \<and> Some (sig_address sg) = owner_address_in browserExtension w s)) \<and>
    (\<forall>i. q = Some i \<longrightarrow> (\<exists>tx w wallet. tx \<in> set (txRows s) \<and> tx_id tx = i \<and> tx_hash tx = Some (dm_hash d) \<and>
      status tx = TS_signing \<and> AccountID_walletID (tx_accountID tx) = (Returns w :: ('e, WalletID) outcome) \<and>
      wallet_with w s = Some wallet \<and> signed_by_extension V (rejection_hash V d) (dm_signature d) wallet \<and>
      s2 = save_tx (timestampUpdated now (timestampRejected now (change_status TS_rejected tx))) s))"
proof (intro conjI allI impI)
  fix i assume "r = Some i"
  with assms(2) obtain tx w ext dt where *: "transaction_from V c (dm_hash c) s = (Returns (Some tx) :: ('e, _) outcome)"
    "AccountID_walletID (tx_accountID tx) = (Returns w :: ('e, _) outcome)" "owner_address_in browserExtension w s = Some ext"
    "i = tx_id tx" "s1 = save_tx (add_signature \<lparr>sig_address = ext, sig_data = dt\<rparr> now tx) s"
    by (cases rule: handle_confirmed_cases) auto
  obtain v wallet where t: "tx \<in> set (txRows s)" "tx_hash tx = Some (dm_hash c)" "status tx = TS_signing"
    "AccountID_walletID (tx_accountID tx) = (Returns v :: ('e, _) outcome)" "wallet_with v s = Some wallet"
    "signed_by_extension V (dm_hash c) (dm_signature c) wallet"
    using assms(1) *(1) by (rule transaction_from_spec)
  have "v = w" using t(4) *(2) by simp
  with * t show "\<exists>tx w wallet sg. tx \<in> set (txRows s) \<and> tx_id tx = i \<and> tx_hash tx = Some (dm_hash c) \<and>
      status tx = TS_signing \<and> AccountID_walletID (tx_accountID tx) = (Returns w :: ('e, WalletID) outcome) \<and>
      wallet_with w s = Some wallet \<and> signed_by_extension V (dm_hash c) (dm_signature c) wallet \<and>
      s1 = save_tx (add_signature sg now tx) s \<and> Some (sig_address sg) = owner_address_in browserExtension w s"
    by (intro exI [of _ tx] exI [of _ w] exI [of _ wallet] exI [of _ "\<lparr>sig_address = ext, sig_data = dt\<rparr>"]) simp
next
  fix i assume "q = Some i"
  with assms(3) obtain tx tx1 where *: "transaction_from V d (rejection_hash V d) s = (Returns (Some tx) :: ('e, _) outcome)"
    "tx_reject now now tx = (Returns tx1 :: ('e, _) outcome)" "i = tx_id tx1" "s2 = save_tx tx1 s"
    by (cases rule: handle_rejected_cases) auto
  obtain w wallet where t: "tx \<in> set (txRows s)" "tx_hash tx = Some (dm_hash d)" "status tx = TS_signing"
    "AccountID_walletID (tx_accountID tx) = (Returns w :: ('e, _) outcome)" "wallet_with w s = Some wallet"
    "signed_by_extension V (rejection_hash V d) (dm_signature d) wallet"
    using assms(1) *(1) by (rule transaction_from_spec)
  have "tx1 = timestampUpdated now (timestampRejected now (change_status TS_rejected tx))"
    using *(2) by (simp add: tx_reject_signing [OF t(3)])
  with * t show "\<exists>tx w wallet. tx \<in> set (txRows s) \<and> tx_id tx = i \<and> tx_hash tx = Some (dm_hash d) \<and>
      status tx = TS_signing \<and> AccountID_walletID (tx_accountID tx) = (Returns w :: ('e, WalletID) outcome) \<and>
      wallet_with w s = Some wallet \<and> signed_by_extension V (rejection_hash V d) (dm_signature d) wallet \<and>
      s2 = save_tx (timestampUpdated now (timestampRejected now (change_status TS_rejected tx))) s"
    by (intro exI [of _ tx] exI [of _ w] exI [of _ wallet]) simp
next
  assume "r = None" with assms(2) show "s1 = s" by (cases rule: handle_confirmed_cases) auto
next
  assume "q = None" with assms(3) show "s2 = s" by (cases rule: handle_rejected_cases) auto
qed

subsection \<open>What a proposal needs and does\<close>

text \<open>The transaction has the parameters of the message.\<close>

definition carries :: "SendTransactionMessage \<Rightarrow> Transaction \<Rightarrow> bool" where
  "carries m t \<longleftrightarrow>
     sender t = Some (sm_safe m) \<and> tx_data t = Some (sm_data m) \<and> operation t = Some (sm_operation m) \<and>
     tx_nonce t = Some (show_int (sm_nonce m)) \<and> recipient t \<noteq> None \<and> amount t \<noteq> None \<and> fee t \<noteq> None \<and>
     (\<exists>token. feeEstimate t = Some \<lparr>gas = sm_txGas m, dataGas = sm_dataGas m, operationalGas = sm_operationalGas m,
        gasPrice = \<lparr>ta_amount = sm_gasPrice m, ta_token = token\<rparr>\<rparr>)"

definition same_identity :: "Transaction \<Rightarrow> Transaction \<Rightarrow> bool" where
  "same_identity t u \<longleftrightarrow>
     tx_id u = tx_id t \<and> tx_accountID u = tx_accountID t \<and> tx_type u = tx_type t \<and> status u = status t \<and> signatures u = signatures t"

lemma update_required_spec:
  assumes "update_required V now from to v d tx s = (Returns (tx', s') :: ('e, Transaction \<times> app) outcome)"
  shows "accounts_only s s'" "same_identity tx tx'" "sender tx' = Some from" "tx_data tx' = Some d" "recipient tx' \<noteq> None"
    "amount tx' \<noteq> None"
proof -
  show "accounts_only s s'" using assms enhance_frame [where ?'e = 'e] by (auto simp: update_required_def)
  obtain r where r: "decodedTransfer (env_packages V) d = (Returns r :: ('e, _) outcome)"
    using assms by (auto simp: update_required_def enhanceWithERC20Data_def)
  have "same_identity tx tx' \<and> sender tx' = Some from \<and> tx_data tx' = Some d \<and> recipient tx' \<noteq> None \<and> amount tx' \<noteq> None"
    using assms r
    by (cases r) (auto simp: update_required_def enhanceWithERC20Data_def same_identity_def edit_defs timestamp_defs)
  then show "same_identity tx tx'" "sender tx' = Some from" "tx_data tx' = Some d" "recipient tx' \<noteq> None" "amount tx' \<noteq> None"
    by simp_all
qed

lemma update_with_message_spec:
  assumes "update_with_message V now m tx s = (Returns (tx', s') :: ('e, Transaction \<times> app) outcome)"
  shows "accounts_only s s'" "same_identity tx tx'" "carries m tx'"
proof -
  obtain tx1 s1 t1 s2 f s3 where u: "update_required V now (sm_safe m) (sm_to m) (sm_value m) (sm_data m) tx s = (Returns (tx1, s1) :: ('e, _) outcome)"
    and t: "token_for V now (sm_gasToken m) s1 = (Returns (t1, s2) :: ('e, _) outcome)"
    and f: "token_for V now (sm_gasToken m) s2 = (Returns (f, s3) :: ('e, _) outcome)"
    and s': "s' = s3"
    and tx': "tx' = change_nonce (Some (show_int (sm_nonce m))) now
      (change_fee (Some \<lparr>ta_amount = (sm_txGas m + sm_dataGas m) * sm_gasPrice m, ta_token = f\<rparr>) now
        (change_feeEstimate (Some \<lparr>gas = sm_txGas m, dataGas = sm_dataGas m, operationalGas = sm_operationalGas m,
          gasPrice = \<lparr>ta_amount = sm_gasPrice m, ta_token = t1\<rparr>\<rparr>) now (change_operation (Some (sm_operation m)) now tx1)))"
    using assms by (auto simp: update_with_message_def estimation_def message_fee_def)
  show "accounts_only s s'"
    using update_required_spec(1) [OF u] token_for_frame [OF t] token_for_frame [OF f] accounts_only_trans unfolding s' by blast
  show "same_identity tx tx'" "carries m tx'"
    using update_required_spec(2-) [OF u] by (simp_all add: tx' same_identity_def carries_def edit_defs timestamp_defs)
qed

text \<open>The digest does not depend on status, hash, dates and signatures, nor on accounts and transactions.\<close>

lemma hash_of_cong:
  assumes "walletRows (app_world s') = walletRows (app_world s)"
  shows "hash_of (env_digest V s') (add_signature sg d (timestampUpdated d (change_status c (change_hash h d tx)))) =
    hash_of (env_digest V s) tx"
  using assms
  by (simp add: add_signature_def hash_of_def hashData_def domainData_def valueData_def env_digest_def tx_txTypeHash_def
      tx_domainSeparatorTypeHash_def find_id_def ethTo_def ethValue_def isERC20Transfer_def signed_data_def edit_defs timestamp_defs
      change_status_def)

lemma accept_proposal_cases:
  assumes "accept_proposal V now m wallet tx s = Returns (r, s')" "status tx = TS_draft" "carries m tx"
  obtains (refused) "r = Inr None" "s' = remove_tx tx s"
  | (accepted) sg where "r = Inr (Some (tx_id tx))" "signed_by_extension V (sm_hash m) (sm_signature m) wallet"
    "hash_of (env_digest V s) tx = (Returns (sm_hash m) :: (unit, data) outcome)"
    "s' = save_tx (add_signature sg now (timestampUpdated now (change_status TS_signing (change_hash (Some (sm_hash m)) now tx)))) s"
proof -
  let ?tx1 = "change_hash (Some (sm_hash m)) now tx"
  have rm: "remove_tx ?tx1 s = remove_tx tx s" by (simp add: remove_tx_def)
  obtain h where h: "hash_of (env_digest V s) tx = (Returns h :: (unit, data) outcome)"
    using assms(1) by (auto simp: accept_proposal_def)
  show thesis
  proof (cases "h = sm_hash m")
    case False
    with assms(1) h refused show ?thesis by (simp add: accept_proposal_def)
  next
    case True
    obtain signer where signer: "address_of_signature V (sm_hash m) (sm_signature m) = (Returns signer :: (unit, _) outcome)"
      using assms(1) h True by (auto simp: accept_proposal_def Let_def)
    show ?thesis
    proof (cases "\<exists>a ext. signer = Some a \<and> Wallet.owner wallet browserExtension = Some ext \<and> same_spelling a (owner_address ext)")
      case False
      with assms(1) h True signer rm refused show ?thesis
        by (cases signer; cases "Wallet.owner wallet browserExtension") (simp_all add: accept_proposal_def Let_def)
    next
      case ok: True
      then obtain a ext where a: "signer = Some a" "Wallet.owner wallet browserExtension = Some ext" "same_spelling a (owner_address ext)"
        by blast
      have "tx_proceed now now ?tx1 = (Returns (timestampUpdated now (change_status TS_signing ?tx1)) :: (unit, _) outcome)"
        using assms(2,3) by (simp add: tx_proceed_def Draft_proceed_def assertNotNil_forced edit_defs timestamp_defs carries_def)
      with assms(1) h True signer a obtain sg where "r = Inr (Some (tx_id tx))"
        "s' = save_tx (add_signature sg now (timestampUpdated now (change_status TS_signing ?tx1))) s"
        by (auto simp: accept_proposal_def Let_def)
      moreover have "signed_by_extension V (sm_hash m) (sm_signature m) wallet"
        using signer a by (auto simp: signed_by_extension_def)
      ultimately show ?thesis using accepted h True by blast
    qed
  qed
qed

lemma proposal_target_spec:
  assumes "proposal_target V now i m wallet s = (Returns (tx, s1) :: ('e, Transaction \<times> app) outcome)"
  shows "only_transaction (tx_id tx) s s1" "tx_id tx = i \<or> find_tx_hash (sm_hash m) s = Some tx"
proof -
  have "only_transaction (tx_id tx) s s1 \<and> (tx_id tx = i \<or> find_tx_hash (sm_hash m) s = Some tx)"
  proof (cases "find_tx_hash (sm_hash m) s")
    case None
    with assms obtain a where "s1 = save_tx (new_draft wallet a i now) s" "find_tx i s1 = Some tx"
      by (auto simp: proposal_target_def newDraftTransaction_in_def)
    then show ?thesis using only_transaction_save [of "new_draft wallet a i now" s] by (auto simp: find_tx_save)
  qed (use assms in \<open>simp add: proposal_target_def only_transaction_accounts\<close>)
  then show "only_transaction (tx_id tx) s s1" "tx_id tx = i \<or> find_tx_hash (sm_hash m) s = Some tx" by simp_all
qed

lemma stepBack_signing: "status tx = TS_signing \<Longrightarrow> stepBack now now tx = Returns (change_status TS_draft tx)"
  by (simp add: stepBack_def)

lemma handle_send_cases:
  assumes "handle_send V now ids i m s = Returns (r, s')"
  obtains (unknown) "r = Inr None" "s' = s"
  | (settled) wallet tx where "r = Inr None" "find_address (sm_safe m) (app_world s) = Some wallet"
    "proposal_target V now i m wallet s = (Returns (tx, s') :: (unit, _) outcome)"
  | (checked) wallet tx s1 tx1 tx2 s2 dangerous s3 where "find_address (sm_safe m) (app_world s) = Some wallet"
    "proposal_target V now i m wallet s = (Returns (tx, s1) :: (unit, _) outcome)"
    "tx1 = change_status TS_draft tx"
    "update_with_message V now m tx1 s1 = (Returns (tx2, s2) :: (unit, _) outcome)"
    "isDangerous_stored V now ids (tx_id tx2) s2 = Returns (dangerous, s3)"
    "if dangerous then r = Inl validationFailed \<and> s' = s3 else accept_proposal V now m wallet tx2 s3 = Returns (r, s')"
proof (cases "find_address (sm_safe m) (app_world s)")
  case None
  with assms unknown show ?thesis by (simp add: handle_send_def)
next
  case wallet: (Some wallet)
  then obtain tx s1 where t: "proposal_target V now i m wallet s = (Returns (tx, s1) :: (unit, _) outcome)"
    using assms by (auto simp: handle_send_def)
  have draft: "status tx = TS_draft \<Longrightarrow> change_status TS_draft tx = tx" by (simp add: change_status_def)
  show ?thesis
  proof (cases "status tx = TS_signing \<or> status tx = TS_draft")
    case False
    with assms wallet t settled show ?thesis by (simp add: handle_send_def)
  next
    case True
    with draft have "bindO (if status tx = TS_signing then stepBack now now tx else Returns tx) f = f (change_status TS_draft tx)"
      for f :: "_ \<Rightarrow> (unit, (WalletApplicationServiceError + string option) \<times> app) outcome"
      by (auto simp: stepBack_signing)
    with assms wallet t obtain tx2 s2 dangerous s3 where
      "update_with_message V now m (change_status TS_draft tx) s1 = (Returns (tx2, s2) :: (unit, _) outcome)"
      "isDangerous_stored V now ids (tx_id tx2) s2 = Returns (dangerous, s3)"
      "(if dangerous then Returns (Inl validationFailed, s3) else accept_proposal V now m wallet tx2 s3) = Returns (r, s')"
      by (auto simp: handle_send_def)
    then show ?thesis using checked [OF wallet t refl] by (auto split: if_splits)
  qed
qed

lemma accept_proposal_spec:
  assumes "accept_proposal V now m wallet tx s = Returns (r, s')" "status tx = TS_draft" "carries m tx"
  shows "only_transaction (tx_id tx) s s' \<and> (\<forall>k. r = Inr (Some k) \<longrightarrow> k = tx_id tx \<and> (\<exists>t. find_tx k s' = Some t \<and>
    signed_by_extension V (sm_hash m) (sm_signature m) wallet \<and> status t = TS_signing \<and> tx_hash t = Some (sm_hash m) \<and>
    carries m t \<and> hash_of (env_digest V s') t = (Returns (sm_hash m) :: (unit, data) outcome)))"
  using assms
proof (cases rule: accept_proposal_cases)
  case refused
  then show ?thesis using only_transaction_remove [of tx s] by simp
next
  case (accepted sg)
  let ?t = "add_signature sg now (timestampUpdated now (change_status TS_signing (change_hash (Some (sm_hash m)) now tx)))"
  have "only_transaction (tx_id tx) s s'" using only_transaction_save [of ?t s] accepted(4) by simp
  moreover have "hash_of (env_digest V s') ?t = (Returns (sm_hash m) :: (unit, data) outcome)"
    using accepted(3,4) by (subst hash_of_cong [of s' s]) (simp_all add: save_tx_def)
  moreover have "find_tx (tx_id tx) s' = Some ?t" using accepted(4) by (simp add: find_tx_save)
  moreover have "status ?t = TS_signing" "tx_hash ?t = Some (sm_hash m)" "carries m ?t"
    using assms(3) by (simp_all add: add_signature_def carries_def change_status_def edit_defs timestamp_defs)
  ultimately show ?thesis using accepted(1,2) by simp
qed

text \<open>
  (C4) A proposal touches at most one transaction: the stored one with its hash, or a new one. It is accepted only when the
  digest of the transaction that is saved equals the hash of the message and the signature over that hash recovers the browser
  extension of the named wallet; the saved transaction is then in the signing status and has the message's sender, data, operation, gas
  parameters and nonce.
\<close>

theorem proposals_are_authentic:
  assumes "handle_send V now ids i m s = Returns (r, s')"
  shows "\<exists>j. only_transaction j s s' \<and> (j = i \<or> (\<exists>tx. find_tx_hash (sm_hash m) s = Some tx \<and> tx_id tx = j)) \<and>
    (\<forall>k. r = Inr (Some k) \<longrightarrow> k = j \<and> (\<exists>tx wallet. find_tx j s' = Some tx \<and>
      find_address (sm_safe m) (app_world s) = Some wallet \<and> signed_by_extension V (sm_hash m) (sm_signature m) wallet \<and>
      status tx = TS_signing \<and> tx_hash tx = Some (sm_hash m) \<and> carries m tx \<and>
      hash_of (env_digest V s') tx = (Returns (sm_hash m) :: (unit, data) outcome)))"
  using assms
proof (cases rule: handle_send_cases)
  case unknown
  then show ?thesis by (auto simp: only_transaction_def)
next
  case (settled wallet tx)
  with proposal_target_spec [OF settled(3)] show ?thesis by auto
next
  case (checked wallet tx s1 tx1 tx2 s2 dangerous s3)
  note target = proposal_target_spec [OF checked(2)]
  note upd = update_with_message_spec [OF checked(4)]
  have id: "tx_id tx2 = tx_id tx" and draft: "status tx2 = TS_draft" using upd(2) by (simp_all add: same_identity_def checked(3))
  have only: "only_transaction (tx_id tx) s s3"
    using target(1) upd(1) isDangerous_stored_frame [OF checked(5)] only_transaction_accounts only_transaction_trans by metis
  show ?thesis
  proof (cases dangerous)
    case True
    with checked(6) only target(2) show ?thesis by auto
  next
    case False
    with checked(6) have "accept_proposal V now m wallet tx2 s3 = Returns (r, s')" by simp
    note acc = accept_proposal_spec [OF this draft upd(3)]
    then have "only_transaction (tx_id tx) s s'" using only only_transaction_trans id by metis
    with acc id target(2) checked(1) show ?thesis by (intro exI [of _ "tx_id tx"]) auto
  qed
qed

subsection \<open>The danger check reads the stored row\<close>

lemma isDangerous_new_draft:
  assumes "find_tx i s = Some (new_draft w a i now)" "AccountID_walletID a = (Returns k :: (unit, _) outcome)"
  shows "isDangerous_stored V now' ids i s = Returns (False, s)"
  using assms
  by (simp add: isDangerous_stored_def isDangerous_def batchedTransactions_def isMultiSend_def split: option.split)

lemma new_proposal_target:
  assumes "find_tx_hash (sm_hash m) s = None" "CHR '':'' \<notin> set (wallet_id wallet)" "CHR '':'' \<notin> set (address_value (sm_to m))"
    "proposal_target V now i m wallet s = (Returns (tx, s1) :: ('e, Transaction \<times> app) outcome)"
  obtains a where "tx = new_draft wallet a i now" "find_tx i s1 = Some tx" "AccountID_walletID a = (Returns (wallet_id wallet) :: (unit, _) outcome)"
proof -
  obtain token a where a: "tokenAddress V (sm_to m) (sm_data m) = (Returns token :: ('e, _) outcome)"
    "accountID (address_value token) (wallet_id wallet) = (Returns a :: ('e, _) outcome)"
    "s1 = save_tx (new_draft wallet a i now) s" "find_tx i s1 = Some tx"
    using assms(1,4) by (auto simp: proposal_target_def newDraftTransaction_in_def)
  have "address_value token \<noteq> []" "wallet_id wallet \<noteq> []" "a = address_value token @ '':'' @ wallet_id wallet"
    using a(2) by (auto simp: accountID_def split: if_splits)
  moreover have "CHR '':'' \<notin> set (address_value token)"
    using a(1) assms(3) by (auto simp: tokenAddress_def Token_Ether_def Address_zero_def split: if_splits)
  ultimately have "AccountID_walletID a = (Returns (wallet_id wallet) :: (unit, _) outcome)"
    using AccountID_pair(1) [of "address_value token" "wallet_id wallet"] assms(2) by metis
  moreover have "tx = new_draft wallet a i now" using a(3,4) by (simp add: find_tx_save)
  ultimately show thesis using that a(4) by blast
qed

lemma accept_proposal_not_thrown: "accept_proposal V now m wallet tx s \<noteq> Returns (Inl e, s')"
  by (auto simp: accept_proposal_def Let_def split: option.splits)

text \<open>
  For a proposal whose hash is not stored yet, the danger check never fires: it reads the row of the new draft, which
  has no recipient and no operation yet, instead of the transaction that was updated from the message. The handler behaves as
  if the check were absent, so a delegate call signed by the extension is accepted like any other proposal.
\<close>

theorem proposal_danger_unchecked:
  assumes "find_address (sm_safe m) (app_world s) = Some wallet" "find_tx_hash (sm_hash m) s = None"
    "CHR '':'' \<notin> set (wallet_id wallet)" "CHR '':'' \<notin> set (address_value (sm_to m))"
  shows "handle_send V now ids i m s =
      bindO (proposal_target V now i m wallet s) (\<lambda>(tx, s1). bindO (update_with_message V now m tx s1) (\<lambda>(tx2, s2).
        accept_proposal V now m wallet tx2 s2)) \<and>
    handle_send V now ids i m s \<noteq> Returns (Inl e, s')"
proof -
  have eq: "handle_send V now ids i m s =
      bindO (proposal_target V now i m wallet s) (\<lambda>(tx, s1). bindO (update_with_message V now m tx s1) (\<lambda>(tx2, s2).
        accept_proposal V now m wallet tx2 s2))"
  proof (cases "proposal_target V now i m wallet s :: (unit, Transaction \<times> app) outcome")
    case (Returns p)
    then obtain tx s1 where t: "proposal_target V now i m wallet s = (Returns (tx, s1) :: (unit, _) outcome)" by (cases p) auto
    obtain a where a: "tx = new_draft wallet a i now" "find_tx i s1 = Some tx" "AccountID_walletID a = (Returns (wallet_id wallet) :: (unit, _) outcome)"
      using new_proposal_target [OF assms(2-4) t] by blast
    have "isDangerous_stored V now ids (tx_id tx2) s2 = Returns (False, s2)"
      if u: "update_with_message V now m tx s1 = (Returns (tx2, s2) :: (unit, _) outcome)" for tx2 s2
    proof -
      have "find_tx i s2 = find_tx i s1" using update_with_message_spec(1) [OF u] by (simp add: accounts_only_def find_tx_def)
      moreover have "tx_id tx2 = i" using update_with_message_spec(2) [OF u] a(1) by (simp add: same_identity_def)
      ultimately show ?thesis using isDangerous_new_draft [of i s2 wallet a now "wallet_id wallet"] a by simp
    qed
    then show ?thesis using assms(1) a(1)
      by (cases "update_with_message V now m tx s1 :: (unit, Transaction \<times> app) outcome") (auto simp: handle_send_def t)
  qed (simp_all add: handle_send_def assms(1))
  then show ?thesis using accept_proposal_not_thrown by (auto split: prod.splits)
qed

subsection \<open>Proposals that fail remove the stored transaction\<close>

lemma unsigned_parts [simp]:
  "update_with_message V now (m\<lparr>sm_signature := sig\<rparr>) = update_with_message V now m"
  "proposal_target V now i (m\<lparr>sm_signature := sig\<rparr>) = proposal_target V now i m"
  by (auto simp: update_with_message_def estimation_def message_fee_def proposal_target_def fun_eq_iff cong: option.case_cong)

text \<open>
  (C38) A message that names a known Safe and the hash of a transaction waiting for signatures, but carries other parameters, makes the app
  remove that transaction, whatever its signature is: the digest is compared, and the transaction removed, before
  the signature is looked at.
\<close>

theorem forged_proposal_removes:
  assumes "find_address (sm_safe m) (app_world s) = Some wallet" "find_tx_hash (sm_hash m) s = Some tx" "status tx = TS_signing"
    and "update_with_message V now m (change_status TS_draft tx) s = (Returns (tx2, s2) :: (unit, Transaction \<times> app) outcome)"
    and "isDangerous_stored V now ids (tx_id tx) s2 = Returns (False, s3)"
    and "hash_of (env_digest V s3) tx2 = (Returns h :: (unit, data) outcome)" "h \<noteq> sm_hash m"
  shows "handle_send V now ids i (m\<lparr>sm_signature := sig\<rparr>) s = Returns (Inr None, remove_tx tx s3) \<and>
    find_tx (tx_id tx) (remove_tx tx s3) = None"
proof -
  have "tx_id tx2 = tx_id tx" using update_with_message_spec(2) [OF assms(4)] by (simp add: same_identity_def)
  moreover from this have "remove_tx tx2 s3 = remove_tx tx s3" by (simp add: remove_tx_def)
  ultimately show ?thesis
    using assms by (simp add: handle_send_def proposal_target_def stepBack_signing accept_proposal_def find_tx_remove)
qed

subsection \<open>Samples\<close>

definition newest_first :: "Transaction list \<Rightarrow> Transaction option" where
  "newest_first xs =
     (case xs of [] \<Rightarrow> None
      | x # ys \<Rightarrow> Some (fold (\<lambda>t u. if created_second u < created_second t then t else u) ys x))"

lemma newest_fold:
  "fold (\<lambda>t u. if created_second u < created_second t then t else u) ys x \<in> insert x (set ys) \<and>
   (\<forall>z\<in>insert x (set ys). created_second z \<le> created_second (fold (\<lambda>t u. if created_second u < created_second t then t else u) ys x))"
proof (induction ys arbitrary: x)
  case (Cons y ys)
  show ?case using Cons [of "if created_second x < created_second y then y else x"] by (auto split: if_splits intro: order_trans less_imp_le)
qed simp

definition sampleEnv :: env where
  "sampleEnv =
     \<lparr>env_packages = samplePackages, env_bigint = sampleBigint, env_hexint = sampleHexint, env_node = sampleNode,
      env_metadata = sampleMetadata\<lparr>masterCopy := []\<rparr>, env_eip55 = (\<lambda>d. ''0x'' @ hex_of_bytes d), env_newest = newest_first,
      env_BInt = read_int, env_calculateSignature = (\<lambda>r s v. [of_int r, of_int s, of_int v]), env_publicKey = (\<lambda>_ _. Some []),
      env_createAddress = (\<lambda>_. ''0x''), env_addressString = (\<lambda>_. address_value (row_address CHR ''b'')),
      env_sign = (\<lambda>_ _. Some [])\<rparr>"

lemma sampleEnv_newest: "newest_ok sampleEnv"
  using newest_fold by (auto simp: newest_ok_def sampleEnv_def newest_first_def split: list.splits)

definition sampleWallet :: Wallet where
  "sampleWallet = row_wallet\<lparr>address := Some (row_address CHR ''c''),
     owners := [\<lparr>owner_address = row_address CHR ''a'', owner_role = thisDevice\<rparr>,
       \<lparr>owner_address = row_address CHR ''b'', owner_role = browserExtension\<rparr>]\<rparr>"

definition sampleApp :: app where
  "sampleApp =
     \<lparr>app_world = \<lparr>walletRows = [sampleWallet], accountRows = [], deviceKeys = [], events = []\<rparr>,
      app_tokens = \<lparr>itemRows = [], token_events = [], balanceUpdates = []\<rparr>,
      app_portfolio = Some \<lparr>selectedWallet = Some ''w'', wallets = [''w'']\<rparr>,
      txRows = [row_tx\<lparr>tx_hash := Some [7], tx_accountID := ''e:w''\<rparr>]\<rparr>"

definition sampleDecision :: TransactionDecisionMessage where
  "sampleDecision = \<lparr>dm_hash = [7], dm_signature = \<lparr>sig_r = ''1'', sig_s = ''2'', sig_v = 27\<rparr>\<rparr>"

lemma Address_init_hex_address:
  assumes "packages_ok E" "hex_address a"
  shows "Address_init E (address_value a) = Returns a"
proof -
  obtain s where s: "address_value a = CHR ''0'' # CHR ''x'' # s" "is_hex s" "length s = 40"
    using assms(2) by (rule hex_addressE)
  then show ?thesis using ethHex_is_hex(1) [OF assms(1) s(2)] by (cases a) (simp add: Address_init_def hasPrefix_def)
qed

lemma sample_account: "AccountID_walletID ''e:w'' = Returns ''w''"
  using AccountID_pair(1) [of "''e''" "''w''"] by simp

lemma sample_signature:
  "address_of_signature sampleEnv h (dm_signature sampleDecision) = Returns (Some (row_address CHR ''b''))"
  using Address_init_hex_address [OF samplePackages_ok hex_row_address, of "CHR ''b''"]
  by (simp add: address_of_signature_def data_from_signature_def sampleEnv_def sampleDecision_def read_int_def read_nat_def read_digit_def)

lemma sample_wallet: "wallet_with ''w'' sampleApp = Some sampleWallet"
  "Wallet.owner sampleWallet browserExtension = Some \<lparr>owner_address = row_address CHR ''b'', owner_role = browserExtension\<rparr>"
  by (simp_all add: wallet_with_def find_id_def sampleApp_def sampleWallet_def row_wallet_def Wallet_blank_def Wallet.owner_def
      first_with_def)

lemma sample_target: "transaction_from sampleEnv sampleDecision h sampleApp =
  Returns (Some (row_tx\<lparr>tx_hash := Some [7], tx_accountID := ''e:w''\<rparr>))"
proof -
  have "find_tx_hash_status sampleEnv (dm_hash sampleDecision) TS_signing sampleApp =
      Some (row_tx\<lparr>tx_hash := Some [7], tx_accountID := ''e:w''\<rparr>)"
    by (simp add: find_tx_hash_status_def sampleEnv_def newest_first_def sampleApp_def sampleDecision_def row_tx_def timestamp_defs
        change_status_def)
  then show ?thesis
    by (simp add: transaction_from_def sample_signature sample_account sample_wallet same_spelling_def)
qed

theorem decisions_are_authentic_witness:
  "\<exists>s1 s2. handle_confirmed sampleEnv 9 sampleDecision sampleApp = (Returns (Some ''t'', s1) :: (unit, _) outcome) \<and>
     handle_rejected sampleEnv 9 sampleDecision sampleApp = (Returns (Some ''t'', s2) :: (unit, _) outcome) \<and>
     signed_by_extension sampleEnv [7] (dm_signature sampleDecision) sampleWallet"
proof -
  let ?tx = "row_tx\<lparr>tx_hash := Some [7], tx_accountID := ''e:w''\<rparr>"
  have id: "tx_id ?tx = ''t''" "status ?tx = TS_signing"
    by (simp_all add: row_tx_def row_draft_def edit_defs timestamp_defs change_status_def Transaction_init_def)
  have d: "data_from_signature sampleEnv (dm_signature sampleDecision) = (Returns [1, 2, 27] :: (unit, _) outcome)"
    by (simp add: data_from_signature_def sampleEnv_def sampleDecision_def read_int_def read_nat_def read_digit_def)
  have b: "Address_init (env_packages sampleEnv) (address_value (row_address CHR ''b'')) = (Returns (row_address CHR ''b'') :: (unit, _) outcome)"
    using Address_init_hex_address [OF samplePackages_ok hex_row_address, of "CHR ''b''"] by (simp add: sampleEnv_def)
  obtain s1 where c: "handle_confirmed sampleEnv 9 sampleDecision sampleApp = (Returns (Some ''t'', s1) :: (unit, _) outcome)"
    using id by (simp add: handle_confirmed_def sample_target d sample_account owner_address_in_def sample_wallet b Let_def)
  obtain s2 where q: "handle_rejected sampleEnv 9 sampleDecision sampleApp = (Returns (Some ''t'', s2) :: (unit, _) outcome)"
    using id by (simp add: handle_rejected_def sample_target tx_reject_signing)
  from decisions_are_authentic [OF sampleEnv_newest c q] obtain tx w wallet where
    "AccountID_walletID (tx_accountID tx) = (Returns w :: (unit, _) outcome)" "tx \<in> set (txRows sampleApp)"
    "wallet_with w sampleApp = Some wallet"
    and signed: "signed_by_extension sampleEnv (dm_hash sampleDecision) (dm_signature sampleDecision) wallet"
    by auto
  moreover have "txRows sampleApp = [?tx]" by (simp add: sampleApp_def)
  ultimately have "w = ''w''" "wallet = sampleWallet" using sample_wallet by (auto simp: sample_account)
  with signed have "signed_by_extension sampleEnv [7] (dm_signature sampleDecision) sampleWallet" by (simp add: sampleDecision_def)
  with c q show ?thesis by blast
qed

definition sampleProposal :: "data \<Rightarrow> SendTransactionMessage" where
  "sampleProposal h =
     \<lparr>sm_hash = h, sm_safe = row_address CHR ''c'', sm_to = row_address CHR ''a'', sm_value = 0, sm_data = [],
      sm_operation = OP_delegateCall, sm_txGas = 1, sm_dataGas = 2, sm_operationalGas = 3, sm_gasPrice = 4,
      sm_gasToken = Address_zero, sm_nonce = 5, sm_signature = dm_signature sampleDecision\<rparr>"

definition proposed :: "time \<Rightarrow> Transaction \<Rightarrow> Transaction" where
  "proposed now tx =
     change_nonce (Some ''5'') now (change_fee (Some (ether 12)) now
       (change_feeEstimate (Some \<lparr>gas = 1, dataGas = 2, operationalGas = 3, gasPrice = ether 4\<rparr>) now
         (change_operation (Some OP_delegateCall) now (change_amount (Some (ether 0)) now (change_data (Some []) now
           (change_recipient (Some (row_address CHR ''a'')) now (change_sender (Some (row_address CHR ''c'')) now tx)))))))"

lemma no_transfer:
  assumes "packages_ok E"
  shows "decodedTransfer E [] = Returns None"
proof -
  have "length (abi_method E transferMethodSignature) = 4" using packages_okD(5) [OF assms] by (simp add: abi_method_def)
  then have "abi_method E transferMethodSignature \<noteq> []" by fastforce
  then show ?thesis by (simp add: decodedTransfer_def invocation_def)
qed

lemma sample_update: "update_with_message sampleEnv now (sampleProposal h) tx s = (Returns (proposed now tx, s) :: ('e, _) outcome)"
proof -
  have "decodedTransfer samplePackages [] = (Returns None :: ('e, _) outcome)" by (rule no_transfer [OF samplePackages_ok])
  moreover have "token_for sampleEnv now Address_zero s = (Returns (Token_Ether, s) :: ('e, _) outcome)"
    by (simp add: token_for_def token_with_id_def token_id_def Token_Ether_def)
  moreover have "show_int 5 = ''5''" by code_simp
  ultimately show ?thesis
    by (simp add: update_with_message_def update_required_def enhanceWithERC20Data_def estimation_def message_fee_def sampleProposal_def
        proposed_def ether_def) (simp add: sampleEnv_def)
qed

lemma sample_address: "find_address (row_address CHR ''c'') (app_world sampleApp) = Some sampleWallet"
  by (simp add: find_address_def sampleApp_def sampleWallet_def)

lemma proposed_digest:
  assumes "account_ok (tx_accountID tx)"
  obtains h where "hash_of (env_digest sampleEnv sampleApp) (proposed now tx) = (Returns h :: (unit, data) outcome)" "length h = 32"
proof -
  let ?D = "env_digest sampleEnv sampleApp" and ?t = "proposed now tx"
  have D: "digest_env_ok ?D"
    by (simp add: digest_env_ok_def env_digest_def sampleEnv_def samplePackages_ok hexint_ok_def sampleHexint_def)
  have "BigInt_String sampleBigint ''5'' = Some 5"
    by (simp add: sampleBigint_def read_int_def read_nat_def read_digit_def)
  then have ok: "digest_ok ?D ?t" "digest_parts ?D ?t"
    using assms hex_row_address hex_zero_address
    by (simp_all add: digest_ok_def digest_parts_def proposed_def edit_defs timestamp_defs u256_def ether_def Token_Ether_def
        ethTo_def ethValue_def isERC20Transfer_def env_digest_def sampleEnv_def)
  then obtain t where "safe_tx ?D ?t = Some t" using safe_tx_defined by blast
  then have "hash_of ?D ?t = (Returns (safeTx_digest (de_packages ?D) t) :: (unit, data) outcome)"
    using hash_of_eip712 [OF D ok(1)] by simp
  moreover have "length (safeTx_digest (de_packages ?D) t) = 32"
    using packages_okD(5) D by (simp add: safeTx_digest_def digest_env_ok_def)
  ultimately show thesis using that by blast
qed

theorem forged_proposal_removes_witness:
  "\<exists>s'. handle_send sampleEnv 9 (\<lambda>_. ''k'') ''n'' ((sampleProposal [7])\<lparr>sm_signature := \<lparr>sig_r = [], sig_s = [], sig_v = 0\<rparr>\<rparr>) sampleApp =
     Returns (Inr None, s') \<and> find_tx ''t'' s' = None"
proof -
  let ?tx = "row_tx\<lparr>tx_hash := Some [7], tx_accountID := ''e:w''\<rparr>"
  have tx: "tx_id ?tx = ''t''" "status ?tx = TS_signing" "tx_type ?tx = TT_transfer" "operation ?tx = None" "tx_data ?tx = None"
    by (simp_all add: row_tx_def row_draft_def edit_defs timestamp_defs change_status_def Transaction_init_def)
  have rows: "txRows sampleApp = [?tx]" by (simp add: sampleApp_def)
  obtain h where h: "hash_of (env_digest sampleEnv sampleApp) (proposed 9 (change_status TS_draft ?tx)) = (Returns h :: (unit, data) outcome)"
    "length h = 32"
    by (rule proposed_digest [of "change_status TS_draft ?tx" 9])
      (simp_all add: change_status_def account_ok_def components_def components_loop.simps)
  have "find_tx ''t'' sampleApp = Some ?tx" using tx rows by (simp add: find_tx_def find_row_def)
  then have d: "isDangerous_stored sampleEnv 9 (\<lambda>_. ''k'') (tx_id ?tx) sampleApp = Returns (False, sampleApp)"
    using tx
    by (simp add: isDangerous_stored_def sample_account sample_wallet batchedTransactions_def isMultiSend_def isDangerous_def
        hasData_def split: option.split)
  have f: "find_tx_hash (sm_hash (sampleProposal [7])) sampleApp = Some ?tx" and n: "h \<noteq> sm_hash (sampleProposal [7])"
    and w: "find_address (sm_safe (sampleProposal [7])) (app_world sampleApp) = Some sampleWallet"
    using rows h(2) sample_address by (auto simp: find_tx_hash_def sampleProposal_def)
  from forged_proposal_removes [OF w f tx(2) sample_update d h(1) n] tx(1) show ?thesis by auto
qed

text \<open>A delegate call that was never stored, signed by the extension, is accepted.\<close>

lemma sample_proposal_accepted:
  obtains h s' where "handle_send sampleEnv 9 (\<lambda>_. ''k'') ''n'' (sampleProposal h) sampleApp = Returns (Inr (Some ''n''), s')"
    "find_tx_hash (sm_hash (sampleProposal h)) sampleApp = None"
proof -
  define a where "a = address_value Address_zero @ '':'' @ ''w''"
  let ?tx = "new_draft sampleWallet a ''n'' 9" and ?s = "save_tx (new_draft sampleWallet a ''n'' 9) sampleApp"
  have colon: "CHR '':'' \<notin> set (address_value Address_zero)" by (simp add: Address_zero_def)
  have acc: "AccountID_walletID a = (Returns ''w'' :: (unit, _) outcome)"
    unfolding a_def by (rule AccountID_pair(1)) (simp_all add: Address_zero_def)
  have "account_ok a"
    using components_joined [of "[address_value Address_zero, ''w'']" "CHR '':''" "[]"] colon
    by (simp add: account_ok_def a_def Address_zero_def)
  then obtain h where h: "hash_of (env_digest sampleEnv sampleApp) (proposed 9 ?tx) = (Returns h :: (unit, data) outcome)" "length h = 32"
    using proposed_digest [of ?tx 9] by auto
  have fresh: "find_tx_hash (sm_hash (sampleProposal h)) sampleApp = None"
    using h(2) by (auto simp: find_tx_hash_def sampleApp_def sampleProposal_def)
  have w: "find_address (sm_safe (sampleProposal h)) (app_world sampleApp) = Some sampleWallet" "wallet_id sampleWallet = ''w''"
    using sample_address by (simp_all add: sampleProposal_def sampleWallet_def row_wallet_def Wallet_blank_def)
  have t: "proposal_target sampleEnv 9 ''n'' (sampleProposal h) sampleWallet sampleApp = (Returns (?tx, ?s) :: (unit, _) outcome)"
    using no_transfer [OF samplePackages_ok, where ?'a = unit] fresh w(2)
    by (simp add: proposal_target_def tokenAddress_def sampleEnv_def sampleProposal_def newDraftTransaction_in_def accountID_def
        Token_Ether_def find_tx_save a_def) (simp add: Address_zero_def)
  have d: "isDangerous_stored sampleEnv 9 (\<lambda>_. ''k'') ''n'' ?s = Returns (False, ?s)"
    by (rule isDangerous_new_draft [OF _ acc]) (simp add: find_tx_save)
  have p: "tx_id (proposed 9 ?tx) = ''n''" "env_digest sampleEnv ?s = env_digest sampleEnv sampleApp" "sm_hash (sampleProposal h) = h"
    "sm_signature (sampleProposal h) = dm_signature sampleDecision"
    by (simp_all add: proposed_def edit_defs timestamp_defs env_digest_def save_tx_def sampleProposal_def)
  have pr: "tx_proceed 9 9 (change_hash (Some h) 9 (proposed 9 ?tx)) =
      (Returns (timestampUpdated 9 (change_status TS_signing (change_hash (Some h) 9 (proposed 9 ?tx)))) :: (unit, _) outcome)"
    by (simp add: tx_proceed_def Draft_proceed_def assertNotNil_forced proposed_def edit_defs timestamp_defs)
  have b: "Address_init (env_packages sampleEnv) (address_value (row_address CHR ''b'')) = (Returns (row_address CHR ''b'') :: (unit, _) outcome)"
    using Address_init_hex_address [OF samplePackages_ok hex_row_address, of "CHR ''b''"] by (simp add: sampleEnv_def)
  have sg: "data_from_signature sampleEnv (dm_signature sampleDecision) = (Returns [1, 2, 27] :: (unit, _) outcome)"
    by (simp add: data_from_signature_def sampleEnv_def sampleDecision_def read_int_def read_nat_def read_digit_def)
  obtain s' where "accept_proposal sampleEnv 9 (sampleProposal h) sampleWallet (proposed 9 ?tx) ?s = Returns (Inr (Some ''n''), s')"
    using h p by (simp add: accept_proposal_def sample_signature sample_wallet same_spelling_def pr b sg Let_def)
  with w(1) t d p(1) have "handle_send sampleEnv 9 (\<lambda>_. ''k'') ''n'' (sampleProposal h) sampleApp = Returns (Inr (Some ''n''), s')"
    by (simp add: handle_send_def sample_update)
  then show thesis using that fresh by blast
qed

theorem proposals_are_authentic_witness:
  "\<exists>h s' tx. handle_send sampleEnv 9 (\<lambda>_. ''k'') ''n'' (sampleProposal h) sampleApp = Returns (Inr (Some ''n''), s') \<and>
     find_tx ''n'' s' = Some tx \<and> status tx = TS_signing \<and> carries (sampleProposal h) tx \<and>
     signed_by_extension sampleEnv h (dm_signature sampleDecision) sampleWallet"
proof -
  obtain h s' where r: "handle_send sampleEnv 9 (\<lambda>_. ''k'') ''n'' (sampleProposal h) sampleApp = Returns (Inr (Some ''n''), s')"
    by (rule sample_proposal_accepted)
  from proposals_are_authentic [OF r] obtain tx wallet where "find_tx ''n'' s' = Some tx" "status tx = TS_signing"
    "carries (sampleProposal h) tx" "find_address (sm_safe (sampleProposal h)) (app_world sampleApp) = Some wallet"
    "signed_by_extension sampleEnv (sm_hash (sampleProposal h)) (sm_signature (sampleProposal h)) wallet" by (elim exE conjE) (simp, blast)
  with r sample_address show ?thesis by (auto simp: sampleProposal_def)
qed

theorem proposal_danger_unchecked_witness:
  "\<exists>h s'. sm_operation (sampleProposal h) = OP_delegateCall \<and>
     handle_send sampleEnv 9 (\<lambda>_. ''k'') ''n'' (sampleProposal h) sampleApp = Returns (Inr (Some ''n''), s') \<and>
     (\<forall>e s2. handle_send sampleEnv 9 (\<lambda>_. ''k'') ''n'' (sampleProposal h) sampleApp \<noteq> Returns (Inl e, s2))"
proof -
  obtain h s' where r: "handle_send sampleEnv 9 (\<lambda>_. ''k'') ''n'' (sampleProposal h) sampleApp = Returns (Inr (Some ''n''), s')"
    and fresh: "find_tx_hash (sm_hash (sampleProposal h)) sampleApp = None"
    by (rule sample_proposal_accepted)
  have w: "find_address (sm_safe (sampleProposal h)) (app_world sampleApp) = Some sampleWallet"
    "CHR '':'' \<notin> set (wallet_id sampleWallet)" "CHR '':'' \<notin> set (address_value (sm_to (sampleProposal h)))"
    using sample_address by (simp_all add: sampleProposal_def sampleWallet_def row_wallet_def Wallet_blank_def row_address_def)
  have "sm_operation (sampleProposal h) = OP_delegateCall" by (simp add: sampleProposal_def)
  with r proposal_danger_unchecked [OF w(1) fresh w(2,3)] show ?thesis by blast
qed

end
