(* ===== verification/History.thy ===== *)
theory History
  imports TransactionService "HOL-Library.Product_Lexorder"
begin

section \<open>Transaction history\<close>

text \<open>
  The parts of \<^verbatim>\<open>TransactionDomainService.swift\<close> that show and update the history of a wallet: the order of
  \<^verbatim>\<open>allTransactions\<close>, the groups of \<^verbatim>\<open>grouppedTransactions\<close>, \<^verbatim>\<open>updatePendingTransactions\<close>, and the merge with the transaction
  service in \<^verbatim>\<open>TransactionSyncDomainService.swift\<close>. \<^verbatim>\<open>dateForGrouping\<close>, which asks the calendar, is the argument \<open>day\<close>.
  Shown: the groups are the history, newest day first; a run over the pending transactions settles all that have a receipt, also
  when the node fails later; the merge keeps local identifiers and takes over what the service reports.
\<close>

subsection \<open>Order\<close>

definition allEventDates :: "Transaction \<Rightarrow> time list" where
  "allEventDates tx =
     List.map_filter id [processedDate tx, submittedDate tx, rejectedDate tx, updatedDate tx, createdDate tx]"

text \<open>The loop of the comparison; \<open>None\<close> when the dates do not decide.\<close>

fun dates_before :: "time list \<Rightarrow> time list \<Rightarrow> bool option" where
  "dates_before [] [] = None"
| "dates_before [] (r # rs) = Some True"
| "dates_before (l # ls) [] = Some False"
| "dates_before (l # ls) (r # rs) = (if l = r then dates_before ls rs else Some (l > r))"

definition tx_before :: "Transaction \<Rightarrow> Transaction \<Rightarrow> bool" where
  "tx_before lhs rhs =
     (case dates_before (allEventDates lhs) (allEventDates rhs) of
        Some b \<Rightarrow> b
      | None \<Rightarrow> if status lhs = status rhs then tx_id lhs < tx_id rhs
                else Code_rawValue (status lhs) < Code_rawValue (status rhs))"

text \<open>\<^verbatim>\<open>sorted(by:)\<close>.\<close>

fun insert_by :: "('a \<Rightarrow> 'a \<Rightarrow> bool) \<Rightarrow> 'a \<Rightarrow> 'a list \<Rightarrow> 'a list" where
  "insert_by lt x [] = [x]"
| "insert_by lt x (y # ys) = (if lt y x then y # insert_by lt x ys else x # y # ys)"

definition sorted_by :: "('a \<Rightarrow> 'a \<Rightarrow> bool) \<Rightarrow> 'a list \<Rightarrow> 'a list" where
  "sorted_by lt xs = foldr (insert_by lt) xs []"

text \<open>\<open>filterO\<close> is \<^verbatim>\<open>filter\<close> with a condition that may stop the process.\<close>

fun filterO :: "('a \<Rightarrow> ('e, bool) outcome) \<Rightarrow> 'a list \<Rightarrow> ('e, 'a list) outcome" where
  "filterO P [] = Returns []"
| "filterO P (x # xs) = bindO (P x) (\<lambda>b. bindO (filterO P xs) (\<lambda>ys. Returns (if b then x # ys else ys)))"

definition listed :: "WalletID option \<Rightarrow> Transaction \<Rightarrow> ('e, bool) outcome" where
  "listed w tx =
     (if status tx \<noteq> TS_draft \<and> status tx \<noteq> TS_signing \<and> status tx \<noteq> TS_rejected
      then bindO (AccountID_walletID (tx_accountID tx)) (\<lambda>i. Returns (Some i = w))
      else Returns False)"

definition allTransactions :: "app \<Rightarrow> ('e, Transaction list) outcome" where
  "allTransactions s =
     bindO (filterO (listed (Option.bind (app_portfolio s) selectedWallet)) (txRows s)) (\<lambda>txs. Returns (sorted_by tx_before txs))"

subsection \<open>Groups\<close>

datatype GroupType = GT_pending | GT_processed

record TransactionGroup =
  group_type :: GroupType
  group_date :: "time option"
  group_transactions :: "Transaction list"

definition append_to_last :: "Transaction \<Rightarrow> TransactionGroup list \<Rightarrow> TransactionGroup list" where
  "append_to_last tx gs =
     butlast gs @ [(last gs)\<lparr>group_transactions := group_transactions (last gs) @ [tx]\<rparr>]"

fun group_loop ::
    "(time \<Rightarrow> time) \<Rightarrow> Transaction list \<Rightarrow> TransactionGroup \<Rightarrow> TransactionGroup list \<Rightarrow>
     ('e, TransactionGroup \<times> TransactionGroup list) outcome" where
  "group_loop day [] pending gs = Returns (pending, gs)"
| "group_loop day (tx # txs) pending gs =
     (if status tx = TS_pending
      then group_loop day txs (pending\<lparr>group_transactions := group_transactions pending @ [tx]\<rparr>) gs
      else (case allEventDates tx of
              [] \<Rightarrow> Traps
            | d # _ \<Rightarrow>
                (let gs1 = (if gs = [] \<or> group_date (last gs) \<noteq> Some (day d)
                            then gs @ [\<lparr>group_type = GT_processed, group_date = Some (day d), group_transactions = []\<rparr>] else gs)
                 in group_loop day txs pending (append_to_last tx gs1))))"

definition grouppedTransactions :: "(time \<Rightarrow> time) \<Rightarrow> app \<Rightarrow> ('e, TransactionGroup list) outcome" where
  "grouppedTransactions day s =
     bindO (allTransactions s) (\<lambda>txs.
     bindO (group_loop day txs \<lparr>group_type = GT_pending, group_date = None, group_transactions = []\<rparr> []) (\<lambda>(pending, gs).
     Returns (filter (\<lambda>g. group_transactions g \<noteq> []) (pending # gs))))"

subsection \<open>Pending transactions\<close>

datatype TransactionDomainServiceError = pendingHashNotSet | nodeFailed

text \<open>
  The loop returns whether it changed something, and the error that ended it. An error in between leaves the transactions that were saved
  before. The assertion on a missing hash is a debug check; the error that follows it is modelled.
\<close>

fun pending_loop :: "node \<Rightarrow> time \<Rightarrow> Transaction list \<Rightarrow> bool \<Rightarrow> app \<Rightarrow> ('e, (TransactionDomainServiceError + bool) \<times> app) outcome" where
  "pending_loop N now [] hasUpdates s = Returns (Inr hasUpdates, s)"
| "pending_loop N now (tx # txs) hasUpdates s =
     (case transactionHash tx of
        None \<Rightarrow> Returns (Inl pendingHashNotSet, s)
      | Some h \<Rightarrow>
          (case node_getTransactionReceipt N h of
             Traps \<Rightarrow> Traps
           | Throws _ \<Rightarrow> Returns (Inl nodeFailed, s)
           | Returns None \<Rightarrow> pending_loop N now txs hasUpdates s
           | Returns (Some receipt) \<Rightarrow>
               bindO (if receipt_success receipt then succeed now now tx else fail now now tx) (\<lambda>tx1.
               case node_blockTimestamp N (receipt_blockHash receipt) of
                 Traps \<Rightarrow> Traps
               | Throws _ \<Rightarrow> Returns (Inl nodeFailed, s)
               | Returns None \<Rightarrow> pending_loop N now txs True (save_tx tx1 s)
               | Returns (Some d) \<Rightarrow>
                   let tx2 = timestampUpdated now (timestampProcessed d tx1)
                   in pending_loop N now txs True (save_tx tx2 (save_tx tx2 s)))))"

definition updatePendingTransactions ::
    "node \<Rightarrow> time \<Rightarrow> app \<Rightarrow> ('e, (TransactionDomainServiceError + unit) \<times> app) outcome" where
  "updatePendingTransactions N now s =
     bindO (pending_loop N now (filter (\<lambda>t. status t = TS_pending) (txRows s)) False s) (\<lambda>(r, s1).
     case r of
       Inl e \<Rightarrow> Returns (Inl e, s1)
     | Inr hasUpdates \<Rightarrow> Returns (Inr (), if hasUpdates then publish_event TransactionStatusUpdated s1 else s1))"

subsection \<open>What a run over the pending transactions does\<close>

text \<open>The transaction with the receipt and the block time that the node reports, if it reports them.\<close>

definition settled :: "node \<Rightarrow> time \<Rightarrow> Transaction \<Rightarrow> Transaction option" where
  "settled N now tx =
     (case Option.bind (transactionHash tx) (\<lambda>h. case node_getTransactionReceipt N h of Returns r \<Rightarrow> r | _ \<Rightarrow> None) of
        None \<Rightarrow> None
      | Some receipt \<Rightarrow>
          let tx1 = timestampUpdated now (timestampProcessed now
                (change_status (if receipt_success receipt then TS_success else TS_failed) tx))
          in case node_blockTimestamp N (receipt_blockHash receipt) of
               Returns None \<Rightarrow> Some tx1
             | Returns (Some d) \<Rightarrow> Some (timestampUpdated now (timestampProcessed d tx1))
             | _ \<Rightarrow> None)"

definition settle :: "node \<Rightarrow> time \<Rightarrow> Transaction \<Rightarrow> app \<Rightarrow> app" where
  "settle N now tx s = (case settled N now tx of None \<Rightarrow> s | Some t \<Rightarrow> save_tx t s)"

lemma settled_simps:
  assumes "settled N now tx = Some t"
  shows "tx_id t = tx_id tx" "status t \<in> {TS_success, TS_failed}" "processedDate t \<noteq> None"
  using assms
  by (auto simp: settled_def Let_def timestamp_defs change_status_def split: option.splits outcome.splits if_splits)

lemma save_tx_twice: "save_tx t (save_tx t s) = save_tx t s"
  by (simp add: save_tx_def insert_or_replace_def)

lemma pending_loop_step:
  assumes "status tx = TS_pending"
  shows "pending_loop N now (tx # txs) u s = (Traps :: ('e, _) outcome) \<or>
    (\<exists>e. pending_loop N now (tx # txs) u s = (Returns (Inl e, s) :: ('e, _) outcome) \<and> settled N now tx = None) \<or>
    (pending_loop N now (tx # txs) u s :: ('e, _) outcome) = pending_loop N now txs (u \<or> settled N now tx \<noteq> None) (settle N now tx s)"
  using assms
  by (cases "transactionHash tx")
    (auto simp: settled_def settle_def Let_def succeed_def fail_def Pending_succeed_def Pending_fail_def save_tx_twice
      split: outcome.split option.split)

lemma pending_loop_spec:
  assumes "pending_loop N now txs u s = (Returns (r, s') :: ('e, (TransactionDomainServiceError + bool) \<times> app) outcome)"
    and "\<forall>tx\<in>set txs. status tx = TS_pending"
  obtains "done" rest where "txs = done @ rest" "s' = fold (settle N now) done s"
    "\<forall>b. r = Inr b \<longrightarrow> rest = []"
proof -
  have "\<exists>done rest. txs = done @ rest \<and> s' = fold (settle N now) done s \<and>
    (\<forall>b. r = Inr b \<longrightarrow> rest = [])"
    using assms
  proof (induction txs arbitrary: u s)
    case (Cons tx txs)
    have tx: "status tx = TS_pending" using Cons.prems(2) by simp
    consider e where "r = Inl e" "s' = s"
      | "pending_loop N now txs (u \<or> settled N now tx \<noteq> None) (settle N now tx s) =
          (Returns (r, s') :: ('e, (TransactionDomainServiceError + bool) \<times> app) outcome)"
      using pending_loop_step [OF tx, of N now txs u s, where ?'e = 'e] Cons.prems(1)
      by (elim disjE exE conjE) (auto simp del: pending_loop.simps)
    then show ?case
    proof cases
      case 1
      then show ?thesis by (intro exI [where x = "[]"] exI [where x = "tx # txs"]) simp
    next
      case 2
      have "\<forall>tx\<in>set txs. status tx = TS_pending" using Cons.prems(2) by simp
      note IH = Cons.IH [OF 2 this]
      then obtain "done" rest where "txs = done @ rest" "s' = fold (settle N now) done (settle N now tx s)"
        "\<forall>b. r = Inr b \<longrightarrow> rest = []"
        by (elim exE conjE) (rule that)
      then show ?thesis by - (rule exI [where x = "tx # done"], rule exI [where x = rest], simp)
    qed
  qed simp
  then show thesis using that by blast
qed

lemma find_tx_settle: "find_tx i (settle N now tx s) = (if i = tx_id tx \<and> settled N now tx \<noteq> None then settled N now tx else find_tx i s)"
  using settled_simps(1) by (auto simp: settle_def find_tx_save split: option.split)

lemma find_tx_settle_all:
  assumes "distinct (map tx_id txs)"
  shows "find_tx i (fold (settle N now) txs s) =
    (case find_row tx_id i txs of
       None \<Rightarrow> find_tx i s
     | Some tx \<Rightarrow> (case settled N now tx of None \<Rightarrow> find_tx i s | Some t \<Rightarrow> Some t))"
  using assms
proof (induction txs arbitrary: s)
  case (Cons tx txs)
  have "find_row tx_id (tx_id tx) txs = None" using Cons.prems by (auto simp: find_row_None_iff)
  then show ?case using Cons
    by (cases "i = tx_id tx") (auto simp: find_row_def find_tx_settle split: option.split)
qed (simp add: find_row_def)

lemma pending_loop_answers:
  assumes "\<forall>h. \<exists>r. node_getTransactionReceipt N h = Returns (Some r)" "\<forall>b. \<exists>d. node_blockTimestamp N b = Returns d"
    and "\<forall>tx\<in>set txs. status tx = TS_pending \<and> transactionHash tx \<noteq> None"
  shows "\<exists>b s'. pending_loop N now txs u s = (Returns (Inr b, s') :: ('e, (TransactionDomainServiceError + bool) \<times> app) outcome)"
  using assms(3)
proof (induction txs arbitrary: u s)
  case (Cons tx txs)
  then obtain h r d where "transactionHash tx = Some h" "node_getTransactionReceipt N h = Returns (Some r)"
    "node_blockTimestamp N (receipt_blockHash r) = Returns d" using assms(1,2) by force
  with Cons show ?case
    by (cases d) (auto simp: Let_def succeed_def fail_def Pending_succeed_def Pending_fail_def)
qed simp

lemma settled_answers:
  assumes "\<forall>h. \<exists>r. node_getTransactionReceipt N h = Returns (Some r)" "\<forall>b. \<exists>d. node_blockTimestamp N b = Returns d"
    and "transactionHash tx \<noteq> None"
  obtains t where "settled N now tx = Some t"
proof -
  obtain h r d where "transactionHash tx = Some h" "node_getTransactionReceipt N h = Returns (Some r)"
    "node_blockTimestamp N (receipt_blockHash r) = Returns d" using assms by force
  then show thesis using that by (cases d) (auto simp: settled_def Let_def)
qed

lemma pending_row:
  assumes "keys_distinct tx_id (txRows s)"
  shows "find_row tx_id i (filter (\<lambda>t. status t = TS_pending) (txRows s)) = Some tx \<longleftrightarrow> find_tx i s = Some tx \<and> status tx = TS_pending"
  using find_row_Some_iff [OF assms] find_row_Some_iff [OF keys_distinct_filter [OF assms]]
  by (auto simp: find_tx_def)

lemma updatePending_run:
  assumes "keys_distinct tx_id (txRows s)" "updatePendingTransactions N now s = (Returns (r, s') :: ('e, (TransactionDomainServiceError + unit) \<times> app) outcome)"
  obtains "done" rest where "filter (\<lambda>t. status t = TS_pending) (txRows s) = done @ rest" "r = Inr () \<longrightarrow> rest = []" "distinct (map tx_id done)"
    "\<And>i. find_tx i s' = find_tx i (fold (settle N now) done s)"
proof -
  let ?P = "filter (\<lambda>t. status t = TS_pending) (txRows s)"
  obtain q s1 where q: "pending_loop N now ?P False s = (Returns (q, s1) :: ('e, (TransactionDomainServiceError + bool) \<times> app) outcome)"
    and r: "(case q of Inl e \<Rightarrow> Returns (Inl e, s1)
      | Inr b \<Rightarrow> Returns (Inr (), if b then publish_event TransactionStatusUpdated s1 else s1)) =
        (Returns (r, s') :: ('e, (TransactionDomainServiceError + unit) \<times> app) outcome)"
    using assms(2) unfolding updatePendingTransactions_def bindO_eq_Returns by (elim exE conjE) (force split: prod.splits)
  obtain "done" rest where *: "?P = done @ rest" "s1 = fold (settle N now) done s" "\<forall>b. q = Inr b \<longrightarrow> rest = []"
    using q by (rule pending_loop_spec) auto
  have "find_tx i s' = find_tx i s1" for i
    using r by (cases q) (auto simp: publish_event_def find_tx_def)
  moreover have "r = Inr () \<longrightarrow> rest = []" using r *(3) by (cases q) auto
  moreover have "distinct (map tx_id done)"
    using keys_distinct_filter [OF assms(1), of "\<lambda>t. status t = TS_pending"] *(1) by (simp add: keys_distinct_def)
  ultimately show thesis using that * by metis
qed

lemma updatePending_rows:
  assumes "keys_distinct tx_id (txRows s)" "updatePendingTransactions N now s = (Returns (r, s') :: ('e, (TransactionDomainServiceError + unit) \<times> app) outcome)"
  shows "find_tx i s' = find_tx i s \<or>
      (\<exists>tx t. find_tx i s = Some tx \<and> status tx = TS_pending \<and> settled N now tx = Some t \<and> find_tx i s' = Some t)"
    and "r = Inr () \<Longrightarrow> find_tx i s = Some tx \<Longrightarrow> status tx = TS_pending \<Longrightarrow>
      find_tx i s' = Some (case settled N now tx of None \<Rightarrow> tx | Some t \<Rightarrow> t)"
proof -
  obtain "done" rest where d: "filter (\<lambda>t. status t = TS_pending) (txRows s) = done @ rest" "r = Inr () \<longrightarrow> rest = []"
    "distinct (map tx_id done)" "\<And>i. find_tx i s' = find_tx i (fold (settle N now) done s)"
    using assms by (rule updatePending_run) blast
  have row: "find_row tx_id i done = Some tx \<Longrightarrow> find_tx i s = Some tx \<and> status tx = TS_pending" for tx
    using pending_row [OF assms(1), of i tx] unfolding d(1) by (simp add: find_row_def find_append)
  show "find_tx i s' = find_tx i s \<or>
      (\<exists>tx t. find_tx i s = Some tx \<and> status tx = TS_pending \<and> settled N now tx = Some t \<and> find_tx i s' = Some t)"
    using row unfolding d(4) find_tx_settle_all [OF d(3)] by (auto split: option.split)
  show "find_tx i s' = Some (case settled N now tx of None \<Rightarrow> tx | Some t \<Rightarrow> t)"
    if "r = Inr ()" "find_tx i s = Some tx" "status tx = TS_pending"
    using pending_row [OF assms(1), of i tx] that d(1,2) unfolding d(4) find_tx_settle_all [OF d(3)] by (auto split: option.split)
qed

text \<open>
  (C35) A run over the pending transactions changes only pending rows, each to what the node reports: success or failure by
  the receipt, with a processing date. This also holds when the node fails in between; a run that ends without error has settled
  every transaction with a receipt. When the node has receipts for all and answers for their blocks, the run ends and nothing is pending any more.
\<close>

theorem pending_transactions_settle:
  assumes "keys_distinct tx_id (txRows s)"
  shows "(\<forall>r s' i. updatePendingTransactions N now s = (Returns (r, s') :: ('e, (TransactionDomainServiceError + unit) \<times> app) outcome) \<longrightarrow>
      find_tx i s' = find_tx i s \<or>
      (\<exists>tx t. find_tx i s = Some tx \<and> status tx = TS_pending \<and> settled N now tx = Some t \<and> find_tx i s' = Some t \<and>
        status t \<in> {TS_success, TS_failed} \<and> processedDate t \<noteq> None)) \<and>
    (\<forall>s' i tx. updatePendingTransactions N now s = (Returns (Inr (), s') :: ('e, (TransactionDomainServiceError + unit) \<times> app) outcome) \<longrightarrow> find_tx i s = Some tx \<longrightarrow>
      status tx = TS_pending \<longrightarrow> find_tx i s' = Some (case settled N now tx of None \<Rightarrow> tx | Some t \<Rightarrow> t)) \<and>
    ((\<forall>h. \<exists>r. node_getTransactionReceipt N h = Returns (Some r)) \<longrightarrow> (\<forall>b. \<exists>d. node_blockTimestamp N b = Returns d) \<longrightarrow>
      (\<forall>tx\<in>set (txRows s). status tx = TS_pending \<longrightarrow> transactionHash tx \<noteq> None) \<longrightarrow>
      (\<exists>s'. updatePendingTransactions N now s = (Returns (Inr (), s') :: ('e, (TransactionDomainServiceError + unit) \<times> app) outcome) \<and>
        (\<forall>i tx. find_tx i s' = Some tx \<longrightarrow> status tx \<noteq> TS_pending)))"
proof (intro conjI allI impI)
  fix r s' i assume u: "updatePendingTransactions N now s = (Returns (r, s') :: ('e, (TransactionDomainServiceError + unit) \<times> app) outcome)"
  show "find_tx i s' = find_tx i s \<or>
      (\<exists>tx t. find_tx i s = Some tx \<and> status tx = TS_pending \<and> settled N now tx = Some t \<and> find_tx i s' = Some t \<and>
        status t \<in> {TS_success, TS_failed} \<and> processedDate t \<noteq> None)"
    using updatePending_rows(1) [OF assms u, of i] settled_simps by blast
next
  fix s' i tx assume "updatePendingTransactions N now s = (Returns (Inr (), s') :: ('e, (TransactionDomainServiceError + unit) \<times> app) outcome)"
    "find_tx i s = Some tx" "status tx = TS_pending"
  then show "find_tx i s' = Some (case settled N now tx of None \<Rightarrow> tx | Some t \<Rightarrow> t)"
    using updatePending_rows(2) [OF assms] by blast
next
  assume N: "\<forall>h. \<exists>r. node_getTransactionReceipt N h = Returns (Some r)" "\<forall>b. \<exists>d. node_blockTimestamp N b = Returns d"
    and hash: "\<forall>tx\<in>set (txRows s). status tx = TS_pending \<longrightarrow> transactionHash tx \<noteq> None"
  then have "\<forall>tx\<in>set (filter (\<lambda>t. status t = TS_pending) (txRows s)). status tx = TS_pending \<and> transactionHash tx \<noteq> None" by simp
  from pending_loop_answers [OF N this] obtain b s1 where "pending_loop N now (filter (\<lambda>t. status t = TS_pending) (txRows s)) False s =
      (Returns (Inr b, s1) :: ('e, (TransactionDomainServiceError + bool) \<times> app) outcome)"
    by blast
  then obtain s' where u: "updatePendingTransactions N now s = (Returns (Inr (), s') :: ('e, (TransactionDomainServiceError + unit) \<times> app) outcome)"
    by (simp add: updatePendingTransactions_def)
  have "status t \<noteq> TS_pending" if t: "find_tx i s' = Some t" for i t
  proof
    assume p: "status t = TS_pending"
    have "find_tx i s = Some t"
      using updatePending_rows(1) [OF assms u, of i] t settled_simps(2) [of N now _ t] p by auto
    moreover from this obtain t' where "settled N now t = Some t'"
      using settled_answers [OF N] hash p find_row_SomeD unfolding find_tx_def by metis
    ultimately show False
      using updatePending_rows(2) [OF assms u, of i t] t p settled_simps(2) [of N now t t'] by auto
  qed
  with u show "\<exists>s'. updatePendingTransactions N now s = (Returns (Inr (), s') :: ('e, (TransactionDomainServiceError + unit) \<times> app) outcome) \<and>
        (\<forall>i tx. find_tx i s' = Some tx \<longrightarrow> status tx \<noteq> TS_pending)" by blast
qed

definition historyNode :: node where
  "historyNode =
     sampleNode\<lparr>node_getTransactionReceipt := \<lambda>_. Returns (Some \<lparr>receipt_success = True, receipt_blockHash = ''b''\<rparr>),
       node_blockTimestamp := \<lambda>_. Returns (Some 5)\<rparr>"

definition historyApp :: app where
  "historyApp = accountsApp\<lparr>txRows := [row_tx\<lparr>status := TS_pending, transactionHash := Some ''0xh''\<rparr>]\<rparr>"

theorem pending_transactions_settle_witness:
  "\<exists>s' tx. updatePendingTransactions historyNode 9 historyApp = (Returns (Inr (), s') :: (unit, _) outcome) \<and>
     find_tx ''t'' s' = Some tx \<and> status tx = TS_success \<and> processedDate tx = Some 5"
proof -
  let ?tx = "row_tx\<lparr>status := TS_pending, transactionHash := Some ''0xh''\<rparr>"
  have id: "tx_id ?tx = ''t''"
    by (simp add: row_tx_def row_draft_def edit_defs timestamp_defs change_status_def Transaction_init_def)
  then have find: "find_tx ''t'' historyApp = Some ?tx" "keys_distinct tx_id (txRows historyApp)"
    by (simp_all add: historyApp_def find_tx_def find_row_def keys_distinct_def)
  note settles = pending_transactions_settle [OF find(2), of historyNode 9, where ?'e = unit]
  then obtain s' where s': "updatePendingTransactions historyNode 9 historyApp = (Returns (Inr (), s') :: (unit, _) outcome)"
    by (auto simp: historyNode_def historyApp_def)
  moreover obtain t where "settled historyNode 9 ?tx = Some t" "status t = TS_success" "processedDate t = Some 5"
    by (simp add: settled_def historyNode_def timestamp_defs change_status_def)
  ultimately show ?thesis using settles find(1) by auto
qed

subsection \<open>The order of the history\<close>

text \<open>The comparison is the lexicographic order of dates (latest first), status and identifier.\<close>

definition history_key :: "Transaction \<Rightarrow> time list \<times> int \<times> string" where
  "history_key tx = (map uminus (allEventDates tx), Code_rawValue (status tx), tx_id tx)"

lemma dates_before_lex: "dates_before ls rs = (if ls = rs then None else Some (map uminus ls < map uminus rs))"
  by (induction ls rs rule: dates_before.induct) auto

lemma Code_rawValue_inj: "Code_rawValue a = Code_rawValue b \<longleftrightarrow> a = b"
  by (cases a; cases b) simp_all

lemma map_uminus_inj: "map uminus ls = map uminus rs \<longleftrightarrow> ls = (rs :: time list)"
  by (auto simp: inj_map_eq_map)

lemma tx_before_key: "tx_before l r \<longleftrightarrow> history_key l < history_key r"
  by (auto simp: tx_before_def dates_before_lex history_key_def less_prod_def' map_uminus_inj Code_rawValue_inj order.strict_iff_order
      split: if_splits)

lemma sorted_by_key:
  assumes "\<And>x y. lt x y \<longleftrightarrow> f x < (f y :: 'k :: linorder)"
  shows "sorted_by lt xs = sort_key f xs"
proof -
  have "insert_by lt x ys = insort_key f x ys" for x ys
    by (induction ys) (auto simp: assms)
  then have "insert_by lt = insort_key f" by (intro ext)
  then show ?thesis by (simp add: sorted_by_def sort_key_def)
qed

lemma filterO_Returns:
  assumes "\<And>x. x \<in> set xs \<Longrightarrow> P x = Returns (Q x)"
  shows "filterO P xs = Returns (filter Q xs)"
  using assms by (induction xs) auto

text \<open>The transactions of the selected wallet that were submitted.\<close>

definition in_history :: "app \<Rightarrow> Transaction \<Rightarrow> bool" where
  "in_history s tx \<longleftrightarrow> listed (Option.bind (app_portfolio s) selectedWallet) tx = (Returns True :: (unit, bool) outcome)"

definition history :: "app \<Rightarrow> Transaction list" where
  "history s = sort_key history_key (filter (in_history s) (txRows s))"

lemma allTransactions_history:
  assumes "\<forall>tx\<in>set (txRows s). account_ok (tx_accountID tx)"
  shows "allTransactions s = (Returns (history s) :: ('e, Transaction list) outcome)"
proof -
  have "(listed w tx :: ('e, bool) outcome) = Returns (listed w tx = (Returns True :: (unit, bool) outcome))" if "tx \<in> set (txRows s)" for w tx
  proof -
    obtain v where v: "AccountID_walletID (tx_accountID tx) = (Returns v :: ('e, _) outcome)"
      "AccountID_walletID (tx_accountID tx) = (Returns v :: (unit, _) outcome)"
      using AccountID_walletID_ok [of "tx_accountID tx"] assms \<open>tx \<in> set (txRows s)\<close> by blast
    show ?thesis by (simp add: listed_def v)
  qed
  then have "filterO (listed (Option.bind (app_portfolio s) selectedWallet)) (txRows s) =
      (Returns (filter (in_history s) (txRows s)) :: ('e, _) outcome)"
    unfolding in_history_def by (intro filterO_Returns)
  then show ?thesis by (simp add: allTransactions_def history_def sorted_by_key [of tx_before history_key, OF tx_before_key])
qed

subsection \<open>The groups are the history by day\<close>

text \<open>The day of a transaction, by its latest event.\<close>

definition tx_day :: "(time \<Rightarrow> time) \<Rightarrow> Transaction \<Rightarrow> time" where
  "tx_day day tx = day (hd (allEventDates tx))"

definition group_ok :: "(time \<Rightarrow> time) \<Rightarrow> TransactionGroup \<Rightarrow> bool" where
  "group_ok day g \<longleftrightarrow>
     group_type g = GT_processed \<and> group_transactions g \<noteq> [] \<and> (\<forall>tx\<in>set (group_transactions g). group_date g = Some (tx_day day tx))"

lemma append_to_last_snoc:
  "append_to_last tx (gs @ [g]) = gs @ [g\<lparr>group_transactions := group_transactions g @ [tx]\<rparr>]"
  by (simp add: append_to_last_def)

text \<open>One round of the loop on a transaction that is not pending.\<close>

lemma group_round:
  assumes "allEventDates tx = d # ds" "list_all (group_ok day) gs" "successively (\<noteq>) (map group_date gs)"
    and "gs' = append_to_last tx (if gs = [] \<or> group_date (last gs) \<noteq> Some (day d)
      then gs @ [\<lparr>group_type = GT_processed, group_date = Some (day d), group_transactions = []\<rparr>] else gs)"
  shows "list_all (group_ok day) gs'" "successively (\<noteq>) (map group_date gs')"
    "concat (map group_transactions gs') = concat (map group_transactions gs) @ [tx]"
proof -
  have day: "tx_day day tx = day d" using assms(1) by (simp add: tx_day_def)
  have "list_all (group_ok day) gs' \<and> successively (\<noteq>) (map group_date gs') \<and>
    concat (map group_transactions gs') = concat (map group_transactions gs) @ [tx]"
  proof (cases gs rule: rev_cases)
    case Nil
    with assms(4) day show ?thesis by (simp add: append_to_last_def group_ok_def)
  next
    case (snoc hs h)
    show ?thesis
    proof (cases "group_date h = Some (day d)")
      case True
      with assms snoc day show ?thesis by (simp add: append_to_last_snoc group_ok_def)
    next
      case False
      then have "gs' = gs @ [\<lparr>group_type = GT_processed, group_date = Some (day d), group_transactions = [tx]\<rparr>]"
        using assms(4) snoc append_to_last_snoc [of tx gs] by simp
      with assms(2,3) snoc day False show ?thesis by (simp add: group_ok_def successively_append_iff)
    qed
  qed
  then show "list_all (group_ok day) gs'" "successively (\<noteq>) (map group_date gs')"
    "concat (map group_transactions gs') = concat (map group_transactions gs) @ [tx]" by simp_all
qed

lemma group_loop_spec:
  assumes "\<forall>tx\<in>set txs. allEventDates tx \<noteq> []" "list_all (group_ok day) gs" "successively (\<noteq>) (map group_date gs)"
  shows "\<exists>gs'. group_loop day txs p gs =
      (Returns (p\<lparr>group_transactions := group_transactions p @ filter (\<lambda>t. status t = TS_pending) txs\<rparr>, gs') :: ('e, _) outcome) \<and>
    list_all (group_ok day) gs' \<and> successively (\<noteq>) (map group_date gs') \<and>
    concat (map group_transactions gs') = concat (map group_transactions gs) @ filter (\<lambda>t. status t \<noteq> TS_pending) txs"
  using assms
proof (induction txs arbitrary: p gs)
  case (Cons tx txs)
  show ?case
  proof (cases "status tx = TS_pending")
    case True
    have "\<forall>tx\<in>set txs. allEventDates tx \<noteq> []" using Cons.prems(1) by simp
    from Cons.IH [OF this Cons.prems(2,3), of "p\<lparr>group_transactions := group_transactions p @ [tx]\<rparr>"] True show ?thesis by simp
  next
    case False
    obtain d ds where d: "allEventDates tx = d # ds" using Cons.prems(1) by (cases "allEventDates tx") auto
    define gs1 where "gs1 = append_to_last tx (if gs = [] \<or> group_date (last gs) \<noteq> Some (day d)
      then gs @ [\<lparr>group_type = GT_processed, group_date = Some (day d), group_transactions = []\<rparr>] else gs)"
    note round = group_round [OF d Cons.prems(2,3) gs1_def]
    have "\<forall>tx\<in>set txs. allEventDates tx \<noteq> []" using Cons.prems(1) by simp
    from Cons.IH [OF this round(1,2), of p] round(3) False d show ?thesis by (simp add: gs1_def Let_def)
  qed
qed simp

lemma history_days:
  assumes "sorted (map history_key txs)" "\<forall>tx\<in>set txs. allEventDates tx \<noteq> []" "mono day"
  shows "sorted_wrt (\<lambda>a b. tx_day day b \<le> tx_day day a) txs"
proof -
  have "tx_day day b \<le> tx_day day a" if "history_key a \<le> history_key b" "allEventDates a \<noteq> []" "allEventDates b \<noteq> []" for a b
  proof -
    obtain x xs y ys where xy: "allEventDates a = x # xs" "allEventDates b = y # ys" using \<open>allEventDates a \<noteq> []\<close> \<open>allEventDates b \<noteq> []\<close>
      by (meson neq_Nil_conv)
    with that(1) have "y \<le> x" by (auto simp: history_key_def less_eq_prod_def)
    with xy assms(3) show ?thesis by (simp add: tx_day_def monoD)
  qed
  with assms(1,2) show ?thesis
    unfolding sorted_map by (auto elim: sorted_wrt_mono_rel [rotated])
qed

lemma group_days_decrease:
  assumes "list_all (group_ok day) gs" "successively (\<noteq>) (map group_date gs)"
    and "sorted_wrt (\<lambda>a b. tx_day day b \<le> tx_day day a) (concat (map group_transactions gs))"
  shows "sorted_wrt (>) (map (\<lambda>g. the (group_date g)) gs)"
proof -
  have "successively (>) (map (\<lambda>g. the (group_date g)) gs)"
    using assms
  proof (induction gs rule: induct_list012)
    case (3 g h gs)
    obtain a b where ab: "a \<in> set (group_transactions g)" "b \<in> set (group_transactions h)"
      using 3(3) by (fastforce simp: group_ok_def intro: last_in_set)
    with 3(3) have "group_date g = Some (tx_day day a)" "group_date h = Some (tx_day day b)" by (simp_all add: group_ok_def)
    moreover have "tx_day day b \<le> tx_day day a" using 3(5) ab by (simp add: sorted_wrt_append)
    moreover have "group_date g \<noteq> group_date h" using 3(4) by simp
    moreover have "successively (>) (map (\<lambda>g. the (group_date g)) (h # gs))"
      using 3 by (intro 3(2)) (simp_all add: sorted_wrt_append)
    ultimately show ?case by simp
  qed simp_all
  then show ?thesis by (simp add: successively_conv_sorted_wrt transp_def)
qed

lemma sorted_history: "sorted (map history_key (history s))"
  by (simp add: history_def)

lemma set_history: "set (history s) = {tx \<in> set (txRows s). in_history s tx}"
  by (auto simp: history_def)

text \<open>
  (C37) The history that is shown is complete and ordered. With dated transactions of well-formed accounts, the call returns the
  groups of the submitted transactions of the selected wallet: first the pending ones, then, when there are any, the processed ones by day, no
  group empty, every transaction in the group of the day of its latest event, the days strictly decreasing, and
  within and across groups the order of the comparison: latest event first.
\<close>

theorem history_groups:
  assumes "\<forall>tx\<in>set (txRows s). account_ok (tx_accountID tx) \<and> createdDate tx \<noteq> None" "mono day"
  shows "\<exists>ps qs. grouppedTransactions day s = (Returns (ps @ qs) :: ('e, TransactionGroup list) outcome) \<and>
    ps = (if filter (\<lambda>t. status t = TS_pending) (history s) = [] then []
      else [\<lparr>group_type = GT_pending, group_date = None, group_transactions = filter (\<lambda>t. status t = TS_pending) (history s)\<rparr>]) \<and>
    concat (map group_transactions qs) = filter (\<lambda>t. status t \<noteq> TS_pending) (history s) \<and>
    list_all (group_ok day) qs \<and> sorted_wrt (>) (map (\<lambda>g. the (group_date g)) qs)"
proof -
  let ?n = "filter (\<lambda>t. status t \<noteq> TS_pending) (history s)"
  have dated: "\<forall>tx\<in>set (history s). allEventDates tx \<noteq> []"
    using assms(1) by (auto simp: set_history allEventDates_def List.map_filter_def)
  obtain qs where qs: "group_loop day (history s) \<lparr>group_type = GT_pending, group_date = None, group_transactions = []\<rparr> [] =
      (Returns (\<lparr>group_type = GT_pending, group_date = None, group_transactions = filter (\<lambda>t. status t = TS_pending) (history s)\<rparr>, qs)
        :: ('e, _) outcome)"
    "list_all (group_ok day) qs" "successively (\<noteq>) (map group_date qs)" "concat (map group_transactions qs) = ?n"
    using group_loop_spec [OF dated, of day "[]" "\<lparr>group_type = GT_pending, group_date = None, group_transactions = []\<rparr>", where ?'e = 'e]
    by auto
  have "sorted (map history_key ?n)" using sorted_filter [of history_key "history s"] sorted_history by blast
  then have "sorted_wrt (\<lambda>a b. tx_day day b \<le> tx_day day a) ?n" using dated assms(2) by (intro history_days) auto
  then have "sorted_wrt (>) (map (\<lambda>g. the (group_date g)) qs)" using group_days_decrease qs by metis
  moreover have "filter (\<lambda>g. group_transactions g \<noteq> []) qs = qs"
    using qs(2) by (simp add: filter_id_conv list_all_iff group_ok_def)
  ultimately show ?thesis
    using qs assms(1) by (simp add: grouppedTransactions_def allTransactions_history)
qed

definition floor_day :: "time \<Rightarrow> time" where
  "floor_day t = of_int (floor t)"

theorem history_groups_witness:
  "\<exists>gs. grouppedTransactions floor_day (historyApp\<lparr>txRows := [row_tx\<lparr>status := TS_success, tx_accountID := ''e:w''\<rparr>]\<rparr>) =
     (Returns gs :: (unit, TransactionGroup list) outcome) \<and>
     concat (map group_transactions gs) = [row_tx\<lparr>status := TS_success, tx_accountID := ''e:w''\<rparr>]"
proof -
  let ?tx = "row_tx\<lparr>status := TS_success, tx_accountID := ''e:w''\<rparr>"
  let ?s = "historyApp\<lparr>txRows := [?tx]\<rparr>"
  have w: "AccountID_walletID ''e:w'' = (Returns ''w'' :: (unit, _) outcome)"
    using AccountID_pair(1) [of "''e''" "''w''"] by simp
  have "account_ok ''e:w''" by (simp add: account_ok_def components_def components_loop.simps)
  then have "\<forall>tx\<in>set (txRows ?s). account_ok (tx_accountID tx) \<and> createdDate tx \<noteq> None"
    by (simp add: row_tx_def row_draft_def edit_defs timestamp_defs change_status_def Transaction_init_def)
  moreover have "mono floor_day" by (auto simp: floor_day_def mono_def floor_mono)
  ultimately obtain ps qs where g: "grouppedTransactions floor_day ?s = (Returns (ps @ qs) :: (unit, _) outcome)"
    "ps = (if filter (\<lambda>t. status t = TS_pending) (history ?s) = [] then []
      else [\<lparr>group_type = GT_pending, group_date = None, group_transactions = filter (\<lambda>t. status t = TS_pending) (history ?s)\<rparr>])"
    "concat (map group_transactions qs) = filter (\<lambda>t. status t \<noteq> TS_pending) (history ?s)"
    using history_groups [of ?s floor_day, where ?'e = unit] by blast
  have "in_history ?s ?tx" by (simp add: in_history_def listed_def w historyApp_def accountsApp_def)
  then have "history ?s = [?tx]" by (simp add: history_def)
  with g show ?thesis by auto
qed

subsection \<open>Merge with the transaction service\<close>

text \<open>\<open>transactions\<close> is the answer of the transaction service for the address of the Safe.\<close>

definition take_over_status :: "Transaction \<Rightarrow> Transaction \<Rightarrow> Transaction" where
  "take_over_status remote l =
     (if status l \<noteq> status remote
      then stamp (submittedDate remote) timestampSubmitted (stamp (processedDate remote) timestampProcessed
             (stamp (rejectedDate remote) timestampRejected (stamp (updatedDate remote) timestampUpdated
               (stamp (createdDate remote) timestampCreated (change_status (status remote) l)))))
      else l)"

definition take_over :: "time \<Rightarrow> Transaction \<Rightarrow> Transaction \<Rightarrow> Transaction" where
  "take_over now remote l =
     (let l1 = (case transactionHash remote of
                  Some h \<Rightarrow> if transactionHash l \<noteq> Some h then set_hash h now l else l
                | None \<Rightarrow> l);
          l2 = take_over_status remote l1;
          l3 = fold (\<lambda>sg. remove_signature sg now) (signatures l2) l2
      in fold (\<lambda>sg. add_signature sg now) (signatures remote) l3)"

definition identified :: "packages \<Rightarrow> Transaction list \<Rightarrow> Transaction list" where
  "identified E txs =
     sorted_by (\<lambda>a b. toHexString E (the (identifyingHash E a)) < toHexString E (the (identifyingHash E b)))
       (filter (\<lambda>tx. identifyingHash E tx \<noteq> None) txs)"

definition counterpart :: "packages \<Rightarrow> Transaction list \<Rightarrow> Transaction \<Rightarrow> Transaction option" where
  "counterpart E remotes l = List.find (\<lambda>r. identifyingHash E l = identifyingHash E r) remotes"

definition merged :: "packages \<Rightarrow> time \<Rightarrow> Transaction list \<Rightarrow> Transaction \<Rightarrow> Transaction" where
  "merged E now remotes l = (case counterpart E remotes l of None \<Rightarrow> l | Some r \<Rightarrow> take_over now r l)"

definition sync :: "env \<Rightarrow> time \<Rightarrow> (Address \<Rightarrow> Transaction list) \<Rightarrow> app \<Rightarrow> app" where
  "sync V now transactions s =
     (case selected_wallet s of
        None \<Rightarrow> s
      | Some w \<Rightarrow>
          (case address w of
             None \<Rightarrow> s
           | Some safeAddress \<Rightarrow>
               if \<not> isReadyToUse w then s
               else let E = env_packages V;
                        remotes = identified E (transactions safeAddress);
                        locals = map (merged E now remotes) (identified E (txRows s));
                        newTxes = filter (\<lambda>r. identifyingHash E r \<notin> identifyingHash E ` set locals) remotes
                    in fold save_tx (locals @ newTxes) s))"

lemma take_over_status_fields:
  "tx_id (take_over_status r l) = tx_id l" "status (take_over_status r l) = status r" "tx_hash (take_over_status r l) = tx_hash l"
  "transactionHash (take_over_status r l) = transactionHash l" "signatures (take_over_status r l) = signatures l"
  "tx_accountID (take_over_status r l) = tx_accountID l" "tx_type (take_over_status r l) = tx_type l"
  by (auto simp: take_over_status_def stamp_def timestamp_defs change_status_def split: option.split)

definition signature_only :: "Transaction \<Rightarrow> Transaction \<Rightarrow> bool" where
  "signature_only l t \<longleftrightarrow>
     tx_id t = tx_id l \<and> status t = status l \<and> tx_hash t = tx_hash l \<and> transactionHash t = transactionHash l \<and>
     tx_accountID t = tx_accountID l \<and> tx_type t = tx_type l"

lemma remove_signatures:
  "signature_only l (fold (\<lambda>sg. remove_signature sg now) sgs l) \<and>
   signatures (fold (\<lambda>sg. remove_signature sg now) sgs l) = fold remove1 sgs (signatures l)"
  by (induction sgs arbitrary: l) (auto simp: signature_only_def remove_signature_def timestamp_defs remove1_idem)

lemma add_signatures:
  "signature_only l (fold (\<lambda>sg. add_signature sg now) sgs l) \<and>
   set (signatures (fold (\<lambda>sg. add_signature sg now) sgs l)) = set (signatures l) \<union> set sgs"
  by (induction sgs arbitrary: l) (auto simp: signature_only_def add_signature_def timestamp_defs)

lemma remove_all_signatures: "fold remove1 sgs sgs = []"
proof -
  have "fold remove1 sgs (sgs @ rest) = rest" for rest
    by (induction sgs arbitrary: rest) simp_all
  from this [of "[]"] show ?thesis by simp
qed

lemma take_over_spec:
  assumes "identifyingHash E l = identifyingHash E r" "identifyingHash E r \<noteq> None"
  shows "tx_id (take_over now r l) = tx_id l" "status (take_over now r l) = status r"
    "set (signatures (take_over now r l)) = set (signatures r)" "identifyingHash E (take_over now r l) = identifyingHash E r"
    "tx_accountID (take_over now r l) = tx_accountID l" "tx_type (take_over now r l) = tx_type l"
proof -
  define l1 where "l1 = (case transactionHash r of Some h \<Rightarrow> if transactionHash l \<noteq> Some h then set_hash h now l else l | None \<Rightarrow> l)"
  define l2 where "l2 = take_over_status r l1"
  define l3 where "l3 = fold (\<lambda>sg. remove_signature sg now) (signatures l2) l2"
  have 1: "tx_id l1 = tx_id l" "tx_accountID l1 = tx_accountID l" "tx_type l1 = tx_type l"
    "identifyingHash E l1 = identifyingHash E r"
    using assms by (auto simp: l1_def identifyingHash_def set_hash_def timestamp_defs split: option.splits)
  have 2: "signature_only l2 l3" "signatures l3 = []"
    using remove_signatures [of l2 now "signatures l2"] by (simp_all add: l3_def remove_all_signatures)
  have 3: "take_over now r l = fold (\<lambda>sg. add_signature sg now) (signatures r) l3"
    by (simp add: take_over_def l1_def l2_def l3_def Let_def)
  have 4: "signature_only l3 (take_over now r l)" "set (signatures (take_over now r l)) = set (signatures r)"
    using add_signatures [of l3 now "signatures r"] 2(2) by (simp_all add: 3)
  have 5: "identifyingHash E t = identifyingHash E u" if "tx_hash t = tx_hash u" "transactionHash t = transactionHash u" for t u
    using that by (simp add: identifyingHash_def split: option.split)
  show "set (signatures (take_over now r l)) = set (signatures r)" by (rule 4)
  show "tx_id (take_over now r l) = tx_id l" "status (take_over now r l) = status r"
    "tx_accountID (take_over now r l) = tx_accountID l" "tx_type (take_over now r l) = tx_type l"
    using 1 2(1) 4(1) by (simp_all add: signature_only_def l2_def take_over_status_fields)
  show "identifyingHash E (take_over now r l) = identifyingHash E r"
    using 1(4) 2(1) 4(1) 5 [of "take_over now r l" l1] by (simp add: signature_only_def l2_def take_over_status_fields)
qed

lemma set_sorted_by [simp]: "set (sorted_by lt xs) = set xs"
proof -
  have "set (insert_by lt x ys) = insert x (set ys)" for x ys by (induction ys) auto
  then show ?thesis by (induction xs) (simp_all add: sorted_by_def)
qed

lemma distinct_sorted_by: "distinct (map f (sorted_by lt xs)) = distinct (map f xs)"
proof -
  have ins: "distinct (map f (insert_by lt x ys)) = distinct (map f (x # ys))" and "f ` set (insert_by lt x ys) = insert (f x) (f ` set ys)" for x ys
  proof -
    show im: "f ` set (insert_by lt x ys) = insert (f x) (f ` set ys)" for ys by (induction ys) auto
    show "distinct (map f (insert_by lt x ys)) = distinct (map f (x # ys))" using im by (induction ys) auto
  qed
  show ?thesis
  proof (induction xs)
    case (Cons a xs)
    then show ?case using ins [of a "sorted_by lt xs"] by (simp add: sorted_by_def) (simp flip: sorted_by_def)
  qed (simp add: sorted_by_def)
qed

lemma set_identified: "set (identified E txs) = {tx \<in> set txs. identifyingHash E tx \<noteq> None}"
  by (auto simp: identified_def)

lemma distinct_identified: "distinct (map tx_id txs) \<Longrightarrow> distinct (map tx_id (identified E txs))"
  by (simp add: identified_def distinct_sorted_by distinct_map_filter)

lemma counterpart_SomeD:
  "counterpart E (identified E remotes) l = Some r \<Longrightarrow> r \<in> set remotes \<and> identifyingHash E l = identifyingHash E r \<and> identifyingHash E r \<noteq> None"
  unfolding counterpart_def by (drule find_in_set) (auto simp: set_identified)

lemma merged_id: "identifyingHash E l \<noteq> None \<Longrightarrow> tx_id (merged E now (identified E remotes) l) = tx_id l"
  using counterpart_SomeD [of E remotes l] take_over_spec(1) [of E l] by (auto simp: merged_def split: option.split)

lemma merged_hash: "identifyingHash E (merged E now (identified E remotes) l) = identifyingHash E l"
  using counterpart_SomeD [of E remotes l] take_over_spec(4) [of E l] by (auto simp: merged_def split: option.split)

text \<open>Which rows a synchronisation writes.\<close>

lemma sync_lookup:
  assumes "keys_distinct tx_id (txRows s)" "distinct (map tx_id (transactions a))"
    and "tx_id ` set (txRows s) \<inter> tx_id ` set (transactions a) = {}"
    and "selected_wallet s = Some w" "address w = Some a" "isReadyToUse w"
    and "E = env_packages V" "remotes = identified E (transactions a)"
  shows "l \<in> set (txRows s) \<Longrightarrow> identifyingHash E l \<noteq> None \<Longrightarrow> find_tx (tx_id l) (sync V now transactions s) = Some (merged E now remotes l)"
    and "l \<in> set (txRows s) \<Longrightarrow> identifyingHash E l = None \<Longrightarrow> find_tx (tx_id l) (sync V now transactions s) = Some l"
    and "r \<in> set (transactions a) \<Longrightarrow> identifyingHash E r \<noteq> None \<Longrightarrow> identifyingHash E r \<notin> identifyingHash E ` set (txRows s) \<Longrightarrow>
      find_tx (tx_id r) (sync V now transactions s) = Some r"
proof -
  define L where "L = map (merged E now remotes) (identified E (txRows s))"
  define N where "N = filter (\<lambda>r. identifyingHash E r \<notin> identifyingHash E ` set L) remotes"
  have sync: "sync V now transactions s = fold save_tx (L @ N) s"
    using assms(4-8) by (simp add: sync_def L_def N_def Let_def)
  have idL: "map tx_id L = map tx_id (identified E (txRows s))"
    by (auto simp: L_def assms(8) set_identified merged_id)
  have "distinct (map tx_id L)" unfolding idL using assms(1) distinct_identified by (simp add: keys_distinct_def)
  moreover have "distinct (map tx_id N)" using distinct_identified [OF assms(2), of E] by (simp add: N_def assms(8) distinct_map_filter)
  moreover have imN: "tx_id ` set N \<subseteq> tx_id ` set (transactions a)" by (auto simp: N_def assms(8) set_identified)
  moreover have imL: "tx_id ` set L = tx_id ` set (identified E (txRows s))" using arg_cong [OF idL, of set] by simp
  moreover have "tx_id ` set L \<subseteq> tx_id ` set (txRows s)" unfolding imL by (auto simp: set_identified)
  ultimately have "distinct (map tx_id (L @ N))" using assms(3) by (simp add: disjoint_iff) blast
  then have "keys_distinct tx_id (rev (L @ N))" unfolding keys_distinct_def rev_map [symmetric] distinct_rev .
  note row = find_row_Some_iff [OF this]
  have found: "find_tx (tx_id x) (sync V now transactions s) = Some x" if "x \<in> set L \<union> set N" for x
  proof -
    have "find_row tx_id (tx_id x) (rev (L @ N)) = Some x" using that row [of "tx_id x" x] by auto
    then show ?thesis using transactions.lookup_save_all [of "tx_id x" "L @ N" s] by (simp only: sync find_tx_lookup option.simps)
  qed
  show "find_tx (tx_id l) (sync V now transactions s) = Some (merged E now remotes l)"
    if "l \<in> set (txRows s)" "identifyingHash E l \<noteq> None"
    using found [of "merged E now remotes l"] that merged_id [of E l now "transactions a"] by (auto simp: L_def assms(8) set_identified)
  show "find_tx (tx_id l) (sync V now transactions s) = Some l" if l: "l \<in> set (txRows s)" "identifyingHash E l = None"
  proof -
    have "tx_id l \<notin> tx_id ` set L"
      using l assms(1) inj_onD [of tx_id "set (txRows s)" l] unfolding imL by (auto simp: set_identified keys_distinct_def distinct_map)
    moreover have "tx_id l \<notin> tx_id ` set N" using imN l(1) assms(3) by blast
    ultimately have "find_row tx_id (tx_id l) (rev (L @ N)) = None" by (auto simp: find_row_None_iff)
    then show ?thesis using transactions.lookup_save_all [of "tx_id l" "L @ N" s] find_row_Some_iff [OF assms(1), of "tx_id l" l] l(1)
      by (simp add: sync find_tx_lookup transactions.lookup_def)
  qed
  show "find_tx (tx_id r) (sync V now transactions s) = Some r"
    if "r \<in> set (transactions a)" "identifyingHash E r \<noteq> None" "identifyingHash E r \<notin> identifyingHash E ` set (txRows s)"
  proof -
    have "identifyingHash E ` set L \<subseteq> identifyingHash E ` set (txRows s)"
      by (auto simp: L_def assms(8) merged_hash set_identified image_iff) metis
    with that have "r \<in> set N" by (auto simp: N_def assms(8) set_identified)
    then show ?thesis using found by blast
  qed
qed

text \<open>
  A synchronisation takes over what the transaction service reports. A local transaction with a counterpart keeps its identifier,
  type and account, and gets the status and exactly the signatures of the counterpart; every reported transaction that is not known is
  stored; a local transaction without counterpart and one without any hash stay as they are. When no wallet is ready, nothing happens.
\<close>

theorem sync_takes_over:
  assumes "keys_distinct tx_id (txRows s)" "distinct (map tx_id (transactions a))"
    and "tx_id ` set (txRows s) \<inter> tx_id ` set (transactions a) = {}"
    and "selected_wallet s = Some w" "address w = Some a" "isReadyToUse w"
  shows "(\<forall>l\<in>set (txRows s). case counterpart (env_packages V) (identified (env_packages V) (transactions a)) l of
       None \<Rightarrow> find_tx (tx_id l) (sync V now transactions s) = Some l
     | Some r \<Rightarrow> identifyingHash (env_packages V) l = None \<or> (\<exists>t. find_tx (tx_id l) (sync V now transactions s) = Some t \<and> status t = status r \<and>
         set (signatures t) = set (signatures r) \<and> tx_type t = tx_type l \<and> tx_accountID t = tx_accountID l \<and>
         identifyingHash (env_packages V) t = identifyingHash (env_packages V) r)) \<and>
    (\<forall>r\<in>set (transactions a). identifyingHash (env_packages V) r \<noteq> None \<longrightarrow>
      (\<exists>i t. find_tx i (sync V now transactions s) = Some t \<and> identifyingHash (env_packages V) t = identifyingHash (env_packages V) r)) \<and>
    sync V now transactions (s\<lparr>app_portfolio := None\<rparr>) = s\<lparr>app_portfolio := None\<rparr>"
proof (intro conjI ballI impI)
  let ?E = "env_packages V" and ?R = "identified (env_packages V) (transactions a)"
  note rows = sync_lookup [of s transactions a w, OF assms refl refl]
  fix l assume l: "l \<in> set (txRows s)"
  show "case counterpart ?E ?R l of
       None \<Rightarrow> find_tx (tx_id l) (sync V now transactions s) = Some l
     | Some r \<Rightarrow> identifyingHash ?E l = None \<or> (\<exists>t. find_tx (tx_id l) (sync V now transactions s) = Some t \<and> status t = status r \<and>
         set (signatures t) = set (signatures r) \<and> tx_type t = tx_type l \<and> tx_accountID t = tx_accountID l \<and>
         identifyingHash ?E t = identifyingHash ?E r)"
  proof (cases "counterpart ?E ?R l")
    case None
    then show ?thesis using rows(1,2) [OF l] by (cases "identifyingHash ?E l") (simp_all add: merged_def)
  next
    case (Some r)
    with counterpart_SomeD have "identifyingHash ?E l = identifyingHash ?E r" "identifyingHash ?E r \<noteq> None" by blast+
    with Some rows(1) [OF l] take_over_spec [OF this, of now] show ?thesis by (simp add: merged_def)
  qed
next
  let ?E = "env_packages V"
  note rows = sync_lookup [of s transactions a w, OF assms refl refl]
  fix r assume r: "r \<in> set (transactions a)" "identifyingHash ?E r \<noteq> None"
  show "\<exists>i t. find_tx i (sync V now transactions s) = Some t \<and> identifyingHash ?E t = identifyingHash ?E r"
  proof (cases "identifyingHash ?E r \<in> identifyingHash ?E ` set (txRows s)")
    case True
    then obtain l where "l \<in> set (txRows s)" "identifyingHash ?E l = identifyingHash ?E r" by auto
    with rows(1) [of l] r(2) merged_hash show ?thesis by metis
  next
    case False
    with rows(3) r show ?thesis by blast
  qed
qed (simp add: sync_def selected_wallet_def)

definition remote_tx :: Transaction where
  "remote_tx = row_tx\<lparr>tx_id := ''r'', status := TS_success, transactionHash := Some ''0a''\<rparr>"

definition syncApp :: app where
  "syncApp =
     accountsApp\<lparr>app_world := \<lparr>walletRows = [row_wallet\<lparr>state := readyToUse, address := Some (row_address CHR ''c'')\<rparr>],
       accountRows = [], deviceKeys = [], events = []\<rparr>, txRows := [row_tx\<lparr>status := TS_pending, transactionHash := Some ''0a''\<rparr>]\<rparr>"

theorem sync_takes_over_witness:
  "\<exists>t. find_tx ''t'' (sync accountsEnv 9 (\<lambda>_. [remote_tx]) syncApp) = Some t \<and> status t = TS_success"
proof -
  let ?l = "row_tx\<lparr>status := TS_pending, transactionHash := Some ''0a''\<rparr>" and ?E = "env_packages accountsEnv"
  let ?w = "row_wallet\<lparr>state := readyToUse, address := Some (row_address CHR ''c'')\<rparr>"
  have id: "tx_id ?l = ''t''" "tx_id remote_tx = ''r''" "status remote_tx = TS_success"
    by (simp_all add: remote_tx_def row_tx_def row_draft_def edit_defs timestamp_defs change_status_def Transaction_init_def)
  have h: "identifyingHash ?E ?l = identifyingHash ?E remote_tx" "identifyingHash ?E remote_tx \<noteq> None"
    by (simp_all add: identifyingHash_def remote_tx_def)
  then have c: "counterpart ?E (identified ?E [remote_tx]) ?l = Some remote_tx"
    by (simp add: counterpart_def identified_def sorted_by_def)
  have s: "txRows syncApp = [?l]" "selected_wallet syncApp = Some ?w" "address ?w = Some (row_address CHR ''c'')" "isReadyToUse ?w"
    by (simp_all add: syncApp_def accountsApp_def selected_wallet_def wallet_with_def find_id_def row_wallet_def Wallet_blank_def isReadyToUse_def)
  have "keys_distinct tx_id (txRows syncApp)" "distinct (map tx_id ((\<lambda>_. [remote_tx]) (row_address CHR ''c'')))"
    "tx_id ` set (txRows syncApp) \<inter> tx_id ` set ((\<lambda>_. [remote_tx]) (row_address CHR ''c'')) = {}"
    using s(1) id by (simp_all add: keys_distinct_def)
  from sync_takes_over [OF this s(2-4), of accountsEnv 9] s(1) c h id show ?thesis by auto
qed

end
