(* ===== verification/Submission.thy ===== *)
theory Submission
  imports Messages "HOL-Library.Multiset"
begin

section \<open>Estimating, signing and submitting a transaction\<close>

text \<open>
  The way of a transaction from draft to the relay service: \<^verbatim>\<open>estimateTransactionIfNeeded\<close>,
  \<^verbatim>\<open>requestTransactionConfirmationIfNeeded\<close> and \<^verbatim>\<open>submitTransaction\<close> of \<^verbatim>\<open>WalletApplicationService.swift\<close>, with the requests under
  \<^verbatim>\<open>TransactionRelayService/RelayRequests\<close>, the messages of \<^verbatim>\<open>HTTPNotificatonService.swift\<close> and the signature conversions
  of \<^verbatim>\<open>EncryptionService.swift\<close>. The services on the other side of the network, the private keys in the keychain, the
  elliptic curve library and the JSON encoder are the fields of \<open>services\<close>. An operation that throws has saved nothing before, so that the state
  need not be returned with the error. The conversion of the stored transaction to what the user interface shows is modelled only for the
  status.

  Shown: what is sent to the relay service carries exactly the parameters of the digest that the device signs, with the signatures in the
  order that the contract demands; estimation freezes the digest; a transaction that is being signed and is shown as ready to submit does
  not stop the process when it is submitted, if the stored keys sign.
\<close>

subsection \<open>Requests and services\<close>

datatype NetworkServiceError = NS_networkError | NS_serverError | NS_clientError

text \<open>
  What a service call throws: an error of the node or relay service, a failed HTTP request with the status code of its response if there
  was one and whether its body says that the expiration date is exceeded, the failed validation of the notification service, an error of the URL loading
  system, an error of the recovery service, or another error.
\<close>

datatype RecoveryServiceError =
    RS_invalidContractAddress
  | RS_walletAlreadyExists
  | RS_recoveryAccountsNotFound
  | RS_recoveryPhraseInvalid
  | RS_unsupportedOwnerCount string
  | RS_unsupportedWalletConfiguration string
  | RS_failedToChangeOwners
  | RS_failedToChangeConfirmationCount
  | RS_failedToCreateValidTransactionData
  | RS_walletNotFound
  | RS_failedToCreateValidTransaction
  | RS_internalServerError

datatype ServiceError =
    NetworkService NetworkServiceError
  | networkRequestFailed "int option" bool
  | NotificationValidationFailed
  | NSURLError
  | ApplicationError WalletApplicationServiceError
  | RecoveryError RecoveryServiceError
  | OtherError

record EstimateTransactionRequest =
  er_safe :: string
  er_to :: string
  er_value :: string
  er_data :: string
  er_operation :: WalletOperation
  er_gasToken :: "string option"

record EstimateTransactionResponse =
  es_safeTxGas :: int
  es_baseGas :: int
  es_gasPrice :: int
  es_operationalGas :: int
  es_lastUsedNonce :: "int option"
  es_gasToken :: string

record SubmitTransactionRequest =
  sr_safe :: string
  sr_to :: string
  sr_value :: string
  sr_data :: string
  sr_operation :: WalletOperation
  sr_signatures :: "EthSignature list"
  sr_safeTxGas :: string
  sr_dataGas :: string
  sr_gasPrice :: string
  sr_gasToken :: "string option"
  sr_nonce :: string

record SendNotificationRequest =
  sn_devices :: "string list"
  sn_message :: string
  sn_signature :: EthSignature

record services =
  sv_env :: env
  sv_privateKey :: "Address \<Rightarrow> data"
  sv_calculateRSV :: "data \<Rightarrow> int \<times> int \<times> int"
  sv_decimal :: "int \<Rightarrow> string"
  sv_json :: "(string \<times> string) list \<Rightarrow> string"
  sv_estimateTransaction :: "EstimateTransactionRequest \<Rightarrow> (ServiceError, EstimateTransactionResponse) outcome"
  sv_submitTransaction :: "SubmitTransactionRequest \<Rightarrow> (ServiceError, string) outcome"
  sv_send :: "SendNotificationRequest \<Rightarrow> (ServiceError, unit) outcome"

abbreviation sv_packages :: "services \<Rightarrow> packages" where
  "sv_packages S \<equiv> env_packages (sv_env S)"

abbreviation sv_String :: "services \<Rightarrow> int \<Rightarrow> string" where
  "sv_String S \<equiv> String_BigInt (env_bigint (sv_env S))"

subsection \<open>Errors\<close>

definition error_from_response :: "int option \<Rightarrow> WalletApplicationServiceError" where
  "error_from_response response =
     (case response of None \<Rightarrow> networkError
      | Some statusCode \<Rightarrow> if 400 \<le> statusCode \<and> statusCode < 500 then clientError else serverError)"

fun error_from_service :: "NetworkServiceError \<Rightarrow> WalletApplicationServiceError" where
  "error_from_service NS_clientError = clientError"
| "error_from_service NS_networkError = networkError"
| "error_from_service NS_serverError = serverError"

fun relay_error :: "ServiceError \<Rightarrow> ServiceError" where
  "relay_error (NetworkService e) = ApplicationError (error_from_service e)"
| "relay_error (networkRequestFailed response expired) = ApplicationError (error_from_response response)"
| "relay_error e = e"

fun notification_error :: "ServiceError \<Rightarrow> ServiceError" where
  "notification_error NotificationValidationFailed = ApplicationError validationFailed"
| "notification_error (networkRequestFailed response expired) =
     ApplicationError (if expired then exceededExpirationDate else error_from_response response)"
| "notification_error e = e"

definition handleRelayServiceErrors :: "(ServiceError, 'a) outcome \<Rightarrow> (ServiceError, 'a) outcome" where
  "handleRelayServiceErrors = mapErr relay_error"

definition handleNotificationServiceError :: "(ServiceError, 'a) outcome \<Rightarrow> (ServiceError, 'a) outcome" where
  "handleNotificationServiceError = mapErr notification_error"

subsection \<open>Keys and signatures\<close>

definition find_key :: "services \<Rightarrow> Address \<Rightarrow> app \<Rightarrow> data option" where
  "find_key S a s = (if a \<in> set (deviceKeys (app_world s)) then Some (sv_privateKey S a) else None)"

definition signature_from_rsv :: "services \<Rightarrow> int \<times> int \<times> int \<Rightarrow> ('e, EthSignature) outcome" where
  "signature_from_rsv S rsv =
     (case rsv of (r, s, v) \<Rightarrow> bindO (toInt v) (\<lambda>v'. Returns \<lparr>sig_r = sv_decimal S r, sig_s = sv_decimal S s, sig_v = v'\<rparr>))"

definition ethSignature_from :: "services \<Rightarrow> data \<Rightarrow> ('e, EthSignature) outcome" where
  "ethSignature_from S rawSig = signature_from_rsv S (sv_calculateRSV S rawSig)"

definition sign_message :: "services \<Rightarrow> string \<Rightarrow> Address \<Rightarrow> app \<Rightarrow> ('e, EthSignature option) outcome" where
  "sign_message S message a s =
     (case find_key S a s of
        None \<Rightarrow> Returns None
      | Some key \<Rightarrow>
          bindO (rawSignature (env_sign (sv_env S)) (sha3 (sv_packages S) (utf8_bytes message)) key) (\<lambda>raw.
          bindO (ethSignature_from S raw) (\<lambda>sig. Returns (Some sig))))"

text \<open>\<^verbatim>\<open>address(from:)!\<close>, the checksum spelling of an address.\<close>

definition formatted :: "services \<Rightarrow> Address \<Rightarrow> ('e, Address) outcome" where
  "formatted S a = bindO (encryption_address_from (sv_env S) (address_value a)) unwrap"

subsection \<open>Messages to the second device\<close>

definition requestConfirmationMessage :: "services \<Rightarrow> Transaction \<Rightarrow> data \<Rightarrow> ('e, string) outcome" where
  "requestConfirmationMessage S tx h =
     (let E = sv_packages S
      in bindO (unwrap (sender tx)) (\<lambda>from. bindO (formatted S from) (\<lambda>safe. bindO (formatted S (ethTo tx)) (\<lambda>to.
         bindO (unwrap (operation tx)) (\<lambda>op. bindO (unwrap (feeEstimate tx)) (\<lambda>f. bindO (unwrap (tx_nonce tx)) (\<lambda>n.
         Returns (sv_json S
           [(''type'', ''requestConfirmation''), (''hash'', ''0x'' @ toHexString E h), (''safe'', address_value safe),
            (''to'', address_value to), (''value'', sv_String S (ethValue tx)), (''data'', ethData E tx),
            (''operation'', show_int (WalletOperation_rawValue op)), (''txGas'', sv_String S (gas f)),
            (''dataGas'', sv_String S (dataGas f)), (''operationalGas'', sv_String S (operationalGas f)),
            (''gasPrice'', sv_String S (ta_amount (gasPrice f))),
            (''gasToken'', address_value (token_address (ta_token (gasPrice f)))), (''nonce'', n)]))))))))"

definition transactionSentMessage :: "services \<Rightarrow> Transaction \<Rightarrow> ('e, string) outcome" where
  "transactionSentMessage S tx =
     bindO (unwrap (sender tx)) (\<lambda>from. bindO (formatted S from) (\<lambda>safe. bindO (formatted S (ethTo tx)) (\<lambda>to.
     bindO (unwrap (tx_hash tx)) (\<lambda>h. bindO (unwrap (transactionHash tx)) (\<lambda>th.
     Returns (sv_json S [(''chainHash'', th), (''hash'', ''0x'' @ toHexString (sv_packages S) h),
       (''type'', ''sendTransactionHash'')]))))))"

definition notifyBrowserExtension :: "services \<Rightarrow> string \<Rightarrow> Wallet \<Rightarrow> app \<Rightarrow> (ServiceError, unit) outcome" where
  "notifyBrowserExtension S message wallet s =
     (case Wallet.owner wallet browserExtension of
        None \<Rightarrow> Returns ()
      | Some ext \<Rightarrow>
          bindO (unwrap (Wallet.owner wallet thisDevice)) (\<lambda>device.
          bindO (Address_init (sv_packages S) (address_value (owner_address device))) (\<lambda>a.
          bindO (sign_message S (''GNO'' @ message) a s) (\<lambda>sig.
          case sig of
            None \<Rightarrow> Throws (ApplicationError validationFailed)
          | Some sg \<Rightarrow>
              handleNotificationServiceError (sv_send S
                \<lparr>sn_devices = [address_value (owner_address ext)], sn_message = message, sn_signature = sg\<rparr>)))))"

definition requestTransactionConfirmationIfNeeded :: "services \<Rightarrow> string \<Rightarrow> app \<Rightarrow> (ServiceError, unit) outcome" where
  "requestTransactionConfirmationIfNeeded S i s =
     bindO (unwrap (find_tx i s)) (\<lambda>tx.
     bindO (AccountID_walletID (tx_accountID tx)) (\<lambda>w.
     bindO (unwrap (wallet_with w s)) (\<lambda>wallet.
     bindO (toInt (confirmationCount wallet - 1)) (\<lambda>needed.
     if int (length (signatures tx)) \<ge> needed then Returns ()
     else case Wallet.owner wallet browserExtension of
       None \<Rightarrow> Returns ()
     | Some ext \<Rightarrow>
         if isSignedBy (owner_address ext) tx then Returns ()
         else bindO (unwrap (tx_hash tx)) (\<lambda>h.
              bindO (requestConfirmationMessage S tx h) (\<lambda>message. notifyBrowserExtension S message wallet s))))))"

subsection \<open>Estimation\<close>

definition EstimateTransactionRequest_init ::
    "services \<Rightarrow> Address \<Rightarrow> Address \<Rightarrow> string \<Rightarrow> string \<Rightarrow> WalletOperation \<Rightarrow> string option \<Rightarrow> ('e, EstimateTransactionRequest) outcome" where
  "EstimateTransactionRequest_init S safe to v d op gasToken =
     (if BigInt_String (env_bigint (sv_env S)) v = None then Traps
      else if \<not> (d = [] \<or> ethHex (sv_packages S) d \<noteq> []) then Traps
      else Returns \<lparr>er_safe = address_value safe, er_to = address_value to, er_value = v, er_data = d, er_operation = op,
        er_gasToken = gasToken\<rparr>)"

definition nextNonce :: "EstimateTransactionResponse \<Rightarrow> ('e, int) outcome" where
  "nextNonce r = (case es_lastUsedNonce r of None \<Rightarrow> Returns 0 | Some n \<Rightarrow> toInt (n + 1))"

text \<open>\<^verbatim>\<open>updateTransaction(_:withFeeEsimate:nonce:)\<close>.\<close>

definition updateTransaction ::
    "services \<Rightarrow> time \<Rightarrow> TransactionFeeEstimate \<Rightarrow> string \<Rightarrow> Transaction \<Rightarrow> app \<Rightarrow> ('e, Transaction \<times> app) outcome" where
  "updateTransaction S now estimate n tx s =
     (let tx1 = change_fee (Some (totalSubmittedToBlockchain estimate)) now (change_feeEstimate (Some estimate) now tx);
          tx2 = change_operation (Some (case operation tx1 of None \<Rightarrow> OP_call | Some op \<Rightarrow> op)) now (change_nonce (Some n) now tx1)
      in bindO (hash_of (env_digest (sv_env S) s) tx2) (\<lambda>h.
         bindO (tx_proceed now now (change_hash (Some h) now tx2)) (\<lambda>tx3. Returns (tx3, save_tx tx3 s))))"

definition needs_estimate :: "Transaction \<Rightarrow> bool" where
  "needs_estimate tx \<longleftrightarrow>
     feeEstimate tx = None \<or> (isConnectTwoFA (tx_type tx) \<or> tx_type tx = replaceRecoveryPhrase) \<and> status tx = TS_draft"

definition estimateTransactionIfNeeded :: "services \<Rightarrow> time \<Rightarrow> string \<Rightarrow> app \<Rightarrow> (ServiceError, Transaction \<times> app) outcome" where
  "estimateTransactionIfNeeded S now i s =
     bindO (unwrap (find_tx i s)) (\<lambda>tx.
     if \<not> needs_estimate tx then Returns (tx, s)
     else bindO (AccountID_walletID (tx_accountID tx)) (\<lambda>w.
          bindO (unwrap (wallet_with w s)) (\<lambda>wallet.
          bindO (unwrap (sender tx)) (\<lambda>from. bindO (formatted S from) (\<lambda>safe. bindO (formatted S (ethTo tx)) (\<lambda>to.
          bindO (EstimateTransactionRequest_init S safe to (sv_String S (ethValue tx)) (ethData (sv_packages S) tx)
            (case operation tx of None \<Rightarrow> OP_call | Some op \<Rightarrow> op) (map_option address_value (feePaymentTokenAddress wallet))) (\<lambda>request.
          bindO (handleRelayServiceErrors (sv_estimateTransaction S request)) (\<lambda>response.
          bindO (unwrap (token_with_id now (es_gasToken response) s)) (\<lambda>token.
          bindO (nextNonce response) (\<lambda>n.
          updateTransaction S now
            \<lparr>gas = es_safeTxGas response, dataGas = es_baseGas response, operationalGas = es_operationalGas response,
             gasPrice = \<lparr>ta_amount = es_gasPrice response, ta_token = token\<rparr>\<rparr> (show_int n) tx s))))))))))"

definition resetTransaction :: "time \<Rightarrow> string \<Rightarrow> app \<Rightarrow> ('e, app) outcome" where
  "resetTransaction now i s =
     bindO (unwrap (find_tx i s)) (\<lambda>tx.
     bindO (Transaction.reset now now tx) (\<lambda>tx1.
     Returns (save_tx (change_feeEstimate None now (change_fee None now tx1)) s)))"

subsection \<open>Signing and submitting\<close>

definition SubmitTransactionRequest_init ::
    "services \<Rightarrow> Transaction \<Rightarrow> EthSignature list \<Rightarrow> ('e, SubmitTransactionRequest) outcome" where
  "SubmitTransactionRequest_init S tx sigs =
     bindO (unwrap (sender tx)) (\<lambda>from. bindO (formatted S from) (\<lambda>safe. bindO (formatted S (ethTo tx)) (\<lambda>to.
     bindO (unwrap (operation tx)) (\<lambda>op. bindO (unwrap (feeEstimate tx)) (\<lambda>f. bindO (unwrap (tx_nonce tx)) (\<lambda>n.
     Returns \<lparr>sr_safe = address_value safe, sr_to = address_value to, sr_value = sv_String S (ethValue tx),
       sr_data = ethData (sv_packages S) tx, sr_operation = op, sr_signatures = sigs, sr_safeTxGas = sv_String S (gas f),
       sr_dataGas = sv_String S (dataGas f), sr_gasPrice = sv_String S (ta_amount (gasPrice f)),
       sr_gasToken = Some (token_id (ta_token (gasPrice f))), sr_nonce = n\<rparr>))))))"

definition sortedSignatures :: "Transaction \<Rightarrow> Signature list" where
  "sortedSignatures tx = sort_key (\<lambda>sg. lowercased (address_value (sig_address sg))) (signatures tx)"

definition submission_request :: "services \<Rightarrow> Transaction \<Rightarrow> (ServiceError, SubmitTransactionRequest) outcome" where
  "submission_request S tx =
     bindO (mapO (\<lambda>sg. ethSignature_from S (sig_data sg)) (sortedSignatures tx)) (SubmitTransactionRequest_init S tx)"

definition submitTransactionToBackend :: "services \<Rightarrow> Transaction \<Rightarrow> (ServiceError, string) outcome" where
  "submitTransactionToBackend S tx =
     bindO (submission_request S tx) (\<lambda>request. handleRelayServiceErrors (sv_submitTransaction S request))"

definition proceedTransaction :: "services \<Rightarrow> time \<Rightarrow> Transaction \<Rightarrow> app \<Rightarrow> (ServiceError, Transaction \<times> app) outcome" where
  "proceedTransaction S now tx s =
     bindO (submitTransactionToBackend S tx) (\<lambda>h.
     bindO (tx_proceed now now (set_hash h now tx)) (\<lambda>tx1. Returns (tx1, save_tx tx1 s)))"

definition signTransaction :: "services \<Rightarrow> time \<Rightarrow> Wallet \<Rightarrow> Transaction \<Rightarrow> app \<Rightarrow> (ServiceError, Transaction) outcome" where
  "signTransaction S now wallet tx s =
     bindO (forceTry (assertTrue (case Wallet.owner wallet browserExtension of None \<Rightarrow> True | Some ext \<Rightarrow> isSignedBy (owner_address ext) tx) ())) (\<lambda>_.
     bindO (forceTry (assertTrue (case Wallet.owner wallet keycard of None \<Rightarrow> True | Some kc \<Rightarrow> isSignedBy (owner_address kc) tx) ())) (\<lambda>_.
     bindO (unwrap (Wallet.owner wallet thisDevice)) (\<lambda>device.
     if isSignedBy (owner_address device) tx then Returns tx
     else case find_key S (owner_address device) s of
       None \<Rightarrow> Throws (ApplicationError failedToSignTransactionByDevice)
     | Some key \<Rightarrow>
         bindO (sign_transaction (env_sign (sv_env S)) (env_digest (sv_env S) s) tx key) (\<lambda>d.
         Returns (add_signature \<lparr>sig_address = owner_address device, sig_data = d\<rparr> now tx)))))"

text \<open>A failing last notification is ignored (\<^verbatim>\<open>try?\<close>); a message that cannot be built stops the process.\<close>

definition notify_sent :: "services \<Rightarrow> Transaction \<Rightarrow> Wallet \<Rightarrow> app \<Rightarrow> (ServiceError, unit) outcome" where
  "notify_sent S tx wallet s =
     bindO (transactionSentMessage S tx) (\<lambda>message.
     case notifyBrowserExtension S message wallet s of Traps \<Rightarrow> Traps | _ \<Rightarrow> Returns ())"

definition submitTransaction :: "services \<Rightarrow> time \<Rightarrow> string \<Rightarrow> app \<Rightarrow> (ServiceError, Transaction \<times> app) outcome" where
  "submitTransaction S now i s =
     bindO (unwrap (find_tx i s)) (\<lambda>tx.
     bindO (if status tx = TS_draft then requestTransactionConfirmationIfNeeded S i s else Returns ()) (\<lambda>_.
     if isReplaceOrDisconnectTwoFA (tx_type tx) then proceedTransaction S now tx s
     else bindO (AccountID_walletID (tx_accountID tx)) (\<lambda>w.
          bindO (unwrap (wallet_with w s)) (\<lambda>wallet.
          bindO (signTransaction S now wallet tx s) (\<lambda>tx1.
          bindO (proceedTransaction S now tx1 s) (\<lambda>(tx2, s1).
          bindO (notify_sent S tx2 wallet s1) (\<lambda>_. Returns (tx2, s1))))))))"

subsection \<open>The status that is shown\<close>

datatype TransactionData_Status =
    DS_waitingForConfirmation | DS_readyToSubmit | DS_rejected | DS_pending | DS_failed | DS_success

definition status_of :: "Transaction \<Rightarrow> app \<Rightarrow> ('e, TransactionData_Status) outcome" where
  "status_of tx s =
     bindO (AccountID_walletID (tx_accountID tx)) (\<lambda>w.
     let ext = owner_address_in browserExtension w s; kc = owner_address_in keycard w s;
         defaultStatus = (if ext \<noteq> None \<or> kc \<noteq> None then DS_waitingForConfirmation else DS_readyToSubmit);
         signed = (\<lambda>a. length (signatures tx) = 1 \<and> isSignedBy a tx)
     in Returns (case status tx of
          TS_signing \<Rightarrow> if (case ext of None \<Rightarrow> False | Some a \<Rightarrow> signed a) \<or> (case kc of None \<Rightarrow> False | Some a \<Rightarrow> signed a)
            then DS_readyToSubmit else defaultStatus
        | TS_rejected \<Rightarrow> DS_rejected
        | TS_pending \<Rightarrow> DS_pending
        | TS_failed \<Rightarrow> DS_failed
        | TS_success \<Rightarrow> DS_success
        | TS_draft \<Rightarrow> defaultStatus))"

subsection \<open>The order of owners\<close>

text \<open>The contract compares addresses as numbers; the code sorts them as lower case strings. For hexadecimal addresses it is the same.\<close>

lemma hex_value_lower:
  assumes "hex_value c = Some d"
  shows "d < 16" "(of_char (lower_char c) :: nat) = (if d < 10 then 48 + d else 87 + d)"
  using assms
  by (auto simp: hex_value_def lower_char_def Let_def split: if_splits)

lemma lower_char_less:
  assumes "hex_value c = Some d" "hex_value c' = Some d'"
  shows "lower_char c < lower_char c' \<longleftrightarrow> d < d'" "lower_char c = lower_char c' \<longleftrightarrow> d = d'"
proof -
  note l = hex_value_lower [OF assms(1)] hex_value_lower [OF assms(2)]
  show "lower_char c < lower_char c' \<longleftrightarrow> d < d'" using l by (simp add: less_char_def)
  have "lower_char c = lower_char c' \<longleftrightarrow> (of_char (lower_char c) :: nat) = of_char (lower_char c')" by simp
  then show "lower_char c = lower_char c' \<longleftrightarrow> d = d'" using l by (simp split: if_splits)
qed

lemma digits_value_less: "is_hex s \<Longrightarrow> digits_value s < 16 ^ length s"
proof (induction s)
  case (Cons c s)
  then obtain d where d: "hex_value c = Some d" by (auto simp: is_hex_def)
  have "d < 16" using hex_value_lower(1) [OF d] .
  then have "d * 16 ^ length s \<le> 15 * 16 ^ length s" by (intro mult_le_mono1) simp
  moreover have "digits_value s < 16 ^ length s" using Cons by simp
  ultimately have "d * 16 ^ length s + digits_value s < 16 * 16 ^ length s" by linarith
  then show ?case using d by simp
qed simp

lemma lowercased_less:
  assumes "is_hex s" "is_hex t" "length s = length t"
  shows "lowercased s < lowercased t \<longleftrightarrow> digits_value s < digits_value t"
  using assms
proof (induction s t rule: list_induct2')
  case (4 c s e t)
  then obtain d d' where d: "hex_value c = Some d" "hex_value e = Some d'" by (auto simp: is_hex_def)
  let ?n = "16 ^ length t :: nat"
  have lt: "digits_value s < ?n" "digits_value t < ?n" using digits_value_less [of s] digits_value_less [of t] 4 by simp_all
  have "lowercased s < lowercased t \<longleftrightarrow> digits_value s < digits_value t" using 4 by simp
  moreover have "d * ?n + digits_value s < d' * ?n + digits_value t \<longleftrightarrow> d < d' \<or> d = d' \<and> digits_value s < digits_value t"
  proof (cases d d' rule: linorder_cases)
    case less
    then have "Suc d * ?n \<le> d' * ?n" by (intro mult_le_mono1) simp
    with lt less show ?thesis by simp
  next
    case greater
    then have "Suc d' * ?n \<le> d * ?n" by (intro mult_le_mono1) simp
    with lt greater show ?thesis by simp
  qed simp
  ultimately show ?case using d lower_char_less [OF d] 4 by (simp add: lowercased_def)
qed (simp_all add: lowercased_def)

lemma lowercased_address_less:
  assumes "packages_ok E" "hex_address a" "hex_address b"
  shows "lowercased (address_value a) < lowercased (address_value b) \<longleftrightarrow> account E a < account E b"
proof -
  obtain s where s: "address_value a = CHR ''0'' # CHR ''x'' # s" "is_hex s" "length s = 40" using assms(2) by (rule hex_addressE)
  obtain t where t: "address_value b = CHR ''0'' # CHR ''x'' # t" "is_hex t" "length t = 40" using assms(3) by (rule hex_addressE)
  show ?thesis
    using lowercased_less [of s t] s t hex_address_account(1) [OF assms(1,2)] hex_address_account(1) [OF assms(1,3)]
    by (simp add: lowercased_def)
qed

subsection \<open>What is submitted is what was signed\<close>

text \<open>What the packages and services promise: the checksum spelling of twenty bytes is a hexadecimal spelling of them.\<close>

definition eip55_ok :: "env \<Rightarrow> bool" where
  "eip55_ok V \<longleftrightarrow>
     (\<forall>d. length d = 20 \<longrightarrow> hex_address (Address (env_eip55 V d)) \<and> ethHex (env_packages V) (env_eip55 V d) = d)"

definition services_ok :: "services \<Rightarrow> app \<Rightarrow> bool" where
  "services_ok S s \<longleftrightarrow> digest_env_ok (env_digest (sv_env S) s) \<and> bigint_ok (env_bigint (sv_env S)) \<and> eip55_ok (sv_env S)"

text \<open>A request describes the structure that the contract hashes.\<close>

definition request_denotes :: "services \<Rightarrow> SubmitTransactionRequest \<Rightarrow> SafeTx \<Rightarrow> bool" where
  "request_denotes S r t \<longleftrightarrow>
     (let E = sv_packages S; num = BigInt_String (env_bigint (sv_env S))
      in account E (Address (sr_safe r)) = st_safe t \<and> account E (Address (sr_to r)) = st_to t \<and>
         num (sr_value r) = Some (st_value t) \<and> ethHex E (sr_data r) = st_data t \<and> sr_operation r = st_operation t \<and>
         num (sr_safeTxGas r) = Some (st_safeTxGas t) \<and> num (sr_dataGas r) = Some (st_baseGas t) \<and>
         num (sr_gasPrice r) = Some (st_gasPrice t) \<and>
         map_option (\<lambda>g. account E (Address g)) (sr_gasToken r) = Some (st_gasToken t) \<and> num (sr_nonce r) = Some (st_nonce t))"

lemma formatted_account:
  assumes "packages_ok (sv_packages S)" "eip55_ok (sv_env S)" "hex_address a"
  shows "\<exists>b. formatted S a = (Returns b :: ('e, Address) outcome) \<and> account (sv_packages S) b = account (sv_packages S) a"
proof -
  let ?E = "sv_packages S" and ?d = "address_bytes (sv_packages S) a"
  let ?b = "Address (env_eip55 (sv_env S) ?d)"
  have d: "length ?d = 20" using assms(1,3) by (rule hex_address_account)
  then have b: "hex_address ?b" "address_bytes ?E ?b = ?d" using assms(2) by (simp_all add: eip55_ok_def address_bytes_def)
  have "address_value a \<noteq> []" using assms(3) by (auto simp: hex_address_def)
  moreover have "Address_init ?E (env_eip55 (sv_env S) ?d) = (Returns ?b :: ('e, Address) outcome)"
    using b d by (auto simp: Address_init_def hex_address_def hasPrefix_def address_bytes_def numeral_2_eq_2)
  ultimately have "formatted S a = (Returns ?b :: ('e, Address) outcome)"
    using d by (simp add: formatted_def encryption_address_from_def address_bytes_def Let_def)
  with b show ?thesis by (auto simp: account_def)
qed

lemma ethHex_ethData:
  assumes "packages_ok E"
  shows "ethHex E (ethData E tx) = signed_data tx"
proof (cases "tx_data tx")
  case None
  then show ?thesis using assms ethHex_is_hex(1) [OF assms, of "[]"] by (simp add: ethData_def signed_data_def)
next
  case (Some d)
  then show ?thesis by (simp add: ethData_def signed_data_def packages_okD(2) [OF assms] ethHex_hex_of_bytes [OF assms])
qed

lemma request_denotes_safe_tx:
  assumes "services_ok S s" "digest_ok (env_digest (sv_env S) s) tx" "safe_tx (env_digest (sv_env S) s) tx = Some t"
  shows "\<exists>r. SubmitTransactionRequest_init S tx sigs = (Returns r :: ('e, SubmitTransactionRequest) outcome) \<and>
    request_denotes S r t \<and> sr_signatures r = sigs"
proof -
  let ?D = "env_digest (sv_env S) s" and ?E = "sv_packages S"
  have E: "packages_ok ?E" and B: "bigint_ok (env_bigint (sv_env S))" and eip: "eip55_ok (sv_env S)"
    using assms(1) by (simp_all add: services_ok_def digest_env_ok_def env_digest_def)
  obtain a op f n where parts: "sender tx = Some a" "operation tx = Some op" "feeEstimate tx = Some f"
    "tx_nonce tx \<noteq> None" "BigInt_String (env_bigint (sv_env S)) (the (tx_nonce tx)) = Some n"
    and t: "st_safe t = account ?E a" "st_to t = account ?E (ethTo tx)" "st_value t = ethValue tx" "st_data t = signed_data tx"
    "st_operation t = op" "st_safeTxGas t = gas f" "st_baseGas t = dataGas f" "st_gasPrice t = ta_amount (gasPrice f)"
    "st_gasToken t = account ?E (token_address (ta_token (gasPrice f)))" "st_nonce t = n"
    using assms(3)
    by (auto simp: safe_tx_def Let_def env_digest_def bind_eq_Some_conv split: outcome.splits)
  have hex: "hex_address a" "hex_address (ethTo tx)" using assms(2) parts(1) by (simp_all add: digest_ok_def)
  obtain safe where safe: "formatted S a = (Returns safe :: ('e, _) outcome)" "account ?E safe = account ?E a"
    using formatted_account [OF E eip hex(1)] by blast
  obtain to where to: "formatted S (ethTo tx) = (Returns to :: ('e, _) outcome)" "account ?E to = account ?E (ethTo tx)"
    using formatted_account [OF E eip hex(2)] by blast
  have num: "BigInt_String (env_bigint (sv_env S)) (sv_String S k) = Some k" for k using B by (simp add: bigint_ok_def)
  show ?thesis
    using parts t safe to
    by (auto simp: SubmitTransactionRequest_init_def request_denotes_def Let_def num ethHex_ethData [OF E] token_id_def)
qed

lemma sorted_signers:
  assumes "packages_ok E" "list_all (\<lambda>sg. hex_address (sig_address sg)) (signatures tx)"
    and "distinct (map (\<lambda>sg. account E (sig_address sg)) (signatures tx))"
  shows "sorted_wrt (<) (map (\<lambda>sg. account E (sig_address sg)) (sortedSignatures tx))" "mset (sortedSignatures tx) = mset (signatures tx)"
proof -
  let ?k = "\<lambda>sg. lowercased (address_value (sig_address sg))" and ?a = "\<lambda>sg. account E (sig_address sg)"
  show m: "mset (sortedSignatures tx) = mset (signatures tx)" by (simp add: sortedSignatures_def)
  then have set: "set (sortedSignatures tx) = set (signatures tx)" by (rule mset_eq_setD)
  have "distinct (map ?a (sortedSignatures tx))" using assms(3) m by (metis mset_eq_imp_distinct_iff mset_map)
  moreover have "sorted (map ?k (sortedSignatures tx))" by (simp add: sortedSignatures_def)
  then have "sorted_wrt (\<lambda>x y. ?a x \<le> ?a y) (sortedSignatures tx)"
    unfolding sorted_map
  proof (rule sorted_wrt_mono_rel [rotated])
    fix x y assume "x \<in> set (sortedSignatures tx)" "y \<in> set (sortedSignatures tx)" "?k x \<le> ?k y"
    then show "?a x \<le> ?a y"
      using lowercased_address_less [OF assms(1)] assms(2) unfolding set by (metis list_all_iff not_le)
  qed
  ultimately show "sorted_wrt (<) (map ?a (sortedSignatures tx))"
    by (simp add: strict_sorted_iff sorted_map)
qed

lemma signTransaction_cases:
  assumes "signTransaction S now wallet tx s = Returns tx1"
  obtains device where "Wallet.owner wallet thisDevice = Some device" "isSignedBy (owner_address device) tx1"
    "\<forall>role\<in>{browserExtension, keycard}. \<forall>o1. Wallet.owner wallet role = Some o1 \<longrightarrow> isSignedBy (owner_address o1) tx"
    "tx1 = tx \<or> (\<exists>d. tx1 = add_signature \<lparr>sig_address = owner_address device, sig_data = d\<rparr> now tx \<and>
      signatures tx1 = signatures tx @ [\<lparr>sig_address = owner_address device, sig_data = d\<rparr>] \<and>
      owner_address device \<in> set (deviceKeys (app_world s)) \<and>
      sign_transaction (env_sign (sv_env S)) (env_digest (sv_env S) s) tx (sv_privateKey S (owner_address device)) =
        (Returns d :: (ServiceError, data) outcome))"
proof -
  from assms obtain device where device: "Wallet.owner wallet thisDevice = Some device"
    by (auto simp: signTransaction_def)
  have roles: "\<forall>role\<in>{browserExtension, keycard}. \<forall>o1. Wallet.owner wallet role = Some o1 \<longrightarrow> isSignedBy (owner_address o1) tx"
    using assms by (auto simp: signTransaction_def)
  show thesis
  proof (cases "isSignedBy (owner_address device) tx")
    case True
    with assms device have "tx1 = tx" by (auto simp: signTransaction_def split: option.splits)
    with True device roles show thesis by (intro that [of device]) auto
  next
    case False
    let ?sg = "\<lambda>d. \<lparr>sig_address = owner_address device, sig_data = d\<rparr>"
    from assms device False obtain d where d: "tx1 = add_signature (?sg d) now tx" "owner_address device \<in> set (deviceKeys (app_world s))"
      "sign_transaction (env_sign (sv_env S)) (env_digest (sv_env S) s) tx (sv_privateKey S (owner_address device)) =
        (Returns d :: (ServiceError, data) outcome)"
      by (auto simp: signTransaction_def find_key_def split: option.splits if_splits)
    moreover have "?sg d \<notin> set (signatures tx)" using False by (auto simp: isSignedBy_def list_ex_iff)
    ultimately have "signatures tx1 = signatures tx @ [?sg d]" by (simp add: add_signature_def timestamp_defs)
    with d device roles show thesis by (intro that [of device]) (auto simp: isSignedBy_def)
  qed
qed

lemma signing_keeps_parameters:
  "safe_tx D (add_signature sg now tx) = safe_tx D tx" "digest_ok D (add_signature sg now tx) = digest_ok D tx"
  "status (add_signature sg now tx) = status tx" "tx_id (add_signature sg now tx) = tx_id tx"
proof -
  have same: "sender (add_signature sg now tx) = sender tx" "operation (add_signature sg now tx) = operation tx"
    "feeEstimate (add_signature sg now tx) = feeEstimate tx" "tx_nonce (add_signature sg now tx) = tx_nonce tx"
    "tx_data (add_signature sg now tx) = tx_data tx" "amount (add_signature sg now tx) = amount tx"
    "recipient (add_signature sg now tx) = recipient tx" "tx_accountID (add_signature sg now tx) = tx_accountID tx"
    by (simp_all add: add_signature_def timestamp_defs)
  have derived: "ethTo (add_signature sg now tx) = ethTo tx" "ethValue (add_signature sg now tx) = ethValue tx"
    "signed_data (add_signature sg now tx) = signed_data tx"
    "tx_txTypeHash E M s (add_signature sg now tx) = tx_txTypeHash E M s tx"
    "tx_domainSeparatorTypeHash E M s (add_signature sg now tx) = tx_domainSeparatorTypeHash E M s tx" for E M s
    by (simp_all add: same ethTo_def ethValue_def isERC20Transfer_def signed_data_def tx_txTypeHash_def tx_domainSeparatorTypeHash_def)
  show "safe_tx D (add_signature sg now tx) = safe_tx D tx" "digest_ok D (add_signature sg now tx) = digest_ok D tx"
    unfolding safe_tx_def digest_ok_def same derived by (rule refl)+
  show "status (add_signature sg now tx) = status tx" "tx_id (add_signature sg now tx) = tx_id tx"
    by (simp_all add: add_signature_def timestamp_defs)
qed

lemma proceedTransaction_cases:
  assumes "proceedTransaction S now tx s = Returns (tx', s')"
  obtains request h where "submission_request S tx = Returns request" "sv_submitTransaction S request = Returns h"
    "tx_proceed now now (set_hash h now tx) = (Returns tx' :: (ServiceError, _) outcome)" "s' = save_tx tx' s"
  using assms by (auto simp: proceedTransaction_def submitTransactionToBackend_def handleRelayServiceErrors_def)

lemma tx_proceed_submitted:
  assumes "tx_proceed now now (set_hash h now tx) = (Returns tx' :: ('e, _) outcome)"
  shows "transactionHash tx' = Some h" "signatures tx' = signatures tx" "tx_id tx' = tx_id tx"
    "status tx' = (if status tx = TS_signing then TS_pending else TS_signing)"
  using assms
  by (auto simp: tx_proceed_def Draft_proceed_def Signing_proceed_def set_hash_def timestamp_defs change_status_def split: Code.splits)

text \<open>The transaction that is sent: with the signatures it has, or with those of the owners on the device and of the second factor.\<close>

definition signed_for_submission :: "services \<Rightarrow> app \<Rightarrow> Transaction \<Rightarrow> SafeTx \<Rightarrow> Transaction \<Rightarrow> bool" where
  "signed_for_submission S s tx t tx1 \<longleftrightarrow>
     (if isReplaceOrDisconnectTwoFA (tx_type tx) then signatures tx1 = signatures tx
      else \<exists>w wallet device. AccountID_walletID (tx_accountID tx) = (Returns w :: (ServiceError, _) outcome) \<and>
        wallet_with w s = Some wallet \<and> Wallet.owner wallet thisDevice = Some device \<and> isSignedBy (owner_address device) tx1 \<and>
        (\<forall>o1. twoFAOwner wallet = Some o1 \<longrightarrow> isSignedBy (owner_address o1) tx1) \<and>
        (signatures tx1 = signatures tx \<or> (\<exists>d. signatures tx1 = signatures tx @ [\<lparr>sig_address = owner_address device, sig_data = d\<rparr>] \<and>
          env_sign (sv_env S) (safeTx_digest (sv_packages S) t) (leftPadded (sv_privateKey S (owner_address device)) 32) = Some d)))"

lemma submitTransaction_signed:
  assumes "digest_env_ok (env_digest (sv_env S) s)" "find_tx i s = Some tx" "digest_ok (env_digest (sv_env S) s) tx"
    and "safe_tx (env_digest (sv_env S) s) tx = Some t" "submitTransaction S now i s = Returns (tx', s')"
  shows "\<exists>tx1. proceedTransaction S now tx1 s = Returns (tx', s') \<and> safe_tx (env_digest (sv_env S) s) tx1 = Some t \<and> digest_ok (env_digest (sv_env S) s) tx1 \<and>
    status tx1 = status tx \<and> tx_id tx1 = tx_id tx \<and> signed_for_submission S s tx t tx1"
proof (cases "isReplaceOrDisconnectTwoFA (tx_type tx)")
  case True
  with assms show ?thesis by (auto simp: submitTransaction_def signed_for_submission_def)
next
  case False
  let ?D = "env_digest (sv_env S) s"
  obtain w wallet tx1 where w: "AccountID_walletID (tx_accountID tx) = (Returns w :: (ServiceError, _) outcome)"
    "wallet_with w s = Some wallet" "signTransaction S now wallet tx s = Returns tx1" "proceedTransaction S now tx1 s = Returns (tx', s')"
    using assms(2,5) False by (auto simp: submitTransaction_def)
  obtain device where device: "Wallet.owner wallet thisDevice = Some device" "isSignedBy (owner_address device) tx1"
    and roles: "\<forall>role\<in>{browserExtension, keycard}. \<forall>o1. Wallet.owner wallet role = Some o1 \<longrightarrow> isSignedBy (owner_address o1) tx"
    and tx1: "tx1 = tx \<or> (\<exists>d. tx1 = add_signature \<lparr>sig_address = owner_address device, sig_data = d\<rparr> now tx \<and>
      signatures tx1 = signatures tx @ [\<lparr>sig_address = owner_address device, sig_data = d\<rparr>] \<and>
      owner_address device \<in> set (deviceKeys (app_world s)) \<and>
      sign_transaction (env_sign (sv_env S)) ?D tx (sv_privateKey S (owner_address device)) = (Returns d :: (ServiceError, data) outcome))"
    using w(3) by (rule signTransaction_cases)
  have "safe_tx ?D tx1 = Some t" "digest_ok ?D tx1" "status tx1 = status tx" "tx_id tx1 = tx_id tx"
    using tx1 assms(3,4) by (auto simp: signing_keeps_parameters)
  moreover have "isSignedBy a tx \<longrightarrow> isSignedBy a tx1" for a using tx1 by (auto simp: isSignedBy_def)
  moreover have "env_sign (sv_env S) (safeTx_digest (sv_packages S) t) (leftPadded key 32) = Some d"
    if "sign_transaction (env_sign (sv_env S)) ?D tx key = (Returns d :: (ServiceError, data) outcome)" for d key
    using that unfolding sign_transaction_def hash_of_eip712 [OF assms(1,3)] assms(4)
    by (simp add: rawSignature_def env_digest_def)
  ultimately show ?thesis
    using w False device roles tx1
    by (intro exI [of _ tx1]) (auto simp: signed_for_submission_def twoFAOwner_def split: option.splits)
qed

text \<open>
  (C5) What a submission sends. When it returns, the relay service has accepted a request that describes exactly the structure behind the digest of the stored
  transaction, with the signatures that the transaction then has. They are sent in the strictly increasing order of their accounts, which the contract demands, if the
  signers are hexadecimal addresses of different accounts. A transaction that replaces or disconnects the second factor is sent with the signatures it has. Any other one carries a signature of this device
  and of the second factor if the wallet has one; submission itself adds at most the signature of the device, which is over the digest of that same structure, and passes on the others as
  they were collected. The transaction is saved with the hash that the service answered: one that was being signed is now pending, a draft is being signed. Nothing else changes.
\<close>

theorem submission_is_signed:
  assumes "services_ok S s" "find_tx i s = Some tx" "digest_ok (env_digest (sv_env S) s) tx"
    and "safe_tx (env_digest (sv_env S) s) tx = Some t" "submitTransaction S now i s = Returns (tx', s')"
  shows "\<exists>request h. sv_submitTransaction S request = Returns h \<and> request_denotes S request t \<and>
    mapO (\<lambda>sg. ethSignature_from S (sig_data sg)) (sortedSignatures tx') = (Returns (sr_signatures request) :: (ServiceError, _) outcome) \<and>
    (list_all (\<lambda>sg. hex_address (sig_address sg)) (signatures tx') \<longrightarrow>
      distinct (map (\<lambda>sg. account (sv_packages S) (sig_address sg)) (signatures tx')) \<longrightarrow>
      sorted_wrt (<) (map (\<lambda>sg. account (sv_packages S) (sig_address sg)) (sortedSignatures tx'))) \<and>
    (if isReplaceOrDisconnectTwoFA (tx_type tx) then signatures tx' = signatures tx
     else \<exists>w wallet device. AccountID_walletID (tx_accountID tx) = (Returns w :: (ServiceError, _) outcome) \<and>
       wallet_with w s = Some wallet \<and> Wallet.owner wallet thisDevice = Some device \<and> isSignedBy (owner_address device) tx' \<and>
       (\<forall>o1. twoFAOwner wallet = Some o1 \<longrightarrow> isSignedBy (owner_address o1) tx') \<and>
       (signatures tx' = signatures tx \<or> (\<exists>d. signatures tx' = signatures tx @ [\<lparr>sig_address = owner_address device, sig_data = d\<rparr>] \<and>
         env_sign (sv_env S) (safeTx_digest (sv_packages S) t) (leftPadded (sv_privateKey S (owner_address device)) 32) = Some d))) \<and>
    transactionHash tx' = Some h \<and> status tx' = (if status tx = TS_signing then TS_pending else TS_signing) \<and>
    find_tx i s' = Some tx' \<and> only_transaction i s s'"
proof -
  let ?D = "env_digest (sv_env S) s" and ?E = "sv_packages S" and ?sent = "isReplaceOrDisconnectTwoFA (tx_type tx)"
  have E: "packages_ok ?E" and D: "digest_env_ok ?D"
    using assms(1) by (simp_all add: services_ok_def digest_env_ok_def env_digest_def)
  obtain tx1 where p: "proceedTransaction S now tx1 s = Returns (tx', s')" and same: "safe_tx ?D tx1 = Some t" "digest_ok ?D tx1" "status tx1 = status tx" "tx_id tx1 = tx_id tx"
    and signed: "signed_for_submission S s tx t tx1"
    using submitTransaction_signed [OF D assms(2-5)] by blast
  obtain request h where r: "submission_request S tx1 = Returns request" "sv_submitTransaction S request = Returns h"
    "tx_proceed now now (set_hash h now tx1) = (Returns tx' :: (ServiceError, _) outcome)" "s' = save_tx tx' s"
    using p by (rule proceedTransaction_cases)
  note tx' = tx_proceed_submitted [OF r(3)]
  obtain sigs where sigs: "mapO (\<lambda>sg. ethSignature_from S (sig_data sg)) (sortedSignatures tx1) = (Returns sigs :: (ServiceError, _) outcome)"
    "SubmitTransactionRequest_init S tx1 sigs = (Returns request :: (ServiceError, _) outcome)"
    using r(1) by (auto simp: submission_request_def)
  then have request: "request_denotes S request t" "sr_signatures request = sigs"
    using request_denotes_safe_tx [OF assms(1) same(2,1), of sigs, where ?'e = ServiceError] by auto
  have sorted: "sortedSignatures tx' = sortedSignatures tx1" by (simp add: sortedSignatures_def tx'(2))
  have same_signers: "isSignedBy a tx1 = isSignedBy a tx'" for a using tx'(2) by (simp add: isSignedBy_def)
  have "tx_id tx' = i" using assms(2) find_row_SomeD tx'(3) same(4) by (fastforce simp: find_tx_def)
  then show ?thesis
    using r(2,4) request sigs(1) tx'(1,4) same(3) sorted_signers(1) [OF E, of tx'] only_transaction_save [of tx' s]
    by (intro exI [of _ request] exI [of _ h] conjI signed [unfolded signed_for_submission_def same_signers tx'(2) [symmetric]])
      (simp_all add: sorted find_tx_save)
qed

subsection \<open>What is shown as ready can be submitted\<close>

text \<open>
  What the elliptic curve library and the notification client do: sign every digest of the hash function with a key that is stored for an account, give
  small recovery values, and return or throw.
\<close>

definition signing_works :: "services \<Rightarrow> app \<Rightarrow> bool" where
  "signing_works S s \<longleftrightarrow>
     (\<forall>a \<in> set (deviceKeys (app_world s)). \<forall>x. env_sign (sv_env S) (sha3 (sv_packages S) x) (leftPadded (sv_privateKey S a) 32) \<noteq> None) \<and>
     (\<forall>d. Int_min \<le> snd (snd (sv_calculateRSV S d)) \<and> snd (snd (sv_calculateRSV S d)) \<le> Int_max) \<and>
     (\<forall>r. sv_send S r \<noteq> Traps)"

lemma signing_works_keys:
  "signing_works S s \<Longrightarrow> set (deviceKeys (app_world s')) \<subseteq> set (deviceKeys (app_world s)) \<Longrightarrow> signing_works S s'"
  by (auto simp: signing_works_def)

lemma ethSignature_from_works:
  assumes "signing_works S s"
  obtains sg where "ethSignature_from S d = (Returns sg :: ('e, _) outcome)"
proof (cases "sv_calculateRSV S d")
  case (fields x y v)
  then have "Int_min \<le> v \<and> v \<le> Int_max" using assms by (metis signing_works_def snd_conv)
  then show thesis using that fields by (simp add: ethSignature_from_def signature_from_rsv_def toInt_def)
qed

lemma mapO_works: "(\<And>x. \<exists>y. f x = Returns y) \<Longrightarrow> \<exists>ys. mapO f xs = Returns ys"
proof (induction xs)
  case (Cons x xs)
  then obtain y ys where "f x = Returns y" "mapO f xs = Returns ys" by blast
  then show ?case by simp
qed simp

lemma submission_request_works:
  assumes "services_ok S s" "signing_works S s" "digest_ok (env_digest (sv_env S) s) tx" "safe_tx (env_digest (sv_env S) s) tx = Some t"
  obtains request where "submission_request S tx = Returns request" "request_denotes S request t"
proof -
  obtain sigs where "mapO (\<lambda>sg. ethSignature_from S (sig_data sg)) (sortedSignatures tx) = (Returns sigs :: (ServiceError, _) outcome)"
    using mapO_works [of "\<lambda>sg. ethSignature_from S (sig_data sg)"] ethSignature_from_works [OF assms(2)] by metis
  moreover obtain r where "SubmitTransactionRequest_init S tx sigs = (Returns r :: (ServiceError, _) outcome)" "request_denotes S r t"
    using request_denotes_safe_tx [OF assms(1,3,4), of sigs] by blast
  ultimately show thesis using that by (simp add: submission_request_def)
qed

lemma sign_message_works:
  assumes "signing_works S s"
  shows "\<exists>sig. sign_message S message a s = (Returns sig :: ('e, _) outcome) \<and> (sig = None \<longleftrightarrow> find_key S a s = None)"
proof (cases "find_key S a s")
  case None
  then show ?thesis by (simp add: sign_message_def)
next
  case (Some key)
  then have "a \<in> set (deviceKeys (app_world s))" "key = sv_privateKey S a" by (simp_all add: find_key_def split: if_splits)
  then obtain raw where "rawSignature (env_sign (sv_env S)) (sha3 (sv_packages S) (utf8_bytes message)) key = (Returns raw :: ('e, _) outcome)"
    using assms unfolding signing_works_def rawSignature_def unwrap_eq_Returns by (metis option.exhaust)
  moreover obtain sg where "ethSignature_from S raw = (Returns sg :: ('e, _) outcome)" using ethSignature_from_works [OF assms] by metis
  ultimately show ?thesis using Some by (simp add: sign_message_def)
qed

lemma notifyBrowserExtension_works:
  assumes "packages_ok (sv_packages S)" "signing_works S s" "Wallet.owner wallet thisDevice = Some device" "hex_address (owner_address device)"
  shows "notifyBrowserExtension S message wallet s \<noteq> Traps"
proof (cases "Wallet.owner wallet browserExtension")
  case (Some ext)
  have a: "Address_init (sv_packages S) (address_value (owner_address device)) = (Returns (owner_address device) :: (ServiceError, _) outcome)"
    using assms(1,4) by (rule Address_init_hex_address)
  obtain sig where "sign_message S (''GNO'' @ message) (owner_address device) s = (Returns sig :: (ServiceError, _) outcome)"
    using sign_message_works [OF assms(2)] by blast
  with Some a assms(2,3) show ?thesis
    by (auto simp: notifyBrowserExtension_def handleNotificationServiceError_def signing_works_def split: option.splits)
qed (simp add: notifyBrowserExtension_def)

lemma transactionSentMessage_works:
  assumes "packages_ok (sv_packages S)" "eip55_ok (sv_env S)" "sender tx = Some a" "hex_address a" "hex_address (ethTo tx)"
    "tx_hash tx \<noteq> None" "transactionHash tx \<noteq> None"
  shows "\<exists>m. transactionSentMessage S tx = (Returns m :: ('e, _) outcome)"
  using formatted_account [OF assms(1,2,4), where ?'e = 'e] formatted_account [OF assms(1,2,5), where ?'e = 'e] assms(3,6,7)
  by (auto simp: transactionSentMessage_def)

lemma notify_sent_works:
  assumes "services_ok S s" "signing_works S s" "Wallet.owner wallet thisDevice = Some device" "hex_address (owner_address device)"
    and "digest_ok (env_digest (sv_env S) s) tx" "safe_tx (env_digest (sv_env S) s) tx = Some t" "tx_hash tx \<noteq> None"
    and tx2_def: "tx2 = timestampUpdated now (timestampSubmitted now (change_status TS_pending (set_hash h now tx)))"
  shows "notify_sent S tx2 wallet (save_tx tx2 s) = Returns ()"
proof -
  have E: "packages_ok (sv_packages S)" and eip: "eip55_ok (sv_env S)"
    using assms(1) by (simp_all add: services_ok_def digest_env_ok_def env_digest_def)
  obtain a where a: "sender tx = Some a" "hex_address a" "hex_address (ethTo tx)"
    using assms(5,6) by (auto simp: safe_tx_def digest_ok_def Let_def bind_eq_Some_conv split: outcome.splits)
  have "sender tx2 = sender tx" "tx_hash tx2 = tx_hash tx" "transactionHash tx2 = Some h" "amount tx2 = amount tx" "recipient tx2 = recipient tx"
    by (simp_all add: tx2_def timestamp_defs change_status_def set_hash_def)
  moreover from this have "ethTo tx2 = ethTo tx" by (simp add: ethTo_def isERC20Transfer_def)
  ultimately obtain m where "transactionSentMessage S tx2 = (Returns m :: (ServiceError, _) outcome)"
    using transactionSentMessage_works [OF E eip, of tx2 a, where ?'e = ServiceError] a assms(7) by auto
  moreover have "signing_works S (save_tx tx2 s)" using signing_works_keys [OF assms(2)] by (simp add: save_tx_def)
  ultimately show ?thesis
    using notifyBrowserExtension_works [OF E _ assms(3,4)] by (auto simp: notify_sent_def split: outcome.splits)
qed

lemma sign_transaction_works:
  assumes "signing_works S s" "a \<in> set (deviceKeys (app_world s))" "hash_of (env_digest (sv_env S) s) tx = (Returns h :: ('e, _) outcome)"
  obtains d where "sign_transaction (env_sign (sv_env S)) (env_digest (sv_env S) s) tx (sv_privateKey S a) = (Returns d :: ('e, _) outcome)"
    "env_sign (sv_env S) h (leftPadded (sv_privateKey S a) 32) = Some d"
proof -
  obtain x where "h = sha3 (sv_packages S) x" using assms(3) by (auto simp: hash_of_def env_digest_def)
  with assms(1,2) obtain d where "env_sign (sv_env S) h (leftPadded (sv_privateKey S a) 32) = Some d" unfolding signing_works_def by blast
  then show thesis using that assms(3) by (simp add: sign_transaction_def rawSignature_def)
qed

lemma ready_is_signed:
  assumes "status_of tx s = (Returns DS_readyToSubmit :: ('e, _) outcome)" "status tx = TS_signing"
    "AccountID_walletID (tx_accountID tx) = (Returns w :: ('e, _) outcome)" "wallet_with w s = Some wallet"
    "Wallet.owner wallet browserExtension = None \<or> Wallet.owner wallet keycard = None"
    "role = browserExtension \<or> role = keycard" "Wallet.owner wallet role = Some o1"
  shows "isSignedBy (owner_address o1) tx"
  using assms
  by (auto simp: status_of_def owner_address_in_def Let_def split: if_splits option.splits)


subsection \<open>Estimation fixes the digest\<close>

lemma hash_of_env_cong:
  assumes "sender t = sender u" "operation t = operation u" "feeEstimate t = feeEstimate u" "tx_nonce t = tx_nonce u"
    "tx_data t = tx_data u" "amount t = amount u" "recipient t = recipient u" "tx_accountID t = tx_accountID u"
  shows "hash_of D t = (hash_of D u :: ('e, data) outcome)"
proof -
  have "ethTo t = ethTo u" "ethValue t = ethValue u" "signed_data t = signed_data u"
    "tx_txTypeHash E M s t = (tx_txTypeHash E M s u :: ('e, data) outcome)"
    "tx_domainSeparatorTypeHash E M s t = (tx_domainSeparatorTypeHash E M s u :: ('e, data) outcome)" for E M s
    by (simp_all add: assms ethTo_def ethValue_def isERC20Transfer_def signed_data_def tx_txTypeHash_def tx_domainSeparatorTypeHash_def)
  then show ?thesis unfolding hash_of_def hashData_def domainData_def valueData_def by (simp only: assms)
qed

lemma tx_proceed_keeps:
  assumes "tx_proceed now now' t = (Returns u :: ('e, _) outcome)"
  shows "\<exists>c a b. u = t\<lparr>status := c, submittedDate := a, updatedDate := b\<rparr>"
proof -
  from assms have "u = t\<lparr>status := status u, submittedDate := submittedDate u, updatedDate := updatedDate u\<rparr>"
    by (intro Transaction.equality)
      (auto simp: tx_proceed_def Draft_proceed_def Signing_proceed_def timestamp_defs change_status_def split: Code.splits)
  then show ?thesis by blast
qed

lemma env_digest_save [simp]: "env_digest V (save_tx t s) = env_digest V s"
  by (simp add: env_digest_def save_tx_def)

lemma updateTransaction_spec:
  assumes "updateTransaction S now e n tx s = (Returns (tx', s') :: ('e, _) outcome)"
  shows "s' = save_tx tx' s" "tx_id tx' = tx_id tx" "feeEstimate tx' = Some e" "fee tx' = Some (totalSubmittedToBlockchain e)"
    "tx_nonce tx' = Some n" "operation tx' = Some (case operation tx of None \<Rightarrow> OP_call | Some op \<Rightarrow> op)"
    "\<exists>h. tx_hash tx' = Some h \<and> hash_of (env_digest (sv_env S) s') tx' = (Returns h :: ('e, _) outcome)"
    "status tx = TS_draft \<Longrightarrow> status tx' = TS_signing"
proof -
  define tx2 where "tx2 = change_operation (Some (case operation tx of None \<Rightarrow> OP_call | Some op \<Rightarrow> op)) now (change_nonce (Some n) now
    (change_fee (Some (totalSubmittedToBlockchain e)) now (change_feeEstimate (Some e) now tx)))"
  have op: "operation (change_fee f now (change_feeEstimate g now tx)) = operation tx" for f g
    by (simp add: edit_defs timestamp_defs)
  obtain h where h: "hash_of (env_digest (sv_env S) s) tx2 = (Returns h :: ('e, _) outcome)"
    "tx_proceed now now (change_hash (Some h) now tx2) = (Returns tx' :: ('e, _) outcome)" "s' = save_tx tx' s"
    using assms by (auto simp: updateTransaction_def Let_def tx2_def op)
  obtain c a b where tx': "tx' = (change_hash (Some h) now tx2)\<lparr>status := c, submittedDate := a, updatedDate := b\<rparr>"
    using tx_proceed_keeps [OF h(2)] by blast
  then have parts: "sender tx' = sender tx2" "operation tx' = operation tx2" "feeEstimate tx' = feeEstimate tx2" "tx_nonce tx' = tx_nonce tx2"
    "tx_data tx' = tx_data tx2" "amount tx' = amount tx2" "recipient tx' = recipient tx2" "tx_accountID tx' = tx_accountID tx2"
    "tx_hash tx' = Some h" "tx_id tx' = tx_id tx2" "fee tx' = fee tx2"
    by (simp_all add: edit_defs timestamp_defs)
  show "s' = save_tx tx' s" by (rule h)
  show "tx_id tx' = tx_id tx" "feeEstimate tx' = Some e" "fee tx' = Some (totalSubmittedToBlockchain e)" "tx_nonce tx' = Some n"
    "operation tx' = Some (case operation tx of None \<Rightarrow> OP_call | Some op \<Rightarrow> op)"
    unfolding parts by (simp_all add: tx2_def edit_defs timestamp_defs)
  show "\<exists>h. tx_hash tx' = Some h \<and> hash_of (env_digest (sv_env S) s') tx' = (Returns h :: ('e, _) outcome)"
    using h(1,3) parts hash_of_env_cong [OF parts(1-8), of "env_digest (sv_env S) s", where ?'e = 'e] by simp
  show "status tx' = TS_signing" if "status tx = TS_draft"
    using h(2) that by (auto simp: tx_proceed_def Draft_proceed_def tx2_def edit_defs timestamp_defs change_status_def)
qed

lemma EstimateTransactionRequest_fields:
  assumes "EstimateTransactionRequest_init S safe to v d op g = Returns r"
  shows "er_value r = v \<and> er_data r = d"
  using assms by (auto simp: EstimateTransactionRequest_init_def split: if_splits)

text \<open>
  Estimation fixes what is signed. When the call returns, a transaction that needed an estimate is saved
  with the gas parameters that the relay service answered, the nonce after the last used one (zero if there is none), a
  definite operation, and as its hash the digest of exactly these parameters; a draft is now being signed. No other transaction changes. A
  transaction that needs no estimate is returned as it is.
\<close>

theorem estimation_fixes_digest:
  assumes "find_tx i s = Some tx" "estimateTransactionIfNeeded S now i s = Returns (tx', s')"
  shows "if needs_estimate tx
    then \<exists>request response h. sv_estimateTransaction S request = Returns response \<and>
      er_value request = sv_String S (ethValue tx) \<and> er_data request = ethData (sv_packages S) tx \<and>
      map_option (\<lambda>e. (gas e, dataGas e, operationalGas e, ta_amount (gasPrice e))) (feeEstimate tx') =
        Some (es_safeTxGas response, es_baseGas response, es_operationalGas response, es_gasPrice response) \<and>
      tx_nonce tx' = Some (show_int (case es_lastUsedNonce response of None \<Rightarrow> 0 | Some n \<Rightarrow> n + 1)) \<and>
      tx_hash tx' = Some h \<and> hash_of (env_digest (sv_env S) s') tx' = (Returns h :: (ServiceError, _) outcome) \<and>
      (status tx = TS_draft \<longrightarrow> status tx' = TS_signing) \<and> find_tx i s' = Some tx' \<and> only_transaction i s s'
    else tx' = tx \<and> s' = s"
proof (cases "needs_estimate tx")
  case True
  have id: "tx_id tx = i" using assms(1) find_row_SomeD by (fastforce simp: find_tx_def)
  from assms True obtain safe to op g request response token n where
    q: "EstimateTransactionRequest_init S safe to (sv_String S (ethValue tx)) (ethData (sv_packages S) tx) op g =
      (Returns request :: (ServiceError, _) outcome)"
    and r: "sv_estimateTransaction S request = Returns response" "nextNonce response = (Returns n :: (ServiceError, _) outcome)"
    and u: "updateTransaction S now \<lparr>gas = es_safeTxGas response, dataGas = es_baseGas response, operationalGas = es_operationalGas response,
      gasPrice = \<lparr>ta_amount = es_gasPrice response, ta_token = token\<rparr>\<rparr> (show_int n) tx s = (Returns (tx', s') :: (ServiceError, _) outcome)"
    by (auto simp: estimateTransactionIfNeeded_def handleRelayServiceErrors_def)
  have "n = (case es_lastUsedNonce response of None \<Rightarrow> 0 | Some n \<Rightarrow> n + 1)"
    using r(2) by (auto simp: nextNonce_def toInt_def split: option.splits if_splits)
  moreover note updateTransaction_spec [OF u] r(1) EstimateTransactionRequest_fields [OF q] id True
  moreover have "find_tx i (save_tx tx' s) = Some tx'" "only_transaction i s (save_tx tx' s)"
    using updateTransaction_spec(2) [OF u] id only_transaction_save [of tx' s] by (simp_all add: find_tx_save)
  ultimately show ?thesis by auto
qed (use assms in \<open>simp add: estimateTransactionIfNeeded_def\<close>)

subsection \<open>Samples\<close>

definition sampleServices :: services where
  "sampleServices =
     \<lparr>sv_env = sampleEnv, sv_privateKey = (\<lambda>_. [7]), sv_calculateRSV = (\<lambda>_. (1, 2, 27)), sv_decimal = show_int, sv_json = (\<lambda>_. ''{}''),
      sv_estimateTransaction = (\<lambda>_. Returns \<lparr>es_safeTxGas = 1, es_baseGas = 2, es_gasPrice = 3, es_operationalGas = 4,
        es_lastUsedNonce = Some 6, es_gasToken = token_id Token_Ether\<rparr>),
      sv_submitTransaction = (\<lambda>_. Returns ''ab''), sv_send = (\<lambda>_. Returns ())\<rparr>"

definition submitWallet :: Wallet where
  "submitWallet = row_wallet\<lparr>owners := [\<lparr>owner_address = row_address CHR ''a'', owner_role = thisDevice\<rparr>]\<rparr>"

definition submit_tx :: Transaction where
  "submit_tx = digest_tx\<lparr>tx_hash := Some [7], tx_accountID := ''e:w'',
     signatures := [\<lparr>sig_address = row_address CHR ''a'', sig_data = [1]\<rparr>]\<rparr>"

definition submitApp :: "Transaction \<Rightarrow> app" where
  "submitApp tx =
     accountsApp\<lparr>app_world := \<lparr>walletRows = [submitWallet], accountRows = [], deviceKeys = [row_address CHR ''a''], events = []\<rparr>,
       txRows := [tx]\<rparr>"

lemma sample_eip55: "eip55_ok sampleEnv"
proof -
  have "hex_address (Address (''0x'' @ hex_of_bytes d))" if "length d = 20" for d
    using that by (simp add: hex_address_def)
  then show ?thesis using ethHex_hex_of_bytes [OF samplePackages_ok] by (simp add: eip55_ok_def sampleEnv_def)
qed

lemma sampleServices_ok: "services_ok sampleServices s" "signing_works sampleServices s"
  using sample_eip55 sampleBigint_ok
  by (simp_all add: services_ok_def signing_works_def sampleServices_def digest_env_ok_def env_digest_def)
    (simp_all add: sampleEnv_def samplePackages_ok hexint_ok_def sampleHexint_def Int_min_def Int_max_def)

lemma submit_sample:
  "find_tx ''t'' (submitApp submit_tx) = Some submit_tx" "status submit_tx = TS_signing" "tx_type submit_tx = TT_transfer"
  "AccountID_walletID (tx_accountID submit_tx) = (Returns ''w'' :: ('e, _) outcome)"
  "wallet_with ''w'' (submitApp tx) = Some submitWallet"
  "Wallet.owner submitWallet thisDevice = Some \<lparr>owner_address = row_address CHR ''a'', owner_role = thisDevice\<rparr>"
  "Wallet.owner submitWallet browserExtension = None" "Wallet.owner submitWallet keycard = None"
  "isSignedBy (row_address CHR ''a'') submit_tx" "tx_hash submit_tx = Some [7]"
  by (simp_all add: submitApp_def submit_tx_def find_tx_def find_row_def digest_tx_defs sample_account wallet_with_def find_id_def
      submitWallet_def row_wallet_def Wallet_blank_def Wallet.owner_def first_with_def isSignedBy_def)

lemma submit_digest: "digest_ok (env_digest sampleEnv (submitApp tx)) submit_tx"
  "\<exists>t. safe_tx (env_digest sampleEnv (submitApp tx)) submit_tx = Some t"
proof -
  let ?D = "env_digest sampleEnv (submitApp tx)"
  have "account_ok ''e:w''" by (simp add: account_ok_def components_def components_loop.simps)
  then have ok: "digest_ok ?D submit_tx" "digest_parts ?D submit_tx"
    using hex_row_address hex_zero_address
    by (simp_all add: submit_tx_def digest_ok_def digest_parts_def digest_tx_defs u256_def ether_def Token_Ether_def ethTo_def ethValue_def
      isERC20Transfer_def row_token_def token_id_def row_address_def Address_zero_def numeral_eq_Suc env_digest_def sampleEnv_def sampleBigint_def read_int_def
      read_nat_def read_digit_def)
  then show "digest_ok ?D submit_tx" by blast
  show "\<exists>t. safe_tx ?D submit_tx = Some t" using safe_tx_defined [OF ok(1)] ok(2) by blast
qed


lemma sample_submits:
  obtains tx' s' where "submitTransaction sampleServices 9 ''t'' (submitApp submit_tx) = Returns (tx', s')"
proof -
  let ?S = sampleServices and ?s = "submitApp submit_tx"
  obtain t where t: "safe_tx (env_digest (sv_env ?S) ?s) submit_tx = Some t" using submit_digest(2) by (auto simp: sampleServices_def)
  have ok: "digest_ok (env_digest (sv_env ?S) ?s) submit_tx" using submit_digest(1) by (simp add: sampleServices_def)
  obtain request where r: "submission_request ?S submit_tx = Returns request"
    using submission_request_works [OF sampleServices_ok(1,2) ok t] by blast
  have sign: "signTransaction ?S 9 submitWallet submit_tx ?s = Returns submit_tx" by (simp add: signTransaction_def submit_sample)
  define tx2 where "tx2 = timestampUpdated 9 (timestampSubmitted 9 (change_status TS_pending (set_hash ''ab'' 9 submit_tx)))"
  have p: "proceedTransaction ?S 9 submit_tx ?s = Returns (tx2, save_tx tx2 ?s)"
    using r submit_sample(2)
    by (simp add: proceedTransaction_def submitTransactionToBackend_def handleRelayServiceErrors_def tx_proceed_def Signing_proceed_def
        assertNotNil_forced tx2_def set_hash_def timestamp_defs) (simp add: sampleServices_def)
  have "sender tx2 = Some (row_address CHR ''b'')" "ethTo tx2 = ethTo submit_tx" "tx_hash tx2 \<noteq> None" "transactionHash tx2 \<noteq> None"
    by (simp_all add: tx2_def submit_tx_def digest_tx_defs set_hash_def ethTo_def isERC20Transfer_def)
  moreover have "hex_address (ethTo submit_tx)" using ok by (simp add: digest_ok_def)
  then obtain m where "transactionSentMessage ?S tx2 = (Returns m :: (ServiceError, _) outcome)"
  proof -
    have "packages_ok (sv_packages ?S)" "eip55_ok (sv_env ?S)" "hex_address (row_address CHR ''b'')"
      using sampleServices_ok(1) [of ?s] hex_row_address by (simp_all add: services_ok_def digest_env_ok_def env_digest_def)
    with \<open>sender tx2 = Some (row_address CHR ''b'')\<close> \<open>ethTo tx2 = ethTo submit_tx\<close> \<open>tx_hash tx2 \<noteq> None\<close>
      \<open>transactionHash tx2 \<noteq> None\<close> \<open>hex_address (ethTo submit_tx)\<close>
    have "\<exists>m. transactionSentMessage ?S tx2 = (Returns m :: (ServiceError, _) outcome)"
      by (intro transactionSentMessage_works [where a = "row_address CHR ''b''"]) simp_all
    then show thesis using that by blast
  qed
  then have "notify_sent ?S tx2 submitWallet (save_tx tx2 ?s) = Returns ()"
    by (simp add: notify_sent_def notifyBrowserExtension_def submit_sample)
  with p sign show thesis
    using that by (simp add: submitTransaction_def submit_sample isReplaceOrDisconnectTwoFA_def isReplaceTwoFA_def isDisconnectTwoFA_def)
qed

theorem submission_is_signed_witness:
  "\<exists>tx' s' t request. submitTransaction sampleServices 9 ''t'' (submitApp submit_tx) = Returns (tx', s') \<and>
     safe_tx (env_digest sampleEnv (submitApp submit_tx)) submit_tx = Some t \<and> request_denotes sampleServices request t \<and>
     status tx' = TS_pending \<and> find_tx ''t'' s' = Some tx'"
proof -
  obtain t where t: "safe_tx (env_digest (sv_env sampleServices) (submitApp submit_tx)) submit_tx = Some t"
    using submit_digest(2) by (auto simp: sampleServices_def)
  have ok: "digest_ok (env_digest (sv_env sampleServices) (submitApp submit_tx)) submit_tx"
    using submit_digest(1) by (simp add: sampleServices_def)
  obtain tx' s' where r: "submitTransaction sampleServices 9 ''t'' (submitApp submit_tx) = Returns (tx', s')" by (rule sample_submits)
  from submission_is_signed [OF sampleServices_ok(1) submit_sample(1) ok t r] obtain request where
    "request_denotes sampleServices request t" "status tx' = TS_pending" "find_tx ''t'' s' = Some tx'"
    using submit_sample(2) by auto
  with r t show ?thesis by (auto simp: sampleServices_def)
qed

definition estimate_tx :: Transaction where
  "estimate_tx = submit_tx\<lparr>status := TS_draft, feeEstimate := None, tx_nonce := None, tx_hash := None, signatures := []\<rparr>"

definition estimated_tx :: Transaction where
  "estimated_tx = estimate_tx\<lparr>operation := Some OP_call, tx_nonce := Some ''7'',
     feeEstimate := Some \<lparr>gas = 1, dataGas = 2, operationalGas = 4, gasPrice = \<lparr>ta_amount = 3, ta_token = Token_Ether\<rparr>\<rparr>\<rparr>"

lemma estimated_digest:
  "\<exists>h. hash_of (env_digest sampleEnv (submitApp tx)) estimated_tx = (Returns h :: ('e, _) outcome)"
proof -
  let ?D = "env_digest sampleEnv (submitApp tx)" and ?t = estimated_tx
  have "account_ok ''e:w''" by (simp add: account_ok_def components_def components_loop.simps)
  then have ok: "digest_ok ?D ?t" "digest_parts ?D ?t"
    using hex_row_address hex_zero_address
    by (simp_all add: estimated_tx_def estimate_tx_def submit_tx_def digest_ok_def digest_parts_def digest_tx_defs u256_def ether_def Token_Ether_def ethTo_def ethValue_def
      isERC20Transfer_def row_token_def token_id_def row_address_def Address_zero_def numeral_eq_Suc env_digest_def sampleEnv_def sampleBigint_def read_int_def
      read_nat_def read_digit_def)
  obtain u where "safe_tx ?D ?t = Some u" using safe_tx_defined [OF ok(1)] ok(2) by blast
  moreover have "digest_env_ok ?D" using sampleServices_ok(1) [of "submitApp tx"] by (simp add: services_ok_def sampleServices_def)
  ultimately show "\<exists>h. hash_of ?D ?t = (Returns h :: ('e, _) outcome)" using hash_of_eip712 [OF _ ok(1), where ?'a = 'e] by auto
qed

lemma sampleServices_parts [simp]: "sv_env sampleServices = sampleEnv" "env_packages sampleEnv = samplePackages"
  "env_bigint sampleEnv = sampleBigint"
  by (simp_all add: sampleServices_def sampleEnv_def)

lemma sample_estimates:
  "\<exists>tx' s'. estimateTransactionIfNeeded sampleServices 9 ''t'' (submitApp estimate_tx) = Returns (tx', s')"
proof -
  let ?s = "submitApp estimate_tx" and ?S = sampleServices
  let ?e = "\<lparr>gas = 1, dataGas = 2, operationalGas = 4, gasPrice = \<lparr>ta_amount = 3, ta_token = Token_Ether\<rparr>\<rparr>"
  have f: "find_tx ''t'' ?s = Some estimate_tx" "tx_accountID estimate_tx = tx_accountID submit_tx" "status estimate_tx = TS_draft"
    "sender estimate_tx = Some (row_address CHR ''b'')" "operation estimate_tx = Some OP_call" "\<exists>r. recipient estimate_tx = Some r" "\<exists>a. amount estimate_tx = Some a" "needs_estimate estimate_tx"
    by (simp_all add: submitApp_def estimate_tx_def submit_tx_def find_tx_def find_row_def digest_tx_defs needs_estimate_def)
  have fmt: "\<exists>b. formatted ?S a = (Returns b :: (ServiceError, _) outcome)" if "hex_address a" for a
    using formatted_account [of ?S a, where ?'e = ServiceError] that sample_eip55 samplePackages_ok by auto
  have "ethTo estimate_tx = ethTo submit_tx" by (simp add: estimate_tx_def ethTo_def isERC20Transfer_def)
  then have to: "hex_address (ethTo estimate_tx)" using submit_digest(1) [of submit_tx] by (simp add: digest_ok_def)
  obtain a b where ab: "formatted ?S (row_address CHR ''b'') = (Returns a :: (ServiceError, _) outcome)"
    "formatted ?S (ethTo estimate_tx) = (Returns b :: (ServiceError, _) outcome)" using fmt [OF to] fmt [of "row_address CHR ''b''"] hex_row_address [of "CHR ''b''"] by auto
  have "ethData samplePackages estimate_tx = [] \<or> ethHex samplePackages (ethData samplePackages estimate_tx) \<noteq> []"
    by (simp add: ethData_def estimate_tx_def submit_tx_def digest_tx_defs)
  then have r: "\<exists>r. EstimateTransactionRequest_init ?S a b (sv_String ?S (ethValue estimate_tx)) (ethData (sv_packages ?S) estimate_tx) OP_call g =
      (Returns r :: (ServiceError, _) outcome)" for g
    using sampleBigint_ok by (simp add: EstimateTransactionRequest_init_def bigint_ok_def)
  have h: "\<exists>h. hash_of (env_digest sampleEnv ?s) (change_operation (Some OP_call) 9 (change_nonce (Some ''7'') 9
      (change_fee (Some (totalSubmittedToBlockchain ?e)) 9 (change_feeEstimate (Some ?e) 9 estimate_tx)))) = (Returns h :: (ServiceError, _) outcome)"
    using estimated_digest [of estimate_tx, where ?'e = ServiceError]
      hash_of_env_cong [of "change_operation (Some OP_call) 9 (change_nonce (Some ''7'') 9
        (change_fee (Some (totalSubmittedToBlockchain ?e)) 9 (change_feeEstimate (Some ?e) 9 estimate_tx)))" estimated_tx, where ?'e = ServiceError]
    by (simp add: edit_defs timestamp_defs estimated_tx_def)
  have u: "\<exists>tx' s'. updateTransaction ?S 9 ?e ''7'' estimate_tx ?s = (Returns (tx', s') :: (ServiceError, _) outcome)"
    using h by (auto simp: updateTransaction_def Let_def f tx_proceed_def Draft_proceed_def edit_defs timestamp_defs)
  have "sv_estimateTransaction ?S q = Returns \<lparr>es_safeTxGas = 1, es_baseGas = 2, es_gasPrice = 3, es_operationalGas = 4,
      es_lastUsedNonce = Some 6, es_gasToken = token_id Token_Ether\<rparr>" for q by (simp add: sampleServices_def)
  moreover have "show_int 7 = ''7''" by code_simp
  ultimately show ?thesis
    using r [of "map_option address_value (feePaymentTokenAddress submitWallet)"] u
    by (auto simp: estimateTransactionIfNeeded_def f submit_sample ab handleRelayServiceErrors_def token_with_id_def nextNonce_def toInt_def
      Int_min_def Int_max_def)
qed

theorem estimation_fixes_digest_witness:
  "\<exists>tx' s' h. estimateTransactionIfNeeded sampleServices 9 ''t'' (submitApp estimate_tx) = Returns (tx', s') \<and>
     tx_nonce tx' = Some (show_int 7) \<and> tx_hash tx' = Some h \<and> status tx' = TS_signing \<and>
     hash_of (env_digest sampleEnv s') tx' = (Returns h :: (ServiceError, _) outcome)"
proof -
  obtain tx' s' where r: "estimateTransactionIfNeeded sampleServices 9 ''t'' (submitApp estimate_tx) = Returns (tx', s')"
    using sample_estimates by blast
  have f: "find_tx ''t'' (submitApp estimate_tx) = Some estimate_tx" "status estimate_tx = TS_draft" "needs_estimate estimate_tx"
    by (simp_all add: submitApp_def estimate_tx_def submit_tx_def find_tx_def find_row_def digest_tx_defs needs_estimate_def)
  from estimation_fixes_digest [OF f(1) r] f obtain request response h where
    "sv_estimateTransaction sampleServices request = Returns response"
    "tx_nonce tx' = Some (show_int (case es_lastUsedNonce response of None \<Rightarrow> 0 | Some n \<Rightarrow> n + 1))"
    "tx_hash tx' = Some h" "hash_of (env_digest sampleEnv s') tx' = (Returns h :: (ServiceError, _) outcome)" "status tx' = TS_signing"
    by auto
  with r show ?thesis by (auto simp: sampleServices_def)
qed

end
