(* ===== verification/Repetition.thy ===== *)
theory Repetition
  imports Prelude
begin

section \<open>Repeating and retrying\<close>

text \<open>
  Model of \<^verbatim>\<open>MultisigWalletDomainModel/Wallet/RetryWithIncreasingDelay.swift\<close>, \<^verbatim>\<open>Wallet/Repeater.swift\<close> and \<^verbatim>\<open>Worker.swift\<close>.

  The closure of a retry answers differently at each call: it is the function from the number of the call to its outcome. The waiting
  times are collected in a list. \<^verbatim>\<open>Repeater.start()\<close> runs on one thread while \<^verbatim>\<open>stop()\<close> may be called from the
  closure or from any other thread, and its state is an unsynchronised variable. The loop is therefore cut into the
  accesses to that variable, and \<open>repeater_step\<close> interleaves them with stops. Shown: a retry ends after at most the configured number of calls,
  with exactly known waiting times, or stops the process when a wait gets too long for \<^verbatim>\<open>usleep\<close>; a stop in the closure or during the delay ends the loop at once; a stop at two other
  points is overwritten and the loop goes on forever.
\<close>

subsection \<open>Timer.swift\<close>

text \<open>
  The conversion \<^verbatim>\<open>UInt32(_ value: Double)\<close> rounds towards zero and stops the process out of range; so does the product
  of two \<^verbatim>\<open>UInt32\<close>. The result is the number of microseconds that a background thread sleeps; \<open>None\<close> is no sleep at all.
\<close>

definition UInt32_max :: int where
  "UInt32_max = 4294967295"

definition UInt32_of_double :: "real \<Rightarrow> ('e, int) outcome" where
  "UInt32_of_double x =
     (let n = (if 0 \<le> x then floor x else ceiling x) in if 0 \<le> n \<and> n \<le> UInt32_max then Returns n else Traps)"

definition UInt32_times :: "int \<Rightarrow> int \<Rightarrow> ('e, int) outcome" where
  "UInt32_times a b = (if a * b \<le> UInt32_max then Returns (a * b) else Traps)"

definition Timer_wait :: "time \<Rightarrow> ('e, int option) outcome" where
  "Timer_wait t =
     (if \<not> t > 0 then Returns None else bindO (UInt32_of_double (t * 1000000)) (\<lambda>n. Returns (Some n)))"

lemma Timer_wait_eq:
  "Timer_wait x = (if x \<le> 0 then Returns None else if x < 4294.967296 then Returns (Some (floor (x * 1000000))) else (Traps :: ('e, int option) outcome))"
proof (cases "x < 4294.967296")
  case True
  then have "x * 1000000 < 4294967296" by (simp add: field_simps)
  then have "floor (x * 1000000) \<le> 4294967295" by linarith
  with True show ?thesis by (simp add: Timer_wait_def UInt32_of_double_def UInt32_max_def Let_def)
next
  case False
  then have "4294967296 \<le> x * 1000000" by (simp add: field_simps)
  then have "4294967296 \<le> floor (x * 1000000)" by linarith
  with False show ?thesis by (simp add: Timer_wait_def UInt32_of_double_def UInt32_max_def Let_def)
qed

subsection \<open>RetryWithIncreasingDelay.swift\<close>

record RetryWithIncreasingDelay =
  maxAttempts :: int
  retry_delay :: time
  delayIncrement :: time

definition Retry_init :: "int \<Rightarrow> time \<Rightarrow> ('e, RetryWithIncreasingDelay) outcome" where
  "Retry_init n startDelay =
     (if \<not> n > 0 then Traps else Returns \<lparr>maxAttempts = n, retry_delay = startDelay, delayIncrement = startDelay\<rparr>)"

text \<open>
  \<open>n\<close> calls are left, \<open>k\<close> were made; \<open>err\<close> is the variable \<^verbatim>\<open>error\<close>, whose forced unwrap at the end is \<^verbatim>\<open>throw error\<close>. The waits are those of a
  background thread, where a delay that is too long stops the process.
\<close>

fun retry_loop ::
    "(nat \<Rightarrow> ('e, 'a) outcome) \<Rightarrow> nat \<Rightarrow> nat \<Rightarrow> 'e option \<Rightarrow> RetryWithIncreasingDelay \<Rightarrow> time list \<Rightarrow>
     ('e, 'a) outcome \<times> RetryWithIncreasingDelay \<times> time list" where
  "retry_loop main 0 k err r waits = ((case err of None \<Rightarrow> Traps | Some e \<Rightarrow> Throws e), r, waits)"
| "retry_loop main (Suc n) k err r waits =
     (case main k of
        Returns v \<Rightarrow> (Returns v, r, waits)
      | Traps \<Rightarrow> (Traps, r, waits)
      | Throws e \<Rightarrow>
          (case Timer_wait (retry_delay r) :: ('e, int option) outcome of
             Returns _ \<Rightarrow> retry_loop main n (Suc k) (Some e) (r\<lparr>retry_delay := retry_delay r + delayIncrement r\<rparr>) (waits @ [retry_delay r])
           | _ \<Rightarrow> (Traps, r, waits)))"

definition retry_start ::
    "(nat \<Rightarrow> ('e, 'a) outcome) \<Rightarrow> RetryWithIncreasingDelay \<Rightarrow> ('e, 'a) outcome \<times> RetryWithIncreasingDelay \<times> time list" where
  "retry_start main r = retry_loop main (nat (maxAttempts r)) 0 None r []"

text \<open>The answer that a retry gives, without the waiting.\<close>

definition retried :: "int \<Rightarrow> time \<Rightarrow> (nat \<Rightarrow> ('e, 'a) outcome) \<Rightarrow> ('e, 'a) outcome" where
  "retried n startDelay main = bindO (Retry_init n startDelay) (\<lambda>r. fst (retry_start main r))"

subsection \<open>What a retry does\<close>

definition throws :: "('e, 'a) outcome \<Rightarrow> bool" where
  "throws m \<longleftrightarrow> (\<exists>e. m = Throws e)"

lemma throws_simps [simp]: "throws (Throws e)" "\<not> throws (Returns v)" "\<not> throws Traps"
  by (auto simp: throws_def)

text \<open>The waits of a loop that fails \<open>m\<close> more times.\<close>

definition linear_waits :: "time \<Rightarrow> time \<Rightarrow> nat \<Rightarrow> time list" where
  "linear_waits d inc m = map (\<lambda>i. d + real i * inc) [0..<m]"

lemma linear_waits_0 [simp]: "linear_waits d inc 0 = []"
  by (simp add: linear_waits_def)

lemma linear_waits_Suc: "linear_waits d inc (Suc m) = d # linear_waits (d + inc) inc m"
  by (simp add: linear_waits_def map_upt_Suc algebra_simps del: upt.simps)

fun error_of :: "('e, 'a) outcome \<Rightarrow> 'e option" where
  "error_of (Throws e) = Some e"
| "error_of _ = None"

lemma retry_loop_run:
  assumes "\<forall>i<m. throws (main (k + i)) \<and> retry_delay r + real i * delayIncrement r < 4294.967296"
  shows "retry_loop main (m + n) k err r waits =
    retry_loop main n (k + m) (if m = 0 then err else error_of (main (k + m - 1)))
      (r\<lparr>retry_delay := retry_delay r + real m * delayIncrement r\<rparr>) (waits @ linear_waits (retry_delay r) (delayIncrement r) m)"
  using assms
proof (induction m arbitrary: k err r waits)
  case (Suc m)
  from Suc.prems obtain e where e: "main k = Throws e" "retry_delay r < 4294.967296" by (fastforce simp: throws_def)
  let ?r = "r\<lparr>retry_delay := retry_delay r + delayIncrement r\<rparr>"
  have "\<forall>i<m. throws (main (Suc k + i)) \<and> retry_delay ?r + real i * delayIncrement ?r < 4294.967296"
  proof (intro allI impI)
    fix i assume "i < m"
    with Suc.prems have "throws (main (k + Suc i)) \<and> retry_delay r + real (Suc i) * delayIncrement r < 4294.967296" by blast
    then show "throws (main (Suc k + i)) \<and> retry_delay ?r + real i * delayIncrement ?r < 4294.967296" by (simp add: algebra_simps)
  qed
  from Suc.IH [OF this] e show ?case by (cases m) (simp_all add: Timer_wait_eq linear_waits_Suc algebra_simps)
qed simp

lemma sum_linear_waits: "sum_list (linear_waits d d m) = d * real (m * (m + 1)) / 2"
proof -
  have "linear_waits d d m = map (\<lambda>i. (real i + 1) * d) [0..<m]" by (simp add: linear_waits_def algebra_simps)
  then show ?thesis by (induction m) (simp_all add: algebra_simps linear_waits_def)
qed

text \<open>
  (C26) A retry on a background thread ends after at most the configured number of calls, in one of three ways. Some call does not throw, and its answer is the
  answer of the retry; there was one wait for each failed call before it. Or all calls throw, and the last error is thrown on
  after one wait for each call, the last one included. Or a call throws whose wait would be 4294.967296 seconds or longer, which stops the process. The waits are
  the first multiples of the start delay, so that \<open>m\<close> failures take \<open>m (m + 1) / 2\<close> start delays.
\<close>

theorem retry_terminates:
  assumes "Retry_init n d = (Returns r :: ('e, RetryWithIncreasingDelay) outcome)"
  shows "\<exists>m waits r'. waits = map (\<lambda>i. real (i + 1) * d) [0..<m] \<and> sum_list waits = d * real (m * (m + 1)) / 2 \<and>
    (\<forall>i<m. throws (main i) \<and> real (i + 1) * d < 4294.967296) \<and>
    ((m < nat n \<and> \<not> throws (main m) \<and> retry_start main r = (main m, r', waits)) \<or>
     (m = nat n \<and> retry_start main r = (main (m - 1), r', waits)) \<or>
     (m < nat n \<and> throws (main m) \<and> real (m + 1) * d \<ge> 4294.967296 \<and> retry_start main r = (Traps, r', waits)))"
proof -
  have r: "r = \<lparr>maxAttempts = n, retry_delay = d, delayIncrement = d\<rparr>" and n: "0 < n"
    using assms by (auto simp: Retry_init_def split: if_splits)
  define ok where "ok i \<longleftrightarrow> i < nat n \<and> throws (main i) \<and> real (i + 1) * d < 4294.967296" for i
  define m where "m = (LEAST m. \<not> ok m)"
  have "\<not> ok (nat n)" by (simp add: ok_def)
  then have m: "\<not> ok m" "m \<le> nat n" unfolding m_def by (rule LeastI, rule Least_le)
  have before: "ok i" if "i < m" for i using that not_less_Least unfolding m_def by blast
  let ?r = "r\<lparr>retry_delay := d + real m * d\<rparr>"
  have "\<forall>i<m. throws (main (0 + i)) \<and> retry_delay r + real i * delayIncrement r < 4294.967296"
    using before by (auto simp: ok_def r distrib_right add.commute)
  from retry_loop_run [OF this, of "nat n - m" None "[]"]
  have run: "retry_start main r = retry_loop main (nat n - m) m (if m = 0 then None else error_of (main (m - 1))) ?r (linear_waits d d m)"
    by (simp only: retry_start_def r RetryWithIncreasingDelay.simps le_add_diff_inverse [OF m(2)] add_0 append_Nil)
  have "(m < nat n \<and> \<not> throws (main m) \<and> retry_start main r = (main m, ?r, linear_waits d d m)) \<or>
     (m = nat n \<and> retry_start main r = (main (m - 1), ?r, linear_waits d d m)) \<or>
     (m < nat n \<and> throws (main m) \<and> real (m + 1) * d \<ge> 4294.967296 \<and> retry_start main r = (Traps, ?r, linear_waits d d m))"
  proof (cases "m = nat n")
    case True
    with n before [of "m - 1"] obtain e where "main (m - 1) = Throws e" by (auto simp: ok_def throws_def)
    with True n show ?thesis unfolding run by simp
  next
    case False
    then obtain n' where "nat n - m = Suc n'" using m(2) by (cases "nat n - m") auto
    then show ?thesis
      using False m unfolding run ok_def by (cases "main m") (simp_all add: Timer_wait_eq r algebra_simps)
  qed
  moreover have "linear_waits d d m = map (\<lambda>i. real (i + 1) * d) [0..<m]" by (simp add: linear_waits_def algebra_simps)
  ultimately show ?thesis using before sum_linear_waits [of d m] unfolding ok_def by metis
qed

lemma retried_answers:
  assumes "0 < n" "m < nat n" "\<forall>i<m. throws (main i) \<and> real (i + 1) * d < 4294.967296" "\<not> throws (main m)"
  shows "retried n d main = main m"
proof -
  obtain n' where n': "nat n = m + Suc n'" using assms(2) less_imp_add_positive by (metis Suc_pred add_gr_0 less_numeral_extra(3) not_gr_zero)
  let ?r = "\<lparr>maxAttempts = n, retry_delay = d, delayIncrement = d\<rparr>"
  have "\<forall>i<m. throws (main (0 + i)) \<and> retry_delay ?r + real i * delayIncrement ?r < 4294.967296"
    using assms(3) by (auto simp: distrib_right add.commute)
  from retry_loop_run [OF this, of "Suc n'" None "[]"] assms(1,4) show ?thesis
    by (cases "main m") (simp_all add: retried_def Retry_init_def retry_start_def n')
qed

theorem retry_terminates_witness:
  "\<exists>m waits r'. waits = map (\<lambda>i. real (i + 1) * 3000) [0..<m] \<and> sum_list waits = 3000 * real (m * (m + 1)) / 2 \<and>
    (\<forall>i<m. throws (if i < 2 then Throws () else Returns (7::int)) \<and> real (i + 1) * 3000 < 4294.967296) \<and>
    ((m < nat 3 \<and> \<not> throws (if m < 2 then Throws () else Returns (7::int)) \<and>
      retry_start (\<lambda>i. if i < 2 then Throws () else Returns (7::int)) \<lparr>maxAttempts = 3, retry_delay = 3000, delayIncrement = 3000\<rparr> =
        (if m < 2 then Throws () else Returns 7, r', waits)) \<or>
     (m = nat 3 \<and> retry_start (\<lambda>i. if i < 2 then Throws () else Returns (7::int)) \<lparr>maxAttempts = 3, retry_delay = 3000, delayIncrement = 3000\<rparr> =
        (if m - 1 < 2 then Throws () else Returns 7, r', waits)) \<or>
     (m < nat 3 \<and> throws (if m < 2 then Throws () else Returns (7::int)) \<and> real (m + 1) * 3000 \<ge> 4294.967296 \<and>
      retry_start (\<lambda>i. if i < 2 then Throws () else Returns (7::int)) \<lparr>maxAttempts = 3, retry_delay = 3000, delayIncrement = 3000\<rparr> = (Traps, r', waits)))"
  by (rule retry_terminates [where ?'e = unit]) (simp add: Retry_init_def)

subsection \<open>Repeater.swift\<close>

datatype RepeaterState = rep_stopped | rep_running | rep_waiting

text \<open>
  Where the thread of \<^verbatim>\<open>start()\<close> stands: before the guard, before \<^verbatim>\<open>state = .running\<close>, in the closure, before the
  test \<^verbatim>\<open>if isStopped\<close>, before \<^verbatim>\<open>state = .waiting\<close>, in the delay, before the test of the loop, or back at the
  caller, normally or with the error of the closure.
\<close>

datatype RepeaterPoint =
    at_guard | set_running | in_main | test_after_main | set_waiting | in_wait | test_loop | finished | failed

record Repeater =
  rep_state :: RepeaterState
  rep_point :: RepeaterPoint
  rep_calls :: nat

definition isStopped :: "Repeater \<Rightarrow> bool" where
  "isStopped r \<longleftrightarrow> rep_state r = rep_stopped"

definition isRunning :: "Repeater \<Rightarrow> bool" where
  "isRunning r \<longleftrightarrow> rep_state r = rep_running"

definition Repeater_init :: Repeater where
  "Repeater_init = \<lparr>rep_state = rep_stopped, rep_point = at_guard, rep_calls = 0\<rparr>"

definition repeater_stop :: "Repeater \<Rightarrow> Repeater" where
  "repeater_stop r = r\<lparr>rep_state := rep_stopped\<rparr>"

text \<open>One step of the thread; \<open>ok\<close> says whether the closure returns when it is there. Each step is one access to the state.\<close>

fun repeater_thread :: "bool \<Rightarrow> Repeater \<Rightarrow> Repeater" where
  "repeater_thread ok r =
     (case rep_point r of
        at_guard \<Rightarrow> r\<lparr>rep_point := if isStopped r then set_running else finished\<rparr>
      | set_running \<Rightarrow> r\<lparr>rep_state := rep_running, rep_point := in_main, rep_calls := rep_calls r + 1\<rparr>
      | in_main \<Rightarrow> r\<lparr>rep_point := if ok then test_after_main else failed\<rparr>
      | test_after_main \<Rightarrow> r\<lparr>rep_point := if isStopped r then finished else set_waiting\<rparr>
      | set_waiting \<Rightarrow> r\<lparr>rep_state := rep_waiting, rep_point := in_wait\<rparr>
      | in_wait \<Rightarrow> r\<lparr>rep_point := test_loop\<rparr>
      | test_loop \<Rightarrow> r\<lparr>rep_point := if isStopped r then finished else set_running\<rparr>
      | finished \<Rightarrow> r
      | failed \<Rightarrow> r)"

text \<open>What happens next: the thread goes on, or somebody calls \<^verbatim>\<open>stop()\<close>.\<close>

datatype RepeaterAction = Thread bool | Stop

fun repeater_act :: "RepeaterAction \<Rightarrow> Repeater \<Rightarrow> Repeater" where
  "repeater_act (Thread ok) r = repeater_thread ok r"
| "repeater_act Stop r = repeater_stop r"

inductive repeater_reachable :: "Repeater \<Rightarrow> bool" where
  rep_new: "repeater_reachable Repeater_init"
| rep_step: "repeater_reachable r \<Longrightarrow> repeater_reachable (repeater_act a r)"

definition ended :: "Repeater \<Rightarrow> bool" where
  "ended r \<longleftrightarrow> rep_point r = finished \<or> rep_point r = failed"

definition heeds_stop :: "RepeaterPoint \<Rightarrow> bool" where
  "heeds_stop p \<longleftrightarrow> p \<in> {in_main, test_after_main, in_wait, test_loop, finished, failed}"

text \<open>A stop that falls between two accesses which do not overwrite it is final.\<close>

lemma stopped_stays:
  assumes "isStopped r" "heeds_stop (rep_point r)"
  shows "isStopped (repeater_act a r)" "heeds_stop (rep_point (repeater_act a r))" "rep_calls (repeater_act a r) = rep_calls r"
  using assms by (cases a; cases "rep_point r"; simp add: isStopped_def heeds_stop_def repeater_stop_def)+

lemma stopped_run:
  assumes "isStopped r" "heeds_stop (rep_point r)"
  shows "isStopped (fold repeater_act as r) \<and> heeds_stop (rep_point (fold repeater_act as r)) \<and>
    rep_calls (fold repeater_act as r) = rep_calls r"
  using assms by (induction as arbitrary: r) (simp_all add: stopped_stays del: repeater_act.simps)

lemma ended_thread: "ended r \<Longrightarrow> ended (repeater_act a r)"
  by (cases a) (auto simp: ended_def repeater_stop_def)

lemma stopped_ends:
  assumes "isStopped r" "heeds_stop (rep_point r)"
  shows "ended (fold repeater_act [Thread a, Thread b] r)"
  using assms by (cases "rep_point r") (simp_all add: heeds_stop_def ended_def isStopped_def)

text \<open>The four accesses of one turn of the loop, from \<open>set_running\<close> back to it.\<close>

definition turn :: "RepeaterAction list" where
  "turn = replicate 6 (Thread True)"

lemma turn_repeats:
  assumes "rep_point r = set_running"
  shows "fold repeater_act turn r = r\<lparr>rep_state := rep_waiting, rep_calls := rep_calls r + 1\<rparr>"
  using assms by (simp add: turn_def numeral_eq_Suc isStopped_def)

lemma turns_repeat:
  assumes "rep_point r = set_running"
  shows "rep_point (fold repeater_act (concat (replicate n turn)) r) = set_running \<and>
    rep_calls (fold repeater_act (concat (replicate n turn)) r) = rep_calls r + n"
  using assms by (induction n arbitrary: r) (simp_all add: turn_repeats)

text \<open>
  When a repeater stops. After \<^verbatim>\<open>stop()\<close> in the closure, during the delay or at one of the two tests, every further behaviour makes no
  new call of the closure, and the loop ends with its next two steps. But \<^verbatim>\<open>stop()\<close> just before one of the two
  assignments of the state is overwritten: the loop can then call its closure any number of times. And when the
  closure throws, the state stays \<^verbatim>\<open>running\<close>, so that a later \<^verbatim>\<open>start()\<close> of the same repeater returns without doing anything.
\<close>

theorem repeater_stopping:
  shows "(\<forall>(r::Repeater) as a b. heeds_stop (rep_point r) \<longrightarrow>
      rep_calls (fold repeater_act as (repeater_stop r)) = rep_calls r \<and>
      ended (fold repeater_act [Thread a, Thread b] (repeater_stop r))) \<and>
    (\<forall>p\<in>{set_running, set_waiting}. \<exists>r. repeater_reachable r \<and> rep_point r = p \<and>
      (\<forall>n. \<exists>as. Stop \<notin> set as \<and> rep_calls (fold repeater_act as (repeater_stop r)) \<ge> rep_calls r + n \<and>
        \<not> ended (fold repeater_act as (repeater_stop r)))) \<and>
    (\<forall>r::Repeater. rep_point r = in_main \<longrightarrow> rep_state r = rep_running \<longrightarrow>
      rep_point (repeater_act (Thread False) r) = failed \<and>
      rep_point (repeater_act (Thread True) ((repeater_act (Thread False) r)\<lparr>rep_point := at_guard\<rparr>)) = finished)"
proof (intro conjI allI impI)
  fix r :: Repeater and as a b assume "heeds_stop (rep_point r)"
  then have s: "isStopped (repeater_stop r)" "heeds_stop (rep_point (repeater_stop r))" "rep_calls (repeater_stop r) = rep_calls r"
    by (simp_all add: repeater_stop_def isStopped_def)
  then show "rep_calls (fold repeater_act as (repeater_stop r)) = rep_calls r" using stopped_run by simp
  show "ended (fold repeater_act [Thread a, Thread b] (repeater_stop r))" using s(1,2) by (rule stopped_ends)
next
  have reach: "repeater_reachable (fold repeater_act as r)" if "repeater_reachable r" for as r
    using that by (induction as arbitrary: r) (simp_all add: rep_step)
  let ?a = "fold repeater_act [Thread True] Repeater_init"
  let ?b = "fold repeater_act (replicate 4 (Thread True)) Repeater_init"
  have a: "?a = \<lparr>rep_state = rep_stopped, rep_point = set_running, rep_calls = 0\<rparr>"
    and b: "?b = \<lparr>rep_state = rep_running, rep_point = set_waiting, rep_calls = 1\<rparr>"
    by (simp_all add: Repeater_init_def isStopped_def numeral_eq_Suc)
  have again: "\<exists>as. Stop \<notin> set as \<and> rep_calls (fold repeater_act as r) \<ge> rep_calls r + n \<and> \<not> ended (fold repeater_act as r)"
    if "rep_point r = set_running" for r n
  proof (intro exI conjI)
    show "Stop \<notin> set (concat (replicate n turn))" by (simp add: turn_def)
  qed (use turns_repeat [OF that, of n] in \<open>simp_all add: ended_def\<close>)
  have waiting: "\<exists>as. Stop \<notin> set as \<and> rep_calls (fold repeater_act as (repeater_stop ?b)) \<ge> rep_calls ?b + n \<and>
      \<not> ended (fold repeater_act as (repeater_stop ?b))" for n
  proof -
    let ?c = "fold repeater_act (replicate 3 (Thread True)) (repeater_stop ?b)"
    have c: "?c = \<lparr>rep_state = rep_waiting, rep_point = set_running, rep_calls = 1\<rparr>"
      unfolding b by (simp add: repeater_stop_def isStopped_def numeral_eq_Suc)
    then obtain as where "Stop \<notin> set as" "rep_calls (fold repeater_act as ?c) \<ge> rep_calls ?c + n"
      "\<not> ended (fold repeater_act as ?c)" using again [of ?c n] by auto
    then show ?thesis using b c by (intro exI [of _ "replicate 3 (Thread True) @ as"]) simp
  qed
  show "\<forall>p\<in>{set_running, set_waiting}. \<exists>r. repeater_reachable r \<and> rep_point r = p \<and>
      (\<forall>n. \<exists>as. Stop \<notin> set as \<and> rep_calls (fold repeater_act as (repeater_stop r)) \<ge> rep_calls r + n \<and>
        \<not> ended (fold repeater_act as (repeater_stop r)))"
    using reach [OF rep_new, of "[Thread True]"] reach [OF rep_new, of "replicate 4 (Thread True)"] a b waiting
      again [of "repeater_stop ?a"] by (force simp: repeater_stop_def)
qed (simp_all add: isStopped_def)

theorem repeater_stopping_witness:
  "rep_calls (fold repeater_act [Thread True, Stop, Thread True] (repeater_stop \<lparr>rep_state = rep_running, rep_point = in_main, rep_calls = 4\<rparr>)) = 4 \<and>
   ended (fold repeater_act [Thread True, Thread True] (repeater_stop \<lparr>rep_state = rep_running, rep_point = in_main, rep_calls = 4\<rparr>))"
proof -
  let ?r = "\<lparr>rep_state = rep_running, rep_point = in_main, rep_calls = 4\<rparr>"
  have "heeds_stop (rep_point ?r)" by (simp add: heeds_stop_def)
  with conjunct1 [OF repeater_stopping]
  have "rep_calls (fold repeater_act [Thread True, Stop, Thread True] (repeater_stop ?r)) = rep_calls ?r \<and>
      ended (fold repeater_act [Thread True, Thread True] (repeater_stop ?r))" by blast
  then show ?thesis by simp
qed

subsection \<open>Worker.swift\<close>

definition Worker_init :: "time \<Rightarrow> ('e, time) outcome" where
  "Worker_init interval = forceTry (bindO (assertTrue (interval > 0) ()) (\<lambda>_. Returns interval))"

definition Worker_blockingWait :: "time \<Rightarrow> ('e, int) outcome" where
  "Worker_blockingWait interval = bindO (UInt32_of_double interval) (\<lambda>n. UInt32_times n 1000000)"

text \<open>The loop of a worker: \<open>job k\<close> is what the block answers at its \<open>k\<close>-th call; the result is the number of calls and the sleeps.\<close>

partial_function (option) worker_loop ::
    "(nat \<Rightarrow> bool) \<Rightarrow> time \<Rightarrow> nat \<Rightarrow> int list \<Rightarrow> (unit, nat \<times> int list) outcome option" where
  "worker_loop job interval k sleeps =
     (if job k then Some (Returns (Suc k, sleeps))
      else case Worker_blockingWait interval of
        Returns n \<Rightarrow> worker_loop job interval (Suc k) (sleeps @ [n])
      | Throws e \<Rightarrow> Some (Throws e)
      | Traps \<Rightarrow> Some Traps)"

declare worker_loop.simps [simp del]

definition worker_start :: "(nat \<Rightarrow> bool) \<Rightarrow> time \<Rightarrow> (unit, nat \<times> int list) outcome option" where
  "worker_start job interval = worker_loop job interval 0 []"

lemma worker_loop_ends:
  assumes "\<forall>i<m. \<not> job (k + i)" "job (k + m)" "Worker_blockingWait interval = (Returns n :: (unit, int) outcome)"
  shows "worker_loop job interval k sleeps = Some (Returns (Suc (k + m), sleeps @ replicate m n))"
  using assms(1,2)
proof (induction m arbitrary: k sleeps)
  case 0
  then show ?case by (subst worker_loop.simps) simp
next
  case (Suc m)
  then have "\<not> job k" "\<forall>i<m. \<not> job (Suc k + i)" "job (Suc k + m)" by auto
  with Suc.IH [of "Suc k" "sleeps @ [n]"] assms(3) show ?case
    by (subst worker_loop.simps) (simp add: replicate_app_Cons_same)
qed

lemma worker_loop_stopped:
  assumes "worker_loop job interval k sleeps = Some q"
  shows "q = Returns r \<longrightarrow> (\<exists>i\<ge>k. job i)"
proof (rule worker_loop.raw_induct [OF _ assms])
  fix f :: "(nat \<Rightarrow> bool) \<Rightarrow> time \<Rightarrow> nat \<Rightarrow> int list \<Rightarrow> (unit, nat \<times> int list) outcome option"
    and job :: "nat \<Rightarrow> bool" and interval k sleeps q
  assume IH: "\<And>job interval k sleeps q. f job interval k sleeps = Some q \<Longrightarrow> q = Returns r \<longrightarrow> (\<exists>i\<ge>k. job i)"
    and q: "(if job k then Some (Returns (Suc k, sleeps))
      else case Worker_blockingWait interval of
        Returns n \<Rightarrow> f job interval (Suc k) (sleeps @ [n])
      | Throws e \<Rightarrow> Some (Throws e)
      | Traps \<Rightarrow> Some Traps) = Some q"
  show "q = Returns r \<longrightarrow> (\<exists>i\<ge>k. job i)"
  proof (cases "job k")
    case False
    show ?thesis
    proof (cases "Worker_blockingWait interval :: (unit, int) outcome")
      case (Returns n)
      with q False IH [of job interval "Suc k" "sleeps @ [n]" q] show ?thesis
        by (auto intro: Suc_leD)
    qed (use q False in auto)
  qed auto
qed

text \<open>
  (C33) What the waiting of a background thread is worth. A worker sleeps whole seconds only: intervals below one second give no
  sleep at all, and an interval of 4295 seconds or more stops the process. The timer of a repeater keeps the microseconds, and
  stops the process only from 4294.967296 seconds on. A worker ends exactly when its block answers yes, at the first such call, after a
  sleep for each call before; it never ends otherwise.
\<close>

theorem worker_waits:
  shows "(0 \<le> x \<longrightarrow> Worker_blockingWait x = (if x < 4295 then Returns (floor x * 1000000) else (Traps :: (unit, int) outcome))) \<and>
    (0 < x \<longrightarrow> Timer_wait x = (if x < 4294.967296 then Returns (Some (floor (x * 1000000))) else (Traps :: (unit, int option) outcome))) \<and>
    (0 < x \<and> x < 4295 \<longrightarrow>
      (\<forall>m. job m \<and> (\<forall>i<m. \<not> job i) \<longrightarrow> worker_start job x = Some (Returns (Suc m, replicate m (floor x * 1000000)))) \<and>
      ((\<forall>i. \<not> job i) \<longrightarrow> (\<forall>r. worker_start job x \<noteq> Some (Returns r))))"
proof -
  have W: "Worker_blockingWait x = (if x < 4295 then Returns (floor x * 1000000) else (Traps :: (unit, int) outcome))" if "0 \<le> x"
  proof (cases "x < 4295")
    case True
    then have "floor x \<le> 4294" by linarith
    then have "floor x * 1000000 \<le> 4294967295" by linarith
    with True that show ?thesis
      by (simp only: Worker_blockingWait_def UInt32_of_double_def UInt32_times_def UInt32_max_def Let_def) simp
  next
    case False
    then have "4295 \<le> floor x" by linarith
    then have "\<not> floor x * 1000000 \<le> 4294967295" by linarith
    with False that show ?thesis
      by (simp only: Worker_blockingWait_def UInt32_of_double_def UInt32_times_def UInt32_max_def Let_def) simp
  qed
  have "Timer_wait x = (if x < 4294.967296 then Returns (Some (floor (x * 1000000))) else (Traps :: (unit, int option) outcome))" if "0 < x"
    using that by (simp add: Timer_wait_eq)
  moreover have "worker_start job x = Some (Returns (Suc m, replicate m (floor x * 1000000)))"
    if "0 < x" "x < 4295" "job m" "\<forall>i<m. \<not> job i" for m
    using worker_loop_ends [of m job 0 x "floor x * 1000000" "[]"] W that by (simp add: worker_start_def)
  moreover have "worker_start job x \<noteq> Some (Returns r)" if "\<forall>i. \<not> job i" for r
    using worker_loop_stopped that unfolding worker_start_def by blast
  ultimately show ?thesis using W by blast
qed

theorem worker_waits_witness:
  "worker_start (\<lambda>k. k = 2) (1/2) = Some (Returns (3, [0, 0])) \<and> Worker_blockingWait 5000 = (Traps :: (unit, int) outcome) \<and>
   Timer_wait (1/2) = (Returns (Some 500000) :: (unit, int option) outcome)"
proof -
  have "worker_start (\<lambda>k. k = 2) (1/2) = Some (Returns (Suc 2, replicate 2 (floor (1/2 :: real) * 1000000)))"
    using worker_waits [of "1/2" "\<lambda>k. k = 2"] by simp
  moreover have "Worker_blockingWait 5000 = (Traps :: (unit, int) outcome)" using worker_waits [of 5000] by simp
  moreover have "Timer_wait (1/2) = (Returns (Some 500000) :: (unit, int option) outcome)" using worker_waits [of "1/2"] by simp
  ultimately show ?thesis by (simp add: numeral_eq_Suc)
qed

end
