(* ===== verification/AddressBook.thy ===== *)
theory AddressBook
  imports Tables
begin

section \<open>The address book\<close>

text \<open>
  \<^verbatim>\<open>AddressBook/AddressBookEntry.swift\<close>, \<^verbatim>\<open>DBAddressBookRepository.swift\<close> and the address book of
  \<^verbatim>\<open>WalletApplicationService.swift\<close>. The repository is a table of entries, but its \<^verbatim>\<open>save\<close> drops a wallet entry whose
  address another wallet entry has. That keeps the names of wallets unambiguous; an edit that is dropped is
  reported as done. \<^verbatim>\<open>COLLATE NOCASE\<close> compares ASCII strings without case.
\<close>

datatype AddressBookEntryType = abt_regular | abt_wallet

record AddressBookEntry =
  book_id :: string
  book_name :: string
  book_address :: string
  book_type :: AddressBookEntryType

subsection \<open>DBAddressBookRepository.swift\<close>

definition book_find_id :: "string \<Rightarrow> AddressBookEntry list \<Rightarrow> AddressBookEntry option" where
  "book_find_id i book = find_row book_id i book"

definition book_find :: "string \<Rightarrow> AddressBookEntryType list \<Rightarrow> AddressBookEntry list \<Rightarrow> AddressBookEntry list" where
  "book_find a types book =
     filter (\<lambda>e. book_type e \<in> set types) (sort_key book_name (filter (\<lambda>e. lowercased (book_address e) = lowercased a) book))"

definition book_all :: "AddressBookEntry list \<Rightarrow> AddressBookEntry list" where
  "book_all book = sort_key book_name book"

definition first_of :: "'a list \<Rightarrow> 'a option" where
  "first_of xs = (case xs of [] \<Rightarrow> None | x # _ \<Rightarrow> Some x)"

definition book_save :: "AddressBookEntry \<Rightarrow> AddressBookEntry list \<Rightarrow> AddressBookEntry list" where
  "book_save e book =
     (if book_type e = abt_wallet then
        (case first_of (book_find (book_address e) [abt_wallet] book) of
           Some existing \<Rightarrow> if book_id existing \<noteq> book_id e then book else insert_or_replace book_id e book
         | None \<Rightarrow> insert_or_replace book_id e book)
      else insert_or_replace book_id e book)"

definition book_remove :: "AddressBookEntry \<Rightarrow> AddressBookEntry list \<Rightarrow> AddressBookEntry list" where
  "book_remove e book = delete_row book_id (book_id e) book"

subsection \<open>WalletApplicationService.swift, address book\<close>

definition addressName :: "string \<Rightarrow> AddressBookEntry list \<Rightarrow> string option" where
  "addressName a book =
     (case first_of (book_find a [abt_wallet] book) of
        Some e \<Rightarrow> Some (book_name e)
      | None \<Rightarrow> map_option book_name (first_of (book_find a [abt_regular] book)))"

definition addressBookEntryID :: "string \<Rightarrow> AddressBookEntry list \<Rightarrow> string option" where
  "addressBookEntryID a book =
     (case first_of (book_find a [abt_wallet] book) of
        Some e \<Rightarrow> Some (book_id e)
      | None \<Rightarrow> map_option book_id (first_of (book_find a [abt_regular] book)))"

text \<open>\<open>fresh_id\<close> is the identifier that a new entry generates.\<close>

definition createOrUpdateAddressBookEntry ::
    "string \<Rightarrow> string option \<Rightarrow> string \<Rightarrow> string \<Rightarrow> AddressBookEntry list \<Rightarrow> string \<times> AddressBookEntry list" where
  "createOrUpdateAddressBookEntry fresh_id i name a book =
     (let entry = (case Option.bind i (\<lambda>k. book_find_id k book) of
                     Some existingEntry \<Rightarrow> existingEntry\<lparr>book_name := name, book_address := a\<rparr>
                   | None \<Rightarrow> \<lparr>book_id = fresh_id, book_name = name, book_address = a, book_type = abt_regular\<rparr>)
      in (book_id entry, book_save entry book))"

definition removeAddressBookEntry :: "string \<Rightarrow> AddressBookEntry list \<Rightarrow> AddressBookEntry list" where
  "removeAddressBookEntry i book = (case book_find_id i book of Some item \<Rightarrow> book_remove item book | None \<Rightarrow> book)"

subsection \<open>Wallet names are unambiguous\<close>

definition wallet_entries :: "AddressBookEntry list \<Rightarrow> AddressBookEntry list" where
  "wallet_entries book = filter (\<lambda>e. book_type e = abt_wallet) book"

text \<open>Identifiers are unique, and no two wallet entries have the same address.\<close>

definition book_ok :: "AddressBookEntry list \<Rightarrow> bool" where
  "book_ok book \<longleftrightarrow> keys_distinct book_id book \<and> keys_distinct (\<lambda>e. lowercased (book_address e)) (wallet_entries book)"

lemma set_book_find: "set (book_find a types book) = {e \<in> set book. lowercased (book_address e) = lowercased a \<and> book_type e \<in> set types}"
  by (auto simp: book_find_def)

lemma first_of_SomeD: "first_of xs = Some x \<Longrightarrow> x \<in> set xs"
  by (cases xs) (simp_all add: first_of_def)

lemma first_of_None: "first_of xs = None \<longleftrightarrow> xs = []"
  by (cases xs) (simp_all add: first_of_def)

lemma wallet_entries_insert:
  "wallet_entries (insert_or_replace book_id e book) =
     filter (\<lambda>r. book_id r \<noteq> book_id e) (wallet_entries book) @ (if book_type e = abt_wallet then [e] else [])"
  by (simp add: wallet_entries_def insert_or_replace_def conj_commute)

lemma book_ok_save:
  assumes "book_ok book"
  shows "book_ok (book_save e book)"
proof -
  have ids: "keys_distinct book_id (insert_or_replace book_id e book)" using assms by (simp add: book_ok_def keys_distinct_insert)
  have rest: "keys_distinct (\<lambda>e. lowercased (book_address e)) (filter (\<lambda>r. book_id r \<noteq> book_id e) (wallet_entries book))"
    using assms by (auto simp: book_ok_def intro: keys_distinct_filter)
  have other: "lowercased (book_address r) \<noteq> lowercased (book_address e)"
    if "book_save e book \<noteq> book" "book_type e = abt_wallet" "r \<in> set (wallet_entries book)" "book_id r \<noteq> book_id e" for r
  proof
    assume same: "lowercased (book_address r) = lowercased (book_address e)"
    then have "r \<in> set (book_find (book_address e) [abt_wallet] book)" using that by (auto simp: set_book_find wallet_entries_def)
    then obtain existing where f: "first_of (book_find (book_address e) [abt_wallet] book) = Some existing"
      by (cases "first_of (book_find (book_address e) [abt_wallet] book)") (auto simp: first_of_None)
    with that(1,2) have "book_id existing = book_id e" by (auto simp: book_save_def split: if_splits)
    moreover have "existing \<in> set (wallet_entries book)" "lowercased (book_address existing) = lowercased (book_address r)"
      using first_of_SomeD [OF f] same by (auto simp: set_book_find wallet_entries_def)
    ultimately have "existing = r"
      using assms that(3) by (auto simp: book_ok_def keys_distinct_def distinct_map inj_on_def)
    with that(4) \<open>book_id existing = book_id e\<close> show False by simp
  qed
  show ?thesis
  proof (cases "book_save e book = book")
    case False
    then have "book_save e book = insert_or_replace book_id e book"
      by (auto simp: book_save_def split: if_splits option.splits)
    moreover have "lowercased (book_address e) \<notin> (\<lambda>r. lowercased (book_address r)) ` set (filter (\<lambda>r. book_id r \<noteq> book_id e) (wallet_entries book))"
      if "book_type e = abt_wallet"
      using other [OF False that] by fastforce
    ultimately show ?thesis
      using ids rest by (simp add: book_ok_def wallet_entries_insert keys_distinct_def)
  qed (use assms in simp)
qed

lemma book_ok_remove: "book_ok book \<Longrightarrow> book_ok (book_remove e book)"
proof -
  have "wallet_entries (book_remove e book) = filter (\<lambda>r. book_id r \<noteq> book_id e) (wallet_entries book)"
    by (simp add: wallet_entries_def book_remove_def delete_row_def conj_commute)
  then show "book_ok book \<Longrightarrow> book_ok (book_remove e book)"
    by (auto simp: book_ok_def book_remove_def keys_distinct_delete intro: keys_distinct_filter)
qed

lemma book_find_wallet_le1:
  assumes "book_ok book"
  shows "length (book_find a [abt_wallet] book) \<le> 1"
proof -
  have l: "length (book_find a [abt_wallet] book) = length (filter (\<lambda>e. lowercased (book_address e) = lowercased a) (wallet_entries book))"
    by (simp add: book_find_def wallet_entries_def filter_sort conj_commute)
  have "length (filter (\<lambda>e. f e = k) xs) \<le> 1" if "distinct (map f xs)" for f :: "AddressBookEntry \<Rightarrow> string" and k xs
    using that by (induction xs) (auto simp: filter_empty_conv image_iff)
  with assms l show ?thesis by (simp add: book_ok_def keys_distinct_def)
qed

subsection \<open>Every address book\<close>

inductive book_reachable :: "AddressBookEntry list \<Rightarrow> bool" where
  empty: "book_reachable []"
| save: "book_reachable book \<Longrightarrow> book_reachable (book_save e book)"
| remove: "book_reachable book \<Longrightarrow> book_reachable (book_remove e book)"
| edit: "book_reachable book \<Longrightarrow> book_reachable (snd (createOrUpdateAddressBookEntry k i name a book))"
| drop: "book_reachable book \<Longrightarrow> book_reachable (removeAddressBookEntry i book)"

lemma book_reachable_ok: "book_reachable book \<Longrightarrow> book_ok book"
proof (induction rule: book_reachable.induct)
  case empty
  show ?case by (simp add: book_ok_def keys_distinct_def wallet_entries_def)
qed (simp_all add: book_ok_save book_ok_remove createOrUpdateAddressBookEntry_def removeAddressBookEntry_def Let_def split: option.split)

lemma book_find_wallet_unique:
  assumes "book_ok book" "e \<in> set book" "book_type e = abt_wallet" "lowercased (book_address e) = lowercased a"
  shows "book_find a [abt_wallet] book = [e]"
proof -
  have "e \<in> set (book_find a [abt_wallet] book)" using assms(2-4) by (auto simp: set_book_find)
  with book_find_wallet_le1 [OF assms(1), of a] show ?thesis
    by (cases "book_find a [abt_wallet] book") (auto split: if_splits)
qed

lemma book_save_conflict:
  assumes "book_ok book" "e \<in> set book" "book_type e = abt_wallet" "lowercased (book_address e) = lowercased (book_address f)"
    and "book_type f = abt_wallet" "book_id f \<noteq> book_id e"
  shows "book_save f book = book"
  using book_find_wallet_unique [OF assms(1-4)] assms(5,6) by (simp add: book_save_def first_of_def)

lemma book_save_stored:
  assumes "book_type e = abt_wallet \<longrightarrow> (\<forall>f \<in> set (wallet_entries book). lowercased (book_address f) = lowercased (book_address e) \<longrightarrow> book_id f = book_id e)"
  shows "book_save e book = insert_or_replace book_id e book"
  using assms by (auto simp: book_save_def set_book_find wallet_entries_def dest!: first_of_SomeD split: option.split)

text \<open>
  (C25) The name of a wallet is unambiguous. In every address book that the operations can build, identifiers are unique and at most one wallet entry has a
  given address, in any spelling; its name is the one that is shown for the address. An entry that is created or edited without such a conflict
  is stored as given. An edit that gives a wallet entry the address of another wallet is dropped without a sign: the call returns the identifier as after
  a successful edit.
\<close>

theorem wallet_names_unambiguous:
  assumes "book_reachable book"
  shows "keys_distinct book_id book \<and> (\<forall>a. length (book_find a [abt_wallet] book) \<le> 1) \<and>
    (\<forall>e \<in> set book. book_type e = abt_wallet \<longrightarrow> addressName (book_address e) book = Some (book_name e)) \<and>
    (\<forall>i e name a. book_find_id i book = Some e \<longrightarrow>
      (if book_type e = abt_wallet \<and> (\<exists>f \<in> set (wallet_entries book). lowercased (book_address f) = lowercased a \<and> book_id f \<noteq> i)
       then createOrUpdateAddressBookEntry k (Some i) name a book = (i, book)
       else fst (createOrUpdateAddressBookEntry k (Some i) name a book) = i \<and>
         book_find_id i (snd (createOrUpdateAddressBookEntry k (Some i) name a book)) = Some (e\<lparr>book_name := name, book_address := a\<rparr>)))"
proof (intro conjI allI ballI impI)
  have ok: "book_ok book" using assms by (rule book_reachable_ok)
  then show "keys_distinct book_id book" by (simp add: book_ok_def)
  show "length (book_find a [abt_wallet] book) \<le> 1" for a using ok by (rule book_find_wallet_le1)
  show "addressName (book_address e) book = Some (book_name e)" if "e \<in> set book" "book_type e = abt_wallet" for e
    using book_find_wallet_unique [OF ok that] by (simp add: addressName_def first_of_def)
  fix i e name a assume e: "book_find_id i book = Some e"
  then have i: "book_id e = i" using find_row_SomeD by (fastforce simp: book_find_id_def)
  let ?e = "e\<lparr>book_name := name, book_address := a\<rparr>"
  have c: "createOrUpdateAddressBookEntry k (Some i) name a book = (i, book_save ?e book)"
    using e i by (simp add: createOrUpdateAddressBookEntry_def)
  show "if book_type e = abt_wallet \<and> (\<exists>f \<in> set (wallet_entries book). lowercased (book_address f) = lowercased a \<and> book_id f \<noteq> i)
       then createOrUpdateAddressBookEntry k (Some i) name a book = (i, book)
       else fst (createOrUpdateAddressBookEntry k (Some i) name a book) = i \<and>
         book_find_id i (snd (createOrUpdateAddressBookEntry k (Some i) name a book)) = Some ?e"
  proof (cases "book_type e = abt_wallet \<and> (\<exists>f \<in> set (wallet_entries book). lowercased (book_address f) = lowercased a \<and> book_id f \<noteq> i)")
    case True
    then show ?thesis using book_save_conflict [OF ok, of _ ?e] c i by (auto simp: wallet_entries_def)
  next
    case False
    then have "book_save ?e book = insert_or_replace book_id ?e book" using i by (intro book_save_stored) auto
    then show ?thesis using False c i by (auto simp: book_find_id_def find_row_insert)
  qed
qed

definition sample_book :: "AddressBookEntry list" where
  "sample_book = book_save \<lparr>book_id = ''b'', book_name = ''Safe 2'', book_address = ''0xCD'', book_type = abt_wallet\<rparr>
     (book_save \<lparr>book_id = ''a'', book_name = ''Safe'', book_address = ''0xab'', book_type = abt_wallet\<rparr> [])"

theorem wallet_names_unambiguous_witness:
  "book_reachable sample_book \<and> addressName ''0xCD'' sample_book = Some ''Safe 2'' \<and>
   createOrUpdateAddressBookEntry ''c'' (Some ''b'') ''Mine'' ''0xAB'' sample_book = (''b'', sample_book)"
proof -
  have r: "book_reachable sample_book" unfolding sample_book_def by (intro book_reachable.intros)
  have c: "sample_book = [\<lparr>book_id = ''a'', book_name = ''Safe'', book_address = ''0xab'', book_type = abt_wallet\<rparr>,
      \<lparr>book_id = ''b'', book_name = ''Safe 2'', book_address = ''0xCD'', book_type = abt_wallet\<rparr>]"
    by code_simp
  have f: "book_find_id ''b'' sample_book = Some \<lparr>book_id = ''b'', book_name = ''Safe 2'', book_address = ''0xCD'', book_type = abt_wallet\<rparr>"
    and g: "\<exists>f \<in> set (wallet_entries sample_book). lowercased (book_address f) = lowercased ''0xAB'' \<and> book_id f \<noteq> ''b''"
    unfolding c by code_simp+
  note t = wallet_names_unambiguous [OF r, of "''c''"]
  have "createOrUpdateAddressBookEntry ''c'' (Some ''b'') ''Mine'' ''0xAB'' sample_book = (''b'', sample_book)"
    using t f g by (metis (no_types, lifting) AddressBookEntry.select_convs(4))
  moreover have "addressName ''0xCD'' sample_book = Some ''Safe 2''"
    using t [THEN conjunct2, THEN conjunct2, THEN conjunct1,
      THEN bspec, of "\<lparr>book_id = ''b'', book_name = ''Safe 2'', book_address = ''0xCD'', book_type = abt_wallet\<rparr>"] by (simp add: c)
  ultimately show ?thesis using r by blast
qed

end
