(* ===== verification/Deployment.thy ===== *)
theory Deployment
  imports Submission Repetition SafeCreation AddressBook
begin

section \<open>Deploying a safe\<close>

text \<open>
  Model of \<^verbatim>\<open>DeploymentDomainService.swift\<close> with the parts of \<^verbatim>\<open>WalletDomainService.swift\<close>, \<^verbatim>\<open>CommunicationDomainService.swift\<close> and
  \<^verbatim>\<open>HTTPGnosisTransactionRelayService.swift\<close> it uses.

  The event publisher runs each subscription of an event on a thread of its own. A handler loads its own copy of the wallet and works on it until it
  saves it, so an operation here takes that copy and the stored state and returns both, also together with the error when it throws.
  \<^verbatim>\<open>repeat\<close> polls until its repeater is stopped. What the services answer in one turn of the loop, and whether another thread has stopped the repeater
  by the end of the turn, is a \<open>round\<close>; a handler gets the list of the rounds that take place, and it is \<open>Waiting\<close> when the thread is
  still in the loop after them. Within a round the answers of a retried call are numbered by the attempt. What another thread does to the stored wallet while a handler polls is
  not part of a round. \<^verbatim>\<open>syncTokensAndAccountsOnce\<close>, which the handler of \<open>CreationStarted\<close> starts on another thread, is the business of the theory \<open>Accounts\<close>.

  Shown: a wallet becomes ready only after the relay service reports a block or the node a successful receipt; a second \<open>DeploymentFunded\<close> breaks this;
  a deployment that gets its answers ends with a wallet ready to use; which errors abort a deployment, and that a
  funded one is aborted, too; the keys of the recovery phrase leave the device only when the second device was notified.
\<close>

subsection \<open>State and inputs\<close>

text \<open>A transaction whose end is awaited by the services that change the contract.\<close>

record RBETransactionMonitorEntry =
  mon_transactionID :: string
  mon_createdDate :: time

record deployment =
  dep_app :: app
  addressBook :: "AddressBookEntry list"
  monitors :: "RBETransactionMonitorEntry list"
  awaiting :: "WalletID list"
  errorStream :: "ServiceError list"
  exited :: bool

record Parameters =
  repeatDelay :: time
  retryAttempts :: int
  retryDelay :: time

definition Parameters_standard :: Parameters where
  "Parameters_standard = \<lparr>repeatDelay = 5, retryAttempts = 3, retryDelay = 5\<rparr>"

record DeploymentDomainServiceConfiguration =
  cfg_balance :: Parameters
  cfg_deploymentStatus :: Parameters
  cfg_transactionStatus :: Parameters

definition Configuration_standard :: DeploymentDomainServiceConfiguration where
  "Configuration_standard =
     \<lparr>cfg_balance = Parameters_standard, cfg_deploymentStatus = Parameters_standard, cfg_transactionStatus = Parameters_standard\<rparr>"

record CreationStatus =
  cs_txHash :: "string option"
  cs_blockNumber :: "int option"

record answers =
  an_getBalance :: "nat \<Rightarrow> Address \<Rightarrow> (ServiceError, int) outcome"
  an_eth_call :: "nat \<Rightarrow> Address \<Rightarrow> data \<Rightarrow> (ServiceError, data) outcome"
  an_creationStatus :: "nat \<Rightarrow> string \<Rightarrow> (ServiceError, CreationStatus) outcome"
  an_created :: "string \<Rightarrow> (ServiceError, CreationStatus) outcome"
  an_receipt :: "nat \<Rightarrow> TransactionHash \<Rightarrow> (ServiceError, TransactionReceipt option) outcome"

record round =
  rd_answers :: answers
  rd_stopped :: bool

text \<open>What one handling of an event gets from outside.\<close>

record input =
  in_salt :: nat
  in_entry :: string
  in_create :: "SafeCreationRequest \<Rightarrow> (ServiceError, Response) outcome"
  in_startCreation :: "string \<Rightarrow> (ServiceError, unit) outcome"
  in_rounds :: "round list"
  in_rounds2 :: "round list"

record deployer =
  dp_services :: services
  dp_config :: DeploymentDomainServiceConfiguration
  dp_showUInt :: "nat \<Rightarrow> string"
  dp_parseUInt :: "string \<Rightarrow> nat option"

abbreviation dp_packages :: "deployer \<Rightarrow> packages" where
  "dp_packages P \<equiv> sv_packages (dp_services P)"

abbreviation dp_metadata :: "deployer \<Rightarrow> SafeContractMetadata" where
  "dp_metadata P \<equiv> env_metadata (sv_env (dp_services P))"

datatype progress = Done | Waiting

type_synonym 'a handled = "(ServiceError \<times> Wallet \<times> deployment, 'a \<times> Wallet \<times> deployment) outcome"

text \<open>A call that does not touch the wallet, and a transition of the wallet, seen as operations of a handler.\<close>

definition calling :: "(ServiceError, 'a) outcome \<Rightarrow> Wallet \<Rightarrow> deployment \<Rightarrow> 'a handled" where
  "calling m w s = (case m of Returns v \<Rightarrow> Returns (v, w, s) | Throws e \<Rightarrow> Throws (e, w, s) | Traps \<Rightarrow> Traps)"

definition with_world :: "deployment \<Rightarrow> world \<Rightarrow> deployment" where
  "with_world s v = s\<lparr>dep_app := (dep_app s)\<lparr>app_world := v\<rparr>\<rparr>"

definition moving_to :: "unit transition \<Rightarrow> Wallet \<Rightarrow> deployment \<Rightarrow> unit handled" where
  "moving_to t w s =
     (case t w (app_world (dep_app s)) of Returns (w1, v) \<Rightarrow> Returns ((), w1, with_world s v) | _ \<Rightarrow> Traps)"

subsection \<open>WalletDomainService.swift and CommunicationDomainService.swift\<close>

definition fetchOrCreatePortfolio :: "app \<Rightarrow> Portfolio \<times> app" where
  "fetchOrCreatePortfolio s =
     (case app_portfolio s of Some p \<Rightarrow> (p, s) | None \<Rightarrow> (Portfolio_new, s\<lparr>app_portfolio := Some Portfolio_new\<rparr>))"

definition add_key :: "Address \<Rightarrow> app \<Rightarrow> app" where
  "add_key a s = s\<lparr>app_world := (app_world s)\<lparr>deviceKeys := filter (\<lambda>k. k \<noteq> a) (deviceKeys (app_world s)) @ [a]\<rparr>\<rparr>"

definition remove_key :: "Address \<Rightarrow> app \<Rightarrow> app" where
  "remove_key a s = s\<lparr>app_world := (app_world s)\<lparr>deviceKeys := filter (\<lambda>k. k \<noteq> a) (deviceKeys (app_world s))\<rparr>\<rparr>"

definition save_wallet :: "Wallet \<Rightarrow> app \<Rightarrow> app" where
  "save_wallet w s = s\<lparr>app_world := save w (app_world s)\<rparr>"

text \<open>\<open>device\<close> is the generated account, \<open>i\<close> the next wallet identifier.\<close>

definition createNewDraftWallet :: "Address \<Rightarrow> WalletID \<Rightarrow> app \<Rightarrow> ('e, app) outcome" where
  "createNewDraftWallet device i s =
     (let (portfolio, s1) = fetchOrCreatePortfolio s;
          s2 = add_key device s1;
          wallet = Wallet_new i device
      in bindO (accountID (token_id Token_Ether) i) (\<lambda>account.
         bindO (addWallet portfolio i) (\<lambda>p1.
         bindO (selectWallet p1 i) (\<lambda>p2.
         Returns (save_account (account, None) ((save_wallet wallet s2)\<lparr>app_portfolio := Some p2\<rparr>))))))"

definition safeCreatedMessage :: "services \<Rightarrow> string \<Rightarrow> string list \<Rightarrow> string" where
  "safeCreatedMessage S adr os = sv_json S [(''owners'', joined '','' os), (''safe'', adr), (''type'', ''safeCreation'')]"

definition notifyWalletCreatedIfNeeded :: "services \<Rightarrow> WalletID \<Rightarrow> app \<Rightarrow> (ServiceError, unit) outcome" where
  "notifyWalletCreatedIfNeeded S i s =
     (case wallet_with i s of
        None \<Rightarrow> Returns ()
      | Some w \<Rightarrow>
          (case (address w, Wallet.owner w browserExtension, Wallet.owner w thisDevice) of
             (Some a, Some ext, Some device) \<Rightarrow>
               (if find_key S (owner_address device) s = None then Returns ()
                else let message = safeCreatedMessage S (address_value a) (map (address_value \<circ> owner_address) (allOwners w))
                     in bindO (sign_message S (''GNO'' @ message) (owner_address device) s) (\<lambda>sig.
                        bindO (unwrap sig) (\<lambda>sg.
                        sv_send S \<lparr>sn_devices = [address_value (owner_address ext)], sn_message = message, sn_signature = sg\<rparr>)))
           | _ \<Rightarrow> Returns ()))"

subsection \<open>HTTPGnosisTransactionRelayService.swift\<close>

definition safeCreationTransactionHash ::
    "packages \<Rightarrow> (string \<Rightarrow> (ServiceError, CreationStatus) outcome) \<Rightarrow> Address \<Rightarrow> (ServiceError, TransactionHash option) outcome" where
  "safeCreationTransactionHash E execute a =
     bindO (execute (address_value a)) (\<lambda>response.
     case cs_txHash response of
       None \<Rightarrow> Returns None
     | Some h \<Rightarrow>
         let d = ethHex E h
         in if length d \<noteq> 32 then Throws (NetworkService NS_serverError)
            else Returns (Some (''0x'' @ toHexString E d)))"

definition safeCreationTransactionBlock ::
    "(string \<Rightarrow> (ServiceError, CreationStatus) outcome) \<Rightarrow> Address \<Rightarrow> (ServiceError, int option) outcome" where
  "safeCreationTransactionBlock execute a = bindO (execute (address_value a)) (\<lambda>response. Returns (cs_blockNumber response))"

subsection \<open>Stages\<close>

definition retryIfFails :: "Parameters \<Rightarrow> (nat \<Rightarrow> (ServiceError, 'a) outcome) \<Rightarrow> (ServiceError, 'a) outcome" where
  "retryIfFails params action = retried (retryAttempts params) (retryDelay params) action"

definition balance_answer :: "deployer \<Rightarrow> answers \<Rightarrow> Address \<Rightarrow> Address \<Rightarrow> (ServiceError, int) outcome" where
  "balance_answer P A a token =
     retryIfFails (cfg_balance (dp_config P)) (\<lambda>k.
       if token = token_address Token_Ether then an_getBalance A k a
       else balanceOf (dp_packages P) (an_eth_call A k) token a)"

definition updateBalance :: "deployer \<Rightarrow> answers \<Rightarrow> Wallet \<Rightarrow> deployment \<Rightarrow> int handled" where
  "updateBalance P A w s =
     (let token = fee_token w
      in bindO (unwrap (address w)) (\<lambda>a.
         bindO (calling (balance_answer P A a token) w s) (\<lambda>(balance, _, _).
         bindO (accountID (address_value token) (wallet_id w)) (\<lambda>i.
         case balance_with i (dep_app s) of
           None \<Rightarrow> Returns (0, w, s)
         | Some _ \<Rightarrow> Returns (balance, w, s\<lparr>dep_app := save_account (i, Some balance) (dep_app s)\<rparr>)))))"

definition transactionHash_answer :: "deployer \<Rightarrow> answers \<Rightarrow> Address \<Rightarrow> (ServiceError, TransactionHash option) outcome" where
  "transactionHash_answer P A a =
     retryIfFails (cfg_deploymentStatus (dp_config P)) (\<lambda>k. safeCreationTransactionHash (dp_packages P) (an_creationStatus A k) a)"

definition receipt_answer :: "deployer \<Rightarrow> answers \<Rightarrow> TransactionHash \<Rightarrow> (ServiceError, TransactionReceipt option) outcome" where
  "receipt_answer P A h = retryIfFails (cfg_transactionStatus (dp_config P)) (\<lambda>k. an_receipt A k h)"

definition entry_name :: "Portfolio \<Rightarrow> Address \<Rightarrow> string" where
  "entry_name p a =
     (if length (wallets p) = 1 then ''Safe''
      else ''Safe '' @ drop (length (address_value a) - 4) (address_value a))"

definition prepareSafeCreationTransaction :: "deployer \<Rightarrow> input \<Rightarrow> Wallet \<Rightarrow> deployment \<Rightarrow> progress handled" where
  "prepareSafeCreationTransaction P I w s =
     bindO (SafeCreationRequest_init (dp_showUInt P) (in_salt I) (map owner_address (allOwners w)) (confirmationCount w) (fee_token w)) (\<lambda>request.
     bindO (calling (in_create I request) w s) (\<lambda>(response, _, _).
     bindO (calling (mapErr (\<lambda>_. OtherError) (validate (dp_packages P) (dp_parseUInt P) (dp_metadata P) response request)) w s) (\<lambda>_.
     bindO (safeAddress (dp_packages P) response) (\<lambda>safe.
     bindO (rsp_masterCopyAddress (dp_packages P) response) (\<lambda>master.
       let w1 = changeContractVersion (masterCopy_version (dp_metadata P) master) (Wallet.changeMasterCopy (Some master)
             (updateMinimumTransactionAmount (rsp_payment response) (changeAddress (Some safe) w)));
           (portfolio, a1) = fetchOrCreatePortfolio (dep_app s);
           entry = \<lparr>book_id = in_entry I, book_name = entry_name portfolio safe, book_address = address_value safe,
             book_type = abt_wallet\<rparr>
       in bindO (moving_to proceed w1 (s\<lparr>dep_app := a1, addressBook := book_save entry (addressBook s)\<rparr>)) (\<lambda>(_, w2, s2).
          Returns (Done, w2, s2)))))))"

definition checkDidReceiveFirstDeposit :: "deployer \<Rightarrow> answers \<Rightarrow> Wallet \<Rightarrow> deployment \<Rightarrow> bool handled" where
  "checkDidReceiveFirstDeposit P A w s =
     (if \<not> isWaitingForFirstDeposit w then Returns (False, w, s)
      else bindO (updateBalance P A w s) (\<lambda>(balance, w1, s1).
           if balance > 0 then bindO (moving_to proceed w1 s1) (\<lambda>(_, w2, s2). Returns (True, w2, s2))
           else Returns (False, w1, s1)))"

definition checkHasMinimumAmount :: "deployer \<Rightarrow> answers \<Rightarrow> Wallet \<Rightarrow> deployment \<Rightarrow> bool handled" where
  "checkHasMinimumAmount P A w s =
     (if \<not> isWaitingForFunding w then Returns (False, w, s)
      else bindO (updateBalance P A w s) (\<lambda>(balance, w1, s1).
           bindO (unwrap (minimumDeploymentTransactionAmount w1)) (\<lambda>minimum.
           if balance \<ge> minimum then bindO (moving_to proceed w1 s1) (\<lambda>(_, w2, s2). Returns (True, w2, s2))
           else Returns (False, w1, s1))))"

definition startSafeCreation :: "deployer \<Rightarrow> input \<Rightarrow> Wallet \<Rightarrow> deployment \<Rightarrow> progress handled" where
  "startSafeCreation P I w s =
     bindO (unwrap (address w)) (\<lambda>a.
     bindO (calling (in_startCreation I (address_value a)) w s) (\<lambda>_.
     bindO (moving_to proceed w s) (\<lambda>(_, w1, s1). Returns (Done, w1, s1))))"

definition checkHasSubmittedTransaction :: "deployer \<Rightarrow> answers \<Rightarrow> Wallet \<Rightarrow> deployment \<Rightarrow> bool handled" where
  "checkHasSubmittedTransaction P A w s =
     (if \<not> isFinalizingDeployment w then Returns (False, w, s)
      else bindO (unwrap (address w)) (\<lambda>a.
           bindO (calling (transactionHash_answer P A a) w s) (\<lambda>(h, _, _).
           case h of
             None \<Rightarrow> Returns (False, w, s)
           | Some th \<Rightarrow>
               let w1 = assignCreationTransaction (Some th) w
               in Returns (True, w1, s\<lparr>dep_app :=
                    publish_event (WalletTransactionHashIsKnown (wallet_id w1)) (save_wallet w1 (dep_app s))\<rparr>))))"

definition checkHasMinedTransaction :: "deployer \<Rightarrow> answers \<Rightarrow> Wallet \<Rightarrow> deployment \<Rightarrow> bool handled" where
  "checkHasMinedTransaction P A w s =
     (if \<not> isFinalizingDeployment w then Returns (False, w, s)
      else case creationTransactionHash w of
        None \<Rightarrow> Returns (False, w, s)
      | Some h \<Rightarrow>
          bindO (calling (receipt_answer P A h) w s) (\<lambda>(r, _, _).
          case r of
            None \<Rightarrow> Returns (False, w, s)
          | Some receipt \<Rightarrow>
              bindO (moving_to (if receipt_success receipt then proceed else cancel) w s) (\<lambda>(_, w1, s1). Returns (True, w1, s1))))"

subsection \<open>Repeating\<close>

definition isWalletAlreadyCreated :: "answers \<Rightarrow> Wallet \<Rightarrow> ('e, bool) outcome" where
  "isWalletAlreadyCreated A w =
     bindO (unwrap (address w)) (\<lambda>a.
     bindO (optionalTry (safeCreationTransactionBlock (an_created A) a)) (\<lambda>blockOrNil. Returns (blockOrNil \<noteq> None)))"

definition forceFinalizeDeployment :: "Wallet \<Rightarrow> deployment \<Rightarrow> unit handled" where
  "forceFinalizeDeployment w s = moving_to proceed (w\<lparr>state := finalizingDeployment\<rparr>) s"

text \<open>
  One turn of the repeater of \<^verbatim>\<open>repeat\<close>: whether the closure stops it itself. \<^verbatim>\<open>stopAll(for:)\<close> in \<^verbatim>\<open>forceFinalizeDeployment\<close> is dispatched to another
  queue, so that its effect is seen in \<open>rd_stopped\<close>.
\<close>

definition repeat_turn :: "(answers \<Rightarrow> Wallet \<Rightarrow> deployment \<Rightarrow> bool handled) \<Rightarrow> answers \<Rightarrow> Wallet \<Rightarrow> deployment \<Rightarrow> bool handled" where
  "repeat_turn check A w s =
     bindO (isWalletAlreadyCreated A w) (\<lambda>created.
     if created then bindO (forceFinalizeDeployment w s) (\<lambda>(_, w1, s1). Returns (False, w1, s1))
     else check A w s)"

fun repeat_loop :: "(answers \<Rightarrow> Wallet \<Rightarrow> deployment \<Rightarrow> bool handled) \<Rightarrow> round list \<Rightarrow> Wallet \<Rightarrow> deployment \<Rightarrow> progress handled" where
  "repeat_loop check [] w s = Returns (Waiting, w, s)"
| "repeat_loop check (r # rs) w s =
     bindO (repeat_turn check (rd_answers r) w s) (\<lambda>(stop, w1, s1).
     if stop \<or> rd_stopped r then Returns (Done, w1, s1) else repeat_loop check rs w1 s1)"

definition waitForFirstDeposit :: "deployer \<Rightarrow> input \<Rightarrow> Wallet \<Rightarrow> deployment \<Rightarrow> progress handled" where
  "waitForFirstDeposit P I = repeat_loop (checkDidReceiveFirstDeposit P) (in_rounds I)"

definition waitForRemainingFeeAmount :: "deployer \<Rightarrow> input \<Rightarrow> Wallet \<Rightarrow> deployment \<Rightarrow> progress handled" where
  "waitForRemainingFeeAmount P I = repeat_loop (checkHasMinimumAmount P) (in_rounds I)"

definition waitUntilWalletIsReady :: "deployer \<Rightarrow> input \<Rightarrow> Wallet \<Rightarrow> deployment \<Rightarrow> progress handled" where
  "waitUntilWalletIsReady P I w s =
     bindO (if creationTransactionHash w \<noteq> None
            then Returns (Done, w, s\<lparr>dep_app := publish_event (WalletTransactionHashIsKnown (wallet_id w)) (dep_app s)\<rparr>)
            else repeat_loop (checkHasSubmittedTransaction P) (in_rounds I) w s) (\<lambda>(p, w1, s1).
     if p = Waiting then Returns (Waiting, w1, s1)
     else if isReadyToUse w1 then Returns (Done, w1, s1)
     else repeat_loop (checkHasMinedTransaction P) (in_rounds2 I) w1 s1)"

subsection \<open>Handling an event\<close>

definition postProcessCreation :: "deployer \<Rightarrow> Wallet \<Rightarrow> deployment \<Rightarrow> progress handled" where
  "postProcessCreation P w s =
     bindO (calling (notifyWalletCreatedIfNeeded (dp_services P) (wallet_id w) (dep_app s)) w s) (\<lambda>_.
     bindO (unwrap (Wallet.owner w paperWallet)) (\<lambda>paper.
     bindO (unwrap (Wallet.owner w paperWalletDerived)) (\<lambda>derived.
     Returns (Done, w, s\<lparr>dep_app := remove_key (owner_address derived) (remove_key (owner_address paper) (dep_app s))\<rparr>))))"

definition crashTheApp :: "Wallet \<Rightarrow> deployment \<Rightarrow> progress handled" where
  "crashTheApp w s = Returns (Done, w, s\<lparr>exited := True\<rparr>)"

definition aborts :: "ServiceError \<Rightarrow> bool" where
  "aborts e \<longleftrightarrow> e \<noteq> NetworkService NS_networkError \<and> e \<noteq> NetworkService NS_clientError \<and> e \<noteq> NSURLError"

definition executeInWallet :: "WalletID \<Rightarrow> (Wallet \<Rightarrow> deployment \<Rightarrow> progress handled) \<Rightarrow> deployment \<Rightarrow> (unit, progress \<times> deployment) outcome" where
  "executeInWallet i closure s =
     (case wallet_with i (dep_app s) of
        None \<Rightarrow> Returns (Done, s)
      | Some wallet \<Rightarrow>
          (case closure wallet s of
             Returns (p, _, s1) \<Rightarrow> Returns (p, s1)
           | Traps \<Rightarrow> Traps
           | Throws (e, w, s1) \<Rightarrow>
               let s2 = s1\<lparr>errorStream := errorStream s1 @ [e]\<rparr>
               in if aborts e
                  then (case moving_to cancel w s2 of Returns (_, _, s3) \<Rightarrow> Returns (Done, s3) | _ \<Rightarrow> Traps)
                  else Returns (Done, s2)))"

text \<open>The subscriptions that \<^verbatim>\<open>start()\<close> makes; an event that no handler takes has no effect here.\<close>

fun handle :: "deployer \<Rightarrow> input \<Rightarrow> DomainEvent \<Rightarrow> deployment \<Rightarrow> (unit, progress \<times> deployment) outcome" where
  "handle P I (DeploymentStarted i) s = executeInWallet i (prepareSafeCreationTransaction P I) s"
| "handle P I (StartedWaitingForFirstDeposit i) s = executeInWallet i (waitForFirstDeposit P I) s"
| "handle P I (StartedWaitingForRemainingFeeAmount i) s = executeInWallet i (waitForRemainingFeeAmount P I) s"
| "handle P I (DeploymentFunded i) s = executeInWallet i (startSafeCreation P I) s"
| "handle P I (CreationStarted i) s = executeInWallet i (waitUntilWalletIsReady P I) s"
| "handle P I (WalletCreated i) s = executeInWallet i (postProcessCreation P) s"
| "handle P I (WalletCreationFailed i) s = executeInWallet i crashTheApp s"
| "handle P I (DeploymentAborted i) s = executeInWallet i (\<lambda>w s. Returns (Done, w, s)) s"
| "handle P I _ s = Returns (Done, s)"

fun resume_all :: "Wallet list \<Rightarrow> world \<Rightarrow> (unit, world) outcome" where
  "resume_all [] v = Returns v"
| "resume_all (w # ws) v = bindO (resume w v) (\<lambda>(_, v1). resume_all ws v1)"

definition deployment_start :: "deployment \<Rightarrow> (unit, deployment) outcome" where
  "deployment_start s =
     bindO (resume_all (filter_by_states creationStates (app_world (dep_app s))) (app_world (dep_app s))) (\<lambda>v. Returns (with_world s v))"

subsection \<open>What a handler keeps\<close>

text \<open>A property of the handler's copy of the wallet and of the stored state that an operation keeps, however it ends.\<close>

definition keeps :: "(Wallet \<Rightarrow> deployment \<Rightarrow> bool) \<Rightarrow> (Wallet \<Rightarrow> deployment \<Rightarrow> 'a handled) \<Rightarrow> bool" where
  "keeps J act \<longleftrightarrow>
     (\<forall>w s v w1 s1. J w s \<longrightarrow> act w s = Returns (v, w1, s1) \<longrightarrow> J w1 s1) \<and>
     (\<forall>w s e w1 s1. J w s \<longrightarrow> act w s = Throws (e, w1, s1) \<longrightarrow> J w1 s1)"

lemma keepsI:
  assumes "\<And>w s v w1 s1. J w s \<Longrightarrow> act w s = Returns (v, w1, s1) \<Longrightarrow> J w1 s1"
    and "\<And>w s e w1 s1. J w s \<Longrightarrow> act w s = Throws (e, w1, s1) \<Longrightarrow> J w1 s1"
  shows "keeps J act"
  using assms unfolding keeps_def by blast

lemma keepsD:
  assumes "keeps J act" "J w s"
  shows "act w s = Returns (v, w1, s1) \<Longrightarrow> J w1 s1" "act w s = Throws (e, w1, s1) \<Longrightarrow> J w1 s1"
  using assms unfolding keeps_def by blast+

lemma keeps_bind:
  assumes "keeps J f" "\<And>v. keeps J (g v)"
  shows "keeps J (\<lambda>w s. bindO (f w s) (\<lambda>(v, w1, s1). g v w1 s1))"
proof (rule keepsI)
  fix w s v w1 s1 assume J: "J w s" and "bindO (f w s) (\<lambda>(v, w1, s1). g v w1 s1) = Returns (v, w1, s1)"
  then obtain u w2 s2 where "f w s = Returns (u, w2, s2)" "g u w2 s2 = Returns (v, w1, s1)" by (cases "f w s") auto
  then show "J w1 s1" using keepsD(1) [OF assms(1) J] keepsD(1) [OF assms(2)] by blast
next
  fix w s e w1 s1 assume J: "J w s" and "bindO (f w s) (\<lambda>(v, w1, s1). g v w1 s1) = Throws (e, w1, s1)"
  then consider "f w s = Throws (e, w1, s1)" | u w2 s2 where "f w s = Returns (u, w2, s2)" "g u w2 s2 = Throws (e, w1, s1)"
    by (cases "f w s") auto
  then show "J w1 s1" using keepsD [OF assms(1) J] keepsD(2) [OF assms(2)] by cases blast+
qed

lemma keeps_return [simp]: "keeps J (\<lambda>w s. Returns (v w s, w, s))"
  by (simp add: keeps_def)

lemma keeps_if:
  assumes "keeps J f" "keeps J g"
  shows "keeps J (\<lambda>w s. if b w s then f w s else g w s)"
  by (rule keepsI) (use assms in \<open>auto dest: keepsD split: if_splits\<close>)

lemma keeps_calling: "keeps J (\<lambda>w s. calling (m w s) w s)"
  by (rule keepsI) (auto simp: calling_def split: outcome.splits)

lemma isWalletAlreadyCreated_throws: "isWalletAlreadyCreated A w \<noteq> Throws e"
  by (cases "address w"; cases "safeCreationTransactionBlock (an_created A) (the (address w))") (auto simp: isWalletAlreadyCreated_def)

lemma moving_to_throws: "moving_to t w s \<noteq> Throws e"
  by (auto simp: moving_to_def split: outcome.split)

lemma forceFinalize_throws: "forceFinalizeDeployment w s \<noteq> Throws e"
  by (simp add: forceFinalizeDeployment_def moving_to_throws)

text \<open>
  What a poll relies on: with the answers of a round that takes place, its check keeps the property, and so does the forced finalization when the relay
  service has reported a block. Then the whole loop keeps it.
\<close>

locale polled =
  fixes check :: "answers \<Rightarrow> Wallet \<Rightarrow> deployment \<Rightarrow> bool handled" and rounds :: "round list" and J :: "Wallet \<Rightarrow> deployment \<Rightarrow> bool"
  assumes check_keeps: "r \<in> set rounds \<Longrightarrow> keeps J (check (rd_answers r))"
    and created_keeps: "r \<in> set rounds \<Longrightarrow> J w s \<Longrightarrow> isWalletAlreadyCreated (rd_answers r) w = (Returns True :: (ServiceError \<times> Wallet \<times> deployment, bool) outcome) \<Longrightarrow>
      forceFinalizeDeployment w s = Returns (v, w1, s1) \<Longrightarrow> J w1 s1"
begin

lemma turn_keeps:
  assumes "r \<in> set rounds"
  shows "keeps J (repeat_turn check (rd_answers r))"
proof (rule keepsI)
  fix w s v w1 s1 assume J: "J w s" and "repeat_turn check (rd_answers r) w s = Returns (v, w1, s1)"
  then consider u where "isWalletAlreadyCreated (rd_answers r) w = (Returns True :: (ServiceError \<times> Wallet \<times> deployment, bool) outcome)"
      "forceFinalizeDeployment w s = Returns (u, w1, s1)"
    | "check (rd_answers r) w s = Returns (v, w1, s1)"
    by (auto simp: repeat_turn_def split: if_splits)
  then show "J w1 s1" using created_keeps [OF assms J] keepsD(1) [OF check_keeps [OF assms] J] by cases blast+
next
  fix w s e w1 s1 assume J: "J w s" and "repeat_turn check (rd_answers r) w s = Throws (e, w1, s1)"
  then have "check (rd_answers r) w s = Throws (e, w1, s1)"
    using isWalletAlreadyCreated_throws [of "rd_answers r" w "(e, w1, s1)"] forceFinalize_throws [of w s]
    by (auto simp: repeat_turn_def bindO_eq_Throws split: if_splits)
  then show "J w1 s1" using keepsD(2) [OF check_keeps [OF assms] J] by blast
qed

lemma loop_keeps: "set rs \<subseteq> set rounds \<Longrightarrow> keeps J (repeat_loop check rs)"
proof (induction rs)
  case (Cons r rs)
  have "keeps J (\<lambda>w s. bindO (repeat_turn check (rd_answers r) w s) (\<lambda>(stop, w1, s1).
      if stop \<or> rd_stopped r then Returns (Done, w1, s1) else repeat_loop check rs w1 s1))"
    using Cons turn_keeps [of r] by (intro keeps_bind keeps_if) simp_all
  then show ?case by (simp only: repeat_loop.simps)
qed (simp add: keeps_def)

end

text \<open>A block of the relay service, or a successful receipt of the node for the creation transaction.\<close>

definition confirmed :: "deployer \<Rightarrow> round list \<Rightarrow> Wallet \<Rightarrow> bool" where
  "confirmed P rs w \<longleftrightarrow>
     (\<exists>r \<in> set rs. (\<exists>a b. address w = Some a \<and> safeCreationTransactionBlock (an_created (rd_answers r)) a = Returns (Some b)) \<or>
       (\<exists>h receipt. creationTransactionHash w = Some h \<and> receipt_answer P (rd_answers r) h = Returns (Some receipt) \<and> receipt_success receipt))"

definition ready_inv :: "deployer \<Rightarrow> round list \<Rightarrow> WalletID \<Rightarrow> deployment \<Rightarrow> Wallet \<Rightarrow> deployment \<Rightarrow> bool" where
  "ready_inv P rs i s0 w s \<longleftrightarrow>
     wallet_id w = i \<and> (state w \<in> set creationStates \<or> state w = readyToUse \<and> confirmed P rs w) \<and>
     (\<forall>x. wallet_with i (dep_app s) = Some x \<and> isReadyToUse x \<longrightarrow> confirmed P rs x) \<and>
     (\<forall>j. j \<noteq> i \<longrightarrow> wallet_with j (dep_app s) = wallet_with j (dep_app s0))"

lemma confirmed_update [simp]: "confirmed P rs (w\<lparr>state := st\<rparr>) = confirmed P rs w" "confirmed P rs (w\<lparr>confirmationCount := n\<rparr>) = confirmed P rs w"
  by (simp_all add: confirmed_def)

lemma wallet_with_world [simp]: "wallet_with j (dep_app (with_world s v)) = find_id j v"
  by (simp add: with_world_def wallet_with_def)

lemma app_world_with [simp]: "app_world (dep_app (with_world s v)) = v"
  by (simp add: with_world_def)

lemma wallet_with_save_account [simp]: "wallet_with j (save_account x s) = wallet_with j s"
  by (simp add: wallet_with_def save_account_def find_id_def)

lemma wallet_with_save [simp]: "wallet_with j (save_wallet w s) = (if j = wallet_id w then Some w else wallet_with j s)"
  by (simp add: wallet_with_def save_wallet_def find_id_save)

lemma wallet_with_publish [simp]: "wallet_with j (publish_event e s) = wallet_with j s"
  by (simp add: wallet_with_def publish_event_def)

lemma moved_ready_inv:
  assumes "ready_inv P rs i s0 w s" "quiet (w, app_world (dep_app s)) (w1, v) \<or> moving (w, app_world (dep_app s)) (w1, v)"
    "state w = finalizingDeployment \<Longrightarrow> state w1 = readyToUse \<Longrightarrow> confirmed P rs w"
  shows "ready_inv P rs i s0 w1 (with_world s v)"
  using assms(2)
proof
  assume "quiet (w, app_world (dep_app s)) (w1, v)"
  with assms(1) show ?thesis by (auto simp: quiet_def ready_inv_def wallet_with_def)
next
  assume "moving (w, app_world (dep_app s)) (w1, v)"
  then obtain st n where w1: "w1 = w\<lparr>state := st, confirmationCount := n\<rparr>" "st \<in> next_states (state w)"
    and v: "v = save w1 (app_world (dep_app s)) \<or> (\<exists>e. v = publish e (save w1 (app_world (dep_app s))))"
    by (auto simp: moving_def)
  have old: "wallet_id w = i" "state w \<in> set creationStates \<or> state w = readyToUse" using assms(1) by (auto simp: ready_inv_def)
  have "st \<in> set creationStates \<or> st = readyToUse \<and> confirmed P rs w"
    using w1 old(2) assms(3) by (cases "state w") (auto simp: creationStates_def)
  then show ?thesis using w1 v old(1) assms(1) by (auto simp: ready_inv_def find_id_save wallet_with_def isReadyToUse_def creationStates_def)
qed

lemma ready_inv_cong:
  assumes "ready_inv P rs i s0 w s" "\<And>j. wallet_with j (dep_app s1) = wallet_with j (dep_app s)"
  shows "ready_inv P rs i s0 w s1"
  using assms by (simp add: ready_inv_def)

lemma moving_to_ReturnsE:
  assumes "moving_to t w s = Returns (u, w1, s1)"
  obtains v where "t w (app_world (dep_app s)) = Returns (w1, v)" "s1 = with_world s v"
  using assms that by (auto simp: moving_to_def split: outcome.splits prod.splits)

lemma proceed_ready_inv:
  assumes "ready_inv P rs i s0 w s" "moving_to proceed w s = Returns (u, w1, s1)" "state w = finalizingDeployment \<Longrightarrow> confirmed P rs w"
  shows "ready_inv P rs i s0 w1 s1"
  using assms(2)
proof (rule moving_to_ReturnsE)
  fix v assume v: "proceed w (app_world (dep_app s)) = (Returns (w1, v) :: (unit, _) outcome)" "s1 = with_world s v"
  show ?thesis unfolding v(2) by (rule moved_ready_inv [OF assms(1) proceed_cases [OF v(1)] assms(3)])
qed

lemma cancel_ready_inv:
  assumes "ready_inv P rs i s0 w s" "moving_to cancel w s = Returns (u, w1, s1)"
  shows "ready_inv P rs i s0 w1 s1"
  using assms(2)
proof (rule moving_to_ReturnsE)
  fix v assume v: "cancel w (app_world (dep_app s)) = (Returns (w1, v) :: (unit, _) outcome)" "s1 = with_world s v"
  then have "state w = finalizingDeployment \<Longrightarrow> state w1 = finalizingDeployment"
    by (auto simp: cancel_def FinalizingDeploymentState_cancel_def)
  then show ?thesis unfolding v(2) by (intro moved_ready_inv [OF assms(1) cancel_cases [OF v(1)]]) simp
qed

lemma updateBalance_returns:
  assumes "updateBalance P A w s = Returns (b, w1, s1)"
  shows "w1 = w" "wallet_with j (dep_app s1) = wallet_with j (dep_app s)"
  using assms by (auto simp: updateBalance_def Let_def calling_def split: option.splits outcome.splits)

lemma updateBalance_throws: "updateBalance P A w s = Throws (e, w1, s1) \<Longrightarrow> w1 = w \<and> s1 = s"
  by (auto simp: updateBalance_def Let_def calling_def bindO_eq_Throws accountID_def split: option.splits outcome.splits if_splits)

lemma first_deposit_keeps: "keeps (ready_inv P rs i s0) (checkDidReceiveFirstDeposit P A)"
proof (rule keepsI)
  fix w s v w1 s1 assume J: "ready_inv P rs i s0 w s" and "checkDidReceiveFirstDeposit P A w s = Returns (v, w1, s1)"
  then consider "w1 = w" "s1 = s" | b s2 u where "state w = waitingForFirstDeposit" "updateBalance P A w s = Returns (b, w, s2)"
      "w1 = w \<and> s1 = s2 \<or> moving_to proceed w s2 = Returns (u, w1, s1)"
    by (fastforce simp: checkDidReceiveFirstDeposit_def isWaitingForFirstDeposit_def dest: updateBalance_returns split: if_splits)
  then show "ready_inv P rs i s0 w1 s1"
  proof cases
    case 2
    then have "ready_inv P rs i s0 w s2" using J ready_inv_cong updateBalance_returns(2) by blast
    with 2 show ?thesis using proceed_ready_inv by fastforce
  qed (use J in simp)
next
  fix w s e w1 s1 assume J: "ready_inv P rs i s0 w s" and "checkDidReceiveFirstDeposit P A w s = Throws (e, w1, s1)"
  then show "ready_inv P rs i s0 w1 s1"
    by (auto simp: checkDidReceiveFirstDeposit_def bindO_eq_Throws moving_to_throws dest: updateBalance_throws split: if_splits)
qed

lemma minimum_amount_keeps: "keeps (ready_inv P rs i s0) (checkHasMinimumAmount P A)"
proof (rule keepsI)
  fix w s v w1 s1 assume J: "ready_inv P rs i s0 w s" and "checkHasMinimumAmount P A w s = Returns (v, w1, s1)"
  then consider "w1 = w" "s1 = s" | b s2 u where "state w = notEnoughFunds" "updateBalance P A w s = Returns (b, w, s2)"
      "w1 = w \<and> s1 = s2 \<or> moving_to proceed w s2 = Returns (u, w1, s1)"
    by (fastforce simp: checkHasMinimumAmount_def isWaitingForFunding_def dest: updateBalance_returns split: if_splits)
  then show "ready_inv P rs i s0 w1 s1"
  proof cases
    case 2
    then have "ready_inv P rs i s0 w s2" using J ready_inv_cong updateBalance_returns(2) by blast
    with 2 show ?thesis using proceed_ready_inv by fastforce
  qed (use J in simp)
next
  fix w s e w1 s1 assume J: "ready_inv P rs i s0 w s" and "checkHasMinimumAmount P A w s = Throws (e, w1, s1)"
  then show "ready_inv P rs i s0 w1 s1"
    by (auto simp: checkHasMinimumAmount_def bindO_eq_Throws moving_to_throws dest: updateBalance_throws split: if_splits option.splits)
qed

lemma calling_eq [simp]:
  "calling m w s = Returns (v, w1, s1) \<longleftrightarrow> m = Returns v \<and> w1 = w \<and> s1 = s"
  "calling m w s = Throws (e, w1, s1) \<longleftrightarrow> m = Throws e \<and> w1 = w \<and> s1 = s"
  by (auto simp: calling_def split: outcome.splits)

lemma wallet_with_portfolio [simp]: "wallet_with j (snd (fetchOrCreatePortfolio s)) = wallet_with j s"
  by (simp add: fetchOrCreatePortfolio_def wallet_with_def split: option.split)

lemma submitted_keeps: "keeps (ready_inv P rs i s0) (checkHasSubmittedTransaction P A)"
proof (rule keepsI)
  fix w s v w1 s1 assume J: "ready_inv P rs i s0 w s" and "checkHasSubmittedTransaction P A w s = Returns (v, w1, s1)"
  then consider "w1 = w" "s1 = s" | h where "state w = finalizingDeployment" "w1 = assignCreationTransaction (Some h) w"
      "s1 = s\<lparr>dep_app := publish_event (WalletTransactionHashIsKnown (wallet_id w1)) (save_wallet w1 (dep_app s))\<rparr>"
    by (auto simp: checkHasSubmittedTransaction_def isFinalizingDeployment_def Let_def split: if_splits option.splits)
  then show "ready_inv P rs i s0 w1 s1"
  proof cases
    case 2
    with J show ?thesis by (auto simp: ready_inv_def assignCreationTransaction_def creationStates_def isReadyToUse_def)
  qed (use J in simp)
next
  fix w s e w1 s1 assume "ready_inv P rs i s0 w s" and "checkHasSubmittedTransaction P A w s = Throws (e, w1, s1)"
  then show "ready_inv P rs i s0 w1 s1"
    by (auto simp: checkHasSubmittedTransaction_def bindO_eq_Throws Let_def split: if_splits option.splits)
qed

lemma mined_keeps:
  assumes "r \<in> set rs"
  shows "keeps (ready_inv P rs i s0) (checkHasMinedTransaction P (rd_answers r))"
proof (rule keepsI)
  fix w s v w1 s1 assume J: "ready_inv P rs i s0 w s" and "checkHasMinedTransaction P (rd_answers r) w s = Returns (v, w1, s1)"
  then consider "w1 = w" "s1 = s" | h receipt u where "creationTransactionHash w = Some h" "receipt_answer P (rd_answers r) h = Returns (Some receipt)"
      "moving_to (if receipt_success receipt then proceed else cancel) w s = Returns (u, w1, s1)"
    by (auto simp: checkHasMinedTransaction_def split: if_splits option.splits outcome.splits)
  then show "ready_inv P rs i s0 w1 s1"
  proof cases
    case 2
    have "receipt_success receipt \<Longrightarrow> confirmed P rs w" unfolding confirmed_def using assms 2(1,2) by blast
    then show ?thesis
      using 2(3) proceed_ready_inv [OF J, of u w1 s1] cancel_ready_inv [OF J, of u w1 s1] by (cases "receipt_success receipt") simp_all
  qed (use J in simp)
next
  fix w s e w1 s1 assume "ready_inv P rs i s0 w s" and "checkHasMinedTransaction P (rd_answers r) w s = Throws (e, w1, s1)"
  then show "ready_inv P rs i s0 w1 s1"
    by (auto simp: checkHasMinedTransaction_def bindO_eq_Throws moving_to_throws split: if_splits option.splits outcome.splits)
qed

lemma created_ready_inv:
  assumes "r \<in> set rs" "ready_inv P rs i s0 w s" "isWalletAlreadyCreated (rd_answers r) w = Returns True"
    "forceFinalizeDeployment w s = Returns (v, w1, s1)"
  shows "ready_inv P rs i s0 w1 s1"
proof -
  obtain a b where "address w = Some a" "safeCreationTransactionBlock (an_created (rd_answers r)) a = Returns (Some b)"
    using assms(3) by (cases "address w"; cases "safeCreationTransactionBlock (an_created (rd_answers r)) (the (address w))")
      (auto simp: isWalletAlreadyCreated_def)
  with assms(1) have "confirmed P rs w" unfolding confirmed_def by blast
  moreover have "ready_inv P rs i s0 (w\<lparr>state := finalizingDeployment\<rparr>) s" using assms(2) by (auto simp: ready_inv_def creationStates_def)
  ultimately show ?thesis using proceed_ready_inv assms(4) by (fastforce simp: forceFinalizeDeployment_def)
qed

interpretation first_deposit_poll: polled "checkDidReceiveFirstDeposit P" rs "ready_inv P rs i s0" for P rs i s0
  by unfold_locales (auto intro: first_deposit_keeps created_ready_inv)

interpretation funding_poll: polled "checkHasMinimumAmount P" rs "ready_inv P rs i s0" for P rs i s0
  by unfold_locales (auto intro: minimum_amount_keeps created_ready_inv)

interpretation submission_poll: polled "checkHasSubmittedTransaction P" rs "ready_inv P rs i s0" for P rs i s0
  by unfold_locales (auto intro: submitted_keeps created_ready_inv)

interpretation mining_poll: polled "checkHasMinedTransaction P" rs "ready_inv P rs i s0" for P rs i s0
  by unfold_locales (auto intro: mined_keeps created_ready_inv)

lemma waiting_keeps:
  assumes "rs = in_rounds I @ in_rounds2 I"
  shows "keeps (ready_inv P rs i s0) (waitForFirstDeposit P I)" "keeps (ready_inv P rs i s0) (waitForRemainingFeeAmount P I)"
    "keeps (ready_inv P rs i s0) (waitUntilWalletIsReady P I)"
proof -
  have sub: "set (in_rounds I) \<subseteq> set rs" "set (in_rounds2 I) \<subseteq> set rs" using assms by auto
  show "keeps (ready_inv P rs i s0) (waitForFirstDeposit P I)" "keeps (ready_inv P rs i s0) (waitForRemainingFeeAmount P I)"
    unfolding waitForFirstDeposit_def waitForRemainingFeeAmount_def
    using first_deposit_poll.loop_keeps funding_poll.loop_keeps sub by blast+
  have known: "keeps (ready_inv P rs i s0) (\<lambda>w s. Returns (Done, w, s\<lparr>dep_app := publish_event (WalletTransactionHashIsKnown (wallet_id w)) (dep_app s)\<rparr>))"
    by (rule keepsI) (auto elim: ready_inv_cong)
  show "keeps (ready_inv P rs i s0) (waitUntilWalletIsReady P I)"
    unfolding waitUntilWalletIsReady_def
    by (intro keeps_bind keeps_if known keeps_return submission_poll.loop_keeps mining_poll.loop_keeps sub)
qed

lemma preparing_keeps:
  assumes "ready_inv P rs i s0 w s" "state w = deploying"
  shows "prepareSafeCreationTransaction P I w s = Returns (v, w1, s1) \<Longrightarrow> ready_inv P rs i s0 w1 s1"
    "prepareSafeCreationTransaction P I w s = Throws (e, w1, s1) \<Longrightarrow> w1 = w \<and> s1 = s"
proof -
  assume "prepareSafeCreationTransaction P I w s = Returns (v, w1, s1)"
  moreover obtain p a1 where "fetchOrCreatePortfolio (dep_app s) = (p, a1)" by (rule prod.exhaust)
  ultimately obtain w2 s2 u where w2: "moving_to proceed w2 s2 = Returns (u, w1, s1)" "state w2 = state w" "wallet_id w2 = wallet_id w"
    and "dep_app s2 = snd (fetchOrCreatePortfolio (dep_app s))"
    by (auto simp: prepareSafeCreationTransaction_def Let_def changeContractVersion_def Wallet.changeMasterCopy_def
        updateMinimumTransactionAmount_def changeAddress_def)
  moreover from this assms have "ready_inv P rs i s0 w2 s2" by (simp add: ready_inv_def creationStates_def)
  ultimately show "ready_inv P rs i s0 w1 s1" using proceed_ready_inv assms(2) by fastforce
next
  assume "prepareSafeCreationTransaction P I w s = Throws (e, w1, s1)"
  then show "w1 = w \<and> s1 = s"
    by (auto simp: prepareSafeCreationTransaction_def Let_def bindO_eq_Throws SafeCreationRequest_init_def safeAddress_def rsp_masterCopyAddress_def
        moving_to_throws Address_init_def split: option.splits outcome.splits if_splits prod.splits)
qed

lemma starting_keeps:
  assumes "ready_inv P rs i s0 w s" "state w = creationStarted"
  shows "startSafeCreation P I w s = Returns (v, w1, s1) \<Longrightarrow> ready_inv P rs i s0 w1 s1"
    "startSafeCreation P I w s = Throws (e, w1, s1) \<Longrightarrow> w1 = w \<and> s1 = s"
  using assms proceed_ready_inv
  by (fastforce simp: startSafeCreation_def)
    (auto simp: startSafeCreation_def bindO_eq_Throws moving_to_throws split: outcome.splits option.splits)

subsection \<open>When a wallet becomes ready\<close>

text \<open>The state in which an event that leads on is published.\<close>

fun awaited :: "DomainEvent \<Rightarrow> (WalletID \<times> State) option" where
  "awaited (DeploymentStarted i) = Some (i, deploying)"
| "awaited (StartedWaitingForFirstDeposit i) = Some (i, waitingForFirstDeposit)"
| "awaited (StartedWaitingForRemainingFeeAmount i) = Some (i, notEnoughFunds)"
| "awaited (DeploymentFunded i) = Some (i, creationStarted)"
| "awaited (CreationStarted i) = Some (i, finalizingDeployment)"
| "awaited _ = None"

lemma executeInWallet_ready:
  assumes "executeInWallet i closure s = Returns (p, s')" "wallet_with i (dep_app s) = Some w"
    and "\<And>v w1 s1. closure w s = Returns (v, w1, s1) \<Longrightarrow> ready_inv P rs i s0 w1 s1"
    and "\<And>e w1 s1. closure w s = Throws (e, w1, s1) \<Longrightarrow> ready_inv P rs i s0 w1 s1"
  shows "\<exists>w'. ready_inv P rs i s0 w' s'"
proof (cases "closure w s")
  case (Returns x)
  obtain v w1 s1 where x: "x = (v, w1, s1)" by (cases x)
  with assms(1,2) Returns have "s' = s1" by (simp add: executeInWallet_def)
  with assms(3) Returns x show ?thesis by blast
next
  case (Throws x)
  obtain e w1 s1 where x: "x = (e, w1, s1)" by (cases x)
  let ?s2 = "s1\<lparr>errorStream := errorStream s1 @ [e]\<rparr>"
  have J: "ready_inv P rs i s0 w1 ?s2" using assms(4) [of e w1 s1] Throws x by (auto elim: ready_inv_cong)
  show ?thesis
  proof (cases "aborts e")
    case True
    with assms(1,2) Throws x obtain u w2 where "moving_to cancel w1 ?s2 = Returns (u, w2, s')"
      by (auto simp: executeInWallet_def Let_def split: outcome.splits)
    then show ?thesis using cancel_ready_inv [OF J] by blast
  next
    case False
    with assms(1,2) Throws x have "s' = ?s2" by (simp add: executeInWallet_def)
    with J show ?thesis by blast
  qed
qed (use assms(1,2) in \<open>simp add: executeInWallet_def\<close>)

lemma find_id_SomeD: "find_id i v = Some w \<Longrightarrow> wallet_id w = i"
  by (auto simp: find_id_def dest: find_in_set)

text \<open>
  (C12) A wallet becomes ready only when its creation is confirmed. Let an event of the deployment of wallet \<open>i\<close> be handled while the wallet is in the state
  in which the event was published. If the stored wallet is ready afterwards, then in one of the rounds the relay service has reported a block for
  the wallet's address, or the node has returned a successful receipt for the wallet's creation transaction. However the handling ends, no other wallet changes.
\<close>

theorem ready_when_confirmed:
  assumes "awaited e = Some (i, st)" "wallet_with i (dep_app s) = Some w" "state w = st" "handle P I e s = Returns (p, s')"
  shows "(\<forall>w'. wallet_with i (dep_app s') = Some w' \<and> isReadyToUse w' \<longrightarrow> confirmed P (in_rounds I @ in_rounds2 I) w') \<and>
    (\<forall>j. j \<noteq> i \<longrightarrow> wallet_with j (dep_app s') = wallet_with j (dep_app s))"
proof -
  define rs where "rs = in_rounds I @ in_rounds2 I"
  have "st \<in> set creationStates" using assms(1) by (cases e) (auto simp: creationStates_def)
  then have J: "ready_inv P rs i s w s"
    using assms(2,3) find_id_SomeD by (auto simp: ready_inv_def isReadyToUse_def creationStates_def wallet_with_def)
  have kept: "\<exists>w'. ready_inv P rs i s w' s'" if "executeInWallet i closure s = Returns (p, s')" "keeps (ready_inv P rs i s) closure" for closure
    using executeInWallet_ready [OF that(1) assms(2), of P rs s] keepsD [OF that(2) J] by blast
  have "\<exists>w'. ready_inv P rs i s w' s'"
  proof (cases e)
    case (DeploymentStarted i')
    with assms have "executeInWallet i (prepareSafeCreationTransaction P I) s = Returns (p, s')" "state w = st" "st = deploying" by auto
    moreover have "prepareSafeCreationTransaction P I w s = Throws (e, w1, s1) \<Longrightarrow> ready_inv P rs i s w1 s1" if "state w = deploying" for e w1 s1
      using preparing_keeps(2) [OF J that] J by blast
    ultimately show ?thesis using executeInWallet_ready [OF _ assms(2)] preparing_keeps(1) [OF J] by (metis (no_types, lifting))
  next
    case (DeploymentFunded i')
    with assms have "executeInWallet i (startSafeCreation P I) s = Returns (p, s')" "state w = st" "st = creationStarted" by auto
    moreover have "startSafeCreation P I w s = Throws (e, w1, s1) \<Longrightarrow> ready_inv P rs i s w1 s1" if "state w = creationStarted" for e w1 s1
      using starting_keeps(2) [OF J that] J by blast
    ultimately show ?thesis using executeInWallet_ready [OF _ assms(2)] starting_keeps(1) [OF J] by (metis (no_types, lifting))
  qed (use assms kept waiting_keeps [OF rs_def] in auto)
  then show ?thesis by (auto simp: ready_inv_def rs_def)
qed

text \<open>
  A second \<open>DeploymentFunded\<close> makes a wallet ready without any confirmation. \<^verbatim>\<open>start()\<close> publishes the event again for a wallet that is still in
  the state \<open>creationStarted\<close>, and \<^verbatim>\<open>startSafeCreation\<close> does not test the state. If its handling begins after the first one has ended, and
  the relay service accepts the second request as well, the wallet goes on from \<open>finalizingDeployment\<close> to \<open>readyToUse\<close>: no round takes place, so that neither a
  block nor a receipt was seen.
\<close>

theorem second_funded_event_skips_confirmation:
  assumes "filter_by_states creationStates (app_world (dep_app s)) = [w]" "wallet_with i (dep_app s) = Some w" "state w = creationStarted"
    and "address w = Some a" "in_startCreation I (address_value a) = Returns ()"
  shows "\<exists>s0 s1 s2 w2. deployment_start s = Returns s0 \<and> events (app_world (dep_app s0)) = events (app_world (dep_app s)) @ [DeploymentFunded i] \<and>
    handle P I (DeploymentFunded i) s0 = Returns (Done, s1) \<and> handle P I (DeploymentFunded i) s1 = Returns (Done, s2) \<and>
    wallet_with i (dep_app s2) = Some w2 \<and> isReadyToUse w2 \<and> creationTransactionHash w2 = creationTransactionHash w \<and> \<not> confirmed P [] w2"
proof -
  have id: "wallet_id w = i" using assms(2) find_id_SomeD by (auto simp: wallet_with_def)
  define s0 where "s0 = with_world s (publish (DeploymentFunded i) (app_world (dep_app s)))"
  define s1 where "s1 = with_world s0 (publish (CreationStarted i) (save (w\<lparr>state := finalizingDeployment\<rparr>) (app_world (dep_app s0))))"
  define s2 where "s2 = with_world s1 (publish (WalletCreated i) (save (w\<lparr>state := readyToUse\<rparr>) (app_world (dep_app s1))))"
  have "deployment_start s = Returns s0"
    using assms(1,3) id by (simp add: deployment_start_def resume_def CreationStartedState_resume_def s0_def)
  moreover have w0: "wallet_with i (dep_app s0) = Some w" using assms(2) by (simp add: s0_def wallet_with_def)
  then have "handle P I (DeploymentFunded i) s0 = Returns (Done, s1)"
    using assms(3-5) id by (simp add: executeInWallet_def startSafeCreation_def calling_def moving_to_def proceed_def CreationStartedState_proceed_def
      FinalizingDeploymentState_resume_def Let_def s1_def)
  moreover have "wallet_with i (dep_app s1) = Some (w\<lparr>state := finalizingDeployment\<rparr>)" using id by (simp add: s1_def find_id_save)
  then have "handle P I (DeploymentFunded i) s1 = Returns (Done, s2)"
    using assms(4-5) id by (simp add: executeInWallet_def startSafeCreation_def calling_def moving_to_def proceed_def FinalizingDeploymentState_proceed_def
      Let_def s2_def)
  moreover have "wallet_with i (dep_app s2) = Some (w\<lparr>state := readyToUse\<rparr>)" using id by (simp add: s2_def find_id_save)
  ultimately show ?thesis by (auto simp: s0_def isReadyToUse_def confirmed_def)
qed

subsection \<open>Errors\<close>

lemma cancel_moves:
  assumes "state w \<in> {deploying, waitingForFirstDeposit, notEnoughFunds, creationStarted}"
  shows "moving_to cancel w s = Returns ((), w\<lparr>state := draft\<rparr>,
    with_world s (publish (DeploymentAborted (wallet_id w)) (save (w\<lparr>state := draft\<rparr>) (app_world (dep_app s)))))"
  using assms by (auto simp: moving_to_def cancel_def abortDeployment_def Let_def)

text \<open>
  (C32) Which errors end a deployment. Let a handler throw before it has changed anything. The error is posted in any case. A network or client error
  of the services and an error of the URL loading system change nothing else: the thread ends, and nothing polls for the wallet until the
  service is started again. Every other error, a server error of the node or relay service and a failed HTTP request included, aborts the deployment. Before
  the creation is started the stored wallet is a draft again and \<open>DeploymentAborted\<close> is published. While the deployment is being finalized
  \<open>WalletCreationFailed\<close> is published, whose handling exits the app.
\<close>

theorem deployment_errors:
  assumes "wallet_with i (dep_app s) = Some w" "closure w s = Throws (e, w, s)"
  shows "(if \<not> aborts e then executeInWallet i closure s = Returns (Done, s\<lparr>errorStream := errorStream s @ [e]\<rparr>)
      else if state w = finalizingDeployment
      then \<exists>s1 s2. executeInWallet i closure s = Returns (Done, s1) \<and> wallet_with i (dep_app s1) = Some w \<and>
        events (app_world (dep_app s1)) = events (app_world (dep_app s)) @ [WalletCreationFailed i] \<and>
        handle P I (WalletCreationFailed i) s1 = Returns (Done, s2) \<and> exited s2
      else state w \<in> set creationStates - {draft} \<longrightarrow>
        (\<exists>s1. executeInWallet i closure s = Returns (Done, s1) \<and> wallet_with i (dep_app s1) = Some (w\<lparr>state := draft\<rparr>) \<and>
          events (app_world (dep_app s1)) = events (app_world (dep_app s)) @ [DeploymentAborted i] \<and> errorStream s1 = errorStream s @ [e])) \<and>
    aborts (NetworkService NS_serverError) \<and> aborts (networkRequestFailed response expired) \<and> \<not> aborts (NetworkService NS_networkError) \<and>
    \<not> aborts (NetworkService NS_clientError) \<and> \<not> aborts NSURLError"
proof -
  have id: "wallet_id w = i" using assms(1) find_id_SomeD by (auto simp: wallet_with_def)
  let ?s = "s\<lparr>errorStream := errorStream s @ [e]\<rparr>"
  have abort: "executeInWallet i closure s = (case moving_to cancel w ?s of Returns (_, _, s3) \<Rightarrow> Returns (Done, s3) | _ \<Rightarrow> Traps)" if "aborts e"
    using assms that by (simp add: executeInWallet_def)
  show ?thesis
  proof (cases "aborts e")
    case False
    then show ?thesis using assms by (auto simp: executeInWallet_def aborts_def Let_def)
  next
    case True
    show ?thesis
    proof (cases "state w = finalizingDeployment")
      case fin: True
      let ?s1 = "with_world ?s (publish (WalletCreationFailed i) (app_world (dep_app ?s)))"
      have "executeInWallet i closure s = Returns (Done, ?s1)"
        using abort [OF True] fin id by (simp add: moving_to_def cancel_def FinalizingDeploymentState_cancel_def)
      moreover have "wallet_with i (dep_app ?s1) = Some w" using assms(1) by (simp add: wallet_with_def)
      moreover from this have "handle P I (WalletCreationFailed i) ?s1 = Returns (Done, ?s1\<lparr>exited := True\<rparr>)"
        by (simp add: executeInWallet_def crashTheApp_def)
      ultimately show ?thesis using True fin by (auto simp: aborts_def)
    next
      case other: False
      have "state w \<in> set creationStates - {draft} \<longrightarrow>
        (\<exists>s1. executeInWallet i closure s = Returns (Done, s1) \<and> wallet_with i (dep_app s1) = Some (w\<lparr>state := draft\<rparr>) \<and>
          events (app_world (dep_app s1)) = events (app_world (dep_app s)) @ [DeploymentAborted i] \<and> errorStream s1 = errorStream s @ [e])"
        using other abort [OF True] id cancel_moves [of w ?s] by (auto simp: creationStates_def find_id_save with_world_def wallet_with_def)
      with True other show ?thesis by (simp add: aborts_def)
    qed
  qed
qed

text \<open>
  The keys of the recovery phrase leave the device only if the second device was notified. After a wallet was created the two keys derived from the phrase
  are removed, and no other key. But the notification comes first: if it throws, whatever the error, the keys stay in the keychain, the wallet is ready as before, and no
  event is published that would lead to another attempt.
\<close>

theorem recovery_keys_removed_after_notification:
  assumes "wallet_with i (dep_app s) = Some w" "state w = readyToUse" "Wallet.owner w paperWallet = Some paper" "Wallet.owner w paperWalletDerived = Some derived"
  shows "case notifyWalletCreatedIfNeeded (dp_services P) i (dep_app s) of
      Returns _ \<Rightarrow> \<exists>s'. handle P I (WalletCreated i) s = Returns (Done, s') \<and>
        set (deviceKeys (app_world (dep_app s'))) = set (deviceKeys (app_world (dep_app s))) - {owner_address paper, owner_address derived} \<and>
        wallet_with i (dep_app s') = Some w
    | Throws e \<Rightarrow> handle P I (WalletCreated i) s = Returns (Done, s\<lparr>errorStream := errorStream s @ [e]\<rparr>)
    | Traps \<Rightarrow> handle P I (WalletCreated i) s = Traps"
proof -
  have id: "wallet_id w = i" using assms(1) find_id_SomeD by (auto simp: wallet_with_def)
  have w: "wallet_with i (remove_key a t) = wallet_with i t" for a t by (simp add: wallet_with_def remove_key_def find_id_def)
  show ?thesis
    using assms id
    by (auto simp: executeInWallet_def postProcessCreation_def calling_def moving_to_def cancel_def with_world_def w Let_def split: outcome.split)
      (auto simp: remove_key_def)
qed

subsection \<open>A deployment that gets its answers\<close>

text \<open>The relay service agrees to create the safe that the wallet asks for.\<close>

definition agreed :: "deployer \<Rightarrow> input \<Rightarrow> Wallet \<Rightarrow> Response \<Rightarrow> bool" where
  "agreed P I w response \<longleftrightarrow>
     (\<exists>request. SafeCreationRequest_init (dp_showUInt P) (in_salt I) (map owner_address (allOwners w)) (confirmationCount w) (fee_token w) =
         (Returns request :: (unit, _) outcome) \<and>
       in_create I request = Returns response \<and> validate (dp_packages P) (dp_parseUInt P) (dp_metadata P) response request = Returns ())"

definition prepared :: "deployer \<Rightarrow> Response \<Rightarrow> Wallet \<Rightarrow> Wallet" where
  "prepared P response w =
     w\<lparr>address := Some (Address (rsp_safe response)), minimumDeploymentTransactionAmount := Some (rsp_payment response),
       wallet_masterCopyAddress := Some (Address (rsp_masterCopy response)),
       contractVersion := masterCopy_version (dp_metadata P) (Address (rsp_masterCopy response))\<rparr>"

lemma prepare_works:
  assumes "agreed P I w response" "state w = deploying"
  defines "w1 \<equiv> (prepared P response w)\<lparr>state := waitingForFirstDeposit\<rparr>"
  shows "\<exists>s1. prepareSafeCreationTransaction P I w s = Returns (Done, w1, s1) \<and>
    app_world (dep_app s1) = publish (StartedWaitingForFirstDeposit (wallet_id w)) (save w1 (app_world (dep_app s)))"
proof -
  from assms(1) obtain request where
    r: "SafeCreationRequest_init (dp_showUInt P) (in_salt I) (map owner_address (allOwners w)) (confirmationCount w) (fee_token w) =
      (Returns request :: (ServiceError \<times> Wallet \<times> deployment, _) outcome)"
    and c: "in_create I request = Returns response"
    and v: "validate (dp_packages P) (dp_parseUInt P) (dp_metadata P) response request = Returns ()"
    by (auto simp: agreed_def SafeCreationRequest_init_def split: if_splits)
  from v have a: "safeAddress (dp_packages P) response = (Returns (Address (rsp_safe response)) :: (ServiceError \<times> Wallet \<times> deployment, _) outcome)"
    "rsp_masterCopyAddress (dp_packages P) response = (Returns (Address (rsp_masterCopy response)) :: (ServiceError \<times> Wallet \<times> deployment, _) outcome)"
    by (auto simp: validate_def safeAddress_def rsp_masterCopyAddress_def Address_init_def split: if_splits)
  obtain p a1 where "fetchOrCreatePortfolio (dep_app s) = (p, a1)" by (rule prod.exhaust)
  moreover from this have "app_world a1 = app_world (dep_app s)" by (auto simp: fetchOrCreatePortfolio_def split: option.splits)
  ultimately show ?thesis
    using r c v a assms(2)
    by (simp add: prepareSafeCreationTransaction_def calling_def moving_to_def proceed_def DeployingState_proceed_def Let_def changeContractVersion_def
        Wallet.changeMasterCopy_def updateMinimumTransactionAmount_def changeAddress_def WaitingForFirstDepositState_resume_def w1_def prepared_def)
qed

text \<open>A loop that goes on in every round of \<open>rs\<close> and stops itself in the next one.\<close>

lemma loop_until:
  assumes "\<And>r w s. r \<in> set rs \<Longrightarrow> J w s \<Longrightarrow> \<exists>w1 s1. repeat_turn check (rd_answers r) w s = Returns (False, w1, s1) \<and> J w1 s1"
    and "\<And>r. r \<in> set rs \<Longrightarrow> \<not> rd_stopped r"
    and "\<And>w s. J w s \<Longrightarrow> \<exists>w1 s1. repeat_turn check (rd_answers r) w s = Returns (True, w1, s1) \<and> K w1 s1"
    and "J w s"
  shows "\<exists>w1 s1. repeat_loop check (rs @ r # rest) w s = Returns (Done, w1, s1) \<and> K w1 s1"
  using assms
proof (induction rs arbitrary: w s)
  case Nil
  then show ?case by fastforce
next
  case (Cons q rs)
  obtain w1 s1 where t: "repeat_turn check (rd_answers q) w s = Returns (False, w1, s1)" "J w1 s1"
    using Cons.prems(1) [of q w s] Cons.prems(4) by auto
  moreover have "\<exists>w2 s2. repeat_loop check (rs @ r # rest) w1 s1 = Returns (Done, w2, s2) \<and> K w2 s2"
    by (rule Cons.IH [OF Cons.prems(1,2,3) t(2)]) simp_all
  ultimately show ?case using Cons.prems(2) [of q] by simp
qed

text \<open>Where a deployment stands: the stored wallet, the events and the keys, with an account row for the fee token.\<close>

definition stands :: "string \<Rightarrow> Wallet \<Rightarrow> DomainEvent list \<Rightarrow> Address list \<Rightarrow> deployment \<Rightarrow> bool" where
  "stands acc w es ks s \<longleftrightarrow>
     wallet_with (wallet_id w) (dep_app s) = Some w \<and> events (app_world (dep_app s)) = es \<and> deviceKeys (app_world (dep_app s)) = ks \<and>
     balance_with acc (dep_app s) \<noteq> None"

definition unblocked :: "Address \<Rightarrow> round \<Rightarrow> bool" where
  "unblocked a r \<longleftrightarrow>
     (case safeCreationTransactionBlock (an_created (rd_answers r)) a of Returns b \<Rightarrow> b = None | Throws _ \<Rightarrow> True | Traps \<Rightarrow> False)"

definition quiet_round :: "Address \<Rightarrow> round \<Rightarrow> bool" where
  "quiet_round a r \<longleftrightarrow> \<not> rd_stopped r \<and> unblocked a r"

text \<open>Rounds of answers \<open>waiting\<close>, as many as there are, and then one of the answers \<open>ok\<close>.\<close>

fun answers_after :: "Address \<Rightarrow> (answers \<Rightarrow> bool) \<Rightarrow> (answers \<Rightarrow> bool) \<Rightarrow> round list \<Rightarrow> bool" where
  "answers_after a waiting ok [] = False"
| "answers_after a waiting ok (r # rs) =
     (unblocked a r \<and> ok (rd_answers r) \<or> quiet_round a r \<and> waiting (rd_answers r) \<and> answers_after a waiting ok rs)"

lemma answers_after_split:
  assumes "answers_after a waiting ok rounds"
  obtains rs r rest where "rounds = rs @ r # rest" "\<forall>q\<in>set rs. quiet_round a q \<and> waiting (rd_answers q)" "unblocked a r" "ok (rd_answers r)"
  using assms
proof (induction a waiting ok rounds arbitrary: thesis rule: answers_after.induct)
  case (2 a waiting ok r rs)
  from 2(3) consider "unblocked a r" "ok (rd_answers r)" | "quiet_round a r" "waiting (rd_answers r)" "answers_after a waiting ok rs" by auto
  then show ?case
  proof cases
    case 1
    then show ?thesis using 2(2) [of "[]" r rs] by simp
  next
    case 2
    obtain ps q rest where "rs = ps @ q # rest" "\<forall>q\<in>set ps. quiet_round a q \<and> waiting (rd_answers q)" "unblocked a q" "ok (rd_answers q)"
      using "2.IH" 2(3) by blast
    with 2 show ?thesis using "2.prems"(1) [of "r # ps" q rest] by simp
  qed
qed simp

lemma unblocked_turn:
  assumes "unblocked a r" "address w = Some a"
  shows "repeat_turn check (rd_answers r) w s = check (rd_answers r) w s"
  using assms by (auto simp: repeat_turn_def isWalletAlreadyCreated_def unblocked_def split: outcome.splits)

lemma stands_save:
  assumes "stands acc w es ks s" "wallet_id w1 = wallet_id w"
  shows "stands acc w1 (es @ [e]) ks (with_world s (publish e (save w1 (app_world (dep_app s)))))"
  using assms by (simp add: stands_def find_id_save balance_with_def find_account_def) (simp add: save_def publish_def)

lemma updateBalance_works:
  assumes "stands (address_value (fee_token w) @ '':'' @ wallet_id w) w es ks s" "address w = Some a" "wallet_id w \<noteq> []" "address_value (fee_token w) \<noteq> []"
    "balance_answer P A a (fee_token w) = Returns b"
  shows "\<exists>s1. updateBalance P A w s = Returns (b, w, s1) \<and> stands (address_value (fee_token w) @ '':'' @ wallet_id w) w es ks s1 \<and>
    balance_with (address_value (fee_token w) @ '':'' @ wallet_id w) (dep_app s1) = Some (Some b)"
proof -
  let ?i = "address_value (fee_token w) @ '':'' @ wallet_id w"
  have "balance_with ?i (save_account (?i, Some b) t) = Some (Some b)" for t
    by (simp add: balance_with_save)
  with assms show ?thesis
    by (auto simp: updateBalance_def calling_def accountID_def stands_def Let_def) (simp_all add: save_account_def)
qed

abbreviation fee_account :: "Wallet \<Rightarrow> string" where
  "fee_account w \<equiv> address_value (fee_token w) @ '':'' @ wallet_id w"

lemma fee_account_state [simp]: "fee_token (w\<lparr>state := st\<rparr>) = fee_token w"
  by (simp add: fee_token_def)

lemma executeInWallet_returns:
  "wallet_with i (dep_app s) = Some w \<Longrightarrow> closure w s = Returns (p, w1, s1) \<Longrightarrow> executeInWallet i closure s = Returns (p, s1)"
  by (simp add: executeInWallet_def)

lemma moved_stands:
  assumes "stands acc w es ks s" "wallet_id w1 = wallet_id w"
    "t w (app_world (dep_app s)) = Returns (w1, publish e (save w1 (app_world (dep_app s))))"
  shows "\<exists>s1. moving_to t w s = Returns ((), w1, s1) \<and> stands acc w1 (es @ [e]) ks s1"
  using stands_save [OF assms(1,2), of e] assms(3) by (simp add: moving_to_def)

lemma proceed_first_deposit:
  assumes "stands (fee_account w) w es ks s" "state w = waitingForFirstDeposit" "minimumDeploymentTransactionAmount w = Some m"
    "wallet_id w \<noteq> []" "address_value (fee_token w) \<noteq> []" "balance_with (fee_account w) (dep_app s) = Some (Some b)"
  defines "w1 \<equiv> w\<lparr>state := if b < m then notEnoughFunds else creationStarted\<rparr>"
  shows "\<exists>s1. moving_to proceed w s = Returns ((), w1, s1) \<and>
    stands (fee_account w) w1 (es @ [(if b < m then StartedWaitingForRemainingFeeAmount else DeploymentFunded) (wallet_id w)]) ks s1"
  using assms(2-)
  by (intro moved_stands [OF assms(1)])
    (simp_all add: proceed_def first_deposit [OF assms(3-5)] balance_with_def funded_def Let_def)

text \<open>The deposits: nothing in the rounds of \<open>rs\<close>, then the fee or a part of it; too little in the next rounds, then enough.\<close>

lemma first_deposit_handled:
  assumes "stands (fee_account w) w es ks s" "state w = waitingForFirstDeposit" "minimumDeploymentTransactionAmount w = Some m"
    "wallet_id w \<noteq> []" "address_value (fee_token w) \<noteq> []" "address w = Some a"
    and "in_rounds I = rs @ r # rest" "\<forall>q\<in>set rs. quiet_round a q \<and> balance_answer P (rd_answers q) a (fee_token w) = Returns 0"
    and "unblocked a r" "balance_answer P (rd_answers r) a (fee_token w) = Returns b" "0 < b"
  defines "w1 \<equiv> w\<lparr>state := if b < m then notEnoughFunds else creationStarted\<rparr>"
    and "e \<equiv> (if b < m then StartedWaitingForRemainingFeeAmount else DeploymentFunded) (wallet_id w)"
  shows "\<exists>s1. handle P I (StartedWaitingForFirstDeposit (wallet_id w)) s = Returns (Done, s1) \<and> stands (fee_account w) w1 (es @ [e]) ks s1"
proof -
  let ?J = "\<lambda>v t. v = w \<and> stands (fee_account w) w es ks t" and ?K = "\<lambda>v t. v = w1 \<and> stands (fee_account w) w1 (es @ [e]) ks t"
  have "\<exists>w1 s1. repeat_loop (checkDidReceiveFirstDeposit P) (rs @ r # rest) w s = Returns (Done, w1, s1) \<and> ?K w1 s1"
  proof (rule loop_until [where J = ?J])
    fix q v t assume "q \<in> set rs" "?J v t"
    with assms(8) have q: "unblocked a q" "balance_answer P (rd_answers q) a (fee_token w) = Returns 0" "v = w" "?J w t"
      by (auto simp: quiet_round_def)
    then have "stands (fee_account w) w es ks t" by simp
    from updateBalance_works [OF this assms(6,4,5) q(2)] obtain t1 where
      "updateBalance P (rd_answers q) w t = Returns (0, w, t1)" "stands (fee_account w) w es ks t1" by blast
    then show "\<exists>w1 s1. repeat_turn (checkDidReceiveFirstDeposit P) (rd_answers q) v t =
        Returns (False, w1, s1) \<and> ?J w1 s1"
      using assms(2) by (auto simp: q(3) unblocked_turn [OF q(1) assms(6)] checkDidReceiveFirstDeposit_def isWaitingForFirstDeposit_def)
  next
    fix v t assume "?J v t"
    then have J: "v = w" "stands (fee_account w) w es ks t" by simp_all
    obtain t1 where t1: "updateBalance P (rd_answers r) w t = Returns (b, w, t1)" "stands (fee_account w) w es ks t1"
      "balance_with (fee_account w) (dep_app t1) = Some (Some b)"
      using updateBalance_works [OF J(2) assms(6,4,5,10)] by blast
    from proceed_first_deposit [OF t1(2) assms(2-5) t1(3)] t1(1) assms(2,11)
    show "\<exists>w1 s1. repeat_turn (checkDidReceiveFirstDeposit P) (rd_answers r) v t = Returns (True, w1, s1) \<and> ?K w1 s1"
      unfolding w1_def e_def by (auto simp: J(1) unblocked_turn [OF assms(9,6)] checkDidReceiveFirstDeposit_def isWaitingForFirstDeposit_def)
  qed (use assms(1,8) in \<open>auto simp: quiet_round_def\<close>)
  with assms(1,7) show ?thesis by (auto simp: waitForFirstDeposit_def stands_def intro: executeInWallet_returns)
qed

lemma funding_handled:
  assumes "stands (fee_account w) w es ks s" "state w = notEnoughFunds" "minimumDeploymentTransactionAmount w = Some m"
    "wallet_id w \<noteq> []" "address_value (fee_token w) \<noteq> []" "address w = Some a"
    and "in_rounds I = rs @ r # rest" "\<forall>q\<in>set rs. quiet_round a q \<and> (\<exists>b<m. balance_answer P (rd_answers q) a (fee_token w) = Returns b)"
    and "unblocked a r" "balance_answer P (rd_answers r) a (fee_token w) = Returns b" "m \<le> b"
  shows "\<exists>s1. handle P I (StartedWaitingForRemainingFeeAmount (wallet_id w)) s = Returns (Done, s1) \<and>
    stands (fee_account w) (w\<lparr>state := creationStarted\<rparr>) (es @ [DeploymentFunded (wallet_id w)]) ks s1"
proof -
  let ?w1 = "w\<lparr>state := creationStarted\<rparr>" and ?J = "\<lambda>v t. v = w \<and> stands (fee_account w) w es ks t"
  let ?K = "\<lambda>v t. v = ?w1 \<and> stands (fee_account w) ?w1 (es @ [DeploymentFunded (wallet_id w)]) ks t"
  have "\<exists>w1 s1. repeat_loop (checkHasMinimumAmount P) (rs @ r # rest) w s = Returns (Done, w1, s1) \<and> ?K w1 s1"
  proof (rule loop_until [where J = ?J])
    fix q v t assume "q \<in> set rs" "?J v t"
    with assms(8) obtain c where q: "unblocked a q" "balance_answer P (rd_answers q) a (fee_token w) = Returns c" "c < m" "v = w" "?J w t"
      by (auto simp: quiet_round_def)
    then have "stands (fee_account w) w es ks t" by simp
    from updateBalance_works [OF this assms(6,4,5) q(2)] obtain t1 where
      "updateBalance P (rd_answers q) w t = Returns (c, w, t1)" "stands (fee_account w) w es ks t1" by blast
    with q(3) show "\<exists>w1 s1. repeat_turn (checkHasMinimumAmount P) (rd_answers q) v t =
        Returns (False, w1, s1) \<and> ?J w1 s1"
      using assms(2,3) by (auto simp: q(4) unblocked_turn [OF q(1) assms(6)] checkHasMinimumAmount_def isWaitingForFunding_def)
  next
    fix v t assume "?J v t"
    then have J: "v = w" "stands (fee_account w) w es ks t" by simp_all
    obtain t1 where t1: "updateBalance P (rd_answers r) w t = Returns (b, w, t1)" "stands (fee_account w) w es ks t1"
      using updateBalance_works [OF J(2) assms(6,4,5,10)] by blast
    have "\<exists>t2. moving_to proceed w t1 = Returns ((), ?w1, t2) \<and> stands (fee_account w) ?w1 (es @ [DeploymentFunded (wallet_id w)]) ks t2"
      using assms(2) by (intro moved_stands [OF t1(2)]) (simp_all add: proceed_def NotEnoughFundsState_proceed_def CreationStartedState_resume_def Let_def)
    with t1(1) assms(2,3,11)
    show "\<exists>w1 s1. repeat_turn (checkHasMinimumAmount P) (rd_answers r) v t = Returns (True, w1, s1) \<and> ?K w1 s1"
      by (auto simp: J(1) unblocked_turn [OF assms(9,6)] checkHasMinimumAmount_def isWaitingForFunding_def)
  qed (use assms(1,8) in \<open>auto simp: quiet_round_def\<close>)
  with assms(1,7) show ?thesis by (auto simp: waitForRemainingFeeAmount_def stands_def intro: executeInWallet_returns)
qed

lemma hash_polled:
  assumes "stands acc w es ks s" "state w = finalizingDeployment" "address w = Some a"
    and "\<forall>q\<in>set rs. quiet_round a q \<and> transactionHash_answer P (rd_answers q) a = Returns None"
    and "unblocked a r" "transactionHash_answer P (rd_answers r) a = Returns (Some h)"
  shows "\<exists>s1. repeat_loop (checkHasSubmittedTransaction P) (rs @ r # rest) w s = Returns (Done, w\<lparr>creationTransactionHash := Some h\<rparr>, s1) \<and>
    stands acc (w\<lparr>creationTransactionHash := Some h\<rparr>) (es @ [WalletTransactionHashIsKnown (wallet_id w)]) ks s1"
proof -
  let ?w1 = "w\<lparr>creationTransactionHash := Some h\<rparr>" and ?J = "\<lambda>v t. v = w \<and> stands acc w es ks t"
  let ?K = "\<lambda>v t. v = ?w1 \<and> stands acc ?w1 (es @ [WalletTransactionHashIsKnown (wallet_id w)]) ks t"
  have "\<exists>w1 s1. repeat_loop (checkHasSubmittedTransaction P) (rs @ r # rest) w s = Returns (Done, w1, s1) \<and> ?K w1 s1"
  proof (rule loop_until [where J = ?J])
    fix q v t assume "q \<in> set rs" "?J v t"
    with assms(4) have q: "unblocked a q" "transactionHash_answer P (rd_answers q) a = Returns None" "v = w" "?J w t"
      by (auto simp: quiet_round_def)
    then show "\<exists>w1 s1. repeat_turn (checkHasSubmittedTransaction P) (rd_answers q) v t = Returns (False, w1, s1) \<and> ?J w1 s1"
      using assms(2,3) by (auto simp: unblocked_turn [OF q(1) assms(3)] checkHasSubmittedTransaction_def isFinalizingDeployment_def calling_def)
  next
    fix v t assume "?J v t"
    then have "v = w" "stands acc ?w1 (es @ [WalletTransactionHashIsKnown (wallet_id w)]) ks
        (t\<lparr>dep_app := publish_event (WalletTransactionHashIsKnown (wallet_id w)) (save_wallet ?w1 (dep_app t))\<rparr>)"
      using stands_save [of acc w es ks t ?w1] by (simp_all add: with_world_def publish_event_def save_wallet_def)
    then show "\<exists>w1 s1. repeat_turn (checkHasSubmittedTransaction P) (rd_answers r) v t = Returns (True, w1, s1) \<and> ?K w1 s1"
      using assms(2,3,6) by (simp add: unblocked_turn [OF assms(5,3)] checkHasSubmittedTransaction_def isFinalizingDeployment_def calling_def
        assignCreationTransaction_def Let_def)
  qed (use assms(1,4) in \<open>auto simp: quiet_round_def\<close>)
  then show ?thesis by blast
qed

lemma receipt_polled:
  assumes "stands acc w es ks s" "state w = finalizingDeployment" "address w = Some a" "creationTransactionHash w = Some h"
    and "\<forall>q\<in>set rs. quiet_round a q \<and> receipt_answer P (rd_answers q) h = Returns None"
    and "unblocked a r" "receipt_answer P (rd_answers r) h = Returns (Some receipt)" "receipt_success receipt"
  shows "\<exists>s1. repeat_loop (checkHasMinedTransaction P) (rs @ r # rest) w s = Returns (Done, w\<lparr>state := readyToUse\<rparr>, s1) \<and>
    stands acc (w\<lparr>state := readyToUse\<rparr>) (es @ [WalletCreated (wallet_id w)]) ks s1"
proof -
  let ?w1 = "w\<lparr>state := readyToUse\<rparr>" and ?J = "\<lambda>v t. v = w \<and> stands acc w es ks t"
  let ?K = "\<lambda>v t. v = ?w1 \<and> stands acc ?w1 (es @ [WalletCreated (wallet_id w)]) ks t"
  have "\<exists>w1 s1. repeat_loop (checkHasMinedTransaction P) (rs @ r # rest) w s = Returns (Done, w1, s1) \<and> ?K w1 s1"
  proof (rule loop_until [where J = ?J])
    fix q v t assume "q \<in> set rs" "?J v t"
    with assms(5) have q: "unblocked a q" "receipt_answer P (rd_answers q) h = Returns None" "v = w" "?J w t"
      by (auto simp: quiet_round_def)
    then show "\<exists>w1 s1. repeat_turn (checkHasMinedTransaction P) (rd_answers q) v t = Returns (False, w1, s1) \<and> ?J w1 s1"
      using assms(2,4) by (auto simp: unblocked_turn [OF q(1) assms(3)] checkHasMinedTransaction_def isFinalizingDeployment_def calling_def)
  next
    fix v t assume "?J v t"
    then have J: "v = w" "stands acc w es ks t" by simp_all
    have "\<exists>t1. moving_to proceed w t = Returns ((), ?w1, t1) \<and> stands acc ?w1 (es @ [WalletCreated (wallet_id w)]) ks t1"
      using assms(2) by (intro moved_stands [OF J(2)]) (simp_all add: proceed_def FinalizingDeploymentState_proceed_def Let_def)
    then show "\<exists>w1 s1. repeat_turn (checkHasMinedTransaction P) (rd_answers r) v t = Returns (True, w1, s1) \<and> ?K w1 s1"
      using assms(2,4,7,8)
      by (auto simp: J(1) unblocked_turn [OF assms(6,3)] checkHasMinedTransaction_def isFinalizingDeployment_def calling_def)
  qed (use assms(1,5) in \<open>auto simp: quiet_round_def\<close>)
  then show ?thesis by blast
qed

lemma creation_handled:
  assumes "stands acc w es ks s" "state w = finalizingDeployment" "address w = Some a" "creationTransactionHash w = None"
    and "in_rounds I = rs @ r # rest" "\<forall>q\<in>set rs. quiet_round a q \<and> transactionHash_answer P (rd_answers q) a = Returns None"
    and "unblocked a r" "transactionHash_answer P (rd_answers r) a = Returns (Some h)"
    and "in_rounds2 I = rs' @ r' # rest'" "\<forall>q\<in>set rs'. quiet_round a q \<and> receipt_answer P (rd_answers q) h = Returns None"
    and "unblocked a r'" "receipt_answer P (rd_answers r') h = Returns (Some receipt)" "receipt_success receipt"
  defines "w1 \<equiv> w\<lparr>state := readyToUse, creationTransactionHash := Some h\<rparr>"
  shows "\<exists>s1. handle P I (CreationStarted (wallet_id w)) s = Returns (Done, s1) \<and>
    stands acc w1 (es @ [WalletTransactionHashIsKnown (wallet_id w), WalletCreated (wallet_id w)]) ks s1"
proof -
  let ?v = "w\<lparr>creationTransactionHash := Some h\<rparr>"
  obtain t where t: "repeat_loop (checkHasSubmittedTransaction P) (in_rounds I) w s = Returns (Done, ?v, t)"
    "stands acc ?v (es @ [WalletTransactionHashIsKnown (wallet_id w)]) ks t"
    using hash_polled [OF assms(1-3,6-8), of rest] unfolding assms(5) by blast
  obtain u where "repeat_loop (checkHasMinedTransaction P) (in_rounds2 I) ?v t = Returns (Done, ?v\<lparr>state := readyToUse\<rparr>, u)"
    "stands acc (?v\<lparr>state := readyToUse\<rparr>) ((es @ [WalletTransactionHashIsKnown (wallet_id w)]) @ [WalletCreated (wallet_id w)]) ks u"
    using receipt_polled [OF t(2) _ _ _ _ assms(11-13), of rs' rest'] assms(2,3,10) unfolding assms(9) by auto
  moreover have "?v\<lparr>state := readyToUse\<rparr> = w1" by (simp add: w1_def)
  moreover have "wallet_with (wallet_id w) (dep_app s) = Some w" using assms(1) by (simp add: stands_def)
  ultimately show ?thesis
    using t(1) assms(2,4) by (auto simp: waitUntilWalletIsReady_def isReadyToUse_def intro!: executeInWallet_returns)
qed

lemma funded_handled:
  assumes "stands acc w es ks s" "state w = creationStarted" "address w = Some a" "in_startCreation I (address_value a) = Returns ()"
  shows "\<exists>s1. handle P I (DeploymentFunded (wallet_id w)) s = Returns (Done, s1) \<and>
    stands acc (w\<lparr>state := finalizingDeployment\<rparr>) (es @ [CreationStarted (wallet_id w)]) ks s1"
proof -
  obtain t where "moving_to proceed w s = Returns ((), w\<lparr>state := finalizingDeployment\<rparr>, t)"
    "stands acc (w\<lparr>state := finalizingDeployment\<rparr>) (es @ [CreationStarted (wallet_id w)]) ks t"
    using moved_stands [OF assms(1), of "w\<lparr>state := finalizingDeployment\<rparr>" proceed] assms(2)
    by (auto simp: proceed_def CreationStartedState_proceed_def FinalizingDeploymentState_resume_def Let_def)
  moreover have "wallet_with (wallet_id w) (dep_app s) = Some w" using assms(1) by (simp add: stands_def)
  ultimately show ?thesis
    using assms(3,4) by (auto simp: startSafeCreation_def calling_def intro!: executeInWallet_returns)
qed

lemma started_handled:
  assumes "stands acc w es ks s" "state w = deploying" "agreed P I w response"
  shows "\<exists>s1. handle P I (DeploymentStarted (wallet_id w)) s = Returns (Done, s1) \<and>
    stands acc ((prepared P response w)\<lparr>state := waitingForFirstDeposit\<rparr>) (es @ [StartedWaitingForFirstDeposit (wallet_id w)]) ks s1"
proof -
  let ?w1 = "(prepared P response w)\<lparr>state := waitingForFirstDeposit\<rparr>"
  obtain t where t: "prepareSafeCreationTransaction P I w s = Returns (Done, ?w1, t)"
    "app_world (dep_app t) = publish (StartedWaitingForFirstDeposit (wallet_id w)) (save ?w1 (app_world (dep_app s)))"
    using prepare_works [OF assms(3,2), of s] by blast
  have "stands acc ?w1 (es @ [StartedWaitingForFirstDeposit (wallet_id w)]) ks t"
    using stands_save [OF assms(1), of ?w1 "StartedWaitingForFirstDeposit (wallet_id w)"]
    by (simp add: stands_def wallet_with_def balance_with_def t(2) prepared_def)
  moreover have "wallet_with (wallet_id w) (dep_app s) = Some w" using assms(1) by (simp add: stands_def)
  ultimately show ?thesis using t(1) by (auto intro!: executeInWallet_returns)
qed

text \<open>The notification service signs and accepts the messages for the browser extension of \<open>w\<close>, if there is one.\<close>

definition extension_notified :: "services \<Rightarrow> Wallet \<Rightarrow> app \<Rightarrow> bool" where
  "extension_notified S w s \<longleftrightarrow> Wallet.owner w browserExtension \<noteq> None \<longrightarrow> signing_works S s \<and> (\<forall>r. sv_send S r = Returns ())"

lemma notify_accepted:
  assumes "wallet_with i s = Some w" "extension_notified S w s"
  shows "notifyWalletCreatedIfNeeded S i s = Returns ()"
proof (cases "Wallet.owner w browserExtension")
  case (Some ext)
  then have works: "signing_works S s" "\<And>r. sv_send S r = Returns ()" using assms(2) by (simp_all add: extension_notified_def)
  have "\<exists>sg. sign_message S m a s = (Returns (Some sg) :: (ServiceError, _) outcome)" if "find_key S a s \<noteq> None" for m a
    using sign_message_works [OF works(1), of m a, where ?'e = ServiceError] that by auto
  then show ?thesis
    using assms(1) Some works(2) by (fastforce simp: notifyWalletCreatedIfNeeded_def Let_def split: option.split)
qed (use assms(1) in \<open>simp add: notifyWalletCreatedIfNeeded_def split: option.split\<close>)

lemma created_handled:
  assumes "stands acc w es ks s" "Wallet.owner w paperWallet = Some paper" "Wallet.owner w paperWalletDerived = Some derived"
    "extension_notified (dp_services P) w (dep_app s)"
  shows "\<exists>s1. handle P I (WalletCreated (wallet_id w)) s = Returns (Done, s1) \<and>
    stands acc w es (filter (\<lambda>k. k \<noteq> owner_address paper \<and> k \<noteq> owner_address derived) ks) s1"
proof -
  have w: "wallet_with (wallet_id w) (dep_app s) = Some w" using assms(1) by (simp add: stands_def)
  show ?thesis
    using assms(1-3) w notify_accepted [OF w assms(4)]
    by (auto simp: executeInWallet_def postProcessCreation_def calling_def stands_def balance_with_def find_account_def wallet_with_def find_id_def remove_key_def)
qed

fun run_events :: "deployer \<Rightarrow> (DomainEvent \<times> input) list \<Rightarrow> deployment \<Rightarrow> (unit, deployment) outcome" where
  "run_events P [] s = Returns s"
| "run_events P ((e, I) # xs) s = bindO (handle P I e s) (\<lambda>(_, s1). run_events P xs s1)"

lemma run_events_append: "run_events P (xs @ ys) s = bindO (run_events P xs s) (run_events P ys)"
  by (induction xs arbitrary: s) (auto simp: case_prod_unfold simp del: handle.simps)

text \<open>The waiting for the deposits: one handling if the first deposit is enough, and otherwise two.\<close>

lemma deposits_handled:
  assumes "stands (fee_account w) w es ks s" "state w = waitingForFirstDeposit" "minimumDeploymentTransactionAmount w = Some m"
    "wallet_id w \<noteq> []" "address_value (fee_token w) \<noteq> []" "address w = Some a"
    and "answers_after a (\<lambda>A. balance_answer P A a (fee_token w) = Returns 0) (\<lambda>A. balance_answer P A a (fee_token w) = Returns b) (in_rounds I)" "0 < b"
    and "b < m \<longrightarrow> answers_after a (\<lambda>A. \<exists>c<m. balance_answer P A a (fee_token w) = Returns c) (\<lambda>A. \<exists>c\<ge>m. balance_answer P A a (fee_token w) = Returns c) (in_rounds I')"
  shows "\<exists>s1. run_events P ((StartedWaitingForFirstDeposit (wallet_id w), I) # (if b < m then [(StartedWaitingForRemainingFeeAmount (wallet_id w), I')] else [])) s = Returns s1 \<and>
    stands (fee_account w) (w\<lparr>state := creationStarted\<rparr>)
      (es @ (if b < m then [StartedWaitingForRemainingFeeAmount (wallet_id w)] else []) @ [DeploymentFunded (wallet_id w)]) ks s1"
proof -
  let ?w1 = "w\<lparr>state := if b < m then notEnoughFunds else creationStarted\<rparr>"
  obtain rs r rest where r: "in_rounds I = rs @ r # rest" "\<forall>q\<in>set rs. quiet_round a q \<and> balance_answer P (rd_answers q) a (fee_token w) = Returns 0"
    "unblocked a r" "balance_answer P (rd_answers r) a (fee_token w) = Returns b"
    using answers_after_split [OF assms(7)] .
  obtain s1 where s1: "handle P I (StartedWaitingForFirstDeposit (wallet_id w)) s = Returns (Done, s1)"
    "stands (fee_account w) ?w1 (es @ [(if b < m then StartedWaitingForRemainingFeeAmount else DeploymentFunded) (wallet_id w)]) ks s1"
    using first_deposit_handled [OF assms(1-6) r assms(8)] by blast
  show ?thesis
  proof (cases "b < m")
    case True
    then obtain rs r rest c where r: "in_rounds I' = rs @ r # rest" "\<forall>q\<in>set rs. quiet_round a q \<and> (\<exists>c<m. balance_answer P (rd_answers q) a (fee_token w) = Returns c)"
      "unblocked a r" "balance_answer P (rd_answers r) a (fee_token w) = Returns c" "m \<le> c"
      using answers_after_split [OF assms(9) [rule_format, OF True]] by metis
    have "\<exists>s2. handle P I' (StartedWaitingForRemainingFeeAmount (wallet_id w)) s1 = Returns (Done, s2) \<and>
        stands (fee_account w) (w\<lparr>state := creationStarted\<rparr>) ((es @ [StartedWaitingForRemainingFeeAmount (wallet_id w)]) @ [DeploymentFunded (wallet_id w)]) ks s2"
      using funding_handled [of ?w1 "es @ [StartedWaitingForRemainingFeeAmount (wallet_id w)]" ks s1 m a I' rs r rest P c] True s1(2) r assms(3-6) by simp
    with s1(1) True show ?thesis by (auto simp del: handle.simps)
  qed (use s1 in \<open>auto simp del: handle.simps\<close>)
qed

text \<open>
  (C13) A deployment whose services answer ends with a wallet ready to use. Let the relay service agree to create the safe at address \<open>a\<close> for the fee \<open>m\<close>;
  let the first deposit arrive after any number of rounds without one, and, if it is less than the fee, enough after any number of further rounds; let the relay service accept the request to start and report the
  hash \<open>h\<close> of the creation transaction after any number of rounds, and let the node return a successful receipt for it after any number of rounds. In these rounds no query fails and the relay service does not report the safe as created in
  another way. If the wallet has a browser extension, let the keys on the device sign and the notification service accept what is sent to it. Then the handlings of the events return, each of them publishes
  the event that the next one handles, and at the end the stored wallet is ready with that address and hash and the keys of the recovery phrase are gone from the device.
\<close>

theorem deployment_completes:
  assumes "wallet_with i (dep_app s) = Some w" "state w = deploying" "creationTransactionHash w = None" "i \<noteq> []" "address_value (fee_token w) \<noteq> []"
    and "balance_with (address_value (fee_token w) @ '':'' @ i) (dep_app s) \<noteq> None"
    and "Wallet.owner w paperWallet = Some paper" "Wallet.owner w paperWalletDerived = Some derived" "extension_notified (dp_services P) w (dep_app s)"
    and "agreed P I1 w response" "a = Address (rsp_safe response)" "m = rsp_payment response"
    and "answers_after a (\<lambda>A. balance_answer P A a (fee_token w) = Returns 0) (\<lambda>A. balance_answer P A a (fee_token w) = Returns b) (in_rounds I2)" "0 < b"
    and "b < m \<longrightarrow> answers_after a (\<lambda>A. \<exists>c<m. balance_answer P A a (fee_token w) = Returns c) (\<lambda>A. \<exists>c\<ge>m. balance_answer P A a (fee_token w) = Returns c) (in_rounds I3)"
    and "in_startCreation I4 (address_value a) = Returns ()"
    and "answers_after a (\<lambda>A. transactionHash_answer P A a = Returns None) (\<lambda>A. transactionHash_answer P A a = Returns (Some h)) (in_rounds I5)"
    and "answers_after a (\<lambda>A. receipt_answer P A h = Returns None) (\<lambda>A. \<exists>receipt. receipt_answer P A h = Returns (Some receipt) \<and> receipt_success receipt) (in_rounds2 I5)"
  shows "\<exists>s' w'. run_events P ([(DeploymentStarted i, I1), (StartedWaitingForFirstDeposit i, I2)] @ (if b < m then [(StartedWaitingForRemainingFeeAmount i, I3)] else []) @
      [(DeploymentFunded i, I4), (CreationStarted i, I5), (WalletCreated i, I6)]) s = Returns s' \<and>
    wallet_with i (dep_app s') = Some w' \<and> isReadyToUse w' \<and> address w' = Some a \<and> creationTransactionHash w' = Some h \<and> owners w' = owners w \<and>
    events (app_world (dep_app s')) = events (app_world (dep_app s)) @ [StartedWaitingForFirstDeposit i] @ (if b < m then [StartedWaitingForRemainingFeeAmount i] else []) @
      [DeploymentFunded i, CreationStarted i, WalletTransactionHashIsKnown i, WalletCreated i] \<and>
    owner_address paper \<notin> set (deviceKeys (app_world (dep_app s'))) \<and> owner_address derived \<notin> set (deviceKeys (app_world (dep_app s')))"
proof -
  let ?acc = "fee_account w" and ?es = "events (app_world (dep_app s))" and ?ks = "deviceKeys (app_world (dep_app s))"
  let ?es2 = "(?es @ [StartedWaitingForFirstDeposit i]) @ (if b < m then [StartedWaitingForRemainingFeeAmount i] else []) @ [DeploymentFunded i]"
  let ?es4 = "(?es2 @ [CreationStarted i]) @ [WalletTransactionHashIsKnown i, WalletCreated i]"
  define w1 where "w1 = (prepared P response w)\<lparr>state := waitingForFirstDeposit\<rparr>"
  define w2 where "w2 = w1\<lparr>state := creationStarted\<rparr>"
  define w3 where "w3 = w2\<lparr>state := finalizingDeployment\<rparr>"
  define w4 where "w4 = w3\<lparr>state := readyToUse, creationTransactionHash := Some h\<rparr>"
  note w_defs = w4_def w3_def w2_def w1_def prepared_def
  have i: "wallet_id w = i" using assms(1) find_id_SomeD by (auto simp: wallet_with_def)
  have same: "wallet_id w1 = i" "fee_token w1 = fee_token w" "minimumDeploymentTransactionAmount w1 = Some m" "address w1 = Some a" "state w1 = waitingForFirstDeposit"
    "wallet_id w2 = i" "address w2 = Some a" "state w2 = creationStarted"
    "wallet_id w3 = i" "address w3 = Some a" "state w3 = finalizingDeployment" "creationTransactionHash w3 = None"
    "wallet_id w4 = i" "Wallet.owner w4 role = Wallet.owner w role" for role
    using i assms(3,11,12) by (simp_all add: w_defs fee_token_def Wallet.owner_def)
  have s0: "stands ?acc w ?es ?ks s" using assms(1,6) i by (simp add: stands_def)
  obtain s1 where s1: "handle P I1 (DeploymentStarted i) s = Returns (Done, s1)" "stands ?acc w1 (?es @ [StartedWaitingForFirstDeposit i]) ?ks s1"
    using started_handled [OF s0 assms(2,10)] i by (auto simp: w1_def)
  obtain s2 where s2: "run_events P ((StartedWaitingForFirstDeposit i, I2) # (if b < m then [(StartedWaitingForRemainingFeeAmount i, I3)] else [])) s1 = Returns s2"
    "stands ?acc w2 ?es2 ?ks s2"
    using deposits_handled [of w1 _ _ s1, where P = P, OF _ same(5,3) _ _ same(4), unfolded same(1,2), of "?es @ [StartedWaitingForFirstDeposit i]" ?ks b I2 I3]
      s1(2) assms(4,5,13-15) i by (auto simp: w2_def simp del: run_events.simps)
  obtain s3 where s3: "handle P I4 (DeploymentFunded i) s2 = Returns (Done, s3)" "stands ?acc w3 (?es2 @ [CreationStarted i]) ?ks s3"
    using funded_handled [OF s2(2) same(8,7) assms(16)] same by (auto simp: w3_def)
  obtain s4 where s4: "handle P I5 (CreationStarted i) s3 = Returns (Done, s4)" "stands ?acc w4 ?es4 ?ks s4"
    using answers_after_split [OF assms(17)] answers_after_split [OF assms(18)] creation_handled [OF s3(2) same(11,10,12)] unfolding same(9) w4_def by metis
  have "extension_notified (dp_services P) w4 (dep_app s4)"
    using assms(9) s4(2) signing_works_keys by (fastforce simp: extension_notified_def same stands_def)
  then obtain s5 where s5: "handle P I6 (WalletCreated i) s4 = Returns (Done, s5)"
    "stands ?acc w4 ?es4 (filter (\<lambda>k. k \<noteq> owner_address paper \<and> k \<noteq> owner_address derived) ?ks) s5"
    using created_handled [OF s4(2), of paper derived P I6] assms(7,8) same by auto
  have ends: "run_events P [(DeploymentStarted i, I1)] s = Returns s1" "run_events P [(DeploymentFunded i, I4), (CreationStarted i, I5), (WalletCreated i, I6)] s2 = Returns s5"
    using s1(1) s3(1) s4(1) s5(1) by (simp_all del: handle.simps)
  have "run_events P ([(DeploymentStarted i, I1)] @ ((StartedWaitingForFirstDeposit i, I2) # (if b < m then [(StartedWaitingForRemainingFeeAmount i, I3)] else [])) @
      [(DeploymentFunded i, I4), (CreationStarted i, I5), (WalletCreated i, I6)]) s = Returns s5"
    by (simp only: run_events_append ends s2(1) bindO.simps)
  moreover have "isReadyToUse w4" "address w4 = Some a" "creationTransactionHash w4 = Some h" "owners w4 = owners w"
    using same by (simp_all add: w_defs isReadyToUse_def assms(11))
  moreover have "wallet_with i (dep_app s5) = Some w4" "events (app_world (dep_app s5)) = ?es4"
    "owner_address paper \<notin> set (deviceKeys (app_world (dep_app s5)))" "owner_address derived \<notin> set (deviceKeys (app_world (dep_app s5)))"
    using s5(2) same by (simp_all add: stands_def)
  ultimately show ?thesis by (simp del: run_events.simps)
qed

text \<open>
  An error after the deposit abandons the deposit. Let the relay service answer the request to start the creation of a funded safe with an error that
  aborts, a failed HTTP request for example. Then the wallet is a draft again, and the next start of the service prepares the creation from the beginning: with a new
  salt the relay service answers with a new address, which overwrites the address that was paid to.
\<close>

theorem funded_deposit_abandoned:
  assumes "wallet_with i (dep_app s) = Some w" "walletRows (app_world (dep_app s)) = [w]" "state w = creationStarted" "address w = Some a"
    and "hasAllRoles w" "length (allOwners w) \<in> {3, 4}" "in_startCreation I (address_value a) = Throws e" "aborts e"
    and "agreed P I' (w\<lparr>confirmationCount := int (length (allOwners w)) - 2, state := deploying\<rparr>) response"
  shows "\<exists>s1 s2 s3 w3. handle P I (DeploymentFunded i) s = Returns (Done, s1) \<and> wallet_with i (dep_app s1) = Some (w\<lparr>state := draft\<rparr>) \<and>
    deployment_start s1 = Returns s2 \<and> last (events (app_world (dep_app s2))) = DeploymentStarted i \<and>
    handle P I' (DeploymentStarted i) s2 = Returns (Done, s3) \<and> wallet_with i (dep_app s3) = Some w3 \<and>
    state w3 = waitingForFirstDeposit \<and> address w3 = Some (Address (rsp_safe response))"
proof -
  have i: "wallet_id w = i" using assms(1) find_id_SomeD by (auto simp: wallet_with_def)
  let ?s = "s\<lparr>errorStream := errorStream s @ [e]\<rparr>" and ?w1 = "w\<lparr>state := draft\<rparr>"
  let ?w2 = "w\<lparr>confirmationCount := int (length (allOwners w)) - 2, state := deploying\<rparr>"
  define s1 where "s1 = with_world ?s (publish (DeploymentAborted i) (save ?w1 (app_world (dep_app s))))"
  define s2 where "s2 = with_world s1 (publish (DeploymentStarted i) (save ?w2 (app_world (dep_app s1))))"
  have "startSafeCreation P I w s = Throws (e, w, s)" using assms(4,7) by (simp add: startSafeCreation_def calling_def)
  then have h1: "handle P I (DeploymentFunded i) s = Returns (Done, s1)"
    using assms(1,3,8) i cancel_moves [of w ?s] by (simp add: executeInWallet_def s1_def)
  have rows: "walletRows (app_world (dep_app s1)) = [?w1]" using assms(2) by (simp add: s1_def save_def publish_def)
  have "allOwners ?w1 = allOwners w" "hasAllRoles ?w1" using assms(5) by (simp_all add: allOwners_def hasAllRoles_def Wallet.owner_def)
  then have "resume ?w1 (app_world (dep_app s1)) = (Returns (?w2, publish (DeploymentStarted i) (save ?w2 (app_world (dep_app s1)))) :: (unit, _) outcome)"
    using assms(6) i by (auto simp: resume_def DraftState_resume_def DraftState_proceed_def DeployingState_resume_def changeConfirmationCount_def
      requiredRoles_def Let_def)
  then have h2: "deployment_start s1 = Returns s2"
    using rows by (simp add: deployment_start_def filter_by_states_def creationStates_def s2_def)
  have w2: "wallet_with i (dep_app s2) = Some ?w2" using i by (simp add: s2_def find_id_save)
  obtain s3 where s3: "prepareSafeCreationTransaction P I' ?w2 s2 = Returns (Done, (prepared P response ?w2)\<lparr>state := waitingForFirstDeposit\<rparr>, s3)"
    "app_world (dep_app s3) = publish (StartedWaitingForFirstDeposit (wallet_id ?w2)) (save ((prepared P response ?w2)\<lparr>state := waitingForFirstDeposit\<rparr>)
      (app_world (dep_app s2)))"
    using prepare_works [OF assms(9), of s2] by auto
  have "handle P I' (DeploymentStarted i) s2 = Returns (Done, s3)" using w2 s3(1) by (simp add: executeInWallet_def)
  moreover have "wallet_with i (dep_app s3) = Some ((prepared P response ?w2)\<lparr>state := waitingForFirstDeposit\<rparr>)"
    using i s3(2) by (simp add: wallet_with_def find_id_save prepared_def)
  moreover have "wallet_with i (dep_app s1) = Some ?w1" using i by (simp add: s1_def find_id_save)
  ultimately show ?thesis using h1 h2 by (auto simp: s2_def prepared_def)
qed

subsection \<open>Samples\<close>

definition sampleDeployer :: deployer where
  "sampleDeployer =
     \<lparr>dp_services = sampleServices\<lparr>sv_env := sampleEnv\<lparr>env_metadata := sampleMetadata\<rparr>\<rparr>, dp_config = Configuration_standard,
      dp_showUInt = nat_hex, dp_parseUInt = (\<lambda>_. Some 3)\<rparr>"

abbreviation deploy_address :: "nat \<Rightarrow> Address" where
  "deploy_address n \<equiv> uint_address samplePackages n"

definition deployOwners :: OwnerList where
  "deployOwners =
     [\<lparr>owner_address = deploy_address 21, owner_role = thisDevice\<rparr>, \<lparr>owner_address = deploy_address 22, owner_role = paperWallet\<rparr>,
      \<lparr>owner_address = deploy_address 23, owner_role = paperWalletDerived\<rparr>]"

definition deployWallet :: "State \<Rightarrow> Wallet" where
  "deployWallet st =
     (Wallet_blank ''w'')\<lparr>state := st, feePaymentTokenAddress := Some (deploy_address 5),
       owners := deployOwners\<rparr>"

definition deployResponse :: Response where
  "deployResponse = response_for (map owner_address (sortedOwners deployOwners)) 1"

definition deployApp :: "Wallet \<Rightarrow> deployment" where
  "deployApp w =
     \<lparr>dep_app = \<lparr>app_world = \<lparr>walletRows = [w], accountRows = [(address_value (deploy_address 5) @ '':w'', None)],
        deviceKeys = [deploy_address 21, deploy_address 22, deploy_address 23], events = []\<rparr>,
        app_tokens = \<lparr>itemRows = [], token_events = [], balanceUpdates = []\<rparr>,
        app_portfolio = Some \<lparr>selectedWallet = Some ''w'', wallets = [''w'']\<rparr>, txRows = []\<rparr>,
      addressBook = [], monitors = [], awaiting = [], errorStream = [], exited = False\<rparr>"

definition deployRound :: "nat \<Rightarrow> string option \<Rightarrow> TransactionReceipt option \<Rightarrow> round" where
  "deployRound b h receipt =
     \<lparr>rd_answers = \<lparr>an_getBalance = (\<lambda>_ _. Returns 0), an_eth_call = (\<lambda>_ _ _. Returns (encodeUInt samplePackages b)),
        an_creationStatus = (\<lambda>_ _. Returns \<lparr>cs_txHash = h, cs_blockNumber = None\<rparr>),
        an_created = (\<lambda>_. Returns \<lparr>cs_txHash = None, cs_blockNumber = None\<rparr>), an_receipt = (\<lambda>_ _. Returns receipt)\<rparr>,
      rd_stopped = False\<rparr>"

definition deployInput :: "round list \<Rightarrow> round list \<Rightarrow> (ServiceError, unit) outcome \<Rightarrow> input" where
  "deployInput rs rs' answer =
     \<lparr>in_salt = 3, in_entry = ''e'', in_create = (\<lambda>_. Returns deployResponse), in_startCreation = (\<lambda>_. answer), in_rounds = rs, in_rounds2 = rs'\<rparr>"

lemma sampleDeployer_parts [simp]: "dp_packages sampleDeployer = samplePackages" "dp_metadata sampleDeployer = sampleMetadata"
  "dp_config sampleDeployer = Configuration_standard" "dp_showUInt sampleDeployer = nat_hex" "dp_parseUInt sampleDeployer = (\<lambda>_. Some 3)"
  by (simp_all add: sampleDeployer_def sampleServices_def sampleEnv_def)

lemma deploy_address_nonzero: "0 < n \<Longrightarrow> n < 2 ^ 160 \<Longrightarrow> \<not> isZero (deploy_address n)"
  using account_uint_address [OF samplePackages_ok, of n] Address_zero_ok(2) [OF samplePackages_ok] by (auto simp: isZero_def)

lemma deployWallet_parts [simp]: "wallet_id (deployWallet st) = ''w''" "state (deployWallet st) = st" "address (deployWallet st) = None"
  "fee_token (deployWallet st) = deploy_address 5" "confirmationCount (deployWallet st) = 1" "creationTransactionHash (deployWallet st) = None"
  "allOwners (deployWallet st) = sortedOwners deployOwners" "(deployWallet st)\<lparr>state := st'\<rparr> = deployWallet st'"
  by (simp_all add: deployWallet_def Wallet_blank_def fee_token_def allOwners_def)

lemma deploy_owners: "length (sortedOwners deployOwners) = 3"
  "owner_address ` set (sortedOwners deployOwners) = {deploy_address 21, deploy_address 22, deploy_address 23}"
  by (auto simp: deployOwners_def sortedOwners_def)

lemma sample_agreed:
  assumes "fee_token w = deploy_address 5" "owner_address ` set (allOwners w) \<subseteq> deploy_address ` {1..<100}" "length (allOwners w) \<le> 4"
    "1 \<le> confirmationCount w" "confirmationCount w \<le> int (length (allOwners w))"
    and I: "in_salt I = 3" "in_create I = (\<lambda>_. Returns (response_for (map owner_address (allOwners w)) (confirmationCount w)))"
  shows "agreed sampleDeployer I w (response_for (map owner_address (allOwners w)) (confirmationCount w))"
proof -
  let ?os = "map owner_address (allOwners w)" and ?n = "confirmationCount w"
  have "\<not> isZero (deploy_address k)" "valid_address samplePackages (address_value (deploy_address k))" if "k \<in> {1..<100}" for k
    using that deploy_address_nonzero [of k] valid_uint_address [OF samplePackages_ok] by auto
  then have nz: "list_all (\<lambda>a. \<not> isZero a) ?os" "list_all (\<lambda>a. valid_address samplePackages (address_value a)) ?os"
    using assms(2) by (fastforce simp: list_all_iff image_subset_iff image_iff)+
  have "SafeCreationRequest_init nat_hex 3 ?os ?n (deploy_address 5) = (Returns (request_for ?os ?n) :: (unit, _) outcome)"
    using nz(1) assms(4,5) by (auto simp: SafeCreationRequest_init_def request_for_def list_ex_iff list_all_iff)
  moreover have "validate samplePackages (\<lambda>_. Some 3) sampleMetadata (response_for ?os ?n) (request_for ?os ?n) = Returns ()"
    using nz(2) assms(3,4) by (intro response_for_valid) simp_all
  ultimately show ?thesis by (auto simp: agreed_def I assms(1))
qed

lemma deploy_agreed:
  assumes "w = deployWallet st \<or> w = (deployWallet st)\<lparr>address := a\<rparr>"
  shows "agreed sampleDeployer (deployInput rs rs' ans) w deployResponse"
proof -
  have w: "allOwners w = sortedOwners deployOwners" "fee_token w = deploy_address 5" "confirmationCount w = 1"
    using assms by (auto simp: allOwners_def fee_token_def deployWallet_def Wallet_blank_def)
  then show ?thesis
    using sample_agreed [of w "deployInput rs rs' ans"] deploy_owners by (simp add: deployInput_def deployResponse_def)
qed

definition deployHash :: string where
  "deployHash = ''0x'' @ hex_of_bytes (replicate 32 1)"

lemma deployRound_answers:
  "unblocked a (deployRound b h receipt)" "quiet_round a (deployRound b h receipt)"
  "b < 256 ^ 32 \<Longrightarrow> balance_answer sampleDeployer (rd_answers (deployRound b h receipt)) a (deploy_address 5) = Returns (int b)"
  "receipt_answer sampleDeployer (rd_answers (deployRound b h receipt)) h' = Returns receipt"
  "transactionHash_answer sampleDeployer (rd_answers (deployRound b None receipt)) a = Returns None"
  "transactionHash_answer sampleDeployer (rd_answers (deployRound b (Some deployHash) receipt)) a = Returns (Some deployHash)"
proof -
  show "unblocked a (deployRound b h receipt)" "quiet_round a (deployRound b h receipt)"
    by (simp_all add: quiet_round_def unblocked_def deployRound_def safeCreationTransactionBlock_def)
  show "receipt_answer sampleDeployer (rd_answers (deployRound b h receipt)) h' = Returns receipt"
    using retried_answers [of 3 0 "\<lambda>_. Returns receipt :: (ServiceError, _) outcome" 5]
    by (simp add: receipt_answer_def retryIfFails_def Configuration_standard_def Parameters_standard_def deployRound_def)
  show "transactionHash_answer sampleDeployer (rd_answers (deployRound b None receipt)) a = Returns None"
    using retried_answers [of 3 0 "\<lambda>_. Returns None :: (ServiceError, _) outcome" 5]
    by (simp add: transactionHash_answer_def retryIfFails_def Configuration_standard_def Parameters_standard_def deployRound_def safeCreationTransactionHash_def)
  have x: "ethHex samplePackages deployHash = replicate 32 1" "''0x'' @ toHexString samplePackages (replicate 32 1) = deployHash"
    unfolding deployHash_def using ethHex_hex_of_bytes [OF samplePackages_ok] packages_okD [OF samplePackages_ok] by simp_all
  show "transactionHash_answer sampleDeployer (rd_answers (deployRound b (Some deployHash) receipt)) a = Returns (Some deployHash)"
    using retried_answers [of 3 0 "\<lambda>_. Returns (Some deployHash) :: (ServiceError, _) outcome" 5] x
    by (simp add: transactionHash_answer_def retryIfFails_def Configuration_standard_def Parameters_standard_def deployRound_def safeCreationTransactionHash_def
      del: append.simps)
  assume "b < 256 ^ 32"
  then show "balance_answer sampleDeployer (rd_answers (deployRound b h receipt)) a (deploy_address 5) = Returns (int b)"
    using retried_answers [of 3 0 "\<lambda>_. Returns (int b) :: (ServiceError, _) outcome" 5] deploy_address_nonzero [of 5] samplePackages_ok
    by (simp add: balance_answer_def retryIfFails_def Configuration_standard_def Parameters_standard_def deployRound_def balanceOf_def invoke_def
      isZero_def Token_Ether_def)
qed

abbreviation paidWallet :: "State \<Rightarrow> Wallet" where
  "paidWallet st \<equiv> (deployWallet st)\<lparr>address := Some (deploy_address 30)\<rparr>"

lemma deployApp_parts [simp]:
  "wallet_id w = ''w'' \<Longrightarrow> wallet_with ''w'' (dep_app (deployApp w)) = Some w" "walletRows (app_world (dep_app (deployApp w))) = [w]"
  by (simp_all add: deployApp_def wallet_with_def find_id_def)

lemma deployOwners_roles:
  "Wallet.owner (deployWallet st) paperWallet = Some \<lparr>owner_address = deploy_address 22, owner_role = paperWallet\<rparr>"
  "Wallet.owner (deployWallet st) paperWalletDerived = Some \<lparr>owner_address = deploy_address 23, owner_role = paperWalletDerived\<rparr>"
  "Wallet.owner (deployWallet st) browserExtension = None"
  by (simp_all add: deployWallet_def deployOwners_def Wallet.owner_def first_with_def)

theorem ready_when_confirmed_witness:
  "\<exists>p s'. handle sampleDeployer (deployInput [] [] (Returns ())) (DeploymentFunded ''w'') (deployApp (paidWallet creationStarted)) = Returns (p, s') \<and>
     (\<forall>w'. wallet_with ''w'' (dep_app s') = Some w' \<and> isReadyToUse w' \<longrightarrow> confirmed sampleDeployer [] w')"
proof -
  let ?s = "deployApp (paidWallet creationStarted)" and ?I = "deployInput [] [] (Returns ())"
  have "\<exists>p s'. handle sampleDeployer ?I (DeploymentFunded ''w'') ?s = Returns (p, s')"
    by (simp add: executeInWallet_def startSafeCreation_def calling_def deployInput_def moving_to_def proceed_def CreationStartedState_proceed_def
        FinalizingDeploymentState_resume_def Let_def)
  moreover have "in_rounds ?I @ in_rounds2 ?I = []" by (simp add: deployInput_def)
  ultimately show ?thesis
    using ready_when_confirmed [of "DeploymentFunded ''w''" "''w''" creationStarted ?s "paidWallet creationStarted" sampleDeployer ?I] by fastforce
qed

theorem second_funded_event_skips_confirmation_witness:
  "\<exists>s0 s1 s2 w2. deployment_start (deployApp (paidWallet creationStarted)) = Returns s0 \<and>
     handle sampleDeployer (deployInput [] [] (Returns ())) (DeploymentFunded ''w'') s0 = Returns (Done, s1) \<and>
     handle sampleDeployer (deployInput [] [] (Returns ())) (DeploymentFunded ''w'') s1 = Returns (Done, s2) \<and>
     wallet_with ''w'' (dep_app s2) = Some w2 \<and> isReadyToUse w2 \<and> creationTransactionHash w2 = None"
proof -
  have "filter_by_states creationStates (app_world (dep_app (deployApp (paidWallet creationStarted)))) = [paidWallet creationStarted]"
    by (simp add: filter_by_states_def creationStates_def)
  from second_funded_event_skips_confirmation [OF this, of "''w''" "deploy_address 30" "deployInput [] [] (Returns ())" sampleDeployer]
  show ?thesis by (fastforce simp: deployInput_def)
qed

theorem deployment_errors_witness:
  "(\<exists>s1 s2. executeInWallet ''w'' (\<lambda>w s. Throws (NetworkService NS_serverError, w, s)) (deployApp (deployWallet finalizingDeployment)) = Returns (Done, s1) \<and>
     handle sampleDeployer (deployInput [] [] (Returns ())) (WalletCreationFailed ''w'') s1 = Returns (Done, s2) \<and> exited s2) \<and>
   aborts (networkRequestFailed (Some 503) False)"
  using deployment_errors [of "''w''" "deployApp (deployWallet finalizingDeployment)" "deployWallet finalizingDeployment"
      "\<lambda>w s. Throws (NetworkService NS_serverError, w, s)" "NetworkService NS_serverError" sampleDeployer "deployInput [] [] (Returns ())" "Some 503" False]
  by auto

theorem recovery_keys_removed_after_notification_witness:
  "\<exists>s'. handle sampleDeployer (deployInput [] [] (Returns ())) (WalletCreated ''w'') (deployApp (deployWallet readyToUse)) = Returns (Done, s') \<and>
     set (deviceKeys (app_world (dep_app s'))) = {deploy_address 21, deploy_address 22, deploy_address 23} - {deploy_address 22, deploy_address 23}"
proof -
  have "notifyWalletCreatedIfNeeded (dp_services sampleDeployer) ''w'' (dep_app (deployApp (deployWallet readyToUse))) = Returns ()"
    by (simp add: notifyWalletCreatedIfNeeded_def)
  moreover have "set (deviceKeys (app_world (dep_app (deployApp (deployWallet readyToUse))))) = {deploy_address 21, deploy_address 22, deploy_address 23}"
    by (simp add: deployApp_def)
  ultimately show ?thesis
    using recovery_keys_removed_after_notification [of "''w''" "deployApp (deployWallet readyToUse)" "deployWallet readyToUse",
      OF _ _ deployOwners_roles(1,2), of sampleDeployer "deployInput [] [] (Returns ())"]
    by (auto simp del: handle.simps)
qed

theorem funded_deposit_abandoned_witness:
  "\<exists>s1 s2 s3 w3. handle sampleDeployer (deployInput [] [] (Throws (networkRequestFailed (Some 503) False))) (DeploymentFunded ''w'')
       (deployApp (paidWallet creationStarted)) = Returns (Done, s1) \<and> deployment_start s1 = Returns s2 \<and>
     handle sampleDeployer (deployInput [] [] (Returns ())) (DeploymentStarted ''w'') s2 = Returns (Done, s3) \<and>
     wallet_with ''w'' (dep_app s3) = Some w3 \<and> address w3 = Some (Address (rsp_safe deployResponse))"
proof -
  let ?w = "paidWallet creationStarted"
  have o: "allOwners ?w = sortedOwners deployOwners" "hasAllRoles ?w"
    by (simp_all add: deployWallet_def allOwners_def hasAllRoles_def requiredRoles_def Wallet.owner_def first_with_def deployOwners_def)
  have "?w\<lparr>confirmationCount := int (length (allOwners ?w)) - 2, state := deploying\<rparr> = paidWallet deploying"
    using deploy_owners(1) by (simp add: o(1)) (simp add: deployWallet_def Wallet_blank_def)
  then have "agreed sampleDeployer (deployInput [] [] (Returns ()))
      (?w\<lparr>confirmationCount := int (length (allOwners ?w)) - 2, state := deploying\<rparr>) deployResponse"
    using deploy_agreed by metis
  then show ?thesis
    using funded_deposit_abandoned [of "''w''" "deployApp ?w" ?w "deploy_address 30"
        "deployInput [] [] (Throws (networkRequestFailed (Some 503) False))" "networkRequestFailed (Some 503) False" sampleDeployer
        "deployInput [] [] (Returns ())" deployResponse] o deploy_owners(1)
    by (auto simp: deployInput_def aborts_def simp del: handle.simps)
qed

text \<open>A wallet with a browser extension as its second factor.\<close>

definition pairedWallet :: Wallet where
  "pairedWallet = (deployWallet deploying)\<lparr>owners := deployOwners @ [\<lparr>owner_address = deploy_address 24, owner_role = browserExtension\<rparr>], confirmationCount := 2\<rparr>"

definition pairedResponse :: Response where
  "pairedResponse = response_for (map owner_address (allOwners pairedWallet)) 2"

definition pairedInput :: "round list \<Rightarrow> round list \<Rightarrow> input" where
  "pairedInput rs rs' = (deployInput rs rs' (Returns ()))\<lparr>in_create := (\<lambda>_. Returns pairedResponse)\<rparr>"

lemma pairedWallet_parts:
  "wallet_id pairedWallet = ''w''" "state pairedWallet = deploying" "creationTransactionHash pairedWallet = None" "fee_token pairedWallet = deploy_address 5" "confirmationCount pairedWallet = 2"
  "Wallet.owner pairedWallet paperWallet = Some \<lparr>owner_address = deploy_address 22, owner_role = paperWallet\<rparr>"
  "Wallet.owner pairedWallet paperWalletDerived = Some \<lparr>owner_address = deploy_address 23, owner_role = paperWalletDerived\<rparr>"
  "length (allOwners pairedWallet) = 4" "owner_address ` set (allOwners pairedWallet) = {deploy_address 21, deploy_address 22, deploy_address 23, deploy_address 24}"
  by (auto simp: pairedWallet_def deployWallet_def Wallet_blank_def fee_token_def allOwners_def deployOwners_def Wallet.owner_def first_with_def sortedOwners_def)

theorem deployment_completes_witness:
  "\<exists>s' w'. run_events sampleDeployer
      [(DeploymentStarted ''w'', pairedInput [] []),
       (StartedWaitingForFirstDeposit ''w'', pairedInput [deployRound 0 None None, deployRound 400 None None] []),
       (StartedWaitingForRemainingFeeAmount ''w'', pairedInput [deployRound 400 None None, deployRound 1000 None None] []),
       (DeploymentFunded ''w'', pairedInput [] []),
       (CreationStarted ''w'', pairedInput [deployRound 0 None None, deployRound 0 (Some deployHash) None]
         [deployRound 0 None (Some \<lparr>receipt_success = True, receipt_blockHash = []\<rparr>)]),
       (WalletCreated ''w'', pairedInput [] [])] (deployApp pairedWallet) = Returns s' \<and>
    wallet_with ''w'' (dep_app s') = Some w' \<and> isReadyToUse w' \<and> address w' = Some (Address (rsp_safe pairedResponse)) \<and>
    deploy_address 22 \<notin> set (deviceKeys (app_world (dep_app s')))"
proof -
  have "agreed sampleDeployer (pairedInput [] []) pairedWallet pairedResponse"
    using sample_agreed [of pairedWallet "pairedInput [] []"] by (simp add: pairedInput_def pairedResponse_def deployInput_def pairedWallet_parts)
  moreover have "extension_notified (dp_services sampleDeployer) pairedWallet (dep_app (deployApp pairedWallet))"
    using sampleServices_ok(2) by (simp add: extension_notified_def signing_works_def sampleDeployer_def sampleServices_def sampleEnv_def)
  moreover have "rsp_payment pairedResponse = 1000" by (simp add: pairedResponse_def response_for_def)
  moreover have "balance_with (address_value (fee_token pairedWallet) @ '':'' @ ''w'') (dep_app (deployApp pairedWallet)) \<noteq> None"
    by (simp add: deployApp_def balance_with_def find_account_def pairedWallet_parts)
  moreover have "address_value (fee_token pairedWallet) \<noteq> []" by (simp add: uint_address_def pairedWallet_parts)
  ultimately show ?thesis
    using deployment_completes [where i = "''w''" and s = "deployApp pairedWallet" and w = pairedWallet and P = sampleDeployer
      and response = pairedResponse and a = "Address (rsp_safe pairedResponse)" and m = 1000 and b = 400 and h = deployHash, OF _ _ _ _ _ _ pairedWallet_parts(6,7),
      of "pairedInput [] []" "pairedInput [deployRound 0 None None, deployRound 400 None None] []"
        "pairedInput [deployRound 400 None None, deployRound 1000 None None] []" "pairedInput [] []"
        "pairedInput [deployRound 0 None None, deployRound 0 (Some deployHash) None]
          [deployRound 0 None (Some \<lparr>receipt_success = True, receipt_blockHash = []\<rparr>)]" "pairedInput [] []"]
    by (simp add: pairedInput_def deployInput_def deployRound_answers pairedWallet_parts del: run_events.simps) blast
qed

end
