(* ===== verification/OwnerChange.thy ===== *)
theory OwnerChange
  imports Deployment
begin

section \<open>Changing the owners of a safe\<close>

text \<open>
  Model of \<^verbatim>\<open>OwnerLinkedList\<close> and of the owner changes of \<^verbatim>\<open>RecoveryTransactionBuilder\<close>, both in \<^verbatim>\<open>RecoveryDomainService.swift\<close>.

  The owner manager of the safe contract keeps its owners in a linked list that starts and ends at a sentinel, so that a call that replaces or removes an
  owner has to name the owner before it. \<^verbatim>\<open>OwnerLinkedList\<close> mirrors that list. The contract is not part of the sources: what the app relies on is
  stated in \<open>owner_manager\<close> for a function \<open>exec\<close> from call data and the contract's owners and threshold to the next ones.

  Shown: the list operations implement their abstract counterparts on a list of owners, and the predecessors they return are those of the contract; the calls that a recovery builds, executed one after the other,
  turn the owners and the threshold of the contract into those of the recovered wallet, for each of the four combinations of old and new
  set-up.
\<close>

subsection \<open>OwnerLinkedList\<close>

type_synonym OwnerLinkedList = "Address list"

definition normalized :: "packages \<Rightarrow> Address \<Rightarrow> ('e, Address) outcome" where
  "normalized E a = Address_init E (lowercased (address_value a))"

definition OwnerLinkedList_init :: "packages \<Rightarrow> ('e, OwnerLinkedList) outcome" where
  "OwnerLinkedList_init E = bindO (sentinelAddress E) (\<lambda>sentinel. Returns [sentinel])"

definition contents :: "packages \<Rightarrow> OwnerLinkedList \<Rightarrow> ('e, Address list) outcome" where
  "contents E l = bindO (sentinelAddress E) (\<lambda>sentinel. Returns (filter (\<lambda>a. a \<noteq> sentinel) l))"

definition ll_add :: "packages \<Rightarrow> Address \<Rightarrow> OwnerLinkedList \<Rightarrow> ('e, OwnerLinkedList) outcome" where
  "ll_add E a l =
     (if l = [] then Traps
      else let sentinel = last l; l1 = butlast l
           in bindO (normalized E a) (\<lambda>n. Returns ((if l1 = [] then [sentinel] else l1) @ [n, sentinel])))"

definition ll_firstIndex :: "packages \<Rightarrow> Address \<Rightarrow> OwnerLinkedList \<Rightarrow> ('e, nat option) outcome" where
  "ll_firstIndex E a l = bindO (normalized E a) (\<lambda>n. Returns (firstIndex (\<lambda>x. x = n) l))"

definition ll_replace :: "packages \<Rightarrow> Address \<Rightarrow> Address \<Rightarrow> OwnerLinkedList \<Rightarrow> ('e, OwnerLinkedList) outcome" where
  "ll_replace E oldOwner newOwner l =
     bindO (ll_firstIndex E oldOwner l) (\<lambda>index.
     case index of None \<Rightarrow> Returns l | Some k \<Rightarrow> bindO (normalized E newOwner) (\<lambda>n. Returns (l[k := n])))"

definition ll_remove :: "packages \<Rightarrow> Address \<Rightarrow> OwnerLinkedList \<Rightarrow> ('e, OwnerLinkedList) outcome" where
  "ll_remove E a l =
     bindO (ll_firstIndex E a l) (\<lambda>index.
     case index of None \<Rightarrow> Returns l | Some k \<Rightarrow> Returns (take k l @ drop (Suc k) l))"

definition addressBefore :: "packages \<Rightarrow> Address \<Rightarrow> OwnerLinkedList \<Rightarrow> ('e, Address) outcome" where
  "addressBefore E a l =
     bindO (ll_firstIndex E a l) (\<lambda>index. bindO (unwrap index) (\<lambda>k. if k = 0 then Traps else Returns (l ! (k - 1))))"

definition addressAfter :: "packages \<Rightarrow> Address \<Rightarrow> OwnerLinkedList \<Rightarrow> ('e, Address option) outcome" where
  "addressAfter E a l =
     bindO (ll_firstIndex E a l) (\<lambda>index. bindO (unwrap index) (\<lambda>k. if k + 1 < length l then Returns (Some (l ! (k + 1))) else Traps))"

definition ll_contains :: "packages \<Rightarrow> Address \<Rightarrow> OwnerLinkedList \<Rightarrow> ('e, bool) outcome" where
  "ll_contains E a l = bindO (normalized E a) (\<lambda>n. Returns (n \<in> set l))"

definition firstAddress :: "packages \<Rightarrow> OwnerLinkedList \<Rightarrow> ('e, Address option) outcome" where
  "firstAddress E l = bindO (sentinelAddress E) (\<lambda>sentinel. Returns (List.find (\<lambda>a. a \<noteq> sentinel) l))"

primrec ll_add_all :: "packages \<Rightarrow> Address list \<Rightarrow> OwnerLinkedList \<Rightarrow> ('e, OwnerLinkedList) outcome" where
  "ll_add_all E [] l = Returns l"
| "ll_add_all E (a # as) l = bindO (ll_add E a l) (ll_add_all E as)"

subsection \<open>The list implements a list of owners\<close>

definition lower :: "Address \<Rightarrow> Address" where
  "lower a = Address (lowercased (address_value a))"

definition sentinel :: Address where
  "sentinel = Address ''0x0000000000000000000000000000000000000001''"

text \<open>A list that holds \<open>os\<close>: the sentinel at both ends, or a single one when nothing was added yet.\<close>

definition holds :: "OwnerLinkedList \<Rightarrow> Address list \<Rightarrow> bool" where
  "holds l os \<longleftrightarrow> (os = [] \<and> l = [sentinel]) \<or> l = sentinel # os @ [sentinel]"

definition owners_ok :: "Address list \<Rightarrow> bool" where
  "owners_ok os \<longleftrightarrow> distinct os \<and> (\<forall>a \<in> set os. hex_address a \<and> lower a = a \<and> a \<noteq> sentinel)"

lemma lower_char_idem: "hex_value c = Some d \<Longrightarrow> lower_char (lower_char c) = lower_char c"
  using hex_value_lower [of c d] by (auto simp: lower_char_def Let_def split: if_splits)

lemma hex_address_lower:
  assumes "hex_address a"
  shows "hex_address (lower a)" "lower (lower a) = lower a"
proof -
  obtain s where s: "address_value a = CHR ''0'' # CHR ''x'' # s" "is_hex s" "length s = 40" using assms by (rule hex_addressE)
  have v: "hex_value (lower_char c) = Some d" if "hex_value c = Some d" for c d
    using that by (auto simp: hex_value_def lower_char_def Let_def of_char_of split: if_splits)
  have "lowercased (address_value a) = CHR ''0'' # CHR ''x'' # lowercased s" using s(1) by (simp add: lowercased_def lower_char_def)
  moreover have "is_hex (lowercased s)" using s(2) v by (auto simp: is_hex_def lowercased_def list_all_iff)
  moreover have "lowercased (lowercased s) = lowercased s"
    using s(2) lower_char_idem by (auto simp: is_hex_def lowercased_def list_all_iff)
  ultimately show "hex_address (lower a)" "lower (lower a) = lower a"
    using s(3) by (simp_all add: hex_address_def lower_def) (simp_all add: lowercased_def lower_char_def)
qed

lemma account_lower:
  assumes "packages_ok E" "hex_address a"
  shows "account E (lower a) = account E a"
proof -
  have "\<not> account E (lower a) < account E a" "\<not> account E a < account E (lower a)"
    using lowercased_address_less [OF assms(1) _ assms(2), of "lower a"] lowercased_address_less [OF assms, of "lower a"]
      hex_address_lower [OF assms(2)] by (auto simp: lower_def)
  then show ?thesis by simp
qed

lemma lower_eq_iff:
  assumes "packages_ok E" "hex_address a" "hex_address b"
  shows "lower a = lower b \<longleftrightarrow> account E a = account E b"
  using lowercased_address_less [OF assms] lowercased_address_less [OF assms(1,3,2)] by (auto simp: lower_def)

lemma normalized_hex: "packages_ok E \<Longrightarrow> hex_address a \<Longrightarrow> normalized E a = Returns (lower a)"
  using hex_address_init [of E "lower a"] hex_address_lower(1) [of a] by (simp add: normalized_def lower_def)

lemma hex_sentinel: "hex_address sentinel"
  by (simp add: sentinel_def hex_address_def is_hex_def hex_value_def)

lemma lower_sentinel: "lower sentinel = sentinel"
  by (simp add: sentinel_def lower_def lowercased_def lower_char_def)

lemma hex_of_zeros: "hex_of_bytes (replicate n 0 @ bs) = replicate (2 * n) (CHR ''0'') @ hex_of_bytes bs"
  by (induction n) (simp_all add: hex_digit_def)

lemma sentinelAddress_sentinel:
  assumes "packages_ok E"
  shows "sentinelAddress E = Returns sentinel"
proof -
  have "leftPadded [1] 20 = replicate 19 0 @ [1 :: u8]" by (simp add: leftPadded_def)
  moreover have "replicate 38 (CHR ''0'') @ ''01'' = ''0000000000000000000000000000000000000001''" by (simp add: numeral_eq_Suc)
  ultimately have "''0x'' @ toHexString E (leftPadded [1] 20) = address_value sentinel"
    using packages_okD(2) [OF assms] by (simp add: sentinel_def hex_of_zeros hex_digit_def)
  then show ?thesis using hex_address_init [OF assms hex_sentinel] by (simp add: sentinelAddress_def)
qed

lemma account_sentinel: "packages_ok E \<Longrightarrow> account E sentinel = 1"
  using hex_address_account(1) [OF _ hex_sentinel] by (simp add: sentinel_def hex_value_def)

text \<open>The operations on a list that holds \<open>os\<close>.\<close>

lemma firstIndex_eq:
  assumes "distinct xs" "k < length xs"
  shows "firstIndex (\<lambda>x. x = xs ! k) xs = Some k"
  using assms by (induction xs arbitrary: k) (auto simp: nth_Cons split: nat.splits)

lemma firstIndex_append: "firstIndex P xs = Some k \<Longrightarrow> firstIndex P (xs @ ys) = Some k"
  by (induction xs arbitrary: k) (auto split: if_splits)

lemma holds_index:
  assumes "packages_ok E" "holds l os" "owners_ok os" "k < length os" "hex_address a" "lower a = os ! k"
  shows "ll_firstIndex E a l = Returns (Some (Suc k))"
proof -
  have "l = sentinel # os @ [sentinel]" using assms(2,4) by (auto simp: holds_def)
  moreover have "sentinel \<noteq> os ! k" using assms(3) nth_mem [OF assms(4)] by (auto simp: owners_ok_def)
  moreover have "firstIndex (\<lambda>x. x = os ! k) os = Some k" using assms(3,4) by (intro firstIndex_eq) (auto simp: owners_ok_def)
  ultimately show ?thesis
    using assms(1,5,6) by (simp add: ll_firstIndex_def normalized_hex firstIndex_append)
qed

lemma holds_add:
  assumes "packages_ok E" "holds l os" "hex_address a"
  shows "\<exists>l'. ll_add E a l = Returns l' \<and> holds l' (os @ [lower a])"
  using assms by (auto simp: ll_add_def holds_def normalized_hex butlast_append)

lemma holds_replace:
  assumes "packages_ok E" "holds l os" "owners_ok os" "k < length os" "hex_address a" "lower a = os ! k" "hex_address b"
  shows "\<exists>l'. ll_replace E a b l = Returns l' \<and> holds l' (os[k := lower b])"
  using assms by (simp add: ll_replace_def holds_index [OF assms(1-6)] normalized_hex) (auto simp: holds_def list_update_append)

lemma holds_remove:
  assumes "packages_ok E" "holds l os" "owners_ok os" "k < length os" "hex_address a" "lower a = os ! k"
  shows "\<exists>l'. ll_remove E a l = Returns l' \<and> holds l' (take k os @ drop (Suc k) os)"
  using assms by (simp add: ll_remove_def holds_index [OF assms(1-6)]) (auto simp: holds_def)

lemma holds_before:
  assumes "packages_ok E" "holds l os" "owners_ok os" "k < length os" "hex_address a" "lower a = os ! k"
  shows "addressBefore E a l = Returns ((sentinel # os) ! k)"
  using assms(2,4) by (simp add: addressBefore_def holds_index [OF assms]) (auto simp: holds_def nth_append nth_Cons split: nat.splits)

lemma holds_contains:
  assumes "packages_ok E" "holds l os" "hex_address a" "lower a \<noteq> sentinel"
  shows "ll_contains E a l = Returns (lower a \<in> set os)"
  using assms by (auto simp: ll_contains_def holds_def normalized_hex)

lemma holds_init: "packages_ok E \<Longrightarrow> \<exists>l. OwnerLinkedList_init E = Returns l \<and> holds l []"
  by (simp add: OwnerLinkedList_init_def sentinelAddress_sentinel holds_def)

lemma holds_add_all:
  assumes "packages_ok E" "holds l os" "list_all hex_address as"
  shows "\<exists>l'. ll_add_all E as l = (Returns l' :: ('a, _) outcome) \<and> holds l' (os @ map lower as)"
  using assms
proof (induction as arbitrary: l os)
  case (Cons a as)
  obtain l1 where l1: "ll_add E a l = (Returns l1 :: ('a, _) outcome)" "holds l1 (os @ [lower a])"
    using holds_add [OF Cons.prems(1,2), of a] Cons.prems(3) by auto
  then show ?case using Cons.IH [OF Cons.prems(1) l1(2)] Cons.prems(3) by auto
qed simp

lemma holds_contents:
  assumes "packages_ok E" "holds l os" "owners_ok os"
  shows "contents E l = Returns os" "firstAddress E l = Returns (if os = [] then None else Some (hd os))"
proof -
  have "filter (\<lambda>a. a \<noteq> sentinel) os = os" using assms(3) by (auto simp: owners_ok_def filter_id_conv)
  then show "contents E l = Returns os" using assms(1,2) by (auto simp: contents_def sentinelAddress_sentinel holds_def)
  show "firstAddress E l = Returns (if os = [] then None else Some (hd os))"
    using assms by (cases os) (auto simp: firstAddress_def sentinelAddress_sentinel holds_def owners_ok_def)
qed

subsection \<open>RecoveryTransactionBuilder: the calls\<close>

record WalletScheme =
  confirmations :: int
  scheme_owners :: int

definition withoutExtension :: WalletScheme where
  "withoutExtension = \<lparr>confirmations = 1, scheme_owners = 3\<rparr>"

definition withExtension :: WalletScheme where
  "withExtension = \<lparr>confirmations = 2, scheme_owners = 4\<rparr>"

definition supportedSchemes :: "WalletScheme list" where
  "supportedSchemes = [withoutExtension, withExtension]"

record builder =
  bd_wallet :: Wallet
  bd_oldScheme :: WalletScheme
  bd_newScheme :: WalletScheme
  bd_list :: OwnerLinkedList
  bd_modifiable :: "Owner list"

definition oldWalletScheme :: "Wallet \<Rightarrow> WalletScheme" where
  "oldWalletScheme w =
     \<lparr>confirmations = confirmationCount w, scheme_owners = int (length (filter (\<lambda>o1. owner_role o1 = unknown) (owners w)))\<rparr>"

definition newWalletScheme :: "Wallet \<Rightarrow> WalletScheme" where
  "newWalletScheme w =
     \<lparr>confirmations = (if hasAuthenticator w then 2 else 1),
      scheme_owners = int (length (filter (\<lambda>o1. owner_role o1 \<noteq> unknown) (owners w)))\<rparr>"

definition ownerLinkedList :: "packages \<Rightarrow> Wallet \<Rightarrow> ('e, OwnerLinkedList) outcome" where
  "ownerLinkedList E w =
     bindO (OwnerLinkedList_init E)
       (ll_add_all E (map owner_address (filter (\<lambda>o1. owner_role o1 = unknown) (owners w))))"

definition readonlyAddresses :: "Wallet \<Rightarrow> string list" where
  "readonlyAddresses w =
     map (\<lambda>o1. lowercased (address_value (owner_address o1)))
       (filter (\<lambda>o1. owner_role o1 = paperWallet \<or> owner_role o1 = paperWalletDerived) (owners w))"

definition mutableOwners :: "Wallet \<Rightarrow> Owner list" where
  "mutableOwners w =
     filter (\<lambda>o1. owner_role o1 = unknown \<and> lowercased (address_value (owner_address o1)) \<notin> set (readonlyAddresses w)) (owners w)"

text \<open>The part of \<^verbatim>\<open>pullData()\<close> after the remote owners and threshold are stored in the wallet.\<close>

definition builder_of :: "packages \<Rightarrow> Wallet \<Rightarrow> ('e, builder) outcome" where
  "builder_of E w =
     bindO (ownerLinkedList E w) (\<lambda>l.
     Returns \<lparr>bd_wallet = w, bd_oldScheme = oldWalletScheme w, bd_newScheme = newWalletScheme w, bd_list = l, bd_modifiable = mutableOwners w\<rparr>)"

definition swapOwnerData :: "packages \<Rightarrow> OwnerRole \<Rightarrow> builder \<Rightarrow> ('e, data \<times> builder) outcome" where
  "swapOwnerData E role b =
     (case bd_modifiable b of
        [] \<Rightarrow> Traps
      | ownerToReplace # rest \<Rightarrow>
          let b1 = b\<lparr>bd_modifiable := rest\<rparr>
          in bindO (addressBefore E (owner_address ownerToReplace) (bd_list b)) (\<lambda>before.
             bindO (unwrap (Wallet.owner (bd_wallet b) role)) (\<lambda>newOwner.
             bindO (normalized E (owner_address newOwner)) (\<lambda>n. bindO (normalized E (owner_address ownerToReplace)) (\<lambda>m.
             if n = m then Returns ([], b1)
             else bindO (ll_replace E (owner_address ownerToReplace) (owner_address newOwner) (bd_list b)) (\<lambda>l.
                  Returns (swapOwner E before (owner_address ownerToReplace) (owner_address newOwner), b1\<lparr>bd_list := l\<rparr>)))))))"

definition addOwnerData :: "packages \<Rightarrow> OwnerRole \<Rightarrow> builder \<Rightarrow> ('e, data \<times> builder) outcome" where
  "addOwnerData E role b =
     bindO (unwrap (Wallet.owner (bd_wallet b) role)) (\<lambda>newOwner.
     bindO (ll_contains E (owner_address newOwner) (bd_list b)) (\<lambda>there.
     if there then Returns ([], b)
     else bindO (Abi.addOwner E (owner_address newOwner) (confirmations (bd_newScheme b))) (\<lambda>d.
          bindO (ll_add E (owner_address newOwner) (bd_list b)) (\<lambda>l.
          Returns (d, b\<lparr>bd_list := l, bd_wallet := changeConfirmationCount (confirmations (bd_newScheme b)) (bd_wallet b)\<rparr>)))))"

definition removeOwnerData :: "packages \<Rightarrow> builder \<Rightarrow> ('e, data \<times> builder) outcome" where
  "removeOwnerData E b =
     (case bd_modifiable b of
        [] \<Rightarrow> Traps
      | ownerToRemove # rest \<Rightarrow>
          bindO (addressBefore E (owner_address ownerToRemove) (bd_list b)) (\<lambda>before.
          bindO (Abi.removeOwner E before (owner_address ownerToRemove) (confirmations (bd_newScheme b))) (\<lambda>d.
          bindO (ll_remove E (owner_address ownerToRemove) (bd_list b)) (\<lambda>l.
          Returns (d, b\<lparr>bd_modifiable := rest, bd_list := l,
            bd_wallet := changeConfirmationCount (confirmations (bd_newScheme b)) (bd_wallet b)\<rparr>)))))"

definition withFirstExistingOwner ::
    "OwnerRole list \<Rightarrow> (OwnerRole \<Rightarrow> builder \<Rightarrow> ('e, data \<times> builder) outcome) \<Rightarrow> builder \<Rightarrow> ('e, data \<times> builder) outcome" where
  "withFirstExistingOwner roles execute b =
     (case List.find (\<lambda>role. Wallet.owner (bd_wallet b) role \<noteq> None) roles of
        Some role \<Rightarrow> execute role b
      | None \<Rightarrow> Returns ([], b))"

text \<open>The calls of \<^verbatim>\<open>buildData()\<close>; the unreachable default case stops the process.\<close>

definition owner_calls :: "packages \<Rightarrow> builder \<Rightarrow> ('e, data list \<times> builder) outcome" where
  "owner_calls E b =
     (let authenticators = [browserExtension, keycard]
      in if bd_oldScheme b = withoutExtension \<and> bd_newScheme b = withoutExtension
         then bindO (swapOwnerData E thisDevice b) (\<lambda>(d, b1). Returns ([d], b1))
         else if bd_oldScheme b = withoutExtension \<and> bd_newScheme b = withExtension
         then bindO (swapOwnerData E thisDevice b) (\<lambda>(d, b1).
              bindO (withFirstExistingOwner authenticators (addOwnerData E) b1) (\<lambda>(e, b2). Returns ([d, e], b2)))
         else if bd_oldScheme b = withExtension \<and> bd_newScheme b = withoutExtension
         then bindO (swapOwnerData E thisDevice b) (\<lambda>(d, b1). bindO (removeOwnerData E b1) (\<lambda>(e, b2). Returns ([d, e], b2)))
         else if bd_oldScheme b = withExtension \<and> bd_newScheme b = withExtension
         then bindO (swapOwnerData E thisDevice b) (\<lambda>(d, b1).
              bindO (withFirstExistingOwner authenticators (swapOwnerData E) b1) (\<lambda>(e, b2). Returns ([d, e], b2)))
         else Traps)"

subsection \<open>What the contract does with the calls\<close>

text \<open>
  What the app relies on of the owner manager of the safe contract, for accounts as numbers: the sentinel is 1, and neither it nor zero can be an owner. A swap needs the account before
  the old one and a new account that is not yet an owner; a removal needs the account before, and sets the threshold; a new owner comes
  first and sets the threshold.
\<close>

definition fresh :: "nat \<Rightarrow> nat list \<Rightarrow> bool" where
  "fresh n os \<longleftrightarrow> n \<noteq> 0 \<and> n \<noteq> 1 \<and> n \<notin> set os"

definition owner_manager :: "packages \<Rightarrow> (data \<Rightarrow> nat list \<times> int \<Rightarrow> (nat list \<times> int) option) \<Rightarrow> bool" where
  "owner_manager E exec \<longleftrightarrow>
     (\<forall>before old new os t k. distinct os \<and> k < length os \<and> account E old = os ! k \<and> account E before = (1 # os) ! k \<and> fresh (account E new) os \<and>
        list_all hex_address [before, old, new] \<longrightarrow>
        exec (swapOwner E before old new) (os, t) = Some (os[k := account E new], t)) \<and>
     (\<forall>new n d os t. distinct os \<and> fresh (account E new) os \<and> hex_address new \<and> 1 \<le> n \<and> n \<le> int (length os) + 1 \<and> n \<le> Int_max \<and>
        Abi.addOwner E new n = (Returns d :: (unit, data) outcome) \<longrightarrow>
        exec d (os, t) = Some (account E new # os, n)) \<and>
     (\<forall>before old n d os t k. distinct os \<and> k < length os \<and> account E old = os ! k \<and> account E before = (1 # os) ! k \<and>
        list_all hex_address [before, old] \<and> 1 \<le> n \<and> n < int (length os) \<and> n \<le> Int_max \<and>
        Abi.removeOwner E before old n = (Returns d :: (unit, data) outcome) \<longrightarrow> exec d (os, t) = Some (take k os @ drop (Suc k) os, n))"

fun exec_all :: "(data \<Rightarrow> 's \<Rightarrow> 's option) \<Rightarrow> data list \<Rightarrow> 's \<Rightarrow> 's option" where
  "exec_all exec [] s = Some s"
| "exec_all exec (d # ds) s = Option.bind (exec d s) (exec_all exec ds)"

lemma invocation_not_Nil: "packages_ok E \<Longrightarrow> invocation E f args \<noteq> []"
  using packages_okD(5) [of E "ascii f"] by (auto simp: invocation_def abi_method_def)

lemma accounts_distinct:
  assumes "packages_ok E" "owners_ok as"
  shows "distinct (map (account E) as)" "a \<in> set as \<Longrightarrow> b \<in> set as \<Longrightarrow> account E a = account E b \<Longrightarrow> a = b"
proof -
  show inj: "a = b" if "a \<in> set as" "b \<in> set as" "account E a = account E b" for a b
    using that assms lower_eq_iff [OF assms(1), of a b] by (auto simp: owners_ok_def)
  then show "distinct (map (account E) as)" using assms(2) by (auto simp: distinct_map inj_on_def owners_ok_def)
qed

text \<open>The account before the owner at position \<open>k\<close>, in the list and in the contract.\<close>

lemma account_before:
  assumes "packages_ok E" "k < length as"
  shows "account E ((sentinel # as) ! k) = (1 # map (account E) as) ! k"
  using assms by (cases k) (simp_all add: account_sentinel)

lemma hex_before:
  assumes "owners_ok as" "k < length as"
  shows "hex_address ((sentinel # as) ! k)"
  using assms nth_mem [of "k - 1" as] by (cases k) (auto simp: hex_sentinel owners_ok_def)

lemma owners_ok_update:
  assumes "packages_ok E" "owners_ok as" "hex_address a" "fresh (account E a) (map (account E) as)"
  shows "lower a \<notin> set as" "lower a \<noteq> sentinel" "owners_ok (as[k := lower a])" "owners_ok (as @ [lower a])"
proof -
  have acc: "account E (lower a) = account E a" using account_lower [OF assms(1,3)] .
  show new: "lower a \<notin> set as" using assms(4) imageI [of "lower a" "set as" "account E"] by (auto simp: fresh_def acc)
  show ns: "lower a \<noteq> sentinel" using assms(4) acc account_sentinel [OF assms(1)] by (auto simp: fresh_def)
  have ok: "hex_address (lower a)" "lower (lower a) = lower a" using hex_address_lower [OF assms(3)] .
  show "owners_ok (as[k := lower a])"
    using assms(2) new ns ok set_update_subset_insert [of as k "lower a"] by (cases "k < length as") (auto simp: owners_ok_def distinct_list_update)
  show "owners_ok (as @ [lower a])" using assms(2) new ns ok by (auto simp: owners_ok_def)
qed

lemma swap_step:
  assumes "packages_ok E" "owner_manager E exec" "holds (bd_list b) as" "owners_ok as" "bd_modifiable b = m # ms"
    and "k < length as" "hex_address (owner_address m)" "lower (owner_address m) = as ! k"
    and "Wallet.owner (bd_wallet b) role = Some new" "hex_address (owner_address new)" "fresh (account E (owner_address new)) (map (account E) as)"
  defines "as' \<equiv> as[k := lower (owner_address new)]"
  shows "\<exists>d l. swapOwnerData E role b = (Returns (d, b\<lparr>bd_modifiable := ms, bd_list := l\<rparr>) :: ('e, _) outcome) \<and> d \<noteq> [] \<and> holds l as' \<and> owners_ok as' \<and>
    exec d (map (account E) as, t) = Some (map (account E) as', t)"
proof -
  let ?old = "owner_address m" and ?new = "owner_address new" and ?before = "(sentinel # as) ! k"
  obtain l where l: "ll_replace E ?old ?new (bd_list b) = (Returns l :: ('e, _) outcome)" "holds l as'"
    using holds_replace [OF assms(1,3,4,6,7,8,10)] unfolding as'_def by blast
  note upd = owners_ok_update [OF assms(1,4,10,11)]
  have "as ! k \<in> set as" using assms(6) by simp
  then have ne: "lower ?new \<noteq> lower ?old" using upd(1) assms(8) by auto
  have "account E ?old = map (account E) as ! k" using account_lower [OF assms(1,7)] assms(6,8) by simp
  then have "exec (swapOwner E ?before ?old ?new) (map (account E) as, t) = Some ((map (account E) as)[k := account E ?new], t)"
    using assms(2,6,7,10,11) account_before [OF assms(1,6)] accounts_distinct(1) [OF assms(1,4)] hex_before [OF assms(4,6)] by (auto simp: owner_manager_def)
  moreover have "(map (account E) as)[k := account E ?new] = map (account E) as'"
    using account_lower [OF assms(1,10)] by (simp add: as'_def map_update)
  moreover have "swapOwnerData E role b = (Returns (swapOwner E ?before ?old ?new, b\<lparr>bd_modifiable := ms, bd_list := l\<rparr>) :: ('e, _) outcome)"
    using assms(1,5,7,9,10) ne l(1) holds_before [OF assms(1,3,4,6,7,8), where ?'a = 'e]
    by (simp add: swapOwnerData_def normalized_hex)
  ultimately show ?thesis
    using l(2) upd(3) invocation_not_Nil [OF assms(1)] by (auto simp: as'_def swapOwner_def)
qed

lemma add_step:
  assumes "packages_ok E" "owner_manager E exec" "holds (bd_list b) as" "owners_ok as"
    and "Wallet.owner (bd_wallet b) role = Some new" "hex_address (owner_address new)" "fresh (account E (owner_address new)) (map (account E) as)"
    and "1 \<le> confirmations (bd_newScheme b)" "confirmations (bd_newScheme b) \<le> int (length as) + 1" "confirmations (bd_newScheme b) \<le> Int_max"
  shows "\<exists>d l. addOwnerData E role b =
      (Returns (d, b\<lparr>bd_list := l, bd_wallet := changeConfirmationCount (confirmations (bd_newScheme b)) (bd_wallet b)\<rparr>) :: ('e, _) outcome) \<and> d \<noteq> [] \<and>
    exec d (map (account E) as, t) = Some (account E (owner_address new) # map (account E) as, confirmations (bd_newScheme b))"
proof -
  let ?n = "confirmations (bd_newScheme b)" and ?new = "owner_address new"
  obtain l where l: "ll_add E ?new (bd_list b) = (Returns l :: ('e, _) outcome)" using holds_add [OF assms(1,3,6)] by blast
  define d where "d = invocation E addOwner_selector [encodeAddress E ?new, encodeUInt E (nat ?n)]"
  have d: "Abi.addOwner E ?new ?n = (Returns d :: (unit, _) outcome)" "Abi.addOwner E ?new ?n = (Returns d :: ('e, _) outcome)"
    using assms(8) by (simp_all add: Abi.addOwner_def encodeUInt_int_def BigUInt_of_int_def d_def)
  have "exec d (map (account E) as, t) = Some (account E ?new # map (account E) as, ?n)"
    using assms(2,6-10) d(1) accounts_distinct(1) [OF assms(1,4)] unfolding owner_manager_def by (metis length_map)
  moreover have "ll_contains E ?new (bd_list b) = (Returns False :: ('e, _) outcome)"
    using holds_contains [OF assms(1,3,6)] owners_ok_update(1,2) [OF assms(1,4,6,7)] by simp
  ultimately show ?thesis
    using assms(5) l d(2) invocation_not_Nil [OF assms(1)] by (simp add: addOwnerData_def d_def) blast
qed

lemma remove_step:
  assumes "packages_ok E" "owner_manager E exec" "holds (bd_list b) as" "owners_ok as" "bd_modifiable b = m # ms"
    and "k < length as" "hex_address (owner_address m)" "lower (owner_address m) = as ! k"
    and "1 \<le> confirmations (bd_newScheme b)" "confirmations (bd_newScheme b) < int (length as)" "confirmations (bd_newScheme b) \<le> Int_max"
  shows "\<exists>d l. removeOwnerData E b = (Returns (d, b\<lparr>bd_modifiable := ms, bd_list := l,
      bd_wallet := changeConfirmationCount (confirmations (bd_newScheme b)) (bd_wallet b)\<rparr>) :: ('e, _) outcome) \<and> d \<noteq> [] \<and>
    exec d (map (account E) as, t) = Some (map (account E) (take k as @ drop (Suc k) as), confirmations (bd_newScheme b))"
proof -
  let ?n = "confirmations (bd_newScheme b)" and ?old = "owner_address m" and ?before = "(sentinel # as) ! k"
  obtain l where l: "ll_remove E ?old (bd_list b) = (Returns l :: ('e, _) outcome)" using holds_remove [OF assms(1,3,4,6,7,8)] by blast
  define d where "d = invocation E ''removeOwner(address,address,uint256)'' [encodeAddress E ?before, encodeAddress E ?old, encodeUInt E (nat ?n)]"
  have d: "Abi.removeOwner E ?before ?old ?n = (Returns d :: (unit, _) outcome)" "Abi.removeOwner E ?before ?old ?n = (Returns d :: ('e, _) outcome)"
    using assms(9) by (simp_all add: Abi.removeOwner_def encodeUInt_int_def BigUInt_of_int_def d_def)
  have "account E ?old = map (account E) as ! k" using account_lower [OF assms(1,7)] assms(6,8) by simp
  then have "exec d (map (account E) as, t) = Some (take k (map (account E) as) @ drop (Suc k) (map (account E) as), ?n)"
    using assms(2,6,7,9-11) d(1) account_before [OF assms(1,6)] accounts_distinct(1) [OF assms(1,4)] hex_before [OF assms(4,6)]
    by (simp add: owner_manager_def)
  moreover have "addressBefore E ?old (bd_list b) = (Returns ?before :: ('e, _) outcome)" by (rule holds_before [OF assms(1,3,4,6,7,8)])
  ultimately show ?thesis
    using assms(5) l d(2) invocation_not_Nil [OF assms(1)] by (simp add: removeOwnerData_def d_def take_map drop_map) blast
qed

subsection \<open>The owners after a recovery\<close>

definition known_owners :: "Wallet \<Rightarrow> Owner list" where
  "known_owners w = filter (\<lambda>o1. owner_role o1 \<noteq> unknown) (owners w)"

text \<open>
  A wallet that is ready for recovery: its owners of unknown role are the owners of the contract; the accounts of the recovery phrase are among them; the key of this device and the
  second factor, if there is one, are not.
\<close>

definition recoverable :: "packages \<Rightarrow> Address list \<Rightarrow> Wallet \<Rightarrow> bool" where
  "recoverable E remote w \<longleftrightarrow>
     map owner_address (filter (\<lambda>o1. owner_role o1 = unknown) (owners w)) = remote \<and> roles_unique (owners w) \<and>
     list_all (\<lambda>o1. hex_address (owner_address o1)) (owners w) \<and> distinct (map (account E) remote) \<and>
     list_all (\<lambda>a. account E a \<noteq> 0 \<and> account E a \<noteq> 1) remote \<and>
     (\<exists>device paper derived. Wallet.owner w thisDevice = Some device \<and> Wallet.owner w paperWallet = Some paper \<and>
       Wallet.owner w paperWalletDerived = Some derived \<and>
       {account E (owner_address paper), account E (owner_address derived)} \<subseteq> account E ` set remote \<and>
       account E (owner_address paper) \<noteq> account E (owner_address derived) \<and> fresh (account E (owner_address device)) (map (account E) remote) \<and>
       (\<forall>auth. twoFAOwner w = Some auth \<longrightarrow>
         fresh (account E (owner_address auth)) (account E (owner_address device) # map (account E) remote)))"

lemma owner_known: "Wallet.owner w role = Some o1 \<Longrightarrow> role \<noteq> unknown \<Longrightarrow> o1 \<in> set (known_owners w) \<and> owner_role o1 = role"
  by (auto simp: Wallet.owner_def first_with_def known_owners_def dest: find_in_set)

lemma known_owner_unique:
  assumes "roles_unique (owners w)" "o1 \<in> set (known_owners w)"
  shows "Wallet.owner w (owner_role o1) = Some o1"
proof -
  have "o1 \<in> set (owners w)" "owner_role o1 \<noteq> unknown" using assms(2) by (auto simp: known_owners_def)
  then obtain o2 where o2: "Wallet.owner w (owner_role o1) = Some o2"
    by (cases "Wallet.owner w (owner_role o1)") (auto simp: Wallet.owner_def first_with_def find_None_iff)
  with owner_known \<open>owner_role o1 \<noteq> unknown\<close> have "o2 \<in> set (known_owners w)" "owner_role o2 = owner_role o1" by auto
  then have "o2 = o1" using assms unfolding roles_unique_def known_owners_def [symmetric] distinct_map by (auto dest: inj_onD)
  with o2 show ?thesis by simp
qed

lemma known_owners_cases:
  assumes "roles_unique (owners w)" "Wallet.owner w thisDevice = Some device" "Wallet.owner w paperWallet = Some paper"
    "Wallet.owner w paperWalletDerived = Some derived"
  shows "newWalletScheme w = withoutExtension \<Longrightarrow> twoFAOwner w = None \<and> set (known_owners w) = {device, paper, derived}"
    and "newWalletScheme w = withExtension \<Longrightarrow>
      \<exists>auth. twoFAOwner w = Some auth \<and> set (known_owners w) = {device, paper, derived, auth} \<and> owner_role auth \<in> {browserExtension, keycard}"
proof -
  have d: "distinct (known_owners w)" using assms(1) by (simp add: roles_unique_def known_owners_def distinct_map)
  have mem: "{device, paper, derived} \<subseteq> set (known_owners w)" "owner_role device = thisDevice" "owner_role paper = paperWallet"
    "owner_role derived = paperWalletDerived"
    using owner_known [OF assms(2)] owner_known [OF assms(3)] owner_known [OF assms(4)] by auto
  have c: "card (set (known_owners w)) = length (known_owners w)" using d by (rule distinct_card)
  have ne: "device \<noteq> paper" "device \<noteq> derived" "paper \<noteq> derived" using mem(2-4) by auto
  then have dist: "card {device, paper, derived} = 3" by simp
  show "twoFAOwner w = None \<and> set (known_owners w) = {device, paper, derived}" if "newWalletScheme w = withoutExtension"
  proof -
    from that have "length (known_owners w) = 3" "\<not> hasAuthenticator w"
      by (auto simp: newWalletScheme_def withoutExtension_def known_owners_def split: if_splits)
    then show ?thesis
      using card_subset_eq [OF _ mem(1)] c dist by (auto simp: twoFAOwner_def hasAuthenticator_def)
  qed
  show "\<exists>auth. twoFAOwner w = Some auth \<and> set (known_owners w) = {device, paper, derived, auth} \<and> owner_role auth \<in> {browserExtension, keycard}"
    if "newWalletScheme w = withExtension"
  proof -
    from that have l: "length (known_owners w) = 4" "hasAuthenticator w"
      by (auto simp: newWalletScheme_def withExtension_def known_owners_def split: if_splits)
    then obtain auth role where auth: "twoFAOwner w = Some auth" "Wallet.owner w role = Some auth" "role \<in> {browserExtension, keycard}"
      by (cases "Wallet.owner w browserExtension") (auto simp: twoFAOwner_def hasAuthenticator_def)
    then have a: "auth \<in> set (known_owners w)" "owner_role auth = role" using owner_known [OF auth(2)] by auto
    then have "device \<noteq> auth" "paper \<noteq> auth" "derived \<noteq> auth" using mem(2-4) auth(3) by auto
    then have "card {device, paper, derived, auth} = 4" using ne by simp
    moreover have "{device, paper, derived, auth} \<subseteq> set (known_owners w)" using mem(1) a(1) by blast
    ultimately show ?thesis using card_subset_eq [of "set (known_owners w)" "{device, paper, derived, auth}"] c l(1) a(2) auth(1,3) by auto
  qed
qed

text \<open>The modifiable owners are the remote owners without the accounts of the recovery phrase.\<close>

lemma mutable_remote:
  assumes "packages_ok E" "recoverable E remote w" "Wallet.owner w paperWallet = Some paper" "Wallet.owner w paperWalletDerived = Some derived"
  defines "as \<equiv> map lower remote"
  shows "owners_ok as" "map (account E) as = map (account E) remote"
    "map (lower \<circ> owner_address) (mutableOwners w) = filter (\<lambda>a. a \<notin> {lower (owner_address paper), lower (owner_address derived)}) as"
    "\<forall>m \<in> set (mutableOwners w). hex_address (owner_address m)"
    "lower (owner_address paper) \<in> set as" "lower (owner_address derived) \<in> set as" "lower (owner_address paper) \<noteq> lower (owner_address derived)"
proof -
  let ?U = "filter (\<lambda>o1. owner_role o1 = unknown) (owners w)"
  have r: "remote = map owner_address ?U" and roles: "roles_unique (owners w)" and hexw: "\<forall>o1 \<in> set (owners w). hex_address (owner_address o1)"
    and d: "distinct (map (account E) remote)" and nz: "\<forall>a \<in> set remote. account E a \<noteq> 0 \<and> account E a \<noteq> 1"
    using assms(2) by (auto simp: recoverable_def list_all_iff)
  have hex: "\<forall>a \<in> set remote. hex_address a" using hexw r by auto
  show acc: "map (account E) as = map (account E) remote" using hex account_lower [OF assms(1)] by (simp add: as_def)
  have "lower a \<noteq> sentinel" if "a \<in> set remote" for a
    using nz that account_lower [OF assms(1), of a] account_sentinel [OF assms(1)] hex by auto
  moreover have "distinct as" using acc d distinct_map [of "account E" as] by simp
  ultimately show "owners_ok as" using hex hex_address_lower by (auto simp: owners_ok_def as_def)
  have paper: "paper \<in> set (owners w)" "owner_role paper = paperWallet" and derived: "derived \<in> set (owners w)" "owner_role derived = paperWalletDerived"
    using owner_known [OF assms(3)] owner_known [OF assms(4)] by (auto simp: known_owners_def)
  have p: "o1 = paper" if "o1 \<in> set (owners w)" "owner_role o1 = paperWallet" for o1
    using known_owner_unique [OF roles, of o1] assms(3) that by (simp add: known_owners_def)
  have q: "o1 = derived" if "o1 \<in> set (owners w)" "owner_role o1 = paperWalletDerived" for o1
    using known_owner_unique [OF roles, of o1] assms(4) that by (simp add: known_owners_def)
  have "{o1 \<in> set (owners w). owner_role o1 = paperWallet \<or> owner_role o1 = paperWalletDerived} = {paper, derived}"
    using p q paper derived by blast
  then have "set (readonlyAddresses w) = {lowercased (address_value (owner_address paper)), lowercased (address_value (owner_address derived))}"
    by (simp add: readonlyAddresses_def)
  then have "mutableOwners w = filter (\<lambda>o1. lower (owner_address o1) \<notin> {lower (owner_address paper), lower (owner_address derived)}) ?U"
    by (auto simp: mutableOwners_def lower_def intro!: filter_cong)
  then show "map (lower \<circ> owner_address) (mutableOwners w) = filter (\<lambda>a. a \<notin> {lower (owner_address paper), lower (owner_address derived)}) as"
    by (simp add: as_def r filter_map comp_def)
  show "\<forall>m \<in> set (mutableOwners w). hex_address (owner_address m)" using hexw by (auto simp: mutableOwners_def)
  have hp: "hex_address (owner_address paper)" "hex_address (owner_address derived)" using hexw paper derived by auto
  from assms(2-4) have "account E (owner_address paper) \<in> account E ` set remote" "account E (owner_address derived) \<in> account E ` set remote"
    "account E (owner_address paper) \<noteq> account E (owner_address derived)" by (auto simp: recoverable_def)
  with hp hex lower_eq_iff [OF assms(1)] show "lower (owner_address paper) \<in> set as" "lower (owner_address derived) \<in> set as"
    "lower (owner_address paper) \<noteq> lower (owner_address derived)" by (auto simp: as_def image_iff)
qed

lemma other_owners:
  assumes "distinct as" "p \<in> set as" "q \<in> set as" "p \<noteq> q" "filter (\<lambda>a. a \<notin> {p, q}) as = ms"
  shows "length as = length ms + 2" "set as = {p, q} \<union> set ms" "p \<notin> set ms" "q \<notin> set ms" "distinct ms"
proof -
  have s: "set ms = set as - {p, q}" using assms(5) by auto
  show "distinct ms" using assms(1,5) distinct_filter by blast
  then have "length ms = card (set as - {p, q})" using s distinct_card by metis
  also have "\<dots> = length as - 2" using assms(1-4) by (simp add: card_Diff_subset distinct_card)
  finally have "length ms = length as - 2" .
  moreover have "2 \<le> length as" using assms(1-4) card_mono [of "set as" "{p, q}"] by (simp add: distinct_card)
  ultimately show "length as = length ms + 2" by simp
  show "set as = {p, q} \<union> set ms" "p \<notin> set ms" "q \<notin> set ms" using s assms(2,3) by auto
qed

lemma builder_of_works:
  assumes "packages_ok E" "recoverable E remote w"
  shows "\<exists>l. builder_of E w = (Returns \<lparr>bd_wallet = w, bd_oldScheme = oldWalletScheme w, bd_newScheme = newWalletScheme w, bd_list = l,
      bd_modifiable = mutableOwners w\<rparr> :: ('e, _) outcome) \<and> holds l (map lower remote)"
proof -
  obtain l0 where l0: "OwnerLinkedList_init E = (Returns l0 :: ('e, _) outcome)" "holds l0 []" using holds_init [OF assms(1)] by blast
  moreover have r: "map owner_address (filter (\<lambda>o1. owner_role o1 = unknown) (owners w)) = remote" "list_all hex_address remote"
    using assms(2) by (auto simp: recoverable_def list_all_iff)
  obtain l where "ll_add_all E remote l0 = (Returns l :: ('e, _) outcome)" "holds l (map lower remote)"
    using holds_add_all [OF assms(1) l0(2) r(2)] by auto
  ultimately show ?thesis by (simp add: builder_of_def ownerLinkedList_def r(1))
qed

lemma withFirstExisting_twoFA:
  assumes "twoFAOwner (bd_wallet b) = Some auth" "owner_role auth \<in> {browserExtension, keycard}" "roles_unique (owners (bd_wallet b))"
  shows "withFirstExistingOwner [browserExtension, keycard] f b = f (owner_role auth) b" "Wallet.owner (bd_wallet b) (owner_role auth) = Some auth"
  using assms owner_known [of "bd_wallet b" browserExtension auth] owner_known [of "bd_wallet b" keycard auth]
  by (cases "Wallet.owner (bd_wallet b) browserExtension"; auto simp: withFirstExistingOwner_def twoFAOwner_def)+

lemma scheme_sizes:
  assumes "recoverable E remote w"
  shows "oldWalletScheme w = withoutExtension \<Longrightarrow> length remote = 3 \<and> confirmationCount w = 1"
    "oldWalletScheme w = withExtension \<Longrightarrow> length remote = 4 \<and> confirmationCount w = 2"
proof -
  have "length remote = length (filter (\<lambda>o1. owner_role o1 = unknown) (owners w))" using assms by (auto simp: recoverable_def)
  then show "oldWalletScheme w = withoutExtension \<Longrightarrow> length remote = 3 \<and> confirmationCount w = 1"
    "oldWalletScheme w = withExtension \<Longrightarrow> length remote = 4 \<and> confirmationCount w = 2"
    by (auto simp: oldWalletScheme_def withoutExtension_def withExtension_def)
qed

text \<open>What the first call leaves: \<open>as\<close> are the owners of the contract with this device in the place of the first modifiable owner, \<open>ms\<close> the modifiable owners that are left.\<close>

definition device_stands ::
    "packages \<Rightarrow> Address list \<Rightarrow> Owner \<Rightarrow> Owner \<Rightarrow> Owner \<Rightarrow> Owner list \<Rightarrow> OwnerLinkedList \<Rightarrow> Address list \<Rightarrow> bool" where
  "device_stands E remote device paper derived ms l as \<longleftrightarrow>
     holds l as \<and> owners_ok as \<and> length as = length remote \<and> length remote = length ms + 3 \<and>
     set as = {lower (owner_address paper), lower (owner_address derived), lower (owner_address device)} \<union> (lower \<circ> owner_address) ` set ms \<and>
     (\<forall>n \<in> set ms. lower (owner_address n) \<notin> {lower (owner_address paper), lower (owner_address derived), lower (owner_address device)} \<and> hex_address (owner_address n)) \<and>
     set (map (account E) as) \<subseteq> insert (account E (owner_address device)) (set (map (account E) remote))"

text \<open>The first call puts the key of this device in the place of the first modifiable owner.\<close>

lemma device_swapped:
  assumes "packages_ok E" "owner_manager E exec" "recoverable E remote w" "Wallet.owner w thisDevice = Some device"
    "Wallet.owner w paperWallet = Some paper" "Wallet.owner w paperWalletDerived = Some derived" "2 < length remote"
    "builder_of E w = (Returns b :: ('e, _) outcome)"
  shows "\<exists>m ms d l as. bd_modifiable b = m # ms \<and> swapOwnerData E thisDevice b = (Returns (d, b\<lparr>bd_modifiable := ms, bd_list := l\<rparr>) :: ('e, _) outcome) \<and>
    d \<noteq> [] \<and> device_stands E remote device paper derived ms l as \<and>
    exec d (map (account E) remote, t) = Some (map (account E) as, t)"
proof -
  define as where "as = map lower remote"
  note mut = mutable_remote [OF assms(1,3,5,6), folded as_def]
  let ?p = "lower (owner_address paper)" and ?q = "lower (owner_address derived)" and ?d = "lower (owner_address device)"
  obtain l0 where b: "b = \<lparr>bd_wallet = w, bd_oldScheme = oldWalletScheme w, bd_newScheme = newWalletScheme w, bd_list = l0,
      bd_modifiable = mutableOwners w\<rparr>" "holds l0 as"
    using builder_of_works [OF assms(1,3), where ?'e = 'e] assms(8) by (auto simp: as_def)
  have "distinct as" using mut(1) by (simp add: owners_ok_def)
  note oth = other_owners [OF this mut(5-7) mut(3) [symmetric]]
  from oth(1) assms(7) obtain m ms where m: "mutableOwners w = m # ms" by (cases "mutableOwners w") (auto simp: as_def)
  from oth(2) m have "lower (owner_address m) \<in> set as" by simp
  then obtain k where k: "k < length as" "lower (owner_address m) = as ! k" by (auto simp: in_set_conv_nth)
  have dev: "hex_address (owner_address device)" "fresh (account E (owner_address device)) (map (account E) as)"
    using assms(3,4) owner_known [OF assms(4)] mut(2) by (auto simp: recoverable_def known_owners_def list_all_iff)
  obtain d l where step: "swapOwnerData E thisDevice b = (Returns (d, b\<lparr>bd_modifiable := ms, bd_list := l\<rparr>) :: ('e, _) outcome)" "d \<noteq> []"
    "holds l (as[k := ?d])" "owners_ok (as[k := ?d])" "exec d (map (account E) as, t) = Some (map (account E) (as[k := ?d]), t)"
    using swap_step [OF assms(1,2) _ mut(1) _ k(1) _ k(2) _ dev, of b ms thisDevice t, where ?'e = 'e] b m mut(4) assms(4) by auto
  have new: "?d \<notin> set as" using owners_ok_update(1) [OF assms(1) mut(1) dev] .
  have set1: "set (as[k := ?d]) = {?p, ?q, ?d} \<union> (lower \<circ> owner_address) ` set ms"
  proof -
    have "set as = insert (as ! k) ({?p, ?q} \<union> (lower \<circ> owner_address) ` set ms)" using oth(2) m k(2) by auto
    moreover have "as ! k \<notin> {?p, ?q} \<union> (lower \<circ> owner_address) ` set ms" using oth(3-5) m k(2) [symmetric] by auto
    ultimately have "set as - {as ! k} = {?p, ?q} \<union> (lower \<circ> owner_address) ` set ms" by (simp add: Diff_insert_absorb)
    then show ?thesis using set_update_distinct [OF \<open>distinct as\<close> k(1), of ?d] by auto
  qed
  have sep: "\<forall>n \<in> set ms. lower (owner_address n) \<notin> {?p, ?q, ?d} \<and> hex_address (owner_address n)"
    using oth(2-4) m new mut(4) by (auto simp: image_iff)
  have "length (as[k := ?d]) = length remote" "length remote = length ms + 3" using oth(1) m by (simp_all add: as_def)
  moreover have "set (map (account E) (as[k := ?d])) \<subseteq> insert (account E (owner_address device)) (set (map (account E) remote))"
    using set_update_subset_insert [of "map (account E) as" k "account E ?d"] account_lower [OF assms(1) dev(1)] mut(2) by (simp add: map_update)
  moreover have "bd_modifiable b = m # ms" using b(1) m by simp
  ultimately show ?thesis using step set1 sep mut(2) unfolding device_stands_def by metis
qed

lemma set_remove_nth:
  assumes "distinct xs" "k < length xs"
  shows "set (take k xs @ drop (Suc k) xs) = set xs - {xs ! k}"
proof -
  have "set (ys @ zs) = set (ys @ x # zs) - {x}" if "distinct (ys @ x # zs)" for x and ys zs :: "'a list" using that by auto
  from this [of "take k xs" "xs ! k" "drop (Suc k) xs"] show ?thesis using assms by (simp only: id_take_nth_drop [symmetric])
qed

lemma recoverableE:
  assumes "recoverable E remote w"
  obtains device paper derived where "Wallet.owner w thisDevice = Some device" "Wallet.owner w paperWallet = Some paper"
    "Wallet.owner w paperWalletDerived = Some derived" "roles_unique (owners w)"
    "hex_address (owner_address device)" "hex_address (owner_address paper)" "hex_address (owner_address derived)"
    "\<And>auth. twoFAOwner w = Some auth \<Longrightarrow> fresh (account E (owner_address auth)) (account E (owner_address device) # map (account E) remote)"
proof -
  obtain device paper derived where o: "Wallet.owner w thisDevice = Some device" "Wallet.owner w paperWallet = Some paper"
    "Wallet.owner w paperWalletDerived = Some derived" "roles_unique (owners w)"
    and f: "\<And>auth. twoFAOwner w = Some auth \<Longrightarrow> fresh (account E (owner_address auth)) (account E (owner_address device) # map (account E) remote)"
    using assms unfolding recoverable_def by metis
  have "hex_address (owner_address o1)" if "o1 \<in> set (known_owners w)" for o1
    using assms that by (auto simp: recoverable_def list_all_iff known_owners_def)
  then have "hex_address (owner_address device)" "hex_address (owner_address paper)" "hex_address (owner_address derived)"
    using owner_known [OF o(1)] owner_known [OF o(2)] owner_known [OF o(3)] by auto
  with o f that show thesis by blast
qed

lemma twoFA_ready:
  assumes "recoverable E remote w" "newWalletScheme w = withExtension" "Wallet.owner w thisDevice = Some device" "Wallet.owner w paperWallet = Some paper"
    "Wallet.owner w paperWalletDerived = Some derived" "device_stands E remote device paper derived ms l as"
  obtains auth where "twoFAOwner w = Some auth" "set (known_owners w) = {device, paper, derived, auth}" "owner_role auth \<in> {browserExtension, keycard}"
    "hex_address (owner_address auth)" "fresh (account E (owner_address auth)) (map (account E) as)"
proof -
  have roles: "roles_unique (owners w)" using assms(1) by (simp add: recoverable_def)
  from known_owners_cases(2) [OF roles assms(3-5,2)] obtain auth where
    a: "twoFAOwner w = Some auth" "set (known_owners w) = {device, paper, derived, auth}" "owner_role auth \<in> {browserExtension, keycard}" by blast
  have hex: "hex_address (owner_address auth)" using assms(1) a(2) by (auto simp: recoverable_def list_all_iff known_owners_def)
  have "fresh (account E (owner_address auth)) (account E (owner_address device) # map (account E) remote)"
    using assms(1,3) a(1) by (auto simp: recoverable_def)
  moreover have "set (map (account E) as) \<subseteq> insert (account E (owner_address device)) (set (map (account E) remote))"
    using assms(6) unfolding device_stands_def by blast
  ultimately have "fresh (account E (owner_address auth)) (map (account E) as)" by (auto simp: fresh_def)
  with hex a that show thesis by blast
qed

text \<open>The calls that follow, from a set-up without and from one with a second factor.\<close>

lemma calls_without_extension:
  fixes b :: builder
  assumes "packages_ok E" "owner_manager E exec" "recoverable E remote w" "oldWalletScheme w = withoutExtension" "newWalletScheme w \<in> set supportedSchemes"
    "Wallet.owner w thisDevice = Some device" "Wallet.owner w paperWallet = Some paper" "Wallet.owner w paperWalletDerived = Some derived"
    "hex_address (owner_address device)" "hex_address (owner_address paper)" "hex_address (owner_address derived)"
    and "bd_wallet b = w" "bd_oldScheme b = oldWalletScheme w" "bd_newScheme b = newWalletScheme w"
    and "swapOwnerData E thisDevice b = (Returns (d, b\<lparr>bd_modifiable := ms, bd_list := l\<rparr>) :: ('e, _) outcome)" "d \<noteq> []"
    "device_stands E remote device paper derived ms l as"
  shows "\<exists>ds b' os. owner_calls E b = (Returns (d # ds, b') :: ('e, _) outcome) \<and> [] \<notin> set ds \<and> length ds \<le> 1 \<and> bd_oldScheme b' = bd_oldScheme b \<and>
    exec_all exec ds (map (account E) as, confirmationCount w) = Some (os, confirmations (newWalletScheme w)) \<and>
    set os = (\<lambda>o1. account E (owner_address o1)) ` set (known_owners w) \<and> bd_wallet b' = w\<lparr>confirmationCount := confirmations (newWalletScheme w)\<rparr>"
proof -
  let ?b1 = "b\<lparr>bd_modifiable := ms, bd_list := l\<rparr>" and ?acc = "\<lambda>o1. account E (owner_address o1)"
  have roles: "roles_unique (owners w)" using assms(3) by (simp add: recoverable_def)
  have old: "ms = []" "confirmationCount w = 1" "length as = 3" and ok: "holds l as" "owners_ok as"
    using scheme_sizes(1) [OF assms(3,4)] assms(17) by (auto simp: device_stands_def)
  have accs: "set (map (account E) as) = {?acc paper, ?acc derived, ?acc device}"
    using assms(9-11,17) old(1) by (simp add: device_stands_def account_lower [OF assms(1)])
  from assms(5) consider "newWalletScheme w = withoutExtension" | "newWalletScheme w = withExtension" by (auto simp: supportedSchemes_def)
  then show ?thesis
  proof cases
    case 1
    then have "owner_calls E b = (Returns ([d], ?b1) :: ('e, _) outcome)" using assms(4,13-15) by (simp add: owner_calls_def)
    moreover have "set (known_owners w) = {device, paper, derived}" using known_owners_cases(1) [OF roles assms(6-8) 1] by simp
    moreover have "w\<lparr>confirmationCount := 1\<rparr> = w" using old(2) by simp
    ultimately show ?thesis using accs old(2) 1 assms(12) by (auto simp: withoutExtension_def)
  next
    case 2
    obtain auth where a: "twoFAOwner w = Some auth" "set (known_owners w) = {device, paper, derived, auth}" "owner_role auth \<in> {browserExtension, keycard}"
      "hex_address (owner_address auth)" "fresh (?acc auth) (map (account E) as)" using twoFA_ready [OF assms(3) 2 assms(6-8,17)] by blast
    obtain e l2 where e: "addOwnerData E (owner_role auth) ?b1 =
        (Returns (e, ?b1\<lparr>bd_list := l2, bd_wallet := changeConfirmationCount 2 w\<rparr>) :: ('e, _) outcome)" "e \<noteq> []"
      "exec e (map (account E) as, confirmationCount w) = Some (?acc auth # map (account E) as, 2)"
      using add_step [OF assms(1,2) _ ok(2) _ a(4,5), of ?b1 "owner_role auth" "confirmationCount w", where ?'e = 'e]
        withFirstExisting_twoFA(2) [of ?b1 auth] a(1,3) roles old(3) ok(1) 2 assms(12,14) by (auto simp: withExtension_def Int_max_def)
    then have "owner_calls E b = (Returns ([d, e], ?b1\<lparr>bd_list := l2, bd_wallet := changeConfirmationCount 2 w\<rparr>) :: ('e, _) outcome)"
      using 2 assms(4,12-15) withFirstExisting_twoFA(1) [of ?b1 auth "addOwnerData E :: _ \<Rightarrow> _ \<Rightarrow> ('e, _) outcome"] a(1,3) roles
      by (simp add: owner_calls_def withoutExtension_def withExtension_def)
    with e accs a(2) 2 show ?thesis by (auto simp: withExtension_def changeConfirmationCount_def)
  qed
qed

lemma calls_with_extension:
  fixes b :: builder
  assumes "packages_ok E" "owner_manager E exec" "recoverable E remote w" "oldWalletScheme w = withExtension" "newWalletScheme w \<in> set supportedSchemes"
    "Wallet.owner w thisDevice = Some device" "Wallet.owner w paperWallet = Some paper" "Wallet.owner w paperWalletDerived = Some derived"
    "hex_address (owner_address device)" "hex_address (owner_address paper)" "hex_address (owner_address derived)"
    and "bd_wallet b = w" "bd_oldScheme b = oldWalletScheme w" "bd_newScheme b = newWalletScheme w"
    and "swapOwnerData E thisDevice b = (Returns (d, b\<lparr>bd_modifiable := ms, bd_list := l\<rparr>) :: ('e, _) outcome)" "d \<noteq> []"
    "device_stands E remote device paper derived ms l as"
  shows "\<exists>ds b' os. owner_calls E b = (Returns (d # ds, b') :: ('e, _) outcome) \<and> [] \<notin> set ds \<and> length ds \<le> 1 \<and> bd_oldScheme b' = bd_oldScheme b \<and>
    exec_all exec ds (map (account E) as, confirmationCount w) = Some (os, confirmations (newWalletScheme w)) \<and>
    set os = (\<lambda>o1. account E (owner_address o1)) ` set (known_owners w) \<and> bd_wallet b' = w\<lparr>confirmationCount := confirmations (newWalletScheme w)\<rparr>"
proof -
  let ?b1 = "b\<lparr>bd_modifiable := ms, bd_list := l\<rparr>" and ?acc = "\<lambda>o1. account E (owner_address o1)"
  have roles: "roles_unique (owners w)" using assms(3) by (simp add: recoverable_def)
  have ne: "withExtension \<noteq> withoutExtension" by (simp add: withExtension_def withoutExtension_def)
  have ok: "holds l as" "owners_ok as" using assms(17) unfolding device_stands_def by blast+
  then have d: "distinct as" by (simp add: owners_ok_def)
  obtain n where old: "ms = [n]" "confirmationCount w = 2" "length as = 4"
    using scheme_sizes(2) [OF assms(3,4)] assms(17) by (cases ms) (auto simp: device_stands_def)
  have as: "set as = {lower (owner_address paper), lower (owner_address derived), lower (owner_address device), lower (owner_address n)}"
    "lower (owner_address n) \<notin> {lower (owner_address paper), lower (owner_address derived), lower (owner_address device)}"
    using assms(17) old(1) by (simp_all add: device_stands_def insert_commute)
  from as(1) obtain k where k: "k < length as" "lower (owner_address n) = as ! k" by (metis in_set_conv_nth insertCI)
  have hn: "hex_address (owner_address n)" using assms(17) old(1) by (simp add: device_stands_def)
  have "set as - {as ! k} = {lower (owner_address paper), lower (owner_address derived), lower (owner_address device)}"
    using as unfolding k(2) by blast
  then have accs: "account E ` (set as - {as ! k}) = {?acc paper, ?acc derived, ?acc device}" using assms(9-11) by (simp add: account_lower [OF assms(1)])
  from assms(5) consider "newWalletScheme w = withoutExtension" | "newWalletScheme w = withExtension" by (auto simp: supportedSchemes_def)
  then show ?thesis
  proof cases
    case 1
    obtain e l2 where e: "removeOwnerData E ?b1 =
        (Returns (e, ?b1\<lparr>bd_modifiable := [], bd_list := l2, bd_wallet := changeConfirmationCount 1 w\<rparr>) :: ('e, _) outcome)" "e \<noteq> []"
      "exec e (map (account E) as, confirmationCount w) = Some (map (account E) (take k as @ drop (Suc k) as), 1)"
      using remove_step [OF assms(1,2) _ ok(2) _ k(1) hn k(2), of ?b1 "[]" "confirmationCount w", where ?'e = 'e] old ok(1) 1 assms(12,14)
      by (auto simp: withoutExtension_def Int_max_def)
    then have "owner_calls E b =
        (Returns ([d, e], ?b1\<lparr>bd_modifiable := [], bd_list := l2, bd_wallet := changeConfirmationCount 1 w\<rparr>) :: ('e, _) outcome)"
      using ne 1 assms(4,13-15) by (simp add: owner_calls_def)
    moreover have "set (map (account E) (take k as @ drop (Suc k) as)) = {?acc paper, ?acc derived, ?acc device}"
      unfolding set_map set_remove_nth [OF d k(1)] accs ..
    moreover have "set (known_owners w) = {device, paper, derived}" using known_owners_cases(1) [OF roles assms(6-8) 1] by simp
    ultimately show ?thesis using e 1 by (auto simp: withoutExtension_def changeConfirmationCount_def)
  next
    case 2
    obtain auth where a: "twoFAOwner w = Some auth" "set (known_owners w) = {device, paper, derived, auth}" "owner_role auth \<in> {browserExtension, keycard}"
      "hex_address (owner_address auth)" "fresh (?acc auth) (map (account E) as)" using twoFA_ready [OF assms(3) 2 assms(6-8,17)] by blast
    let ?as = "as[k := lower (owner_address auth)]"
    obtain e l2 where e: "swapOwnerData E (owner_role auth) ?b1 = (Returns (e, ?b1\<lparr>bd_modifiable := [], bd_list := l2\<rparr>) :: ('e, _) outcome)" "e \<noteq> []"
      "exec e (map (account E) as, confirmationCount w) = Some (map (account E) ?as, confirmationCount w)"
      using swap_step [OF assms(1,2) _ ok(2) _ k(1) hn k(2) _ a(4,5), of ?b1 "[]" "owner_role auth" "confirmationCount w", where ?'e = 'e]
        withFirstExisting_twoFA(2) [of ?b1 auth] a(1,3) roles old ok(1) assms(12) by auto
    then have "owner_calls E b = (Returns ([d, e], ?b1\<lparr>bd_modifiable := [], bd_list := l2\<rparr>) :: ('e, _) outcome)"
      using ne 2 assms(4,12-15) withFirstExisting_twoFA(1) [of ?b1 auth "swapOwnerData E :: _ \<Rightarrow> _ \<Rightarrow> ('e, _) outcome"] a(1,3) roles by (simp add: owner_calls_def)
    moreover have "set (map (account E) ?as) = {?acc paper, ?acc derived, ?acc device, ?acc auth}"
      using set_update_distinct [OF d k(1)] accs a(4) by (auto simp: account_lower [OF assms(1)])
    moreover have "w\<lparr>confirmationCount := 2\<rparr> = w" using old(2) by simp
    ultimately show ?thesis using e a(2) old(2) 2 assms(12) by (auto simp: withExtension_def)
  qed
qed

lemma recovery_calls:
  assumes "packages_ok E" "owner_manager E exec" "recoverable E remote w" "oldWalletScheme w \<in> set supportedSchemes" "newWalletScheme w \<in> set supportedSchemes"
  shows "\<exists>b ds b' os. builder_of E w = (Returns b :: ('e, _) outcome) \<and> bd_wallet b = w \<and> bd_oldScheme b = oldWalletScheme w \<and> bd_newScheme b = newWalletScheme w \<and>
    bd_modifiable b = mutableOwners w \<and> length (mutableOwners w) \<in> {1, 2} \<and>
    owner_calls E b = (Returns (ds, b') :: ('e, _) outcome) \<and> [] \<notin> set ds \<and> length ds \<in> {1, 2} \<and> bd_oldScheme b' = oldWalletScheme w \<and>
    exec_all exec ds (map (account E) remote, confirmationCount w) = Some (os, confirmations (newWalletScheme w)) \<and>
    set os = (\<lambda>o1. account E (owner_address o1)) ` set (known_owners w) \<and> bd_wallet b' = w\<lparr>confirmationCount := confirmations (newWalletScheme w)\<rparr>"
proof -
  obtain device paper derived where o: "Wallet.owner w thisDevice = Some device" "Wallet.owner w paperWallet = Some paper"
    "Wallet.owner w paperWalletDerived = Some derived"
    and hex: "hex_address (owner_address device)" "hex_address (owner_address paper)" "hex_address (owner_address derived)"
    using recoverableE [OF assms(3)] by metis
  obtain l0 where b: "builder_of E w = (Returns \<lparr>bd_wallet = w, bd_oldScheme = oldWalletScheme w, bd_newScheme = newWalletScheme w, bd_list = l0,
      bd_modifiable = mutableOwners w\<rparr> :: ('e, _) outcome)" (is "_ = Returns ?b") using builder_of_works [OF assms(1,3)] by blast
  have n: "length remote = 3 \<or> length remote = 4" using assms(4) scheme_sizes [OF assms(3)] by (auto simp: supportedSchemes_def)
  then obtain m ms d l as where sw: "bd_modifiable ?b = m # ms" "swapOwnerData E thisDevice ?b = (Returns (d, ?b\<lparr>bd_modifiable := ms, bd_list := l\<rparr>) :: ('e, _) outcome)"
    "d \<noteq> []" "device_stands E remote device paper derived ms l as"
    "exec d (map (account E) remote, confirmationCount w) = Some (map (account E) as, confirmationCount w)"
    using device_swapped [OF assms(1-3) o _ b, of "confirmationCount w"] by fastforce
  have len: "length (mutableOwners w) \<in> {1, 2}" using n sw(1,4) by (auto simp: device_stands_def)
  from assms(4) have "oldWalletScheme w = withoutExtension \<or> oldWalletScheme w = withExtension" by (auto simp: supportedSchemes_def)
  then obtain ds b' os where c: "owner_calls E ?b = (Returns (d # ds, b') :: ('e, _) outcome)" "[] \<notin> set ds" "length ds \<le> 1" "bd_oldScheme b' = bd_oldScheme ?b"
    "exec_all exec ds (map (account E) as, confirmationCount w) = Some (os, confirmations (newWalletScheme w))"
    "set os = (\<lambda>o1. account E (owner_address o1)) ` set (known_owners w)" "bd_wallet b' = w\<lparr>confirmationCount := confirmations (newWalletScheme w)\<rparr>"
    using calls_without_extension [OF assms(1-3) _ assms(5) o hex _ _ _ sw(2-4)] calls_with_extension [OF assms(1-3) _ assms(5) o hex _ _ _ sw(2-4)] by fastforce
  have "length (d # ds) \<in> {1, 2}" "[] \<notin> set (d # ds)" using c(2,3) sw(3) by (cases ds; auto)+
  with b len c(1,4-7) sw(5) show ?thesis by (intro exI [of _ ?b] exI [of _ "d # ds"] exI [of _ b'] exI [of _ os]) simp
qed

text \<open>
  A recovery turns the owners of the contract into the owners of the recovered wallet. Let a wallet be ready for recovery, with one of the two supported set-ups before and after (one
  confirmation of three owners, or two of four). Then its owner calls can be built, and a contract that executes them one after the other accepts each of them and ends
  with exactly the owners that the wallet has by role (this device, the two accounts of the recovery phrase, and the second factor if there is one) and with the
  number of confirmations of the new set-up, which is also the number stored in the wallet.
\<close>

theorem recovery_changes_owners:
  assumes "packages_ok E" "owner_manager E exec" "recoverable E remote w" "oldWalletScheme w \<in> set supportedSchemes" "newWalletScheme w \<in> set supportedSchemes"
  shows "\<exists>b ds b' os. builder_of E w = (Returns b :: ('e, _) outcome) \<and> owner_calls E b = (Returns (ds, b') :: ('e, _) outcome) \<and>
    exec_all exec (filter (\<lambda>d. d \<noteq> []) ds) (map (account E) remote, confirmationCount w) = Some (os, confirmations (newWalletScheme w)) \<and>
    set os = (\<lambda>o1. account E (owner_address o1)) ` set (known_owners w) \<and>
    owners (bd_wallet b') = owners w \<and> confirmationCount (bd_wallet b') = confirmations (newWalletScheme w)"
proof -
  from recovery_calls [OF assms, where ?'e = 'e] obtain b ds b' os where
    r: "builder_of E w = (Returns b :: ('e, _) outcome)" "owner_calls E b = (Returns (ds, b') :: ('e, _) outcome)" "[] \<notin> set ds"
      "exec_all exec ds (map (account E) remote, confirmationCount w) = Some (os, confirmations (newWalletScheme w))"
      "set os = (\<lambda>o1. account E (owner_address o1)) ` set (known_owners w)" "bd_wallet b' = w\<lparr>confirmationCount := confirmations (newWalletScheme w)\<rparr>" by blast
  have "filter (\<lambda>d. d \<noteq> []) ds = ds" using r(3) by (auto simp: filter_id_conv)
  with r show ?thesis by auto
qed

text \<open>
  The linked list implements a list of owners. Let \<open>l\<close> hold the owners \<open>os\<close>. Its contents are \<open>os\<close>; adding an owner appends its lower-case spelling; for an owner at
  position \<open>k\<close>, in any spelling, the address before it is its predecessor in \<open>os\<close> or the sentinel at the front, a replacement updates position \<open>k\<close> and a removal takes it out. The
  address before something that is not in the list stops the process, and so does the address before the sentinel itself.
\<close>

theorem owner_list_refines_list:
  assumes "packages_ok E" "holds l os" "owners_ok os" "hex_address a" "hex_address b"
  shows "contents E l = (Returns os :: ('e, _) outcome) \<and>
    (\<exists>l'. ll_add E a l = (Returns l' :: ('e, _) outcome) \<and> holds l' (os @ [lower a])) \<and>
    (\<forall>k < length os. lower a = os ! k \<longrightarrow>
      addressBefore E a l = (Returns ((sentinel # os) ! k) :: ('e, _) outcome) \<and>
      (\<exists>l'. ll_replace E a b l = (Returns l' :: ('e, _) outcome) \<and> holds l' (os[k := lower b])) \<and>
      (\<exists>l'. ll_remove E a l = (Returns l' :: ('e, _) outcome) \<and> holds l' (take k os @ drop (Suc k) os))) \<and>
    (lower a \<notin> set os \<longrightarrow> addressBefore E a l = (Traps :: ('e, _) outcome))"
proof -
  have "addressBefore E a l = (Traps :: ('e, _) outcome)" if "lower a \<notin> set os"
  proof (cases "lower a = sentinel")
    case True
    then show ?thesis using assms(1,2,4) by (auto simp: addressBefore_def ll_firstIndex_def normalized_hex holds_def)
  next
    case False
    have "firstIndex (\<lambda>x. x = lower a) xs = None" if "lower a \<notin> set xs" for xs using that by (induction xs) auto
    moreover have "lower a \<notin> set l" using False that assms(2) by (auto simp: holds_def)
    ultimately show ?thesis using assms(1,4) by (simp add: addressBefore_def ll_firstIndex_def normalized_hex)
  qed
  then show ?thesis
    by (intro conjI allI impI holds_contents(1) [OF assms(1-3)] holds_add [OF assms(1,2,4)] holds_before [OF assms(1-3) _ assms(4)]
        holds_replace [OF assms(1-3) _ assms(4) _ assms(5)] holds_remove [OF assms(1-3) _ assms(4)]) simp_all
qed

subsection \<open>Samples\<close>

definition sampleExec :: "data \<Rightarrow> nat list \<times> int \<Rightarrow> (nat list \<times> int) option" where
  "sampleExec d s =
     (let E = samplePackages; (os, t) = s; x = decodeUInt E (drop 4 d); y = decodeUInt E (drop 36 d); z = decodeUInt E (drop 68 d)
      in if take 4 d = abi_method E addOwner_selector then Some (x # os, int y)
         else case firstIndex (\<lambda>n. n = y) os of
           None \<Rightarrow> None
         | Some k \<Rightarrow>
             if take 4 d = abi_method E swapOwner_selector then Some (os[k := z], t)
             else Some (take k os @ drop (Suc k) os, int z))"

lemma sample_selectors: "abi_method samplePackages swapOwner_selector \<noteq> abi_method samplePackages addOwner_selector"
  "abi_method samplePackages ''removeOwner(address,address,uint256)'' \<noteq> abi_method samplePackages addOwner_selector"
  "abi_method samplePackages ''removeOwner(address,address,uint256)'' \<noteq> abi_method samplePackages swapOwner_selector"
  "length (abi_method samplePackages f) = 4"
  using packages_okD(5) [OF samplePackages_ok, of "ascii f"]
  by (simp_all add: abi_method_def samplePackages_def ascii_def swapOwner_selector_def addOwner_selector_def rightPadded_def)

lemma sample_words:
  assumes "hex_address a"
  shows "decodeUInt samplePackages (encodeAddress samplePackages a @ rest) = account samplePackages a"
    "decodeUInt samplePackages (encodeAddress samplePackages a) = account samplePackages a"
  using hex_address_account(2) [OF samplePackages_ok assms] samplePackages_ok by (simp_all add: encodeAddress_account uint160_less del: power_numeral)

lemma sampleExec_ok: "owner_manager samplePackages sampleExec"
proof -
  have first: "firstIndex (\<lambda>n. n = os ! k) os = Some k" if "distinct os" "k < length os" for os :: "nat list" and k
    using firstIndex_eq that by blast
  note inv = invocation_def sampleExec_def Let_def sample_selectors
  show ?thesis
    unfolding owner_manager_def
  proof (intro conjI allI impI; elim conjE)
    fix before old new os k and t :: int
    assume "distinct os" "k < length os" "account samplePackages old = os ! k" "list_all hex_address [before, old, new]"
    then show "sampleExec (swapOwner samplePackages before old new) (os, t) = Some (os[k := account samplePackages new], t)"
      using first [of os k] by (simp add: swapOwner_def inv sample_words)
  next
    fix new n d os and t :: int
    assume n: "hex_address new" "1 \<le> n" "n \<le> Int_max" and "Abi.addOwner samplePackages new n = (Returns d :: (unit, data) outcome)"
    then have "d = invocation samplePackages addOwner_selector [encodeAddress samplePackages new, encodeUInt samplePackages (nat n)]"
      by (simp add: Abi.addOwner_def encodeUInt_int_def BigUInt_of_int_def)
    moreover have "nat n < 256 ^ 32" using n(3) by (simp add: Int_max_def)
    ultimately show "sampleExec d (os, t) = Some (account samplePackages new # os, n)"
      using n(1,2) samplePackages_ok by (simp add: inv sample_words del: power_numeral)
  next
    fix before old n d os k and t :: int
    assume n: "distinct os" "k < length os" "account samplePackages old = os ! k" "list_all hex_address [before, old]" "1 \<le> n" "n \<le> Int_max"
      and "Abi.removeOwner samplePackages before old n = (Returns d :: (unit, data) outcome)"
    then have "d = invocation samplePackages ''removeOwner(address,address,uint256)''
        [encodeAddress samplePackages before, encodeAddress samplePackages old, encodeUInt samplePackages (nat n)]"
      by (simp add: Abi.removeOwner_def encodeUInt_int_def BigUInt_of_int_def)
    moreover have "nat n < 256 ^ 32" using n(6) by (simp add: Int_max_def)
    ultimately show "sampleExec d (os, t) = Some (take k os @ drop (Suc k) os, n)"
      using n first [of os k] samplePackages_ok by (simp add: inv sample_words del: power_numeral)
  qed
qed

definition lostWallet :: Wallet where
  "lostWallet =
     (Wallet_blank ''w'')\<lparr>state := recoveryDraft, address := Some (deploy_address 30),
       owners := [\<lparr>owner_address = deploy_address 40, owner_role = thisDevice\<rparr>, \<lparr>owner_address = deploy_address 22, owner_role = paperWallet\<rparr>,
         \<lparr>owner_address = deploy_address 23, owner_role = paperWalletDerived\<rparr>, \<lparr>owner_address = deploy_address 41, owner_role = keycard\<rparr>,
         \<lparr>owner_address = deploy_address 22, owner_role = unknown\<rparr>, \<lparr>owner_address = deploy_address 21, owner_role = unknown\<rparr>,
         \<lparr>owner_address = deploy_address 23, owner_role = unknown\<rparr>]\<rparr>"

lemma hex_deploy_address: "hex_address (deploy_address n)"
  using length_be_bytes by (simp add: hex_address_def uint_address_def)

lemma account_deploy_address: "n < 256 ^ 20 \<Longrightarrow> account samplePackages (deploy_address n) = n"
  using account_uint_address [OF samplePackages_ok] .

lemma lostWallet_recoverable:
  "recoverable samplePackages [deploy_address 22, deploy_address 21, deploy_address 23] lostWallet"
  "oldWalletScheme lostWallet = withoutExtension" "newWalletScheme lostWallet = withExtension"
  using hex_deploy_address account_deploy_address
  by (simp_all add: recoverable_def lostWallet_def roles_unique_def Wallet.owner_def first_with_def twoFAOwner_def fresh_def oldWalletScheme_def
      newWalletScheme_def hasAuthenticator_def withoutExtension_def withExtension_def Wallet_blank_def)

theorem recovery_changes_owners_witness:
  "\<exists>b ds b' os. builder_of samplePackages lostWallet = (Returns b :: (unit, _) outcome) \<and> owner_calls samplePackages b = (Returns (ds, b') :: (unit, _) outcome) \<and>
     exec_all sampleExec (filter (\<lambda>d. d \<noteq> []) ds) ([22, 21, 23], 1) = Some (os, 2) \<and> set os = {40, 22, 23, 41}"
proof -
  have "map (account samplePackages) [deploy_address 22, deploy_address 21, deploy_address 23] = [22, 21, 23]" "confirmationCount lostWallet = 1"
    "(\<lambda>o1. account samplePackages (owner_address o1)) ` set (known_owners lostWallet) = {40, 22, 23, 41}"
    using account_deploy_address by (simp_all add: lostWallet_def Wallet_blank_def known_owners_def)
  then show ?thesis
    using recovery_changes_owners [OF samplePackages_ok sampleExec_ok lostWallet_recoverable(1), where ?'e = unit] lostWallet_recoverable(2,3)
    by (fastforce simp: supportedSchemes_def withExtension_def)
qed

lemma lower_hex_digit: "d < 16 \<Longrightarrow> lower_char (hex_digit d) = hex_digit d"
  by (auto simp: hex_digit_def lower_char_def less_Suc_eq numeral_eq_Suc)

lemma lower_deploy_address: "lower (deploy_address n) = deploy_address n"
proof -
  have "unat b div 16 < 16" for b :: u8 using unsigned_less [of b, where ?'a = nat] by (simp add: div_less_iff_less_mult)
  then have "lowercased (hex_of_bytes bs) = hex_of_bytes bs" for bs by (induction bs) (simp_all add: lowercased_def lower_hex_digit)
  then show ?thesis by (simp add: lower_def uint_address_def) (simp add: lowercased_def lower_char_def)
qed

theorem owner_list_refines_list_witness:
  "addressBefore samplePackages (deploy_address 22) [sentinel, deploy_address 21, deploy_address 22, sentinel] =
     (Returns (deploy_address 21) :: (unit, _) outcome)"
proof -
  have ne: "deploy_address 21 \<noteq> deploy_address 22" "deploy_address 21 \<noteq> sentinel" "deploy_address 22 \<noteq> sentinel"
    using account_deploy_address [of 21] account_deploy_address [of 22] account_sentinel [OF samplePackages_ok] by auto
  then have "owners_ok [deploy_address 21, deploy_address 22]" by (simp add: owners_ok_def hex_deploy_address lower_deploy_address)
  moreover have "holds [sentinel, deploy_address 21, deploy_address 22, sentinel] [deploy_address 21, deploy_address 22]" by (simp add: holds_def)
  ultimately have "\<forall>k < length [deploy_address 21, deploy_address 22]. lower (deploy_address 22) = [deploy_address 21, deploy_address 22] ! k \<longrightarrow>
      addressBefore samplePackages (deploy_address 22) [sentinel, deploy_address 21, deploy_address 22, sentinel] =
        (Returns ((sentinel # [deploy_address 21, deploy_address 22]) ! k) :: (unit, _) outcome)"
    using owner_list_refines_list [OF samplePackages_ok _ _ hex_deploy_address hex_deploy_address] by blast
  from this [rule_format, of 1] show ?thesis by (simp add: lower_deploy_address)
qed

end
