(* ===== verification/WalletService.thy ===== *)
theory WalletService
  imports OwnerChange History
begin

section \<open>Adding, removing and repairing wallets\<close>

text \<open>
  \<^verbatim>\<open>WalletDomainService.swift\<close> and the wallet part of \<^verbatim>\<open>WalletApplicationService.swift\<close>: the removal of a wallet with all its rows and
  keys, the update of a wallet from its contract, the addition of a wallet that is owned by another one, and
  the clean-up and repair of the tables at the start of the app. Wallet identifiers are UUIDs, for which the pattern
  \<open>*:id\<close> of the queries is a test of the suffix. Shown: what a removal takes and what it leaves, that clean-up and repair restore the agreement of the tables, and
  when a wallet agrees with its contract after an update.
\<close>

subsection \<open>Rows of a wallet\<close>

definition has_suffix :: "'a list \<Rightarrow> 'a list \<Rightarrow> bool" where
  "has_suffix t xs \<longleftrightarrow> length t \<le> length xs \<and> drop (length xs - length t) xs = t"

definition of_wallet :: "WalletID \<Rightarrow> string \<Rightarrow> bool" where
  "of_wallet i account_id = has_suffix ('':'' @ i) account_id"

definition accounts_of :: "WalletID \<Rightarrow> app \<Rightarrow> (string \<times> int option) list" where
  "accounts_of i s = filter (\<lambda>a. of_wallet i (fst a)) (accountRows (app_world s))"

definition transactions_of :: "WalletID \<Rightarrow> app \<Rightarrow> Transaction list" where
  "transactions_of i s = filter (\<lambda>t. of_wallet i (tx_accountID t)) (txRows s)"

definition find_tx_type :: "TransactionType \<Rightarrow> WalletID \<Rightarrow> app \<Rightarrow> Transaction option" where
  "find_tx_type ty i s = List.find (\<lambda>t. tx_type t = ty \<and> of_wallet i (tx_accountID t)) (txRows s)"

definition on_app :: "(app \<Rightarrow> app) \<Rightarrow> deployment \<Rightarrow> deployment" where
  "on_app f s = s\<lparr>dep_app := f (dep_app s)\<rparr>"

subsection \<open>WalletDomainService.swift\<close>

definition removeFromPortfolio :: "WalletID \<Rightarrow> app \<Rightarrow> app" where
  "removeFromPortfolio i s =
     (case app_portfolio s of None \<Rightarrow> s | Some p \<Rightarrow> s\<lparr>app_portfolio := Some (Portfolio.removeWallet p i)\<rparr>)"

definition removeAccounts :: "WalletID \<Rightarrow> app \<Rightarrow> app" where
  "removeAccounts i s = fold remove_account (accounts_of i s) s"

definition removeTransactions :: "WalletID \<Rightarrow> deployment \<Rightarrow> deployment" where
  "removeTransactions i s =
     fold (\<lambda>tx s. (on_app (remove_tx tx) s)\<lparr>monitors := filter (\<lambda>m. mon_transactionID m \<noteq> tx_id tx) (monitors s)\<rparr>) (transactions_of i (dep_app s)) s"

definition remove_rows :: "WalletID \<Rightarrow> deployment \<Rightarrow> deployment" where
  "remove_rows i s = removeTransactions i (on_app (removeAccounts i) (on_app (removeFromPortfolio i) s))"

definition removeWallet :: "WalletID \<Rightarrow> deployment \<Rightarrow> deployment" where
  "removeWallet i s =
     remove_rows i
      (case wallet_with i (dep_app s) of
         None \<Rightarrow> s
       | Some w \<Rightarrow>
           let s1 = on_app (\<lambda>a. fold (\<lambda>o1. remove_key (owner_address o1)) (allOwners w)
                       (a\<lparr>app_world := remove_wallet_row w (app_world a)\<rparr>)) s
           in case address w of
                None \<Rightarrow> s1
              | Some a \<Rightarrow> s1\<lparr>addressBook := fold book_remove (book_find (address_value a) [abt_wallet] (addressBook s1)) (addressBook s1)\<rparr>)"

text \<open>\<^verbatim>\<open>contains\<close> reads the address of the stored wallets one after the other; a wallet that has none stops the process.\<close>

fun owned_by_app :: "Wallet list \<Rightarrow> string \<Rightarrow> ('e, bool) outcome" where
  "owned_by_app [] a = Returns False"
| "owned_by_app (w # ws) a =
     bindO (unwrap (address w)) (\<lambda>b. if lowercased (address_value b) = lowercased a then Returns True else owned_by_app ws a)"

definition added_owner :: "env \<Rightarrow> Wallet list \<Rightarrow> string \<Rightarrow> ('e, Owner) outcome" where
  "added_owner V stored a =
     bindO (bindO (encryption_address_from V a) unwrap) (\<lambda>checksummed.
     bindO (owned_by_app stored a) (\<lambda>isPersonalSafe.
     Returns \<lparr>owner_address = checksummed, owner_role = (if isPersonalSafe then personalSafe else unknown)\<rparr>))"

text \<open>The result says whether the update was made; every error of the node ends it without one.\<close>

record contract_answers =
  ca_eth_call :: "Address \<Rightarrow> data \<Rightarrow> (ServiceError, data) outcome"
  ca_getStorageAt :: "Address \<Rightarrow> nat \<Rightarrow> (ServiceError, data) outcome"

definition onchain_data ::
    "env \<Rightarrow> contract_answers \<Rightarrow> Address \<Rightarrow> (ServiceError, string list \<times> int \<times> Address option) outcome" where
  "onchain_data V A a =
     bindO (getOwners (env_packages V) (ca_eth_call A) a) (\<lambda>os.
     bindO (getThreshold (env_packages V) (ca_eth_call A) a) (\<lambda>threshold.
     bindO (masterCopyAddress (env_packages V) (ca_getStorageAt A) a) (\<lambda>master.
     Returns (map (lowercased \<circ> address_value) os, threshold, master))))"

definition owners_from_chain :: "env \<Rightarrow> Wallet list \<Rightarrow> string list \<Rightarrow> Wallet \<Rightarrow> ('e, Wallet) outcome" where
  "owners_from_chain V stored existing w =
     (let removed = filter (\<lambda>o1. lowercased (address_value (owner_address o1)) \<notin> set existing) (sortedOwners (owners w));
          w1 = w\<lparr>owners := fold remove_item removed (owners w)\<rparr>;
          added = filter (\<lambda>a. \<not> list_ex (\<lambda>o1. lowercased (address_value (owner_address o1)) = a) (owners w1)) existing
      in foldO (\<lambda>a w. bindO (added_owner V stored a) (\<lambda>o1. Returns (Wallet.addOwner o1 w))) added w1)"

definition updateWalletWithOnchainData :: "env \<Rightarrow> contract_answers \<Rightarrow> WalletID \<Rightarrow> app \<Rightarrow> (unit, bool \<times> app) outcome" where
  "updateWalletWithOnchainData V A i s =
     (case wallet_with i s of
        None \<Rightarrow> Returns (False, s)
      | Some w \<Rightarrow>
          bindO (unwrap (address w)) (\<lambda>a.
          case onchain_data V A a of
            Traps \<Rightarrow> Traps
          | Throws _ \<Rightarrow> Returns (False, s)
          | Returns (existing, threshold, master) \<Rightarrow>
              (case master of
                 None \<Rightarrow> Returns (False, s)
               | Some m \<Rightarrow>
                   bindO (owners_from_chain V (walletRows (app_world s)) existing w) (\<lambda>w1.
                   let w2 = changeContractVersion (masterCopy_version (env_metadata V) m)
                         (changeConfirmationCount threshold (Wallet.changeMasterCopy (Some m) w1))
                   in Returns (True, save_wallet w2 s)))))"

subsection \<open>AccountUpdateDomainService.swift, all accounts\<close>

text \<open>The order of a set of tokens is not specified; here it is the order of the lists that it is made of. It decides only the order in which missing accounts are stored.\<close>

definition user_tokens :: "app \<Rightarrow> string list" where
  "user_tokens s = remdups (map item_id (whitelisted (app_tokens s)) @ map item_id (paymentTokens (app_tokens s)))"

definition create_missing_accounts :: "string list \<Rightarrow> WalletID \<Rightarrow> app \<Rightarrow> ('e, app) outcome" where
  "create_missing_accounts tokenIDs w s =
     (if wallet_with w s = None then Returns s
      else bindO (mapO AccountID_tokenID (map fst (accounts_of w s))) (\<lambda>existing.
           foldO (\<lambda>t s. bindO (accountID t w) (\<lambda>i. Returns (save_account (i, None) s))) (filter (\<lambda>t. t \<notin> set existing) tokenIDs) s))"

definition is_user_account :: "string list \<Rightarrow> WalletID list \<Rightarrow> string \<Rightarrow> ('e, bool) outcome" where
  "is_user_account tokenIDs ws i =
     bindO (AccountID_tokenID i) (\<lambda>t.
     if t \<in> set tokenIDs \<or> t = token_id Token_Ether then bindO (AccountID_walletID i) (\<lambda>w. Returns (w \<in> set ws)) else Returns False)"

definition updateAllAccountsBalances :: "env \<Rightarrow> app \<Rightarrow> ('e, bool \<times> app) outcome" where
  "updateAllAccountsBalances V s =
     (case app_portfolio s of
        None \<Rightarrow> Returns (True, s)
      | Some p \<Rightarrow>
          bindO (foldO (create_missing_accounts (user_tokens s)) (wallets p) s) (\<lambda>s1.
          bindO (filterO (is_user_account (user_tokens s) (wallets p)) (map fst (accountRows (app_world s1)))) (\<lambda>is.
          bindO (updateAccountsBalances V is s1) (\<lambda>(completed, s2).
          Returns (completed, if completed then publish_event AccountsBalancesUpdated s2 else s2)))))"

subsection \<open>WalletApplicationService.swift, wallets\<close>

definition abortDeployment_app :: "app \<Rightarrow> (unit, app) outcome" where
  "abortDeployment_app s =
     bindO (unwrap (selected_wallet s)) (\<lambda>w.
     bindO (cancel w (app_world s)) (\<lambda>(w1, v). Returns (save_wallet w1 (s\<lparr>app_world := v\<rparr>))))"

definition updateSelectedWalletName :: "string \<Rightarrow> deployment \<Rightarrow> (unit, deployment) outcome" where
  "updateSelectedWalletName name s =
     (case selected_wallet (dep_app s) of
        None \<Rightarrow> Returns s
      | Some w \<Rightarrow>
          bindO (unwrap (address w)) (\<lambda>a.
          case first_of (book_find (address_value a) [abt_wallet] (addressBook s)) of
            None \<Rightarrow> Returns s
          | Some e \<Rightarrow> Returns (s\<lparr>addressBook := book_save (e\<lparr>book_name := name\<rparr>) (addressBook s)\<rparr>)))"

definition cleanUpPortfolio :: "deployment \<Rightarrow> deployment" where
  "cleanUpPortfolio s =
     (case app_portfolio (dep_app s) of
        None \<Rightarrow> s
      | Some p \<Rightarrow> fold remove_rows (filter (\<lambda>i. wallet_with i (dep_app s) = None) (wallets p)) s)"

definition cleanUpDrafts :: "deployment \<Rightarrow> deployment" where
  "cleanUpDrafts s =
     cleanUpPortfolio (fold (\<lambda>w. removeWallet (wallet_id w)) (filter_by_states [draft, recoveryDraft] (app_world (dep_app s))) s)"

definition selectWallet_app :: "WalletID \<Rightarrow> app \<Rightarrow> ('e, app) outcome" where
  "selectWallet_app i s =
     (case (wallet_with i s, app_portfolio s) of
        (Some w, Some p) \<Rightarrow> bindO (selectWallet p (wallet_id w)) (\<lambda>p1. Returns (s\<lparr>app_portfolio := Some p1\<rparr>))
      | _ \<Rightarrow> Returns s)"

definition repairModelIfNeeded :: "app \<Rightarrow> (unit, app) outcome" where
  "repairModelIfNeeded s =
     bindO (case app_portfolio s of
              None \<Rightarrow> Returns s
            | Some p \<Rightarrow>
                bindO (addWallets p (filter (\<lambda>i. \<not> hasWallet p i) (map wallet_id (walletRows (app_world s))))) (\<lambda>p1.
                Returns (s\<lparr>app_portfolio := Some p1\<rparr>))) (\<lambda>s1.
     case selected_wallet s1 of
       Some _ \<Rightarrow> Returns s1
     | None \<Rightarrow>
         (case walletRows (app_world s1) of
            [] \<Rightarrow> Returns s1
          | w # _ \<Rightarrow> selectWallet_app (wallet_id w) s1))"

text \<open>\<open>i\<close> is the next wallet identifier; the result is the one of the call.\<close>

definition createAndSelectMultisigWallet :: "env \<Rightarrow> contract_answers \<Rightarrow> WalletID \<Rightarrow> string option \<Rightarrow> app \<Rightarrow> (unit, bool \<times> app) outcome" where
  "createAndSelectMultisigWallet V A i adr s =
     bindO (bindO (unwrap adr) (Address_init (env_packages V))) (\<lambda>a.
       let wallet = Wallet_init i readyToUse [] (Some a) None None None 1 None None multisig;
           s1 = save_wallet wallet s
       in bindO (updateWalletWithOnchainData V A i s1) (\<lambda>(updated, s2).
          if \<not> updated then Returns (False, s2\<lparr>app_world := remove_wallet_row wallet (app_world s2)\<rparr>)
          else let (p, s3) = fetchOrCreatePortfolio s2
               in bindO (addWallet p i) (\<lambda>p1.
                  bindO (selectWallet p1 i) (\<lambda>p2.
                  bindO (accountID (token_id Token_Ether) i) (\<lambda>account.
                  Returns (True, save_account (account, None) (s3\<lparr>app_portfolio := Some p2\<rparr>)))))))"

subsection \<open>What a removal takes\<close>

lemma has_suffix_iff: "has_suffix t xs \<longleftrightarrow> (\<exists>ys. xs = ys @ t)"
proof
  assume "has_suffix t xs"
  then have "take (length xs - length t) xs @ t = xs"
    using append_take_drop_id [of "length xs - length t" xs] by (simp add: has_suffix_def)
  then show "\<exists>ys. xs = ys @ t" by metis
qed (auto simp: has_suffix_def)

lemma of_wallet_unique:
  assumes "of_wallet i a" "of_wallet j a" "CHR '':'' \<notin> set i" "CHR '':'' \<notin> set j"
  shows "i = j"
proof -
  from assms(1) obtain x where "a = x @ '':'' @ i" by (auto simp: of_wallet_def has_suffix_iff)
  moreover from assms(2) obtain y where "a = y @ '':'' @ j" by (auto simp: of_wallet_def has_suffix_iff)
  ultimately have "rev i @ '':'' @ rev x = rev j @ '':'' @ rev y" by (metis append_assoc rev_append rev_singleton_conv)
  then have "takeWhile (\<lambda>c. c \<noteq> CHR '':'') (rev i @ '':'' @ rev x) = takeWhile (\<lambda>c. c \<noteq> CHR '':'') (rev j @ '':'' @ rev y)" by simp
  moreover have "\<forall>c \<in> set i. c \<noteq> CHR '':''" "\<forall>c \<in> set j. c \<noteq> CHR '':''" using assms(3,4) by auto
  ultimately show ?thesis by (simp add: takeWhile_append)
qed

lemma accountRows_removeAccounts:
  "accountRows (app_world (removeAccounts i s)) = filter (\<lambda>a. \<not> of_wallet i (fst a)) (accountRows (app_world s))"
  unfolding removeAccounts_def accounts.rows_remove_all by (rule filter_cong) (auto simp: accounts_of_def)

lemma removeAccounts_others [simp]:
  "app_portfolio (removeAccounts i s) = app_portfolio s" "txRows (removeAccounts i s) = txRows s"
  "walletRows (app_world (removeAccounts i s)) = walletRows (app_world s)"
  "deviceKeys (app_world (removeAccounts i s)) = deviceKeys (app_world s)"
  "events (app_world (removeAccounts i s)) = events (app_world s)"
proof -
  have "app_portfolio (fold remove_account xs s) = app_portfolio s \<and> txRows (fold remove_account xs s) = txRows s \<and>
      walletRows (app_world (fold remove_account xs s)) = walletRows (app_world s) \<and>
      deviceKeys (app_world (fold remove_account xs s)) = deviceKeys (app_world s) \<and>
      events (app_world (fold remove_account xs s)) = events (app_world s)" for xs
    by (induction xs arbitrary: s) (simp_all add: remove_account_def)
  then show "app_portfolio (removeAccounts i s) = app_portfolio s" "txRows (removeAccounts i s) = txRows s"
    "walletRows (app_world (removeAccounts i s)) = walletRows (app_world s)"
    "deviceKeys (app_world (removeAccounts i s)) = deviceKeys (app_world s)"
    "events (app_world (removeAccounts i s)) = events (app_world s)" by (simp_all add: removeAccounts_def)
qed

lemma removeFromPortfolio_others [simp]:
  "app_world (removeFromPortfolio i s) = app_world s" "txRows (removeFromPortfolio i s) = txRows s" "app_tokens (removeFromPortfolio i s) = app_tokens s"
  by (simp_all add: removeFromPortfolio_def split: option.split)

lemma app_portfolio_removeFromPortfolio [simp]:
  "app_portfolio (removeFromPortfolio i s) = map_option (\<lambda>p. Portfolio.removeWallet p i) (app_portfolio s)"
  by (simp add: removeFromPortfolio_def split: option.split)

lemma dep_app_on_app [simp]: "dep_app (on_app f s) = f (dep_app s)"
  and on_app_others [simp]: "addressBook (on_app f s) = addressBook s" "monitors (on_app f s) = monitors s"
    "errorStream (on_app f s) = errorStream s" "exited (on_app f s) = exited s" "awaiting (on_app f s) = awaiting s"
  by (simp_all add: on_app_def)

lemma remove_tx_others [simp]:
  "app_world (remove_tx tx s) = app_world s" "app_portfolio (remove_tx tx s) = app_portfolio s" "app_tokens (remove_tx tx s) = app_tokens s"
  by (simp_all add: remove_tx_def)

lemma removeTransactions_others [simp]:
  "app_world (dep_app (removeTransactions i s)) = app_world (dep_app s)" "app_portfolio (dep_app (removeTransactions i s)) = app_portfolio (dep_app s)"
  "addressBook (removeTransactions i s) = addressBook s" "errorStream (removeTransactions i s) = errorStream s"
proof -
  let ?f = "\<lambda>tx s. (on_app (remove_tx tx) s)\<lparr>monitors := filter (\<lambda>m. mon_transactionID m \<noteq> tx_id tx) (monitors s)\<rparr>"
  have "app_world (dep_app (fold ?f xs s)) = app_world (dep_app s) \<and> app_portfolio (dep_app (fold ?f xs s)) = app_portfolio (dep_app s) \<and>
      addressBook (fold ?f xs s) = addressBook s \<and> errorStream (fold ?f xs s) = errorStream s" for xs
    by (induction xs arbitrary: s) simp_all
  then show "app_world (dep_app (removeTransactions i s)) = app_world (dep_app s)" "app_portfolio (dep_app (removeTransactions i s)) = app_portfolio (dep_app s)"
    "addressBook (removeTransactions i s) = addressBook s" "errorStream (removeTransactions i s) = errorStream s"
    by (simp_all add: removeTransactions_def)
qed

lemma removeTransactions_rows:
  "txRows (dep_app (removeTransactions i s)) = filter (\<lambda>t. tx_id t \<notin> tx_id ` set (transactions_of i (dep_app s))) (txRows (dep_app s)) \<and>
   monitors (removeTransactions i s) = filter (\<lambda>m. mon_transactionID m \<notin> tx_id ` set (transactions_of i (dep_app s))) (monitors s)"
proof -
  let ?f = "\<lambda>tx s. (on_app (remove_tx tx) s)\<lparr>monitors := filter (\<lambda>m. mon_transactionID m \<noteq> tx_id tx) (monitors s)\<rparr>"
  have "txRows (dep_app (fold ?f xs s)) = filter (\<lambda>t. tx_id t \<notin> tx_id ` set xs) (txRows (dep_app s)) \<and>
      monitors (fold ?f xs s) = filter (\<lambda>m. mon_transactionID m \<notin> tx_id ` set xs) (monitors s)" for xs
    by (induction xs arbitrary: s) (simp_all add: remove_tx_def delete_row_def conj_commute)
  then show ?thesis by (simp add: removeTransactions_def)
qed

lemma txRows_removeTransactions:
  assumes "keys_distinct tx_id (txRows (dep_app s))"
  shows "txRows (dep_app (removeTransactions i s)) = filter (\<lambda>t. \<not> of_wallet i (tx_accountID t)) (txRows (dep_app s))"
  using assms unfolding removeTransactions_rows [THEN conjunct1]
  by (intro filter_cong) (auto simp: transactions_of_def keys_distinct_def distinct_map inj_on_def)

lemma remove_key_others [simp]:
  "walletRows (app_world (remove_key a s)) = walletRows (app_world s)" "accountRows (app_world (remove_key a s)) = accountRows (app_world s)"
  "events (app_world (remove_key a s)) = events (app_world s)" "app_portfolio (remove_key a s) = app_portfolio s" "txRows (remove_key a s) = txRows s"
  by (simp_all add: remove_key_def)

lemma fold_remove_key:
  "deviceKeys (app_world (fold (\<lambda>o1. remove_key (owner_address o1)) os s)) = filter (\<lambda>k. k \<notin> owner_address ` set os) (deviceKeys (app_world s))"
  "walletRows (app_world (fold (\<lambda>o1. remove_key (owner_address o1)) os s)) = walletRows (app_world s)"
  "accountRows (app_world (fold (\<lambda>o1. remove_key (owner_address o1)) os s)) = accountRows (app_world s)"
  "events (app_world (fold (\<lambda>o1. remove_key (owner_address o1)) os s)) = events (app_world s)"
  "app_portfolio (fold (\<lambda>o1. remove_key (owner_address o1)) os s) = app_portfolio s"
  "txRows (fold (\<lambda>o1. remove_key (owner_address o1)) os s) = txRows s"
  by (induction os arbitrary: s) (simp_all add: remove_key_def conj_commute)

lemma set_allOwners [simp]: "set (allOwners w) = set (owners w)"
  by (simp add: allOwners_def sortedOwners_def)

text \<open>What is stored after a removal.\<close>

lemma removeWallet_Some:
  assumes "wallet_with i (dep_app s) = Some w" "s' = removeWallet i s"
  shows "walletRows (app_world (dep_app s')) = filter (\<lambda>r. wallet_id r \<noteq> i) (walletRows (app_world (dep_app s)))"
    and "accountRows (app_world (dep_app s')) = filter (\<lambda>a. \<not> of_wallet i (fst a)) (accountRows (app_world (dep_app s)))"
    and "deviceKeys (app_world (dep_app s')) = filter (\<lambda>k. k \<notin> owner_address ` set (owners w)) (deviceKeys (app_world (dep_app s)))"
    and "app_portfolio (dep_app s') = map_option (\<lambda>p. Portfolio.removeWallet p i) (app_portfolio (dep_app s))"
    and "keys_distinct tx_id (txRows (dep_app s)) \<Longrightarrow>
      txRows (dep_app s') = filter (\<lambda>t. \<not> of_wallet i (tx_accountID t)) (txRows (dep_app s))"
    and "monitors s' = filter (\<lambda>m. mon_transactionID m \<notin> tx_id ` set (transactions_of i (dep_app s))) (monitors s)"
    and "addressBook s' = (case address w of None \<Rightarrow> addressBook s
      | Some a \<Rightarrow> fold book_remove (book_find (address_value a) [abt_wallet] (addressBook s)) (addressBook s))"
proof -
  have i: "wallet_id w = i" using assms(1) by (auto simp: wallet_with_def find_id_def find_Some_iff)
  show "walletRows (app_world (dep_app s')) = filter (\<lambda>r. wallet_id r \<noteq> i) (walletRows (app_world (dep_app s)))"
    "accountRows (app_world (dep_app s')) = filter (\<lambda>a. \<not> of_wallet i (fst a)) (accountRows (app_world (dep_app s)))"
    "deviceKeys (app_world (dep_app s')) = filter (\<lambda>k. k \<notin> owner_address ` set (owners w)) (deviceKeys (app_world (dep_app s)))"
    "app_portfolio (dep_app s') = map_option (\<lambda>p. Portfolio.removeWallet p i) (app_portfolio (dep_app s))"
    "keys_distinct tx_id (txRows (dep_app s)) \<Longrightarrow>
      txRows (dep_app s') = filter (\<lambda>t. \<not> of_wallet i (tx_accountID t)) (txRows (dep_app s))"
    "monitors s' = filter (\<lambda>m. mon_transactionID m \<notin> tx_id ` set (transactions_of i (dep_app s))) (monitors s)"
    "addressBook s' = (case address w of None \<Rightarrow> addressBook s
      | Some a \<Rightarrow> fold book_remove (book_find (address_value a) [abt_wallet] (addressBook s)) (addressBook s))"
    using assms i by (auto simp: removeWallet_def remove_rows_def Let_def accountRows_removeAccounts txRows_removeTransactions
        removeTransactions_rows [THEN conjunct2] fold_remove_key remove_wallet_row_def transactions_of_def split: option.split)
qed

subsection \<open>Removal, clean-up and repair\<close>

text \<open>The rows of every table have their own keys, and the portfolio is well formed.\<close>

definition tables_ok :: "app \<Rightarrow> bool" where
  "tables_ok s \<longleftrightarrow> ids_distinct (app_world s) \<and> keys_distinct tx_id (txRows s) \<and> keys_distinct fst (accountRows (app_world s)) \<and>
     pred_option portfolio_ok (app_portfolio s)"

lemma wallet_with_rows: "wallet_with j s = find_row wallet_id j (walletRows (app_world s))"
  by (simp add: wallet_with_def find_id_def find_row_def)

lemma remove_rows_rows:
  "walletRows (app_world (dep_app (remove_rows i s))) = walletRows (app_world (dep_app s))"
  "accountRows (app_world (dep_app (remove_rows i s))) = filter (\<lambda>a. \<not> of_wallet i (fst a)) (accountRows (app_world (dep_app s)))"
  "deviceKeys (app_world (dep_app (remove_rows i s))) = deviceKeys (app_world (dep_app s))"
  "app_portfolio (dep_app (remove_rows i s)) = map_option (\<lambda>p. Portfolio.removeWallet p i) (app_portfolio (dep_app s))"
  "addressBook (remove_rows i s) = addressBook s"
  by (simp_all add: remove_rows_def accountRows_removeAccounts)

lemma tables_ok_remove_rows: "tables_ok (dep_app s) \<Longrightarrow> tables_ok (dep_app (remove_rows i s))"
  by (auto simp: tables_ok_def remove_rows_rows ids_distinct_def keys_distinct_filter Portfolio.removeWallet_ok
      remove_rows_def removeTransactions_rows accountRows_removeAccounts option.pred_map o_def elim: option.pred_mono_strong)

lemma removeWallet_rows:
  shows "walletRows (app_world (dep_app (removeWallet i s))) = filter (\<lambda>r. wallet_id r \<noteq> i) (walletRows (app_world (dep_app s)))" (is ?rows)
    and "app_portfolio (dep_app (removeWallet i s)) = map_option (\<lambda>p. Portfolio.removeWallet p i) (app_portfolio (dep_app s))" (is ?portfolio)
proof -
  have "?rows \<and> ?portfolio"
  proof (cases "wallet_with i (dep_app s)")
    case None
    then have "filter (\<lambda>r. wallet_id r \<noteq> i) (walletRows (app_world (dep_app s))) = walletRows (app_world (dep_app s))"
      by (auto simp: wallet_with_rows find_row_None_iff intro!: filter_True)
    with None show ?thesis by (simp add: removeWallet_def remove_rows_rows)
  next
    case (Some w)
    then show ?thesis using removeWallet_Some(1,4) [OF Some refl] by blast
  qed
  then show ?rows ?portfolio by blast+
qed

lemma tables_ok_removeWallet:
  assumes "tables_ok (dep_app s)"
  shows "tables_ok (dep_app (removeWallet i s))"
proof (cases "wallet_with i (dep_app s)")
  case None
  then show ?thesis using assms by (simp add: removeWallet_def tables_ok_remove_rows)
next
  case (Some w)
  have tx: "keys_distinct tx_id (txRows (dep_app s))" using assms by (simp add: tables_ok_def)
  show ?thesis using assms removeWallet_Some(1,2,4) [OF Some refl] removeWallet_Some(5) [OF Some refl tx]
    by (auto simp: tables_ok_def ids_distinct_def distinct_map_filter keys_distinct_filter Portfolio.removeWallet_ok option.pred_map o_def
        elim: option.pred_mono_strong)
qed

lemma fold_removeWallet:
  assumes "tables_ok (dep_app s)" "s' = fold (\<lambda>w. removeWallet (wallet_id w)) ws s"
  shows "tables_ok (dep_app s') \<and>
    walletRows (app_world (dep_app s')) = filter (\<lambda>r. wallet_id r \<notin> wallet_id ` set ws) (walletRows (app_world (dep_app s))) \<and>
    (app_portfolio (dep_app s') = None \<longleftrightarrow> app_portfolio (dep_app s) = None)"
  using assms
  by (induction ws arbitrary: s) (auto simp: tables_ok_removeWallet removeWallet_rows conj_commute)

lemma fold_remove_rows:
  assumes "tables_ok (dep_app s)" "s' = fold remove_rows is s"
  shows "tables_ok (dep_app s') \<and> walletRows (app_world (dep_app s')) = walletRows (app_world (dep_app s)) \<and>
    (\<forall>p. app_portfolio (dep_app s) = Some p \<longrightarrow> (\<exists>p'. app_portfolio (dep_app s') = Some p' \<and> set (wallets p') = set (wallets p) - set is)) \<and>
    (app_portfolio (dep_app s) = None \<longrightarrow> app_portfolio (dep_app s') = None)"
  using assms
proof (induction "is" arbitrary: s)
  case (Cons i "is")
  have ok: "tables_ok (dep_app (remove_rows i s))" using Cons.prems(1) by (rule tables_ok_remove_rows)
  have "set (wallets (Portfolio.removeWallet p i)) = set (wallets p) - {i}" if "app_portfolio (dep_app s) = Some p" for p
    using Cons.prems(1) that by (simp add: tables_ok_def wallets_removeWallet portfolio_ok_def)
  then show ?case using Cons.IH [OF ok] Cons.prems(2) by (auto simp: remove_rows_rows)
qed simp

text \<open>After the clean-up the portfolio lists stored wallets only, and none of the stored wallets is a draft.\<close>

lemma cleanUpDrafts_rows:
  assumes "tables_ok (dep_app s)" "s' = cleanUpDrafts s"
  shows "tables_ok (dep_app s') \<and>
    walletRows (app_world (dep_app s')) = filter (\<lambda>r. state r \<notin> {draft, recoveryDraft}) (walletRows (app_world (dep_app s))) \<and>
    (app_portfolio (dep_app s') = None \<longleftrightarrow> app_portfolio (dep_app s) = None) \<and>
    (\<forall>p'. app_portfolio (dep_app s') = Some p' \<longrightarrow> set (wallets p') \<subseteq> wallet_id ` set (walletRows (app_world (dep_app s'))))"
proof -
  define ws where "ws = filter_by_states [draft, recoveryDraft] (app_world (dep_app s))"
  define s1 where "s1 = fold (\<lambda>w. removeWallet (wallet_id w)) ws s"
  from fold_removeWallet [OF assms(1) s1_def] have f: "tables_ok (dep_app s1)"
    "walletRows (app_world (dep_app s1)) = filter (\<lambda>r. wallet_id r \<notin> wallet_id ` set ws) (walletRows (app_world (dep_app s)))"
    "app_portfolio (dep_app s1) = None \<longleftrightarrow> app_portfolio (dep_app s) = None" by blast+
  have ws: "ws = filter (\<lambda>r. state r \<in> {draft, recoveryDraft}) (walletRows (app_world (dep_app s)))"
    by (simp add: ws_def filter_by_states_def)
  have rows: "walletRows (app_world (dep_app s1)) = filter (\<lambda>r. state r \<notin> {draft, recoveryDraft}) (walletRows (app_world (dep_app s)))"
    unfolding f(2) using assms(1) by (intro filter_cong) (auto simp: ws tables_ok_def ids_distinct_def distinct_map inj_on_def)
  have s': "s' = cleanUpPortfolio s1" by (simp add: assms(2) cleanUpDrafts_def s1_def ws_def)
  show ?thesis
  proof (cases "app_portfolio (dep_app s1)")
    case None
    then show ?thesis using f rows by (simp add: s' cleanUpPortfolio_def)
  next
    case (Some p)
    have c: "s' = fold remove_rows (filter (\<lambda>i. wallet_with i (dep_app s1) = None) (wallets p)) s1"
      using Some by (simp add: s' cleanUpPortfolio_def)
    note g = fold_remove_rows [OF f(1) c]
    show ?thesis using f(3) g rows Some by (auto simp: wallet_with_rows find_row_None_iff)
  qed
qed

lemma repairModelIfNeeded_rows:
  assumes "tables_ok s" "app_portfolio s = Some p" "set (wallets p) \<subseteq> wallet_id ` set (walletRows (app_world s))"
  shows "\<exists>p'. repairModelIfNeeded s = Returns (s\<lparr>app_portfolio := Some p'\<rparr>) \<and> portfolio_ok p' \<and>
    set (wallets p') = wallet_id ` set (walletRows (app_world s))"
proof -
  let ?orphans = "filter (\<lambda>i. \<not> hasWallet p i) (map wallet_id (walletRows (app_world s)))"
  have "distinct (wallets p @ ?orphans)" and ok: "portfolio_ok p"
    using assms(1,2) by (auto simp: tables_ok_def portfolio_ok_def ids_distinct_def hasWallet_def)
  from addWallets_Returns [OF ok this(1), where ?'e = unit] obtain p1 where
    p1: "addWallets p ?orphans = (Returns p1 :: (unit, _) outcome)" "portfolio_ok p1" "wallets p1 = wallets p @ ?orphans" by blast
  have w: "set (wallets p1) = wallet_id ` set (walletRows (app_world s))"
    using assms(3) p1(3) by (auto simp: hasWallet_def)
  let ?s1 = "s\<lparr>app_portfolio := Some p1\<rparr>"
  show ?thesis
  proof (cases "selected_wallet ?s1")
    case (Some v)
    then show ?thesis using p1 w assms(2) by (auto simp: repairModelIfNeeded_def)
  next
    case None
    have "walletRows (app_world s) = []"
    proof (cases "selectedWallet p1")
      case None
      then have "wallets p1 = []" using p1(2) by (simp add: portfolio_ok_def)
      with w show ?thesis by simp
    next
      case (Some i)
      then have "i \<in> wallet_id ` set (walletRows (app_world s))" using p1(2) w by (auto simp: portfolio_ok_def)
      with None Some show ?thesis by (auto simp: selected_wallet_def wallet_with_rows find_row_None_iff)
    qed
    then show ?thesis using None p1 w assms(2) by (auto simp: repairModelIfNeeded_def)
  qed
qed

lemma wallet_with_removeWallet: "wallet_with j (dep_app (removeWallet i s)) = (if j = i then None else wallet_with j (dep_app s))"
  using find_row_delete [of wallet_id j i "walletRows (app_world (dep_app s))"] by (simp add: wallet_with_rows removeWallet_rows delete_row_def)

lemma of_wallet_filter_other:
  assumes "CHR '':'' \<notin> set i" "CHR '':'' \<notin> set j" "i \<noteq> j"
  shows "filter (\<lambda>x. of_wallet j (f x)) (filter (\<lambda>x. \<not> of_wallet i (f x)) xs) = filter (\<lambda>x. of_wallet j (f x)) xs"
  using of_wallet_unique [of i _ j] assms by (auto intro!: filter_cong)

lemma set_fold_book_remove: "set (fold book_remove es book) = {e \<in> set book. book_id e \<notin> book_id ` set es}"
  by (induction es arbitrary: book) (auto simp: book_remove_def delete_row_def)

lemma removed_wallet_entries:
  assumes "book_ok book"
  shows "set (fold book_remove (book_find a [abt_wallet] book) book) =
    {e \<in> set book. \<not> (book_type e = abt_wallet \<and> lowercased (book_address e) = lowercased a)}"
  using assms unfolding set_fold_book_remove set_book_find
  by (auto simp: book_ok_def keys_distinct_def distinct_map inj_on_def)

text \<open>
  (C21) Removing a wallet takes all its rows and the keys of all its owners. Afterwards the wallet, its accounts, its transactions with their monitors, its place in the
  portfolio and its address book entry are gone; the rows of every other wallet are as before, and the portfolio is well formed. From the keychain
  the keys of all owners of the wallet are removed. That includes a key that another wallet uses: if an owner of the
  removed wallet is the key of this device in another one, the other wallet can no longer be signed for with that key.
\<close>

theorem removing_a_wallet:
  assumes "tables_ok (dep_app s)" "book_ok (addressBook s)" "wallet_with i (dep_app s) = Some w" "address w = Some a"
    and "CHR '':'' \<notin> set i" "s' = removeWallet i s"
  shows "tables_ok (dep_app s') \<and> wallet_with i (dep_app s') = None \<and> accounts_of i (dep_app s') = [] \<and> transactions_of i (dep_app s') = [] \<and>
    (\<forall>j. j \<noteq> i \<and> CHR '':'' \<notin> set j \<longrightarrow> wallet_with j (dep_app s') = wallet_with j (dep_app s) \<and>
      accounts_of j (dep_app s') = accounts_of j (dep_app s) \<and> transactions_of j (dep_app s') = transactions_of j (dep_app s)) \<and>
    (\<forall>p. app_portfolio (dep_app s) = Some p \<longrightarrow> (\<exists>p'. app_portfolio (dep_app s') = Some p' \<and> wallets p' = remove1 i (wallets p))) \<and>
    set (addressBook s') = {e \<in> set (addressBook s). \<not> (book_type e = abt_wallet \<and> lowercased (book_address e) = lowercased (address_value a))} \<and>
    set (deviceKeys (app_world (dep_app s'))) = set (deviceKeys (app_world (dep_app s))) - owner_address ` set (owners w) \<and>
    (\<forall>j v device. wallet_with j (dep_app s) = Some v \<and> Wallet.owner v thisDevice = Some device \<and> owner_address device \<in> owner_address ` set (owners w) \<longrightarrow>
      \<not> hasThisDeviceKeyAsOwner (app_world (dep_app s')) v)"
proof -
  have tx: "keys_distinct tx_id (txRows (dep_app s))" using assms(1) by (simp add: tables_ok_def)
  note r = removeWallet_Some [OF assms(3,6)]
  have keys: "set (deviceKeys (app_world (dep_app s'))) = set (deviceKeys (app_world (dep_app s))) - owner_address ` set (owners w)"
    unfolding r(3) by auto
  have others: "\<forall>j. j \<noteq> i \<and> CHR '':'' \<notin> set j \<longrightarrow> wallet_with j (dep_app s') = wallet_with j (dep_app s) \<and>
      accounts_of j (dep_app s') = accounts_of j (dep_app s) \<and> transactions_of j (dep_app s') = transactions_of j (dep_app s)"
  proof (intro allI impI)
    fix j assume j: "j \<noteq> i \<and> CHR '':'' \<notin> set j"
    then have "wallet_with j (dep_app s') = wallet_with j (dep_app s)" by (simp add: assms(6) wallet_with_removeWallet)
    moreover have "accounts_of j (dep_app s') = accounts_of j (dep_app s)" "transactions_of j (dep_app s') = transactions_of j (dep_app s)"
      unfolding accounts_of_def transactions_of_def r(2) r(5) [OF tx] using j by (blast intro: of_wallet_filter_other [OF assms(5)])+
    ultimately show "wallet_with j (dep_app s') = wallet_with j (dep_app s) \<and>
      accounts_of j (dep_app s') = accounts_of j (dep_app s) \<and> transactions_of j (dep_app s') = transactions_of j (dep_app s)" by blast
  qed
  have "set (addressBook s') = {e \<in> set (addressBook s). \<not> (book_type e = abt_wallet \<and> lowercased (book_address e) = lowercased (address_value a))}"
    using r(7) assms(4) removed_wallet_entries [OF assms(2)] by simp
  moreover have "tables_ok (dep_app s')" "wallet_with i (dep_app s') = None"
    using assms(1,6) by (simp_all add: tables_ok_removeWallet wallet_with_removeWallet)
  moreover have "accounts_of i (dep_app s') = []" "transactions_of i (dep_app s') = []"
    unfolding accounts_of_def transactions_of_def r(2) r(5) [OF tx] by simp_all
  moreover have "\<forall>p. app_portfolio (dep_app s) = Some p \<longrightarrow> (\<exists>p'. app_portfolio (dep_app s') = Some p' \<and> wallets p' = remove1 i (wallets p))"
    using r(4) by (simp add: wallets_removeWallet)
  moreover have "\<forall>j v device. wallet_with j (dep_app s) = Some v \<and> Wallet.owner v thisDevice = Some device \<and>
      owner_address device \<in> owner_address ` set (owners w) \<longrightarrow> \<not> hasThisDeviceKeyAsOwner (app_world (dep_app s')) v"
    using keys by (auto simp: hasThisDeviceKeyAsOwner_def Wallet.owner_def)
  ultimately show ?thesis using keys others by blast
qed

text \<open>
  (C22) What starting the app does to the tables. The clean-up of drafts and the repair that follows return for every state of the tables with a portfolio. Afterwards the
  stored wallets are those that were no draft, the portfolio lists exactly the stored wallets, each once, and a wallet is selected unless none is stored.
\<close>

theorem launch_repairs_tables:
  assumes "tables_ok (dep_app s)" "app_portfolio (dep_app s) \<noteq> None"
  shows "\<exists>s' p. repairModelIfNeeded (dep_app (cleanUpDrafts s)) = Returns s' \<and> app_portfolio s' = Some p \<and> distinct (wallets p) \<and>
    walletRows (app_world s') = filter (\<lambda>r. state r \<notin> {draft, recoveryDraft}) (walletRows (app_world (dep_app s))) \<and>
    set (wallets p) = wallet_id ` set (walletRows (app_world s')) \<and>
    (selected_wallet s' = None \<longleftrightarrow> walletRows (app_world s') = [])"
proof -
  let ?c = "cleanUpDrafts s"
  note c = cleanUpDrafts_rows [OF assms(1) refl]
  then obtain p where p: "app_portfolio (dep_app ?c) = Some p" "set (wallets p) \<subseteq> wallet_id ` set (walletRows (app_world (dep_app ?c)))"
    using assms(2) by (cases "app_portfolio (dep_app ?c)") auto
  from repairModelIfNeeded_rows [OF _ p] c obtain p' where
    p': "repairModelIfNeeded (dep_app ?c) = Returns ((dep_app ?c)\<lparr>app_portfolio := Some p'\<rparr>)" "portfolio_ok p'"
      "set (wallets p') = wallet_id ` set (walletRows (app_world (dep_app ?c)))" by blast
  have "selected_wallet ((dep_app ?c)\<lparr>app_portfolio := Some p'\<rparr>) = None \<longleftrightarrow> walletRows (app_world (dep_app ?c)) = []"
    using p'(2,3) by (auto simp: portfolio_ok_def selected_wallet_def wallet_with_rows find_row_None_iff split: option.splits)
  with p' c show ?thesis by (auto simp: portfolio_ok_def)
qed

lemma fold_removeWallet_keys:
  assumes "ids_distinct (app_world (dep_app s))" "set ws \<subseteq> set (walletRows (app_world (dep_app s)))" "distinct ws"
  shows "set (deviceKeys (app_world (dep_app (fold (\<lambda>w. removeWallet (wallet_id w)) ws s)))) =
    set (deviceKeys (app_world (dep_app s))) - (\<Union>w \<in> set ws. owner_address ` set (owners w))"
  using assms
proof (induction ws arbitrary: s)
  case (Cons w ws)
  have inj: "inj_on wallet_id (set (walletRows (app_world (dep_app s))))" using Cons.prems(1) by (simp add: ids_distinct_def distinct_map)
  have w: "wallet_with (wallet_id w) (dep_app s) = Some w"
    using Cons.prems(1,2) by (auto simp: wallet_with_rows find_row_Some_iff keys_distinct_def ids_distinct_def)
  let ?s1 = "removeWallet (wallet_id w) s"
  have "ids_distinct (app_world (dep_app ?s1))" using Cons.prems(1) by (simp add: ids_distinct_def removeWallet_rows distinct_map_filter)
  moreover have "set ws \<subseteq> set (walletRows (app_world (dep_app ?s1)))"
    using Cons.prems(2,3) inj by (auto simp: removeWallet_rows inj_on_def)
  ultimately have "set (deviceKeys (app_world (dep_app (fold (\<lambda>w. removeWallet (wallet_id w)) ws ?s1)))) =
      set (deviceKeys (app_world (dep_app ?s1))) - (\<Union>w \<in> set ws. owner_address ` set (owners w))"
    using Cons.IH [of ?s1] Cons.prems(3) by simp
  then show ?case using removeWallet_Some(3) [OF w refl] by auto
qed simp

lemma deviceKeys_fold_remove_rows: "deviceKeys (app_world (dep_app (fold remove_rows is s))) = deviceKeys (app_world (dep_app s))"
  by (induction "is" arbitrary: s) (simp_all add: remove_rows_rows)

lemma cleanUpDrafts_keys:
  assumes "tables_ok (dep_app s)"
  shows "set (deviceKeys (app_world (dep_app (cleanUpDrafts s)))) = set (deviceKeys (app_world (dep_app s))) -
    (\<Union>w \<in> {w \<in> set (walletRows (app_world (dep_app s))). state w \<in> {draft, recoveryDraft}}. owner_address ` set (owners w))"
proof -
  let ?ws = "filter_by_states [draft, recoveryDraft] (app_world (dep_app s))"
  have ids: "ids_distinct (app_world (dep_app s))" using assms by (simp add: tables_ok_def)
  then have "distinct ?ws" "set ?ws = {w \<in> set (walletRows (app_world (dep_app s))). state w \<in> {draft, recoveryDraft}}"
    by (auto simp: filter_by_states_def ids_distinct_def distinct_map)
  moreover have "deviceKeys (app_world (dep_app (cleanUpPortfolio s1))) = deviceKeys (app_world (dep_app s1))" for s1
    by (simp add: cleanUpPortfolio_def deviceKeys_fold_remove_rows split: option.split)
  ultimately show ?thesis using fold_removeWallet_keys [OF ids, of ?ws] by (simp add: cleanUpDrafts_def)
qed

lemma tables_ok_with_world:
  assumes "tables_ok (dep_app s)"
  shows "tables_ok (dep_app (with_world s (publish e (save w (app_world (dep_app s))))))"
  using assms by (auto simp: tables_ok_def with_world_def publish_def save_def ids_distinct_def distinct_map_filter)

lemma draft_removed:
  assumes "tables_ok (dep_app s)" "wallet_with i (dep_app s) = Some w" "state w \<in> {draft, recoveryDraft}"
  shows "wallet_with i (dep_app (cleanUpDrafts s)) = None \<and>
    set (deviceKeys (app_world (dep_app (cleanUpDrafts s)))) \<inter> owner_address ` set (owners w) = {}"
proof -
  have row: "w \<in> set (walletRows (app_world (dep_app s)))" "wallet_id w = i" using assms(2) find_row_SomeD by (fastforce simp: wallet_with_rows)+
  have "inj_on wallet_id (set (walletRows (app_world (dep_app s))))" using assms(1) by (simp add: tables_ok_def ids_distinct_def distinct_map)
  from inj_onD [OF this _ _ row(1)] have "r = w" if "r \<in> set (walletRows (app_world (dep_app s)))" "wallet_id r = i" for r
    using that row(2) by simp
  then have "i \<notin> wallet_id ` {r \<in> set (walletRows (app_world (dep_app s))). state r \<notin> {draft, recoveryDraft}}" using assms(3) by fastforce
  then have "wallet_with i (dep_app (cleanUpDrafts s)) = None"
    using cleanUpDrafts_rows [OF assms(1) refl] by (auto simp: wallet_with_rows find_row_None_iff)
  moreover have "set (deviceKeys (app_world (dep_app (cleanUpDrafts s)))) \<inter> owner_address ` set (owners w) = {}"
    unfolding cleanUpDrafts_keys [OF assms(1)] using row(1) assms(3) by fastforce
  ultimately show ?thesis by blast
qed

text \<open>
  (C27) An aborted deployment is deleted, whatever was paid. Let the relay service answer the request to start the creation of a funded safe with an error that
  aborts, a failed HTTP request for example. The wallet is a draft again, and the next launch of the app removes it as such: the wallet with its
  address is gone, and so are the keys of all its owners, without which a safe at the address that was paid to cannot be used from this device.
\<close>

theorem paid_deployment_deleted:
  assumes "tables_ok (dep_app s)" "wallet_with i (dep_app s) = Some w" "state w = creationStarted" "address w = Some a"
    and "in_startCreation I (address_value a) = Throws e" "aborts e"
  shows "\<exists>s1. handle P I (DeploymentFunded i) s = Returns (Done, s1) \<and> wallet_with i (dep_app s1) = Some (w\<lparr>state := draft\<rparr>) \<and>
    wallet_with i (dep_app (cleanUpDrafts s1)) = None \<and>
    set (deviceKeys (app_world (dep_app (cleanUpDrafts s1)))) \<inter> owner_address ` set (owners w) = {}"
proof -
  let ?s = "s\<lparr>errorStream := errorStream s @ [e]\<rparr>" and ?w = "w\<lparr>state := draft\<rparr>"
  define s1 where "s1 = with_world ?s (publish (DeploymentAborted i) (save ?w (app_world (dep_app ?s))))"
  have i: "wallet_id w = i" using assms(2) find_row_SomeD by (fastforce simp: wallet_with_rows)
  have "startSafeCreation P I w s = Throws (e, w, s)" using assms(4,5) by (simp add: startSafeCreation_def calling_def)
  then have h: "handle P I (DeploymentFunded i) s = Returns (Done, s1)"
    using assms(2,3,6) i cancel_moves [of w ?s] by (simp add: executeInWallet_def s1_def)
  have ok: "tables_ok (dep_app s1)" unfolding s1_def using assms(1) by (intro tables_ok_with_world) simp
  have w1: "wallet_with i (dep_app s1) = Some ?w" using i by (simp add: s1_def find_id_save)
  show ?thesis using h w1 draft_removed [OF ok w1] by simp
qed

subsection \<open>A wallet that another wallet owns\<close>

abbreviation spelled :: "Owner \<Rightarrow> string" where
  "spelled o1 \<equiv> lowercased (address_value (owner_address o1))"

lemma encryption_address_hex:
  assumes "packages_ok (env_packages V)" "eip55_ok V" "hex_address (Address x)"
  shows "\<exists>b. encryption_address_from V x = (Returns (Some b) :: ('e, _) outcome) \<and> hex_address b \<and> lower b = lower (Address x)"
proof -
  let ?E = "env_packages V" and ?d = "ethHex (env_packages V) x"
  let ?b = "Address (env_eip55 V ?d)"
  have d: "length ?d = 20" using hex_address_account(3) [OF assms(1,3)] by (simp add: address_bytes_def)
  then have b: "hex_address ?b" "ethHex ?E (env_eip55 V ?d) = ?d" using assms(2) by (simp_all add: eip55_ok_def)
  then have "lower ?b = lower (Address x)" using assms by (simp add: lower_eq_iff account_def address_bytes_def)
  moreover have "x \<noteq> []" using assms(3) by (auto simp: hex_address_def)
  ultimately show ?thesis
    using b d hex_address_init [OF assms(1) b(1), where ?'a = 'e] by (auto simp: encryption_address_from_def Let_def)
qed

definition safe_of_app :: "Wallet list \<Rightarrow> string \<Rightarrow> bool" where
  "safe_of_app ws x \<longleftrightarrow> (\<exists>w \<in> set ws. \<exists>b. address w = Some b \<and> lowercased (address_value b) = lowercased x)"

lemma owned_by_app_Returns:
  "list_all (\<lambda>w. address w \<noteq> None) ws \<Longrightarrow> owned_by_app ws x = Returns (safe_of_app ws x)"
  by (induction ws) (auto simp: safe_of_app_def)

lemma owned_by_app_Traps:
  "\<not> list_all (\<lambda>w. address w \<noteq> None) ws \<Longrightarrow> \<not> safe_of_app ws x \<Longrightarrow> owned_by_app ws x = Traps"
proof (induction ws)
  case (Cons w ws)
  then show ?case by (cases "address w") (auto simp: safe_of_app_def)
qed simp

lemma owned_by_app_no_throw: "owned_by_app ws x \<noteq> Throws e"
  by (induction ws) (auto simp: bindO_eq_Throws)

lemma foldO_Traps:
  assumes "x \<in> set xs" "\<And>s. f x s = Traps" "\<And>y s e. y \<in> set xs \<Longrightarrow> f y s \<noteq> Throws e"
  shows "foldO f xs s = Traps"
  using assms
proof (induction xs arbitrary: s)
  case (Cons y xs)
  show ?case
  proof (cases "f y s")
    case (Returns t)
    with Cons.prems(1,2) have "x \<in> set xs" by auto
    then show ?thesis using Cons.IH [of t] Cons.prems(2,3) Returns by auto
  qed (use Cons.prems(3) in auto)
qed simp

lemma owners_added:
  assumes "packages_ok (env_packages V)" "eip55_ok V" "list_all (\<lambda>w. address w \<noteq> None) stored"
    and "list_all (\<lambda>x. hex_address (Address x) \<and> lowercased x = x) xs" "length (filter (safe_of_app stored) xs) \<le> 1"
    and "first_with personalSafe (owners w) = None \<or> filter (safe_of_app stored) xs = []"
  shows "\<exists>os. foldO (\<lambda>a w. bindO (added_owner V stored a) (\<lambda>o1. Returns (Wallet.addOwner o1 w))) xs w = (Returns (w\<lparr>owners := owners w @ os\<rparr>) :: ('e, _) outcome) \<and>
    map spelled os = xs"
  using assms(4-6)
proof (induction xs arbitrary: w)
  case (Cons x xs)
  from Cons.prems(1) have x: "hex_address (Address x)" "lowercased x = x" by simp_all
  obtain b where b: "encryption_address_from V x = (Returns (Some b) :: ('e, _) outcome)" "hex_address b" "lower b = lower (Address x)"
    using encryption_address_hex [OF assms(1,2) x(1), where ?'e = 'e] by blast
  let ?o = "\<lparr>owner_address = b, owner_role = (if safe_of_app stored x then personalSafe else unknown)\<rparr>"
  have a: "added_owner V stored x = (Returns ?o :: ('e, _) outcome)"
    using b(1) owned_by_app_Returns [OF assms(3), of x, where ?'a = 'e] by (simp add: added_owner_def)
  have add: "Wallet.addOwner ?o w = w\<lparr>owners := owners w @ [?o]\<rparr>"
    using Cons.prems(3) by (auto simp: Wallet.addOwner_def remove_with_def first_with_def find_None_iff filter_id_conv split: if_splits)
  have "first_with personalSafe (owners w @ [?o]) = None \<or> filter (safe_of_app stored) xs = []"
    using Cons.prems(2,3) by (auto simp: first_with_def find_None_iff split: if_splits)
  with Cons.IH [of "w\<lparr>owners := owners w @ [?o]\<rparr>"] Cons.prems(1,2) obtain os where
    os: "foldO (\<lambda>a w. bindO (added_owner V stored a) (\<lambda>o1. Returns (Wallet.addOwner o1 w))) xs (w\<lparr>owners := owners w @ [?o]\<rparr>) =
      (Returns (w\<lparr>owners := owners w @ ?o # os\<rparr>) :: ('e, _) outcome)" "map spelled os = xs"
    by (auto split: if_splits)
  have "spelled ?o = x" using b(3) x(2) by (simp add: lower_def)
  then show ?case using a add os by (intro exI [of _ "?o # os"]) simp
next
  case Nil
  show ?case by (rule exI [of _ "[]"]) simp
qed

text \<open>Owners that are safes of the app have the role \<open>personalSafe\<close>, of which there is only one.\<close>

definition one_safe :: "Wallet list \<Rightarrow> Wallet \<Rightarrow> bool" where
  "one_safe stored w \<longleftrightarrow> (\<forall>o1 \<in> set (owners w). safe_of_app stored (spelled o1) \<longrightarrow> owner_role o1 = personalSafe) \<and>
     length (filter (\<lambda>o1. owner_role o1 = personalSafe) (owners w)) \<le> 1"

lemma one_safe_added:
  assumes "packages_ok (env_packages V)" "eip55_ok V" "list_all (\<lambda>w. address w \<noteq> None) stored"
    and "list_all (\<lambda>x. hex_address (Address x) \<and> lowercased x = x) xs" "one_safe stored w"
  shows "\<exists>w'. foldO (\<lambda>a w. bindO (added_owner V stored a) (\<lambda>o1. Returns (Wallet.addOwner o1 w))) xs w = (Returns w' :: ('e, _) outcome) \<and>
    one_safe stored w' \<and> w' = w\<lparr>owners := owners w'\<rparr>"
  using assms(4,5)
proof (induction xs arbitrary: w)
  case (Cons x xs)
  from Cons.prems(1) have x: "hex_address (Address x)" "lowercased x = x" by simp_all
  obtain b where b: "encryption_address_from V x = (Returns (Some b) :: ('e, _) outcome)" "lower b = lower (Address x)"
    using encryption_address_hex [OF assms(1,2) x(1), where ?'e = 'e] by blast
  let ?o = "\<lparr>owner_address = b, owner_role = (if safe_of_app stored x then personalSafe else unknown)\<rparr>"
  have a: "added_owner V stored x = (Returns ?o :: ('e, _) outcome)"
    using b(1) owned_by_app_Returns [OF assms(3), of x, where ?'a = 'e] by (simp add: added_owner_def)
  have "spelled ?o = x" using b(2) x(2) by (simp add: lower_def)
  then have "one_safe stored (Wallet.addOwner ?o w)"
    using Cons.prems(2) by (auto simp: one_safe_def Wallet.addOwner_def remove_with_def)
  from Cons.IH [OF _ this] Cons.prems(1) obtain w' where
    w': "foldO (\<lambda>a w. bindO (added_owner V stored a) (\<lambda>o1. Returns (Wallet.addOwner o1 w))) xs (Wallet.addOwner ?o w) = (Returns w' :: ('e, _) outcome)"
      "one_safe stored w'" "w' = (Wallet.addOwner ?o w)\<lparr>owners := owners w'\<rparr>" by auto
  have "(Wallet.addOwner ?o w)\<lparr>owners := owners w'\<rparr> = w\<lparr>owners := owners w'\<rparr>" by (simp add: Wallet.addOwner_def)
  with w' a show ?case by (intro exI [of _ w']) simp
next
  case Nil
  then show ?case by (intro exI [of _ w]) simp
qed

lemma one_safe_lost:
  assumes "one_safe stored w" "distinct xs" "2 \<le> length (filter (safe_of_app stored) xs)"
  shows "spelled ` set (owners w) \<noteq> set xs"
proof
  assume eq: "spelled ` set (owners w) = set xs"
  let ?ps = "filter (\<lambda>o1. owner_role o1 = personalSafe) (owners w)"
  have "set (filter (safe_of_app stored) xs) \<subseteq> spelled ` set ?ps" using assms(1) eq [symmetric] by (auto simp: one_safe_def)
  then have "card (set (filter (safe_of_app stored) xs)) \<le> card (spelled ` set ?ps)" by (rule card_mono [rotated]) simp
  also have "\<dots> \<le> card (set ?ps)" by (rule card_image_le) simp
  also have "\<dots> \<le> 1" using assms(1) card_length [of ?ps] by (simp add: one_safe_def)
  finally show False using assms(2,3) distinct_card [of "filter (safe_of_app stored) xs"] by simp
qed

definition new_multisig :: "WalletID \<Rightarrow> Address \<Rightarrow> Wallet" where
  "new_multisig i a = Wallet_init i readyToUse [] (Some a) None None None 1 None None multisig"

lemma new_multisig_parts [simp]: "wallet_id (new_multisig i a) = i" "owners (new_multisig i a) = []" "address (new_multisig i a) = Some a"
  "state (new_multisig i a) = readyToUse" "wallet_type (new_multisig i a) = multisig"
  by (simp_all add: new_multisig_def Wallet_init_def Wallet_blank_def)

lemma filter_fresh: "i \<notin> wallet_id ` set ws \<Longrightarrow> filter (\<lambda>r. wallet_id r \<noteq> i) ws = ws"
  by (auto intro!: filter_True)

lemma save_fresh: "i \<notin> wallet_id ` set (walletRows v) \<Longrightarrow> wallet_id w = i \<Longrightarrow> walletRows (save w v) = walletRows v @ [w]"
  by (simp add: save_def filter_fresh)

lemma remove_wallet_row_save: "i \<notin> wallet_id ` set (walletRows v) \<Longrightarrow> wallet_id w = i \<Longrightarrow> remove_wallet_row w (save w v) = v"
  by (simp add: save_def remove_wallet_row_def filter_fresh)

lemma owners_from_chain_new:
  "owners_from_chain V stored existing (new_multisig i a) =
     foldO (\<lambda>a w. bindO (added_owner V stored a) (\<lambda>o1. Returns (Wallet.addOwner o1 w))) existing (new_multisig i a)"
proof -
  have e: "(new_multisig i a)\<lparr>owners := []\<rparr> = new_multisig i a" by (simp add: new_multisig_def Wallet_init_def Wallet_blank_def)
  show ?thesis by (simp add: owners_from_chain_def sortedOwners_def) (simp only: e)
qed

lemma multisig_update:
  assumes "i \<notin> wallet_id ` set (walletRows (app_world s))" "onchain_data V A a = Returns (existing, threshold, Some m)"
    and "owners_from_chain V (walletRows (app_world s) @ [new_multisig i a]) existing (new_multisig i a) = (Returns w1 :: (unit, _) outcome)"
    and "w2 = changeContractVersion (masterCopy_version (env_metadata V) m) (changeConfirmationCount threshold (Wallet.changeMasterCopy (Some m) w1))"
  shows "updateWalletWithOnchainData V A i (save_wallet (new_multisig i a) s) = Returns (True, save_wallet w2 (save_wallet (new_multisig i a) s))"
proof -
  have "wallet_with i (save_wallet (new_multisig i a) s) = Some (new_multisig i a)"
    by (simp add: wallet_with_def save_wallet_def find_id_save)
  then show ?thesis using assms(2-4) save_fresh [OF assms(1), of "new_multisig i a"]
    by (simp add: updateWalletWithOnchainData_def save_wallet_def Let_def)
qed

lemma multisig_update_Traps:
  assumes "i \<notin> wallet_id ` set (walletRows (app_world s))" "onchain_data V A a = Returns (existing, threshold, Some m)"
    and "owners_from_chain V (walletRows (app_world s) @ [new_multisig i a]) existing (new_multisig i a) = (Traps :: (unit, _) outcome)"
  shows "updateWalletWithOnchainData V A i (save_wallet (new_multisig i a) s) = Traps"
proof -
  have "wallet_with i (save_wallet (new_multisig i a) s) = Some (new_multisig i a)"
    by (simp add: wallet_with_def save_wallet_def find_id_save)
  then show ?thesis using assms(2-3) save_fresh [OF assms(1), of "new_multisig i a"]
    by (simp add: updateWalletWithOnchainData_def save_wallet_def Let_def)
qed

text \<open>What the rest of the addition does with the stored wallet.\<close>

lemma multisig_selected:
  assumes "updateWalletWithOnchainData V A i (save_wallet (new_multisig i a) s) = Returns (True, save_wallet w2 (save_wallet (new_multisig i a) s))"
    and "Address_init (env_packages V) adr = (Returns a :: (unit, _) outcome)" "wallet_id w2 = i" "i \<noteq> []"
    and "pred_option (\<lambda>p. i \<notin> set (wallets p)) (app_portfolio s)"
  shows "\<exists>s'. createAndSelectMultisigWallet V A i (Some adr) s = Returns (True, s') \<and> selected_wallet s' = Some w2 \<and>
    (\<forall>j. j \<noteq> i \<longrightarrow> wallet_with j s' = wallet_with j s)"
proof -
  let ?s = "save_wallet w2 (save_wallet (new_multisig i a) s)"
  obtain p s3 where p: "fetchOrCreatePortfolio ?s = (p, s3)" by fastforce
  then have s3: "app_world s3 = app_world ?s" "i \<notin> set (wallets p)"
    using assms(5) by (auto simp: fetchOrCreatePortfolio_def save_wallet_def Portfolio_new_def split: option.splits)
  define p1 where "p1 = p\<lparr>selectedWallet := (if wallets p = [] then Some i else selectedWallet p), wallets := wallets p @ [i]\<rparr>"
  have "addWallet p i = (Returns p1 :: (unit, _) outcome)" using s3(2) by (simp add: addWallet_Returns p1_def)
  moreover have "selectWallet p1 i = (Returns (p1\<lparr>selectedWallet := Some i\<rparr>) :: (unit, _) outcome)" by (simp add: selectWallet_Returns p1_def)
  moreover obtain k where "accountID (token_id Token_Ether) i = (Returns k :: (unit, _) outcome)"
    using assms(4) by (auto simp: accountID_def token_id_def Token_Ether_def Address_zero_def)
  ultimately have "createAndSelectMultisigWallet V A i (Some adr) s =
      Returns (True, save_account (k, None) (s3\<lparr>app_portfolio := Some (p1\<lparr>selectedWallet := Some i\<rparr>)\<rparr>))"
    using assms(1,2) p by (simp add: createAndSelectMultisigWallet_def new_multisig_def Let_def)
  moreover have "wallet_with j (save_account (k, None) (s3\<lparr>app_portfolio := q\<rparr>)) = (if j = i then Some w2 else wallet_with j s)" for j q
  proof -
    have "find_id j (app_world (save_account (k, None) (s3\<lparr>app_portfolio := q\<rparr>))) = find_id j (app_world s3)"
      by (simp add: save_account_def find_id_def)
    then show ?thesis using s3(1) assms(3) by (simp add: wallet_with_def save_wallet_def find_id_save)
  qed
  ultimately show ?thesis by (auto simp: selected_wallet_def save_account_def)
qed

lemma added_owner_no_throw: "added_owner V stored y \<noteq> Throws e"
  by (auto simp: added_owner_def bindO_eq_Throws encryption_address_from_def Address_init_def Let_def owned_by_app_no_throw split: if_splits)

lemma added_owner_traps:
  assumes "\<not> list_all (\<lambda>w. address w \<noteq> None) stored" "\<not> safe_of_app stored x"
  shows "added_owner V stored x = (Traps :: ('e, _) outcome)"
proof (cases "bindO (encryption_address_from V x) unwrap :: ('e, _) outcome")
  case (Throws u)
  then show ?thesis using added_owner_no_throw [of V stored x u] by (simp add: added_owner_def)
qed (use owned_by_app_Traps [OF assms, where ?'a = 'e] in \<open>simp_all add: added_owner_def\<close>)

text \<open>The owners that the new wallet gets.\<close>

lemma multisig_owners:
  assumes "packages_ok (env_packages V)" "eip55_ok V" "list_all (\<lambda>r. address r \<noteq> None) stored"
    and "list_all (\<lambda>x. hex_address (Address x) \<and> lowercased x = x) existing" "distinct existing"
  shows "\<exists>w1. owners_from_chain V stored existing (new_multisig i a) = (Returns w1 :: ('e, _) outcome) \<and> w1 = (new_multisig i a)\<lparr>owners := owners w1\<rparr> \<and>
    (if length (filter (safe_of_app stored) existing) \<le> 1 then map spelled (owners w1) = existing else spelled ` set (owners w1) \<noteq> set existing)"
proof (cases "length (filter (safe_of_app stored) existing) \<le> 1")
  case True
  from owners_added [OF assms(1-4) this, of "new_multisig i a", where ?'e = 'e] obtain os where
    "owners_from_chain V stored existing (new_multisig i a) = (Returns ((new_multisig i a)\<lparr>owners := os\<rparr>) :: ('e, _) outcome)" "map spelled os = existing"
    by (auto simp: first_with_def owners_from_chain_new)
  then show ?thesis using True by (intro exI [of _ "(new_multisig i a)\<lparr>owners := os\<rparr>"]) simp
next
  case False
  have "one_safe stored (new_multisig i a)" by (simp add: one_safe_def)
  from one_safe_added [OF assms(1-4) this, where ?'e = 'e] obtain w1 where
    "owners_from_chain V stored existing (new_multisig i a) = (Returns w1 :: ('e, _) outcome)" "one_safe stored w1" "w1 = (new_multisig i a)\<lparr>owners := owners w1\<rparr>"
    unfolding owners_from_chain_new by blast
  with one_safe_lost [of stored w1 existing] assms(5) False show ?thesis by auto
qed

lemma multisig_stored:
  assumes "owners_from_chain V (walletRows (app_world s) @ [new_multisig i a]) existing (new_multisig i a) = (Returns w1 :: (unit, _) outcome)"
    and "w1 = (new_multisig i a)\<lparr>owners := owners w1\<rparr>" "onchain_data V A a = Returns (existing, threshold, Some m)"
    and "Address_init (env_packages V) adr = (Returns a :: (unit, _) outcome)" "i \<noteq> []"
    and "i \<notin> wallet_id ` set (walletRows (app_world s))" "pred_option (\<lambda>p. i \<notin> set (wallets p)) (app_portfolio s)"
  shows "\<exists>s' w. createAndSelectMultisigWallet V A i (Some adr) s = Returns (True, s') \<and> selected_wallet s' = Some w \<and>
    wallet_id w = i \<and> address w = Some a \<and> isReadyToUse w \<and> confirmationCount w = threshold \<and> wallet_masterCopyAddress w = Some m \<and>
    (\<forall>j. j \<noteq> i \<longrightarrow> wallet_with j s' = wallet_with j s) \<and> owners w = owners w1"
proof -
  define w2 where "w2 = changeContractVersion (masterCopy_version (env_metadata V) m) (changeConfirmationCount threshold (Wallet.changeMasterCopy (Some m) w1))"
  have parts: "wallet_id w2 = i" "address w2 = Some a" "state w2 = readyToUse" "confirmationCount w2 = threshold" "wallet_masterCopyAddress w2 = Some m" "owners w2 = owners w1"
    using arg_cong [OF assms(2), of wallet_id] arg_cong [OF assms(2), of address] arg_cong [OF assms(2), of state]
    by (simp_all add: w2_def changeContractVersion_def changeConfirmationCount_def Wallet.changeMasterCopy_def)
  have "updateWalletWithOnchainData V A i (save_wallet (new_multisig i a) s) = Returns (True, save_wallet w2 (save_wallet (new_multisig i a) s))"
    by (rule multisig_update [OF assms(6,3,1) w2_def])
  from multisig_selected [OF this assms(4) parts(1) assms(5,7)] parts show ?thesis by (auto simp: isReadyToUse_def)
qed

text \<open>
  (C24) Adding a wallet that is owned by another one. When the contract cannot be read nothing is stored. Otherwise the new wallet is stored and selected; no other wallet
  changes. If at most one of its owners is a safe of the app, the owners of the stored wallet are exactly those of the contract, in order, with the threshold and
  master copy of the contract. If two owners are safes of the app, one of them is lost: the second replaces the first, since both
  get the role \<open>personalSafe\<close>. And while a wallet without an address is stored, a draft for example, an owner that is no safe of the app stops the process.
\<close>

theorem adding_an_owned_wallet:
  assumes "packages_ok (env_packages V)" "eip55_ok V" "Address_init (env_packages V) adr = (Returns a :: (unit, _) outcome)" "i \<noteq> []"
    and "i \<notin> wallet_id ` set (walletRows (app_world s))" "pred_option (\<lambda>p. i \<notin> set (wallets p)) (app_portfolio s)"
    and "stored = walletRows (app_world s) @ [new_multisig i a]"
  shows "case onchain_data V A a of
      Throws e \<Rightarrow> createAndSelectMultisigWallet V A i (Some adr) s = Returns (False, s)
    | Traps \<Rightarrow> createAndSelectMultisigWallet V A i (Some adr) s = Traps
    | Returns (existing, threshold, master) \<Rightarrow>
        list_all (\<lambda>x. hex_address (Address x) \<and> lowercased x = x) existing \<and> distinct existing \<longrightarrow>
        (if list_all (\<lambda>r. address r \<noteq> None) stored
         then \<forall>m. master = Some m \<longrightarrow> (\<exists>s' w. createAndSelectMultisigWallet V A i (Some adr) s = Returns (True, s') \<and> selected_wallet s' = Some w \<and>
           wallet_id w = i \<and> address w = Some a \<and> isReadyToUse w \<and> confirmationCount w = threshold \<and> wallet_masterCopyAddress w = Some m \<and>
           (\<forall>j. j \<noteq> i \<longrightarrow> wallet_with j s' = wallet_with j s) \<and>
           (if length (filter (safe_of_app stored) existing) \<le> 1 then map spelled (owners w) = existing else spelled ` set (owners w) \<noteq> set existing))
         else master \<noteq> None \<and> (\<exists>x \<in> set existing. \<not> safe_of_app stored x) \<longrightarrow> createAndSelectMultisigWallet V A i (Some adr) s = Traps)"
proof (cases "onchain_data V A a")
  case (Throws e)
  have "remove_wallet_row (new_multisig i a) (save (new_multisig i a) (app_world s)) = app_world s" using assms(5) by (simp add: remove_wallet_row_save)
  then show ?thesis using Throws assms(3)
    by (simp add: createAndSelectMultisigWallet_def updateWalletWithOnchainData_def wallet_with_def save_wallet_def find_id_save Let_def flip: new_multisig_def)
next
  case Traps
  then show ?thesis using assms(3)
    by (simp add: createAndSelectMultisigWallet_def updateWalletWithOnchainData_def wallet_with_def save_wallet_def find_id_save Let_def flip: new_multisig_def)
next
  case (Returns r)
  obtain existing threshold master where r: "r = (existing, threshold, master)" by (cases r)
  let ?call = "createAndSelectMultisigWallet V A i (Some adr) s"
  have good: "\<exists>s' w. ?call = Returns (True, s') \<and> selected_wallet s' = Some w \<and>
      wallet_id w = i \<and> address w = Some a \<and> isReadyToUse w \<and> confirmationCount w = threshold \<and> wallet_masterCopyAddress w = Some m \<and>
      (\<forall>j. j \<noteq> i \<longrightarrow> wallet_with j s' = wallet_with j s) \<and>
      (if length (filter (safe_of_app stored) existing) \<le> 1 then map spelled (owners w) = existing else spelled ` set (owners w) \<noteq> set existing)"
    if "list_all (\<lambda>x. hex_address (Address x) \<and> lowercased x = x) existing" "distinct existing" "list_all (\<lambda>r. address r \<noteq> None) stored" "master = Some m" for m
  proof -
    from multisig_owners [OF assms(1,2) that(3,1,2), of i a, where ?'e = unit] obtain w1 where
      w1: "owners_from_chain V stored existing (new_multisig i a) = (Returns w1 :: (unit, _) outcome)" "w1 = (new_multisig i a)\<lparr>owners := owners w1\<rparr>"
        "if length (filter (safe_of_app stored) existing) \<le> 1 then map spelled (owners w1) = existing else spelled ` set (owners w1) \<noteq> set existing" by blast
    from multisig_stored [OF w1(1) [unfolded assms(7)] w1(2) _ assms(3-6)] Returns r that(4) w1(3) show ?thesis by fastforce
  qed
  have bad: "?call = Traps" if "\<not> list_all (\<lambda>r. address r \<noteq> None) stored" "master = Some m" "x \<in> set existing" "\<not> safe_of_app stored x" for m x
  proof -
    have "owners_from_chain V stored existing (new_multisig i a) = (Traps :: (unit, _) outcome)"
      unfolding owners_from_chain_new
      by (intro foldO_Traps [OF that(3)]) (auto simp: bindO_eq_Throws added_owner_traps [OF that(1,4)] added_owner_no_throw)
    then have "updateWalletWithOnchainData V A i (save_wallet (new_multisig i a) s) = Traps"
      using Returns r that(2) assms(7) by (intro multisig_update_Traps [OF assms(5)]) simp_all
    then show ?thesis using assms(3) by (simp add: createAndSelectMultisigWallet_def Let_def flip: new_multisig_def)
  qed
  show ?thesis unfolding Returns r outcome.case prod.case using good bad by auto
qed

subsection \<open>Samples\<close>

definition sampleContract :: "Address list \<Rightarrow> nat \<Rightarrow> contract_answers" where
  "sampleContract os t =
     \<lparr>ca_eth_call = (\<lambda>_ d. Returns (if take 4 d = abi_method samplePackages ''getOwners()'' then encodeArrayAddress samplePackages os else encodeUInt samplePackages t)),
      ca_getStorageAt = (\<lambda>_ _. Returns (encodeUInt samplePackages 7))\<rparr>"

lemma account_small_address: "n < 256 \<Longrightarrow> account samplePackages (deploy_address n) = n"
  by (rule account_deploy_address) simp

lemma sampleContract_answers:
  assumes "t < 256" "length os \<le> 4" "list_all (\<lambda>n. n < 256) os"
  shows "getOwners samplePackages (ca_eth_call (sampleContract (map deploy_address os) t)) c = (Returns (map deploy_address os) :: (ServiceError, _) outcome)"
    and "getThreshold samplePackages (ca_eth_call (sampleContract (map deploy_address os) t)) c = (Returns (int t) :: (ServiceError, _) outcome)"
    and "masterCopyAddress samplePackages (ca_getStorageAt (sampleContract (map deploy_address os) t)) c = (Returns (Some (deploy_address 7)) :: (ServiceError, _) outcome)"
proof -
  have sel: "take 4 (invocation samplePackages f args) = abi_method samplePackages f" for f args
    using sample_selectors(4) [of f] by (simp add: invocation_def)
  have ne: "abi_method samplePackages ''getThreshold()'' \<noteq> abi_method samplePackages ''getOwners()''"
    by (simp add: abi_method_def samplePackages_def ascii_def rightPadded_def)
  have "list_all (address_ok samplePackages) (map deploy_address os)" "fits_Int (length (map deploy_address os) * 32)"
    using hex_deploy_address assms(2) by (auto simp: list_all_iff address_ok_def fits_Int_def Int_max_def hex_address_account(3) [OF samplePackages_ok])
  from decodeArrayAddress_encode [OF samplePackages_ok this, where ?'a = ServiceError]
  show "getOwners samplePackages (ca_eth_call (sampleContract (map deploy_address os) t)) c = (Returns (map deploy_address os) :: (ServiceError, _) outcome)"
    using assms(3) by (simp add: getOwners_def invoke_def sampleContract_def sel comp_def account_small_address list_all_iff)
  show "getThreshold samplePackages (ca_eth_call (sampleContract (map deploy_address os) t)) c = (Returns (int t) :: (ServiceError, _) outcome)"
    using assms(1) ne decodeUInt_encodeUInt [OF samplePackages_ok, of t "[]"]
    by (simp add: toInt_def Int_min_def Int_max_def getThreshold_def invoke_def sampleContract_def sel Int_of_uint_def)
  show "masterCopyAddress samplePackages (ca_getStorageAt (sampleContract (map deploy_address os) t)) c = (Returns (Some (deploy_address 7)) :: (ServiceError, _) outcome)"
    using decodeUInt_encodeUInt [OF samplePackages_ok, of 7 "[]"] Address_of_uint_small [OF samplePackages_ok, of 7]
    by (simp add: masterCopyAddress_def sampleContract_def decodeAddress_def)
qed

lemma lowercased_deploy_address: "lowercased (lowercased (address_value (deploy_address n))) = lowercased (address_value (deploy_address n))"
    "hex_address (Address (lowercased (address_value (deploy_address n))))"
  using hex_address_lower [OF hex_deploy_address, of n] by (simp_all add: lower_def)

lemma same_deploy_address:
  assumes "n < 256" "m < 256"
  shows "lowercased (address_value (deploy_address n)) = lowercased (address_value (deploy_address m)) \<longleftrightarrow> n = m"
  using lower_eq_iff [OF samplePackages_ok hex_deploy_address hex_deploy_address, of n m] assms by (simp add: lower_def account_small_address)

definition emptyApp :: app where
  "emptyApp = \<lparr>app_world = \<lparr>walletRows = [], accountRows = [], deviceKeys = [], events = []\<rparr>,
     app_tokens = \<lparr>itemRows = [], token_events = [], balanceUpdates = []\<rparr>, app_portfolio = None, txRows = []\<rparr>"

theorem adding_an_owned_wallet_witness:
  "\<exists>s' w. createAndSelectMultisigWallet sampleEnv (sampleContract [deploy_address 41, deploy_address 42] 2) ''m'' (Some (address_value (deploy_address 30))) emptyApp =
       Returns (True, s') \<and> selected_wallet s' = Some w \<and> isReadyToUse w \<and> confirmationCount w = 2 \<and>
     map spelled (owners w) = map (lowercased \<circ> address_value) [deploy_address 41, deploy_address 42]"
proof -
  let ?A = "sampleContract [deploy_address 41, deploy_address 42] 2" and ?a = "deploy_address 30"
  let ?ex = "map (lowercased \<circ> address_value) [deploy_address 41, deploy_address 42]"
  have V: "env_packages sampleEnv = samplePackages" by (simp add: sampleEnv_def)
  have a: "Address_init (env_packages sampleEnv) (address_value ?a) = (Returns ?a :: (unit, _) outcome)"
    using hex_address_init [OF samplePackages_ok hex_deploy_address, of 30] by (simp add: V)
  have d: "onchain_data sampleEnv ?A ?a = Returns (?ex, 2, Some (deploy_address 7))"
    using sampleContract_answers [of 2 "[41, 42]" ?a] by (simp add: onchain_data_def V)
  note t = adding_an_owned_wallet [where V = sampleEnv and A = ?A and adr = "address_value ?a" and a = ?a and i = "''m''" and s = emptyApp, OF _ sample_eip55 a _ _ _ refl]
  have no: "\<not> safe_of_app (walletRows (app_world emptyApp) @ [new_multisig ''m'' ?a]) x" if "x \<in> set ?ex" for x
    using that same_deploy_address [of 30 41] same_deploy_address [of 30 42] by (auto simp: safe_of_app_def emptyApp_def lowercased_deploy_address)
  have ex: "list_all (\<lambda>x. hex_address (Address x) \<and> lowercased x = x) ?ex \<and> distinct ?ex"
    using same_deploy_address [of 41 42] by (simp add: lowercased_deploy_address)
  have p: "packages_ok (env_packages sampleEnv)" "''m'' \<notin> wallet_id ` set (walletRows (app_world emptyApp))"
      "pred_option (\<lambda>p. ''m'' \<notin> set (wallets p)) (app_portfolio emptyApp)" "list_all (\<lambda>r. address r \<noteq> None) (walletRows (app_world emptyApp) @ [new_multisig ''m'' ?a])"
    using samplePackages_ok by (simp_all add: V emptyApp_def)
  have f: "filter (safe_of_app (walletRows (app_world emptyApp) @ [new_multisig ''m'' ?a])) ?ex = []" using no by (simp add: filter_empty_conv)
  from t [OF p(1) _ p(2,3)] show ?thesis unfolding d outcome.case prod.case using ex p(4) f by auto
qed

theorem paid_deployment_deleted_witness:
  "\<exists>s1. handle sampleDeployer (deployInput [] [] (Throws (networkRequestFailed (Some 503) False))) (DeploymentFunded ''w'')
       (deployApp (paidWallet creationStarted)) = Returns (Done, s1) \<and> wallet_with ''w'' (dep_app (cleanUpDrafts s1)) = None \<and>
     deploy_address 21 \<notin> set (deviceKeys (app_world (dep_app (cleanUpDrafts s1))))"
proof -
  have "tables_ok (dep_app (deployApp (paidWallet creationStarted)))"
    by (simp add: tables_ok_def deployApp_def ids_distinct_def keys_distinct_def portfolio_ok_def)
  moreover have "deploy_address 21 \<in> owner_address ` set (owners (paidWallet creationStarted))"
    by (simp add: deployWallet_def deployOwners_def)
  ultimately show ?thesis
    using paid_deployment_deleted [of "deployApp (paidWallet creationStarted)" "''w''" "paidWallet creationStarted" "deploy_address 30"
        "deployInput [] [] (Throws (networkRequestFailed (Some 503) False))" "networkRequestFailed (Some 503) False" sampleDeployer]
    by (auto simp: deployInput_def aborts_def simp del: handle.simps)
qed

theorem launch_repairs_tables_witness:
  "\<exists>s' p. repairModelIfNeeded (dep_app (cleanUpDrafts (deployApp (deployWallet draft)))) = Returns s' \<and> app_portfolio s' = Some p \<and> wallets p = []"
proof -
  have "tables_ok (dep_app (deployApp (deployWallet draft)))" "app_portfolio (dep_app (deployApp (deployWallet draft))) \<noteq> None"
    by (simp_all add: tables_ok_def deployApp_def ids_distinct_def keys_distinct_def portfolio_ok_def)
  from launch_repairs_tables [OF this] show ?thesis by (auto simp: deployApp_def)
qed

definition sharedApp :: deployment where
  "sharedApp = \<lparr>dep_app = \<lparr>app_world = \<lparr>walletRows = [(deployWallet readyToUse)\<lparr>address := Some (deploy_address 30)\<rparr>,
        (Wallet_blank ''m'')\<lparr>state := readyToUse, address := Some (deploy_address 31), wallet_type := multisig,
          owners := [\<lparr>owner_address = deploy_address 21, owner_role = unknown\<rparr>]\<rparr>],
        accountRows = [(''0x:w'', Some 5), (''0x:m'', None)], deviceKeys = [deploy_address 21], events = []\<rparr>,
      app_tokens = \<lparr>itemRows = [], token_events = [], balanceUpdates = []\<rparr>,
      app_portfolio = Some \<lparr>selectedWallet = Some ''m'', wallets = [''w'', ''m'']\<rparr>, txRows = []\<rparr>,
    addressBook = [], monitors = [], awaiting = [], errorStream = [], exited = False\<rparr>"

theorem removing_a_wallet_witness:
  "\<exists>v. wallet_with ''w'' (dep_app sharedApp) = Some v \<and> hasThisDeviceKeyAsOwner (app_world (dep_app sharedApp)) v \<and>
     \<not> hasThisDeviceKeyAsOwner (app_world (dep_app (removeWallet ''m'' sharedApp))) v"
proof -
  let ?v = "(deployWallet readyToUse)\<lparr>address := Some (deploy_address 30)\<rparr>"
  let ?m = "(Wallet_blank ''m'')\<lparr>state := readyToUse, address := Some (deploy_address 31), wallet_type := multisig,
      owners := [\<lparr>owner_address = deploy_address 21, owner_role = unknown\<rparr>]\<rparr>"
  have w: "wallet_with ''w'' (dep_app sharedApp) = Some ?v" "wallet_with ''m'' (dep_app sharedApp) = Some ?m"
    by (simp_all add: sharedApp_def wallet_with_def find_id_def Wallet_blank_def)
  have ok: "tables_ok (dep_app sharedApp)" "book_ok (addressBook sharedApp)"
    by (simp_all add: sharedApp_def tables_ok_def ids_distinct_def keys_distinct_def portfolio_ok_def book_ok_def wallet_entries_def Wallet_blank_def)
  have o: "Wallet.owner ?v thisDevice = Some \<lparr>owner_address = deploy_address 21, owner_role = thisDevice\<rparr>"
    by (simp add: Wallet.owner_def first_with_def deployWallet_def deployOwners_def)
  have "hasThisDeviceKeyAsOwner (app_world (dep_app sharedApp)) ?v"
    using o by (simp add: hasThisDeviceKeyAsOwner_def Wallet.owner_def sharedApp_def deployWallet_def Wallet_blank_def)
  moreover have "\<not> hasThisDeviceKeyAsOwner (app_world (dep_app (removeWallet ''m'' sharedApp))) ?v"
    using removing_a_wallet [OF ok w(2), of "deploy_address 31", OF _ _ refl] w(1) o by (auto simp: Wallet_blank_def)
  ultimately show ?thesis using w(1) by blast
qed

end
