(* ===== verification/Recovery.thy ===== *)
theory Recovery
  imports WalletService
begin

section \<open>Recovering a safe\<close>

text \<open>
  \<^verbatim>\<open>RecoveryDomainService.swift\<close> without the linked list and the owner calls, which are in theory \<open>OwnerChange\<close>: the draft
  of a recovered wallet, the check of the address and of the recovery phrase, the builder of the recovery transaction, its submission, and what
  happens when it is processed. Answers of the contract are inputs, one record per moment at which the code asks. \<^verbatim>\<open>assert\<close> is not part of a
  release build and has no effect. Shown: what the stored recovery transaction does and who has signed it, how a recovery ends, and what
  an interruption leaves.
\<close>

subsection \<open>State and inputs\<close>

text \<open>
  The accounts that a recovery phrase stands for come from the key derivation library: the account of the phrase, and its child at index 1.
  \<open>rc_balanceError\<close> is the error of the node that a failing balance update throws.
\<close>

record recoverer =
  rc_services :: services
  rc_deriveAccount :: "string \<Rightarrow> Address option"
  rc_deriveChild :: "Address \<Rightarrow> Address"
  rc_balanceError :: ServiceError

abbreviation rc_env :: "recoverer \<Rightarrow> env" where
  "rc_env C \<equiv> sv_env (rc_services C)"

abbreviation rc_packages :: "recoverer \<Rightarrow> packages" where
  "rc_packages C \<equiv> env_packages (rc_env C)"

definition post :: "ServiceError \<Rightarrow> deployment \<Rightarrow> deployment" where
  "post e s = s\<lparr>errorStream := errorStream s @ [e]\<rparr>"

fun serviceError :: "ServiceError \<Rightarrow> ServiceError" where
  "serviceError (networkRequestFailed (Some c) expired) =
     (if c = 400 then RecoveryError RS_failedToCreateValidTransactionData
      else if c = 404 then RecoveryError RS_walletNotFound
      else if c = 422 then RecoveryError RS_failedToCreateValidTransaction
      else if c = 500 then RecoveryError RS_internalServerError
      else networkRequestFailed (Some c) expired)"
| "serviceError e = e"

subsection \<open>The draft\<close>

text \<open>\<open>device\<close> is the generated account, \<open>i\<close> the next wallet identifier.\<close>

definition createRecoverDraftWallet :: "Address \<Rightarrow> WalletID \<Rightarrow> app \<Rightarrow> ('e, app) outcome" where
  "createRecoverDraftWallet device i s =
     (let wallet = prepareForRecovery (Wallet_new i device);
          s1 = save_wallet wallet (add_key device s)
      in bindO (accountID (token_id Token_Ether) i) (\<lambda>account.
         let (p, s2) = fetchOrCreatePortfolio (save_account (account, None) s1)
         in bindO (addWallet p i) (\<lambda>p1. bindO (selectWallet p1 i) (\<lambda>p2. Returns (s2\<lparr>app_portfolio := Some p2\<rparr>)))))"

subsection \<open>Getting ready for recovery\<close>

definition validate_address :: "env \<Rightarrow> contract_answers \<Rightarrow> Address \<Rightarrow> app \<Rightarrow> (ServiceError, unit) outcome" where
  "validate_address V A a s =
     (let walletsWithAddress = filter (\<lambda>w. map_option (lowercased \<circ> address_value) (address w) = Some (lowercased (address_value a)) \<and>
            state w \<noteq> recoveryDraft \<and> state w \<noteq> draft) (walletRows (app_world s))
      in bindO (assertTrue (walletsWithAddress = []) (RecoveryError RS_walletAlreadyExists)) (\<lambda>_.
         bindO (masterCopyAddress (env_packages V) (ca_getStorageAt A) a) (\<lambda>master.
         bindO (assertNotNil master (RecoveryError RS_invalidContractAddress)) (\<lambda>_.
         bindO (unwrap master) (\<lambda>m.
         assertTrue (isValidMasterCopy (env_metadata V) m) (RecoveryError RS_invalidContractAddress))))))"

definition removeOldAddressBookEntry :: "deployment \<Rightarrow> deployment" where
  "removeOldAddressBookEntry s =
     (case Option.bind (selected_wallet (dep_app s)) address of
        None \<Rightarrow> s
      | Some a \<Rightarrow> s\<lparr>addressBook := fold book_remove (book_find (address_value a) [abt_wallet] (addressBook s)) (addressBook s)\<rparr>)"

definition changeWallet :: "Address \<Rightarrow> deployment \<Rightarrow> ('e, deployment) outcome" where
  "changeWallet a s =
     bindO (unwrap (selected_wallet (dep_app s))) (\<lambda>w. Returns (on_app (save_wallet (changeAddress (Some a) w)) s))"

definition createWalletEntryInAddressBook :: "string \<Rightarrow> string \<Rightarrow> deployment \<Rightarrow> ('e, deployment) outcome" where
  "createWalletEntryInAddressBook entry_id name s =
     bindO (unwrap (selected_wallet (dep_app s))) (\<lambda>w.
     bindO (unwrap (address w)) (\<lambda>a.
     Returns (s\<lparr>addressBook := book_save \<lparr>book_id = entry_id, book_name = name, book_address = address_value a, book_type = abt_wallet\<rparr>
       (addressBook s)\<rparr>)))"

definition add_unknown_owners :: "Address list \<Rightarrow> Wallet \<Rightarrow> Wallet" where
  "add_unknown_owners os w = fold (\<lambda>a. Wallet.addOwner \<lparr>owner_address = a, owner_role = unknown\<rparr>) os w"

definition unsupported_scheme :: "WalletScheme \<Rightarrow> string" where
  "unsupported_scheme sc = ''Configuration '' @ show_int (confirmations sc) @ ''/'' @ show_int (scheme_owners sc) @ '' is not supported''"

definition pullWalletData :: "env \<Rightarrow> contract_answers \<Rightarrow> app \<Rightarrow> (ServiceError, app) outcome" where
  "pullWalletData V A s =
     bindO (unwrap (selected_wallet s)) (\<lambda>w.
     bindO (unwrap (address w)) (\<lambda>a.
     bindO (getOwners (env_packages V) (ca_eth_call A) a) (\<lambda>existing.
     bindO (getThreshold (env_packages V) (ca_eth_call A) a) (\<lambda>threshold.
       let sc = \<lparr>confirmations = threshold, scheme_owners = int (length existing)\<rparr>
       in bindO (assertTrue (sc \<in> set supportedSchemes) (RecoveryError (RS_unsupportedWalletConfiguration (unsupported_scheme sc)))) (\<lambda>_.
          let w1 = changeConfirmationCount threshold (add_unknown_owners existing w)
          in bindO (masterCopyAddress (env_packages V) (ca_getStorageAt A) a) (\<lambda>master.
             case master of
               None \<Rightarrow> Throws (RecoveryError RS_invalidContractAddress)
             | Some m \<Rightarrow>
                 Returns (save_wallet (changeContractVersion (masterCopy_version (env_metadata V) m) (Wallet.changeMasterCopy (Some m) w1)) s)))))))"

text \<open>\<open>A\<close> answers during the validation, \<open>B\<close> when the data of the wallet is read.\<close>

definition change_address :: "env \<Rightarrow> contract_answers \<Rightarrow> contract_answers \<Rightarrow> string \<Rightarrow> Address \<Rightarrow> deployment \<Rightarrow> (unit, deployment) outcome" where
  "change_address V A B entry_id a s =
     (case validate_address V A a (dep_app s) of
        Traps \<Rightarrow> Traps
      | Throws e \<Rightarrow> Returns (post (serviceError e) s)
      | Returns _ \<Rightarrow>
          bindO (changeWallet a (removeOldAddressBookEntry s)) (\<lambda>s1.
            let (p, a1) = fetchOrCreatePortfolio (dep_app s1)
            in bindO (createWalletEntryInAddressBook entry_id (entry_name p a) (s1\<lparr>dep_app := a1\<rparr>)) (\<lambda>s2.
               case pullWalletData V B (dep_app s2) of
                 Traps \<Rightarrow> Traps
               | Throws e \<Rightarrow> Returns (post (serviceError e) s2)
               | Returns a2 \<Rightarrow> Returns (s2\<lparr>dep_app := publish_event WalletAddressChanged a2\<rparr>))))"

definition verifyRecovery :: "recoverer \<Rightarrow> Wallet \<Rightarrow> string \<Rightarrow> (ServiceError, Address \<times> Address) outcome" where
  "verifyRecovery C w phrase =
     (case rc_deriveAccount C phrase of
        None \<Rightarrow> Throws (RecoveryError RS_recoveryPhraseInvalid)
      | Some recoveryAccount \<Rightarrow>
          let derivedAccount = rc_deriveChild C recoveryAccount;
              as_owner = (\<lambda>a role. if state w = recoveryDraft
                then bindO (normalized (rc_packages C) a) (\<lambda>b. Returns \<lparr>owner_address = b, owner_role = unknown\<rparr>)
                else Returns \<lparr>owner_address = a, owner_role = role\<rparr>)
          in bindO (as_owner recoveryAccount paperWallet) (\<lambda>recoveryOwner.
             bindO (as_owner derivedAccount paperWalletDerived) (\<lambda>derivedOwner.
             if contains_owner recoveryOwner w \<and> contains_owner derivedOwner w then Returns (recoveryAccount, derivedAccount)
             else Throws (RecoveryError RS_recoveryAccountsNotFound))))"

definition save_account_key :: "Address \<Rightarrow> app \<Rightarrow> app" where
  "save_account_key a s = (if a \<in> set (deviceKeys (app_world s)) then s else add_key a s)"

definition provide :: "recoverer \<Rightarrow> string \<Rightarrow> deployment \<Rightarrow> (unit, deployment) outcome" where
  "provide C phrase s =
     bindO (unwrap (selected_wallet (dep_app s))) (\<lambda>w.
     case verifyRecovery C w phrase of
       Traps \<Rightarrow> Traps
     | Throws e \<Rightarrow> Returns (post e s)
     | Returns (recoveryAccount, derivedAccount) \<Rightarrow>
         let w1 = Wallet.addOwner \<lparr>owner_address = derivedAccount, owner_role = paperWalletDerived\<rparr>
               (Wallet.addOwner \<lparr>owner_address = recoveryAccount, owner_role = paperWallet\<rparr> w)
         in Returns (on_app (\<lambda>a. publish_event WalletRecoveryAccountsAccepted (save_wallet w1
              (save_account_key derivedAccount (save_account_key recoveryAccount a)))) s))"

subsection \<open>RecoveryTransactionBuilder\<close>

text \<open>A step of the builder that posts an error and gives up returns \<open>None\<close>.\<close>

definition new_recovery_tx :: "string \<Rightarrow> string \<Rightarrow> time \<Rightarrow> Wallet \<Rightarrow> Transaction" where
  "new_recovery_tx tx account_id now w =
     change_amount (Some (ether 0)) now (change_sender (address w) now (Transaction_init tx walletRecovery account_id now now))"

definition remote_wallet :: "env \<Rightarrow> contract_answers \<Rightarrow> Address \<Rightarrow> Wallet \<Rightarrow> (ServiceError, Wallet) outcome" where
  "remote_wallet V A a w =
     bindO (getOwners (env_packages V) (ca_eth_call A) a) (\<lambda>remoteOwners.
     bindO (getThreshold (env_packages V) (ca_eth_call A) a) (\<lambda>remoteThreshold.
     Returns (changeConfirmationCount remoteThreshold (add_unknown_owners remoteOwners (Wallet.removeOwner unknown w)))))"

definition pullData :: "recoverer \<Rightarrow> contract_answers \<Rightarrow> Wallet \<Rightarrow> deployment \<Rightarrow> (unit, builder option \<times> deployment) outcome" where
  "pullData C A w s =
     bindO (unwrap (address w)) (\<lambda>a.
     case remote_wallet (rc_env C) A a w of
       Traps \<Rightarrow> Traps
     | Throws e \<Rightarrow> Returns (None, post e s)
     | Returns w1 \<Rightarrow>
         bindO (builder_of (rc_packages C) w1) (\<lambda>b.
         bindO (updateAllAccountsBalances (rc_env C) (dep_app s)) (\<lambda>(completed, a1).
         let s1 = s\<lparr>dep_app := a1\<rparr>
         in if completed then Returns (Some b, s1) else Returns (None, post (rc_balanceError C) s1))))"

definition isSupportedSafeOwners :: "builder \<Rightarrow> bool" where
  "isSupportedSafeOwners b = (length (bd_modifiable b) \<in> {1, 2})"

definition unsupported_owners :: "builder \<Rightarrow> string" where
  "unsupported_owners b = ''Expected one of [1, 2] mutable owners, but found '' @ show_int (int (length (bd_modifiable b)))"

definition isSupportedScheme :: "builder \<Rightarrow> bool" where
  "isSupportedScheme b = (bd_oldScheme b \<in> set supportedSchemes \<and> bd_newScheme b \<in> set supportedSchemes)"

definition unsupported_old_scheme :: "builder \<Rightarrow> string" where
  "unsupported_old_scheme b =
     ''Expected [(1/3), (2/4)] confirmations/owners, but got ('' @ show_int (confirmations (bd_oldScheme b)) @ ''/'' @
     show_int (scheme_owners (bd_oldScheme b)) @ '')''"

definition multiSendData :: "env \<Rightarrow> Address \<Rightarrow> data list \<Rightarrow> data" where
  "multiSendData V a calls =
     multiSend (env_packages V) (env_metadata V) Address_zero
       (map (\<lambda>d. \<lparr>ms_operation = MS_call, ms_to = a, ms_value = 0, ms_data = d\<rparr>) (filter (\<lambda>d. d \<noteq> []) calls))"

definition buildTransactionData :: "env \<Rightarrow> time \<Rightarrow> Wallet \<Rightarrow> data list \<Rightarrow> Transaction \<Rightarrow> ('e, Transaction) outcome" where
  "buildTransactionData V now w calls tx =
     (case filter (\<lambda>d. d \<noteq> []) calls of
        [] \<Rightarrow> Returns (change_data None now (change_operation (Some OP_call) now (change_recipient (address w) now tx)))
      | [d] \<Rightarrow> Returns (change_data (Some d) now (change_operation (Some OP_call) now (change_recipient (address w) now tx)))
      | _ \<Rightarrow>
          bindO (bindO (encryption_address_from V (address_value (proxy_address (env_metadata V) Address_zero))) unwrap) (\<lambda>batch.
          bindO (unwrap (address w)) (\<lambda>a.
          Returns (change_operation (Some OP_delegateCall) now (change_data (Some (multiSendData V a calls)) now (change_recipient (Some batch) now tx))))))"

definition buildData :: "env \<Rightarrow> time \<Rightarrow> builder \<Rightarrow> Transaction \<Rightarrow> ('e, Transaction \<times> builder) outcome" where
  "buildData V now b tx =
     bindO (owner_calls (env_packages V) b) (\<lambda>(calls, b1).
     bindO (buildTransactionData V now (bd_wallet b1) calls tx) (\<lambda>tx1. Returns (tx1, b1)))"

definition recovery_estimate :: "recoverer \<Rightarrow> Transaction \<Rightarrow> (ServiceError, EstimateTransactionResponse) outcome" where
  "recovery_estimate C tx =
     (let S = rc_services C
      in bindO (unwrap (sender tx)) (\<lambda>from. bindO (formatted S from) (\<lambda>safe. bindO (formatted S (ethTo tx)) (\<lambda>to.
         bindO (unwrap (operation tx)) (\<lambda>op. bindO (AccountID_tokenID (tx_accountID tx)) (\<lambda>token.
         bindO (EstimateTransactionRequest_init S safe to (sv_String S (ethValue tx)) (ethData (sv_packages S) tx) op (Some token)) (\<lambda>request.
         sv_estimateTransaction S request)))))))"

text \<open>The fee token is looked up in the list of tokens, and is Ether when it is not there.\<close>

definition calculateFees :: "time \<Rightarrow> EstimateTransactionResponse \<Rightarrow> app \<Rightarrow> Transaction \<Rightarrow> ('e, Transaction) outcome" where
  "calculateFees now response s tx =
     (let feeToken = (case find_item now (es_gasToken response) (app_tokens s) of None \<Rightarrow> Token_Ether | Some i \<Rightarrow> item_token i);
          estimate = \<lparr>gas = es_safeTxGas response, dataGas = es_baseGas response, operationalGas = es_operationalGas response,
            gasPrice = \<lparr>ta_amount = es_gasPrice response, ta_token = feeToken\<rparr>\<rparr>
      in bindO (nextNonce response) (\<lambda>n.
         Returns (change_nonce (Some (show_int n)) now (change_feeEstimate (Some estimate) now
           (change_fee (Some (totalSubmittedToBlockchain estimate)) now tx)))))"

definition seal :: "recoverer \<Rightarrow> time \<Rightarrow> app \<Rightarrow> Transaction \<Rightarrow> ('e, Transaction) outcome" where
  "seal C now s tx = bindO (hash_of (env_digest (rc_env C) s) tx) (\<lambda>h. tx_proceed now now (change_hash (Some h) now tx))"

text \<open>A key that is not available ends the signing without an error.\<close>

definition sign_with :: "recoverer \<Rightarrow> time \<Rightarrow> Address \<Rightarrow> data \<Rightarrow> app \<Rightarrow> Transaction \<Rightarrow> ('e, Transaction) outcome" where
  "sign_with C now a key s tx =
     bindO (sign_transaction (env_sign (rc_env C)) (env_digest (rc_env C) s) tx key) (\<lambda>d.
     Returns (add_signature \<lparr>sig_address = a, sig_data = d\<rparr> now tx))"

definition sign_recovery :: "recoverer \<Rightarrow> time \<Rightarrow> builder \<Rightarrow> app \<Rightarrow> Transaction \<Rightarrow> ('e, Transaction) outcome" where
  "sign_recovery C now b s tx =
     bindO (unwrap (Wallet.owner (bd_wallet b) paperWallet)) (\<lambda>paper.
     case find_key (rc_services C) (owner_address paper) s of
       None \<Rightarrow> Returns tx
     | Some key \<Rightarrow>
         bindO (sign_with C now (owner_address paper) key s tx) (\<lambda>tx1.
         if confirmations (bd_oldScheme b) \<noteq> 2 then Returns tx1
         else bindO (unwrap (Wallet.owner (bd_wallet b) paperWalletDerived)) (\<lambda>derived.
              case find_key (rc_services C) (owner_address derived) s of
                None \<Rightarrow> Returns tx1
              | Some key2 \<Rightarrow> sign_with C now (owner_address derived) key2 s tx1)))"

definition save_recovery :: "builder \<Rightarrow> Transaction \<Rightarrow> app \<Rightarrow> bool \<times> app" where
  "save_recovery b tx s =
     (if wallet_with (wallet_id (bd_wallet b)) s = None then (False, s) else (True, save_tx tx (save_wallet (bd_wallet b) s)))"

definition builder_main :: "recoverer \<Rightarrow> contract_answers \<Rightarrow> time \<Rightarrow> string \<Rightarrow> deployment \<Rightarrow> (unit, deployment) outcome" where
  "builder_main C A now tx s =
     bindO (unwrap (selected_wallet (dep_app s))) (\<lambda>w.
     bindO (accountID (address_value (fee_token w)) (wallet_id w)) (\<lambda>account_id.
     bindO (pullData C A w s) (\<lambda>(pulled, s1).
     case pulled of
       None \<Rightarrow> Returns s1
     | Some b \<Rightarrow>
         if \<not> isSupportedSafeOwners b then Returns (post (RecoveryError (RS_unsupportedWalletConfiguration (unsupported_owners b))) s1)
         else if \<not> isSupportedScheme b then Returns (post (RecoveryError (RS_unsupportedWalletConfiguration (unsupported_old_scheme b))) s1)
         else bindO (buildData (rc_env C) now b (new_recovery_tx tx account_id now w)) (\<lambda>(tx1, b1).
              case recovery_estimate C tx1 of
                Traps \<Rightarrow> Traps
              | Throws e \<Rightarrow> Returns (post (serviceError e) s1)
              | Returns response \<Rightarrow>
                  bindO (calculateFees now response (dep_app s1) tx1) (\<lambda>tx2.
                  bindO (seal C now (dep_app s1) tx2) (\<lambda>tx3.
                  bindO (sign_recovery C now b1 (dep_app s1) tx3) (\<lambda>tx4.
                  let (saved, a2) = save_recovery b1 tx4 (dep_app s1)
                  in Returns (s1\<lparr>dep_app := (if saved then publish_event WalletBecameReadyForRecovery a2 else a2)\<rparr>))))))))"

definition drop_recovery_tx :: "WalletID \<Rightarrow> app \<Rightarrow> app" where
  "drop_recovery_tx i s = (case find_tx_type walletRecovery i s of None \<Rightarrow> s | Some tx \<Rightarrow> remove_tx tx s)"

definition createRecoveryTransaction :: "recoverer \<Rightarrow> contract_answers \<Rightarrow> time \<Rightarrow> string \<Rightarrow> deployment \<Rightarrow> (unit, deployment) outcome" where
  "createRecoveryTransaction C A now tx s =
     bindO (unwrap (selected_wallet (dep_app s))) (\<lambda>w.
     builder_main C A now tx (on_app (drop_recovery_tx (wallet_id w)) s))"

definition isRecoveryTransactionReadyToSubmit :: "app \<Rightarrow> ('e, bool) outcome" where
  "isRecoveryTransactionReadyToSubmit s =
     bindO (unwrap (selected_wallet s)) (\<lambda>w.
     Returns (case find_tx_type walletRecovery (wallet_id w) s of
       None \<Rightarrow> False
     | Some tx \<Rightarrow>
         (case balance_with (tx_accountID tx) s of
            Some (Some balance) \<Rightarrow>
              (case feeEstimate tx of None \<Rightarrow> False | Some f \<Rightarrow> balance \<ge> ta_amount (totalDisplayedToUser f))
          | _ \<Rightarrow> False)))"

subsection \<open>Estimating in several tokens\<close>

record MultiTokenEstimateTransactionRequest =
  mr_safe :: string
  mr_to :: string
  mr_value :: string
  mr_data :: string
  mr_operation :: WalletOperation

definition MultiTokenEstimateTransactionRequest_init ::
    "services \<Rightarrow> string \<Rightarrow> Address \<Rightarrow> string \<Rightarrow> string \<Rightarrow> WalletOperation \<Rightarrow> ('e, MultiTokenEstimateTransactionRequest) outcome" where
  "MultiTokenEstimateTransactionRequest_init S safe to v d op =
     (if BigInt_String (env_bigint (sv_env S)) v = None then Traps
      else if \<not> (d = [] \<or> ethHex (sv_packages S) d \<noteq> []) then Traps
      else Returns \<lparr>mr_safe = safe, mr_to = address_value to, mr_value = v, mr_data = d, mr_operation = op\<rparr>)"

record Estimation =
  me_gasToken :: string
  me_gasPrice :: int
  me_safeTxGas :: int
  me_baseGas :: int
  me_operationalGas :: int

definition Estimation_totalDisplayedToUser :: "Estimation \<Rightarrow> int" where
  "Estimation_totalDisplayedToUser e = me_gasPrice e * (me_baseGas e + me_safeTxGas e + me_operationalGas e)"

text \<open>What the relay service sends: the gas values once, and a price and base gas for each token.\<close>

record MultiTokenAnswer =
  ma_safeTxGas :: "int option"
  ma_operationalGas :: "int option"
  ma_estimations :: "(string \<times> int \<times> int) list"

definition multiTokenEstimateTransaction :: "MultiTokenAnswer \<Rightarrow> ('e, Estimation list) outcome" where
  "multiTokenEstimateTransaction answer =
     mapO (\<lambda>(token, price, base).
       bindO (unwrap (ma_safeTxGas answer)) (\<lambda>g.
       bindO (unwrap (ma_operationalGas answer)) (\<lambda>o1.
       Returns \<lparr>me_gasToken = token, me_gasPrice = price, me_safeTxGas = g, me_baseGas = base, me_operationalGas = o1\<rparr>))) (ma_estimations answer)"

definition builder_build :: "recoverer \<Rightarrow> contract_answers \<Rightarrow> time \<Rightarrow> string \<Rightarrow> deployment \<Rightarrow> (unit, string option \<times> deployment) outcome" where
  "builder_build C A now tx s =
     bindO (unwrap (selected_wallet (dep_app s))) (\<lambda>w.
     bindO (accountID (address_value (fee_token w)) (wallet_id w)) (\<lambda>account_id.
     bindO (pullData C A w s) (\<lambda>(pulled, s1).
     case pulled of
       None \<Rightarrow> Returns (None, s1)
     | Some b \<Rightarrow>
         bindO (buildData (rc_env C) now b (new_recovery_tx tx account_id now w)) (\<lambda>(tx1, b1).
         let (saved, a2) = save_recovery b1 tx1 (dep_app s1)
         in Returns (if saved then Some tx else None, s1\<lparr>dep_app := a2\<rparr>)))))"

text \<open>The fees that are offered, by token; \<open>relay\<close> is the answer of the relay service.\<close>

definition estimateRecoveryTransaction ::
    "recoverer \<Rightarrow> contract_answers \<Rightarrow> (MultiTokenEstimateTransactionRequest \<Rightarrow> (ServiceError, MultiTokenAnswer) outcome) \<Rightarrow> time \<Rightarrow> string \<Rightarrow> deployment \<Rightarrow>
     (unit, (Token \<times> int) list \<times> deployment) outcome" where
  "estimateRecoveryTransaction C A relay now next s =
     (let S = rc_services C
      in bindO (unwrap (selected_wallet (dep_app s))) (\<lambda>w.
         bindO (builder_build C A now next (on_app (drop_recovery_tx (wallet_id w)) s)) (\<lambda>(built, s1).
         case built of
           None \<Rightarrow> Returns ([], s1)
         | Some i \<Rightarrow>
             bindO (unwrap (find_tx i (dep_app s1))) (\<lambda>tx.
             bindO (unwrap (sender tx)) (\<lambda>from. bindO (formatted S from) (\<lambda>safe. bindO (formatted S (ethTo tx)) (\<lambda>to. bindO (unwrap (operation tx)) (\<lambda>op.
             bindO (MultiTokenEstimateTransactionRequest_init S (address_value safe) to (sv_String S (ethValue tx)) (ethData (sv_packages S) tx) op) (\<lambda>request.
             case bindO (relay request) multiTokenEstimateTransaction of
               Traps \<Rightarrow> Traps
             | Throws _ \<Rightarrow> Returns ([], s1)
             | Returns estimations \<Rightarrow>
                 Returns (List.map_filter (\<lambda>e. map_option (\<lambda>t. (t, Estimation_totalDisplayedToUser e)) (token_with_id now (me_gasToken e) (dep_app s1))) estimations, s1)))))))))) "

subsection \<open>Submission and progress\<close>

text \<open>The first half of \<^verbatim>\<open>submitRecoveryTransaction\<close>, up to the stored transaction; the second half moves the wallet. Building the request throws no error.\<close>

definition send_recovery :: "services \<Rightarrow> time \<Rightarrow> Transaction \<Rightarrow> deployment \<Rightarrow> (unit, bool \<times> deployment) outcome" where
  "send_recovery S now tx s =
     bindO (forceTry (submission_request S tx)) (\<lambda>request.
     case sv_submitTransaction S request of
       Traps \<Rightarrow> Traps
     | Throws e \<Rightarrow> Returns (False, post (serviceError e) s)
     | Returns h \<Rightarrow>
         bindO (tx_proceed now now (set_hash h now tx)) (\<lambda>tx1.
         Returns (True, on_app (\<lambda>a. publish_event RecoveryTransactionHashIsKnown (save_tx tx1 a)) s)))"

definition subscribeForTransactionProcessing :: "WalletID \<Rightarrow> deployment \<Rightarrow> ('e, deployment) outcome" where
  "subscribeForTransactionProcessing i s =
     (case wallet_with i (dep_app s) of
        None \<Rightarrow> Returns s
      | Some w \<Rightarrow>
          bindO (unwrap (find_tx_type walletRecovery i (dep_app s))) (\<lambda>tx.
          Returns (if status tx = TS_pending then s\<lparr>awaiting := awaiting s @ [i]\<rparr> else s)))"

definition move_wallet :: "unit transition \<Rightarrow> Wallet \<Rightarrow> deployment \<Rightarrow> (unit, Wallet \<times> deployment) outcome" where
  "move_wallet t w s = bindO (t w (app_world (dep_app s))) (\<lambda>(w1, v). Returns (w1, with_world s v))"

definition submitRecoveryTransaction :: "services \<Rightarrow> time \<Rightarrow> WalletID \<Rightarrow> deployment \<Rightarrow> (unit, deployment) outcome" where
  "submitRecoveryTransaction S now i s =
     (case wallet_with i (dep_app s) of
        None \<Rightarrow> Returns s
      | Some w \<Rightarrow>
          bindO (unwrap (find_tx_type walletRecovery (wallet_id w) (dep_app s))) (\<lambda>tx.
          bindO (send_recovery S now tx s) (\<lambda>(sent, s1).
          if \<not> sent then Returns s1
          else bindO (move_wallet proceed w s1) (\<lambda>(w1, s2).
               subscribeForTransactionProcessing i (on_app (save_wallet w1) s2)))))"

definition cancelRecovery :: "WalletID \<Rightarrow> deployment \<Rightarrow> deployment" where
  "cancelRecovery i s = removeWallet i s"

text \<open>What is read from the contract after a recovery, and the check that the wallet agrees with it.\<close>

definition local_owners :: "Wallet \<Rightarrow> string list" where
  "local_owners w = sort (map (\<lambda>o1. lowercased (address_value (owner_address o1))) (filter (\<lambda>o1. owner_role o1 \<noteq> unknown) (owners w)))"

definition check_owners :: "env \<Rightarrow> contract_answers \<Rightarrow> Address \<Rightarrow> Wallet \<Rightarrow> (ServiceError, unit) outcome" where
  "check_owners V A a w =
     bindO (getOwners (env_packages V) (ca_eth_call A) a) (\<lambda>remote.
     bindO (assertEqual (local_owners w) (sort (map (lowercased \<circ> address_value) remote)) (RecoveryError RS_failedToChangeOwners)) (\<lambda>_.
     bindO (getThreshold (env_packages V) (ca_eth_call A) a) (\<lambda>remoteThreshold.
     assertEqual (confirmationCount w) remoteThreshold (RecoveryError RS_failedToChangeConfirmationCount))))"

definition postProcessing :: "recoverer \<Rightarrow> contract_answers \<Rightarrow> WalletID \<Rightarrow> deployment \<Rightarrow> (unit, deployment) outcome" where
  "postProcessing C A i s =
     (case wallet_with i (dep_app s) of
        None \<Rightarrow> Returns s
      | Some w \<Rightarrow>
          bindO (unwrap (find_tx_type walletRecovery i (dep_app s))) (\<lambda>_.
          bindO (unwrap (address w)) (\<lambda>a.
          case check_owners (rc_env C) A a w of
            Traps \<Rightarrow> Traps
          | Throws e \<Rightarrow>
              bindO (move_wallet cancel w s) (\<lambda>(_, s1). Returns (post e (cancelRecovery i s1)))
          | Returns _ \<Rightarrow>
              bindO (unwrap (Wallet.owner w paperWallet)) (\<lambda>paper.
              bindO (unwrap (Wallet.owner w paperWalletDerived)) (\<lambda>derived.
              bindO (move_wallet proceed w (on_app (\<lambda>x. remove_key (owner_address derived) (remove_key (owner_address paper) x)) s)) (\<lambda>(w1, s1).
                let s2 = on_app (save_wallet (Wallet.removeOwner unknown w1)) s1
                in case notifyWalletCreatedIfNeeded (rc_services C) (wallet_id w1) (dep_app s2) of Traps \<Rightarrow> Traps | _ \<Rightarrow> Returns s2))))))"

definition handleTransactionProgress :: "recoverer \<Rightarrow> contract_answers \<Rightarrow> Transaction \<Rightarrow> WalletID \<Rightarrow> deployment \<Rightarrow> (unit, deployment) outcome" where
  "handleTransactionProgress C A tx i s =
     (case wallet_with i (dep_app s) of
        None \<Rightarrow> Returns s
      | Some w \<Rightarrow>
          if status tx = TS_success then bindO (move_wallet proceed w s) (\<lambda>(_, s1). postProcessing C A i s1)
          else if status tx = TS_failed then
            bindO (move_wallet proceed w s) (\<lambda>(w1, s1).
            bindO (move_wallet cancel w1 s1) (\<lambda>(_, s2). Returns (cancelRecovery i s2)))
          else Returns s)"

text \<open>The handler of \<open>TransactionStatusUpdated\<close>; unsubscribing removes all subscriptions of the service.\<close>

definition transactionStatusUpdated :: "recoverer \<Rightarrow> contract_answers \<Rightarrow> WalletID \<Rightarrow> deployment \<Rightarrow> (unit, deployment) outcome" where
  "transactionStatusUpdated C A i s =
     (case find_tx_type walletRecovery i (dep_app s) of
        None \<Rightarrow> Returns (s\<lparr>awaiting := []\<rparr>)
      | Some tx \<Rightarrow>
          if status tx = TS_pending then Returns s else handleTransactionProgress C A tx i (s\<lparr>awaiting := []\<rparr>))"

definition resume_recovery :: "recoverer \<Rightarrow> contract_answers \<Rightarrow> time \<Rightarrow> WalletID \<Rightarrow> deployment \<Rightarrow> (unit, deployment) outcome" where
  "resume_recovery C A now i s =
     (case (wallet_with i (dep_app s), find_tx_type walletRecovery i (dep_app s)) of
        (Some w, Some tx) \<Rightarrow>
          if \<not> isReadyToUse w \<and> \<not> isRecoveryInProgress w \<and> status tx = TS_signing then submitRecoveryTransaction (rc_services C) now i s
          else if isFinalizingRecovery w \<and> status tx = TS_success then postProcessing C A i s
          else if isRecoveryInProgress w \<and> status tx = TS_pending then subscribeForTransactionProcessing i s
          else if isRecoveryInProgress w \<and> (status tx = TS_success \<or> status tx = TS_failed) then handleTransactionProgress C A tx i s
          else Traps
      | _ \<Rightarrow> Returns s)"

definition isTransactionConnectsAuthenticator :: "env \<Rightarrow> string \<Rightarrow> app \<Rightarrow> (unit, bool) outcome" where
  "isTransactionConnectsAuthenticator V i s =
     (case find_tx i s of
        None \<Rightarrow> Returns False
      | Some tx \<Rightarrow>
          if tx_type tx \<noteq> walletRecovery \<or> operation tx \<noteq> Some OP_delegateCall then Returns False
          else case (recipient tx, tx_data tx) of
            (Some batch, Some d) \<Rightarrow>
              bindO (decodeMultiSendArguments (env_packages V) (env_metadata V) batch d) (\<lambda>decoded.
              case decoded of
                Some [_, t] \<Rightarrow>
                  bindO (decodeAddOwnerArguments (env_packages V) (ms_data t)) (\<lambda>added.
                  if added \<noteq> None then Returns True
                  else bindO (decodeSwapOwnerArguments (env_packages V) (ms_data t)) (\<lambda>swapped. Returns (swapped \<noteq> None)))
              | _ \<Rightarrow> Returns False)
          | _ \<Rightarrow> Returns False)"

subsection \<open>How a recovery ends\<close>

text \<open>The contract has the owners that the wallet has by role, and the number of confirmations of the wallet.\<close>

definition contract_agrees :: "env \<Rightarrow> contract_answers \<Rightarrow> Address \<Rightarrow> Wallet \<Rightarrow> bool" where
  "contract_agrees V A a w \<longleftrightarrow>
     (\<exists>remote. getOwners (env_packages V) (ca_eth_call A) a = Returns remote \<and> getThreshold (env_packages V) (ca_eth_call A) a = Returns (confirmationCount w) \<and>
       mset (map (account (env_packages V)) remote) = mset (map (\<lambda>o1. account (env_packages V) (owner_address o1)) (known_owners w)))"

lemma sort_eq_iff: "sort xs = sort ys \<longleftrightarrow> mset xs = mset ys"
  by (metis mset_sort properties_for_sort sorted_sort)

lemma mset_map_inj:
  assumes "inj_on f (set xs \<union> set ys)"
  shows "mset (map f xs) = mset (map f ys) \<longleftrightarrow> mset xs = mset ys"
proof
  assume "mset (map f xs) = mset (map f ys)"
  then have "image_mset (the_inv_into (set xs \<union> set ys) f) (image_mset f (mset xs)) = image_mset (the_inv_into (set xs \<union> set ys) f) (image_mset f (mset ys))"
    by simp
  moreover have "image_mset (the_inv_into (set xs \<union> set ys) f) (image_mset f (mset zs)) = mset zs" if "set zs \<subseteq> set xs \<union> set ys" for zs
    using that assms by (induction zs) (auto simp: the_inv_into_f_f)
  ultimately show "mset xs = mset ys" by simp
qed simp

lemma same_owners_iff:
  assumes "packages_ok E" "list_all hex_address as" "list_all hex_address bs"
  shows "sort (map (lowercased \<circ> address_value) as) = sort (map (lowercased \<circ> address_value) bs) \<longleftrightarrow> mset (map (account E) as) = mset (map (account E) bs)"
proof -
  let ?l = "lowercased \<circ> address_value"
  have "inj_on (account E \<circ> Address) (set (map ?l as) \<union> set (map ?l bs))"
    using lower_eq_iff [OF assms(1)] account_lower [OF assms(1)] assms(2,3) by (auto simp: inj_on_def list_all_iff lower_def)
  note inj = mset_map_inj [OF this]
  have "map (account E \<circ> Address) (map ?l cs) = map (account E) cs" if "list_all hex_address cs" for cs
    using that account_lower [OF assms(1)] by (auto simp: list_all_iff lower_def)
  from this [OF assms(2)] this [OF assms(3)] show ?thesis using inj unfolding sort_eq_iff by argo
qed

lemma check_owners_iff:
  assumes "packages_ok (env_packages V)" "list_all (\<lambda>o1. hex_address (owner_address o1)) (owners w)"
    and "getOwners (env_packages V) (ca_eth_call A) a \<noteq> Traps" "getThreshold (env_packages V) (ca_eth_call A) a \<noteq> Traps"
    and "\<And>remote. getOwners (env_packages V) (ca_eth_call A) a = Returns remote \<Longrightarrow> list_all hex_address remote"
  shows "if contract_agrees V A a w then check_owners V A a w = Returns () else \<exists>e. check_owners V A a w = Throws e"
proof (cases "getOwners (env_packages V) (ca_eth_call A) a")
  case (Returns remote)
  let ?known = "map owner_address (known_owners w)"
  have "list_all hex_address ?known" using assms(2) by (auto simp: list_all_iff known_owners_def)
  from same_owners_iff [OF assms(1) this assms(5) [OF Returns]]
  have "local_owners w = sort (map (lowercased \<circ> address_value) remote) \<longleftrightarrow>
      mset (map (\<lambda>o1. account (env_packages V) (owner_address o1)) (known_owners w)) = mset (map (account (env_packages V)) remote)"
    by (simp add: local_owners_def known_owners_def comp_def)
  with Returns assms(4) show ?thesis
    by (cases "getThreshold (env_packages V) (ca_eth_call A) a") (auto simp: contract_agrees_def check_owners_def assertEqual_def)
qed (use assms(3) in \<open>auto simp: contract_agrees_def check_owners_def\<close>)


lemma notifyWalletCreatedIfNeeded_works:
  assumes "signing_works S s"
  shows "notifyWalletCreatedIfNeeded S i s \<noteq> Traps"
proof -
  have "sign_message S m a s \<noteq> (Traps :: (ServiceError, _) outcome)" "sign_message S m a s = (Returns None :: (ServiceError, _) outcome) \<Longrightarrow> find_key S a s = None" for m a
    using sign_message_works [OF assms, of m a, where ?'e = ServiceError] by auto
  moreover have "unwrap x = Traps \<longleftrightarrow> x = None" for x by (cases x) simp_all
  moreover have "sv_send S r \<noteq> Traps" for r using assms by (simp add: signing_works_def)
  ultimately show ?thesis
    by (auto simp: notifyWalletCreatedIfNeeded_def Let_def bindO_eq_Traps split: option.splits)
qed

lemma with_world_parts [simp]:
  "app_world (dep_app (with_world s v)) = v" "txRows (dep_app (with_world s v)) = txRows (dep_app s)"
  "app_portfolio (dep_app (with_world s v)) = app_portfolio (dep_app s)" "errorStream (with_world s v) = errorStream s"
  "addressBook (with_world s v) = addressBook s" "monitors (with_world s v) = monitors s" "awaiting (with_world s v) = awaiting s"
  by (simp_all add: with_world_def)

lemma find_id_remove_key [simp]: "find_id j (app_world (remove_key a s)) = find_id j (app_world s)"
  by (simp add: find_id_def remove_key_def)

lemma errorStream_removeWallet [simp]: "errorStream (removeWallet i s) = errorStream s"
  by (simp add: removeWallet_def remove_rows_def Let_def split: option.split)

lemma post_parts [simp]: "dep_app (post e s) = dep_app s" "errorStream (post e s) = errorStream s @ [e]" "awaiting (post e s) = awaiting s"
  by (simp_all add: post_def)

lemma move_proceed:
  "state w = recoveryInProgress \<Longrightarrow> move_wallet proceed w s =
     Returns (w\<lparr>state := recoveryPostProcessing\<rparr>, with_world s (save (w\<lparr>state := recoveryPostProcessing\<rparr>) (app_world (dep_app s))))"
  "state w = recoveryPostProcessing \<Longrightarrow> move_wallet proceed w s =
     Returns (w\<lparr>state := readyToUse\<rparr>, with_world s (publish WalletRecovered (save (w\<lparr>state := readyToUse\<rparr>) (app_world (dep_app s)))))"
  "state w = recoveryDraft \<Longrightarrow> move_wallet proceed w s =
     Returns (w\<lparr>state := recoveryInProgress\<rparr>, with_world s (publish RecoveryStarted (save (w\<lparr>state := recoveryInProgress\<rparr>) (app_world (dep_app s)))))"
  "state w = recoveryPostProcessing \<Longrightarrow> move_wallet cancel w s =
     Returns (w\<lparr>state := recoveryDraft\<rparr>, with_world s (publish WalletRecoveryFailed (save (w\<lparr>state := recoveryDraft\<rparr>) (app_world (dep_app s)))))"
  by (simp_all add: move_wallet_def proceed_def cancel_def state_transition_defs Let_def)

lemma postProcessing_agrees:
  assumes "signing_works (rc_services C) (dep_app s)" "wallet_with i (dep_app s) = Some w" "state w = recoveryPostProcessing" "address w = Some a"
    and "find_tx_type walletRecovery i (dep_app s) = Some tx" "Wallet.owner w paperWallet = Some paper" "Wallet.owner w paperWalletDerived = Some derived"
    and "check_owners (rc_env C) A a w = Returns ()"
  shows "\<exists>s'. postProcessing C A i s = Returns s' \<and> wallet_with i (dep_app s') = Some (w\<lparr>state := readyToUse, owners := known_owners w\<rparr>) \<and>
    WalletRecovered \<in> set (events (app_world (dep_app s'))) \<and>
    set (deviceKeys (app_world (dep_app s'))) = set (deviceKeys (app_world (dep_app s))) - {owner_address paper, owner_address derived} \<and>
    (\<forall>j. j \<noteq> i \<longrightarrow> wallet_with j (dep_app s') = wallet_with j (dep_app s)) \<and> awaiting s' = awaiting s \<and> errorStream s' = errorStream s"
proof -
  have i: "wallet_id w = i" using assms(2) find_row_SomeD by (fastforce simp: wallet_with_rows)
  let ?s1 = "on_app (\<lambda>x. remove_key (owner_address derived) (remove_key (owner_address paper) x)) s" and ?w1 = "w\<lparr>state := readyToUse\<rparr>"
  define s' where "s' = on_app (save_wallet (Wallet.removeOwner unknown ?w1)) (with_world ?s1 (publish WalletRecovered (save ?w1 (app_world (dep_app ?s1)))))"
  have keys: "set (deviceKeys (app_world (dep_app s'))) = set (deviceKeys (app_world (dep_app s))) - {owner_address paper, owner_address derived}"
    by (auto simp: s'_def save_wallet_def save_def publish_def remove_key_def)
  then have n: "notifyWalletCreatedIfNeeded (rc_services C) i (dep_app s') \<noteq> Traps"
    by (intro notifyWalletCreatedIfNeeded_works signing_works_keys [OF assms(1)]) blast
  then have "postProcessing C A i s = Returns s'"
    using assms(2,4-8) i move_proceed(2) [OF assms(3)]
    by (auto simp: postProcessing_def Let_def s'_def split: outcome.split)
  moreover have "wallet_with i (dep_app s') = Some (w\<lparr>state := readyToUse, owners := known_owners w\<rparr>)"
    using i by (simp add: s'_def removeOwner_def remove_with_def known_owners_def)
  moreover have "\<forall>j. j \<noteq> i \<longrightarrow> wallet_with j (dep_app s') = wallet_with j (dep_app s)"
    using i by (simp add: s'_def removeOwner_def wallet_with_def save_wallet_def find_id_save)
  moreover have "WalletRecovered \<in> set (events (app_world (dep_app s')))" by (simp add: s'_def save_wallet_def save_def publish_def)
  moreover have "awaiting s' = awaiting s" "errorStream s' = errorStream s" by (simp_all add: s'_def)
  ultimately show ?thesis using keys by blast
qed

text \<open>A recovery is given up: the wallet becomes a draft again, and is removed.\<close>

lemma given_up:
  assumes "tables_ok (dep_app s)" "wallet_with i (dep_app s) = Some w" "state w = recoveryPostProcessing"
  shows "\<exists>w0 s1 s'. move_wallet cancel w s = Returns (w0, s1) \<and> cancelRecovery i s1 = s' \<and> wallet_with i (dep_app s') = None \<and> transactions_of i (dep_app s') = [] \<and>
    set (deviceKeys (app_world (dep_app s'))) = set (deviceKeys (app_world (dep_app s))) - owner_address ` set (owners w) \<and>
    (\<forall>j. j \<noteq> i \<longrightarrow> wallet_with j (dep_app s') = wallet_with j (dep_app s)) \<and> errorStream s' = errorStream s"
proof -
  have i: "wallet_id w = i" using assms(2) find_row_SomeD by (fastforce simp: wallet_with_rows)
  let ?w0 = "w\<lparr>state := recoveryDraft\<rparr>"
  define s1 where "s1 = with_world s (publish WalletRecoveryFailed (save ?w0 (app_world (dep_app s))))"
  define s' where "s' = removeWallet i s1"
  have w0: "wallet_with i (dep_app s1) = Some ?w0" "\<forall>j. j \<noteq> i \<longrightarrow> wallet_with j (dep_app s1) = wallet_with j (dep_app s)"
    using i by (simp_all add: s1_def wallet_with_def find_id_save)
  have "tables_ok (dep_app s1)" unfolding s1_def using assms(1) by (rule tables_ok_with_world)
  note r = removeWallet_Some [OF w0(1) s'_def]
  have "transactions_of i (dep_app s') = []" using r(5) \<open>tables_ok (dep_app s1)\<close> by (simp add: transactions_of_def tables_ok_def)
  moreover have "set (deviceKeys (app_world (dep_app s'))) = set (deviceKeys (app_world (dep_app s))) - owner_address ` set (owners w)"
    unfolding r(3) by (auto simp: s1_def publish_def save_def)
  moreover have "move_wallet cancel w s = Returns (?w0, s1)" "errorStream s' = errorStream s" using assms(3) by (simp_all add: move_proceed(4) s1_def s'_def)
  ultimately show ?thesis using w0(2) by (auto simp: cancelRecovery_def s'_def wallet_with_removeWallet)
qed

lemma postProcessing_disagrees:
  assumes "tables_ok (dep_app s)" "wallet_with i (dep_app s) = Some w" "state w = recoveryPostProcessing" "address w = Some a"
    and "find_tx_type walletRecovery i (dep_app s) = Some tx" "check_owners (rc_env C) A a w = Throws e"
  shows "\<exists>s'. postProcessing C A i s = Returns s' \<and> wallet_with i (dep_app s') = None \<and> transactions_of i (dep_app s') = [] \<and>
    set (deviceKeys (app_world (dep_app s'))) = set (deviceKeys (app_world (dep_app s))) - owner_address ` set (owners w) \<and>
    (\<forall>j. j \<noteq> i \<longrightarrow> wallet_with j (dep_app s') = wallet_with j (dep_app s)) \<and> errorStream s' = errorStream s @ [e]"
  using given_up [OF assms(1-3)] assms(2,4-6) by (auto simp: postProcessing_def)

text \<open>
  (C11) How a recovery ends. Let the recovery of a wallet be in progress, and its transaction be processed. If it was executed, and the contract now has the owners that the wallet has
  by role and its number of confirmations, then the wallet is stored as ready to use, without the owners of unknown role, the recovery is announced, and of the keys only those of the recovery phrase are removed. In every other case the
  wallet is deleted with its transactions and the keys of all its owners: when the transaction failed, when the contract has other owners, but also when the node only failed to
  answer, although the executed transaction may have made the key of this device an owner; the error is posted.
\<close>

theorem recovery_end:
  assumes "packages_ok (rc_packages C)" "signing_works (rc_services C) (dep_app s)" "tables_ok (dep_app s)" "wallet_with i (dep_app s) = Some w" "state w = recoveryInProgress"
    and "address w = Some a" "find_tx_type walletRecovery i (dep_app s) = Some tx" "Wallet.owner w paperWallet = Some paper" "Wallet.owner w paperWalletDerived = Some derived"
    and "list_all (\<lambda>o1. hex_address (owner_address o1)) (owners w)"
    and "getOwners (rc_packages C) (ca_eth_call A) a \<noteq> Traps" "getThreshold (rc_packages C) (ca_eth_call A) a \<noteq> Traps"
    and "\<And>remote. getOwners (rc_packages C) (ca_eth_call A) a = Returns remote \<Longrightarrow> list_all hex_address remote"
  shows "(status tx = TS_success \<and> contract_agrees (rc_env C) A a w \<longrightarrow> (\<exists>s'. transactionStatusUpdated C A i s = Returns s' \<and>
      wallet_with i (dep_app s') = Some (w\<lparr>state := readyToUse, owners := known_owners w\<rparr>) \<and> WalletRecovered \<in> set (events (app_world (dep_app s'))) \<and>
      set (deviceKeys (app_world (dep_app s'))) = set (deviceKeys (app_world (dep_app s))) - {owner_address paper, owner_address derived} \<and>
      (\<forall>j. j \<noteq> i \<longrightarrow> wallet_with j (dep_app s') = wallet_with j (dep_app s)) \<and> awaiting s' = [] \<and> errorStream s' = errorStream s)) \<and>
    (status tx = TS_failed \<or> status tx = TS_success \<and> \<not> contract_agrees (rc_env C) A a w \<longrightarrow> (\<exists>s'. transactionStatusUpdated C A i s = Returns s' \<and>
      wallet_with i (dep_app s') = None \<and> transactions_of i (dep_app s') = [] \<and>
      set (deviceKeys (app_world (dep_app s'))) = set (deviceKeys (app_world (dep_app s))) - owner_address ` set (owners w) \<and>
      (\<forall>j. j \<noteq> i \<longrightarrow> wallet_with j (dep_app s') = wallet_with j (dep_app s)) \<and>
      (status tx = TS_success \<longrightarrow> (\<exists>e. errorStream s' = errorStream s @ [e]))))"
proof -
  have i: "wallet_id w = i" using assms(4) find_row_SomeD by (fastforce simp: wallet_with_rows)
  let ?s0 = "s\<lparr>awaiting := []\<rparr>" and ?w1 = "w\<lparr>state := recoveryPostProcessing\<rparr>"
  define s1 where "s1 = with_world ?s0 (save ?w1 (app_world (dep_app s)))"
  have p1: "move_wallet proceed w ?s0 = Returns (?w1, s1)" using move_proceed(1) [OF assms(5), of ?s0] by (simp add: s1_def)
  have w1: "wallet_with i (dep_app s1) = Some ?w1" "\<And>j. j \<noteq> i \<Longrightarrow> wallet_with j (dep_app s1) = wallet_with j (dep_app s)"
    using i by (simp_all add: s1_def wallet_with_def find_id_save)
  have ok: "tables_ok (dep_app s1)" using assms(3) by (simp add: s1_def tables_ok_def ids_distinct_save) (simp add: save_def)
  have same: "find_tx_type walletRecovery i (dep_app s1) = Some tx" "deviceKeys (app_world (dep_app s1)) = deviceKeys (app_world (dep_app s))"
      "errorStream s1 = errorStream s" "awaiting s1 = []"
    using assms(7) by (simp_all add: s1_def find_tx_type_def save_def)
  have keys: "signing_works (rc_services C) (dep_app s1)" using signing_works_keys [OF assms(2)] same(2) by simp
  have o: "Wallet.owner ?w1 r = Wallet.owner w r" "known_owners ?w1 = known_owners w" for r by (simp_all add: Wallet.owner_def known_owners_def)
  have chk: "if contract_agrees (rc_env C) A a w then check_owners (rc_env C) A a ?w1 = Returns () else \<exists>e. check_owners (rc_env C) A a ?w1 = Throws e"
    using check_owners_iff [of "rc_env C" ?w1 A a] assms(1,10-13) by (simp add: contract_agrees_def o)
  have run: "transactionStatusUpdated C A i s = postProcessing C A i s1" if "status tx = TS_success"
    using that assms(4,7) p1 by (simp add: transactionStatusUpdated_def handleTransactionProgress_def)
  have bad: "\<exists>s'. transactionStatusUpdated C A i s = Returns s' \<and> wallet_with i (dep_app s') = None \<and> transactions_of i (dep_app s') = [] \<and>
      set (deviceKeys (app_world (dep_app s'))) = set (deviceKeys (app_world (dep_app s))) - owner_address ` set (owners w) \<and>
      (\<forall>j. j \<noteq> i \<longrightarrow> wallet_with j (dep_app s') = wallet_with j (dep_app s))" if "status tx = TS_failed"
  proof -
    have "transactionStatusUpdated C A i s = bindO (move_wallet cancel ?w1 s1) (\<lambda>(_, s2). Returns (cancelRecovery i s2))"
      using that assms(4,7) p1 by (simp add: transactionStatusUpdated_def handleTransactionProgress_def)
    then show ?thesis using given_up [OF ok w1(1)] same(2) w1(2) by auto
  qed
  show ?thesis
  proof (cases "contract_agrees (rc_env C) A a w")
    case True
    then show ?thesis
      using postProcessing_agrees [OF keys w1(1) _ _ same(1), of a paper derived A] chk run bad assms(6,8,9) w1(2) same by (simp add: o)
  next
    case False
    with chk obtain e where "check_owners (rc_env C) A a ?w1 = Throws e" by auto
    then show ?thesis using postProcessing_disagrees [OF ok w1(1) _ _ same(1), of a C A e] False run bad assms(6) w1(2) same by fastforce
  qed
qed

subsection \<open>Submission\<close>

definition recovery_txs :: "WalletID \<Rightarrow> app \<Rightarrow> Transaction list" where
  "recovery_txs i s = filter (\<lambda>t. tx_type t = walletRecovery \<and> of_wallet i (tx_accountID t)) (txRows s)"

lemma find_tx_type_recovery: "find_tx_type walletRecovery i s = (case recovery_txs i s of [] \<Rightarrow> None | t # _ \<Rightarrow> Some t)"
proof -
  have "List.find P xs = (case filter P xs of [] \<Rightarrow> None | x # _ \<Rightarrow> Some x)" for P and xs :: "'a list" by (induction xs) auto
  then show ?thesis by (simp add: find_tx_type_def recovery_txs_def)
qed

lemma recovery_txs_save:
  assumes "recovery_txs i s = [tx]" "tx_id t = tx_id tx" "tx_type t = walletRecovery" "tx_accountID t = tx_accountID tx"
  shows "recovery_txs i (save_tx t s) = [t]"
proof -
  have "of_wallet i (tx_accountID tx)" using assms(1) by (auto simp: recovery_txs_def filter_eq_Cons_iff)
  moreover have "filter (\<lambda>t. tx_type t = walletRecovery \<and> of_wallet i (tx_accountID t)) (filter (\<lambda>r. tx_id r \<noteq> tx_id tx) (txRows s)) = filter (\<lambda>r. tx_id r \<noteq> tx_id tx) [tx]"
    using assms(1) by (simp add: recovery_txs_def filter_filter conj_commute flip: assms(1))
  ultimately show ?thesis using assms(2-4) by (simp add: recovery_txs_def save_tx_def insert_or_replace_def)
qed

text \<open>
  (C23) Submitting a recovery. Let a wallet be drafted for recovery and have one recovery transaction, which is being signed. The request that goes to the relay service describes the structure that
  the contract hashes. An error of the relay service is posted, translated by its status code, and changes nothing else. When the transaction is accepted, the recovery is in progress, the
  transaction is pending under its hash, and the service waits for it. The two are stored one after the other: after the first step the
  accepted transaction is pending while the wallet is still a draft, and a launch in this state removes it with the keys of all its owners.
\<close>

theorem recovery_submission:
  assumes "services_ok S (dep_app s)" "signing_works S (dep_app s)" "tables_ok (dep_app s)" "wallet_with i (dep_app s) = Some w" "state w = recoveryDraft"
    and "recovery_txs i (dep_app s) = [tx]" "status tx = TS_signing"
    and "digest_ok (env_digest (sv_env S) (dep_app s)) tx" "safe_tx (env_digest (sv_env S) (dep_app s)) tx = Some t"
  shows "\<exists>request. request_denotes S request t \<and>
    (case sv_submitTransaction S request of
       Traps \<Rightarrow> submitRecoveryTransaction S now i s = Traps
     | Throws e \<Rightarrow> submitRecoveryTransaction S now i s = Returns (post (serviceError e) s)
     | Returns h \<Rightarrow> \<exists>s1 s' tx'. send_recovery S now tx s = Returns (True, s1) \<and> submitRecoveryTransaction S now i s = Returns s' \<and>
         recovery_txs i (dep_app s1) = [tx'] \<and> recovery_txs i (dep_app s') = [tx'] \<and> status tx' = TS_pending \<and> transactionHash tx' = Some h \<and>
         wallet_with i (dep_app s') = Some (w\<lparr>state := recoveryInProgress\<rparr>) \<and> awaiting s' = awaiting s @ [i] \<and> errorStream s' = errorStream s \<and>
         wallet_with i (dep_app (cleanUpDrafts s1)) = None \<and>
         set (deviceKeys (app_world (dep_app (cleanUpDrafts s1)))) \<inter> owner_address ` set (owners w) = {})"
proof -
  have i: "wallet_id w = i" using assms(4) find_row_SomeD by (fastforce simp: wallet_with_rows)
  have tx: "tx_type tx = walletRecovery" using assms(6) by (auto simp: recovery_txs_def filter_eq_Cons_iff)
  have found: "find_tx_type walletRecovery i (dep_app s) = Some tx" using assms(6) by (simp add: find_tx_type_recovery)
  obtain request where r: "submission_request S tx = Returns request" "request_denotes S request t"
    using submission_request_works [OF assms(1,2,8,9)] by blast
  have run: "submitRecoveryTransaction S now i s = bindO (send_recovery S now tx s) (\<lambda>(sent, s1).
      if \<not> sent then Returns s1 else bindO (move_wallet proceed w s1) (\<lambda>(w1, s2). subscribeForTransactionProcessing i (on_app (save_wallet w1) s2)))"
    using assms(4) i found by (simp add: submitRecoveryTransaction_def)
  show ?thesis
  proof (cases "sv_submitTransaction S request")
    case (Returns h)
    let ?w1 = "w\<lparr>state := recoveryInProgress\<rparr>"
    define tx' where "tx' = timestampUpdated now (timestampSubmitted now (change_status TS_pending (set_hash h now tx)))"
    define s1 where "s1 = on_app (\<lambda>a. publish_event RecoveryTransactionHashIsKnown (save_tx tx' a)) s"
    define s2 where "s2 = on_app (save_wallet ?w1) (with_world s1 (publish RecoveryStarted (save ?w1 (app_world (dep_app s1)))))"
    have t: "tx_id tx' = tx_id tx" "tx_type tx' = walletRecovery" "tx_accountID tx' = tx_accountID tx" "status tx' = TS_pending" "transactionHash tx' = Some h"
      using tx by (simp_all add: tx'_def timestamp_defs change_status_def set_hash_def)
    have send: "send_recovery S now tx s = Returns (True, s1)"
      using r(1) Returns assms(7) by (simp add: send_recovery_def tx_proceed_def Signing_proceed_def s1_def tx'_def set_hash_def timestamp_defs assertNotNil_def)
    have rows1: "recovery_txs i (dep_app s1) = [tx']"
      using recovery_txs_save [OF assms(6) t(1-3)] by (simp add: s1_def recovery_txs_def publish_event_def)
    then have rows2: "recovery_txs i (dep_app s2) = [tx']" by (simp add: s2_def recovery_txs_def save_wallet_def)
    have w1: "wallet_with i (dep_app s1) = Some w" "wallet_with i (dep_app s2) = Some ?w1"
      using assms(4) i by (simp_all add: s1_def s2_def save_tx_def save_wallet_def wallet_with_def publish_event_def find_id_save)
    have "subscribeForTransactionProcessing i s2 = Returns (s2\<lparr>awaiting := awaiting s2 @ [i]\<rparr>)"
      using w1(2) rows2 t(4) by (simp add: subscribeForTransactionProcessing_def find_tx_type_recovery)
    with run send have "submitRecoveryTransaction S now i s = Returns (s2\<lparr>awaiting := awaiting s2 @ [i]\<rparr>)"
      using move_proceed(3) [OF assms(5), of s1] by (simp add: s2_def)
    moreover have "tables_ok (dep_app s1)" using assms(3) by (simp add: s1_def tables_ok_def publish_event_def save_tx_def keys_distinct_insert) (simp add: publish_def)
    moreover have "awaiting s2 = awaiting s" "errorStream s2 = errorStream s" by (simp_all add: s1_def s2_def)
    ultimately show ?thesis using Returns send rows1 rows2 w1 t(4,5) draft_removed [of s1 i w] assms(5) r(2) by (intro exI [of _ request]) auto
  qed (use run r in \<open>auto simp: send_recovery_def intro!: exI [of _ request]\<close>)
qed

subsection \<open>The recovery transaction\<close>

lemma create_missing_accounts_frame:
  "create_missing_accounts ts i s = (Returns s' :: ('e, _) outcome) \<Longrightarrow> accounts_only s s'"
proof -
  have fold: "foldO (\<lambda>t s. bindO (accountID t i) (\<lambda>a. Returns (save_account (a, None) s))) xs s = (Returns s' :: ('e, _) outcome) \<Longrightarrow> accounts_only s s'" for xs s
    by (induction xs arbitrary: s) (auto intro: accounts_only_trans [OF accounts_only_save])
  assume "create_missing_accounts ts i s = (Returns s' :: ('e, _) outcome)"
  then show "accounts_only s s'" using fold by (auto simp: create_missing_accounts_def split: if_splits)
qed

lemma updateAllAccountsBalances_frame:
  assumes "updateAllAccountsBalances V s = (Returns (c, s') :: ('e, _) outcome)"
  shows "accounts_only s s'"
proof -
  have fold: "foldO (create_missing_accounts ts) xs s = (Returns s1 :: ('e, _) outcome) \<Longrightarrow> accounts_only s s1" for ts xs s s1
    by (induction xs arbitrary: s) (auto dest: create_missing_accounts_frame intro: accounts_only_trans)
  have "accounts_only s s2" if "updateAccountsBalances V is s = (Returns (c, s2) :: ('e, _) outcome)" for "is" s s2
    using that by (rule updateAccountsBalances_spec) (simp add: balances_after_def)
  with fold assms show ?thesis
    by (auto simp: updateAllAccountsBalances_def split: option.splits if_splits) (blast intro: accounts_only_trans accounts_only_publish)+
qed

lemma pullData_Some:
  assumes "pullData C A w s = Returns (Some b, s1)" "address w = Some a" "remote_wallet (rc_env C) A a w = Returns w1"
  shows "builder_of (rc_packages C) w1 = (Returns b :: (unit, _) outcome)" "accounts_only (dep_app s) (dep_app s1)"
  using assms updateAllAccountsBalances_frame by (auto simp: pullData_def Let_def split: if_splits)

text \<open>The payload of a transaction: one call to the safe itself, or several that are executed in a batch.\<close>

definition carries :: "env \<Rightarrow> Address \<Rightarrow> data list \<Rightarrow> Transaction \<Rightarrow> bool" where
  "carries V a calls tx \<longleftrightarrow>
     (\<exists>d. calls = [d] \<and> operation tx = Some OP_call \<and> recipient tx = Some a \<and> tx_data tx = Some d) \<or>
     (2 \<le> length calls \<and> operation tx = Some OP_delegateCall \<and> tx_data tx = Some (multiSendData V a calls) \<and>
      (\<exists>batch. recipient tx = Some batch \<and>
        encryption_address_from V (address_value (proxy_address (env_metadata V) Address_zero)) = (Returns (Some batch) :: (unit, _) outcome)))"

lemma buildTransactionData_carries:
  assumes "buildTransactionData V now w calls tx = (Returns tx1 :: (unit, _) outcome)" "address w = Some a" "calls \<noteq> []" "[] \<notin> set calls"
  shows "carries V a calls tx1 \<and> tx_id tx1 = tx_id tx \<and> tx_type tx1 = tx_type tx \<and> tx_accountID tx1 = tx_accountID tx \<and> sender tx1 = sender tx \<and>
    status tx1 = status tx \<and> signatures tx1 = signatures tx \<and> amount tx1 = amount tx"
proof -
  have "filter (\<lambda>d. d \<noteq> []) calls = calls" using assms(4) by (auto simp: filter_id_conv)
  with assms show ?thesis
    by (cases calls; cases "tl calls") (auto simp: buildTransactionData_def carries_def edit_defs timestamp_defs unwrap_eq_Returns)
qed


lemma calculateFees_keeps:
  assumes "calculateFees now r s tx = (Returns tx1 :: ('e, _) outcome)"
  shows "carries V a calls tx1 = carries V a calls tx" "tx_id tx1 = tx_id tx" "tx_type tx1 = tx_type tx" "tx_accountID tx1 = tx_accountID tx"
    "sender tx1 = sender tx" "status tx1 = status tx" "signatures tx1 = signatures tx"
  using assms by (auto simp: calculateFees_def Let_def carries_def edit_defs timestamp_defs)

lemma seal_draft:
  assumes "seal C now s tx = (Returns tx1 :: ('e, _) outcome)" "status tx = TS_draft"
  shows "\<exists>h. hash_of (env_digest (rc_env C) s) tx1 = (Returns h :: ('e, _) outcome) \<and> tx_hash tx1 = Some h \<and> status tx1 = TS_signing \<and> carries V a calls tx1 = carries V a calls tx \<and>
    tx_id tx1 = tx_id tx \<and> tx_type tx1 = tx_type tx \<and> tx_accountID tx1 = tx_accountID tx \<and> sender tx1 = sender tx \<and> signatures tx1 = signatures tx"
proof -
  from assms obtain h where h: "hash_of (env_digest (rc_env C) s) tx = (Returns h :: ('e, _) outcome)"
    "tx1 = timestampUpdated now (change_status TS_signing (change_hash (Some h) now tx))"
    by (auto simp: seal_def tx_proceed_def Draft_proceed_def edit_defs timestamp_defs assertNotNil_forced split: if_splits)
  moreover have "hash_of (env_digest (rc_env C) s) tx1 = (hash_of (env_digest (rc_env C) s) tx :: ('e, _) outcome)"
    by (rule hash_of_env_cong) (simp_all add: h(2) edit_defs timestamp_defs change_status_def)
  ultimately show ?thesis by (simp add: carries_def edit_defs timestamp_defs change_status_def)
qed

text \<open>The signatures of the keys of \<open>signers\<close> over the digest \<open>h\<close>.\<close>

definition signed_over :: "recoverer \<Rightarrow> data \<Rightarrow> Address list \<Rightarrow> Transaction \<Rightarrow> bool" where
  "signed_over C h signers tx \<longleftrightarrow> map sig_address (signatures tx) = signers \<and>
     list_all (\<lambda>sg. env_sign (rc_env C) h (leftPadded (sv_privateKey (rc_services C) (sig_address sg)) 32) = Some (sig_data sg)) (signatures tx)"

lemma sign_with_signs:
  assumes "sign_with C now a (sv_privateKey (rc_services C) a) s tx = (Returns tx1 :: ('e, _) outcome)" "signed_over C h signers tx" "a \<notin> set signers"
    and "hash_of (env_digest (rc_env C) s) tx = (Returns h :: ('e, _) outcome)"
  shows "signed_over C h (signers @ [a]) tx1 \<and> hash_of (env_digest (rc_env C) s) tx1 = (Returns h :: ('e, _) outcome) \<and> tx_hash tx1 = tx_hash tx \<and>
    status tx1 = status tx \<and> carries V x calls tx1 = carries V x calls tx \<and>
    tx_id tx1 = tx_id tx \<and> tx_type tx1 = tx_type tx \<and> tx_accountID tx1 = tx_accountID tx \<and> sender tx1 = sender tx"
proof -
  from assms(1,4) obtain d where d: "env_sign (rc_env C) h (leftPadded (sv_privateKey (rc_services C) a) 32) = Some d"
    "tx1 = add_signature \<lparr>sig_address = a, sig_data = d\<rparr> now tx"
    by (auto simp: sign_with_def sign_transaction_def rawSignature_def unwrap_eq_Returns)
  have "\<lparr>sig_address = a, sig_data = d\<rparr> \<notin> set (signatures tx)" using assms(2,3) by (force simp: signed_over_def)
  then have tx1: "tx1 = timestampUpdated now (tx\<lparr>signatures := signatures tx @ [\<lparr>sig_address = a, sig_data = d\<rparr>]\<rparr>)" using d(2) by (simp add: add_signature_def)
  moreover have "hash_of (env_digest (rc_env C) s) tx1 = (hash_of (env_digest (rc_env C) s) tx :: ('e, _) outcome)"
    by (rule hash_of_env_cong) (simp_all add: tx1 timestamp_defs)
  ultimately show ?thesis using assms(2,4) d(1) by (simp add: signed_over_def carries_def timestamp_defs)
qed

lemma hash_of_world_cong:
  assumes "\<And>i. map_option wallet_masterCopyAddress (wallet_with i s) = map_option wallet_masterCopyAddress (wallet_with i s')"
  shows "hash_of (env_digest V s) tx = (hash_of (env_digest V s') tx :: ('e, _) outcome)"
proof -
  have "hash_of_masterCopy f d (find_id i (app_world s)) = hash_of_masterCopy f d (find_id i (app_world s'))" for f d i
    using assms [of i] unfolding wallet_with_def
    by (cases "find_id i (app_world s)"; cases "find_id i (app_world s')") (auto simp: hash_of_masterCopy_def)
  then show ?thesis
    by (simp add: hash_of_def hashData_def domainData_def valueData_def tx_txTypeHash_def tx_domainSeparatorTypeHash_def env_digest_def cong: outcome.case_cong)
qed

lemma sign_recovery_signs:
  assumes "sign_recovery C now b s tx = (Returns tx1 :: ('e, _) outcome)" "Wallet.owner (bd_wallet b) paperWallet = Some paper"
    "Wallet.owner (bd_wallet b) paperWalletDerived = Some derived" "owner_address paper \<noteq> owner_address derived"
    "{owner_address paper, owner_address derived} \<subseteq> set (deviceKeys (app_world s))" "signatures tx = []"
    and "hash_of (env_digest (rc_env C) s) tx = (Returns h :: ('e, _) outcome)"
  shows "signed_over C h (if confirmations (bd_oldScheme b) = 2 then [owner_address paper, owner_address derived] else [owner_address paper]) tx1 \<and>
    hash_of (env_digest (rc_env C) s) tx1 = (Returns h :: ('e, _) outcome) \<and> tx_hash tx1 = tx_hash tx \<and> status tx1 = status tx \<and> carries V x calls tx1 = carries V x calls tx \<and>
    tx_id tx1 = tx_id tx \<and> tx_type tx1 = tx_type tx \<and> tx_accountID tx1 = tx_accountID tx \<and> sender tx1 = sender tx"
proof -
  let ?S = "rc_services C" and ?p = "owner_address paper" and ?q = "owner_address derived"
  have keys: "find_key ?S ?p s = Some (sv_privateKey ?S ?p)" "find_key ?S ?q s = Some (sv_privateKey ?S ?q)" using assms(5) by (simp_all add: find_key_def)
  have start: "signed_over C h [] tx" using assms(6) by (simp add: signed_over_def)
  from assms(1,2) keys(1) obtain tx0 where tx0: "sign_with C now ?p (sv_privateKey ?S ?p) s tx = (Returns tx0 :: ('e, _) outcome)"
    and rest: "tx1 = tx0 \<and> confirmations (bd_oldScheme b) \<noteq> 2 \<or>
      confirmations (bd_oldScheme b) = 2 \<and> sign_with C now ?q (sv_privateKey ?S ?q) s tx0 = (Returns tx1 :: ('e, _) outcome)"
    using assms(3) keys(2) by (auto simp: sign_recovery_def split: if_splits)
  note one = sign_with_signs [OF tx0 start _ assms(7), of V x calls]
  show ?thesis using rest
  proof
    assume "confirmations (bd_oldScheme b) = 2 \<and> sign_with C now ?q (sv_privateKey ?S ?q) s tx0 = (Returns tx1 :: ('e, _) outcome)"
    then show ?thesis using one sign_with_signs [of C now ?q s tx0 tx1 h "[?p]" V x calls] assms(4) by auto
  qed (use one in auto)
qed

text \<open>A run of the builder that stores its transaction has passed every step.\<close>

lemma builder_main_saves:
  assumes "builder_main C A now t s = Returns s'" "selected_wallet (dep_app s) = Some w" "address w = Some a" "remote_wallet (rc_env C) A a w = Returns w1"
    and "find_tx t (dep_app s) = None" "find_tx t (dep_app s') = Some tx"
  obtains account_id b s1 tx1 b1 response tx2 tx3 tx4 where "pullData C A w s = Returns (Some b, s1)"
    "buildData (rc_env C) now b (new_recovery_tx t account_id now w) = (Returns (tx1, b1) :: (unit, _) outcome)"
    "calculateFees now response (dep_app s1) tx1 = (Returns tx2 :: (unit, _) outcome)" "seal C now (dep_app s1) tx2 = (Returns tx3 :: (unit, _) outcome)"
    "sign_recovery C now b1 (dep_app s1) tx3 = (Returns tx4 :: (unit, _) outcome)"
    "dep_app s' = publish_event WalletBecameReadyForRecovery (save_tx tx4 (save_wallet (bd_wallet b1) (dep_app s1)))"
proof -
  from assms(1,2) obtain account_id pulled s1 where pull: "pullData C A w s = Returns (pulled, s1)"
    and run: "(case pulled of
       None \<Rightarrow> Returns s1
     | Some b \<Rightarrow>
         if \<not> isSupportedSafeOwners b then Returns (post (RecoveryError (RS_unsupportedWalletConfiguration (unsupported_owners b))) s1)
         else if \<not> isSupportedScheme b then Returns (post (RecoveryError (RS_unsupportedWalletConfiguration (unsupported_old_scheme b))) s1)
         else bindO (buildData (rc_env C) now b (new_recovery_tx t account_id now w)) (\<lambda>(tx1, b1).
              case recovery_estimate C tx1 of
                Traps \<Rightarrow> Traps
              | Throws e \<Rightarrow> Returns (post (serviceError e) s1)
              | Returns response \<Rightarrow>
                  bindO (calculateFees now response (dep_app s1) tx1) (\<lambda>tx2.
                  bindO (seal C now (dep_app s1) tx2) (\<lambda>tx3.
                  bindO (sign_recovery C now b1 (dep_app s1) tx3) (\<lambda>tx4.
                  let (saved, a2) = save_recovery b1 tx4 (dep_app s1)
                  in Returns (s1\<lparr>dep_app := (if saved then publish_event WalletBecameReadyForRecovery a2 else a2)\<rparr>)))))) = (Returns s' :: (unit, _) outcome)"
    unfolding builder_main_def by auto
  have none: "find_tx t (dep_app s1) = None"
    using pull assms(3-5) updateAllAccountsBalances_frame by (fastforce simp: pullData_def find_tx_def accounts_only_def Let_def split: if_splits)
  with run assms(6) obtain b where b: "pulled = Some b" "isSupportedSafeOwners b" "isSupportedScheme b" by (auto split: option.splits if_splits)
  with run obtain tx1 b1 where d: "buildData (rc_env C) now b (new_recovery_tx t account_id now w) = (Returns (tx1, b1) :: (unit, _) outcome)" by auto
  with run none assms(6) b obtain response where "recovery_estimate C tx1 = Returns response" by (auto split: outcome.splits)
  with run b d obtain tx2 tx3 tx4 where r: "calculateFees now response (dep_app s1) tx1 = (Returns tx2 :: (unit, _) outcome)" "seal C now (dep_app s1) tx2 = (Returns tx3 :: (unit, _) outcome)"
    "sign_recovery C now b1 (dep_app s1) tx3 = (Returns tx4 :: (unit, _) outcome)"
    "s' = s1\<lparr>dep_app := (if fst (save_recovery b1 tx4 (dep_app s1)) then publish_event WalletBecameReadyForRecovery (snd (save_recovery b1 tx4 (dep_app s1))) else snd (save_recovery b1 tx4 (dep_app s1)))\<rparr>"
    by (auto simp: split_def Let_def)
  then have "dep_app s' = publish_event WalletBecameReadyForRecovery (save_tx tx4 (save_wallet (bd_wallet b1) (dep_app s1)))"
    using none assms(6) by (auto simp: save_recovery_def split: if_splits)
  with that pull b(1) d r show thesis by blast
qed

lemma remote_wallet_keeps:
  assumes "remote_wallet V A a w = Returns w1"
  shows "address w1 = address w" "wallet_id w1 = wallet_id w" "wallet_masterCopyAddress w1 = wallet_masterCopyAddress w"
proof -
  have "address (add_unknown_owners os v) = address v \<and> wallet_id (add_unknown_owners os v) = wallet_id v \<and>
      wallet_masterCopyAddress (add_unknown_owners os v) = wallet_masterCopyAddress v" for os v
    unfolding add_unknown_owners_def by (induction os arbitrary: v) (simp_all add: Wallet.addOwner_def)
  then show "address w1 = address w" "wallet_id w1 = wallet_id w" "wallet_masterCopyAddress w1 = wallet_masterCopyAddress w"
    using assms by (auto simp: remote_wallet_def changeConfirmationCount_def removeOwner_def)
qed

lemma new_recovery_tx_parts:
  "tx_id (new_recovery_tx t i now w) = t" "tx_type (new_recovery_tx t i now w) = walletRecovery" "sender (new_recovery_tx t i now w) = address w"
  "status (new_recovery_tx t i now w) = TS_draft" "signatures (new_recovery_tx t i now w) = []"
  by (simp_all add: new_recovery_tx_def Transaction_init_def edit_defs timestamp_defs change_status_def)

lemma wallet_with_selected: "selected_wallet s = Some w \<Longrightarrow> wallet_with (wallet_id w) s = Some w"
  using find_row_SomeD by (fastforce simp: selected_wallet_def wallet_with_rows split: option.splits)

text \<open>What the builder makes of the calls \<open>ds\<close>: a signed transaction that carries them.\<close>

lemma signed_recovery_tx:
  assumes "buildTransactionData (rc_env C) now (bd_wallet b) ds (new_recovery_tx t account_id now w) = (Returns tx1 :: (unit, _) outcome)"
    and "calculateFees now response s tx1 = (Returns tx2 :: (unit, _) outcome)" "seal C now s tx2 = (Returns tx3 :: (unit, _) outcome)"
      "sign_recovery C now b s tx3 = (Returns tx4 :: (unit, _) outcome)"
    and "address w = Some a" "address (bd_wallet b) = Some a" "ds \<noteq> []" "[] \<notin> set ds"
    and "Wallet.owner (bd_wallet b) paperWallet = Some paper" "Wallet.owner (bd_wallet b) paperWalletDerived = Some derived"
      "owner_address paper \<noteq> owner_address derived" "{owner_address paper, owner_address derived} \<subseteq> set (deviceKeys (app_world s))"
  shows "\<exists>h. signed_over C h (if confirmations (bd_oldScheme b) = 2 then [owner_address paper, owner_address derived] else [owner_address paper]) tx4 \<and>
    hash_of (env_digest (rc_env C) s) tx4 = (Returns h :: (unit, _) outcome) \<and> tx_hash tx4 = Some h \<and> status tx4 = TS_signing \<and>
    carries (rc_env C) a ds tx4 \<and> tx_id tx4 = t \<and> tx_type tx4 = walletRecovery \<and> sender tx4 = Some a"
proof -
  note t1 = buildTransactionData_carries [OF assms(1,6-8)]
  note t2 = calculateFees_keeps [OF assms(2)]
  have draft2: "status tx2 = TS_draft" using t1 t2(6) by (simp add: new_recovery_tx_parts)
  obtain h where t3: "hash_of (env_digest (rc_env C) s) tx3 = (Returns h :: (unit, _) outcome)" "tx_hash tx3 = Some h" "status tx3 = TS_signing"
      "carries (rc_env C) a ds tx3" "tx_id tx3 = t" "tx_type tx3 = walletRecovery" "sender tx3 = Some a" "signatures tx3 = []"
    using seal_draft [OF assms(3) draft2, of "rc_env C" a ds] t1 t2 assms(5) by (auto simp: new_recovery_tx_parts)
  show ?thesis using sign_recovery_signs [OF assms(4,9-12) t3(8,1), of "rc_env C" a ds] t3(2-7) by auto
qed

lemma stored_recovery_tx:
  assumes "packages_ok (rc_packages C)" "owner_manager (rc_packages C) exec" "selected_wallet (dep_app s) = Some w" "address w = Some a"
    and "remote_wallet (rc_env C) A a w = Returns w1" "recoverable (rc_packages C) remote w1"
    and "oldWalletScheme w1 \<in> set supportedSchemes" "newWalletScheme w1 \<in> set supportedSchemes"
    and "\<forall>role \<in> {paperWallet, paperWalletDerived}. pred_option (\<lambda>o1. owner_address o1 \<in> set (deviceKeys (app_world (dep_app s)))) (Wallet.owner w1 role)"
    and "find_tx t (dep_app s) = None" "createRecoveryTransaction C A now t s = Returns s'" "find_tx t (dep_app s') = Some tx"
  defines "E \<equiv> rc_packages C"
  shows "\<exists>calls os h signers w'. tx_type tx = walletRecovery \<and> status tx = TS_signing \<and> sender tx = Some a \<and>
    tx_hash tx = Some h \<and> hash_of (env_digest (rc_env C) (dep_app s')) tx = (Returns h :: (unit, _) outcome) \<and>
    signed_over C h signers tx \<and> distinct (map (account E) signers) \<and> int (length signers) = confirmationCount w1 \<and> account E ` set signers \<subseteq> account E ` set remote \<and>
    set signers \<subseteq> owner_address ` {o1 \<in> set (owners w1). owner_role o1 \<in> {paperWallet, paperWalletDerived}} \<and>
    carries (rc_env C) a calls tx \<and> exec_all exec calls (map (account E) remote, confirmationCount w1) = Some (os, confirmationCount w') \<and>
    wallet_with (wallet_id w) (dep_app s') = Some w' \<and> w' = w1\<lparr>confirmationCount := confirmations (newWalletScheme w1)\<rparr> \<and>
    set os = (\<lambda>o1. account E (owner_address o1)) ` set (known_owners w')"
proof -
  let ?s0 = "on_app (drop_recovery_tx (wallet_id w)) s"
  have s0: "selected_wallet (dep_app ?s0) = Some w" "app_world (dep_app ?s0) = app_world (dep_app s)" "find_tx t (dep_app ?s0) = None"
    using assms(3,10) by (auto simp: drop_recovery_tx_def selected_wallet_def wallet_with_def remove_tx_def find_tx_def find_row_None_iff delete_row_def split: option.splits)
  have "builder_main C A now t ?s0 = Returns s'" using assms(3,11) by (simp add: createRecoveryTransaction_def)
  then obtain account_id b s1 tx1 b1 response tx2 tx3 tx4 where pull: "pullData C A w ?s0 = Returns (Some b, s1)"
    and build: "buildData (rc_env C) now b (new_recovery_tx t account_id now w) = (Returns (tx1, b1) :: (unit, _) outcome)"
    and steps: "calculateFees now response (dep_app s1) tx1 = (Returns tx2 :: (unit, _) outcome)" "seal C now (dep_app s1) tx2 = (Returns tx3 :: (unit, _) outcome)"
      "sign_recovery C now b1 (dep_app s1) tx3 = (Returns tx4 :: (unit, _) outcome)"
    and s': "dep_app s' = publish_event WalletBecameReadyForRecovery (save_tx tx4 (save_wallet (bd_wallet b1) (dep_app s1)))"
    using builder_main_saves [OF _ s0(1) assms(4,5) s0(3) assms(12)] by metis
  note b = pullData_Some [OF pull assms(4,5)]
  obtain ds os where calls: "owner_calls E b = (Returns (ds, b1) :: (unit, _) outcome)" "[] \<notin> set ds" "length ds \<in> {1, 2}" "bd_oldScheme b1 = oldWalletScheme w1"
    "exec_all exec ds (map (account E) remote, confirmationCount w1) = Some (os, confirmations (newWalletScheme w1))"
    "set os = (\<lambda>o1. account E (owner_address o1)) ` set (known_owners w1)" "bd_wallet b1 = w1\<lparr>confirmationCount := confirmations (newWalletScheme w1)\<rparr>"
    using recovery_calls [OF assms(1,2,6-8), where ?'e = unit] b(1) build unfolding E_def by (auto simp: buildData_def)
  obtain device paper derived where o: "Wallet.owner w1 thisDevice = Some device" "Wallet.owner w1 paperWallet = Some paper" "Wallet.owner w1 paperWalletDerived = Some derived"
    "{account E (owner_address paper), account E (owner_address derived)} \<subseteq> account E ` set remote" "account E (owner_address paper) \<noteq> account E (owner_address derived)"
    using assms(6) unfolding recoverable_def E_def by blast
  note keeps = remote_wallet_keeps [OF assms(5)]
  have adr: "address (bd_wallet b1) = Some a" and ds: "ds \<noteq> []" using calls(3,7) keeps(1) assms(4) by auto
  have build1: "buildTransactionData (rc_env C) now (bd_wallet b1) ds (new_recovery_tx t account_id now w) = (Returns tx1 :: (unit, _) outcome)"
    using build calls(1) by (auto simp: buildData_def E_def)
  let ?signers = "if confirmations (bd_oldScheme b1) = 2 then [owner_address paper, owner_address derived] else [owner_address paper]"
  have keys: "{owner_address paper, owner_address derived} \<subseteq> set (deviceKeys (app_world (dep_app s1)))" "owner_address paper \<noteq> owner_address derived"
    "Wallet.owner (bd_wallet b1) paperWallet = Some paper" "Wallet.owner (bd_wallet b1) paperWalletDerived = Some derived"
    using assms(9) b(2) s0(2) o(2,3,5) calls(7) by (auto simp: accounts_only_def Wallet.owner_def)
  obtain h where t4: "signed_over C h ?signers tx4" "hash_of (env_digest (rc_env C) (dep_app s1)) tx4 = (Returns h :: (unit, _) outcome)" "tx_hash tx4 = Some h"
      "status tx4 = TS_signing" "carries (rc_env C) a ds tx4" "tx_id tx4 = t" "tx_type tx4 = walletRecovery" "sender tx4 = Some a"
    using signed_recovery_tx [OF build1 steps assms(4) adr ds calls(2) keys(3,4,2,1)] by blast
  have tx: "tx = tx4" using assms(12) t4(6) find_tx_save [of t tx4] by (simp add: s' find_tx_def publish_event_def)
  have stored: "wallet_with i (dep_app s') = (if i = wallet_id w then Some (bd_wallet b1) else wallet_with i (dep_app s1))" for i
    using calls(7) keeps(2) by (simp add: s' wallet_with_def save_tx_def save_wallet_def publish_event_def find_id_save)
  have "wallet_with (wallet_id w) (dep_app s1) = Some w"
    using accounts_only_wallets [OF b(2)] wallet_with_selected [OF s0(1)] by simp
  then have "hash_of (env_digest (rc_env C) (dep_app s')) tx = (Returns h :: (unit, _) outcome)"
    using t4(2) calls(7) keeps(3) stored tx by (subst hash_of_world_cong [of _ "dep_app s1"]) auto
  moreover have "int (length ?signers) = confirmationCount w1" using calls(4) assms(7) by (auto simp: supportedSchemes_def oldWalletScheme_def withExtension_def withoutExtension_def)
  moreover have "distinct (map (account E) ?signers)" "account E ` set ?signers \<subseteq> account E ` set remote" using o(4,5) by auto
  moreover have "set ?signers \<subseteq> owner_address ` {o1 \<in> set (owners w1). owner_role o1 \<in> {paperWallet, paperWalletDerived}}"
    using owner_known [OF o(2)] owner_known [OF o(3)] by (auto simp: known_owners_def)
  moreover have "confirmationCount (bd_wallet b1) = confirmations (newWalletScheme w1)" "known_owners (bd_wallet b1) = known_owners w1" using calls(7) by (simp_all add: known_owners_def)
  ultimately show ?thesis using t4 calls(5-7) stored [of "wallet_id w"] tx
    by (intro exI [of _ ds] exI [of _ os] exI [of _ h] exI [of _ ?signers] exI [of _ "bd_wallet b1"]) simp
qed

subsection \<open>The builder reaches its end\<close>

lemma ethHex_toHexString: "packages_ok E \<Longrightarrow> ethHex E (''0x'' @ toHexString E d) = d"
  using ethHex_hex_of_bytes [of E d] packages_okD(2) [of E] by simp

text \<open>A transaction whose estimate can be asked for: the parts that the builder sets before it.\<close>

definition estimable :: "Transaction \<Rightarrow> bool" where
  "estimable tx \<longleftrightarrow> status tx = TS_draft \<and> pred_option hex_address (sender tx) \<and> sender tx \<noteq> None \<and> pred_option hex_address (recipient tx) \<and> recipient tx \<noteq> None \<and>
     amount tx = Some (ether 0) \<and> operation tx \<noteq> None \<and> tx_data tx \<noteq> Some []"

lemma estimable_call:
  assumes "estimable tx"
  shows "hex_address (ethTo tx)" "ethValue tx = 0"
  using assms by (auto simp: estimable_def ethTo_def ethValue_def isERC20Transfer_def ether_def)

lemma buildTransactionData_estimable:
  assumes "packages_ok (env_packages V)" "eip55_ok V" "hex_address (proxy_address (env_metadata V) Address_zero)"
    and "address w = Some a" "hex_address a" "calls \<noteq> []" "[] \<notin> set calls" "address v = Some a"
  shows "\<exists>tx1. buildTransactionData V now v calls (new_recovery_tx t i now w) = (Returns tx1 :: ('e, _) outcome) \<and> estimable tx1 \<and> tx_accountID tx1 = i"
proof -
  let ?tx = "new_recovery_tx t i now w"
  have start: "status ?tx = TS_draft" "sender ?tx = Some a" "amount ?tx = Some (ether 0)" "tx_accountID ?tx = i"
    using assms(4) by (simp_all add: new_recovery_tx_def Transaction_init_def edit_defs timestamp_defs change_status_def)
  have f: "filter (\<lambda>d. d \<noteq> []) calls = calls" using assms(7) by (auto simp: filter_id_conv)
  show ?thesis
  proof (cases "tl calls")
    case Nil
    with assms(6) obtain d where d: "calls = [d]" by (cases calls) auto
    then show ?thesis using start f assms(5,7,8) by (auto simp: buildTransactionData_def estimable_def edit_defs timestamp_defs)
  next
    case (Cons e es)
    with assms(6) obtain d where d: "calls = d # e # es" by (cases calls) auto
    obtain batch where "encryption_address_from V (address_value (proxy_address (env_metadata V) Address_zero)) = (Returns (Some batch) :: ('e, _) outcome)" "hex_address batch"
      using encryption_address_hex [OF assms(1,2), of "address_value (proxy_address (env_metadata V) Address_zero)", where ?'e = 'e] assms(3) by auto
    moreover have "multiSendData V a calls \<noteq> []"
      using invocation_not_Nil [OF assms(1)] by (simp add: multiSendData_def multiSend_def multiSend_V1_def multiSend_V2_def)
    ultimately show ?thesis using start f d assms(5,8) by (auto simp: buildTransactionData_def estimable_def edit_defs timestamp_defs)
  qed
qed

lemma recovery_estimate_works:
  assumes "services_ok (rc_services C) s" "estimable tx" "account_ok (tx_accountID tx)"
  shows "\<exists>request. recovery_estimate C tx = sv_estimateTransaction (rc_services C) request"
proof -
  let ?S = "rc_services C"
  have ok: "packages_ok (sv_packages ?S)" "eip55_ok (sv_env ?S)" "bigint_ok (env_bigint (sv_env ?S))"
    using assms(1) by (simp_all add: services_ok_def digest_env_ok_def env_digest_def)
  obtain a op where tx: "sender tx = Some a" "hex_address a" "operation tx = Some op" using assms(2) by (auto simp: estimable_def)
  obtain safe where safe: "formatted ?S a = (Returns safe :: (ServiceError, _) outcome)" using formatted_account [OF ok(1,2) tx(2)] by blast
  obtain to where to: "formatted ?S (ethTo tx) = (Returns to :: (ServiceError, _) outcome)" using formatted_account [OF ok(1,2) estimable_call(1) [OF assms(2)]] by blast
  obtain token where token: "AccountID_tokenID (tx_accountID tx) = (Returns token :: (ServiceError, _) outcome)"
    using assms(3) by (cases "filter (\<lambda>c. c \<noteq> []) (components '':'' (tx_accountID tx))") (auto simp: AccountID_tokenID_def account_ok_def)
  have "ethData (sv_packages ?S) tx = [] \<or> ethHex (sv_packages ?S) (ethData (sv_packages ?S) tx) \<noteq> []"
    using assms(2) ethHex_toHexString [OF ok(1)] by (auto simp: ethData_def estimable_def split: option.splits)
  then have "\<exists>r. EstimateTransactionRequest_init ?S safe to (sv_String ?S (ethValue tx)) (ethData (sv_packages ?S) tx) op (Some token) = (Returns r :: (ServiceError, _) outcome)"
    using ok(3) by (auto simp: EstimateTransactionRequest_init_def bigint_ok_def)
  then show ?thesis using tx safe to token by (auto simp: recovery_estimate_def Let_def)
qed


text \<open>
  An estimate of the relay service that the app can work with: its numbers and the next nonce are numbers of 256 bits, the nonce is read back as the number it was
  written for, and the fee token has an address.
\<close>

definition response_ok :: "recoverer \<Rightarrow> time \<Rightarrow> app \<Rightarrow> EstimateTransactionResponse \<Rightarrow> bool" where
  "response_ok C now s r \<longleftrightarrow>
     u256 (es_safeTxGas r) \<and> u256 (es_baseGas r) \<and> u256 (es_gasPrice r) \<and>
     pred_option (\<lambda>i. hex_address (token_address (item_token i))) (find_item now (es_gasToken r) (app_tokens s)) \<and>
     (case nextNonce r :: (unit, int) outcome of Returns n \<Rightarrow> u256 n \<and> BigInt_String (env_bigint (rc_env C)) (show_int n) = Some n | _ \<Rightarrow> False)"

lemma sealing_works:
  assumes "services_ok (rc_services C) s" "estimable tx" "account_ok (tx_accountID tx)" "response_ok C now s r"
  shows "\<exists>tx1 tx2 h. calculateFees now r s tx = (Returns tx1 :: (unit, _) outcome) \<and> seal C now s tx1 = (Returns tx2 :: (unit, _) outcome) \<and>
    hash_of (env_digest (rc_env C) s) tx2 = (Returns h :: (unit, _) outcome) \<and> tx_id tx2 = tx_id tx"
proof -
  let ?D = "env_digest (rc_env C) s"
  from assms(4) obtain n where n: "nextNonce r = (Returns n :: (unit, _) outcome)" "u256 n" "BigInt_String (env_bigint (rc_env C)) (show_int n) = Some n"
    by (auto simp: response_ok_def split: outcome.splits)
  then obtain tx1 where tx1: "calculateFees now r s tx = (Returns tx1 :: (unit, _) outcome)" by (simp add: calculateFees_def Let_def)
  obtain f where parts: "sender tx1 = sender tx" "recipient tx1 = recipient tx" "amount tx1 = amount tx" "operation tx1 = operation tx" "tx_accountID tx1 = tx_accountID tx"
      "status tx1 = status tx" "tx_id tx1 = tx_id tx" "fee tx1 \<noteq> None" "tx_data tx1 = tx_data tx" "feeEstimate tx1 = Some f" "tx_nonce tx1 = Some (show_int n)"
      "gas f = es_safeTxGas r" "dataGas f = es_baseGas r" "ta_amount (gasPrice f) = es_gasPrice r" "hex_address (token_address (ta_token (gasPrice f)))"
  proof
    let ?token = "case find_item now (es_gasToken r) (app_tokens s) of None \<Rightarrow> Token_Ether | Some i \<Rightarrow> item_token i"
    let ?f = "\<lparr>gas = es_safeTxGas r, dataGas = es_baseGas r, operationalGas = es_operationalGas r, gasPrice = \<lparr>ta_amount = es_gasPrice r, ta_token = ?token\<rparr>\<rparr>"
    have "hex_address (token_address ?token)" using assms(4) hex_zero_address by (auto simp: response_ok_def Token_Ether_def split: option.split)
    then show "feeEstimate tx1 = Some ?f" "hex_address (token_address (ta_token (gasPrice ?f)))" "sender tx1 = sender tx" "recipient tx1 = recipient tx" "amount tx1 = amount tx" "operation tx1 = operation tx" "tx_accountID tx1 = tx_accountID tx"
      "status tx1 = status tx" "tx_id tx1 = tx_id tx" "fee tx1 \<noteq> None" "tx_data tx1 = tx_data tx" "tx_nonce tx1 = Some (show_int n)"
      using tx1 n(1) by (auto simp: calculateFees_def Let_def edit_defs timestamp_defs)
  qed simp_all
  have e: "estimable tx1" using assms(2) parts(1-4,6,9) by (simp add: estimable_def)
  have d: "digest_ok ?D tx1" "digest_parts ?D tx1"
    using estimable_call [OF e] e assms(3,4) parts n(2,3) u256_small(2)
    by (auto simp: digest_ok_def digest_parts_def response_ok_def estimable_def env_digest_def)
  obtain u where "safe_tx ?D tx1 = Some u" using safe_tx_defined [OF d(1)] d(2) by blast
  moreover have "digest_env_ok ?D" using assms(1) by (simp add: services_ok_def)
  ultimately obtain h where h: "hash_of ?D tx1 = (Returns h :: (unit, _) outcome)" using hash_of_eip712 [OF _ d(1), where ?'a = unit] by auto
  then have "\<exists>tx2. seal C now s tx1 = (Returns tx2 :: (unit, _) outcome)"
    using e parts(8) by (auto simp: seal_def tx_proceed_def Draft_proceed_def estimable_def edit_defs timestamp_defs assertNotNil_forced)
  then show ?thesis using seal_draft [of C now s tx1] e tx1 parts(7) by (fastforce simp: estimable_def)
qed

lemma sign_with_works:
  assumes "signing_works (rc_services C) s" "a \<in> set (deviceKeys (app_world s))" "hash_of (env_digest (rc_env C) s) tx = (Returns h :: (unit, _) outcome)"
  shows "\<exists>tx1. sign_with C now a (sv_privateKey (rc_services C) a) s tx = (Returns tx1 :: (unit, _) outcome) \<and>
    hash_of (env_digest (rc_env C) s) tx1 = (Returns h :: (unit, _) outcome) \<and> tx_id tx1 = tx_id tx"
proof -
  obtain d where d: "sign_transaction (env_sign (rc_env C)) (env_digest (rc_env C) s) tx (sv_privateKey (rc_services C) a) = (Returns d :: (unit, _) outcome)"
    using sign_transaction_works [OF assms] .
  let ?tx1 = "add_signature \<lparr>sig_address = a, sig_data = d\<rparr> now tx"
  have "hash_of (env_digest (rc_env C) s) ?tx1 = (hash_of (env_digest (rc_env C) s) tx :: (unit, _) outcome)"
    by (rule hash_of_env_cong) (simp_all add: add_signature_def timestamp_defs)
  moreover have "tx_id ?tx1 = tx_id tx" by (simp add: add_signature_def timestamp_defs)
  ultimately show ?thesis using d assms(3) by (simp add: sign_with_def)
qed

lemma sign_recovery_works:
  assumes "signing_works (rc_services C) s" "hash_of (env_digest (rc_env C) s) tx = (Returns h :: (unit, _) outcome)"
    "Wallet.owner (bd_wallet b) paperWallet = Some paper" "Wallet.owner (bd_wallet b) paperWalletDerived = Some derived"
  shows "\<exists>tx1. sign_recovery C now b s tx = (Returns tx1 :: (unit, _) outcome) \<and> tx_id tx1 = tx_id tx"
proof (cases "owner_address paper \<in> set (deviceKeys (app_world s))")
  case True
  then obtain tx1 where t: "sign_with C now (owner_address paper) (sv_privateKey (rc_services C) (owner_address paper)) s tx = (Returns tx1 :: (unit, _) outcome)"
    "hash_of (env_digest (rc_env C) s) tx1 = (Returns h :: (unit, _) outcome)" "tx_id tx1 = tx_id tx"
    using sign_with_works [OF assms(1) _ assms(2)] by blast
  show ?thesis using assms(3,4) True t sign_with_works [OF assms(1) _ t(2), of "owner_address derived" now]
    by (auto simp: sign_recovery_def find_key_def)
qed (use assms(3,4) sign_with_works [OF assms(1) _ assms(2), of "owner_address derived" now] in \<open>auto simp: sign_recovery_def find_key_def\<close>)

lemma builder_main_works:
  assumes "services_ok (rc_services C) (dep_app s)" "signing_works (rc_services C) (dep_app s)" "owner_manager (rc_packages C) exec"
    and "hex_address (proxy_address (env_metadata (rc_env C)) Address_zero)"
    and "selected_wallet (dep_app s) = Some w" "address w = Some a" "hex_address a" "account_ok (address_value (fee_token w) @ '':'' @ wallet_id w)"
      "address_value (fee_token w) \<noteq> []" "wallet_id w \<noteq> []"
    and "remote_wallet (rc_env C) A a w = Returns w1" "recoverable (rc_packages C) remote w1"
      "oldWalletScheme w1 \<in> set supportedSchemes" "newWalletScheme w1 \<in> set supportedSchemes"
    and "updateAllAccountsBalances (rc_env C) (dep_app s) = (Returns (True, a1) :: (unit, _) outcome)"
    and "\<And>request. \<exists>r. sv_estimateTransaction (rc_services C) request = Returns r \<and> response_ok C now a1 r"
  shows "\<exists>s' tx. builder_main C A now t s = Returns s' \<and> find_tx t (dep_app s') = Some tx"
proof -
  let ?E = "rc_packages C" and ?i = "address_value (fee_token w) @ '':'' @ wallet_id w"
  have ok: "packages_ok ?E" "eip55_ok (rc_env C)" using assms(1) by (simp_all add: services_ok_def digest_env_ok_def env_digest_def)
  have frame: "accounts_only (dep_app s) a1" using updateAllAccountsBalances_frame [OF assms(15)] .
  have s1_ok: "services_ok (rc_services C) a1" using assms(1) by (simp add: services_ok_def digest_env_ok_def env_digest_def)
  obtain b ds b1 where b: "builder_of ?E w1 = (Returns b :: (unit, _) outcome)" "bd_oldScheme b = oldWalletScheme w1" "bd_newScheme b = newWalletScheme w1"
      "length (bd_modifiable b) \<in> {1, 2}" "owner_calls ?E b = (Returns (ds, b1) :: (unit, _) outcome)" "[] \<notin> set ds" "length ds \<in> {1, 2}"
      "bd_wallet b1 = w1\<lparr>confirmationCount := confirmations (newWalletScheme w1)\<rparr>"
    using recovery_calls [OF ok(1) assms(3,12-14), where ?'e = unit] by auto
  note keeps = remote_wallet_keeps [OF assms(11)]
  obtain device paper derived where o: "Wallet.owner w1 paperWallet = Some paper" "Wallet.owner w1 paperWalletDerived = Some derived"
    using recoverableE [OF assms(12)] by metis
  have ds: "ds \<noteq> []" and adr: "address (bd_wallet b1) = Some a" using b(7,8) keeps(1) assms(6) by auto
  obtain tx1 where tx1: "buildTransactionData (rc_env C) now (bd_wallet b1) ds (new_recovery_tx t ?i now w) = (Returns tx1 :: (unit, _) outcome)" "estimable tx1" "tx_accountID tx1 = ?i"
    using buildTransactionData_estimable [OF ok assms(4,6,7) ds b(6) adr, where ?'e = unit] by blast
  have id1: "tx_id tx1 = t" using buildTransactionData_carries [OF tx1(1) adr ds b(6)] by (simp add: new_recovery_tx_parts)
  have acc: "account_ok (tx_accountID tx1)" using tx1(3) assms(8) by simp
  obtain response where r: "recovery_estimate C tx1 = Returns response" "response_ok C now a1 response"
    using recovery_estimate_works [OF assms(1) tx1(2) acc] assms(16) by metis
  obtain tx2 tx3 h where t3: "calculateFees now response a1 tx1 = (Returns tx2 :: (unit, _) outcome)" "seal C now a1 tx2 = (Returns tx3 :: (unit, _) outcome)"
      "hash_of (env_digest (rc_env C) a1) tx3 = (Returns h :: (unit, _) outcome)" "tx_id tx3 = t"
    using sealing_works [OF s1_ok tx1(2) acc r(2)] id1 by auto
  obtain tx4 where t4: "sign_recovery C now b1 a1 tx3 = (Returns tx4 :: (unit, _) outcome)" "tx_id tx4 = t"
    using sign_recovery_works [OF signing_works_keys [OF assms(2)] t3(3), of b1 paper derived] o b(8) t3(4) frame by (auto simp: Wallet.owner_def accounts_only_def)
  let ?s1 = "s\<lparr>dep_app := a1\<rparr>"
  have pull: "pullData C A w s = Returns (Some b, ?s1)" using assms(6,11,15) b(1) by (simp add: pullData_def)
  have stored: "wallet_with (wallet_id (bd_wallet b1)) a1 \<noteq> None"
    using accounts_only_wallets [OF frame] wallet_with_selected [OF assms(5)] b(8) keeps(2) by simp
  have acct: "accountID (address_value (fee_token w)) (wallet_id w) = (Returns ?i :: (unit, _) outcome)" using assms(9,10) by (simp add: accountID_def)
  have build: "buildData (rc_env C) now b (new_recovery_tx t ?i now w) = (Returns (tx1, b1) :: (unit, _) outcome)" using b(5) tx1(1) by (simp add: buildData_def)
  have sup: "isSupportedSafeOwners b" "isSupportedScheme b" using b(2-4) assms(13,14) by (simp_all add: isSupportedSafeOwners_def isSupportedScheme_def)
  have "builder_main C A now t s = Returns (?s1\<lparr>dep_app := publish_event WalletBecameReadyForRecovery (save_tx tx4 (save_wallet (bd_wallet b1) a1))\<rparr>)"
    using assms(5) acct pull sup build r(1) t3(1,2) t4(1) stored by (auto simp: builder_main_def save_recovery_def)
  moreover have "find_tx t (publish_event e (save_tx tx4 u)) = Some tx4" for e u
    using find_tx_save [of t tx4 u] t4(2) by (simp add: find_tx_def publish_event_def)
  ultimately show ?thesis by simp
qed

text \<open>
  (C10) The recovery transaction is built, does what the recovery is for, and has the signatures it needs. Let the selected wallet be ready for recovery, with the owners \<open>remote\<close> read from its contract and supported set-ups, let the keys of
  the recovery phrase be stored, and let the node report the balances and the relay service estimate the fees. Then a transaction is stored that is being signed and sent by the safe, with its digest, which the keys of the recovery
  phrase have signed: as many as the contract requires, and all of them accounts of its owners. Its payload is the owner calls, one alone or several in a batch; a contract that executes
  them ends with the owners that the wallet has by role and with the number of confirmations that is stored in the wallet.
\<close>

theorem recovery_transaction:
  assumes "services_ok (rc_services C) (dep_app s)" "signing_works (rc_services C) (dep_app s)" "owner_manager (rc_packages C) exec"
    and "hex_address (proxy_address (env_metadata (rc_env C)) Address_zero)"
    and "selected_wallet (dep_app s) = Some w" "address w = Some a" "hex_address a" "account_ok (address_value (fee_token w) @ '':'' @ wallet_id w)"
      "address_value (fee_token w) \<noteq> []" "wallet_id w \<noteq> []"
    and "remote_wallet (rc_env C) A a w = Returns w1" "recoverable (rc_packages C) remote w1"
      "oldWalletScheme w1 \<in> set supportedSchemes" "newWalletScheme w1 \<in> set supportedSchemes"
    and "\<forall>role \<in> {paperWallet, paperWalletDerived}. pred_option (\<lambda>o1. owner_address o1 \<in> set (deviceKeys (app_world (dep_app s)))) (Wallet.owner w1 role)"
    and "updateAllAccountsBalances (rc_env C) (drop_recovery_tx (wallet_id w) (dep_app s)) = (Returns (True, a1) :: (unit, _) outcome)"
    and "\<And>request. \<exists>r. sv_estimateTransaction (rc_services C) request = Returns r \<and> response_ok C now (dep_app s) r" "find_tx t (dep_app s) = None"
  defines "E \<equiv> rc_packages C"
  shows "\<exists>s' tx calls os h signers w'. createRecoveryTransaction C A now t s = Returns s' \<and> find_tx t (dep_app s') = Some tx \<and>
    tx_type tx = walletRecovery \<and> status tx = TS_signing \<and> sender tx = Some a \<and>
    tx_hash tx = Some h \<and> hash_of (env_digest (rc_env C) (dep_app s')) tx = (Returns h :: (unit, _) outcome) \<and>
    signed_over C h signers tx \<and> distinct (map (account E) signers) \<and> int (length signers) = confirmationCount w1 \<and> account E ` set signers \<subseteq> account E ` set remote \<and>
    set signers \<subseteq> owner_address ` {o1 \<in> set (owners w1). owner_role o1 \<in> {paperWallet, paperWalletDerived}} \<and>
    carries (rc_env C) a calls tx \<and> exec_all exec calls (map (account E) remote, confirmationCount w1) = Some (os, confirmationCount w') \<and>
    wallet_with (wallet_id w) (dep_app s') = Some w' \<and> w' = w1\<lparr>confirmationCount := confirmations (newWalletScheme w1)\<rparr> \<and>
    set os = (\<lambda>o1. account E (owner_address o1)) ` set (known_owners w')"
proof -
  let ?s0 = "on_app (drop_recovery_tx (wallet_id w)) s"
  have same: "app_world (drop_recovery_tx i u) = app_world u" "app_portfolio (drop_recovery_tx i u) = app_portfolio u" "app_tokens (drop_recovery_tx i u) = app_tokens u" for i u
    by (simp_all add: drop_recovery_tx_def split: option.split)
  have "accounts_only (dep_app ?s0) a1" using updateAllAccountsBalances_frame [OF assms(16)] by simp
  then have "app_tokens a1 = app_tokens (dep_app s)" by (simp add: accounts_only_def same)
  then have relay: "\<exists>r. sv_estimateTransaction (rc_services C) request = Returns r \<and> response_ok C now a1 r" for request
    using assms(17) [of request] by (simp add: response_ok_def)
  have s0: "services_ok (rc_services C) (dep_app ?s0)" "signing_works (rc_services C) (dep_app ?s0)" "selected_wallet (dep_app ?s0) = Some w"
    using assms(1,5) signing_works_keys [OF assms(2)] by (simp_all add: services_ok_def env_digest_def selected_wallet_def wallet_with_def same split: option.splits)
  obtain s' tx where run: "createRecoveryTransaction C A now t s = Returns s'" "find_tx t (dep_app s') = Some tx"
    using builder_main_works [OF s0(1,2) assms(3,4) s0(3) assms(6-14) _ relay, of t] assms(5,16) by (auto simp: createRecoveryTransaction_def)
  have "packages_ok (rc_packages C)" using assms(1) by (simp add: services_ok_def digest_env_ok_def env_digest_def)
  note stored = stored_recovery_tx [OF this assms(3,5,6,11-15,18) run]
  show ?thesis unfolding E_def by (rule exI [of _ s'], rule exI [of _ tx]) (use stored in \<open>simp only: run simp_thms\<close>)
qed

subsection \<open>Samples\<close>

definition recoveryEnv :: env where
  "recoveryEnv = sampleEnv\<lparr>env_metadata := sampleMetadata\<lparr>masterCopy := [], md_multiSendContractAddress := deploy_address 50\<rparr>\<rparr>"

definition sampleRecoverer :: recoverer where
  "sampleRecoverer = \<lparr>rc_services = sampleServices\<lparr>sv_env := recoveryEnv\<rparr>, rc_deriveAccount = (\<lambda>_. Some (deploy_address 22)),
     rc_deriveChild = (\<lambda>_. deploy_address 23), rc_balanceError = NSURLError\<rparr>"

lemma sampleRecoverer_parts [simp]: "rc_env sampleRecoverer = recoveryEnv" "env_packages recoveryEnv = samplePackages" "rc_packages sampleRecoverer = samplePackages"
  "env_bigint recoveryEnv = sampleBigint" "sv_env (rc_services sampleRecoverer) = recoveryEnv"
  by (simp_all add: sampleRecoverer_def recoveryEnv_def)

lemma sampleRecoverer_ok: "services_ok (rc_services sampleRecoverer) s" "signing_works (rc_services sampleRecoverer) s"
  using sampleServices_ok [of s]
  by (simp_all add: services_ok_def signing_works_def sampleRecoverer_def recoveryEnv_def digest_env_ok_def env_digest_def eip55_ok_def)

definition lostApp :: "Wallet \<Rightarrow> Transaction list \<Rightarrow> deployment" where
  "lostApp w txs =
     \<lparr>dep_app = \<lparr>app_world = \<lparr>walletRows = [w], accountRows = [], deviceKeys = map deploy_address [40, 22, 23], events = []\<rparr>,
        app_tokens = \<lparr>itemRows = [], token_events = [], balanceUpdates = []\<rparr>,
        app_portfolio = Some \<lparr>selectedWallet = Some ''w'', wallets = [''w'']\<rparr>, txRows = txs\<rparr>,
      addressBook = [], monitors = [], awaiting = [], errorStream = [], exited = False\<rparr>"

lemma lostApp_wallet: "wallet_id w = ''w'' \<Longrightarrow> wallet_with ''w'' (dep_app (lostApp w txs)) = Some w"
  "wallet_id w = ''w'' \<Longrightarrow> selected_wallet (dep_app (lostApp w txs)) = Some w"
  by (simp_all add: lostApp_def wallet_with_def find_id_def selected_wallet_def)

lemma lostApp_ok: "distinct (map tx_id txs) \<Longrightarrow> tables_ok (dep_app (lostApp w txs))"
  by (simp add: lostApp_def tables_ok_def ids_distinct_def keys_distinct_def portfolio_ok_def)

lemma lostWallet_owners: "Wallet.owner (lostWallet\<lparr>state := st, confirmationCount := n\<rparr>) paperWallet = Some \<lparr>owner_address = deploy_address 22, owner_role = paperWallet\<rparr>"
  "Wallet.owner (lostWallet\<lparr>state := st, confirmationCount := n\<rparr>) paperWalletDerived = Some \<lparr>owner_address = deploy_address 23, owner_role = paperWalletDerived\<rparr>"
  "list_all (\<lambda>o1. hex_address (owner_address o1)) (owners lostWallet)" "wallet_id lostWallet = ''w''" "address lostWallet = Some (deploy_address 30)"
  "known_owners (lostWallet\<lparr>state := st, confirmationCount := n\<rparr>) = [\<lparr>owner_address = deploy_address 40, owner_role = thisDevice\<rparr>, \<lparr>owner_address = deploy_address 22, owner_role = paperWallet\<rparr>,
         \<lparr>owner_address = deploy_address 23, owner_role = paperWalletDerived\<rparr>, \<lparr>owner_address = deploy_address 41, owner_role = keycard\<rparr>]"
  using hex_deploy_address by (simp_all add: lostWallet_def Wallet_blank_def Wallet.owner_def first_with_def known_owners_def)

definition recovery_tx :: "Code \<Rightarrow> Transaction" where
  "recovery_tx st = submit_tx\<lparr>tx_type := walletRecovery, status := st\<rparr>"

lemma recovery_tx_found: "recovery_txs ''w'' (dep_app (lostApp w [recovery_tx st])) = [recovery_tx st]"
  by (simp add: recovery_txs_def lostApp_def recovery_tx_def submit_tx_def of_wallet_def has_suffix_def)

definition noContract :: contract_answers where
  "noContract = \<lparr>ca_eth_call = (\<lambda>_ _. Throws NSURLError), ca_getStorageAt = (\<lambda>_ _. Throws NSURLError)\<rparr>"

theorem recovery_end_witness:
  "let s = lostApp (lostWallet\<lparr>state := recoveryInProgress, confirmationCount := 2\<rparr>) [recovery_tx TS_success]
   in (\<exists>s' w. transactionStatusUpdated sampleRecoverer (sampleContract (map deploy_address [40, 22, 23, 41]) 2) ''w'' s = Returns s' \<and>
         wallet_with ''w'' (dep_app s') = Some w \<and> isReadyToUse w \<and> deploy_address 40 \<in> set (deviceKeys (app_world (dep_app s')))) \<and>
      (\<exists>s'. transactionStatusUpdated sampleRecoverer noContract ''w'' s = Returns s' \<and>
         wallet_with ''w'' (dep_app s') = None \<and> deploy_address 40 \<notin> set (deviceKeys (app_world (dep_app s'))))"
proof -
  define w where "w = lostWallet\<lparr>state := recoveryInProgress, confirmationCount := 2\<rparr>"
  define A where "A = sampleContract (map deploy_address [40, 22, 23, 41]) 2"
  let ?s = "lostApp w [recovery_tx TS_success]" and ?C = sampleRecoverer
  have p: "packages_ok (rc_packages ?C)" using samplePackages_ok by simp
  have ok: "tables_ok (dep_app ?s)" by (rule lostApp_ok) simp
  have i: "wallet_id w = ''w''" using lostWallet_owners(4) by (simp add: w_def)
  have w: "wallet_with ''w'' (dep_app ?s) = Some w" using lostApp_wallet(1) [OF i] .
  have parts: "state w = recoveryInProgress" "address w = Some (deploy_address 30)" "list_all (\<lambda>o1. hex_address (owner_address o1)) (owners w)"
    using lostWallet_owners(3,5) by (simp_all add: w_def)
  have tx: "find_tx_type walletRecovery ''w'' (dep_app ?s) = Some (recovery_tx TS_success)" by (simp add: find_tx_type_recovery recovery_tx_found)
  note o = lostWallet_owners(1,2) [where st = recoveryInProgress and n = 2, folded w_def]
  note k = lostWallet_owners(6) [where st = recoveryInProgress and n = 2, folded w_def]
  have st: "status (recovery_tx TS_success) = TS_success" by (simp add: recovery_tx_def)
  have ans: "getOwners samplePackages (ca_eth_call A) a = (Returns (map deploy_address [40, 22, 23, 41]) :: (ServiceError, _) outcome)"
    "getThreshold samplePackages (ca_eth_call A) a = (Returns 2 :: (ServiceError, _) outcome)" for a
    using sampleContract_answers(1,2) [of 2 "[40, 22, 23, 41]" a] by (simp_all add: A_def)
  have "contract_agrees recoveryEnv A (deploy_address 30) w"
    using account_small_address by (simp add: contract_agrees_def ans k) (simp add: w_def)
  moreover have no: "getOwners samplePackages (ca_eth_call noContract) a = Throws NSURLError" "getThreshold samplePackages (ca_eth_call noContract) a = Throws NSURLError" for a
    by (simp_all add: noContract_def getOwners_def getThreshold_def invoke_def)
  then have "\<not> contract_agrees recoveryEnv noContract (deploy_address 30) w" by (simp add: contract_agrees_def)
  moreover have dev: "deploy_address 40 \<in> set (deviceKeys (app_world (dep_app ?s)))" "deploy_address 40 \<in> owner_address ` set (owners w)"
    by (simp_all add: lostApp_def w_def lostWallet_def)
  moreover have ne: "deploy_address 40 \<noteq> deploy_address 22" "deploy_address 40 \<noteq> deploy_address 23"
    using account_small_address [of 40] account_small_address [of 22] account_small_address [of 23] by auto
  ultimately have good: "contract_agrees recoveryEnv A (deploy_address 30) w" and bad: "\<not> contract_agrees recoveryEnv noContract (deploy_address 30) w" by blast+
  note t = recovery_end [OF p sampleRecoverer_ok(2) ok w parts(1,2) tx o parts(3)]
  have "\<exists>s' v. transactionStatusUpdated ?C A ''w'' ?s = Returns s' \<and> wallet_with ''w'' (dep_app s') = Some v \<and> isReadyToUse v \<and>
      deploy_address 40 \<in> set (deviceKeys (app_world (dep_app s')))"
    using t [of A] st ans good dev(1) ne hex_deploy_address by (auto simp: isReadyToUse_def)
  moreover have "\<exists>s'. transactionStatusUpdated ?C noContract ''w'' ?s = Returns s' \<and> wallet_with ''w'' (dep_app s') = None \<and>
      deploy_address 40 \<notin> set (deviceKeys (app_world (dep_app s')))"
    using t [of noContract] st no bad dev(2) by fastforce
  ultimately show ?thesis unfolding Let_def w_def A_def by blast
qed

lemma recovery_tx_digest: "digest_ok (env_digest recoveryEnv s) (recovery_tx st)" "\<exists>t. safe_tx (env_digest recoveryEnv s) (recovery_tx st) = Some t"
proof -
  let ?D = "env_digest recoveryEnv s"
  have "account_ok ''e:w''" by (simp add: account_ok_def components_def components_loop.simps)
  then have ok: "digest_ok ?D (recovery_tx st)" "digest_parts ?D (recovery_tx st)"
    using hex_row_address hex_zero_address
    by (simp_all add: recovery_tx_def submit_tx_def digest_ok_def digest_parts_def digest_tx_defs u256_def ether_def Token_Ether_def ethTo_def ethValue_def
      isERC20Transfer_def row_token_def token_id_def row_address_def Address_zero_def numeral_eq_Suc env_digest_def sampleBigint_def read_int_def
      read_nat_def read_digit_def)
  then show "digest_ok ?D (recovery_tx st)" "\<exists>t. safe_tx ?D (recovery_tx st) = Some t" using safe_tx_defined [OF ok(1)] by blast+
qed

theorem recovery_submission_witness:
  "\<exists>s1 s'. send_recovery (rc_services sampleRecoverer) 9 (recovery_tx TS_signing) (lostApp lostWallet [recovery_tx TS_signing]) = Returns (True, s1) \<and>
     submitRecoveryTransaction (rc_services sampleRecoverer) 9 ''w'' (lostApp lostWallet [recovery_tx TS_signing]) = Returns s' \<and>
     wallet_with ''w'' (dep_app s') = Some (lostWallet\<lparr>state := recoveryInProgress\<rparr>) \<and> awaiting s' = [''w''] \<and>
     wallet_with ''w'' (dep_app (cleanUpDrafts s1)) = None"
proof -
  let ?S = "rc_services sampleRecoverer" and ?s = "lostApp lostWallet [recovery_tx TS_signing]"
  obtain t where t: "safe_tx (env_digest (sv_env ?S) (dep_app ?s)) (recovery_tx TS_signing) = Some t" using recovery_tx_digest(2) by auto
  have ok: "tables_ok (dep_app ?s)" by (rule lostApp_ok) simp
  have w: "wallet_with ''w'' (dep_app ?s) = Some lostWallet" "state lostWallet = recoveryDraft" "status (recovery_tx TS_signing) = TS_signing"
    using lostApp_wallet(1) lostWallet_owners(4) by (simp_all add: lostWallet_def recovery_tx_def)
  have d: "digest_ok (env_digest (sv_env ?S) (dep_app ?s)) (recovery_tx TS_signing)" using recovery_tx_digest(1) by simp
  have relay: "sv_submitTransaction ?S r = Returns ''ab''" for r by (simp add: sampleRecoverer_def sampleServices_def)
  show ?thesis
    using recovery_submission [OF sampleRecoverer_ok ok w(1,2) recovery_tx_found w(3) d t, of 9] unfolding relay by (auto simp: lostApp_def)
qed

lemma lostWallet_remote: "remote_wallet recoveryEnv (sampleContract (map deploy_address [22, 21, 23]) 1) a lostWallet = Returns lostWallet"
  using sampleContract_answers(1,2) [of 1 "[22, 21, 23]" a]
  by (simp add: remote_wallet_def add_unknown_owners_def Wallet.addOwner_def removeOwner_def remove_with_def changeConfirmationCount_def)
    (simp add: lostWallet_def Wallet_blank_def)

lemma lost_balances:
  "updateAllAccountsBalances recoveryEnv (drop_recovery_tx i (dep_app (lostApp lostWallet []))) =
     (Returns (True, publish_event AccountsBalancesUpdated (dep_app (lostApp lostWallet []))) :: ('e, _) outcome)"
  by (simp add: updateAllAccountsBalances_def drop_recovery_tx_def find_tx_type_def lostApp_def create_missing_accounts_def accounts_of_def user_tokens_def whitelisted_def paymentTokens_def) auto

theorem recovery_transaction_witness:
  "\<exists>s' tx calls os h signers. createRecoveryTransaction sampleRecoverer (sampleContract (map deploy_address [22, 21, 23]) 1) 9 ''r'' (lostApp lostWallet []) = Returns s' \<and>
     find_tx ''r'' (dep_app s') = Some tx \<and> status tx = TS_signing \<and> signed_over sampleRecoverer h signers tx \<and> length signers = 1 \<and>
     carries recoveryEnv (deploy_address 30) calls tx \<and> exec_all sampleExec calls ([22, 21, 23], 1) = Some (os, 2) \<and> set os = {40, 22, 23, 41}"
proof -
  let ?C = sampleRecoverer and ?s = "lostApp lostWallet []" and ?A = "sampleContract (map deploy_address [22, 21, 23]) 1"
  let ?remote = "[deploy_address 22, deploy_address 21, deploy_address 23]"
  have hex: "hex_address (proxy_address (env_metadata (rc_env ?C)) Address_zero)" using hex_deploy_address by (simp add: recoveryEnv_def proxy_address_def)
  have sel: "selected_wallet (dep_app ?s) = Some lostWallet" using lostApp_wallet(2) lostWallet_owners(4) .
  have fee: "address_value (fee_token lostWallet) = address_value Address_zero" "wallet_id lostWallet = ''w''" by (simp_all add: lostWallet_def Wallet_blank_def fee_token_def)
  have acc: "account_ok (address_value (fee_token lostWallet) @ '':'' @ wallet_id lostWallet)" "address_value (fee_token lostWallet) \<noteq> []" "wallet_id lostWallet \<noteq> []"
    unfolding fee by (simp_all add: account_ok_def components_def components_loop.simps Address_zero_def)
  have scheme: "oldWalletScheme lostWallet \<in> set supportedSchemes" "newWalletScheme lostWallet \<in> set supportedSchemes" "confirmations (newWalletScheme lostWallet) = 2"
    using lostWallet_recoverable(2,3) by (simp_all add: supportedSchemes_def withExtension_def)
  have keys: "\<forall>role \<in> {paperWallet, paperWalletDerived}. pred_option (\<lambda>o1. owner_address o1 \<in> set (deviceKeys (app_world (dep_app ?s)))) (Wallet.owner lostWallet role)"
    by (simp add: lostWallet_def lostApp_def Wallet.owner_def first_with_def)
  have bal: "updateAllAccountsBalances (rc_env ?C) (drop_recovery_tx (wallet_id lostWallet) (dep_app ?s)) = (Returns (True, publish_event AccountsBalancesUpdated (dep_app ?s)) :: (unit, _) outcome)"
    by (simp add: lost_balances)
  have relay: "\<exists>r. sv_estimateTransaction (rc_services ?C) request = Returns r \<and> response_ok ?C 9 (dep_app ?s) r" for request
    using hex_zero_address read_int_show_int
    by (simp add: sampleRecoverer_def sampleServices_def response_ok_def u256_def find_item_def TokenListItem_init_def Token_Ether_def nextNonce_def toInt_def Int_min_def Int_max_def sampleBigint_def)
  have new: "find_tx ''r'' (dep_app ?s) = None" by (simp add: find_tx_def find_row_def lostApp_def)
  have rec: "recoverable (rc_packages ?C) ?remote lostWallet" using lostWallet_recoverable(1) by simp
  have rem: "remote_wallet (rc_env ?C) ?A (deploy_address 30) lostWallet = Returns lostWallet" using lostWallet_remote by simp
  have accs: "map (account samplePackages) ?remote = [22, 21, 23]" "confirmationCount lostWallet = 1"
    "(\<lambda>o1. account samplePackages (owner_address o1)) ` set (known_owners (lostWallet\<lparr>confirmationCount := 2\<rparr>)) = {40, 22, 23, 41}"
    using account_small_address by (simp_all add: lostWallet_def Wallet_blank_def known_owners_def)
  have "owner_manager (rc_packages ?C) sampleExec" using sampleExec_ok by simp
  from recovery_transaction [OF sampleRecoverer_ok this hex sel lostWallet_owners(5) hex_deploy_address acc rem rec scheme(1,2) keys bal relay new]
  show ?thesis unfolding sampleRecoverer_parts accs scheme(3) by (elim exE conjE) (auto simp: accs)
qed

text \<open>
  (C31) A set-up that is not supported. Let the data of the contract be read, and show a set-up before or after the recovery that is not one of the two supported ones. Creating the recovery transaction then posts an error that says so, and stores nothing;
  estimating the fees, which comes first, does not check the set-up and stops the process.
\<close>

theorem unsupported_configuration:
  assumes "selected_wallet (dep_app s) = Some w" "address_value (fee_token w) \<noteq> []" "wallet_id w \<noteq> []"
    and "pullData C A w (on_app (drop_recovery_tx (wallet_id w)) s) = Returns (Some b, s1)" "\<not> isSupportedScheme b"
  shows "(\<exists>m. createRecoveryTransaction C A now t s = Returns (post (RecoveryError (RS_unsupportedWalletConfiguration m)) s1)) \<and>
    estimateRecoveryTransaction C A relay now t s = Traps"
proof -
  let ?s0 = "on_app (drop_recovery_tx (wallet_id w)) s"
  have s0: "selected_wallet (dep_app ?s0) = Some w"
    using assms(1) by (auto simp: drop_recovery_tx_def selected_wallet_def wallet_with_def remove_tx_def split: option.splits)
  have "owner_calls E b = (Traps :: (unit, _) outcome)" for E
    using assms(5) by (auto simp: owner_calls_def isSupportedScheme_def supportedSchemes_def)
  then have "builder_build C A now t ?s0 = Traps" using s0 assms(2-4) by (simp add: builder_build_def accountID_def buildData_def)
  then show ?thesis
    using assms s0 by (auto simp: createRecoveryTransaction_def builder_main_def accountID_def estimateRecoveryTransaction_def Let_def)
qed

theorem unsupported_configuration_witness:
  "let A = sampleContract (map deploy_address [22, 23]) 1
   in (\<exists>m s1. createRecoveryTransaction sampleRecoverer A 9 ''r'' (lostApp lostWallet []) = Returns (post (RecoveryError (RS_unsupportedWalletConfiguration m)) s1)) \<and>
      estimateRecoveryTransaction sampleRecoverer A (\<lambda>_. Throws NSURLError) 9 ''r'' (lostApp lostWallet []) = Traps"
proof -
  let ?C = sampleRecoverer and ?s = "lostApp lostWallet []"
  define A where "A = sampleContract (map deploy_address [22, 23]) 1"
  define w1 where "w1 = changeConfirmationCount 1 (add_unknown_owners (map deploy_address [22, 23]) (Wallet.removeOwner unknown lostWallet))"
  have sel: "selected_wallet (dep_app ?s) = Some lostWallet" using lostApp_wallet(2) lostWallet_owners(4) .
  have rem: "remote_wallet recoveryEnv A (deploy_address 30) lostWallet = Returns w1"
    using sampleContract_answers(1,2) [of 1 "[22, 23]" "deploy_address 30"] by (simp add: remote_wallet_def A_def w1_def)
  have owners: "map owner_address (filter (\<lambda>o1. owner_role o1 = unknown) (owners w1)) = map deploy_address [22, 23]" "confirmationCount w1 = 1"
    by (simp_all add: w1_def add_unknown_owners_def Wallet.addOwner_def removeOwner_def remove_with_def changeConfirmationCount_def lostWallet_def)
  obtain l0 where l0: "OwnerLinkedList_init samplePackages = (Returns l0 :: (unit, _) outcome)" "holds l0 []" using holds_init [OF samplePackages_ok] by blast
  obtain l where l: "ll_add_all samplePackages (map deploy_address [22, 23]) l0 = (Returns l :: (unit, _) outcome)"
    using holds_add_all [OF samplePackages_ok l0(2), of "map deploy_address [22, 23]"] hex_deploy_address by auto
  obtain b where b: "builder_of samplePackages w1 = (Returns b :: (unit, _) outcome)" "bd_oldScheme b = oldWalletScheme w1"
    using l0(1) l owners(1) by (fastforce simp: builder_of_def ownerLinkedList_def)
  have "length (filter (\<lambda>o1. owner_role o1 = unknown) (owners w1)) = 2" using arg_cong [OF owners(1), of length] by simp
  then have "\<not> isSupportedScheme b" using b(2) owners(2) by (simp add: isSupportedScheme_def oldWalletScheme_def supportedSchemes_def withExtension_def withoutExtension_def)
  moreover have "updateAllAccountsBalances recoveryEnv (drop_recovery_tx (wallet_id lostWallet) (dep_app ?s)) = (Returns (True, publish_event AccountsBalancesUpdated (dep_app ?s)) :: (unit, _) outcome)"
    by (rule lost_balances)
  then have "pullData ?C A lostWallet (on_app (drop_recovery_tx (wallet_id lostWallet)) ?s) = Returns (Some b, ?s\<lparr>dep_app := publish_event AccountsBalancesUpdated (dep_app ?s)\<rparr>)"
    using rem b(1) lostWallet_owners(5) by (simp add: pullData_def on_app_def)
  moreover have "address_value (fee_token lostWallet) \<noteq> []" "wallet_id lostWallet \<noteq> []"
    by (simp_all add: lostWallet_def Wallet_blank_def fee_token_def Address_zero_def)
  ultimately show ?thesis using unsupported_configuration [OF sel, of ?C A b] unfolding Let_def A_def by blast
qed

end
