(* ===== verification/OwnerModification.thy ===== *)
theory OwnerModification
  imports Recovery
begin

section \<open>Changing the owners and the version of a safe\<close>

text \<open>
  The services under \<^verbatim>\<open>MultisigWalletDomainModel/Wallet/ContractModification\<close>: replacing, connecting and disconnecting the second factor,
  replacing the recovery phrase and upgrading the contract, and the application services on top of them. All are subclasses of
  \<open>ReplaceTwoFADomainService\<close>: an operation takes the class and chooses the override. The test hook \<^verbatim>\<open>ownerContractProxy\<close> is not set. Shown: the call
  that a service puts into its transaction, executed by the contract, and the update of the wallet after success lead to
  the same owners and threshold; what signing with the recovery phrase leaves in the transaction; and when the services stop.
\<close>

subsection \<open>Inputs\<close>

datatype service_class =
  ReplaceTwoFAService | ConnectTwoFAService | DisconnectTwoFAService | ReplaceRecoveryPhraseService | ContractUpgradeService

datatype ReplaceTwoFADomainServiceError =
    TF_insufficientBalance
  | TF_twoFANotConnected
  | TF_twoFAAlreadyExists
  | TF_recoveryPhraseInvalid
  | TF_recoveryPhraseHasNoOwnership

datatype ReplaceRecoveryPhraseDomainServiceError = missingRecoveryOwner | missingDerivedRecoveryAddress

datatype FeeCalculationError = FC_insufficientBalance | FC_TwoFANotFound | FC_twoFAAlreadyExists

datatype ModificationError =
    TwoFAError ReplaceTwoFADomainServiceError
  | PhraseError ReplaceRecoveryPhraseDomainServiceError
  | signingNotAvailable
  | FeeError FeeCalculationError
  | ServiceFailure ServiceError

record DeletePairRequest =
  dp_device :: string
  dp_signature :: EthSignature

record ExtensionCode =
  xc_expirationDate :: string
  xc_v :: int
  xc_r :: int
  xc_s :: int

record BrowserExtensionCode =
  bx_expirationDate :: time
  bx_signature :: EthSignature
  bx_extensionAddress :: "string option"

record PairingRequest =
  pr_temporaryAuthorization :: BrowserExtensionCode
  pr_signature :: EthSignature
  pr_deviceOwnerAddress :: "string option"

text \<open>
  The notification service, the two readings of a scanned code as JSON, and the order in which Swift lists the elements of
  a set, which is not specified.
\<close>

record modifier =
  mf_recoverer :: recoverer
  mf_deletePair :: "DeletePairRequest \<Rightarrow> (ServiceError, unit) outcome"
  mf_pair :: "PairingRequest \<Rightarrow> (ServiceError, string list) outcome"
  mf_ExtensionCode :: "string \<Rightarrow> ExtensionCode option"
  mf_BrowserExtensionCode :: "string \<Rightarrow> (time \<times> EthSignature) option"
  mf_setOrder :: "Address list \<Rightarrow> Address list"

abbreviation mf_services :: "modifier \<Rightarrow> services" where
  "mf_services M \<equiv> rc_services (mf_recoverer M)"

abbreviation mf_env :: "modifier \<Rightarrow> env" where
  "mf_env M \<equiv> rc_env (mf_recoverer M)"

abbreviation mf_packages :: "modifier \<Rightarrow> packages" where
  "mf_packages M \<equiv> env_packages (mf_env M)"

text \<open>An operation that may throw says in which state it does.\<close>

type_synonym 'a modified = "(ModificationError \<times> deployment, 'a) outcome"

definition failing_in :: "deployment \<Rightarrow> (ModificationError, 'a) outcome \<Rightarrow> 'a modified" where
  "failing_in s r = mapErr (\<lambda>e. (e, s)) r"

definition Address_two :: Address where
  "Address_two = Address ''0x0000000000000000000000000000000000000002''"

definition Address_three :: Address where
  "Address_three = Address ''0x0000000000000000000000000000000000000003''"

subsection \<open>Reading\<close>

definition isAvailable :: "env \<Rightarrow> service_class \<Rightarrow> app \<Rightarrow> bool" where
  "isAvailable V K s =
     (case selected_wallet s of
        None \<Rightarrow> False
      | Some w \<Rightarrow>
          (case K of
             ConnectTwoFAService \<Rightarrow> isReadyToUse w \<and> \<not> hasAuthenticator w \<and> wallet_type w = personal
           | ReplaceRecoveryPhraseService \<Rightarrow> isReadyToUse w \<and> Wallet.owner w paperWallet \<noteq> None \<and> wallet_type w = personal
           | ContractUpgradeService \<Rightarrow>
               isReadyToUse w \<and> (case wallet_masterCopyAddress w of None \<Rightarrow> True | Some m \<Rightarrow> isOldMasterCopy (env_metadata V) m)
           | _ \<Rightarrow> isReadyToUse w \<and> hasAuthenticator w \<and> wallet_type w = personal))"

text \<open>The address that the proxy of the owner manager is created with; also decoding needs the proxy.\<close>

definition contractProxy :: "app \<Rightarrow> ('e, Address) outcome" where
  "contractProxy s = bindO (unwrap (selected_wallet s)) (\<lambda>w. unwrap (address w))"

definition remoteOwnersList :: "modifier \<Rightarrow> contract_answers \<Rightarrow> app \<Rightarrow> ('e, OwnerLinkedList option) outcome" where
  "remoteOwnersList M A s =
     bindO (contractProxy s) (\<lambda>a.
     case getOwners (mf_packages M) (ca_eth_call A) a of
       Traps \<Rightarrow> Traps
     | Throws _ \<Rightarrow> Returns None
     | Returns remoteOwners \<Rightarrow>
         if remoteOwners = [] then Returns None
         else bindO (OwnerLinkedList_init (mf_packages M)) (\<lambda>l.
              bindO (ll_add_all (mf_packages M) remoteOwners l) (\<lambda>l1. Returns (Some l1))))"

text \<open>The transaction of the identifier; a missing one stops the process.\<close>

definition transaction :: "string \<Rightarrow> app \<Rightarrow> ('e, Transaction) outcome" where
  "transaction i s = unwrap (find_tx i s)"

definition newOwnerAddress :: "modifier \<Rightarrow> service_class \<Rightarrow> string \<Rightarrow> app \<Rightarrow> ('e, string option) outcome" where
  "newOwnerAddress M K i s =
     bindO (transaction i s) (\<lambda>tx.
     case tx_data tx of
       None \<Rightarrow> Returns None
     | Some d \<Rightarrow>
         bindO (contractProxy s) (\<lambda>_.
         if K = ConnectTwoFAService then
           bindO (decodeAddOwnerArguments (mf_packages M) d) (\<lambda>arguments. Returns (map_option (\<lambda>(new, _). address_value new) arguments))
         else
           bindO (decodeSwapOwnerArguments (mf_packages M) d) (\<lambda>arguments. Returns (map_option (\<lambda>(_, _, new). address_value new) arguments))))"

subsection \<open>The calls\<close>

definition swap_call :: "modifier \<Rightarrow> OwnerLinkedList \<Rightarrow> Address \<Rightarrow> Address \<Rightarrow> ('e, data) outcome" where
  "swap_call M l old new =
     bindO (addressBefore (mf_packages M) old l) (\<lambda>prevOwner. Returns (swapOwner (mf_packages M) prevOwner old new))"

definition remove_call :: "modifier \<Rightarrow> OwnerLinkedList \<Rightarrow> Address \<Rightarrow> ('e, data) outcome" where
  "remove_call M l old =
     bindO (addressBefore (mf_packages M) old l) (\<lambda>prevOwner. Abi.removeOwner (mf_packages M) prevOwner old 1)"

definition zero_list :: "modifier \<Rightarrow> ('e, OwnerLinkedList) outcome" where
  "zero_list M = bindO (OwnerLinkedList_init (mf_packages M)) (ll_add (mf_packages M) Address_zero)"

definition ReplaceTwoFA_dummyTransactionData :: "modifier \<Rightarrow> contract_answers \<Rightarrow> app \<Rightarrow> ('e, data) outcome" where
  "ReplaceTwoFA_dummyTransactionData M A s =
     bindO (remoteOwnersList M A s) (\<lambda>list.
     bindO (case list of None \<Rightarrow> Returns None | Some l \<Rightarrow> bindO (firstAddress (mf_packages M) l) (\<lambda>f. Returns (map_option (Pair l) f))) (\<lambda>r.
     case r of
       Some (l, toSwap) \<Rightarrow> bindO (contractProxy s) (\<lambda>a. swap_call M l toSwap a)
     | None \<Rightarrow> bindO (zero_list M) (\<lambda>l. swap_call M l Address_zero Address_zero)))"

definition ConnectTwoFA_dummyTransactionData :: "modifier \<Rightarrow> app \<Rightarrow> ('e, data) outcome" where
  "ConnectTwoFA_dummyTransactionData M s =
     (let dummyAddress = (case Option.bind (selected_wallet s) address of None \<Rightarrow> Address_two | Some a \<Rightarrow> a)
      in bindO (contractProxy s) (\<lambda>_. Abi.addOwner (mf_packages M) dummyAddress 2))"

text \<open>The call that removes the second factor of the wallet, if the contract has it.\<close>

definition Disconnect_realTransactionData :: "modifier \<Rightarrow> contract_answers \<Rightarrow> app \<Rightarrow> ('e, data option) outcome" where
  "Disconnect_realTransactionData M A s =
     (case Option.bind (selected_wallet s) twoFAOwner of
        None \<Rightarrow> Returns None
      | Some o1 \<Rightarrow>
          bindO (remoteOwnersList M A s) (\<lambda>list.
          case list of
            None \<Rightarrow> Returns None
          | Some l \<Rightarrow>
              bindO (ll_contains (mf_packages M) (owner_address o1) l) (\<lambda>known.
              if known then bindO (remove_call M l (owner_address o1)) (\<lambda>d. Returns (Some d)) else Returns None)))"

definition DisconnectTwoFA_dummyTransactionData :: "modifier \<Rightarrow> contract_answers \<Rightarrow> app \<Rightarrow> ('e, data) outcome" where
  "DisconnectTwoFA_dummyTransactionData M A s =
     bindO (remoteOwnersList M A s) (\<lambda>list.
     bindO (case (list, Option.bind (selected_wallet s) twoFAOwner) of
              (Some l, Some o1) \<Rightarrow>
                bindO (ll_contains (mf_packages M) (owner_address o1) l) (\<lambda>known. Returns (if known then Some (l, owner_address o1) else None))
            | _ \<Rightarrow> Returns None) (\<lambda>r.
     case r of
       Some (l, toDelete) \<Rightarrow> remove_call M l toDelete
     | None \<Rightarrow> bindO (zero_list M) (\<lambda>l. remove_call M l Address_zero)))"

text \<open>The swaps of \<^verbatim>\<open>transactionData(list:old:new:)\<close>, each on the list that the swaps before it leave.\<close>

fun phrase_swaps :: "modifier \<Rightarrow> Address list \<Rightarrow> Address list \<Rightarrow> OwnerLinkedList \<Rightarrow> ('e, data list) outcome" where
  "phrase_swaps M (o1 # old) (n # new) l =
     bindO (swap_call M l o1 n) (\<lambda>d.
     bindO (ll_replace (mf_packages M) o1 n l) (\<lambda>l1.
     bindO (phrase_swaps M old new l1) (\<lambda>ds. Returns (d # ds))))"
| "phrase_swaps M _ _ l = Returns []"

definition safe_batch :: "modifier \<Rightarrow> Address \<Rightarrow> Address \<Rightarrow> data list \<Rightarrow> data" where
  "safe_batch M proxy a calls =
     multiSend (mf_packages M) (env_metadata (mf_env M)) proxy (map (\<lambda>d. \<lparr>ms_operation = MS_call, ms_to = a, ms_value = 0, ms_data = d\<rparr>) calls)"

definition transactionData :: "modifier \<Rightarrow> Address list \<Rightarrow> Address list \<Rightarrow> OwnerLinkedList \<Rightarrow> app \<Rightarrow> ('e, data option) outcome" where
  "transactionData M old new l s =
     (if length old \<noteq> length new then Returns None
      else bindO (contractProxy s) (\<lambda>a. bindO (phrase_swaps M old new l) (\<lambda>calls. Returns (Some (safe_batch M Address_zero a calls)))))"

definition ReplaceRecoveryPhrase_dummyTransactionData :: "modifier \<Rightarrow> contract_answers \<Rightarrow> app \<Rightarrow> ('e, data) outcome" where
  "ReplaceRecoveryPhrase_dummyTransactionData M A s =
     (let E = mf_packages M; new = [Address_two, Address_three]
      in bindO (remoteOwnersList M A s) (\<lambda>list.
         bindO (case list of
                  None \<Rightarrow> Returns None
                | Some l \<Rightarrow>
                    bindO (firstAddress E l) (\<lambda>f.
                    case f of
                      None \<Rightarrow> Returns None
                    | Some remoteAddress1 \<Rightarrow>
                        bindO (addressAfter E remoteAddress1 l) (\<lambda>n. Returns (map_option (\<lambda>remoteAddress2. (l, [remoteAddress1, remoteAddress2])) n)))) (\<lambda>r.
         bindO (case r of
                  Some p \<Rightarrow> Returns p
                | None \<Rightarrow>
                    bindO (OwnerLinkedList_init E) (\<lambda>l. bindO (ll_add E Address_two l) (\<lambda>l1. bindO (ll_add E Address_three l1) (\<lambda>l2.
                    Returns (l2, [Address_two, Address_three]))))) (\<lambda>(l, old).
         bindO (transactionData M old new l s) unwrap))))"

definition dummyTransactionData :: "modifier \<Rightarrow> service_class \<Rightarrow> contract_answers \<Rightarrow> app \<Rightarrow> ('e, data) outcome" where
  "dummyTransactionData M K A s =
     (case K of
        ConnectTwoFAService \<Rightarrow> ConnectTwoFA_dummyTransactionData M s
      | DisconnectTwoFAService \<Rightarrow> DisconnectTwoFA_dummyTransactionData M A s
      | ReplaceRecoveryPhraseService \<Rightarrow> ReplaceRecoveryPhrase_dummyTransactionData M A s
      | _ \<Rightarrow> ReplaceTwoFA_dummyTransactionData M A s)"

definition ReplaceTwoFA_realTransactionData :: "modifier \<Rightarrow> contract_answers \<Rightarrow> string \<Rightarrow> app \<Rightarrow> ('e, data option) outcome" where
  "ReplaceTwoFA_realTransactionData M A newAddress s =
     bindO (unwrap (selected_wallet s)) (\<lambda>w.
     bindO (unwrap (twoFAOwner w)) (\<lambda>o1.
     bindO (remoteOwnersList M A s) (\<lambda>list.
     case list of
       None \<Rightarrow> Returns None
     | Some l \<Rightarrow>
         bindO (ll_contains (mf_packages M) (owner_address o1) l) (\<lambda>known.
         if \<not> known then Returns None
         else bindO (Address_init (mf_packages M) newAddress) (\<lambda>new.
              bindO (swap_call M l (owner_address o1) new) (\<lambda>d. Returns (Some d)))))))"

definition ConnectTwoFA_realTransactionData :: "modifier \<Rightarrow> string \<Rightarrow> app \<Rightarrow> ('e, data option) outcome" where
  "ConnectTwoFA_realTransactionData M newAddress s =
     bindO (contractProxy s) (\<lambda>_. bindO (Address_init (mf_packages M) newAddress) (\<lambda>new.
     bindO (Abi.addOwner (mf_packages M) new 2) (\<lambda>d. Returns (Some d))))"

text \<open>The owners that are neither the device nor a second factor, in the order of the set.\<close>

definition modifiableOwners :: "modifier \<Rightarrow> Wallet \<Rightarrow> OwnerLinkedList \<Rightarrow> ('e, Address list) outcome" where
  "modifiableOwners M w l =
     bindO (mapO (\<lambda>role. case Wallet.owner w role of
         None \<Rightarrow> Returns None
       | Some o1 \<Rightarrow> bindO (normalized (mf_packages M) (owner_address o1)) (\<lambda>a. Returns (Some a))) [thisDevice, browserExtension, keycard]) (\<lambda>readOnlyOwners.
     bindO (contents (mf_packages M) l) (\<lambda>all.
     Returns (mf_setOrder M (remdups (filter (\<lambda>a. Some a \<notin> set readOnlyOwners) all)))))"

definition ReplaceRecoveryPhrase_realTransactionData :: "modifier \<Rightarrow> contract_answers \<Rightarrow> string \<Rightarrow> app \<Rightarrow> ('e, data option) outcome" where
  "ReplaceRecoveryPhrase_realTransactionData M A newAddress s =
     bindO (remoteOwnersList M A s) (\<lambda>list.
     case list of
       None \<Rightarrow> Returns None
     | Some l \<Rightarrow>
         bindO (unwrap (selected_wallet s)) (\<lambda>w.
         bindO (modifiableOwners M w l) (\<lambda>modifiable.
         if length modifiable < 2 then Returns None
         else bindO (Address_init (mf_packages M) newAddress) (\<lambda>newOwner1.
              if find_key (mf_services M) newOwner1 s = None then Returns None
              else transactionData M (take 2 modifiable) [newOwner1, rc_deriveChild (mf_recoverer M) newOwner1] l s))))"

definition ContractUpgrade_realTransactionData :: "modifier \<Rightarrow> app \<Rightarrow> ('e, data) outcome" where
  "ContractUpgrade_realTransactionData M s =
     (case Option.bind (selected_wallet s) address of
        None \<Rightarrow> Returns []
      | Some currentAddress \<Rightarrow>
          bindO (latestMasterCopyAddress (env_metadata (mf_env M))) (\<lambda>newAddress.
          let E = mf_packages M; D = env_metadata (mf_env M)
          in Returns (safe_batch M (md_multiSendContractAddress D) currentAddress
               [SafeCreation.changeMasterCopy E newAddress, setFallbackHandler E (defaultFallbackHandlerAddress D)])))"

definition realTransactionData :: "modifier \<Rightarrow> service_class \<Rightarrow> contract_answers \<Rightarrow> string \<Rightarrow> app \<Rightarrow> ('e, data option) outcome" where
  "realTransactionData M K A newAddress s =
     (case K of
        ConnectTwoFAService \<Rightarrow> ConnectTwoFA_realTransactionData M newAddress s
      | ReplaceRecoveryPhraseService \<Rightarrow> ReplaceRecoveryPhrase_realTransactionData M A newAddress s
      | _ \<Rightarrow> ReplaceTwoFA_realTransactionData M A newAddress s)"

subsection \<open>Creating and estimating\<close>

definition ReplaceTwoFA_createTransaction :: "time \<Rightarrow> string \<Rightarrow> app \<Rightarrow> ('e, app) outcome" where
  "ReplaceTwoFA_createTransaction now i s =
     bindO (unwrap (selected_wallet s)) (\<lambda>w.
     bindO (accountID (address_value (fee_token w)) (wallet_id w)) (\<lambda>account_id.
     Returns (save_tx (change_sender (address w) now (change_amount (Some (ether 0)) now
       (Transaction_init i replaceTwoFAWithAuthenticator account_id now now))) s)))"

definition updateTransaction_type :: "time \<Rightarrow> string \<Rightarrow> TransactionType \<Rightarrow> app \<Rightarrow> ('e, app) outcome" where
  "updateTransaction_type now i ty s = bindO (transaction i s) (\<lambda>tx. Returns (save_tx (change_type ty now tx) s))"

definition transactionTypeFromWalletOwner :: "app \<Rightarrow> TransactionType" where
  "transactionTypeFromWalletOwner s =
     (case selected_wallet s of
        None \<Rightarrow> disconnectAuthenticator
      | Some w \<Rightarrow>
          if Wallet.owner w browserExtension \<noteq> None then disconnectAuthenticator
          else if Wallet.owner w keycard \<noteq> None then disconnectStatusKeycard else disconnectAuthenticator)"

definition ContractUpgrade_createTransaction :: "modifier \<Rightarrow> time \<Rightarrow> string \<Rightarrow> app \<Rightarrow> ('e, app) outcome" where
  "ContractUpgrade_createTransaction M now i s =
     bindO (ReplaceTwoFA_createTransaction now i s) (\<lambda>s1.
     bindO (transaction i s1) (\<lambda>tx.
     bindO (formatted (mf_services M) (proxy_address (env_metadata (mf_env M)) (md_multiSendContractAddress (env_metadata (mf_env M))))) (\<lambda>checksumedRecepient.
     bindO (ContractUpgrade_realTransactionData M s1) (\<lambda>d.
     Returns (save_tx (change_data (Some d) now (change_operation (Some OP_delegateCall) now
       (change_recipient (Some checksumedRecepient) now (change_type contractUpgrade now tx)))) s1)))))"

definition createTransaction :: "modifier \<Rightarrow> service_class \<Rightarrow> time \<Rightarrow> string \<Rightarrow> app \<Rightarrow> ('e, app) outcome" where
  "createTransaction M K now i s =
     (case K of
        DisconnectTwoFAService \<Rightarrow>
          bindO (ReplaceTwoFA_createTransaction now i s) (\<lambda>s1. updateTransaction_type now i (transactionTypeFromWalletOwner s1) s1)
      | ReplaceRecoveryPhraseService \<Rightarrow> bindO (ReplaceTwoFA_createTransaction now i s) (updateTransaction_type now i replaceRecoveryPhrase)
      | ContractUpgradeService \<Rightarrow> ContractUpgrade_createTransaction M now i s
      | _ \<Rightarrow> ReplaceTwoFA_createTransaction now i s)"

definition deleteTransaction :: "string \<Rightarrow> app \<Rightarrow> ('e, app) outcome" where
  "deleteTransaction i s = bindO (transaction i s) (\<lambda>tx. Returns (remove_tx tx s))"

definition ReplaceTwoFA_addDummyData :: "modifier \<Rightarrow> service_class \<Rightarrow> contract_answers \<Rightarrow> time \<Rightarrow> string \<Rightarrow> app \<Rightarrow> ('e, app) outcome" where
  "ReplaceTwoFA_addDummyData M K A now i s =
     bindO (transaction i s) (\<lambda>tx.
     bindO (unwrap (selected_wallet s)) (\<lambda>w.
     bindO (dummyTransactionData M K A s) (\<lambda>d.
     Returns (save_tx (change_data (Some d) now (change_operation (Some OP_call) now (change_recipient (address w) now tx))) s))))"

definition ReplaceRecoveryPhrase_addDummyData :: "modifier \<Rightarrow> contract_answers \<Rightarrow> time \<Rightarrow> string \<Rightarrow> app \<Rightarrow> ('e, app) outcome" where
  "ReplaceRecoveryPhrase_addDummyData M A now i s =
     bindO (transaction i s) (\<lambda>tx.
     bindO (formatted (mf_services M) (md_multiSendContractAddress (env_metadata (mf_env M)))) (\<lambda>formattedRecipient.
     bindO (dummyTransactionData M ReplaceRecoveryPhraseService A s) (\<lambda>d.
     Returns (save_tx (change_data (Some d) now (change_operation (Some OP_delegateCall) now (change_recipient (Some formattedRecipient) now tx))) s))))"

definition addDummyData :: "modifier \<Rightarrow> service_class \<Rightarrow> contract_answers \<Rightarrow> time \<Rightarrow> string \<Rightarrow> app \<Rightarrow> ('e, app) outcome" where
  "addDummyData M K A now i s =
     (case K of
        ReplaceRecoveryPhraseService \<Rightarrow> ReplaceRecoveryPhrase_addDummyData M A now i s
      | ContractUpgradeService \<Rightarrow> Returns s
      | _ \<Rightarrow> ReplaceTwoFA_addDummyData M K A now i s)"

definition stepBackToDraft :: "time \<Rightarrow> string \<Rightarrow> app \<Rightarrow> ('e, app) outcome" where
  "stepBackToDraft now i s =
     bindO (unwrap (find_tx i s)) (\<lambda>tx.
     if status tx = TS_signing then bindO (stepBack now now tx) (\<lambda>tx1. Returns (save_tx tx1 s)) else Returns s)"

definition estimationRequest :: "services \<Rightarrow> Transaction \<Rightarrow> app \<Rightarrow> ('e, EstimateTransactionRequest) outcome" where
  "estimationRequest S tx s =
     bindO (unwrap (sender tx)) (\<lambda>from. bindO (unwrap (operation tx)) (\<lambda>op. bindO (unwrap (selected_wallet s)) (\<lambda>w.
     EstimateTransactionRequest_init S from (ethTo tx) (sv_String S (ethValue tx)) (ethData (sv_packages S) tx) op
       (map_option address_value (feePaymentTokenAddress w)))))"

definition estimateNetworkFee :: "modifier \<Rightarrow> time \<Rightarrow> string \<Rightarrow> app \<Rightarrow> (ModificationError, TokenAmount \<times> app) outcome" where
  "estimateNetworkFee M now i s =
     bindO (transaction i s) (\<lambda>tx.
     bindO (estimationRequest (mf_services M) tx s) (\<lambda>request.
     bindO (mapErr ServiceFailure (sv_estimateTransaction (mf_services M) request)) (\<lambda>response.
     bindO (calculateFees now response s tx) (\<lambda>tx1.
     bindO (unwrap (feeEstimate tx1)) (\<lambda>estimate. Returns (totalDisplayedToUser estimate, save_tx tx1 s))))))"

definition accountBalance :: "time \<Rightarrow> string \<Rightarrow> app \<Rightarrow> ('e, TokenAmount) outcome" where
  "accountBalance now i s =
     bindO (transaction i s) (\<lambda>tx.
     case balance_with (tx_accountID tx) s of
       None \<Rightarrow> Returns (ether 0)
     | Some balance \<Rightarrow>
         bindO (AccountID_tokenID (tx_accountID tx)) (\<lambda>token.
         Returns \<lparr>ta_amount = (case balance of None \<Rightarrow> 0 | Some b \<Rightarrow> b),
           ta_token = (case find_item now token (app_tokens s) of None \<Rightarrow> Token_Ether | Some t \<Rightarrow> item_token t)\<rparr>))"

definition resultingBalance :: "time \<Rightarrow> string \<Rightarrow> TokenAmount \<Rightarrow> app \<Rightarrow> ('e, TokenAmount) outcome" where
  "resultingBalance now i change s =
     bindO (accountBalance now i s) (\<lambda>balance. Returns \<lparr>ta_amount = ta_amount balance + ta_amount change, ta_token = ta_token balance\<rparr>)"

definition validateOwners :: "service_class \<Rightarrow> app \<Rightarrow> (ModificationError, unit) outcome" where
  "validateOwners K s =
     (case K of
        ContractUpgradeService \<Rightarrow> Returns ()
      | ConnectTwoFAService \<Rightarrow>
          bindO (unwrap (selected_wallet s)) (\<lambda>w. assertFalse (hasAuthenticator w) (TwoFAError TF_twoFAAlreadyExists))
      | ReplaceRecoveryPhraseService \<Rightarrow>
          bindO (unwrap (selected_wallet s)) (\<lambda>w.
          bindO (assertNotNil (Wallet.owner w paperWallet) (PhraseError missingRecoveryOwner)) (\<lambda>_.
          assertNotNil (Wallet.owner w paperWalletDerived) (PhraseError missingDerivedRecoveryAddress)))
      | _ \<Rightarrow> bindO (unwrap (selected_wallet s)) (\<lambda>w. assertTrue (hasAuthenticator w) (TwoFAError TF_twoFANotConnected)))"

definition validate_modification :: "service_class \<Rightarrow> time \<Rightarrow> string \<Rightarrow> app \<Rightarrow> (ModificationError, unit) outcome" where
  "validate_modification K now i s =
     bindO (transaction i s) (\<lambda>tx.
     bindO (unwrap (fee tx)) (\<lambda>_.
     bindO (unwrap (feeEstimate tx)) (\<lambda>f.
       let totalFeeAmount = - (dataGas f + gas f + operationalGas f) * ta_amount (gasPrice f);
           totalFee = \<lparr>ta_amount = totalFeeAmount, ta_token = ta_token (gasPrice f)\<rparr>
       in bindO (resultingBalance now i totalFee s) (\<lambda>remaining.
          bindO (assertTrue (ta_amount remaining \<ge> 0) (TwoFAError TF_insufficientBalance)) (\<lambda>_. validateOwners K s)))))"

subsection \<open>Changing the payload\<close>

definition validateNewOwnerAddress :: "modifier \<Rightarrow> contract_answers \<Rightarrow> string \<Rightarrow> app \<Rightarrow> (ModificationError, unit) outcome" where
  "validateNewOwnerAddress M A newAddress s =
     bindO (remoteOwnersList M A s) (\<lambda>list.
     case list of
       None \<Rightarrow> Throws (TwoFAError TF_twoFAAlreadyExists)
     | Some l \<Rightarrow>
         bindO (Address_init (mf_packages M) newAddress) (\<lambda>a.
         bindO (ll_contains (mf_packages M) a l) (\<lambda>known. if known then Throws (TwoFAError TF_twoFAAlreadyExists) else Returns ())))"

definition ReplaceTwoFA_update :: "modifier \<Rightarrow> service_class \<Rightarrow> contract_answers \<Rightarrow> time \<Rightarrow> string \<Rightarrow> string \<Rightarrow> app \<Rightarrow> ('e, app) outcome" where
  "ReplaceTwoFA_update M K A now i newAddress s =
     bindO (stepBackToDraft now i s) (\<lambda>s1.
     bindO (transaction i s1) (\<lambda>tx.
     bindO (realTransactionData M K A newAddress s1) (\<lambda>d. Returns (save_tx (change_data d now tx) s1))))"

definition ContractUpgrade_update :: "modifier \<Rightarrow> time \<Rightarrow> string \<Rightarrow> app \<Rightarrow> ('e, app) outcome" where
  "ContractUpgrade_update M now i s =
     bindO (stepBackToDraft now i s) (\<lambda>s1.
     bindO (transaction i s1) (\<lambda>tx.
     bindO (hash_of (env_digest (mf_env M) s1) tx) (\<lambda>h.
     bindO (tx_proceed now now (change_hash (Some h) now tx)) (\<lambda>tx1. Returns (save_tx tx1 s1)))))"

definition update :: "modifier \<Rightarrow> service_class \<Rightarrow> contract_answers \<Rightarrow> time \<Rightarrow> string \<Rightarrow> string \<Rightarrow> app \<Rightarrow> ('e, app) outcome" where
  "update M K A now i newAddress s =
     (case K of
        ContractUpgradeService \<Rightarrow> ContractUpgrade_update M now i s
      | ReplaceRecoveryPhraseService \<Rightarrow>
          bindO (ReplaceTwoFA_update M K A now i newAddress s) (\<lambda>s1.
          bindO (transaction i s1) (\<lambda>tx. Returns (save_tx (change_operation (Some OP_delegateCall) now tx) s1)))
      | _ \<Rightarrow> ReplaceTwoFA_update M K A now i newAddress s)"

text \<open>\<^verbatim>\<open>update(transaction:)\<close> of the service that disconnects.\<close>

definition DisconnectTwoFA_update :: "modifier \<Rightarrow> contract_answers \<Rightarrow> time \<Rightarrow> string \<Rightarrow> app \<Rightarrow> ('e, app) outcome" where
  "DisconnectTwoFA_update M A now i s =
     bindO (stepBackToDraft now i s) (\<lambda>s1.
     bindO (transaction i s1) (\<lambda>tx.
     bindO (Disconnect_realTransactionData M A s1) (\<lambda>d. Returns (save_tx (change_data d now tx) s1))))"

subsection \<open>Signing with the recovery phrase\<close>

definition updateHash :: "modifier \<Rightarrow> time \<Rightarrow> string \<Rightarrow> app \<Rightarrow> ('e, app) outcome" where
  "updateHash M now i s =
     bindO (transaction i s) (\<lambda>tx. bindO (hash_of (env_digest (mf_env M) s) tx) (\<lambda>h. Returns (save_tx (change_hash (Some h) now tx) s)))"

definition signingEOA :: "modifier \<Rightarrow> string \<Rightarrow> (Address \<times> Address) option" where
  "signingEOA M phrase = map_option (\<lambda>primary. (primary, rc_deriveChild (mf_recoverer M) primary)) (rc_deriveAccount (mf_recoverer M) phrase)"

definition isContractOwners :: "modifier \<Rightarrow> contract_answers \<Rightarrow> Address \<times> Address \<Rightarrow> app \<Rightarrow> (ModificationError, bool) outcome" where
  "isContractOwners M A eoa s =
     bindO (contractProxy s) (\<lambda>a.
     bindO (mapErr ServiceFailure (getOwners (mf_packages M) (ca_eth_call A) a)) (\<lambda>contractOwners.
     let among = (\<lambda>b. list_ex (\<lambda>x. lowercased (address_value x) = lowercased (address_value b)) contractOwners)
     in Returns (among (fst eoa) \<and> among (snd eoa))))"

definition sign_eoa :: "modifier \<Rightarrow> time \<Rightarrow> Address \<Rightarrow> app \<Rightarrow> Transaction \<Rightarrow> ('e, Transaction) outcome" where
  "sign_eoa M now a s tx = sign_with (mf_recoverer M) now a (sv_privateKey (mf_services M) a) s tx"

definition sign_modification :: "modifier \<Rightarrow> contract_answers \<Rightarrow> time \<Rightarrow> string \<Rightarrow> string \<Rightarrow> app \<Rightarrow> (ModificationError, app) outcome" where
  "sign_modification M A now i phrase s =
     (case signingEOA M phrase of
        None \<Rightarrow> Throws (TwoFAError TF_recoveryPhraseInvalid)
      | Some eoa \<Rightarrow>
          bindO (isContractOwners M A eoa s) (\<lambda>owned.
          if \<not> owned then Throws (TwoFAError TF_recoveryPhraseHasNoOwnership)
          else bindO (updateHash M now i s) (\<lambda>s1.
               bindO (transaction i s1) (\<lambda>tx.
               bindO (tx_proceed now now tx) (\<lambda>tx1.
               bindO (sign_eoa M now (fst eoa) s1 tx1) (\<lambda>tx2.
               bindO (sign_eoa M now (snd eoa) s1 tx2) (\<lambda>tx3. Returns (save_tx tx3 s1))))))))"

subsection \<open>CommunicationDomainService.swift\<close>

definition deletePair :: "modifier \<Rightarrow> WalletID \<Rightarrow> string \<Rightarrow> app \<Rightarrow> (ModificationError, unit) outcome" where
  "deletePair M i other s =
     bindO (unwrap (wallet_with i s)) (\<lambda>w.
     bindO (unwrap (Wallet.owner w thisDevice)) (\<lambda>device.
     bindO (sign_message (mf_services M) (''GNO'' @ other) (owner_address device) s) (\<lambda>signed.
     case signed of
       None \<Rightarrow> Throws signingNotAvailable
     | Some sig \<Rightarrow> mapErr ServiceFailure (mf_deletePair M \<lparr>dp_device = other, dp_signature = sig\<rparr>))))"

subsection \<open>After the transaction\<close>

definition registerPostProcessing :: "string \<Rightarrow> time \<Rightarrow> deployment \<Rightarrow> deployment" where
  "registerPostProcessing i timestamp s =
     s\<lparr>monitors := insert_or_replace mon_transactionID \<lparr>mon_transactionID = i, mon_createdDate = timestamp\<rparr> (monitors s)\<rparr>"

definition unregisterPostProcessing :: "string \<Rightarrow> deployment \<Rightarrow> deployment" where
  "unregisterPostProcessing i s =
     (case find_row mon_transactionID i (monitors s) of
        None \<Rightarrow> s
      | Some entry \<Rightarrow> s\<lparr>monitors := delete_row mon_transactionID (mon_transactionID entry) (monitors s)\<rparr>)"

fun postProcessTypes :: "service_class \<Rightarrow> TransactionType list" where
  "postProcessTypes ConnectTwoFAService = [connectAuthenticator, connectStatusKeycard]"
| "postProcessTypes DisconnectTwoFAService = [disconnectAuthenticator, disconnectStatusKeycard]"
| "postProcessTypes _ = [replaceTwoFAWithAuthenticator, replaceTwoFAWithStatusKeycard]"

definition removeOldTwoFAOwner :: "modifier \<Rightarrow> Wallet \<Rightarrow> app \<Rightarrow> (ModificationError, Wallet) outcome" where
  "removeOldTwoFAOwner M w s =
     (case twoFAOwner w of
        None \<Rightarrow> Returns w
      | Some oldOwner \<Rightarrow>
          bindO (if owner_role oldOwner = browserExtension then deletePair M (wallet_id w) (address_value (owner_address oldOwner)) s
            else Returns ()) (\<lambda>_. Returns (Wallet.removeOwner (owner_role oldOwner) w)))"

text \<open>\<^verbatim>\<open>add(newOwner:role:to:)\<close>: the wallet with the new owner, which is then saved.\<close>

definition add_new_owner :: "modifier \<Rightarrow> string \<Rightarrow> OwnerRole \<Rightarrow> Wallet \<Rightarrow> ('e, Wallet) outcome" where
  "add_new_owner M newOwner role w =
     bindO (encryption_address_from (mf_env M) newOwner) (\<lambda>f.
     bindO (case f of None \<Rightarrow> Address_init (mf_packages M) newOwner | Some a \<Rightarrow> Returns a) (\<lambda>formattedAddress.
     Returns (Wallet.addOwner \<lparr>owner_address = formattedAddress, owner_role = role\<rparr> w)))"

text \<open>A failing notification of the new second device is ignored.\<close>

definition notify_created :: "modifier \<Rightarrow> WalletID \<Rightarrow> deployment \<Rightarrow> ('e, deployment) outcome" where
  "notify_created M i s =
     (case notifyWalletCreatedIfNeeded (mf_services M) i (dep_app s) of Traps \<Rightarrow> Traps | _ \<Rightarrow> Returns s)"

definition ReplaceTwoFA_processSuccess :: "modifier \<Rightarrow> Transaction \<Rightarrow> string \<Rightarrow> Wallet \<Rightarrow> deployment \<Rightarrow> (ModificationError, deployment) outcome" where
  "ReplaceTwoFA_processSuccess M tx newOwner w s =
     bindO (removeOldTwoFAOwner M w (dep_app s)) (\<lambda>w1.
     bindO (unwrap (correspondingOwnerRole (tx_type tx))) (\<lambda>role.
     bindO (add_new_owner M newOwner role w1) (\<lambda>w2. notify_created M (wallet_id w2) (on_app (save_wallet w2) s))))"

definition ConnectTwoFA_processSuccess :: "modifier \<Rightarrow> Transaction \<Rightarrow> string \<Rightarrow> Wallet \<Rightarrow> deployment \<Rightarrow> (ModificationError, deployment) outcome" where
  "ConnectTwoFA_processSuccess M tx newOwner w s =
     bindO (unwrap (correspondingOwnerRole (tx_type tx))) (\<lambda>role.
     bindO (add_new_owner M newOwner role w) (\<lambda>w1.
       let w2 = changeConfirmationCount 2 w1
       in notify_created M (wallet_id w2) (on_app (save_wallet w2) (on_app (save_wallet w1) s))))"

definition processFailure :: "modifier \<Rightarrow> service_class \<Rightarrow> Transaction \<Rightarrow> WalletID \<Rightarrow> string \<Rightarrow> deployment \<Rightarrow> (ModificationError, deployment) outcome" where
  "processFailure M K tx i newOwner s =
     (if tx_type tx = (if K = ConnectTwoFAService then connectAuthenticator else replaceTwoFAWithAuthenticator)
      then bindO (deletePair M i newOwner (dep_app s)) (\<lambda>_. Returns s) else Returns s)"

text \<open>The transaction and its wallet, when it has a type that the service handles and is processed.\<close>

definition processed :: "TransactionType list \<Rightarrow> string \<Rightarrow> app \<Rightarrow> ('e, (Transaction \<times> Wallet) option) outcome" where
  "processed types i s =
     (case find_tx i s of
        None \<Rightarrow> Returns None
      | Some tx \<Rightarrow>
          if tx_type tx \<notin> set types \<or> status tx \<notin> {TS_success, TS_failed} then Returns None
          else bindO (AccountID_walletID (tx_accountID tx)) (\<lambda>j. Returns (map_option (Pair tx) (wallet_with j s))))"

definition ReplaceTwoFA_postProcess :: "modifier \<Rightarrow> service_class \<Rightarrow> string \<Rightarrow> deployment \<Rightarrow> (ModificationError, deployment) outcome" where
  "ReplaceTwoFA_postProcess M K i s =
     bindO (processed (postProcessTypes K) i (dep_app s)) (\<lambda>found.
     case found of
       None \<Rightarrow> Returns s
     | Some (tx, w) \<Rightarrow>
         bindO (newOwnerAddress M K i (dep_app s)) (\<lambda>new.
         case new of
           None \<Rightarrow> Returns (unregisterPostProcessing i s)
         | Some newOwner \<Rightarrow>
             bindO (if status tx = TS_success
               then (if K = ConnectTwoFAService then ConnectTwoFA_processSuccess else ReplaceTwoFA_processSuccess) M tx newOwner w s
               else bindO (AccountID_walletID (tx_accountID tx)) (\<lambda>j. processFailure M K tx j newOwner s)) (\<lambda>s1.
             Returns (unregisterPostProcessing i s1))))"

definition DisconnectTwoFA_postProcess :: "modifier \<Rightarrow> string \<Rightarrow> deployment \<Rightarrow> (ModificationError, deployment) outcome" where
  "DisconnectTwoFA_postProcess M i s =
     bindO (processed (postProcessTypes DisconnectTwoFAService) i (dep_app s)) (\<lambda>found.
     case found of
       None \<Rightarrow> Returns s
     | Some (tx, w) \<Rightarrow>
         bindO (if status tx = TS_success
           then bindO (removeOldTwoFAOwner M w (dep_app s)) (\<lambda>w1. Returns (on_app (save_wallet (changeConfirmationCount 1 w1)) s))
           else Returns s) (\<lambda>s1. Returns (unregisterPostProcessing i s1)))"

text \<open>The two new owners that a replacement of the phrase carries; decoding throws no error.\<close>

definition phrase_owners :: "modifier \<Rightarrow> Transaction \<Rightarrow> app \<Rightarrow> ('e, (Address \<times> Address) option) outcome" where
  "phrase_owners M tx s =
     (case (recipient tx, tx_data tx) of
        (Some to, Some d) \<Rightarrow>
          bindO (forceTry (decodeMultiSendArguments (mf_packages M) (env_metadata (mf_env M)) to d)) (\<lambda>decoded.
          case decoded of
            Some (t1 # t2 # _) \<Rightarrow>
              bindO (contractProxy s) (\<lambda>_.
              bindO (decodeSwapOwnerArguments (mf_packages M) (ms_data t1)) (\<lambda>swap1.
              bindO (case swap1 of None \<Rightarrow> Returns None | Some _ \<Rightarrow> decodeSwapOwnerArguments (mf_packages M) (ms_data t2)) (\<lambda>swap2.
              case (swap1, swap2) of
                (Some (_, _, new1), Some (_, _, new2)) \<Rightarrow>
                  bindO (encryption_address_from (mf_env M) (address_value new1)) (\<lambda>newOwner1.
                  case newOwner1 of
                    None \<Rightarrow> Returns None
                  | Some a1 \<Rightarrow> bindO (encryption_address_from (mf_env M) (address_value new2)) (\<lambda>newOwner2. Returns (map_option (Pair a1) newOwner2)))
              | _ \<Rightarrow> Returns None)))
          | _ \<Rightarrow> Returns None)
      | _ \<Rightarrow> Returns None)"

definition ReplaceRecoveryPhrase_postProcess :: "modifier \<Rightarrow> string \<Rightarrow> deployment \<Rightarrow> (ModificationError, deployment) outcome" where
  "ReplaceRecoveryPhrase_postProcess M i s =
     bindO (if Option.bind (find_tx i (dep_app s)) recipient = None then Returns None else processed [replaceRecoveryPhrase] i (dep_app s)) (\<lambda>found.
     case found of
       None \<Rightarrow> Returns s
     | Some (tx, w) \<Rightarrow>
         bindO (phrase_owners M tx (dep_app s)) (\<lambda>new.
         case new of
           None \<Rightarrow> Returns s
         | Some (newOwner1, newOwner2) \<Rightarrow>
             let s1 = (if status tx = TS_success
                   then on_app (save_wallet (addOrReplaceOwner \<lparr>owner_address = newOwner2, owner_role = paperWalletDerived\<rparr>
                     (addOrReplaceOwner \<lparr>owner_address = newOwner1, owner_role = paperWallet\<rparr> w))) s
                   else s);
                 s2 = (if find_key (mf_services M) newOwner1 (dep_app s1) \<noteq> None then on_app (remove_key newOwner1) s1 else s1)
             in Returns (unregisterPostProcessing i s2)))"

definition ContractUpgrade_postProcess :: "modifier \<Rightarrow> string \<Rightarrow> deployment \<Rightarrow> (ModificationError, deployment) outcome" where
  "ContractUpgrade_postProcess M i s =
     bindO (processed [contractUpgrade] i (dep_app s)) (\<lambda>found.
     case found of
       None \<Rightarrow> Returns s
     | Some (tx, w) \<Rightarrow>
         (case (tx_data tx, address w) of
            (Some d, Some _) \<Rightarrow>
              bindO (forceTry (decodeMultiSendArguments (mf_packages M) (env_metadata (mf_env M)) (md_multiSendContractAddress (env_metadata (mf_env M))) d)) (\<lambda>decoded.
              case decoded of
                Some (t1 # _) \<Rightarrow>
                  bindO (decodeChangeMasterCopyArguments (mf_packages M) (ms_data t1)) (\<lambda>new.
                  case new of
                    None \<Rightarrow> Returns s
                  | Some newMasterCopy \<Rightarrow>
                      let s1 = (if status tx = TS_success
                            then on_app (\<lambda>a. publish_event ContractUpgraded (save_wallet (changeContractVersion
                              (masterCopy_version (env_metadata (mf_env M)) newMasterCopy) (Wallet.changeMasterCopy (Some newMasterCopy) w)) a)) s
                            else s)
                      in Returns (unregisterPostProcessing i s1))
              | _ \<Rightarrow> Returns s)
          | _ \<Rightarrow> Returns s))"

definition postProcess :: "modifier \<Rightarrow> service_class \<Rightarrow> string \<Rightarrow> deployment \<Rightarrow> (ModificationError, deployment) outcome" where
  "postProcess M K i s =
     (case K of
        DisconnectTwoFAService \<Rightarrow> DisconnectTwoFA_postProcess M i s
      | ReplaceRecoveryPhraseService \<Rightarrow> ReplaceRecoveryPhrase_postProcess M i s
      | ContractUpgradeService \<Rightarrow> ContractUpgrade_postProcess M i s
      | _ \<Rightarrow> ReplaceTwoFA_postProcess M K i s)"

primrec postProcess_all :: "modifier \<Rightarrow> service_class \<Rightarrow> RBETransactionMonitorEntry list \<Rightarrow> deployment \<Rightarrow> deployment modified" where
  "postProcess_all M K [] s = Returns s"
| "postProcess_all M K (entry # entries) s =
     bindO (failing_in s (postProcess M K (mon_transactionID entry) s)) (postProcess_all M K entries)"

definition postProcessTransactions :: "modifier \<Rightarrow> service_class \<Rightarrow> deployment \<Rightarrow> deployment modified" where
  "postProcessTransactions M K s = postProcess_all M K (sort_key mon_createdDate (monitors s)) s"

text \<open>
  \<^verbatim>\<open>SynchronisationService.postProcessTransactions\<close>, one round of the synchronisation; \<open>access\<close> says for each service whether the file system
  can be read when its turn comes. Errors are logged.
\<close>

fun sync_services :: "modifier \<Rightarrow> (service_class \<times> bool) list \<Rightarrow> deployment \<Rightarrow> deployment modified" where
  "sync_services M [] s = Returns s"
| "sync_services M ((K, access) # rest) s =
     (if \<not> access then Returns s else bindO (postProcessTransactions M K s) (sync_services M rest))"

definition sync_order :: "service_class list" where
  "sync_order = [ContractUpgradeService, ReplaceTwoFAService, ConnectTwoFAService, DisconnectTwoFAService, ReplaceRecoveryPhraseService]"

definition sync_postProcessTransactions :: "modifier \<Rightarrow> bool list \<Rightarrow> deployment \<Rightarrow> ('e, deployment) outcome" where
  "sync_postProcessTransactions M access s =
     (case sync_services M (zip sync_order access) s of
        Returns s1 \<Rightarrow> Returns s1
      | Throws (_, s1) \<Rightarrow> Returns s1
      | Traps \<Rightarrow> Traps)"

subsection \<open>Pairing with the second device\<close>

definition address_browserExtensionCode :: "modifier \<Rightarrow> string \<Rightarrow> ('e, string option) outcome" where
  "address_browserExtensionCode M rawCode =
     (case mf_ExtensionCode M rawCode of
        None \<Rightarrow> Returns None
      | Some c \<Rightarrow>
          let V = mf_env M; message = sha3 (mf_packages M) (utf8_bytes (''GNO'' @ xc_expirationDate c))
          in bindO (signature_from_rsv (mf_services M) (xc_r c, xc_s c, xc_v c)) (\<lambda>sig.
             bindO (data_from_signature V sig) (\<lambda>d.
             Returns (map_option (\<lambda>key. env_addressString V (ethHex (mf_packages M) (env_createAddress V key))) (env_publicKey V d message)))))"

definition browserExtensionCode :: "modifier \<Rightarrow> string \<Rightarrow> ('e, BrowserExtensionCode option) outcome" where
  "browserExtensionCode M json =
     (case mf_BrowserExtensionCode M json of
        None \<Rightarrow> Returns None
      | Some (expires, sig) \<Rightarrow>
          bindO (address_browserExtensionCode M json) (\<lambda>a.
          Returns (Some \<lparr>bx_expirationDate = expires, bx_signature = sig, bx_extensionAddress = a\<rparr>)))"

text \<open>\<^verbatim>\<open>HTTPNotificatonService.pair\<close>: the answer lists the paired devices.\<close>

definition pair_devices :: "modifier \<Rightarrow> PairingRequest \<Rightarrow> (ServiceError, unit) outcome" where
  "pair_devices M request =
     bindO (mf_pair M request) (\<lambda>devicePair.
     bindO (unwrap (bx_extensionAddress (pr_temporaryAuthorization request))) (\<lambda>extension.
     bindO (unwrap (pr_deviceOwnerAddress request)) (\<lambda>device.
     if extension \<in> set devicePair \<and> device \<in> set devicePair then Returns () else Throws NotificationValidationFailed)))"

definition createPair :: "modifier \<Rightarrow> string \<Rightarrow> app \<Rightarrow> (ServiceError, unit) outcome" where
  "createPair M rawCode s =
     bindO (browserExtensionCode M rawCode) (\<lambda>scanned.
     case scanned of
       None \<Rightarrow> Throws (ApplicationError validationFailed)
     | Some c \<Rightarrow>
         (case bx_extensionAddress c of
            None \<Rightarrow> Throws (ApplicationError validationFailed)
          | Some extension \<Rightarrow>
              bindO (unwrap (Option.bind (selected_wallet s) (\<lambda>w. Wallet.owner w thisDevice))) (\<lambda>device.
              bindO (sign_message (mf_services M) (''GNO'' @ extension) (owner_address device) s) (\<lambda>signed.
              case signed of
                None \<Rightarrow> Throws (ApplicationError validationFailed)
              | Some sig \<Rightarrow>
                  handleNotificationServiceError (pair_devices M
                    \<lparr>pr_temporaryAuthorization = c, pr_signature = sig, pr_deviceOwnerAddress = Some (address_value (owner_address device))\<rparr>)))))"

fun notification_failure :: "ModificationError \<Rightarrow> ModificationError" where
  "notification_failure (ServiceFailure e) = ServiceFailure (notification_error e)"
| "notification_failure e = e"

definition deletePair_app :: "modifier \<Rightarrow> string \<Rightarrow> app \<Rightarrow> (ModificationError, unit) outcome" where
  "deletePair_app M other s =
     bindO (unwrap (selected_wallet s)) (\<lambda>w. mapErr notification_failure (deletePair M (wallet_id w) other s))"

subsection \<open>The application services\<close>

text \<open>The code of the error that the views show, as it is in the source.\<close>

fun FeeCalculationError_code :: "FeeCalculationError \<Rightarrow> int" where
  "FeeCalculationError_code FC_insufficientBalance = 0"
| "FeeCalculationError_code FC_TwoFANotFound = 1"
| "FeeCalculationError_code FC_twoFAAlreadyExists = 1"

definition feePaymentToken :: "time \<Rightarrow> app \<Rightarrow> ('e, Token) outcome" where
  "feePaymentToken now s =
     bindO (unwrap (selected_wallet s)) (\<lambda>w.
     case Option.bind (feePaymentTokenAddress w) (\<lambda>a. token_with_id now (address_value a) s) of
       None \<Rightarrow> unwrap (token_with_id now (token_id Token_Ether) s)
     | Some t \<Rightarrow> Returns t)"

definition recreateTransactionIfPaymentMethodChanged ::
    "modifier \<Rightarrow> service_class \<Rightarrow> time \<Rightarrow> string \<Rightarrow> string \<Rightarrow> app \<Rightarrow> ('e, string \<times> app) outcome" where
  "recreateTransactionIfPaymentMethodChanged M K now next i s =
     bindO (transaction i s) (\<lambda>tx.
     bindO (feePaymentToken now s) (\<lambda>t.
     bindO (AccountID_tokenID (tx_accountID tx)) (\<lambda>token.
     if token = token_id t then Returns (i, s)
     else bindO (deleteTransaction i s) (\<lambda>s1. bindO (createTransaction M K now next s1) (\<lambda>s2. Returns (next, s2))))))"

record RBEFeeCalculationData =
  fc_currentBalance :: TokenAmount
  fc_networkFee :: TokenAmount
  fc_balance :: TokenAmount

definition estimate :: "modifier \<Rightarrow> service_class \<Rightarrow> contract_answers \<Rightarrow> time \<Rightarrow> string \<Rightarrow> app \<Rightarrow>
    ('e, (RBEFeeCalculationData option \<times> ModificationError option) \<times> app) outcome" where
  "estimate M K A now i s =
     bindO (stepBackToDraft now i s) (\<lambda>s1.
     bindO (addDummyData M K A now i s1) (\<lambda>s2.
     case estimateNetworkFee M now i s2 of
       Traps \<Rightarrow> Traps
     | Throws e \<Rightarrow> Returns ((None, Some e), s2)
     | Returns (fee1, s3) \<Rightarrow>
         let negativeFee = \<lparr>ta_amount = - ta_amount fee1, ta_token = ta_token fee1\<rparr>
         in bindO (accountBalance now i s3) (\<lambda>balance.
            bindO (resultingBalance now i negativeFee s3) (\<lambda>remaining.
            Returns ((Some \<lparr>fc_currentBalance = balance, fc_networkFee = negativeFee, fc_balance = remaining\<rparr>,
              if ta_amount remaining < 0 then Some (FeeError FC_insufficientBalance) else None), s3)))))"

fun start_error :: "ModificationError \<Rightarrow> ModificationError" where
  "start_error (TwoFAError TF_twoFANotConnected) = FeeError FC_TwoFANotFound"
| "start_error (TwoFAError TF_insufficientBalance) = FeeError FC_insufficientBalance"
| "start_error (TwoFAError TF_twoFAAlreadyExists) = FeeError FC_twoFAAlreadyExists"
| "start_error e = e"

definition start_modification :: "service_class \<Rightarrow> time \<Rightarrow> string \<Rightarrow> app \<Rightarrow> (ModificationError, unit) outcome" where
  "start_modification K now i s = mapErr start_error (validate_modification K now i s)"

text \<open>
  The payload before \<open>connect\<close> names the device of an earlier attempt, whose pairing is deleted first. \<open>A\<close> answers when the new address is checked, \<open>B\<close>
  when the payload is made.
\<close>

definition connect :: "modifier \<Rightarrow> service_class \<Rightarrow> contract_answers \<Rightarrow> contract_answers \<Rightarrow> time \<Rightarrow> string \<Rightarrow> string \<Rightarrow> app \<Rightarrow> (ModificationError, app) outcome" where
  "connect M K A B now i rawCode s =
     bindO (bindO (address_browserExtensionCode M rawCode) unwrap) (\<lambda>newAddress.
     bindO (validateNewOwnerAddress M A newAddress s) (\<lambda>_.
     bindO (newOwnerAddress M K i s) (\<lambda>old.
     bindO (case old of None \<Rightarrow> Returns () | Some oldPairAddress \<Rightarrow> deletePair_app M oldPairAddress s) (\<lambda>_.
     bindO (mapErr ServiceFailure (createPair M rawCode s)) (\<lambda>_.
     update M K B now i newAddress s)))))"

definition connectKeycard :: "modifier \<Rightarrow> service_class \<Rightarrow> contract_answers \<Rightarrow> contract_answers \<Rightarrow> time \<Rightarrow> string \<Rightarrow> string \<Rightarrow> app \<Rightarrow> (ModificationError, app) outcome" where
  "connectKeycard M K A B now i newAddress s =
     bindO (validateNewOwnerAddress M A newAddress s) (\<lambda>_. update M K B now i newAddress s)"

definition startMonitoring :: "string \<Rightarrow> time \<Rightarrow> deployment \<Rightarrow> deployment" where
  "startMonitoring i now s = registerPostProcessing i now s"

text \<open>\<open>A\<close> answers when the payload is renewed, \<open>B\<close> when the owners are checked.\<close>

definition ReplaceTwoFA_sign :: "modifier \<Rightarrow> contract_answers \<Rightarrow> time \<Rightarrow> string \<Rightarrow> string \<Rightarrow> app \<Rightarrow> (ModificationError \<times> app, app) outcome" where
  "ReplaceTwoFA_sign M B now i phrase s =
     bindO (stepBackToDraft now i s) (\<lambda>s1.
     bindO (mapErr (\<lambda>e. (e, s1)) (estimateNetworkFee M now i s1)) (\<lambda>(_, s2).
     mapErr (\<lambda>e. (e, s2)) (sign_modification M B now i phrase s2)))"

definition DisconnectTwoFA_sign ::
    "modifier \<Rightarrow> contract_answers \<Rightarrow> contract_answers \<Rightarrow> time \<Rightarrow> string \<Rightarrow> string \<Rightarrow> app \<Rightarrow> (ModificationError \<times> app, app) outcome" where
  "DisconnectTwoFA_sign M A B now i phrase s =
     bindO (DisconnectTwoFA_update M A now i s) (ReplaceTwoFA_sign M B now i phrase)"

text \<open>\<^verbatim>\<open>updateTransaction(_:with:)\<close> of the services that connect and replace; another type stops the process.\<close>

definition app_updateTransaction :: "service_class \<Rightarrow> time \<Rightarrow> string \<Rightarrow> TransactionType \<Rightarrow> app \<Rightarrow> ('e, app) outcome" where
  "app_updateTransaction K now i ty s =
     (if (if K = ConnectTwoFAService then isConnectTwoFA ty else isReplaceTwoFA ty) then updateTransaction_type now i ty s else Traps)"

definition isUpgradingTo_v1_1_1 :: "SafeContractMetadata \<Rightarrow> ('e, bool) outcome" where
  "isUpgradingTo_v1_1_1 D = bindO (latestMasterCopyAddress D) (\<lambda>m. Returns (masterCopy_version D m = Some ''1.1.1''))"

subsection \<open>The wallet mirrors the contract\<close>

text \<open>
  The contract is its list of owners, as accounts, and its threshold. A wallet mirrors it when it has the same owners and
  as many confirmations. \<open>in_step\<close>: the owners that the contract reports are those of the wallet, each known by a role.
\<close>

definition mirrors :: "packages \<Rightarrow> nat list \<times> int \<Rightarrow> Wallet \<Rightarrow> bool" where
  "mirrors E c w \<longleftrightarrow> mset (fst c) = mset (map (\<lambda>o1. account E (owner_address o1)) (owners w)) \<and> snd c = confirmationCount w"

definition in_step :: "packages \<Rightarrow> Address list \<Rightarrow> Wallet \<Rightarrow> bool" where
  "in_step E remote w \<longleftrightarrow>
     list_all hex_address remote \<and> distinct (map (account E) remote) \<and> 1 \<notin> account E ` set remote \<and>
     list_all (\<lambda>o1. hex_address (owner_address o1) \<and> owner_role o1 \<noteq> unknown) (owners w) \<and> roles_unique (owners w) \<and>
     mirrors E (map (account E) remote, confirmationCount w) w"

lemma map_account_lower: "packages_ok E \<Longrightarrow> list_all hex_address as \<Longrightarrow> map (account E) (map lower as) = map (account E) as"
  using account_lower by (auto simp: list_all_iff)

lemma in_step_owners_ok:
  assumes "packages_ok E" "in_step E remote w"
  shows "owners_ok (map lower remote)"
proof -
  have hex: "list_all hex_address remote" and d: "distinct (map (account E) remote)" and ns: "1 \<notin> account E ` set remote"
    using assms(2) by (auto simp: in_step_def)
  have "distinct (map lower remote)"
    using d hex lower_eq_iff [OF assms(1)] by (auto simp: distinct_map inj_on_def list_all_iff)
  moreover have "lower a \<noteq> sentinel" if "a \<in> set remote" for a
    using that hex ns account_lower [OF assms(1), of a] account_sentinel [OF assms(1)] by (force simp: list_all_iff)
  ultimately show ?thesis using hex hex_address_lower by (auto simp: owners_ok_def list_all_iff)
qed

lemma owner_position:
  assumes "packages_ok E" "in_step E remote w" "o1 \<in> set (owners w)"
  obtains k where "k < length remote" "lower (owner_address o1) = map lower remote ! k" "account E (owner_address o1) = map (account E) remote ! k"
proof -
  have "account E (owner_address o1) \<in># mset (map (\<lambda>x. account E (owner_address x)) (owners w))" using assms(3) by auto
  then have "account E (owner_address o1) \<in> set (map (account E) remote)"
    using assms(2) unfolding in_step_def mirrors_def by (metis fst_conv set_mset_mset)
  then obtain k where k: "k < length remote" "account E (owner_address o1) = account E (remote ! k)"
    by (metis in_set_conv_nth length_map nth_map)
  moreover have "hex_address (owner_address o1)" "hex_address (remote ! k)" using assms(2,3) k(1) by (auto simp: in_step_def list_all_iff)
  ultimately have "lower (owner_address o1) = lower (remote ! k)" using lower_eq_iff [OF assms(1)] by simp
  with k that show thesis by simp
qed

lemma remote_list:
  assumes "packages_ok (mf_packages M)" "contractProxy s = (Returns a :: ('e, _) outcome)"
    and "getOwners (mf_packages M) (ca_eth_call A) a = Returns remote" "remote \<noteq> []" "list_all hex_address remote"
  shows "\<exists>l. remoteOwnersList M A s = (Returns (Some l) :: ('e, _) outcome) \<and> holds l (map lower remote)"
proof -
  obtain l0 where "OwnerLinkedList_init (mf_packages M) = (Returns l0 :: ('e, _) outcome)" "holds l0 []" using holds_init [OF assms(1)] by blast
  with holds_add_all [OF assms(1) _ assms(5), of l0 "[]", where ?'a = 'e] show ?thesis
    using assms(2-4) by (auto simp: remoteOwnersList_def)
qed

text \<open>A swap and a removal at a position of the list.\<close>

lemma swap_call_executes:
  assumes "packages_ok (mf_packages M)" "owner_manager (mf_packages M) exec" "holds l as" "owners_ok as" "k < length as"
    and "hex_address old" "lower old = as ! k" "hex_address new" "fresh (account (mf_packages M) new) (map (account (mf_packages M)) as)"
  shows "\<exists>d. swap_call M l old new = (Returns d :: ('e, _) outcome) \<and> d \<noteq> [] \<and>
    exec d (map (account (mf_packages M)) as, t) = Some ((map (account (mf_packages M)) as)[k := account (mf_packages M) new], t) \<and>
    (\<exists>p q. decodeSwapOwnerArguments (mf_packages M) d = (Returns (Some (p, q, uint_address (mf_packages M) (account (mf_packages M) new))) :: ('f, _) outcome))"
proof -
  let ?E = "mf_packages M" and ?before = "(sentinel # as) ! k"
  have "account ?E old = map (account ?E) as ! k" using account_lower [OF assms(1,6)] assms(5,7) by simp
  then have "exec (swapOwner ?E ?before old new) (map (account ?E) as, t) = Some ((map (account ?E) as)[k := account ?E new], t)"
    using assms(2,5,6,8,9) account_before [OF assms(1,5)] accounts_distinct(1) [OF assms(1,4)] hex_before [OF assms(4,5)] by (auto simp: owner_manager_def)
  moreover have "swap_call M l old new = (Returns (swapOwner ?E ?before old new) :: ('e, _) outcome)"
    using holds_before [OF assms(1,3,4,5,6,7), where ?'a = 'e] by (simp add: swap_call_def)
  moreover have "address_ok ?E ?before" "address_ok ?E old" "address_ok ?E new"
    using hex_address_account(3) [OF assms(1)] assms(6,8) hex_before [OF assms(4,5)] by (simp_all add: address_ok_def)
  note decodeSwapOwner_swapOwner [OF assms(1) this, where ?'a = 'f]
  ultimately show ?thesis using invocation_not_Nil [OF assms(1)] unfolding swapOwner_def by blast
qed

lemma remove_call_executes:
  assumes "packages_ok (mf_packages M)" "owner_manager (mf_packages M) exec" "holds l as" "owners_ok as" "k < length as"
    and "hex_address old" "lower old = as ! k" "1 < length as"
  shows "\<exists>d. remove_call M l old = (Returns d :: ('e, _) outcome) \<and>
    exec d (map (account (mf_packages M)) as, t) = Some (map (account (mf_packages M)) (take k as @ drop (Suc k) as), 1)"
proof -
  let ?E = "mf_packages M" and ?before = "(sentinel # as) ! k"
  define d where "d = invocation ?E ''removeOwner(address,address,uint256)'' [encodeAddress ?E ?before, encodeAddress ?E old, encodeUInt ?E 1]"
  have d: "Abi.removeOwner ?E ?before old 1 = (Returns d :: (unit, _) outcome)" "Abi.removeOwner ?E ?before old 1 = (Returns d :: ('e, _) outcome)"
    by (simp_all add: Abi.removeOwner_def encodeUInt_int_def BigUInt_of_int_def d_def)
  have "account ?E old = map (account ?E) as ! k" using account_lower [OF assms(1,6)] assms(5,7) by simp
  then have "exec d (map (account ?E) as, t) = Some (take k (map (account ?E) as) @ drop (Suc k) (map (account ?E) as), 1)"
    using assms(2,5,6,8) d(1) account_before [OF assms(1,5)] accounts_distinct(1) [OF assms(1,4)] hex_before [OF assms(4,5)]
    by (simp add: owner_manager_def Int_max_def)
  then show ?thesis
    using d(2) holds_before [OF assms(1,3,4,5,6,7), where ?'a = 'e] by (simp add: remove_call_def take_map drop_map)
qed

text \<open>Removing a role takes its one owner.\<close>

lemma mset_remove_role:
  assumes "roles_unique os" "first_with r os = Some o1" "r \<noteq> unknown"
  shows "mset (remove_with r os) = mset os - {#o1#}" "o1 \<in> set os" "owner_role o1 = r"
proof -
  show mem: "o1 \<in> set os" "owner_role o1 = r" using assms(2) by (auto simp: first_with_def find_Some_iff)
  have "filter (\<lambda>x. owner_role x = r) os = [o1]"
    using assms(1,2)
  proof (induction os)
    case (Cons x xs)
    have "filter (\<lambda>y. owner_role y = r) xs = []" if "owner_role x = r" using Cons.prems(1) that assms(3) by (auto simp: roles_unique_def filter_empty_conv image_iff)
    with Cons show ?case by (auto simp: first_with_def roles_unique_def split: if_splits)
  qed (simp add: first_with_def)
  then have "mset os = add_mset o1 (mset (remove_with r os))"
    using multiset_partition [of "mset os" "\<lambda>x. owner_role x = r"] by (simp add: remove_with_def flip: mset_filter)
  then show "mset (remove_with r os) = mset os - {#o1#}" by simp
qed

lemma selected_wallet_save_tx [simp]: "selected_wallet (save_tx tx s) = selected_wallet s"
  by (simp add: selected_wallet_def save_tx_def wallet_with_def split: option.split)

lemma contractProxy_save_tx [simp]: "contractProxy (save_tx tx s) = contractProxy s"
  by (simp add: contractProxy_def)

lemma remoteOwnersList_save_tx [simp]: "remoteOwnersList M A (save_tx tx s) = remoteOwnersList M A s"
  by (simp add: remoteOwnersList_def)

lemma stepBackToDraft_returns:
  assumes "find_tx i s = Some tx" "status tx = TS_draft \<or> status tx = TS_signing"
  shows "\<exists>s0. stepBackToDraft now i s = (Returns s0 :: ('e, _) outcome) \<and> find_tx i s0 = Some (tx\<lparr>status := TS_draft\<rparr>) \<and>
    (s0 = s \<or> s0 = save_tx (tx\<lparr>status := TS_draft\<rparr>) s)"
proof -
  have "tx_id tx = i" using assms(1) find_row_SomeD by (fastforce simp: find_tx_def)
  with assms show ?thesis
    by (cases "status tx = TS_draft") (auto simp: stepBackToDraft_def stepBack_def change_status_def find_tx_save)
qed

text \<open>The operation that puts the final payload into the transaction.\<close>

definition set_payload :: "modifier \<Rightarrow> service_class \<Rightarrow> contract_answers \<Rightarrow> time \<Rightarrow> string \<Rightarrow> string \<Rightarrow> app \<Rightarrow> ('e, app) outcome" where
  "set_payload M K A now i new s = (if K = DisconnectTwoFAService then DisconnectTwoFA_update M A now i s else update M K A now i new s)"

definition payload_data :: "modifier \<Rightarrow> service_class \<Rightarrow> contract_answers \<Rightarrow> string \<Rightarrow> app \<Rightarrow> ('e, data option) outcome" where
  "payload_data M K A new s =
     (if K = DisconnectTwoFAService then Disconnect_realTransactionData M A s else realTransactionData M K A new s)"

lemmas payload_defs = payload_data_def realTransactionData_def ReplaceTwoFA_realTransactionData_def ConnectTwoFA_realTransactionData_def
  Disconnect_realTransactionData_def

lemma payload_data_save_tx [simp]:
  "K \<noteq> ReplaceRecoveryPhraseService \<Longrightarrow> payload_data M K A new (save_tx tx s) = payload_data M K A new s"
  by (cases K) (simp_all add: payload_defs cong: option.case_cong)

lemma set_payload_returns:
  assumes "find_tx i s = Some tx" "status tx = TS_draft \<or> status tx = TS_signing"
    and "K \<in> {ReplaceTwoFAService, ConnectTwoFAService, DisconnectTwoFAService}"
    and "payload_data M K A new s = (Returns d :: ('e, _) outcome)"
  shows "\<exists>s1. set_payload M K A now i new s = (Returns s1 :: ('e, _) outcome) \<and> find_tx i s1 = Some (change_data d now (tx\<lparr>status := TS_draft\<rparr>))"
proof -
  obtain s0 where s0: "stepBackToDraft now i s = (Returns s0 :: ('e, _) outcome)" "find_tx i s0 = Some (tx\<lparr>status := TS_draft\<rparr>)"
    "s0 = s \<or> s0 = save_tx (tx\<lparr>status := TS_draft\<rparr>) s"
    using stepBackToDraft_returns [OF assms(1,2), where ?'e = 'e] by blast
  have "tx_id tx = i" using assms(1) find_row_SomeD by (fastforce simp: find_tx_def)
  moreover have "payload_data M K A new s0 = (Returns d :: ('e, _) outcome)" using s0(3) assms(3,4) payload_data_save_tx by auto
  ultimately show ?thesis
    using s0(1,2) assms(3)
    by (auto simp: set_payload_def update_def ReplaceTwoFA_update_def DisconnectTwoFA_update_def transaction_def payload_data_def find_tx_save edit_defs timestamp_defs)
qed

subsection \<open>The second factor\<close>

definition one_factor :: "Wallet \<Rightarrow> bool" where
  "one_factor w \<longleftrightarrow> Wallet.owner w browserExtension = None \<or> Wallet.owner w keycard = None"

lemma twoFAOwner_role:
  assumes "twoFAOwner w = Some auth"
  shows "first_with (owner_role auth) (owners w) = Some auth" "owner_role auth \<in> {browserExtension, keycard}" "auth \<in> set (owners w)"
  using assms by (auto simp: twoFAOwner_def Wallet.owner_def first_with_def find_Some_iff split: option.splits)

text \<open>What is done to the contract and to the wallet, and that the wallet mirrors the contract afterwards.\<close>

definition replaced :: "Address \<Rightarrow> OwnerRole \<Rightarrow> Wallet \<Rightarrow> Wallet" where
  "replaced b role w =
     Wallet.addOwner \<lparr>owner_address = b, owner_role = role\<rparr> (case twoFAOwner w of None \<Rightarrow> w | Some auth \<Rightarrow> Wallet.removeOwner (owner_role auth) w)"

lemma owners_replaced:
  assumes "twoFAOwner w = Some auth" "one_factor w" "role = browserExtension \<or> role = keycard"
  shows "owners (replaced b role w) = remove_with (owner_role auth) (owners w) @ [\<lparr>owner_address = b, owner_role = role\<rparr>]"
proof -
  have "owner_role x \<noteq> role" if "x \<in> set (remove_with (owner_role auth) (owners w))" for x
  proof
    assume "owner_role x = role"
    with that have x: "x \<in> set (owners w)" "owner_role x = role" "role \<noteq> owner_role auth" by (auto simp: remove_with_def)
    then have "Wallet.owner w role \<noteq> None" by (auto simp: Wallet.owner_def first_with_def find_None_iff)
    moreover have "Wallet.owner w (owner_role auth) \<noteq> None" using twoFAOwner_role(1) [OF assms(1)] by (simp add: Wallet.owner_def)
    ultimately show False using assms(2,3) x(3) twoFAOwner_role(2) [OF assms(1)] by (auto simp: one_factor_def)
  qed
  then show ?thesis
    using assms(1,3) by (auto simp: replaced_def Wallet.addOwner_def Wallet.removeOwner_def remove_with_absent)
qed

lemma mirrors_replaced:
  assumes "mirrors E (os, t) w" "roles_unique (owners w)" "twoFAOwner w = Some auth" "one_factor w" "role = browserExtension \<or> role = keycard"
    and "k < length os" "os ! k = account E (owner_address auth)" "account E b = n"
  shows "mirrors E (os[k := n], t) (replaced b role w)"
proof -
  note r = twoFAOwner_role [OF assms(3)]
  have "mset (remove_with (owner_role auth) (owners w)) = mset (owners w) - {#auth#}" using mset_remove_role [OF assms(2) r(1)] r(2) by auto
  moreover have "confirmationCount (replaced b role w) = confirmationCount w"
    by (simp add: replaced_def Wallet.addOwner_def Wallet.removeOwner_def split: option.split)
  ultimately show ?thesis
    using assms(1,6-8) r(3) owners_replaced [OF assms(3-5)] by (simp add: mirrors_def mset_update image_mset_Diff)
qed

lemma mirrors_connected:
  assumes "mirrors E (os, t) w" "twoFAOwner w = None" "role = browserExtension \<or> role = keycard" "account E b = n"
  shows "mirrors E (n # os, 2) (changeConfirmationCount 2 (replaced b role w))"
proof -
  have "\<forall>x \<in> set (owners w). owner_role x \<noteq> role"
    using assms(2,3) by (auto simp: twoFAOwner_def Wallet.owner_def first_with_def find_None_iff split: option.splits)
  with assms show ?thesis
    by (auto simp: mirrors_def changeConfirmationCount_def replaced_def Wallet.addOwner_def remove_with_absent)
qed

lemma mirrors_disconnected:
  assumes "mirrors E (os, t) w" "roles_unique (owners w)" "twoFAOwner w = Some auth" "k < length os" "os ! k = account E (owner_address auth)"
  shows "mirrors E (take k os @ drop (Suc k) os, 1) (changeConfirmationCount 1 (Wallet.removeOwner (owner_role auth) w))"
proof -
  note r = twoFAOwner_role [OF assms(3)]
  have "mset (take k os @ drop (Suc k) os) = mset os - {#os ! k#}"
    using arg_cong [OF id_take_nth_drop [OF assms(4)], of mset] by simp
  moreover have "mset (remove_with (owner_role auth) (owners w)) = mset (owners w) - {#auth#}" using mset_remove_role [OF assms(2) r(1)] r(2) by auto
  ultimately show ?thesis
    using assms(1,5) r(3) by (simp add: mirrors_def changeConfirmationCount_def Wallet.removeOwner_def image_mset_Diff)
qed

text \<open>The payload of each service, and what the contract makes of it.\<close>

lemma in_step_remote:
  assumes "packages_ok (mf_packages M)" "selected_wallet s = Some w" "address w = Some a"
    and "getOwners (mf_packages M) (ca_eth_call A) a = Returns remote" "in_step (mf_packages M) remote w" "remote \<noteq> []"
  obtains l where "remoteOwnersList M A s = (Returns (Some l) :: ('e, _) outcome)" "holds l (map lower remote)" "owners_ok (map lower remote)"
    "map (account (mf_packages M)) (map lower remote) = map (account (mf_packages M)) remote"
proof -
  have hex: "list_all hex_address remote" using assms(5) by (simp add: in_step_def)
  have "contractProxy s = (Returns a :: ('e, _) outcome)" using assms(2,3) by (simp add: contractProxy_def)
  from remote_list [OF assms(1) this assms(4,6) hex] that show thesis
    using in_step_owners_ok [OF assms(1,5)] map_account_lower [OF assms(1) hex] by blast
qed

lemma remote_not_Nil: "in_step E remote w \<Longrightarrow> o1 \<in> set (owners w) \<Longrightarrow> remote \<noteq> []"
  by (auto simp: in_step_def mirrors_def)

lemma factor_position:
  assumes "packages_ok (mf_packages M)" "holds l (map lower remote)" "in_step (mf_packages M) remote w" "twoFAOwner w = Some auth"
  obtains k where "k < length (map lower remote)" "lower (owner_address auth) = map lower remote ! k" "hex_address (owner_address auth)"
    "map (account (mf_packages M)) remote ! k = account (mf_packages M) (owner_address auth)"
    "ll_contains (mf_packages M) (owner_address auth) l = (Returns True :: ('e, _) outcome)"
proof -
  have mem: "auth \<in> set (owners w)" using twoFAOwner_role(3) [OF assms(4)] .
  then have hex: "hex_address (owner_address auth)" using assms(3) by (auto simp: in_step_def list_all_iff)
  obtain k where k: "k < length remote" "lower (owner_address auth) = map lower remote ! k"
    "account (mf_packages M) (owner_address auth) = map (account (mf_packages M)) remote ! k"
    using owner_position [OF assms(1,3) mem] .
  then have "lower (owner_address auth) \<in> set (map lower remote)" by (metis length_map nth_mem)
  moreover from this have "lower (owner_address auth) \<noteq> sentinel" using in_step_owners_ok [OF assms(1,3)] unfolding owners_ok_def by blast
  ultimately show thesis using that k hex holds_contains [OF assms(1,2) hex, where ?'a = 'e] by simp
qed

lemma replace_payload:
  assumes "packages_ok (mf_packages M)" "owner_manager (mf_packages M) exec" "selected_wallet s = Some w" "address w = Some a"
    and "getOwners (mf_packages M) (ca_eth_call A) a = Returns remote" "in_step (mf_packages M) remote w" "twoFAOwner w = Some auth"
    and "hex_address (Address new)" "fresh (account (mf_packages M) (Address new)) (map (account (mf_packages M)) remote)"
  shows "\<exists>d k p q. payload_data M ReplaceTwoFAService A new s = (Returns (Some d) :: ('e, _) outcome) \<and>
    k < length remote \<and> map (account (mf_packages M)) remote ! k = account (mf_packages M) (owner_address auth) \<and>
    exec d (map (account (mf_packages M)) remote, t) = Some ((map (account (mf_packages M)) remote)[k := account (mf_packages M) (Address new)], t) \<and>
    decodeSwapOwnerArguments (mf_packages M) d = (Returns (Some (p, q, uint_address (mf_packages M) (account (mf_packages M) (Address new)))) :: ('f, _) outcome)"
proof -
  let ?E = "mf_packages M"
  obtain l where l: "remoteOwnersList M A s = (Returns (Some l) :: ('e, _) outcome)" "holds l (map lower remote)" "owners_ok (map lower remote)"
    "map (account ?E) (map lower remote) = map (account ?E) remote"
    using in_step_remote [OF assms(1,3-6) remote_not_Nil [OF assms(6) twoFAOwner_role(3) [OF assms(7)]]] .
  obtain k where k: "k < length (map lower remote)" "lower (owner_address auth) = map lower remote ! k" "hex_address (owner_address auth)"
    "map (account ?E) remote ! k = account ?E (owner_address auth)" "ll_contains ?E (owner_address auth) l = (Returns True :: ('e, _) outcome)"
    using factor_position [OF assms(1) l(2) assms(6,7), where ?'e = 'e] .
  obtain d p q where d: "swap_call M l (owner_address auth) (Address new) = (Returns d :: ('e, _) outcome)"
    "exec d (map (account ?E) remote, t) = Some ((map (account ?E) remote)[k := account ?E (Address new)], t)"
    "decodeSwapOwnerArguments ?E d = (Returns (Some (p, q, uint_address ?E (account ?E (Address new)))) :: ('f, _) outcome)"
    using swap_call_executes [OF assms(1,2) l(2,3) k(1,3,2) assms(8), of t, where ?'e = 'e and ?'f = 'f] assms(9) unfolding l(4) by blast
  have "Address_init ?E new = (Returns (Address new) :: ('e, _) outcome)" using hex_address_init [OF assms(1,8)] by simp
  then have "payload_data M ReplaceTwoFAService A new s = (Returns (Some d) :: ('e, _) outcome)"
    using assms(3,7) l(1) k(5) d(1) by (simp add: payload_defs)
  with d(2,3) k(1,4) show ?thesis by auto
qed

lemma connect_payload:
  assumes "packages_ok (mf_packages M)" "owner_manager (mf_packages M) exec" "selected_wallet s = Some w" "address w = Some a"
    and "in_step (mf_packages M) remote w" "owners w \<noteq> []"
    and "hex_address (Address new)" "fresh (account (mf_packages M) (Address new)) (map (account (mf_packages M)) remote)"
  shows "\<exists>d. payload_data M ConnectTwoFAService A new s = (Returns (Some d) :: ('e, _) outcome) \<and>
    exec d (map (account (mf_packages M)) remote, t) = Some (account (mf_packages M) (Address new) # map (account (mf_packages M)) remote, 2) \<and>
    decodeAddOwnerArguments (mf_packages M) d = (Returns (Some (uint_address (mf_packages M) (account (mf_packages M) (Address new)), 2)) :: ('f, _) outcome)"
proof -
  let ?E = "mf_packages M"
  define d where "d = invocation ?E addOwner_selector [encodeAddress ?E (Address new), encodeUInt ?E 2]"
  have d: "Abi.addOwner ?E (Address new) 2 = (Returns d :: (unit, _) outcome)" "Abi.addOwner ?E (Address new) 2 = (Returns d :: ('e, _) outcome)"
    "Abi.addOwner ?E (Address new) 2 = (Returns d :: ('f, _) outcome)"
    by (simp_all add: Abi.addOwner_def encodeUInt_int_def BigUInt_of_int_def d_def)
  have "remote \<noteq> []" using assms(5,6) remote_not_Nil [of ?E remote w "hd (owners w)"] by auto
  then have "2 \<le> int (length (map (account ?E) remote)) + 1" by (cases remote) simp_all
  moreover have "distinct (map (account ?E) remote)" using assms(5) by (simp add: in_step_def)
  ultimately have "exec d (map (account ?E) remote, t) = Some (account ?E (Address new) # map (account ?E) remote, 2)"
    using assms(2,7,8) d(1) unfolding owner_manager_def by (simp add: Int_max_def)
  moreover have "address_ok ?E (Address new)" using hex_address_account(3) [OF assms(1,7)] by (simp add: address_ok_def)
  from decodeAddOwner_addOwner [OF assms(1) this, of 2, where ?'a = 'f]
  have "decodeAddOwnerArguments ?E d = (Returns (Some (uint_address ?E (account ?E (Address new)), 2)) :: ('f, _) outcome)"
    using d(3) by (simp add: Int_max_def)
  ultimately show ?thesis
    using assms(3,4) d(2) hex_address_init [OF assms(1,7), where ?'a = 'e] by (simp add: payload_defs contractProxy_def)
qed

lemma disconnect_payload:
  assumes "packages_ok (mf_packages M)" "owner_manager (mf_packages M) exec" "selected_wallet s = Some w" "address w = Some a"
    and "getOwners (mf_packages M) (ca_eth_call A) a = Returns remote" "in_step (mf_packages M) remote w" "twoFAOwner w = Some auth" "1 < length (owners w)"
  shows "\<exists>d k. payload_data M DisconnectTwoFAService A new s = (Returns (Some d) :: ('e, _) outcome) \<and>
    k < length remote \<and> map (account (mf_packages M)) remote ! k = account (mf_packages M) (owner_address auth) \<and>
    exec d (map (account (mf_packages M)) remote, t) =
      Some (take k (map (account (mf_packages M)) remote) @ drop (Suc k) (map (account (mf_packages M)) remote), 1)"
proof -
  let ?E = "mf_packages M"
  obtain l where l: "remoteOwnersList M A s = (Returns (Some l) :: ('e, _) outcome)" "holds l (map lower remote)" "owners_ok (map lower remote)"
    "map (account ?E) (map lower remote) = map (account ?E) remote"
    using in_step_remote [OF assms(1,3-6) remote_not_Nil [OF assms(6) twoFAOwner_role(3) [OF assms(7)]]] .
  obtain k where k: "k < length (map lower remote)" "lower (owner_address auth) = map lower remote ! k" "hex_address (owner_address auth)"
    "map (account ?E) remote ! k = account ?E (owner_address auth)" "ll_contains ?E (owner_address auth) l = (Returns True :: ('e, _) outcome)"
    using factor_position [OF assms(1) l(2) assms(6,7), where ?'e = 'e] .
  have "length remote = length (owners w)" using assms(6) unfolding in_step_def mirrors_def by (metis fst_conv length_map size_mset)
  then have "1 < length (map lower remote)" using assms(8) by simp
  from remove_call_executes [OF assms(1,2) l(2,3) k(1,3,2) this, of t, where ?'e = 'e]
  obtain d where "remove_call M l (owner_address auth) = (Returns d :: ('e, _) outcome)"
    "exec d (map (account ?E) remote, t) = Some (take k (map (account ?E) remote) @ drop (Suc k) (map (account ?E) remote), 1)"
    unfolding l(4) map_append take_map [symmetric] drop_map [symmetric] by blast
  with assms(3,7) l(1) k show ?thesis by (auto simp: payload_defs)
qed

text \<open>
  \<open>executed\<close>: the transaction \<open>i\<close> with the payload \<open>d\<close> was executed, \<open>w\<close> is the wallet it belongs to, and a wallet with an address is selected.
  \<open>unpaired\<close>: the notification service deletes the pairing of the old second device, if there is one.
\<close>

definition executed :: "TransactionType list \<Rightarrow> string \<Rightarrow> data \<Rightarrow> Wallet \<Rightarrow> deployment \<Rightarrow> bool" where
  "executed types i d w s \<longleftrightarrow>
     (\<exists>tx. find_tx i (dep_app s) = Some tx \<and> tx_data tx = Some d \<and> tx_type tx \<in> set types \<and> status tx = TS_success \<and>
       AccountID_walletID (tx_accountID tx) = (Returns (wallet_id w) :: (ModificationError, _) outcome)) \<and>
     wallet_with (wallet_id w) (dep_app s) = Some w \<and> (\<exists>b. contractProxy (dep_app s) = (Returns b :: (ModificationError, _) outcome))"

definition unpaired :: "modifier \<Rightarrow> Wallet \<Rightarrow> app \<Rightarrow> bool" where
  "unpaired M w s \<longleftrightarrow>
     (\<forall>auth. twoFAOwner w = Some auth \<and> owner_role auth = browserExtension \<longrightarrow>
        deletePair M (wallet_id w) (address_value (owner_address auth)) s = Returns ())"

lemma unregister_parts [simp]:
  "dep_app (unregisterPostProcessing i s) = dep_app s" "find_row mon_transactionID i (monitors (unregisterPostProcessing i s)) = None"
proof -
  show "dep_app (unregisterPostProcessing i s) = dep_app s" by (simp add: unregisterPostProcessing_def split: option.split)
  show "find_row mon_transactionID i (monitors (unregisterPostProcessing i s)) = None"
    using find_row_SomeD [of mon_transactionID i] by (fastforce simp: unregisterPostProcessing_def find_row_delete split: option.split)
qed

lemma executed_processed:
  assumes "executed types i d w s"
  obtains tx where "processed types i (dep_app s) = (Returns (Some (tx, w)) :: (ModificationError, _) outcome)" "status tx = TS_success"
    "tx_type tx \<in> set types" "find_tx i (dep_app s) = Some tx" "tx_data tx = Some d"
  using assms by (auto simp: executed_def processed_def)

lemma removeOldTwoFAOwner_unpaired:
  assumes "unpaired M w (dep_app s)"
  shows "removeOldTwoFAOwner M w (dep_app s) = Returns (case twoFAOwner w of None \<Rightarrow> w | Some auth \<Rightarrow> Wallet.removeOwner (owner_role auth) w)"
  using assms by (auto simp: removeOldTwoFAOwner_def unpaired_def split: option.split)

lemma encryption_address_account:
  assumes "packages_ok (env_packages V)" "eip55_ok V" "n < 256 ^ 20"
  shows "\<exists>b. encryption_address_from V (address_value (uint_address (env_packages V) n)) = (Returns (Some b) :: ('e, _) outcome) \<and> hex_address b \<and> account (env_packages V) b = n"
proof -
  have hex: "hex_address (uint_address (env_packages V) n)" using length_be_bytes by (simp add: hex_address_def uint_address_def)
  with encryption_address_hex [OF assms(1,2), of "address_value (uint_address (env_packages V) n)", where ?'e = 'e]
  show ?thesis using lower_eq_iff [OF assms(1)] account_uint_address [OF assms(1,3)] by (metis Address.collapse)
qed

lemma add_new_owner_returns:
  assumes "packages_ok (mf_packages M)" "eip55_ok (mf_env M)" "n < 256 ^ 20"
  shows "\<exists>b. add_new_owner M (address_value (uint_address (mf_packages M) n)) role w =
      (Returns (Wallet.addOwner \<lparr>owner_address = b, owner_role = role\<rparr> w) :: ('e, _) outcome) \<and>
    hex_address b \<and> account (mf_packages M) b = n"
  using encryption_address_account [OF assms, where ?'e = 'e] by (auto simp: add_new_owner_def)

lemma notify_created_returns: "signing_works (mf_services M) (dep_app s) \<Longrightarrow> notify_created M i s = Returns s"
  using notifyWalletCreatedIfNeeded_works [of "mf_services M" "dep_app s" i] by (simp add: notify_created_def split: outcome.split)

lemma signing_works_saved: "signing_works S (save_wallet w s) = signing_works S s"
  by (simp add: signing_works_def save_wallet_def save_def)

lemma replace_postProcess:
  assumes "packages_ok (mf_packages M)" "eip55_ok (mf_env M)" "signing_works (mf_services M) (dep_app s)" "executed (postProcessTypes ReplaceTwoFAService) i d w s" "unpaired M w (dep_app s)"
    and "decodeSwapOwnerArguments (mf_packages M) d = (Returns (Some (p, q, uint_address (mf_packages M) n)) :: (ModificationError, _) outcome)" "n < 256 ^ 20"
  shows "\<exists>b role. postProcess M ReplaceTwoFAService i s = Returns (unregisterPostProcessing i (on_app (save_wallet (replaced b role w)) s)) \<and>
    hex_address b \<and> account (mf_packages M) b = n \<and> (role = browserExtension \<or> role = keycard)"
proof -
  obtain tx where tx: "processed (postProcessTypes ReplaceTwoFAService) i (dep_app s) = (Returns (Some (tx, w)) :: (ModificationError, _) outcome)"
    "status tx = TS_success" "tx_type tx \<in> set (postProcessTypes ReplaceTwoFAService)" "find_tx i (dep_app s) = Some tx" "tx_data tx = Some d"
    using executed_processed [OF assms(4)] .
  then obtain role where role: "correspondingOwnerRole (tx_type tx) = Some role" "role = browserExtension \<or> role = keycard" by auto
  obtain c where "contractProxy (dep_app s) = (Returns c :: (ModificationError, _) outcome)" using assms(4) by (auto simp: executed_def)
  then have new: "newOwnerAddress M ReplaceTwoFAService i (dep_app s) = (Returns (Some (address_value (uint_address (mf_packages M) n))) :: (ModificationError, _) outcome)"
    using tx(4,5) assms(6) by (simp add: newOwnerAddress_def transaction_def)
  let ?w1 = "case twoFAOwner w of None \<Rightarrow> w | Some auth \<Rightarrow> Wallet.removeOwner (owner_role auth) w"
  obtain b where b: "add_new_owner M (address_value (uint_address (mf_packages M) n)) role ?w1 = (Returns (replaced b role w) :: (ModificationError, _) outcome)"
    "hex_address b" "account (mf_packages M) b = n"
    using add_new_owner_returns [OF assms(1,2,7), of role ?w1, where ?'e = ModificationError] unfolding replaced_def by blast
  then have "postProcess M ReplaceTwoFAService i s = Returns (unregisterPostProcessing i (on_app (save_wallet (replaced b role w)) s))"
    using tx(1,2) new role(1) removeOldTwoFAOwner_unpaired [OF assms(5)]
    by (simp add: notify_created_returns signing_works_saved assms(3) postProcess_def ReplaceTwoFA_postProcess_def ReplaceTwoFA_processSuccess_def)
  with b(2,3) role(2) show ?thesis by blast
qed

lemma connect_postProcess:
  assumes "packages_ok (mf_packages M)" "eip55_ok (mf_env M)" "signing_works (mf_services M) (dep_app s)" "executed (postProcessTypes ConnectTwoFAService) i d w s"
    and "twoFAOwner w = None"
    and "decodeAddOwnerArguments (mf_packages M) d = (Returns (Some (uint_address (mf_packages M) n, t)) :: (ModificationError, _) outcome)" "n < 256 ^ 20"
  shows "\<exists>b role w1. postProcess M ConnectTwoFAService i s =
      Returns (unregisterPostProcessing i (on_app (save_wallet (changeConfirmationCount 2 (replaced b role w))) (on_app (save_wallet w1) s))) \<and> wallet_id w1 = wallet_id w \<and>
    hex_address b \<and> account (mf_packages M) b = n \<and> (role = browserExtension \<or> role = keycard)"
proof -
  obtain tx where tx: "processed (postProcessTypes ConnectTwoFAService) i (dep_app s) = (Returns (Some (tx, w)) :: (ModificationError, _) outcome)"
    "status tx = TS_success" "tx_type tx \<in> set (postProcessTypes ConnectTwoFAService)" "find_tx i (dep_app s) = Some tx" "tx_data tx = Some d"
    using executed_processed [OF assms(4)] .
  then obtain role where role: "correspondingOwnerRole (tx_type tx) = Some role" "role = browserExtension \<or> role = keycard" by auto
  obtain c where "contractProxy (dep_app s) = (Returns c :: (ModificationError, _) outcome)" using assms(4) by (auto simp: executed_def)
  then have new: "newOwnerAddress M ConnectTwoFAService i (dep_app s) = (Returns (Some (address_value (uint_address (mf_packages M) n))) :: (ModificationError, _) outcome)"
    using tx(4,5) assms(6) by (simp add: newOwnerAddress_def transaction_def)
  obtain b where b: "add_new_owner M (address_value (uint_address (mf_packages M) n)) role w = (Returns (replaced b role w) :: (ModificationError, _) outcome)"
    "hex_address b" "account (mf_packages M) b = n"
    using add_new_owner_returns [OF assms(1,2,7), of role w, where ?'e = ModificationError] assms(5) by (auto simp: replaced_def)
  moreover have "wallet_id (replaced b role w) = wallet_id w" using assms(5) by (simp add: replaced_def Wallet.addOwner_def)
  ultimately show ?thesis
    using tx(1,2) new role
    by (auto simp: notify_created_returns signing_works_saved assms(3) postProcess_def ReplaceTwoFA_postProcess_def ConnectTwoFA_processSuccess_def Let_def)
qed

lemma disconnect_postProcess:
  assumes "executed (postProcessTypes DisconnectTwoFAService) i d w s" "unpaired M w (dep_app s)" "twoFAOwner w = Some auth"
  shows "postProcess M DisconnectTwoFAService i s =
    Returns (unregisterPostProcessing i (on_app (save_wallet (changeConfirmationCount 1 (Wallet.removeOwner (owner_role auth) w))) s))"
proof -
  obtain tx where "processed (postProcessTypes DisconnectTwoFAService) i (dep_app s) = (Returns (Some (tx, w)) :: (ModificationError, _) outcome)" "status tx = TS_success"
    using executed_processed [OF assms(1)] .
  with removeOldTwoFAOwner_unpaired [OF assms(2)] assms(3) show ?thesis by (simp add: postProcess_def DisconnectTwoFA_postProcess_def)
qed

text \<open>The entry of the transaction is gone, the wallet mirrors the contract \<open>c\<close>, and no other wallet has changed.\<close>

definition followed :: "packages \<Rightarrow> string \<Rightarrow> nat list \<times> int \<Rightarrow> WalletID \<Rightarrow> deployment \<Rightarrow> deployment \<Rightarrow> bool" where
  "followed E i c j s s' \<longleftrightarrow>
     (\<exists>w'. wallet_with j (dep_app s') = Some w' \<and> mirrors E c w') \<and> find_row mon_transactionID i (monitors s') = None \<and>
     (\<forall>k. k \<noteq> j \<longrightarrow> wallet_with k (dep_app s') = wallet_with k (dep_app s))"

lemma followed_save:
  assumes "mirrors E c w'" "wallet_id w' = j"
  shows "followed E i c j s (unregisterPostProcessing i (on_app (save_wallet w') s))"
  using assms by (auto simp: followed_def)

lemma followed_save_twice:
  assumes "mirrors E c w'" "wallet_id w' = j" "wallet_id w1 = j"
  shows "followed E i c j s (unregisterPostProcessing i (on_app (save_wallet w') (on_app (save_wallet w1) s)))"
  using assms by (auto simp: followed_def)

lemma same_owners:
  assumes "owners w2 = owners w"
  shows "twoFAOwner w2 = twoFAOwner w" "one_factor w2 = one_factor w" "confirmationCount w2 = confirmationCount w \<Longrightarrow> mirrors E c w2 = mirrors E c w"
  using assms by (simp_all add: twoFAOwner_def one_factor_def Wallet.owner_def mirrors_def split: option.split)

lemma wallet_id_replaced [simp]: "wallet_id (replaced b role w) = wallet_id w"
  by (simp add: replaced_def Wallet.addOwner_def Wallet.removeOwner_def split: option.split)

text \<open>Once the payload \<open>d\<close> is executed, processing makes a wallet that still has the owners of \<open>w\<close> mirror the contract \<open>c\<close>.\<close>

definition catches_up :: "modifier \<Rightarrow> service_class \<Rightarrow> string \<Rightarrow> data \<Rightarrow> nat list \<times> int \<Rightarrow> Wallet \<Rightarrow> bool" where
  "catches_up M K i d c w \<longleftrightarrow>
     (\<forall>s2 w2. wallet_id w2 = wallet_id w \<and> owners w2 = owners w \<and> confirmationCount w2 = confirmationCount w \<and> executed (postProcessTypes K) i d w2 s2 \<and> unpaired M w2 (dep_app s2) \<and> signing_works (mf_services M) (dep_app s2) \<longrightarrow>
       (\<exists>s3. postProcess M K i s2 = Returns s3 \<and> followed (mf_packages M) i c (wallet_id w) s2 s3))"

lemma connect_catches_up:
  assumes "packages_ok (mf_packages M)" "eip55_ok (mf_env M)" "twoFAOwner w = None" "mirrors (mf_packages M) (os, t) w"
    and "decodeAddOwnerArguments (mf_packages M) d = (Returns (Some (uint_address (mf_packages M) n, 2)) :: (ModificationError, _) outcome)" "n < 256 ^ 20"
  shows "catches_up M ConnectTwoFAService i d (n # os, 2) w"
  unfolding catches_up_def
proof (intro allI impI; elim conjE)
  fix s2 w2
  assume w2: "wallet_id w2 = wallet_id w" "owners w2 = owners w" "confirmationCount w2 = confirmationCount w"
    and x: "executed (postProcessTypes ConnectTwoFAService) i d w2 s2" "unpaired M w2 (dep_app s2)" "signing_works (mf_services M) (dep_app s2)"
  have two: "twoFAOwner w2 = None" "mirrors (mf_packages M) (os, t) w2" using assms(3,4) same_owners [OF w2(2)] w2(3) by auto
  from connect_postProcess [OF assms(1,2) x(3,1) two(1) assms(5,6)]
  obtain b role w1 where p: "postProcess M ConnectTwoFAService i s2 =
      Returns (unregisterPostProcessing i (on_app (save_wallet (changeConfirmationCount 2 (replaced b role w2))) (on_app (save_wallet w1) s2)))"
    "wallet_id w1 = wallet_id w2" "account (mf_packages M) b = n" "role = browserExtension \<or> role = keycard" by blast
  from followed_save_twice [OF mirrors_connected [OF two(2,1) p(4,3)], of "wallet_id w" w1 i s2] p(1,2) w2(1)
  show "\<exists>s3. postProcess M ConnectTwoFAService i s2 = Returns s3 \<and> followed (mf_packages M) i (n # os, 2) (wallet_id w) s2 s3"
    by (simp add: changeConfirmationCount_def)
qed

lemma replace_catches_up:
  assumes "packages_ok (mf_packages M)" "eip55_ok (mf_env M)" "twoFAOwner w = Some auth" "one_factor w" "roles_unique (owners w)"
    and "mirrors (mf_packages M) (os, t) w" "k < length os" "os ! k = account (mf_packages M) (owner_address auth)"
    and "decodeSwapOwnerArguments (mf_packages M) d = (Returns (Some (p, q, uint_address (mf_packages M) n)) :: (ModificationError, _) outcome)" "n < 256 ^ 20"
  shows "catches_up M ReplaceTwoFAService i d (os[k := n], t) w"
  unfolding catches_up_def
proof (intro allI impI; elim conjE)
  fix s2 w2
  assume w2: "wallet_id w2 = wallet_id w" "owners w2 = owners w" "confirmationCount w2 = confirmationCount w"
    and x: "executed (postProcessTypes ReplaceTwoFAService) i d w2 s2" "unpaired M w2 (dep_app s2)" "signing_works (mf_services M) (dep_app s2)"
  have two: "mirrors (mf_packages M) (os, t) w2" "roles_unique (owners w2)" "twoFAOwner w2 = Some auth" "one_factor w2"
    using assms(3-6) same_owners [OF w2(2)] w2(2,3) by auto
  from replace_postProcess [OF assms(1,2) x(3,1,2) assms(9,10)]
  obtain b role where p: "postProcess M ReplaceTwoFAService i s2 = Returns (unregisterPostProcessing i (on_app (save_wallet (replaced b role w2)) s2))"
    "account (mf_packages M) b = n" "role = browserExtension \<or> role = keycard" by blast
  from followed_save [OF mirrors_replaced [OF two p(3) assms(7,8) p(2)], of "wallet_id w" i s2] p(1) w2(1)
  show "\<exists>s3. postProcess M ReplaceTwoFAService i s2 = Returns s3 \<and> followed (mf_packages M) i (os[k := n], t) (wallet_id w) s2 s3" by simp
qed

lemma disconnect_catches_up:
  assumes "twoFAOwner w = Some auth" "roles_unique (owners w)" "mirrors (mf_packages M) (os, t) w" "k < length os" "os ! k = account (mf_packages M) (owner_address auth)"
  shows "catches_up M DisconnectTwoFAService i d (take k os @ drop (Suc k) os, 1) w"
  unfolding catches_up_def
proof (intro allI impI; elim conjE)
  fix s2 w2
  assume w2: "wallet_id w2 = wallet_id w" "owners w2 = owners w" "confirmationCount w2 = confirmationCount w"
    and x: "executed (postProcessTypes DisconnectTwoFAService) i d w2 s2" "unpaired M w2 (dep_app s2)" "signing_works (mf_services M) (dep_app s2)"
  have two: "mirrors (mf_packages M) (os, t) w2" "roles_unique (owners w2)" "twoFAOwner w2 = Some auth"
    using assms(1-3) same_owners [OF w2(2)] w2(2,3) by auto
  from followed_save [OF mirrors_disconnected [OF two assms(4,5)], of "wallet_id w" i s2] disconnect_postProcess [OF x(1,2) two(3)] w2(1)
  show "\<exists>s3. postProcess M DisconnectTwoFAService i s2 = Returns s3 \<and> followed (mf_packages M) i (take k os @ drop (Suc k) os, 1) (wallet_id w) s2 s3"
    by (simp add: changeConfirmationCount_def Wallet.removeOwner_def)
qed

text \<open>
  (C8) When the wallet has the owners and the threshold of the contract, then replacing, connecting or disconnecting the second factor keeps it that way. The
  payload is always set, and it is a call that the owner manager of the contract accepts, leading to owners and threshold \<open>c\<close>. Whenever the
  transaction has been executed, the owners of the stored wallet are still those of before, the old second device could be unpaired and the stored keys sign, processing returns, the stored wallet has
  exactly the owners and the threshold \<open>c\<close>, the transaction is no longer monitored and no other wallet has changed.
\<close>

theorem second_factor_follows_contract:
  fixes M s w remote
  defines "c0 \<equiv> (map (account (mf_packages M)) remote, confirmationCount w)"
  assumes "packages_ok (mf_packages M)" "eip55_ok (mf_env M)" "owner_manager (mf_packages M) exec"
    and "selected_wallet s = Some w" "address w = Some a" "getOwners (mf_packages M) (ca_eth_call A) a = Returns remote" "in_step (mf_packages M) remote w"
    and "1 < length (owners w)" "one_factor w" "hasAuthenticator w \<longleftrightarrow> K \<noteq> ConnectTwoFAService"
    and "K \<in> {ReplaceTwoFAService, ConnectTwoFAService, DisconnectTwoFAService}"
    and "hex_address (Address new)" "fresh (account (mf_packages M) (Address new)) (map (account (mf_packages M)) remote)"
    and "find_tx i s = Some tx" "status tx = TS_draft \<or> status tx = TS_signing"
  shows "\<exists>s1 d c. set_payload M K A now i new s = (Returns s1 :: (unit, _) outcome) \<and> map_option tx_data (find_tx i s1) = Some (Some d) \<and> exec d c0 = Some c \<and>
    (\<forall>s2 w2. wallet_id w2 = wallet_id w \<and> owners w2 = owners w \<and> confirmationCount w2 = confirmationCount w \<and> executed (postProcessTypes K) i d w2 s2 \<and> unpaired M w2 (dep_app s2) \<and> signing_works (mf_services M) (dep_app s2) \<longrightarrow>
      (\<exists>s3. postProcess M K i s2 = Returns s3 \<and> followed (mf_packages M) i c (wallet_id w) s2 s3))"
proof -
  let ?E = "mf_packages M" and ?n = "account (mf_packages M) (Address new)"
  have n: "?n < 256 ^ 20" using hex_address_account(2) [OF assms(2,13)] .
  have roles: "roles_unique (owners w)" and m: "mirrors ?E (map (account ?E) remote, confirmationCount w) w" using assms(8) by (auto simp: in_step_def)
  have "\<exists>d c. payload_data M K A new s = (Returns (Some d) :: (unit, _) outcome) \<and> exec d c0 = Some c \<and> catches_up M K i d c w"
  proof (cases "twoFAOwner w")
    case None
    then have "K = ConnectTwoFAService" using assms(11) by (auto simp: hasAuthenticator_def twoFAOwner_def split: option.splits)
    moreover have "owners w \<noteq> []" using assms(9) by auto
    ultimately show ?thesis
      using connect_payload [OF assms(2,4-6,8) _ assms(13,14), of A "confirmationCount w", where ?'e = unit and ?'f = ModificationError]
        connect_catches_up [OF assms(2,3) None m _ n] unfolding c0_def by blast
  next
    case (Some auth)
    then have "hasAuthenticator w" by (auto simp: hasAuthenticator_def twoFAOwner_def split: option.splits)
    with assms(11,12) consider (replace) "K = ReplaceTwoFAService" | (disconnect) "K = DisconnectTwoFAService" by blast
    then show ?thesis
    proof cases
      case replace
      then show ?thesis
        using replace_payload [OF assms(2,4-8) Some assms(13,14), of "confirmationCount w", where ?'e = unit and ?'f = ModificationError]
          replace_catches_up [OF assms(2,3) Some assms(10) roles m _ _ _ n] unfolding c0_def length_map by blast
    next
      case disconnect
      then show ?thesis
        using disconnect_payload [OF assms(2,4-8) Some assms(9), of new "confirmationCount w", where ?'e = unit]
          disconnect_catches_up [OF Some roles m] unfolding c0_def length_map by blast
    qed
  qed
  then obtain d c where dc: "payload_data M K A new s = (Returns (Some d) :: (unit, _) outcome)" "exec d c0 = Some c" "catches_up M K i d c w" by blast
  obtain s1 where "set_payload M K A now i new s = (Returns s1 :: (unit, _) outcome)" "map_option tx_data (find_tx i s1) = Some (Some d)"
    using set_payload_returns [OF assms(15,16,12) dc(1), of now] by (auto simp: change_data_def timestamp_defs)
  with dc(2,3) show ?thesis unfolding catches_up_def by blast
qed

subsection \<open>The recovery phrase\<close>

lemma in_step_inj:
  assumes "in_step E remote w"
  shows "inj_on (\<lambda>o1. account E (owner_address o1)) (set (owners w))"
    and "(\<lambda>o1. account E (owner_address o1)) ` set (owners w) = account E ` set remote"
proof -
  have m: "mset (map (account E) remote) = mset (map (\<lambda>o1. account E (owner_address o1)) (owners w))" and d: "distinct (map (account E) remote)"
    using assms by (simp_all add: in_step_def mirrors_def)
  show "inj_on (\<lambda>o1. account E (owner_address o1)) (set (owners w))"
    using mset_eq_imp_distinct_iff [OF m] d by (simp add: distinct_map)
  show "(\<lambda>o1. account E (owner_address o1)) ` set (owners w) = account E ` set remote"
    using mset_eq_setD [OF m] by simp
qed

lemma lower_remote:
  assumes "packages_ok E" "in_step E remote w"
  shows "set (map lower remote) = (\<lambda>o1. lower (owner_address o1)) ` set (owners w)"
    and "o1 \<in> set (owners w) \<Longrightarrow> o2 \<in> set (owners w) \<Longrightarrow> lower (owner_address o1) = lower (owner_address o2) \<Longrightarrow> o1 = o2"
proof -
  have hex: "\<And>a. a \<in> set remote \<Longrightarrow> hex_address a" "\<And>x. x \<in> set (owners w) \<Longrightarrow> hex_address (owner_address x)"
    using assms(2) by (auto simp: in_step_def list_all_iff)
  show "o1 = o2" if "o1 \<in> set (owners w)" "o2 \<in> set (owners w)" "lower (owner_address o1) = lower (owner_address o2)"
    using that hex(2) lower_eq_iff [OF assms(1)] in_step_inj(1) [OF assms(2)] by (auto dest: inj_onD)
  show "set (map lower remote) = (\<lambda>o1. lower (owner_address o1)) ` set (owners w)"
  proof (intro set_eqI iffI)
    fix a assume "a \<in> set (map lower remote)"
    then obtain r where r: "r \<in> set remote" "a = lower r" by auto
    then have "account E r \<in> (\<lambda>o1. account E (owner_address o1)) ` set (owners w)" unfolding in_step_inj(2) [OF assms(2)] by simp
    then obtain x where "x \<in> set (owners w)" "account E r = account E (owner_address x)" by auto
    moreover from this r hex have "lower r = lower (owner_address x)" using lower_eq_iff [OF assms(1)] by simp
    ultimately show "a \<in> (\<lambda>o1. lower (owner_address o1)) ` set (owners w)" using r(2) by (intro image_eqI) simp_all
  next
    fix a assume "a \<in> (\<lambda>o1. lower (owner_address o1)) ` set (owners w)"
    then obtain x where x: "x \<in> set (owners w)" "a = lower (owner_address x)" by auto
    then have "account E (owner_address x) \<in> account E ` set remote" unfolding in_step_inj(2) [OF assms(2), symmetric] by simp
    then obtain r where "r \<in> set remote" "account E (owner_address x) = account E r" by auto
    moreover from this x hex have "lower (owner_address x) = lower r" using lower_eq_iff [OF assms(1)] by simp
    ultimately show "a \<in> set (map lower remote)" using x(2) by simp
  qed
qed

text \<open>The wallet has the two accounts of the phrase, and no other owners than those, the device and a second factor.\<close>

definition phrase_wallet :: "Owner \<Rightarrow> Owner \<Rightarrow> Wallet \<Rightarrow> bool" where
  "phrase_wallet paper derived w \<longleftrightarrow>
     Wallet.owner w paperWallet = Some paper \<and> Wallet.owner w paperWalletDerived = Some derived \<and>
     owner_role ` set (owners w) \<subseteq> {thisDevice, browserExtension, keycard, paperWallet, paperWalletDerived}"

definition set_order_ok :: "modifier \<Rightarrow> bool" where
  "set_order_ok M \<longleftrightarrow> (\<forall>xs. mset (mf_setOrder M xs) = mset xs)"

lemma role_owner:
  assumes "in_step E remote w" "x \<in> set (owners w)"
  shows "Wallet.owner w (owner_role x) = Some x"
  using assms known_owner_unique [of w x] by (auto simp: in_step_def known_owners_def list_all_iff)

lemma owner_in_owners: "Wallet.owner w r = Some x \<Longrightarrow> x \<in> set (owners w) \<and> owner_role x = r"
  by (auto simp: Wallet.owner_def first_with_def find_Some_iff)

lemma modifiable_phrase_owners:
  assumes "packages_ok (mf_packages M)" "in_step (mf_packages M) remote w" "holds l (map lower remote)" "phrase_wallet paper derived w" "set_order_ok M"
  obtains o1 o2 where "modifiableOwners M w l = (Returns [o1, o2] :: ('e, _) outcome)" "{o1, o2} = {lower (owner_address paper), lower (owner_address derived)}" "o1 \<noteq> o2"
proof -
  let ?E = "mf_packages M" and ?ro = "map (\<lambda>role. map_option (\<lambda>x. lower (owner_address x)) (Wallet.owner w role)) [thisDevice, browserExtension, keycard]"
  have hex: "hex_address (owner_address x)" if "Wallet.owner w r = Some x" for r x
    using assms(2) owner_in_owners [OF that] by (auto simp: in_step_def list_all_iff)
  have "(case Wallet.owner w r of None \<Rightarrow> Returns None | Some o1 \<Rightarrow> bindO (normalized ?E (owner_address o1)) (\<lambda>a. Returns (Some a))) =
      (Returns (map_option (\<lambda>x. lower (owner_address x)) (Wallet.owner w r)) :: ('e, _) outcome)" for r
    using hex [of r] by (cases "Wallet.owner w r") (simp_all add: normalized_hex [OF assms(1)])
  then have "modifiableOwners M w l = (Returns (mf_setOrder M (remdups (filter (\<lambda>a. Some a \<notin> set ?ro) (map lower remote)))) :: ('e, _) outcome)"
    using holds_contents(1) [OF assms(1,3) in_step_owners_ok [OF assms(1,2)], where ?'a = 'e] by (simp add: modifiableOwners_def)
  moreover define ms where "ms = mf_setOrder M (remdups (filter (\<lambda>a. Some a \<notin> set ?ro) (map lower remote)))"
  have mem: "paper \<in> set (owners w)" "derived \<in> set (owners w)" "owner_role paper = paperWallet" "owner_role derived = paperWalletDerived"
    using assms(4) owner_in_owners by (auto simp: phrase_wallet_def)
  have "set (filter (\<lambda>a. Some a \<notin> set ?ro) (map lower remote)) = {lower (owner_address paper), lower (owner_address derived)}"
  proof -
    have "Some (lower (owner_address x)) \<in> set ?ro \<longleftrightarrow> x \<noteq> paper \<and> x \<noteq> derived" if x: "x \<in> set (owners w)" for x
    proof -
      have ro: "Some v \<in> set ?ro \<longleftrightarrow> (\<exists>r \<in> {thisDevice, browserExtension, keycard}. \<exists>y. Wallet.owner w r = Some y \<and> v = lower (owner_address y))" for v
        by (auto simp: map_option_eq_Some eq_commute [of "Some v"])
      have "owner_role x \<in> {thisDevice, browserExtension, keycard} \<longleftrightarrow> x \<noteq> paper \<and> x \<noteq> derived"
        using x assms(4) mem(3,4) role_owner [OF assms(2) x] by (auto simp: phrase_wallet_def)
      moreover have "Some (lower (owner_address x)) \<in> set ?ro \<longleftrightarrow> owner_role x \<in> {thisDevice, browserExtension, keycard}"
      proof
        assume "Some (lower (owner_address x)) \<in> set ?ro"
        then obtain r y where "r \<in> {thisDevice, browserExtension, keycard}" "Wallet.owner w r = Some y" "lower (owner_address x) = lower (owner_address y)"
          unfolding ro by blast
        then show "owner_role x \<in> {thisDevice, browserExtension, keycard}" using owner_in_owners lower_remote(2) [OF assms(1,2) x] by metis
      next
        assume "owner_role x \<in> {thisDevice, browserExtension, keycard}"
        with role_owner [OF assms(2) x] show "Some (lower (owner_address x)) \<in> set ?ro" unfolding ro by blast
      qed
      ultimately show ?thesis by blast
    qed
    then show ?thesis using lower_remote(1) [OF assms(1,2)] mem(1,2) by (auto simp del: set_map)
  qed
  moreover have "mset ms = mset (remdups (filter (\<lambda>a. Some a \<notin> set ?ro) (map lower remote)))" using assms(5) by (simp add: ms_def set_order_ok_def)
  ultimately have "set ms = {lower (owner_address paper), lower (owner_address derived)}" "distinct ms"
    using mset_eq_setD [of ms] mset_eq_imp_distinct_iff [of ms] by simp_all
  moreover have "lower (owner_address paper) \<noteq> lower (owner_address derived)" using lower_remote(2) [OF assms(1,2) mem(1,2)] mem(3,4) by auto
  ultimately have "length ms = 2" using distinct_card [of ms] by simp
  then obtain o1 o2 where "ms = [o1, o2]" by (auto simp: length_Suc_conv numeral_2_eq_2)
  then show thesis
    using that \<open>set ms = _\<close> \<open>distinct ms\<close> \<open>modifiableOwners M w l = _\<close> unfolding ms_def [symmetric] by auto
qed

lemma length_swapOwner: "packages_ok E \<Longrightarrow> length (swapOwner E p a b) = 100"
  by (simp add: swapOwner_def invocation_def)

lemma swap_call_length: "packages_ok (mf_packages M) \<Longrightarrow> swap_call M l old new = (Returns d :: ('e, _) outcome) \<Longrightarrow> length d = 100"
  using length_swapOwner by (auto simp: swap_call_def)

lemma two_swaps:
  assumes "packages_ok (mf_packages M)" "owner_manager (mf_packages M) exec" "holds l as" "owners_ok as" "k1 < length as" "k2 < length as" "k1 \<noteq> k2"
    and "hex_address n1" "fresh (account (mf_packages M) n1) (map (account (mf_packages M)) as)" "hex_address n2" "fresh (account (mf_packages M) n2) (map (account (mf_packages M)) as)"
    and "account (mf_packages M) n1 \<noteq> account (mf_packages M) n2"
  shows "\<exists>d1 d2 p1 q1 p2 q2. phrase_swaps M [as ! k1, as ! k2] [n1, n2] l = (Returns [d1, d2] :: ('e, _) outcome) \<and> length d1 = 100 \<and> length d2 = 100 \<and>
    exec_all exec [d1, d2] (map (account (mf_packages M)) as, t) = Some ((map (account (mf_packages M)) as)[k1 := account (mf_packages M) n1, k2 := account (mf_packages M) n2], t) \<and>
    decodeSwapOwnerArguments (mf_packages M) d1 = (Returns (Some (p1, q1, uint_address (mf_packages M) (account (mf_packages M) n1))) :: ('f, _) outcome) \<and>
    decodeSwapOwnerArguments (mf_packages M) d2 = (Returns (Some (p2, q2, uint_address (mf_packages M) (account (mf_packages M) n2))) :: ('f, _) outcome)"
proof -
  let ?E = "mf_packages M" and ?as = "as[k1 := lower n1]"
  have ok: "hex_address (as ! k)" "lower (as ! k) = as ! k" if "k < length as" for k using that assms(4) by (auto simp: owners_ok_def)
  obtain d1 p1 q1 where d1: "swap_call M l (as ! k1) n1 = (Returns d1 :: ('e, _) outcome)" "exec d1 (map (account ?E) as, t) = Some ((map (account ?E) as)[k1 := account ?E n1], t)"
    "decodeSwapOwnerArguments ?E d1 = (Returns (Some (p1, q1, uint_address ?E (account ?E n1))) :: ('f, _) outcome)"
    using swap_call_executes [OF assms(1-5) ok [OF assms(5)] assms(8,9), of t, where ?'e = 'e and ?'f = 'f] by blast
  obtain l1 where l1: "ll_replace ?E (as ! k1) n1 l = (Returns l1 :: ('e, _) outcome)" "holds l1 ?as"
    using holds_replace [OF assms(1,3,4,5) ok [OF assms(5)] assms(8), where ?'a = 'e] by blast
  note upd = owners_ok_update [OF assms(1,4,8,9)]
  have os: "map (account ?E) ?as = (map (account ?E) as)[k1 := account ?E n1]" using account_lower [OF assms(1,8)] by (simp add: map_update)
  have "fresh (account ?E n2) (map (account ?E) ?as)"
    unfolding os using assms(11,12) set_update_subset_insert [of "map (account ?E) as" k1 "account ?E n1"] by (auto simp: fresh_def)
  moreover have k2: "k2 < length ?as" "lower (as ! k2) = ?as ! k2" using assms(6,7) ok(2) by simp_all
  ultimately obtain d2 p2 q2 where d2: "swap_call M l1 (as ! k2) n2 = (Returns d2 :: ('e, _) outcome)"
    "exec d2 (map (account ?E) ?as, t) = Some ((map (account ?E) ?as)[k2 := account ?E n2], t)"
    "decodeSwapOwnerArguments ?E d2 = (Returns (Some (p2, q2, uint_address ?E (account ?E n2))) :: ('f, _) outcome)"
    using swap_call_executes [OF assms(1,2) l1(2) upd(3) k2(1) ok(1) [OF assms(6)] k2(2) assms(10), of t, where ?'e = 'e and ?'f = 'f] by blast
  obtain l2 where "ll_replace ?E (as ! k2) n2 l1 = (Returns l2 :: ('e, _) outcome)"
    using holds_replace [OF assms(1) l1(2) upd(3) k2(1) ok(1) [OF assms(6)] k2(2) assms(10), where ?'a = 'e] by blast
  then have "phrase_swaps M [as ! k1, as ! k2] [n1, n2] l = (Returns [d1, d2] :: ('e, _) outcome)" using d1(1) d2(1) l1(1) by simp
  moreover have "exec_all exec [d1, d2] (map (account ?E) as, t) = Some ((map (account ?E) as)[k1 := account ?E n1, k2 := account ?E n2], t)"
    using d1(2) d2(2) by (simp add: os)
  ultimately show ?thesis using d1(3) d2(3) swap_call_length [OF assms(1) d1(1)] swap_call_length [OF assms(1) d2(1)] by blast
qed

text \<open>A batch of two calls of the safe is read back, by the contract whose address is another spelling of the configured one.\<close>

lemma two_calls_decoded:
  assumes "packages_ok (mf_packages M)" "hex_address a" "length d1 \<le> 100" "length d2 \<le> 100"
    and "multiSend_version (env_metadata (mf_env M)) (proxy_address (env_metadata (mf_env M)) to) = multiSend_version (env_metadata (mf_env M)) (proxy_address (env_metadata (mf_env M)) proxy)"
  shows "\<exists>t1 t2. decodeMultiSendArguments (mf_packages M) (env_metadata (mf_env M)) to (safe_batch M proxy a [d1, d2]) = Returns (Some [t1, t2]) \<and> ms_data t1 = d1 \<and> ms_data t2 = d2"
proof -
  let ?E = "mf_packages M" and ?tx = "\<lambda>d. \<lparr>ms_operation = MS_call, ms_to = a, ms_value = 0, ms_data = d\<rparr>"
  have "list_all (ms_valid ?E) (map ?tx [d1, d2])"
    using assms(3,4) hex_address_account(3) [OF assms(1,2)] by (simp add: ms_valid_def address_ok_def fits_Int_def Int_max_def)
  moreover have "fits_Int (length (concat (map (encode_tx_V1 ?E) (map ?tx [d1, d2]))))" "fits_Int (length (concat (map (encode_tx_V2 ?E) (map ?tx [d1, d2]))))"
  proof -
    have "length (encodeBytes ?E d) \<le> 63 + length d" for d by (simp add: length_encodeBytes)
    from this [of d1] this [of d2] show "fits_Int (length (concat (map (encode_tx_V1 ?E) (map ?tx [d1, d2]))))"
      using assms(3,4) by (simp add: encode_tx_V1_def fits_Int_def Int_max_def)
    show "fits_Int (length (concat (map (encode_tx_V2 ?E) (map ?tx [d1, d2]))))" using assms(3,4) by (simp add: encode_tx_V2_def fits_Int_def Int_max_def)
  qed
  ultimately have "decodeMultiSendArguments_V1 ?E (multiSend_V1 ?E (map ?tx [d1, d2])) = Returns (Some (map (ms_canon ?E) (map ?tx [d1, d2])))"
    "decodeMultiSendArguments_V2 ?E (multiSend_V2 ?E (map ?tx [d1, d2])) = Returns (Some (map (ms_canon ?E) (map ?tx [d1, d2])))"
    using decode_multiSend_V1 [OF assms(1)] decode_multiSend_V2 [OF assms(1)] by blast+
  then show ?thesis using assms(5) by (simp add: decodeMultiSendArguments_def safe_batch_def multiSend_def ms_canon_def)
qed

lemma batch_version:
  assumes "packages_ok (env_packages V)" "eip55_ok V" "hex_address (md_multiSendContractAddress (env_metadata V))"
    and "encryption_address_from V (address_value (md_multiSendContractAddress (env_metadata V))) = (Returns (Some batch) :: ('e, _) outcome)"
  shows "multiSend_version (env_metadata V) (proxy_address (env_metadata V) batch) = multiSend_version (env_metadata V) (proxy_address (env_metadata V) Address_zero)"
proof -
  have "lower batch = lower (md_multiSendContractAddress (env_metadata V))"
    using encryption_address_hex [OF assms(1,2), of "address_value (md_multiSendContractAddress (env_metadata V))", where ?'e = 'e] assms(3,4) by simp
  then show ?thesis by (simp add: proxy_address_def multiSend_version_def same_spelling_def lower_def)
qed

lemma mset_addOwner:
  assumes "roles_unique (owners w)" "Wallet.owner w role = Some old" "role \<noteq> unknown"
  shows "mset (owners (addOrReplaceOwner \<lparr>owner_address = b, owner_role = role\<rparr> w)) = add_mset \<lparr>owner_address = b, owner_role = role\<rparr> (mset (owners w) - {#old#})"
  using assms mset_remove_role [OF assms(1) _ assms(3), of old] by (simp add: addOrReplaceOwner_def Wallet.addOwner_def Wallet.owner_def)

definition new_phrase :: "Address \<Rightarrow> Address \<Rightarrow> Wallet \<Rightarrow> Wallet" where
  "new_phrase b1 b2 w = addOrReplaceOwner \<lparr>owner_address = b2, owner_role = paperWalletDerived\<rparr> (addOrReplaceOwner \<lparr>owner_address = b1, owner_role = paperWallet\<rparr> w)"

lemma mirrors_new_phrase:
  assumes "mirrors E (os, t) w" "roles_unique (owners w)" "Wallet.owner w paperWallet = Some paper" "Wallet.owner w paperWalletDerived = Some derived"
    and "k1 < length os" "k2 < length os" "k1 \<noteq> k2"
    and "{#os ! k1, os ! k2#} = {#account E (owner_address paper), account E (owner_address derived)#}"
    and "account E b1 = n1" "account E b2 = n2"
  shows "mirrors E (os[k1 := n1, k2 := n2], t) (new_phrase b1 b2 w)"
proof -
  let ?w1 = "addOrReplaceOwner \<lparr>owner_address = b1, owner_role = paperWallet\<rparr> w" and ?f = "\<lambda>o1. account E (owner_address o1)"
  have ne: "paper \<noteq> derived" "paper \<in> set (owners w)" "derived \<in> set (owners w)" 
    using owner_in_owners [OF assms(3)] owner_in_owners [OF assms(4)] by auto
  then have "{#paper, derived#} \<subseteq># mset (owners w)" by (simp add: insert_subset_eq_iff in_diff_count)
  then obtain R where R: "mset (owners w) = {#paper, derived#} + R" using mset_subset_eq_exists_conv by blast
  have "roles_unique (owners ?w1)" "Wallet.owner ?w1 paperWalletDerived = Some derived"
    using roles_unique_addOwner [OF assms(2)] assms(4) by (simp_all add: addOrReplaceOwner_def owner_addOwner)
  from mset_addOwner [OF this, of b2] mset_addOwner [OF assms(2,3), of b1] R ne(1)
  have new: "mset (owners (new_phrase b1 b2 w)) = {#\<lparr>owner_address = b2, owner_role = paperWalletDerived\<rparr>, \<lparr>owner_address = b1, owner_role = paperWallet\<rparr>#} + R"
    by (simp add: new_phrase_def)
  have "mset os = {#os ! k1, os ! k2#} + image_mset ?f R" using assms(1,8) R by (simp add: mirrors_def)
  then have "mset (os[k1 := n1, k2 := n2]) = {#n1, n2#} + image_mset ?f R" using assms(5-7) by (simp add: mset_update)
  then show ?thesis
    using assms(1,9,10) new by (simp add: mirrors_def new_phrase_def addOrReplaceOwner_def Wallet.addOwner_def)
qed

lemma phrase_payload:
  assumes "packages_ok (mf_packages M)" "owner_manager (mf_packages M) exec" "set_order_ok M" "selected_wallet s = Some w" "address w = Some a"
    and "getOwners (mf_packages M) (ca_eth_call A) a = Returns remote" "in_step (mf_packages M) remote w" "phrase_wallet paper derived w"
    and "hex_address (Address new)" "fresh (account (mf_packages M) (Address new)) (map (account (mf_packages M)) remote)" "find_key (mf_services M) (Address new) s \<noteq> None"
    and "child = rc_deriveChild (mf_recoverer M) (Address new)" "hex_address child" "fresh (account (mf_packages M) child) (map (account (mf_packages M)) remote)"
    and "account (mf_packages M) (Address new) \<noteq> account (mf_packages M) child"
  shows "\<exists>d1 d2 k1 k2 p1 q1 p2 q2. realTransactionData M ReplaceRecoveryPhraseService A new s = (Returns (Some (safe_batch M Address_zero a [d1, d2])) :: ('e, _) outcome) \<and>
    length d1 = 100 \<and> length d2 = 100 \<and> k1 < length remote \<and> k2 < length remote \<and> k1 \<noteq> k2 \<and>
    {#map (account (mf_packages M)) remote ! k1, map (account (mf_packages M)) remote ! k2#} =
      {#account (mf_packages M) (owner_address paper), account (mf_packages M) (owner_address derived)#} \<and>
    exec_all exec [d1, d2] (map (account (mf_packages M)) remote, t) =
      Some ((map (account (mf_packages M)) remote)[k1 := account (mf_packages M) (Address new), k2 := account (mf_packages M) child], t) \<and>
    decodeSwapOwnerArguments (mf_packages M) d1 = (Returns (Some (p1, q1, uint_address (mf_packages M) (account (mf_packages M) (Address new)))) :: ('f, _) outcome) \<and>
    decodeSwapOwnerArguments (mf_packages M) d2 = (Returns (Some (p2, q2, uint_address (mf_packages M) (account (mf_packages M) child))) :: ('f, _) outcome)"
proof -
  let ?E = "mf_packages M" and ?as = "map lower remote"
  have mem: "paper \<in> set (owners w)" "derived \<in> set (owners w)" using assms(8) owner_in_owners by (auto simp: phrase_wallet_def)
  obtain l where l: "remoteOwnersList M A s = (Returns (Some l) :: ('e, _) outcome)" "holds l ?as" "owners_ok ?as" "map (account ?E) ?as = map (account ?E) remote"
    using in_step_remote [OF assms(1,4-7) remote_not_Nil [OF assms(7) mem(1)]] .
  obtain o1 o2 where o: "modifiableOwners M w l = (Returns [o1, o2] :: ('e, _) outcome)" "{o1, o2} = {lower (owner_address paper), lower (owner_address derived)}" "o1 \<noteq> o2"
    using modifiable_phrase_owners [OF assms(1,7) l(2) assms(8,3), where ?'e = 'e] .
  have "\<exists>k < length ?as. lower (owner_address x) = ?as ! k" if "x \<in> set (owners w)" for x
    using owner_position [OF assms(1,7) that] by (metis length_map)
  then obtain k1 k2 where k: "k1 < length ?as" "o1 = ?as ! k1" "k2 < length ?as" "o2 = ?as ! k2" using o(2) mem by (metis insert_iff singletonD)
  then have ne: "k1 \<noteq> k2" using o(3) by auto
  have acc: "account ?E (?as ! j) = map (account ?E) remote ! j" if "j < length ?as" for j using that l(4) by (metis nth_map)
  have hex: "hex_address (owner_address paper)" "hex_address (owner_address derived)" using assms(7) mem by (auto simp: in_step_def list_all_iff)
  have "{#account ?E o1, account ?E o2#} = {#account ?E (owner_address paper), account ?E (owner_address derived)#}"
    using o(2) account_lower [OF assms(1) hex(1)] account_lower [OF assms(1) hex(2)] by (auto simp: doubleton_eq_iff)
  then have "{#map (account ?E) remote ! k1, map (account ?E) remote ! k2#} = {#account ?E (owner_address paper), account ?E (owner_address derived)#}"
    unfolding k(2,4) acc [OF k(1)] acc [OF k(3)] .
  moreover obtain d1 d2 p1 q1 p2 q2 where d: "phrase_swaps M [o1, o2] [Address new, child] l = (Returns [d1, d2] :: ('e, _) outcome)" "length d1 = 100" "length d2 = 100"
    "exec_all exec [d1, d2] (map (account ?E) remote, t) = Some ((map (account ?E) remote)[k1 := account ?E (Address new), k2 := account ?E child], t)"
    "decodeSwapOwnerArguments ?E d1 = (Returns (Some (p1, q1, uint_address ?E (account ?E (Address new)))) :: ('f, _) outcome)"
    "decodeSwapOwnerArguments ?E d2 = (Returns (Some (p2, q2, uint_address ?E (account ?E child))) :: ('f, _) outcome)"
    using two_swaps [OF assms(1,2) l(2,3) k(1,3) ne assms(9) _ assms(13) _ assms(15), of t, where ?'e = 'e and ?'f = 'f] assms(10,14) unfolding l(4) k(2,4) by blast
  moreover have "realTransactionData M ReplaceRecoveryPhraseService A new s = (Returns (Some (safe_batch M Address_zero a [d1, d2])) :: ('e, _) outcome)"
    using l(1) o(1) d(1) assms(4,5,11,12) hex_address_init [OF assms(1,9), where ?'a = 'e]
    by (auto simp: realTransactionData_def ReplaceRecoveryPhrase_realTransactionData_def transactionData_def contractProxy_def simp del: phrase_swaps.simps)
  ultimately show ?thesis using k(1,3) ne by (metis length_map)
qed

lemma find_key_save_tx [simp]: "find_key S x (save_tx tx s) = find_key S x s"
  by (simp add: find_key_def save_tx_def)

lemma phrase_postProcess:
  assumes "packages_ok (mf_packages M)" "eip55_ok (mf_env M)" "executed [replaceRecoveryPhrase] i (safe_batch M Address_zero a [d1, d2]) w s"
    and "hex_address a" "length d1 = 100" "length d2 = 100" "Option.bind (find_tx i (dep_app s)) recipient = Some batch"
    and "hex_address (md_multiSendContractAddress (env_metadata (mf_env M)))"
    and "encryption_address_from (mf_env M) (address_value (md_multiSendContractAddress (env_metadata (mf_env M)))) = (Returns (Some batch) :: (unit, _) outcome)"
    and "decodeSwapOwnerArguments (mf_packages M) d1 = (Returns (Some (p1, q1, uint_address (mf_packages M) n1)) :: (ModificationError, _) outcome)" "n1 < 256 ^ 20"
    and "decodeSwapOwnerArguments (mf_packages M) d2 = (Returns (Some (p2, q2, uint_address (mf_packages M) n2)) :: (ModificationError, _) outcome)" "n2 < 256 ^ 20"
  shows "\<exists>b1 b2 s1. postProcess M ReplaceRecoveryPhraseService i s = Returns (unregisterPostProcessing i s1) \<and> account (mf_packages M) b1 = n1 \<and> account (mf_packages M) b2 = n2 \<and>
    (\<forall>j. wallet_with j (dep_app s1) = wallet_with j (save_wallet (new_phrase b1 b2 w) (dep_app s))) \<and> b1 \<notin> set (deviceKeys (app_world (dep_app s1)))"
proof -
  let ?E = "mf_packages M"
  obtain tx where tx: "processed [replaceRecoveryPhrase] i (dep_app s) = (Returns (Some (tx, w)) :: (ModificationError, _) outcome)" "status tx = TS_success"
    "find_tx i (dep_app s) = Some tx" "tx_data tx = Some (safe_batch M Address_zero a [d1, d2])"
    using executed_processed [OF assms(3)] .
  from this(3) assms(7) have to: "recipient tx = Some batch" by simp
  obtain t1 t2 where t: "decodeMultiSendArguments ?E (env_metadata (mf_env M)) batch (safe_batch M Address_zero a [d1, d2]) = Returns (Some [t1, t2])" "ms_data t1 = d1" "ms_data t2 = d2"
    using two_calls_decoded [OF assms(1,4) _ _ batch_version [OF assms(1,2,8,9)], of d1 d2] assms(5,6) by auto
  obtain c where c: "contractProxy (dep_app s) = (Returns c :: (ModificationError, _) outcome)" using assms(3) by (auto simp: executed_def)
  obtain b1 b2 where b: "encryption_address_from (mf_env M) (address_value (uint_address ?E n1)) = (Returns (Some b1) :: (ModificationError, _) outcome)" "account ?E b1 = n1"
    "encryption_address_from (mf_env M) (address_value (uint_address ?E n2)) = (Returns (Some b2) :: (ModificationError, _) outcome)" "account ?E b2 = n2"
    using encryption_address_account [OF assms(1,2,11), where ?'e = ModificationError] encryption_address_account [OF assms(1,2,13), where ?'e = ModificationError] by blast
  then have "phrase_owners M tx (dep_app s) = (Returns (Some (b1, b2)) :: (ModificationError, _) outcome)"
    using tx(4) to t c assms(10,12) by (simp add: phrase_owners_def)
  then have "postProcess M ReplaceRecoveryPhraseService i s =
      (let s1 = on_app (save_wallet (new_phrase b1 b2 w)) s
       in Returns (unregisterPostProcessing i (if find_key (mf_services M) b1 (dep_app s1) \<noteq> None then on_app (remove_key b1) s1 else s1)))"
    using tx(1-3) to by (simp add: postProcess_def ReplaceRecoveryPhrase_postProcess_def new_phrase_def Let_def)
  moreover define s1 where "s1 = (let s1 = on_app (save_wallet (new_phrase b1 b2 w)) s in if find_key (mf_services M) b1 (dep_app s1) \<noteq> None then on_app (remove_key b1) s1 else s1)"
  moreover have "wallet_with j (dep_app s1) = wallet_with j (save_wallet (new_phrase b1 b2 w) (dep_app s))" "b1 \<notin> set (deviceKeys (app_world (dep_app s1)))" for j
    by (auto simp: s1_def Let_def wallet_with_def remove_key_def find_key_def find_id_def split: if_splits)
  ultimately show ?thesis using b(2,4) by (metis (no_types, lifting))
qed

lemma phrase_catches_up:
  fixes M w remote
  defines "os \<equiv> map (account (mf_packages M)) remote"
  assumes "packages_ok (mf_packages M)" "eip55_ok (mf_env M)" "hex_address a" "length d1 = 100" "length d2 = 100"
    and "hex_address (md_multiSendContractAddress (env_metadata (mf_env M)))"
    and "encryption_address_from (mf_env M) (address_value (md_multiSendContractAddress (env_metadata (mf_env M)))) = (Returns (Some batch) :: (unit, _) outcome)"
    and "decodeSwapOwnerArguments (mf_packages M) d1 = (Returns (Some (p1, q1, uint_address (mf_packages M) n1)) :: (ModificationError, _) outcome)" "n1 < 256 ^ 20"
    and "decodeSwapOwnerArguments (mf_packages M) d2 = (Returns (Some (p2, q2, uint_address (mf_packages M) n2)) :: (ModificationError, _) outcome)" "n2 < 256 ^ 20"
    and "in_step (mf_packages M) remote w" "phrase_wallet paper derived w"
    and "k1 < length remote" "k2 < length remote" "k1 \<noteq> k2" "{#os ! k1, os ! k2#} = {#account (mf_packages M) (owner_address paper), account (mf_packages M) (owner_address derived)#}"
    and "wallet_id w2 = wallet_id w" "owners w2 = owners w" "confirmationCount w2 = confirmationCount w"
    and "executed [replaceRecoveryPhrase] i (safe_batch M Address_zero a [d1, d2]) w2 s2" "Option.bind (find_tx i (dep_app s2)) recipient = Some batch"
  shows "\<exists>s3 w3 b1 b2. postProcess M ReplaceRecoveryPhraseService i s2 = Returns s3 \<and> followed (mf_packages M) i (os[k1 := n1, k2 := n2], confirmationCount w) (wallet_id w) s2 s3 \<and>
    wallet_with (wallet_id w) (dep_app s3) = Some w3 \<and> map_option owner_address (Wallet.owner w3 paperWallet) = Some b1 \<and>
    map_option owner_address (Wallet.owner w3 paperWalletDerived) = Some b2 \<and> account (mf_packages M) b1 = n1 \<and> account (mf_packages M) b2 = n2 \<and>
    b1 \<notin> set (deviceKeys (app_world (dep_app s3)))"
proof -
  obtain b1 b2 s1 where p: "postProcess M ReplaceRecoveryPhraseService i s2 = Returns (unregisterPostProcessing i s1)" "account (mf_packages M) b1 = n1" "account (mf_packages M) b2 = n2"
    "\<forall>j. wallet_with j (dep_app s1) = wallet_with j (save_wallet (new_phrase b1 b2 w2) (dep_app s2))" "b1 \<notin> set (deviceKeys (app_world (dep_app s1)))"
    using phrase_postProcess [OF assms(2,3,22,4-6,23,7-12)] by blast
  have two: "mirrors (mf_packages M) (os, confirmationCount w) w2" "roles_unique (owners w2)" "Wallet.owner w2 paperWallet = Some paper" "Wallet.owner w2 paperWalletDerived = Some derived"
    using assms(13,14,20) same_owners(3) [OF assms(20,21)] by (auto simp: os_def in_step_def phrase_wallet_def Wallet.owner_def)
  have "mirrors (mf_packages M) (os[k1 := n1, k2 := n2], confirmationCount w) (new_phrase b1 b2 w2)"
    using mirrors_new_phrase [OF two _ _ assms(17,18) p(2,3)] assms(15,16) by (simp add: os_def)
  moreover have "wallet_id (new_phrase b1 b2 w2) = wallet_id w" using assms(19) by (simp add: new_phrase_def addOrReplaceOwner_def Wallet.addOwner_def)
  ultimately show ?thesis
    using p by (auto simp: followed_def new_phrase_def addOrReplaceOwner_def owner_addOwner intro!: exI [of _ b1] exI [of _ b2])
qed

text \<open>
  (C9) When the wallet has the owners and the threshold of the contract, replacing the recovery phrase keeps it that way, in whatever order Swift lists the set
  of owners to be replaced. The payload is a batch of two calls that the owner manager of the contract accepts, leading to owners and threshold \<open>c\<close>. Whenever
  the transaction has been executed and the owners of the stored wallet are still those of before, processing returns, the stored wallet has exactly
  the owners and the threshold \<open>c\<close>, the accounts of the phrase are the new one and its child, and the device does not keep the key of the new phrase.
\<close>

theorem new_phrase_follows_contract:
  fixes M s w remote new
  defines "c0 \<equiv> (map (account (mf_packages M)) remote, confirmationCount w)" and "child \<equiv> rc_deriveChild (mf_recoverer M) (Address new)"
  assumes "packages_ok (mf_packages M)" "eip55_ok (mf_env M)" "owner_manager (mf_packages M) exec" "set_order_ok M"
    and "selected_wallet s = Some w" "address w = Some a" "hex_address a" "getOwners (mf_packages M) (ca_eth_call A) a = Returns remote"
    and "in_step (mf_packages M) remote w" "phrase_wallet paper derived w"
    and "hex_address (Address new)" "fresh (account (mf_packages M) (Address new)) (map (account (mf_packages M)) remote)" "find_key (mf_services M) (Address new) s \<noteq> None"
    and "hex_address child" "fresh (account (mf_packages M) child) (map (account (mf_packages M)) remote)" "account (mf_packages M) (Address new) \<noteq> account (mf_packages M) child"
    and "find_tx i s = Some tx" "status tx = TS_draft \<or> status tx = TS_signing" "recipient tx = Some batch" "hex_address (md_multiSendContractAddress (env_metadata (mf_env M)))"
    and "encryption_address_from (mf_env M) (address_value (md_multiSendContractAddress (env_metadata (mf_env M)))) = (Returns (Some batch) :: (unit, _) outcome)"
  shows "\<exists>s1 tx1 d calls c. update M ReplaceRecoveryPhraseService A now i new s = (Returns s1 :: (unit, _) outcome) \<and> find_tx i s1 = Some tx1 \<and>
    carries (mf_env M) a calls tx1 \<and> tx_data tx1 = Some d \<and> exec_all exec calls c0 = Some c \<and>
    (\<forall>s2 w2. wallet_id w2 = wallet_id w \<and> owners w2 = owners w \<and> confirmationCount w2 = confirmationCount w \<and>
       executed [replaceRecoveryPhrase] i d w2 s2 \<and> Option.bind (find_tx i (dep_app s2)) recipient = Some batch \<longrightarrow>
      (\<exists>s3 w3 b1 b2. postProcess M ReplaceRecoveryPhraseService i s2 = Returns s3 \<and> followed (mf_packages M) i c (wallet_id w) s2 s3 \<and>
         wallet_with (wallet_id w) (dep_app s3) = Some w3 \<and> map_option owner_address (Wallet.owner w3 paperWallet) = Some b1 \<and>
         map_option owner_address (Wallet.owner w3 paperWalletDerived) = Some b2 \<and> account (mf_packages M) b1 = account (mf_packages M) (Address new) \<and>
         account (mf_packages M) b2 = account (mf_packages M) child \<and> b1 \<notin> set (deviceKeys (app_world (dep_app s3)))))"
proof -
  let ?E = "mf_packages M" and ?os = "map (account (mf_packages M)) remote" and ?n1 = "account (mf_packages M) (Address new)" and ?n2 = "account (mf_packages M) child"
  have n: "?n1 < 256 ^ 20" "?n2 < 256 ^ 20" using hex_address_account(2) [OF assms(3)] assms(13,16) by blast+
  have id: "tx_id tx = i" using assms(19) find_row_SomeD by (fastforce simp: find_tx_def)
  obtain s0 where s0: "stepBackToDraft now i s = (Returns s0 :: (unit, _) outcome)" "find_tx i s0 = Some (tx\<lparr>status := TS_draft\<rparr>)" "s0 = s \<or> s0 = save_tx (tx\<lparr>status := TS_draft\<rparr>) s"
    using stepBackToDraft_returns [OF assms(19,20), where ?'e = unit] by blast
  have sel: "selected_wallet s0 = Some w" "find_key (mf_services M) (Address new) s0 \<noteq> None" using s0(3) assms(7,15) by auto
  obtain d1 d2 k1 k2 p1 q1 p2 q2 where d: "realTransactionData M ReplaceRecoveryPhraseService A new s0 = (Returns (Some (safe_batch M Address_zero a [d1, d2])) :: (unit, _) outcome)"
    "length d1 = 100" "length d2 = 100" "k1 < length remote" "k2 < length remote" "k1 \<noteq> k2"
    "{#?os ! k1, ?os ! k2#} = {#account ?E (owner_address paper), account ?E (owner_address derived)#}"
    "exec_all exec [d1, d2] (?os, confirmationCount w) = Some (?os[k1 := ?n1, k2 := ?n2], confirmationCount w)"
    "decodeSwapOwnerArguments ?E d1 = (Returns (Some (p1, q1, uint_address ?E ?n1)) :: (ModificationError, _) outcome)"
    "decodeSwapOwnerArguments ?E d2 = (Returns (Some (p2, q2, uint_address ?E ?n2)) :: (ModificationError, _) outcome)"
    using phrase_payload [OF assms(3,5,6) sel(1) assms(8,10-14) sel(2) child_def [THEN meta_eq_to_obj_eq] assms(16-18), of "confirmationCount w", where ?'e = unit and ?'f = ModificationError] by blast
  let ?d = "safe_batch M Address_zero a [d1, d2]"
  define tx1 where "tx1 = change_operation (Some OP_delegateCall) now (change_data (Some ?d) now (tx\<lparr>status := TS_draft\<rparr>))"
  have "\<exists>s1. update M ReplaceRecoveryPhraseService A now i new s = (Returns s1 :: (unit, _) outcome) \<and> find_tx i s1 = Some tx1"
    using s0(1,2) d(1) id by (simp add: update_def ReplaceTwoFA_update_def transaction_def find_tx_save tx1_def edit_defs timestamp_defs)
  moreover have "carries (mf_env M) a [d1, d2] tx1"
    using assms(21,23) d(2,3) by (auto simp: carries_def tx1_def multiSendData_def safe_batch_def proxy_address_def edit_defs timestamp_defs)
  moreover have "tx_data tx1 = Some ?d" by (simp add: tx1_def edit_defs timestamp_defs)
  moreover note phrase_catches_up [OF assms(3,4,9) d(2,3) assms(22,23) d(9) n(1) d(10) n(2) assms(11,12) d(4-7)]
  ultimately show ?thesis using d(8) unfolding c0_def by blast
qed

subsection \<open>The upgrade\<close>

lemma decode_changeMasterCopy:
  assumes "packages_ok E" "hex_address m"
  shows "decodeChangeMasterCopyArguments E (SafeCreation.changeMasterCopy E m) = Returns (Some (uint_address E (account E m)))" "length (SafeCreation.changeMasterCopy E m) = 36"
proof -
  have "address_ok E m" using hex_address_account(3) [OF assms] by (simp add: address_ok_def)
  from decodeChangeMasterCopy_encode [OF assms(1) this]
  show "decodeChangeMasterCopyArguments E (SafeCreation.changeMasterCopy E m) = Returns (Some (uint_address E (account E m)))" .
  show "length (SafeCreation.changeMasterCopy E m) = 36" using assms(1) by (simp add: SafeCreation.changeMasterCopy_def invocation_def)
qed

lemma same_account_spelling:
  assumes "packages_ok E" "hex_address m"
  shows "same_spelling (uint_address E (account E m)) m"
proof -
  have "hex_address (uint_address E (account E m))" using length_be_bytes by (simp add: hex_address_def uint_address_def)
  moreover have "account E (uint_address E (account E m)) = account E m" using account_uint_address [OF assms(1) hex_address_account(2) [OF assms]] .
  ultimately have "lower (uint_address E (account E m)) = lower m" using lower_eq_iff [OF assms(1) _ assms(2)] by blast
  then show ?thesis by (simp add: lower_def same_spelling_def)
qed

lemma same_spelling_queries:
  assumes "same_spelling m n"
  shows "masterCopy_version D m = masterCopy_version D n" "isOldMasterCopy D m = isOldMasterCopy D n"
  using assms by (simp_all add: masterCopy_version_def masterCopyMetadata_def isOldMasterCopy_def same_spelling_def)

lemma upgrade_transaction:
  assumes "packages_ok (mf_packages M)" "eip55_ok (mf_env M)" "selected_wallet s = Some w" "address w = Some a"
    and "accountID (address_value (fee_token w)) (wallet_id w) = (Returns account_id :: (unit, _) outcome)"
    and "D = env_metadata (mf_env M)" "hex_address (md_multiSendContractAddress D)" "latestMasterCopyAddress D = (Returns latest :: (unit, _) outcome)"
    and "calls = [SafeCreation.changeMasterCopy (mf_packages M) latest, setFallbackHandler (mf_packages M) (defaultFallbackHandlerAddress D)]"
  shows "\<exists>s1 tx1. createTransaction M ContractUpgradeService now i s = (Returns s1 :: (unit, _) outcome) \<and> find_tx i s1 = Some tx1 \<and> tx_type tx1 = contractUpgrade \<and>
    status tx1 = TS_draft \<and> tx_accountID tx1 = account_id \<and> sender tx1 = Some a \<and> carries (mf_env M) a calls tx1 \<and> tx_data tx1 = Some (safe_batch M (md_multiSendContractAddress D) a calls)"
proof -
  obtain batch where batch: "encryption_address_from (mf_env M) (address_value (md_multiSendContractAddress D)) = (Returns (Some batch) :: (unit, _) outcome)"
    using encryption_address_hex [OF assms(1,2), of "address_value (md_multiSendContractAddress D)", where ?'e = unit] assms(7) by auto
  have p: "proxy_address D (md_multiSendContractAddress D) = md_multiSendContractAddress D" "proxy_address D Address_zero = md_multiSendContractAddress D"
    by (simp_all add: proxy_address_def)
  have calls: "filter (\<lambda>d. d \<noteq> []) calls = calls"
    using invocation_not_Nil [OF assms(1)] by (simp add: assms(9) SafeCreation.changeMasterCopy_def setFallbackHandler_def)
  have "safe_batch M (md_multiSendContractAddress D) a calls = multiSendData (mf_env M) a calls"
    by (simp add: safe_batch_def multiSendData_def multiSend_def calls p assms(6) [symmetric])
  with batch p show ?thesis
    using assms(3-5,8) unfolding assms(6) [symmetric] assms(9)
    by (simp add: createTransaction_def ContractUpgrade_createTransaction_def ReplaceTwoFA_createTransaction_def transaction_def find_tx_save formatted_def
        ContractUpgrade_realTransactionData_def carries_def Transaction_init_def edit_defs timestamp_defs change_status_def Let_def assms(6) [symmetric])
qed

lemma selected_wallet_id:
  assumes "selected_wallet s = Some w"
  shows "Option.bind (app_portfolio s) selectedWallet = Some (wallet_id w)"
proof -
  obtain j where "Option.bind (app_portfolio s) selectedWallet = Some j" "wallet_with j s = Some w" using assms by (auto simp: selected_wallet_def split: option.splits)
  then show ?thesis using find_row_SomeD by (fastforce simp: wallet_with_rows)
qed

lemma upgrade_postProcess:
  fixes M i s w
  defines "D \<equiv> env_metadata (mf_env M)" and "E \<equiv> mf_packages M"
  assumes "packages_ok E" "executed [contractUpgrade] i (safe_batch M (md_multiSendContractAddress D) a [SafeCreation.changeMasterCopy E latest, setFallbackHandler E b]) w s"
    and "address w = Some a" "hex_address a" "hex_address latest"
  shows "postProcess M ContractUpgradeService i s = Returns (unregisterPostProcessing i (on_app (\<lambda>x. publish_event ContractUpgraded
    (save_wallet (w\<lparr>wallet_masterCopyAddress := Some (uint_address E (account E latest)), contractVersion := masterCopy_version D latest\<rparr>) x)) s))"
proof -
  obtain tx where tx: "processed [contractUpgrade] i (dep_app s) = (Returns (Some (tx, w)) :: (ModificationError, _) outcome)" "status tx = TS_success"
    "tx_data tx = Some (safe_batch M (md_multiSendContractAddress D) a [SafeCreation.changeMasterCopy E latest, setFallbackHandler E b])"
    using executed_processed [OF assms(4)] .
  have "length (setFallbackHandler E b) = 36" using assms(3) by (simp add: setFallbackHandler_def invocation_def)
  then obtain t1 t2 where "decodeMultiSendArguments E D (md_multiSendContractAddress D)
      (safe_batch M (md_multiSendContractAddress D) a [SafeCreation.changeMasterCopy E latest, setFallbackHandler E b]) = Returns (Some [t1, t2])"
    "ms_data t1 = SafeCreation.changeMasterCopy E latest"
    using two_calls_decoded [OF assms(3) [unfolded E_def] assms(6), of "SafeCreation.changeMasterCopy E latest" "setFallbackHandler E b" "md_multiSendContractAddress D" "md_multiSendContractAddress D"]
      decode_changeMasterCopy(2) [OF assms(3,7)] unfolding D_def E_def by auto
  then show ?thesis
    using tx assms(5) decode_changeMasterCopy(1) [OF assms(3,7), where ?'a = ModificationError] same_spelling_queries(1) [OF same_account_spelling [OF assms(3,7)], of D]
    by (simp add: postProcess_def ContractUpgrade_postProcess_def Let_def changeContractVersion_def Wallet.changeMasterCopy_def D_def [symmetric] E_def [symmetric])
qed

text \<open>Apart from the wallet rows, the events and the monitoring of one transaction nothing has changed.\<close>

definition rest_kept :: "string \<Rightarrow> deployment \<Rightarrow> deployment \<Rightarrow> bool" where
  "rest_kept i s s' \<longleftrightarrow>
     txRows (dep_app s') = txRows (dep_app s) \<and> app_tokens (dep_app s') = app_tokens (dep_app s) \<and> app_portfolio (dep_app s') = app_portfolio (dep_app s) \<and>
     accountRows (app_world (dep_app s')) = accountRows (app_world (dep_app s)) \<and> deviceKeys (app_world (dep_app s')) = deviceKeys (app_world (dep_app s)) \<and>
     addressBook s' = addressBook s \<and> awaiting s' = awaiting s \<and> errorStream s' = errorStream s \<and> exited s' = exited s \<and>
     monitors s' = filter (\<lambda>m. mon_transactionID m \<noteq> i) (monitors s)"

lemma unregister_monitors: "monitors (unregisterPostProcessing i s) = filter (\<lambda>m. mon_transactionID m \<noteq> i) (monitors s)"
  by (auto simp: unregisterPostProcessing_def delete_row_def find_row_def find_None_iff find_Some_iff filter_id_conv split: option.splits)

lemma rest_kept_upgrade:
  "rest_kept i s (unregisterPostProcessing i (on_app (\<lambda>x. publish_event ContractUpgraded (save_wallet w x)) s))"
  by (simp add: rest_kept_def unregister_monitors)
    (simp add: unregisterPostProcessing_def publish_event_def publish_def save_wallet_def save_def split: option.split)

text \<open>
  (C20) The upgrade transaction is complete when it is created: a batch, executed by the safe itself, that sets the latest master copy and the configured fallback
  handler. Once it has been executed, processing stores the latest master copy and its version in the wallet, publishes the one event that announces the upgrade and
  stops monitoring this transaction. Other wallets, the transactions, tokens, accounts, keys, the portfolio, the address book and the monitoring of other transactions stay as they
  are; and when that wallet is selected no further upgrade is offered.
\<close>

theorem upgrade_completes:
  fixes M s w
  defines "E \<equiv> mf_packages M" and "D \<equiv> env_metadata (mf_env M)"
  assumes "packages_ok E" "eip55_ok (mf_env M)" "selected_wallet s = Some w" "address w = Some a" "hex_address a"
    and "accountID (address_value (fee_token w)) (wallet_id w) = (Returns account_id :: (unit, _) outcome)"
    and "hex_address (md_multiSendContractAddress D)" "latestMasterCopyAddress D = (Returns latest :: (unit, _) outcome)" "hex_address latest" "\<not> isOldMasterCopy D latest"
  shows "\<exists>s1 tx1 d. createTransaction M ContractUpgradeService now i s = (Returns s1 :: (unit, _) outcome) \<and> find_tx i s1 = Some tx1 \<and> tx_type tx1 = contractUpgrade \<and>
    carries (mf_env M) a [SafeCreation.changeMasterCopy E latest, setFallbackHandler E (defaultFallbackHandlerAddress D)] tx1 \<and> tx_data tx1 = Some d \<and>
    (\<forall>s2 w2. wallet_id w2 = wallet_id w \<and> address w2 = Some a \<and> executed [contractUpgrade] i d w2 s2 \<longrightarrow>
      (\<exists>s3 m. postProcess M ContractUpgradeService i s2 = Returns s3 \<and> account E m = account E latest \<and>
         wallet_with (wallet_id w) (dep_app s3) = Some (w2\<lparr>wallet_masterCopyAddress := Some m, contractVersion := masterCopy_version D latest\<rparr>) \<and>
         (\<forall>j. j \<noteq> wallet_id w \<longrightarrow> wallet_with j (dep_app s3) = wallet_with j (dep_app s2)) \<and>
         events (app_world (dep_app s3)) = events (app_world (dep_app s2)) @ [ContractUpgraded] \<and> rest_kept i s2 s3 \<and>
         (selected_wallet (dep_app s2) = Some w2 \<longrightarrow> \<not> isAvailable (mf_env M) ContractUpgradeService (dep_app s3))))"
proof -
  let ?calls = "[SafeCreation.changeMasterCopy E latest, setFallbackHandler E (defaultFallbackHandlerAddress D)]" and ?m = "uint_address E (account E latest)"
  let ?d = "safe_batch M (md_multiSendContractAddress D) a ?calls"
  obtain s1 tx1 where "createTransaction M ContractUpgradeService now i s = (Returns s1 :: (unit, _) outcome)" "find_tx i s1 = Some tx1" "tx_type tx1 = contractUpgrade"
    "carries (mf_env M) a ?calls tx1" "tx_data tx1 = Some ?d"
    using upgrade_transaction [OF assms(3) [unfolded E_def] assms(4-6,8) D_def [THEN meta_eq_to_obj_eq] assms(9,10), of ?calls now i] unfolding E_def by blast
  moreover have "\<exists>s3 m. postProcess M ContractUpgradeService i s2 = Returns s3 \<and> account E m = account E latest \<and>
         wallet_with (wallet_id w) (dep_app s3) = Some (w2\<lparr>wallet_masterCopyAddress := Some m, contractVersion := masterCopy_version D latest\<rparr>) \<and>
         (\<forall>j. j \<noteq> wallet_id w \<longrightarrow> wallet_with j (dep_app s3) = wallet_with j (dep_app s2)) \<and>
         events (app_world (dep_app s3)) = events (app_world (dep_app s2)) @ [ContractUpgraded] \<and> rest_kept i s2 s3 \<and>
         (selected_wallet (dep_app s2) = Some w2 \<longrightarrow> \<not> isAvailable (mf_env M) ContractUpgradeService (dep_app s3))"
    if w2: "wallet_id w2 = wallet_id w" "address w2 = Some a" and x: "executed [contractUpgrade] i ?d w2 s2" for s2 w2
  proof -
    let ?w3 = "w2\<lparr>wallet_masterCopyAddress := Some ?m, contractVersion := masterCopy_version D latest\<rparr>"
    let ?s3 = "unregisterPostProcessing i (on_app (\<lambda>x. publish_event ContractUpgraded (save_wallet ?w3 x)) s2)"
    have "postProcess M ContractUpgradeService i s2 = Returns ?s3"
      using upgrade_postProcess [of M i a latest "defaultFallbackHandlerAddress D" w2 s2] assms(3,7,11) w2(2) x unfolding E_def D_def by blast
    moreover have "account E ?m = account E latest" using account_uint_address [OF assms(3) hex_address_account(2) [OF assms(3,11)]] .
    moreover have "wallet_with j (dep_app ?s3) = (if j = wallet_id w then Some ?w3 else wallet_with j (dep_app s2))" for j using w2(1) by simp
    moreover have "\<not> isAvailable (mf_env M) ContractUpgradeService (dep_app ?s3)" if "selected_wallet (dep_app s2) = Some w2"
    proof -
      have "selected_wallet (dep_app ?s3) = Some ?w3"
      proof -
        have "app_portfolio (dep_app ?s3) = app_portfolio (dep_app s2)" by (simp add: publish_event_def save_wallet_def)
        then show ?thesis using selected_wallet_id [OF that] by (simp add: selected_wallet_def)
      qed
      moreover have "\<not> isOldMasterCopy D ?m" using assms(12) same_spelling_queries(2) [OF same_account_spelling [OF assms(3,11)]] by blast
      ultimately show ?thesis by (simp add: isAvailable_def D_def)
    qed
    moreover have "events (app_world (dep_app ?s3)) = events (app_world (dep_app s2)) @ [ContractUpgraded]"
      by (simp add: publish_event_def publish_def save_wallet_def save_def)
    moreover note rest_kept_upgrade [of i s2 ?w3]
    ultimately show ?thesis by (intro exI [of _ ?s3] exI [of _ ?m]) simp
  qed
  ultimately show ?thesis by blast
qed

subsection \<open>Signatures of the recovery phrase\<close>

lemma sign_eoa_adds:
  assumes "sign_eoa M now a s tx = (Returns tx1 :: ('e, _) outcome)" "hash_of (env_digest (mf_env M) s) tx = (Returns h :: ('e, _) outcome)"
  obtains sig where "env_sign (mf_env M) h (leftPadded (sv_privateKey (mf_services M) a) 32) = Some sig" "tx1 = add_signature \<lparr>sig_address = a, sig_data = sig\<rparr> now tx"
  using assms by (auto simp: sign_eoa_def sign_with_def sign_transaction_def rawSignature_def unwrap_eq_Returns)

lemma add_signature_keeps:
  "hash_of (env_digest V s) (add_signature sg now tx) = (hash_of (env_digest V s) tx :: ('e, _) outcome)"
  "status (add_signature sg now tx) = status tx" "tx_hash (add_signature sg now tx) = tx_hash tx" "tx_id (add_signature sg now tx) = tx_id tx" "tx_data (add_signature sg now tx) = tx_data tx"
  "set (signatures (add_signature sg now tx)) = insert sg (set (signatures tx))" "\<exists>new. signatures (add_signature sg now tx) = signatures tx @ new"
proof -
  show "hash_of (env_digest V s) (add_signature sg now tx) = (hash_of (env_digest V s) tx :: ('e, _) outcome)"
    by (rule hash_of_env_cong) (simp_all add: add_signature_def timestamp_defs)
qed (auto simp: add_signature_def timestamp_defs)

lemma env_digest_save_tx [simp]: "env_digest V (save_tx tx s) = env_digest V s"
  by (simp add: env_digest_def save_tx_def)

lemma app_world_save_tx [simp]: "app_world (save_tx tx s) = app_world s"
  by (simp add: save_tx_def)

text \<open>What the transaction \<open>tx\<close> has become when the phrase of the account \<open>p\<close> has signed it.\<close>

definition phrase_signed :: "modifier \<Rightarrow> app \<Rightarrow> Address \<Rightarrow> Transaction \<Rightarrow> Transaction \<Rightarrow> bool" where
  "phrase_signed M s p tx tx1 \<longleftrightarrow>
     (\<exists>h sig1 sig2 new. status tx1 = TS_signing \<and> tx_hash tx1 = Some h \<and> hash_of (env_digest (mf_env M) s) tx1 = (Returns h :: (ModificationError, _) outcome) \<and> tx_data tx1 = tx_data tx \<and>
       env_sign (mf_env M) h (leftPadded (sv_privateKey (mf_services M) p) 32) = Some sig1 \<and>
       env_sign (mf_env M) h (leftPadded (sv_privateKey (mf_services M) (rc_deriveChild (mf_recoverer M) p)) 32) = Some sig2 \<and>
       signatures tx1 = signatures tx @ new \<and>
       set (signatures tx1) = set (signatures tx) \<union> {\<lparr>sig_address = p, sig_data = sig1\<rparr>, \<lparr>sig_address = rc_deriveChild (mf_recoverer M) p, sig_data = sig2\<rparr>})"

lemma sign_modification_signs:
  assumes "sign_modification M B now i phrase s = Returns s1" "find_tx i s = Some tx" "status tx = TS_draft"
  shows "\<exists>p tx1. rc_deriveAccount (mf_recoverer M) phrase = Some p \<and> isContractOwners M B (p, rc_deriveChild (mf_recoverer M) p) s = Returns True \<and>
    find_tx i s1 = Some tx1 \<and> phrase_signed M s p tx tx1 \<and> app_world s1 = app_world s"
proof -
  have id: "tx_id tx = i" using assms(2) find_row_SomeD by (fastforce simp: find_tx_def)
  let ?D = "env_digest (mf_env M) s"
  from assms(1,2) id obtain p h tx1 tx2 tx3 where
    p: "rc_deriveAccount (mf_recoverer M) phrase = Some p" "isContractOwners M B (p, rc_deriveChild (mf_recoverer M) p) s = Returns True"
    and h: "hash_of ?D tx = (Returns h :: (ModificationError, _) outcome)"
    and tx1: "tx_proceed now now (change_hash (Some h) now tx) = (Returns tx1 :: (ModificationError, _) outcome)"
    and tx2: "sign_eoa M now p (save_tx (change_hash (Some h) now tx) s) tx1 = (Returns tx2 :: (ModificationError, _) outcome)"
    and tx3: "sign_eoa M now (rc_deriveChild (mf_recoverer M) p) (save_tx (change_hash (Some h) now tx) s) tx2 = (Returns tx3 :: (ModificationError, _) outcome)"
    and s1: "s1 = save_tx tx3 (save_tx (change_hash (Some h) now tx) s)"
    by (auto simp: sign_modification_def signingEOA_def updateHash_def transaction_def unwrap_eq_Returns find_tx_save change_hash_def timestamp_defs split: option.splits if_splits)
  have t1: "tx1 = timestampUpdated now (change_status TS_signing (change_hash (Some h) now tx))"
    using tx1 assms(3) by (auto simp: tx_proceed_def Draft_proceed_def edit_defs timestamp_defs assertNotNil_forced split: if_splits)
  have "hash_of ?D tx1 = (hash_of ?D tx :: (ModificationError, _) outcome)"
    by (rule hash_of_env_cong) (simp_all add: t1 edit_defs timestamp_defs change_status_def)
  with h have h1: "hash_of ?D tx1 = (Returns h :: (ModificationError, _) outcome)" by simp
  obtain sig1 where g1: "env_sign (mf_env M) h (leftPadded (sv_privateKey (mf_services M) p) 32) = Some sig1" "tx2 = add_signature \<lparr>sig_address = p, sig_data = sig1\<rparr> now tx1"
    using sign_eoa_adds [OF tx2, of h] h1 by auto
  obtain sig2 where g2: "env_sign (mf_env M) h (leftPadded (sv_privateKey (mf_services M) (rc_deriveChild (mf_recoverer M) p)) 32) = Some sig2"
    "tx3 = add_signature \<lparr>sig_address = rc_deriveChild (mf_recoverer M) p, sig_data = sig2\<rparr> now tx2"
    using sign_eoa_adds [OF tx3, of h] h1 g1(2) by (auto simp: add_signature_keeps(1))
  have "hash_of ?D tx3 = (Returns h :: (ModificationError, _) outcome)" using h1 by (simp add: g1(2) g2(2) add_signature_keeps(1))
  moreover have sigs: "signatures tx1 = signatures tx" using id by (simp add: t1 edit_defs timestamp_defs change_status_def)
  moreover obtain new where "signatures tx3 = signatures tx1 @ new" using add_signature_keeps(7) unfolding g1(2) g2(2) by (metis append_assoc)
  moreover have "set (signatures tx3) = set (signatures tx) \<union> {\<lparr>sig_address = p, sig_data = sig1\<rparr>, \<lparr>sig_address = rc_deriveChild (mf_recoverer M) p, sig_data = sig2\<rparr>}"
    by (auto simp: g1(2) g2(2) add_signature_keeps(6) sigs)
  moreover have "status tx3 = TS_signing" "tx_hash tx3 = Some h" "tx_data tx3 = tx_data tx" "tx_id tx3 = i"
    using id by (simp_all add: g1(2) g2(2) add_signature_keeps(2-5)) (simp_all add: t1 edit_defs timestamp_defs change_status_def)
  ultimately have "phrase_signed M s p tx tx3" "tx_id tx3 = i" using g1(1) g2(1) unfolding phrase_signed_def by simp_all
  with p s1 show ?thesis by (auto simp: find_tx_save)
qed

lemma isContractOwners_True:
  assumes "isContractOwners M B (p, q) s = Returns True"
  obtains a os where "contractProxy s = (Returns a :: (ModificationError, _) outcome)" "getOwners (mf_packages M) (ca_eth_call B) a = Returns os" "lower p \<in> lower ` set os" "lower q \<in> lower ` set os"
proof -
  from assms obtain a os x y where "contractProxy s = (Returns a :: (ModificationError, _) outcome)" "getOwners (mf_packages M) (ca_eth_call B) a = Returns os" "x \<in> set os" "y \<in> set os"
    "lower p = lower x" "lower q = lower y"
    by (auto simp: isContractOwners_def Let_def mapErr_eq_Returns list_ex_iff lower_def)
  then show thesis using that by simp
qed

lemma estimateNetworkFee_keeps:
  assumes "estimateNetworkFee M now i s = Returns (f, s1)" "find_tx i s = Some tx"
  obtains tx1 where "find_tx i s1 = Some tx1" "status tx1 = status tx" "signatures tx1 = signatures tx" "tx_data tx1 = tx_data tx" "app_world s1 = app_world s" "contractProxy s1 = (contractProxy s :: ('e, _) outcome)"
proof -
  have id: "tx_id tx = i" using assms(2) find_row_SomeD by (fastforce simp: find_tx_def)
  obtain r tx1 where r: "calculateFees now r s tx = (Returns tx1 :: (ModificationError, _) outcome)" "s1 = save_tx tx1 s"
    using assms by (auto simp: estimateNetworkFee_def transaction_def mapErr_eq_Returns unwrap_eq_Returns)
  moreover from r(1) have "tx_data tx1 = tx_data tx" by (auto simp: calculateFees_def Let_def edit_defs timestamp_defs)
  ultimately show thesis using that calculateFees_keeps [OF r(1)] id by (simp add: find_tx_save)
qed

lemma ReplaceTwoFA_sign_signs:
  assumes "ReplaceTwoFA_sign M B now i phrase s = Returns s1" "find_tx i s = Some tx" "status tx = TS_draft \<or> status tx = TS_signing"
  shows "\<exists>p a os tx1. rc_deriveAccount (mf_recoverer M) phrase = Some p \<and> contractProxy s = (Returns a :: (ModificationError, _) outcome) \<and>
    getOwners (mf_packages M) (ca_eth_call B) a = Returns os \<and> lower p \<in> lower ` set os \<and> lower (rc_deriveChild (mf_recoverer M) p) \<in> lower ` set os \<and>
    find_tx i s1 = Some tx1 \<and> phrase_signed M s p tx tx1"
proof -
  obtain s0 where s0: "stepBackToDraft now i s = (Returns s0 :: (ModificationError \<times> app, _) outcome)" "find_tx i s0 = Some (tx\<lparr>status := TS_draft\<rparr>)" "s0 = s \<or> s0 = save_tx (tx\<lparr>status := TS_draft\<rparr>) s"
    using stepBackToDraft_returns [OF assms(2,3), where ?'e = "ModificationError \<times> app"] by blast
  with assms(1) obtain f s2 where s2: "estimateNetworkFee M now i s0 = Returns (f, s2)" "sign_modification M B now i phrase s2 = Returns s1"
    by (auto simp: ReplaceTwoFA_sign_def mapErr_eq_Returns)
  obtain tx2 where tx2: "find_tx i s2 = Some tx2" "status tx2 = TS_draft" "signatures tx2 = signatures tx" "tx_data tx2 = tx_data tx" "app_world s2 = app_world s0"
    "contractProxy s2 = (contractProxy s0 :: (ModificationError, _) outcome)"
    using estimateNetworkFee_keeps [OF s2(1) s0(2), where ?'e = ModificationError] by auto
  from sign_modification_signs [OF s2(2) tx2(1,2)]
  obtain p tx1 where p: "rc_deriveAccount (mf_recoverer M) phrase = Some p" "isContractOwners M B (p, rc_deriveChild (mf_recoverer M) p) s2 = Returns True" "find_tx i s1 = Some tx1" "phrase_signed M s2 p tx2 tx1"
    by blast
  have "app_world s2 = app_world s" "contractProxy s2 = (contractProxy s :: (ModificationError, _) outcome)" using s0(3) tx2(5,6) by auto
  moreover from this(1) have "env_digest (mf_env M) s2 = env_digest (mf_env M) s" by (simp add: env_digest_def)
  ultimately have "phrase_signed M s p tx tx1" using p(4) tx2(3,4) by (simp add: phrase_signed_def)
  with p(1-3) isContractOwners_True [OF p(2)] \<open>contractProxy s2 = contractProxy s\<close> show ?thesis by metis
qed

text \<open>
  (C19) Signing with the recovery phrase takes effect only when both accounts of the phrase are owners of the contract. The signed transaction
  has the payload of before and a new digest, and carries the signatures of both accounts over that digest. The signatures that it had before stay in
  front: when the transaction is signed a second time, after the digest has changed, the ones over the old digest are still there.
\<close>

theorem phrase_signing:
  assumes "ReplaceTwoFA_sign M B now i phrase s = Returns s1" "find_tx i s = Some tx" "status tx = TS_draft \<or> status tx = TS_signing"
  shows "\<exists>p a os tx1. rc_deriveAccount (mf_recoverer M) phrase = Some p \<and> contractProxy s = (Returns a :: (ModificationError, _) outcome) \<and>
    getOwners (mf_packages M) (ca_eth_call B) a = Returns os \<and> lower p \<in> lower ` set os \<and> lower (rc_deriveChild (mf_recoverer M) p) \<in> lower ` set os \<and>
    find_tx i s1 = Some tx1 \<and> phrase_signed M s p tx tx1"
  using assms by (rule ReplaceTwoFA_sign_signs)

subsection \<open>Errors\<close>

lemma remoteOwnersList_unanswered:
  assumes "selected_wallet s = Some w" "address w = Some a" "getOwners (mf_packages M) (ca_eth_call A) a = Throws e"
  shows "remoteOwnersList M A s = Returns None"
  using assms by (simp add: remoteOwnersList_def contractProxy_def)

text \<open>
  (C28) When the node does not answer while the payload is made, no error is reported: replacing the second factor or the phrase stores the transaction without
  a payload, and disconnecting goes on to sign it. The phrase then signs a transaction that does nothing, and its fee is paid.
\<close>

theorem unanswered_payload_is_signed:
  assumes "selected_wallet s = Some w" "address w = Some a" "getOwners (mf_packages M) (ca_eth_call A) a = Throws e" "twoFAOwner w \<noteq> None"
    and "find_tx i s = Some tx" "status tx = TS_draft \<or> status tx = TS_signing"
  shows "(K = ReplaceTwoFAService \<or> K = ReplaceRecoveryPhraseService \<longrightarrow>
      (\<exists>s1. update M K A now i new s = (Returns s1 :: (unit, _) outcome) \<and> map_option tx_data (find_tx i s1) = Some None)) \<and>
    (DisconnectTwoFA_sign M A B now i phrase s = Returns s1 \<longrightarrow>
      (\<exists>p tx0 tx1. rc_deriveAccount (mf_recoverer M) phrase = Some p \<and> tx_data tx0 = None \<and> find_tx i s1 = Some tx1 \<and> phrase_signed M s p tx0 tx1))"
proof (intro conjI impI)
  have id: "tx_id tx = i" using assms(5) find_row_SomeD by (fastforce simp: find_tx_def)
  show "\<exists>s1. update M K A now i new s = (Returns s1 :: (unit, _) outcome) \<and> map_option tx_data (find_tx i s1) = Some None" if K: "K = ReplaceTwoFAService \<or> K = ReplaceRecoveryPhraseService"
  proof -
    obtain s0 where s0: "stepBackToDraft now i s = (Returns s0 :: (unit, _) outcome)" "find_tx i s0 = Some (tx\<lparr>status := TS_draft\<rparr>)" "s0 = s \<or> s0 = save_tx (tx\<lparr>status := TS_draft\<rparr>) s"
      using stepBackToDraft_returns [OF assms(5,6), where ?'e = unit] by blast
    then have "selected_wallet s0 = Some w" using assms(1) by auto
    then have "realTransactionData M K A new s0 = (Returns None :: (unit, _) outcome)"
      using K assms(4) remoteOwnersList_unanswered [OF _ assms(2,3), of s0, where ?'a = unit]
      by (auto simp: realTransactionData_def ReplaceTwoFA_realTransactionData_def ReplaceRecoveryPhrase_realTransactionData_def)
    then show ?thesis using K s0(1,2) id by (auto simp: update_def ReplaceTwoFA_update_def transaction_def find_tx_save edit_defs timestamp_defs)
  qed
  assume signed: "DisconnectTwoFA_sign M A B now i phrase s = Returns s1"
  obtain s0 where s0: "stepBackToDraft now i s = (Returns s0 :: (ModificationError \<times> app, _) outcome)" "find_tx i s0 = Some (tx\<lparr>status := TS_draft\<rparr>)" "s0 = s \<or> s0 = save_tx (tx\<lparr>status := TS_draft\<rparr>) s"
    using stepBackToDraft_returns [OF assms(5,6), where ?'e = "ModificationError \<times> app"] by blast
  let ?tx0 = "change_data None now (tx\<lparr>status := TS_draft\<rparr>)"
  have "selected_wallet s0 = Some w" using s0(3) assms(1) by auto
  then have "Disconnect_realTransactionData M A s0 = (Returns None :: (ModificationError \<times> app, _) outcome)"
    using remoteOwnersList_unanswered [OF _ assms(2,3), of s0, where ?'a = "ModificationError \<times> app"] by (auto simp: Disconnect_realTransactionData_def split: option.split)
  then have "ReplaceTwoFA_sign M B now i phrase (save_tx ?tx0 s0) = Returns s1"
    using signed s0(1,2) by (simp add: DisconnectTwoFA_sign_def DisconnectTwoFA_update_def transaction_def)
  moreover have "find_tx i (save_tx ?tx0 s0) = Some ?tx0" "status ?tx0 = TS_draft" "tx_data ?tx0 = None" using id by (simp_all add: find_tx_save edit_defs timestamp_defs)
  moreover have "env_digest (mf_env M) (save_tx ?tx0 s0) = env_digest (mf_env M) s" using s0(3) by auto
  then have "phrase_signed M (save_tx ?tx0 s0) p x y = phrase_signed M s p x y" for p x y by (simp add: phrase_signed_def)
  ultimately show "\<exists>p tx0 tx1. rc_deriveAccount (mf_recoverer M) phrase = Some p \<and> tx_data tx0 = None \<and> find_tx i s1 = Some tx1 \<and> phrase_signed M s p tx0 tx1"
    using ReplaceTwoFA_sign_signs [of M B now i phrase "save_tx ?tx0 s0" s1 ?tx0] by blast
qed

text \<open>
  (C30) The services need the address of the selected wallet to read a payload. While a wallet without an address is selected, as when another
  safe is being created, a round of the synchronisation stops the process as soon as a replaced or newly connected second factor of any wallet is to be processed.
\<close>

theorem processing_stops_on_draft:
  assumes "selected_wallet (dep_app s) = Some w" "address w = None"
    and "monitors s = [\<lparr>mon_transactionID = i, mon_createdDate = t\<rparr>]" "find_tx i (dep_app s) = Some tx" "tx_data tx \<noteq> None" "status tx \<in> {TS_success, TS_failed}"
    and "K = ReplaceTwoFAService \<or> K = ConnectTwoFAService" "tx_type tx \<in> set (postProcessTypes K)"
    and "AccountID_walletID (tx_accountID tx) = (Returns j :: (ModificationError, _) outcome)" "wallet_with j (dep_app s) \<noteq> None"
  shows "sync_postProcessTransactions M [True, True, True, True, True] s = (Traps :: (unit, _) outcome)"
proof -
  obtain d w1 where d: "tx_data tx = Some d" "wallet_with j (dep_app s) = Some w1" using assms(5,10) by auto
  have "contractProxy (dep_app s) = (Traps :: (ModificationError, _) outcome)" using assms(1,2) by (simp add: contractProxy_def)
  with assms d have K: "postProcess M K i s = Traps" "processed (postProcessTypes K) i (dep_app s) = (Returns (Some (tx, w1)) :: (ModificationError, _) outcome)"
    by (auto simp: postProcess_def ReplaceTwoFA_postProcess_def processed_def newOwnerAddress_def transaction_def)
  have none: "processed types i (dep_app s) = (Returns None :: (ModificationError, _) outcome)" if "tx_type tx \<notin> set types" for types
    using that assms(4) by (simp add: processed_def)
  have "postProcess M ContractUpgradeService i s = Returns s" using none [of "[contractUpgrade]"] assms(7,8) by (auto simp: postProcess_def ContractUpgrade_postProcess_def)
  moreover have "postProcess M ReplaceTwoFAService i s = Returns s" if "K = ConnectTwoFAService"
    using none [of "postProcessTypes ReplaceTwoFAService"] that assms(8) by (auto simp: postProcess_def ReplaceTwoFA_postProcess_def)
  ultimately show ?thesis
    using assms(3,7) K(1) by (auto simp: sync_postProcessTransactions_def sync_order_def postProcessTransactions_def failing_in_def)
qed

text \<open>
  (C29) A second device that cannot be unpaired holds up all processing. When the transaction that is monitored longest replaced the second
  device and the notification service refuses to delete the old pairing, then the round ends without any change: the later transactions, also those of other wallets
  and services, stay unprocessed, and so does every following round in which the refusal persists.
\<close>

theorem refused_unpairing_blocks:
  assumes "sort_key mon_createdDate (monitors s) = entry # rest" "processed (postProcessTypes ReplaceTwoFAService) (mon_transactionID entry) (dep_app s) = (Returns (Some (tx, w)) :: (ModificationError, _) outcome)"
    and "\<forall>m \<in> set (monitors s). map_option tx_type (find_tx (mon_transactionID m) (dep_app s)) \<noteq> Some contractUpgrade"
    and "newOwnerAddress M ReplaceTwoFAService (mon_transactionID entry) (dep_app s) = (Returns (Some new) :: (ModificationError, _) outcome)"
    and "status tx = TS_success" "twoFAOwner w = Some ext" "owner_role ext = browserExtension"
    and "deletePair M (wallet_id w) (address_value (owner_address ext)) (dep_app s) = Throws e"
  shows "sync_postProcessTransactions M access s = (Returns s :: (unit, _) outcome)"
proof -
  have "postProcess M ReplaceTwoFAService (mon_transactionID entry) s = Throws e"
    using assms(2,4-8) by (simp add: postProcess_def ReplaceTwoFA_postProcess_def ReplaceTwoFA_processSuccess_def removeOldTwoFAOwner_def)
  then have "postProcessTransactions M ReplaceTwoFAService s = Throws (e, s)" using assms(1) by (simp add: postProcessTransactions_def failing_in_def)
  moreover have "postProcess_all M ContractUpgradeService ms s = Returns s" if "set ms \<subseteq> set (monitors s)" for ms
    using that
  proof (induction ms)
    case (Cons m ms)
    then have "processed [contractUpgrade] (mon_transactionID m) (dep_app s) = (Returns None :: (ModificationError, _) outcome)" using assms(3) by (auto simp: processed_def split: option.splits)
    then have "postProcess M ContractUpgradeService (mon_transactionID m) s = Returns s" by (simp add: postProcess_def ContractUpgrade_postProcess_def)
    with Cons show ?case by (simp add: failing_in_def)
  qed simp
  then have "postProcessTransactions M ContractUpgradeService s = Returns s" by (simp add: postProcessTransactions_def)
  ultimately show ?thesis
    by (cases access; cases "tl access") (auto simp: sync_postProcessTransactions_def sync_order_def)
qed

subsection \<open>Samples\<close>

definition sampleModifier :: modifier where
  "sampleModifier =
     \<lparr>mf_recoverer = sampleRecoverer\<lparr>rc_deriveChild := (\<lambda>a. if a = deploy_address 22 then deploy_address 23 else deploy_address 43)\<rparr>,
      mf_deletePair = (\<lambda>_. Returns ()), mf_pair = (\<lambda>_. Returns []), mf_ExtensionCode = (\<lambda>_. None), mf_BrowserExtensionCode = (\<lambda>_. None), mf_setOrder = rev\<rparr>"

lemma sampleModifier_parts [simp]:
  "mf_services sampleModifier = rc_services sampleRecoverer" "rc_deriveChild (mf_recoverer sampleModifier) a = (if a = deploy_address 22 then deploy_address 23 else deploy_address 43)"
  "rc_deriveAccount (mf_recoverer sampleModifier) phrase = Some (deploy_address 22)" "mf_deletePair sampleModifier r = Returns ()" "mf_setOrder sampleModifier = rev"
  by (simp_all add: sampleModifier_def sampleRecoverer_def)

lemma sample_eip55_recovery: "eip55_ok recoveryEnv"
  using sample_eip55 by (simp add: eip55_ok_def recoveryEnv_def)

definition safeWallet :: "Owner list \<Rightarrow> Wallet" where
  "safeWallet factor =
     (Wallet_blank ''w'')\<lparr>state := readyToUse, address := Some (deploy_address 30), confirmationCount := 1 + int (length factor),
       owners := [\<lparr>owner_address = deploy_address 40, owner_role = thisDevice\<rparr>, \<lparr>owner_address = deploy_address 22, owner_role = paperWallet\<rparr>,
         \<lparr>owner_address = deploy_address 23, owner_role = paperWalletDerived\<rparr>] @ factor\<rparr>"

definition extensionOwner :: Owner where
  "extensionOwner = \<lparr>owner_address = deploy_address 41, owner_role = browserExtension\<rparr>"

definition safeOwners :: "nat list" where
  "safeOwners = [41, 40, 22, 23]"

definition safeContract :: contract_answers where
  "safeContract = sampleContract (map deploy_address safeOwners) 2"

lemma safeContract_owners: "getOwners samplePackages (ca_eth_call safeContract) a = Returns (map deploy_address safeOwners)"
  using sampleContract_answers(1) [of 2 safeOwners a] by (simp add: safeContract_def safeOwners_def)

lemma safeWallet_parts:
  "wallet_id (safeWallet f) = ''w''" "address (safeWallet f) = Some (deploy_address 30)" "confirmationCount (safeWallet [extensionOwner]) = 2"
  "twoFAOwner (safeWallet [extensionOwner]) = Some extensionOwner" "hasAuthenticator (safeWallet [extensionOwner])" "one_factor (safeWallet [extensionOwner])"
  "1 < length (owners (safeWallet f))" "owner_role extensionOwner = browserExtension" "owner_address extensionOwner = deploy_address 41"
  "Wallet.owner (safeWallet [extensionOwner]) thisDevice = Some \<lparr>owner_address = deploy_address 40, owner_role = thisDevice\<rparr>"
  by (simp_all add: safeWallet_def Wallet_blank_def extensionOwner_def twoFAOwner_def hasAuthenticator_def one_factor_def Wallet.owner_def first_with_def)

lemma safe_accounts: "map (account samplePackages) (map deploy_address safeOwners) = safeOwners"
  using account_small_address by (simp add: safeOwners_def)

lemma safe_start: "(map (account (mf_packages sampleModifier)) (map deploy_address safeOwners), confirmationCount (safeWallet [extensionOwner])) = ([41, 40, 22, 23], 2)"
  using safe_accounts safeWallet_parts(3) by (simp add: safeOwners_def)

lemma safe_in_step: "in_step samplePackages (map deploy_address safeOwners) (safeWallet [extensionOwner])"
  using hex_deploy_address account_small_address
  by (simp add: in_step_def mirrors_def safeOwners_def safeWallet_def extensionOwner_def roles_unique_def)

lemma safe_phrase_wallet: "phrase_wallet \<lparr>owner_address = deploy_address 22, owner_role = paperWallet\<rparr> \<lparr>owner_address = deploy_address 23, owner_role = paperWalletDerived\<rparr> (safeWallet [extensionOwner])"
  by (simp add: phrase_wallet_def safeWallet_def extensionOwner_def Wallet.owner_def first_with_def)

definition modification_tx :: "TransactionType \<Rightarrow> Code \<Rightarrow> data option \<Rightarrow> Transaction" where
  "modification_tx ty st d = submit_tx\<lparr>tx_type := ty, status := st, tx_data := d, recipient := Some (deploy_address 50)\<rparr>"

lemma modification_tx_parts:
  "tx_id (modification_tx ty st d) = ''t''" "tx_type (modification_tx ty st d) = ty" "status (modification_tx ty st d) = st" "tx_data (modification_tx ty st d) = d"
  "recipient (modification_tx ty st d) = Some (deploy_address 50)" "AccountID_walletID (tx_accountID (modification_tx ty st d)) = (Returns ''w'' :: ('e, _) outcome)"
  using submit_sample(4) by (simp_all add: modification_tx_def) (simp_all add: submit_tx_def digest_tx_defs)

lemma safe_find_tx: "find_tx ''t'' (dep_app (lostApp w [modification_tx ty st d])) = Some (modification_tx ty st d)"
  by (simp add: find_tx_def find_row_def lostApp_def modification_tx_parts)

lemma safe_executed: "ty \<in> set types \<Longrightarrow> executed types ''t'' d (safeWallet f) (lostApp (safeWallet f) [modification_tx ty TS_success (Some d)])"
  using lostApp_wallet [OF safeWallet_parts(1)] by (auto simp: executed_def safe_find_tx modification_tx_parts safeWallet_parts contractProxy_def)

lemma safe_unpaired: "unpaired sampleModifier (safeWallet [extensionOwner]) (dep_app (lostApp (safeWallet [extensionOwner]) txs))"
proof -
  let ?s = "dep_app (lostApp (safeWallet [extensionOwner]) txs)"
  have "find_key (mf_services sampleModifier) (deploy_address 40) ?s \<noteq> None" by (simp add: find_key_def lostApp_def)
  then have "\<exists>sig. sign_message (mf_services sampleModifier) m (deploy_address 40) ?s = (Returns (Some sig) :: (ModificationError, _) outcome)" for m
    using sign_message_works [of "mf_services sampleModifier" ?s m "deploy_address 40", where ?'e = ModificationError] sampleRecoverer_ok(2) by auto
  then obtain sig where "sign_message (mf_services sampleModifier) (''GNO'' @ address_value (deploy_address 41)) (deploy_address 40) ?s = (Returns (Some sig) :: (ModificationError, _) outcome)" by blast
  then show ?thesis
    using lostApp_wallet(1) [OF safeWallet_parts(1)] by (simp add: unpaired_def deletePair_def safeWallet_parts)
qed

theorem second_factor_follows_contract_witness:
  "\<exists>s1 d c s3 w3. set_payload sampleModifier ReplaceTwoFAService safeContract 9 ''t'' (address_value (deploy_address 44))
      (dep_app (lostApp (safeWallet [extensionOwner]) [modification_tx replaceTwoFAWithStatusKeycard TS_draft None])) = (Returns s1 :: (unit, _) outcome) \<and>
    sampleExec d ([41, 40, 22, 23], 2) = Some c \<and>
    postProcess sampleModifier ReplaceTwoFAService ''t'' (lostApp (safeWallet [extensionOwner]) [modification_tx replaceTwoFAWithStatusKeycard TS_success (Some d)]) = Returns s3 \<and>
    wallet_with ''w'' (dep_app s3) = Some w3 \<and> mirrors samplePackages c w3"
proof -
  let ?M = sampleModifier and ?w = "safeWallet [extensionOwner]" and ?s = "dep_app (lostApp (safeWallet [extensionOwner]) [modification_tx replaceTwoFAWithStatusKeycard TS_draft None])"
  have fresh: "fresh (account (mf_packages ?M) (Address (address_value (deploy_address 44)))) (map (account (mf_packages ?M)) (map deploy_address safeOwners))"
    using safe_accounts account_small_address [of 44] by (simp add: fresh_def safeOwners_def)
  have K: "hasAuthenticator ?w \<longleftrightarrow> ReplaceTwoFAService \<noteq> ConnectTwoFAService" "ReplaceTwoFAService \<in> {ReplaceTwoFAService, ConnectTwoFAService, DisconnectTwoFAService}"
    using safeWallet_parts(5) by simp_all
  have ok: "packages_ok (mf_packages ?M)" "eip55_ok (mf_env ?M)" "owner_manager (mf_packages ?M) sampleExec"
    using samplePackages_ok sample_eip55_recovery sampleExec_ok by simp_all
  have own: "getOwners (mf_packages ?M) (ca_eth_call safeContract) (deploy_address 30) = Returns (map deploy_address safeOwners)" "in_step (mf_packages ?M) (map deploy_address safeOwners) ?w"
    using safeContract_owners safe_in_step by simp_all
  have hex: "hex_address (Address (address_value (deploy_address 44)))" using hex_deploy_address by simp
  obtain s1 d c where r: "set_payload ?M ReplaceTwoFAService safeContract 9 ''t'' (address_value (deploy_address 44)) ?s = (Returns s1 :: (unit, _) outcome)"
    "sampleExec d (map (account (mf_packages ?M)) (map deploy_address safeOwners), confirmationCount ?w) = Some c"
    "\<forall>s2 w2. wallet_id w2 = wallet_id ?w \<and> owners w2 = owners ?w \<and> confirmationCount w2 = confirmationCount ?w \<and> executed (postProcessTypes ReplaceTwoFAService) ''t'' d w2 s2 \<and> unpaired ?M w2 (dep_app s2) \<and> signing_works (mf_services ?M) (dep_app s2) \<longrightarrow>
      (\<exists>s3. postProcess ?M ReplaceTwoFAService ''t'' s2 = Returns s3 \<and> followed (mf_packages ?M) ''t'' c (wallet_id ?w) s2 s3)"
    using second_factor_follows_contract [OF ok lostApp_wallet(2) [OF safeWallet_parts(1)] safeWallet_parts(2) own safeWallet_parts(7,6) K hex fresh safe_find_tx [of ?w replaceTwoFAWithStatusKeycard TS_draft None], where now = 9]
    by (auto simp: modification_tx_parts)
  have "executed (postProcessTypes ReplaceTwoFAService) ''t'' d ?w (lostApp ?w [modification_tx replaceTwoFAWithStatusKeycard TS_success (Some d)])" by (rule safe_executed) simp
  moreover have "signing_works (mf_services ?M) u" for u using sampleRecoverer_ok(2) by simp
  ultimately obtain s3 where "postProcess ?M ReplaceTwoFAService ''t'' (lostApp ?w [modification_tx replaceTwoFAWithStatusKeycard TS_success (Some d)]) = Returns s3"
    "followed (mf_packages ?M) ''t'' c (wallet_id ?w) (lostApp ?w [modification_tx replaceTwoFAWithStatusKeycard TS_success (Some d)]) s3" using r(3) safe_unpaired by blast
  moreover from this(2) obtain w3 where "wallet_with ''w'' (dep_app s3) = Some w3" "mirrors samplePackages c w3" by (auto simp: followed_def safeWallet_parts)
  moreover have "sampleExec d ([41, 40, 22, 23], 2) = Some c" using r(2) safe_start by simp
  ultimately show ?thesis using r(1) by blast
qed

lemma sample_spelling: "encryption_address_from recoveryEnv (address_value (deploy_address n)) = (Returns (Some (deploy_address n)) :: ('e, _) outcome)"
proof -
  have "ethHex samplePackages (address_value (deploy_address n)) = be_bytes samplePackages 20 n"
    using address_bytes_uint_address [OF samplePackages_ok, of n] by (simp add: address_bytes_def)
  moreover have "address_value (deploy_address n) \<noteq> []" by (simp add: uint_address_def)
  moreover have "''0x'' @ hex_of_bytes (be_bytes samplePackages 20 n) = address_value (deploy_address n)" by (simp add: uint_address_def)
  ultimately show ?thesis
    using hex_address_init [OF samplePackages_ok hex_deploy_address, of n] by (simp add: encryption_address_from_def Let_def recoveryEnv_def sampleEnv_def)
qed

theorem new_phrase_follows_contract_witness:
  "\<exists>s1 calls c d s3 w3 b1. update sampleModifier ReplaceRecoveryPhraseService safeContract 9 ''t'' (address_value (deploy_address 42))
      (add_key (deploy_address 42) (dep_app (lostApp (safeWallet [extensionOwner]) [modification_tx replaceRecoveryPhrase TS_draft None]))) = (Returns s1 :: (unit, _) outcome) \<and>
    exec_all sampleExec calls ([41, 40, 22, 23], 2) = Some c \<and>
    postProcess sampleModifier ReplaceRecoveryPhraseService ''t'' (lostApp (safeWallet [extensionOwner]) [modification_tx replaceRecoveryPhrase TS_success (Some d)]) = Returns s3 \<and>
    wallet_with ''w'' (dep_app s3) = Some w3 \<and> mirrors samplePackages c w3 \<and>
    map_option owner_address (Wallet.owner w3 paperWallet) = Some b1 \<and> account samplePackages b1 = 42"
proof -
  let ?M = sampleModifier and ?w = "safeWallet [extensionOwner]" and ?new = "address_value (deploy_address 42)"
  let ?s0 = "dep_app (lostApp (safeWallet [extensionOwner]) [modification_tx replaceRecoveryPhrase TS_draft None])"
  let ?s = "add_key (deploy_address 42) ?s0"
  have ne: "deploy_address 42 \<noteq> deploy_address 22" using account_small_address [of 42] account_small_address [of 22] by auto
  have child: "rc_deriveChild (mf_recoverer ?M) (Address ?new) = deploy_address 43" using ne by simp
  have ok: "packages_ok (mf_packages ?M)" "eip55_ok (mf_env ?M)" "owner_manager (mf_packages ?M) sampleExec" "set_order_ok ?M"
    using samplePackages_ok sample_eip55_recovery sampleExec_ok by (simp_all add: set_order_ok_def)
  have sel: "selected_wallet ?s = Some ?w" "find_tx ''t'' ?s = Some (modification_tx replaceRecoveryPhrase TS_draft None)" "find_key (mf_services ?M) (Address ?new) ?s \<noteq> None"
    using safe_find_tx by (simp_all add: add_key_def lostApp_def selected_wallet_def wallet_with_def find_id_def find_tx_def find_key_def safeWallet_parts)
  have own: "getOwners (mf_packages ?M) (ca_eth_call safeContract) (deploy_address 30) = Returns (map deploy_address safeOwners)" "in_step (mf_packages ?M) (map deploy_address safeOwners) ?w"
    using safeContract_owners safe_in_step by simp_all
  have new: "hex_address (Address ?new)" "fresh (account (mf_packages ?M) (Address ?new)) (map (account (mf_packages ?M)) (map deploy_address safeOwners))"
    "hex_address (deploy_address 43)" "fresh (account (mf_packages ?M) (deploy_address 43)) (map (account (mf_packages ?M)) (map deploy_address safeOwners))"
    "account (mf_packages ?M) (Address ?new) \<noteq> account (mf_packages ?M) (deploy_address 43)" "account samplePackages (Address ?new) = 42"
    using safe_accounts account_small_address [of 42] account_small_address [of 43] hex_deploy_address by (simp_all add: fresh_def safeOwners_def)
  have batch: "hex_address (md_multiSendContractAddress (env_metadata (mf_env ?M)))"
    "encryption_address_from (mf_env ?M) (address_value (md_multiSendContractAddress (env_metadata (mf_env ?M)))) = (Returns (Some (deploy_address 50)) :: (unit, _) outcome)"
  proof -
    have "md_multiSendContractAddress (env_metadata (mf_env ?M)) = deploy_address 50" by (simp add: recoveryEnv_def)
    then show "hex_address (md_multiSendContractAddress (env_metadata (mf_env ?M)))"
      "encryption_address_from (mf_env ?M) (address_value (md_multiSendContractAddress (env_metadata (mf_env ?M)))) = (Returns (Some (deploy_address 50)) :: (unit, _) outcome)"
      using hex_deploy_address sample_spelling [of 50, where ?'e = unit] by simp_all
  qed
  have st: "status (modification_tx replaceRecoveryPhrase TS_draft None) = TS_draft \<or> status (modification_tx replaceRecoveryPhrase TS_draft None) = TS_signing" by (simp add: modification_tx_parts)
  note t = new_phrase_follows_contract [OF ok sel(1) safeWallet_parts(2) hex_deploy_address own safe_phrase_wallet new(1,2) sel(3), unfolded child, OF new(3-5) sel(2) st modification_tx_parts(5) batch, where now = 9]
  then obtain s1 d calls c where r: "update ?M ReplaceRecoveryPhraseService safeContract 9 ''t'' ?new ?s = (Returns s1 :: (unit, _) outcome)"
    "exec_all sampleExec calls (map (account (mf_packages ?M)) (map deploy_address safeOwners), confirmationCount ?w) = Some c"
    "\<forall>s2 w2. wallet_id w2 = wallet_id ?w \<and> owners w2 = owners ?w \<and> confirmationCount w2 = confirmationCount ?w \<and>
       executed [replaceRecoveryPhrase] ''t'' d w2 s2 \<and> Option.bind (find_tx ''t'' (dep_app s2)) recipient = Some (deploy_address 50) \<longrightarrow>
      (\<exists>s3 w3 b1 b2. postProcess ?M ReplaceRecoveryPhraseService ''t'' s2 = Returns s3 \<and> followed (mf_packages ?M) ''t'' c (wallet_id ?w) s2 s3 \<and>
         wallet_with (wallet_id ?w) (dep_app s3) = Some w3 \<and> map_option owner_address (Wallet.owner w3 paperWallet) = Some b1 \<and>
         map_option owner_address (Wallet.owner w3 paperWalletDerived) = Some b2 \<and> account (mf_packages ?M) b1 = account (mf_packages ?M) (Address ?new) \<and>
         account (mf_packages ?M) b2 = account (mf_packages ?M) (deploy_address 43) \<and> b1 \<notin> set (deviceKeys (app_world (dep_app s3))))"
    by (elim exE conjE) (rule that)
  let ?s2 = "lostApp ?w [modification_tx replaceRecoveryPhrase TS_success (Some d)]"
  have "executed [replaceRecoveryPhrase] ''t'' d ?w ?s2" by (rule safe_executed) simp
  moreover have "Option.bind (find_tx ''t'' (dep_app ?s2)) recipient = Some (deploy_address 50)" by (simp add: safe_find_tx modification_tx_parts)
  ultimately obtain s3 w3 b1 where "postProcess ?M ReplaceRecoveryPhraseService ''t'' ?s2 = Returns s3" "followed (mf_packages ?M) ''t'' c (wallet_id ?w) ?s2 s3"
    "wallet_with ''w'' (dep_app s3) = Some w3" "map_option owner_address (Wallet.owner w3 paperWallet) = Some b1" "account samplePackages b1 = 42"
    using r(3) [rule_format, of ?w ?s2] new(6) by (auto simp: safeWallet_parts)
  moreover from this(2,3) have "mirrors samplePackages c w3" by (auto simp: followed_def safeWallet_parts)
  moreover have "exec_all sampleExec calls ([41, 40, 22, 23], 2) = Some c" using r(2) safe_start by simp
  ultimately show ?thesis using r(1) by blast
qed

definition upgradeMetadata :: SafeContractMetadata where
  "upgradeMetadata = sampleMetadata\<lparr>md_multiSendContractAddress := deploy_address 50,
     masterCopy := map (\<lambda>n. \<lparr>mc_address = deploy_address n, mc_version = (if n = 61 then ''1.1.1'' else ''0.0.2''), txTypeHash = [], domainSeparatorHash = []\<rparr>) [60, 61]\<rparr>"

definition upgradeModifier :: modifier where
  "upgradeModifier = sampleModifier\<lparr>mf_recoverer := sampleRecoverer\<lparr>rc_services := sampleServices\<lparr>sv_env := recoveryEnv\<lparr>env_metadata := upgradeMetadata\<rparr>\<rparr>\<rparr>\<rparr>"

lemma upgradeModifier_parts [simp]: "mf_packages upgradeModifier = samplePackages" "env_metadata (mf_env upgradeModifier) = upgradeMetadata" "mf_env upgradeModifier = recoveryEnv\<lparr>env_metadata := upgradeMetadata\<rparr>"
  by (simp_all add: upgradeModifier_def)

theorem upgrade_completes_witness:
  "isAvailable (mf_env upgradeModifier) ContractUpgradeService (dep_app (lostApp (safeWallet []) [])) \<and>
   (\<exists>s1 d s3 m. createTransaction upgradeModifier ContractUpgradeService 9 ''t'' (dep_app (lostApp (safeWallet []) [])) = (Returns s1 :: (unit, _) outcome) \<and>
      postProcess upgradeModifier ContractUpgradeService ''t'' (lostApp (safeWallet []) [modification_tx contractUpgrade TS_success (Some d)]) = Returns s3 \<and>
      wallet_with ''w'' (dep_app s3) = Some ((safeWallet [])\<lparr>wallet_masterCopyAddress := Some m, contractVersion := Some ''1.1.1''\<rparr>) \<and> account samplePackages m = 61 \<and>
      \<not> isAvailable (mf_env upgradeModifier) ContractUpgradeService (dep_app s3))"
proof
  let ?M = upgradeModifier and ?w = "safeWallet []" and ?s = "dep_app (lostApp (safeWallet []) [])"
  have sel: "selected_wallet ?s = Some ?w" using lostApp_wallet(2) [OF safeWallet_parts(1)] .
  then show "isAvailable (mf_env ?M) ContractUpgradeService ?s" by (simp add: isAvailable_def safeWallet_def Wallet_blank_def isReadyToUse_def)
  have ok: "packages_ok (mf_packages ?M)" "eip55_ok (mf_env ?M)" using samplePackages_ok sample_eip55_recovery by (simp_all add: eip55_ok_def)
  have fee: "fee_token ?w = Address_zero" by (simp add: safeWallet_def Wallet_blank_def fee_token_def)
  have "address_value (fee_token ?w) \<noteq> []" "wallet_id ?w \<noteq> []" unfolding fee by (simp_all add: safeWallet_parts Address_zero_def)
  then have acc: "accountID (address_value (fee_token ?w)) (wallet_id ?w) = (Returns (address_value (fee_token ?w) @ '':'' @ wallet_id ?w) :: (unit, _) outcome)" by (simp add: accountID_def)
  have ne: "\<not> same_spelling (deploy_address 60) (deploy_address 61)" using same_deploy_address [of 60 61] by (simp add: same_spelling_def)
  have md: "hex_address (md_multiSendContractAddress (env_metadata (mf_env ?M)))" "latestMasterCopyAddress (env_metadata (mf_env ?M)) = (Returns (deploy_address 61) :: (unit, _) outcome)"
    "\<not> isOldMasterCopy (env_metadata (mf_env ?M)) (deploy_address 61)" "masterCopy_version (env_metadata (mf_env ?M)) (deploy_address 61) = Some ''1.1.1''"
    using ne hex_deploy_address by (simp_all add: upgradeMetadata_def latestMasterCopyAddress_def isOldMasterCopy_def masterCopy_version_def masterCopyMetadata_def same_spelling_def)
  obtain s1 d where r: "createTransaction ?M ContractUpgradeService 9 ''t'' ?s = (Returns s1 :: (unit, _) outcome)"
    "\<forall>s2 w2. wallet_id w2 = wallet_id ?w \<and> address w2 = Some (deploy_address 30) \<and> executed [contractUpgrade] ''t'' d w2 s2 \<longrightarrow>
      (\<exists>s3 m. postProcess ?M ContractUpgradeService ''t'' s2 = Returns s3 \<and> account (mf_packages ?M) m = account (mf_packages ?M) (deploy_address 61) \<and>
         wallet_with (wallet_id ?w) (dep_app s3) = Some (w2\<lparr>wallet_masterCopyAddress := Some m, contractVersion := masterCopy_version (env_metadata (mf_env ?M)) (deploy_address 61)\<rparr>) \<and>
         (\<forall>j. j \<noteq> wallet_id ?w \<longrightarrow> wallet_with j (dep_app s3) = wallet_with j (dep_app s2)) \<and>
         events (app_world (dep_app s3)) = events (app_world (dep_app s2)) @ [ContractUpgraded] \<and> rest_kept ''t'' s2 s3 \<and>
         (selected_wallet (dep_app s2) = Some w2 \<longrightarrow> \<not> isAvailable (mf_env ?M) ContractUpgradeService (dep_app s3)))"
    using upgrade_completes [OF ok sel safeWallet_parts(2) hex_deploy_address acc md(1,2) hex_deploy_address md(3), of 9 "''t''"] by (elim exE conjE) (rule that)
  let ?s2 = "lostApp ?w [modification_tx contractUpgrade TS_success (Some d)]"
  have "executed [contractUpgrade] ''t'' d ?w ?s2" "selected_wallet (dep_app ?s2) = Some ?w" using lostApp_wallet(2) [OF safeWallet_parts(1)] by (auto intro: safe_executed)
  then have "\<exists>s3 m. postProcess ?M ContractUpgradeService ''t'' ?s2 = Returns s3 \<and> wallet_with ''w'' (dep_app s3) = Some (?w\<lparr>wallet_masterCopyAddress := Some m, contractVersion := Some ''1.1.1''\<rparr>) \<and>
      account samplePackages m = 61 \<and> \<not> isAvailable (mf_env ?M) ContractUpgradeService (dep_app s3)"
    using r(2) [rule_format, of ?w ?s2] md(4) account_small_address [of 61] by (simp only: safeWallet_parts upgradeModifier_parts simp_thms) force
  with r(1) show "\<exists>s1 d s3 m. createTransaction ?M ContractUpgradeService 9 ''t'' ?s = (Returns s1 :: (unit, _) outcome) \<and>
      postProcess ?M ContractUpgradeService ''t'' (lostApp ?w [modification_tx contractUpgrade TS_success (Some d)]) = Returns s3 \<and>
      wallet_with ''w'' (dep_app s3) = Some (?w\<lparr>wallet_masterCopyAddress := Some m, contractVersion := Some ''1.1.1''\<rparr>) \<and> account samplePackages m = 61 \<and>
      \<not> isAvailable (mf_env ?M) ContractUpgradeService (dep_app s3)" by blast
qed

text \<open>A second wallet without an address is selected.\<close>

definition draftSelected :: "Transaction \<Rightarrow> deployment" where
  "draftSelected tx =
     (lostApp (safeWallet [extensionOwner]) [tx])\<lparr>dep_app := (dep_app (lostApp (safeWallet [extensionOwner]) [tx]))\<lparr>
        app_world := save (Wallet_blank ''v'') (app_world (dep_app (lostApp (safeWallet [extensionOwner]) [tx]))),
        app_portfolio := Some \<lparr>selectedWallet = Some ''v'', wallets = [''w'', ''v'']\<rparr>\<rparr>,
      monitors := [\<lparr>mon_transactionID = ''t'', mon_createdDate = 3\<rparr>]\<rparr>"

theorem processing_stops_on_draft_witness:
  "sync_postProcessTransactions sampleModifier [True, True, True, True, True] (draftSelected (modification_tx replaceTwoFAWithAuthenticator TS_success (Some [1]))) = (Traps :: (unit, _) outcome)"
proof -
  let ?tx = "modification_tx replaceTwoFAWithAuthenticator TS_success (Some [1])"
  have "selected_wallet (dep_app (draftSelected ?tx)) = Some (Wallet_blank ''v'')" "address (Wallet_blank ''v'') = None" "monitors (draftSelected ?tx) = [\<lparr>mon_transactionID = ''t'', mon_createdDate = 3\<rparr>]"
    "find_tx ''t'' (dep_app (draftSelected ?tx)) = Some ?tx" "wallet_with ''w'' (dep_app (draftSelected ?tx)) \<noteq> None"
    by (simp_all add: draftSelected_def lostApp_def selected_wallet_def wallet_with_def find_id_def save_def safeWallet_parts Wallet_blank_def find_tx_def find_row_def modification_tx_parts)
  then show ?thesis
    using processing_stops_on_draft [of "draftSelected ?tx" "Wallet_blank ''v''" "''t''" 3 ?tx ReplaceTwoFAService "''w''" sampleModifier] by (simp add: modification_tx_parts)
qed

theorem refused_unpairing_blocks_witness:
  "let s = (lostApp (safeWallet [extensionOwner]) [modification_tx replaceTwoFAWithStatusKeycard TS_success (Some (swapOwner samplePackages (deploy_address 40) (deploy_address 41) (deploy_address 44)))])
       \<lparr>monitors := [\<lparr>mon_transactionID = ''t'', mon_createdDate = 3\<rparr>, \<lparr>mon_transactionID = ''u'', mon_createdDate = 4\<rparr>]\<rparr>
   in sync_postProcessTransactions (sampleModifier\<lparr>mf_deletePair := (\<lambda>_. Throws NSURLError)\<rparr>) [True, True, True, True, True] s = (Returns s :: (unit, _) outcome)"
proof -
  let ?M = "sampleModifier\<lparr>mf_deletePair := (\<lambda>_. Throws NSURLError)\<rparr>" and ?w = "safeWallet [extensionOwner]"
  let ?d = "swapOwner samplePackages (deploy_address 40) (deploy_address 41) (deploy_address 44)"
  let ?tx = "modification_tx replaceTwoFAWithStatusKeycard TS_success (Some ?d)"
  define s where "s = (lostApp ?w [?tx])\<lparr>monitors := [\<lparr>mon_transactionID = ''t'', mon_createdDate = 3\<rparr>, \<lparr>mon_transactionID = ''u'', mon_createdDate = 4\<rparr>]\<rparr>"
  have app: "dep_app s = dep_app (lostApp ?w [?tx])" by (simp add: s_def)
  have "executed (postProcessTypes ReplaceTwoFAService) ''t'' ?d ?w (lostApp ?w [?tx])" by (rule safe_executed) simp
  then have p: "processed (postProcessTypes ReplaceTwoFAService) ''t'' (dep_app s) = (Returns (Some (?tx, ?w)) :: (ModificationError, _) outcome)"
    unfolding app by (elim executed_processed) (simp add: safe_find_tx)
  have ok: "address_ok samplePackages (deploy_address n)" for n using hex_address_account(3) [OF samplePackages_ok hex_deploy_address] by (simp add: address_ok_def)
  have new: "newOwnerAddress ?M ReplaceTwoFAService ''t'' (dep_app s) = (Returns (Some (address_value (deploy_address 44))) :: (ModificationError, _) outcome)"
    using decodeSwapOwner_swapOwner [OF samplePackages_ok ok ok ok, where ?'a = ModificationError] lostApp_wallet(2) [OF safeWallet_parts(1)] account_small_address [of 44]
    by (simp add: app newOwnerAddress_def transaction_def safe_find_tx modification_tx_parts contractProxy_def safeWallet_parts)
  have "find_key (mf_services ?M) (deploy_address 40) (dep_app s) \<noteq> None" by (simp add: app find_key_def lostApp_def)
  then obtain sig where "sign_message (mf_services ?M) (''GNO'' @ address_value (deploy_address 41)) (deploy_address 40) (dep_app s) = (Returns (Some sig) :: (ModificationError, _) outcome)"
    using sign_message_works [of "mf_services ?M" "dep_app s" "''GNO'' @ address_value (deploy_address 41)" "deploy_address 40", where ?'e = ModificationError] sampleRecoverer_ok(2) by auto
  then have del: "deletePair ?M (wallet_id ?w) (address_value (owner_address extensionOwner)) (dep_app s) = Throws (ServiceFailure NSURLError)"
    using lostApp_wallet(1) [OF safeWallet_parts(1)] by (simp add: app deletePair_def safeWallet_parts)
  have mon: "monitors s = [\<lparr>mon_transactionID = ''t'', mon_createdDate = 3\<rparr>, \<lparr>mon_transactionID = ''u'', mon_createdDate = 4\<rparr>]" by (simp add: s_def)
  have "find_tx ''u'' (dep_app s) = None" by (simp add: app find_tx_def find_row_def lostApp_def modification_tx_parts)
  then have up: "\<forall>m \<in> set (monitors s). map_option tx_type (find_tx (mon_transactionID m) (dep_app s)) \<noteq> Some contractUpgrade"
    unfolding mon by (simp add: app safe_find_tx modification_tx_parts)
  have srt: "sort_key mon_createdDate (monitors s) = \<lparr>mon_transactionID = ''t'', mon_createdDate = 3\<rparr> # [\<lparr>mon_transactionID = ''u'', mon_createdDate = 4\<rparr>]"
    unfolding mon by simp
  have w: "twoFAOwner ?w = Some extensionOwner" "owner_role extensionOwner = browserExtension" "status ?tx = TS_success"
    by (simp_all add: safeWallet_parts modification_tx_parts)
  show ?thesis
    using refused_unpairing_blocks [OF srt _ up _ w(3,1,2) del, unfolded RBETransactionMonitorEntry.simps, OF p new] unfolding Let_def s_def [symmetric] by simp
qed

lemma sign_eoa_works:
  assumes "\<forall>x k. env_sign (mf_env M) x k \<noteq> None" "hash_of (env_digest (mf_env M) s) tx = (Returns h :: ('e, _) outcome)"
  obtains tx1 where "sign_eoa M now a s tx = (Returns tx1 :: ('e, _) outcome)" "hash_of (env_digest (mf_env M) s) tx1 = (Returns h :: ('e, _) outcome)"
proof -
  obtain d where d: "env_sign (mf_env M) h (leftPadded (sv_privateKey (mf_services M) a) 32) = Some d" using assms(1) by blast
  let ?tx1 = "add_signature \<lparr>sig_address = a, sig_data = d\<rparr> now tx"
  have "hash_of (env_digest (mf_env M) s) ?tx1 = (hash_of (env_digest (mf_env M) s) tx :: ('e, _) outcome)"
    by (rule hash_of_env_cong) (simp_all add: add_signature_def timestamp_defs)
  then show thesis using that d assms(2) by (simp add: sign_eoa_def sign_with_def sign_transaction_def rawSignature_def)
qed

lemma sign_modification_works:
  assumes "\<forall>x k. env_sign (mf_env M) x k \<noteq> None" "find_tx i s = Some tx" "status tx = TS_draft" "sender tx \<noteq> None" "recipient tx \<noteq> None" "amount tx \<noteq> None" "fee tx \<noteq> None"
    and "hash_of (env_digest (mf_env M) s) tx = (Returns h :: (ModificationError, _) outcome)"
    and "rc_deriveAccount (mf_recoverer M) phrase = Some p" "isContractOwners M B (p, rc_deriveChild (mf_recoverer M) p) s = Returns True"
  shows "\<exists>s1. sign_modification M B now i phrase s = Returns s1"
proof -
  have id: "tx_id tx = i" using assms(2) find_row_SomeD by (fastforce simp: find_tx_def)
  let ?tx = "change_hash (Some h) now tx" and ?D = "env_digest (mf_env M) s"
  let ?s = "save_tx ?tx s" and ?tx1 = "timestampUpdated now (change_status TS_signing ?tx)"
  have "hash_of ?D ?tx1 = (hash_of ?D tx :: (ModificationError, _) outcome)" by (rule hash_of_env_cong) (simp_all add: edit_defs timestamp_defs change_status_def)
  then have h: "hash_of (env_digest (mf_env M) ?s) ?tx1 = (Returns h :: (ModificationError, _) outcome)" using assms(8) by simp
  obtain tx2 where tx2: "sign_eoa M now p ?s ?tx1 = (Returns tx2 :: (ModificationError, _) outcome)" "hash_of (env_digest (mf_env M) ?s) tx2 = (Returns h :: (ModificationError, _) outcome)"
    using sign_eoa_works [OF assms(1) h] .
  obtain tx3 where tx3: "sign_eoa M now (rc_deriveChild (mf_recoverer M) p) ?s tx2 = (Returns tx3 :: (ModificationError, _) outcome)"
    using sign_eoa_works [OF assms(1) tx2(2)] by metis
  have "find_tx i ?s = Some ?tx" using id by (simp add: find_tx_save edit_defs timestamp_defs)
  moreover have "tx_proceed now now ?tx = (Returns ?tx1 :: (ModificationError, _) outcome)"
    using assms(3-7) by (auto simp: tx_proceed_def Draft_proceed_def edit_defs timestamp_defs assertNotNil_forced)
  moreover have "updateHash M now i s = (Returns ?s :: (ModificationError, _) outcome)" using assms(2,8) by (simp add: updateHash_def transaction_def)
  ultimately show ?thesis using assms(9,10) tx2(1) tx3 by (simp add: sign_modification_def signingEOA_def transaction_def)
qed

lemma safe_isContractOwners:
  assumes "selected_wallet s = Some (safeWallet f)"
  shows "isContractOwners sampleModifier safeContract (deploy_address 22, deploy_address 23) s = Returns True"
proof -
  have "deploy_address 22 \<in> set (map deploy_address safeOwners)" "deploy_address 23 \<in> set (map deploy_address safeOwners)" by (simp_all add: safeOwners_def)
  then show ?thesis
    using safeContract_owners assms by (auto simp: isContractOwners_def contractProxy_def safeWallet_parts list_ex_iff)
qed

lemma sample_signing:
  assumes s: "find_tx ''t'' s = Some tx" "selected_wallet s = Some (safeWallet f)" "x = None \<or> x = Some [1]" and tx: "tx = (modification_tx ty TS_draft x)\<lparr>updatedDate := u\<rparr>"
  shows "\<exists>s1. ReplaceTwoFA_sign sampleModifier safeContract 9 ''t'' phrase s = Returns s1"
proof -
  let ?M = sampleModifier
  define r where "r = \<lparr>es_safeTxGas = 1, es_baseGas = 2, es_gasPrice = 3, es_operationalGas = 4, es_lastUsedNonce = Some 6, es_gasToken = token_id Token_Ether\<rparr>"
  have relay: "sv_estimateTransaction (rc_services sampleRecoverer) q = Returns r" for q by (simp add: sampleRecoverer_def sampleServices_def r_def)
  define e where "e = \<lparr>gas = 1, dataGas = 2, operationalGas = 4, gasPrice = \<lparr>ta_amount = 3, ta_token = Token_Ether\<rparr>\<rparr>"
  define tx1 where "tx1 = change_nonce (Some (show_int 7)) 9 (change_feeEstimate (Some e) 9 (change_fee (Some (totalSubmittedToBlockchain e)) 9 tx))"
  have fees: "calculateFees 9 r s tx = (Returns tx1 :: (ModificationError, _) outcome)"
    by (simp add: Let_def calculateFees_def r_def e_def tx1_def find_item_def TokenListItem_init_def nextNonce_def toInt_def Int_min_def Int_max_def)
  have "ethData samplePackages tx = [] \<or> ethHex samplePackages (ethData samplePackages tx) \<noteq> []" "sender tx \<noteq> None" "operation tx \<noteq> None"
    using s(3) ethHex_toHexString [OF samplePackages_ok, of "[1]"]
    by (auto simp: ethData_def tx modification_tx_parts) (simp_all add: modification_tx_def submit_tx_def digest_tx_defs)
  then have "\<exists>q. estimationRequest (mf_services ?M) tx s = (Returns q :: (ModificationError, _) outcome)"
    using s(2) read_int_show_int by (auto simp: estimationRequest_def EstimateTransactionRequest_init_def sampleBigint_def)
  then have est: "estimateNetworkFee ?M 9 ''t'' s = Returns (totalDisplayedToUser e, save_tx tx1 s)"
    using s(1) fees by (auto simp: estimateNetworkFee_def transaction_def relay tx1_def edit_defs timestamp_defs)
  have "account_ok ''e:w''" by (simp add: account_ok_def components_def components_loop.simps)
  then have ok: "digest_ok (env_digest (mf_env ?M) s') tx1" "digest_parts (env_digest (mf_env ?M) s') tx1" for s'
    using hex_row_address hex_zero_address hex_deploy_address read_int_show_int
    by (simp_all add: tx1_def tx modification_tx_def submit_tx_def e_def digest_ok_def digest_parts_def digest_tx_defs u256_def ether_def Token_Ether_def ethTo_def ethValue_def
      isERC20Transfer_def row_token_def token_id_def row_address_def Address_zero_def numeral_eq_Suc env_digest_def sampleBigint_def)
  obtain t where "safe_tx (env_digest (mf_env ?M) (save_tx tx1 s)) tx1 = Some t" using safe_tx_defined [OF ok(1)] ok(2) by blast
  moreover have "digest_env_ok (env_digest (mf_env ?M) (save_tx tx1 s))" using sampleRecoverer_ok(1) by (simp add: services_ok_def)
  ultimately obtain h where h: "hash_of (env_digest (mf_env ?M) (save_tx tx1 s)) tx1 = (Returns h :: (ModificationError, _) outcome)"
    using hash_of_eip712 [OF _ ok(1), where ?'a = ModificationError] by fastforce
  have parts: "tx_id tx1 = ''t''" "status tx1 = TS_draft" "sender tx1 \<noteq> None" "recipient tx1 \<noteq> None" "amount tx1 \<noteq> None" "fee tx1 \<noteq> None" "status tx = TS_draft"
    by (simp_all add: tx1_def tx modification_tx_def submit_tx_def digest_tx_defs)
  have f: "find_tx ''t'' (save_tx tx1 s) = Some tx1" using parts(1) by (simp add: find_tx_save)
  have own: "isContractOwners ?M safeContract (deploy_address 22, rc_deriveChild (mf_recoverer ?M) (deploy_address 22)) (save_tx tx1 s) = Returns True"
    using safe_isContractOwners [of "save_tx tx1 s" f] s(2) by simp
  have "\<exists>s1. sign_modification ?M safeContract 9 ''t'' phrase (save_tx tx1 s) = Returns s1"
    by (rule sign_modification_works [OF _ f parts(2-6) h sampleModifier_parts(3) own]) (simp add: recoveryEnv_def sampleEnv_def)
  then show ?thesis using s(1) est parts(7) by (auto simp: ReplaceTwoFA_sign_def stepBackToDraft_def)
qed

lemma modification_tx_date: "modification_tx ty st x = (modification_tx ty st x)\<lparr>updatedDate := updatedDate (modification_tx ty st x)\<rparr>"
  by simp

theorem phrase_signing_witness:
  "\<exists>s1 tx1. ReplaceTwoFA_sign sampleModifier safeContract 9 ''t'' ''a'' (dep_app (lostApp (safeWallet [extensionOwner]) [modification_tx replaceTwoFAWithAuthenticator TS_draft (Some [1])])) = Returns s1 \<and>
     find_tx ''t'' s1 = Some tx1 \<and>
     phrase_signed sampleModifier (dep_app (lostApp (safeWallet [extensionOwner]) [modification_tx replaceTwoFAWithAuthenticator TS_draft (Some [1])])) (deploy_address 22)
       (modification_tx replaceTwoFAWithAuthenticator TS_draft (Some [1])) tx1"
proof -
  let ?tx = "modification_tx replaceTwoFAWithAuthenticator TS_draft (Some [1])"
  let ?s = "dep_app (lostApp (safeWallet [extensionOwner]) [?tx])"
  obtain s1 where s1: "ReplaceTwoFA_sign sampleModifier safeContract 9 ''t'' ''a'' ?s = Returns s1"
    using sample_signing [OF safe_find_tx lostApp_wallet(2) [OF safeWallet_parts(1)] _ modification_tx_date] by blast
  with phrase_signing [OF s1 safe_find_tx] show ?thesis by (auto simp: modification_tx_parts)
qed

theorem unanswered_payload_is_signed_witness:
  "let s = dep_app (lostApp (safeWallet [extensionOwner]) [modification_tx disconnectAuthenticator TS_draft (Some [1])])
   in (\<exists>s1. update sampleModifier ReplaceTwoFAService noContract 9 ''t'' (address_value (deploy_address 44)) s = (Returns s1 :: (unit, _) outcome) \<and> map_option tx_data (find_tx ''t'' s1) = Some None) \<and>
      (\<exists>s1 p tx0 tx1. DisconnectTwoFA_sign sampleModifier noContract safeContract 9 ''t'' ''a'' s = Returns s1 \<and>
         tx_data tx0 = None \<and> find_tx ''t'' s1 = Some tx1 \<and> phrase_signed sampleModifier s p tx0 tx1)"
proof -
  let ?tx = "modification_tx disconnectAuthenticator TS_draft (Some [1])" and ?w = "safeWallet [extensionOwner]"
  let ?blank = "change_data None 9 ?tx"
  define s where "s = dep_app (lostApp ?w [?tx])"
  have sel: "selected_wallet s = Some ?w" "find_tx ''t'' s = Some ?tx" using lostApp_wallet(2) [OF safeWallet_parts(1)] safe_find_tx by (simp_all add: s_def)
  have no: "getOwners (mf_packages sampleModifier) (ca_eth_call noContract) (deploy_address 30) = Throws NSURLError" by (simp add: getOwners_def noContract_def invoke_def)
  have two: "twoFAOwner ?w \<noteq> None" "status ?tx = TS_draft \<or> status ?tx = TS_signing" by (simp_all add: safeWallet_parts modification_tx_parts)
  note t = unanswered_payload_is_signed [OF sel(1) safeWallet_parts(2) no two(1) sel(2) two(2)]
  have "?blank = (modification_tx disconnectAuthenticator TS_draft None)\<lparr>updatedDate := Some 9\<rparr>" by (simp add: modification_tx_def edit_defs timestamp_defs)
  moreover have "find_tx ''t'' (save_tx ?blank s) = Some ?blank" "selected_wallet (save_tx ?blank s) = Some ?w" using sel by (simp_all add: find_tx_save edit_defs timestamp_defs modification_tx_parts)
  ultimately obtain s1 where "ReplaceTwoFA_sign sampleModifier safeContract 9 ''t'' ''a'' (save_tx ?blank s) = Returns s1" using sample_signing by blast
  moreover have "DisconnectTwoFA_update sampleModifier noContract 9 ''t'' s = (Returns (save_tx ?blank s) :: (ModificationError \<times> app, _) outcome)"
    using sel remoteOwnersList_unanswered [OF sel(1) safeWallet_parts(2) no, where ?'a = "ModificationError \<times> app"]
    by (simp add: DisconnectTwoFA_update_def stepBackToDraft_def transaction_def Disconnect_realTransactionData_def modification_tx_parts safeWallet_parts)
  ultimately have "DisconnectTwoFA_sign sampleModifier noContract safeContract 9 ''t'' ''a'' s = Returns s1" by (simp add: DisconnectTwoFA_sign_def)
  then show ?thesis using t [of ReplaceTwoFAService 9 "address_value (deploy_address 44)" safeContract "''a''" s1] unfolding Let_def s_def [symmetric] by blast
qed

end
