(* ===== verification/Spec2Isabelle.thy ===== *)
theory Spec2Isabelle
  imports Identity ObjMac ProtobufRuntime BackSwizzling FrameworkHeaders SafeCreation Messages History OwnerModification
begin

text \<open>
  A verification development for the iOS app in \<^verbatim>\<open>src/\<close>, a client for multi-signature wallet contracts
  ("Safes") on Ethereum. The app creates and recovers Safes through a relay service, collects
  signatures for transactions, and guards the device key with a password and the biometric sensor.

  \<^bold>\<open>How the program is put together.\<close> Two bounded contexts, each with a domain model, implementations
  and an application layer: \<^verbatim>\<open>src/IdentityAccess\<close> (who may use the app) and \<^verbatim>\<open>src/MultisigWallet\<close> (wallets,
  transactions, contracts). \<^verbatim>\<open>src/Common\<close> has shared helpers and the database, \<^verbatim>\<open>src/SafeUIKit\<close> and \<^verbatim>\<open>src/safe\<close> the
  user interface, \<^verbatim>\<open>src/Library\<close> the C and Objective-C headers of linked libraries. The user interface calls
  application services, these call domain services and aggregates, which are saved through repositories. The
  domain model does all encoding of contract calls itself and checks what the relay service answers.

  \<^bold>\<open>Conventions.\<close> A Swift method is one definition over records. A call ends in an \<open>outcome\<close>: \<open>Returns\<close>
  a value, \<open>Throws\<close> an error, or \<open>Traps\<close> (a failed precondition, a forced unwrap, an overflow, a range error).
  State is passed explicitly: an object, the pair of identity repositories, or the \<open>world\<close> of the wallet
  tables and events. Clocks, generated identifiers, the hash and the packages that are not under \<^verbatim>\<open>src/\<close> are arguments; what
  their documentation promises is \<open>packages_ok\<close>, which \<open>samplePackages\<close> satisfies. \<^verbatim>\<open>Int\<close> is \<open>int\<close> with the
  overflow traps written out, BigInt is \<open>nat\<close> or \<open>int\<close>, C integers are words, times are real numbers.

  \<^bold>\<open>The theories.\<close>

  \<^item> \<open>Prelude\<close>: outcomes, the assertion helpers of \<^verbatim>\<open>Common/Assertable.swift\<close>, the locales \<open>codec\<close> and
    \<open>total_codec\<close> for encoders with decoders, lemmas on words.

  \<^item> \<open>Gatekeeper\<close> (\<^verbatim>\<open>IdentityAccessDomainModel/Gatekeeper\<close>): policy, session, gatekeeper. Invariant of every reachable
    gatekeeper; the exact lifetime of granted access; the session restart that stops the process.

  \<^item> \<open>Identity\<close> (\<^verbatim>\<open>IdentityService.swift\<close>, \<^verbatim>\<open>AuthenticationApplicationService.swift\<close>, \<^verbatim>\<open>User.swift\<close> and the in-memory
    repositories): registration, login by password and biometry, configuration. The repositories are two
    interpretations of the locale \<open>single_repository\<close>. Shown: the limit on password guesses, what a login
    grants, when registration succeeds, safety of every reachable state.

  \<^item> \<open>Bytes\<close>, \<open>Abi\<close> (\<^verbatim>\<open>EthereumContractProxy.swift\<close>, the ERC20, ENS and owner manager proxies): hexadecimal and
    big-endian conversion, the contract call encoding and its round trips, the decoding of token transfers.

  \<^item> \<open>ContractMetadata\<close> (\<^verbatim>\<open>SafeContractMetadata.swift\<close> and its repository): known contract addresses, and that the
    queries agree.

  \<^item> \<open>MultiSend\<close> (\<^verbatim>\<open>MultiSend/\<close>): batched transactions in two formats, both interpretations of the locale
    \<open>batch_format\<close>; the round trip for the version that the metadata selects, in which a negative value loses its sign.

  \<^item> \<open>SafeCreation\<close> (\<^verbatim>\<open>GnosisSafeContractProxy.swift\<close>, \<^verbatim>\<open>SafeCreationRequest.swift\<close>,
    \<^verbatim>\<open>SafeCreationResponseValidator.swift\<close>): the check of the relay service's proposal; an accepted one installs the
    requested owners and threshold at the address that is shown.

  \<^item> \<open>Portfolio\<close>, \<open>Wallet\<close> (\<^verbatim>\<open>Portfolio.swift\<close>, \<^verbatim>\<open>Wallet.swift\<close>, \<^verbatim>\<open>Owner.swift\<close>, \<^verbatim>\<open>WalletStates.swift\<close>): the wallet list and its
    selection; owners by role; the deployment and recovery state machine as the relation \<open>wallet_step\<close>;
    write permission as reachability over owning wallets.

  \<^item> \<open>Transaction\<close> (\<^verbatim>\<open>Transaction.swift\<close>, \<^verbatim>\<open>TransactionStatus.swift\<close>, \<^verbatim>\<open>Token.swift\<close>): editing, the status operations,
    the invariant of reachable transactions, and how status and dates follow from the history of a transaction.

  \<^item> \<open>Tables\<close>, \<open>TokenList\<close> (\<^verbatim>\<open>TableSchema.swift\<close>, \<^verbatim>\<open>TokenList.swift\<close>, \<^verbatim>\<open>TokenListMerger.swift\<close> and the repository): rows with
    a primary key; the tokens the user sees as a list, which the user's choices and the merge of the server's list act on.

  \<^item> \<open>RowFormats\<close> (the \<^verbatim>\<open>DBSerializable\<close> extensions and the repositories of wallets, the portfolio and transactions): what is
    written to a row and how it is read; round trips, and the unescaped separator.

  \<^item> \<open>TxHash\<close> (\<^verbatim>\<open>EncryptionService.swift\<close>): the digest that is signed; it implements the abstract \<open>safeTx_digest\<close> of
    a structure with the fields of the standard, and determines the transaction up to hash collisions.

  \<^item> \<open>Accounts\<close>, \<open>TransactionService\<close> (\<^verbatim>\<open>AccountUpdateDomainService.swift\<close>, \<^verbatim>\<open>TransactionDomainService.swift\<close>, \<^verbatim>\<open>DBTransactionRepository.swift\<close>):
    the state \<open>app\<close> of all tables, balance updates, drafts, batches, the danger check. \<open>Messages\<close> (\<^verbatim>\<open>NotificationService/Messaging\<close>,
    \<^verbatim>\<open>WalletApplicationService.swift\<close>): what the second device can do with confirmations, rejections and proposals.
    \<open>History\<close> (\<^verbatim>\<open>TransactionDomainService.swift\<close>, \<^verbatim>\<open>TransactionSyncDomainService.swift\<close>): the list that is shown, the run over pending
    transactions, synchronisation.

  \<^item> \<open>Repetition\<close> (\<^verbatim>\<open>RetryWithIncreasingDelay.swift\<close>, \<^verbatim>\<open>Repeater.swift\<close>, \<^verbatim>\<open>Worker.swift\<close>, \<^verbatim>\<open>Timer.swift\<close>): retries with their
    waits, which stop the process when they grow too long, the repeater as a machine whose steps interleave with \<^verbatim>\<open>stop()\<close>, the worker loop and what its sleeps are worth.

  \<^item> \<open>Submission\<close> (\<^verbatim>\<open>WalletApplicationService.swift\<close>, the relay requests, \<^verbatim>\<open>HTTPNotificatonService.swift\<close>): estimation, confirmation
    requests, signing and submission of a transaction. What is submitted describes the structure behind the digest that
    the device signs, with the signatures in the order the contract wants; a transaction that is being signed and shown as ready can be submitted; an estimate fixes the
    digest. The hypothesis \<open>signing_works\<close> says that the curve library signs with the keys that are stored for accounts.

  \<^item> \<open>Deployment\<close> (\<^verbatim>\<open>DeploymentDomainService.swift\<close>, \<^verbatim>\<open>CommunicationDomainService.swift\<close>): the event handlers of a deployment with
    their polling loops, four interpretations of the locale \<open>polled\<close>. Shown: when a wallet becomes ready, which errors end a
    deployment, when keys leave the device, and that a deployment whose services answer is completed, whatever the parts of the deposit and with or without
    a browser extension.

  \<^item> \<open>AddressBook\<close> (\<^verbatim>\<open>DBAddressBookRepository.swift\<close>, \<^verbatim>\<open>WalletApplicationService.swift\<close>): names of addresses; the name of a wallet is
    unambiguous in every reachable book.

  \<^item> \<open>WalletService\<close> (\<^verbatim>\<open>WalletDomainService.swift\<close>, \<^verbatim>\<open>WalletApplicationService.swift\<close>): adding, removing and renaming wallets, the update from
    the contract, and the clean-up and repair at launch. Shown: what a removal takes and leaves, that a launch makes the tables agree, what a launch deletes
    after an aborted deployment, and when an added wallet agrees with its contract.

  \<^item> \<open>OwnerChange\<close>, \<open>Recovery\<close> (\<^verbatim>\<open>RecoveryDomainService.swift\<close>): the linked list of owners, which implements a list, and the
    calls of a recovery transaction; executed by a contract that keeps its owners as documented they install the owners of the recovered wallet. The
    builder reaches its end and stores a transaction that carries these calls and has the signatures the contract asks for; its submission, and how
    a recovery ends.

  \<^item> \<open>OwnerModification\<close> (\<^verbatim>\<open>Wallet/ContractModification\<close>, \<^verbatim>\<open>MultisigWalletApplication/ContractModification\<close>, the post-processing of
    \<^verbatim>\<open>SynchronisationService.swift\<close>): replacing, connecting and disconnecting the second factor, replacing the recovery phrase, upgrading the contract. The five
    services are one set of definitions over \<open>service_class\<close>, which stands for the class of the object. Shown: executed by a contract that behaves as documented, the
    stored payload and the later processing leave wallet and contract with the same owners and threshold; who can sign with the phrase; what happens when the node, the notification
    service or the selected wallet gets in the way.

  \<^item> \<open>BackSwizzling\<close> (\<^verbatim>\<open>UINavigationController+BackSwizzling.m\<close>): the method exchange over a model of Objective-C
    method tables. \<open>FrameworkHeaders\<close>: the symbols of the umbrella headers.

  \<^item> \<open>ObjMacTable\<close>, \<open>ObjMacEval\<close>, \<open>ObjMac\<close> (\<^verbatim>\<open>openssl/obj_mac.h\<close>): the object identifiers with unique ids.
    \<open>CLayout\<close>, \<open>ProtobufRuntime\<close> (\<^verbatim>\<open>Protobuf.framework/Headers\<close>): struct sizes, field flags, the ZigZag codec.

  \<^bold>\<open>Termination and fuel.\<close> All loops are total functions: the decoders recurse on the bytes that are
  left, the owner search on the wallets not visited yet,
  the services on the rows they have read, a polling loop on the rounds that its input describes. The loop of a worker may
  run forever and is a partial function into \<open>option\<close>; the property there shows when it returns. Only message sending in \<open>BackSwizzling\<close> has fuel, since a
  method may send to itself; the property there shows that two nested sends are enough.

  \<^bold>\<open>Not modelled.\<close> Views, network clients, the SQLite layer, key generation and the keychain, WalletConnect and
  the key card are input and output or call libraries that are not part of the sources. The remaining facades of the application
  services, which convert values for the views, have no state of their own.
\<close>

end
